(* ===== verification/Prelude.thy ===== *)
theory Prelude
  imports Main "HOL-Library.Word" "HOL-Library.Monad_Syntax"
begin

text \<open>
  Shared vocabulary of the development: Go errors and panics, string dictionaries,
  the metadata every Kubernetes object of the operator carries, the heap of operation
  contexts that a resource manager and the coordinator share, and the small generic
  helpers of \<^verbatim>\<open>internal/resource/utils/generics.go\<close> and
  \<^verbatim>\<open>pkg/coordinator/utils.go\<close>.

  Conventions. A Go \<^verbatim>\<open>error\<close> is \<open>Some\<close> of an error value and a nil error is
  \<open>None\<close>; a function that returns a value or an error returns a sum, \<open>Inl\<close> the
  error. A Go panic (nil dereference, negative shift count) is the value \<open>None\<close> of
  an option type around the whole result, sequenced with the option monad.
\<close>

section \<open>Errors, dictionaries, collections of facts\<close>

named_theorems flow_simps \<open>equations of task flows and operation contexts\<close>
named_theorems manager_simps \<open>equations of the resource managers' methods\<close>

text \<open>
  API server errors are told apart by \<^verbatim>\<open>kubeerrors.IsNotFound\<close>; every other error
  is opaque to the operator.
\<close>

datatype error = NotFound | OtherError string

type_synonym 'a result = "error + 'a"

fun is_not_found :: "error \<Rightarrow> bool" where
  "is_not_found NotFound = True"
| "is_not_found (OtherError _) = False"

text \<open>
  \<^verbatim>\<open>errors.Wrap\<close> prefixes a message and keeps what kind of API error is underneath, which
  \<^verbatim>\<open>kubeerrors.IsNotFound\<close> still sees.
\<close>

fun wrap :: "string \<Rightarrow> error \<Rightarrow> error" where
  "wrap msg NotFound = NotFound"
| "wrap msg (OtherError s) = OtherError (msg @ '': '' @ s)"

lemma is_not_found_wrap [simp]: "is_not_found (wrap msg e) = is_not_found e"
  by (cases e) simp_all

definition wrap_result :: "string \<Rightarrow> 'a result \<Rightarrow> 'a result" where
  "wrap_result msg r = (case r of Inl e \<Rightarrow> Inl (wrap msg e) | Inr x \<Rightarrow> Inr x)"

lemma wrap_result_simps [simp]:
  "wrap_result msg (Inl e) = Inl (wrap msg e)" "wrap_result msg (Inr x) = Inr x"
  by (simp_all add: wrap_result_def)

lemma wrap_result_eq_Inr [simp]: "wrap_result msg r = Inr x \<longleftrightarrow> r = Inr x"
  by (cases r) simp_all

text \<open>\<^verbatim>\<open>client.IgnoreNotFound\<close>.\<close>

definition IgnoreNotFound :: "error \<Rightarrow> error option" where
  "IgnoreNotFound e = (if is_not_found e then None else Some e)"

type_synonym dict = "string \<rightharpoonup> string"

text \<open>Reading a Go map at a missing key gives the zero value, the empty string.\<close>

definition dict_get :: "dict \<Rightarrow> string \<Rightarrow> string" where
  "dict_get m k = (case m k of None \<Rightarrow> [] | Some v \<Rightarrow> v)"

lemma dict_get_Some [simp]: "m k = Some v \<Longrightarrow> dict_get m k = v"
  by (simp add: dict_get_def)

lemma dict_get_None [simp]: "m k = None \<Longrightarrow> dict_get m k = []"
  by (simp add: dict_get_def)

section \<open>Generic helpers\<close>

definition IsZero :: "'a \<Rightarrow> 'a \<Rightarrow> bool" where
  "IsZero zero val = (val = zero)"

definition Or :: "'a \<Rightarrow> 'a \<Rightarrow> 'a \<Rightarrow> 'a" where
  "Or zero a b = (if IsZero zero a then b else a)"

definition Min_go :: "int \<Rightarrow> int \<Rightarrow> int" where
  "Min_go a b = (if a < b then a else b)"

lemma Min_go_min [simp]: "Min_go a b = min a b"
  by (simp add: Min_go_def min_def)

section \<open>Object metadata and annotations\<close>

text \<open>
  The part of \<^verbatim>\<open>metav1.ObjectMeta\<close> the operator reads or writes. The deletion
  timestamp is only ever compared with nil (or zero).
\<close>

record ObjectMeta =
  Name :: string
  Namespace :: string
  Annotations :: dict
  Labels :: dict
  Finalizers :: "string list"
  DeletionTimestamp :: "nat option"

definition GetAnnotationField :: "'a ObjectMeta_scheme \<Rightarrow> string \<Rightarrow> string \<times> bool" where
  "GetAnnotationField obj key =
     (case Annotations obj key of Some v \<Rightarrow> (v, True) | None \<Rightarrow> ([], False))"

lemma GetAnnotationField_exists [simp]:
  "snd (GetAnnotationField obj key) \<longleftrightarrow> key \<in> dom (Annotations obj)"
  by (auto simp: GetAnnotationField_def split: option.splits)

lemma GetAnnotationField_value [simp]:
  "fst (GetAnnotationField obj key) = dict_get (Annotations obj) key"
  by (simp add: GetAnnotationField_def dict_get_def split: option.splits)

definition AnnotationsIgnoreDeletion :: string where
  "AnnotationsIgnoreDeletion = ''oceanbase.oceanbase.com/ignore-deletion''"

definition AnnotationsPauseReconciling :: string where
  "AnnotationsPauseReconciling = ''oceanbase.oceanbase.com/pause-reconciling''"

definition AnnotationsSourceClusterAddress :: string where
  "AnnotationsSourceClusterAddress = ''oceanbase.oceanbase.com/source-cluster-address''"

definition AnnotationsSupportStaticIP :: string where
  "AnnotationsSupportStaticIP = ''oceanbase.oceanbase.com/support-static-ip''"

definition AnnotationsMode :: string where
  "AnnotationsMode = ''oceanbase.oceanbase.com/mode''"

section \<open>A heap of shared objects\<close>

text \<open>
  An object reached through a Go pointer lives in a heap cell; a pointer is an address
  or nil (\<open>None\<close>). Cells are allocated at the end and never freed, as the garbage
  collector guarantees for every pointer still in use.
\<close>

type_synonym addr = nat
type_synonym 'a heap = "'a list"

definition alloc :: "'a heap \<Rightarrow> 'a \<Rightarrow> 'a heap \<times> addr" where
  "alloc h x = (h @ [x], length h)"

text \<open>Dereferencing nil, or an address nothing was allocated at, panics.\<close>

definition deref :: "'a heap \<Rightarrow> addr option \<Rightarrow> 'a option" where
  "deref h p = (case p of None \<Rightarrow> None | Some a \<Rightarrow> if a < length h then Some (h ! a) else None)"

lemma deref_nil [simp]: "deref h None = None"
  by (simp add: deref_def)

lemma deref_Some [simp]: "deref h (Some a) = (if a < length h then Some (h ! a) else None)"
  by (simp add: deref_def)

lemma deref_eq_Some_iff:
  "deref h p = Some x \<longleftrightarrow> (\<exists>a. p = Some a \<and> a < length h \<and> x = h ! a)"
  by (auto simp: deref_def split: option.splits if_splits)

lemma deref_alloc [simp]: "deref (fst (alloc h x)) (Some (snd (alloc h x))) = Some x"
  by (simp add: alloc_def)

lemma alloc_keeps [simp]: "a < length h \<Longrightarrow> fst (alloc h x) ! a = h ! a"
  by (simp add: alloc_def nth_append)

lemma length_alloc [simp]: "length (fst (alloc h x)) = Suc (length h)"
  by (simp add: alloc_def)

section \<open>Lists\<close>

lemma length_filter_update:
  assumes "i < length xs"
  shows "length (filter P (xs[i := x])) + (if P (xs ! i) then 1 else 0) =
         length (filter P xs) + (if P x then 1 else 0)"
proof -
  define ys zs where "ys = take i xs" and "zs = drop (Suc i) xs"
  have "filter P (xs[i := x]) = filter P ys @ filter P (x # zs)"
    using assms by (simp add: upd_conv_take_nth_drop ys_def zs_def)
  moreover have "filter P xs = filter P ys @ filter P (xs ! i # zs)"
    using arg_cong [OF id_take_nth_drop [OF assms], of "filter P"]
    by (simp add: ys_def zs_def)
  ultimately show ?thesis by simp
qed

lemma length_filter_all_iff: "length (filter P xs) = length xs \<longleftrightarrow> (\<forall>x \<in> set xs. P x)"
proof
  assume len: "length (filter P xs) = length xs"
  show "\<forall>x \<in> set xs. P x"
  proof (rule ballI, rule ccontr)
    fix x assume "x \<in> set xs" "\<not> P x"
    then have "length (filter P xs) < length xs" by (rule length_filter_less)
    with len show False by simp
  qed
qed simp

lemma filter_update_same:
  "i < length xs \<Longrightarrow> P x = P (xs ! i) \<Longrightarrow>
     length (filter P (xs[i := x])) = length (filter P xs)"
  using length_filter_update [of i xs P x] by (simp split: if_splits)

lemma map_update_same:
  "i < length xs \<Longrightarrow> f x = f (xs ! i) \<Longrightarrow> map f (xs[i := x]) = map f xs"
  by (metis list_update_id map_update)

end
