(* ===== verification/Task_Flow.thy ===== *)
theory Task_Flow
  imports Prelude
begin

text \<open>
  Task flows: the data of \<^verbatim>\<open>pkg/task/types\<close>, the status and strategy constants of
  \<^verbatim>\<open>pkg/task/const\<close>, and how a flow's tasks are walked through.
\<close>

section \<open>Data\<close>

text \<open>
  The Go types are strings with a group of constants. The last constructor of each
  stands for every other string, which the \<^verbatim>\<open>switch\<close> statements of the code fall
  through on.
\<close>

datatype TaskStatus = Empty | Pending | Running | Successful | Failed | OtherStatus string

datatype TaskFailureStrategy =
  NoStrategy | StartOver | RetryFromCurrent | Pause | OtherStrategy string

type_synonym TaskName = string
type_synonym TaskID = string
type_synonym FlowName = string

record FailureRule =
  Strategy :: TaskFailureStrategy
  NextTryStatus :: string
  RetryCount :: int
  MaxRetry :: int

record OperationContext =
  FlowName :: FlowName
  Tasks :: "TaskName list"
  Task :: TaskName
  Idx :: nat
  TaskStatus :: TaskStatus
  TaskId :: TaskID
  TargetStatus :: string
  OnFailure :: FailureRule

type_synonym ctx_heap = "OperationContext heap"

definition zero_rule :: FailureRule where
  "zero_rule = \<lparr>Strategy = NoStrategy, NextTryStatus = [], RetryCount = 0, MaxRetry = 0\<rparr>"

text \<open>A struct literal that leaves fields out gets their zero values.\<close>

definition new_context ::
  "FlowName \<Rightarrow> TaskName list \<Rightarrow> string \<Rightarrow> FailureRule \<Rightarrow> OperationContext" where
  "new_context name tasks target rule =
     \<lparr>FlowName = name, Tasks = tasks, Task = [], Idx = 0, TaskStatus = Empty, TaskId = [],
      TargetStatus = target, OnFailure = rule\<rparr>"

lemma new_context_simps [simp]:
  "FlowName (new_context n ts t r) = n" "Tasks (new_context n ts t r) = ts"
  "Task (new_context n ts t r) = []" "Idx (new_context n ts t r) = 0"
  "TaskStatus (new_context n ts t r) = Empty" "TaskId (new_context n ts t r) = []"
  "TargetStatus (new_context n ts t r) = t" "OnFailure (new_context n ts t r) = r"
  by (simp_all add: new_context_def)

lemma zero_rule_simps [simp]:
  "Strategy zero_rule = NoStrategy" "NextTryStatus zero_rule = []"
  "RetryCount zero_rule = 0" "MaxRetry zero_rule = 0"
  by (simp_all add: zero_rule_def)

section \<open>Walking a flow\<close>

text \<open>
  \<^verbatim>\<open>TaskFlow.NextTask\<close> and \<^verbatim>\<open>TaskFlow.HasNext\<close> read and write the operation
  context the flow points to; they are given here on the context itself.
\<close>

definition NextTask :: "OperationContext \<Rightarrow> OperationContext" where
  "NextTask c =
     (if length (Tasks c) \<le> Idx c then c\<lparr>Task := []\<rparr>
      else c\<lparr>TaskStatus := Pending, Task := Tasks c ! Idx c, Idx := Idx c + 1, TaskId := []\<rparr>)"

definition HasNext :: "OperationContext \<Rightarrow> bool" where
  "HasNext c \<longleftrightarrow> Idx c < length (Tasks c)"

text \<open>
  The context of a flow in progress: the index never runs past the task list, and
  unless the flow has not been started (or was reset to start over) the current task
  is the one just before the index.
\<close>

definition wf_context :: "OperationContext \<Rightarrow> bool" where
  "wf_context c \<longleftrightarrow>
     Idx c \<le> length (Tasks c) \<and>
     (if TaskStatus c = Empty then Idx c = 0
      else 0 < Idx c \<and> Task c = Tasks c ! (Idx c - 1))"

lemma wf_new_context [simp, intro]: "wf_context (new_context n ts t r)"
  by (simp add: wf_context_def)

lemma wf_NextTask: "HasNext c \<Longrightarrow> wf_context (NextTask c)"
  by (simp add: wf_context_def NextTask_def HasNext_def)

lemma NextTask_frame [simp]:
  "Tasks (NextTask c) = Tasks c" "TargetStatus (NextTask c) = TargetStatus c"
  "OnFailure (NextTask c) = OnFailure c" "FlowName (NextTask c) = FlowName c"
  by (simp_all add: NextTask_def)

lemma NextTask_HasNext:
  assumes "HasNext c"
  shows "TaskStatus (NextTask c) = Pending" "Task (NextTask c) = Tasks c ! Idx c"
    "Idx (NextTask c) = Suc (Idx c)" "TaskId (NextTask c) = []"
  using assms by (simp_all add: NextTask_def HasNext_def)

lemma NextTask_exhausted: "\<not> HasNext c \<Longrightarrow> NextTask c = c\<lparr>Task := []\<rparr>"
  by (simp add: NextTask_def HasNext_def)

text \<open>The tasks \<^verbatim>\<open>NextTask\<close> hands out one after another.\<close>

fun walk :: "nat \<Rightarrow> OperationContext \<Rightarrow> TaskName list" where
  "walk 0 c = []"
| "walk (Suc n) c = (if HasNext c then Task (NextTask c) # walk n (NextTask c) else [])"

lemma walk_drop: "walk n c = take n (drop (Idx c) (Tasks c))"
proof (induction n arbitrary: c)
  case 0
  show ?case by simp
next
  case (Suc n)
  show ?case
  proof (cases "HasNext c")
    case True
    then have "drop (Idx c) (Tasks c) = Tasks c ! Idx c # drop (Suc (Idx c)) (Tasks c)"
      by (simp add: HasNext_def Cons_nth_drop_Suc)
    with True Suc.IH [of "NextTask c"] show ?thesis
      by (simp add: NextTask_HasNext)
  next
    case False
    then show ?thesis by (simp add: HasNext_def)
  qed
qed

end
