(* ===== verification/Task_Manager.thy ===== *)
theory Task_Manager
  imports Task_Flow
begin

text \<open>
  The global task manager of \<^verbatim>\<open>pkg/task/task_manager.go\<close>: \<^verbatim>\<open>Submit\<close>,
  \<^verbatim>\<open>GetTaskResult\<close>, \<^verbatim>\<open>CleanTaskResult\<close> as functions on its state and
  \<^verbatim>\<open>runTask\<close>, which runs in one goroutine per submitted task, as a program counter
  per worker with one function per atomic action. An inductive step relation
  interleaves the callers and the workers in every order.
\<close>

section \<open>State\<close>

record TaskResult =
  ResStatus :: TaskStatus
  ResError :: "error option"

text \<open>
  What one call of a task function does: it returns (a nil or a non-nil error) or it
  panics. A \<^verbatim>\<open>TaskFunc\<close> is the set of outcomes a call of it may have, as a
  predicate; its effects on the cluster are outside this component.
\<close>

datatype task_outcome = Returns "error option" | Panics string

type_synonym TaskFunc = "task_outcome \<Rightarrow> bool"

text \<open>The result channel: capacity one.\<close>

record chan =
  buf :: "TaskResult option"
  closed :: bool

text \<open>
  Where a worker stands in \<^verbatim>\<open>runTask\<close>: before it has put its token into the pool,
  running the task function, after sending the result, after taking its token back,
  after closing the channel. The fields \<open>wid\<close> and \<open>wres\<close> are history only:
  the id the task was submitted under and the result it has sent.
\<close>

datatype worker_pc = Queued | Executing | Sent | Released | Done

record worker =
  wfun :: TaskFunc
  wchan :: addr
  wpc :: worker_pc
  wid :: TaskID
  wres :: "TaskResult option"

record TaskManager =
  ResultMap :: "TaskID \<rightharpoonup> addr"
  TaskResultCache :: "TaskID \<rightharpoonup> TaskResult"
  workerCount :: "32 word"
  tokens :: nat
  poolSize :: nat
  chans :: "chan list"
  workers :: "worker list"

definition taskManagerInit :: "nat \<Rightarrow> TaskManager" where
  "taskManagerInit taskPoolSize =
     \<lparr>ResultMap = Map.empty, TaskResultCache = Map.empty, workerCount = 0, tokens = 0,
      poolSize = taskPoolSize, chans = [], workers = []\<rparr>"

section \<open>Calls\<close>

text \<open>
  \<^verbatim>\<open>Submit\<close>: the id comes from \<^verbatim>\<open>uuid.New()\<close> and is an argument here. The flag is
  the package variable \<^verbatim>\<open>debugTask\<close>.
\<close>

definition Submit :: "bool \<Rightarrow> TaskFunc \<Rightarrow> TaskID \<Rightarrow> TaskManager \<Rightarrow> TaskManager" where
  "Submit debugTask f taskId m =
     (let retCh = length (chans m) in
      m\<lparr>chans := chans m @ [\<lparr>buf = None, closed = False\<rparr>],
        ResultMap := (ResultMap m)(taskId \<mapsto> retCh),
        TaskResultCache := (TaskResultCache m)(taskId := None),
        workers := workers m @
          [\<lparr>wfun = f, wchan = retCh, wpc = Queued, wid = taskId, wres = None\<rparr>],
        workerCount := (if debugTask then workerCount m + 1 else workerCount m)\<rparr>)"

definition task_not_exists :: "TaskID \<Rightarrow> error" where
  "task_not_exists taskId = OtherError (''Task '' @ taskId @ '' not exists'')"

definition channel_was_closed :: "TaskID \<Rightarrow> error" where
  "channel_was_closed taskId = OtherError (''Result channel of task '' @ taskId @ '' was closed'')"

text \<open>
  \<^verbatim>\<open>GetTaskResult\<close> and \<^verbatim>\<open>CleanTaskResult\<close> run in the goroutine of their caller and
  reach the shared maps and the channel one access at a time: the load from the cache,
  the load of the channel, the non-blocking receive and the store into the cache are
  four actions, and between any two of them other goroutines may act. Each call is a
  program counter with one function per action; the counter carries the local variables
  \<^verbatim>\<open>retCh\<close> and \<^verbatim>\<open>result\<close>.
\<close>

datatype poll_pc =
  LoadCache | LoadChannel | Receive addr | StoreResult TaskResult
| Answered "TaskResult option result"

fun poll_action :: "TaskID \<Rightarrow> poll_pc \<Rightarrow> TaskManager \<Rightarrow> poll_pc \<times> TaskManager" where
  "poll_action taskId LoadCache m =
     (case TaskResultCache m taskId of
        Some r \<Rightarrow> (Answered (Inr (Some r)), m)
      | None \<Rightarrow> (LoadChannel, m))"
| "poll_action taskId LoadChannel m =
     (case ResultMap m taskId of
        None \<Rightarrow> (Answered (Inl (task_not_exists taskId)), m)
      | Some retCh \<Rightarrow> (Receive retCh, m))"
| "poll_action taskId (Receive retCh) m =
     (case buf (chans m ! retCh) of
        Some r \<Rightarrow> (StoreResult r,
                   m\<lparr>chans := (chans m)[retCh := (chans m ! retCh)\<lparr>buf := None\<rparr>]\<rparr>)
      | None \<Rightarrow>
          (if closed (chans m ! retCh) then (Answered (Inl (channel_was_closed taskId)), m)
           else (Answered (Inr None), m)))"
| "poll_action taskId (StoreResult r) m =
     (Answered (Inr (Some r)), m\<lparr>TaskResultCache := (TaskResultCache m)(taskId \<mapsto> r)\<rparr>)"
| "poll_action taskId (Answered a) m = (Answered a, m)"

text \<open>
  \<^verbatim>\<open>CleanTaskResult\<close>: the flag is the test of the environment variable
  \<^verbatim>\<open>DEBUG_TASK\<close>; the counter is changed under a mutex, so in one action.
\<close>

datatype clean_pc = CheckEntry | DeleteEntry | DeleteCached | Uncount | Cleaned

fun clean_action ::
  "bool \<Rightarrow> TaskID \<Rightarrow> clean_pc \<Rightarrow> TaskManager \<Rightarrow> clean_pc \<times> TaskManager" where
  "clean_action debugEnv taskId CheckEntry m =
     (if ResultMap m taskId = None then (Cleaned, m) else (DeleteEntry, m))"
| "clean_action debugEnv taskId DeleteEntry m =
     (DeleteCached, m\<lparr>ResultMap := (ResultMap m)(taskId := None)\<rparr>)"
| "clean_action debugEnv taskId DeleteCached m =
     (if debugEnv then Uncount else Cleaned,
      m\<lparr>TaskResultCache := (TaskResultCache m)(taskId := None)\<rparr>)"
| "clean_action debugEnv taskId Uncount m = (Cleaned, m\<lparr>workerCount := workerCount m - 1\<rparr>)"
| "clean_action debugEnv taskId Cleaned m = (Cleaned, m)"

text \<open>
  A call that no other goroutine interrupts: its actions one after the other. The
  coordinator, which models one reconcile at a time, uses the calls in this form; how
  the actions of several calls and of the workers interleave is the subject of the
  theory \<open>Task_Polls\<close>.
\<close>

fun poll_rank :: "poll_pc \<Rightarrow> nat" where
  "poll_rank LoadCache = 4" | "poll_rank LoadChannel = 3" | "poll_rank (Receive c) = 2"
| "poll_rank (StoreResult r) = 1" | "poll_rank (Answered a) = 0"

fun clean_rank :: "clean_pc \<Rightarrow> nat" where
  "clean_rank CheckEntry = 4" | "clean_rank DeleteEntry = 3" | "clean_rank DeleteCached = 2"
| "clean_rank Uncount = 1" | "clean_rank Cleaned = 0"

lemma poll_action_rank:
  "poll_rank pc \<noteq> 0 \<Longrightarrow> poll_rank (fst (poll_action taskId pc m)) < poll_rank pc"
  by (cases pc) (auto split: option.splits)

lemma clean_action_rank:
  "clean_rank pc \<noteq> 0 \<Longrightarrow> clean_rank (fst (clean_action d taskId pc m)) < clean_rank pc"
  by (cases pc) auto

function run_poll ::
  "TaskID \<Rightarrow> poll_pc \<Rightarrow> TaskManager \<Rightarrow> TaskResult option result \<times> TaskManager" where
  "run_poll taskId pc m =
     (case pc of
        Answered a \<Rightarrow> (a, m)
      | _ \<Rightarrow> run_poll taskId (fst (poll_action taskId pc m)) (snd (poll_action taskId pc m)))"
  by pat_completeness auto
termination
  by (relation "measure (\<lambda>(taskId, pc, m). poll_rank pc)") (auto split: option.splits)

function run_clean :: "bool \<Rightarrow> TaskID \<Rightarrow> clean_pc \<Rightarrow> TaskManager \<Rightarrow> TaskManager" where
  "run_clean d taskId pc m =
     (if pc = Cleaned then m
      else run_clean d taskId (fst (clean_action d taskId pc m)) (snd (clean_action d taskId pc m)))"
  by pat_completeness auto
termination
proof (relation "measure (\<lambda>(d, taskId, pc, m). clean_rank pc)", goal_cases)
  case (2 d taskId pc m)
  then show ?case using clean_action_rank [of pc d taskId m] by (cases pc) auto
qed simp

declare run_poll.simps [simp del] run_clean.simps [simp del]

definition GetTaskResult ::
  "TaskID \<Rightarrow> TaskManager \<Rightarrow> TaskResult option result \<times> TaskManager" where
  "GetTaskResult taskId m = run_poll taskId LoadCache m"

definition CleanTaskResult :: "bool \<Rightarrow> TaskID \<Rightarrow> TaskManager \<Rightarrow> TaskManager" where
  "CleanTaskResult debugEnv taskId m = run_clean debugEnv taskId CheckEntry m"

text \<open>What the uninterrupted calls do.\<close>

lemma run_poll_pc:
  "run_poll taskId (Answered a) m = (a, m)"
  "run_poll taskId (StoreResult r) m =
     (Inr (Some r), m\<lparr>TaskResultCache := (TaskResultCache m)(taskId \<mapsto> r)\<rparr>)"
  by (simp_all add: run_poll.simps)

lemma GetTaskResult_run:
  "GetTaskResult taskId m =
     (case TaskResultCache m taskId of
        Some r \<Rightarrow> (Inr (Some r), m)
      | None \<Rightarrow>
          (case ResultMap m taskId of
             None \<Rightarrow> (Inl (task_not_exists taskId), m)
           | Some retCh \<Rightarrow>
               (case buf (chans m ! retCh) of
                  Some r \<Rightarrow>
                    (Inr (Some r),
                     m\<lparr>chans := (chans m)[retCh := (chans m ! retCh)\<lparr>buf := None\<rparr>],
                       TaskResultCache := (TaskResultCache m)(taskId \<mapsto> r)\<rparr>)
                | None \<Rightarrow>
                    (if closed (chans m ! retCh) then (Inl (channel_was_closed taskId), m)
                     else (Inr None, m)))))"
  by (simp add: GetTaskResult_def run_poll.simps [of _ LoadCache] run_poll.simps [of _ LoadChannel]
      run_poll.simps [of _ "Receive _"] run_poll_pc split: option.splits)

lemma CleanTaskResult_run:
  "CleanTaskResult debugEnv taskId m =
     (if ResultMap m taskId = None then m
      else m\<lparr>ResultMap := (ResultMap m)(taskId := None),
             TaskResultCache := (TaskResultCache m)(taskId := None),
             workerCount := (if debugEnv then workerCount m - 1 else workerCount m)\<rparr>)"
  by (simp add: CleanTaskResult_def run_clean.simps)

section \<open>The worker goroutine\<close>

definition observed_panic :: "string \<Rightarrow> error" where
  "observed_panic r = OtherError (''Observed a panic: '' @ r)"

text \<open>The result \<^verbatim>\<open>runTask\<close> sends for each way the task function can end.\<close>

fun result_of :: "task_outcome \<Rightarrow> TaskResult" where
  "result_of (Returns None) = \<lparr>ResStatus = Successful, ResError = None\<rparr>"
| "result_of (Returns (Some e)) = \<lparr>ResStatus = Failed, ResError = Some e\<rparr>"
| "result_of (Panics r) = \<lparr>ResStatus = Failed, ResError = Some (observed_panic r)\<rparr>"

text \<open>
  The actions of worker number \<open>i\<close>. Each is \<open>None\<close> when the goroutine blocks
  there: the token send on a full pool, the result send on a full buffer, the token
  receive on an empty pool.
\<close>

definition acquire_token :: "nat \<Rightarrow> TaskManager \<Rightarrow> TaskManager option" where
  "acquire_token i m =
     (if i < length (workers m) \<and> wpc (workers m ! i) = Queued \<and> tokens m < poolSize m
      then Some (m\<lparr>tokens := tokens m + 1,
                   workers := (workers m)[i := (workers m ! i)\<lparr>wpc := Executing\<rparr>]\<rparr>)
      else None)"

definition send_result :: "nat \<Rightarrow> task_outcome \<Rightarrow> TaskManager \<Rightarrow> TaskManager option" where
  "send_result i out m =
     (if i < length (workers m) \<and> wpc (workers m ! i) = Executing \<and> wfun (workers m ! i) out
        \<and> buf (chans m ! wchan (workers m ! i)) = None
      then let w = workers m ! i; r = result_of out in
        Some (m\<lparr>chans := (chans m)[wchan w := (chans m ! wchan w)\<lparr>buf := Some r\<rparr>],
                workers := (workers m)[i := w\<lparr>wpc := Sent, wres := Some r\<rparr>]\<rparr>)
      else None)"

definition release_token :: "nat \<Rightarrow> TaskManager \<Rightarrow> TaskManager option" where
  "release_token i m =
     (if i < length (workers m) \<and> wpc (workers m ! i) = Sent \<and> 0 < tokens m
      then Some (m\<lparr>tokens := tokens m - 1,
                   workers := (workers m)[i := (workers m ! i)\<lparr>wpc := Released\<rparr>]\<rparr>)
      else None)"

definition close_channel :: "nat \<Rightarrow> TaskManager \<Rightarrow> TaskManager option" where
  "close_channel i m =
     (if i < length (workers m) \<and> wpc (workers m ! i) = Released
      then let w = workers m ! i in
        Some (m\<lparr>chans := (chans m)[wchan w := (chans m ! wchan w)\<lparr>closed := True\<rparr>],
                workers := (workers m)[i := w\<lparr>wpc := Done\<rparr>]\<rparr>)
      else None)"

section \<open>All interleavings\<close>

text \<open>
  Ids are UUIDs: a submission uses an id no earlier submission used. Polls and cleanups
  are taken whole here; the theory \<open>Task_Polls\<close> interleaves their single actions
  and shows that every such interleaving is one of these.
\<close>

inductive tm_step :: "TaskManager \<Rightarrow> TaskManager \<Rightarrow> bool" where
  tm_submit: "taskId \<notin> wid ` set (workers m) \<Longrightarrow> tm_step m (Submit d f taskId m)"
| tm_poll: "tm_step m (snd (GetTaskResult taskId m))"
| tm_clean: "tm_step m (CleanTaskResult d taskId m)"
| tm_acquire: "acquire_token i m = Some m' \<Longrightarrow> tm_step m m'"
| tm_send: "send_result i out m = Some m' \<Longrightarrow> tm_step m m'"
| tm_release: "release_token i m = Some m' \<Longrightarrow> tm_step m m'"
| tm_close: "close_channel i m = Some m' \<Longrightarrow> tm_step m m'"

inductive tm_reachable :: "nat \<Rightarrow> TaskManager \<Rightarrow> bool" for n where
  tm_start: "tm_reachable n (taskManagerInit n)"
| tm_next: "tm_reachable n m \<Longrightarrow> tm_step m m' \<Longrightarrow> tm_reachable n m'"

section \<open>Invariant\<close>

definition holding :: "worker \<Rightarrow> bool" where
  "holding w \<longleftrightarrow> wpc w = Executing \<or> wpc w = Sent"

text \<open>How the program counter of a worker and its channel agree.\<close>

definition worker_chan_ok :: "worker \<Rightarrow> chan \<Rightarrow> bool" where
  "worker_chan_ok w c \<longleftrightarrow>
     (case wpc w of
        Queued \<Rightarrow> buf c = None \<and> \<not> closed c \<and> wres w = None
      | Executing \<Rightarrow> buf c = None \<and> \<not> closed c \<and> wres w = None
      | Sent \<Rightarrow> \<not> closed c \<and> wres w \<noteq> None
      | Released \<Rightarrow> \<not> closed c \<and> wres w \<noteq> None
      | Done \<Rightarrow> closed c \<and> wres w \<noteq> None)
     \<and> (\<forall>r. buf c = Some r \<longrightarrow> wres w = Some r)"

text \<open>An entry of the result map belongs to the worker it was made for.\<close>

definition entry_ok :: "TaskManager \<Rightarrow> TaskID \<Rightarrow> nat \<Rightarrow> bool" where
  "entry_ok m taskId i \<longleftrightarrow>
     i < length (workers m) \<and> wid (workers m ! i) = taskId \<and>
     (TaskResultCache m taskId = None \<longrightarrow> buf (chans m ! i) = wres (workers m ! i)) \<and>
     (\<forall>r. TaskResultCache m taskId = Some r \<longrightarrow> wres (workers m ! i) = Some r)"

definition tm_inv :: "TaskManager \<Rightarrow> bool" where
  "tm_inv m \<longleftrightarrow>
     length (chans m) = length (workers m) \<and>
     (\<forall>i < length (workers m). wchan (workers m ! i) = i
        \<and> worker_chan_ok (workers m ! i) (chans m ! i)) \<and>
     distinct (map wid (workers m)) \<and>
     tokens m = length (filter holding (workers m)) \<and>
     tokens m \<le> poolSize m \<and>
     (\<forall>taskId i. ResultMap m taskId = Some i \<longrightarrow> entry_ok m taskId i) \<and>
     (\<forall>taskId. ResultMap m taskId = None \<longrightarrow> TaskResultCache m taskId = None)"

lemma tm_inv_entry: "tm_inv m \<Longrightarrow> ResultMap m taskId = Some i \<Longrightarrow> entry_ok m taskId i"
  by (simp add: tm_inv_def)

lemma tm_inv_init: "tm_inv (taskManagerInit n)"
  by (simp add: tm_inv_def taskManagerInit_def)

text \<open>A step that replaces one worker and its channel, keeping the id and the function.\<close>

lemma tm_inv_worker_step:
  assumes inv: "tm_inv m" and i: "i < length (workers m)"
    and w: "wid w = wid (workers m ! i)" "wchan w = i"
    and ok: "worker_chan_ok w c"
    and tok: "t + (if holding (workers m ! i) then 1 else 0) =
              tokens m + (if holding w then 1 else 0)" "t \<le> poolSize m"
    and res: "wres w = wres (workers m ! i) \<and> buf c = buf (chans m ! i) \<or>
              wres (workers m ! i) = None \<and> buf c = wres w"
  shows "tm_inv (m\<lparr>tokens := t, chans := (chans m)[i := c], workers := (workers m)[i := w]\<rparr>)"
proof -
  let ?m = "m\<lparr>tokens := t, chans := (chans m)[i := c], workers := (workers m)[i := w]\<rparr>"
  from inv have len: "length (chans m) = length (workers m)"
    and each: "\<And>j. j < length (workers m) \<Longrightarrow> wchan (workers m ! j) = j
        \<and> worker_chan_ok (workers m ! j) (chans m ! j)"
    and dist: "distinct (map wid (workers m))"
    and tokens: "tokens m = length (filter holding (workers m))"
    and entry: "\<And>taskId j. ResultMap m taskId = Some j \<Longrightarrow> entry_ok m taskId j"
    and gone: "\<And>taskId. ResultMap m taskId = None \<Longrightarrow> TaskResultCache m taskId = None"
    by (simp_all add: tm_inv_def)
  have "tokens ?m = length (filter holding (workers ?m))"
    using length_filter_update [OF i, of holding w] tok(1) tokens by (auto split: if_splits)
  moreover have "entry_ok ?m taskId j" if "ResultMap m taskId = Some j" for taskId j
    using entry [of taskId j] that w res i len
    by (cases "j = i") (auto simp: entry_ok_def)
  ultimately show ?thesis
    using len each dist gone tok(2) w ok i
    by (simp add: tm_inv_def nth_list_update map_update_same [of i _ wid])
qed

lemma tm_inv_at:
  assumes "tm_inv m" and "i < length (workers m)"
  shows "wchan (workers m ! i) = i" "worker_chan_ok (workers m ! i) (chans m ! i)"
    "i < length (chans m)" "tokens m \<le> poolSize m"
  using assms by (simp_all add: tm_inv_def)

lemma tm_inv_acquire: "tm_inv m \<Longrightarrow> acquire_token i m = Some m' \<Longrightarrow> tm_inv m'"
  using tm_inv_worker_step [of m i "(workers m ! i)\<lparr>wpc := Executing\<rparr>" "chans m ! i" "tokens m + 1"]
    tm_inv_at [of m i]
  by (auto simp: acquire_token_def holding_def worker_chan_ok_def split: if_splits)

lemma tm_inv_send: "tm_inv m \<Longrightarrow> send_result i out m = Some m' \<Longrightarrow> tm_inv m'"
  using tm_inv_worker_step [of m i "(workers m ! i)\<lparr>wpc := Sent, wres := Some (result_of out)\<rparr>"
      "(chans m ! i)\<lparr>buf := Some (result_of out)\<rparr>" "tokens m"]
    tm_inv_at [of m i]
  by (auto simp: send_result_def holding_def worker_chan_ok_def Let_def split: if_splits)

lemma tm_inv_release: "tm_inv m \<Longrightarrow> release_token i m = Some m' \<Longrightarrow> tm_inv m'"
  using tm_inv_worker_step [of m i "(workers m ! i)\<lparr>wpc := Released\<rparr>" "chans m ! i" "tokens m - 1"]
    tm_inv_at [of m i]
  by (auto simp: release_token_def holding_def worker_chan_ok_def split: if_splits)

lemma tm_inv_close: "tm_inv m \<Longrightarrow> close_channel i m = Some m' \<Longrightarrow> tm_inv m'"
  using tm_inv_worker_step [of m i "(workers m ! i)\<lparr>wpc := Done\<rparr>"
      "(chans m ! i)\<lparr>closed := True\<rparr>" "tokens m"]
    tm_inv_at [of m i]
  by (auto simp: close_channel_def holding_def worker_chan_ok_def Let_def split: if_splits)

lemma tm_inv_submit:
  assumes inv: "tm_inv m" and fresh: "taskId \<notin> wid ` set (workers m)"
  shows "tm_inv (Submit d f taskId m)"
proof -
  have "entry_ok (Submit d f taskId m) id' j"
    if "ResultMap (Submit d f taskId m) id' = Some j" for id' j
    using that inv tm_inv_entry [OF inv, of id' j]
    by (auto simp: tm_inv_def entry_ok_def Submit_def Let_def nth_append split: if_splits)
  then show ?thesis
    using inv fresh
    by (auto simp: tm_inv_def Submit_def Let_def nth_append worker_chan_ok_def holding_def
        less_Suc_eq)
qed

lemma tm_inv_clean:
  assumes inv: "tm_inv m"
  shows "tm_inv (CleanTaskResult d taskId m)"
proof -
  have "entry_ok (CleanTaskResult d taskId m) id' j"
    if "ResultMap (CleanTaskResult d taskId m) id' = Some j" for id' j
    using that tm_inv_entry [OF inv, of id' j]
    by (auto simp: entry_ok_def CleanTaskResult_run split: if_splits)
  with inv show ?thesis by (auto simp: tm_inv_def CleanTaskResult_run)
qed

lemma tm_inv_cached: "tm_inv m \<Longrightarrow> TaskResultCache m taskId = Some r \<Longrightarrow> \<exists>i. ResultMap m taskId = Some i"
  by (cases "ResultMap m taskId") (auto simp: tm_inv_def)

text \<open>Two entries with the same worker have the same id, so distinct ids have distinct channels.\<close>

lemma entry_inj: "entry_ok m a i \<Longrightarrow> entry_ok m b i \<Longrightarrow> a = b"
  by (simp add: entry_ok_def)

lemma tm_inv_receive:
  assumes inv: "tm_inv m" and map: "ResultMap m taskId = Some i"
    and cache: "TaskResultCache m taskId = None" and full: "buf (chans m ! i) = Some r"
  shows "tm_inv (m\<lparr>chans := (chans m)[i := (chans m ! i)\<lparr>buf := None\<rparr>],
                    TaskResultCache := (TaskResultCache m)(taskId \<mapsto> r)\<rparr>)"
    (is "tm_inv ?m")
proof -
  from inv map have i: "entry_ok m taskId i" by (rule tm_inv_entry)
  then have lt: "i < length (workers m)" by (simp add: entry_ok_def)
  have "entry_ok ?m id' j" if j: "ResultMap m id' = Some j" for id' j
  proof (cases "id' = taskId")
    case True
    with i j map full cache show ?thesis by (auto simp: entry_ok_def)
  next
    case False
    from inv j have "entry_ok m id' j" by (rule tm_inv_entry)
    with i False have "j \<noteq> i" by (auto dest: entry_inj)
    with \<open>entry_ok m id' j\<close> False show ?thesis by (auto simp: entry_ok_def)
  qed
  moreover have "worker_chan_ok (workers m ! j) (chans ?m ! j)" if "j < length (workers m)" for j
    using tm_inv_at [OF inv that]
    by (cases "j = i") (auto simp: worker_chan_ok_def split: worker_pc.splits)
  ultimately show ?thesis
    using inv map by (auto simp: tm_inv_def)
qed

lemma tm_inv_poll: "tm_inv m \<Longrightarrow> tm_inv (snd (GetTaskResult taskId m))"
  using tm_inv_receive [of m taskId]
  by (auto simp: GetTaskResult_run split: option.splits)

lemmas tm_inv_calls = tm_inv_submit tm_inv_poll tm_inv_clean
lemmas tm_inv_worker = tm_inv_acquire tm_inv_send tm_inv_release tm_inv_close

lemma tm_step_inv: "tm_step m m' \<Longrightarrow> tm_inv m \<Longrightarrow> tm_inv m'"
  by (induction rule: tm_step.induct) (auto intro: tm_inv_calls tm_inv_worker)

lemma tm_reachable_inv: "tm_reachable n m \<Longrightarrow> tm_inv m"
  by (induction rule: tm_reachable.induct) (auto intro: tm_inv_init tm_step_inv)

lemma poolSize_step: "tm_step m m' \<Longrightarrow> poolSize m' = poolSize m"
  by (induction rule: tm_step.induct)
    (auto simp: Submit_def GetTaskResult_run CleanTaskResult_run acquire_token_def send_result_def
      release_token_def close_channel_def Let_def split: option.splits if_splits)

lemma poolSize_reachable: "tm_reachable n m \<Longrightarrow> poolSize m = n"
  by (induction rule: tm_reachable.induct) (auto simp: taskManagerInit_def poolSize_step)

section \<open>What callers see\<close>

text \<open>
  The contract a client of the task manager relies on: which states are possible, what
  a submission, a poll and a cleanup do to the answers of later polls.
\<close>

locale task_pool =
  fixes ok :: "'t \<Rightarrow> bool"
    and submit :: "TaskFunc \<Rightarrow> TaskID \<Rightarrow> 't \<Rightarrow> 't"
    and poll :: "TaskID \<Rightarrow> 't \<Rightarrow> TaskResult option result \<times> 't"
    and clean :: "TaskID \<Rightarrow> 't \<Rightarrow> 't"
    and fresh :: "TaskID \<Rightarrow> 't \<Rightarrow> bool"
  assumes ok_submit: "ok t \<Longrightarrow> fresh i t \<Longrightarrow> ok (submit f i t)"
    and ok_poll: "ok t \<Longrightarrow> ok (snd (poll i t))"
    and ok_clean: "ok t \<Longrightarrow> ok (clean i t)"
    and submitted_pending: "ok t \<Longrightarrow> fresh i t \<Longrightarrow> fst (poll i (submit f i t)) = Inr None"
    and poll_again: "ok t \<Longrightarrow> fst (poll i t) = Inr (Some r) \<Longrightarrow>
        fst (poll i (snd (poll i t))) = Inr (Some r)"
    and cleaned: "ok t \<Longrightarrow> \<exists>e. fst (poll i (clean i t)) = Inl e"
begin

text \<open>A result once seen is seen by every later poll, however many there are.\<close>

primrec poll_n :: "nat \<Rightarrow> TaskID \<Rightarrow> 't \<Rightarrow> 't" where
  "poll_n 0 i t = t"
| "poll_n (Suc n) i t = poll_n n i (snd (poll i t))"

lemma ok_poll_n: "ok t \<Longrightarrow> ok (poll_n n i t)"
  by (induction n arbitrary: t) (auto intro: ok_poll)

lemma poll_n_stable:
  "ok t \<Longrightarrow> fst (poll i t) = Inr (Some r) \<Longrightarrow> fst (poll i (poll_n n i t)) = Inr (Some r)"
  by (induction n arbitrary: t) (auto intro: ok_poll poll_again)

end

lemma silent_open: "worker_chan_ok w c \<Longrightarrow> wres w = None \<Longrightarrow> \<not> closed c"
  by (auto simp: worker_chan_ok_def split: worker_pc.splits)

lemma poll_value:
  assumes inv: "tm_inv m" and map: "ResultMap m taskId = Some i"
  shows "fst (GetTaskResult taskId m) = Inr (wres (workers m ! i))"
proof -
  from inv map have e: "entry_ok m taskId i" by (rule tm_inv_entry)
  then have "i < length (workers m)" by (simp add: entry_ok_def)
  with inv have "worker_chan_ok (workers m ! i) (chans m ! i)" by (rule tm_inv_at)
  then have quiet: "wres (workers m ! i) = None \<longrightarrow> \<not> closed (chans m ! i)"
    using silent_open by blast
  show ?thesis
    using e map quiet
    by (cases "TaskResultCache m taskId"; cases "wres (workers m ! i)")
      (simp_all add: GetTaskResult_run entry_ok_def)
qed

lemma poll_missing:
  "tm_inv m \<Longrightarrow> ResultMap m taskId = None \<Longrightarrow>
     fst (GetTaskResult taskId m) = Inl (task_not_exists taskId)"
  by (auto simp: GetTaskResult_run tm_inv_def)

lemma poll_keeps [simp]:
  "ResultMap (snd (GetTaskResult taskId m)) = ResultMap m"
  "workers (snd (GetTaskResult taskId m)) = workers m"
  by (auto simp: GetTaskResult_run split: option.splits)

lemma poll_cases:
  assumes "tm_inv m"
  shows "fst (GetTaskResult taskId m) =
    (case ResultMap m taskId of None \<Rightarrow> Inl (task_not_exists taskId)
     | Some i \<Rightarrow> Inr (wres (workers m ! i)))"
  using assms by (auto simp: poll_value poll_missing split: option.splits)

interpretation tm: task_pool tm_inv "Submit d" GetTaskResult "CleanTaskResult e"
  "\<lambda>i m. i \<notin> wid ` set (workers m)"
proof unfold_locales
  fix t i f
  assume ok: "tm_inv t" and fresh: "i \<notin> wid ` set (workers t)"
  then show "tm_inv (Submit d f i t)" by (rule tm_inv_submit)
  then have "fst (GetTaskResult i (Submit d f i t)) = Inr (wres (workers (Submit d f i t) ! length (chans t)))"
    by (rule poll_value) (simp add: Submit_def Let_def)
  with ok show "fst (GetTaskResult i (Submit d f i t)) = Inr None"
    by (simp add: Submit_def Let_def tm_inv_def)
next
  fix t i r
  assume "tm_inv t" and "fst (GetTaskResult i t) = Inr (Some r)"
  then show "fst (GetTaskResult i (snd (GetTaskResult i t))) = Inr (Some r)"
    by (simp add: poll_cases tm_inv_poll split: option.splits)
next
  fix t i
  assume "tm_inv t"
  then have "fst (GetTaskResult i (CleanTaskResult e i t)) = Inl (task_not_exists i)"
    by (intro poll_missing tm_inv_clean) (simp_all add: CleanTaskResult_run)
  then show "\<exists>e'. fst (GetTaskResult i (CleanTaskResult e i t)) = Inl e'" by blast
qed (auto intro: tm_inv_poll tm_inv_clean)

section \<open>Results are those of the runs, and stay\<close>

text \<open>A result a worker has sent is the result of one of the outcomes its function can have.\<close>

definition honest :: "TaskManager \<Rightarrow> bool" where
  "honest m \<longleftrightarrow> (\<forall>w \<in> set (workers m). \<forall>r. wres w = Some r \<longrightarrow> (\<exists>out. wfun w out \<and> r = result_of out))"

lemma honest_update:
  assumes "honest m" and "i < length (workers m)"
    and "\<And>r. wres w = Some r \<Longrightarrow> \<exists>out. wfun w out \<and> r = result_of out"
  shows "\<forall>v \<in> set ((workers m)[i := w]). \<forall>r. wres v = Some r \<longrightarrow> (\<exists>out. wfun v out \<and> r = result_of out)"
  using assms set_update_subset_insert [of "workers m" i w] by (fastforce simp: honest_def)

lemma honest_at:
  "honest m \<Longrightarrow> i < length (workers m) \<Longrightarrow> wres (workers m ! i) = Some r \<Longrightarrow>
     \<exists>out. wfun (workers m ! i) out \<and> r = result_of out"
  by (simp add: honest_def)

lemma honest_step: "tm_step m m' \<Longrightarrow> honest m \<Longrightarrow> honest m'"
proof (induction rule: tm_step.induct)
  case (tm_submit taskId m d f)
  then show ?case by (auto simp: honest_def Submit_def Let_def)
next
  case (tm_acquire i m m')
  then show ?case
    using honest_update [of m i "(workers m ! i)\<lparr>wpc := Executing\<rparr>"] honest_at [of m i]
    by (auto simp: acquire_token_def honest_def split: if_splits)
next
  case (tm_send i out m m')
  then show ?case
    using honest_update [of m i "(workers m ! i)\<lparr>wpc := Sent, wres := Some (result_of out)\<rparr>"]
    by (fastforce simp: send_result_def honest_def Let_def split: if_splits)
next
  case (tm_release i m m')
  then show ?case
    using honest_update [of m i "(workers m ! i)\<lparr>wpc := Released\<rparr>"] honest_at [of m i]
    by (auto simp: release_token_def honest_def split: if_splits)
next
  case (tm_close i m m')
  then show ?case
    using honest_update [of m i "(workers m ! i)\<lparr>wpc := Done\<rparr>"] honest_at [of m i]
    by (auto simp: close_channel_def honest_def Let_def split: if_splits)
qed (auto simp: honest_def CleanTaskResult_run)

lemma tm_reachable_honest: "tm_reachable n m \<Longrightarrow> honest m"
proof (induction rule: tm_reachable.induct)
  case tm_start
  show ?case by (simp add: honest_def taskManagerInit_def)
qed (rule honest_step)

text \<open>Workers are never removed or renamed, and a sent result is never replaced.\<close>

lemma tm_step_workers:
  "tm_step m m' \<Longrightarrow> tm_inv m \<Longrightarrow> i < length (workers m) \<Longrightarrow>
     i < length (workers m') \<and> wid (workers m' ! i) = wid (workers m ! i) \<and>
     (\<forall>r. wres (workers m ! i) = Some r \<longrightarrow> wres (workers m' ! i) = Some r)"
proof (induction rule: tm_step.induct)
  case (tm_submit taskId m d f)
  then show ?case by (simp add: Submit_def Let_def nth_append)
next
  case (tm_send j out m m')
  then have "wres (workers m ! j) = None"
    using tm_inv_at(2) [of m j]
    by (auto simp: send_result_def worker_chan_ok_def split: if_splits)
  with tm_send show ?case
    by (auto simp: send_result_def Let_def nth_list_update split: if_splits)
qed (auto simp: CleanTaskResult_run acquire_token_def release_token_def close_channel_def Let_def
      nth_list_update split: if_splits)

lemma tm_steps_workers:
  "tm_step\<^sup>*\<^sup>* m m' \<Longrightarrow> tm_inv m \<Longrightarrow> i < length (workers m) \<Longrightarrow>
     tm_inv m' \<and> i < length (workers m') \<and> wid (workers m' ! i) = wid (workers m ! i) \<and>
     (\<forall>r. wres (workers m ! i) = Some r \<longrightarrow> wres (workers m' ! i) = Some r)"
  by (induction rule: rtranclp_induct) (auto dest: tm_step_inv tm_step_workers)

lemma tm_inv_distinct:
  "tm_inv m \<Longrightarrow> i < length (workers m) \<Longrightarrow> j < length (workers m) \<Longrightarrow>
     wid (workers m ! i) = wid (workers m ! j) \<Longrightarrow> i = j"
  using nth_eq_iff_index_eq [of "map wid (workers m)" i j] by (simp add: tm_inv_def)

section \<open>Workers make progress\<close>

definition worker_step :: "TaskManager \<Rightarrow> TaskManager \<Rightarrow> bool" where
  "worker_step m m' \<longleftrightarrow>
     (\<exists>i. acquire_token i m = Some m' \<or> (\<exists>out. send_result i out m = Some m') \<or>
          release_token i m = Some m' \<or> close_channel i m = Some m')"

lemma worker_step_tm_step: "worker_step m m' \<Longrightarrow> tm_step m m'"
  by (auto simp: worker_step_def intro: tm_step.intros)

fun rank :: "worker_pc \<Rightarrow> nat" where
  "rank Queued = 4" | "rank Executing = 3" | "rank Sent = 2" | "rank Released = 1" | "rank Done = 0"

definition work_left :: "TaskManager \<Rightarrow> nat" where
  "work_left m = sum_list (map (rank \<circ> wpc) (workers m))"

lemma work_left_update:
  assumes "i < length (workers m)" and "rank (wpc (workers m ! i)) = Suc (rank (wpc w))"
  shows "work_left m = Suc (sum_list (map (rank \<circ> wpc) ((workers m)[i := w])))"
proof -
  have "map (rank \<circ> wpc) (workers m) ! i \<le> sum_list (map (rank \<circ> wpc) (workers m))"
    using assms(1) by (intro member_le_sum_list) auto
  with assms show ?thesis
    by (simp add: work_left_def map_update sum_list_update)
qed

lemma worker_step_effect:
  assumes "worker_step m m'"
  obtains i w where "i < length (workers m)" "workers m' = (workers m)[i := w]"
    "rank (wpc (workers m ! i)) = Suc (rank (wpc w))" "wfun w = wfun (workers m ! i)"
  using assms
  by (auto simp: worker_step_def acquire_token_def send_result_def release_token_def
      close_channel_def Let_def split: if_splits)

lemma worker_step_work_left: "worker_step m m' \<Longrightarrow> work_left m = Suc (work_left m')"
  using work_left_update by (metis worker_step_effect work_left_def)

definition all_total :: "TaskManager \<Rightarrow> bool" where
  "all_total m \<longleftrightarrow> (\<forall>w \<in> set (workers m). \<exists>out. wfun w out)"

lemma worker_step_total: "worker_step m m' \<Longrightarrow> all_total m \<Longrightarrow> all_total m'"
  using set_update_subset_insert by (fastforce elim!: worker_step_effect simp: all_total_def)

lemma worker_step_pool: "worker_step m m' \<Longrightarrow> poolSize m' = poolSize m"
  by (auto dest: worker_step_tm_step poolSize_step)

text \<open>As long as some worker is not done, some worker can move: no deadlock on the pool.\<close>

lemma worker_progress:
  assumes inv: "tm_inv m" and pool: "0 < poolSize m" and total: "all_total m"
    and busy: "\<exists>w \<in> set (workers m). wpc w \<noteq> Done"
  shows "\<exists>m'. worker_step m m'"
proof (cases "\<exists>i < length (workers m). holding (workers m ! i)")
  case True
  then obtain i where i: "i < length (workers m)" "holding (workers m ! i)" by blast
  then have "workers m ! i \<in> set (filter holding (workers m))" by simp
  then have "0 < length (filter holding (workers m))" by (metis length_pos_if_in_set)
  then have tok: "0 < tokens m" using inv by (simp add: tm_inv_def)
  from i total obtain out where "wfun (workers m ! i) out"
    unfolding all_total_def using nth_mem by blast
  with i tok tm_inv_at [OF inv i(1)] show ?thesis
    unfolding worker_step_def
    by (intro exI [of _ "the (if wpc (workers m ! i) = Sent then release_token i m
          else send_result i out m)"] exI [of _ i])
      (auto simp: holding_def release_token_def send_result_def worker_chan_ok_def Let_def)
next
  case False
  then have "filter holding (workers m) = []" by (auto simp: filter_empty_conv in_set_conv_nth)
  then have tok: "tokens m < poolSize m" using inv pool by (simp add: tm_inv_def)
  from busy obtain i where i: "i < length (workers m)" "wpc (workers m ! i) \<noteq> Done"
    by (auto simp: in_set_conv_nth)
  with False have "wpc (workers m ! i) = Queued \<or> wpc (workers m ! i) = Released"
    by (cases "wpc (workers m ! i)") (auto simp: holding_def)
  with i tok show ?thesis
    unfolding worker_step_def
    by (intro exI [of _ "the (if wpc (workers m ! i) = Queued then acquire_token i m
          else close_channel i m)"] exI [of _ i])
      (auto simp: acquire_token_def close_channel_def Let_def)
qed

lemma workers_finish:
  assumes "tm_inv m" "0 < poolSize m" "all_total m"
  shows "\<exists>m'. worker_step\<^sup>*\<^sup>* m m' \<and> (\<forall>w \<in> set (workers m'). wpc w = Done)"
  using assms
proof (induction "work_left m" arbitrary: m)
  case 0
  then have "\<forall>w \<in> set (workers m). rank (wpc w) = 0" by (auto simp: work_left_def)
  then have "\<forall>w \<in> set (workers m). wpc w = Done" by (metis rank.elims old.nat.distinct(1)
        One_nat_def zero_neq_numeral)
  then show ?case by blast
next
  case (Suc k)
  show ?case
  proof (cases "\<exists>w \<in> set (workers m). wpc w \<noteq> Done")
    case True
    then obtain m1 where m1: "worker_step m m1"
      using worker_progress Suc.prems by blast
    then have "k = work_left m1" using Suc.hyps(2) worker_step_work_left by fastforce
    moreover have "tm_inv m1" "0 < poolSize m1" "all_total m1"
      using m1 Suc.prems worker_step_tm_step tm_step_inv worker_step_pool worker_step_total
      by metis+
    ultimately obtain m' where "worker_step\<^sup>*\<^sup>* m1 m'" "\<forall>w \<in> set (workers m'). wpc w = Done"
      using Suc.hyps(1) by blast
    with m1 show ?thesis by (meson converse_rtranclp_into_rtranclp)
  qed blast
qed

section \<open>Properties\<close>

text \<open>
  C29. However callers and workers interleave, at most \<^verbatim>\<open>taskPoolSize\<close> workers are
  between taking a token and giving it back: the pool bounds the concurrency.
\<close>

theorem tm_pool_bound:
  assumes "tm_reachable n m"
  shows "length (filter holding (workers m)) \<le> n"
  using tm_reachable_inv [OF assms] poolSize_reachable [OF assms] by (simp add: tm_inv_def)

definition ok_task :: TaskFunc where
  "ok_task out \<longleftrightarrow> out = Returns None"

lemma reachable_submit: "tm_reachable n (Submit False ok_task i (taskManagerInit n))"
  by (intro tm_next [OF tm_start] tm_submit) (simp add: taskManagerInit_def)

lemmas tm_eval = taskManagerInit_def Submit_def acquire_token_def send_result_def ok_task_def
  GetTaskResult_run Let_def

lemma reachable_running:
  "0 < n \<Longrightarrow> tm_reachable n (the (acquire_token 0 (Submit False ok_task i (taskManagerInit n))))"
  by (intro tm_next [OF reachable_submit] tm_acquire [of 0])
    (simp add: taskManagerInit_def Submit_def acquire_token_def)

theorem tm_pool_bound_witness:
  "length (filter holding
     (workers (the (acquire_token 0 (Submit False ok_task ''a'' (taskManagerInit 1)))))) \<le> 1"
  using tm_pool_bound [OF reachable_running [of 1 "''a''"]] by simp

text \<open>
  Once a poll has returned a result, no interleaving of submissions, polls, worker
  actions and cleanups can make a later poll answer anything else: it is the same
  result, or the task has been cleaned and the poll says it does not exist.
\<close>

theorem tm_result_stable:
  assumes reach: "tm_reachable n m" and got: "fst (GetTaskResult taskId m) = Inr (Some r)"
    and later: "tm_step\<^sup>*\<^sup>* m m'"
  shows "fst (GetTaskResult taskId m') = Inr (Some r) \<or>
         fst (GetTaskResult taskId m') = Inl (task_not_exists taskId)"
proof -
  from reach have inv: "tm_inv m" by (rule tm_reachable_inv)
  with got obtain i where i: "ResultMap m taskId = Some i" "wres (workers m ! i) = Some r"
    by (auto simp: poll_cases split: option.splits)
  then have e: "i < length (workers m)" "wid (workers m ! i) = taskId"
    using inv by (auto dest: tm_inv_entry simp: entry_ok_def)
  with tm_steps_workers [OF later inv] i have
    inv': "tm_inv m'" and i': "i < length (workers m')" "wid (workers m' ! i) = taskId"
      "wres (workers m' ! i) = Some r"
    by auto
  show ?thesis
  proof (cases "ResultMap m' taskId")
    case None
    with inv' show ?thesis by (simp add: poll_missing)
  next
    case (Some j)
    with inv' have "j < length (workers m')" "wid (workers m' ! j) = taskId"
      by (auto dest: tm_inv_entry simp: entry_ok_def)
    with i' inv' have "j = i" by (auto intro: tm_inv_distinct)
    with Some inv' i' show ?thesis by (simp add: poll_value)
  qed
qed

definition done_example :: TaskManager where
  "done_example = the (send_result 0 (Returns None)
     (the (acquire_token 0 (Submit False ok_task ''a'' (taskManagerInit 1)))))"

lemma reachable_done_example: "tm_reachable 1 done_example"
  unfolding done_example_def
  by (rule tm_next [OF reachable_running tm_send [of 0 "Returns None"]]) (simp_all add: tm_eval)

theorem tm_result_stable_witness:
  "fst (GetTaskResult ''a'' (snd (GetTaskResult ''a'' done_example))) =
     Inr (Some \<lparr>ResStatus = Successful, ResError = None\<rparr>)"
proof -
  have got: "fst (GetTaskResult ''a'' done_example) =
      Inr (Some \<lparr>ResStatus = Successful, ResError = None\<rparr>)"
    by (simp add: done_example_def tm_eval)
  have "tm_step\<^sup>*\<^sup>* done_example (snd (GetTaskResult ''a'' done_example))"
    by (intro r_into_rtranclp tm_poll)
  from tm_result_stable [OF reachable_done_example got this] show ?thesis
    by (simp add: done_example_def tm_eval)
qed

text \<open>
  The pool never deadlocks: from every reachable state in which each submitted
  function can end, with a pool of at least one token, the workers can run until every
  one of them has sent its result, given its token back and closed its channel.
\<close>

theorem tm_workers_finish:
  assumes "tm_reachable n m" and "0 < n" and "all_total m"
  shows "\<exists>m'. worker_step\<^sup>*\<^sup>* m m' \<and> (\<forall>w \<in> set (workers m'). wpc w = Done) \<and>
    length (workers m') = length (workers m)"
proof -
  have "0 < poolSize m" using poolSize_reachable [OF assms(1)] assms(2) by simp
  from workers_finish [OF tm_reachable_inv [OF assms(1)] this assms(3)]
  obtain m' where m': "worker_step\<^sup>*\<^sup>* m m'" "\<forall>w \<in> set (workers m'). wpc w = Done"
    by blast
  from m'(1) have "length (workers m') = length (workers m)"
    by (induction rule: rtranclp_induct) (auto elim!: worker_step_effect)
  with m' show ?thesis by blast
qed

theorem tm_workers_finish_witness:
  "\<exists>m'. worker_step\<^sup>*\<^sup>* (Submit False ok_task ''a'' (taskManagerInit 1)) m' \<and>
    (\<forall>w \<in> set (workers m'). wpc w = Done) \<and> length (workers m') = 1"
  using tm_workers_finish [OF reachable_submit [of 1 "''a''"]]
  by (simp add: all_total_def Submit_def taskManagerInit_def ok_task_def)

text \<open>
  The debug counter is not balanced: \<^verbatim>\<open>Submit\<close> counts when the configuration
  flag \<^verbatim>\<open>debugTask\<close> is set and \<^verbatim>\<open>CleanTaskResult\<close> counts down when the environment
  variable \<^verbatim>\<open>DEBUG_TASK\<close> is. With only the variable set, one task submitted and cleaned
  leaves the unsigned counter at its maximum.
\<close>

theorem tm_worker_count_wraps:
  "workerCount (CleanTaskResult True i (Submit False f i (taskManagerInit n))) = - 1 \<and>
   unat (workerCount (CleanTaskResult True i (Submit False f i (taskManagerInit n)))) = 2 ^ 32 - 1"
proof -
  have "workerCount (CleanTaskResult True i (Submit False f i (taskManagerInit n))) = - 1"
    by (simp add: CleanTaskResult_run Submit_def taskManagerInit_def)
  moreover have "unat (- 1 :: 32 word) = 2 ^ 32 - 1"
    by (simp add: unsigned_minus_1_eq_mask mask_eq_exp_minus_1)
  ultimately show ?thesis by (simp only:)
qed

end
