(* ===== verification/Coordinator.thy ===== *)
theory Coordinator
  imports Task_Manager
begin

text \<open>
  \<^verbatim>\<open>pkg/coordinator\<close>: the resource manager interface, the coordinator's
  configuration, \<^verbatim>\<open>executeTaskFlow\<close>, \<^verbatim>\<open>cleanTaskResultMap\<close> and \<^verbatim>\<open>Coordinate\<close>, one
  reconcile of one resource. A value-level specification of \<^verbatim>\<open>executeTaskFlow\<close>,
  free of pointers, follows, with the proof that every resource manager that keeps
  the interface's contract (locale \<open>flow_manager\<close>) makes the code refine it.
\<close>

section \<open>Configuration\<close>

text \<open>A \<^verbatim>\<open>time.Duration\<close> is an int64 count of nanoseconds.\<close>

type_synonym Duration = "64 word"

definition Second :: Duration where
  "Second = 1000000000"

record config =
  NormalRequeueDuration :: Duration
  ExecutionRequeueDuration :: Duration
  PausedRequeueDuration :: Duration
  TaskMaxRetryTimes :: int
  TaskRetryBackoffThreshold :: int
  PauseAnnotation :: string
  IgnoreDeletionAnnotation :: string

text \<open>The initial value of \<^verbatim>\<open>cfg\<close>, and its value once \<^verbatim>\<open>cmd/operator\<close> has called the setters.\<close>

definition default_cfg :: config where
  "default_cfg =
     \<lparr>NormalRequeueDuration = 30 * Second, ExecutionRequeueDuration = 1 * Second,
      PausedRequeueDuration = 5 * Second, TaskMaxRetryTimes = 99,
      TaskRetryBackoffThreshold = 16, PauseAnnotation = [], IgnoreDeletionAnnotation = []\<rparr>"

definition operator_cfg :: "int \<Rightarrow> int \<Rightarrow> config" where
  "operator_cfg maxRetry threshold =
     default_cfg\<lparr>TaskMaxRetryTimes := maxRetry, TaskRetryBackoffThreshold := threshold,
       IgnoreDeletionAnnotation := AnnotationsIgnoreDeletion,
       PauseAnnotation := AnnotationsPauseReconciling\<rparr>"

section \<open>The resource manager interface\<close>

text \<open>
  A \<^verbatim>\<open>TaskFlow\<close> is a struct with one field, the pointer to its operation context.
  Methods that dereference the resource's operation context take the heap.
  \<^verbatim>\<open>PrintErrEvent\<close> only records a Kubernetes event and is left out.
\<close>

type_synonym TaskFlow = "addr option"

record 'r ResourceManager =
  GetMeta :: "'r \<Rightarrow> ObjectMeta"
  GetStatus :: "'r \<Rightarrow> string"
  InitStatus :: "'r \<Rightarrow> 'r option"
  SetOperationContext :: "addr option \<Rightarrow> 'r \<Rightarrow> 'r"
  ClearTaskInfo :: "'r \<Rightarrow> 'r"
  HandleFailure :: "ctx_heap \<Rightarrow> 'r \<Rightarrow> (ctx_heap \<times> 'r) option"
  FinishTask :: "ctx_heap \<Rightarrow> 'r \<Rightarrow> 'r option"
  GetTaskFunc :: "TaskName \<Rightarrow> 'r \<Rightarrow> TaskFunc result"
  GetTaskFlow :: "ctx_heap \<Rightarrow> 'r \<Rightarrow> (ctx_heap \<times> TaskFlow option result) option"
  CheckAndUpdateFinalizers :: "'r \<Rightarrow> 'r \<times> error option"
  UpdateStatus :: "'r \<Rightarrow> ('r \<times> error option) option"
  ArchiveResource :: "'r \<Rightarrow> 'r"

text \<open>What one reconcile works on: the contexts in memory, the resource, the task manager.\<close>

record 'r world =
  ctxs :: ctx_heap
  res :: 'r
  tm :: TaskManager

text \<open>Writing through the flow's pointer.\<close>

definition put_ctx :: "TaskFlow \<Rightarrow> OperationContext \<Rightarrow> ctx_heap \<Rightarrow> ctx_heap" where
  "put_ctx f c h = (case f of None \<Rightarrow> h | Some a \<Rightarrow> h[a := c])"

lemma put_ctx_Some [simp]: "put_ctx (Some a) c h = h[a := c]"
  by (simp add: put_ctx_def)

section \<open>Executing the current step of a flow\<close>

text \<open>
  The argument \<open>taskId\<close> is the UUID a submission in this step gets, \<open>dbg\<close> the task
  manager's debug flag.
\<close>

definition executeTaskFlow ::
  "config \<Rightarrow> bool \<Rightarrow> 'r ResourceManager \<Rightarrow> TaskID \<Rightarrow> TaskFlow \<Rightarrow> 'r world \<Rightarrow> 'r world option" where
  "executeTaskFlow cfg dbg M taskId f w = do {
     c \<leftarrow> deref (ctxs w) f;
     (case TaskStatus c of
        Empty \<Rightarrow>
          if \<not> HasNext c then Some (w\<lparr>res := ClearTaskInfo M (res w)\<rparr>)
          else Some (w\<lparr>ctxs := put_ctx f (NextTask c) (ctxs w)\<rparr>)
      | Pending \<Rightarrow>
          (case GetTaskFunc M (Task c) (res w) of
             Inl err \<Rightarrow> Some w
           | Inr taskFunc \<Rightarrow>
               Some (w\<lparr>tm := Submit dbg taskFunc taskId (tm w),
                       ctxs := put_ctx f (c\<lparr>TaskId := taskId, TaskStatus := Running\<rparr>) (ctxs w)\<rparr>))
      | Running \<Rightarrow>
          (case GetTaskResult (TaskId c) (tm w) of
             (Inl err, t) \<Rightarrow>
               Some (w\<lparr>tm := t, ctxs := put_ctx f (c\<lparr>TaskStatus := Failed\<rparr>) (ctxs w)\<rparr>)
           | (Inr None, t) \<Rightarrow> Some (w\<lparr>tm := t\<rparr>)
           | (Inr (Some r), t) \<Rightarrow>
               Some (w\<lparr>tm := t, ctxs := put_ctx f (c\<lparr>TaskStatus := ResStatus r\<rparr>) (ctxs w)\<rparr>))
      | Successful \<Rightarrow>
          if \<not> HasNext c then do { r \<leftarrow> FinishTask M (ctxs w) (res w); Some (w\<lparr>res := r\<rparr>) }
          else Some (w\<lparr>ctxs := put_ctx f (NextTask c) (ctxs w)\<rparr>)
      | Failed \<Rightarrow>
          (if Strategy (OnFailure c) = RetryFromCurrent \<or> Strategy (OnFailure c) = StartOver then
             let maxRetry = (if MaxRetry (OnFailure c) \<noteq> 0 then MaxRetry (OnFailure c)
                             else TaskMaxRetryTimes cfg)
             in if maxRetry < RetryCount (OnFailure c)
                then Some (w\<lparr>res := ArchiveResource M (res w)\<rparr>)
                else do {
                  (h, r) \<leftarrow> HandleFailure M (ctxs w) (res w);
                  c' \<leftarrow> deref h f;
                  let rule = OnFailure c';
                  Some (w\<lparr>res := r,
                    ctxs := put_ctx f (c'\<lparr>OnFailure := rule\<lparr>RetryCount := RetryCount rule + 1\<rparr>\<rparr>) h\<rparr>)
                }
           else do {
             (h, r) \<leftarrow> HandleFailure M (ctxs w) (res w);
             Some (w\<lparr>res := r, ctxs := h\<rparr>)
           })
      | OtherStatus _ \<Rightarrow> Some w) }"

definition cleanTaskResultMap ::
  "bool \<Rightarrow> TaskFlow option \<Rightarrow> ctx_heap \<Rightarrow> TaskManager \<Rightarrow> TaskManager" where
  "cleanTaskResultMap dbgEnv f h t =
     (case f of None \<Rightarrow> t | Some p \<Rightarrow>
       (case deref h p of None \<Rightarrow> t | Some c \<Rightarrow>
          if TaskStatus c = Successful \<or> TaskStatus c = Failed
          then CleanTaskResult dbgEnv (TaskId c) t else t))"

section \<open>One reconcile\<close>

text \<open>\<^verbatim>\<open>d * (1 << k)\<close> on durations: wrapping, zero for large counts, a panic for negative ones.\<close>

definition backoff :: "Duration \<Rightarrow> int \<Rightarrow> Duration option" where
  "backoff d k = (if k < 0 then None else Some (d * push_bit (nat k) 1))"

text \<open>
  The first half of \<^verbatim>\<open>Coordinate\<close>, up to the deletion handling: \<open>Inl\<close> is an early
  return, \<open>Inr\<close> carries on with the requeue duration and the flow.
\<close>

definition coordinate_flow ::
  "config \<Rightarrow> bool \<Rightarrow> 'r ResourceManager \<Rightarrow> TaskID \<Rightarrow> 'r world \<Rightarrow>
     ((Duration \<times> error option) \<times> 'r world + (Duration \<times> TaskFlow option) \<times> 'r world) option" where
  "coordinate_flow cfg dbg M taskId w =
     (if GetStatus M (res w) = [] then do {
        r \<leftarrow> InitStatus M (res w);
        Some (Inr ((ExecutionRequeueDuration cfg, None), w\<lparr>res := r\<rparr>))
      }
      else if dict_get (Annotations (GetMeta M (res w))) (PauseAnnotation cfg) = ''true''
      then Some (Inl ((PausedRequeueDuration cfg, None), w))
      else do {
        (h, flow) \<leftarrow> GetTaskFlow M (ctxs w) (res w);
        (case flow of
           Inl err \<Rightarrow>
             Some (Inl ((ExecutionRequeueDuration cfg, Some (wrap ''Get task flow'' err)), w\<lparr>ctxs := h\<rparr>))
         | Inr None \<Rightarrow> Some (Inr ((NormalRequeueDuration cfg, None), w\<lparr>ctxs := h\<rparr>))
         | Inr (Some f) \<Rightarrow> do {
             w' \<leftarrow> executeTaskFlow cfg dbg M taskId f
                (w\<lparr>ctxs := h, res := SetOperationContext M f (res w)\<rparr>);
             c \<leftarrow> deref (ctxs w') f;
             d \<leftarrow> (if 0 < RetryCount (OnFailure c) \<and> TaskStatus c = Failed
                  then backoff (ExecutionRequeueDuration cfg)
                         (Min_go (RetryCount (OnFailure c)) (TaskRetryBackoffThreshold cfg))
                  else Some (ExecutionRequeueDuration cfg));
             Some (Inr ((d, Some f), w'))
           })
      })"

text \<open>The second half: deletion, cleanup of the finished task, status update, requeue.\<close>

definition coordinate_finish ::
  "config \<Rightarrow> bool \<Rightarrow> 'r ResourceManager \<Rightarrow> string \<Rightarrow> Duration \<Rightarrow> TaskFlow option \<Rightarrow> 'r world \<Rightarrow>
     ((Duration \<times> error option) \<times> 'r world) option" where
  "coordinate_finish cfg dbgEnv M beforeStatus d f w =
     (let deleting = (DeletionTimestamp (GetMeta M (res w)) \<noteq> None \<and>
            dict_get (Annotations (GetMeta M (res w))) (IgnoreDeletionAnnotation cfg) \<noteq> ''true'');
          (r1, ferr) = (if deleting then CheckAndUpdateFinalizers M (res w) else (res w, None));
          d1 = (if deleting then ExecutionRequeueDuration cfg else d)
      in case ferr of
           Some e \<Rightarrow>
             Some ((d, Some (wrap ''Check and update finalizer failed'' e)), w\<lparr>res := r1\<rparr>)
         | None \<Rightarrow> do {
             let t = cleanTaskResultMap dbgEnv f (ctxs w) (tm w);
             (r2, err) \<leftarrow> UpdateStatus M r1;
             let d2 = (if GetStatus M r2 \<noteq> beforeStatus then ExecutionRequeueDuration cfg else d1);
             Some ((d2, err), w\<lparr>res := r2, tm := t\<rparr>)
           })"

definition Coordinate ::
  "config \<Rightarrow> bool \<Rightarrow> bool \<Rightarrow> 'r ResourceManager \<Rightarrow> TaskID \<Rightarrow> 'r world \<Rightarrow>
     ((Duration \<times> error option) \<times> 'r world) option" where
  "Coordinate cfg dbg dbgEnv M taskId w = do {
     first \<leftarrow> coordinate_flow cfg dbg M taskId w;
     (case first of
        Inl result \<Rightarrow> Some result
      | Inr ((d, f), w') \<Rightarrow> coordinate_finish cfg dbgEnv M (GetStatus M (res w)) d f w') }"

section \<open>Specification of a step, without pointers\<close>

text \<open>
  The operation context the flow points to and the one the resource's status points to
  are one object until a handler sets the status field to nil; writes through the flow
  then no longer reach the resource. The specification says what this amounts to on
  the pair of the resource's status and its operation context (if any). What the
  outside contributes to a step is whether the task has a function, what a poll of the
  task manager answers, and the id of a new submission.
\<close>

record step_env =
  found :: bool
  polled :: "TaskResult option result"
  new_id :: TaskID

definition max_retry :: "config \<Rightarrow> OperationContext \<Rightarrow> int" where
  "max_retry cfg c = (if MaxRetry (OnFailure c) \<noteq> 0 then MaxRetry (OnFailure c) else TaskMaxRetryTimes cfg)"

definition limited :: "OperationContext \<Rightarrow> bool" where
  "limited c \<longleftrightarrow> Strategy (OnFailure c) = RetryFromCurrent \<or> Strategy (OnFailure c) = StartOver"

definition count_retry :: "OperationContext \<Rightarrow> OperationContext" where
  "count_retry c = c\<lparr>OnFailure := (OnFailure c)\<lparr>RetryCount := RetryCount (OnFailure c) + 1\<rparr>\<rparr>"

type_synonym flow_state = "string \<times> OperationContext option"

text \<open>
  \<open>cleared\<close> and \<open>archived\<close> are the statuses \<^verbatim>\<open>ClearTaskInfo\<close> and
  \<^verbatim>\<open>ArchiveResource\<close> set, \<open>failure\<close> is the effect of \<^verbatim>\<open>HandleFailure\<close>.
\<close>

definition spec_step ::
  "config \<Rightarrow> string \<Rightarrow> string \<Rightarrow> (string \<Rightarrow> OperationContext \<Rightarrow> flow_state) \<Rightarrow> step_env \<Rightarrow>
     string \<Rightarrow> OperationContext \<Rightarrow> flow_state" where
  "spec_step cfg cleared archived failure e s c =
     (case TaskStatus c of
        Empty \<Rightarrow> if HasNext c then (s, Some (NextTask c)) else (cleared, None)
      | Pending \<Rightarrow>
          (s, Some (if found e then c\<lparr>TaskId := new_id e, TaskStatus := Running\<rparr> else c))
      | Running \<Rightarrow>
          (s, Some (case polled e of
             Inl _ \<Rightarrow> c\<lparr>TaskStatus := Failed\<rparr>
           | Inr None \<Rightarrow> c
           | Inr (Some r) \<Rightarrow> c\<lparr>TaskStatus := ResStatus r\<rparr>))
      | Successful \<Rightarrow> if HasNext c then (s, Some (NextTask c)) else (TargetStatus c, None)
      | Failed \<Rightarrow>
          if limited c
          then if max_retry cfg c < RetryCount (OnFailure c) then (archived, None)
               else (fst (failure s c), map_option count_retry (snd (failure s c)))
          else failure s c
      | OtherStatus _ \<Rightarrow> (s, Some c))"

definition flow_view :: "'r ResourceManager \<Rightarrow> ('r \<Rightarrow> addr option) \<Rightarrow> 'r world \<Rightarrow> flow_state" where
  "flow_view M ctx_of w = (GetStatus M (res w), deref (ctxs w) (ctx_of (res w)))"

text \<open>
  A manager simulates the specification: on a resource whose flow is in progress,
  \<^verbatim>\<open>executeTaskFlow\<close> does not panic, and what it does to status and context is the step of the
  specification for what the outside contributes.
\<close>

definition simulates_spec ::
  "'r ResourceManager \<Rightarrow> ('r \<Rightarrow> addr option) \<Rightarrow> string \<Rightarrow> string \<Rightarrow>
     ('r \<Rightarrow> string \<Rightarrow> OperationContext \<Rightarrow> flow_state) \<Rightarrow> bool" where
  "simulates_spec M ctx_of cleared archived failure \<longleftrightarrow>
     (\<forall>cfg dbg taskId w a. ctx_of (res w) = Some a \<and> a < length (ctxs w) \<longrightarrow>
        (\<exists>w'. executeTaskFlow cfg dbg M taskId (Some a) w = Some w' \<and> length (ctxs w') = length (ctxs w) \<and>
           flow_view M ctx_of w' = spec_step cfg cleared archived (failure (res w))
             \<lparr>found = (\<exists>fn. GetTaskFunc M (Task (ctxs w ! a)) (res w) = Inr fn),
              polled = fst (GetTaskResult (TaskId (ctxs w ! a)) (tm w)), new_id = taskId\<rparr>
             (GetStatus M (res w)) (ctxs w ! a)))"

text \<open>
  The contract of a resource manager. \<open>ctx_of\<close> reads the pointer
  \<^verbatim>\<open>Status.OperationContext\<close>; \<open>failure r\<close> is what \<^verbatim>\<open>HandleFailure\<close> does to
  status and context, which may depend on whether \<open>r\<close> is being deleted.
\<close>

locale flow_manager =
  fixes M :: "'r ResourceManager"
    and ctx_of :: "'r \<Rightarrow> addr option"
    and cleared archived :: string
    and failure :: "'r \<Rightarrow> string \<Rightarrow> OperationContext \<Rightarrow> flow_state"
  assumes set_ctx [simp]: "ctx_of (SetOperationContext M p r) = p"
    and set_status [simp]: "GetStatus M (SetOperationContext M p r) = GetStatus M r"
    and clear_ctx [simp]: "ctx_of (ClearTaskInfo M r) = None"
    and clear_status [simp]: "GetStatus M (ClearTaskInfo M r) = cleared"
    and archive_ctx [simp]: "ctx_of (ArchiveResource M r) = None"
    and archive_status [simp]: "GetStatus M (ArchiveResource M r) = archived"
    and finish: "ctx_of r = Some a \<Longrightarrow> a < length h \<Longrightarrow>
      \<exists>r'. FinishTask M h r = Some r' \<and> ctx_of r' = None \<and> GetStatus M r' = TargetStatus (h ! a)"
    and handle: "ctx_of r = Some a \<Longrightarrow> a < length h \<Longrightarrow>
      \<exists>h' r'. HandleFailure M h r = Some (h', r') \<and>
        GetStatus M r' = fst (failure r (GetStatus M r) (h ! a)) \<and>
        (case snd (failure r (GetStatus M r) (h ! a)) of
           None \<Rightarrow> ctx_of r' = None \<and> h' = h
         | Some c \<Rightarrow> ctx_of r' = Some a \<and> h' = h[a := c])"
begin

lemma failed_refines:
  assumes a: "ctx_of (res w) = Some a" "a < length (ctxs w)"
    and failed: "TaskStatus (ctxs w ! a) = Failed"
  shows "\<exists>w'. executeTaskFlow cfg dbg M taskId (Some a) w = Some w' \<and>
    length (ctxs w') = length (ctxs w) \<and> tm w' = tm w \<and>
    flow_view M ctx_of w' = spec_step cfg cleared archived (failure (res w)) e
      (GetStatus M (res w)) (ctxs w ! a)"
proof -
  let ?c = "ctxs w ! a"
  let ?f = "failure (res w) (GetStatus M (res w)) ?c"
  from handle [OF a] obtain h' r' where hf: "HandleFailure M (ctxs w) (res w) = Some (h', r')"
      "GetStatus M r' = fst ?f"
    and ptr: "case snd ?f of None \<Rightarrow> ctx_of r' = None \<and> h' = ctxs w
       | Some c \<Rightarrow> ctx_of r' = Some a \<and> h' = (ctxs w)[a := c]"
    by blast
  then have len: "length h' = length (ctxs w)" by (auto split: option.splits)
  show ?thesis
  proof (cases "limited ?c")
    case True
    then show ?thesis
      using a failed hf ptr len
      by (auto simp: executeTaskFlow_def spec_step_def flow_view_def limited_def max_retry_def
          count_retry_def Let_def split: option.splits)
  next
    case False
    then show ?thesis
      using a failed hf ptr len
      by (auto simp: executeTaskFlow_def spec_step_def flow_view_def limited_def
          prod_eq_iff split: option.splits)
  qed
qed

lemma execute_refines:
  assumes a: "ctx_of (res w) = Some a" "a < length (ctxs w)"
    and found: "found e \<longleftrightarrow> (\<exists>fn. GetTaskFunc M (Task (ctxs w ! a)) (res w) = Inr fn)"
    and polled: "polled e = fst (GetTaskResult (TaskId (ctxs w ! a)) (tm w))"
    and new_id: "new_id e = taskId"
  shows "\<exists>w'. executeTaskFlow cfg dbg M taskId (Some a) w = Some w' \<and>
    length (ctxs w') = length (ctxs w) \<and>
    flow_view M ctx_of w' = spec_step cfg cleared archived (failure (res w)) e
      (GetStatus M (res w)) (ctxs w ! a)"
proof (cases "TaskStatus (ctxs w ! a)")
  case Failed
  then show ?thesis using failed_refines [OF a] by blast
next
  case Successful
  then show ?thesis
    using a finish [OF a] by (auto simp: executeTaskFlow_def spec_step_def flow_view_def)
next
  case Running
  then show ?thesis
    using a polled
    by (cases "GetTaskResult (TaskId (ctxs w ! a)) (tm w)")
      (auto simp: executeTaskFlow_def spec_step_def flow_view_def split: sum.splits option.splits)
next
  case Pending
  then show ?thesis
    using a found new_id
    by (cases "GetTaskFunc M (Task (ctxs w ! a)) (res w)")
      (auto simp: executeTaskFlow_def spec_step_def flow_view_def)
qed (use a in \<open>auto simp: executeTaskFlow_def spec_step_def flow_view_def\<close>)

lemma simulates: "simulates_spec M ctx_of cleared archived failure"
  unfolding simulates_spec_def by (intro allI impI; rule execute_refines) auto

end

end
