(* ===== verification/Task_Builder.thy ===== *)
theory Task_Builder
  imports Coordinator
begin

text \<open>
  \<^verbatim>\<open>pkg/task/builder\<close> and \<^verbatim>\<open>pkg/task/registry.go\<close>: the task hub in which every
  resource package registers its task functions by name (\<^verbatim>\<open>taskMap\<close>), the registry of
  flows by name, and the flow builder, whose product shares the builder's operation
  context.
\<close>

section \<open>The task hub\<close>

type_synonym 'm TypedTaskFunc = "'m \<Rightarrow> TaskFunc"
type_synonym 'm TaskHub = "TaskName \<rightharpoonup> 'm TypedTaskFunc"

record 'm NamedTask =
  taskName :: TaskName
  fn :: "'m TypedTaskFunc"

definition NewTaskHub :: "'m TaskHub" where
  "NewTaskHub = Map.empty"

definition hub_Register :: "TaskName \<Rightarrow> 'm TypedTaskFunc \<Rightarrow> 'm TaskHub \<Rightarrow> 'm TaskHub" where
  "hub_Register name taskFunc t = t(name \<mapsto> taskFunc)"

definition hub_Build ::
  "TaskName \<Rightarrow> 'm TypedTaskFunc \<Rightarrow> 'm TaskHub \<Rightarrow> 'm TaskHub \<times> 'm NamedTask" where
  "hub_Build name taskFunc t =
     (hub_Register name taskFunc t, \<lparr>taskName = name, fn = taskFunc\<rparr>)"

definition GetTypedTask :: "'m TaskHub \<Rightarrow> TaskName \<Rightarrow> 'm TypedTaskFunc result" where
  "GetTypedTask t name =
     (case t name of
        None \<Rightarrow> Inl (OtherError (''Task not found: '' @ name))
      | Some task \<Rightarrow> Inr task)"

definition GetTask :: "'m TaskHub \<Rightarrow> TaskName \<Rightarrow> 'm \<Rightarrow> TaskFunc result" where
  "GetTask t name resource =
     (case GetTypedTask t name of Inl err \<Rightarrow> Inl err | Inr task \<Rightarrow> Inr (task resource))"

text \<open>
  The generated \<^verbatim>\<open>init\<close> of a resource package registers its tasks one after another;
  \<open>body\<close> gives the function registered under each name.
\<close>

primrec register_all ::
  "(TaskName \<Rightarrow> 'm TypedTaskFunc) \<Rightarrow> TaskName list \<Rightarrow> 'm TaskHub \<Rightarrow> 'm TaskHub" where
  "register_all body [] t = t"
| "register_all body (n # ns) t = register_all body ns (hub_Register n (body n) t)"

lemma register_all_lookup:
  "register_all body ns t n = (if n \<in> set ns then Some (body n) else t n)"
  by (induction ns arbitrary: t) (auto simp: hub_Register_def)

lemma GetTask_register_all:
  "GetTask (register_all body ns NewTaskHub) n r =
     (if n \<in> set ns then Inr (body n r) else Inl (OtherError (''Task not found: '' @ n)))"
  by (simp add: GetTask_def GetTypedTask_def register_all_lookup NewTaskHub_def)

section \<open>The flow registry\<close>

text \<open>A registered function builds a flow, which allocates its context. Registering twice panics.\<close>

type_synonym flow_func = "ctx_heap \<Rightarrow> ctx_heap \<times> TaskFlow"
type_synonym Registry = "FlowName \<rightharpoonup> flow_func"

definition registry_Register :: "FlowName \<Rightarrow> flow_func \<Rightarrow> Registry \<Rightarrow> Registry option" where
  "registry_Register name f r = (case r name of Some _ \<Rightarrow> None | None \<Rightarrow> Some (r(name \<mapsto> f)))"

definition registry_Get :: "Registry \<Rightarrow> FlowName \<Rightarrow> ctx_heap \<Rightarrow> ctx_heap \<times> TaskFlow result" where
  "registry_Get r name h =
     (case r name of
        None \<Rightarrow> (h, Inl (OtherError (''Task flow '' @ name @ '' not registered'')))
      | Some f \<Rightarrow> (case f h of (h', flow) \<Rightarrow> (h', Inr flow)))"

section \<open>The flow builder\<close>

text \<open>A builder is a pointer to the context it fills in; its methods write through it.\<close>

type_synonym flowBuilder = addr

definition NewFlowBuilder :: "FlowName \<Rightarrow> ctx_heap \<Rightarrow> ctx_heap \<times> flowBuilder" where
  "NewFlowBuilder name h = alloc h (new_context name [] [] zero_rule)"

definition on_ctx :: "(OperationContext \<Rightarrow> OperationContext) \<Rightarrow> flowBuilder \<Rightarrow> ctx_heap \<Rightarrow> ctx_heap" where
  "on_ctx f b h = h[b := f (h ! b)]"

definition on_rule :: "(FailureRule \<Rightarrow> FailureRule) \<Rightarrow> OperationContext \<Rightarrow> OperationContext" where
  "on_rule f c = c\<lparr>OnFailure := f (OnFailure c)\<rparr>"

definition Step :: "TaskName \<Rightarrow> flowBuilder \<Rightarrow> ctx_heap \<Rightarrow> ctx_heap" where
  "Step task = on_ctx (\<lambda>c. c\<lparr>Tasks := Tasks c @ [task]\<rparr>)"

definition Steps :: "TaskName list \<Rightarrow> flowBuilder \<Rightarrow> ctx_heap \<Rightarrow> ctx_heap" where
  "Steps tasks = on_ctx (\<lambda>c. c\<lparr>Tasks := Tasks c @ tasks\<rparr>)"

definition To :: "string \<Rightarrow> flowBuilder \<Rightarrow> ctx_heap \<Rightarrow> ctx_heap" where
  "To status = on_ctx (\<lambda>c. c\<lparr>TargetStatus := status\<rparr>)"

definition FailedTo :: "string \<Rightarrow> flowBuilder \<Rightarrow> ctx_heap \<Rightarrow> ctx_heap" where
  "FailedTo status = on_ctx (on_rule (\<lambda>r. r\<lparr>NextTryStatus := status\<rparr>))"

definition RetryStrategy :: "TaskFailureStrategy \<Rightarrow> flowBuilder \<Rightarrow> ctx_heap \<Rightarrow> ctx_heap" where
  "RetryStrategy strategy = on_ctx (on_rule (\<lambda>r. r\<lparr>Strategy := strategy\<rparr>))"

definition builder_MaxRetry :: "int \<Rightarrow> flowBuilder \<Rightarrow> ctx_heap \<Rightarrow> ctx_heap" where
  "builder_MaxRetry m = on_ctx (on_rule (\<lambda>r. r\<lparr>MaxRetry := m\<rparr>))"

definition with_defaults :: "OperationContext \<Rightarrow> OperationContext" where
  "with_defaults c =
     (let c1 = (if TargetStatus c = [] then c\<lparr>TargetStatus := ''running''\<rparr> else c);
          c2 = (if Strategy (OnFailure c1) = NoStrategy
                then on_rule (\<lambda>r. r\<lparr>Strategy := StartOver\<rparr>) c1 else c1);
          c3 = (if MaxRetry (OnFailure c2) = 0 then on_rule (\<lambda>r. r\<lparr>MaxRetry := 32\<rparr>) c2 else c2)
      in if NextTryStatus (OnFailure c3) = []
         then on_rule (\<lambda>r. r\<lparr>NextTryStatus := ''failed''\<rparr>) c3 else c3)"

definition BuildFlow :: "flowBuilder \<Rightarrow> ctx_heap \<Rightarrow> ctx_heap \<times> TaskFlow" where
  "BuildFlow b h = (on_ctx with_defaults b h, Some b)"

text \<open>
  A generator without an explicit generating function builds from the builder on every
  call.
\<close>

definition BuildGenerator ::
  "('m \<Rightarrow> ctx_heap \<Rightarrow> ctx_heap \<times> TaskFlow) option \<Rightarrow> flowBuilder \<Rightarrow> 'm \<Rightarrow> ctx_heap \<Rightarrow> ctx_heap \<times> TaskFlow" where
  "BuildGenerator gen b =
     (case gen of Some g \<Rightarrow> g | None \<Rightarrow> (\<lambda>_ h. BuildFlow b h))"

primrec NamedTaskSteps :: "'m NamedTask list \<Rightarrow> flowBuilder \<Rightarrow> ctx_heap \<Rightarrow> ctx_heap" where
  "NamedTaskSteps [] b h = h"
| "NamedTaskSteps (n # ns) b h = NamedTaskSteps ns b (Step (taskName n) b h)"

lemmas builder_defs = Step_def Steps_def To_def FailedTo_def RetryStrategy_def builder_MaxRetry_def
  on_ctx_def on_rule_def

lemma NamedTaskSteps_Steps:
  "b < length h \<Longrightarrow> NamedTaskSteps ns b h = Steps (map taskName ns) b h"
  by (induction ns arbitrary: h) (simp_all add: builder_defs)

lemma on_rule_simps [simp]:
  "OnFailure (on_rule f c) = f (OnFailure c)" "Tasks (on_rule f c) = Tasks c"
  "TargetStatus (on_rule f c) = TargetStatus c" "TaskStatus (on_rule f c) = TaskStatus c"
  "Idx (on_rule f c) = Idx c" "FlowName (on_rule f c) = FlowName c"
  by (simp_all add: on_rule_def)

lemma with_defaults_frame [simp]:
  "Tasks (with_defaults c) = Tasks c" "Idx (with_defaults c) = Idx c"
  "TaskStatus (with_defaults c) = TaskStatus c"
  by (simp_all add: with_defaults_def Let_def)

section \<open>Properties\<close>

text \<open>
  A hub filled by a package's generated registrations resolves exactly the
  registered names, each to the function registered under it, applied to the resource;
  every other name is an error.
\<close>

theorem hub_resolves_registered:
  "GetTask (register_all body ns NewTaskHub) n r =
     (if n \<in> set ns then Inr (body n r) else Inl (OtherError (''Task not found: '' @ n)))"
  by (rule GetTask_register_all)

text \<open>
  A generator made by the flow builder hands out one operation context: a later call
  returns the same pointer, and what a caller did with the first flow in between (here
  taking its first task) is what the later call returns, not a fresh flow.
\<close>

theorem generator_shares_context:
  assumes "b < length h" and "HasNext (h ! b)" and "BuildGenerator None b r h = (h1, f1)"
    and "h2 = put_ctx f1 (NextTask (h1 ! b)) h1" and "BuildGenerator None b r' h2 = (h3, f2)"
  shows "f1 = f2 \<and> map_option Idx (deref h3 f2) = Some (Idx (h ! b) + 1)"
proof -
  have h1: "h1 = h[b := with_defaults (h ! b)]" and f: "f1 = Some b" "f2 = Some b"
    using assms(3,5) by (auto simp: BuildGenerator_def BuildFlow_def on_ctx_def)
  have next_task: "HasNext (h1 ! b)" using assms(1,2) h1 by (simp add: HasNext_def)
  have "h3 = h2[b := with_defaults (h2 ! b)]" "h2 ! b = NextTask (h1 ! b)" "length h2 = length h"
    using assms(1,4,5) h1 f by (auto simp: BuildGenerator_def BuildFlow_def on_ctx_def)
  with assms(1) h1 next_task f show ?thesis by (simp add: NextTask_HasNext)
qed

theorem generator_shares_context_witness:
  "map_option Idx (deref (fst (BuildGenerator None 0 () [NextTask (with_defaults
     (new_context ''flow'' [''a''] [] zero_rule))])) (Some 0)) = Some 1"
proof -
  let ?c = "new_context ''flow'' [''a''] [] zero_rule"
  let ?h2 = "[NextTask (with_defaults ?c)]"
  let ?h3 = "[with_defaults (NextTask (with_defaults ?c))]"
  have 1: "BuildGenerator None 0 () [?c] = ([with_defaults ?c], Some 0)"
    and 2: "BuildGenerator None 0 () ?h2 = (?h3, Some 0)"
    by (simp_all add: BuildGenerator_def BuildFlow_def on_ctx_def)
  show ?thesis
    using generator_shares_context [of 0 "[?c]" "()" "[with_defaults ?c]" "Some 0" ?h2 "()", OF _ _ 1 _ 2] 2
    by (simp add: HasNext_def)
qed

end
