(* ===== verification/API_Types.thy ===== *)
theory API_Types
  imports Task_Builder
begin

text \<open>
  The custom resources of \<^verbatim>\<open>api/v1alpha1\<close> and the structs of \<^verbatim>\<open>api/types\<close> that the
  cluster side of the operator works on. A field \<^verbatim>\<open>Spec.X\<close> of an OBCluster is
  \<open>ClusterSpec_X\<close>, a field \<^verbatim>\<open>Status.X\<close> is \<open>ClusterStatus_X\<close>, and likewise for the
  other kinds; \<^verbatim>\<open>Status.Status\<close> and \<^verbatim>\<open>Status.OperationContext\<close>, which every kind
  has, belong to the record \<open>Resource\<close> all of them extend. Struct pointers that the
  resource definitions require are plain values, optional ones are options.
\<close>

section \<open>Values\<close>

text \<open>
  Kubernetes API values that the operator only copies are opaque. A
  \<^verbatim>\<open>resource.Quantity\<close> counts as its numeric value, which is what \<^verbatim>\<open>Cmp\<close> compares
  and \<^verbatim>\<open>Add\<close> adds.
\<close>

type_synonym opaque = string
type_synonym Quantity = int

definition Cmp :: "Quantity \<Rightarrow> Quantity \<Rightarrow> int" where
  "Cmp a b = (if a < b then -1 else if a = b then 0 else 1)"

lemma Cmp_simps [simp]: "Cmp a b < 0 \<longleftrightarrow> a < b" "Cmp a b = 0 \<longleftrightarrow> a = b" "0 < Cmp a b \<longleftrightarrow> b < a"
  by (auto simp: Cmp_def)

record ResourceSpec =
  Cpu :: Quantity
  Memory :: Quantity

record StorageSpec =
  StorageClass :: string
  Size :: Quantity

record OceanbaseStorageSpec =
  DataStorage :: StorageSpec
  RedoLogStorage :: StorageSpec
  LogStorage :: StorageSpec

text \<open>Settings of the pods of servers, and the volumes of a pod.\<close>

record PodFieldsSpec =
  Field_SchedulerName :: "string option"
  Field_PriorityClassName :: "string option"
  Field_RuntimeClassName :: "string option"
  Field_PreemptionPolicy :: "string option"
  Field_Priority :: "int option"
  Field_SecurityContext :: "opaque option"
  Field_DNSPolicy :: "string option"
  Field_HostName :: "string option"
  Field_Subdomain :: "string option"
  Field_Labels :: "string \<rightharpoonup> string"
  Field_Annotations :: "string \<rightharpoonup> string"
  Field_ServiceAccountName :: "string option"

datatype VolumeSource = PersistentVolumeClaimSource string | OtherSource opaque

record PodVolume =
  Volume_Name :: string
  Volume_Source :: VolumeSource

record OBServerTemplate =
  Image :: string
  Template_Resource :: ResourceSpec
  Storage :: OceanbaseStorageSpec
  PodFields :: "PodFieldsSpec option"

record MonitorTemplate =
  Monitor_Image :: string
  Monitor_Resource :: ResourceSpec

record BackupVolumeSpec =
  Volume :: PodVolume

record OBZoneTopology =
  Zone :: string
  NodeSelector :: "(string \<times> string) list"
  Affinity :: "opaque option"
  Tolerations :: "opaque list"
  Replica :: int
  K8sCluster :: string
  Topology_OBServerTemplate :: "OBServerTemplate option"
  Topology_MonitorTemplate :: "MonitorTemplate option"

record Parameter =
  Param_Name :: string
  Param_Value :: string

record OBUserSecrets =
  Secret_Root :: string
  Secret_ProxyRO :: string
  Secret_Monitor :: string
  Secret_Operator :: string

record OBZoneReplicaStatus =
  ZoneReplica_Zone :: string
  ZoneReplica_Status :: string

record OBServerReplicaStatus =
  ServerReplica_Server :: string
  ServerReplica_Status :: string
  ServerReplica_ServiceIP :: string

definition OBServerReplicaStatus_GetConnectAddr :: "OBServerReplicaStatus \<Rightarrow> string" where
  "OBServerReplicaStatus_GetConnectAddr srs =
     (if ServerReplica_ServiceIP srs \<noteq> [] then ServerReplica_ServiceIP srs
      else ServerReplica_Server srs)"

section \<open>Status values\<close>

text \<open>The constants of \<^verbatim>\<open>internal/const/status\<close>.\<close>

abbreviation "clusterstatus_New \<equiv> ''new''"
abbreviation "clusterstatus_MigrateFromExisting \<equiv> ''migrate from existing''"
abbreviation "clusterstatus_Running \<equiv> ''running''"
abbreviation "clusterstatus_AddOBZone \<equiv> ''add obzone''"
abbreviation "clusterstatus_DeleteOBZone \<equiv> ''delete obzone''"
abbreviation "clusterstatus_ModifyOBZoneReplica \<equiv> ''modify obzone replica''"
abbreviation "clusterstatus_Upgrade \<equiv> ''upgrade''"
abbreviation "clusterstatus_ModifyOBParameter \<equiv> ''modify parameter''"
abbreviation "clusterstatus_Bootstrapped \<equiv> ''bootstrapped''"
abbreviation "clusterstatus_FinalizerFinished \<equiv> ''finalizer finished''"
abbreviation "clusterstatus_ScaleVertically \<equiv> ''scale vertically''"
abbreviation "clusterstatus_ExpandPVC \<equiv> ''expand pvc''"
abbreviation "clusterstatus_Failed \<equiv> ''failed''"
abbreviation "clusterstatus_ModifyServerTemplate \<equiv> ''modify server template''"
abbreviation "clusterstatus_RollingUpdateOBServers \<equiv> ''rolling update observers''"

abbreviation "zonestatus_New \<equiv> ''new''"
abbreviation "zonestatus_MigrateFromExisting \<equiv> ''migrate from existing''"
abbreviation "zonestatus_Maintaining \<equiv> ''maintaining''"
abbreviation "zonestatus_Running \<equiv> ''running''"
abbreviation "zonestatus_AddOBServer \<equiv> ''add observer''"
abbreviation "zonestatus_DeleteOBServer \<equiv> ''delete observer''"
abbreviation "zonestatus_Deleting \<equiv> ''deleting''"
abbreviation "zonestatus_Upgrade \<equiv> ''upgrade''"
abbreviation "zonestatus_BootstrapReady \<equiv> ''bootstrap ready''"
abbreviation "zonestatus_FinalizerFinished \<equiv> ''finalizer finished''"
abbreviation "zonestatus_ScaleVertically \<equiv> ''scale vertically''"
abbreviation "zonestatus_ExpandPVC \<equiv> ''expand pvc''"
abbreviation "zonestatus_ModifyServerTemplate \<equiv> ''modify server template''"
abbreviation "zonestatus_RollingUpdateServers \<equiv> ''rolling update servers''"

abbreviation "serverstatus_New \<equiv> ''new''"
abbreviation "serverstatus_Recover \<equiv> ''recover observer''"
abbreviation "serverstatus_Unrecoverable \<equiv> ''observer unrecoverable''"
abbreviation "serverstatus_Running \<equiv> ''running''"
abbreviation "serverstatus_Upgrade \<equiv> ''upgrade''"
abbreviation "serverstatus_Annotate \<equiv> ''annotate''"
abbreviation "serverstatus_BootstrapReady \<equiv> ''bootstrap ready''"
abbreviation "serverstatus_Deleting \<equiv> ''deleting''"
abbreviation "serverstatus_ScaleVertically \<equiv> ''scale vertically''"
abbreviation "serverstatus_ExpandPVC \<equiv> ''expand pvc''"
abbreviation "serverstatus_FinalizerFinished \<equiv> ''finalizer finished''"
abbreviation "serverstatus_ModifyingPodTemplate \<equiv> ''modifying pod template''"

section \<open>Custom resources\<close>

record Resource = ObjectMeta +
  Status :: string
  Ctx :: "addr option"

record OBCluster = Resource +
  ClusterSpec_ClusterName :: string
  ClusterSpec_ClusterId :: int
  ClusterSpec_OBServerTemplate :: OBServerTemplate
  ClusterSpec_MonitorTemplate :: "MonitorTemplate option"
  ClusterSpec_BackupVolume :: "BackupVolumeSpec option"
  ClusterSpec_Parameters :: "Parameter list"
  ClusterSpec_Topology :: "OBZoneTopology list"
  ClusterSpec_UserSecrets :: OBUserSecrets
  ClusterSpec_ServiceAccount :: string
  ClusterSpec_Scenario :: string
  ClusterStatus_Image :: string
  ClusterStatus_OBZoneStatus :: "OBZoneReplicaStatus list"
  ClusterStatus_Parameters :: "Parameter list"

record OBZone = Resource +
  ZoneSpec_ClusterName :: string
  ZoneSpec_ClusterId :: int
  ZoneSpec_Topology :: OBZoneTopology
  ZoneSpec_OBServerTemplate :: OBServerTemplate
  ZoneSpec_MonitorTemplate :: "MonitorTemplate option"
  ZoneSpec_BackupVolume :: "BackupVolumeSpec option"
  ZoneSpec_ServiceAccount :: string
  ZoneStatus_Image :: string
  ZoneStatus_OBServerStatus :: "OBServerReplicaStatus list"

record OBServer = Resource +
  ServerSpec_ClusterName :: string
  ServerSpec_ClusterId :: int
  ServerSpec_Zone :: string
  ServerSpec_NodeSelector :: "(string \<times> string) list"
  ServerSpec_Affinity :: "opaque option"
  ServerSpec_Tolerations :: "opaque list"
  ServerSpec_OBServerTemplate :: OBServerTemplate
  ServerSpec_MonitorTemplate :: "MonitorTemplate option"
  ServerSpec_BackupVolume :: "BackupVolumeSpec option"
  ServerSpec_ServiceAccount :: string
  ServerSpec_K8sCluster :: string
  ServerStatus_Image :: string
  ServerStatus_PodPhase :: string
  ServerStatus_Ready :: bool
  ServerStatus_PodIp :: string
  ServerStatus_ServiceIp :: string
  ServerStatus_NodeIp :: string
  ServerStatus_NodeName :: string
  ServerStatus_CNI :: string

text \<open>An OBParameter with an empty tenant name belongs to the cluster.\<close>

record OBParameter = Resource +
  OBParameterSpec_TenantName :: string
  OBParameterSpec_Parameter :: Parameter

section \<open>Methods of the resources\<close>

definition OBCluster_SupportStaticIP :: "OBCluster \<Rightarrow> bool" where
  "OBCluster_SupportStaticIP c \<longleftrightarrow>
     dict_get (Annotations c) AnnotationsSupportStaticIP = ''true'' \<or>
     dict_get (Annotations c) AnnotationsMode = ''service'' \<or>
     dict_get (Annotations c) AnnotationsMode = ''standalone''"

definition OBZone_SupportStaticIP :: "OBZone \<Rightarrow> bool" where
  "OBZone_SupportStaticIP z \<longleftrightarrow> dict_get (Annotations z) AnnotationsSupportStaticIP = ''true''"

text \<open>A Go map of annotations that is nil has no entries, so the nil test is subsumed.\<close>

definition OBServer_SupportStaticIP :: "OBServer \<Rightarrow> bool" where
  "OBServer_SupportStaticIP s \<longleftrightarrow>
     (if ServerStatus_CNI s = ''calico'' then True
      else if ServerStatus_CNI s = ''kube-ovn'' then True
      else case Annotations s AnnotationsMode of
             None \<Rightarrow> False
           | Some mode \<Rightarrow> mode = ''standalone'' \<or> mode = ''service'')"

definition OBServerStatus_GetConnectAddr :: "OBServer \<Rightarrow> string" where
  "OBServerStatus_GetConnectAddr s =
     (if ServerStatus_ServiceIp s \<noteq> [] then ServerStatus_ServiceIp s else ServerStatus_PodIp s)"

definition OBServer_InMasterK8s :: "OBServer \<Rightarrow> bool" where
  "OBServer_InMasterK8s s \<longleftrightarrow> ServerSpec_K8sCluster s = []"

end
