(* ===== verification/Go_Strings.thy ===== *)
theory Go_Strings
  imports Prelude "HOL-Library.Char_ord" "HOL-Library.List_Lexorder" "HOL-Library.Sublist"
    "HOL-Library.Multiset"
begin

text \<open>
  What the operator uses of Go's \<^verbatim>\<open>strings\<close>, \<^verbatim>\<open>strconv\<close>, \<^verbatim>\<open>sort\<close> and \<^verbatim>\<open>fmt\<close>
  packages, on ASCII strings: decimal numbers and \<^verbatim>\<open>Atoi\<close>, \<^verbatim>\<open>Split\<close> and
  \<^verbatim>\<open>Join\<close>, \<^verbatim>\<open>ToUpper\<close>, \<^verbatim>\<open>Index\<close>. Strings are ordered as \<^verbatim>\<open>sort.Strings\<close> orders
  them, byte by byte.
\<close>

section \<open>Integers of 64 bits\<close>

text \<open>The value of an expression of type \<^verbatim>\<open>int64\<close>, and the units of the sizes of disks and memory.\<close>

definition int64 :: "int \<Rightarrow> int" where
  "int64 x = sint (word_of_int x :: 64 word)"

abbreviation MegaConverter :: int where
  "MegaConverter \<equiv> 1048576"

abbreviation GigaConverter :: int where
  "GigaConverter \<equiv> 1073741824"

section \<open>Numbers\<close>

fun show_nat :: "nat \<Rightarrow> string" where
  "show_nat n = (if n < 10 then [char_of (48 + n)] else show_nat (n div 10) @ [char_of (48 + n mod 10)])"

declare show_nat.simps [simp del]

text \<open>\<^verbatim>\<open>fmt\<close>'s \<^verbatim>\<open>%d\<close>.\<close>

definition show_int :: "int \<Rightarrow> string" where
  "show_int i = (if i < 0 then ''-'' @ show_nat (nat (- i)) else show_nat (nat i))"

lemma show_nat_1: "show_nat (Suc 0) = ''1''"
  by code_simp

definition digit_val :: "char \<Rightarrow> int option" where
  "digit_val c = (if 48 \<le> (of_char c :: int) \<and> (of_char c :: int) \<le> 57
                  then Some (of_char c - 48) else None)"

datatype parsed = BadSyntax | OutOfRange | Parsed int

text \<open>The digit loop of \<^verbatim>\<open>strconv.ParseUint\<close> with its 64-bit range check.\<close>

fun parse_digits :: "int \<Rightarrow> string \<Rightarrow> parsed" where
  "parse_digits v [] = Parsed v"
| "parse_digits v (c # cs) =
     (case digit_val c of
        None \<Rightarrow> BadSyntax
      | Some d \<Rightarrow> if 10 * v + d \<ge> 2 ^ 64 then OutOfRange else parse_digits (10 * v + d) cs)"

text \<open>
  \<^verbatim>\<open>strconv.Atoi\<close>: the value and whether it is without error. A syntax error gives zero,
  a value out of range the nearest 64-bit integer.
\<close>

definition Atoi :: "string \<Rightarrow> int \<times> bool" where
  "Atoi s =
     (let neg = (case s of [] \<Rightarrow> False | c # _ \<Rightarrow> c = CHR ''-'');
          body = (case s of [] \<Rightarrow> [] | c # cs \<Rightarrow> if c = CHR ''-'' \<or> c = CHR ''+'' then cs else s);
          limit = (if neg then (- (2 ^ 63), False) else (2 ^ 63 - 1, False))
      in if body = [] then (0, False)
         else case parse_digits 0 body of
                BadSyntax \<Rightarrow> (0, False)
              | OutOfRange \<Rightarrow> limit
              | Parsed u \<Rightarrow>
                  if (\<not> neg \<and> u \<ge> 2 ^ 63) \<or> (neg \<and> u > 2 ^ 63) then limit
                  else ((if neg then - u else u), True))"

lemma digit_val_char [simp]: "d < 10 \<Longrightarrow> digit_val (char_of (48 + d)) = Some (int d)"
proof -
  assume "d < 10"
  then have "(of_char (char_of (48 + d) :: char) :: nat) = 48 + d" by simp
  then have "(of_char (char_of (48 + d) :: char) :: int) = 48 + int d"
    by (metis of_nat_add of_nat_numeral of_nat_of_char)
  with \<open>d < 10\<close> show ?thesis by (simp add: digit_val_def)
qed

lemma parse_digits_snoc:
  "parse_digits v (xs @ [c]) =
     (case parse_digits v xs of
        Parsed u \<Rightarrow> (case digit_val c of None \<Rightarrow> BadSyntax
                    | Some d \<Rightarrow> if 10 * u + d \<ge> 2 ^ 64 then OutOfRange else Parsed (10 * u + d))
      | e \<Rightarrow> e)"
  by (induction xs arbitrary: v) (auto split: option.splits)

lemma parse_show_nat: "n < 2 ^ 64 \<Longrightarrow> parse_digits 0 (show_nat n) = Parsed (int n)"
proof (induction n rule: show_nat.induct)
  case (1 n)
  show ?case
  proof (cases "n < 10")
    case True
    then show ?thesis by (subst show_nat.simps) simp
  next
    case False
    then have "parse_digits 0 (show_nat (n div 10)) = Parsed (int (n div 10))"
      using 1 by (simp add: div_le_dividend order_le_less_trans)
    moreover have "10 * int (n div 10) + int (n mod 10) = int n" by (simp add: of_nat_div of_nat_mod)
    moreover have "int n < 2 ^ 64" using 1(2) by simp
    ultimately show ?thesis
      using False by (subst show_nat.simps) (simp add: parse_digits_snoc del: of_nat_div of_nat_mod)
  qed
qed

lemma show_nat_digits: "c \<in> set (show_nat n) \<Longrightarrow> 48 \<le> (of_char c :: nat) \<and> (of_char c :: nat) \<le> 57"
proof (induction n rule: show_nat.induct)
  case (1 n)
  then show ?case
    by (cases "n < 10") (auto simp: show_nat.simps [of n])
qed

lemma show_nat_not_Nil [simp]: "show_nat n \<noteq> []"
  by (subst show_nat.simps) simp

lemma Atoi_show_nat [simp]:
  assumes "n < 2 ^ 63"
  shows "Atoi (show_nat n) = (int n, True)"
proof -
  obtain c cs where s: "show_nat n = c # cs" by (cases "show_nat n") auto
  then have "48 \<le> (of_char c :: nat)" using show_nat_digits [of c n] by simp
  then have "c \<noteq> CHR ''-''" "c \<noteq> CHR ''+''" by auto
  moreover have "parse_digits 0 (show_nat n) = Parsed (int n)" using assms by (intro parse_show_nat) simp
  moreover have "int n < 2 ^ 63" using assms by simp
  ultimately show ?thesis using assms s by (simp add: Atoi_def del: parse_digits.simps)
qed

lemma parse_show_nat_large: "2 ^ 64 \<le> n \<Longrightarrow> parse_digits 0 (show_nat n) = OutOfRange"
proof (induction n rule: show_nat.induct)
  case (1 n)
  then have large: "\<not> n < 10" and sum: "10 * int (n div 10) + int (n mod 10) = int n"
    by (simp_all add: of_nat_div of_nat_mod)
  show ?case
  proof (cases "n div 10 < 2 ^ 64")
    case True
    moreover have "2 ^ 64 \<le> int n" using "1.prems" by simp
    ultimately show ?thesis
      using large sum parse_show_nat [OF True]
      by (subst show_nat.simps) (simp add: parse_digits_snoc del: of_nat_div of_nat_mod)
  next
    case False
    then have "parse_digits 0 (show_nat (n div 10)) = OutOfRange" using "1.IH" large by simp
    then show ?thesis using large by (subst show_nat.simps) (simp add: parse_digits_snoc)
  qed
qed

lemma Atoi_show_nat_large:
  assumes "2 ^ 63 \<le> n"
  shows "Atoi (show_nat n) = (2 ^ 63 - 1, False)"
proof -
  obtain c cs where s: "show_nat n = c # cs" by (cases "show_nat n") auto
  then have "48 \<le> (of_char c :: nat)" using show_nat_digits [of c n] by simp
  then have sign: "c \<noteq> CHR ''-''" "c \<noteq> CHR ''+''" by auto
  show ?thesis
  proof (cases "n < 2 ^ 64")
    case True
    then have "parse_digits 0 (show_nat n) = Parsed (int n)" by (rule parse_show_nat)
    moreover have "2 ^ 63 \<le> int n" using assms by simp
    ultimately show ?thesis using s sign by (simp add: Atoi_def del: parse_digits.simps)
  next
    case False
    then have "parse_digits 0 (show_nat n) = OutOfRange" using parse_show_nat_large by simp
    then show ?thesis using s sign by (simp add: Atoi_def del: parse_digits.simps)
  qed
qed

section \<open>Splitting and joining\<close>

text \<open>\<^verbatim>\<open>strings.Split\<close> for a non-empty separator.\<close>

function split_from :: "string \<Rightarrow> string \<Rightarrow> string \<Rightarrow> string list" where
  "split_from sep acc [] = [rev acc]"
| "split_from sep acc (c # cs) =
     (if sep \<noteq> [] \<and> prefix sep (c # cs)
      then rev acc # split_from sep [] (drop (length sep) (c # cs))
      else split_from sep (c # acc) cs)"
  by pat_completeness auto
termination
  by (relation "measure (\<lambda>(sep, acc, s). length s)") (auto simp: length_greater_0_conv)

definition Split :: "string \<Rightarrow> string \<Rightarrow> string list" where
  "Split s sep = split_from sep [] s"

fun Join :: "string list \<Rightarrow> string \<Rightarrow> string" where
  "Join [] sep = []"
| "Join [x] sep = x"
| "Join (x # y # xs) sep = x @ sep @ Join (y # xs) sep"

lemma split_from_piece:
  assumes "sep \<noteq> []" "hd sep \<notin> set x"
  shows "split_from sep acc (x @ rest) = split_from sep (rev x @ acc) rest"
  using assms(2)
proof (induction x arbitrary: acc)
  case (Cons c cs)
  then have "\<not> prefix sep (c # cs @ rest)" using assms(1) by (cases sep) auto
  with Cons show ?case by simp
qed simp

lemma split_from_sep: "sep \<noteq> [] \<Longrightarrow> split_from sep acc (sep @ rest) = rev acc # split_from sep [] rest"
  by (cases sep) auto

text \<open>Splitting undoes joining when no piece contains the separator's first character.\<close>

lemma Split_Join:
  assumes "sep \<noteq> []" "xs \<noteq> []" "\<forall>x \<in> set xs. hd sep \<notin> set x"
  shows "Split (Join xs sep) sep = xs"
proof -
  have "split_from sep [] (Join xs sep) = xs"
    using assms(2,3)
  proof (induction xs rule: induct_list012)
    case (2 x)
    then show ?case using split_from_piece [of sep x "[]" "[]"] assms(1) by simp
  next
    case (3 x y zs)
    then show ?case
      using assms(1) split_from_piece [of sep x "[]" "sep @ Join (y # zs) sep"]
      by (simp add: split_from_sep)
  qed simp
  then show ?thesis by (simp add: Split_def)
qed

text \<open>A terminated list splits into its pieces and a last empty one.\<close>

lemma Split_terminated:
  assumes "sep \<noteq> []" "\<forall>x \<in> set xs. hd sep \<notin> set x"
  shows "Split (concat (map (\<lambda>x. x @ sep) xs)) sep = xs @ [[]]"
proof -
  have "split_from sep [] (concat (map (\<lambda>x. x @ sep) xs)) = xs @ [[]]"
    using assms(2)
  proof (induction xs)
    case (Cons x xs)
    then show ?case
      using assms(1) split_from_piece [of sep x "[]" "sep @ concat (map (\<lambda>x. x @ sep) xs)"]
      by (simp add: split_from_sep)
  qed simp
  then show ?thesis by (simp add: Split_def)
qed

lemma Split_none: "sep \<noteq> [] \<Longrightarrow> hd sep \<notin> set x \<Longrightarrow> Split x sep = [x]"
  using Split_Join [of sep "[x]"] by simp

lemma Split_not_Nil [simp]: "Split s sep \<noteq> []"
proof -
  have "split_from sep acc s \<noteq> []" for acc
    by (induction s arbitrary: acc rule: length_induct) (case_tac xs; simp)
  then show ?thesis by (simp add: Split_def)
qed

section \<open>Other string functions\<close>

definition to_upper :: "char \<Rightarrow> char" where
  "to_upper c = (if 97 \<le> (of_char c :: nat) \<and> (of_char c :: nat) \<le> 122 then char_of (of_char c - 32 :: nat) else c)"

definition ToUpper :: "string \<Rightarrow> string" where
  "ToUpper s = map to_upper s"

definition to_lower :: "char \<Rightarrow> char" where
  "to_lower c = (if 65 \<le> (of_char c :: nat) \<and> (of_char c :: nat) \<le> 90 then char_of (of_char c + 32 :: nat) else c)"

definition ToLower :: "string \<Rightarrow> string" where
  "ToLower s = map to_lower s"

definition TrimRight :: "string \<Rightarrow> string \<Rightarrow> string" where
  "TrimRight s cutset = rev (dropWhile (\<lambda>c. c \<in> set cutset) (rev s))"

text \<open>\<^verbatim>\<open>strings.Index\<close> of a one-character string; \<open>None\<close> is -1.\<close>

fun index_of :: "char \<Rightarrow> string \<Rightarrow> nat option" where
  "index_of c [] = None"
| "index_of c (x # xs) = (if x = c then Some 0 else map_option Suc (index_of c xs))"

lemma index_of_append:
  "c \<notin> set xs \<Longrightarrow> index_of c (xs @ ys) = map_option (\<lambda>i. length xs + i) (index_of c ys)"
  by (induction xs; cases "index_of c ys") auto

text \<open>\<^verbatim>\<open>strings.ReplaceAll(s, "_", "-")\<close>.\<close>

definition dashes :: "string \<Rightarrow> string" where
  "dashes s = map (\<lambda>c. if c = CHR ''_'' then CHR ''-'' else c) s"

section \<open>Sorting\<close>

text \<open>\<^verbatim>\<open>sort.Sort(sort.Reverse(...))\<close> of distinct keys.\<close>

definition sort_desc :: "'a :: linorder list \<Rightarrow> 'a list" where
  "sort_desc xs = rev (sort xs)"

lemma set_sort_desc [simp]: "set (sort_desc xs) = set xs"
  by (simp add: sort_desc_def)

lemma distinct_sort_desc [simp]: "distinct (sort_desc xs) = distinct xs"
  by (simp add: sort_desc_def)

text \<open>The order only matters: a strictly monotone renaming of the keys commutes with sorting.\<close>

lemma sort_desc_strict_mono:
  assumes "strict_mono_on (set xs) g"
  shows "sort_desc (map g xs) = map g (sort_desc xs)"
proof -
  have "sorted (map g (sort xs))"
    using assms sorted_sort [of xs]
    by (auto simp: sorted_map intro!: sorted_wrt_mono_rel [OF _ sorted_sort] dest: strict_mono_on_leD)
  then have "sort (map g xs) = map g (sort xs)"
    by (metis (no_types) mset_map mset_sort properties_for_sort)
  then show ?thesis by (simp add: sort_desc_def rev_map)
qed

section \<open>Paths\<close>

text \<open>
  \<^verbatim>\<open>path.Clean\<close> and \<^verbatim>\<open>path.Join\<close>: empty and dot components are dropped, a double dot
  removes the component before it, if any, and is dropped at the root.
\<close>

fun clean_components :: "bool \<Rightarrow> string list \<Rightarrow> string list \<Rightarrow> string list" where
  "clean_components rooted stack [] = rev stack"
| "clean_components rooted stack (c # cs) =
     (if c = [] \<or> c = ''.'' then clean_components rooted stack cs
      else if c = ''..''
      then (case stack of
              [] \<Rightarrow> clean_components rooted (if rooted then [] else [c]) cs
            | t # ts \<Rightarrow> if t = ''..'' then clean_components rooted (c # stack) cs else clean_components rooted ts cs)
      else clean_components rooted (c # stack) cs)"

definition path_Clean :: "string \<Rightarrow> string" where
  "path_Clean p =
     (let rooted = (take 1 p = ''/'');
          r = (if rooted then ''/'' else []) @ Join (clean_components rooted [] (Split p ''/'')) ''/''
      in if r = [] then ''.'' else r)"

definition path_Join :: "string list \<Rightarrow> string" where
  "path_Join parts = (let ps = filter (\<lambda>p. p \<noteq> []) parts in if ps = [] then [] else path_Clean (Join ps ''/''))"

end
