(* ===== verification/Tenant_Layout.thy ===== *)
theory Tenant_Layout
  imports Complex_Main API_Types Go_Strings "HOL-Library.AList"
begin

text \<open>
  How a tenant is laid out over zones: the data of \<^verbatim>\<open>obtenant_types.go\<close>, the strings
  in which the database is told and reports the locality and the primary zone of a
  tenant, and the comparison of the two sides
  (\<^verbatim>\<open>internal/resource/obtenant/utils.go\<close>). The lemmas show that what the operator
  writes it also reads back.
\<close>

section \<open>Data\<close>

record LocalityType =
  LT_Name :: string
  LT_Replica :: int
  LT_IsActive :: bool

record UnitConfig =
  MaxCPU :: Quantity
  MemorySize :: Quantity
  MinCPU :: Quantity
  MaxIops :: int
  MinIops :: int
  IopsWeight :: int
  LogDiskSize :: Quantity

text \<open>
  The locality type of a pool is a pointer the API server does not require, so it may be
  nil; the unit configuration is a required field.
\<close>

record ResourcePoolSpec =
  Pool_Zone :: string
  Pool_Priority :: int
  Pool_Type :: "LocalityType option"
  Pool_UnitConfig :: UnitConfig

record UnitStatus =
  Unit_UnitId :: int
  Unit_ServerIP :: string
  Unit_ServerPort :: int
  Unit_Status :: string
  Unit_Migrate :: "string \<times> int"

record ResourcePoolStatus =
  PS_ZoneList :: string
  PS_Units :: "UnitStatus list"
  PS_Priority :: int
  PS_Type :: "LocalityType option"
  PS_UnitConfig :: UnitConfig
  PS_UnitNumber :: int

section \<open>Locality\<close>

definition upper_type :: "LocalityType \<Rightarrow> LocalityType" where
  "upper_type t = t\<lparr>LT_Name := ToUpper (LT_Name t)\<rparr>"

definition generateSpecLocalityMap :: "ResourcePoolSpec list \<Rightarrow> (string \<times> LocalityType option) list option" where
  "generateSpecLocalityMap pools =
     those (map (\<lambda>pool. map_option (\<lambda>t. (Pool_Zone pool, Some (upper_type t))) (Pool_Type pool)) pools)"

definition generateStatusLocalityMap :: "ResourcePoolStatus list \<Rightarrow> (string \<times> LocalityType option) list" where
  "generateStatusLocalityMap pools = map (\<lambda>pool. (PS_ZoneList pool, PS_Type pool)) pools"

text \<open>
  Both functions give the assignments in the order the code makes them; the Go map is
  what the last assignment to each key leaves.
\<close>

definition assigned :: "('k \<times> 'v) list \<Rightarrow> 'k \<rightharpoonup> 'v" where
  "assigned es = map_of (rev es)"

text \<open>\<^verbatim>\<open>reflect.DeepEqual\<close> of two maps, compared on the keys either of them has.\<close>

definition DeepEqual :: "('k \<times> 'v) list \<Rightarrow> ('k \<times> 'v) list \<Rightarrow> bool" where
  "DeepEqual as bs \<longleftrightarrow> list_all (\<lambda>k. assigned as k = assigned bs k) (map fst as @ map fst bs)"

lemma assigned_None_iff: "assigned es k = None \<longleftrightarrow> k \<notin> fst ` set es"
  by (simp add: assigned_def map_of_eq_None_iff)

lemma DeepEqual_iff: "DeepEqual as bs \<longleftrightarrow> assigned as = assigned bs"
proof
  assume eq: "DeepEqual as bs"
  show "assigned as = assigned bs"
  proof
    fix k
    show "assigned as k = assigned bs k"
    proof (cases "k \<in> fst ` set as \<union> fst ` set bs")
      case True
      with eq show ?thesis by (auto simp: DeepEqual_def list_all_iff)
    next
      case False
      then have "assigned as k = None" "assigned bs k = None"
        unfolding assigned_None_iff by blast+
      then show ?thesis by simp
    qed
  qed
qed (simp add: DeepEqual_def list_all_iff)

text \<open>One entry of the locality, \<^verbatim>\<open>F{1}@zone1\<close>.\<close>

definition show_locality :: "string \<Rightarrow> LocalityType \<Rightarrow> string" where
  "show_locality zone t = LT_Name t @ ''{'' @ show_int (LT_Replica t) @ ''}@'' @ zone"

text \<open>
  \<^verbatim>\<open>generateLocalityList\<close>: the active entries in descending order of the zone names. A nil
  locality type panics.
\<close>

definition generateLocalityList :: "(string \<times> LocalityType option) list \<Rightarrow> string list option" where
  "generateLocalityList es = do {
     entries \<leftarrow> those (map (\<lambda>zone. map_option (Pair zone) (case assigned es zone of None \<Rightarrow> None | Some t \<Rightarrow> t))
                        (sort_desc (remdups (map fst es))));
     Some (map (\<lambda>(zone, t). show_locality zone t) (filter (\<lambda>(zone, t). LT_IsActive t) entries)) }"

definition generateLocality :: "ResourcePoolSpec list \<Rightarrow> string option" where
  "generateLocality pools = do {
     es \<leftarrow> generateSpecLocalityMap pools;
     locality \<leftarrow> generateLocalityList es;
     Some (Join locality '','') }"

text \<open>
  Reading an entry back: \<^verbatim>\<open>type1[Index("{")+1 : Index("}")]\<close> panics without a closing
  brace after the opening one, \<^verbatim>\<open>split1[1]\<close> without an at sign.
\<close>

definition parse_locality :: "string \<Rightarrow> (string \<times> LocalityType) option" where
  "parse_locality s =
     (let split1 = Split s ''@'';
          lo = (case index_of (CHR ''{'') s of None \<Rightarrow> 0 | Some i \<Rightarrow> i + 1)
      in case index_of (CHR ''}'') s of
           None \<Rightarrow> None
         | Some hi \<Rightarrow>
             if lo \<le> hi \<and> 1 < length split1
             then Some (split1 ! 1,
               \<lparr>LT_Name = hd (Split (hd split1) ''{''),
                LT_Replica = fst (Atoi (take (hi - lo) (drop lo s))), LT_IsActive = True\<rparr>)
             else None)"

definition generateStatusTypeMapFromLocalityStr :: "string \<Rightarrow> (string \<times> LocalityType) list option" where
  "generateStatusTypeMapFromLocalityStr locality = those (map parse_locality (Split locality '', ''))"

text \<open>A locality type and a zone that can be written: no separator in the names, a count in range.\<close>

definition plain :: "string \<Rightarrow> bool" where
  "plain s \<longleftrightarrow> s \<noteq> [] \<and> set s \<inter> set ''{}@,;'' = {}"

definition writable :: "string \<Rightarrow> LocalityType \<Rightarrow> bool" where
  "writable zone t \<longleftrightarrow> plain zone \<and> plain (LT_Name t) \<and> 0 \<le> LT_Replica t \<and> LT_Replica t < 2 ^ 63"

lemma show_int_plain:
  assumes "0 \<le> i" "c \<in> set (show_int i)"
  shows "c \<notin> set ''{}@,;''"
proof -
  from assms have "48 \<le> (of_char c :: nat) \<and> (of_char c :: nat) \<le> 57"
    by (simp add: show_int_def show_nat_digits)
  then show ?thesis by auto
qed

lemma index_of_here [simp]: "index_of c (c # xs) = Some 0"
  by simp

lemma parse_show_locality:
  assumes "writable zone t" "LT_IsActive t"
  shows "parse_locality (show_locality zone t) = Some (zone, t)"
proof -
  let ?n = "LT_Name t" and ?r = "show_int (LT_Replica t)"
  from assms have no: "CHR ''{'' \<notin> set ?n" "CHR ''}'' \<notin> set ?n" "CHR ''@'' \<notin> set ?n" "CHR ''@'' \<notin> set zone"
    and r: "0 \<le> LT_Replica t" "LT_Replica t < 2 ^ 63"
    by (auto simp: writable_def plain_def)
  have rno: "CHR ''{'' \<notin> set ?r" "CHR ''}'' \<notin> set ?r" "CHR ''@'' \<notin> set ?r"
    using show_int_plain [OF r(1)] by auto
  have "show_locality zone t = Join [?n @ ''{'' @ ?r @ ''}'', zone] ''@''"
    by (simp add: show_locality_def)
  moreover have "Split (Join [?n @ ''{'' @ ?r @ ''}'', zone] ''@'') ''@'' = [?n @ ''{'' @ ?r @ ''}'', zone]"
    using no rno by (intro Split_Join) auto
  ultimately have at: "Split (show_locality zone t) ''@'' = [?n @ ''{'' @ ?r @ ''}'', zone]" by simp
  have "?n @ ''{'' @ ?r @ ''}'' = Join [?n, ?r @ ''}''] ''{''" by simp
  moreover have "Split (Join [?n, ?r @ ''}''] ''{'') ''{'' = [?n, ?r @ ''}'']"
    using no rno by (intro Split_Join) auto
  ultimately have br: "Split (?n @ ''{'' @ ?r @ ''}'') ''{'' = [?n, ?r @ ''}'']" by simp
  have lo: "index_of (CHR ''{'') (show_locality zone t) = Some (length ?n)"
    using index_of_append [OF no(1), of "''{'' @ ?r @ ''}@'' @ zone"] by (simp add: show_locality_def)
  have hi: "index_of (CHR ''}'') (show_locality zone t) = Some (length ?n + 1 + length ?r)"
    using index_of_append [of "CHR ''}''" "?n @ ''{'' @ ?r" "''}@'' @ zone"] no rno
    by (simp add: show_locality_def)
  have cut: "take (length ?n + 1 + length ?r - (length ?n + 1)) (drop (length ?n + 1) (show_locality zone t)) = ?r"
    by (simp add: show_locality_def)
  have num: "Atoi ?r = (LT_Replica t, True)"
    using r Atoi_show_nat [of "nat (LT_Replica t)"] by (simp add: show_int_def nat_less_iff)
  show ?thesis
    using at br lo hi cut num assms(2) by (simp add: parse_locality_def Let_def)
qed

lemma those_eq_Some_map: "those (map f xs) = Some ys \<longleftrightarrow> map f xs = map Some ys"
proof (induction xs arbitrary: ys)
  case (Cons x xs)
  then show ?case by (cases ys) (auto split: option.splits)
qed auto

lemma those_map_Some [simp]: "those (map (\<lambda>x. Some (f x)) xs) = Some (map f xs)"
  by (simp add: those_eq_Some_map)

text \<open>The list of active entries, and what is read back of it.\<close>

lemma generateLocalityList_entries:
  assumes "generateLocalityList es = Some ls"
  obtains ts where "ls = map (\<lambda>(zone, t). show_locality zone t) ts"
    "\<And>zone t. (zone, t) \<in> set ts \<longleftrightarrow> assigned es zone = Some (Some t) \<and> LT_IsActive t"
    "distinct (map fst ts)"
proof -
  let ?at = "\<lambda>zone. case assigned es zone of None \<Rightarrow> None | Some t \<Rightarrow> t"
  let ?zs = "sort_desc (remdups (map fst es))"
  from assms obtain entries where e: "map (\<lambda>zone. map_option (Pair zone) (?at zone)) ?zs = map Some entries"
    and ls: "ls = map (\<lambda>(zone, t). show_locality zone t) (filter (\<lambda>(zone, t). LT_IsActive t) entries)"
    by (auto simp: generateLocalityList_def those_eq_Some_map split: bind_splits)
  have "map fst entries = map (fst \<circ> the) (map Some entries)" by simp
  also have "\<dots> = map (\<lambda>zone. fst (the (map_option (Pair zone) (?at zone)))) ?zs"
    unfolding e [symmetric] by simp
  also have "\<dots> = ?zs"
  proof (rule map_idI)
    fix z assume "z \<in> set ?zs"
    then have "map_option (Pair z) (?at z) \<in> set (map Some entries)" unfolding e [symmetric] by auto
    then show "fst (the (map_option (Pair z) (?at z))) = z" by (auto simp: map_option_case split: option.splits)
  qed
  finally have keys: "map fst entries = ?zs" .
  have mem: "(zone, t) \<in> set entries \<longleftrightarrow> assigned es zone = Some (Some t)" for zone t
  proof -
    have "(zone, t) \<in> set entries \<longleftrightarrow> Some (zone, t) \<in> set (map Some entries)" by auto
    also have "\<dots> \<longleftrightarrow> (\<exists>z \<in> set ?zs. Some (zone, t) = map_option (Pair z) (?at z))"
      unfolding e [symmetric] set_map by blast
    also have "\<dots> \<longleftrightarrow> zone \<in> fst ` set es \<and> ?at zone = Some t"
      by (simp only: set_sort_desc set_remdups set_map eq_commute [of "Some (zone, t)"] map_option_eq_Some)
        blast
    also have "\<dots> \<longleftrightarrow> assigned es zone = Some (Some t)"
      using assigned_None_iff [of es zone] by (auto split: option.splits)
    finally show ?thesis .
  qed
  have "distinct (map fst (filter (\<lambda>(zone, t). LT_IsActive t) entries))"
    using keys by (intro distinct_map_filter) simp
  with that ls mem show thesis by fastforce
qed

lemma locality_read_back:
  assumes "generateLocalityList es = Some ls" "ls \<noteq> []"
    and "\<And>zone t. assigned es zone = Some (Some t) \<Longrightarrow> LT_IsActive t \<Longrightarrow> writable zone t"
  shows "\<exists>ps. generateStatusTypeMapFromLocalityStr (Join ls '', '') = Some ps \<and>
    (\<forall>zone t. assigned ps zone = Some t \<longleftrightarrow> assigned es zone = Some (Some t) \<and> LT_IsActive t)"
proof -
  from generateLocalityList_entries [OF assms(1)] obtain ts
    where ts: "ls = map (\<lambda>(zone, t). show_locality zone t) ts"
      "\<And>zone t. (zone, t) \<in> set ts \<longleftrightarrow> assigned es zone = Some (Some t) \<and> LT_IsActive t"
      "distinct (map fst ts)"
    by blast
  have w: "writable zone t \<and> LT_IsActive t" if "(zone, t) \<in> set ts" for zone t
    using that assms(3) ts(2) by blast
  have comma: "CHR '','' \<notin> set (show_locality zone t)" if "(zone, t) \<in> set ts" for zone t
    using w [OF that] show_int_plain [of "LT_Replica t" "CHR '',''"]
    by (auto simp: show_locality_def writable_def plain_def)
  have "Split (Join ls '', '') '', '' = ls"
    using assms(2) comma by (intro Split_Join) (auto simp: ts(1))
  moreover have "map parse_locality ls = map Some ts"
    using w by (auto simp: ts(1) parse_show_locality)
  ultimately have ps: "generateStatusTypeMapFromLocalityStr (Join ls '', '') = Some ts"
    by (simp add: generateStatusTypeMapFromLocalityStr_def those_eq_Some_map)
  have "assigned ts zone = Some t \<longleftrightarrow> (zone, t) \<in> set ts" for zone t
    using ts(3) by (simp add: assigned_def map_of_eq_Some_iff rev_map [symmetric])
  with ps ts(2) show ?thesis by blast
qed

section \<open>Primary zone\<close>

text \<open>
  The zones of each priority, in the order of the pools; then the priorities in
  descending order, each group closed by a semicolon.
\<close>

definition group_zones :: "(int \<times> string) list \<Rightarrow> (int \<times> string list) list" where
  "group_zones xs =
     foldl (\<lambda>zoneMap (priority, zone).
       AList.update priority ((case map_of zoneMap priority of None \<Rightarrow> [] | Some zs \<Rightarrow> zs) @ [zone]) zoneMap) [] xs"

definition primary_zone :: "(int \<times> string) list \<Rightarrow> string" where
  "primary_zone xs =
     (let zoneMap = group_zones xs
      in concat (map (\<lambda>priority.
           Join (case map_of zoneMap priority of None \<Rightarrow> [] | Some zs \<Rightarrow> zs) '','' @ '';'')
           (sort_desc (map fst zoneMap))))"

definition active_spec :: "ResourcePoolSpec list \<Rightarrow> (int \<times> string) list option" where
  "active_spec pools = do {
     ts \<leftarrow> those (map (\<lambda>pool. map_option (\<lambda>t. (LT_IsActive t, Pool_Priority pool, Pool_Zone pool)) (Pool_Type pool)) pools);
     Some (map snd (filter fst ts)) }"

definition active_status :: "ResourcePoolStatus list \<Rightarrow> (int \<times> string) list option" where
  "active_status pools = do {
     ts \<leftarrow> those (map (\<lambda>pool. map_option (\<lambda>t. (LT_IsActive t, PS_Priority pool, PS_ZoneList pool)) (PS_Type pool)) pools);
     Some (map snd (filter fst ts)) }"

definition generateSpecPrimaryZone :: "ResourcePoolSpec list \<Rightarrow> string option" where
  "generateSpecPrimaryZone pools = map_option primary_zone (active_spec pools)"

definition generateStatusPrimaryZone :: "ResourcePoolStatus list \<Rightarrow> string option" where
  "generateStatusPrimaryZone pools = map_option primary_zone (active_status pools)"

text \<open>The keys of this map are the positions of the levels, so it is a list.\<close>

definition generatePrimaryZoneMap :: "string \<Rightarrow> string list list" where
  "generatePrimaryZoneMap str = map (\<lambda>cut. sort (Split cut '','')) (Split str '';'')"

text \<open>Priorities read from the database's string: the first level has the highest.\<close>

definition level_entries :: "string list list \<Rightarrow> (string \<times> int) list" where
  "level_entries levels =
     concat (map (\<lambda>(i, zones). map (\<lambda>zone. (zone, int (length levels) - int i)) zones) (enumerate 0 levels))"

definition generateStatusPriorityMap :: "string \<Rightarrow> (string \<times> int) list" where
  "generateStatusPriorityMap primaryZone =
     level_entries (map (\<lambda>cut. Split cut '','') (Split primaryZone '';''))"

subsection \<open>Levels\<close>

definition zones_at :: "(int \<times> string) list \<Rightarrow> int \<Rightarrow> string list" where
  "zones_at xs p = map snd (filter (\<lambda>(q, _). q = p) xs)"

definition prios :: "(int \<times> string) list \<Rightarrow> int list" where
  "prios xs = sort_desc (remdups (map fst xs))"

definition levels :: "(int \<times> string) list \<Rightarrow> string list list" where
  "levels xs = map (zones_at xs) (prios xs)"

lemma set_prios [simp]: "set (prios xs) = fst ` set xs" "distinct (prios xs)"
  by (simp_all add: prios_def)

lemma group_zones_lookup:
  "map_of (group_zones xs) p = (if p \<in> fst ` set xs then Some (zones_at xs p) else None)"
  by (induction xs rule: rev_induct)
    (auto simp: group_zones_def zones_at_def update_conv' filter_empty_conv image_iff
      split: option.splits prod.splits if_splits)

lemma group_zones_keys: "distinct (map fst (group_zones xs))" "fst ` set (group_zones xs) = fst ` set xs"
proof -
  show "distinct (map fst (group_zones xs))"
    by (induction xs rule: rev_induct) (auto simp: group_zones_def distinct_update split: prod.splits)
  show "fst ` set (group_zones xs) = fst ` set xs"
    using group_zones_lookup [of xs] by (auto simp: dom_map_of_conv_image_fst [symmetric] split: if_splits)
qed

lemma primary_zone_levels: "primary_zone xs = concat (map (\<lambda>l. Join l '','' @ '';'') (levels xs))"
proof -
  have "sort (map fst (group_zones xs)) = sort (remdups (map fst xs))"
    using group_zones_keys [of xs] by (intro sorted_distinct_set_unique) simp_all
  then have "sort_desc (map fst (group_zones xs)) = prios xs" by (simp add: prios_def sort_desc_def)
  moreover have "map (\<lambda>p. Join (case map_of (group_zones xs) p of None \<Rightarrow> [] | Some zs \<Rightarrow> zs) '','' @ '';'') (prios xs) =
      map (\<lambda>p. Join (zones_at xs p) '','' @ '';'') (prios xs)"
    by (intro map_cong) (auto simp: group_zones_lookup)
  ultimately show ?thesis by (simp only: primary_zone_def Let_def levels_def map_map o_def)
qed

lemma levels_plain:
  assumes "\<forall>x \<in> set xs. plain (snd x)" "l \<in> set (levels xs)"
  shows "l \<noteq> []" "\<forall>z \<in> set l. plain z"
  using assms by (auto simp: levels_def zones_at_def filter_empty_conv)

lemma Join_chars: "c \<in> set (Join xs sep) \<Longrightarrow> c \<in> set sep \<or> (\<exists>x \<in> set xs. c \<in> set x)"
  by (induction xs sep rule: Join.induct) auto

lemma split_levels:
  assumes "\<forall>x \<in> set xs. plain (snd x)"
  shows "map (\<lambda>cut. Split cut '','') (Split (primary_zone xs) '';'') = levels xs @ [[[]]]"
    and "xs \<noteq> [] \<Longrightarrow> map (\<lambda>cut. Split cut '','') (Split (butlast (primary_zone xs)) '';'') = levels xs"
proof -
  let ?ls = "map (\<lambda>l. Join l '','') (levels xs)"
  have semi: "\<forall>x \<in> set ?ls. hd '';'' \<notin> set x"
  proof safe
    fix x assume "x \<in> set ?ls" "hd '';'' \<in> set x"
    then obtain l where "l \<in> set (levels xs)" "CHR '';'' \<in> set (Join l '','')" by auto
    with levels_plain [OF assms] Join_chars show False by (fastforce simp: plain_def)
  qed
  have pieces: "map (\<lambda>cut. Split cut '','') ?ls = levels xs" unfolding map_map
  proof (rule map_idI, simp)
    fix l assume "l \<in> set (levels xs)"
    with levels_plain [OF assms] have "l \<noteq> []" "\<forall>z \<in> set l. CHR '','' \<notin> set z"
      by (auto simp: plain_def)
    then show "Split (Join l '','') '','' = l" by (intro Split_Join) simp_all
  qed
  have str: "primary_zone xs = concat (map (\<lambda>x. x @ '';'') ?ls)" by (simp add: primary_zone_levels o_def)
  show "map (\<lambda>cut. Split cut '','') (Split (primary_zone xs) '';'') = levels xs @ [[[]]]"
    unfolding str using Split_terminated [OF _ semi] pieces by (simp add: Split_none)
  assume "xs \<noteq> []"
  then have ne: "?ls \<noteq> []" using set_prios(1) [of xs] by (cases "prios xs") (auto simp: levels_def)
  have "concat (map (\<lambda>x. x @ '';'') ys) = Join ys '';'' @ '';''" if "ys \<noteq> []" for ys
    using that by (induction ys rule: induct_list012) auto
  from this [OF ne] have "butlast (primary_zone xs) = Join ?ls '';''" unfolding str by (simp only: butlast_snoc)
  then show "map (\<lambda>cut. Split cut '','') (Split (butlast (primary_zone xs)) '';'') = levels xs"
    using Split_Join [OF _ ne semi] pieces by simp
qed

lemma primary_zone_map_levels:
  "\<forall>x \<in> set xs. plain (snd x) \<Longrightarrow>
    generatePrimaryZoneMap (primary_zone xs) = map sort (levels xs) @ [[[]]]"
proof -
  assume "\<forall>x \<in> set xs. plain (snd x)"
  from arg_cong [OF split_levels(1) [OF this], of "map sort"]
  show ?thesis by (simp add: generatePrimaryZoneMap_def o_def)
qed

text \<open>Renaming the priorities by a strictly monotone function, in any order of the pools, keeps the levels.\<close>

lemma levels_rename:
  assumes mono: "strict_mono_on (fst ` set xs) g"
    and ys: "mset ys = mset (map (\<lambda>(p, z). (g p, z)) xs)"
  shows "map sort (levels ys) = map sort (levels xs)"
proof -
  have inj: "inj_on g (fst ` set xs)" using mono by (rule strict_mono_on_imp_inj_on)
  have "fst ` set ys = g ` fst ` set xs"
    using mset_eq_setD [OF ys] by (force simp: image_iff split: prod.splits)
  then have "sort (remdups (map fst ys)) = sort (map g (remdups (map fst xs)))"
    using inj by (intro sorted_distinct_set_unique) (simp_all add: distinct_map)
  then have prios: "prios ys = map g (prios xs)"
    using sort_desc_strict_mono [of "remdups (map fst xs)" g] mono
    by (simp add: prios_def sort_desc_def)
  have "mset (zones_at ys (g p)) = mset (zones_at xs p)" if p: "p \<in> fst ` set xs" for p
  proof -
    have "mset (zones_at ys (g p)) = image_mset snd (filter_mset (\<lambda>(q, _). q = g p) (mset (map (\<lambda>(p, z). (g p, z)) xs)))"
      by (simp only: zones_at_def mset_map mset_filter ys)
    also have "\<dots> = mset (map snd (filter (\<lambda>(q, _). q = g p) (map (\<lambda>(p, z). (g p, z)) xs)))" by simp
    also have "map snd (filter (\<lambda>(q, _). q = g p) (map (\<lambda>(p, z). (g p, z)) xs)) =
        map snd (filter (\<lambda>(q, _). g q = g p) xs)"
      by (simp add: filter_map o_def case_prod_unfold)
    also have "filter (\<lambda>(q, _). g q = g p) xs = filter (\<lambda>(q, _). q = p) xs"
      using inj p by (intro filter_cong) (auto simp: inj_on_def image_iff)
    finally show ?thesis by (simp add: zones_at_def)
  qed
  then have "sort (zones_at ys (g p)) = sort (zones_at xs p)" if "p \<in> fst ` set xs" for p
    using that by (intro properties_for_sort) simp_all
  then show ?thesis unfolding levels_def prios by simp
qed

subsection \<open>Reading the priorities back\<close>

lemma level_entries_lookup:
  assumes "distinct (concat ls)" "i < length ls" "z \<in> set (ls ! i)"
  shows "assigned (level_entries ls) z = Some (int (length ls) - int i)"
proof -
  have keys: "map fst (level_entries ls) = concat ls"
    by (simp add: level_entries_def map_concat o_def case_prod_unfold)
  have "(z, int (length ls) - int i) \<in> set (level_entries ls)"
    using assms(2,3)
    by (auto simp: level_entries_def in_set_enumerate_eq intro!: bexI [of _ "(i, ls ! i)"])
  then show ?thesis
    using assms(1) keys by (simp add: assigned_def map_of_eq_Some_iff rev_map [symmetric])
qed

lemma sum_list_single:
  "distinct ps \<Longrightarrow> (\<Sum>p\<leftarrow>ps. if a = p then x else {#}) = (if a \<in> set ps then x else {#})"
  by (induction ps) auto

lemma concat_levels: "mset (concat (levels xs)) = mset (map snd xs)"
proof -
  have "mset (concat (map (\<lambda>p. map snd (filter (\<lambda>(q, _). q = p) xs)) ps)) = mset (map snd xs)"
    if "distinct ps" "fst ` set xs \<subseteq> set ps" for ps
    using that(2)
  proof (induction xs)
    case (Cons x xs)
    have "mset (concat (map (\<lambda>p. map snd (filter (\<lambda>(q, _). q = p) (x # xs))) ps)) =
        (\<Sum>p\<leftarrow>ps. (if fst x = p then {#snd x#} else {#}) + mset (map snd (filter (\<lambda>(q, _). q = p) xs)))"
      by (simp add: mset_concat o_def case_prod_unfold) (rule arg_cong [where f = sum_list], auto)
    also have "\<dots> = (\<Sum>p\<leftarrow>ps. if fst x = p then {#snd x#} else {#}) +
        mset (concat (map (\<lambda>p. map snd (filter (\<lambda>(q, _). q = p) xs)) ps))"
      by (simp add: sum_list_addf mset_concat o_def)
    also have "(\<Sum>p\<leftarrow>ps. if fst x = p then {#snd x#} else {#}) = {#snd x#}"
      using sum_list_single [OF that(1), of "fst x" "{#snd x#}"] Cons.prems by simp
    finally show ?case using Cons by simp
  qed (induction ps; simp)
  from this [of "prios xs"] show ?thesis by (simp add: levels_def zones_at_def [abs_def])
qed

text \<open>
  What \<^verbatim>\<open>generateStatusPriorityMap\<close> makes of a priority: strictly monotone, whether the
  string still has its last semicolon or not.
\<close>

lemma read_back_mono:
  assumes plain: "\<forall>x \<in> set xs. plain (snd x)" and dist: "distinct (map snd xs)"
    and str: "str = primary_zone xs \<or> (xs \<noteq> [] \<and> str = butlast (primary_zone xs))"
  obtains g where "strict_mono_on (fst ` set xs) g"
    "\<And>p z. (p, z) \<in> set xs \<Longrightarrow> assigned (generateStatusPriorityMap str) z = Some (g p)"
proof -
  let ?cuts = "map (\<lambda>cut. Split cut '','') (Split str '';'')"
  obtain tail where cuts: "?cuts = levels xs @ tail" and tail: "set (concat tail) \<subseteq> {[]}" "distinct (concat tail)"
    using that [of "[]"] that [of "[[[]]]"] str split_levels [OF plain] by auto
  have dl: "distinct (concat ?cuts)"
  proof -
    have "distinct (concat (levels xs))" "set (concat (levels xs)) = snd ` set xs"
      using mset_eq_imp_distinct_iff [OF concat_levels] mset_eq_setD [OF concat_levels] dist
      by (simp_all only: set_map)
    with tail plain show ?thesis unfolding cuts by (auto simp: plain_def)
  qed
  define pos where "pos p = (LEAST i. i < length (prios xs) \<and> prios xs ! i = p)" for p
  have pos: "pos p < length (prios xs) \<and> prios xs ! pos p = p" if "p \<in> fst ` set xs" for p
  proof -
    from that have "\<exists>i. i < length (prios xs) \<and> prios xs ! i = p" by (metis in_set_conv_nth set_prios(1))
    then show ?thesis unfolding pos_def by (rule LeastI_ex)
  qed
  let ?g = "\<lambda>p. int (length ?cuts) - int (pos p)"
  have desc: "sorted_wrt (>) (prios xs)"
    using strict_sorted_iff [of "sort (remdups (map fst xs))"]
    by (simp add: prios_def sort_desc_def sorted_wrt_rev)
  have "strict_mono_on (fst ` set xs) ?g"
  proof (rule strict_mono_onI)
    fix p q assume pq: "p \<in> fst ` set xs" "q \<in> fst ` set xs" "p < q"
    have "pos q < pos p"
    proof (rule ccontr)
      assume "\<not> pos q < pos p"
      then have "pos p < pos q \<or> pos p = pos q" by linarith
      with pos [OF pq(1)] pos [OF pq(2)] desc pq(3) show False
        unfolding sorted_wrt_iff_nth_less by (metis less_asym less_irrefl)
    qed
    then show "?g p < ?g q" by simp
  qed
  moreover have "assigned (generateStatusPriorityMap str) z = Some (?g p)" if "(p, z) \<in> set xs" for p z
  proof -
    from that have p: "p \<in> fst ` set xs" by force
    have "pos p < length (levels xs)" "levels xs ! pos p = zones_at xs p"
      using pos [OF p] by (simp_all add: levels_def)
    moreover have "z \<in> set (zones_at xs p)" using that by (force simp: zones_at_def)
    ultimately have "pos p < length ?cuts" "z \<in> set (?cuts ! pos p)" unfolding cuts by (simp_all add: nth_append)
    then show ?thesis unfolding generateStatusPriorityMap_def by (intro level_entries_lookup dl)
  qed
  ultimately show thesis by (rule that)
qed

end
