(* ===== verification/Flow_Runs.thy ===== *)
theory Flow_Runs
  imports Coordinator
begin

text \<open>
  Whole runs of a task flow: the failure handling the resource managers share, the
  contexts a flow goes through under arbitrary task results, the order in which tasks
  succeed, the bound on retries, and the number of reconciles a flow needs.
\<close>

section \<open>Failure handling on values\<close>

text \<open>
  The switch of \<^verbatim>\<open>HandleFailure\<close>: starting over moves to the rule's next status and
  drops the flow, or resets the flow when the resource already has that status;
  retrying makes the current task pending again; pausing leaves everything as it is.
\<close>

definition reset :: "OperationContext \<Rightarrow> OperationContext" where
  "reset c = c\<lparr>Idx := 0, TaskStatus := Empty, TaskId := [], Task := []\<rparr>"

definition start_over :: "string \<Rightarrow> OperationContext \<Rightarrow> flow_state" where
  "start_over s c =
     (if s \<noteq> NextTryStatus (OnFailure c) then (NextTryStatus (OnFailure c), None)
      else (s, Some (reset c)))"

definition failure_switch :: "string \<Rightarrow> OperationContext \<Rightarrow> flow_state" where
  "failure_switch s c =
     (case Strategy (OnFailure c) of
        StartOver \<Rightarrow> start_over s c
      | RetryFromCurrent \<Rightarrow> (s, Some (c\<lparr>TaskStatus := Pending\<rparr>))
      | _ \<Rightarrow> (s, Some c))"

text \<open>What every manager's failure handling leaves of a failed context.\<close>

definition lawful :: "(string \<Rightarrow> OperationContext \<Rightarrow> flow_state) \<Rightarrow> bool" where
  "lawful failure \<longleftrightarrow>
     (\<forall>s c. TaskStatus c = Failed \<longrightarrow>
        snd (failure s c) \<in> {None, Some (reset c), Some (c\<lparr>TaskStatus := Pending\<rparr>), Some c})"

lemma lawful_switch [simp, intro]: "lawful failure_switch"
  by (auto simp: lawful_def failure_switch_def start_over_def split: TaskFailureStrategy.splits)

lemma reset_simps [simp]:
  "Tasks (reset c) = Tasks c" "Idx (reset c) = 0" "TaskStatus (reset c) = Empty"
  "TargetStatus (reset c) = TargetStatus c" "OnFailure (reset c) = OnFailure c"
  "TaskId (reset c) = []" "Task (reset c) = []"
  by (simp_all add: reset_def)

lemma count_retry_simps [simp]:
  "Tasks (count_retry c) = Tasks c" "Idx (count_retry c) = Idx c"
  "TaskStatus (count_retry c) = TaskStatus c" "TargetStatus (count_retry c) = TargetStatus c"
  "Task (count_retry c) = Task c" "TaskId (count_retry c) = TaskId c"
  "RetryCount (OnFailure (count_retry c)) = RetryCount (OnFailure c) + 1"
  "MaxRetry (OnFailure (count_retry c)) = MaxRetry (OnFailure c)"
  "Strategy (OnFailure (count_retry c)) = Strategy (OnFailure c)"
  "NextTryStatus (OnFailure (count_retry c)) = NextTryStatus (OnFailure c)"
  by (simp_all add: count_retry_def)

section \<open>Contexts a flow goes through\<close>

text \<open>The task manager reports success or failure only.\<close>

definition proper_poll :: "step_env \<Rightarrow> bool" where
  "proper_poll e \<longleftrightarrow>
     (\<forall>r. polled e = Inr (Some r) \<longrightarrow> ResStatus r = Successful \<or> ResStatus r = Failed)"

lemma result_of_status: "ResStatus (result_of out) = Successful \<or> ResStatus (result_of out) = Failed"
  by (cases out rule: result_of.cases) simp_all

lemma reachable_proper_poll:
  assumes "tm_reachable n m" and "polled e = fst (GetTaskResult taskId m)"
  shows "proper_poll e"
proof -
  have inv: "tm_inv m" and hon: "honest m"
    using assms(1) by (rule tm_reachable_inv, rule tm_reachable_honest)
  show ?thesis
    using assms(2) inv honest_at [OF hon] tm_inv_entry [OF inv] result_of_status
    by (auto simp: proper_poll_def poll_cases entry_ok_def split: option.splits) metis+
qed

text \<open>
  The names of the tasks that succeeded since the flow was started (or last reset),
  next to the context. The resource's status may be changed by others between two
  steps, so it is arbitrary at each step.
\<close>

definition track :: "OperationContext \<Rightarrow> OperationContext \<Rightarrow> TaskName list \<Rightarrow> TaskName list" where
  "track c c' hist =
     (if TaskStatus c = Running \<and> TaskStatus c' = Successful then hist @ [Task c]
      else if TaskStatus c' = Empty then [] else hist)"

inductive flow_reach ::
  "config \<Rightarrow> (string \<Rightarrow> OperationContext \<Rightarrow> flow_state) \<Rightarrow> OperationContext \<Rightarrow>
     OperationContext \<Rightarrow> TaskName list \<Rightarrow> bool"
  for cfg failure c0 where
  flow_start: "flow_reach cfg failure c0 c0 []"
| flow_next: "flow_reach cfg failure c0 c hist \<Longrightarrow> proper_poll e \<Longrightarrow>
    spec_step cfg cleared archived failure e s c = (s', Some c') \<Longrightarrow>
    flow_reach cfg failure c0 c' (track c c' hist)"

text \<open>What has succeeded is exactly the part of the task list before the current task.\<close>

definition in_order :: "OperationContext \<Rightarrow> TaskName list \<Rightarrow> bool" where
  "in_order c hist \<longleftrightarrow>
     wf_context c \<and> hist = take (if TaskStatus c = Successful then Idx c else Idx c - 1) (Tasks c)"

lemma take_hd_drop_nth: "0 < i \<Longrightarrow> i \<le> length xs \<Longrightarrow> take (i - 1) xs @ [xs ! (i - 1)] = take i xs"
  by (metis Suc_pred' less_eq_Suc_le take_Suc_conv_app_nth)

lemma in_order_poll:
  assumes "in_order c hist" "TaskStatus c = Running" "st = Successful \<or> st = Failed"
  shows "in_order (c\<lparr>TaskStatus := st\<rparr>) (track c (c\<lparr>TaskStatus := st\<rparr>) hist)"
  using assms take_hd_drop_nth [of "Idx c" "Tasks c"]
  by (auto simp: in_order_def wf_context_def track_def)

lemma in_order_NextTask:
  assumes "in_order c hist" "TaskStatus c = Empty \<or> TaskStatus c = Successful" "HasNext c"
  shows "in_order (NextTask c) (track c (NextTask c) hist)"
  using assms wf_NextTask [of c] NextTask_HasNext [of c]
  by (auto simp: in_order_def track_def wf_context_def)

lemma in_order_failure:
  assumes "in_order c hist" "TaskStatus c = Failed"
    and "c' \<in> {reset c, c\<lparr>TaskStatus := Pending\<rparr>, c}"
  shows "in_order c' (track c c' hist)" "in_order (count_retry c') (track c (count_retry c') hist)"
  using assms by (auto simp: in_order_def wf_context_def track_def)

lemma spec_step_failed:
  assumes "TaskStatus c = Failed" and "lawful failure"
    and "spec_step cfg cleared archived failure e s c = (s', Some c')"
  shows "\<exists>c1 \<in> {reset c, c\<lparr>TaskStatus := Pending\<rparr>, c}.
    if limited c then c' = count_retry c1 \<and> RetryCount (OnFailure c) \<le> max_retry cfg c
    else c' = c1"
proof -
  from assms(1,3) obtain c1 where "snd (failure s c) = Some c1"
    "if limited c then c' = count_retry c1 \<and> RetryCount (OnFailure c) \<le> max_retry cfg c
     else c' = c1"
    by (auto simp: spec_step_def prod_eq_iff split: if_splits)
  moreover have "snd (failure s c) \<in> {None, Some (reset c), Some (c\<lparr>TaskStatus := Pending\<rparr>), Some c}"
    using assms(1,2) unfolding lawful_def by blast
  ultimately show ?thesis by auto
qed

lemma spec_step_in_order:
  assumes ord: "in_order c hist" and law: "lawful failure" and poll: "proper_poll e"
    and step: "spec_step cfg cleared archived failure e s c = (s', Some c')"
  shows "in_order c' (track c c' hist)"
proof (cases "TaskStatus c")
  case Failed
  from spec_step_failed [OF Failed law step]
  obtain c1 where "c1 \<in> {reset c, c\<lparr>TaskStatus := Pending\<rparr>, c}" "c' = c1 \<or> c' = count_retry c1"
    by (metis (full_types))
  with ord Failed in_order_failure show ?thesis by blast
next
  case Running
  note polls = in_order_poll [OF ord Running, of Successful] in_order_poll [OF ord Running, of Failed]
  with Running ord step poll show ?thesis
    by (auto simp: spec_step_def proper_poll_def track_def split: sum.splits option.splits)
next
  case Empty
  with ord step in_order_NextTask show ?thesis by (auto simp: spec_step_def split: if_splits)
next
  case Successful
  with ord step in_order_NextTask show ?thesis by (auto simp: spec_step_def split: if_splits)
next
  case Pending
  with ord step show ?thesis
    by (auto simp: spec_step_def in_order_def wf_context_def track_def split: if_splits)
qed (use ord step in \<open>auto simp: spec_step_def in_order_def wf_context_def track_def\<close>)

lemma flow_reach_in_order:
  assumes "flow_reach cfg failure c0 c hist" and "lawful failure"
    and "wf_context c0" and "TaskStatus c0 = Empty"
  shows "in_order c hist"
  using assms
proof (induction rule: flow_reach.induct)
  case flow_start
  then show ?case by (simp add: in_order_def wf_context_def)
qed (blast intro: spec_step_in_order)

lemma spec_step_Tasks:
  assumes "lawful failure" and "spec_step cfg cleared archived failure e s c = (s', Some c')"
  shows "Tasks c' = Tasks c \<and> TargetStatus c' = TargetStatus c"
proof (cases "TaskStatus c = Failed")
  case True
  from spec_step_failed [OF True assms] show ?thesis by (auto split: if_splits)
next
  case False
  with assms(2) show ?thesis
    by (cases "TaskStatus c") (auto simp: spec_step_def split: if_splits sum.splits option.splits)
qed

lemma flow_reach_Tasks:
  "flow_reach cfg failure c0 c hist \<Longrightarrow> lawful failure \<Longrightarrow>
     Tasks c = Tasks c0 \<and> TargetStatus c = TargetStatus c0"
  by (induction rule: flow_reach.induct) (auto dest: spec_step_Tasks)

section \<open>Retries\<close>

text \<open>The retry counter of a flow with a limit never passes the limit by more than one.\<close>

lemma spec_step_retry_bound:
  assumes "lawful failure" "spec_step cfg cleared archived failure e s c = (s', Some c')"
    and "0 \<le> RetryCount (OnFailure c)" "limited c \<longrightarrow> RetryCount (OnFailure c) \<le> max 0 (max_retry cfg c + 1)"
  shows "0 \<le> RetryCount (OnFailure c') \<and> Strategy (OnFailure c') = Strategy (OnFailure c) \<and>
    max_retry cfg c' = max_retry cfg c \<and>
    (limited c' \<longrightarrow> RetryCount (OnFailure c') \<le> max 0 (max_retry cfg c' + 1))"
proof (cases "TaskStatus c = Failed")
  case True
  from spec_step_failed [OF True assms(1,2)] obtain c1
    where c1: "c1 \<in> {reset c, c\<lparr>TaskStatus := Pending\<rparr>, c}"
      "if limited c then c' = count_retry c1 \<and> RetryCount (OnFailure c) \<le> max_retry cfg c
       else c' = c1"
    by blast
  then have "OnFailure c1 = OnFailure c" by auto
  with c1(2) assms(3,4) show ?thesis
    by (auto simp: max_retry_def limited_def split: if_splits)
next
  case False
  then have "OnFailure c' = OnFailure c"
    using assms(2)
    by (cases "TaskStatus c") (auto simp: spec_step_def split: if_splits sum.splits option.splits)
  with assms show ?thesis by (auto simp: max_retry_def limited_def)
qed

lemma flow_reach_retry_bound:
  assumes "flow_reach cfg failure c0 c hist" and "lawful failure"
    and "RetryCount (OnFailure c0) = 0"
  shows "0 \<le> RetryCount (OnFailure c) \<and> Strategy (OnFailure c) = Strategy (OnFailure c0) \<and>
    max_retry cfg c = max_retry cfg c0 \<and>
    (limited c \<longrightarrow> RetryCount (OnFailure c) \<le> max 0 (max_retry cfg c + 1))"
  using assms
proof (induction rule: flow_reach.induct)
  case flow_start
  then show ?case by simp
next
  case (flow_next c hist e cleared archived s s' c')
  then have "0 \<le> RetryCount (OnFailure c)" "limited c \<longrightarrow> RetryCount (OnFailure c) \<le> max 0 (max_retry cfg c + 1)"
    and same: "Strategy (OnFailure c) = Strategy (OnFailure c0)" "max_retry cfg c = max_retry cfg c0"
    by auto
  from spec_step_retry_bound [OF flow_next.prems(1) flow_next.hyps(3) this(1,2)] same
  show ?case by auto
qed

section \<open>Backoff arithmetic\<close>

lemma second_shift: "Second * push_bit n 1 = word_of_int (1000000000 * 2 ^ n)"
  by (simp add: Second_def push_bit_eq_mult)

lemma sint_in_range:
  "- (2 ^ 63) \<le> x \<Longrightarrow> x < 2 ^ 63 \<Longrightarrow> sint (word_of_int x :: 64 word) = x"
  by (simp add: signed_take_bit_int_eq_self sint_sbintrunc')

section \<open>Properties\<close>

text \<open>
  C5. A flow ends, other than by a failed task, only when every task of the flow has
  succeeded, in the order of the task list and with no task skipped since the flow was
  started or last reset; the resource then gets the flow's target status. This holds
  for every sequence of task results and lost tasks, whatever happens to the resource's
  status in between, and for every failure handling the managers use.
\<close>

theorem flow_ends_after_all_tasks:
  assumes "flow_reach cfg failure (new_context name tasks target rule) c hist"
    and "lawful failure" and "tasks \<noteq> []"
    and "spec_step cfg cleared archived failure e s c = (s', None)" and "TaskStatus c \<noteq> Failed"
  shows "hist = tasks \<and> s' = target"
proof -
  have ord: "in_order c hist" and c: "Tasks c = tasks" "TargetStatus c = target"
    using flow_reach_in_order [OF assms(1,2)] flow_reach_Tasks [OF assms(1,2)] by auto
  have "TaskStatus c = Successful \<and> \<not> HasNext c \<and> s' = target"
    using assms(3-5) ord c
    by (cases "TaskStatus c") (auto simp: spec_step_def in_order_def wf_context_def HasNext_def
        split: if_splits)
  with ord c show ?thesis by (simp add: in_order_def HasNext_def wf_context_def)
qed

definition good_env :: step_env where
  "good_env = \<lparr>found = True, polled = Inr (Some \<lparr>ResStatus = Successful, ResError = None\<rparr>),
     new_id = ''id''\<rparr>"

lemma proper_good_env [simp]: "proper_poll good_env"
  by (simp add: proper_poll_def good_env_def)

lemma flow_next_good:
  "flow_reach cfg failure c0 c hist \<Longrightarrow>
    spec_step cfg [] [] failure good_env [] c = (s', Some c') \<Longrightarrow> h' = track c c' hist \<Longrightarrow>
    flow_reach cfg failure c0 c' h'"
  using flow_next [OF _ proper_good_env] by blast

lemma one_task_flow:
  "flow_reach cfg failure_switch (new_context ''f'' [''t''] ''running'' zero_rule)
     ((new_context ''f'' [''t''] ''running'' zero_rule)
        \<lparr>Task := ''t'', Idx := 1, TaskStatus := Successful, TaskId := ''id''\<rparr>) [''t'']"
proof -
  let ?c = "new_context ''f'' [''t''] ''running'' zero_rule"
  have 1: "flow_reach cfg failure_switch ?c (?c\<lparr>Task := ''t'', Idx := 1, TaskStatus := Pending\<rparr>) []"
    by (rule flow_next_good [OF flow_start])
      (simp_all add: spec_step_def HasNext_def NextTask_def new_context_def track_def)
  have 2: "flow_reach cfg failure_switch ?c
      (?c\<lparr>Task := ''t'', Idx := 1, TaskStatus := Running, TaskId := ''id''\<rparr>) []"
    by (rule flow_next_good [OF 1]) (simp_all add: spec_step_def good_env_def track_def new_context_def)
  show ?thesis
    by (rule flow_next_good [OF 2]) (simp_all add: spec_step_def good_env_def track_def new_context_def)
qed

theorem flow_ends_after_all_tasks_witness:
  "[''t''] = [''t''] \<and> ''running'' = ''running'' \<and>
   spec_step default_cfg [] [] failure_switch good_env []
     ((new_context ''f'' [''t''] ''running'' zero_rule)
        \<lparr>Task := ''t'', Idx := 1, TaskStatus := Successful, TaskId := ''id''\<rparr>) = (''running'', None)"
proof -
  let ?c = "(new_context ''f'' [''t''] ''running'' zero_rule)
        \<lparr>Task := ''t'', Idx := 1, TaskStatus := Successful, TaskId := ''id''\<rparr>"
  have step: "spec_step default_cfg [] [] failure_switch good_env [] ?c = (''running'', None)"
    by (simp add: spec_step_def HasNext_def new_context_def)
  from flow_ends_after_all_tasks [OF one_task_flow lawful_switch _ step] step show ?thesis
    by (simp add: new_context_def)
qed

text \<open>
  Whatever happens in a run of a flow whose strategy has a retry limit, the retry
  counter never exceeds the limit by more than one.
\<close>

theorem flow_retry_bound:
  assumes "flow_reach cfg failure c0 c hist" and "lawful failure"
    and "RetryCount (OnFailure c0) = 0" and "limited c0" and "0 \<le> max_retry cfg c0"
  shows "0 \<le> RetryCount (OnFailure c) \<and> RetryCount (OnFailure c) \<le> max_retry cfg c0 + 1"
  using flow_reach_retry_bound [OF assms(1-3)] assms(4,5) by (auto simp: limited_def)

theorem flow_retry_bound_witness:
  "(0::int) \<le> 0 \<and> (0::int) \<le> max_retry default_cfg
     (new_context ''f'' [''t''] ''running'' (zero_rule\<lparr>Strategy := StartOver\<rparr>)) + 1"
  using flow_retry_bound [OF flow_start lawful_switch,
      of "new_context ''f'' [''t''] ''running'' (zero_rule\<lparr>Strategy := StartOver\<rparr>)" default_cfg]
  by (simp add: limited_def max_retry_def default_cfg_def)

text \<open>
  The requeue delay after a failure, \<^verbatim>\<open>1s << min(RetryCount, threshold)\<close> on int64
  nanoseconds, is exact and positive for every threshold up to 33; it doubles with
  every retry up to the threshold. At 34 the product leaves the int64 range and the
  delay comes out negative.
\<close>

theorem backoff_exact:
  assumes "0 < n" and "0 \<le> t" and "t \<le> 33"
  shows "\<exists>d. backoff Second (Min_go n t) = Some d \<and>
    sint d = 1000000000 * 2 ^ nat (min n t) \<and> 0 < sint d"
proof -
  let ?k = "nat (min n t)"
  have "(2::int) ^ ?k \<le> 2 ^ 33"
    using assms(3) by (intro power_increasing) auto
  then have "1000000000 * (2::int) ^ ?k < 2 ^ 63" by simp
  moreover have "- (2 ^ 63) \<le> (1000000000 * 2 ^ ?k :: int)"
    by (rule order_trans [of _ 0]) simp_all
  ultimately have "sint (Second * push_bit ?k 1) = 1000000000 * 2 ^ ?k"
    unfolding second_shift by (intro sint_in_range)
  with assms show ?thesis by (simp add: backoff_def)
qed

theorem backoff_exact_witness:
  "\<exists>d. backoff Second (Min_go 20 16) = Some d \<and> sint d = 65536000000000 \<and> 0 < sint d"
  using backoff_exact [of 20 16] by simp

text \<open>With a threshold of 34 or more the delay of the 34th retry is negative.\<close>

theorem backoff_overflow:
  "\<exists>d. backoff Second (Min_go 34 34) = Some d \<and> sint d < 0"
  by (simp add: backoff_def Second_def push_bit_eq_mult)

end
