(* ===== verification/Managers.thy ===== *)
theory Managers
  imports API_Types Flow_Runs
begin

text \<open>
  What the resource managers of \<^verbatim>\<open>internal/resource\<close> have in common. Each manager
  repeats the same methods on its own kind of resource; the statements they repeat are
  given once here, on every record that extends \<open>Resource\<close>. The locale
  \<open>standard_manager\<close> collects what they guarantee together, and gives the contract
  \<open>flow_manager\<close> the coordinator's proofs rest on.
\<close>

section \<open>Shared statements\<close>

text \<open>\<^verbatim>\<open>Status.Status = s; Status.OperationContext = nil\<close>.\<close>

definition leave_flow :: "string \<Rightarrow> 'a Resource_scheme \<Rightarrow> 'a Resource_scheme" where
  "leave_flow s r = r\<lparr>Status := s, Ctx := None\<rparr>"

text \<open>The body of every \<^verbatim>\<open>FinishTask\<close>; a nil context panics.\<close>

definition finish_flow :: "ctx_heap \<Rightarrow> 'a Resource_scheme \<Rightarrow> 'a Resource_scheme option" where
  "finish_flow h r = do { c \<leftarrow> deref h (Ctx r); Some (r\<lparr>Status := TargetStatus c, Ctx := None\<rparr>) }"

text \<open>The \<^verbatim>\<open>StartOver\<close> branch and the whole switch on the failure rule's strategy.\<close>

definition start_over_switch ::
  "ctx_heap \<Rightarrow> OperationContext \<Rightarrow> 'a Resource_scheme \<Rightarrow> ctx_heap \<times> 'a Resource_scheme" where
  "start_over_switch h c r =
     (if Status r \<noteq> NextTryStatus (OnFailure c)
      then (h, r\<lparr>Status := NextTryStatus (OnFailure c), Ctx := None\<rparr>)
      else (put_ctx (Ctx r) (c\<lparr>Idx := 0, TaskStatus := Empty, TaskId := [], Task := []\<rparr>) h, r))"

definition failure_rule_switch ::
  "ctx_heap \<Rightarrow> 'a Resource_scheme \<Rightarrow> (ctx_heap \<times> 'a Resource_scheme) option" where
  "failure_rule_switch h r = do {
     c \<leftarrow> deref h (Ctx r);
     Some (case Strategy (OnFailure c) of
             StartOver \<Rightarrow> start_over_switch h c r
           | RetryFromCurrent \<Rightarrow> (put_ctx (Ctx r) (c\<lparr>TaskStatus := Pending\<rparr>) h, r)
           | _ \<Rightarrow> (h, r)) }"

text \<open>
  The end of \<^verbatim>\<open>GetTaskFlow\<close>: a flow without a strategy starts over, from status
  \<open>dflt\<close> unless it names one, and is then allocated.
\<close>

definition fill_strategy :: "string \<Rightarrow> OperationContext \<Rightarrow> OperationContext" where
  "fill_strategy dflt c =
     (if Strategy (OnFailure c) = NoStrategy
      then c\<lparr>OnFailure := (OnFailure c)\<lparr>Strategy := StartOver,
              NextTryStatus := (if NextTryStatus (OnFailure c) = [] then dflt
                                else NextTryStatus (OnFailure c))\<rparr>\<rparr>
      else c)"

definition new_flow ::
  "ctx_heap \<Rightarrow> OperationContext \<Rightarrow> ctx_heap \<times> TaskFlow option result" where
  "new_flow h c = (case alloc h c of (h', a) \<Rightarrow> (h', Inr (Some (Some a))))"

lemma fill_strategy_simps [simp]:
  "Tasks (fill_strategy d c) = Tasks c" "TargetStatus (fill_strategy d c) = TargetStatus c"
  "TaskStatus (fill_strategy d c) = TaskStatus c" "Idx (fill_strategy d c) = Idx c"
  "RetryCount (OnFailure (fill_strategy d c)) = RetryCount (OnFailure c)"
  "MaxRetry (OnFailure (fill_strategy d c)) = MaxRetry (OnFailure c)"
  "Strategy (OnFailure (fill_strategy d c)) =
     (if Strategy (OnFailure c) = NoStrategy then StartOver else Strategy (OnFailure c))"
  "NextTryStatus (OnFailure (fill_strategy d c)) =
     (if Strategy (OnFailure c) = NoStrategy \<and> NextTryStatus (OnFailure c) = [] then d
      else NextTryStatus (OnFailure c))"
  by (simp_all add: fill_strategy_def)

lemma leave_flow_simps [simp]:
  "Ctx (leave_flow s r) = None" "Status (leave_flow s r) = s"
  by (simp_all add: leave_flow_def)

text \<open>
  What \<^verbatim>\<open>HandleFailure\<close> does, said on the value of status and context and carried out
  on the resource and the heap.
\<close>

definition lift_failure ::
  "(string \<Rightarrow> OperationContext \<Rightarrow> flow_state) \<Rightarrow> ctx_heap \<Rightarrow> 'a Resource_scheme \<Rightarrow>
     (ctx_heap \<times> 'a Resource_scheme) option" where
  "lift_failure f h r = do {
     c \<leftarrow> deref h (Ctx r);
     Some (case f (Status r) c of
             (s, None) \<Rightarrow> (h, r\<lparr>Status := s, Ctx := None\<rparr>)
           | (s, Some c') \<Rightarrow> (put_ctx (Ctx r) c' h, r\<lparr>Status := s\<rparr>)) }"

lemma put_ctx_same: "Ctx r = Some a \<Longrightarrow> a < length h \<Longrightarrow> put_ctx (Ctx r) (h ! a) h = h"
  by simp

lemma start_over_switch_lift:
  "Ctx r = Some a \<Longrightarrow> a < length h \<Longrightarrow>
    Some (start_over_switch h (h ! a) r) = lift_failure start_over h r"
  by (auto simp: start_over_switch_def lift_failure_def start_over_def reset_def)

lemma failure_rule_switch_lift:
  "Ctx r = Some a \<Longrightarrow> a < length h \<Longrightarrow> failure_rule_switch h r = lift_failure failure_switch h r"
  using start_over_switch_lift [of r a h]
  by (auto simp: failure_rule_switch_def lift_failure_def failure_switch_def put_ctx_same
      split: TaskFailureStrategy.splits)

text \<open>Failure handling of a resource under deletion, and the variants of the switch.\<close>

definition failure_unless_deleted ::
  "string \<Rightarrow> 'a Resource_scheme \<Rightarrow> string \<Rightarrow> OperationContext \<Rightarrow> flow_state" where
  "failure_unless_deleted deleting r s c =
     (if DeletionTimestamp r \<noteq> None then (deleting, None) else failure_switch s c)"

lemma lawful_unless_deleted [simp, intro]: "lawful (failure_unless_deleted d r)"
  using lawful_switch by (auto simp: lawful_def failure_unless_deleted_def)

section \<open>The contract of a standard manager\<close>

text \<open>A flow as \<^verbatim>\<open>GetTaskFlow\<close> creates it.\<close>

definition fresh_flow :: "OperationContext \<Rightarrow> bool" where
  "fresh_flow c \<longleftrightarrow>
     TaskStatus c = Empty \<and> Idx c = 0 \<and> Tasks c \<noteq> [] \<and> TargetStatus c \<noteq> [] \<and>
     RetryCount (OnFailure c) = 0 \<and> Strategy (OnFailure c) \<noteq> NoStrategy"

lemma fresh_flow_wf: "fresh_flow c \<Longrightarrow> wf_context c \<and> HasNext c"
  by (simp add: fresh_flow_def wf_context_def HasNext_def)

lemma fresh_new_context [simp]:
  "fresh_flow (fill_strategy d (new_context n ts t r)) \<longleftrightarrow> ts \<noteq> [] \<and> t \<noteq> [] \<and> RetryCount r = 0"
  by (simp add: fresh_flow_def)

text \<open>
  A pending flow is resumed; otherwise \<^verbatim>\<open>GetTaskFlow\<close> fails, finds nothing to do, or
  allocates one fresh flow. It never panics and changes no existing context.
\<close>

definition creates_flow :: "ctx_heap \<Rightarrow> (ctx_heap \<times> TaskFlow option result) option \<Rightarrow> bool" where
  "creates_flow h out \<longleftrightarrow>
     (\<exists>e. out = Some (h, Inl e)) \<or> out = Some (h, Inr None) \<or>
     (\<exists>c. out = Some (new_flow h c) \<and> fresh_flow c)"

locale resource_manager =
  fixes M :: "'a Resource_scheme ResourceManager"
    and cleared archived :: string
    and failure :: "'a Resource_scheme \<Rightarrow> string \<Rightarrow> OperationContext \<Rightarrow> flow_state"
  assumes get_status: "GetStatus M r = Status r"
    and get_meta: "GetMeta M r = ObjectMeta.truncate r"
    and set_context: "SetOperationContext M p r = r\<lparr>Ctx := p\<rparr>"
    and clears: "ClearTaskInfo M r = leave_flow cleared r"
    and archives: "ArchiveResource M r = leave_flow archived r"
    and finishes: "FinishTask M h r = finish_flow h r"
    and handles: "Ctx r = Some a \<Longrightarrow> a < length h \<Longrightarrow> HandleFailure M h r = lift_failure (failure r) h r"
    and resumes: "Ctx r = Some a \<Longrightarrow> GetTaskFlow M h r = Some (h, Inr (Some (Some a)))"
begin

lemma handle_law:
  assumes "Ctx r = Some a" and "a < length h"
  shows "\<exists>h' r'. HandleFailure M h r = Some (h', r') \<and>
    GetStatus M r' = fst (failure r (GetStatus M r) (h ! a)) \<and>
    (case snd (failure r (GetStatus M r) (h ! a)) of
       None \<Rightarrow> Ctx r' = None \<and> h' = h
     | Some c \<Rightarrow> Ctx r' = Some a \<and> h' = h[a := c])"
  using assms handles [OF assms]
  by (auto simp: lift_failure_def get_status split: prod.splits option.splits)

lemma flow_manager: "flow_manager M Ctx cleared archived failure"
  by unfold_locales
    (auto simp: get_status set_context clears archives finishes finish_flow_def handle_law
      [unfolded get_status])

end

sublocale resource_manager \<subseteq> fm: flow_manager M Ctx cleared archived failure
  by (rule flow_manager)

text \<open>
  A standard manager creates fresh flows and restarts a failed one from a state of the same
  flow. The managers of operations are not standard: their flows carry no strategy.
\<close>

locale standard_manager = resource_manager +
  assumes creates: "Ctx r = None \<Longrightarrow> creates_flow h (GetTaskFlow M h r)"
    and failure_lawful: "lawful (failure r)"

context standard_manager
begin

text \<open>The step of a resource with a flow in progress is a step of the specification.\<close>

lemma coordinate_step:
  assumes "Ctx (res w) = Some a" "a < length (ctxs w)"
    and "GetStatus M (res w) \<noteq> []"
    and "dict_get (Annotations (GetMeta M (res w))) (PauseAnnotation cfg) \<noteq> ''true''"
    and "0 \<le> TaskRetryBackoffThreshold cfg"
    and "found e \<longleftrightarrow> (\<exists>fn. GetTaskFunc M (Task (ctxs w ! a)) (res w) = Inr fn)"
    and "polled e = fst (GetTaskResult (TaskId (ctxs w ! a)) (tm w))" "new_id e = taskId"
  shows "\<exists>d w'. coordinate_flow cfg dbg M taskId w = Some (Inr ((d, Some (Some a)), w')) \<and>
    length (ctxs w') = length (ctxs w) \<and>
    flow_view M Ctx w' =
      spec_step cfg cleared archived (failure (res w)) e (GetStatus M (res w)) (ctxs w ! a)"
proof -
  have same: "SetOperationContext M (Some a) (res w) = res w"
    using assms(1) by (simp add: set_context)
  from fm.execute_refines [OF assms(1,2,6-8)] obtain w'
    where w': "executeTaskFlow cfg dbg M taskId (Some a) w = Some w'"
      "length (ctxs w') = length (ctxs w)"
      "flow_view M Ctx w' = spec_step cfg cleared archived (failure (res w)) e
         (GetStatus M (res w)) (ctxs w ! a)"
    by blast
  then show ?thesis
    using assms(1-5) by (auto simp: coordinate_flow_def resumes same backoff_def)
qed

text \<open>With no flow in progress, a reconcile starts a fresh flow and takes its first task.\<close>

lemma coordinate_start:
  assumes "Ctx (res w) = None" "GetStatus M (res w) \<noteq> []"
    and "dict_get (Annotations (GetMeta M (res w))) (PauseAnnotation cfg) \<noteq> ''true''"
    and "GetTaskFlow M (ctxs w) (res w) = Some (new_flow (ctxs w) c)" "fresh_flow c"
  shows "\<exists>w'. coordinate_flow cfg dbg M taskId w =
      Some (Inr ((ExecutionRequeueDuration cfg, Some (Some (length (ctxs w)))), w')) \<and>
    flow_view M Ctx w' = (GetStatus M (res w), Some (NextTask c)) \<and> tm w' = tm w"
  using assms fresh_flow_wf [OF assms(5)]
  by (auto simp: coordinate_flow_def new_flow_def alloc_def executeTaskFlow_def fresh_flow_def
      flow_view_def set_context get_status NextTask_HasNext)

text \<open>Executing a flow never touches the metadata of the resource.\<close>

lemma execute_keeps_meta:
  assumes "executeTaskFlow cfg dbg M taskId (Some a) w = Some w'"
    and "Ctx (res w) = Some a" "a < length (ctxs w)"
  shows "ObjectMeta.truncate (res w') = ObjectMeta.truncate (res w)"
proof -
  have meta: "ObjectMeta.truncate (leave_flow s r) = ObjectMeta.truncate r" for s and r :: "'a Resource_scheme"
    by (simp add: leave_flow_def ObjectMeta.truncate_def)
  have fin: "finish_flow h r = Some r' \<Longrightarrow> ObjectMeta.truncate r' = ObjectMeta.truncate r"
    for h and r r' :: "'a Resource_scheme"
    by (auto simp: finish_flow_def ObjectMeta.truncate_def split: bind_splits)
  have lift: "lift_failure f h r = Some (h', r') \<Longrightarrow> ObjectMeta.truncate r' = ObjectMeta.truncate r"
    for f h h' and r r' :: "'a Resource_scheme"
    by (auto simp: lift_failure_def ObjectMeta.truncate_def
        split: bind_splits prod.splits option.splits)
  show ?thesis
    using assms handles [OF assms(2,3)]
    by (cases "TaskStatus (ctxs w ! a)")
      (auto simp: executeTaskFlow_def clears archives finishes meta Let_def dest: fin lift
        split: if_splits sum.splits option.splits prod.splits bind_splits)
qed

lemma coordinate_status:
  assumes "Ctx (res w) = Some a" "a < length (ctxs w)"
    and "GetStatus M (res w) \<noteq> []"
    and "dict_get (Annotations (GetMeta M (res w))) (PauseAnnotation cfg) \<noteq> ''true''"
    and "coordinate_flow cfg dbg M taskId w = Some (Inr ((d, f), w'))"
    and "found e \<longleftrightarrow> (\<exists>fn. GetTaskFunc M (Task (ctxs w ! a)) (res w) = Inr fn)"
    and "polled e = fst (GetTaskResult (TaskId (ctxs w ! a)) (tm w))" "new_id e = taskId"
  shows "Status (res w') =
      fst (spec_step cfg cleared archived (failure (res w)) e (GetStatus M (res w)) (ctxs w ! a))"
    and "ObjectMeta.truncate (res w') = ObjectMeta.truncate (res w)"
proof -
  have same: "SetOperationContext M (Some a) (res w) = res w"
    using assms(1) by (simp add: set_context)
  from fm.execute_refines [OF assms(1,2,6-8)] obtain w1
    where w1: "executeTaskFlow cfg dbg M taskId (Some a) w = Some w1"
      "flow_view M Ctx w1 = spec_step cfg cleared archived (failure (res w)) e
         (GetStatus M (res w)) (ctxs w ! a)"
    by blast
  then have "w1 = w'"
    using assms(1-5) by (auto simp: coordinate_flow_def resumes same split: if_splits bind_splits)
  with w1 show "Status (res w') =
      fst (spec_step cfg cleared archived (failure (res w)) e (GetStatus M (res w)) (ctxs w ! a))"
    by (simp add: flow_view_def get_status prod_eq_iff)
  show "ObjectMeta.truncate (res w') = ObjectMeta.truncate (res w)"
    using execute_keeps_meta [OF w1(1) assms(1,2)] \<open>w1 = w'\<close> by simp
qed

end

end
