(* ===== verification/Sample_Objects.thy ===== *)
theory Sample_Objects
  imports API_Types
begin

text \<open>
  A small cluster of one zone with one server, all of them running and as specified. The
  concrete instances of the development's theorems are taken at these objects.
\<close>

definition small_template :: OBServerTemplate where
  "small_template = \<lparr>Image = ''oceanbase:4.2'', Template_Resource = \<lparr>Cpu = 2, Memory = 10\<rparr>,
     Storage = \<lparr>DataStorage = \<lparr>StorageClass = ''ssd'', Size = 50\<rparr>,
       RedoLogStorage = \<lparr>StorageClass = ''ssd'', Size = 50\<rparr>,
       LogStorage = \<lparr>StorageClass = ''ssd'', Size = 20\<rparr>\<rparr>, PodFields = None\<rparr>"

definition zone1_topology :: OBZoneTopology where
  "zone1_topology = \<lparr>Zone = ''zone1'', NodeSelector = [], Affinity = None, Tolerations = [],
     Replica = 1, K8sCluster = [], Topology_OBServerTemplate = None, Topology_MonitorTemplate = None\<rparr>"

definition small_cluster :: OBCluster where
  "small_cluster = \<lparr>Name = ''test'', Namespace = ''oceanbase'', Annotations = Map.empty,
     Labels = Map.empty, Finalizers = [], DeletionTimestamp = None, Status = ''running'', Ctx = None,
     ClusterSpec_ClusterName = ''test'', ClusterSpec_ClusterId = 1,
     ClusterSpec_OBServerTemplate = small_template, ClusterSpec_MonitorTemplate = None,
     ClusterSpec_BackupVolume = None, ClusterSpec_Parameters = [], ClusterSpec_Topology = [zone1_topology],
     ClusterSpec_UserSecrets = \<lparr>Secret_Root = ''root-secret'', Secret_ProxyRO = [], Secret_Monitor = [], Secret_Operator = []\<rparr>,
     ClusterSpec_ServiceAccount = ''default'', ClusterSpec_Scenario = ''htap'',
     ClusterStatus_Image = ''oceanbase:4.2'', ClusterStatus_OBZoneStatus = [],
     ClusterStatus_Parameters = []\<rparr>"

definition small_zone :: OBZone where
  "small_zone = \<lparr>Name = ''test-1-zone1'', Namespace = ''oceanbase'', Annotations = Map.empty,
     Labels = Map.empty, Finalizers = [], DeletionTimestamp = None, Status = ''running'', Ctx = None,
     ZoneSpec_ClusterName = ''test'', ZoneSpec_ClusterId = 1, ZoneSpec_Topology = zone1_topology,
     ZoneSpec_OBServerTemplate = small_template, ZoneSpec_MonitorTemplate = None,
     ZoneSpec_BackupVolume = None, ZoneSpec_ServiceAccount = ''default'',
     ZoneStatus_Image = ''oceanbase:4.2'', ZoneStatus_OBServerStatus =
       [\<lparr>ServerReplica_Server = ''10.0.0.1'', ServerReplica_Status = ''running'', ServerReplica_ServiceIP = []\<rparr>]\<rparr>"

definition small_server :: OBServer where
  "small_server = \<lparr>Name = ''test-1-zone1-abcdef'', Namespace = ''oceanbase'', Annotations = Map.empty,
     Labels = Map.empty, Finalizers = [], DeletionTimestamp = None, Status = ''running'', Ctx = None,
     ServerSpec_ClusterName = ''test'', ServerSpec_ClusterId = 1, ServerSpec_Zone = ''zone1'',
     ServerSpec_NodeSelector = [], ServerSpec_Affinity = None, ServerSpec_Tolerations = [],
     ServerSpec_OBServerTemplate = small_template, ServerSpec_MonitorTemplate = None,
     ServerSpec_BackupVolume = None, ServerSpec_ServiceAccount = ''default'', ServerSpec_K8sCluster = [],
     ServerStatus_Image = ''oceanbase:4.2'', ServerStatus_PodPhase = ''Running'', ServerStatus_Ready = True,
     ServerStatus_PodIp = ''10.0.0.1'', ServerStatus_ServiceIp = [], ServerStatus_NodeIp = ''192.168.0.1'',
     ServerStatus_NodeName = ''node1'', ServerStatus_CNI = ''unknown''\<rparr>"

lemmas small_objects = small_cluster_def small_zone_def small_server_def small_template_def
  zone1_topology_def

end
