(* ===== verification/OBCluster.thy ===== *)
theory OBCluster
  imports Managers Sample_Objects "HOL-Library.AList"
begin

text \<open>
  \<^verbatim>\<open>internal/resource/obcluster\<close>: the task flows of \<^verbatim>\<open>obcluster_flow.go\<close>, the
  spec comparisons of \<^verbatim>\<open>utils.go\<close> and the resource manager of
  \<^verbatim>\<open>obcluster_manager.go\<close>. What the API server answers is the argument \<open>env\<close>.
\<close>

section \<open>Task flows\<close>

definition genMigrateOBClusterFromExistingFlow :: OperationContext where
  "genMigrateOBClusterFromExistingFlow =
     new_context ''migrate obcluster from existing''
       [''check migration'', ''check image ready'', ''check environment'', ''check cluster mode'',
        ''check and create ns'', ''check and create user secrets'', ''create obzone'',
        ''wait obzone running'', ''create users'', ''maintain obparameter'',
        ''create obcluster service'', ''annotate obcluster'']
       clusterstatus_Running (zero_rule\<lparr>NextTryStatus := clusterstatus_Failed\<rparr>)"

definition genBootstrapOBClusterFlow :: OperationContext where
  "genBootstrapOBClusterFlow =
     new_context ''bootstrap obcluster''
       [''check image ready'', ''check environment'', ''check cluster mode'',
        ''check and create ns'', ''check and create user secrets'', ''create obzone'',
        ''wait obzone bootstrap ready'', ''bootstrap'']
       clusterstatus_Bootstrapped (zero_rule\<lparr>NextTryStatus := clusterstatus_Failed\<rparr>)"

definition genMaintainOBClusterAfterBootstrapFlow :: OperationContext where
  "genMaintainOBClusterAfterBootstrapFlow =
     new_context ''maintain obcluster after bootstrap''
       [''wait obzone running'', ''create users'', ''maintain obparameter'',
        ''create obcluster service'', ''annotate obcluster'', ''optimize cluster by scenario'']
       clusterstatus_Running zero_rule"

definition genAddOBZoneFlow :: OperationContext where
  "genAddOBZoneFlow =
     new_context ''add obzone''
       [''check and create ns'', ''create obzone'', ''wait obzone running'',
        ''modify sys tenant replica'', ''annotate obcluster'']
       clusterstatus_Running zero_rule"

definition genDeleteOBZoneFlow :: OperationContext where
  "genDeleteOBZoneFlow =
     new_context ''delete obzone''
       [''modify sys tenant replica'', ''delete obzone'', ''wait obzone deleted'']
       clusterstatus_Running zero_rule"

definition genModifyOBZoneReplicaFlow :: OperationContext where
  "genModifyOBZoneReplicaFlow =
     new_context ''modify obzone replica''
       [''modify obzone replica'', ''wait obzone topology match'', ''wait obzone running'']
       clusterstatus_Running zero_rule"

definition genMaintainOBParameterFlow :: OperationContext where
  "genMaintainOBParameterFlow =
     new_context ''maintain obparameter'' [''maintain obparameter''] clusterstatus_Running zero_rule"

definition genUpgradeOBClusterFlow :: OperationContext where
  "genUpgradeOBClusterFlow =
     new_context ''upgrade obcluster''
       [''validate upgrade info'', ''backup essential parameters'', ''upgrade check'',
        ''begin upgrade'', ''rolling upgrade by zone'', ''finish upgrade'',
        ''restore essential parameters'']
       clusterstatus_Running (zero_rule\<lparr>Strategy := Pause\<rparr>)"

definition genScaleOBZonesVerticallyFlow :: OperationContext where
  "genScaleOBZonesVerticallyFlow =
     new_context ''scale obzones vertically'' [''adjust parameters'', ''scale obzones vertically'']
       clusterstatus_Running zero_rule"

definition obcluster_genExpandPVCFlow :: OperationContext where
  "obcluster_genExpandPVCFlow =
     new_context ''expand pvc'' [''expand pvc'', ''wait obzone running''] clusterstatus_Running zero_rule"

definition obcluster_genModifyServerTemplateFlow :: OperationContext where
  "obcluster_genModifyServerTemplateFlow =
     new_context ''modify server template'' [''modify server template'', ''wait obzone running'']
       clusterstatus_Running zero_rule"

definition genRollingUpdateOBZonesFlow :: OperationContext where
  "genRollingUpdateOBZonesFlow =
     new_context ''rolling update observers'' [''rolling update obzones''] clusterstatus_Running zero_rule"

lemmas obcluster_flows = genMigrateOBClusterFromExistingFlow_def genBootstrapOBClusterFlow_def
  genMaintainOBClusterAfterBootstrapFlow_def genAddOBZoneFlow_def genDeleteOBZoneFlow_def
  genModifyOBZoneReplicaFlow_def genMaintainOBParameterFlow_def genUpgradeOBClusterFlow_def
  genScaleOBZonesVerticallyFlow_def obcluster_genExpandPVCFlow_def
  obcluster_genModifyServerTemplateFlow_def genRollingUpdateOBZonesFlow_def

text \<open>The names \<^verbatim>\<open>obcluster_task_gen.go\<close> registers, in its order.\<close>

definition obcluster_task_names :: "TaskName list" where
  "obcluster_task_names =
     [''wait obzone topology match'', ''wait obzone deleted'', ''modify obzone replica'',
      ''delete obzone'', ''create obzone'', ''bootstrap'', ''create users'',
      ''maintain obparameter'', ''validate upgrade info'', ''upgrade check'',
      ''backup essential parameters'', ''begin upgrade'', ''rolling upgrade by zone'',
      ''finish upgrade'', ''modify sys tenant replica'', ''restore essential parameters'',
      ''check and create user secrets'', ''create obcluster service'', ''check image ready'',
      ''check cluster mode'', ''check migration'', ''scale obzones vertically'', ''expand pvc'',
      ''modify server template'', ''wait obzone bootstrap ready'', ''wait obzone running'',
      ''rolling update obzones'', ''check environment'', ''annotate obcluster'',
      ''optimize cluster by scenario'', ''adjust parameters'', ''check and create ns'']"

definition obcluster_taskMap :: "(TaskName \<Rightarrow> 'm TypedTaskFunc) \<Rightarrow> 'm TaskHub" where
  "obcluster_taskMap body = register_all body obcluster_task_names NewTaskHub"

section \<open>What the API server and the libraries answer\<close>

text \<open>
  \<open>client_Update\<close> is \<^verbatim>\<open>Client.Update\<close>, which overwrites the object with the server's
  answer; with \<open>status_Update\<close> it stands for the last attempt of
  \<^verbatim>\<open>retry.RetryOnConflict\<close>. The finalizer functions are those of
  \<^verbatim>\<open>controllerutil\<close>; the task bodies are those registered in \<^verbatim>\<open>taskMap\<close>.
\<close>

record cluster_env =
  api_obzones :: "OBZone list result"
  api_obparameters :: "OBParameter list result"
  api_obcluster :: "OBCluster result"
  client_Update :: "OBCluster \<Rightarrow> OBCluster \<times> error option"
  status_Update :: "OBCluster \<Rightarrow> error option"
  ContainsFinalizer :: "string list \<Rightarrow> string \<Rightarrow> bool"
  AddFinalizer :: "string list \<Rightarrow> string \<Rightarrow> string list"
  RemoveFinalizer :: "string list \<Rightarrow> string \<Rightarrow> string list"
  cluster_task :: "TaskName \<Rightarrow> OBCluster TypedTaskFunc"

definition OBClusterManager_listOBZones :: "cluster_env \<Rightarrow> OBZone list result" where
  "OBClusterManager_listOBZones env = wrap_result ''get obzone list'' (api_obzones env)"

definition OBClusterManager_listOBParameters :: "cluster_env \<Rightarrow> OBParameter list result" where
  "OBClusterManager_listOBParameters env =
     wrap_result ''get obparameter list'' (api_obparameters env)"

definition OBClusterManager_getOBCluster :: "cluster_env \<Rightarrow> OBCluster result" where
  "OBClusterManager_getOBCluster env = wrap_result ''get obcluster'' (api_obcluster env)"

section \<open>Comparing the spec with the zones\<close>

definition OBClusterManager_checkIfStorageSizeExpand :: "OBCluster \<Rightarrow> OBZone \<Rightarrow> bool" where
  "OBClusterManager_checkIfStorageSizeExpand m obzone \<longleftrightarrow>
     (let newStorage = Storage (ClusterSpec_OBServerTemplate m);
          oldStorage = Storage (ZoneSpec_OBServerTemplate obzone)
      in Cmp (Size (DataStorage oldStorage)) (Size (DataStorage newStorage)) < 0 \<or>
         Cmp (Size (LogStorage oldStorage)) (Size (LogStorage newStorage)) < 0 \<or>
         Cmp (Size (RedoLogStorage oldStorage)) (Size (RedoLogStorage newStorage)) < 0)"

definition OBClusterManager_checkIfStorageClassChange :: "OBCluster \<Rightarrow> OBZone \<Rightarrow> bool" where
  "OBClusterManager_checkIfStorageClassChange m obzone \<longleftrightarrow>
     (let newStorage = Storage (ClusterSpec_OBServerTemplate m);
          oldStorage = Storage (ZoneSpec_OBServerTemplate obzone)
      in StorageClass (DataStorage oldStorage) \<noteq> StorageClass (DataStorage newStorage) \<or>
         StorageClass (LogStorage oldStorage) \<noteq> StorageClass (LogStorage newStorage) \<or>
         StorageClass (RedoLogStorage oldStorage) \<noteq> StorageClass (RedoLogStorage newStorage))"

definition OBClusterManager_checkIfCalcResourceChange :: "OBCluster \<Rightarrow> OBZone \<Rightarrow> bool" where
  "OBClusterManager_checkIfCalcResourceChange m obzone \<longleftrightarrow>
     Cmp (Cpu (Template_Resource (ZoneSpec_OBServerTemplate obzone)))
         (Cpu (Template_Resource (ClusterSpec_OBServerTemplate m))) \<noteq> 0 \<or>
     Cmp (Memory (Template_Resource (ZoneSpec_OBServerTemplate obzone)))
         (Memory (Template_Resource (ClusterSpec_OBServerTemplate m))) \<noteq> 0"

definition OBClusterManager_checkIfBackupVolumeMutated :: "OBCluster \<Rightarrow> OBZone \<Rightarrow> bool" where
  "OBClusterManager_checkIfBackupVolumeMutated m obzone \<longleftrightarrow>
     (ZoneSpec_BackupVolume obzone = None) \<noteq> (ClusterSpec_BackupVolume m = None)"

definition OBClusterManager_checkIfMonitorMutated :: "OBCluster \<Rightarrow> OBZone \<Rightarrow> bool" where
  "OBClusterManager_checkIfMonitorMutated m obzone \<longleftrightarrow>
     (ZoneSpec_MonitorTemplate obzone = None) \<noteq> (ClusterSpec_MonitorTemplate m = None)"

lemmas obcluster_checks = OBClusterManager_checkIfStorageSizeExpand_def
  OBClusterManager_checkIfStorageClassChange_def OBClusterManager_checkIfCalcResourceChange_def
  OBClusterManager_checkIfBackupVolumeMutated_def OBClusterManager_checkIfMonitorMutated_def

text \<open>
  What one zone asks for, \<open>None\<close> when it is as specified, and the loop over the zones,
  which stops at the first that asks for something.
\<close>

definition zone_request :: "OBCluster \<Rightarrow> OBZone \<Rightarrow> string option" where
  "zone_request m obzone =
     (if OBCluster_SupportStaticIP m \<and> OBClusterManager_checkIfCalcResourceChange m obzone
      then Some clusterstatus_ScaleVertically
      else if OBCluster_SupportStaticIP m \<and>
        (OBClusterManager_checkIfBackupVolumeMutated m obzone \<or>
         OBClusterManager_checkIfMonitorMutated m obzone)
      then Some clusterstatus_ModifyServerTemplate
      else if OBClusterManager_checkIfStorageClassChange m obzone
      then Some clusterstatus_RollingUpdateOBServers
      else if OBClusterManager_checkIfStorageSizeExpand m obzone
      then Some clusterstatus_ExpandPVC
      else if list_ex (\<lambda>zone. Zone zone = Zone (ZoneSpec_Topology obzone) \<and>
             Replica zone \<noteq> int (length (ZoneStatus_OBServerStatus obzone))) (ClusterSpec_Topology m)
      then Some clusterstatus_ModifyOBZoneReplica
      else None)"

primrec compare_zones :: "OBCluster \<Rightarrow> OBZone list \<Rightarrow> string" where
  "compare_zones m [] = Status m"
| "compare_zones m (z # zs) =
     (case zone_request m z of Some s \<Rightarrow> s | None \<Rightarrow> compare_zones m zs)"

definition compare_topology :: "OBCluster \<Rightarrow> OBZone list \<Rightarrow> string" where
  "compare_topology m zones =
     (if length (ClusterSpec_Topology m) > length zones then clusterstatus_AddOBZone
      else if length (ClusterSpec_Topology m) < length zones then clusterstatus_DeleteOBZone
      else compare_zones m zones)"

text \<open>The parameter map of the status, and the loop that removes the matching entries.\<close>

definition parameter_map :: "Parameter list \<Rightarrow> (string \<times> Parameter) list" where
  "parameter_map ps = foldl (\<lambda>m p. AList.update (Param_Name p) p m) [] ps"

fun match_parameters ::
  "Parameter list \<Rightarrow> (string \<times> Parameter) list \<Rightarrow> bool \<times> (string \<times> Parameter) list" where
  "match_parameters [] m = (True, m)"
| "match_parameters (p # ps) m =
     (case map_of m (Param_Name p) of
        None \<Rightarrow> (False, m)
      | Some q \<Rightarrow> if Param_Value q \<noteq> Param_Value p then (False, m)
                  else match_parameters ps (AList.delete (Param_Name p) m))"

definition parameters_differ :: "Parameter list \<Rightarrow> Parameter list \<Rightarrow> bool" where
  "parameters_differ spec status =
     (case match_parameters spec (parameter_map status) of
        (all_matched, rest) \<Rightarrow> \<not> all_matched \<or> 0 < length rest)"

definition compare_spec :: "OBCluster \<Rightarrow> OBZone list \<Rightarrow> OBCluster" where
  "compare_spec m zones =
     (let m1 = (if list_all (\<lambda>z. ZoneStatus_Image z = Image (ClusterSpec_OBServerTemplate m)) zones
                then m\<lparr>ClusterStatus_Image := Image (ClusterSpec_OBServerTemplate m)\<rparr> else m);
          m2 = m1\<lparr>Status := compare_topology m1 zones\<rparr>;
          m3 = (if Status m2 = clusterstatus_Running \<and>
                   Image (ClusterSpec_OBServerTemplate m2) \<noteq> ClusterStatus_Image m2
                then m2\<lparr>Status := clusterstatus_Upgrade\<rparr> else m2)
      in if Status m3 = clusterstatus_Running \<and>
            parameters_differ (ClusterSpec_Parameters m3) (ClusterStatus_Parameters m3)
         then m3\<lparr>Status := clusterstatus_ModifyOBParameter\<rparr> else m3)"

section \<open>The resource manager\<close>

definition OBClusterManager_InitStatus :: "OBCluster \<Rightarrow> OBCluster option" where
  "OBClusterManager_InitStatus m =
     Some (m\<lparr>ClusterStatus_Image := Image (ClusterSpec_OBServerTemplate m),
       Status := (if snd (GetAnnotationField m AnnotationsSourceClusterAddress)
                  then clusterstatus_MigrateFromExisting else clusterstatus_New),
       ClusterStatus_OBZoneStatus := [], ClusterStatus_Parameters := [], Ctx := None\<rparr>)"

definition obcluster_flow_for :: "string \<Rightarrow> OperationContext option" where
  "obcluster_flow_for s =
     (if s = clusterstatus_MigrateFromExisting then Some genMigrateOBClusterFromExistingFlow
      else if s = clusterstatus_New then Some genBootstrapOBClusterFlow
      else if s = clusterstatus_Bootstrapped then Some genMaintainOBClusterAfterBootstrapFlow
      else if s = clusterstatus_AddOBZone then Some genAddOBZoneFlow
      else if s = clusterstatus_DeleteOBZone then Some genDeleteOBZoneFlow
      else if s = clusterstatus_ModifyOBZoneReplica then Some genModifyOBZoneReplicaFlow
      else if s = clusterstatus_Upgrade then Some genUpgradeOBClusterFlow
      else if s = clusterstatus_ModifyOBParameter then Some genMaintainOBParameterFlow
      else if s = clusterstatus_ScaleVertically then Some genScaleOBZonesVerticallyFlow
      else if s = clusterstatus_ExpandPVC then Some obcluster_genExpandPVCFlow
      else if s = clusterstatus_ModifyServerTemplate then Some obcluster_genModifyServerTemplateFlow
      else if s = clusterstatus_RollingUpdateOBServers then Some genRollingUpdateOBZonesFlow
      else None)"

definition OBClusterManager_GetTaskFlow ::
  "ctx_heap \<Rightarrow> OBCluster \<Rightarrow> (ctx_heap \<times> TaskFlow option result) option" where
  "OBClusterManager_GetTaskFlow h m =
     (case Ctx m of
        Some a \<Rightarrow> Some (h, Inr (Some (Some a)))
      | None \<Rightarrow>
          (case obcluster_flow_for (Status m) of
             None \<Rightarrow> Some (h, Inr None)
           | Some c \<Rightarrow> Some (new_flow h (fill_strategy clusterstatus_Running c))))"

definition OBClusterManager_CheckAndUpdateFinalizers ::
  "cluster_env \<Rightarrow> OBCluster \<Rightarrow> OBCluster \<times> error option" where
  "OBClusterManager_CheckAndUpdateFinalizers env m =
     (if Status m = clusterstatus_FinalizerFinished then client_Update env (m\<lparr>Finalizers := []\<rparr>)
      else (m, None))"

definition OBClusterManager_retryUpdateStatus :: "cluster_env \<Rightarrow> OBCluster \<Rightarrow> error option" where
  "OBClusterManager_retryUpdateStatus env m =
     (case OBClusterManager_getOBCluster env of
        Inl err \<Rightarrow> IgnoreNotFound err
      | Inr obcluster \<Rightarrow>
          status_Update env
            (obcluster\<lparr>Status := Status m, Ctx := Ctx m, ClusterStatus_Image := ClusterStatus_Image m,
               ClusterStatus_OBZoneStatus := ClusterStatus_OBZoneStatus m,
               ClusterStatus_Parameters := ClusterStatus_Parameters m\<rparr>))"

definition FinalizerIgnoreDeletion :: string where
  "FinalizerIgnoreDeletion = ''finalizers.oceanbase.com/ignore-deletion''"

text \<open>The finalizer follows the ignore-deletion annotation; a failed update is only logged.\<close>

definition sync_ignore_deletion :: "cluster_env \<Rightarrow> OBCluster \<Rightarrow> OBCluster" where
  "sync_ignore_deletion env m =
     (let (ignoreDel, ok) = GetAnnotationField m AnnotationsIgnoreDeletion;
          has = ContainsFinalizer env (Finalizers m) FinalizerIgnoreDeletion
      in if ok \<and> ignoreDel = ''true'' \<and> \<not> has
         then fst (client_Update env (m\<lparr>Finalizers := AddFinalizer env (Finalizers m) FinalizerIgnoreDeletion\<rparr>))
         else if (\<not> ok \<or> ignoreDel \<noteq> ''true'') \<and> has
         then fst (client_Update env (m\<lparr>Finalizers := RemoveFinalizer env (Finalizers m) FinalizerIgnoreDeletion\<rparr>))
         else m)"

definition OBClusterManager_UpdateStatus ::
  "cluster_env \<Rightarrow> OBCluster \<Rightarrow> (OBCluster \<times> error option) option" where
  "OBClusterManager_UpdateStatus env m =
     (case OBClusterManager_listOBZones env of
        Inl err \<Rightarrow> Some (m, Some (wrap ''list obzones'' err))
      | Inr zones \<Rightarrow>
          let m1 = m\<lparr>ClusterStatus_OBZoneStatus :=
                map (\<lambda>z. \<lparr>ZoneReplica_Zone = Name z, ZoneReplica_Status = Status z\<rparr>) zones\<rparr>
          in case OBClusterManager_listOBParameters env of
               Inl err \<Rightarrow> Some (m1, Some (wrap ''list obparameters'' err))
             | Inr params \<Rightarrow>
                 let m2 = m1\<lparr>ClusterStatus_Parameters := map OBParameterSpec_Parameter
                       (filter (\<lambda>p. OBParameterSpec_TenantName p = []) params)\<rparr>;
                     m3 = (if Status m2 \<noteq> clusterstatus_Running then m2 else compare_spec m2 zones);
                     m4 = sync_ignore_deletion env m3
                 in Some (m4, OBClusterManager_retryUpdateStatus env m4))"

definition OBClusterManager_ClearTaskInfo :: "OBCluster \<Rightarrow> OBCluster" where
  "OBClusterManager_ClearTaskInfo m = leave_flow clusterstatus_Running m"

definition OBClusterManager_FinishTask :: "ctx_heap \<Rightarrow> OBCluster \<Rightarrow> OBCluster option" where
  "OBClusterManager_FinishTask h m = finish_flow h m"

definition OBClusterManager_HandleFailure ::
  "ctx_heap \<Rightarrow> OBCluster \<Rightarrow> (ctx_heap \<times> OBCluster) option" where
  "OBClusterManager_HandleFailure h m = failure_rule_switch h m"

definition OBClusterManager_GetTaskFunc ::
  "cluster_env \<Rightarrow> TaskName \<Rightarrow> OBCluster \<Rightarrow> TaskFunc result" where
  "OBClusterManager_GetTaskFunc env name m = GetTask (obcluster_taskMap (cluster_task env)) name m"

definition OBClusterManager_ArchiveResource :: "OBCluster \<Rightarrow> OBCluster" where
  "OBClusterManager_ArchiveResource m = leave_flow ''Failed'' m"

definition OBClusterManager :: "cluster_env \<Rightarrow> OBCluster ResourceManager" where
  "OBClusterManager env =
     \<lparr>GetMeta = ObjectMeta.truncate, GetStatus = Status,
      InitStatus = OBClusterManager_InitStatus,
      SetOperationContext = (\<lambda>p m. m\<lparr>Ctx := p\<rparr>),
      ClearTaskInfo = OBClusterManager_ClearTaskInfo,
      HandleFailure = OBClusterManager_HandleFailure,
      FinishTask = OBClusterManager_FinishTask,
      GetTaskFunc = OBClusterManager_GetTaskFunc env,
      GetTaskFlow = OBClusterManager_GetTaskFlow,
      CheckAndUpdateFinalizers = OBClusterManager_CheckAndUpdateFinalizers env,
      UpdateStatus = OBClusterManager_UpdateStatus env,
      ArchiveResource = OBClusterManager_ArchiveResource\<rparr>"

lemma OBClusterManager_simps [simp, manager_simps]:
  "GetMeta (OBClusterManager env) = ObjectMeta.truncate" "GetStatus (OBClusterManager env) = Status"
  "InitStatus (OBClusterManager env) = OBClusterManager_InitStatus"
  "GetTaskFunc (OBClusterManager env) = OBClusterManager_GetTaskFunc env"
  "GetTaskFlow (OBClusterManager env) = OBClusterManager_GetTaskFlow"
  "UpdateStatus (OBClusterManager env) = OBClusterManager_UpdateStatus env"
  "CheckAndUpdateFinalizers (OBClusterManager env) = OBClusterManager_CheckAndUpdateFinalizers env"
  by (simp_all add: OBClusterManager_def)

lemma obcluster_flow_fresh:
  "obcluster_flow_for s = Some c \<Longrightarrow> fresh_flow (fill_strategy clusterstatus_Running c)"
  by (auto simp: obcluster_flow_for_def obcluster_flows split: if_splits)

lemma obcluster_creates: "Ctx m = None \<Longrightarrow> creates_flow h (OBClusterManager_GetTaskFlow h m)"
  by (auto simp: OBClusterManager_GetTaskFlow_def creates_flow_def obcluster_flow_fresh split: option.splits)

lemma obcluster_resumes: "Ctx m = Some a \<Longrightarrow> OBClusterManager_GetTaskFlow h m = Some (h, Inr (Some (Some a)))"
  by (simp add: OBClusterManager_GetTaskFlow_def)

interpretation oc: standard_manager "OBClusterManager env" clusterstatus_Running "''Failed''"
  "\<lambda>_. failure_switch" for env
  by unfold_locales
    (simp_all add: OBClusterManager_def OBClusterManager_ClearTaskInfo_def
      OBClusterManager_ArchiveResource_def OBClusterManager_FinishTask_def
      OBClusterManager_HandleFailure_def failure_rule_switch_lift obcluster_creates
      obcluster_resumes lawful_switch)

section \<open>Parameters\<close>

definition value_of :: "Parameter list \<Rightarrow> string \<Rightarrow> string option" where
  "value_of ps n = map_option Param_Value (map_of (map (\<lambda>p. (Param_Name p, p)) ps) n)"

text \<open>
  The specified parameters agree with the recorded ones: no name is specified twice and
  every name has the same value, or none, on both sides (the last record of a name
  counts).
\<close>

definition same_parameters :: "Parameter list \<Rightarrow> Parameter list \<Rightarrow> bool" where
  "same_parameters spec status \<longleftrightarrow>
     distinct (map Param_Name spec) \<and> value_of spec = value_of (rev status)"

lemma parameter_map_lookup:
  "map_of (parameter_map ps) = map_of (map (\<lambda>p. (Param_Name p, p)) (rev ps))"
  by (induction ps rule: rev_induct) (auto simp: parameter_map_def update_conv')

lemma parameter_map_distinct: "distinct (map fst (parameter_map ps))"
  by (induction ps rule: rev_induct) (auto simp: parameter_map_def distinct_update)

lemma match_parameters_iff:
  "distinct (map fst m) \<Longrightarrow>
   (fst (match_parameters ps m) \<and> snd (match_parameters ps m) = []) \<longleftrightarrow>
   distinct (map Param_Name ps) \<and> value_of ps = (\<lambda>n. map_option Param_Value (map_of m n))"
proof (induction ps arbitrary: m)
  case Nil
  show ?case
  proof
    assume "distinct (map Param_Name []) \<and> value_of [] = (\<lambda>n. map_option Param_Value (map_of m n))"
    then have "map_of m = Map.empty" by (auto simp: value_of_def fun_eq_iff)
    then show "fst (match_parameters [] m) \<and> snd (match_parameters [] m) = []" by simp
  qed (auto simp: value_of_def)
next
  case (Cons p ps)
  let ?k = "Param_Name p"
  have cons: "value_of (p # ps) = (value_of ps)(?k := Some (Param_Value p))"
    by (auto simp: value_of_def fun_eq_iff)
  have IH: "(fst (match_parameters ps (AList.delete ?k m)) \<and> snd (match_parameters ps (AList.delete ?k m)) = []) \<longleftrightarrow>
      distinct (map Param_Name ps) \<and>
      value_of ps = (\<lambda>n. map_option Param_Value (map_of (AList.delete ?k m) n))"
    using Cons.prems by (intro Cons.IH) (auto simp: distinct_delete)
  have del: "map_of (AList.delete ?k m) = (map_of m)(?k := None)" by (simp add: delete_conv')
  have notin: "?k \<notin> set (map Param_Name ps) \<longleftrightarrow> value_of ps ?k = None"
    by (auto simp: value_of_def map_of_eq_None_iff image_iff)
  show ?case
  proof (cases "map_of m ?k")
    case None
    then show ?thesis by (auto simp: cons fun_eq_iff)
  next
    case (Some q)
    show ?thesis
    proof (cases "Param_Value q = Param_Value p")
      case True
      with Some IH notin show ?thesis unfolding cons del by (auto simp: fun_eq_iff)
    next
      case False
      with Some show ?thesis by (auto simp: cons fun_eq_iff)
    qed
  qed
qed

lemma parameters_differ_iff: "parameters_differ spec status \<longleftrightarrow> \<not> same_parameters spec status"
  using match_parameters_iff [OF parameter_map_distinct, of spec status]
  by (auto simp: parameters_differ_def same_parameters_def parameter_map_lookup value_of_def
      fun_eq_iff split: prod.splits)

section \<open>Convergence\<close>

text \<open>
  The zones are as the spec says, told apart from the checks of the code: as many zones
  as the topology has entries, and for each of them the storage classes of the spec,
  volumes at least as large, when the servers keep their address the CPU and memory of
  the spec and a backup volume and a monitor exactly when the spec has them, and as many
  servers as every topology entry of its name asks for. The names themselves are not
  compared: a zone the topology does not name only counts.
\<close>

definition volume_as_specified :: "StorageSpec \<Rightarrow> StorageSpec \<Rightarrow> bool" where
  "volume_as_specified spec zone \<longleftrightarrow> StorageClass zone = StorageClass spec \<and> Size spec \<le> Size zone"

definition storage_as_specified :: "OceanbaseStorageSpec \<Rightarrow> OceanbaseStorageSpec \<Rightarrow> bool" where
  "storage_as_specified spec zone \<longleftrightarrow>
     volume_as_specified (DataStorage spec) (DataStorage zone) \<and>
     volume_as_specified (LogStorage spec) (LogStorage zone) \<and>
     volume_as_specified (RedoLogStorage spec) (RedoLogStorage zone)"

definition servers_as_specified :: "OBCluster \<Rightarrow> OBZone \<Rightarrow> bool" where
  "servers_as_specified m z \<longleftrightarrow>
     Template_Resource (ZoneSpec_OBServerTemplate z) = Template_Resource (ClusterSpec_OBServerTemplate m) \<and>
     (ZoneSpec_BackupVolume z = None \<longleftrightarrow> ClusterSpec_BackupVolume m = None) \<and>
     (ZoneSpec_MonitorTemplate z = None \<longleftrightarrow> ClusterSpec_MonitorTemplate m = None)"

definition zone_as_specified :: "OBCluster \<Rightarrow> OBZone \<Rightarrow> bool" where
  "zone_as_specified m z \<longleftrightarrow>
     storage_as_specified (Storage (ClusterSpec_OBServerTemplate m)) (Storage (ZoneSpec_OBServerTemplate z)) \<and>
     (OBCluster_SupportStaticIP m \<longrightarrow> servers_as_specified m z) \<and>
     (\<forall>t \<in> set (ClusterSpec_Topology m). Zone t = Zone (ZoneSpec_Topology z) \<longrightarrow>
        Replica t = int (length (ZoneStatus_OBServerStatus z)))"

definition zones_as_specified :: "OBCluster \<Rightarrow> OBZone list \<Rightarrow> bool" where
  "zones_as_specified m zones \<longleftrightarrow>
     length zones = length (ClusterSpec_Topology m) \<and> (\<forall>z \<in> set zones. zone_as_specified m z)"

definition image_as_specified :: "OBCluster \<Rightarrow> OBZone list \<Rightarrow> bool" where
  "image_as_specified m zones \<longleftrightarrow>
     ClusterStatus_Image m = Image (ClusterSpec_OBServerTemplate m) \<or>
     (\<forall>z \<in> set zones. ZoneStatus_Image z = Image (ClusterSpec_OBServerTemplate m))"

lemma zone_request_None_iff: "zone_request m z = None \<longleftrightarrow> zone_as_specified m z"
  by (auto simp: zone_request_def list_ex_iff zone_as_specified_def storage_as_specified_def
      volume_as_specified_def servers_as_specified_def obcluster_checks Let_def not_less)

definition zone_requests :: "string set" where
  "zone_requests = {clusterstatus_ScaleVertically, clusterstatus_ModifyServerTemplate,
     clusterstatus_RollingUpdateOBServers, clusterstatus_ExpandPVC, clusterstatus_ModifyOBZoneReplica}"

lemma zone_request_range: "zone_request m z = Some s \<Longrightarrow> s \<in> zone_requests"
  by (auto simp: zone_request_def zone_requests_def split: if_splits)

lemma compare_zones_cases:
  "(compare_zones m zs = Status m \<and> (\<forall>z \<in> set zs. zone_request m z = None)) \<or>
   (compare_zones m zs \<in> zone_requests \<and> (\<exists>z \<in> set zs. zone_request m z \<noteq> None))"
  by (induction zs) (auto dest: zone_request_range split: option.splits)

lemma compare_topology_running_iff:
  assumes "Status m = clusterstatus_Running"
  shows "compare_topology m zones = clusterstatus_Running \<longleftrightarrow> zones_as_specified m zones"
  using assms compare_zones_cases [of m zones]
  by (auto simp: compare_topology_def zones_as_specified_def zone_requests_def zone_request_None_iff)

text \<open>The comparison with the zones reads only the spec, the annotations and the status.\<close>

definition same_spec :: "OBCluster \<Rightarrow> OBCluster \<Rightarrow> bool" where
  "same_spec m m' \<longleftrightarrow>
     ClusterSpec_OBServerTemplate m' = ClusterSpec_OBServerTemplate m \<and>
     ClusterSpec_MonitorTemplate m' = ClusterSpec_MonitorTemplate m \<and>
     ClusterSpec_BackupVolume m' = ClusterSpec_BackupVolume m \<and>
     ClusterSpec_Topology m' = ClusterSpec_Topology m \<and>
     Annotations m' = Annotations m \<and> Status m' = Status m"

lemma checks_cong:
  assumes "same_spec m m'"
  shows "OBClusterManager_checkIfStorageSizeExpand m' = OBClusterManager_checkIfStorageSizeExpand m"
    "OBClusterManager_checkIfStorageClassChange m' = OBClusterManager_checkIfStorageClassChange m"
    "OBClusterManager_checkIfCalcResourceChange m' = OBClusterManager_checkIfCalcResourceChange m"
    "OBClusterManager_checkIfBackupVolumeMutated m' = OBClusterManager_checkIfBackupVolumeMutated m"
    "OBClusterManager_checkIfMonitorMutated m' = OBClusterManager_checkIfMonitorMutated m"
    "OBCluster_SupportStaticIP m' = OBCluster_SupportStaticIP m"
  using assms unfolding same_spec_def
  by (simp_all add: obcluster_checks OBCluster_SupportStaticIP_def ext)

lemma compare_topology_cong:
  assumes "same_spec m m'"
  shows "compare_topology m' zones = compare_topology m zones"
proof -
  have same: "ClusterSpec_Topology m' = ClusterSpec_Topology m" "Status m' = Status m"
    using assms by (simp_all add: same_spec_def)
  then have "zone_request m' z = zone_request m z" for z
    by (simp add: zone_request_def checks_cong [OF assms])
  then have "compare_zones m' zones = compare_zones m zones"
    by (induction zones) (simp_all add: same split: option.split)
  with same show ?thesis by (simp add: compare_topology_def)
qed

lemma compare_topology_image [simp]:
  "compare_topology (m\<lparr>ClusterStatus_Image := i\<rparr>) zones = compare_topology m zones"
  by (rule compare_topology_cong) (simp add: same_spec_def)

text \<open>The status the comparison chooses, in the order of its checks.\<close>

lemma compare_spec_form: "\<exists>i s. compare_spec m zones = m\<lparr>ClusterStatus_Image := i, Status := s\<rparr>"
proof -
  define m1 where "m1 = (if list_all (\<lambda>z. ZoneStatus_Image z = Image (ClusterSpec_OBServerTemplate m)) zones
    then m\<lparr>ClusterStatus_Image := Image (ClusterSpec_OBServerTemplate m)\<rparr> else m)"
  obtain i where m1: "m1 = m\<lparr>ClusterStatus_Image := i\<rparr>"
  proof (cases "list_all (\<lambda>z. ZoneStatus_Image z = Image (ClusterSpec_OBServerTemplate m)) zones")
    case True
    then show ?thesis using that by (simp add: m1_def)
  next
    case False
    then show ?thesis using that [of "ClusterStatus_Image m"] by (simp add: m1_def)
  qed
  have "\<exists>s. compare_spec m zones = m1\<lparr>Status := s\<rparr>"
    unfolding compare_spec_def m1_def [symmetric] by (simp add: Let_def) blast
  then show ?thesis unfolding m1 by blast
qed

lemma compare_spec_frame [simp]:
  "Ctx (compare_spec m zones) = Ctx m" "Annotations (compare_spec m zones) = Annotations m"
  "Finalizers (compare_spec m zones) = Finalizers m"
  "ClusterSpec_Parameters (compare_spec m zones) = ClusterSpec_Parameters m"
proof -
  obtain i s where "compare_spec m zones = m\<lparr>ClusterStatus_Image := i, Status := s\<rparr>"
    using compare_spec_form by blast
  then show "Ctx (compare_spec m zones) = Ctx m" "Annotations (compare_spec m zones) = Annotations m"
    "Finalizers (compare_spec m zones) = Finalizers m"
    "ClusterSpec_Parameters (compare_spec m zones) = ClusterSpec_Parameters m"
    by simp_all
qed

lemma compare_spec_status:
  "Status (compare_spec m zones) =
     (if compare_topology m zones \<noteq> clusterstatus_Running then compare_topology m zones
      else if \<not> image_as_specified m zones then clusterstatus_Upgrade
      else if \<not> same_parameters (ClusterSpec_Parameters m) (ClusterStatus_Parameters m)
      then clusterstatus_ModifyOBParameter else clusterstatus_Running)"
  by (auto simp: compare_spec_def Let_def image_as_specified_def list_all_iff parameters_differ_iff)

text \<open>No client update is needed: the finalizer already follows the annotation.\<close>

definition finalizer_in_sync :: "cluster_env \<Rightarrow> OBCluster \<Rightarrow> bool" where
  "finalizer_in_sync env m \<longleftrightarrow>
     (Annotations m AnnotationsIgnoreDeletion = Some ''true'') =
     ContainsFinalizer env (Finalizers m) FinalizerIgnoreDeletion"

lemma sync_ignore_deletion_id: "finalizer_in_sync env m \<Longrightarrow> sync_ignore_deletion env m = m"
  by (auto simp: sync_ignore_deletion_def finalizer_in_sync_def GetAnnotationField_def Let_def
      split: option.splits)

lemma sync_compare_spec [simp]: "finalizer_in_sync env (compare_spec m zones) = finalizer_in_sync env m"
  by (simp add: finalizer_in_sync_def)

definition observed :: "OBZone list \<Rightarrow> OBParameter list \<Rightarrow> OBCluster \<Rightarrow> OBCluster" where
  "observed zones ps m = m\<lparr>ClusterStatus_OBZoneStatus :=
      map (\<lambda>z. \<lparr>ZoneReplica_Zone = Name z, ZoneReplica_Status = Status z\<rparr>) zones,
    ClusterStatus_Parameters := map OBParameterSpec_Parameter (filter (\<lambda>p. OBParameterSpec_TenantName p = []) ps)\<rparr>"

lemma sync_ignore_deletion_cases:
  "sync_ignore_deletion env m =
     (if finalizer_in_sync env m then m
      else fst (client_Update env (m\<lparr>Finalizers :=
        (if Annotations m AnnotationsIgnoreDeletion = Some ''true''
         then AddFinalizer env (Finalizers m) FinalizerIgnoreDeletion
         else RemoveFinalizer env (Finalizers m) FinalizerIgnoreDeletion)\<rparr>)))"
  by (auto simp: sync_ignore_deletion_def finalizer_in_sync_def GetAnnotationField_def Let_def
      split: option.splits)

lemma observed_frame [simp]:
  "Annotations (observed zones ps m) = Annotations m" "Finalizers (observed zones ps m) = Finalizers m"
  by (simp_all add: observed_def)

lemma sync_observed [simp]: "finalizer_in_sync env (observed zones ps m) = finalizer_in_sync env m"
  by (simp add: observed_def finalizer_in_sync_def)

lemma update_status_synced:
  assumes "api_obzones env = Inr zones" and "api_obparameters env = Inr ps"
    and "OBClusterManager_UpdateStatus env m = Some (m', err)"
  shows "m' = sync_ignore_deletion env (if Status m \<noteq> clusterstatus_Running then observed zones ps m
               else compare_spec (observed zones ps m) zones)"
  using assms
  by (auto simp: OBClusterManager_UpdateStatus_def OBClusterManager_listOBZones_def
      OBClusterManager_listOBParameters_def Let_def observed_def)

lemma update_status_result:
  assumes "api_obzones env = Inr zones" and "api_obparameters env = Inr ps"
    and "finalizer_in_sync env m" and "OBClusterManager_UpdateStatus env m = Some (m', err)"
  shows "m' = (if Status m \<noteq> clusterstatus_Running then observed zones ps m
               else compare_spec (observed zones ps m) zones)"
  using update_status_synced [OF assms(1,2,4)] assms(3) by (simp add: sync_ignore_deletion_id)

lemma status_of_comparison:
  "Status (compare_spec (observed zones ps m) zones) =
    (if compare_topology m zones \<noteq> clusterstatus_Running then compare_topology m zones
     else if \<not> image_as_specified m zones then clusterstatus_Upgrade
     else if \<not> same_parameters (ClusterSpec_Parameters m)
       (map OBParameterSpec_Parameter (filter (\<lambda>p. OBParameterSpec_TenantName p = []) ps))
     then clusterstatus_ModifyOBParameter else clusterstatus_Running)"
proof -
  let ?o = "observed zones ps m"
  have "image_as_specified ?o zones = image_as_specified m zones"
    by (simp add: image_as_specified_def observed_def)
  moreover have "compare_topology ?o zones = compare_topology m zones"
    by (rule compare_topology_cong) (simp add: same_spec_def observed_def)
  moreover have "ClusterSpec_Parameters ?o = ClusterSpec_Parameters m" "ClusterStatus_Parameters ?o =
      map OBParameterSpec_Parameter (filter (\<lambda>p. OBParameterSpec_TenantName p = []) ps)"
    by (simp_all add: observed_def)
  ultimately show ?thesis by (simp add: compare_spec_status)
qed

lemma update_status_running:
  assumes "api_obzones env = Inr zones" and "api_obparameters env = Inr ps"
    and "Status m = clusterstatus_Running" and "finalizer_in_sync env m"
    and "OBClusterManager_UpdateStatus env m = Some (m', err)"
  shows "Ctx m' = Ctx m" and "Status m' =
    (if compare_topology m zones \<noteq> clusterstatus_Running then compare_topology m zones
     else if \<not> image_as_specified m zones then clusterstatus_Upgrade
     else if \<not> same_parameters (ClusterSpec_Parameters m)
       (map OBParameterSpec_Parameter (filter (\<lambda>p. OBParameterSpec_TenantName p = []) ps))
     then clusterstatus_ModifyOBParameter else clusterstatus_Running)"
proof -
  have m': "m' = compare_spec (observed zones ps m) zones"
    using update_status_result [OF assms(1,2,4,5)] assms(3) by simp
  then show "Ctx m' = Ctx m" by (simp add: observed_def)
  from m' show "Status m' =
    (if compare_topology m zones \<noteq> clusterstatus_Running then compare_topology m zones
     else if \<not> image_as_specified m zones then clusterstatus_Upgrade
     else if \<not> same_parameters (ClusterSpec_Parameters m)
       (map OBParameterSpec_Parameter (filter (\<lambda>p. OBParameterSpec_TenantName p = []) ps))
     then clusterstatus_ModifyOBParameter else clusterstatus_Running)"
    by (simp only: status_of_comparison)
qed

text \<open>Every status the comparison may choose, and the flows they lead to.\<close>

definition drifts :: "string set" where
  "drifts = zone_requests \<union> {clusterstatus_AddOBZone, clusterstatus_DeleteOBZone,
     clusterstatus_Upgrade, clusterstatus_ModifyOBParameter}"

lemma drift_flow:
  "s \<in> drifts \<Longrightarrow> \<exists>c. obcluster_flow_for s = Some c \<and> TargetStatus c = clusterstatus_Running"
  by (auto simp: drifts_def zone_requests_def obcluster_flow_for_def obcluster_flows)

lemma obcluster_flow_tasks: "obcluster_flow_for s = Some c \<Longrightarrow> set (Tasks c) \<subseteq> set obcluster_task_names"
  by (simp add: obcluster_flow_for_def obcluster_flows obcluster_task_names_def split: if_splits)
    (erule subst, simp)+

lemma obcluster_task_found:
  "t \<in> set obcluster_task_names \<Longrightarrow> OBClusterManager_GetTaskFunc env t m = Inr (cluster_task env t m)"
  by (simp add: OBClusterManager_GetTaskFunc_def obcluster_taskMap_def GetTask_register_all)

lemma compare_topology_range:
  "Status m = clusterstatus_Running \<Longrightarrow> compare_topology m zones \<in> insert clusterstatus_Running drifts"
  using compare_zones_cases [of m zones] by (auto simp: compare_topology_def drifts_def)

section \<open>Properties\<close>

text \<open>
  C1. What \<^verbatim>\<open>UpdateStatus\<close> makes of a running cluster. The comparison leaves the
  status at running exactly when the cluster has converged: as many zones as the topology
  lists (their names are not compared), each of them with the specified storage classes,
  at least the specified sizes, as many servers as a topology entry of its name asks for
  and, where the servers keep their address, the specified resources and a backup volume
  and a monitor exactly when they are specified; the specified image; and the specified
  parameters. When the ignore-deletion finalizer agrees with its annotation this is the
  status written. In the reconcile that has to add or remove the finalizer,
  \<^verbatim>\<open>Client.Update\<close> is called with the compared object, and its answer takes the
  object's place before the status is written.
\<close>

theorem obcluster_running_iff_converged:
  assumes "api_obzones env = Inr zones" and "api_obparameters env = Inr ps"
    and "Status m = clusterstatus_Running"
    and "OBClusterManager_UpdateStatus env m = Some (m', err)"
  shows "\<exists>c. (Status c = clusterstatus_Running \<longleftrightarrow>
      zones_as_specified m zones \<and> image_as_specified m zones \<and>
      same_parameters (ClusterSpec_Parameters m)
        (map OBParameterSpec_Parameter (filter (\<lambda>p. OBParameterSpec_TenantName p = []) ps))) \<and>
    m' = (if finalizer_in_sync env m then c
          else fst (client_Update env (c\<lparr>Finalizers :=
            (if Annotations m AnnotationsIgnoreDeletion = Some ''true''
             then AddFinalizer env (Finalizers m) FinalizerIgnoreDeletion
             else RemoveFinalizer env (Finalizers m) FinalizerIgnoreDeletion)\<rparr>))) \<and>
    err = OBClusterManager_retryUpdateStatus env m'"
proof (intro exI conjI)
  let ?c = "compare_spec (observed zones ps m) zones"
  show "Status ?c = clusterstatus_Running \<longleftrightarrow>
      zones_as_specified m zones \<and> image_as_specified m zones \<and>
      same_parameters (ClusterSpec_Parameters m)
        (map OBParameterSpec_Parameter (filter (\<lambda>p. OBParameterSpec_TenantName p = []) ps))"
    using compare_topology_running_iff [OF assms(3), of zones]
    by (auto simp: status_of_comparison)
  show "m' = (if finalizer_in_sync env m then ?c
          else fst (client_Update env (?c\<lparr>Finalizers :=
            (if Annotations m AnnotationsIgnoreDeletion = Some ''true''
             then AddFinalizer env (Finalizers m) FinalizerIgnoreDeletion
             else RemoveFinalizer env (Finalizers m) FinalizerIgnoreDeletion)\<rparr>)))"
    using update_status_synced [OF assms(1,2,4)] assms(3)
    by (simp add: sync_ignore_deletion_cases cong: if_cong)
  show "err = OBClusterManager_retryUpdateStatus env m'"
    using assms
    by (auto simp: OBClusterManager_UpdateStatus_def OBClusterManager_listOBZones_def
        OBClusterManager_listOBParameters_def Let_def)
qed

definition small_env :: cluster_env where
  "small_env = \<lparr>api_obzones = Inr [small_zone], api_obparameters = Inr [], api_obcluster = Inr small_cluster,
     client_Update = (\<lambda>x. (x, None)), status_Update = (\<lambda>_. None),
     ContainsFinalizer = (\<lambda>fs f. f \<in> set fs), AddFinalizer = (\<lambda>fs f. fs @ [f]),
     RemoveFinalizer = (\<lambda>fs f. filter (\<lambda>x. x \<noteq> f) fs), cluster_task = (\<lambda>_ _. ok_task)\<rparr>"

theorem obcluster_running_iff_converged_witness:
  "\<exists>m' err. OBClusterManager_UpdateStatus small_env small_cluster = Some (m', err) \<and>
     Status m' = clusterstatus_Running"
proof -
  obtain m' err where upd: "OBClusterManager_UpdateStatus small_env small_cluster = Some (m', err)"
    by (simp add: OBClusterManager_UpdateStatus_def OBClusterManager_listOBZones_def
        OBClusterManager_listOBParameters_def small_env_def Let_def)
  have "zones_as_specified small_cluster [small_zone]" "image_as_specified small_cluster [small_zone]"
    "same_parameters (ClusterSpec_Parameters small_cluster) []" "finalizer_in_sync small_env small_cluster"
    by (simp_all add: zones_as_specified_def zone_as_specified_def storage_as_specified_def
        volume_as_specified_def servers_as_specified_def image_as_specified_def same_parameters_def
        finalizer_in_sync_def small_env_def small_objects)
  then show ?thesis
    using obcluster_running_iff_converged [of small_env "[small_zone]" "[]" small_cluster m' err] upd
    by (simp add: small_env_def small_cluster_def)
qed

text \<open>
  Because the names are not compared, a zone renamed in the topology is not noticed: a
  converged cluster stays so when all entries of the topology are given names that no
  existing zone has.
\<close>

theorem renamed_zones_unnoticed:
  assumes "zones_as_specified m zones"
    and "\<And>t z. t \<in> set (ClusterSpec_Topology m) \<Longrightarrow> z \<in> set zones \<Longrightarrow> f (Zone t) \<noteq> Zone (ZoneSpec_Topology z)"
  shows "zones_as_specified
    (m\<lparr>ClusterSpec_Topology := map (\<lambda>t. t\<lparr>Zone := f (Zone t)\<rparr>) (ClusterSpec_Topology m)\<rparr>) zones"
  using assms
  by (auto simp: zones_as_specified_def zone_as_specified_def servers_as_specified_def OBCluster_SupportStaticIP_def)

text \<open>
  C15. The status comparison has no dead end: whatever status \<^verbatim>\<open>UpdateStatus\<close> gives a
  running cluster without a flow, the next \<^verbatim>\<open>GetTaskFlow\<close> either has nothing to do
  because the cluster is still running, or allocates a fresh flow that leads back to
  running and whose tasks are all registered.
\<close>

theorem obcluster_no_dead_end:
  assumes "api_obzones env = Inr zones" and "api_obparameters env = Inr ps"
    and "Status m = clusterstatus_Running" and "Ctx m = None" and "finalizer_in_sync env m"
    and "OBClusterManager_UpdateStatus env m = Some (m', err)"
  shows "(Status m' = clusterstatus_Running \<and> OBClusterManager_GetTaskFlow h m' = Some (h, Inr None)) \<or>
    (\<exists>c. OBClusterManager_GetTaskFlow h m' = Some (new_flow h c) \<and> fresh_flow c \<and>
       TargetStatus c = clusterstatus_Running \<and>
       (\<forall>t \<in> set (Tasks c). OBClusterManager_GetTaskFunc env t m' = Inr (cluster_task env t m')))"
proof -
  have ctx: "Ctx m' = None" using update_status_running(1) [OF assms(1-3,5,6)] assms(4) by simp
  have "Status m' \<in> insert clusterstatus_Running drifts"
    using update_status_running(2) [OF assms(1-3,5,6)] compare_topology_range [OF assms(3), of zones]
    by (auto simp: drifts_def)
  then consider "Status m' = clusterstatus_Running"
    | c where "obcluster_flow_for (Status m') = Some c" "TargetStatus c = clusterstatus_Running"
    using drift_flow by blast
  then show ?thesis
  proof cases
    case 1
    then show ?thesis by (simp add: OBClusterManager_GetTaskFlow_def ctx obcluster_flow_for_def)
  next
    case 2
    then show ?thesis
      using obcluster_flow_fresh [OF 2(1)] obcluster_flow_tasks [OF 2(1)]
      by (intro disjI2 exI [of _ "fill_strategy clusterstatus_Running c"])
        (auto simp: OBClusterManager_GetTaskFlow_def ctx obcluster_task_found)
  qed
qed

theorem obcluster_no_dead_end_witness:
  "\<exists>m' err c. OBClusterManager_UpdateStatus (small_env\<lparr>api_obzones := Inr []\<rparr>) small_cluster = Some (m', err) \<and>
     OBClusterManager_GetTaskFlow [] m' = Some (new_flow [] c) \<and> TargetStatus c = clusterstatus_Running"
proof -
  let ?env = "small_env\<lparr>api_obzones := Inr []\<rparr>"
  obtain m' err where upd: "OBClusterManager_UpdateStatus ?env small_cluster = Some (m', err)"
    by (simp add: OBClusterManager_UpdateStatus_def OBClusterManager_listOBZones_def
        OBClusterManager_listOBParameters_def small_env_def Let_def)
  have sync: "finalizer_in_sync ?env small_cluster"
    by (simp add: finalizer_in_sync_def small_env_def small_cluster_def)
  then have "Status m' = clusterstatus_AddOBZone"
    using update_status_running(2) [OF _ _ _ sync upd, of "[]" "[]"]
    by (simp add: small_env_def small_cluster_def compare_topology_def)
  then show ?thesis
    using obcluster_no_dead_end [OF _ _ _ _ sync upd, of "[]" "[]" "[]"] upd
    by (auto simp: small_env_def small_cluster_def)
qed

text \<open>
  When the ignore-deletion finalizer has to be added, \<^verbatim>\<open>Client.Update\<close> overwrites the
  object in memory with the server's answer. The status is a subresource, so the answer
  carries the status stored before this reconcile; that status, and not the one the
  reconcile has just computed (the context of a task it submitted included), is what is
  kept and written back.
\<close>

theorem obcluster_finalizer_update_drops_status:
  assumes "api_obzones env = Inr zones" and "api_obparameters env = Inr ps"
    and "Annotations m AnnotationsIgnoreDeletion = Some ''true''"
    and "\<not> ContainsFinalizer env (Finalizers m) FinalizerIgnoreDeletion"
    and "\<And>x. Status (fst (client_Update env x)) = Status stored \<and> Ctx (fst (client_Update env x)) = Ctx stored"
    and "OBClusterManager_UpdateStatus env m = Some (m', err)"
  shows "Status m' = Status stored \<and> Ctx m' = Ctx stored"
proof -
  have sync: "\<exists>x. sync_ignore_deletion env m3 = fst (client_Update env x)"
    if "Annotations m3 = Annotations m" "Finalizers m3 = Finalizers m" for m3
    using assms(3,4) that by (auto simp: sync_ignore_deletion_def GetAnnotationField_def)
  have "\<exists>m3. m' = sync_ignore_deletion env m3 \<and> Annotations m3 = Annotations m \<and> Finalizers m3 = Finalizers m"
    using assms(1,2,6)
    by (cases "Status m = clusterstatus_Running")
      (auto simp: OBClusterManager_UpdateStatus_def OBClusterManager_listOBZones_def
        OBClusterManager_listOBParameters_def Let_def)
  then have "\<exists>x. m' = fst (client_Update env x)" using sync by blast
  with assms(5) show ?thesis by auto
qed

theorem obcluster_finalizer_update_drops_status_witness:
  "\<exists>m' err. OBClusterManager_UpdateStatus
       (small_env\<lparr>client_Update := (\<lambda>x. (x\<lparr>Status := ''running'', Ctx := None\<rparr>, None))\<rparr>)
       (small_cluster\<lparr>Annotations := [AnnotationsIgnoreDeletion \<mapsto> ''true''], Status := ''upgrade'', Ctx := Some 0\<rparr>) =
       Some (m', err) \<and> Ctx m' = None"
proof -
  let ?env = "small_env\<lparr>client_Update := (\<lambda>x. (x\<lparr>Status := ''running'', Ctx := None\<rparr>, None))\<rparr>"
  let ?m = "small_cluster\<lparr>Annotations := [AnnotationsIgnoreDeletion \<mapsto> ''true''], Status := ''upgrade'', Ctx := Some 0\<rparr>"
  obtain m' err where upd: "OBClusterManager_UpdateStatus ?env ?m = Some (m', err)"
    by (simp add: OBClusterManager_UpdateStatus_def OBClusterManager_listOBZones_def
        OBClusterManager_listOBParameters_def small_env_def Let_def)
  have "Ctx m' = None"
    using obcluster_finalizer_update_drops_status [OF _ _ _ _ _ upd, of "[small_zone]" "[]" small_cluster]
    by (simp add: small_env_def small_cluster_def)
  with upd show ?thesis by blast
qed

end
