(* ===== verification/OBTenant.thy ===== *)
theory OBTenant
  imports Tenant_Layout OBCluster
begin

text \<open>
  The resource manager of tenants, \<^verbatim>\<open>internal/resource/obtenant\<close>: the flows, the status
  it builds from the database's tables, the comparison with the specification, and the
  methods of \<^verbatim>\<open>ResourceManager\<close>. The database and the API server are parameters.
\<close>

section \<open>The resource\<close>

record Variable =
  Var_Name :: string
  Var_Value :: string

record BackupDestination =
  Dest_Path :: string
  Dest_Type :: string
  Dest_OSSAccessSecret :: string

record RestoreUntilConfig =
  Until_Timestamp :: "string option"
  Until_Scn :: "string option"
  Until_Unlimited :: bool

record RestoreSourceSpec =
  Restore_ArchiveSource :: "BackupDestination option"
  Restore_BakDataSource :: "BackupDestination option"
  Restore_BakEncryptionSecret :: string
  Restore_SourceUri :: string
  Restore_Until :: RestoreUntilConfig
  Restore_Description :: "string option"
  Restore_ReplayEnabled :: bool
  Restore_ReplayLogUntil :: "RestoreUntilConfig option"
  Restore_Cancel :: bool

record TenantSourceSpec =
  Source_Tenant :: "string option"
  Source_Restore :: "RestoreSourceSpec option"

record TenantCredentials =
  Cred_Root :: string
  Cred_StandbyRO :: string

record TenantRecordInfo =
  Info_TenantID :: int
  Info_PrimaryZone :: string
  Info_Locality :: string
  Info_PoolList :: string
  Info_ConnectWhiteList :: string
  Info_Charset :: string
  Info_Collate :: string
  Info_UnitNumber :: int
  Info_ZoneList :: string

definition no_info :: TenantRecordInfo where
  "no_info = \<lparr>Info_TenantID = 0, Info_PrimaryZone = [], Info_Locality = [], Info_PoolList = [],
     Info_ConnectWhiteList = [], Info_Charset = [], Info_Collate = [], Info_UnitNumber = 0, Info_ZoneList = []\<rparr>"

record OBTenant = Resource +
  TenantSpec_ClusterName :: string
  TenantSpec_TenantName :: string
  TenantSpec_UnitNumber :: int
  TenantSpec_ForceDelete :: bool
  TenantSpec_Charset :: string
  TenantSpec_Collate :: string
  TenantSpec_ConnectWhiteList :: string
  TenantSpec_Pools :: "ResourcePoolSpec list"
  TenantSpec_TenantRole :: string
  TenantSpec_Source :: "TenantSourceSpec option"
  TenantSpec_Credentials :: TenantCredentials
  TenantSpec_Scenario :: string
  TenantSpec_Parameters :: "Parameter list"
  TenantSpec_Variables :: "Variable list"
  TenantStatus_Pools :: "ResourcePoolStatus list"
  TenantStatus_TenantRecordInfo :: TenantRecordInfo
  TenantStatus_TenantRole :: string
  TenantStatus_Source :: "opaque option"
  TenantStatus_Credentials :: TenantCredentials
  TenantStatus_Parameters :: "Parameter list"
  TenantStatus_Variables :: "Variable list"

abbreviation "tenantstatus_CreatingTenant \<equiv> ''creating''"
abbreviation "tenantstatus_Running \<equiv> ''running''"
abbreviation "tenantstatus_MaintainingWhiteList \<equiv> ''maintaining whitelist''"
abbreviation "tenantstatus_MaintainingCharset \<equiv> ''maintaining charset''"
abbreviation "tenantstatus_MaintainingUnitNum \<equiv> ''maintaining unit num''"
abbreviation "tenantstatus_MaintainingPrimaryZone \<equiv> ''maintaining primary zone''"
abbreviation "tenantstatus_MaintainingLocality \<equiv> ''maintaining locality''"
abbreviation "tenantstatus_AddingResourcePool \<equiv> ''adding resource pool''"
abbreviation "tenantstatus_DeletingResourcePool \<equiv> ''deleting resource pool''"
abbreviation "tenantstatus_MaintainingUnitConfig \<equiv> ''maintaining unit config''"
abbreviation "tenantstatus_MaintainingParameters \<equiv> ''maintaining parameters''"
abbreviation "tenantstatus_MaintainingVariables \<equiv> ''maintaining variables''"
abbreviation "tenantstatus_DeletingTenant \<equiv> ''deleting''"
abbreviation "tenantstatus_FinalizerFinished \<equiv> ''finalizer finished''"
abbreviation "tenantstatus_PausingReconcile \<equiv> ''pausing reconcile''"
abbreviation "tenantstatus_Restoring \<equiv> ''restoring''"
abbreviation "tenantstatus_RestoreCanceled \<equiv> ''restore canceled''"
abbreviation "tenantstatus_CancelingRestore \<equiv> ''canceling restore''"
abbreviation "tenantstatus_RestoreFailed \<equiv> ''restore failed''"
abbreviation "tenantstatus_CreatingEmptyStandby \<equiv> ''creating empty standby''"
abbreviation "tenantstatus_Failed \<equiv> ''failed''"

section \<open>Flows\<close>

definition genCreateTenantFlow :: OperationContext where
  "genCreateTenantFlow =
     new_context ''create tenant''
       [''check tenant'', ''check pool and config'', ''create resource pool and config'',
        ''create tenant with clear'', ''create user with credential secrets'',
        ''optimize tenant by scenario'']
       tenantstatus_Running (zero_rule\<lparr>NextTryStatus := tenantstatus_Failed\<rparr>)"

definition genMaintainWhiteListFlow :: OperationContext where
  "genMaintainWhiteListFlow =
     new_context ''maintain white list'' [''check and apply white list''] tenantstatus_Running zero_rule"

definition genMaintainCharsetFlow :: OperationContext where
  "genMaintainCharsetFlow =
     new_context ''maintain charset'' [''check and apply charset''] tenantstatus_Running zero_rule"

definition genMaintainUnitNumFlow :: OperationContext where
  "genMaintainUnitNumFlow =
     new_context ''maintain unit num'' [''check and apply unit num''] tenantstatus_Running zero_rule"

definition genMaintainLocalityFlow :: OperationContext where
  "genMaintainLocalityFlow =
     new_context ''maintain locality'' [''check and apply locality''] tenantstatus_Running zero_rule"

definition genMaintainPrimaryZoneFlow :: OperationContext where
  "genMaintainPrimaryZoneFlow =
     new_context ''maintain primary zone'' [''check and apply primary zone''] tenantstatus_Running zero_rule"

definition genAddPoolFlow :: OperationContext where
  "genAddPoolFlow =
     new_context ''add pool'' [''check pool and config'', ''add pool'']
       tenantstatus_Running (zero_rule\<lparr>Strategy := RetryFromCurrent\<rparr>)"

definition genDeletePoolFlow :: OperationContext where
  "genDeletePoolFlow = new_context ''delete pool'' [''delete pool''] tenantstatus_Running zero_rule"

definition genMaintainUnitConfigFlow :: OperationContext where
  "genMaintainUnitConfigFlow =
     new_context ''maintain unit config'' [''maintain unit config''] tenantstatus_Running zero_rule"

definition genDeleteTenantFlow :: OperationContext where
  "genDeleteTenantFlow =
     new_context ''delete tenant'' [''delete tenant''] tenantstatus_FinalizerFinished
       (zero_rule\<lparr>NextTryStatus := tenantstatus_DeletingTenant\<rparr>)"

definition genRestoreTenantFlow :: OperationContext where
  "genRestoreTenantFlow =
     new_context ''restore tenant''
       [''check tenant'', ''check pool and config'', ''create resource pool and config'',
        ''create tenant restore job cr'', ''watch restore job to finish'',
        ''check and apply white list'', ''create user with credential secrets'']
       tenantstatus_Running (zero_rule\<lparr>NextTryStatus := tenantstatus_RestoreFailed\<rparr>)"

definition genCancelRestoreFlow :: OperationContext where
  "genCancelRestoreFlow =
     new_context ''cancel restore'' [''cancel tenant restore job''] tenantstatus_RestoreCanceled zero_rule"

definition genCreateEmptyStandbyTenantFlow :: OperationContext where
  "genCreateEmptyStandbyTenantFlow =
     new_context ''create empty standby tenant''
       [''check primary tenant ls integrity'', ''check tenant'', ''check pool and config'',
        ''create resource pool and config'', ''create empty standby tenant'',
        ''check and apply white list'']
       tenantstatus_Running (zero_rule\<lparr>NextTryStatus := tenantstatus_Failed\<rparr>)"

definition genMaintainTenantParametersFlow :: OperationContext where
  "genMaintainTenantParametersFlow =
     new_context ''maintain tenant parameters'' [''maintain tenant parameters''] tenantstatus_Running zero_rule"

definition genMaintainTenantVariablesFlow :: OperationContext where
  "genMaintainTenantVariablesFlow =
     new_context ''maintain tenant variables'' [''maintain tenant variables''] tenantstatus_Running zero_rule"

lemmas obtenant_flows = genCreateTenantFlow_def genMaintainWhiteListFlow_def genMaintainCharsetFlow_def
  genMaintainUnitNumFlow_def genMaintainLocalityFlow_def genMaintainPrimaryZoneFlow_def
  genAddPoolFlow_def genDeletePoolFlow_def genMaintainUnitConfigFlow_def genDeleteTenantFlow_def
  genRestoreTenantFlow_def genCancelRestoreFlow_def genCreateEmptyStandbyTenantFlow_def
  genMaintainTenantParametersFlow_def genMaintainTenantVariablesFlow_def

definition obtenant_task_names :: "TaskName list" where
  "obtenant_task_names =
     [''check tenant'', ''check pool and config'', ''create tenant with clear'',
      ''create resource pool and config'', ''add pool'', ''delete pool'', ''maintain unit config'',
      ''delete tenant'', ''check and apply charset'', ''create empty standby tenant'',
      ''check primary tenant ls integrity'', ''create tenant restore job cr'',
      ''watch restore job to finish'', ''cancel tenant restore job'', ''upgrade tenant if needed'',
      ''check and apply unit num'', ''check and apply white list'', ''check and apply primary zone'',
      ''check and apply locality'', ''optimize tenant by scenario'',
      ''create user with credential secrets'', ''maintain tenant parameters'',
      ''maintain tenant variables'']"

definition obtenant_taskMap :: "(TaskName \<Rightarrow> 'm TypedTaskFunc) \<Rightarrow> 'm TaskHub" where
  "obtenant_taskMap body = register_all body obtenant_task_names NewTaskHub"

section \<open>What the database, the API server and the libraries answer\<close>

text \<open>Rows of the database's tables (\<^verbatim>\<open>pkg/oceanbase-sdk/model\<close>).\<close>

record PoolRow =
  Row_ResourcePoolID :: int
  Row_Name :: string
  Row_UnitNum :: int
  Row_UnitConfigID :: int
  Row_TenantID :: "int option"

record UnitRow =
  Row_UnitID :: int
  Row_PoolID :: int
  Row_Zone :: string
  Row_SvrIP :: string
  Row_SvrPort :: int
  Row_MigrateFromSvrIP :: "string option"
  Row_MigrateFromSvrPort :: "int option"
  Row_Status :: string

record UnitConfigV4 =
  V4_MaxCPU :: real
  V4_MinCPU :: real
  V4_MemorySize :: int
  V4_MaxIops :: int
  V4_MinIops :: int
  V4_LogDiskSize :: int
  V4_IopsWeight :: int

record UnitConfigRow = UnitConfigV4 +
  Row_ConfigID :: int

record TenantRow =
  TRow_TenantID :: int
  TRow_TenantName :: string
  TRow_Locality :: string
  TRow_PrimaryZone :: string

text \<open>
  \<open>as_float\<close>, \<open>as_value\<close>, \<open>parse_float\<close> and \<open>of_value\<close> are the conversions of
  \<^verbatim>\<open>resource.Quantity\<close>; \<open>range_zones\<close> is the order in which Go iterates over a map.
\<close>

record tenant_env =
  tapi_obcluster :: "OBCluster result"
  tapi_obtenant :: "OBTenant result"
  tapi_parameters :: "OBParameter list result"
  tapi_variables :: "Variable list result"
  tclient_Update :: "OBTenant \<Rightarrow> OBTenant \<times> error option"
  tstatus_Update :: "OBTenant \<Rightarrow> error option"
  GetSysOperationClient :: "OBCluster \<Rightarrow> error option"
  GetTenantRootOperationClient :: "OBCluster \<Rightarrow> error option"
  sql_CheckTenantExistByName :: "string \<Rightarrow> bool result"
  sql_GetTenantByName :: "string \<Rightarrow> TenantRow result"
  sql_GetPoolList :: "PoolRow list result"
  sql_GetUnitList :: "UnitRow list result"
  sql_GetUnitConfigV4List :: "UnitConfigRow list result"
  sql_GetCharset :: "string result"
  sql_GetVersion :: "string result"
  as_float :: "Quantity \<Rightarrow> real"
  as_value :: "Quantity \<Rightarrow> int"
  parse_float :: "real \<Rightarrow> Quantity result"
  of_value :: "int \<Rightarrow> Quantity"
  range_zones :: "string list \<Rightarrow> string list"
  tenant_task :: "TaskName \<Rightarrow> OBTenant TypedTaskFunc"

definition OBTenantManager_getOBCluster :: "tenant_env \<Rightarrow> OBCluster result" where
  "OBTenantManager_getOBCluster env = wrap_result ''get obcluster failed'' (tapi_obcluster env)"

definition OBTenantManager_getClusterSysClient :: "tenant_env \<Rightarrow> error option" where
  "OBTenantManager_getClusterSysClient env =
     (case OBTenantManager_getOBCluster env of
        Inl err \<Rightarrow> Some (wrap ''Get obcluster from K8s failed'' err)
      | Inr obcluster \<Rightarrow> GetSysOperationClient env obcluster)"

definition OBTenantManager_getTenantClient :: "tenant_env \<Rightarrow> error option" where
  "OBTenantManager_getTenantClient env =
     (case OBTenantManager_getOBCluster env of
        Inl err \<Rightarrow> Some (wrap ''Get obcluster from K8s'' err)
      | Inr obcluster \<Rightarrow> GetTenantRootOperationClient env obcluster)"

text \<open>A query over a fresh connection of the sys tenant.\<close>

definition with_sys :: "tenant_env \<Rightarrow> string \<Rightarrow> 'a result \<Rightarrow> 'a result" where
  "with_sys env msg query =
     (case OBTenantManager_getClusterSysClient env of Some err \<Rightarrow> Inl (wrap msg err) | None \<Rightarrow> query)"

lemma with_sys_Inr: "with_sys env msg q = Inr x \<longleftrightarrow> OBTenantManager_getClusterSysClient env = None \<and> q = Inr x"
  by (simp add: with_sys_def split: option.splits)

definition OBTenantManager_tenantExist :: "tenant_env \<Rightarrow> string \<Rightarrow> bool result" where
  "OBTenantManager_tenantExist env name =
     with_sys env ''Failed to get sql operator error when check whether tenant exist''
       (sql_CheckTenantExistByName env name)"

definition OBTenantManager_getTenantByName :: "tenant_env \<Rightarrow> string \<Rightarrow> TenantRow result" where
  "OBTenantManager_getTenantByName env name =
     with_sys env ''Failed to get sql operator error when getting tenant'' (sql_GetTenantByName env name)"

definition OBTenantManager_getCharset :: "tenant_env \<Rightarrow> string result" where
  "OBTenantManager_getCharset env =
     with_sys env ''Failed to get sql operator error when getting charset''
       (wrap_result ''Get sql error when get charset'' (sql_GetCharset env))"

definition OBTenantManager_getOBVersion :: "tenant_env \<Rightarrow> OBTenant \<Rightarrow> string result" where
  "OBTenantManager_getOBVersion env m =
     with_sys env ''Failed to get sql operator error when getting ob version''
       (wrap_result (''Tenant '' @ TenantSpec_TenantName m @ '' get ob version from db failed'') (sql_GetVersion env))"

definition generateUnitName :: "OBTenant \<Rightarrow> string \<Rightarrow> string" where
  "generateUnitName m zoneList = ''unitconfig_'' @ TenantSpec_TenantName m @ ''_'' @ zoneList"

definition generatePoolName :: "OBTenant \<Rightarrow> string \<Rightarrow> string" where
  "generatePoolName m zoneList = ''pool_'' @ TenantSpec_TenantName m @ ''_'' @ zoneList"

lemma generatePoolName_inj [simp]: "generatePoolName m z = generatePoolName m z' \<longleftrightarrow> z = z'"
  by (simp add: generatePoolName_def)

section \<open>The status from the database\<close>

definition generateStatusUnitNumMap ::
  "tenant_env \<Rightarrow> OBTenant \<Rightarrow> ResourcePoolSpec list \<Rightarrow> (string \<times> int) list result" where
  "generateStatusUnitNumMap env m zones =
     (case with_sys env ''Failed to get sql operator error when building resource unit from db''
             (wrap_result ''Get sql error when get pool list'' (sql_GetPoolList env)) of
        Inl err \<Rightarrow> Inl err
      | Inr poolList \<Rightarrow>
          Inr (concat (map (\<lambda>zone. map (\<lambda>pool. (Pool_Zone zone, Row_UnitNum pool))
                 (filter (\<lambda>pool. Row_Name pool = generatePoolName m (Pool_Zone zone)) poolList)) zones)))"

definition generateStatusZone :: "tenant_env \<Rightarrow> int \<Rightarrow> string list result" where
  "generateStatusZone env tenantID =
     (case with_sys env ''Get Sql Operator Error When Generating Zone For Tenant CR Status''
             (wrap_result ''Get sql error when get pool list'' (sql_GetPoolList env)) of
        Inl err \<Rightarrow> Inl err
      | Inr poolList \<Rightarrow>
          (case wrap_result ''Get sql error when get unit list'' (sql_GetUnitList env) of
             Inl err \<Rightarrow> Inl err
           | Inr unitList \<Rightarrow>
               let poolIdMap = map (\<lambda>pool. (Row_ResourcePoolID pool, Row_Name pool))
                     (filter (\<lambda>pool. Row_TenantID pool = Some tenantID) poolList);
                   zones = map Row_Zone (filter (\<lambda>unit.
                     (case assigned poolIdMap (Row_PoolID unit) of None \<Rightarrow> False | Some n \<Rightarrow> n \<noteq> [])) unitList)
               in Inr (range_zones env (remdups zones))))"

definition no_unit_config :: UnitConfig where
  "no_unit_config = \<lparr>MaxCPU = 0, MemorySize = 0, MinCPU = 0, MaxIops = 0, MinIops = 0, IopsWeight = 0, LogDiskSize = 0\<rparr>"

definition read_unit_config :: "tenant_env \<Rightarrow> UnitConfigRow \<Rightarrow> UnitConfig result" where
  "read_unit_config env c =
     (case parse_float env (V4_MaxCPU c) of
        Inl err \<Rightarrow> Inl err
      | Inr maxCPU \<Rightarrow>
          (case parse_float env (V4_MinCPU c) of
             Inl err \<Rightarrow> Inl err
           | Inr minCPU \<Rightarrow>
               Inr \<lparr>MaxCPU = maxCPU, MemorySize = of_value env (V4_MemorySize c), MinCPU = minCPU,
                    MaxIops = V4_MaxIops c, MinIops = V4_MinIops c, IopsWeight = V4_IopsWeight c,
                    LogDiskSize = of_value env (V4_LogDiskSize c)\<rparr>))"

text \<open>The configurations of the tenant's pools with a unit in the zone; the last one counts.\<close>

definition matching_configs ::
  "int \<Rightarrow> string \<Rightarrow> UnitRow list \<Rightarrow> PoolRow list \<Rightarrow> UnitConfigRow list \<Rightarrow> UnitConfigRow list" where
  "matching_configs tenantID zone unitList poolList configs =
     (let resourcePoolIDList = map Row_PoolID (filter (\<lambda>unit. Row_Zone unit = zone) unitList)
      in concat (map (\<lambda>pool. concat (map (\<lambda>resourcePoolID.
           if resourcePoolID = Row_ResourcePoolID pool \<and> Row_TenantID pool = Some tenantID
           then filter (\<lambda>c. Row_ConfigID c = Row_UnitConfigID pool) configs else [])
           resourcePoolIDList)) poolList))"

definition buildUnitConfigV4FromDB :: "tenant_env \<Rightarrow> string \<Rightarrow> int \<Rightarrow> UnitConfig result" where
  "buildUnitConfigV4FromDB env zone tenantID =
     (case with_sys env ''Get Sql Operator Error When Building Resource Unit From DB''
             (wrap_result ''Get sql error when get unit list'' (sql_GetUnitList env)) of
        Inl err \<Rightarrow> Inl err
      | Inr unitList \<Rightarrow>
          (case wrap_result ''Get sql error when get pool list'' (sql_GetPoolList env) of
             Inl err \<Rightarrow> Inl err
           | Inr poolList \<Rightarrow>
               (case wrap_result ''Get sql error when get unit config list'' (sql_GetUnitConfigV4List env) of
                  Inl err \<Rightarrow> Inl err
                | Inr configs \<Rightarrow>
                    foldl (\<lambda>acc c. case acc of Inl err \<Rightarrow> Inl err | Inr _ \<Rightarrow> read_unit_config env c)
                      (Inr no_unit_config) (matching_configs tenantID zone unitList poolList configs))))"

definition unit_status :: "UnitRow \<Rightarrow> UnitStatus" where
  "unit_status unit = \<lparr>Unit_UnitId = Row_UnitID unit, Unit_ServerIP = Row_SvrIP unit,
     Unit_ServerPort = Row_SvrPort unit, Unit_Status = Row_Status unit,
     Unit_Migrate = (case_option [] id (Row_MigrateFromSvrIP unit), case_option 0 id (Row_MigrateFromSvrPort unit))\<rparr>"

definition buildUnitStatusFromDB :: "tenant_env \<Rightarrow> string \<Rightarrow> int \<Rightarrow> UnitStatus list result" where
  "buildUnitStatusFromDB env zone tenantID =
     (case with_sys env ''Get Sql Operator Error When Building Resource Unit From DB''
             (wrap_result ''Get sql error when get pool list'' (sql_GetPoolList env)) of
        Inl err \<Rightarrow> Inl err
      | Inr poolList \<Rightarrow>
          (case wrap_result ''Get Sql Operator Error When Building Resource Unit From DB'' (sql_GetUnitList env) of
             Inl err \<Rightarrow> Inl err
           | Inr units \<Rightarrow>
               let ids = map Row_ResourcePoolID (filter (\<lambda>pool. Row_TenantID pool = Some tenantID) poolList)
               in Inr (concat (map (\<lambda>unit. map (\<lambda>_. unit_status unit)
                    (filter (\<lambda>poolId. Row_Zone unit = zone \<and> poolId = Row_PoolID unit) ids)) units))))"

text \<open>
  The locality type recorded for a zone. Both tests look the zone up in the map of the
  status, so the second one never holds and a zone without a replica is left out.
\<close>

definition recorded_type ::
  "(string \<times> LocalityType) list \<Rightarrow> (string \<times> LocalityType option) list \<Rightarrow> string \<Rightarrow> LocalityType option" where
  "recorded_type statusTypeMap specTypeMap zone =
     (let exist = assigned statusTypeMap zone \<noteq> None; specExist = assigned statusTypeMap zone \<noteq> None
      in if exist then assigned statusTypeMap zone
         else if specExist
         then (case assigned specTypeMap zone of Some (Some t) \<Rightarrow> Some (t\<lparr>LT_IsActive := False\<rparr>) | _ \<Rightarrow> None)
         else None)"

definition or_zero :: "(string \<times> int) list \<Rightarrow> string \<Rightarrow> int" where
  "or_zero es k = (case assigned es k of None \<Rightarrow> 0 | Some v \<Rightarrow> v)"

fun pool_status_loop ::
  "tenant_env \<Rightarrow> int \<Rightarrow> (string \<Rightarrow> LocalityType option) \<Rightarrow> (string \<Rightarrow> int) \<Rightarrow> (string \<Rightarrow> int) \<Rightarrow>
     string list \<Rightarrow> ResourcePoolStatus list result" where
  "pool_status_loop env tenantID type_of unit_num priority [] = Inr []"
| "pool_status_loop env tenantID type_of unit_num priority (zone # zones) =
     (case type_of zone of
        None \<Rightarrow> pool_status_loop env tenantID type_of unit_num priority zones
      | Some t \<Rightarrow>
          (case buildUnitConfigV4FromDB env zone tenantID of
             Inl err \<Rightarrow> Inl err
           | Inr config \<Rightarrow>
               (case buildUnitStatusFromDB env zone tenantID of
                  Inl err \<Rightarrow> Inl err
                | Inr units \<Rightarrow>
                    (case pool_status_loop env tenantID type_of unit_num priority zones of
                       Inl err \<Rightarrow> Inl err
                     | Inr rest \<Rightarrow>
                         Inr (\<lparr>PS_ZoneList = zone, PS_Units = units, PS_Priority = priority zone,
                               PS_Type = Some t, PS_UnitConfig = config, PS_UnitNumber = unit_num zone\<rparr> # rest)))))"

definition buildPoolStatusList ::
  "tenant_env \<Rightarrow> OBTenant \<Rightarrow> TenantRow \<Rightarrow> ResourcePoolStatus list result option" where
  "buildPoolStatusList env m row = do {
     statusTypeMap \<leftarrow> generateStatusTypeMapFromLocalityStr (TRow_Locality row);
     specTypeMap \<leftarrow> generateSpecLocalityMap (TenantSpec_Pools m);
     Some (case generateStatusUnitNumMap env m (TenantSpec_Pools m) of
             Inl err \<Rightarrow> Inl err
           | Inr unitNumMap \<Rightarrow>
               (case generateStatusZone env (TRow_TenantID row) of
                  Inl err \<Rightarrow> Inl err
                | Inr zones \<Rightarrow>
                    pool_status_loop env (TRow_TenantID row) (recorded_type statusTypeMap specTypeMap)
                      (or_zero unitNumMap) (or_zero (generateStatusPriorityMap (TRow_PrimaryZone row))) zones)) }"

lemma recorded_type_eq: "recorded_type st sp zone = assigned st zone"
  by (simp add: recorded_type_def split: option.splits)

lemma pool_status_loop_zones:
  "pool_status_loop env tid ty un pr zones = Inr ps \<Longrightarrow>
    map PS_ZoneList ps = filter (\<lambda>z. ty z \<noteq> None) zones \<and>
    (\<forall>s \<in> set ps. PS_Type s = ty (PS_ZoneList s) \<and> PS_Priority s = pr (PS_ZoneList s) \<and>
       PS_UnitNumber s = un (PS_ZoneList s))"
  by (induction zones arbitrary: ps) (auto split: option.splits sum.splits)

section \<open>Comparing the specification with the status\<close>

definition getPoolsForAdd :: "OBTenant \<Rightarrow> ResourcePoolSpec list" where
  "getPoolsForAdd m =
     filter (\<lambda>specZone. \<not> list_ex (\<lambda>statusZone. PS_ZoneList statusZone = Pool_Zone specZone) (TenantStatus_Pools m))
       (TenantSpec_Pools m)"

definition getPoolsForDelete :: "OBTenant \<Rightarrow> ResourcePoolStatus list" where
  "getPoolsForDelete m =
     filter (\<lambda>statusPool. \<not> list_ex (\<lambda>specPool. PS_ZoneList statusPool = Pool_Zone specPool) (TenantSpec_Pools m))
       (TenantStatus_Pools m)"

definition hasModifiedLocality :: "OBTenant \<Rightarrow> bool option" where
  "hasModifiedLocality m = do {
     specLocalityMap \<leftarrow> generateSpecLocalityMap (TenantSpec_Pools m);
     Some (\<not> DeepEqual specLocalityMap (generateStatusLocalityMap (TenantStatus_Pools m))) }"

definition hasModifiedPrimaryZone :: "OBTenant \<Rightarrow> bool option" where
  "hasModifiedPrimaryZone m = do {
     specPrimaryZone \<leftarrow> generateSpecPrimaryZone (TenantSpec_Pools m);
     statusPrimaryZone \<leftarrow> generateStatusPrimaryZone (TenantStatus_Pools m);
     Some (generatePrimaryZoneMap specPrimaryZone \<noteq> generatePrimaryZoneMap statusPrimaryZone) }"

definition DefaultOBTcpInvitedNodes :: string where
  "DefaultOBTcpInvitedNodes = ''%''"

definition spec_white_list :: "OBTenant \<Rightarrow> string" where
  "spec_white_list m = (if TenantSpec_ConnectWhiteList m = [] then DefaultOBTcpInvitedNodes
                        else TenantSpec_ConnectWhiteList m)"

definition hasModifiedWhiteList :: "OBTenant \<Rightarrow> bool" where
  "hasModifiedWhiteList m \<longleftrightarrow>
     spec_white_list m \<noteq> Info_ConnectWhiteList (TenantStatus_TenantRecordInfo m)"

definition spec_charset :: "OBTenant \<Rightarrow> string" where
  "spec_charset m = (if TenantSpec_Charset m = [] then ''utf8mb4'' else TenantSpec_Charset m)"

definition hasModifiedCharset :: "OBTenant \<Rightarrow> bool" where
  "hasModifiedCharset m \<longleftrightarrow> spec_charset m \<noteq> Info_Charset (TenantStatus_TenantRecordInfo m)"

definition hasModifiedUnitNum :: "OBTenant \<Rightarrow> bool" where
  "hasModifiedUnitNum m \<longleftrightarrow>
     TenantSpec_UnitNumber m \<noteq> Info_UnitNumber (TenantStatus_TenantRecordInfo m)"

definition generateModelUnitConfigV4 :: "tenant_env \<Rightarrow> UnitConfig \<Rightarrow> UnitConfigV4" where
  "generateModelUnitConfigV4 env c =
     \<lparr>V4_MaxCPU = as_float env (MaxCPU c), V4_MinCPU = as_float env (MinCPU c),
      V4_MemorySize = as_value env (MemorySize c), V4_MaxIops = MaxIops c, V4_MinIops = MinIops c,
      V4_LogDiskSize = as_value env (LogDiskSize c), V4_IopsWeight = IopsWeight c\<rparr>"

definition IsUnitConfigV4Equal :: "UnitConfigV4 \<Rightarrow> UnitConfigV4 \<Rightarrow> bool" where
  "IsUnitConfigV4Equal spec status =
     (if V4_MaxCPU spec = V4_MaxCPU status \<and> V4_MemorySize spec = V4_MemorySize status
      then \<not> ((V4_MinIops spec \<noteq> 0 \<and> V4_MinIops spec \<noteq> V4_MinIops status) \<or>
              (V4_MaxIops spec \<noteq> 0 \<and> V4_MaxIops spec \<noteq> V4_MaxIops status) \<or>
              (V4_MinCPU spec \<noteq> 0 \<and> V4_MinCPU spec \<noteq> V4_MinCPU status) \<or>
              (V4_LogDiskSize spec \<noteq> 0 \<and> V4_LogDiskSize spec \<noteq> V4_LogDiskSize status) \<or>
              (V4_IopsWeight spec \<noteq> 0 \<and> V4_IopsWeight spec \<noteq> V4_IopsWeight status))
      else False)"

definition generateSpecUnitConfigV4Map :: "tenant_env \<Rightarrow> OBTenant \<Rightarrow> (string \<times> UnitConfigV4) list" where
  "generateSpecUnitConfigV4Map env m =
     map (\<lambda>pool. (Pool_Zone pool, generateModelUnitConfigV4 env (Pool_UnitConfig pool))) (TenantSpec_Pools m)"

definition GenerateStatusUnitConfigV4Map :: "tenant_env \<Rightarrow> OBTenant \<Rightarrow> (string \<times> UnitConfigV4) list" where
  "GenerateStatusUnitConfigV4Map env m =
     map (\<lambda>pool. (PS_ZoneList pool, generateModelUnitConfigV4 env (PS_UnitConfig pool))) (TenantStatus_Pools m)"

text \<open>A pool whose unit configuration differs; one that the status lacks is left to the pool checks.\<close>

definition unit_differs :: "tenant_env \<Rightarrow> OBTenant \<Rightarrow> string \<Rightarrow> bool" where
  "unit_differs env m zone \<longleftrightarrow>
     (case (assigned (generateSpecUnitConfigV4Map env m) zone, assigned (GenerateStatusUnitConfigV4Map env m) zone) of
        (Some spec, Some status) \<Rightarrow> \<not> IsUnitConfigV4Equal spec status
      | _ \<Rightarrow> False)"

definition hasModifiedUnitConfigV4 :: "tenant_env \<Rightarrow> OBTenant \<Rightarrow> bool" where
  "hasModifiedUnitConfigV4 env m \<longleftrightarrow> list_ex (\<lambda>pool. unit_differs env m (Pool_Zone pool)) (TenantSpec_Pools m)"

text \<open>An empty version string panics at its first character.\<close>

definition hasModifiedUnitConfig :: "tenant_env \<Rightarrow> OBTenant \<Rightarrow> bool result option" where
  "hasModifiedUnitConfig env m =
     (case OBTenantManager_getOBVersion env m of
        Inl err \<Rightarrow> Some (Inl err)
      | Inr version \<Rightarrow>
          (case version of
             [] \<Rightarrow> None
           | c # _ \<Rightarrow> Some (if c = CHR ''4'' then Inr (hasModifiedUnitConfigV4 env m)
                           else Inl (OtherError ''no match version for check and set unit config''))))"

definition hasModifiedParameters :: "OBTenant \<Rightarrow> bool" where
  "hasModifiedParameters m \<longleftrightarrow> parameters_differ (TenantSpec_Parameters m) (TenantStatus_Parameters m)"

definition ReadonlyVariables :: "string list" where
  "ReadonlyVariables = [''plugin_dir'', ''version_comment'', ''ob_tcp_invited_nodes'',
     ''ob_compatibility_mode'', ''version'', ''system_time_zone'', ''license'', ''character_set_system'',
     ''lower_case_table_names'', ''datadir'', ''nls_characterset'', ''query_cache_type'']"

definition UnsupportedVariables :: "string list" where
  "UnsupportedVariables = [''nls_language'', ''nls_territory'', ''nls_sort'', ''nls_comp'',
     ''nls_characterset'', ''nls_nchar_characterset'', ''nls_date_language'', ''nls_nchar_conv_excp'',
     ''nls_calendar'', ''nls_numeric_characters'']"

definition skipped :: "Variable \<Rightarrow> bool" where
  "skipped v \<longleftrightarrow> List.member ReadonlyVariables (Var_Name v) \<or> List.member UnsupportedVariables (Var_Name v)"

definition variable_map :: "Variable list \<Rightarrow> (string \<times> Variable) list" where
  "variable_map vs = foldl (\<lambda>m v. AList.update (Var_Name v) v m) [] vs"

fun match_variables ::
  "Variable list \<Rightarrow> (string \<times> Variable) list \<Rightarrow> bool \<times> (string \<times> Variable) list" where
  "match_variables [] m = (True, m)"
| "match_variables (v # vs) m =
     (if skipped v then match_variables vs m
      else case map_of m (Var_Name v) of
             None \<Rightarrow> (False, m)
           | Some w \<Rightarrow> if Var_Value w \<noteq> Var_Value v then (False, m)
                       else match_variables vs (AList.delete (Var_Name v) m))"

definition hasModifiedVariables :: "OBTenant \<Rightarrow> bool" where
  "hasModifiedVariables m \<longleftrightarrow>
     (case match_variables (TenantSpec_Variables m) (variable_map (TenantStatus_Variables m)) of
        (all_matched, rest) \<Rightarrow> \<not> all_matched \<or> 0 < length rest)"

definition OBTenantManager_NextStatus :: "tenant_env \<Rightarrow> OBTenant \<Rightarrow> string result option" where
  "OBTenantManager_NextStatus env m =
     (if getPoolsForAdd m \<noteq> [] then Some (Inr tenantstatus_AddingResourcePool)
      else if getPoolsForDelete m \<noteq> [] then Some (Inr tenantstatus_DeletingResourcePool)
      else do {
        loc \<leftarrow> hasModifiedLocality m;
        if loc then Some (Inr tenantstatus_MaintainingLocality)
        else do {
          pz \<leftarrow> hasModifiedPrimaryZone m;
          if pz then Some (Inr tenantstatus_MaintainingPrimaryZone)
          else if hasModifiedWhiteList m then Some (Inr tenantstatus_MaintainingWhiteList)
          else if hasModifiedCharset m then Some (Inr tenantstatus_MaintainingCharset)
          else if hasModifiedUnitNum m then Some (Inr tenantstatus_MaintainingUnitNum)
          else do {
            uc \<leftarrow> hasModifiedUnitConfig env m;
            Some (case uc of
                    Inl err \<Rightarrow> Inl err
                  | Inr True \<Rightarrow> Inr tenantstatus_MaintainingUnitConfig
                  | Inr False \<Rightarrow>
                      if hasModifiedParameters m then Inr tenantstatus_MaintainingParameters
                      else if hasModifiedVariables m then Inr tenantstatus_MaintainingVariables
                      else Inr tenantstatus_Running) } } })"

section \<open>The resource manager\<close>

text \<open>
  \<^verbatim>\<open>buildTenantStatus\<close> also reads and writes the process-wide white list map: a tenant
  it has no entry for gets the default. The list of pools is indexed at 0, which panics
  when it is empty.
\<close>

definition buildTenantStatus ::
  "tenant_env \<Rightarrow> dict \<Rightarrow> OBTenant \<Rightarrow> dict \<times> OBTenant result option" where
  "buildTenantStatus env wl m =
     (case OBTenantManager_tenantExist env (TenantSpec_TenantName m) of
        Inl err \<Rightarrow> (wl, Some (Inl err))
      | Inr exist \<Rightarrow>
          if \<not> exist
          then (wl, Some (Inl (OtherError (''Tenant not exist, Tenant name: '' @ TenantSpec_TenantName m))))
          else case OBTenantManager_getTenantByName env (TenantSpec_TenantName m) of
            Inl err \<Rightarrow>
              (wl, Some (Inl (wrap (''Cannot Get Tenant Failed When Build Tenant Status'' @ TenantSpec_TenantName m) err)))
          | Inr row \<Rightarrow>
              (case buildPoolStatusList env m row of
                 None \<Rightarrow> (wl, None)
               | Some (Inl err) \<Rightarrow> (wl, Some (Inl err))
               | Some (Inr pools) \<Rightarrow>
                   let wl' = (if wl (TRow_TenantName row) = None
                              then wl(TRow_TenantName row \<mapsto> DefaultOBTcpInvitedNodes) else wl)
                   in (wl', do {
                     first \<leftarrow> (case pools of [] \<Rightarrow> None | s # _ \<Rightarrow> Some s);
                     Some (case OBTenantManager_getCharset env of
                       Inl err \<Rightarrow> Inl err
                     | Inr charset \<Rightarrow>
                         let info = \<lparr>Info_TenantID = TRow_TenantID row, Info_PrimaryZone = TRow_PrimaryZone row,
                               Info_Locality = TRow_Locality row,
                               Info_PoolList = Join (map (\<lambda>s. generatePoolName m (PS_ZoneList s)) pools) '','',
                               Info_ConnectWhiteList = dict_get wl' (TRow_TenantName row), Info_Charset = charset,
                               Info_Collate = TenantSpec_Collate m, Info_UnitNumber = PS_UnitNumber first,
                               Info_ZoneList = Join (map PS_ZoneList pools) '',''\<rparr>;
                             creds = (if OBTenantManager_getTenantClient env = None then TenantStatus_Credentials m
                                else (TenantStatus_Credentials m)\<lparr>Cred_Root := Cred_Root (TenantSpec_Credentials m)\<rparr>)
                         in case tapi_parameters env of
                              Inl err \<Rightarrow> Inl (wrap ''list obparameters'' (wrap ''get obparameter list'' err))
                            | Inr ps \<Rightarrow>
                                (case tapi_variables env of
                                   Inl err \<Rightarrow> Inl (wrap ''list obtenantvariables'' (wrap ''get obteanntvariable list'' err))
                                 | Inr vs \<Rightarrow>
                                     Inr (m\<lparr>TenantStatus_Pools := pools, TenantStatus_TenantRecordInfo := info,
                                            TenantStatus_Credentials := creds,
                                            TenantStatus_Parameters := map OBParameterSpec_Parameter
                                              (filter (\<lambda>p. OBParameterSpec_TenantName p = TenantSpec_TenantName m) ps),
                                            TenantStatus_Variables := vs\<rparr>))) })))"

definition OBTenantManager_InitStatus :: "OBTenant \<Rightarrow> OBTenant option" where
  "OBTenantManager_InitStatus m =
     Some (m\<lparr>TenantStatus_Pools := [], Ctx := None, TenantStatus_TenantRecordInfo := no_info,
            TenantStatus_Source := None, TenantStatus_Parameters := [], TenantStatus_Variables := [],
            TenantStatus_Credentials := TenantSpec_Credentials m,
            TenantStatus_TenantRole := TenantSpec_TenantRole m,
            Status := (case TenantSpec_Source m of
                         None \<Rightarrow> tenantstatus_CreatingTenant
                       | Some src \<Rightarrow>
                           if Source_Restore src \<noteq> None then tenantstatus_Restoring
                           else if Source_Tenant src \<noteq> None then tenantstatus_CreatingEmptyStandby
                           else tenantstatus_CreatingTenant)\<rparr>)"

definition OBTenantManager_retryUpdateStatus :: "tenant_env \<Rightarrow> OBTenant \<Rightarrow> error option" where
  "OBTenantManager_retryUpdateStatus env m =
     (case tapi_obtenant env of
        Inl err \<Rightarrow> IgnoreNotFound err
      | Inr obtenant \<Rightarrow>
          tstatus_Update env
            (obtenant\<lparr>Status := Status m, Ctx := Ctx m, TenantStatus_Pools := TenantStatus_Pools m,
               TenantStatus_TenantRecordInfo := TenantStatus_TenantRecordInfo m,
               TenantStatus_TenantRole := TenantStatus_TenantRole m, TenantStatus_Source := TenantStatus_Source m,
               TenantStatus_Credentials := TenantStatus_Credentials m,
               TenantStatus_Parameters := TenantStatus_Parameters m,
               TenantStatus_Variables := TenantStatus_Variables m\<rparr>))"

definition restore_cancelled :: "OBTenant \<Rightarrow> bool" where
  "restore_cancelled m \<longleftrightarrow>
     Status m = tenantstatus_Restoring \<and>
     (case TenantSpec_Source m of
        Some src \<Rightarrow> (case Source_Restore src of Some r \<Rightarrow> Restore_Cancel r | None \<Rightarrow> False)
      | None \<Rightarrow> False)"

definition OBTenantManager_UpdateStatus ::
  "tenant_env \<Rightarrow> dict \<Rightarrow> OBTenant \<Rightarrow> dict \<times> (OBTenant \<times> error option) option" where
  "OBTenantManager_UpdateStatus env wl m =
     (let store = (\<lambda>m'. Some (m', OBTenantManager_retryUpdateStatus env m'))
      in if Status m = tenantstatus_FinalizerFinished then (wl, Some (m, None))
         else if DeletionTimestamp m \<noteq> None then (wl, store (m\<lparr>Status := tenantstatus_DeletingTenant\<rparr>))
         else if restore_cancelled m
         then (wl, store (m\<lparr>Ctx := None, Status := tenantstatus_CancelingRestore\<rparr>))
         else if Status m \<noteq> tenantstatus_Running then (wl, store m)
         else case buildTenantStatus env wl m of
                (wl', None) \<Rightarrow> (wl', None)
              | (wl', Some (Inl err)) \<Rightarrow> (wl', Some (m, Some err))
              | (wl', Some (Inr m1)) \<Rightarrow>
                  (wl', case OBTenantManager_NextStatus env m1 of
                          None \<Rightarrow> None
                        | Some (Inl err) \<Rightarrow> Some (m1, Some err)
                        | Some (Inr s) \<Rightarrow> store (m1\<lparr>Status := s\<rparr>)))"

definition OBTenantManager_CheckAndUpdateFinalizers ::
  "tenant_env \<Rightarrow> OBTenant \<Rightarrow> OBTenant \<times> error option" where
  "OBTenantManager_CheckAndUpdateFinalizers env m =
     (let finish = (\<lambda>finished.
            if finished then
              (case tclient_Update env (m\<lparr>Finalizers := []\<rparr>) of
                 (m', Some err) \<Rightarrow>
                   (m', Some (wrap (''Update obtenant '' @ TenantSpec_TenantName m' @ '' in K8s failed'') err))
               | (m', None) \<Rightarrow> (m', None))
            else (m, None))
      in case OBTenantManager_getOBCluster env of
           Inl err \<Rightarrow>
             if is_not_found err then finish True else (m, Some (wrap ''Get obcluster failed'' err))
         | Inr obcluster \<Rightarrow>
             finish (DeletionTimestamp obcluster \<noteq> None \<or>
               (DeletionTimestamp m \<noteq> None \<and> Status m = tenantstatus_FinalizerFinished)))"

definition obtenant_flow_for :: "string \<Rightarrow> OperationContext option" where
  "obtenant_flow_for s =
     (if s = tenantstatus_CreatingTenant then Some genCreateTenantFlow
      else if s = tenantstatus_MaintainingWhiteList then Some genMaintainWhiteListFlow
      else if s = tenantstatus_MaintainingCharset then Some genMaintainCharsetFlow
      else if s = tenantstatus_MaintainingUnitNum then Some genMaintainUnitNumFlow
      else if s = tenantstatus_MaintainingPrimaryZone then Some genMaintainPrimaryZoneFlow
      else if s = tenantstatus_MaintainingLocality then Some genMaintainLocalityFlow
      else if s = tenantstatus_AddingResourcePool then Some genAddPoolFlow
      else if s = tenantstatus_DeletingResourcePool then Some genDeletePoolFlow
      else if s = tenantstatus_MaintainingUnitConfig then Some genMaintainUnitConfigFlow
      else if s = tenantstatus_DeletingTenant then Some genDeleteTenantFlow
      else if s = tenantstatus_PausingReconcile then None
      else if s = tenantstatus_Restoring then Some genRestoreTenantFlow
      else if s = tenantstatus_CancelingRestore then Some genCancelRestoreFlow
      else if s = tenantstatus_CreatingEmptyStandby then Some genCreateEmptyStandbyTenantFlow
      else if s = tenantstatus_MaintainingParameters then Some genMaintainTenantParametersFlow
      else if s = tenantstatus_MaintainingVariables then Some genMaintainTenantVariablesFlow
      else None)"

definition OBTenantManager_GetTaskFlow ::
  "ctx_heap \<Rightarrow> OBTenant \<Rightarrow> (ctx_heap \<times> TaskFlow option result) option" where
  "OBTenantManager_GetTaskFlow h m =
     (case Ctx m of
        Some a \<Rightarrow> Some (h, Inr (Some (Some a)))
      | None \<Rightarrow>
          (case obtenant_flow_for (Status m) of
             None \<Rightarrow> Some (h, Inr None)
           | Some c \<Rightarrow> Some (new_flow h (fill_strategy tenantstatus_Running c))))"

definition OBTenantManager_ClearTaskInfo :: "OBTenant \<Rightarrow> OBTenant" where
  "OBTenantManager_ClearTaskInfo m = leave_flow tenantstatus_Running m"

definition OBTenantManager_FinishTask :: "ctx_heap \<Rightarrow> OBTenant \<Rightarrow> OBTenant option" where
  "OBTenantManager_FinishTask h m = finish_flow h m"

definition OBTenantManager_HandleFailure ::
  "ctx_heap \<Rightarrow> OBTenant \<Rightarrow> (ctx_heap \<times> OBTenant) option" where
  "OBTenantManager_HandleFailure h m =
     (if DeletionTimestamp m \<noteq> None then Some (h, leave_flow tenantstatus_DeletingTenant m)
      else failure_rule_switch h m)"

definition OBTenantManager_GetTaskFunc :: "tenant_env \<Rightarrow> TaskName \<Rightarrow> OBTenant \<Rightarrow> TaskFunc result" where
  "OBTenantManager_GetTaskFunc env name m = GetTask (obtenant_taskMap (tenant_task env)) name m"

definition OBTenantManager_ArchiveResource :: "OBTenant \<Rightarrow> OBTenant" where
  "OBTenantManager_ArchiveResource m = leave_flow ''Failed'' m"

definition OBTenantManager :: "tenant_env \<Rightarrow> dict \<Rightarrow> OBTenant ResourceManager" where
  "OBTenantManager env wl =
     \<lparr>GetMeta = ObjectMeta.truncate, GetStatus = Status,
      InitStatus = OBTenantManager_InitStatus,
      SetOperationContext = (\<lambda>p m. m\<lparr>Ctx := p\<rparr>),
      ClearTaskInfo = OBTenantManager_ClearTaskInfo,
      HandleFailure = OBTenantManager_HandleFailure,
      FinishTask = OBTenantManager_FinishTask,
      GetTaskFunc = OBTenantManager_GetTaskFunc env,
      GetTaskFlow = OBTenantManager_GetTaskFlow,
      CheckAndUpdateFinalizers = OBTenantManager_CheckAndUpdateFinalizers env,
      UpdateStatus = (\<lambda>m. snd (OBTenantManager_UpdateStatus env wl m)),
      ArchiveResource = OBTenantManager_ArchiveResource\<rparr>"

section \<open>The manager keeps the coordinator's contract\<close>

lemma obtenant_flow_fresh: "obtenant_flow_for s = Some c \<Longrightarrow> fresh_flow (fill_strategy tenantstatus_Running c)"
  by (auto simp: obtenant_flow_for_def obtenant_flows split: if_splits)

lemma obtenant_creates: "Ctx m = None \<Longrightarrow> creates_flow h (OBTenantManager_GetTaskFlow h m)"
  by (auto simp: OBTenantManager_GetTaskFlow_def creates_flow_def obtenant_flow_fresh split: option.splits)

lemma obtenant_resumes: "Ctx m = Some a \<Longrightarrow> OBTenantManager_GetTaskFlow h m = Some (h, Inr (Some (Some a)))"
  by (simp add: OBTenantManager_GetTaskFlow_def)

lemma obtenant_handles:
  "Ctx m = Some a \<Longrightarrow> a < length h \<Longrightarrow>
    OBTenantManager_HandleFailure h m = lift_failure (failure_unless_deleted tenantstatus_DeletingTenant m) h m"
  by (simp add: OBTenantManager_HandleFailure_def failure_rule_switch_lift lift_failure_def
      failure_unless_deleted_def leave_flow_def)

interpretation ot: standard_manager "OBTenantManager env wl" tenantstatus_Running "''Failed''"
  "failure_unless_deleted tenantstatus_DeletingTenant" for env wl
  by unfold_locales
    (simp_all add: OBTenantManager_def OBTenantManager_ClearTaskInfo_def OBTenantManager_ArchiveResource_def
      OBTenantManager_FinishTask_def obtenant_handles obtenant_creates obtenant_resumes lawful_unless_deleted)

section \<open>The layout is a fixed point\<close>

text \<open>
  A specification whose pools are active replicas in different zones, with names that can
  be written.
\<close>

definition plain_layout :: "OBTenant \<Rightarrow> bool" where
  "plain_layout m \<longleftrightarrow>
     TenantSpec_Pools m \<noteq> [] \<and> distinct (map Pool_Zone (TenantSpec_Pools m)) \<and>
     (\<forall>pool \<in> set (TenantSpec_Pools m).
        case Pool_Type pool of None \<Rightarrow> False
        | Some t \<Rightarrow> LT_IsActive t \<and> writable (Pool_Zone pool) (upper_type t))"

lemma plain_layout_pool:
  assumes "plain_layout m" "pool \<in> set (TenantSpec_Pools m)"
  shows "Pool_Type pool = Some (the (Pool_Type pool))" "LT_IsActive (the (Pool_Type pool))"
    "writable (Pool_Zone pool) (upper_type (the (Pool_Type pool)))" "plain (Pool_Zone pool)"
  using assms by (auto simp: plain_layout_def writable_def split: option.splits)

lemma plain_layout_spec:
  assumes "plain_layout m"
  shows "generateSpecLocalityMap (TenantSpec_Pools m) =
      Some (map (\<lambda>pool. (Pool_Zone pool, Some (upper_type (the (Pool_Type pool))))) (TenantSpec_Pools m))"
    and "active_spec (TenantSpec_Pools m) =
      Some (map (\<lambda>pool. (Pool_Priority pool, Pool_Zone pool)) (TenantSpec_Pools m))"
proof -
  note pool = plain_layout_pool [OF assms]
  have "map (\<lambda>pool. map_option (\<lambda>t. (Pool_Zone pool, Some (upper_type t))) (Pool_Type pool)) (TenantSpec_Pools m) =
      map (\<lambda>pool. Some (Pool_Zone pool, Some (upper_type (the (Pool_Type pool))))) (TenantSpec_Pools m)"
    using pool(1) by (intro map_cong refl) (metis option.map(2))
  then show "generateSpecLocalityMap (TenantSpec_Pools m) =
      Some (map (\<lambda>pool. (Pool_Zone pool, Some (upper_type (the (Pool_Type pool))))) (TenantSpec_Pools m))"
    by (simp only: generateSpecLocalityMap_def those_map_Some)
  have "map_option (\<lambda>t. (LT_IsActive t, Pool_Priority pool, Pool_Zone pool)) (Pool_Type pool) =
      Some (True, Pool_Priority pool, Pool_Zone pool)" if "pool \<in> set (TenantSpec_Pools m)" for pool
    using pool(1,2) [OF that] by (cases "Pool_Type pool") simp_all
  then have "map (\<lambda>pool. map_option (\<lambda>t. (LT_IsActive t, Pool_Priority pool, Pool_Zone pool)) (Pool_Type pool)) (TenantSpec_Pools m) =
      map (\<lambda>pool. Some (True, Pool_Priority pool, Pool_Zone pool)) (TenantSpec_Pools m)"
    by simp
  then show "active_spec (TenantSpec_Pools m) =
      Some (map (\<lambda>pool. (Pool_Priority pool, Pool_Zone pool)) (TenantSpec_Pools m))"
    unfolding active_spec_def by (simp only: those_map_Some) (simp add: o_def)
qed

lemma assigned_map_key:
  assumes "distinct (map k xs)" "x \<in> set xs"
  shows "assigned (map (\<lambda>x. (k x, v x)) xs) (k x) = Some (v x)"
  using assms by (simp add: assigned_def map_of_eq_Some_iff rev_map [symmetric] o_def)

lemma layout_types:
  assumes plain: "plain_layout m"
    and es: "generateSpecLocalityMap (TenantSpec_Pools m) = Some es"
    and ls: "generateLocalityList es = Some ls"
    and st: "generateStatusTypeMapFromLocalityStr (Join ls '', '') = Some st"
    and pool: "pool \<in> set (TenantSpec_Pools m)"
  shows "assigned st (Pool_Zone pool) = Some (upper_type (the (Pool_Type pool)))"
    "assigned es (Pool_Zone pool) = Some (Some (upper_type (the (Pool_Type pool))))"
proof -
  have es_map: "es = map (\<lambda>pool. (Pool_Zone pool, Some (upper_type (the (Pool_Type pool))))) (TenantSpec_Pools m)"
    using es plain_layout_spec(1) [OF plain] by simp
  have dist: "distinct (map Pool_Zone (TenantSpec_Pools m))" using plain by (simp add: plain_layout_def)
  show at: "assigned es (Pool_Zone pool) = Some (Some (upper_type (the (Pool_Type pool))))"
    unfolding es_map by (rule assigned_map_key [OF dist pool])
  have writable: "writable zone t" if "assigned es zone = Some (Some t)" for zone t
  proof -
    from that have "(zone, Some t) \<in> set es" by (auto simp: assigned_def dest: map_of_SomeD)
    then show ?thesis using plain_layout_pool(3) [OF plain] by (auto simp: es_map)
  qed
  have active: "LT_IsActive (upper_type (the (Pool_Type pool)))"
    using plain_layout_pool(2) [OF plain pool] by (simp add: upper_type_def)
  have "ls \<noteq> []"
  proof
    assume "ls = []"
    with generateLocalityList_entries [OF ls] at active show False by fastforce
  qed
  from locality_read_back [OF ls this writable] st at active
  show "assigned st (Pool_Zone pool) = Some (upper_type (the (Pool_Type pool)))" by auto
qed

text \<open>The zones the database reports are those of the specification, in any order.\<close>

lemma layout_pools:
  assumes plain: "plain_layout m"
    and es: "generateSpecLocalityMap (TenantSpec_Pools m) = Some es"
    and ls: "generateLocalityList es = Some ls"
    and row: "TRow_Locality row = Join ls '', ''"
    and zones: "generateStatusZone env (TRow_TenantID row) = Inr zones"
      "mset zones = mset (map Pool_Zone (TenantSpec_Pools m))"
    and ps: "buildPoolStatusList env m row = Some (Inr ps)"
  shows "map PS_ZoneList ps = zones"
    "\<forall>s \<in> set ps. PS_Priority s = or_zero (generateStatusPriorityMap (TRow_PrimaryZone row)) (PS_ZoneList s)"
    "\<forall>s \<in> set ps. \<forall>pool \<in> set (TenantSpec_Pools m). PS_ZoneList s = Pool_Zone pool \<longrightarrow>
       PS_Type s = Some (upper_type (the (Pool_Type pool)))"
proof -
  from ps row obtain st unitNumMap where
    st: "generateStatusTypeMapFromLocalityStr (Join ls '', '') = Some st"
    and loop: "pool_status_loop env (TRow_TenantID row) (recorded_type st es) (or_zero unitNumMap)
      (or_zero (generateStatusPriorityMap (TRow_PrimaryZone row))) zones = Inr ps"
    by (auto simp: buildPoolStatusList_def es zones(1) split: bind_splits sum.splits)
  note facts = pool_status_loop_zones [OF loop, unfolded recorded_type_eq]
  note types = layout_types [OF plain es ls st]
  have "\<forall>z \<in> set zones. assigned st z \<noteq> None"
    using mset_eq_setD [OF zones(2)] types(1) by fastforce
  then have "filter (\<lambda>z. assigned st z \<noteq> None) zones = zones" by (simp add: filter_id_conv)
  with facts show "map PS_ZoneList ps = zones" by simp
  from facts show "\<forall>s \<in> set ps. PS_Priority s = or_zero (generateStatusPriorityMap (TRow_PrimaryZone row)) (PS_ZoneList s)"
    by blast
  from facts types(1) show "\<forall>s \<in> set ps. \<forall>pool \<in> set (TenantSpec_Pools m). PS_ZoneList s = Pool_Zone pool \<longrightarrow>
       PS_Type s = Some (upper_type (the (Pool_Type pool)))"
    by metis
qed

section \<open>Convergence\<close>

lemma layout_locality:
  assumes "plain_layout m"
    and "generateSpecLocalityMap (TenantSpec_Pools m) = Some es"
    and "map PS_ZoneList ps = zones" "mset zones = mset (map Pool_Zone (TenantSpec_Pools m))"
    and types: "\<forall>s \<in> set ps. \<forall>pool \<in> set (TenantSpec_Pools m). PS_ZoneList s = Pool_Zone pool \<longrightarrow>
       PS_Type s = Some (upper_type (the (Pool_Type pool)))"
  shows "assigned (generateStatusLocalityMap ps) = assigned es"
proof
  fix z
  have es: "es = map (\<lambda>pool. (Pool_Zone pool, Some (upper_type (the (Pool_Type pool))))) (TenantSpec_Pools m)"
    using assms(2) plain_layout_spec(1) [OF assms(1)] by simp
  have dist: "distinct (map Pool_Zone (TenantSpec_Pools m))" "distinct (map PS_ZoneList ps)"
    and zset: "PS_ZoneList ` set ps = Pool_Zone ` set (TenantSpec_Pools m)"
    using assms(1,3,4) mset_eq_imp_distinct_iff [OF assms(4)] mset_eq_setD [OF assms(4)]
    by (auto simp: plain_layout_def)
  show "assigned (generateStatusLocalityMap ps) z = assigned es z"
  proof (cases "z \<in> Pool_Zone ` set (TenantSpec_Pools m)")
    case True
    then obtain pool s where "pool \<in> set (TenantSpec_Pools m)" "z = Pool_Zone pool" "s \<in> set ps" "z = PS_ZoneList s"
      using zset by (metis imageE)
    with types assigned_map_key [OF dist(1), of pool "\<lambda>pool. Some (upper_type (the (Pool_Type pool)))"]
      assigned_map_key [OF dist(2), of s PS_Type]
    show ?thesis by (auto simp: es generateStatusLocalityMap_def)
  next
    case False
    with zset have "assigned (generateStatusLocalityMap ps) z = None" "assigned es z = None"
      unfolding assigned_None_iff by (auto simp: es generateStatusLocalityMap_def image_image)
    then show ?thesis by simp
  qed
qed

lemma layout_primary_zone:
  assumes plain: "plain_layout m"
    and zones: "map PS_ZoneList ps = zones" "mset zones = mset (map Pool_Zone (TenantSpec_Pools m))"
    and spec: "generateSpecPrimaryZone (TenantSpec_Pools m) = Some str"
    and db: "db = str \<or> db = butlast str"
    and prio: "\<forall>s \<in> set ps. PS_Priority s = or_zero (generateStatusPriorityMap db) (PS_ZoneList s)"
    and types: "\<forall>s \<in> set ps. \<forall>pool \<in> set (TenantSpec_Pools m). PS_ZoneList s = Pool_Zone pool \<longrightarrow>
       PS_Type s = Some (upper_type (the (Pool_Type pool)))"
  shows "\<exists>str'. generateStatusPrimaryZone ps = Some str' \<and> generatePrimaryZoneMap str' = generatePrimaryZoneMap str"
proof -
  let ?xs = "map (\<lambda>pool. (Pool_Priority pool, Pool_Zone pool)) (TenantSpec_Pools m)"
  let ?ys = "map (\<lambda>s. (PS_Priority s, PS_ZoneList s)) ps"
  have str: "str = primary_zone ?xs"
    using spec plain_layout_spec(2) [OF plain] by (simp add: generateSpecPrimaryZone_def)
  have pl: "\<forall>x \<in> set ?xs. plain (snd x)" using plain_layout_pool(4) [OF plain] by auto
  have "distinct (map snd ?xs)" "?xs \<noteq> []" using plain by (simp_all add: plain_layout_def o_def)
  then obtain g where mono: "strict_mono_on (fst ` set ?xs) g"
    and g: "\<And>p z. (p, z) \<in> set ?xs \<Longrightarrow> assigned (generateStatusPriorityMap db) z = Some (g p)"
    using read_back_mono [OF pl, of db] db by (auto simp: str)
  have zset: "PS_ZoneList ` set ps = Pool_Zone ` set (TenantSpec_Pools m)"
    using mset_eq_setD [OF zones(2)] by (simp add: zones(1) [symmetric])
  have active: "\<exists>t. PS_Type s = Some t \<and> LT_IsActive t" if "s \<in> set ps" for s
  proof -
    from that zset obtain pool where "pool \<in> set (TenantSpec_Pools m)" "PS_ZoneList s = Pool_Zone pool"
      by (metis imageE imageI)
    with types that plain_layout_pool(2) [OF plain] show ?thesis by (auto simp: upper_type_def)
  qed
  have "map (\<lambda>s. map_option (\<lambda>t. (LT_IsActive t, PS_Priority s, PS_ZoneList s)) (PS_Type s)) ps =
      map (\<lambda>s. Some (True, PS_Priority s, PS_ZoneList s)) ps"
    using active by (intro map_cong refl) fastforce
  then have ys: "active_status ps = Some ?ys"
    unfolding active_status_def by (simp only: those_map_Some) (simp add: o_def)
  let ?h = "\<lambda>z. (or_zero (generateStatusPriorityMap db) z, z)"
  have "?ys = map ?h zones" unfolding zones(1) [symmetric] using prio by simp
  moreover have "map (\<lambda>(p, z). (g p, z)) ?xs = map ?h (map Pool_Zone (TenantSpec_Pools m))"
    using g by (simp add: or_zero_def image_iff) fastforce
  ultimately have "mset ?ys = mset (map (\<lambda>(p, z). (g p, z)) ?xs)"
    using zones(2) by (simp only: mset_map)
  from levels_rename [OF mono this] have lv: "map sort (levels ?ys) = map sort (levels ?xs)" .
  have "\<forall>y \<in> set ?ys. plain (snd y)"
  proof
    fix y assume "y \<in> set ?ys"
    then have "snd y \<in> Pool_Zone ` set (TenantSpec_Pools m)" using zset by auto
    with pl show "plain (snd y)" by auto
  qed
  with lv pl have "generatePrimaryZoneMap (primary_zone ?ys) = generatePrimaryZoneMap str"
    unfolding str by (simp only: primary_zone_map_levels)
  with ys show ?thesis by (simp add: generateStatusPrimaryZone_def)
qed

section \<open>Properties\<close>

text \<open>
  A pool without a replica of the tenant, as a pool that is not active, is never recorded,
  so the comparison adds it again and again: the layout of such a tenant does not settle.
\<close>

theorem inactive_pool_never_settles:
  assumes "buildPoolStatusList env m row = Some (Inr (TenantStatus_Pools m))"
    and "generateStatusTypeMapFromLocalityStr (TRow_Locality row) = Some st"
    and "pool \<in> set (TenantSpec_Pools m)" and "assigned st (Pool_Zone pool) = None"
  shows "pool \<in> set (getPoolsForAdd m)"
proof -
  from assms(1,2) obtain sp unitNumMap zones where
    "pool_status_loop env (TRow_TenantID row) (recorded_type st sp) (or_zero unitNumMap)
      (or_zero (generateStatusPriorityMap (TRow_PrimaryZone row))) zones = Inr (TenantStatus_Pools m)"
    by (auto simp: buildPoolStatusList_def split: bind_splits sum.splits)
  from pool_status_loop_zones [OF this, unfolded recorded_type_eq] assms(4)
  have "Pool_Zone pool \<notin> set (map PS_ZoneList (TenantStatus_Pools m))" by auto
  with assms(3) show ?thesis by (force simp: getPoolsForAdd_def list_ex_iff)
qed

text \<open>
  C20. The layout of a tenant whose pools are all active, with a type, and lie in different
  zones, under names without separators, is a fixed point. When the database reports the
  locality entries the operator writes (with its own separator), the primary zone string
  (with or without the last semicolon) and units in exactly the zones of the pools, then the
  status \<^verbatim>\<open>buildPoolStatusList\<close> makes of it needs no pool added or removed, no new locality
  and no new primary zone, whatever the priorities are called and in whatever order Go
  iterates over the zones. (With a pool that is not active it is no fixed point, see
  \<open>inactive_pool_never_settles\<close>.)
\<close>

theorem tenant_layout_fixpoint:
  assumes "plain_layout m"
    and "generateSpecLocalityMap (TenantSpec_Pools m) = Some es" and "generateLocalityList es = Some ls"
    and "generateSpecPrimaryZone (TenantSpec_Pools m) = Some str"
    and "TRow_Locality row = Join ls '', ''"
    and "TRow_PrimaryZone row = str \<or> TRow_PrimaryZone row = butlast str"
    and "generateStatusZone env (TRow_TenantID row) = Inr zones"
    and "mset zones = mset (map Pool_Zone (TenantSpec_Pools m))"
    and "buildPoolStatusList env m row = Some (Inr (TenantStatus_Pools m))"
  shows "getPoolsForAdd m = [] \<and> getPoolsForDelete m = [] \<and>
    hasModifiedLocality m = Some False \<and> hasModifiedPrimaryZone m = Some False"
proof -
  note pools = layout_pools [OF assms(1-3,5,7-9)]
  have loc: "assigned (generateStatusLocalityMap (TenantStatus_Pools m)) = assigned es"
    by (rule layout_locality [OF assms(1,2) pools(1) assms(8) pools(3)])
  from layout_primary_zone [OF assms(1) pools(1) assms(8,4,6) pools(2,3)] obtain str'
    where "generateStatusPrimaryZone (TenantStatus_Pools m) = Some str'"
      "generatePrimaryZoneMap str' = generatePrimaryZoneMap str"
    by blast
  then have pz: "hasModifiedPrimaryZone m = Some False" by (simp add: hasModifiedPrimaryZone_def assms(4))
  have "PS_ZoneList ` set (TenantStatus_Pools m) = Pool_Zone ` set (TenantSpec_Pools m)"
    using mset_eq_setD [OF assms(8)] by (simp add: pools(1) [symmetric])
  then have "getPoolsForAdd m = []" "getPoolsForDelete m = []"
    by (force simp: getPoolsForAdd_def getPoolsForDelete_def filter_empty_conv list_ex_iff)+
  with loc pz show ?thesis by (simp add: hasModifiedLocality_def assms(2) DeepEqual_iff)
qed

definition full_type :: LocalityType where
  "full_type = \<lparr>LT_Name = ''FULL'', LT_Replica = 1, LT_IsActive = True\<rparr>"

definition small_pool :: "string \<Rightarrow> int \<Rightarrow> ResourcePoolSpec" where
  "small_pool zone p = \<lparr>Pool_Zone = zone, Pool_Priority = p, Pool_Type = Some (full_type\<lparr>LT_Name := ''Full''\<rparr>),
     Pool_UnitConfig = no_unit_config\<rparr>"

definition small_pool_status :: "string \<Rightarrow> int \<Rightarrow> ResourcePoolStatus" where
  "small_pool_status zone p = \<lparr>PS_ZoneList = zone,
     PS_Units = [\<lparr>Unit_UnitId = 1, Unit_ServerIP = ''10.0.0.1'', Unit_ServerPort = 2882, Unit_Status = ''ACTIVE'',
       Unit_Migrate = ([], 0)\<rparr>],
     PS_Priority = p, PS_Type = Some full_type, PS_UnitConfig = no_unit_config, PS_UnitNumber = 1\<rparr>"

definition small_tenant :: OBTenant where
  "small_tenant = \<lparr>Name = ''t1'', Namespace = ''oceanbase'', Annotations = Map.empty,
     Labels = Map.empty, Finalizers = [], DeletionTimestamp = None, Status = ''running'', Ctx = None,
     TenantSpec_ClusterName = ''test'', TenantSpec_TenantName = ''t1'', TenantSpec_UnitNumber = 1,
     TenantSpec_ForceDelete = False, TenantSpec_Charset = [], TenantSpec_Collate = [],
     TenantSpec_ConnectWhiteList = ''%'', TenantSpec_Pools = [small_pool ''zone1'' 3, small_pool ''zone2'' 7],
     TenantSpec_TenantRole = ''PRIMARY'', TenantSpec_Source = None,
     TenantSpec_Credentials = \<lparr>Cred_Root = [], Cred_StandbyRO = []\<rparr>, TenantSpec_Scenario = ''htap'', TenantSpec_Parameters = [],
     TenantSpec_Variables = [], TenantStatus_Pools = [small_pool_status ''zone1'' 1, small_pool_status ''zone2'' 2],
     TenantStatus_TenantRecordInfo = no_info\<lparr>Info_ConnectWhiteList := ''%'', Info_Charset := ''utf8mb4'', Info_UnitNumber := 1\<rparr>,
     TenantStatus_TenantRole = ''PRIMARY'', TenantStatus_Source = None,
     TenantStatus_Credentials = \<lparr>Cred_Root = [], Cred_StandbyRO = []\<rparr>,
     TenantStatus_Parameters = [], TenantStatus_Variables = []\<rparr>"

definition small_unit :: "string \<Rightarrow> UnitRow" where
  "small_unit zone = \<lparr>Row_UnitID = 1, Row_PoolID = 1, Row_Zone = zone, Row_SvrIP = ''10.0.0.1'', Row_SvrPort = 2882,
     Row_MigrateFromSvrIP = None, Row_MigrateFromSvrPort = None, Row_Status = ''ACTIVE''\<rparr>"

definition small_row :: TenantRow where
  "small_row = \<lparr>TRow_TenantID = 1002, TRow_TenantName = ''t1'',
     TRow_Locality = ''FULL{1}@zone2, FULL{1}@zone1'', TRow_PrimaryZone = ''zone2;zone1''\<rparr>"

definition small_tenant_env :: tenant_env where
  "small_tenant_env = \<lparr>tapi_obcluster = Inr small_cluster, tapi_obtenant = Inr small_tenant,
     tapi_parameters = Inr [], tapi_variables = Inr [], tclient_Update = (\<lambda>x. (x, None)),
     tstatus_Update = (\<lambda>_. None), GetSysOperationClient = (\<lambda>_. None), GetTenantRootOperationClient = (\<lambda>_. None),
     sql_CheckTenantExistByName = (\<lambda>_. Inr True), sql_GetTenantByName = (\<lambda>_. Inr small_row),
     sql_GetPoolList = Inr [\<lparr>Row_ResourcePoolID = 1, Row_Name = ''pool_t1_zone1'', Row_UnitNum = 1,
       Row_UnitConfigID = 1, Row_TenantID = Some 1002\<rparr>, \<lparr>Row_ResourcePoolID = 2, Row_Name = ''pool_t1_zone2'',
       Row_UnitNum = 1, Row_UnitConfigID = 1, Row_TenantID = Some 1002\<rparr>],
     sql_GetUnitList = Inr [small_unit ''zone1'', small_unit ''zone2''], sql_GetUnitConfigV4List = Inr [],
     sql_GetCharset = Inr ''utf8mb4'', sql_GetVersion = Inr ''4.2.1'', as_float = of_int, as_value = id,
     parse_float = (\<lambda>_. Inr 0), of_value = id, range_zones = id, tenant_task = (\<lambda>_ _ out. out = Returns None)\<rparr>"

lemmas small_tenant_defs = small_tenant_def small_pool_def small_pool_status_def full_type_def small_row_def
  small_tenant_env_def small_unit_def no_unit_config_def

lemma small_types_read:
  "generateStatusTypeMapFromLocalityStr ''FULL{1}@zone2, FULL{1}@zone1'' =
     Some [(''zone2'', full_type), (''zone1'', full_type)]"
  by code_simp

lemma small_priorities_read: "generateStatusPriorityMap ''zone2;zone1'' = [(''zone2'', 2), (''zone1'', 1)]"
  by code_simp

lemma small_zones_read: "generateStatusZone small_tenant_env 1002 = Inr [''zone1'', ''zone2'']"
  by (simp add: generateStatusZone_def with_sys_def OBTenantManager_getClusterSysClient_def
      OBTenantManager_getOBCluster_def small_tenant_env_def small_unit_def assigned_def Let_def)

lemma small_units_read:
  "buildUnitConfigV4FromDB small_tenant_env zone tid = Inr no_unit_config"
  "zone = ''zone1'' \<or> zone = ''zone2'' \<Longrightarrow>
     buildUnitStatusFromDB small_tenant_env zone 1002 = Inr (PS_Units (small_pool_status zone p))"
proof -
  show "buildUnitConfigV4FromDB small_tenant_env zone tid = Inr no_unit_config"
    by (simp add: buildUnitConfigV4FromDB_def matching_configs_def with_sys_def OBTenantManager_getClusterSysClient_def
        OBTenantManager_getOBCluster_def small_tenant_env_def Let_def)
  show "buildUnitStatusFromDB small_tenant_env zone 1002 = Inr (PS_Units (small_pool_status zone p))"
    if "zone = ''zone1'' \<or> zone = ''zone2''"
    using that
    by (auto simp: buildUnitStatusFromDB_def with_sys_def OBTenantManager_getClusterSysClient_def
        OBTenantManager_getOBCluster_def small_tenant_env_def small_unit_def unit_status_def small_pool_status_def Let_def)
qed

lemma small_unit_nums_read:
  "generateStatusUnitNumMap small_tenant_env small_tenant (TenantSpec_Pools small_tenant) =
     Inr [(''zone1'', 1), (''zone2'', 1)]"
  by (simp add: generateStatusUnitNumMap_def with_sys_def OBTenantManager_getClusterSysClient_def
      OBTenantManager_getOBCluster_def small_tenant_env_def small_tenant_def small_pool_def generatePoolName_def)

lemma small_pools_built:
  "buildPoolStatusList small_tenant_env small_tenant small_row = Some (Inr (TenantStatus_Pools small_tenant))"
proof -
  have spec: "generateSpecLocalityMap (TenantSpec_Pools small_tenant) =
      Some [(''zone1'', Some full_type), (''zone2'', Some full_type)]" by code_simp
  show ?thesis
    unfolding buildPoolStatusList_def spec small_unit_nums_read
    by (simp add: small_row_def small_types_read small_zones_read small_priorities_read recorded_type_eq
        small_units_read(1) small_units_read(2) [of _ 0] assigned_def or_zero_def small_tenant_def small_pool_status_def)
qed

theorem tenant_layout_fixpoint_witness:
  "getPoolsForAdd small_tenant = [] \<and> getPoolsForDelete small_tenant = [] \<and>
    hasModifiedLocality small_tenant = Some False \<and> hasModifiedPrimaryZone small_tenant = Some False"
proof (rule tenant_layout_fixpoint [where env = small_tenant_env and row = small_row])
  show "plain_layout small_tenant" by code_simp
  show "generateSpecLocalityMap (TenantSpec_Pools small_tenant) =
      Some [(''zone1'', Some full_type), (''zone2'', Some full_type)]" by code_simp
  show "generateLocalityList [(''zone1'', Some full_type), (''zone2'', Some full_type)] =
      Some [''FULL{1}@zone2'', ''FULL{1}@zone1'']" by code_simp
  show "generateSpecPrimaryZone (TenantSpec_Pools small_tenant) = Some ''zone2;zone1;''" by code_simp
  show "TRow_Locality small_row = Join [''FULL{1}@zone2'', ''FULL{1}@zone1''] '', ''" by code_simp
  show "TRow_PrimaryZone small_row = ''zone2;zone1;'' \<or> TRow_PrimaryZone small_row = butlast ''zone2;zone1;''"
    by code_simp
  show "generateStatusZone small_tenant_env (TRow_TenantID small_row) = Inr [''zone1'', ''zone2'']" by code_simp
  show "mset [''zone1'', ''zone2''] = mset (map Pool_Zone (TenantSpec_Pools small_tenant))"
    by (simp add: small_tenant_defs)
qed (rule small_pools_built)

end
