(* ===== verification/Polling.thy ===== *)
theory Polling
  imports Prelude
begin

text \<open>
  Bounded polling. Many tasks wait in a loop that reads an object once a round and stops
  at the first error, at the first object that is as wanted, or after a fixed number of
  rounds. The loop is given once here, together with what it does in terms of the
  answers alone; the tasks say what they make of its outcome. Calls made one after
  another until the first error are here too.
\<close>

section \<open>Polling loops\<close>

datatype ('e, 'z) poll_outcome = TimedOut | ReadError 'e | Seen 'z

primrec poll_until :: "(nat \<Rightarrow> 'e + 'z) \<Rightarrow> ('z \<Rightarrow> bool) \<Rightarrow> nat \<Rightarrow> nat \<Rightarrow> ('e, 'z) poll_outcome" where
  "poll_until poll good 0 i = TimedOut"
| "poll_until poll good (Suc n) i =
     (case poll i of
        Inl err \<Rightarrow> ReadError err
      | Inr z \<Rightarrow> if good z then Seen z else poll_until poll good n (Suc i))"

definition not_yet :: "(nat \<Rightarrow> 'e + 'z) \<Rightarrow> ('z \<Rightarrow> bool) \<Rightarrow> nat \<Rightarrow> nat \<Rightarrow> bool" where
  "not_yet poll good i k \<longleftrightarrow> (\<forall>j \<in> {i..<k}. \<exists>z. poll j = Inr z \<and> \<not> good z)"

lemma interval_first: "i < k \<Longrightarrow> {i..<k} = insert i {Suc i..<k}" for i k :: nat
  by auto

lemma not_yet_step:
  "i < k \<Longrightarrow> not_yet poll good i k \<longleftrightarrow> (\<exists>z. poll i = Inr z \<and> \<not> good z) \<and> not_yet poll good (Suc i) k"
  by (simp add: not_yet_def interval_first)

lemma not_yet_refl [simp]: "not_yet poll good i i"
  by (simp add: not_yet_def)

text \<open>The first index of an interval at which the loop stops.\<close>

definition first_hit :: "(nat \<Rightarrow> 'e + 'z) \<Rightarrow> ('z \<Rightarrow> bool) \<Rightarrow> nat \<Rightarrow> nat \<Rightarrow> 'e + 'z \<Rightarrow> bool" where
  "first_hit poll good n i r \<longleftrightarrow> (\<exists>k \<in> {i..<i + n}. poll k = r \<and> not_yet poll good i k)"

lemma first_hit_0 [simp]: "\<not> first_hit poll good 0 i r"
  by (simp add: first_hit_def)

lemma first_hit_Suc:
  "first_hit poll good (Suc n) i r \<longleftrightarrow>
    poll i = r \<or> (\<exists>z. poll i = Inr z \<and> \<not> good z) \<and> first_hit poll good n (Suc i) r"
proof -
  have step: "{i..<i + Suc n} = insert i {Suc i..<Suc i + n}" by auto
  have "first_hit poll good (Suc n) i r \<longleftrightarrow>
      (poll i = r \<and> not_yet poll good i i) \<or> (\<exists>k \<in> {Suc i..<Suc i + n}. poll k = r \<and> not_yet poll good i k)"
    unfolding first_hit_def step by blast
  also have "(\<exists>k \<in> {Suc i..<Suc i + n}. poll k = r \<and> not_yet poll good i k) \<longleftrightarrow>
      (\<exists>z. poll i = Inr z \<and> \<not> good z) \<and> first_hit poll good n (Suc i) r"
    unfolding first_hit_def using not_yet_step [of i _ poll good]
    by (metis atLeastLessThan_iff Suc_le_lessD)
  finally show ?thesis by simp
qed

lemma poll_until_iffs:
  "poll_until poll good n i = Seen z \<longleftrightarrow> good z \<and> first_hit poll good n i (Inr z)"
  "poll_until poll good n i = ReadError e \<longleftrightarrow> first_hit poll good n i (Inl e)"
  "poll_until poll good n i = TimedOut \<longleftrightarrow> not_yet poll good i (i + n)"
proof (induction n arbitrary: i)
  case (Suc n)
  {
    case 1
    show ?case by (cases "poll i") (auto simp: Suc.IH first_hit_Suc)
  next
    case 2
    show ?case by (cases "poll i") (auto simp: Suc.IH first_hit_Suc)
  next
    case 3
    show ?case using not_yet_step [of i "i + Suc n" poll good] by (cases "poll i") (auto simp: Suc.IH)
  }
qed simp_all
section \<open>Sequences of calls\<close>

text \<open>One call per element, stopping at the first error, which is wrapped.\<close>

primrec each_call ::
  "('c \<Rightarrow> error option) \<Rightarrow> ('x \<Rightarrow> 'c) \<Rightarrow> ('x \<Rightarrow> string) \<Rightarrow> 'x list \<Rightarrow> 'c list \<times> error option" where
  "each_call respond call msg [] = ([], None)"
| "each_call respond call msg (x # xs) =
     (case respond (call x) of
        Some err \<Rightarrow> ([call x], Some (wrap (msg x) err))
      | None \<Rightarrow> (case each_call respond call msg xs of (cs, e) \<Rightarrow> (call x # cs, e)))"

lemma each_call_ok:
  "\<forall>x \<in> set xs. respond (call x) = None \<Longrightarrow> each_call respond call msg xs = (map call xs, None)"
  by (induction xs) simp_all

lemma each_call_error_iff:
  "snd (each_call respond call msg xs) = None \<longleftrightarrow> (\<forall>x \<in> set xs. respond (call x) = None)"
  by (induction xs) (auto split: option.splits prod.splits)

end
