(* ===== verification/OBCluster_Tasks.thy ===== *)
theory OBCluster_Tasks
  imports OBCluster Polling Go_Strings
begin

text \<open>
  Task bodies of \<^verbatim>\<open>internal/resource/obcluster/obcluster_task.go\<close> and the helpers of
  \<^verbatim>\<open>utils.go\<close> they call: creating, changing and deleting zones, waiting for them,
  bootstrapping, maintaining parameters, and moving the sys tenant's locality. A task is
  modelled by the calls it makes, in order, and the error it returns; \<open>respond\<close> is the
  answer to a call. Lists printed into an error message are left out of it.
\<close>

section \<open>Names\<close>

definition generateZoneName :: "OBCluster \<Rightarrow> string \<Rightarrow> string" where
  "generateZoneName m zone =
     ClusterSpec_ClusterName m @ ''-'' @ show_int (ClusterSpec_ClusterId m) @ ''-'' @ zone"

definition generateParameterName :: "OBCluster \<Rightarrow> string \<Rightarrow> string" where
  "generateParameterName m name =
     ClusterSpec_ClusterName m @ ''-'' @ show_int (ClusterSpec_ClusterId m) @ ''-'' @
     dashes name"

lemma generateZoneName_inj [simp]: "generateZoneName m z = generateZoneName m z' \<longleftrightarrow> z = z'"
  by (simp add: generateZoneName_def)

section \<open>Zones\<close>

datatype zone_call =
    CreateZone OBZone
  | DeleteZone string
  | UpdateZone OBZone

definition getZonesToDelete :: "cluster_env \<Rightarrow> OBCluster \<Rightarrow> OBZone list result" where
  "getZonesToDelete env m =
     (case OBClusterManager_listOBZones env of
        Inl err \<Rightarrow> Inl (wrap (''List obzone of obcluster '' @ Name m @ '' failed'') err)
      | Inr zones \<Rightarrow>
          Inr (filter (\<lambda>obzone. \<not> list_ex (\<lambda>zone. Zone zone = Zone (ZoneSpec_Topology obzone))
                 (ClusterSpec_Topology m)) zones))"

definition DeleteOBZone ::
  "(zone_call \<Rightarrow> error option) \<Rightarrow> cluster_env \<Rightarrow> OBCluster \<Rightarrow> zone_call list \<times> error option" where
  "DeleteOBZone respond env m =
     (case getZonesToDelete env m of
        Inl err \<Rightarrow> ([], Some (wrap ''Failed to get obzones to delete'' err))
      | Inr zones \<Rightarrow>
          each_call respond (\<lambda>z. DeleteZone (Name z)) (\<lambda>z. ''Delete obzone '' @ Name z) zones)"

definition copy_cluster_annotation :: "'a ObjectMeta_scheme \<Rightarrow> string \<Rightarrow> dict \<Rightarrow> dict" where
  "copy_cluster_annotation obj key annos =
     (case GetAnnotationField obj key of (v, ok) \<Rightarrow> if ok then annos(key \<mapsto> v) else annos)"

definition new_obzone :: "string \<Rightarrow> OBCluster \<Rightarrow> OBZoneTopology \<Rightarrow> OBZone" where
  "new_obzone uid m zone =
     \<lparr>Name = generateZoneName m (Zone zone), Namespace = Namespace m,
      Annotations =
        copy_cluster_annotation m AnnotationsSourceClusterAddress
          (copy_cluster_annotation m AnnotationsMode
            (copy_cluster_annotation m ''oceanbase.oceanbase.com/single-pvc''
              (copy_cluster_annotation m ''oceanbase.oceanbase.com/independent-pvc-lifecycle'' Map.empty))),
      Labels = [''ref-uid'' \<mapsto> uid, ''ref-obcluster'' \<mapsto> Name m],
      Finalizers = [''finalizers.oceanbase.com.deleteobzone''], DeletionTimestamp = None,
      Status = [], Ctx = None,
      ZoneSpec_ClusterName = ClusterSpec_ClusterName m, ZoneSpec_ClusterId = ClusterSpec_ClusterId m,
      ZoneSpec_Topology = zone, ZoneSpec_OBServerTemplate = ClusterSpec_OBServerTemplate m,
      ZoneSpec_MonitorTemplate = ClusterSpec_MonitorTemplate m,
      ZoneSpec_BackupVolume = ClusterSpec_BackupVolume m,
      ZoneSpec_ServiceAccount = ClusterSpec_ServiceAccount m,
      ZoneStatus_Image = [], ZoneStatus_OBServerStatus = []\<rparr>"

lemma new_obzone_Name: "Name (new_obzone uid m zone) = generateZoneName m (Zone zone)"
  by (simp add: new_obzone_def)

definition zone_exists :: "OBCluster \<Rightarrow> OBZoneTopology \<Rightarrow> bool" where
  "zone_exists m zone \<longleftrightarrow>
     list_ex (\<lambda>s. generateZoneName m (Zone zone) = ZoneReplica_Zone s) (ClusterStatus_OBZoneStatus m)"

definition CreateOBZone ::
  "(zone_call \<Rightarrow> error option) \<Rightarrow> string \<Rightarrow> OBCluster \<Rightarrow> zone_call list \<times> error option" where
  "CreateOBZone respond uid m =
     each_call respond (\<lambda>zone. CreateZone (new_obzone uid m zone)) (\<lambda>_. ''create obzone'')
       (filter (\<lambda>zone. \<not> zone_exists m zone) (ClusterSpec_Topology m))"

text \<open>The pairs of the two nested loops of \<^verbatim>\<open>ModifyOBZoneReplica\<close>.\<close>

definition replica_changes :: "OBCluster \<Rightarrow> OBZone list \<Rightarrow> (OBZoneTopology \<times> OBZone) list" where
  "replica_changes m zones =
     filter (\<lambda>(zone, obzone). Zone zone = Zone (ZoneSpec_Topology obzone) \<and>
               Replica zone \<noteq> Replica (ZoneSpec_Topology obzone))
       (List.product (ClusterSpec_Topology m) zones)"

definition ModifyOBZoneReplica ::
  "(zone_call \<Rightarrow> error option) \<Rightarrow> cluster_env \<Rightarrow> OBCluster \<Rightarrow> zone_call list \<times> error option" where
  "ModifyOBZoneReplica respond env m =
     (case OBClusterManager_listOBZones env of
        Inl err \<Rightarrow> ([], Some (wrap (''List obzone of obcluster '' @ Name m @ '' failed'') err))
      | Inr zones \<Rightarrow>
          each_call respond
            (\<lambda>(zone, obzone). UpdateZone (obzone\<lparr>ZoneSpec_Topology :=
               (ZoneSpec_Topology obzone)\<lparr>Replica := Replica zone\<rparr>\<rparr>))
            (\<lambda>(zone, _). ''Modify obzone '' @ Zone zone @ '' replica failed'')
            (replica_changes m zones))"

section \<open>Changing zones and waiting for them\<close>

definition changeZonesWhenScaling :: "OBCluster \<Rightarrow> OBZone \<Rightarrow> OBZone" where
  "changeZonesWhenScaling m obzone =
     obzone\<lparr>ZoneSpec_OBServerTemplate := (ZoneSpec_OBServerTemplate obzone)
       \<lparr>Template_Resource := Template_Resource (ClusterSpec_OBServerTemplate m)\<rparr>\<rparr>"

definition changeZonesWhenExpandingPVC :: "OBCluster \<Rightarrow> OBZone \<Rightarrow> OBZone" where
  "changeZonesWhenExpandingPVC m obzone =
     (let new = Storage (ClusterSpec_OBServerTemplate m); st = Storage (ZoneSpec_OBServerTemplate obzone)
      in obzone\<lparr>ZoneSpec_OBServerTemplate := (ZoneSpec_OBServerTemplate obzone)\<lparr>Storage :=
           st\<lparr>DataStorage := (DataStorage st)\<lparr>Size := Size (DataStorage new)\<rparr>,
              LogStorage := (LogStorage st)\<lparr>Size := Size (LogStorage new)\<rparr>,
              RedoLogStorage := (RedoLogStorage st)\<lparr>Size := Size (RedoLogStorage new)\<rparr>\<rparr>\<rparr>\<rparr>)"

definition changeZonesWhenUpdatingOBServers :: "OBCluster \<Rightarrow> OBZone \<Rightarrow> OBZone" where
  "changeZonesWhenUpdatingOBServers m obzone =
     obzone\<lparr>ZoneSpec_OBServerTemplate := ClusterSpec_OBServerTemplate m\<rparr>"

definition changeZonesWhenModifyingServerTemplate :: "OBCluster \<Rightarrow> OBZone \<Rightarrow> OBZone" where
  "changeZonesWhenModifyingServerTemplate m obzone =
     obzone\<lparr>ZoneSpec_BackupVolume := ClusterSpec_BackupVolume m,
            ZoneSpec_MonitorTemplate := ClusterSpec_MonitorTemplate m\<rparr>"

text \<open>
  The waiting loop of \<^verbatim>\<open>modifyOBZonesAndCheckStatus\<close>: \<open>matched\<close> is set to false by a
  round that sees a zone in another status, and never set to true again.
\<close>

primrec check_status_loop ::
  "(nat \<Rightarrow> OBZone list result) \<Rightarrow> string \<Rightarrow> nat \<Rightarrow> nat \<Rightarrow> bool \<Rightarrow> error option" where
  "check_status_loop poll status 0 i matched =
     (if matched then None
      else Some (OtherError (''failed to wait for status of obzone to be '' @ status)))"
| "check_status_loop poll status (Suc n) i matched =
     (case poll i of
        Inl err \<Rightarrow> Some (wrap ''list obzones'' err)
      | Inr zones \<Rightarrow>
          if list_ex (\<lambda>z. Status z \<noteq> status) zones then check_status_loop poll status n (Suc i) False
          else if matched then None
          else check_status_loop poll status n (Suc i) matched)"

definition modifyOBZonesAndCheckStatus ::
  "(zone_call \<Rightarrow> error option) \<Rightarrow> cluster_env \<Rightarrow> (nat \<Rightarrow> OBZone list result) \<Rightarrow>
     (OBZone \<Rightarrow> OBZone) \<Rightarrow> string \<Rightarrow> nat \<Rightarrow> zone_call list \<times> error option" where
  "modifyOBZonesAndCheckStatus respond env poll changer status timeoutSeconds =
     (case OBClusterManager_listOBZones env of
        Inl err \<Rightarrow> ([], Some (wrap ''list obzones'' err))
      | Inr zones \<Rightarrow>
          (case each_call respond (\<lambda>z. UpdateZone (changer z)) (\<lambda>_. ''update obzone'') zones of
             (cs, Some err) \<Rightarrow> (cs, Some err)
           | (cs, None) \<Rightarrow> (cs, check_status_loop poll status timeoutSeconds 0 True)))"

definition zones_in_status :: "string \<Rightarrow> OBCluster \<Rightarrow> bool" where
  "zones_in_status status obcluster \<longleftrightarrow>
     list_all (\<lambda>s. ZoneReplica_Status s = status) (ClusterStatus_OBZoneStatus obcluster)"

definition generateWaitOBZoneStatusFunc :: "(nat \<Rightarrow> OBCluster result) \<Rightarrow> string \<Rightarrow> nat \<Rightarrow> error option" where
  "generateWaitOBZoneStatusFunc poll status timeoutSeconds =
     (case poll_until poll (zones_in_status status) (timeoutSeconds - 1) 1 of
        ReadError err \<Rightarrow> Some (wrap ''get obcluster failed'' err)
      | Seen obcluster \<Rightarrow> None
      | TimedOut \<Rightarrow> Some (OtherError ''Zone status still not matched when timeout''))"

definition WaitOBZoneDeleted :: "nat \<Rightarrow> (nat \<Rightarrow> OBCluster result) \<Rightarrow> OBCluster \<Rightarrow> error option" where
  "WaitOBZoneDeleted timeout poll m =
     (case poll_until poll
             (\<lambda>obcluster. list_all (\<lambda>s. list_ex (\<lambda>zone. ZoneReplica_Zone s = generateZoneName m (Zone zone))
                (ClusterSpec_Topology m)) (ClusterStatus_OBZoneStatus obcluster)) (timeout - 1) 1 of
        ReadError err \<Rightarrow> Some (wrap ''get obcluster failed'' err)
      | Seen obcluster \<Rightarrow> None
      | TimedOut \<Rightarrow> Some (OtherError (''OBCluster '' @ Name m @ '' zone still not deleted when timeout'')))"

definition WaitOBZoneTopologyMatch :: "OBCluster \<Rightarrow> error option" where
  "WaitOBZoneTopologyMatch m = None"

section \<open>Bootstrap\<close>

text \<open>
  The server to bootstrap from in a zone: the first one, or the last one that has the
  connection's address. Indexing the empty list panics (\<open>None\<close>).
\<close>

definition bootstrap_server :: "string \<Rightarrow> OBServerReplicaStatus list \<Rightarrow> string option" where
  "bootstrap_server connectAddress servers =
     (case servers of
        [] \<Rightarrow> None
      | s # _ \<Rightarrow> Some (foldl (\<lambda>ip x. if ServerReplica_Server x = connectAddress \<or>
                                      ServerReplica_ServiceIP x = connectAddress
                                   then OBServerReplicaStatus_GetConnectAddr x else ip)
                        (OBServerReplicaStatus_GetConnectAddr s) servers))"

primrec bootstrap_servers :: "string \<Rightarrow> OBZone list \<Rightarrow> (string \<times> string) list option" where
  "bootstrap_servers connectAddress [] = Some []"
| "bootstrap_servers connectAddress (z # zs) = do {
     ip \<leftarrow> bootstrap_server connectAddress (ZoneStatus_OBServerStatus z);
     rest \<leftarrow> bootstrap_servers connectAddress zs;
     Some ((Zone (ZoneSpec_Topology z), ip) # rest)
   }"

text \<open>
  The attempts to get an operation manager: \<open>conn i\<close> is the address of the connection
  made in attempt \<open>i\<close>. The outcome is the last error (nil before the first attempt) and
  the manager (nil when there is none).
\<close>

primrec connect_loop ::
  "(nat \<Rightarrow> string result) \<Rightarrow> nat \<Rightarrow> nat \<Rightarrow> error option \<Rightarrow> error option \<times> string option" where
  "connect_loop conn 0 i err = (err, None)"
| "connect_loop conn (Suc n) i err =
     (case conn i of
        Inl e \<Rightarrow> connect_loop conn n (Suc i) (Some e)
      | Inr address \<Rightarrow> (None, Some address))"

text \<open>
  \<^verbatim>\<open>Bootstrap\<close>: the servers it bootstraps the cluster with (if it gets there) and the
  error it returns; a panic is \<open>None\<close>. Wrapping a nil error gives a nil error.
\<close>

definition Bootstrap ::
  "((string \<times> string) list \<Rightarrow> error option) \<Rightarrow> (nat \<Rightarrow> string result) \<Rightarrow> nat \<Rightarrow> cluster_env \<Rightarrow> OBCluster \<Rightarrow>
     ((string \<times> string) list option \<times> error option) option" where
  "Bootstrap respond conn retries env m =
     (case OBClusterManager_listOBZones env of
        Inl err \<Rightarrow> Some (None, Some (wrap ''list obzones'' err))
      | Inr zones \<Rightarrow>
          if length zones = 0 then Some (None, None)
          else
            (case connect_loop conn retries 0 None of
               (Some err, _) \<Rightarrow> Some (None, Some (wrap ''get oceanbase operation manager'' err))
             | (None, manager) \<Rightarrow> do {
                 servers \<leftarrow>
                   (if GetAnnotationField m AnnotationsMode = (''standalone'', True) then
                      (case ClusterSpec_Topology m of
                         [] \<Rightarrow> None
                       | t # _ \<Rightarrow> Some [(Zone t, ''127.0.0.1'')])
                    else do { address \<leftarrow> manager; bootstrap_servers address zones });
                 _ \<leftarrow> manager;
                 Some (Some servers, respond servers)
               }))"

section \<open>Parameters\<close>

datatype parameter_call =
    CreateParam Parameter
  | UpdateParam Parameter
  | DeleteParam Parameter

fun spec_calls :: "Parameter list \<Rightarrow> (string \<times> Parameter) list \<Rightarrow>
    parameter_call list \<times> (string \<times> Parameter) list" where
  "spec_calls [] pm = ([], pm)"
| "spec_calls (p # ps) pm =
     (let call = (case map_of pm (Param_Name p) of
                    None \<Rightarrow> [CreateParam p]
                  | Some q \<Rightarrow> if Param_Value q \<noteq> Param_Value p then [UpdateParam p] else []);
          (cs, rest) = spec_calls ps (AList.delete (Param_Name p) pm)
      in (call @ cs, rest))"

text \<open>
  \<^verbatim>\<open>MaintainOBParameter\<close> logs errors and goes on. The remaining entries are deleted in the
  order Go's map iteration gives, here \<open>order\<close>.
\<close>

definition MaintainOBParameter ::
  "((string \<times> Parameter) list \<Rightarrow> (string \<times> Parameter) list) \<Rightarrow> OBCluster \<Rightarrow>
     parameter_call list \<times> error option" where
  "MaintainOBParameter order m =
     (case spec_calls (ClusterSpec_Parameters m) (parameter_map (ClusterStatus_Parameters m)) of
        (cs, rest) \<Rightarrow> (cs @ map (\<lambda>(_, p). DeleteParam p) (order rest), None))"

section \<open>The sys tenant's locality\<close>

record Replica =
  Replica_Type :: string
  Replica_Num :: int
  Replica_Zone :: string

definition OmitZoneFromReplicas :: "Replica list \<Rightarrow> string \<Rightarrow> Replica list" where
  "OmitZoneFromReplicas replicas zone = filter (\<lambda>r. Replica_Zone r \<noteq> zone) replicas"

text \<open>
  A locality is represented by its replicas; \<^verbatim>\<open>SetTenant\<close> with a locality is followed by
  waiting for the change.
\<close>

datatype sys_call = AlterPool "string list" | SetLocality "Replica list" | WaitLocalityChange

definition set_locality ::
  "(sys_call \<Rightarrow> error option) \<Rightarrow> Replica list \<Rightarrow> sys_call list \<times> error option" where
  "set_locality respond replicas =
     (case respond (SetLocality replicas) of
        Some err \<Rightarrow> ([SetLocality replicas], Some (wrap ''Failed to set sys locality'' err))
      | None \<Rightarrow> ([SetLocality replicas, WaitLocalityChange],
                 map_option (wrap ''Locality change not finished after timeout'') (respond WaitLocalityChange)))"

fun add_localities ::
  "(sys_call \<Rightarrow> error option) \<Rightarrow> string list \<Rightarrow> Replica list \<Rightarrow> sys_call list \<times> Replica list result" where
  "add_localities respond [] replicas = ([], Inr replicas)"
| "add_localities respond (zone # zones) replicas =
     (if list_ex (\<lambda>r. zone = Replica_Zone r) replicas then add_localities respond zones replicas
      else
        let replicas' = replicas @ [\<lparr>Replica_Type = ''FULL'', Replica_Num = 1, Replica_Zone = zone\<rparr>]
        in case set_locality respond replicas' of
             (cs, Some err) \<Rightarrow> (cs, Inl err)
           | (cs, None) \<Rightarrow>
               (case add_localities respond zones replicas' of (cs', out) \<Rightarrow> (cs @ cs', out)))"

text \<open>Every removal starts from the whole list of replicas again.\<close>

fun drop_localities ::
  "(sys_call \<Rightarrow> error option) \<Rightarrow> string list \<Rightarrow> Replica list \<Rightarrow> Replica list \<Rightarrow> sys_call list \<times> error option" where
  "drop_localities respond desired replicas [] = ([], None)"
| "drop_localities respond desired replicas (r # rs) =
     (if list_ex (\<lambda>zone. zone = Replica_Zone r) desired then drop_localities respond desired replicas rs
      else
        case set_locality respond (OmitZoneFromReplicas replicas (Replica_Zone r)) of
          (cs, Some err) \<Rightarrow> (cs, Some err)
        | (cs, None) \<Rightarrow>
            (case drop_localities respond desired replicas rs of (cs', out) \<Rightarrow> (cs @ cs', out)))"

definition add_missing :: "string list \<Rightarrow> string list \<Rightarrow> string list" where
  "add_missing desired zoneList =
     foldl (\<lambda>l zone. if list_ex (\<lambda>z. zone = z) l then l else l @ [zone]) zoneList desired"

text \<open>
  \<open>pool\<close> is the sys pool's zone list, \<open>tenant\<close> the replicas of the sys tenant's locality,
  \<open>conn\<close> the error (if any) of getting an operation manager.
\<close>

definition ModifySysTenantReplica ::
  "(sys_call \<Rightarrow> error option) \<Rightarrow> error option \<Rightarrow> string list result \<Rightarrow> Replica list result \<Rightarrow> OBCluster \<Rightarrow>
     sys_call list \<times> error option" where
  "ModifySysTenantReplica respond conn pool tenant m =
     (let desired = map Zone (ClusterSpec_Topology m)
      in case conn of
           Some err \<Rightarrow> ([], Some (wrap (''Failed to get operation manager of obcluster '' @ Name m) err))
         | None \<Rightarrow>
      (case pool of
         Inl err \<Rightarrow> ([], Some (wrap ''Failed to get sys pool info'' err))
       | Inr poolZones \<Rightarrow>
           let zoneList = add_missing desired poolZones
           in case respond (AlterPool zoneList) of
                Some err \<Rightarrow> ([AlterPool zoneList], Some (wrap ''Failed to modify sys pool's zone list'' err))
              | None \<Rightarrow>
      (case tenant of
         Inl err \<Rightarrow> ([AlterPool zoneList], Some (wrap ''Failed to get sys tenant info'' err))
       | Inr replicas \<Rightarrow>
           (case add_localities respond desired replicas of
              (cs1, Inl err) \<Rightarrow> (AlterPool zoneList # cs1, Some err)
            | (cs1, Inr replicas') \<Rightarrow>
                (case drop_localities respond desired replicas' replicas' of
                   (cs2, Some err) \<Rightarrow> (AlterPool zoneList # cs1 @ cs2, Some err)
                 | (cs2, None) \<Rightarrow>
                     let final = AlterPool (filter (\<lambda>zone. list_ex (\<lambda>z. zone = z) desired) zoneList)
                     in (AlterPool zoneList # cs1 @ cs2 @ [final], respond final))))))"

section \<open>Lemmas\<close>

text \<open>What the parameter calls do to the stored parameters, when they are accepted.\<close>

fun apply_parameter_call :: "parameter_call \<Rightarrow> (string \<rightharpoonup> string) \<Rightarrow> (string \<rightharpoonup> string)" where
  "apply_parameter_call (CreateParam p) st = st(Param_Name p \<mapsto> Param_Value p)"
| "apply_parameter_call (UpdateParam p) st = st(Param_Name p \<mapsto> Param_Value p)"
| "apply_parameter_call (DeleteParam p) st = st(Param_Name p := None)"

definition stored_values :: "(string \<times> Parameter) list \<Rightarrow> string \<rightharpoonup> string" where
  "stored_values pm n = map_option Param_Value (map_of pm n)"

lemma value_of_Cons: "value_of (p # ps) = (value_of ps)(Param_Name p \<mapsto> Param_Value p)"
  by (auto simp: value_of_def fun_eq_iff)

lemma value_of_None_iff: "value_of ps n = None \<longleftrightarrow> n \<notin> set (map Param_Name ps)"
  by (auto simp: value_of_def map_of_eq_None_iff image_iff)

lemma stored_delete: "stored_values (AList.delete k pm) = (stored_values pm)(k := None)"
  by (auto simp: stored_values_def delete_conv' fun_eq_iff)

lemma spec_calls_rest:
  "map_of (snd (spec_calls ps pm)) n = (if n \<in> set (map Param_Name ps) then None else map_of pm n)"
  by (induction ps arbitrary: pm) (auto simp: Let_def case_prod_beta delete_conv')

lemma spec_calls_keyed:
  "(\<And>k q. (k, q) \<in> set pm \<Longrightarrow> Param_Name q = k) \<Longrightarrow> (k, q) \<in> set (snd (spec_calls ps pm)) \<Longrightarrow>
    Param_Name q = k"
proof (induction ps arbitrary: pm)
  case (Cons p ps)
  show ?case
  proof (rule Cons.IH [of "AList.delete (Param_Name p) pm"])
    show "\<And>k q. (k, q) \<in> set (AList.delete (Param_Name p) pm) \<Longrightarrow> Param_Name q = k"
      using Cons.prems(1) by (auto simp: AList.delete_eq)
    show "(k, q) \<in> set (snd (spec_calls ps (AList.delete (Param_Name p) pm)))"
      using Cons.prems(2) by (simp add: Let_def case_prod_beta)
  qed
qed simp

text \<open>
  After the calls for the specified parameters, a store that agrees with the map on the
  names still in it has the specified values.
\<close>

lemma spec_calls_apply:
  assumes "distinct (map Param_Name ps)"
    and "\<And>n. n \<in> set (map Param_Name ps) \<Longrightarrow> st n = stored_values pm n"
  shows "fold apply_parameter_call (fst (spec_calls ps pm)) st n =
    (case value_of ps n of Some v \<Rightarrow> Some v | None \<Rightarrow> st n)"
  using assms
proof (induction ps arbitrary: pm st)
  case Nil
  show ?case by (simp add: value_of_def)
next
  case (Cons p ps)
  let ?st = "st(Param_Name p \<mapsto> Param_Value p)" and ?pm = "AList.delete (Param_Name p) pm"
  have new: "Param_Name p \<notin> set (map Param_Name ps)" and dist: "distinct (map Param_Name ps)"
    using Cons.prems(1) by simp_all
  have call: "fold apply_parameter_call (fst (spec_calls (p # ps) pm)) st =
      fold apply_parameter_call (fst (spec_calls ps ?pm)) ?st"
    using Cons.prems(2) [of "Param_Name p"]
    by (auto simp: Let_def case_prod_beta stored_values_def fun_upd_idem split: option.splits)
  have "?st n' = stored_values ?pm n'" if n': "n' \<in> set (map Param_Name ps)" for n'
  proof -
    have "n' \<noteq> Param_Name p" using n' new by metis
    with n' Cons.prems(2) [of n'] show ?thesis by (simp add: stored_delete)
  qed
  then have "fold apply_parameter_call (fst (spec_calls (p # ps) pm)) st n =
      (case value_of ps n of Some v \<Rightarrow> Some v | None \<Rightarrow> ?st n)"
    unfolding call by (rule Cons.IH [OF dist])
  then show ?case
    using new value_of_None_iff [of ps "Param_Name p"] by (simp add: value_of_Cons split: option.splits)
qed

lemma apply_deletes:
  "fold apply_parameter_call (map (\<lambda>(_, p). DeleteParam p) xs) st n =
    (if n \<in> Param_Name ` snd ` set xs then None else st n)"
  by (induction xs arbitrary: st) (auto split: prod.splits)

lemma parameter_map_keyed: "(k, q) \<in> set (parameter_map ps) \<Longrightarrow> Param_Name q = k"
proof -
  assume "(k, q) \<in> set (parameter_map ps)"
  then have "map_of (parameter_map ps) k = Some q"
    by (simp add: parameter_map_distinct map_of_is_SomeI)
  then show ?thesis by (auto simp: parameter_map_lookup dest!: map_of_SomeD)
qed

lemma status_values: "stored_values (parameter_map ps) = value_of (rev ps)"
  by (auto simp: stored_values_def value_of_def parameter_map_lookup fun_eq_iff)

text \<open>A loop that has once seen a wrong status cannot succeed any more.\<close>

lemma check_status_unmatched: "check_status_loop poll status n i False \<noteq> None"
  by (induction n arbitrary: i) (auto split: sum.splits)

text \<open>The locality that is in force after a sequence of calls.\<close>

definition locality_after :: "Replica list \<Rightarrow> sys_call list \<Rightarrow> Replica list" where
  "locality_after = foldl (\<lambda>l c. case c of SetLocality rs \<Rightarrow> rs | _ \<Rightarrow> l)"

lemma locality_after_append [simp]:
  "locality_after l (cs @ cs') = locality_after (locality_after l cs) cs'"
  by (simp add: locality_after_def)

lemma locality_after_simps [simp]:
  "locality_after l [] = l" "locality_after l (SetLocality rs # cs) = locality_after rs cs"
  "locality_after l (WaitLocalityChange # cs) = locality_after l cs"
  "locality_after l (AlterPool zs # cs) = locality_after l cs"
  by (simp_all add: locality_after_def)

lemma subset_singleton_iff_card: "finite A \<Longrightarrow> x \<in> A \<Longrightarrow> A \<subseteq> {x} \<longleftrightarrow> card A \<le> 1"
  unfolding One_nat_def card_le_Suc0_iff_eq by blast

lemma add_localities_ok:
  assumes "\<And>c. respond c = None"
  shows "\<exists>replicas'. snd (add_localities respond zones replicas) = Inr replicas' \<and>
    locality_after replicas (fst (add_localities respond zones replicas)) = replicas' \<and>
    Replica_Zone ` set replicas' = Replica_Zone ` set replicas \<union> set zones"
proof (induction zones arbitrary: replicas)
  case (Cons z zones)
  let ?new = "replicas @ [\<lparr>Replica_Type = ''FULL'', Replica_Num = 1, Replica_Zone = z\<rparr>]"
  show ?case
  proof (cases "list_ex (\<lambda>r. z = Replica_Zone r) replicas")
    case True
    with Cons.IH [of replicas] show ?thesis by (auto simp: list_ex_iff)
  next
    case False
    with Cons.IH [of ?new] assms show ?thesis
      by (auto simp: set_locality_def case_prod_beta Let_def)
  qed
qed simp

lemma drop_localities_ok:
  assumes "\<And>c. respond c = None"
  shows "snd (drop_localities respond desired replicas rs) = None \<and>
    locality_after l (fst (drop_localities respond desired replicas rs)) =
      (case filter (\<lambda>r. Replica_Zone r \<notin> set desired) rs of
         [] \<Rightarrow> l
       | us \<Rightarrow> OmitZoneFromReplicas replicas (Replica_Zone (last us)))"
  using assms
  by (induction rs arbitrary: l) (auto simp: set_locality_def list_ex_iff case_prod_beta split: list.splits)

section \<open>Properties\<close>

text \<open>
  The zone objects of the API server, by their names, after a call it has accepted. It
  rejects the creation of an object that exists.
\<close>

fun after_call :: "zone_call \<Rightarrow> string list \<Rightarrow> string list" where
  "after_call (CreateZone z) names = names @ [Name z]"
| "after_call (DeleteZone n) names = filter (\<lambda>x. x \<noteq> n) names"
| "after_call (UpdateZone z) names = names"

definition create_once :: "string set \<Rightarrow> (zone_call \<Rightarrow> error option) \<Rightarrow> bool" where
  "create_once existing respond \<longleftrightarrow>
     (\<forall>n. respond (DeleteZone n) = None) \<and>
     (\<forall>z. respond (CreateZone z) = None \<longleftrightarrow> Name z \<notin> existing)"

lemma after_deletes:
  "fold after_call (map (\<lambda>z. DeleteZone (f z)) zs) names = filter (\<lambda>n. n \<notin> f ` set zs) names"
  by (induction zs arbitrary: names) (auto intro: filter_cong)

lemma after_creates: "fold after_call (map (\<lambda>t. CreateZone (f t)) ts) names = names @ map (\<lambda>t. Name (f t)) ts"
  by (induction ts arbitrary: names) simp_all

text \<open>
  C27. The zone tasks make the zones those of the topology. Let the topology name no zone
  twice, the zone objects have the names of their zones, the status list all of them,
  and the API server accept every deletion and every creation of an object that does not
  exist yet. Then \<^verbatim>\<open>DeleteOBZone\<close> and \<^verbatim>\<open>CreateOBZone\<close> both succeed, no existing zone is created
  again, and after both the API server has exactly the zones of the topology, each once.
\<close>

theorem zone_tasks_reach_topology:
  assumes zones: "api_obzones env = Inr zones" "distinct (map Name zones)"
      "\<forall>z \<in> set zones. Name z = generateZoneName m (Zone (ZoneSpec_Topology z))"
    and topology: "distinct (map Zone (ClusterSpec_Topology m))"
    and status: "set (map ZoneReplica_Zone (ClusterStatus_OBZoneStatus m)) = set (map Name zones)"
    and server: "create_once (set (map Name zones)) respond"
  shows "snd (DeleteOBZone respond env m) = None \<and> snd (CreateOBZone respond uid m) = None \<and>
    mset (fold after_call (fst (DeleteOBZone respond env m) @ fst (CreateOBZone respond uid m)) (map Name zones)) =
      mset (map (\<lambda>t. generateZoneName m (Zone t)) (ClusterSpec_Topology m))"
proof -
  let ?topo = "Zone ` set (ClusterSpec_Topology m)"
  let ?gone = "filter (\<lambda>z. Zone (ZoneSpec_Topology z) \<notin> ?topo) zones"
  let ?fresh = "filter (\<lambda>t. generateZoneName m (Zone t) \<notin> Name ` set zones) (ClusterSpec_Topology m)"
  have "getZonesToDelete env m = Inr ?gone"
    using zones(1) by (auto simp: getZonesToDelete_def OBClusterManager_listOBZones_def list_ex_iff image_iff
        intro!: filter_cong)
  then have del: "DeleteOBZone respond env m = (map (\<lambda>z. DeleteZone (Name z)) ?gone, None)"
    using server by (simp add: DeleteOBZone_def each_call_ok create_once_def)
  have "zone_exists m t \<longleftrightarrow> generateZoneName m (Zone t) \<in> Name ` set zones" for t
    using status by (auto simp: zone_exists_def list_ex_iff)
  then have new: "CreateOBZone respond uid m = (map (\<lambda>t. CreateZone (new_obzone uid m t)) ?fresh, None)"
    using server by (simp add: CreateOBZone_def each_call_ok create_once_def new_obzone_Name)
  let ?kept = "filter (\<lambda>n. n \<notin> Name ` set ?gone) (map Name zones)"
  let ?made = "map (\<lambda>t. generateZoneName m (Zone t)) ?fresh"
  have "distinct (?kept @ ?made)"
    using zones(2) topology by (auto simp: distinct_map inj_on_def)
  moreover have "distinct (map (\<lambda>t. generateZoneName m (Zone t)) (ClusterSpec_Topology m))"
    using topology by (auto simp: distinct_map inj_on_def)
  moreover have "set (?kept @ ?made) = set (map (\<lambda>t. generateZoneName m (Zone t)) (ClusterSpec_Topology m))"
    using zones(3) by (fastforce simp: image_iff)
  ultimately have "mset (?kept @ ?made) = mset (map (\<lambda>t. generateZoneName m (Zone t)) (ClusterSpec_Topology m))"
    by (simp only: set_eq_iff_mset_eq_distinct)
  then show ?thesis by (simp add: del new after_deletes after_creates new_obzone_Name)
qed

text \<open>A cluster of which the first zone exists and the second has to be created.\<close>

definition growing_cluster :: OBCluster where
  "growing_cluster = small_cluster\<lparr>ClusterSpec_Topology := [zone1_topology, zone1_topology\<lparr>Zone := ''zone2''\<rparr>],
     ClusterStatus_OBZoneStatus := [\<lparr>ZoneReplica_Zone = ''test-1-zone1'', ZoneReplica_Status = []\<rparr>]\<rparr>"

definition small_server_answer :: "zone_call \<Rightarrow> error option" where
  "small_server_answer c =
     (case c of CreateZone z \<Rightarrow> if Name z = ''test-1-zone1'' then Some (OtherError ''already exists'') else None | _ \<Rightarrow> None)"

theorem zone_tasks_reach_topology_witness:
  "snd (CreateOBZone small_server_answer ''uid'' growing_cluster) = None \<and>
   mset (fold after_call (fst (DeleteOBZone small_server_answer small_env growing_cluster) @
       fst (CreateOBZone small_server_answer ''uid'' growing_cluster)) [''test-1-zone1'']) =
     {#''test-1-zone1'', ''test-1-zone2''#}"
proof -
  have name: "generateZoneName growing_cluster z = ''test-1-'' @ z" for z
    by (simp add: generateZoneName_def growing_cluster_def small_cluster_def show_int_def show_nat_1)
  have "create_once {''test-1-zone1''} small_server_answer"
    by (simp add: create_once_def small_server_answer_def)
  then show ?thesis
    using zone_tasks_reach_topology [of small_env "[small_zone]" growing_cluster small_server_answer "''uid''"] name
    by (simp add: small_env_def small_objects growing_cluster_def)
qed

text \<open>
  \<^verbatim>\<open>modifyOBZonesAndCheckStatus\<close> never recovers from a poll that sees a zone in another
  status: \<^verbatim>\<open>matched\<close> stays false, so when the first poll after the update finds a zone
  still running, the task fails whatever the later polls see, after its whole timeout.
\<close>

theorem modify_zones_fails_after_one_mismatch:
  assumes "api_obzones env = Inr zones" and "\<And>c. respond c = None"
    and "poll 0 = Inr zones'" and "z \<in> set zones'" and "Status z \<noteq> status" and "0 < timeoutSeconds"
  shows "snd (modifyOBZonesAndCheckStatus respond env poll changer status timeoutSeconds) \<noteq> None"
proof -
  obtain n where n: "timeoutSeconds = Suc n" using assms(6) by (cases timeoutSeconds) auto
  have "\<forall>x \<in> set zones. respond (UpdateZone (changer x)) = None" using assms(2) by simp
  then show ?thesis
    using assms(1,3-5) check_status_unmatched [of poll status n "Suc 0"]
    by (auto simp: modifyOBZonesAndCheckStatus_def OBClusterManager_listOBZones_def each_call_ok n list_ex_iff)
qed

theorem modify_zones_fails_after_one_mismatch_witness:
  "snd (modifyOBZonesAndCheckStatus (\<lambda>_. None) small_env
     (\<lambda>i. Inr [small_zone\<lparr>Status := (if i = 0 then ''running'' else ''expand pvc'')\<rparr>])
     (changeZonesWhenExpandingPVC small_cluster) ''expand pvc'' 1800) \<noteq> None"
  by (rule modify_zones_fails_after_one_mismatch [of _ "[small_zone]" _ _ "[small_zone\<lparr>Status := ''running''\<rparr>]"
        "small_zone\<lparr>Status := ''running''\<rparr>"]) (simp_all add: small_env_def)

text \<open>
  \<^verbatim>\<open>Bootstrap\<close> of a cluster without zones reports success: the error it means to
  return wraps the nil error of the listing and is nil itself. Nothing has been
  bootstrapped.
\<close>

theorem bootstrap_without_zones_succeeds:
  assumes "api_obzones env = Inr []"
  shows "Bootstrap respond conn retries env m = Some (None, None)"
  using assms by (simp add: Bootstrap_def OBClusterManager_listOBZones_def)

theorem bootstrap_without_zones_succeeds_witness:
  "Bootstrap (\<lambda>_. Some NotFound) (\<lambda>_. Inl NotFound) 10 (small_env\<lparr>api_obzones := Inr []\<rparr>) small_cluster = Some (None, None)"
  by (rule bootstrap_without_zones_succeeds) (simp add: small_env_def)

text \<open>
  \<^verbatim>\<open>MaintainOBParameter\<close> brings the stored parameters to the specified ones: when its
  calls are accepted, every specified name has its value afterwards and every other
  recorded name is gone, in whatever order Go iterates over the rest of the map. The
  comparison of \<^verbatim>\<open>UpdateStatus\<close> is then satisfied.
\<close>

theorem maintain_parameters_converges:
  assumes "distinct (map Param_Name (ClusterSpec_Parameters m))"
    and "\<And>xs. set (order xs) = set xs"
    and "\<And>n. n \<notin> Param_Name ` set (ClusterStatus_Parameters m) \<Longrightarrow> st n = None"
    and "\<And>n. n \<in> Param_Name ` set (ClusterStatus_Parameters m) \<Longrightarrow> st n = value_of (rev (ClusterStatus_Parameters m)) n"
  shows "fold apply_parameter_call (fst (MaintainOBParameter order m)) st = value_of (ClusterSpec_Parameters m)"
proof
  fix n
  let ?spec = "ClusterSpec_Parameters m" and ?pm = "parameter_map (ClusterStatus_Parameters m)"
  let ?rest = "snd (spec_calls ?spec ?pm)"
  have st: "st k = stored_values ?pm k" for k
  proof (cases "k \<in> Param_Name ` set (ClusterStatus_Parameters m)")
    case True
    then show ?thesis by (simp add: assms(4) status_values)
  next
    case False
    then have "value_of (rev (ClusterStatus_Parameters m)) k = None" by (simp add: value_of_None_iff)
    with False assms(3) show ?thesis by (simp add: status_values)
  qed
  have "Param_Name ` snd ` set ?rest = fst ` set ?rest"
    using spec_calls_keyed [OF parameter_map_keyed] by (force simp: image_iff)
  then have gone: "n \<in> Param_Name ` snd ` set (order ?rest) \<longleftrightarrow> map_of ?rest n \<noteq> None"
    using assms(2) by (simp add: map_of_eq_None_iff)
  have mid: "fold apply_parameter_call (fst (spec_calls ?spec ?pm)) st n =
      (case value_of ?spec n of Some v \<Rightarrow> Some v | None \<Rightarrow> st n)"
    by (rule spec_calls_apply [OF assms(1)]) (rule st)
  have "fold apply_parameter_call (fst (MaintainOBParameter order m)) st n =
      (if map_of ?rest n \<noteq> None then None
       else fold apply_parameter_call (fst (spec_calls ?spec ?pm)) st n)"
    using apply_deletes [of "order ?rest"] gone
    by (simp add: MaintainOBParameter_def case_prod_beta)
  then show "fold apply_parameter_call (fst (MaintainOBParameter order m)) st n = value_of ?spec n"
    using mid st [of n] value_of_None_iff [of ?spec n]
    by (auto simp: spec_calls_rest stored_values_def split: option.splits if_splits)
qed

theorem maintain_parameters_converges_witness:
  "fold apply_parameter_call (fst (MaintainOBParameter (\<lambda>xs. xs)
      (small_cluster\<lparr>ClusterSpec_Parameters := [\<lparr>Param_Name = ''a'', Param_Value = ''1''\<rparr>],
         ClusterStatus_Parameters := [\<lparr>Param_Name = ''b'', Param_Value = ''2''\<rparr>]\<rparr>))) [''b'' \<mapsto> ''2''] =
   [''a'' \<mapsto> ''1'']"
  by (subst maintain_parameters_converges) (auto simp: value_of_def)

text \<open>
  \<^verbatim>\<open>ModifySysTenantReplica\<close> leaves the sys tenant with exactly the zones of the
  topology if and only if at most one zone of its locality has to be removed. Each removal
  is computed from the full list of replicas, so removing a second zone puts the first one
  back.
\<close>

theorem sys_tenant_locality_reached_iff:
  assumes "\<And>c. respond c = None"
  shows "Replica_Zone ` set (locality_after replicas
        (fst (ModifySysTenantReplica respond None (Inr pool) (Inr replicas) m))) =
      Zone ` set (ClusterSpec_Topology m) \<longleftrightarrow>
    card (Replica_Zone ` set replicas - Zone ` set (ClusterSpec_Topology m)) \<le> 1"
proof -
  let ?desired = "map Zone (ClusterSpec_Topology m)"
  let ?extra = "Replica_Zone ` set replicas - set ?desired"
  obtain replicas' where add: "snd (add_localities respond ?desired replicas) = Inr replicas'"
      "locality_after replicas (fst (add_localities respond ?desired replicas)) = replicas'"
    and zones: "Replica_Zone ` set replicas' = Replica_Zone ` set replicas \<union> set ?desired"
    using add_localities_ok [of respond, OF assms] by blast
  let ?us = "filter (\<lambda>r. Replica_Zone r \<notin> set ?desired) replicas'"
  have "Replica_Zone ` set ?us = Replica_Zone ` set replicas' - set ?desired" by auto
  then have extra: "Replica_Zone ` set ?us = ?extra" unfolding zones by blast
  define final where "final = (case ?us of [] \<Rightarrow> replicas' | us \<Rightarrow> OmitZoneFromReplicas replicas' (Replica_Zone (last us)))"
  have "locality_after replicas (fst (ModifySysTenantReplica respond None (Inr pool) (Inr replicas) m)) = final"
    using add drop_localities_ok [of respond ?desired replicas' replicas' replicas', OF assms] assms
    by (simp add: ModifySysTenantReplica_def Let_def case_prod_beta final_def)
  moreover have "Replica_Zone ` set final = set ?desired \<longleftrightarrow> card ?extra \<le> 1"
  proof (cases "?us = []")
    case True
    then have none: "?extra = {}" using extra by simp
    then have "Replica_Zone ` set final = set ?desired"
      using True zones by (auto simp: final_def)
    moreover have "card ?extra \<le> 1" unfolding none by simp
    ultimately show ?thesis by blast
  next
    case False
    let ?z = "Replica_Zone (last ?us)"
    have z: "?z \<in> ?extra" using False extra last_in_set [OF False] by blast
    have "final = OmitZoneFromReplicas replicas' ?z"
      using False by (simp add: final_def split: list.splits)
    then have "Replica_Zone ` set final = Replica_Zone ` set replicas' - {?z}"
      by (auto simp: OmitZoneFromReplicas_def)
    moreover have "A \<union> D - {x} = D \<longleftrightarrow> A - D \<subseteq> {x}" if "x \<in> A - D" for A D and x :: string
      using that by blast
    ultimately have "Replica_Zone ` set final = set ?desired \<longleftrightarrow> ?extra \<subseteq> {?z}"
      using z unfolding zones by simp
    also have "\<dots> \<longleftrightarrow> card ?extra \<le> 1"
      by (rule subset_singleton_iff_card [OF _ z]) simp
    finally show ?thesis .
  qed
  ultimately show ?thesis by simp
qed

theorem sys_tenant_locality_reached_iff_witness:
  "Replica_Zone ` set (locality_after (map (\<lambda>z. \<lparr>Replica_Type = ''FULL'', Replica_Num = 1, Replica_Zone = z\<rparr>)
        [''zone1'', ''zone2'', ''zone3''])
      (fst (ModifySysTenantReplica (\<lambda>_. None) None (Inr [''zone1'', ''zone2'', ''zone3''])
        (Inr (map (\<lambda>z. \<lparr>Replica_Type = ''FULL'', Replica_Num = 1, Replica_Zone = z\<rparr>)
          [''zone1'', ''zone2'', ''zone3''])) small_cluster))) \<noteq> {''zone1''}"
proof -
  let ?rs = "map (\<lambda>z. \<lparr>Replica_Type = ''FULL'', Replica_Num = 1, Replica_Zone = z\<rparr>) [''zone1'', ''zone2'', ''zone3'']"
  have "Replica_Zone ` set ?rs - Zone ` set (ClusterSpec_Topology small_cluster) = {''zone2'', ''zone3''}"
    by (auto simp: small_objects)
  then have "\<not> card (Replica_Zone ` set ?rs - Zone ` set (ClusterSpec_Topology small_cluster)) \<le> 1" by simp
  moreover have "Zone ` set (ClusterSpec_Topology small_cluster) = {''zone1''}" by (simp add: small_objects)
  ultimately show ?thesis
    using sys_tenant_locality_reached_iff [of "\<lambda>_. None" ?rs "[''zone1'', ''zone2'', ''zone3'']" small_cluster]
    by metis
qed

end
