(* ===== verification/SDK_Statements.thy ===== *)
theory SDK_Statements
  imports Complex_Main Go_Strings
begin

text \<open>
  The SQL statements of the SDK: the constants of \<^verbatim>\<open>pkg/oceanbase-sdk/const/sql\<close>, where a
  constant with \<^verbatim>\<open>%s\<close> verbs is a function of the texts put in their places, and the
  functions of \<^verbatim>\<open>pkg/oceanbase-sdk/operation/tenant.go\<close> that assemble a statement and
  collect the values of its placeholders.
\<close>

datatype sql_value = SQL_Int int | SQL_Float real | SQL_Str string | SQL_Bool bool

text \<open>A statement and the values for its placeholders.\<close>

type_synonym prepared = "string \<times> sql_value list"

definition quoted :: "string \<Rightarrow> string" where
  "quoted s = [CHR 0x27] @ s @ [CHR 0x27]"

section \<open>Statements\<close>

definition sql_EnableArchiveLog :: string where
  \<open>sql_EnableArchiveLog = ''ALTER SYSTEM ARCHIVELOG''\<close>

definition sql_DisableArchiveLog :: string where
  \<open>sql_DisableArchiveLog = ''ALTER SYSTEM NOARCHIVELOG''\<close>

definition sql_QueryArchiveLog :: string where
  \<open>sql_QueryArchiveLog = ''SELECT dest_id, round_id, dest_no, status, start_scn, start_scn_display, checkpoint_scn, '' @
     ''IFNULL(checkpoint_scn_display, '-') as checkpoint_scn_display, compatible, base_piece_id, '' @
     ''used_piece_id, piece_switch_interval, input_bytes, input_bytes_display, output_bytes, '' @
     ''output_bytes_display, compression_ratio, deleted_input_bytes, '' @
     ''deleted_input_bytes_display, deleted_output_bytes, deleted_output_bytes_display, comment, '' @
     ''path FROM DBA_OB_ARCHIVELOG''\<close>

definition sql_QueryArchiveLogSummary :: string where
  \<open>sql_QueryArchiveLogSummary = ''SELECT dest_id, round_id, dest_no, status, start_scn, start_scn_display, checkpoint_scn, '' @
     ''IFNULL(checkpoint_scn_display, '-') as checkpoint_scn_display, compatible, base_piece_id, '' @
     ''used_piece_id, piece_switch_interval, input_bytes, input_bytes_display, output_bytes, '' @
     ''output_bytes_display, compression_ratio, deleted_input_bytes, '' @
     ''deleted_input_bytes_display, deleted_output_bytes, deleted_output_bytes_display, comment, '' @
     ''path FROM DBA_OB_ARCHIVELOG_SUMMARY''\<close>

definition sql_QueryArchiveLogDestConfigs :: string where
  \<open>sql_QueryArchiveLogDestConfigs = ''SELECT dest_no, name, value FROM DBA_OB_ARCHIVE_DEST''\<close>

definition sql_SetBackupPassword :: string where
  \<open>sql_SetBackupPassword = ''SET ENCRYPTION ON IDENTIFIED BY ? ONLY''\<close>

definition sql_CreateBackupFull :: string where
  \<open>sql_CreateBackupFull = ''ALTER SYSTEM BACKUP DATABASE''\<close>

definition sql_CreateBackupIncr :: string where
  \<open>sql_CreateBackupIncr = ''ALTER SYSTEM BACKUP INCREMENTAL DATABASE''\<close>

definition sql_StopBackupJob :: string where
  \<open>sql_StopBackupJob = ''ALTER SYSTEM CANCEL BACKUP''\<close>

definition sql_QueryBackupJobs :: string where
  \<open>sql_QueryBackupJobs = ''SELECT job_id, executor_tenant_id, job_level, start_timestamp, end_timestamp, status, '' @
     ''result, comment, backup_set_id, plus_archivelog, backup_type, encryption_mode, passwd '' @
     ''FROM DBA_OB_BACKUP_JOBS''\<close>

definition sql_QueryBackupHistory :: string where
  \<open>sql_QueryBackupHistory = ''SELECT job_id, executor_tenant_id, job_level, start_timestamp, end_timestamp, status, '' @
     ''result, comment, backup_set_id, plus_archivelog, backup_type, encryption_mode, passwd '' @
     ''FROM DBA_OB_BACKUP_JOB_HISTORY''\<close>

definition sql_QueryBackupTasks :: string where
  \<open>sql_QueryBackupTasks = ''SELECT job_id, backup_set_id, start_timestamp, end_timestamp, status, result, comment, '' @
     ''task_id, incarnation, start_scn, end_scn, user_ls_start_scn, encryption_mode, passwd, '' @
     ''input_bytes, output_bytes, output_rate_bytes, extra_meta_bytes, tablet_count, '' @
     ''finish_tablet_count, macro_block_count, finish_macro_block_count, file_count, '' @
     ''meta_turn_id, data_turn_id, path FROM DBA_OB_BACKUP_TASKS''\<close>

definition sql_QueryBackupTaskHistory :: string where
  \<open>sql_QueryBackupTaskHistory = ''SELECT job_id, backup_set_id, start_timestamp, end_timestamp, status, result, comment, '' @
     ''task_id, incarnation, start_scn, end_scn, user_ls_start_scn, encryption_mode, passwd, '' @
     ''input_bytes, output_bytes, output_rate_bytes, extra_meta_bytes, tablet_count, '' @
     ''finish_tablet_count, macro_block_count, finish_macro_block_count, file_count, '' @
     ''meta_turn_id, data_turn_id, path FROM DBA_OB_BACKUP_TASK_HISTORY''\<close>

definition sql_QueryBackupParameter :: string where
  \<open>sql_QueryBackupParameter = ''SELECT name, value FROM DBA_OB_BACKUP_PARAMETER''\<close>

definition sql_AddCleanBackupPolicy :: string where
  \<open>sql_AddCleanBackupPolicy = ''ALTER SYSTEM ADD DELETE BACKUP POLICY ? RECOVERY_WINDOW ?''\<close>

definition sql_RemoveCleanBackupPolicy :: string where
  \<open>sql_RemoveCleanBackupPolicy = ''ALTER SYSTEM DROP DELETE BACKUP POLICY ?''\<close>

definition sql_QueryBackupCleanPolicy :: string where
  \<open>sql_QueryBackupCleanPolicy = ''SELECT policy_name, recovery_window FROM DBA_OB_BACKUP_DELETE_POLICY''\<close>

definition sql_CancelCleanBackup :: string where
  \<open>sql_CancelCleanBackup = ''ALTER SYSTEM CANCEL DELETE BACKUP''\<close>

definition sql_CancelAllCleanBackup :: string where
  \<open>sql_CancelAllCleanBackup = ''ALTER SYSTEM CANCEL DELETE BACKUP''\<close>

definition sql_QueryBackupCleanJobs :: string where
  \<open>sql_QueryBackupCleanJobs = ''SELECT job_id, executor_tenant_id, job_level, start_timestamp, end_timestamp, status, '' @
     ''result, comment, type, parameter, task_count, success_task_count FROM '' @
     ''DBA_OB_BACKUP_DELETE_JOBS''\<close>

definition sql_QueryBackupCleanJobHistory :: string where
  \<open>sql_QueryBackupCleanJobHistory = ''SELECT job_id, executor_tenant_id, job_level, start_timestamp, end_timestamp, status, '' @
     ''result, comment, type, parameter, task_count, success_task_count FROM '' @
     ''DBA_OB_BACKUP_DELETE_JOB_HISTORY''\<close>

definition sql_QueryLatestBackupJobOfType :: string where
  \<open>sql_QueryLatestBackupJobOfType = ''SELECT job_id, executor_tenant_id, job_level, start_timestamp, end_timestamp, status, '' @
     ''result, comment, backup_set_id, plus_archivelog, backup_type, encryption_mode, passwd '' @
     ''FROM DBA_OB_BACKUP_JOBS WHERE backup_type = ? order by job_id DESC LIMIT 1''\<close>

definition sql_QueryLatestBackupJobHistoryOfType :: string where
  \<open>sql_QueryLatestBackupJobHistoryOfType = ''SELECT job_id, executor_tenant_id, job_level, start_timestamp, end_timestamp, status, '' @
     ''result, comment, backup_set_id, plus_archivelog, backup_type, encryption_mode, passwd '' @
     ''FROM DBA_OB_BACKUP_JOB_HISTORY WHERE backup_type = ? order by job_id DESC LIMIT 1''\<close>

definition sql_QueryLatestBackupJobOfTypeAndPath :: string where
  \<open>sql_QueryLatestBackupJobOfTypeAndPath = ''SELECT job_id, executor_tenant_id, job_level, start_timestamp, end_timestamp, status, '' @
     ''result, comment, backup_set_id, plus_archivelog, backup_type, encryption_mode, passwd '' @
     ''FROM DBA_OB_BACKUP_JOBS WHERE backup_type = ? and path = ? order by job_id DESC LIMIT 1''\<close>

definition sql_QueryLatestBackupJobHistoryOfTypeAndPath :: string where
  \<open>sql_QueryLatestBackupJobHistoryOfTypeAndPath = ''SELECT job_id, executor_tenant_id, job_level, start_timestamp, end_timestamp, status, '' @
     ''result, comment, backup_set_id, plus_archivelog, backup_type, encryption_mode, passwd '' @
     ''FROM DBA_OB_BACKUP_JOB_HISTORY WHERE backup_type = ? and path = ? order by job_id DESC '' @
     ''LIMIT 1''\<close>

definition sql_QueryLatestRunningBackupJob :: string where
  \<open>sql_QueryLatestRunningBackupJob = ''SELECT job_id, executor_tenant_id, job_level, start_timestamp, end_timestamp, status, '' @
     ''result, comment, backup_set_id, plus_archivelog, backup_type, encryption_mode, passwd '' @
     ''FROM DBA_OB_BACKUP_JOBS order by job_id DESC LIMIT 1''\<close>

definition sql_QueryLatestCleanJob :: string where
  \<open>sql_QueryLatestCleanJob = ''SELECT job_id, executor_tenant_id, job_level, start_timestamp, end_timestamp, status, '' @
     ''result, comment, type, parameter, task_count, success_task_count FROM '' @
     ''DBA_OB_BACKUP_DELETE_JOBS ORDER BY job_id DESC LIMIT 1''\<close>

definition sql_QueryLatestCleanJobHistory :: string where
  \<open>sql_QueryLatestCleanJobHistory = ''SELECT job_id, executor_tenant_id, job_level, start_timestamp, end_timestamp, status, '' @
     ''result, comment, type, parameter, task_count, success_task_count FROM '' @
     ''DBA_OB_BACKUP_DELETE_JOB_HISTORY ORDER BY job_id DESC LIMIT 1''\<close>

definition sql_QueryLatestArchiveLogJob :: string where
  \<open>sql_QueryLatestArchiveLogJob = ''SELECT dest_id, round_id, dest_no, status, start_scn, start_scn_display, checkpoint_scn, '' @
     ''IFNULL(checkpoint_scn_display, '-') as checkpoint_scn_display, compatible, base_piece_id, '' @
     ''used_piece_id, piece_switch_interval, input_bytes, input_bytes_display, output_bytes, '' @
     ''output_bytes_display, compression_ratio, deleted_input_bytes, '' @
     ''deleted_input_bytes_display, deleted_output_bytes, deleted_output_bytes_display, comment, '' @
     ''path FROM DBA_OB_ARCHIVELOG_SUMMARY ORDER BY round_id DESC LIMIT 1''\<close>

definition sql_QueryBackupJobWithId :: string where
  \<open>sql_QueryBackupJobWithId = ''SELECT job_id, executor_tenant_id, job_level, start_timestamp, end_timestamp, status, '' @
     ''result, comment, backup_set_id, plus_archivelog, backup_type, encryption_mode, passwd '' @
     ''FROM DBA_OB_BACKUP_JOBS WHERE job_id = ?''\<close>

definition sql_QueryBackupHistoryWithId :: string where
  \<open>sql_QueryBackupHistoryWithId = ''SELECT job_id, executor_tenant_id, job_level, start_timestamp, end_timestamp, status, '' @
     ''result, comment, backup_set_id, plus_archivelog, backup_type, encryption_mode, passwd '' @
     ''FROM DBA_OB_BACKUP_JOB_HISTORY WHERE job_id = ?''\<close>

definition sql_QueryBackupTaskWithJobId :: string where
  \<open>sql_QueryBackupTaskWithJobId = ''SELECT job_id, backup_set_id, start_timestamp, end_timestamp, status, result, comment, '' @
     ''task_id, incarnation, start_scn, end_scn, user_ls_start_scn, encryption_mode, passwd, '' @
     ''input_bytes, output_bytes, output_rate_bytes, extra_meta_bytes, tablet_count, '' @
     ''finish_tablet_count, macro_block_count, finish_macro_block_count, file_count, '' @
     ''meta_turn_id, data_turn_id, path FROM DBA_OB_BACKUP_TASKS WHERE job_id = ?''\<close>

definition sql_QueryBackupTaskHistoryWithJobId :: string where
  \<open>sql_QueryBackupTaskHistoryWithJobId = ''SELECT job_id, backup_set_id, start_timestamp, end_timestamp, status, result, comment, '' @
     ''task_id, incarnation, start_scn, end_scn, user_ls_start_scn, encryption_mode, passwd, '' @
     ''input_bytes, output_bytes, output_rate_bytes, extra_meta_bytes, tablet_count, '' @
     ''finish_tablet_count, macro_block_count, finish_macro_block_count, file_count, '' @
     ''meta_turn_id, data_turn_id, path FROM DBA_OB_BACKUP_TASK_HISTORY WHERE job_id = ?''\<close>

definition sql_BootstrapServer :: "string \<Rightarrow> string \<Rightarrow> string \<Rightarrow> string" where
  \<open>sql_BootstrapServer a1 a2 a3 =
     ''ZONE '' @ quoted a1 @ '' SERVER '' @ quoted (a2 @ '':'' @ a3)\<close>

definition sql_Bootstrap :: "string \<Rightarrow> string" where
  \<open>sql_Bootstrap a1 = ''ALTER SYSTEM BOOTSTRAP '' @ a1\<close>

definition sql_SetParameter :: "string \<Rightarrow> string" where
  \<open>sql_SetParameter a1 = ''alter system set '' @ a1 @ '' = ?''\<close>

definition sql_SetParameterWithScope :: "string \<Rightarrow> string \<Rightarrow> string" where
  \<open>sql_SetParameterWithScope a1 a2 = ''alter system set '' @ a1 @ '' = ? '' @ a2 @ '' = ?''\<close>

definition sql_QueryParameter :: string where
  \<open>sql_QueryParameter = ''select zone, svr_ip, svr_port, name, value, scope, edit_level, coalesce(tenant_id, 0) as '' @
     ''tenant_id from gv$ob_parameters where name = ?''\<close>

definition sql_QueryParameterWithScope :: "string \<Rightarrow> string" where
  \<open>sql_QueryParameterWithScope a1 = ''select zone, svr_ip, svr_port, name, value, scope, edit_level, coalesce(tenant_id, 0) as '' @
     ''tenant_id from gv$ob_parameters where name = ? and '' @ a1 @ '' = ?''\<close>

definition sql_ListParametersWithTenantID :: string where
  \<open>sql_ListParametersWithTenantID = ''select name, value, IFNULL(data_type, 'unknown') as data_type, info, section, edit_level, '' @
     ''scope from GV$OB_PARAMETERS where tenant_id = ?''\<close>

definition sql_SelectCompatibleOfTenants :: string where
  \<open>sql_SelectCompatibleOfTenants = ''select name, value, tenant_id from GV$OB_PARAMETERS where name = 'compatible'' @ [CHR 0x27]\<close>

definition sql_ListAllParameters :: string where
  \<open>sql_ListAllParameters = ''select name, value, IFNULL(data_type, 'unknown') as data_type, info, section, edit_level, '' @
     ''scope, svr_ip, zone, svr_port, IFNULL(tenant_id, 0) as tenant_id from GV$OB_PARAMETERS''\<close>

definition sql_SetRestorePassword :: string where
  \<open>sql_SetRestorePassword = ''SET DECRYPTION IDENTIFIED BY ?''\<close>

definition sql_StartRestoreWithLimit :: "string \<Rightarrow> string \<Rightarrow> string" where
  \<open>sql_StartRestoreWithLimit a1 a2 = ''ALTER SYSTEM RESTORE '' @ a1 @ '' FROM ? UNTIL '' @ a2 @ ''=? WITH ?''\<close>

definition sql_StartRestoreUnlimited :: "string \<Rightarrow> string" where
  \<open>sql_StartRestoreUnlimited a1 = ''ALTER SYSTEM RESTORE '' @ a1 @ '' FROM ? WITH ?''\<close>

definition sql_CancelRestore :: "string \<Rightarrow> string" where
  \<open>sql_CancelRestore a1 = ''ALTER SYSTEM CANCEL RESTORE '' @ a1\<close>

definition sql_ReplayStandbyLog :: "string \<Rightarrow> string" where
  \<open>sql_ReplayStandbyLog a1 = ''ALTER SYSTEM RECOVER STANDBY TENANT ? UNTIL '' @ a1\<close>

definition sql_ActivateStandby :: string where
  \<open>sql_ActivateStandby = ''ALTER SYSTEM ACTIVATE STANDBY TENANT ?''\<close>

definition sql_QueryRestoreProgress :: string where
  \<open>sql_QueryRestoreProgress = ''SELECT tenant_id, job_id, restore_tenant_name, restore_tenant_id, restore_tenant_id, '' @
     ''backup_tenant_name, backup_tenant_id, backup_cluster_name, backup_dest, restore_option, '' @
     ''restore_scn, restore_scn_display, status, start_timestamp, backup_set_list, '' @
     ''backup_piece_list, total_bytes, total_bytes_display, finish_bytes, finish_bytes_display, '' @
     ''description FROM CDB_OB_RESTORE_PROGRESS''\<close>

definition sql_QueryRestoreHistory :: string where
  \<open>sql_QueryRestoreHistory = ''SELECT tenant_id, job_id, restore_tenant_name, restore_tenant_id, restore_tenant_id, '' @
     ''backup_tenant_name, backup_tenant_id, backup_cluster_name, backup_dest, restore_option, '' @
     ''restore_scn, restore_scn_display, status, start_timestamp, backup_set_list, '' @
     ''backup_piece_list, total_bytes, total_bytes_display, finish_bytes, finish_bytes_display, '' @
     ''description, finish_timestamp, backup_cluster_version, ls_count, finish_ls_count, '' @
     ''tablet_count, finish_tablet_count FROM CDB_OB_RESTORE_HISTORY''\<close>

definition sql_GetLatestRestoreProgress :: string where
  \<open>sql_GetLatestRestoreProgress = ''SELECT tenant_id, job_id, restore_tenant_name, restore_tenant_id, restore_tenant_id, '' @
     ''backup_tenant_name, backup_tenant_id, backup_cluster_name, backup_dest, restore_option, '' @
     ''restore_scn, restore_scn_display, status, start_timestamp, backup_set_list, '' @
     ''backup_piece_list, total_bytes, total_bytes_display, finish_bytes, finish_bytes_display, '' @
     ''description FROM CDB_OB_RESTORE_PROGRESS WHERE restore_tenant_name = ? ORDER BY JOB_ID '' @
     ''DESC LIMIT 1''\<close>

definition sql_GetLatestRestoreHistory :: string where
  \<open>sql_GetLatestRestoreHistory = ''SELECT tenant_id, job_id, restore_tenant_name, restore_tenant_id, restore_tenant_id, '' @
     ''backup_tenant_name, backup_tenant_id, backup_cluster_name, backup_dest, restore_option, '' @
     ''restore_scn, restore_scn_display, status, start_timestamp, backup_set_list, '' @
     ''backup_piece_list, total_bytes, total_bytes_display, finish_bytes, finish_bytes_display, '' @
     ''description, finish_timestamp, backup_cluster_version, ls_count, finish_ls_count, '' @
     ''tablet_count, finish_tablet_count FROM CDB_OB_RESTORE_HISTORY WHERE restore_tenant_name = '' @
     ''? ORDER BY JOB_ID DESC LIMIT 1''\<close>

definition sql_ListServer :: string where
  \<open>sql_ListServer = ''select id, zone, svr_ip, svr_port, inner_port, with_rootserver, with_partition, '' @
     ''lower(status) as status, start_service_time, build_version from __all_server''\<close>

definition sql_GetServer :: string where
  \<open>sql_GetServer = ''select id, zone, svr_ip, svr_port, inner_port, with_rootserver, with_partition, '' @
     ''lower(status) as status, start_service_time, build_version from __all_server where svr_ip '' @
     ''= ? and svr_port = ?''\<close>

definition sql_AddServer :: string where
  \<open>sql_AddServer = ''alter system add server ?''\<close>

definition sql_DeleteServer :: string where
  \<open>sql_DeleteServer = ''alter system delete server ?''\<close>

definition sql_ListGVServers :: string where
  \<open>sql_ListGVServers = ''select svr_ip, svr_port, zone, sql_port, cpu_capacity, cpu_capacity_max, cpu_assigned, '' @
     ''cpu_assigned_max, mem_capacity, mem_assigned, memory_limit, log_disk_capacity, '' @
     ''log_disk_assigned, data_disk_capacity, data_disk_allocated, data_disk_in_use, '' @
     ''data_disk_health_status from oceanbase.GV$OB_SERVERS''\<close>

definition sql_QueryTenantWithName :: string where
  \<open>sql_QueryTenantWithName = ''SELECT tenant_id, tenant_name, tenant_type, create_time, modify_time, primary_zone, '' @
     ''locality, compatibility_mode, status, in_recyclebin, locked, tenant_role, sync_scn, '' @
     ''replayable_scn, readable_scn, recovery_until_scn, log_mode, arbitration_service_status, '' @
     ''switchover_status, switchover_epoch FROM DBA_OB_TENANTS where tenant_name = ? and '' @
     ''tenant_type = 'USER'' @ [CHR 0x27]\<close>

definition sql_QueryUnitsWithTenantId :: string where
  \<open>sql_QueryUnitsWithTenantId = ''SELECT unit_id, tenant_id, status, resource_pool_id, unit_group_id, create_time, '' @
     ''modify_time, zone, svr_ip, svr_port, unit_config_id, max_cpu, min_cpu, memory_size, '' @
     ''log_disk_size, max_iops, min_iops, iops_weight FROM DBA_OB_UNITS where tenant_id = ?''\<close>

definition sql_ListUnitsWithServerIP :: string where
  \<open>sql_ListUnitsWithServerIP = ''SELECT unit_id, tenant_id, status, resource_pool_id, unit_group_id, create_time, '' @
     ''modify_time, zone, svr_ip, svr_port, unit_config_id, max_cpu, min_cpu, memory_size, '' @
     ''log_disk_size, max_iops, min_iops, iops_weight FROM DBA_OB_UNITS where svr_ip = ?''\<close>

definition sql_SelectSysTenant :: string where
  \<open>sql_SelectSysTenant = ''SELECT tenant_id, tenant_name, tenant_type, create_time, modify_time, primary_zone, '' @
     ''locality, compatibility_mode, status, in_recyclebin, locked, tenant_role, sync_scn, '' @
     ''replayable_scn, readable_scn, recovery_until_scn, log_mode, arbitration_service_status, '' @
     ''switchover_status, switchover_epoch FROM DBA_OB_TENANTS where tenant_type = 'USER'' @ [CHR 0x27]\<close>

definition sql_GetTenantByName :: string where
  \<open>sql_GetTenantByName = ''SELECT tenant_id, tenant_name, primary_zone, locality, COALESCE(previous_locality, '' @ [CHR 0x27, CHR 0x27] @ '') as previous_locality, status FROM oceanbase.DBA_OB_TENANTS WHERE tenant_name = ?;''\<close>

definition sql_GetPoolByName :: string where
  \<open>sql_GetPoolByName = ''SELECT resource_pool_id, name, unit_count, unit_config_id, zone_list, tenant_id FROM '' @
     ''oceanbase.DBA_OB_RESOURCE_POOLS WHERE name = ?;''\<close>

definition sql_GetUnitConfigV4ByName :: string where
  \<open>sql_GetUnitConfigV4ByName = ''SELECT max_cpu, min_cpu, memory_size, log_disk_size, max_iops, min_iops, iops_weight FROM '' @
     ''oceanbase.DBA_OB_UNIT_CONFIGS WHERE name = ?;''\<close>

definition sql_GetPoolList :: string where
  \<open>sql_GetPoolList = ''SELECT resource_pool_id, name, unit_count, unit_config_id, zone_list, tenant_id FROM '' @
     ''oceanbase.DBA_OB_RESOURCE_POOLS;''\<close>

definition sql_GetUnitList :: string where
  \<open>sql_GetUnitList = ''SELECT unit_id, resource_pool_id, zone, svr_ip, svr_port, migrate_from_svr_ip, '' @
     ''migrate_from_svr_port, status FROM oceanbase.DBA_OB_UNITS;''\<close>

definition sql_GetUnitConfigV4List :: string where
  \<open>sql_GetUnitConfigV4List = ''SELECT unit_config_id, name, max_cpu, min_cpu, memory_size, max_iops, min_iops, '' @
     ''log_disk_size, iops_weight FROM oceanbase.DBA_OB_UNIT_CONFIGS;''\<close>

definition sql_GetTenantCountByName :: string where
  \<open>sql_GetTenantCountByName = ''SELECT count(*) FROM oceanbase.DBA_OB_TENANTS WHERE tenant_name = ?;''\<close>

definition sql_GetPoolCountByName :: string where
  \<open>sql_GetPoolCountByName = ''SELECT count(*) FROM oceanbase.DBA_OB_RESOURCE_POOLS WHERE name = ?;''\<close>

definition sql_GetUnitConfigV4CountByName :: string where
  \<open>sql_GetUnitConfigV4CountByName = ''SELECT count(*) FROM oceanbase.DBA_OB_UNIT_CONFIGS WHERE name = ?;''\<close>

definition sql_GetRsJobCount :: string where
  \<open>sql_GetRsJobCount = ''select count(*) from DBA_OB_TENANT_JOBS where tenant_id=? and job_status ='INPROGRESS' '' @
     ''and job_type='ALTER_TENANT_LOCALITY'' @ [CHR 0x27]\<close>

definition sql_GetCharset :: string where
  \<open>sql_GetCharset = ''SELECT CHARSET('oceanbase') as charset;''\<close>

definition sql_AddUnitConfigV4 :: "string \<Rightarrow> string \<Rightarrow> string" where
  \<open>sql_AddUnitConfigV4 a1 a2 = ''CREATE RESOURCE UNIT IF NOT EXISTS '' @ a1 @ '' max_cpu ?, memory_size ? '' @ a2 @ '';''\<close>

definition sql_AddPool :: "string \<Rightarrow> string" where
  \<open>sql_AddPool a1 = ''CREATE RESOURCE POOL IF NOT EXISTS '' @ a1 @ '' UNIT=?, UNIT_NUM=?, ZONE_LIST=(?);''\<close>

definition sql_AddTenant :: "string \<Rightarrow> string \<Rightarrow> string \<Rightarrow> string \<Rightarrow> string" where
  \<open>sql_AddTenant a1 a2 a3 a4 = ''CREATE TENANT IF NOT EXISTS '' @ a1 @ '' CHARSET=?, PRIMARY_ZONE=?, RESOURCE_POOL_LIST=('' @ a2 @ '') '' @ a3 @ '' '' @ a4 @ '';''\<close>

definition sql_SetTenantVariable :: "string \<Rightarrow> string \<Rightarrow> string" where
  \<open>sql_SetTenantVariable a1 a2 = ''ALTER TENANT '' @ a1 @ '' VARIABLES '' @ a2 @ '';''\<close>

definition sql_SetUnitConfigV4 :: "string \<Rightarrow> string \<Rightarrow> string" where
  \<open>sql_SetUnitConfigV4 a1 a2 = ''ALTER RESOURCE UNIT '' @ a1 @ '' '' @ a2 @ '';''\<close>

definition sql_SetTenantUnitNum :: "string \<Rightarrow> string" where
  \<open>sql_SetTenantUnitNum a1 = ''ALTER RESOURCE TENANT '' @ a1 @ '' UNIT_NUM = ?;''\<close>

definition sql_SetTenant :: "string \<Rightarrow> string \<Rightarrow> string" where
  \<open>sql_SetTenant a1 a2 = ''ALTER TENANT '' @ a1 @ '' '' @ a2 @ '';''\<close>

definition sql_SetPool :: "string \<Rightarrow> string \<Rightarrow> string" where
  \<open>sql_SetPool a1 a2 = ''ALTER RESOURCE POOL '' @ a1 @ '' '' @ a2\<close>

definition sql_DeleteUnitConfig :: "string \<Rightarrow> string" where
  \<open>sql_DeleteUnitConfig a1 = ''DROP RESOURCE UNIT '' @ a1 @ '';''\<close>

definition sql_DeletePool :: "string \<Rightarrow> string" where
  \<open>sql_DeletePool a1 = ''DROP RESOURCE POOL '' @ a1 @ '';''\<close>

definition sql_DeleteTenant :: "string \<Rightarrow> string \<Rightarrow> string" where
  \<open>sql_DeleteTenant a1 a2 = ''DROP TENANT '' @ a1 @ '' '' @ a2 @ '';''\<close>

definition sql_ChangeTenantUserPassword :: "string \<Rightarrow> string" where
  \<open>sql_ChangeTenantUserPassword a1 = ''ALTER USER '' @ a1 @ '' IDENTIFIED BY ?;''\<close>

definition sql_CreateTenantUserWithPwd :: "string \<Rightarrow> string" where
  \<open>sql_CreateTenantUserWithPwd a1 = ''CREATE USER IF NOT EXISTS '' @ a1 @ '' IDENTIFIED BY ?;''\<close>

definition sql_QueryTenantAccessPointByName :: string where
  \<open>sql_QueryTenantAccessPointByName = ''SELECT tenant_id, tenant_name, svr_ip, sql_port from oceanbase.CDB_OB_ACCESS_POINT WHERE '' @
     ''tenant_name = ?;''\<close>

definition sql_CreateEmptyStandbyTenant :: "string \<Rightarrow> string \<Rightarrow> string" where
  \<open>sql_CreateEmptyStandbyTenant a1 a2 = ''CREATE STANDBY TENANT IF NOT EXISTS '' @ a1 @ '' LOG_RESTORE_SOURCE=?, PRIMARY_ZONE=?, LOCALITY=?, RESOURCE_POOL_LIST=('' @ a2 @ '');''\<close>

definition sql_SwitchTenantRole :: "string \<Rightarrow> string \<Rightarrow> string" where
  \<open>sql_SwitchTenantRole a1 a2 = ''ALTER SYSTEM SWITCHOVER TO '' @ a1 @ '' TENANT = '' @ a2\<close>

definition sql_QueryLSDeletion :: string where
  \<open>sql_QueryLSDeletion = ''(SELECT ls_id FROM oceanbase.CDB_OB_LS_HISTORY WHERE TENANT_ID = ?) EXCEPT (SELECT ls_id '' @
     ''FROM oceanbase.CDB_OB_LS WHERE TENANT_ID = ?);''\<close>

definition sql_QueryLogStats :: string where
  \<open>sql_QueryLogStats = ''SELECT ls_id, begin_lsn FROM oceanbase.GV$OB_LOG_STAT WHERE TENANT_ID = ? AND ROLE = 'LEADER';''\<close>

definition sql_UpgradeTenantWithName :: "string \<Rightarrow> string" where
  \<open>sql_UpgradeTenantWithName a1 = ''ALTER SYSTEM RUN UPGRADE JOB "UPGRADE_ALL" TENANT = '' @ a1\<close>

definition sql_CreateUser :: string where
  \<open>sql_CreateUser = ''create user if not exists ?''\<close>

definition sql_SetUserPassword :: string where
  \<open>sql_SetUserPassword = ''alter user ? identified by ?''\<close>

definition sql_GrantPrivilege :: "string \<Rightarrow> string \<Rightarrow> string" where
  \<open>sql_GrantPrivilege a1 a2 = ''grant '' @ a1 @ '' on '' @ a2 @ '' to ?''\<close>

definition sql_GetGlobalVariable :: string where
  \<open>sql_GetGlobalVariable = ''select name, coalesce(value, "") as value from DBA_OB_SYS_VARIABLES where scope like '' @
     [CHR 0x27] @ ''%global%' and name = ?''\<close>

definition sql_SetGlobalVariable :: "string \<Rightarrow> string" where
  \<open>sql_SetGlobalVariable a1 = ''set global '' @ a1 @ '' = ?''\<close>

definition sql_GetZone :: string where
  \<open>sql_GetZone = ''select zone as name, lower(status) as status, idc, region, type from DBA_OB_ZONES where zone = ?''\<close>

definition sql_ListZones :: string where
  \<open>sql_ListZones = ''select zone as name, lower(status) as status, idc, region, type from DBA_OB_ZONES''\<close>

definition sql_AddZone :: string where
  \<open>sql_AddZone = ''alter system add zone ?''\<close>

definition sql_DeleteZone :: string where
  \<open>sql_DeleteZone = ''alter system delete zone ?''\<close>

definition sql_StartZone :: string where
  \<open>sql_StartZone = ''alter system start zone ?''\<close>

definition sql_StopZone :: string where
  \<open>sql_StopZone = ''alter system stop zone ?''\<close>

section \<open>Parameters of the statements\<close>

record TenantSQLParam =
  TP_TenantName :: string
  TP_PrimaryZone :: string
  TP_Locality :: string
  TP_PoolList :: "string list"
  TP_Charset :: string
  TP_Collate :: string
  TP_VariableList :: string

definition no_tenant_param :: TenantSQLParam where
  "no_tenant_param = \<lparr>TP_TenantName = [], TP_PrimaryZone = [], TP_Locality = [], TP_PoolList = [], TP_Charset = [],
     TP_Collate = [], TP_VariableList = []\<rparr>"

record PoolSQLParam =
  PP_PoolName :: string
  PP_UnitNum :: int
  PP_ZoneList :: string
  PP_UnitName :: string

record UnitConfigV4SQLParam =
  UP_UnitConfigName :: string
  UP_MaxCPU :: real
  UP_MinCPU :: real
  UP_MemorySize :: int
  UP_MaxIops :: int
  UP_MinIops :: int
  UP_LogDiskSize :: int
  UP_IopsWeight :: int

record PoolParam =
  PoolParam_PoolName :: string
  PoolParam_ZoneList :: "string list"

section \<open>Prepared statements\<close>

text \<open>
  The functions add an option only when it is set. An option is its text and its values;
  \<open>opt\<close> leaves it out.
\<close>

type_synonym sql_option = "string \<times> sql_value list"

definition opt :: "bool \<Rightarrow> string \<Rightarrow> sql_value list \<Rightarrow> sql_option list" where
  "opt present text vals = (if present then [(text, vals)] else [])"

definition preparedSQLForAddUnitConfigV4 :: "UnitConfigV4SQLParam \<Rightarrow> prepared" where
  "preparedSQLForAddUnitConfigV4 u =
     (let options = opt (UP_MinCPU u \<noteq> 0) '', min_cpu ?'' [SQL_Float (UP_MinCPU u)] @
            opt (UP_LogDiskSize u \<noteq> 0) '', log_disk_size ?'' [SQL_Int (UP_LogDiskSize u)] @
            opt (UP_MaxIops u \<noteq> 0) '', max_iops ?'' [SQL_Int (UP_MaxIops u)] @
            opt (UP_MinIops u \<noteq> 0) '', min_iops ?'' [SQL_Int (UP_MinIops u)] @
            opt (UP_IopsWeight u \<noteq> 0) '', iops_weight ?'' [SQL_Int (UP_IopsWeight u)]
      in (sql_AddUnitConfigV4 (UP_UnitConfigName u) (concat (map fst options)),
          [SQL_Float (UP_MaxCPU u), SQL_Int (UP_MemorySize u)] @ concat (map snd options)))"

definition preparedSQLForAddPool :: "PoolSQLParam \<Rightarrow> prepared" where
  "preparedSQLForAddPool pool =
     (sql_AddPool (PP_PoolName pool), [SQL_Str (PP_UnitName pool), SQL_Int (PP_UnitNum pool), SQL_Str (PP_ZoneList pool)])"

definition preparedSQLForAddTenant :: "TenantSQLParam \<Rightarrow> prepared" where
  "preparedSQLForAddTenant t =
     (let symbols = map (\<lambda>_. ''?'') (TP_PoolList t);
          options = opt (TP_Locality t \<noteq> []) '', LOCALITY= ?'' [SQL_Str (TP_Locality t)] @
            opt (TP_Collate t \<noteq> []) '', COLLATE = ?'' [SQL_Str (TP_Collate t)]
      in (sql_AddTenant (TP_TenantName t) (Join symbols '', '') (concat (map fst options))
            (''SET VARIABLES '' @ TP_VariableList t),
          [SQL_Str (TP_Charset t), SQL_Str (TP_PrimaryZone t)] @ map SQL_Str (TP_PoolList t) @ concat (map snd options)))"

definition preparedSQLForSetTenant :: "TenantSQLParam \<Rightarrow> prepared" where
  "preparedSQLForSetTenant t =
     (let symbols = map (\<lambda>_. ''?'') (TP_PoolList t);
          items = opt (TP_PrimaryZone t \<noteq> []) ''PRIMARY_ZONE=?'' [SQL_Str (TP_PrimaryZone t)] @
            opt (TP_Charset t \<noteq> []) ''CHARSET=?'' [SQL_Str (TP_Charset t)] @
            opt (length (TP_PoolList t) \<noteq> 0) (''RESOURCE_POOL_LIST=('' @ Join symbols '', '' @ '')'')
              (map SQL_Str (TP_PoolList t)) @
            opt (TP_Locality t \<noteq> []) ''LOCALITY=?'' [SQL_Str (TP_Locality t)]
      in (sql_SetTenant (TP_TenantName t) (Join (map fst items) '',''), concat (map snd items)))"

text \<open>The minimal number of CPUs appears twice.\<close>

definition preparedSQLForSetUnitConfigV4 :: "UnitConfigV4SQLParam \<Rightarrow> prepared" where
  "preparedSQLForSetUnitConfigV4 u =
     (let items = opt (UP_MaxCPU u \<noteq> 0) ''max_cpu=?'' [SQL_Float (UP_MaxCPU u)] @
            opt (UP_MemorySize u \<noteq> 0) ''memory_size=?'' [SQL_Int (UP_MemorySize u)] @
            opt (UP_MinCPU u \<noteq> 0) ''min_cpu=?'' [SQL_Float (UP_MinCPU u)] @
            opt (UP_MinCPU u \<noteq> 0) ''min_cpu=?'' [SQL_Float (UP_MinCPU u)] @
            opt (UP_LogDiskSize u \<noteq> 0) ''log_disk_size=?'' [SQL_Int (UP_LogDiskSize u)] @
            opt (UP_MaxIops u \<noteq> 0) ''max_iops=?'' [SQL_Int (UP_MaxIops u)] @
            opt (UP_MinIops u \<noteq> 0) ''min_iops=?'' [SQL_Int (UP_MinIops u)] @
            opt (UP_IopsWeight u \<noteq> 0) ''iops_weight=?'' [SQL_Int (UP_IopsWeight u)]
      in (sql_SetUnitConfigV4 (UP_UnitConfigName u) (Join (map fst items) '',''), concat (map snd items)))"

definition prepareSQLForAlterPool :: "PoolParam \<Rightarrow> prepared" where
  "prepareSQLForAlterPool param =
     (let poolProperties = (if 0 < length (PoolParam_ZoneList param)
            then [''zone_list = ('' @ quoted (Join (PoolParam_ZoneList param) ([CHR 0x27] @ '', '' @ [CHR 0x27])) @ '')''] else [])
      in (if 0 < length poolProperties
          then sql_SetPool (PoolParam_PoolName param) (Join poolProperties '','') else [], []))"

definition preparedSQLForSetTenantVariable :: "string \<Rightarrow> string \<Rightarrow> prepared" where
  "preparedSQLForSetTenantVariable tenantName variableList = (sql_SetTenantVariable tenantName variableList, [])"

definition preparedSQLForSetTenantUnitNum :: "string \<Rightarrow> int \<Rightarrow> prepared" where
  "preparedSQLForSetTenantUnitNum tenantName unitNum = (sql_SetTenantUnitNum tenantName, [SQL_Int unitNum])"

definition preparedSQLForDeleteTenant :: "string \<Rightarrow> bool \<Rightarrow> prepared" where
  "preparedSQLForDeleteTenant tenantName force = (sql_DeleteTenant tenantName (if force then ''force'' else []), [])"

definition preparedSQLForDeletePool :: "string \<Rightarrow> prepared" where
  "preparedSQLForDeletePool poolName = (sql_DeletePool poolName, [])"

definition preparedSQLForDeleteUnitConfig :: "string \<Rightarrow> prepared" where
  "preparedSQLForDeleteUnitConfig unitConfigName = (sql_DeleteUnitConfig unitConfigName, [])"

section \<open>Placeholders\<close>

definition placeholders :: "string \<Rightarrow> nat" where
  "placeholders s = length (filter (\<lambda>c. c = CHR ''?'') s)"

lemma placeholders_append [simp]: "placeholders (a @ b) = placeholders a + placeholders b"
  by (simp add: placeholders_def)

lemma placeholders_Cons [simp]: "placeholders (c # s) = (if c = CHR ''?'' then 1 else 0) + placeholders s"
  by (simp add: placeholders_def)

lemma placeholders_Nil [simp]: "placeholders [] = 0"
  by (simp add: placeholders_def)

lemma placeholders_zero: "CHR ''?'' \<notin> set s \<Longrightarrow> placeholders s = 0"
  by (induction s) auto

lemma placeholders_Join:
  "placeholders sep = 0 \<Longrightarrow> placeholders (Join xs sep) = sum_list (map placeholders xs)"
  by (induction xs sep rule: Join.induct) simp_all

lemma placeholders_symbols [simp]: "placeholders (Join (map (\<lambda>_. ''?'') xs) '', '') = length xs"
  by (simp add: placeholders_Join comp_def sum_list_triv)

text \<open>A list of options has as many placeholders as values.\<close>

definition balanced :: "sql_option list \<Rightarrow> bool" where
  "balanced os \<longleftrightarrow> (\<forall>(text, vals) \<in> set os. placeholders text = length vals)"

lemma balanced_append [simp]: "balanced (os @ os') \<longleftrightarrow> balanced os \<and> balanced os'"
  by (auto simp: balanced_def)

lemma balanced_opt [simp]: "balanced (opt b text vals) \<longleftrightarrow> \<not> b \<or> placeholders text = length vals"
  by (simp add: balanced_def opt_def)

lemma balanced_Join:
  "balanced os \<Longrightarrow> placeholders sep = 0 \<Longrightarrow>
    placeholders (Join (map fst os) sep) = length (concat (map snd os))"
  by (simp add: placeholders_Join length_concat) (induction os; auto simp: balanced_def)

lemma balanced_concat: "balanced os \<Longrightarrow> placeholders (concat (map fst os)) = length (concat (map snd os))"
  by (induction os) (auto simp: balanced_def)

definition well_prepared :: "prepared \<Rightarrow> bool" where
  "well_prepared p \<longleftrightarrow> placeholders (fst p) = length (snd p)"

section \<open>Properties\<close>

text \<open>
  C31. Every statement the SDK prepares for a tenant has exactly as many placeholders as
  values, whichever options are set, provided that the names and the variable list put
  into the text contain no question mark.
\<close>

theorem prepared_statements_balanced:
  assumes "CHR ''?'' \<notin> set (UP_UnitConfigName u)" "CHR ''?'' \<notin> set (PP_PoolName pool)"
    and "CHR ''?'' \<notin> set (TP_TenantName t)" "CHR ''?'' \<notin> set (TP_VariableList t)"
    and "CHR ''?'' \<notin> set (PoolParam_PoolName p)" "\<forall>z \<in> set (PoolParam_ZoneList p). CHR ''?'' \<notin> set z"
  shows "well_prepared (preparedSQLForAddUnitConfigV4 u) \<and> well_prepared (preparedSQLForSetUnitConfigV4 u) \<and>
    well_prepared (preparedSQLForAddPool pool) \<and> well_prepared (preparedSQLForAddTenant t) \<and>
    well_prepared (preparedSQLForSetTenant t) \<and> well_prepared (prepareSQLForAlterPool p) \<and>
    well_prepared (preparedSQLForSetTenantVariable (TP_TenantName t) (TP_VariableList t)) \<and>
    well_prepared (preparedSQLForSetTenantUnitNum (TP_TenantName t) n) \<and>
    well_prepared (preparedSQLForDeleteTenant (TP_TenantName t) force) \<and>
    well_prepared (preparedSQLForDeletePool (PP_PoolName pool)) \<and>
    well_prepared (preparedSQLForDeleteUnitConfig (UP_UnitConfigName u))"
proof -
  note zero = assms(1-5) [THEN placeholders_zero]
  have zones: "placeholders (Join (PoolParam_ZoneList p) ([CHR 0x27] @ '', '' @ [CHR 0x27])) = 0"
    using assms(6) by (subst placeholders_Join) (auto simp: placeholders_zero)
  have "well_prepared (preparedSQLForAddUnitConfigV4 u)"
    by (simp add: well_prepared_def preparedSQLForAddUnitConfigV4_def Let_def sql_AddUnitConfigV4_def zero
        balanced_concat del: concat_append map_append)
  moreover have "well_prepared (preparedSQLForSetUnitConfigV4 u)"
    by (simp add: well_prepared_def preparedSQLForSetUnitConfigV4_def Let_def sql_SetUnitConfigV4_def zero
        balanced_Join del: concat_append map_append)
  moreover have "well_prepared (preparedSQLForAddTenant t)"
    by (simp add: well_prepared_def preparedSQLForAddTenant_def Let_def sql_AddTenant_def zero
        balanced_concat del: concat_append map_append)
  moreover have "well_prepared (preparedSQLForSetTenant t)"
    by (simp add: well_prepared_def preparedSQLForSetTenant_def Let_def sql_SetTenant_def zero
        balanced_Join del: concat_append map_append)
  moreover have "well_prepared (prepareSQLForAlterPool p)"
    using zones by (simp add: well_prepared_def prepareSQLForAlterPool_def Let_def sql_SetPool_def zero quoted_def)
  ultimately show ?thesis
    by (simp add: well_prepared_def preparedSQLForAddPool_def preparedSQLForSetTenantVariable_def
        preparedSQLForSetTenantUnitNum_def preparedSQLForDeleteTenant_def preparedSQLForDeletePool_def
        preparedSQLForDeleteUnitConfig_def sql_AddPool_def sql_SetTenantVariable_def sql_SetTenantUnitNum_def
        sql_DeleteTenant_def sql_DeletePool_def sql_DeleteUnitConfig_def zero)
qed

theorem prepared_statements_balanced_witness:
  "well_prepared (preparedSQLForSetTenant (no_tenant_param\<lparr>TP_TenantName := ''t1'', TP_PoolList := [''p1'', ''p2''],
     TP_Locality := ''FULL{1}@zone1''\<rparr>))"
  using prepared_statements_balanced [of
      "\<lparr>UP_UnitConfigName = ''u'', UP_MaxCPU = 1, UP_MinCPU = 1, UP_MemorySize = 1, UP_MaxIops = 0, UP_MinIops = 0,
        UP_LogDiskSize = 0, UP_IopsWeight = 0\<rparr>"
      "\<lparr>PP_PoolName = ''p'', PP_UnitNum = 1, PP_ZoneList = ''zone1'', PP_UnitName = ''u''\<rparr>"
      "no_tenant_param\<lparr>TP_TenantName := ''t1'', TP_PoolList := [''p1'', ''p2''], TP_Locality := ''FULL{1}@zone1''\<rparr>"
      "\<lparr>PoolParam_PoolName = ''p'', PoolParam_ZoneList = [''zone1'']\<rparr>" 1 False]
  by (simp add: no_tenant_param_def)

end
