(* ===== verification/Task_IO.thy ===== *)
theory Task_IO
  imports Polling
begin

text \<open>
  Task bodies as programs that interact with the outside. A program is a function of the
  log of the interactions so far; it returns an outcome and the extended log. An
  environment answers an interaction by looking at the whole log, so it may depend on
  everything that happened before and may change its mind over time. Errors are passed on,
  wrapped, logged or replaced as the code does it; a panic ends the program.
\<close>

section \<open>Programs\<close>

datatype 'a outcome = Ok 'a | Err error | Panic

type_synonym ('e, 'a) io = "'e list \<Rightarrow> 'a outcome \<times> 'e list"

definition ret :: "'a \<Rightarrow> ('e, 'a) io" where
  "ret x = (\<lambda>h. (Ok x, h))"

definition raise :: "error \<Rightarrow> ('e, 'a) io" where
  "raise err = (\<lambda>h. (Err err, h))"

definition panic :: "('e, 'a) io" where
  "panic = (\<lambda>h. (Panic, h))"

definition bind_io :: "('e, 'a) io \<Rightarrow> ('a \<Rightarrow> ('e, 'b) io) \<Rightarrow> ('e, 'b) io" where
  "bind_io f g = (\<lambda>h. case f h of (Ok x, h') \<Rightarrow> g x h' | (Err err, h') \<Rightarrow> (Err err, h') | (Panic, h') \<Rightarrow> (Panic, h'))"

text \<open>One interaction, recorded with its answer.\<close>

definition perform :: "('e list \<Rightarrow> 'a result) \<Rightarrow> ('a result \<Rightarrow> 'e) \<Rightarrow> ('e, 'a) io" where
  "perform answer event = (\<lambda>h. (case answer h of Inl err \<Rightarrow> Err err | Inr x \<Rightarrow> Ok x, h @ [event (answer h)]))"

definition wrap_io :: "string \<Rightarrow> ('e, 'a) io \<Rightarrow> ('e, 'a) io" where
  "wrap_io msg f = (\<lambda>h. case f h of (Err err, h') \<Rightarrow> (Err (wrap msg err), h') | r \<Rightarrow> r)"

text \<open>The error of \<open>f\<close> is logged only, and the program goes on.\<close>

definition log_io :: "('e, 'a) io \<Rightarrow> ('e, unit) io" where
  "log_io f = (\<lambda>h. case f h of (Panic, h') \<Rightarrow> (Panic, h') | (_, h') \<Rightarrow> (Ok (), h'))"

text \<open>The answer of \<open>f\<close> or its error as a value.\<close>

definition catch_io :: "('e, 'a) io \<Rightarrow> ('e, 'a result) io" where
  "catch_io f = (\<lambda>h. case f h of (Ok x, h') \<Rightarrow> (Ok (Inr x), h') | (Err err, h') \<Rightarrow> (Ok (Inl err), h') | (Panic, h') \<Rightarrow> (Panic, h'))"

primrec each_io :: "('x \<Rightarrow> ('e, unit) io) \<Rightarrow> 'x list \<Rightarrow> ('e, unit) io" where
  "each_io f [] = ret ()"
| "each_io f (x # xs) = bind_io (f x) (\<lambda>_. each_io f xs)"

text \<open>A value that may be missing: a nil pointer that is dereferenced.\<close>

definition deref_io :: "'a option \<Rightarrow> ('e, 'a) io" where
  "deref_io p = (case p of None \<Rightarrow> panic | Some x \<Rightarrow> ret x)"

text \<open>
  \<^verbatim>\<open>CheckJobWithTimeout\<close> of \<^verbatim>\<open>internal/resource/utils/jobs.go\<close>. The number is that of the
  rounds before the timer is seen to have fired.
\<close>

primrec CheckJobWithTimeout :: "nat \<Rightarrow> ('e, bool) io \<Rightarrow> ('e, unit) io" where
  "CheckJobWithTimeout 0 f = raise (OtherError ''Timeout to wait for job'')"
| "CheckJobWithTimeout (Suc n) f = bind_io f (\<lambda>finished. if finished then ret () else CheckJobWithTimeout n f)"

text \<open>
  \<^verbatim>\<open>retry.RetryOnConflict\<close> with \<^verbatim>\<open>retry.DefaultRetry\<close>, which makes five attempts as long as each
  ends in a conflict and returns the error of the last one. The number is that of the attempts
  after the first.
\<close>

primrec RetryOnConflict :: "(error \<Rightarrow> bool) \<Rightarrow> nat \<Rightarrow> ('e, unit) io \<Rightarrow> ('e, unit) io" where
  "RetryOnConflict conflict 0 f = f"
| "RetryOnConflict conflict (Suc n) f =
     bind_io (catch_io f) (\<lambda>r. case r of
         Inr _ \<Rightarrow> ret ()
       | Inl err \<Rightarrow> if conflict err then RetryOnConflict conflict n f else raise err)"

section \<open>Laws\<close>

named_theorems io_defs

lemmas [io_defs] = ret_def raise_def panic_def bind_io_def perform_def wrap_io_def log_io_def catch_io_def deref_io_def

lemma bind_io_assoc: "bind_io (bind_io f g) k = bind_io f (\<lambda>x. bind_io (g x) k)"
  by (auto simp: bind_io_def fun_eq_iff split: outcome.splits prod.splits)

lemma bind_ret [simp]: "bind_io (ret x) g = g x" "bind_io f ret = f"
  by (auto simp: bind_io_def ret_def fun_eq_iff split: outcome.splits prod.splits)

lemma bind_stops [simp]: "bind_io (raise err) g = raise err" "bind_io panic g = panic"
  by (simp_all add: bind_io_def raise_def panic_def)

text \<open>A program that went well, as a sequence of programs that went well.\<close>

lemma bind_Ok_iff:
  "bind_io f g h = (Ok y, h'') \<longleftrightarrow> (\<exists>x h'. f h = (Ok x, h') \<and> g x h' = (Ok y, h''))"
  by (auto simp: bind_io_def split: outcome.splits prod.splits)

lemma ret_Ok_iff [simp]: "ret x h = (Ok y, h') \<longleftrightarrow> x = y \<and> h' = h"
  by (auto simp: ret_def)

lemma raise_Ok_iff [simp]: "raise err h \<noteq> (Ok y, h')"
  by (simp add: raise_def)

lemma panic_Ok_iff [simp]: "panic h \<noteq> (Ok y, h')"
  by (simp add: panic_def)

lemma wrap_Ok_iff [simp]: "wrap_io msg f h = (Ok y, h') \<longleftrightarrow> f h = (Ok y, h')"
  by (auto simp: wrap_io_def split: outcome.splits prod.splits)

lemma perform_Ok_iff: "perform answer event h = (Ok x, h') \<longleftrightarrow> answer h = Inr x \<and> h' = h @ [event (Inr x)]"
  by (auto simp: perform_def split: sum.splits)

lemma deref_Ok_iff [simp]: "deref_io p h = (Ok x, h') \<longleftrightarrow> p = Some x \<and> h' = h"
  by (auto simp: deref_io_def split: option.splits)

lemma each_io_append: "each_io f (xs @ ys) = bind_io (each_io f xs) (\<lambda>_. each_io f ys)"
  by (induction xs) (simp_all add: bind_io_assoc)

text \<open>The log of a loop that went well, from that of its rounds.\<close>

lemma each_io_log:
  assumes "each_io f xs h = (Ok (), h')" and "\<And>x h h'. x \<in> set xs \<Longrightarrow> f x h = (Ok (), h') \<Longrightarrow> h' = h @ g x"
  shows "h' = h @ concat (map g xs)"
  using assms
proof (induction xs arbitrary: h)
  case (Cons x xs)
  from Cons.prems(1) obtain h1 where "f x h = (Ok (), h1)" "each_io f xs h1 = (Ok (), h')"
    by (auto simp: bind_Ok_iff)
  then show ?case using Cons.IH [of h1] Cons.prems(2) by simp
qed simp

text \<open>A program only adds to the log.\<close>

definition extends :: "('e, 'a) io \<Rightarrow> bool" where
  "extends f \<longleftrightarrow> (\<forall>h. \<exists>es. snd (f h) = h @ es)"

lemma extendsD: "extends f \<Longrightarrow> f h = (r, h') \<Longrightarrow> \<exists>es. h' = h @ es"
  unfolding extends_def by (metis snd_conv)

named_theorems io_extends

lemma extends_basic [io_extends, simp]:
  "extends (ret x)" "extends (raise err)" "extends panic" "extends (perform answer event)" "extends (deref_io p)"
  by (auto simp: extends_def io_defs split: sum.splits option.splits)

lemma extends_bind [io_extends]: "extends f \<Longrightarrow> (\<And>x. extends (g x)) \<Longrightarrow> extends (bind_io f g)"
proof -
  assume f: "extends f" and g: "\<And>x. extends (g x)"
  have "\<exists>es. snd (bind_io f g h) = h @ es" for h
  proof -
    obtain r h' where run: "f h = (r, h')" by force
    then obtain es where es: "h' = h @ es" using extendsD [OF f] by blast
    show ?thesis
    proof (cases r)
      case (Ok x)
      obtain es' where "snd (g x h') = h' @ es'" using g [of x] by (auto simp: extends_def)
      with run Ok es show ?thesis by (simp add: bind_io_def)
    qed (use run es in \<open>simp_all add: bind_io_def\<close>)
  qed
  then show ?thesis by (simp add: extends_def)
qed

lemma extends_wrap [io_extends]: "extends f \<Longrightarrow> extends (wrap_io msg f)"
  by (auto simp: extends_def wrap_io_def split: outcome.splits prod.splits) (metis snd_conv)+

lemma extends_log [io_extends]: "extends f \<Longrightarrow> extends (log_io f)"
  by (auto simp: extends_def log_io_def split: outcome.splits prod.splits) (metis snd_conv)+

lemma extends_catch [io_extends]: "extends f \<Longrightarrow> extends (catch_io f)"
  by (auto simp: extends_def catch_io_def split: outcome.splits prod.splits) (metis snd_conv)+

lemma extends_each [io_extends]: "(\<And>x. extends (f x)) \<Longrightarrow> extends (each_io f xs)"
  by (induction xs) (simp_all add: io_extends)

lemma extends_check_job [io_extends]: "extends f \<Longrightarrow> extends (CheckJobWithTimeout n f)"
  by (induction n) (auto intro!: extends_bind)

lemma extends_retry [io_extends]: "extends f \<Longrightarrow> extends (RetryOnConflict conflict n f)"
  by (induction n) (auto intro!: extends_bind extends_catch split: sum.splits)

section \<open>Programs without interactions of a kind\<close>

text \<open>The function \<open>kind\<close> picks the interactions that count; the program has none of them.\<close>

definition emits_none :: "('e \<Rightarrow> 'x option) \<Rightarrow> ('e, 'a) io \<Rightarrow> bool" where
  "emits_none kind f \<longleftrightarrow> (\<forall>h. \<exists>es. snd (f h) = h @ es \<and> List.map_filter kind es = [])"

lemma emits_noneD: "emits_none kind f \<Longrightarrow> f h = (r, h') \<Longrightarrow> \<exists>es. h' = h @ es \<and> List.map_filter kind es = []"
  unfolding emits_none_def by (metis snd_conv)

named_theorems io_silent

lemma map_filter_append: "List.map_filter f (xs @ ys) = List.map_filter f xs @ List.map_filter f ys"
  by (simp add: List.map_filter_def)

lemma emits_none_basic [io_silent]:
  "emits_none kind (ret x)" "emits_none kind (raise err)" "emits_none kind panic" "emits_none kind (deref_io p)"
  by (auto simp: emits_none_def io_defs List.map_filter_def split: option.splits)

lemma emits_none_perform [io_silent]: "(\<And>r. kind (event r) = None) \<Longrightarrow> emits_none kind (perform answer event)"
  by (auto simp: emits_none_def perform_def List.map_filter_def)

lemma emits_none_bind [io_silent]: "emits_none kind f \<Longrightarrow> (\<And>x. emits_none kind (g x)) \<Longrightarrow> emits_none kind (bind_io f g)"
proof -
  assume f: "emits_none kind f" and g: "\<And>x. emits_none kind (g x)"
  have "\<exists>es. snd (bind_io f g h) = h @ es \<and> List.map_filter kind es = []" for h
  proof -
    obtain r h' where run: "f h = (r, h')" by force
    then obtain es where es: "h' = h @ es" "List.map_filter kind es = []" using emits_noneD [OF f] by blast
    show ?thesis
    proof (cases r)
      case (Ok x)
      obtain es' where "snd (g x h') = h' @ es'" "List.map_filter kind es' = []" using g [of x] by (auto simp: emits_none_def)
      with run Ok es show ?thesis by (auto simp: bind_io_def List.map_filter_def)
    qed (use run es in \<open>simp_all add: bind_io_def\<close>)
  qed
  then show ?thesis by (simp add: emits_none_def)
qed

lemma emits_none_wrap [io_silent]: "emits_none kind f \<Longrightarrow> emits_none kind (wrap_io msg f)"
  by (auto simp: emits_none_def wrap_io_def split: outcome.splits prod.splits) (metis snd_conv)+

lemma emits_none_catch [io_silent]: "emits_none kind f \<Longrightarrow> emits_none kind (catch_io f)"
  by (auto simp: emits_none_def catch_io_def split: outcome.splits prod.splits) (metis snd_conv)+

lemma retry_silent: "emits_none kind f \<Longrightarrow> emits_none kind (RetryOnConflict conflict n f)"
proof (induction n)
  case (Suc n)
  then show ?case by (auto intro!: io_silent split: sum.split)
qed simp

text \<open>What a program does after one whose answer is known.\<close>

lemma bind_known: "fst (f h) = Ok x \<Longrightarrow> bind_io f g h = g x (snd (f h))"
  by (cases "f h") (simp add: bind_io_def)

end
