(* ===== verification/Versions.thy ===== *)
theory Versions
  imports Go_Strings "HOL-Library.Product_Lexorder"
begin

text \<open>
  Version numbers of the database: \<^verbatim>\<open>OceanBaseVersion\<close> of \<^verbatim>\<open>pkg/helper/version.go\<close> and
  \<^verbatim>\<open>OBVersion\<close> of \<^verbatim>\<open>pkg/oceanbase-sdk/model/version.go\<close>, with parsing, printing and
  comparison.
\<close>

section \<open>Versions of the helper\<close>

record OceanBaseVersion =
  OV_Major :: int
  OV_Minor :: int
  OV_Patch :: int
  OV_SubPatch :: int
  OV_Build :: string

definition digits :: "string \<Rightarrow> bool" where
  "digits s \<longleftrightarrow> s \<noteq> [] \<and> list_all (\<lambda>c. digit_val c \<noteq> None) s"

text \<open>
  The strings that match \<^verbatim>\<open>^[0-9]+\.[0-9]+\.[0-9]+(\.[0-9]+)?(-[0-9]+)?$\<close>: three or four
  groups of digits between dots, then at most one more after a dash.
\<close>

definition version_pattern :: "string \<Rightarrow> bool" where
  "version_pattern version \<longleftrightarrow>
     (case Split version ''-'' of
        [body] \<Rightarrow> length (Split body ''.'') \<in> {3, 4} \<and> list_all digits (Split body ''.'')
      | [body, build] \<Rightarrow> length (Split body ''.'') \<in> {3, 4} \<and> list_all digits (Split body ''.'') \<and> digits build
      | _ \<Rightarrow> False)"

text \<open>\<^verbatim>\<open>strconv.Atoi\<close> as the callers use it here: the value, or the error.\<close>

definition atoi :: "string \<Rightarrow> int result" where
  "atoi s = (case Atoi s of (v, ok) \<Rightarrow> if ok then Inr v else Inl (OtherError (''parsing '' @ s)))"

definition ParseOceanBaseVersion :: "string \<Rightarrow> OceanBaseVersion result" where
  "ParseOceanBaseVersion version =
     (if \<not> version_pattern version then Inl (OtherError (''version format is wrong, got '' @ version))
      else
        let verStr = Split version ''-'';
            build = (if 1 < length verStr then verStr ! 1 else []);
            parts = Split (hd verStr) ''.''
        in if length parts < 3 then Inl (OtherError ''version format is wrong'')
           else case atoi (parts ! 0) of Inl err \<Rightarrow> Inl err | Inr major \<Rightarrow>
                (case atoi (parts ! 1) of Inl err \<Rightarrow> Inl err | Inr minor \<Rightarrow>
                (case atoi (parts ! 2) of Inl err \<Rightarrow> Inl err | Inr patch \<Rightarrow>
                (case (if 3 < length parts then atoi (parts ! 3) else Inr 0) of Inl err \<Rightarrow> Inl err
                 | Inr subpatch \<Rightarrow>
                     Inr \<lparr>OV_Major = major, OV_Minor = minor, OV_Patch = patch, OV_SubPatch = subpatch,
                          OV_Build = build\<rparr>))))"

text \<open>\<^verbatim>\<open>strings.TrimRight\<close> by dots has no effect: the last character is a digit.\<close>

definition TrimRight_dots :: "string \<Rightarrow> string" where
  "TrimRight_dots s = rev (dropWhile (\<lambda>c. c = CHR ''.'') (rev s))"

definition OceanBaseVersion_String :: "OceanBaseVersion \<Rightarrow> string" where
  "OceanBaseVersion_String v =
     (let verPart = TrimRight_dots (show_int (OV_Major v) @ ''.'' @ show_int (OV_Minor v) @ ''.'' @
            show_int (OV_Patch v) @ ''.'' @ show_int (OV_SubPatch v))
      in if OV_Build v \<noteq> [] then verPart @ ''-'' @ OV_Build v else verPart)"

text \<open>\<^verbatim>\<open>strings.Compare\<close>.\<close>

definition Compare_strings :: "string \<Rightarrow> string \<Rightarrow> int" where
  "Compare_strings a b = (if a = b then 0 else if a < b then - 1 else 1)"

definition OceanBaseVersion_Cmp :: "OceanBaseVersion \<Rightarrow> OceanBaseVersion \<Rightarrow> int" where
  "OceanBaseVersion_Cmp v other =
     (if OV_Major v \<noteq> OV_Major other then OV_Major v - OV_Major other
      else if OV_Minor v \<noteq> OV_Minor other then OV_Minor v - OV_Minor other
      else if OV_Patch v \<noteq> OV_Patch other then OV_Patch v - OV_Patch other
      else if OV_SubPatch v \<noteq> OV_SubPatch other then OV_SubPatch v - OV_SubPatch other
      else if OV_Build v \<noteq> OV_Build other then Compare_strings (OV_Build v) (OV_Build other)
      else 0)"

text \<open>
  The version in the output of \<^verbatim>\<open>observer -V\<close>: the last word of the second line without its
  closing parenthesis and the release of the fourth line. \<open>None\<close> is an index out of range.
\<close>

definition nth_or_panic :: "'a list \<Rightarrow> nat \<Rightarrow> 'a option" where
  "nth_or_panic xs i = (if i < length xs then Some (xs ! i) else None)"

definition version_of_lines :: "string list \<Rightarrow> string option" where
  "version_of_lines lines =
     (let semVer = last (Split (lines ! 1) '' '')
      in case nth_or_panic (Split (lines ! 3) '' '') 1 of
           None \<Rightarrow> None
         | Some word \<Rightarrow>
             if semVer = [] then None
             else Some (butlast semVer @ ''-'' @ hd (Split word ''-'')))"

definition GetCurrentVersion :: "string result \<Rightarrow> string result option" where
  "GetCurrentVersion cmd =
     (case cmd of
        Inl err \<Rightarrow> Some (Inl (wrap ''Failed to execute version command'' err))
      | Inr out \<Rightarrow>
          if 3 < length (Split out ''\<newline>'')
          then map_option Inr (version_of_lines (Split out ''\<newline>''))
          else Some (Inl (OtherError ''OB Version Format is Wrong'')))"

section \<open>Versions of the SDK\<close>

record OBVersion =
  SV_Version :: string
  SV_Release :: string
  SV_Major :: int
  SV_Minor :: int
  SV_Patch :: int
  SV_Incr :: int
  SV_BuildNum :: int

definition OBVersion_String :: "OBVersion \<Rightarrow> string" where
  "OBVersion_String v = (if SV_BuildNum v \<noteq> 0 then SV_Version v @ ''-'' @ SV_Release v else SV_Version v)"

definition OBVersion_Compare :: "OBVersion \<Rightarrow> OBVersion \<Rightarrow> int" where
  "OBVersion_Compare v other =
     (if SV_Major v \<noteq> SV_Major other then SV_Major v - SV_Major other
      else if SV_Minor v \<noteq> SV_Minor other then SV_Minor v - SV_Minor other
      else if SV_Patch v \<noteq> SV_Patch other then SV_Patch v - SV_Patch other
      else if SV_Incr v \<noteq> SV_Incr other then SV_Incr v - SV_Incr other
      else if SV_BuildNum v \<noteq> SV_BuildNum other
      then (if SV_BuildNum v = 0 \<or> SV_BuildNum other = 0 then 0 else SV_BuildNum v - SV_BuildNum other)
      else 0)"

text \<open>
  \<^verbatim>\<open>ParseOBVersion\<close>: the four numbers are all read from the first part. With fewer than
  three parts it wraps a nil error, so the answer is a nil version without error,
  here \<open>Inr None\<close>.
\<close>

definition ParseOBVersion :: "string \<Rightarrow> OBVersion option result" where
  "ParseOBVersion buildVersionStr =
     (let versionParts = Split (hd (Split buildVersionStr ''-'')) ''_'';
          version = hd versionParts;
          parts = Split version ''.''
      in if length parts < 3 then Inr None
         else case atoi (parts ! 0) of
                Inl err \<Rightarrow> Inl (wrap (''Failed to parse major version '' @ parts ! 0) err)
              | Inr major \<Rightarrow>
             (case atoi (parts ! 0) of
                Inl err \<Rightarrow> Inl (wrap (''Failed to parse minor version '' @ parts ! 1) err)
              | Inr minor \<Rightarrow>
             (case atoi (parts ! 0) of
                Inl err \<Rightarrow> Inl (wrap (''Failed to parse patch version '' @ parts ! 2) err)
              | Inr patch \<Rightarrow>
             (case (if 4 \<le> length parts then atoi (parts ! 0) else Inr 0) of
                Inl err \<Rightarrow> Inl (wrap (''Failed to parse incr version '' @ parts ! 3) err)
              | Inr incr \<Rightarrow>
             (case (if 2 \<le> length versionParts then atoi (versionParts ! 1) else Inr 0) of
                Inl err \<Rightarrow> Inl (wrap (''Failed to parse build number '' @ versionParts ! 1) err)
              | Inr buildNum \<Rightarrow>
                  Inr (Some \<lparr>SV_Version = version,
                             SV_Release = (if 2 \<le> length versionParts then versionParts ! 1 else []),
                             SV_Major = major, SV_Minor = minor, SV_Patch = patch, SV_Incr = incr,
                             SV_BuildNum = buildNum\<rparr>))))))"

text \<open>
  The loop of \<^verbatim>\<open>GetVersion\<close> over the servers' build versions. Comparing with a nil version
  panics, here \<open>None\<close>.
\<close>

fun common_version :: "string list \<Rightarrow> OBVersion option \<Rightarrow> OBVersion option result option" where
  "common_version [] version = Some (Inr version)"
| "common_version (b # bs) version =
     (case ParseOBVersion b of
        Inl err \<Rightarrow> Some (Inl (wrap (''Failed to parse version '' @ b) err))
      | Inr v \<Rightarrow>
          (case version of
             None \<Rightarrow> common_version bs v
           | Some w \<Rightarrow>
               (case v of
                  None \<Rightarrow> None
                | Some u \<Rightarrow>
                    if OBVersion_Compare w u \<noteq> 0
                    then Some (Inl (OtherError (''Version '' @ b @ '' is not consistent with other observer'')))
                    else common_version bs (Some u))))"

section \<open>Lemmas\<close>

lemma digits_show_nat [simp]: "digits (show_nat n)"
  by (induction n rule: show_nat.induct; subst show_nat.simps) (auto simp: digits_def)

lemma digit_val_not: "digit_val c \<noteq> None \<Longrightarrow> c \<noteq> CHR ''.'' \<and> c \<noteq> CHR ''-'' \<and> c \<noteq> CHR ''_''"
  by (auto simp: digit_val_def)

lemma digits_plain:
  "digits s \<Longrightarrow> CHR ''.'' \<notin> set s" "digits s \<Longrightarrow> CHR ''-'' \<notin> set s"
  using digit_val_not by (fastforce simp: digits_def list_all_iff)+

lemma TrimRight_dots_digits: "digits s \<Longrightarrow> TrimRight_dots (p @ s) = p @ s"
proof -
  assume "digits s"
  then have "s \<noteq> []" "last s \<noteq> CHR ''.''"
    using digits_plain(1) [of s] by (auto simp: digits_def dest: last_in_set)
  then have "dropWhile (\<lambda>c. c = CHR ''.'') (rev (p @ s)) = rev (p @ s)"
    by (cases s rule: rev_cases) auto
  then show ?thesis by (simp add: TrimRight_dots_def)
qed

lemma show_int_nonneg: "0 \<le> i \<Longrightarrow> show_int i = show_nat (nat i)"
  by (simp add: show_int_def)

lemma atoi_show_nat: "n < 2 ^ 63 \<Longrightarrow> atoi (show_nat n) = Inr (int n)"
  by (simp add: atoi_def)

text \<open>The key under which a version is ordered.\<close>

definition version_key :: "OceanBaseVersion \<Rightarrow> int \<times> int \<times> int \<times> int \<times> string" where
  "version_key v = (OV_Major v, OV_Minor v, OV_Patch v, OV_SubPatch v, OV_Build v)"

lemma version_key_inj: "version_key v = version_key w \<longleftrightarrow> v = w"
  by (auto simp: version_key_def)

definition valid_version :: "OceanBaseVersion \<Rightarrow> bool" where
  "valid_version v \<longleftrightarrow>
     list_all (\<lambda>i. 0 \<le> i \<and> i < 2 ^ 63) [OV_Major v, OV_Minor v, OV_Patch v, OV_SubPatch v] \<and>
     (OV_Build v = [] \<or> digits (OV_Build v))"

lemma parse_of_parts:
  assumes "body = Join (map show_nat [a, b, c, d]) ''.''" "\<forall>n \<in> {a, b, c, d}. n < 2 ^ 63"
    and "s = (if build = [] then body else body @ ''-'' @ build)" "build = [] \<or> digits build"
  shows "ParseOceanBaseVersion s = Inr \<lparr>OV_Major = int a, OV_Minor = int b, OV_Patch = int c,
    OV_SubPatch = int d, OV_Build = build\<rparr>"
proof -
  have plain: "\<forall>x \<in> set (map show_nat [a, b, c, d]). hd ''.'' \<notin> set x"
    using digits_plain(1) [OF digits_show_nat] by simp
  have parts: "Split body ''.'' = map show_nat [a, b, c, d]"
    unfolding assms(1) by (rule Split_Join [OF _ _ plain]) simp_all
  have "CHR ''-'' \<notin> set body"
    using digits_plain(2) [OF digits_show_nat] by (simp add: assms(1))
  then have dash: "Split s ''-'' = (if build = [] then [body] else [body, build])"
    using assms(3,4) Split_Join [of "''-''" "[body, build]"] digits_plain(2) [of build]
    by (auto simp: Split_none)
  have "version_pattern s" using dash parts assms(4) by (auto simp: version_pattern_def)
  then show ?thesis
    using assms(2) unfolding ParseOceanBaseVersion_def dash
    by (simp add: parts atoi_show_nat Let_def)
qed

lemma atoi_nil: "atoi [] = Inl (OtherError ''parsing '')"
  by (simp add: atoi_def Atoi_def)

lemma ParseOBVersion_fields:
  assumes "ParseOBVersion a = Inr (Some v)" "SV_Release v = []" "length (Split (SV_Version v) ''.'') = 4"
  shows "SV_Minor v = SV_Major v" "SV_Patch v = SV_Major v" "SV_Incr v = SV_Major v" "SV_BuildNum v = 0"
  using assms by (auto simp: ParseOBVersion_def Let_def atoi_nil split: sum.splits if_splits)

section \<open>Properties\<close>

text \<open>
  Printing a version and parsing it again gives the same version, for every version
  whose numbers are non-negative 64-bit integers and whose build is absent or numeric.
\<close>

theorem version_print_parse:
  assumes "valid_version v"
  shows "ParseOceanBaseVersion (OceanBaseVersion_String v) = Inr v"
proof -
  let ?n = "\<lambda>f. nat (f v)"
  have range: "0 \<le> OV_Major v" "0 \<le> OV_Minor v" "0 \<le> OV_Patch v" "0 \<le> OV_SubPatch v"
    "\<forall>n \<in> {?n OV_Major, ?n OV_Minor, ?n OV_Patch, ?n OV_SubPatch}. n < 2 ^ 63"
    using assms by (auto simp: valid_version_def)
  define body where "body = Join (map show_nat [?n OV_Major, ?n OV_Minor, ?n OV_Patch, ?n OV_SubPatch]) ''.''"
  have "OceanBaseVersion_String v = (if OV_Build v = [] then body else body @ ''-'' @ OV_Build v)"
    using TrimRight_dots_digits [OF digits_show_nat, of "show_nat (?n OV_Major) @ ''.'' @ show_nat (?n OV_Minor) @
        ''.'' @ show_nat (?n OV_Patch) @ ''.''" "?n OV_SubPatch"]
    by (simp add: OceanBaseVersion_String_def body_def show_int_nonneg range(1-4) Let_def)
  from parse_of_parts [OF body_def range(5) this] assms range(1-4)
  show ?thesis by (simp add: valid_version_def)
qed

theorem version_print_parse_witness:
  "ParseOceanBaseVersion (OceanBaseVersion_String
     \<lparr>OV_Major = 4, OV_Minor = 2, OV_Patch = 1, OV_SubPatch = 0, OV_Build = ''100''\<rparr>) =
   Inr \<lparr>OV_Major = 4, OV_Minor = 2, OV_Patch = 1, OV_SubPatch = 0, OV_Build = ''100''\<rparr>"
  by (rule version_print_parse) (simp add: valid_version_def digits_def digit_val_def)

text \<open>
  \<^verbatim>\<open>Cmp\<close> computes the lexicographic order of major, minor, patch, sub-patch and build:
  it is negative, zero or positive exactly when the first version comes before, equals or
  comes after the second one.
\<close>

theorem version_cmp_lexicographic:
  "(OceanBaseVersion_Cmp v w < 0 \<longleftrightarrow> version_key v < version_key w) \<and>
   (OceanBaseVersion_Cmp v w = 0 \<longleftrightarrow> v = w) \<and>
   (OceanBaseVersion_Cmp v w > 0 \<longleftrightarrow> version_key w < version_key v)"
  unfolding version_key_inj [symmetric]
  by (auto simp: OceanBaseVersion_Cmp_def Compare_strings_def version_key_def)

text \<open>
  The versions \<^verbatim>\<open>ParseOBVersion\<close> reads carry the major number in every place, so two
  four-part versions without a release are consistent for \<^verbatim>\<open>GetVersion\<close> as soon as their
  major numbers agree: servers of 4.2 and 4.3 pass as one version.
\<close>

theorem sdk_versions_compared_by_major:
  assumes "ParseOBVersion a = Inr (Some v)" "ParseOBVersion b = Inr (Some w)"
    and "SV_Release v = []" "SV_Release w = []"
    and "length (Split (SV_Version v) ''.'') = 4" "length (Split (SV_Version w) ''.'') = 4"
  shows "OBVersion_Compare v w = 0 \<longleftrightarrow> SV_Major v = SV_Major w"
proof -
  note read = ParseOBVersion_fields [OF assms(1,3,5)] ParseOBVersion_fields [OF assms(2,4,6)]
  show ?thesis by (simp add: OBVersion_Compare_def read)
qed

theorem sdk_versions_compared_by_major_witness:
  "(case (ParseOBVersion ''4.2.1.0'', ParseOBVersion ''4.3.0.0'') of
      (Inr (Some v), Inr (Some w)) \<Rightarrow> OBVersion_Compare v w = 0 | _ \<Rightarrow> False)"
proof -
  let ?v = "\<lambda>s. \<lparr>SV_Version = s, SV_Release = [], SV_Major = 4, SV_Minor = 4, SV_Patch = 4, SV_Incr = 4, SV_BuildNum = 0\<rparr>"
  have v: "ParseOBVersion ''4.2.1.0'' = Inr (Some (?v ''4.2.1.0''))" by code_simp
  have w: "ParseOBVersion ''4.3.0.0'' = Inr (Some (?v ''4.3.0.0''))" by code_simp
  have "length (Split ''4.2.1.0'' ''.'') = 4" "length (Split ''4.3.0.0'' ''.'') = 4" by code_simp+
  with sdk_versions_compared_by_major [OF v w] show ?thesis by (simp add: v w)
qed

end
