(* ===== verification/SDK.thy ===== *)
theory SDK
  imports SDK_Statements Task_IO Versions
begin

text \<open>
  The operations of the SDK, \<^verbatim>\<open>pkg/oceanbase-sdk/operation\<close>, over a database that is a
  parameter. Every statement that is executed and every query is an event of the log,
  recorded with its answer. Log output is left out. The operation \<^verbatim>\<open>X\<close> of the code is
  \<open>db_X\<close>.
\<close>

section \<open>Statements and queries\<close>

datatype sql_timeout = DefaultSqlTimeout | TenantSqlTimeout | TenantRestoreTimeout | BootstrapTimeout

text \<open>A row of an answer: the values of its columns.\<close>

type_synonym row = "(string \<times> sql_value) list"

definition col_str :: "row \<Rightarrow> string \<Rightarrow> string" where
  "col_str r c = (case map_of r c of Some (SQL_Str s) \<Rightarrow> s | _ \<Rightarrow> [])"

definition col_int :: "row \<Rightarrow> string \<Rightarrow> int" where
  "col_int r c = (case map_of r c of Some (SQL_Int i) \<Rightarrow> i | _ \<Rightarrow> 0)"

datatype 'k event =
    SysConnected "unit result"
  | TenantConnected "unit result"
  | Executed sql_timeout string "sql_value list" "unit result"
  | Counted string "sql_value list" "int result"
  | RowRead string "sql_value list" "row result"
  | RowsRead string "sql_value list" "row list result"
  | ApiCall 'k

record 'k sdk_env =
  conn_exec :: "'k event list \<Rightarrow> string \<Rightarrow> sql_value list \<Rightarrow> unit result"
  conn_count :: "'k event list \<Rightarrow> string \<Rightarrow> sql_value list \<Rightarrow> int result"
  conn_row :: "'k event list \<Rightarrow> string \<Rightarrow> sql_value list \<Rightarrow> row result"
  conn_rows :: "'k event list \<Rightarrow> string \<Rightarrow> sql_value list \<Rightarrow> row list result"

definition ExecWithTimeout ::
  "('k, 'x) sdk_env_scheme \<Rightarrow> sql_timeout \<Rightarrow> string \<Rightarrow> sql_value list \<Rightarrow> ('k event, unit) io" where
  "ExecWithTimeout env timeout sql params =
     wrap_io (''Execute sql failed, sql '' @ sql)
       (perform (\<lambda>h. conn_exec env h sql params) (Executed timeout sql params))"

definition ExecWithDefaultTimeout ::
  "('k, 'x) sdk_env_scheme \<Rightarrow> string \<Rightarrow> sql_value list \<Rightarrow> ('k event, unit) io" where
  "ExecWithDefaultTimeout env sql params = ExecWithTimeout env DefaultSqlTimeout sql params"

definition QueryRow :: "('k, 'x) sdk_env_scheme \<Rightarrow> string \<Rightarrow> sql_value list \<Rightarrow> ('k event, row) io" where
  "QueryRow env sql params =
     wrap_io (''Query row, sql '' @ sql) (perform (\<lambda>h. conn_row env h sql params) (RowRead sql params))"

definition QueryList :: "('k, 'x) sdk_env_scheme \<Rightarrow> string \<Rightarrow> sql_value list \<Rightarrow> ('k event, row list) io" where
  "QueryList env sql params =
     wrap_io (''Query list failed, sql '' @ sql) (perform (\<lambda>h. conn_rows env h sql params) (RowsRead sql params))"

definition QueryCount :: "('k, 'x) sdk_env_scheme \<Rightarrow> string \<Rightarrow> sql_value list \<Rightarrow> ('k event, int) io" where
  "QueryCount env sql params =
     wrap_io (''Query count failed, sql '' @ sql) (perform (\<lambda>h. conn_count env h sql params) (Counted sql params))"

text \<open>Executing a prepared statement, with the message its error is wrapped in.\<close>

definition exec_prepared ::
  "('k, 'x) sdk_env_scheme \<Rightarrow> string \<Rightarrow> sql_timeout \<Rightarrow> prepared \<Rightarrow> ('k event, unit) io" where
  "exec_prepared env msg timeout p = wrap_io msg (ExecWithTimeout env timeout (fst p) (snd p))"

definition exists_by_count ::
  "('k, 'x) sdk_env_scheme \<Rightarrow> string \<Rightarrow> string \<Rightarrow> sql_value list \<Rightarrow> ('k event, bool) io" where
  "exists_by_count env msg sql params =
     bind_io (wrap_io msg (QueryCount env sql params)) (\<lambda>count. ret (count \<noteq> 0))"

definition first_row :: "('k event, row list) io \<Rightarrow> ('k event, row option) io" where
  "first_row q = bind_io q (\<lambda>rows. ret (case rows of [] \<Rightarrow> None | r # _ \<Rightarrow> Some r))"

section \<open>Tenants, pools and units\<close>

definition db_ListTenantWithName :: "('k, 'x) sdk_env_scheme \<Rightarrow> string \<Rightarrow> ('k event, row list) io" where
  "db_ListTenantWithName env name = wrap_io ''Query tenants'' (QueryList env sql_QueryTenantWithName [SQL_Str name])"

definition db_SelectSysTenant :: "('k, 'x) sdk_env_scheme \<Rightarrow> ('k event, row) io" where
  "db_SelectSysTenant env =
     bind_io (wrap_io ''Select sys tenant'' (QueryList env sql_SelectSysTenant []))
       (\<lambda>tenants. case tenants of [] \<Rightarrow> raise (OtherError ''Empty results when selecting sys tenant'') | t # _ \<Rightarrow> ret t)"

definition db_ListUnitsWithTenantId :: "('k, 'x) sdk_env_scheme \<Rightarrow> int \<Rightarrow> ('k event, row list) io" where
  "db_ListUnitsWithTenantId env tenantID = wrap_io ''Query units'' (QueryList env sql_QueryUnitsWithTenantId [SQL_Int tenantID])"

definition db_GetTenantByName :: "('k, 'x) sdk_env_scheme \<Rightarrow> string \<Rightarrow> ('k event, row) io" where
  "db_GetTenantByName env name = wrap_io ''Get tenantconst by tenantName'' (QueryRow env sql_GetTenantByName [SQL_Str name])"

definition db_GetPoolByName :: "('k, 'x) sdk_env_scheme \<Rightarrow> string \<Rightarrow> ('k event, row) io" where
  "db_GetPoolByName env name = wrap_io ''Get pool by poolName'' (QueryRow env sql_GetPoolByName [SQL_Str name])"

definition db_GetPoolList :: "('k, 'x) sdk_env_scheme \<Rightarrow> ('k event, row list) io" where
  "db_GetPoolList env = wrap_io ''Get get pool list'' (QueryList env sql_GetPoolList [])"

definition db_GetUnitList :: "('k, 'x) sdk_env_scheme \<Rightarrow> ('k event, row list) io" where
  "db_GetUnitList env = wrap_io ''Get all unit list'' (QueryList env sql_GetUnitList [])"

definition db_GetUnitConfigV4List :: "('k, 'x) sdk_env_scheme \<Rightarrow> ('k event, row list) io" where
  "db_GetUnitConfigV4List env = wrap_io ''Get all unitConfigV4 list'' (QueryList env sql_GetUnitConfigV4List [])"

definition db_GetUnitConfigV4ByName :: "('k, 'x) sdk_env_scheme \<Rightarrow> string \<Rightarrow> ('k event, row) io" where
  "db_GetUnitConfigV4ByName env name = wrap_io ''Get unitConfigV4 By Name'' (QueryRow env sql_GetUnitConfigV4ByName [SQL_Str name])"

definition db_GetCharset :: "('k, 'x) sdk_env_scheme \<Rightarrow> ('k event, row) io" where
  "db_GetCharset env = wrap_io ''Get charset'' (QueryRow env sql_GetCharset [])"

definition db_DeleteTenant :: "('k, 'x) sdk_env_scheme \<Rightarrow> string \<Rightarrow> bool \<Rightarrow> ('k event, unit) io" where
  "db_DeleteTenant env name force =
     exec_prepared env ''Delete tenantconst by tenantName'' TenantSqlTimeout (preparedSQLForDeleteTenant name force)"

definition db_DeletePool :: "('k, 'x) sdk_env_scheme \<Rightarrow> string \<Rightarrow> ('k event, unit) io" where
  "db_DeletePool env name =
     exec_prepared env ''Delete pool by poolName'' DefaultSqlTimeout (preparedSQLForDeletePool name)"

definition db_DeleteUnitConfig :: "('k, 'x) sdk_env_scheme \<Rightarrow> string \<Rightarrow> ('k event, unit) io" where
  "db_DeleteUnitConfig env name =
     exec_prepared env ''Delete unit by unitName'' DefaultSqlTimeout (preparedSQLForDeleteUnitConfig name)"

definition db_CheckTenantExistByName :: "('k, 'x) sdk_env_scheme \<Rightarrow> string \<Rightarrow> ('k event, bool) io" where
  "db_CheckTenantExistByName env name =
     exists_by_count env ''Get tenantconst by tenantName'' sql_GetTenantCountByName [SQL_Str name]"

definition db_CheckPoolExistByName :: "('k, 'x) sdk_env_scheme \<Rightarrow> string \<Rightarrow> ('k event, bool) io" where
  "db_CheckPoolExistByName env name =
     exists_by_count env ''Check whether pool exist by poolName'' sql_GetPoolCountByName [SQL_Str name]"

definition db_CheckUnitConfigExistByName :: "('k, 'x) sdk_env_scheme \<Rightarrow> string \<Rightarrow> ('k event, bool) io" where
  "db_CheckUnitConfigExistByName env name =
     exists_by_count env ''Check whether unitconfigV4 exist by poolName'' sql_GetUnitConfigV4CountByName [SQL_Str name]"

definition db_CheckRsJobExistByTenantID :: "('k, 'x) sdk_env_scheme \<Rightarrow> int \<Rightarrow> ('k event, bool) io" where
  "db_CheckRsJobExistByTenantID env tenantID =
     exists_by_count env ''Check whether rsJob exist by poolName'' sql_GetRsJobCount [SQL_Int tenantID]"

definition db_AddTenant :: "('k, 'x) sdk_env_scheme \<Rightarrow> TenantSQLParam \<Rightarrow> ('k event, unit) io" where
  "db_AddTenant env t = exec_prepared env ''Add Tenant'' TenantSqlTimeout (preparedSQLForAddTenant t)"

definition db_AddPool :: "('k, 'x) sdk_env_scheme \<Rightarrow> PoolSQLParam \<Rightarrow> ('k event, unit) io" where
  "db_AddPool env pool = exec_prepared env ''Add pool'' DefaultSqlTimeout (preparedSQLForAddPool pool)"

definition db_AddUnitConfigV4 :: "('k, 'x) sdk_env_scheme \<Rightarrow> UnitConfigV4SQLParam \<Rightarrow> ('k event, unit) io" where
  "db_AddUnitConfigV4 env u = exec_prepared env ''Add UnitConfigV4'' DefaultSqlTimeout (preparedSQLForAddUnitConfigV4 u)"

definition db_SetTenantVariable :: "('k, 'x) sdk_env_scheme \<Rightarrow> string \<Rightarrow> string \<Rightarrow> ('k event, unit) io" where
  "db_SetTenantVariable env name vars =
     exec_prepared env ''Set Tenant Variable'' DefaultSqlTimeout (preparedSQLForSetTenantVariable name vars)"

definition db_SetUnitConfigV4 :: "('k, 'x) sdk_env_scheme \<Rightarrow> UnitConfigV4SQLParam \<Rightarrow> ('k event, unit) io" where
  "db_SetUnitConfigV4 env u = exec_prepared env ''Set UnitConfig'' DefaultSqlTimeout (preparedSQLForSetUnitConfigV4 u)"

definition db_SetTenantUnitNum :: "('k, 'x) sdk_env_scheme \<Rightarrow> string \<Rightarrow> int \<Rightarrow> ('k event, unit) io" where
  "db_SetTenantUnitNum env name unitNum =
     exec_prepared env ''Set pool UnitNum'' DefaultSqlTimeout (preparedSQLForSetTenantUnitNum name unitNum)"

definition db_SetTenant :: "('k, 'x) sdk_env_scheme \<Rightarrow> TenantSQLParam \<Rightarrow> ('k event, unit) io" where
  "db_SetTenant env t = exec_prepared env ''Set tenant'' TenantSqlTimeout (preparedSQLForSetTenant t)"

definition db_AlterPool :: "('k, 'x) sdk_env_scheme \<Rightarrow> PoolParam \<Rightarrow> ('k event, unit) io" where
  "db_AlterPool env p =
     (case prepareSQLForAlterPool p of (sql, args) \<Rightarrow>
        if sql \<noteq> [] then ExecWithDefaultTimeout env sql args else ret ())"

text \<open>
  Waiting for a change of locality. An error of reading the tenant is logged and the empty
  tenant that comes with it is looked at, whose previous locality is empty.
\<close>

primrec db_WaitTenantLocalityChangeFinished ::
  "('k, 'x) sdk_env_scheme \<Rightarrow> string \<Rightarrow> nat \<Rightarrow> ('k event, unit) io" where
  "db_WaitTenantLocalityChangeFinished env name 0 =
     raise (OtherError (''Tenant '' @ name @ '' locality change still not finished''))"
| "db_WaitTenantLocalityChangeFinished env name (Suc n) =
     bind_io (catch_io (db_GetTenantByName env name)) (\<lambda>tenant.
       if (case tenant of Inl _ \<Rightarrow> [] | Inr r \<Rightarrow> col_str r ''previous_locality'') = [] then ret ()
       else db_WaitTenantLocalityChangeFinished env name n)"

definition db_ChangeTenantUserPassword :: "('k, 'x) sdk_env_scheme \<Rightarrow> string \<Rightarrow> string \<Rightarrow> ('k event, unit) io" where
  "db_ChangeTenantUserPassword env username password =
     wrap_io ''Change tenant user password''
       (ExecWithDefaultTimeout env (sql_ChangeTenantUserPassword username) [SQL_Str password])"

definition db_ListTenantAccessPoints :: "('k, 'x) sdk_env_scheme \<Rightarrow> string \<Rightarrow> ('k event, row list) io" where
  "db_ListTenantAccessPoints env name =
     wrap_io ''List tenant access points'' (QueryList env sql_QueryTenantAccessPointByName [SQL_Str name])"

definition db_CreateEmptyStandbyTenant ::
  "('k, 'x) sdk_env_scheme \<Rightarrow> string \<Rightarrow> string \<Rightarrow> string \<Rightarrow> string \<Rightarrow> string list \<Rightarrow> ('k event, unit) io" where
  "db_CreateEmptyStandbyTenant env name restoreSource primaryZone locality poolList =
     wrap_io ''Create empty standby tenant''
       (ExecWithTimeout env TenantSqlTimeout
          (sql_CreateEmptyStandbyTenant name (quoted (Join poolList ([CHR 0x27] @ '','' @ [CHR 0x27]))))
          [SQL_Str restoreSource, SQL_Str primaryZone, SQL_Str locality])"

definition db_SwitchTenantRole :: "('k, 'x) sdk_env_scheme \<Rightarrow> string \<Rightarrow> string \<Rightarrow> ('k event, unit) io" where
  "db_SwitchTenantRole env tenant role =
     (if role \<noteq> ''PRIMARY'' \<and> role \<noteq> ''STANDBY'' then raise (OtherError ''invalid tenant role'')
      else ExecWithDefaultTimeout env (sql_SwitchTenantRole role tenant) [])"

definition db_ListLSDeletion :: "('k, 'x) sdk_env_scheme \<Rightarrow> int \<Rightarrow> ('k event, row list) io" where
  "db_ListLSDeletion env tenantId =
     wrap_io ''List ls deletion'' (QueryList env sql_QueryLSDeletion [SQL_Int tenantId, SQL_Int tenantId])"

definition db_ListLogStats :: "('k, 'x) sdk_env_scheme \<Rightarrow> int \<Rightarrow> ('k event, row list) io" where
  "db_ListLogStats env tenantId = wrap_io ''List log stats'' (QueryList env sql_QueryLogStats [SQL_Int tenantId])"

definition db_UpgradeTenantWithName :: "('k, 'x) sdk_env_scheme \<Rightarrow> string \<Rightarrow> ('k event, unit) io" where
  "db_UpgradeTenantWithName env name =
     wrap_io ''Upgrade tenant'' (ExecWithDefaultTimeout env (sql_UpgradeTenantWithName name) [])"

definition db_ListParametersWithTenantID :: "('k, 'x) sdk_env_scheme \<Rightarrow> int \<Rightarrow> ('k event, row list) io" where
  "db_ListParametersWithTenantID env tenantID =
     wrap_io ''List parameters'' (QueryList env sql_ListParametersWithTenantID [SQL_Int tenantID])"

section \<open>Parameters, variables and users\<close>

text \<open>A scope is the name of a column and its value.\<close>

definition db_GetParameter ::
  "('k, 'x) sdk_env_scheme \<Rightarrow> string \<Rightarrow> (string \<times> sql_value) option \<Rightarrow> ('k event, row list) io" where
  "db_GetParameter env name scope =
     (case scope of
        None \<Rightarrow> QueryList env sql_QueryParameter [SQL_Str name]
      | Some (scopeName, val) \<Rightarrow> QueryList env (sql_QueryParameterWithScope scopeName) [SQL_Str name, val])"

definition db_SetParameter ::
  "('k, 'x) sdk_env_scheme \<Rightarrow> string \<Rightarrow> sql_value \<Rightarrow> (string \<times> sql_value) option \<Rightarrow> ('k event, unit) io" where
  "db_SetParameter env name val scope =
     (case scope of
        None \<Rightarrow> ExecWithDefaultTimeout env (sql_SetParameter name) [val]
      | Some (scopeName, v) \<Rightarrow> ExecWithDefaultTimeout env (sql_SetParameterWithScope name scopeName) [val, v])"

definition db_SelectCompatibleOfTenants :: "('k, 'x) sdk_env_scheme \<Rightarrow> ('k event, row list) io" where
  "db_SelectCompatibleOfTenants env = QueryList env sql_SelectCompatibleOfTenants []"

definition db_SetGlobalVariable :: "('k, 'x) sdk_env_scheme \<Rightarrow> string \<Rightarrow> sql_value \<Rightarrow> ('k event, unit) io" where
  "db_SetGlobalVariable env name val = ExecWithDefaultTimeout env (sql_SetGlobalVariable name) [val]"

definition db_GetGlobalVariable :: "('k, 'x) sdk_env_scheme \<Rightarrow> string \<Rightarrow> ('k event, row) io" where
  "db_GetGlobalVariable env name = QueryRow env sql_GetGlobalVariable [SQL_Str name]"

definition db_CreateUser :: "('k, 'x) sdk_env_scheme \<Rightarrow> string \<Rightarrow> ('k event, unit) io" where
  "db_CreateUser env userName = wrap_io ''Create user'' (ExecWithDefaultTimeout env sql_CreateUser [SQL_Str userName])"

definition db_CreateUserWithPwd :: "('k, 'x) sdk_env_scheme \<Rightarrow> string \<Rightarrow> string \<Rightarrow> ('k event, unit) io" where
  "db_CreateUserWithPwd env username password =
     wrap_io ''Create user with password''
       (ExecWithDefaultTimeout env (sql_CreateTenantUserWithPwd username) [SQL_Str password])"

definition db_SetUserPassword :: "('k, 'x) sdk_env_scheme \<Rightarrow> string \<Rightarrow> string \<Rightarrow> ('k event, unit) io" where
  "db_SetUserPassword env userName password =
     wrap_io ''Set user password'' (ExecWithDefaultTimeout env sql_SetUserPassword [SQL_Str userName, SQL_Str password])"

definition db_GrantPrivilege ::
  "('k, 'x) sdk_env_scheme \<Rightarrow> string \<Rightarrow> string \<Rightarrow> string \<Rightarrow> ('k event, unit) io" where
  "db_GrantPrivilege env privilege object userName =
     wrap_io ''Grant privilege to user''
       (ExecWithDefaultTimeout env (sql_GrantPrivilege privilege object) [SQL_Str userName])"

section \<open>Cluster, servers and zones\<close>

text \<open>The servers of a bootstrap: zone, address and port.\<close>

definition db_Bootstrap :: "('k, 'x) sdk_env_scheme \<Rightarrow> (string \<times> string \<times> int) list \<Rightarrow> ('k event, unit) io" where
  "db_Bootstrap env servers =
     wrap_io ''Bootstrap''
       (ExecWithTimeout env BootstrapTimeout
          (sql_Bootstrap (Join (map (\<lambda>(zone, ip, port). sql_BootstrapServer zone ip (show_int port)) servers) '', '')) [])"

definition db_ListServers :: "('k, 'x) sdk_env_scheme \<Rightarrow> ('k event, row list) io" where
  "db_ListServers env = wrap_io ''List observer failed'' (QueryList env sql_ListServer [])"

definition db_GetServer :: "('k, 'x) sdk_env_scheme \<Rightarrow> string \<Rightarrow> int \<Rightarrow> ('k event, row option) io" where
  "db_GetServer env ip port = first_row (QueryList env sql_GetServer [SQL_Str ip, SQL_Int port])"

definition db_AddServer :: "('k, 'x) sdk_env_scheme \<Rightarrow> string \<Rightarrow> int \<Rightarrow> ('k event, unit) io" where
  "db_AddServer env ip port =
     wrap_io ''Add server'' (ExecWithDefaultTimeout env sql_AddServer [SQL_Str (ip @ '':'' @ show_int port)])"

definition db_DeleteServer :: "('k, 'x) sdk_env_scheme \<Rightarrow> string \<Rightarrow> int \<Rightarrow> ('k event, unit) io" where
  "db_DeleteServer env ip port =
     wrap_io ''Delete server'' (ExecWithDefaultTimeout env sql_DeleteServer [SQL_Str (ip @ '':'' @ show_int port)])"

definition db_ListGVServers :: "('k, 'x) sdk_env_scheme \<Rightarrow> ('k event, row list) io" where
  "db_ListGVServers env = wrap_io ''List observer failed'' (QueryList env sql_ListGVServers [])"

definition db_ListUnitsWithServerIP :: "('k, 'x) sdk_env_scheme \<Rightarrow> string \<Rightarrow> ('k event, row list) io" where
  "db_ListUnitsWithServerIP env ip = wrap_io ''List OB units'' (QueryList env sql_ListUnitsWithServerIP [SQL_Str ip])"

text \<open>The version all servers agree on; nil without servers.\<close>

definition db_GetVersion :: "('k, 'x) sdk_env_scheme \<Rightarrow> ('k event, OBVersion option) io" where
  "db_GetVersion env =
     bind_io (wrap_io ''Failed to List observers of cluster'' (db_ListServers env)) (\<lambda>observers.
       case common_version (map (\<lambda>r. col_str r ''build_version'') observers) None of
         None \<Rightarrow> panic
       | Some (Inl err) \<Rightarrow> raise err
       | Some (Inr v) \<Rightarrow> ret v)"

definition db_ListClusterParameters :: "('k, 'x) sdk_env_scheme \<Rightarrow> ('k event, row list) io" where
  "db_ListClusterParameters env = wrap_io ''List cluster parameters'' (QueryList env sql_ListAllParameters [])"

definition db_GetZone :: "('k, 'x) sdk_env_scheme \<Rightarrow> string \<Rightarrow> ('k event, row) io" where
  "db_GetZone env zoneName = wrap_io ''query zone info'' (QueryRow env sql_GetZone [SQL_Str zoneName])"

definition db_ListZones :: "('k, 'x) sdk_env_scheme \<Rightarrow> ('k event, row list) io" where
  "db_ListZones env = wrap_io ''list all zone'' (QueryList env sql_ListZones [])"

definition db_AddZone :: "('k, 'x) sdk_env_scheme \<Rightarrow> string \<Rightarrow> ('k event, unit) io" where
  "db_AddZone env zoneName =
     bind_io (catch_io (db_GetZone env zoneName)) (\<lambda>z. case z of
       Inr _ \<Rightarrow> ret ()
     | Inl _ \<Rightarrow> wrap_io ''Add zone'' (ExecWithDefaultTimeout env sql_AddZone [SQL_Str zoneName]))"

definition zone_Active :: string where
  "zone_Active = ''active''"

definition zone_Inactive :: string where
  "zone_Inactive = ''inactive''"

definition db_DeleteZone :: "('k, 'x) sdk_env_scheme \<Rightarrow> string \<Rightarrow> ('k event, unit) io" where
  "db_DeleteZone env zoneName =
     bind_io (wrap_io (''Query obzone '' @ zoneName @ '' failed'') (db_GetZone env zoneName)) (\<lambda>obzone.
       if col_str obzone ''status'' \<noteq> zone_Inactive
       then raise (OtherError (''OBZone '' @ zoneName @ '' is not inactive, stop it before delete''))
       else wrap_io ''Delete zone'' (ExecWithDefaultTimeout env sql_DeleteZone [SQL_Str zoneName]))"

definition db_StartZone :: "('k, 'x) sdk_env_scheme \<Rightarrow> string \<Rightarrow> ('k event, unit) io" where
  "db_StartZone env zoneName =
     bind_io (wrap_io (''Query obzone '' @ zoneName @ '' failed'') (db_GetZone env zoneName)) (\<lambda>obzone.
       if col_str obzone ''status'' = zone_Active then ret ()
       else wrap_io ''Start zone'' (ExecWithDefaultTimeout env sql_StartZone [SQL_Str zoneName]))"

definition db_StopZone :: "('k, 'x) sdk_env_scheme \<Rightarrow> string \<Rightarrow> ('k event, unit) io" where
  "db_StopZone env zoneName =
     bind_io (wrap_io (''Query obzone '' @ zoneName @ '' failed'') (db_GetZone env zoneName)) (\<lambda>obzone.
       if col_str obzone ''status'' = zone_Inactive then ret ()
       else wrap_io ''Start zone'' (ExecWithDefaultTimeout env sql_StopZone [SQL_Str zoneName]))"

section \<open>Restore\<close>

definition db_SetRestorePassword :: "('k, 'x) sdk_env_scheme \<Rightarrow> string \<Rightarrow> ('k event, unit) io" where
  "db_SetRestorePassword env password =
     wrap_io ''Set restore password'' (ExecWithDefaultTimeout env sql_SetRestorePassword [SQL_Str password])"

definition db_StartRestoreWithLimit ::
  "('k, 'x) sdk_env_scheme \<Rightarrow> string \<Rightarrow> string \<Rightarrow> string \<Rightarrow> string \<Rightarrow> sql_value \<Rightarrow> ('k event, unit) io" where
  "db_StartRestoreWithLimit env tenantName uri restoreOption limitKey limitValue =
     wrap_io ''Start restore with limit''
       (ExecWithTimeout env TenantRestoreTimeout (sql_StartRestoreWithLimit tenantName limitKey)
          [SQL_Str uri, limitValue, SQL_Str restoreOption])"

definition db_StartRestoreUnlimited ::
  "('k, 'x) sdk_env_scheme \<Rightarrow> string \<Rightarrow> string \<Rightarrow> string \<Rightarrow> ('k event, unit) io" where
  "db_StartRestoreUnlimited env tenantName uri restoreOption =
     wrap_io ''Start restore unlimited''
       (ExecWithTimeout env TenantRestoreTimeout (sql_StartRestoreUnlimited tenantName)
          [SQL_Str uri, SQL_Str restoreOption])"

definition db_CancelRestoreOfTenant :: "('k, 'x) sdk_env_scheme \<Rightarrow> string \<Rightarrow> ('k event, unit) io" where
  "db_CancelRestoreOfTenant env tenantName =
     wrap_io ''Cancel restore of tenant'' (ExecWithDefaultTimeout env (sql_CancelRestore tenantName) [])"

definition db_ReplayStandbyLog :: "('k, 'x) sdk_env_scheme \<Rightarrow> string \<Rightarrow> string \<Rightarrow> ('k event, unit) io" where
  "db_ReplayStandbyLog env tenantName untilLimit =
     wrap_io ''Replay standby log'' (ExecWithDefaultTimeout env (sql_ReplayStandbyLog untilLimit) [SQL_Str tenantName])"

definition db_ActivateStandby :: "('k, 'x) sdk_env_scheme \<Rightarrow> string \<Rightarrow> ('k event, unit) io" where
  "db_ActivateStandby env tenantName =
     wrap_io ''Activate standby'' (ExecWithDefaultTimeout env sql_ActivateStandby [SQL_Str tenantName])"

definition db_ListRestoreProgress :: "('k, 'x) sdk_env_scheme \<Rightarrow> ('k event, row list) io" where
  "db_ListRestoreProgress env = wrap_io ''List restore progress'' (QueryList env sql_QueryRestoreProgress [])"

definition db_ListRestoreHistory :: "('k, 'x) sdk_env_scheme \<Rightarrow> ('k event, row list) io" where
  "db_ListRestoreHistory env = wrap_io ''List restore history'' (QueryList env sql_QueryRestoreHistory [])"

definition db_GetLatestRestoreProgressOfTenant :: "('k, 'x) sdk_env_scheme \<Rightarrow> string \<Rightarrow> ('k event, row option) io" where
  "db_GetLatestRestoreProgressOfTenant env tenant =
     first_row (wrap_io ''Get latest restore progress'' (QueryList env sql_GetLatestRestoreProgress [SQL_Str tenant]))"

definition db_GetLatestRestoreHistoryOfTenant :: "('k, 'x) sdk_env_scheme \<Rightarrow> string \<Rightarrow> ('k event, row option) io" where
  "db_GetLatestRestoreHistoryOfTenant env tenant =
     first_row (wrap_io ''Get latest restore history'' (QueryList env sql_GetLatestRestoreHistory [SQL_Str tenant]))"

section \<open>Backup\<close>

definition db_SetLogArchiveDestForTenant :: "('k, 'x) sdk_env_scheme \<Rightarrow> string \<Rightarrow> ('k event, unit) io" where
  "db_SetLogArchiveDestForTenant env uri = db_SetParameter env ''LOG_ARCHIVE_DEST'' (SQL_Str uri) None"

definition db_SetLogArchiveDestState :: "('k, 'x) sdk_env_scheme \<Rightarrow> string \<Rightarrow> ('k event, unit) io" where
  "db_SetLogArchiveDestState env state = db_SetParameter env ''LOG_ARCHIVE_DEST_STATE'' (SQL_Str state) None"

definition db_SetLogArchiveConcurrency :: "('k, 'x) sdk_env_scheme \<Rightarrow> int \<Rightarrow> ('k event, unit) io" where
  "db_SetLogArchiveConcurrency env concurrency = db_SetParameter env ''LOG_ARCHIVE_CONCURRENCY'' (SQL_Int concurrency) None"

definition db_SetDataBackupDestForTenant :: "('k, 'x) sdk_env_scheme \<Rightarrow> string \<Rightarrow> ('k event, unit) io" where
  "db_SetDataBackupDestForTenant env uri = db_SetParameter env ''DATA_BACKUP_DEST'' (SQL_Str uri) None"

definition db_EnableArchiveLogForTenant :: "('k, 'x) sdk_env_scheme \<Rightarrow> ('k event, unit) io" where
  "db_EnableArchiveLogForTenant env = ExecWithDefaultTimeout env sql_EnableArchiveLog []"

definition db_DisableArchiveLogForTenant :: "('k, 'x) sdk_env_scheme \<Rightarrow> ('k event, unit) io" where
  "db_DisableArchiveLogForTenant env = ExecWithDefaultTimeout env sql_DisableArchiveLog []"

definition db_SetBackupPassword :: "('k, 'x) sdk_env_scheme \<Rightarrow> string \<Rightarrow> ('k event, unit) io" where
  "db_SetBackupPassword env password = ExecWithDefaultTimeout env sql_SetBackupPassword [SQL_Str password]"

definition db_CreateBackupFull :: "('k, 'x) sdk_env_scheme \<Rightarrow> ('k event, unit) io" where
  "db_CreateBackupFull env = ExecWithDefaultTimeout env sql_CreateBackupFull []"

definition db_CreateBackupIncr :: "('k, 'x) sdk_env_scheme \<Rightarrow> ('k event, unit) io" where
  "db_CreateBackupIncr env = ExecWithDefaultTimeout env sql_CreateBackupIncr []"

text \<open>The running job, or else the last one of the history.\<close>

definition db_getLatestBackupJob ::
  "('k, 'x) sdk_env_scheme \<Rightarrow> string list \<Rightarrow> sql_value list \<Rightarrow> ('k event, row option) io" where
  "db_getLatestBackupJob env statements params =
     (case statements of
        [running, history] \<Rightarrow>
          bind_io (wrap_io ''Query latest running backup job'' (QueryList env running params)) (\<lambda>jobs. case jobs of
            j # _ \<Rightarrow> ret (Some j)
          | [] \<Rightarrow> first_row (wrap_io ''Query latest backup job history'' (QueryList env history params)))
      | _ \<Rightarrow> raise (OtherError ''unexpected # of statements, require exactly 2 statement''))"

definition db_GetLatestBackupJobOfType :: "('k, 'x) sdk_env_scheme \<Rightarrow> string \<Rightarrow> ('k event, row option) io" where
  "db_GetLatestBackupJobOfType env jobType =
     db_getLatestBackupJob env [sql_QueryLatestBackupJobOfType, sql_QueryLatestBackupJobHistoryOfType] [SQL_Str jobType]"

definition db_GetLatestBackupJobOfTypeAndPath ::
  "('k, 'x) sdk_env_scheme \<Rightarrow> string \<Rightarrow> string \<Rightarrow> ('k event, row option) io" where
  "db_GetLatestBackupJobOfTypeAndPath env jobType path =
     db_getLatestBackupJob env [sql_QueryLatestBackupJobOfTypeAndPath, sql_QueryLatestBackupJobHistoryOfTypeAndPath]
       [SQL_Str jobType, SQL_Str path]"

definition db_CreateAndReturnBackupJob :: "('k, 'x) sdk_env_scheme \<Rightarrow> string \<Rightarrow> ('k event, row option) io" where
  "db_CreateAndReturnBackupJob env jobType =
     (if jobType = ''FULL''
      then bind_io (db_CreateBackupFull env) (\<lambda>_. db_GetLatestBackupJobOfType env jobType)
      else if jobType = ''INC''
      then bind_io (db_CreateBackupIncr env) (\<lambda>_. db_GetLatestBackupJobOfType env jobType)
      else ret None)"

definition db_StopBackupJobOfTenant :: "('k, 'x) sdk_env_scheme \<Rightarrow> ('k event, unit) io" where
  "db_StopBackupJobOfTenant env = ExecWithDefaultTimeout env sql_StopBackupJob []"

definition db_AddCleanBackupPolicy :: "('k, 'x) sdk_env_scheme \<Rightarrow> string \<Rightarrow> string \<Rightarrow> ('k event, unit) io" where
  "db_AddCleanBackupPolicy env policyName recoveryWindow =
     ExecWithDefaultTimeout env sql_AddCleanBackupPolicy [SQL_Str policyName, SQL_Str recoveryWindow]"

definition db_RemoveCleanBackupPolicy :: "('k, 'x) sdk_env_scheme \<Rightarrow> string \<Rightarrow> ('k event, unit) io" where
  "db_RemoveCleanBackupPolicy env policyName =
     ExecWithDefaultTimeout env sql_RemoveCleanBackupPolicy [SQL_Str policyName]"

definition db_CancelCleanBackup :: "('k, 'x) sdk_env_scheme \<Rightarrow> ('k event, unit) io" where
  "db_CancelCleanBackup env = ExecWithDefaultTimeout env sql_CancelCleanBackup []"

definition db_CancelAllCleanBackup :: "('k, 'x) sdk_env_scheme \<Rightarrow> ('k event, unit) io" where
  "db_CancelAllCleanBackup env = ExecWithDefaultTimeout env sql_CancelAllCleanBackup []"

definition db_ListArchiveLog :: "('k, 'x) sdk_env_scheme \<Rightarrow> ('k event, row list) io" where
  "db_ListArchiveLog env = wrap_io ''Query archive log job'' (QueryList env sql_QueryArchiveLog [])"

definition db_ListArchiveLogSummary :: "('k, 'x) sdk_env_scheme \<Rightarrow> ('k event, row list) io" where
  "db_ListArchiveLogSummary env = wrap_io ''Query archive log summary'' (QueryList env sql_QueryArchiveLogSummary [])"

definition db_listBackupJobOrHistory :: "('k, 'x) sdk_env_scheme \<Rightarrow> string \<Rightarrow> ('k event, row list) io" where
  "db_listBackupJobOrHistory env statement = wrap_io ''Query backup history'' (QueryList env statement [])"

definition db_ListBackupJobs :: "('k, 'x) sdk_env_scheme \<Rightarrow> ('k event, row list) io" where
  "db_ListBackupJobs env = db_listBackupJobOrHistory env sql_QueryBackupJobs"

definition db_ListBackupJobHistory :: "('k, 'x) sdk_env_scheme \<Rightarrow> ('k event, row list) io" where
  "db_ListBackupJobHistory env = db_listBackupJobOrHistory env sql_QueryBackupHistory"

definition db_ListBackupCleanPolicy :: "('k, 'x) sdk_env_scheme \<Rightarrow> ('k event, row list) io" where
  "db_ListBackupCleanPolicy env = wrap_io ''Query backup clean policy'' (QueryList env sql_QueryBackupCleanPolicy [])"

definition db_ListBackupCleanJobs :: "('k, 'x) sdk_env_scheme \<Rightarrow> ('k event, row list) io" where
  "db_ListBackupCleanJobs env = wrap_io ''Query backup clean job'' (QueryList env sql_QueryBackupCleanJobs [])"

definition db_ListBackupCleanHistory :: "('k, 'x) sdk_env_scheme \<Rightarrow> ('k event, row list) io" where
  "db_ListBackupCleanHistory env = wrap_io ''Query backup clean history'' (QueryList env sql_QueryBackupCleanJobHistory [])"

definition db_ListArchiveLogParameters :: "('k, 'x) sdk_env_scheme \<Rightarrow> ('k event, row list) io" where
  "db_ListArchiveLogParameters env = wrap_io ''Query archive log configs'' (QueryList env sql_QueryArchiveLogDestConfigs [])"

definition db_ListBackupParameters :: "('k, 'x) sdk_env_scheme \<Rightarrow> ('k event, row list) io" where
  "db_ListBackupParameters env = wrap_io ''Query archive log configs'' (QueryList env sql_QueryBackupParameter [])"

definition db_listBackupTaskOrHistory :: "('k, 'x) sdk_env_scheme \<Rightarrow> string \<Rightarrow> ('k event, row list) io" where
  "db_listBackupTaskOrHistory env statement = wrap_io ''Query backup tasks'' (QueryList env statement [])"

definition db_ListBackupTasks :: "('k, 'x) sdk_env_scheme \<Rightarrow> ('k event, row list) io" where
  "db_ListBackupTasks env = db_listBackupTaskOrHistory env sql_QueryBackupTasks"

definition db_ListBackupTaskHistory :: "('k, 'x) sdk_env_scheme \<Rightarrow> ('k event, row list) io" where
  "db_ListBackupTaskHistory env = db_listBackupTaskOrHistory env sql_QueryBackupTaskHistory"

definition db_GetBackupJobWithId :: "('k, 'x) sdk_env_scheme \<Rightarrow> int \<Rightarrow> ('k event, row option) io" where
  "db_GetBackupJobWithId env jobId =
     bind_io (QueryList env sql_QueryBackupJobWithId [SQL_Int jobId]) (\<lambda>jobs. case jobs of
       j # _ \<Rightarrow> ret (Some j)
     | [] \<Rightarrow> first_row (QueryList env sql_QueryBackupHistoryWithId [SQL_Int jobId]))"

definition db_ListBackupTaskWithJobId :: "('k, 'x) sdk_env_scheme \<Rightarrow> int \<Rightarrow> ('k event, row list) io" where
  "db_ListBackupTaskWithJobId env jobId =
     bind_io (QueryList env sql_QueryBackupTaskWithJobId [SQL_Int jobId]) (\<lambda>tasks.
     bind_io (QueryList env sql_QueryBackupTaskHistoryWithJobId [SQL_Int jobId]) (\<lambda>taskHistory.
       ret (tasks @ taskHistory)))"

definition db_GetLatestBackupCleanJob :: "('k, 'x) sdk_env_scheme \<Rightarrow> ('k event, row option) io" where
  "db_GetLatestBackupCleanJob env =
     bind_io (QueryList env sql_QueryLatestCleanJob []) (\<lambda>jobs. case jobs of
       j # _ \<Rightarrow> ret (Some j)
     | [] \<Rightarrow> first_row (QueryList env sql_QueryLatestCleanJobHistory []))"

definition db_GetLatestArchiveLogJob :: "('k, 'x) sdk_env_scheme \<Rightarrow> ('k event, row option) io" where
  "db_GetLatestArchiveLogJob env = first_row (QueryList env sql_QueryLatestArchiveLogJob [])"

definition db_GetLatestRunningBackupJob :: "('k, 'x) sdk_env_scheme \<Rightarrow> ('k event, row option) io" where
  "db_GetLatestRunningBackupJob env = first_row (QueryList env sql_QueryLatestRunningBackupJob [])"

section \<open>Lemmas\<close>

lemma ExecWithTimeout_Ok_iff:
  "ExecWithTimeout env timeout sql params h = (Ok u, h') \<longleftrightarrow>
    conn_exec env h sql params = Inr () \<and> h' = h @ [Executed timeout sql params (Inr ())]"
  by (auto simp: ExecWithTimeout_def perform_Ok_iff)

lemma QueryCount_Ok_iff:
  "QueryCount env sql params h = (Ok n, h') \<longleftrightarrow>
    conn_count env h sql params = Inr n \<and> h' = h @ [Counted sql params (Inr n)]"
  by (auto simp: QueryCount_def perform_Ok_iff)

lemma exec_prepared_Ok_iff:
  "exec_prepared env msg timeout p h = (Ok u, h') \<longleftrightarrow>
    conn_exec env h (fst p) (snd p) = Inr () \<and> h' = h @ [Executed timeout (fst p) (snd p) (Inr ())]"
  by (simp add: exec_prepared_def ExecWithTimeout_Ok_iff)

lemma exists_by_count_Ok_iff:
  "exists_by_count env msg sql params h = (Ok b, h') \<longleftrightarrow>
    (\<exists>n. conn_count env h sql params = Inr n \<and> h' = h @ [Counted sql params (Inr n)] \<and> b = (n \<noteq> 0))"
  by (auto simp: exists_by_count_def bind_Ok_iff QueryCount_Ok_iff)

lemmas db_Ok_iffs = ExecWithTimeout_Ok_iff QueryCount_Ok_iff exec_prepared_Ok_iff exists_by_count_Ok_iff

lemma extends_db [io_extends, simp]:
  "extends (ExecWithTimeout env timeout sql params)" "extends (QueryRow env sql params)"
  "extends (QueryList env sql params)" "extends (QueryCount env sql params)"
  "extends (exec_prepared env msg timeout p)" "extends (exists_by_count env msg sql params)"
  by (auto simp: ExecWithTimeout_def QueryRow_def QueryList_def QueryCount_def exec_prepared_def exists_by_count_def
      intro!: io_extends)

text \<open>A database that accepts every statement and has no rows.\<close>

definition quiet_db :: "'k sdk_env" where
  "quiet_db = \<lparr>conn_exec = (\<lambda>_ _ _. Inr ()), conn_count = (\<lambda>_ _ _. Inr 0), conn_row = (\<lambda>_ _ _. Inr []),
     conn_rows = (\<lambda>_ _ _. Inr [])\<rparr>"

definition stopped_db :: "unit sdk_env" where
  "stopped_db = quiet_db\<lparr>conn_row := \<lambda>_ _ _. Inr [(''status'', SQL_Str ''inactive'')]\<rparr>"

section \<open>Properties\<close>

text \<open>
  A zone is dropped only when it was just read as inactive: whatever the database
  answers, a \<^verbatim>\<open>DROP ZONE\<close> statement of \<^verbatim>\<open>DeleteZone\<close> directly follows a read of that zone
  with the status inactive, and no other statement is executed.
\<close>

theorem delete_zone_only_inactive:
  assumes "Executed timeout sql params r \<in> set (drop (length h) (snd (db_DeleteZone env zoneName h)))"
  shows "sql = sql_DeleteZone \<and> params = [SQL_Str zoneName] \<and>
    (\<exists>obzone. drop (length h) (snd (db_DeleteZone env zoneName h)) =
       [RowRead sql_GetZone [SQL_Str zoneName] (Inr obzone), Executed timeout sql params r] \<and>
     col_str obzone ''status'' = zone_Inactive)"
  using assms
  by (auto simp: db_DeleteZone_def db_GetZone_def QueryRow_def ExecWithDefaultTimeout_def ExecWithTimeout_def io_defs
      split: sum.splits if_splits)

theorem delete_zone_only_inactive_witness:
  "\<exists>obzone. snd (db_DeleteZone stopped_db ''z1'' []) =
      [RowRead sql_GetZone [SQL_Str ''z1''] (Inr obzone),
       Executed DefaultSqlTimeout sql_DeleteZone [SQL_Str ''z1''] (Inr ())] \<and>
    col_str obzone ''status'' = zone_Inactive"
  using delete_zone_only_inactive [of DefaultSqlTimeout sql_DeleteZone "[SQL_Str ''z1'']" "Inr ()" "[]" stopped_db "''z1''"]
  by (simp add: stopped_db_def quiet_db_def db_DeleteZone_def db_GetZone_def QueryRow_def ExecWithDefaultTimeout_def
      ExecWithTimeout_def io_defs col_str_def zone_Inactive_def)

text \<open>
  Waiting for a locality change reports success as soon as the tenant cannot be read,
  although nothing is known about the change.
\<close>

theorem wait_locality_read_error_succeeds:
  assumes "conn_row env h sql_GetTenantByName [SQL_Str name] = Inl err" "0 < timeoutSeconds"
  shows "fst (db_WaitTenantLocalityChangeFinished env name timeoutSeconds h) = Ok ()"
  using assms by (cases timeoutSeconds) (auto simp: db_GetTenantByName_def QueryRow_def io_defs)

theorem wait_locality_read_error_succeeds_witness:
  "fst (db_WaitTenantLocalityChangeFinished (quiet_db\<lparr>conn_row := \<lambda>_ _ _. Inl (OtherError ''refused'')\<rparr>)
     ''sys'' 5 ([] :: unit event list)) = Ok ()"
  by (rule wait_locality_read_error_succeeds [where err = "OtherError ''refused''"]) simp_all

end
