(* ===== verification/OBTenant_Tasks.thy ===== *)
theory OBTenant_Tasks
  imports OBTenant OBCluster_Tasks SDK
begin

text \<open>
  The tasks of a tenant, \<^verbatim>\<open>internal/resource/obtenant/obtenant_task.go\<close> and the helpers of
  \<^verbatim>\<open>utils.go\<close>, as programs over the log of their interactions with the database and the API
  server. \<^verbatim>\<open>AutoConvert\<close> of \<^verbatim>\<open>pkg/helper/converter\<close> is here too.
\<close>

section \<open>Interactions\<close>

text \<open>The restore job a tenant creates: its name, target, source and option.\<close>

record TenantRestoreJob =
  Job_Name :: string
  Job_Namespace :: string
  Job_TargetTenant :: string
  Job_TargetCluster :: string
  Job_RestoreRole :: string
  Job_Source :: RestoreSourceSpec
  Job_Option :: string
  Job_PrimaryTenant :: "string option"

text \<open>
  The calls of the API server with their answers, and the stores into the process-wide map
  of white lists.
\<close>

datatype tenant_api =
    ListRestoreJobs "nat result"
  | CreateRestoreJob TenantRestoreJob "unit result"
  | GetRestoreStatus string "string result"
  | DeleteRestoreJob string "unit result"
  | DeleteTenantCR "unit result"
  | CreateParameterCR string Parameter "unit result"
  | UpdateParameterCR string string "unit result"
  | DeleteParameterCR string "unit result"
  | CreateVariableCR string Variable "unit result"
  | UpdateVariableCR string string "unit result"
  | DeleteVariableCR string "unit result"
  | ReadPassword string "string result"
  | CreateSecret string "string result"
  | GetTenantCR string string "OBTenant result"
  | RunOptimizeJob "((string \<times> sql_value) list \<times> (string \<times> sql_value) list) option result"
  | StoreWhiteList string string
  | ReadSecretData string "(string \<times> string) list result"
  | UpdateTenantStatus string OBTenant "unit result"
  | PatchTenant OBTenant OBTenant "bool result"

type_synonym tlog = "tenant_api event list"
type_synonym 'a tenant_io = "(tenant_api event, 'a) io"

text \<open>
  The environment of a task: the database, the API server, the number of rounds before a
  timer fires, the order of map iteration and \<^verbatim>\<open>ParseFloat\<close>.
\<close>

record task_env = "tenant_api sdk_env" +
  connect_sys :: "tlog \<Rightarrow> unit result"
  connect_tenant :: "tlog \<Rightarrow> unit result"
  list_restore_jobs :: "tlog \<Rightarrow> nat result"
  create_restore_job :: "tlog \<Rightarrow> TenantRestoreJob \<Rightarrow> unit result"
  get_restore_status :: "tlog \<Rightarrow> string \<Rightarrow> string result"
  delete_restore_job :: "tlog \<Rightarrow> string \<Rightarrow> unit result"
  delete_tenant_cr :: "tlog \<Rightarrow> unit result"
  write_cr :: "tlog \<Rightarrow> string \<Rightarrow> unit result"
  read_password :: "tlog \<Rightarrow> string \<Rightarrow> string result"
  create_secret :: "tlog \<Rightarrow> string \<Rightarrow> string result"
  get_tenant_cr :: "tlog \<Rightarrow> string \<Rightarrow> string \<Rightarrow> OBTenant result"
  optimize_job :: "tlog \<Rightarrow> ((string \<times> sql_value) list \<times> (string \<times> sql_value) list) option result"
  job_rounds :: nat
  upgrade_rounds :: nat
  quantity_conv :: tenant_env
  parse_quantity :: "string \<Rightarrow> Quantity result"
  range_parameters :: "(string \<times> Parameter) list \<Rightarrow> (string \<times> Parameter) list"
  range_variables :: "(string \<times> Variable) list \<Rightarrow> (string \<times> Variable) list"
  ParseFloat :: "string \<Rightarrow> real option"

definition sysClient :: "'x task_env_scheme \<Rightarrow> string \<Rightarrow> unit tenant_io" where
  "sysClient env msg = wrap_io msg (perform (connect_sys env) SysConnected)"

definition tenantClient :: "'x task_env_scheme \<Rightarrow> unit tenant_io" where
  "tenantClient env = perform (connect_tenant env) TenantConnected"

definition api :: "(tlog \<Rightarrow> 'a result) \<Rightarrow> ('a result \<Rightarrow> tenant_api) \<Rightarrow> 'a tenant_io" where
  "api answer call = perform answer (\<lambda>r. ApiCall (call r))"

definition store_white_list :: "string \<Rightarrow> string \<Rightarrow> unit tenant_io" where
  "store_white_list name whiteList = perform (\<lambda>_. Inr ()) (\<lambda>_. ApiCall (StoreWhiteList name whiteList))"

section \<open>Conversion of values\<close>

datatype converted = ConvInt int | ConvFloat real | ConvBool bool | ConvString string

definition ParseBool :: "string \<Rightarrow> bool option" where
  "ParseBool s =
     (if s \<in> set [''1'', ''t'', ''T'', ''TRUE'', ''true'', ''True''] then Some True
      else if s \<in> set [''0'', ''f'', ''F'', ''FALSE'', ''false'', ''False''] then Some False
      else None)"

definition AutoConvert :: "(string \<Rightarrow> real option) \<Rightarrow> string \<Rightarrow> converted" where
  "AutoConvert parse val =
     (case Atoi val of
        (i, True) \<Rightarrow> ConvInt i
      | (_, False) \<Rightarrow>
          (case parse val of
             Some f \<Rightarrow> ConvFloat f
           | None \<Rightarrow> (case ParseBool val of Some b \<Rightarrow> ConvBool b | None \<Rightarrow> ConvString val)))"

text \<open>\<^verbatim>\<open>%.0f\<close> rounds to the nearest integer, to an even one in the middle.\<close>

definition round_even :: "real \<Rightarrow> int" where
  "round_even x =
     (if 2 * (x - of_int \<lfloor>x\<rfloor>) < 1 \<or> (2 * (x - of_int \<lfloor>x\<rfloor>) = 1 \<and> even \<lfloor>x\<rfloor>) then \<lfloor>x\<rfloor> else \<lfloor>x\<rfloor> + 1)"

fun ConvertToString :: "converted \<Rightarrow> string" where
  "ConvertToString (ConvString s) = s"
| "ConvertToString (ConvFloat f) = show_int (round_even f)"
| "ConvertToString (ConvInt i) = show_int i"
| "ConvertToString (ConvBool b) = (if b then ''true'' else ''false'')"

definition variable_setting :: "task_env \<Rightarrow> Variable \<Rightarrow> string" where
  "variable_setting env v =
     Var_Name v @ '' = '' @
       (case AutoConvert (ParseFloat env) (Var_Value v) of ConvString s \<Rightarrow> quoted s | c \<Rightarrow> ConvertToString c)"

section \<open>Names and lists\<close>

definition OBTcpInvitedNodes :: string where
  "OBTcpInvitedNodes = ''ob_tcp_invited_nodes''"

definition generateWhiteListInVariableForm :: "string \<Rightarrow> string" where
  "generateWhiteListInVariableForm whiteList =
     OBTcpInvitedNodes @ '' = '' @ quoted (if whiteList = [] then DefaultOBTcpInvitedNodes else whiteList)"

definition generateSpecPoolList :: "OBTenant \<Rightarrow> string list" where
  "generateSpecPoolList m = map (\<lambda>pool. generatePoolName m (Pool_Zone pool)) (TenantSpec_Pools m)"

definition generateStatusPoolList :: "OBTenant \<Rightarrow> ResourcePoolStatus list \<Rightarrow> string list" where
  "generateStatusPoolList m pools = map (\<lambda>pool. generatePoolName m (PS_ZoneList pool)) pools"

definition generateModelUnitConfigV4SQLParam :: "string \<Rightarrow> UnitConfigV4 \<Rightarrow> UnitConfigV4SQLParam" where
  "generateModelUnitConfigV4SQLParam name u =
     \<lparr>UP_UnitConfigName = name, UP_MaxCPU = V4_MaxCPU u, UP_MinCPU = V4_MinCPU u, UP_MemorySize = V4_MemorySize u,
      UP_MaxIops = V4_MaxIops u, UP_MinIops = V4_MinIops u, UP_LogDiskSize = V4_LogDiskSize u,
      UP_IopsWeight = V4_IopsWeight u\<rparr>"

definition generateRestoreOption :: "OBTenant \<Rightarrow> string option" where
  "generateRestoreOption m = do {
     primaryZone \<leftarrow> generateSpecPrimaryZone (TenantSpec_Pools m);
     locality \<leftarrow> generateLocality (TenantSpec_Pools m);
     Some (''pool_list='' @ Join (generateSpecPoolList m) '','' @ ''&primary_zone='' @ primaryZone @
       ''&locality='' @ locality) }"

definition OBTenantManager_generateParameterName :: "OBTenant \<Rightarrow> string \<Rightarrow> string" where
  "OBTenantManager_generateParameterName m name =
     ''param-'' @ TenantSpec_ClusterName m @ ''-'' @ Name m @ ''-'' @ dashes name"

definition OBTenantManager_generateVariableName :: "OBTenant \<Rightarrow> string \<Rightarrow> string" where
  "OBTenantManager_generateVariableName m name =
     ''var-'' @ TenantSpec_ClusterName m @ ''-'' @ Name m @ ''-'' @ dashes name"

section \<open>Existence checks\<close>

definition tenantExist :: "task_env \<Rightarrow> string \<Rightarrow> bool tenant_io" where
  "tenantExist env name =
     bind_io (sysClient env ''Failed to get sql operator error when check whether tenant exist'')
       (\<lambda>_. db_CheckTenantExistByName env name)"

definition poolExist :: "task_env \<Rightarrow> string \<Rightarrow> bool tenant_io" where
  "poolExist env name =
     bind_io (sysClient env ''Failed to get sql operator error when check whether pool exist'')
       (\<lambda>_. db_CheckPoolExistByName env name)"

definition unitConfigV4Exist :: "task_env \<Rightarrow> string \<Rightarrow> bool tenant_io" where
  "unitConfigV4Exist env name =
     bind_io (sysClient env ''Failed to get sql operator error when check whether unitconfigv4 exist'')
       (\<lambda>_. db_CheckUnitConfigExistByName env name)"

definition getPoolByName :: "task_env \<Rightarrow> string \<Rightarrow> row tenant_io" where
  "getPoolByName env name =
     bind_io (sysClient env ''Failed to get sql operator error when getting pool by poolname'')
       (\<lambda>_. db_GetPoolByName env name)"

definition getUnitConfigV4ByName :: "task_env \<Rightarrow> string \<Rightarrow> row tenant_io" where
  "getUnitConfigV4ByName env name =
     bind_io (sysClient env ''Failed to get sql operator error when getting unitconfigv4 by unitconfig name'')
       (\<lambda>_. db_GetUnitConfigV4ByName env name)"

section \<open>Creating a tenant\<close>

definition CheckTenant :: "task_env \<Rightarrow> OBTenant \<Rightarrow> unit tenant_io" where
  "CheckTenant env m =
     bind_io (tenantExist env (TenantSpec_TenantName m))
       (\<lambda>exist. if exist then raise (OtherError ''tenant has exist'') else ret ())"

text \<open>
  The checks of \<^verbatim>\<open>CheckPoolAndConfig\<close> for the pools. An existing pool or unit ends the whole
  check with a nil error.
\<close>

primrec check_pools :: "task_env \<Rightarrow> OBTenant \<Rightarrow> Quantity \<Rightarrow> ResourcePoolSpec list \<Rightarrow> unit tenant_io" where
  "check_pools env m minMemory [] = ret ()"
| "check_pools env m minMemory (pool # pools) =
     bind_io (poolExist env (generatePoolName m (Pool_Zone pool))) (\<lambda>exist.
       if exist then ret ()
       else bind_io (unitConfigV4Exist env (generateUnitName m (Pool_Zone pool))) (\<lambda>unitExist.
         if unitExist then ret ()
         else if MemorySize (Pool_UnitConfig pool) < minMemory
         then raise (OtherError ''pool memory size is less than min_full_resource_pool_memory'')
         else check_pools env m minMemory pools))"

definition CheckPoolAndConfig :: "task_env \<Rightarrow> OBTenant \<Rightarrow> unit tenant_io" where
  "CheckPoolAndConfig env m =
     bind_io (sysClient env ''Get sys client when checking and applying tenant pool and config'') (\<lambda>_.
     bind_io (wrap_io ''Get parameter __min_full_resource_pool_memory''
        (db_GetParameter env ''__min_full_resource_pool_memory'' None)) (\<lambda>params.
       case params of
         [] \<Rightarrow> raise (OtherError ''Getting parameter __min_full_resource_pool_memory returns empty result'')
       | p # _ \<Rightarrow>
           (case parse_quantity env (col_str p ''value'') of
              Inl err \<Rightarrow> raise (wrap ''Parse quantity when checking and applying tenant pool and config'' err)
            | Inr minMemory \<Rightarrow> check_pools env m minMemory (TenantSpec_Pools m))))"

definition createUnitConfigV4 :: "task_env \<Rightarrow> OBTenant \<Rightarrow> string \<Rightarrow> UnitConfig \<Rightarrow> unit tenant_io" where
  "createUnitConfigV4 env m unitName unitConfig =
     (let unitModel = generateModelUnitConfigV4SQLParam unitName (generateModelUnitConfigV4 (quantity_conv env) unitConfig)
      in if UP_MemorySize unitModel = 0 then raise (OtherError ''unit memorySize is empty'')
         else bind_io (sysClient env ''Failed to get sql operator error when creating resource unitconfigv4'')
                (\<lambda>_. db_AddUnitConfigV4 env unitModel))"

definition createPool :: "task_env \<Rightarrow> OBTenant \<Rightarrow> string \<Rightarrow> string \<Rightarrow> ResourcePoolSpec \<Rightarrow> unit tenant_io" where
  "createPool env m poolName unitName pool =
     bind_io (sysClient env ''Failed to get sql operator error when creating resource pool'')
       (\<lambda>_. db_AddPool env \<lparr>PP_PoolName = poolName, PP_UnitNum = TenantSpec_UnitNumber m, PP_ZoneList = Pool_Zone pool,
          PP_UnitName = unitName\<rparr>)"

definition createUnitAndPoolV4 :: "task_env \<Rightarrow> OBTenant \<Rightarrow> ResourcePoolSpec \<Rightarrow> unit tenant_io" where
  "createUnitAndPoolV4 env m pool =
     (let unitName = generateUnitName m (Pool_Zone pool); poolName = generatePoolName m (Pool_Zone pool)
      in bind_io (createUnitConfigV4 env m unitName (Pool_UnitConfig pool)) (\<lambda>_. createPool env m poolName unitName pool))"

definition CreateResourcePoolAndConfig :: "task_env \<Rightarrow> OBTenant \<Rightarrow> unit tenant_io" where
  "CreateResourcePoolAndConfig env m = each_io (createUnitAndPoolV4 env m) (TenantSpec_Pools m)"

definition tenant_variables :: "task_env \<Rightarrow> OBTenant \<Rightarrow> string list" where
  "tenant_variables env m =
     map (variable_setting env) (TenantSpec_Variables m) @
     (if list_ex (\<lambda>v. Var_Name v = OBTcpInvitedNodes) (TenantSpec_Variables m) then []
      else [generateWhiteListInVariableForm (TenantSpec_ConnectWhiteList m)])"

definition createTenant :: "task_env \<Rightarrow> OBTenant \<Rightarrow> unit tenant_io" where
  "createTenant env m =
     bind_io (sysClient env ''Failed to get sql operator error when creating tenant'') (\<lambda>_.
     bind_io (deref_io (generateSpecPrimaryZone (TenantSpec_Pools m))) (\<lambda>primaryZone.
     bind_io (deref_io (generateLocality (TenantSpec_Pools m))) (\<lambda>locality.
     bind_io (db_AddTenant env \<lparr>TP_TenantName = TenantSpec_TenantName m, TP_PrimaryZone = primaryZone,
        TP_Locality = locality, TP_PoolList = generateSpecPoolList m, TP_Charset = spec_charset m,
        TP_Collate = TenantSpec_Collate m, TP_VariableList = Join (tenant_variables env m) '', ''\<rparr>) (\<lambda>_.
       store_white_list (TenantSpec_TenantName m) (TenantSpec_ConnectWhiteList m)))))"

section \<open>Deleting a tenant\<close>

definition deleteTenant :: "task_env \<Rightarrow> OBTenant \<Rightarrow> unit tenant_io" where
  "deleteTenant env m =
     bind_io (sysClient env ''Failed to get sql operator when deleting tenant'') (\<lambda>_.
     bind_io (tenantExist env (TenantSpec_TenantName m)) (\<lambda>exist.
       if exist then db_DeleteTenant env (TenantSpec_TenantName m) (TenantSpec_ForceDelete m) else ret ()))"

definition delete_one_pool :: "task_env \<Rightarrow> string \<Rightarrow> unit tenant_io" where
  "delete_one_pool env poolName =
     bind_io (poolExist env poolName) (\<lambda>exist. if exist then db_DeletePool env poolName else ret ())"

definition delete_one_unit :: "task_env \<Rightarrow> string \<Rightarrow> unit tenant_io" where
  "delete_one_unit env unitName =
     bind_io (unitConfigV4Exist env unitName) (\<lambda>exist. if exist then db_DeleteUnitConfig env unitName else ret ())"

definition deletePool :: "task_env \<Rightarrow> OBTenant \<Rightarrow> unit tenant_io" where
  "deletePool env m =
     bind_io (sysClient env ''Failed to get operation manager when deleting pool'') (\<lambda>_.
       each_io (\<lambda>zone. delete_one_pool env (generatePoolName m (Pool_Zone zone))) (TenantSpec_Pools m))"

definition deleteUnitConfig :: "task_env \<Rightarrow> OBTenant \<Rightarrow> unit tenant_io" where
  "deleteUnitConfig env m =
     bind_io (sysClient env ''Failed to get sql operator when deleting unit'') (\<lambda>_.
       each_io (\<lambda>zone. delete_one_unit env (generateUnitName m (Pool_Zone zone))) (TenantSpec_Pools m))"

definition DeleteTenant :: "task_env \<Rightarrow> OBTenant \<Rightarrow> unit tenant_io" where
  "DeleteTenant env m =
     bind_io (deleteTenant env m) (\<lambda>_. bind_io (deletePool env m) (\<lambda>_. deleteUnitConfig env m))"

text \<open>
  Creation with clean up: when it fails, everything is deleted and the first error is
  returned, or the wrapped one of the deletion.
\<close>

definition with_clear :: "task_env \<Rightarrow> OBTenant \<Rightarrow> unit tenant_io \<Rightarrow> unit tenant_io" where
  "with_clear env m f =
     bind_io (catch_io f) (\<lambda>r. case r of
       Inr _ \<Rightarrow> ret ()
     | Inl err \<Rightarrow> bind_io (wrap_io ''delete tenant when creating tenant'' (DeleteTenant env m)) (\<lambda>_. raise err))"

definition CreateTenantTask :: "task_env \<Rightarrow> OBTenant \<Rightarrow> unit tenant_io" where
  "CreateTenantTask env m = createTenant env m"

definition CreateTenantWithClear :: "task_env \<Rightarrow> OBTenant \<Rightarrow> unit tenant_io" where
  "CreateTenantWithClear env m = with_clear env m (CreateTenantTask env m)"

definition CreateResourcePoolAndConfigTaskWithClear :: "task_env \<Rightarrow> OBTenant \<Rightarrow> unit tenant_io" where
  "CreateResourcePoolAndConfigTaskWithClear env m = with_clear env m (CreateResourcePoolAndConfig env m)"

section \<open>Adding and deleting pools\<close>

text \<open>Waiting until no job alters the tenant's locality.\<close>

definition wait_rs_job :: "task_env \<Rightarrow> OBTenant \<Rightarrow> string \<Rightarrow> unit tenant_io" where
  "wait_rs_job env m msg =
     wrap_io msg (CheckJobWithTimeout (job_rounds env)
       (bind_io (wrap_io ''Get RsJob''
          (db_CheckRsJobExistByTenantID env (Info_TenantID (TenantStatus_TenantRecordInfo m)))) (\<lambda>exist. ret (\<not> exist))))"

definition added_status :: "OBTenant \<Rightarrow> ResourcePoolSpec \<Rightarrow> ResourcePoolStatus" where
  "added_status m pool = \<lparr>PS_ZoneList = Pool_Zone pool, PS_Units = [], PS_Priority = 0, PS_Type = Pool_Type pool,
     PS_UnitConfig = no_unit_config, PS_UnitNumber = TenantSpec_UnitNumber m\<rparr>"

definition tenantAddPool :: "task_env \<Rightarrow> OBTenant \<Rightarrow> ResourcePoolSpec \<Rightarrow> unit tenant_io" where
  "tenantAddPool env m poolAdd =
     bind_io (sysClient env ''Failed to get sql operator when processing tenant -- add pool'') (\<lambda>_.
     bind_io (createUnitAndPoolV4 env m poolAdd) (\<lambda>_.
       let resourcePoolStatusList = TenantStatus_Pools m @ [added_status m poolAdd]
       in bind_io (deref_io (generateLocalityList (generateStatusLocalityMap resourcePoolStatusList))) (\<lambda>localityList.
          bind_io (deref_io (generateSpecPrimaryZone (TenantSpec_Pools m))) (\<lambda>specPrimaryZone.
          bind_io (db_SetTenant env (no_tenant_param\<lparr>TP_TenantName := TenantSpec_TenantName m,
             TP_Locality := Join localityList '','', TP_PoolList := generateStatusPoolList m resourcePoolStatusList,
             TP_PrimaryZone := specPrimaryZone\<rparr>)) (\<lambda>_.
            wait_rs_job env m ''Failed to wait for tenant 'ALTER_TENANT' job for adding pool'')))))"

definition AddPool :: "task_env \<Rightarrow> OBTenant \<Rightarrow> unit tenant_io" where
  "AddPool env m = each_io (tenantAddPool env m) (getPoolsForAdd m)"

definition TenantDeletePool :: "task_env \<Rightarrow> OBTenant \<Rightarrow> ResourcePoolStatus \<Rightarrow> unit tenant_io" where
  "TenantDeletePool env m poolDelete =
     (let zoneList = filter (\<lambda>zone. PS_ZoneList zone \<noteq> PS_ZoneList poolDelete) (TenantStatus_Pools m)
      in bind_io (sysClient env ''Failed to get sql operator when processing tenant -- delete pool'') (\<lambda>_.
         bind_io (deref_io (generateLocalityList (generateStatusLocalityMap zoneList))) (\<lambda>localityList.
         bind_io (deref_io (generateSpecPrimaryZone (TenantSpec_Pools m))) (\<lambda>specPrimaryZone.
         bind_io (db_SetTenant env (no_tenant_param\<lparr>TP_TenantName := TenantSpec_TenantName m,
            TP_Locality := Join localityList '',''\<rparr>)) (\<lambda>_.
         bind_io (wait_rs_job env m ''Failed to wait for tenant 'ALTER_TENANT' job for deleting pool'') (\<lambda>_.
         bind_io (db_SetTenant env (no_tenant_param\<lparr>TP_TenantName := TenantSpec_TenantName m,
            TP_PoolList := generateStatusPoolList m zoneList, TP_PrimaryZone := specPrimaryZone\<rparr>)) (\<lambda>_.
         bind_io (delete_one_pool env (generatePoolName m (PS_ZoneList poolDelete))) (\<lambda>_.
           delete_one_unit env (generateUnitName m (PS_ZoneList poolDelete))))))))))"

definition DeletePool :: "task_env \<Rightarrow> OBTenant \<Rightarrow> unit tenant_io" where
  "DeletePool env m = each_io (TenantDeletePool env m) (getPoolsForDelete m)"

section \<open>Keeping a tenant as specified\<close>

definition setUnitConfigV4 :: "task_env \<Rightarrow> string \<Rightarrow> UnitConfigV4 \<Rightarrow> unit tenant_io" where
  "setUnitConfigV4 env unitName u =
     bind_io (sysClient env ''Failed to get sql operator when checking and setting unit config for tenant '')
       (\<lambda>_. db_SetUnitConfigV4 env (generateModelUnitConfigV4SQLParam unitName u))"

definition CheckAndApplyUnitConfigV4 :: "task_env \<Rightarrow> OBTenant \<Rightarrow> unit tenant_io" where
  "CheckAndApplyUnitConfigV4 env m =
     each_io (\<lambda>pool.
       if unit_differs (quantity_conv env) m (Pool_Zone pool)
       then bind_io (deref_io (assigned (generateSpecUnitConfigV4Map (quantity_conv env) m) (Pool_Zone pool)))
              (setUnitConfigV4 env (generateUnitName m (Pool_Zone pool)))
       else ret ()) (TenantSpec_Pools m)"

text \<open>The version of the servers; a nil version is dereferenced.\<close>

definition getOBVersion :: "task_env \<Rightarrow> string tenant_io" where
  "getOBVersion env =
     bind_io (sysClient env ''Failed to get sql operator error when getting ob version'') (\<lambda>_.
     bind_io (wrap_io ''Tenant get ob version from db failed'' (db_GetVersion env)) (\<lambda>version.
     bind_io (deref_io version) (\<lambda>v. ret (SV_Version v))))"

definition MaintainUnitConfig :: "task_env \<Rightarrow> OBTenant \<Rightarrow> unit tenant_io" where
  "MaintainUnitConfig env m =
     bind_io (getOBVersion env) (\<lambda>version.
       case version of
         [] \<Rightarrow> panic
       | c # _ \<Rightarrow> if c = CHR ''4'' then CheckAndApplyUnitConfigV4 env m
                  else raise (OtherError ''no match version for check and set unit config''))"

definition CheckAndApplyCharset :: "task_env \<Rightarrow> OBTenant \<Rightarrow> unit tenant_io" where
  "CheckAndApplyCharset env m =
     bind_io (sysClient env ''Get sql operator when checking and applying tenant charset'') (\<lambda>_.
       if hasModifiedCharset m
       then db_SetTenant env (no_tenant_param\<lparr>TP_TenantName := TenantSpec_TenantName m, TP_Charset := spec_charset m\<rparr>)
       else ret ())"

definition CheckAndApplyUnitNum :: "task_env \<Rightarrow> OBTenant \<Rightarrow> unit tenant_io" where
  "CheckAndApplyUnitNum env m =
     bind_io (sysClient env ''Get sql operator when checking and applying unitnum of tenant'') (\<lambda>_.
       if hasModifiedUnitNum m then db_SetTenantUnitNum env (TenantSpec_TenantName m) (TenantSpec_UnitNumber m) else ret ())"

definition CheckAndApplyWhiteList :: "task_env \<Rightarrow> OBTenant \<Rightarrow> unit tenant_io" where
  "CheckAndApplyWhiteList env m =
     bind_io (sysClient env ''Get sql operator when checking and applying ob_tcp_invited_nodes for tenant'') (\<lambda>_.
       if hasModifiedWhiteList m
       then bind_io (db_SetTenantVariable env (TenantSpec_TenantName m) (generateWhiteListInVariableForm (spec_white_list m)))
              (\<lambda>_. store_white_list (TenantSpec_TenantName m) (spec_white_list m))
       else ret ())"

definition MaintainWhiteListTask :: "task_env \<Rightarrow> OBTenant \<Rightarrow> unit tenant_io" where
  "MaintainWhiteListTask env m = CheckAndApplyWhiteList env m"

definition CheckAndApplyPrimaryZone :: "task_env \<Rightarrow> OBTenant \<Rightarrow> unit tenant_io" where
  "CheckAndApplyPrimaryZone env m =
     bind_io (sysClient env ''Get sql operator when processing priority of tenant'') (\<lambda>_.
     bind_io (deref_io (hasModifiedPrimaryZone m)) (\<lambda>modified.
     bind_io (deref_io (generateSpecPrimaryZone (TenantSpec_Pools m))) (\<lambda>specPrimaryZone.
       if modified
       then db_SetTenant env (no_tenant_param\<lparr>TP_TenantName := TenantSpec_TenantName m, TP_PrimaryZone := specPrimaryZone\<rparr>)
       else ret ())))"

definition CheckAndApplyLocality :: "task_env \<Rightarrow> OBTenant \<Rightarrow> unit tenant_io" where
  "CheckAndApplyLocality env m =
     bind_io (sysClient env ''Get sql operator when prcoessing tenant locality'') (\<lambda>_.
     bind_io (deref_io (hasModifiedLocality m)) (\<lambda>modified.
     bind_io (if modified
        then bind_io (deref_io (generateLocality (TenantSpec_Pools m))) (\<lambda>locality.
          db_SetTenant env (no_tenant_param\<lparr>TP_TenantName := TenantSpec_TenantName m, TP_Locality := locality\<rparr>))
        else ret ()) (\<lambda>_.
       wait_rs_job env m ''Failed to wait for 'ALTER_TENANT' job of adding pool task to finish'')))"

section \<open>Standby and restored tenants\<close>

text \<open>A name of the form \<^verbatim>\<open>ns/name\<close> names a tenant of another namespace.\<close>

definition getOBTenantInK8s :: "'x task_env_scheme \<Rightarrow> string \<Rightarrow> string \<Rightarrow> OBTenant tenant_io" where
  "getOBTenantInK8s env ns tenantCR =
     (let (finalNs, finalName) = (case Split tenantCR ''/'' of [a, b] \<Rightarrow> (a, b) | _ \<Rightarrow> (ns, tenantCR))
      in bind_io (catch_io (api (\<lambda>h. get_tenant_cr env h finalNs finalName) (GetTenantCR finalNs finalName))) (\<lambda>r.
           case r of
             Inr tenant \<Rightarrow> ret tenant
           | Inl err \<Rightarrow> if is_not_found err then raise (OtherError ''tenant not found'') else raise err))"

definition GetTenantRestoreSource :: "'x task_env_scheme \<Rightarrow> string \<Rightarrow> string \<Rightarrow> string tenant_io" where
  "GetTenantRestoreSource env ns tenantCR =
     bind_io (getOBTenantInK8s env ns tenantCR) (\<lambda>tenant.
     bind_io (sysClient env ''get oceanbase operation manager'') (\<lambda>_.
     bind_io (db_ListTenantAccessPoints env (TenantSpec_TenantName tenant)) (\<lambda>aps.
       let secret = Cred_StandbyRO (TenantStatus_Credentials tenant);
           ipList = map (\<lambda>ap. col_str ap ''svr_ip'' @ '':'' @ show_int (col_int ap ''sql_port'')) aps
       in bind_io (api (\<lambda>h. read_password env h secret) (ReadPassword secret)) (\<lambda>standbyRoPwd.
            ret (''SERVICE='' @ Join ipList '';'' @ '' USER=standbyro@'' @ TenantSpec_TenantName tenant @
              '' PASSWORD='' @ standbyRoPwd)))))"

definition CheckTenantLSIntegrity :: "'x task_env_scheme \<Rightarrow> string \<Rightarrow> string \<Rightarrow> unit tenant_io" where
  "CheckTenantLSIntegrity env ns tenantCR =
     bind_io (getOBTenantInK8s env ns tenantCR) (\<lambda>tenant.
     let tenantID = Info_TenantID (TenantStatus_TenantRecordInfo tenant)
     in bind_io (sysClient env ''get oceanbase operation manager'') (\<lambda>_.
        bind_io (db_ListLSDeletion env tenantID) (\<lambda>lsDeletion.
          if 0 < length lsDeletion then raise (OtherError ''LS deletion set is not empty, log is of not integrity'')
          else bind_io (db_ListLogStats env tenantID) (\<lambda>logStats.
            if length logStats = 0 then raise (OtherError ''Log stats is empty, out of expectation'')
            else if list_ex (\<lambda>ls. col_int ls ''begin_lsn'' \<noteq> 0) logStats
            then raise (OtherError ''Log stats begin SCN is not 0, log is of not integrity'')
            else ret ()))))"

definition source_tenant :: "OBTenant \<Rightarrow> string option" where
  "source_tenant m = (case TenantSpec_Source m of None \<Rightarrow> None | Some src \<Rightarrow> Source_Tenant src)"

definition CreateEmptyStandbyTenant :: "task_env \<Rightarrow> OBTenant \<Rightarrow> unit tenant_io" where
  "CreateEmptyStandbyTenant env m =
     (case source_tenant m of
        None \<Rightarrow> raise (OtherError ''Empty standby tenant must have source tenant'')
      | Some tenantCRName \<Rightarrow>
          bind_io (perform (connect_sys env) SysConnected) (\<lambda>_.
          bind_io (GetTenantRestoreSource env (Namespace m) tenantCRName) (\<lambda>restoreSource.
          bind_io (deref_io (generateSpecPrimaryZone (TenantSpec_Pools m))) (\<lambda>primaryZone.
          bind_io (deref_io (generateLocality (TenantSpec_Pools m))) (\<lambda>locality.
            db_CreateEmptyStandbyTenant env (TenantSpec_TenantName m) restoreSource primaryZone locality
              (generateSpecPoolList m))))))"

definition CheckPrimaryTenantLsIntegrity :: "task_env \<Rightarrow> OBTenant \<Rightarrow> unit tenant_io" where
  "CheckPrimaryTenantLsIntegrity env m =
     (case source_tenant m of
        None \<Rightarrow> raise (OtherError ''Primary tenant must have source tenant'')
      | Some tenantCRName \<Rightarrow>
          wrap_io ''Check primary tenant LS integrity'' (CheckTenantLSIntegrity env (Namespace m) tenantCRName))"

definition restore_name :: "OBTenant \<Rightarrow> string" where
  "restore_name m = Name m @ ''-restore''"

definition CreateTenantRestoreJobCR :: "task_env \<Rightarrow> OBTenant \<Rightarrow> unit tenant_io" where
  "CreateTenantRestoreJobCR env m =
     bind_io (api (list_restore_jobs env) ListRestoreJobs) (\<lambda>existing.
       if existing \<noteq> 0 then raise (OtherError ''There is already at least one restore job for this tenant'')
       else bind_io (deref_io (TenantSpec_Source m)) (\<lambda>src.
            bind_io (deref_io (Source_Restore src)) (\<lambda>restore.
            bind_io (deref_io (generateRestoreOption m)) (\<lambda>option.
              let job = \<lparr>Job_Name = restore_name m, Job_Namespace = Namespace m, Job_TargetTenant = TenantSpec_TenantName m,
                    Job_TargetCluster = TenantSpec_ClusterName m, Job_RestoreRole = TenantSpec_TenantRole m,
                    Job_Source = restore, Job_Option = option, Job_PrimaryTenant = Source_Tenant src\<rparr>
              in api (\<lambda>h. create_restore_job env h job) (CreateRestoreJob job)))))"

definition RestoreJobSuccessful :: string where
  "RestoreJobSuccessful = ''SUCCESSFUL''"

definition RestoreJobFailed :: string where
  "RestoreJobFailed = ''FAILED''"

definition WatchRestoreJobToFinish :: "nat \<Rightarrow> task_env \<Rightarrow> OBTenant \<Rightarrow> unit tenant_io" where
  "WatchRestoreJobToFinish rounds env m =
     bind_io (wrap_io ''Failed to wait for restore job to finish'' (CheckJobWithTimeout rounds
        (bind_io (api (\<lambda>h. get_restore_status env h (restore_name m)) (GetRestoreStatus (restore_name m))) (\<lambda>status.
           if status = RestoreJobSuccessful then ret True
           else if status = RestoreJobFailed then raise (OtherError ''Restore job failed'')
           else ret False))))
       (\<lambda>_. store_white_list (TenantSpec_TenantName m) (TenantSpec_ConnectWhiteList m))"

definition CancelTenantRestoreJob :: "task_env \<Rightarrow> OBTenant \<Rightarrow> unit tenant_io" where
  "CancelTenantRestoreJob env m =
     bind_io (perform (connect_sys env) SysConnected) (\<lambda>_.
     bind_io (db_CancelRestoreOfTenant env (TenantSpec_TenantName m)) (\<lambda>_.
     bind_io (deletePool env m) (\<lambda>_.
     bind_io (deleteUnitConfig env m) (\<lambda>_.
     bind_io (api (\<lambda>h. delete_restore_job env h (restore_name m)) (DeleteRestoreJob (restore_name m))) (\<lambda>_.
       log_io (api (delete_tenant_cr env) DeleteTenantCR))))))"

text \<open>The last row that says something about a tenant counts.\<close>

definition compatible_of :: "row list \<Rightarrow> int \<Rightarrow> string" where
  "compatible_of rows tenantID =
     foldl (\<lambda>acc r. if col_int r ''tenant_id'' = tenantID then col_str r ''value'' else acc) [] rows"

primrec wait_compatible :: "'x task_env_scheme \<Rightarrow> int \<Rightarrow> string \<Rightarrow> nat \<Rightarrow> unit tenant_io" where
  "wait_compatible env tenantID sysCompatible 0 = ret ()"
| "wait_compatible env tenantID sysCompatible (Suc n) =
     bind_io (db_ListParametersWithTenantID env tenantID) (\<lambda>params.
       if list_ex (\<lambda>p. col_str p ''name'' = ''compatible'' \<and> col_str p ''value'' = sysCompatible) params then ret ()
       else wait_compatible env tenantID sysCompatible n)"

definition UpgradeTenantIfNeeded :: "task_env \<Rightarrow> OBTenant \<Rightarrow> unit tenant_io" where
  "UpgradeTenantIfNeeded env m =
     bind_io (perform (connect_sys env) SysConnected) (\<lambda>_.
     bind_io (db_SelectCompatibleOfTenants env) (\<lambda>compatibles.
       let tenantID = Info_TenantID (TenantStatus_TenantRecordInfo m);
           sysCompatible = compatible_of compatibles 1; restoredCompatible = compatible_of compatibles tenantID
       in if ''4.1.0.0'' \<le> sysCompatible \<and> restoredCompatible < sysCompatible
          then bind_io (db_UpgradeTenantWithName env (TenantSpec_TenantName m))
                 (\<lambda>_. wait_compatible env tenantID sysCompatible (upgrade_rounds env))
          else ret ()))"

section \<open>Users\<close>

definition CreateUserWithCredentials :: "'x task_env_scheme \<Rightarrow> OBTenant \<Rightarrow> unit tenant_io" where
  "CreateUserWithCredentials env m =
     (let creds = TenantSpec_Credentials m
      in bind_io
           (if Cred_Root creds \<noteq> []
            then bind_io (tenantClient env) (\<lambda>_.
                 bind_io (catch_io (api (\<lambda>h. read_password env h (Cred_Root creds)) (ReadPassword (Cred_Root creds)))) (\<lambda>pwd.
                   case pwd of
                     Inl err \<Rightarrow> if is_not_found err then ret () else raise err
                   | Inr rootPwd \<Rightarrow> if rootPwd \<noteq> [] then db_ChangeTenantUserPassword env ''root'' rootPwd else ret ()))
            else ret ()) (\<lambda>_.
         if Cred_StandbyRO creds \<noteq> []
         then bind_io (catch_io (api (\<lambda>h. read_password env h (Cred_StandbyRO creds)) (ReadPassword (Cred_StandbyRO creds)))) (\<lambda>r.
              bind_io (case r of
                  Inr pwd \<Rightarrow> ret pwd
                | Inl err \<Rightarrow> if is_not_found err
                             then api (\<lambda>h. create_secret env h (Cred_StandbyRO creds)) (CreateSecret (Cred_StandbyRO creds))
                             else raise err) (\<lambda>standbyROPwd.
              bind_io (if Cred_Root creds = [] then tenantClient env else ret ()) (\<lambda>_.
              bind_io (if standbyROPwd \<noteq> [] then db_CreateUserWithPwd env ''standbyro'' standbyROPwd
                       else db_CreateUser env ''standbyro'') (\<lambda>_.
                db_GrantPrivilege env ''select'' ''oceanbase.*'' ''standbyro''))))
         else ret ()))"

text \<open>An error of creating the users is reported as an event and a log line only.\<close>

definition CreateUserWithCredentialSecrets :: "task_env \<Rightarrow> OBTenant \<Rightarrow> unit tenant_io" where
  "CreateUserWithCredentialSecrets env m =
     (if TenantSpec_TenantRole m = ''STANDBY'' then ret () else log_io (CreateUserWithCredentials env m))"

section \<open>Optimisation\<close>

text \<open>\<^verbatim>\<open>math.Round\<close> rounds half away from zero.\<close>

definition go_round :: "real \<Rightarrow> int" where
  "go_round x = (if 0 \<le> x then \<lfloor>x + 1 / 2\<rfloor> else \<lceil>x - 1 / 2\<rceil>)"

fun ConvertFloat :: "sql_value \<Rightarrow> sql_value" where
  "ConvertFloat (SQL_Float f) = SQL_Int (go_round f)"
| "ConvertFloat v = v"

text \<open>
  The answer of the job is the response it printed, nil when its exit code is bad. A
  failed connection is only logged; the first use of the nil connection panics.
\<close>

definition OptimizeTenantByScenario :: "task_env \<Rightarrow> OBTenant \<Rightarrow> unit tenant_io" where
  "OptimizeTenantByScenario env m =
     bind_io (wrap_io ''Get obcluster'' (api (optimize_job env) RunOptimizeJob)) (\<lambda>response.
       case response of
         None \<Rightarrow> ret ()
       | Some (parameters, variables) \<Rightarrow>
           bind_io (catch_io (tenantClient env)) (\<lambda>conn.
             case conn of
               Inl _ \<Rightarrow> if parameters = [] \<and> variables = [] then ret () else panic
             | Inr _ \<Rightarrow>
                 bind_io (each_io (\<lambda>(name, v). log_io (db_SetParameter env name (ConvertFloat v) None)) parameters) (\<lambda>_.
                   each_io (\<lambda>(name, v). log_io (db_SetGlobalVariable env name (ConvertFloat v))) variables)))"

section \<open>Parameters and variables\<close>

text \<open>The read that precedes an update or a deletion is part of the call here.\<close>

definition OBTenantManager_createOBParameter :: "task_env \<Rightarrow> OBTenant \<Rightarrow> Parameter \<Rightarrow> unit tenant_io" where
  "OBTenantManager_createOBParameter env m p =
     (let name = OBTenantManager_generateParameterName m (Param_Name p)
      in wrap_io ''create obparameter'' (api (\<lambda>h. write_cr env h name) (CreateParameterCR name p)))"

definition OBTenantManager_updateOBParameter :: "task_env \<Rightarrow> OBTenant \<Rightarrow> Parameter \<Rightarrow> unit tenant_io" where
  "OBTenantManager_updateOBParameter env m p =
     (let name = OBTenantManager_generateParameterName m (Param_Name p)
      in wrap_io ''Update obparameter'' (api (\<lambda>h. write_cr env h name) (UpdateParameterCR name (Param_Value p))))"

definition OBTenantManager_deleteOBParameter :: "task_env \<Rightarrow> OBTenant \<Rightarrow> Parameter \<Rightarrow> unit tenant_io" where
  "OBTenantManager_deleteOBParameter env m p =
     (let name = OBTenantManager_generateParameterName m (Param_Name p)
      in wrap_io ''Delete obparameter'' (api (\<lambda>h. write_cr env h name) (DeleteParameterCR name)))"

fun do_parameter_call :: "task_env \<Rightarrow> OBTenant \<Rightarrow> parameter_call \<Rightarrow> unit tenant_io" where
  "do_parameter_call env m (CreateParam p) = OBTenantManager_createOBParameter env m p"
| "do_parameter_call env m (UpdateParam p) = OBTenantManager_updateOBParameter env m p"
| "do_parameter_call env m (DeleteParam p) = OBTenantManager_deleteOBParameter env m p"

definition MaintainTenantParameters :: "task_env \<Rightarrow> OBTenant \<Rightarrow> unit tenant_io" where
  "MaintainTenantParameters env m =
     (case spec_calls (TenantSpec_Parameters m) (parameter_map (TenantStatus_Parameters m)) of
        (cs, rest) \<Rightarrow>
          each_io (\<lambda>c. log_io (do_parameter_call env m c))
            (cs @ map (\<lambda>(_, p). DeleteParam p) (range_parameters env rest)))"

datatype variable_call = CreateVar Variable | UpdateVar Variable | DeleteVar Variable

definition createOBTenantVariable :: "task_env \<Rightarrow> OBTenant \<Rightarrow> Variable \<Rightarrow> unit tenant_io" where
  "createOBTenantVariable env m v =
     (let name = OBTenantManager_generateVariableName m (Var_Name v)
      in wrap_io ''create obtenantvariable'' (api (\<lambda>h. write_cr env h name) (CreateVariableCR name v)))"

definition updateOBTenantVariable :: "task_env \<Rightarrow> OBTenant \<Rightarrow> Variable \<Rightarrow> unit tenant_io" where
  "updateOBTenantVariable env m v =
     (let name = OBTenantManager_generateVariableName m (Var_Name v)
      in wrap_io ''Update obtenantvariable'' (api (\<lambda>h. write_cr env h name) (UpdateVariableCR name (Var_Value v))))"

definition deleteOBTenantVariable :: "task_env \<Rightarrow> OBTenant \<Rightarrow> Variable \<Rightarrow> unit tenant_io" where
  "deleteOBTenantVariable env m v =
     (let name = OBTenantManager_generateVariableName m (Var_Name v)
      in wrap_io ''Delete obtenantvariable'' (api (\<lambda>h. write_cr env h name) (DeleteVariableCR name)))"

fun do_variable_call :: "task_env \<Rightarrow> OBTenant \<Rightarrow> variable_call \<Rightarrow> unit tenant_io" where
  "do_variable_call env m (CreateVar v) = createOBTenantVariable env m v"
| "do_variable_call env m (UpdateVar v) = updateOBTenantVariable env m v"
| "do_variable_call env m (DeleteVar v) = deleteOBTenantVariable env m v"

fun variable_calls :: "Variable list \<Rightarrow> (string \<times> Variable) list \<Rightarrow> variable_call list \<times> (string \<times> Variable) list" where
  "variable_calls [] vm = ([], vm)"
| "variable_calls (v # vs) vm =
     (if skipped v then variable_calls vs vm
      else
        let call = (case map_of vm (Var_Name v) of
                      None \<Rightarrow> [CreateVar v]
                    | Some w \<Rightarrow> if Var_Value w \<noteq> Var_Value v then [UpdateVar v] else []);
            (cs, rest) = variable_calls vs (AList.delete (Var_Name v) vm)
        in (call @ cs, rest))"

definition MaintainTenantVariables :: "task_env \<Rightarrow> OBTenant \<Rightarrow> unit tenant_io" where
  "MaintainTenantVariables env m =
     (case variable_calls (TenantSpec_Variables m) (variable_map (TenantStatus_Variables m)) of
        (cs, rest) \<Rightarrow>
          each_io (\<lambda>c. log_io (do_variable_call env m c))
            (cs @ map (\<lambda>(_, v). DeleteVar v) (range_variables env rest)))"

section \<open>Lemmas\<close>

text \<open>The statements in a part of the log, and those that alter or create a tenant.\<close>

fun statement_of :: "'k event \<Rightarrow> string option" where
  "statement_of (Executed timeout sql params r) = Some sql"
| "statement_of _ = None"

definition executed :: "'k event list \<Rightarrow> string list" where
  "executed es = List.map_filter statement_of es"

lemma executed_simps [simp]:
  "executed [] = []" "executed (e # es) = (case statement_of e of None \<Rightarrow> executed es | Some s \<Rightarrow> s # executed es)"
  "executed (es @ es') = executed es @ executed es'"
  by (simp_all add: executed_def List.map_filter_def split: option.splits)

lemma set_executed_concat: "set (executed (concat ess)) = (\<Union>es \<in> set ess. set (executed es))"
  by (induction ess) auto

text \<open>Collecting what each element of a loop did.\<close>

lemma each_io_collect:
  assumes "\<And>x h h'. x \<in> set xs \<Longrightarrow> f x h = (Ok (), h') \<Longrightarrow> \<exists>es. h' = h @ es \<and> P x es"
    and "each_io f xs h = (Ok (), h')"
  shows "\<exists>ess. h' = h @ concat ess \<and> list_all2 P xs ess"
  using assms
proof (induction xs arbitrary: h)
  case (Cons x xs)
  then obtain h1 where run: "f x h = (Ok (), h1)" "each_io f xs h1 = (Ok (), h')"
    by (auto simp: bind_Ok_iff)
  then obtain es where es: "h1 = h @ es" "P x es" using Cons.prems(1) by fastforce
  from Cons.IH [OF Cons.prems(1) run(2)] obtain ess where "h' = h1 @ concat ess" "list_all2 P xs ess" by auto
  with es show ?case by (intro exI [of _ "es # ess"]) auto
qed simp

text \<open>A named object is reported absent or dropped.\<close>

definition gone :: "string \<Rightarrow> string \<Rightarrow> string \<Rightarrow> 'k event list \<Rightarrow> bool" where
  "gone query drop_stmt name es \<longleftrightarrow>
     Counted query [SQL_Str name] (Inr 0) \<in> set es \<or>
     list_ex (\<lambda>e. case e of Executed _ sql _ (Inr _) \<Rightarrow> sql = drop_stmt | _ \<Rightarrow> False) es"

lemma gone_append: "gone q d n es \<or> gone q d n es' \<Longrightarrow> gone q d n (es @ es')"
  by (auto simp: gone_def)

lemma gone_concat: "es \<in> set ess \<Longrightarrow> gone q d n es \<Longrightarrow> gone q d n (concat ess)"
  by (auto simp: gone_def list_ex_iff)

lemmas tenant_Ok_iffs = db_Ok_iffs bind_Ok_iff perform_Ok_iff sysClient_def api_def

lemma sys_bind_Ok_iff:
  "bind_io (sysClient env msg) g h = (Ok y, h') \<longleftrightarrow>
    connect_sys env h = Inr () \<and> g () (h @ [SysConnected (Inr ())]) = (Ok y, h')"
  by (auto simp: bind_Ok_iff sysClient_def perform_Ok_iff)

lemma drop_if_exists_Ok:
  assumes "bind_io (bind_io (sysClient env msg) (\<lambda>_. exists_by_count env msg' q [SQL_Str n]))
    (\<lambda>exist. if exist then exec_prepared env msg'' timeout p else ret ()) h = (Ok (), h')"
  shows "\<exists>es. h' = h @ es \<and> gone q (fst p) n es \<and> set (executed es) \<subseteq> {fst p}"
proof -
  from assms obtain k h1 where count: "h1 = h @ [SysConnected (Inr ()), Counted q [SQL_Str n] (Inr k)]"
    and rest: "(if k \<noteq> 0 then exec_prepared env msg'' timeout p else ret ()) h1 = (Ok (), h')"
    by (auto simp: tenant_Ok_iffs)
  show ?thesis
  proof (cases "k = 0")
    case True
    with count rest have "h' = h @ [SysConnected (Inr ()), Counted q [SQL_Str n] (Inr 0)]" by simp
    then show ?thesis by (intro exI [of _ "[SysConnected (Inr ()), Counted q [SQL_Str n] (Inr 0)]"]) (simp add: gone_def)
  next
    case False
    let ?es = "[SysConnected (Inr ()), Counted q [SQL_Str n] (Inr k), Executed timeout (fst p) (snd p) (Inr ())]"
    from False count rest have "h' = h @ ?es" by (simp add: exec_prepared_Ok_iff)
    then show ?thesis by (intro exI [of _ ?es]) (simp add: gone_def)
  qed
qed

lemma delete_one_pool_Ok:
  assumes "delete_one_pool env n h = (Ok (), h')"
  shows "\<exists>es. h' = h @ es \<and> gone sql_GetPoolCountByName (sql_DeletePool n) n es \<and> set (executed es) \<subseteq> {sql_DeletePool n}"
  using drop_if_exists_Ok [OF assms [unfolded delete_one_pool_def poolExist_def db_CheckPoolExistByName_def db_DeletePool_def]]
  by (simp add: preparedSQLForDeletePool_def)

lemma delete_one_unit_Ok:
  assumes "delete_one_unit env n h = (Ok (), h')"
  shows "\<exists>es. h' = h @ es \<and> gone sql_GetUnitConfigV4CountByName (sql_DeleteUnitConfig n) n es \<and>
    set (executed es) \<subseteq> {sql_DeleteUnitConfig n}"
  using drop_if_exists_Ok [OF assms [unfolded delete_one_unit_def unitConfigV4Exist_def db_CheckUnitConfigExistByName_def
      db_DeleteUnitConfig_def]]
  by (simp add: preparedSQLForDeleteUnitConfig_def)

lemma deleteTenant_Ok:
  assumes "deleteTenant env m h = (Ok (), h')"
  defines "dropped \<equiv> fst (preparedSQLForDeleteTenant (TenantSpec_TenantName m) (TenantSpec_ForceDelete m))"
  shows "\<exists>es. h' = h @ es \<and> gone sql_GetTenantCountByName dropped (TenantSpec_TenantName m) es \<and>
    set (executed es) \<subseteq> {dropped}"
proof -
  from assms(1) have "bind_io (tenantExist env (TenantSpec_TenantName m)) (\<lambda>exist.
      if exist then db_DeleteTenant env (TenantSpec_TenantName m) (TenantSpec_ForceDelete m) else ret ())
      (h @ [SysConnected (Inr ())]) = (Ok (), h')"
    by (simp add: deleteTenant_def sys_bind_Ok_iff)
  from drop_if_exists_Ok [OF this [unfolded tenantExist_def db_CheckTenantExistByName_def db_DeleteTenant_def]]
  obtain es where "h' = (h @ [SysConnected (Inr ())]) @ es"
    "gone sql_GetTenantCountByName dropped (TenantSpec_TenantName m) es" "set (executed es) \<subseteq> {dropped}"
    unfolding dropped_def by blast
  then show ?thesis
    using gone_append [of _ _ _ "[SysConnected (Inr ())]" es] by (intro exI [of _ "SysConnected (Inr ()) # es"]) simp
qed

lemma list_all2_image:
  assumes "list_all2 P xs ess" "x \<in> set xs"
  obtains es where "es \<in> set ess" "P x es"
  using assms by (metis in_set_conv_nth list_all2_conv_all_nth)

lemma list_all2_source:
  assumes "list_all2 P xs ess" "es \<in> set ess"
  obtains x where "x \<in> set xs" "P x es"
  using assms by (metis in_set_conv_nth list_all2_conv_all_nth)

lemma delete_each:
  assumes run: "bind_io (sysClient env msg) (\<lambda>_. each_io (\<lambda>zone. f (name (Pool_Zone zone))) pools) h = (Ok (), h')"
    and one: "\<forall>n h h'. f n h = (Ok (), h') \<longrightarrow> (\<exists>es. h' = h @ es \<and> gone q (d n) n es \<and> set (executed es) \<subseteq> {d n})"
  shows "\<exists>es. h' = h @ es \<and> (\<forall>zone \<in> set pools. gone q (d (name (Pool_Zone zone))) (name (Pool_Zone zone)) es) \<and>
    set (executed es) \<subseteq> (\<lambda>zone. d (name (Pool_Zone zone))) ` set pools"
proof -
  let ?P = "\<lambda>zone es. gone q (d (name (Pool_Zone zone))) (name (Pool_Zone zone)) es \<and>
    set (executed es) \<subseteq> {d (name (Pool_Zone zone))}"
  from run have loop: "each_io (\<lambda>zone. f (name (Pool_Zone zone))) pools (h @ [SysConnected (Inr ())]) = (Ok (), h')"
    by (rule sys_bind_Ok_iff [THEN iffD1, THEN conjunct2])
  have "\<exists>es. h' = h @ es \<and> ?P zone es" if "f (name (Pool_Zone zone)) h = (Ok (), h')" for zone h h'
    using one that by blast
  from each_io_collect [where P = ?P, OF this loop] obtain ess
    where ess: "h' = (h @ [SysConnected (Inr ())]) @ concat ess" "list_all2 ?P pools ess"
    by blast
  have "gone q (d (name (Pool_Zone zone))) (name (Pool_Zone zone)) (SysConnected (Inr ()) # concat ess)"
    if "zone \<in> set pools" for zone
  proof -
    from list_all2_image [OF ess(2) that] obtain es where "es \<in> set ess" "?P zone es" by blast
    then show ?thesis using gone_concat [of es ess] gone_append [of _ _ _ "[SysConnected (Inr ())]" "concat ess"] by auto
  qed
  moreover have "set (executed (concat ess)) \<subseteq> (\<lambda>zone. d (name (Pool_Zone zone))) ` set pools"
  proof
    fix x assume "x \<in> set (executed (concat ess))"
    then obtain es where "es \<in> set ess" "x \<in> set (executed es)" by (auto simp: set_executed_concat)
    moreover from list_all2_source [OF ess(2) this(1)] obtain zone where "zone \<in> set pools" "?P zone es" by blast
    ultimately show "x \<in> (\<lambda>zone. d (name (Pool_Zone zone))) ` set pools" by auto
  qed
  ultimately show ?thesis using ess(1) by (intro exI [of _ "SysConnected (Inr ()) # concat ess"]) auto
qed

text \<open>The statements in a part of the log, with their parameters.\<close>

fun prepared_of :: "'k event \<Rightarrow> prepared option" where
  "prepared_of (Executed timeout sql params r) = Some (sql, params)"
| "prepared_of _ = None"

definition statements :: "'k event list \<Rightarrow> prepared list" where
  "statements es = List.map_filter prepared_of es"

lemma statements_simps [simp]:
  "statements [] = []" "statements (e # es) = (case prepared_of e of None \<Rightarrow> statements es | Some s \<Rightarrow> s # statements es)"
  "statements (es @ es') = statements es @ statements es'"
  by (simp_all add: statements_def List.map_filter_def split: option.splits)

definition added_pool_statements :: "task_env \<Rightarrow> OBTenant \<Rightarrow> ResourcePoolSpec \<Rightarrow> prepared list" where
  "added_pool_statements env m pool =
     (let poolName = generatePoolName m (Pool_Zone pool); unitName = generateUnitName m (Pool_Zone pool)
      in [preparedSQLForAddUnitConfigV4
            (generateModelUnitConfigV4SQLParam unitName (generateModelUnitConfigV4 (quantity_conv env) (Pool_UnitConfig pool))),
          preparedSQLForAddPool \<lparr>PP_PoolName = poolName, PP_UnitNum = TenantSpec_UnitNumber m, PP_ZoneList = Pool_Zone pool,
            PP_UnitName = unitName\<rparr>,
          preparedSQLForSetTenant (no_tenant_param\<lparr>TP_TenantName := TenantSpec_TenantName m,
            TP_Locality := Join (the (generateLocalityList
              (generateStatusLocalityMap (TenantStatus_Pools m @ [added_status m pool])))) '','',
            TP_PoolList := generateStatusPoolList m (TenantStatus_Pools m) @ [poolName],
            TP_PrimaryZone := the (generateSpecPrimaryZone (TenantSpec_Pools m))\<rparr>)])"

text \<open>Waiting executes no statement.\<close>

lemma statements_wait:
  assumes "CheckJobWithTimeout n f h = (Ok (), h')"
    and "\<forall>h b h'. f h = (Ok b, h') \<longrightarrow> (\<exists>es. h' = h @ es \<and> statements es = [])"
  shows "\<exists>es. h' = h @ es \<and> statements es = []"
  using assms(1)
proof (induction n arbitrary: h)
  case (Suc n)
  then obtain b h1 where run: "f h = (Ok b, h1)" "b \<and> h' = h1 \<or> CheckJobWithTimeout n f h1 = (Ok (), h')"
    by (auto simp: bind_Ok_iff split: if_splits)
  from assms(2) run(1) obtain es where es: "h1 = h @ es" "statements es = []" by blast
  from run(2) show ?case
  proof
    assume "CheckJobWithTimeout n f h1 = (Ok (), h')"
    from Suc.IH [OF this] obtain es' where "h' = h1 @ es'" "statements es' = []" by blast
    with es show ?thesis by (intro exI [of _ "es @ es'"]) simp
  qed (use es in blast)
qed simp

lemma wait_rs_job_Ok: "wait_rs_job env m msg h = (Ok (), h') \<Longrightarrow> \<exists>es. h' = h @ es \<and> statements es = []"
  unfolding wait_rs_job_def wrap_Ok_iff
  by (erule statements_wait) (auto simp: tenant_Ok_iffs db_CheckRsJobExistByTenantID_def)

lemma tenantAddPool_Ok:
  assumes "tenantAddPool env m pool h = (Ok (), h')"
  shows "\<exists>es. h' = h @ es \<and> statements es = added_pool_statements env m pool"
proof -
  from assms obtain h1 where h1: "wait_rs_job env m ''Failed to wait for tenant 'ALTER_TENANT' job for adding pool'' h1 = (Ok (), h')"
    "\<exists>es. h1 = h @ es \<and> statements es = added_pool_statements env m pool"
    by (auto simp: tenantAddPool_def createUnitAndPoolV4_def createUnitConfigV4_def createPool_def Let_def tenant_Ok_iffs
        db_AddUnitConfigV4_def db_AddPool_def db_SetTenant_def added_pool_statements_def generateStatusPoolList_def
        added_status_def split: if_splits)
  from h1(2) wait_rs_job_Ok [OF h1(1)] show ?thesis by force
qed

section \<open>Properties\<close>

text \<open>
  C23. When the task \<^verbatim>\<open>DeleteTenant\<close> succeeds, the tenant, the pool of every zone and the unit
  configuration of every zone have each been reported absent by the database or dropped, in
  this order: first the tenant, then the pools, then the units; and no other statement has
  been executed.
\<close>

theorem delete_tenant_complete:
  assumes "DeleteTenant env m h = (Ok (), h')"
  shows "\<exists>es1 es2 es3. h' = h @ es1 @ es2 @ es3 \<and>
    (let dropped = fst (preparedSQLForDeleteTenant (TenantSpec_TenantName m) (TenantSpec_ForceDelete m))
     in gone sql_GetTenantCountByName dropped (TenantSpec_TenantName m) es1 \<and> set (executed es1) \<subseteq> {dropped}) \<and>
    (\<forall>pool \<in> set (TenantSpec_Pools m). gone sql_GetPoolCountByName
       (sql_DeletePool (generatePoolName m (Pool_Zone pool))) (generatePoolName m (Pool_Zone pool)) es2) \<and>
    set (executed es2) \<subseteq> (\<lambda>pool. sql_DeletePool (generatePoolName m (Pool_Zone pool))) ` set (TenantSpec_Pools m) \<and>
    (\<forall>pool \<in> set (TenantSpec_Pools m). gone sql_GetUnitConfigV4CountByName
       (sql_DeleteUnitConfig (generateUnitName m (Pool_Zone pool))) (generateUnitName m (Pool_Zone pool)) es3) \<and>
    set (executed es3) \<subseteq> (\<lambda>pool. sql_DeleteUnitConfig (generateUnitName m (Pool_Zone pool))) ` set (TenantSpec_Pools m)"
proof -
  from assms obtain h1 h2 where run: "deleteTenant env m h = (Ok (), h1)" "deletePool env m h1 = (Ok (), h2)"
    "deleteUnitConfig env m h2 = (Ok (), h')"
    by (auto simp: DeleteTenant_def bind_Ok_iff)
  note tenant = deleteTenant_Ok [OF run(1)]
  have "\<forall>n h h'. delete_one_pool env n h = (Ok (), h') \<longrightarrow>
      (\<exists>es. h' = h @ es \<and> gone sql_GetPoolCountByName (sql_DeletePool n) n es \<and> set (executed es) \<subseteq> {sql_DeletePool n})"
    using delete_one_pool_Ok by blast
  note pools = delete_each [where name = "generatePoolName m", OF run(2) [unfolded deletePool_def] this]
  have "\<forall>n h h'. delete_one_unit env n h = (Ok (), h') \<longrightarrow>
      (\<exists>es. h' = h @ es \<and> gone sql_GetUnitConfigV4CountByName (sql_DeleteUnitConfig n) n es \<and>
        set (executed es) \<subseteq> {sql_DeleteUnitConfig n})"
    using delete_one_unit_Ok by blast
  note units = delete_each [where name = "generateUnitName m", OF run(3) [unfolded deleteUnitConfig_def] this]
  from tenant obtain es1 where 1: "h1 = h @ es1"
    "gone sql_GetTenantCountByName (fst (preparedSQLForDeleteTenant (TenantSpec_TenantName m) (TenantSpec_ForceDelete m)))
       (TenantSpec_TenantName m) es1"
    "set (executed es1) \<subseteq> {fst (preparedSQLForDeleteTenant (TenantSpec_TenantName m) (TenantSpec_ForceDelete m))}"
    by blast
  from pools units 1 show ?thesis unfolding Let_def by (elim exE conjE) (rule exI [of _ es1], auto)
qed

text \<open>An environment that accepts everything and whose database is empty.\<close>

definition quiet_env :: task_env where
  "quiet_env = sdk_env.extend quiet_db (task_env.fields (\<lambda>_. Inr ()) (\<lambda>_. Inr ()) (\<lambda>_. Inr 0) (\<lambda>_ _. Inr ())
     (\<lambda>_ _. Inr RestoreJobSuccessful) (\<lambda>_ _. Inr ()) (\<lambda>_. Inr ()) (\<lambda>_ _. Inr ()) (\<lambda>_ _. Inr ''secret'')
     (\<lambda>_ _. Inr ''secret'') (\<lambda>_ _ _. Inr small_tenant) (\<lambda>_. Inr None) 3 3 small_tenant_env (\<lambda>_. Inr 0) id id (\<lambda>_. None))"

lemma quiet_env_simps [simp]:
  "conn_exec quiet_env h sql params = Inr ()" "conn_count quiet_env h sql params = Inr 0"
  "connect_sys quiet_env h = Inr ()" "job_rounds quiet_env = 3" "quantity_conv quiet_env = small_tenant_env"
  by (simp_all add: quiet_env_def quiet_db_def sdk_env.extend_def task_env.fields_def)

lemma quiet_DeleteTenant: "fst (DeleteTenant quiet_env small_tenant []) = Ok ()"
  by (simp add: DeleteTenant_def deleteTenant_def deletePool_def deleteUnitConfig_def delete_one_pool_def delete_one_unit_def
      tenantExist_def poolExist_def unitConfigV4Exist_def db_CheckTenantExistByName_def db_CheckPoolExistByName_def
      db_CheckUnitConfigExistByName_def exists_by_count_def QueryCount_def sysClient_def small_tenant_def io_defs)

theorem delete_tenant_complete_witness:
  "\<exists>h' es1 es2 es3. DeleteTenant quiet_env small_tenant [] = (Ok (), h') \<and> h' = es1 @ es2 @ es3 \<and>
    gone sql_GetTenantCountByName (sql_DeleteTenant ''t1'' []) ''t1'' es1 \<and>
    gone sql_GetPoolCountByName (sql_DeletePool ''pool_t1_zone1'') ''pool_t1_zone1'' es2 \<and>
    gone sql_GetUnitConfigV4CountByName (sql_DeleteUnitConfig ''unitconfig_t1_zone2'') ''unitconfig_t1_zone2'' es3"
proof -
  from quiet_DeleteTenant obtain h' where run: "DeleteTenant quiet_env small_tenant [] = (Ok (), h')"
    by (metis prod.collapse)
  have names: "TenantSpec_TenantName small_tenant = ''t1''" "\<not> TenantSpec_ForceDelete small_tenant"
    "small_pool ''zone1'' 3 \<in> set (TenantSpec_Pools small_tenant)" "small_pool ''zone2'' 7 \<in> set (TenantSpec_Pools small_tenant)"
    "generatePoolName small_tenant (Pool_Zone (small_pool ''zone1'' 3)) = ''pool_t1_zone1''"
    "generateUnitName small_tenant (Pool_Zone (small_pool ''zone2'' 7)) = ''unitconfig_t1_zone2''"
    by (simp_all add: small_tenant_def small_pool_def generatePoolName_def generateUnitName_def)
  from delete_tenant_complete [OF run] obtain es1 es2 es3 where es: "h' = es1 @ es2 @ es3"
    "gone sql_GetTenantCountByName (sql_DeleteTenant ''t1'' []) ''t1'' es1"
    "\<forall>pool \<in> set (TenantSpec_Pools small_tenant). gone sql_GetPoolCountByName
       (sql_DeletePool (generatePoolName small_tenant (Pool_Zone pool))) (generatePoolName small_tenant (Pool_Zone pool)) es2"
    "\<forall>pool \<in> set (TenantSpec_Pools small_tenant). gone sql_GetUnitConfigV4CountByName
       (sql_DeleteUnitConfig (generateUnitName small_tenant (Pool_Zone pool))) (generateUnitName small_tenant (Pool_Zone pool)) es3"
    by (auto simp: Let_def preparedSQLForDeleteTenant_def names(1,2))
  from bspec [OF es(3) names(3)] bspec [OF es(4) names(4)] es(1,2) run show ?thesis
    unfolding names(5,6) by blast
qed

text \<open>
  When the task \<^verbatim>\<open>AddPool\<close> succeeds it has executed, for each pool of the specification
  that the status lacks and in the order of the specification, the creation of the unit and
  of the pool and then one \<^verbatim>\<open>ALTER TENANT\<close>. The pool list of that statement is the one of the
  recorded status with the single new pool at the end: the status is not updated between
  the pools, so with two new pools the second statement takes the first new pool away again.
\<close>

theorem add_pool_statements:
  assumes "AddPool env m h = (Ok (), h')"
  shows "\<exists>es. h' = h @ es \<and> statements es = concat (map (added_pool_statements env m) (getPoolsForAdd m))"
proof -
  have "\<exists>es. h' = h @ es \<and> statements es = added_pool_statements env m pool"
    if "tenantAddPool env m pool h = (Ok (), h')" for pool h h'
    using that by (rule tenantAddPool_Ok)
  from each_io_collect [where P = "\<lambda>pool es. statements es = added_pool_statements env m pool",
      OF this assms [unfolded AddPool_def]] obtain ess where ess: "h' = h @ concat ess"
    "list_all2 (\<lambda>pool es. statements es = added_pool_statements env m pool) (getPoolsForAdd m) ess"
    by blast
  from ess(2) have "statements (concat ess) = concat (map (added_pool_statements env m) (getPoolsForAdd m))"
    by (induction rule: list_all2_induct) simp_all
  with ess(1) show ?thesis by blast
qed

text \<open>A tenant of one pool that is to get two more.\<close>

definition growing_pool :: "string \<Rightarrow> ResourcePoolSpec" where
  "growing_pool zone = (small_pool zone 1)\<lparr>Pool_UnitConfig := no_unit_config\<lparr>MemorySize := 1\<rparr>\<rparr>"

definition growing_tenant :: OBTenant where
  "growing_tenant = small_tenant\<lparr>TenantSpec_Pools := map growing_pool [''zone1'', ''zone2'', ''zone3''],
     TenantStatus_Pools := [small_pool_status ''zone1'' 1]\<rparr>"

lemma growing_pools: "getPoolsForAdd growing_tenant = [growing_pool ''zone2'', growing_pool ''zone3'']"
  by (simp add: getPoolsForAdd_def growing_tenant_def growing_pool_def small_pool_def small_pool_status_def)

lemma growing_localities:
  "generateLocalityList (generateStatusLocalityMap (TenantStatus_Pools growing_tenant @ [added_status growing_tenant (growing_pool ''zone2'')]))
     = Some [''Full{1}@zone2'', ''FULL{1}@zone1'']"
  "generateLocalityList (generateStatusLocalityMap (TenantStatus_Pools growing_tenant @ [added_status growing_tenant (growing_pool ''zone3'')]))
     = Some [''Full{1}@zone3'', ''FULL{1}@zone1'']"
  "generateSpecPrimaryZone (TenantSpec_Pools growing_tenant) = Some ''zone1,zone2,zone3;''"
  by code_simp+

lemma growing_memory: "UP_MemorySize (generateModelUnitConfigV4SQLParam name
    (generateModelUnitConfigV4 (quantity_conv quiet_env) (Pool_UnitConfig (growing_pool zone)))) \<noteq> 0"
  by (simp add: generateModelUnitConfigV4SQLParam_def generateModelUnitConfigV4_def growing_pool_def small_tenant_env_def)

lemma growing_AddPool: "fst (AddPool quiet_env growing_tenant []) = Ok ()"
  by (simp add: AddPool_def growing_pools tenantAddPool_def growing_localities createUnitAndPoolV4_def createUnitConfigV4_def
      createPool_def wait_rs_job_def db_AddUnitConfigV4_def db_AddPool_def db_SetTenant_def db_CheckRsJobExistByTenantID_def
      exec_prepared_def ExecWithTimeout_def exists_by_count_def QueryCount_def sysClient_def Let_def io_defs numeral_3_eq_3
      growing_memory del: quiet_env_simps(5))

theorem add_pool_statements_witness:
  "\<exists>h'. AddPool quiet_env growing_tenant [] = (Ok (), h') \<and>
    snd (statements h' ! 2) = map SQL_Str [''zone1,zone2,zone3;'', ''pool_t1_zone1'', ''pool_t1_zone2'', ''Full{1}@zone2,FULL{1}@zone1''] \<and>
    snd (statements h' ! 5) = map SQL_Str [''zone1,zone2,zone3;'', ''pool_t1_zone1'', ''pool_t1_zone3'', ''Full{1}@zone3,FULL{1}@zone1'']"
proof -
  from growing_AddPool obtain h' where run: "AddPool quiet_env growing_tenant [] = (Ok (), h')"
    by (metis prod.collapse)
  have names: "generateStatusPoolList growing_tenant (TenantStatus_Pools growing_tenant) = [''pool_t1_zone1'']"
    "generatePoolName growing_tenant (Pool_Zone (growing_pool zone)) = ''pool_t1_'' @ zone" for zone
    by (simp_all add: generateStatusPoolList_def generatePoolName_def growing_tenant_def growing_pool_def small_pool_def
        small_pool_status_def small_tenant_def)
  from add_pool_statements [OF run] run show ?thesis
    by (simp add: growing_pools added_pool_statements_def Let_def growing_localities preparedSQLForSetTenant_def names
        opt_def no_tenant_param_def)
qed

end
