(* ===== verification/OBParameter.thy ===== *)
theory OBParameter
  imports OBTenant_Tasks
begin

text \<open>
  The managers of parameters and of tenant variables, \<^verbatim>\<open>internal/resource/obparameter\<close> and
  \<^verbatim>\<open>internal/resource/obtenantvariable\<close>: resources that hold one setting each, compare it
  with what the database says and set it by a flow of one task.
\<close>

section \<open>Running an operation of the SDK in a reconcile\<close>

text \<open>Only the answer counts; a panic is \<open>None\<close>.\<close>

definition run_db :: "('e, 'a) io \<Rightarrow> 'a result option" where
  "run_db f = (case fst (f []) of Ok x \<Rightarrow> Some (Inr x) | Err err \<Rightarrow> Some (Inl err) | Panic \<Rightarrow> None)"

lemma run_db_queries [simp]:
  "run_db (QueryList env sql params) = Some (wrap_result (''Query list failed, sql '' @ sql) (conn_rows env [] sql params))"
  "run_db (QueryRow env sql params) = Some (wrap_result (''Query row, sql '' @ sql) (conn_row env [] sql params))"
  by (auto simp: run_db_def QueryList_def QueryRow_def io_defs wrap_result_def split: sum.splits)

text \<open>An error that is only logged.\<close>

definition only_logged :: "error option \<Rightarrow> error option" where
  "only_logged err = None"

section \<open>Parameters\<close>

record ParameterValue =
  PV_Name :: string
  PV_Value :: string
  PV_Zone :: string
  PV_Server :: string

record OBParameter = Resource +
  ParamSpec_ClusterName :: string
  ParamSpec_TenantName :: string
  ParamSpec_TenantId :: int
  ParamSpec_Parameter :: "Parameter option"
  ParamStatus_Parameter :: "ParameterValue list"

abbreviation "parameterstatus_New \<equiv> ''new''"
abbreviation "parameterstatus_PendingOB \<equiv> ''pending ob''"
abbreviation "parameterstatus_Matched \<equiv> ''matched''"
abbreviation "parameterstatus_NotMatch \<equiv> ''not match''"

definition genSetOBParameterFlow :: OperationContext where
  "genSetOBParameterFlow = new_context ''set ob parameter'' [''set obparameter''] parameterstatus_Matched zero_rule"

definition obparameter_taskMap :: "(TaskName \<Rightarrow> 'm TypedTaskFunc) \<Rightarrow> 'm TaskHub" where
  "obparameter_taskMap body = register_all body [''set obparameter''] NewTaskHub"

text \<open>The API server, the connections and the database a parameter or a variable depends on.\<close>

record param_env = "unit sdk_env" +
  papi_obcluster :: "OBCluster result"
  papi_obtenant :: "OBTenant result"
  papi_obparameter :: "OBParameter result"
  pstatus_Update :: "OBParameter \<Rightarrow> error option"
  psys_client :: "OBCluster \<Rightarrow> unit result"
  ptenant_client :: "OBCluster \<Rightarrow> string \<Rightarrow> string \<Rightarrow> unit result"
  param_task :: "TaskName \<Rightarrow> OBParameter TypedTaskFunc"

definition OBParameterManager_getOBCluster :: "('x) param_env_scheme \<Rightarrow> OBCluster result" where
  "OBParameterManager_getOBCluster env = wrap_result ''Get obcluster'' (papi_obcluster env)"

definition OBParameterManager_getOceanbaseOperationManager :: "('x) param_env_scheme \<Rightarrow> unit result" where
  "OBParameterManager_getOceanbaseOperationManager env =
     (case OBParameterManager_getOBCluster env of
        Inl err \<Rightarrow> Inl (wrap ''Get obcluster from K8s'' err)
      | Inr obcluster \<Rightarrow> psys_client env obcluster)"

definition OBParameterManager_InitStatus :: "OBParameter \<Rightarrow> OBParameter option" where
  "OBParameterManager_InitStatus m = Some (m\<lparr>Status := parameterstatus_New, Ctx := None, ParamStatus_Parameter := []\<rparr>)"

definition OBParameterManager_GetTaskFlow :: "ctx_heap \<Rightarrow> OBParameter \<Rightarrow> (ctx_heap \<times> TaskFlow option result) option" where
  "OBParameterManager_GetTaskFlow h m =
     (case Ctx m of
        Some a \<Rightarrow> Some (h, Inr (Some (Some a)))
      | None \<Rightarrow>
          if Status m = parameterstatus_NotMatch
          then Some (new_flow h (fill_strategy parameterstatus_Matched genSetOBParameterFlow))
          else Some (h, Inr None))"

definition OBParameterManager_CheckAndUpdateFinalizers :: "OBParameter \<Rightarrow> OBParameter \<times> error option" where
  "OBParameterManager_CheckAndUpdateFinalizers m = (m, None)"

definition OBParameterManager_retryUpdateStatus :: "('x) param_env_scheme \<Rightarrow> OBParameter \<Rightarrow> error option" where
  "OBParameterManager_retryUpdateStatus env m =
     (case papi_obparameter env of
        Inl err \<Rightarrow> IgnoreNotFound err
      | Inr p \<Rightarrow> pstatus_Update env (p\<lparr>Status := Status m, Ctx := Ctx m, ParamStatus_Parameter := ParamStatus_Parameter m\<rparr>))"

text \<open>\<^verbatim>\<open>strings.EqualFold\<close> on ASCII strings.\<close>

definition EqualFold :: "string \<Rightarrow> string \<Rightarrow> bool" where
  "EqualFold s t \<longleftrightarrow> ToUpper s = ToUpper t"

text \<open>The rows of the answer that belong to the parameter.\<close>

definition parameter_concerned :: "OBParameter \<Rightarrow> row \<Rightarrow> bool" where
  "parameter_concerned m parameterInfo \<longleftrightarrow>
     \<not> ((ParamSpec_TenantName m = [] \<and> 1 < col_int parameterInfo ''tenant_id'') \<or>
        (ParamSpec_TenantName m \<noteq> [] \<and> col_int parameterInfo ''tenant_id'' \<noteq> ParamSpec_TenantId m))"

definition parameter_value :: "row \<Rightarrow> ParameterValue" where
  "parameter_value parameterInfo =
     \<lparr>PV_Name = col_str parameterInfo ''name'', PV_Value = col_str parameterInfo ''value'',
      PV_Zone = col_str parameterInfo ''zone'',
      PV_Server = col_str parameterInfo ''svr_ip'' @ '':'' @ show_int (col_int parameterInfo ''svr_port'')\<rparr>"

definition compare_parameter :: "OBParameter \<Rightarrow> Parameter \<Rightarrow> row list \<Rightarrow> OBParameter" where
  "compare_parameter m p parameterInfoList =
     (let concerned = filter (parameter_concerned m) parameterInfoList;
          parameterMatched = list_all (\<lambda>info. EqualFold (col_str info ''value'') (Param_Value p)) concerned;
          m1 = m\<lparr>ParamStatus_Parameter := map parameter_value concerned\<rparr>
      in if Status m1 \<noteq> parameterstatus_NotMatch
         then m1\<lparr>Status := (if parameterMatched then parameterstatus_Matched else parameterstatus_NotMatch)\<rparr>
         else m1)"

text \<open>
  A failed update of the status is only logged. A missing parameter in the specification is
  dereferenced, which panics.
\<close>

definition OBParameterManager_UpdateStatus ::
  "('x) param_env_scheme \<Rightarrow> OBParameter \<Rightarrow> (OBParameter \<times> error option) option" where
  "OBParameterManager_UpdateStatus env m =
     (case OBParameterManager_getOBCluster env of
        Inl err \<Rightarrow> Some (m, Some (wrap ''Get obcluster from K8s'' err))
      | Inr obcluster \<Rightarrow>
          (case psys_client env obcluster of
             Inl err \<Rightarrow> Some (m, Some (wrap ''Get operation manager'' err))
           | Inr _ \<Rightarrow>
               if Status obcluster \<noteq> clusterstatus_Running
               then let m' = m\<lparr>Status := parameterstatus_PendingOB\<rparr>
                    in Some (m', only_logged (OBParameterManager_retryUpdateStatus env m'))
               else do {
                 p \<leftarrow> ParamSpec_Parameter m;
                 answer \<leftarrow> run_db (db_GetParameter env (Param_Name p) None);
                 Some (case answer of
                         Inl err \<Rightarrow> (m, Some (wrap ''Get parameter info'' err))
                       | Inr parameterInfoList \<Rightarrow> 
                           let m' = compare_parameter m p parameterInfoList
                           in (m', only_logged (OBParameterManager_retryUpdateStatus env m'))) }))"

definition OBParameterManager_ClearTaskInfo :: "OBParameter \<Rightarrow> OBParameter" where
  "OBParameterManager_ClearTaskInfo m = leave_flow parameterstatus_Matched m"

definition OBParameterManager_FinishTask :: "ctx_heap \<Rightarrow> OBParameter \<Rightarrow> OBParameter option" where
  "OBParameterManager_FinishTask h m = finish_flow h m"

definition OBParameterManager_HandleFailure :: "ctx_heap \<Rightarrow> OBParameter \<Rightarrow> (ctx_heap \<times> OBParameter) option" where
  "OBParameterManager_HandleFailure h m = failure_rule_switch h m"

definition OBParameterManager_GetTaskFunc :: "('x) param_env_scheme \<Rightarrow> TaskName \<Rightarrow> OBParameter \<Rightarrow> TaskFunc result" where
  "OBParameterManager_GetTaskFunc env name m = GetTask (obparameter_taskMap (param_task env)) name m"

definition OBParameterManager_ArchiveResource :: "OBParameter \<Rightarrow> OBParameter" where
  "OBParameterManager_ArchiveResource m = leave_flow ''Failed'' m"

definition OBParameterManager :: "('x) param_env_scheme \<Rightarrow> OBParameter ResourceManager" where
  "OBParameterManager env =
     \<lparr>GetMeta = ObjectMeta.truncate, GetStatus = Status, InitStatus = OBParameterManager_InitStatus,
      SetOperationContext = (\<lambda>p m. m\<lparr>Ctx := p\<rparr>), ClearTaskInfo = OBParameterManager_ClearTaskInfo,
      HandleFailure = OBParameterManager_HandleFailure, FinishTask = OBParameterManager_FinishTask,
      GetTaskFunc = OBParameterManager_GetTaskFunc env, GetTaskFlow = OBParameterManager_GetTaskFlow,
      CheckAndUpdateFinalizers = OBParameterManager_CheckAndUpdateFinalizers,
      UpdateStatus = OBParameterManager_UpdateStatus env, ArchiveResource = OBParameterManager_ArchiveResource\<rparr>"

text \<open>The task, a program over the log of database interactions.\<close>

definition SetOBParameter :: "('x) param_env_scheme \<Rightarrow> OBParameter \<Rightarrow> (unit event, unit) io" where
  "SetOBParameter env m =
     bind_io (wrap_io ''Get operation manager'' (perform (\<lambda>_. OBParameterManager_getOceanbaseOperationManager env) SysConnected))
       (\<lambda>_. bind_io (deref_io (ParamSpec_Parameter m)) (\<lambda>p.
         wrap_io ''Set parameter'' (db_SetParameter env (Param_Name p) (SQL_Str (Param_Value p))
           (if ParamSpec_TenantName m \<noteq> [] then Some (''tenant'', SQL_Str (ParamSpec_TenantName m)) else None))))"

section \<open>Tenant variables\<close>

record OBTenantVariable = Resource +
  VarSpec_OBTenant :: string
  VarSpec_Variable :: "Variable option"
  VarStatus_Variable :: Variable

abbreviation "variablestatus_New \<equiv> ''new''"
abbreviation "variablestatus_Matched \<equiv> ''matched''"
abbreviation "variablestatus_NotMatch \<equiv> ''not match''"

definition genSetOBTenantVariableFlow :: OperationContext where
  "genSetOBTenantVariableFlow =
     new_context ''set ob tenant variable'' [''set obtenant variable''] variablestatus_Matched zero_rule"

definition obtenantvariable_taskMap :: "(TaskName \<Rightarrow> 'm TypedTaskFunc) \<Rightarrow> 'm TaskHub" where
  "obtenantvariable_taskMap body = register_all body [''set obtenant variable''] NewTaskHub"

record var_env = param_env +
  var_ParseFloat :: "string \<Rightarrow> real option"
  vapi_variable :: "OBTenantVariable result"
  vstatus_Update :: "OBTenantVariable \<Rightarrow> error option"
  var_task :: "TaskName \<Rightarrow> OBTenantVariable TypedTaskFunc"

definition OBTenantVariableManager_getOBTenant :: "('x) param_env_scheme \<Rightarrow> OBTenant result" where
  "OBTenantVariableManager_getOBTenant env = wrap_result ''get obtenant'' (papi_obtenant env)"

definition OBTenantVariableManager_getOceanbaseOperationManager :: "('x) param_env_scheme \<Rightarrow> unit result" where
  "OBTenantVariableManager_getOceanbaseOperationManager env =
     (case OBTenantVariableManager_getOBTenant env of
        Inl err \<Rightarrow> Inl (wrap ''Get obcluster from K8s'' err)
      | Inr obtenant \<Rightarrow>
          (case papi_obcluster env of
             Inl err \<Rightarrow> Inl (wrap ''Get obcluster from K8s'' err)
           | Inr obcluster \<Rightarrow> ptenant_client env obcluster (TenantSpec_TenantName obtenant)
               (Cred_Root (TenantStatus_Credentials obtenant))))"

definition OBTenantVariableManager_InitStatus :: "OBTenantVariable \<Rightarrow> OBTenantVariable option" where
  "OBTenantVariableManager_InitStatus m = do {
     v \<leftarrow> VarSpec_Variable m;
     Some (m\<lparr>Status := variablestatus_New, Ctx := None, VarStatus_Variable := \<lparr>Var_Name = Var_Name v, Var_Value = []\<rparr>\<rparr>) }"

definition OBTenantVariableManager_GetTaskFlow ::
  "ctx_heap \<Rightarrow> OBTenantVariable \<Rightarrow> (ctx_heap \<times> TaskFlow option result) option" where
  "OBTenantVariableManager_GetTaskFlow h m =
     (case Ctx m of
        Some a \<Rightarrow> Some (h, Inr (Some (Some a)))
      | None \<Rightarrow>
          if Status m = variablestatus_NotMatch
          then Some (new_flow h (fill_strategy variablestatus_Matched genSetOBTenantVariableFlow))
          else Some (h, Inr None))"

definition OBTenantVariableManager_CheckAndUpdateFinalizers :: "OBTenantVariable \<Rightarrow> OBTenantVariable \<times> error option" where
  "OBTenantVariableManager_CheckAndUpdateFinalizers m = (m, None)"

definition OBTenantVariableManager_retryUpdateStatus :: "('x) var_env_scheme \<Rightarrow> OBTenantVariable \<Rightarrow> error option" where
  "OBTenantVariableManager_retryUpdateStatus env m =
     (case vapi_variable env of
        Inl err \<Rightarrow> IgnoreNotFound err
      | Inr v \<Rightarrow> vstatus_Update env (v\<lparr>Status := Status m, Ctx := Ctx m, VarStatus_Variable := VarStatus_Variable m\<rparr>))"

definition compare_variable :: "OBTenantVariable \<Rightarrow> Variable \<Rightarrow> row \<Rightarrow> OBTenantVariable" where
  "compare_variable m v variable =
     (let m1 = m\<lparr>VarStatus_Variable := \<lparr>Var_Name = col_str variable ''name'', Var_Value = col_str variable ''value''\<rparr>\<rparr>
      in if Status m1 \<noteq> variablestatus_NotMatch
         then m1\<lparr>Status := (if col_str variable ''value'' \<noteq> Var_Value v then variablestatus_NotMatch
                             else variablestatus_Matched)\<rparr>
         else m1)"

definition OBTenantVariableManager_UpdateStatus ::
  "('x) var_env_scheme \<Rightarrow> OBTenantVariable \<Rightarrow> (OBTenantVariable \<times> error option) option" where
  "OBTenantVariableManager_UpdateStatus env m =
     (case OBTenantVariableManager_getOceanbaseOperationManager env of
        Inl err \<Rightarrow> Some (m, Some (wrap ''Get operation manager'' err))
      | Inr _ \<Rightarrow> do {
          v \<leftarrow> VarSpec_Variable m;
          answer \<leftarrow> run_db (db_GetGlobalVariable env (Var_Name v));
          Some (case answer of
                  Inl err \<Rightarrow> (m, Some (wrap ''Get tenant variable info'' err))
                | Inr variable \<Rightarrow> 
                    let m' = compare_variable m v variable
                    in (m', only_logged (OBTenantVariableManager_retryUpdateStatus env m'))) })"

definition OBTenantVariableManager_ClearTaskInfo :: "OBTenantVariable \<Rightarrow> OBTenantVariable" where
  "OBTenantVariableManager_ClearTaskInfo m = leave_flow variablestatus_Matched m"

definition OBTenantVariableManager_FinishTask :: "ctx_heap \<Rightarrow> OBTenantVariable \<Rightarrow> OBTenantVariable option" where
  "OBTenantVariableManager_FinishTask h m = finish_flow h m"

definition OBTenantVariableManager_HandleFailure ::
  "ctx_heap \<Rightarrow> OBTenantVariable \<Rightarrow> (ctx_heap \<times> OBTenantVariable) option" where
  "OBTenantVariableManager_HandleFailure h m = failure_rule_switch h m"

definition OBTenantVariableManager_GetTaskFunc ::
  "('x) var_env_scheme \<Rightarrow> TaskName \<Rightarrow> OBTenantVariable \<Rightarrow> TaskFunc result" where
  "OBTenantVariableManager_GetTaskFunc env name m = GetTask (obtenantvariable_taskMap (var_task env)) name m"

definition OBTenantVariableManager_ArchiveResource :: "OBTenantVariable \<Rightarrow> OBTenantVariable" where
  "OBTenantVariableManager_ArchiveResource m = leave_flow ''Failed'' m"

definition OBTenantVariableManager :: "('x) var_env_scheme \<Rightarrow> OBTenantVariable ResourceManager" where
  "OBTenantVariableManager env =
     \<lparr>GetMeta = ObjectMeta.truncate, GetStatus = Status, InitStatus = OBTenantVariableManager_InitStatus,
      SetOperationContext = (\<lambda>p m. m\<lparr>Ctx := p\<rparr>), ClearTaskInfo = OBTenantVariableManager_ClearTaskInfo,
      HandleFailure = OBTenantVariableManager_HandleFailure, FinishTask = OBTenantVariableManager_FinishTask,
      GetTaskFunc = OBTenantVariableManager_GetTaskFunc env, GetTaskFlow = OBTenantVariableManager_GetTaskFlow,
      CheckAndUpdateFinalizers = OBTenantVariableManager_CheckAndUpdateFinalizers,
      UpdateStatus = OBTenantVariableManager_UpdateStatus env,
      ArchiveResource = OBTenantVariableManager_ArchiveResource\<rparr>"

text \<open>A value as it is handed to the driver.\<close>

fun sql_of_converted :: "converted \<Rightarrow> sql_value" where
  "sql_of_converted (ConvInt i) = SQL_Int i"
| "sql_of_converted (ConvFloat f) = SQL_Float f"
| "sql_of_converted (ConvBool b) = SQL_Bool b"
| "sql_of_converted (ConvString s) = SQL_Str s"

definition SetOBTenantVariable :: "('x) var_env_scheme \<Rightarrow> OBTenantVariable \<Rightarrow> (unit event, unit) io" where
  "SetOBTenantVariable env m =
     bind_io (wrap_io ''Get operation manager''
        (perform (\<lambda>_. OBTenantVariableManager_getOceanbaseOperationManager env) TenantConnected))
       (\<lambda>_. bind_io (deref_io (VarSpec_Variable m)) (\<lambda>v.
         wrap_io ''Set tenant variable''
           (db_SetGlobalVariable env (Var_Name v) (sql_of_converted (AutoConvert (var_ParseFloat env) (Var_Value v))))))"

section \<open>The managers keep the coordinator's contract\<close>

lemma setting_flow_fresh [simp]:
  "fresh_flow (fill_strategy parameterstatus_Matched genSetOBParameterFlow)"
  "fresh_flow (fill_strategy variablestatus_Matched genSetOBTenantVariableFlow)"
  by (simp_all add: genSetOBParameterFlow_def genSetOBTenantVariableFlow_def)

interpretation op: standard_manager "OBParameterManager env" parameterstatus_Matched "''Failed''" "\<lambda>_. failure_switch" for env
  by unfold_locales
    (auto simp: OBParameterManager_def OBParameterManager_ClearTaskInfo_def OBParameterManager_ArchiveResource_def
      OBParameterManager_FinishTask_def OBParameterManager_HandleFailure_def OBParameterManager_GetTaskFlow_def
      failure_rule_switch_lift creates_flow_def)

interpretation ov: standard_manager "OBTenantVariableManager env" variablestatus_Matched "''Failed''" "\<lambda>_. failure_switch" for env
  by unfold_locales
    (auto simp: OBTenantVariableManager_def OBTenantVariableManager_ClearTaskInfo_def
      OBTenantVariableManager_ArchiveResource_def OBTenantVariableManager_FinishTask_def
      OBTenantVariableManager_HandleFailure_def OBTenantVariableManager_GetTaskFlow_def
      failure_rule_switch_lift creates_flow_def)

section \<open>What a reconcile makes of the status\<close>

text \<open>A database that can be reached and answers for the parameter.\<close>

definition answers_parameter :: "('x) param_env_scheme \<Rightarrow> Parameter \<Rightarrow> row list \<Rightarrow> bool" where
  "answers_parameter env p rows \<longleftrightarrow>
     (\<exists>obcluster. papi_obcluster env = Inr obcluster \<and> psys_client env obcluster = Inr () \<and>
        Status obcluster = clusterstatus_Running) \<and>
     conn_rows env [] sql_QueryParameter [SQL_Str (Param_Name p)] = Inr rows"

definition parameter_settled :: "OBParameter \<Rightarrow> Parameter \<Rightarrow> row list \<Rightarrow> bool" where
  "parameter_settled m p rows \<longleftrightarrow>
     (\<forall>info \<in> set rows. parameter_concerned m info \<longrightarrow> EqualFold (col_str info ''value'') (Param_Value p))"

lemma update_parameter:
  assumes "answers_parameter env p rows" "ParamSpec_Parameter m = Some p"
  shows "OBParameterManager_UpdateStatus env m = Some (compare_parameter m p rows, None)"
  using assms
  by (auto simp: OBParameterManager_UpdateStatus_def OBParameterManager_getOBCluster_def answers_parameter_def
      db_GetParameter_def only_logged_def)

lemma compare_parameter_simps [simp]:
  "Status (compare_parameter m p rows) =
     (if Status m = parameterstatus_NotMatch \<or> \<not> parameter_settled m p rows then parameterstatus_NotMatch
      else parameterstatus_Matched)"
  "Ctx (compare_parameter m p rows) = Ctx m"
  by (auto simp: compare_parameter_def parameter_settled_def Let_def list_all_iff)

lemma ObjectMeta_of [simp]:
  "Annotations (ObjectMeta.truncate r) = Annotations r" "DeletionTimestamp (ObjectMeta.truncate r) = DeletionTimestamp r"
  by (simp_all add: ObjectMeta.truncate_def)

text \<open>The second half of a reconcile of a parameter that is not being deleted.\<close>

lemma parameter_finish:
  assumes "answers_parameter env p rows" "ParamSpec_Parameter (res w) = Some p" "DeletionTimestamp (res w) = None"
  shows "\<exists>d'. coordinate_finish cfg dbgEnv (OBParameterManager env) before d f w =
      Some ((d', None), w\<lparr>res := compare_parameter (res w) p rows, tm := cleanTaskResultMap dbgEnv f (ctxs w) (tm w)\<rparr>) \<and>
    (Status (compare_parameter (res w) p rows) = before \<longrightarrow> d' = d)"
  using update_parameter [OF assms(1,2)] assms(3)
  by (auto simp: coordinate_finish_def OBParameterManager_def Let_def)

definition parameter_flow :: OperationContext where
  "parameter_flow = fill_strategy parameterstatus_Matched genSetOBParameterFlow"

lemma parameter_flow_simps [simp]:
  "Tasks parameter_flow = [''set obparameter'']" "TaskStatus parameter_flow = Empty" "Idx parameter_flow = 0"
  "TargetStatus parameter_flow = parameterstatus_Matched" "RetryCount (OnFailure parameter_flow) = 0"
  "MaxRetry (OnFailure parameter_flow) = 0" "Strategy (OnFailure parameter_flow) = StartOver"
  "NextTryStatus (OnFailure parameter_flow) = parameterstatus_Matched"
  by (simp_all add: parameter_flow_def genSetOBParameterFlow_def new_context_def zero_rule_def)

text \<open>What the manager does in the first half of a reconcile.\<close>

lemmas parameter_manager = OBParameterManager_def OBParameterManager_GetTaskFlow_def OBParameterManager_FinishTask_def
  OBParameterManager_HandleFailure_def parameter_flow_def [symmetric]

definition live_parameter :: "config \<Rightarrow> OBParameter \<Rightarrow> Parameter \<Rightarrow> bool" where
  "live_parameter cfg m p \<longleftrightarrow> ParamSpec_Parameter m = Some p \<and> DeletionTimestamp m = None \<and>
     dict_get (Annotations m) (PauseAnnotation cfg) \<noteq> ''true''"

lemma parameter_reconcile:
  assumes "live_parameter cfg (res w) p" "answers_parameter env p rows" "Status (res w) \<noteq> []"
    and "coordinate_flow cfg dbg (OBParameterManager env) i w = Some (Inr ((d, f), w'))"
    and "live_parameter cfg (res w') p"
  shows "\<exists>d' t. Coordinate cfg dbg dbgEnv (OBParameterManager env) i w =
      Some ((d', None), w'\<lparr>res := compare_parameter (res w') p rows, tm := t\<rparr>) \<and>
    t = cleanTaskResultMap dbgEnv f (ctxs w') (tm w') \<and>
    (Status (compare_parameter (res w') p rows) = Status (res w) \<longrightarrow> d' = d)"
proof -
  have st: "GetStatus (OBParameterManager env) (res w) = Status (res w)" by (simp add: OBParameterManager_def)
  from assms(5) have "ParamSpec_Parameter (res w') = Some p" "DeletionTimestamp (res w') = None"
    by (simp_all add: live_parameter_def)
  from parameter_finish [OF assms(2) this, of cfg dbgEnv "Status (res w)" d f] assms(4) st
  show ?thesis by (auto simp: Coordinate_def)
qed

lemma parameter_begins:
  assumes "live_parameter cfg (res w) p" "Status (res w) = parameterstatus_NotMatch" "Ctx (res w) = None"
  shows "coordinate_flow cfg dbg (OBParameterManager env) i w =
    Some (Inr ((ExecutionRequeueDuration cfg, Some (Some (length (ctxs w)))),
      w\<lparr>ctxs := ctxs w @ [NextTask parameter_flow], res := (res w)\<lparr>Ctx := Some (length (ctxs w))\<rparr>\<rparr>))"
  using assms
  by (simp add: coordinate_flow_def parameter_manager live_parameter_def new_flow_def alloc_def executeTaskFlow_def
      HasNext_def NextTask_def)

lemma parameter_submits:
  assumes "live_parameter cfg (res w) p" "Status (res w) = parameterstatus_NotMatch" "Ctx (res w) = Some a"
    "a < length (ctxs w)" "ctxs w ! a = c" "TaskStatus c = Pending" "Task c = ''set obparameter''"
  shows "\<exists>fn. OBParameterManager_GetTaskFunc env ''set obparameter'' (res w) = Inr fn \<and>
    coordinate_flow cfg dbg (OBParameterManager env) i w =
    Some (Inr ((ExecutionRequeueDuration cfg, Some (Some a)),
      w\<lparr>ctxs := (ctxs w)[a := c\<lparr>TaskId := i, TaskStatus := Running\<rparr>], tm := Submit dbg fn i (tm w)\<rparr>))"
proof -
  obtain fn where fn: "OBParameterManager_GetTaskFunc env ''set obparameter'' (res w) = Inr fn"
    by (simp add: OBParameterManager_GetTaskFunc_def obparameter_taskMap_def GetTask_register_all del: register_all.simps)
  have same: "(res w)\<lparr>Ctx := Some a\<rparr> = res w" using assms(3) by simp
  from fn show ?thesis
    using assms by (simp add: coordinate_flow_def parameter_manager live_parameter_def executeTaskFlow_def same)
qed

lemma parameter_polls:
  assumes "live_parameter cfg (res w) p" "Status (res w) = parameterstatus_NotMatch" "Ctx (res w) = Some a"
    "a < length (ctxs w)" "ctxs w ! a = c" "TaskStatus c = Running"
    "GetTaskResult (TaskId c) (tm w) = (Inr (Some r), t)" "ResStatus r = Successful"
  shows "coordinate_flow cfg dbg (OBParameterManager env) i w =
    Some (Inr ((ExecutionRequeueDuration cfg, Some (Some a)),
      w\<lparr>ctxs := (ctxs w)[a := c\<lparr>TaskStatus := Successful\<rparr>], tm := t\<rparr>))"
proof -
  have same: "(res w)\<lparr>Ctx := Some a\<rparr> = res w" using assms(3) by simp
  show ?thesis
    using assms by (simp add: coordinate_flow_def parameter_manager live_parameter_def executeTaskFlow_def same)
qed

lemma parameter_ends:
  assumes "live_parameter cfg (res w) p" "Status (res w) = parameterstatus_NotMatch" "Ctx (res w) = Some a"
    "a < length (ctxs w)" "ctxs w ! a = c" "TaskStatus c = Successful" "\<not> HasNext c" "TargetStatus c = parameterstatus_Matched"
  shows "coordinate_flow cfg dbg (OBParameterManager env) i w =
    Some (Inr ((ExecutionRequeueDuration cfg, Some (Some a)),
      w\<lparr>res := (res w)\<lparr>Status := parameterstatus_Matched, Ctx := None\<rparr>\<rparr>))"
proof -
  have same: "(res w)\<lparr>Ctx := Some a\<rparr> = res w" using assms(3) by simp
  show ?thesis
    using assms
    by (simp add: coordinate_flow_def parameter_manager live_parameter_def executeTaskFlow_def finish_flow_def same)
qed

lemma parameter_fails:
  assumes "live_parameter cfg (res w) p" "Status (res w) = parameterstatus_NotMatch" "Ctx (res w) = Some a"
    "a < length (ctxs w)" "ctxs w ! a = c" "TaskStatus c = Failed" "OnFailure c = OnFailure parameter_flow"
    "0 \<le> TaskMaxRetryTimes cfg" "1 \<le> TaskRetryBackoffThreshold cfg"
  shows "coordinate_flow cfg dbg (OBParameterManager env) i w =
    Some (Inr ((2 * ExecutionRequeueDuration cfg, Some (Some a)),
      w\<lparr>ctxs := (ctxs w)[a := count_retry c], res := (res w)\<lparr>Status := parameterstatus_Matched, Ctx := None\<rparr>\<rparr>))"
proof -
  have same: "(res w)\<lparr>Ctx := Some a\<rparr> = res w" using assms(3) by simp
  show ?thesis
    using assms
    by (simp add: coordinate_flow_def parameter_manager live_parameter_def executeTaskFlow_def same
        failure_rule_switch_def start_over_switch_def count_retry_def backoff_def Min_go_def)
qed

text \<open>The flow of a parameter is at context \<open>c\<close>.\<close>

definition setting_at :: "config \<Rightarrow> OBParameter \<Rightarrow> OBParameter world \<Rightarrow> Parameter \<Rightarrow> addr \<Rightarrow> OperationContext \<Rightarrow> bool" where
  "setting_at cfg m w p a c \<longleftrightarrow> live_parameter cfg (res w) p \<and> Status (res w) = parameterstatus_NotMatch \<and>
     Ctx (res w) = Some a \<and> a < length (ctxs w) \<and> ctxs w ! a = c \<and>
     parameter_settled (res w) p = parameter_settled m p \<and> ParamSpec_TenantName (res w) = ParamSpec_TenantName m"

lemma live_parameter_simps [simp]:
  "live_parameter cfg (compare_parameter m p' rows) p = live_parameter cfg m p"
  "live_parameter cfg (m\<lparr>Ctx := x\<rparr>) p = live_parameter cfg m p"
  "live_parameter cfg (m\<lparr>Status := st\<rparr>) p = live_parameter cfg m p"
  by (simp_all add: live_parameter_def compare_parameter_def Let_def)

lemma parameter_settled_simps [simp]:
  "parameter_settled (compare_parameter m p' rows) = parameter_settled m"
  "parameter_settled (m\<lparr>Ctx := x\<rparr>) = parameter_settled m"
  "parameter_settled (m\<lparr>Status := st\<rparr>) = parameter_settled m"
  by (simp_all add: parameter_settled_def parameter_concerned_def compare_parameter_def Let_def fun_eq_iff)

lemma compare_parameter_tenant [simp]:
  "ParamSpec_TenantName (compare_parameter m p rows) = ParamSpec_TenantName m"
  by (simp add: compare_parameter_def Let_def)

lemma setting_begins:
  assumes "live_parameter cfg (res w) p" "Status (res w) = parameterstatus_NotMatch" "Ctx (res w) = None"
    and "answers_parameter env p rows"
  obtains d w' where "Coordinate cfg dbg dbgEnv (OBParameterManager env) i w = Some ((d, None), w')"
    "setting_at cfg (res w) w' p (length (ctxs w)) (NextTask parameter_flow)"
  using parameter_reconcile [OF assms(1,4) _ parameter_begins [OF assms(1-3)]] assms
  by (fastforce simp: setting_at_def)

lemma setting_submits:
  assumes "setting_at cfg m w p a c" "answers_parameter env p rows" "TaskStatus c = Pending" "Task c = ''set obparameter''"
  obtains d w' fn where "OBParameterManager_GetTaskFunc env ''set obparameter'' (res w) = Inr fn"
    "Coordinate cfg dbg dbgEnv (OBParameterManager env) i w = Some ((d, None), w')"
    "tm w' = Submit dbg fn i (tm w)" "setting_at cfg m w' p a (c\<lparr>TaskId := i, TaskStatus := Running\<rparr>)"
proof -
  note at = assms(1) [unfolded setting_at_def]
  from parameter_submits [of cfg w p a c env dbg i] at assms(3,4) obtain fn
    where fn: "OBParameterManager_GetTaskFunc env ''set obparameter'' (res w) = Inr fn"
      and run: "coordinate_flow cfg dbg (OBParameterManager env) i w =
        Some (Inr ((ExecutionRequeueDuration cfg, Some (Some a)),
          w\<lparr>ctxs := (ctxs w)[a := c\<lparr>TaskId := i, TaskStatus := Running\<rparr>], tm := Submit dbg fn i (tm w)\<rparr>))"
    by blast
  from parameter_reconcile [OF _ assms(2) _ run, of dbgEnv] at fn that show thesis
    by (fastforce simp: setting_at_def cleanTaskResultMap_def)
qed

lemma setting_polls:
  assumes "setting_at cfg m w p a c" "answers_parameter env p rows" "TaskStatus c = Running"
    "GetTaskResult (TaskId c) (tm w) = (Inr (Some r), t)" "ResStatus r = Successful"
  obtains d w' where "Coordinate cfg dbg dbgEnv (OBParameterManager env) i w = Some ((d, None), w')"
    "setting_at cfg m w' p a (c\<lparr>TaskStatus := Successful\<rparr>)"
proof -
  note at = assms(1) [unfolded setting_at_def]
  from parameter_polls [of cfg w p a c r t dbg env i] at assms(3-5)
  have run: "coordinate_flow cfg dbg (OBParameterManager env) i w =
      Some (Inr ((ExecutionRequeueDuration cfg, Some (Some a)),
        w\<lparr>ctxs := (ctxs w)[a := c\<lparr>TaskStatus := Successful\<rparr>], tm := t\<rparr>))"
    by blast
  from parameter_reconcile [OF _ assms(2) _ run, of dbgEnv] at that show thesis
    by (fastforce simp: setting_at_def)
qed

lemma setting_ends:
  assumes "setting_at cfg m w p a c" "answers_parameter env p rows" "parameter_settled m p rows"
    "TaskStatus c = Successful" "\<not> HasNext c" "TargetStatus c = parameterstatus_Matched"
  obtains d w' where "Coordinate cfg dbg dbgEnv (OBParameterManager env) i w = Some ((d, None), w')"
    "Status (res w') = parameterstatus_Matched" "Ctx (res w') = None"
proof -
  note at = assms(1) [unfolded setting_at_def]
  from parameter_ends [of cfg w p a c dbg env i] at assms(4-6)
  have run: "coordinate_flow cfg dbg (OBParameterManager env) i w =
      Some (Inr ((ExecutionRequeueDuration cfg, Some (Some a)),
        w\<lparr>res := (res w)\<lparr>Status := parameterstatus_Matched, Ctx := None\<rparr>\<rparr>))"
    by blast
  let ?m = "compare_parameter ((res w)\<lparr>Status := parameterstatus_Matched, Ctx := None\<rparr>) p rows"
  from parameter_reconcile [OF _ assms(2) _ run, of dbgEnv] at obtain d' t
    where "Coordinate cfg dbg dbgEnv (OBParameterManager env) i w = Some ((d', None), w\<lparr>res := ?m, tm := t\<rparr>)" by auto
  then show thesis using at assms(3) by (intro that [of d' "w\<lparr>res := ?m, tm := t\<rparr>"]) simp_all
qed

section \<open>What the task does to the database\<close>

text \<open>
  The documented effect of \<^verbatim>\<open>alter system set\<close> on a row of \<^verbatim>\<open>gv$ob_parameters\<close>, as far as the code relies
  on it: without a tenant the statement assigns the parameter of the cluster and of the system tenant
  (ids up to 1), with a tenant that of this tenant. The rows read later hold what was assigned last;
  a row nothing was assigned to may hold anything.
\<close>

definition assigned_by :: "(string \<Rightarrow> int option) \<Rightarrow> string \<Rightarrow> row \<Rightarrow> unit event \<Rightarrow> string option" where
  "assigned_by tenant_id name info e =
     (case e of
        Executed timeout sql [SQL_Str v] (Inr _) \<Rightarrow>
          if sql = sql_SetParameter name \<and> col_int info ''tenant_id'' \<le> 1 then Some v else None
      | Executed timeout sql [SQL_Str v, SQL_Str t] (Inr _) \<Rightarrow>
          if sql = sql_SetParameterWithScope name ''tenant'' \<and> tenant_id t = Some (col_int info ''tenant_id'') then Some v else None
      | _ \<Rightarrow> None)"

definition assigned_last :: "(string \<Rightarrow> int option) \<Rightarrow> string \<Rightarrow> row \<Rightarrow> unit event list \<Rightarrow> string option" where
  "assigned_last tenant_id name info h =
     fold (\<lambda>e v. case assigned_by tenant_id name info e of None \<Rightarrow> v | Some v' \<Rightarrow> Some v') h None"

definition stored_after :: "(string \<Rightarrow> int option) \<Rightarrow> unit event list \<Rightarrow> string \<Rightarrow> row list \<Rightarrow> bool" where
  "stored_after tenant_id h name rows \<longleftrightarrow>
     (\<forall>info \<in> set rows. case assigned_last tenant_id name info h of None \<Rightarrow> True | Some v \<Rightarrow> col_str info ''value'' = v)"

lemma assigned_by_statement [simp]:
  "assigned_by tenant_id name info (Executed timeout (sql_SetParameter name) [SQL_Str v] (Inr ())) =
     (if col_int info ''tenant_id'' \<le> 1 then Some v else None)"
  "assigned_by tenant_id name info (Executed timeout (sql_SetParameterWithScope name ''tenant'') [SQL_Str v, SQL_Str t] (Inr ())) =
     (if tenant_id t = Some (col_int info ''tenant_id'') then Some v else None)"
  by (simp_all add: assigned_by_def)

lemma assigned_last_snoc:
  "assigned_last tenant_id name info (h @ [e, e']) =
     (case assigned_by tenant_id name info e' of Some v \<Rightarrow> Some v | None \<Rightarrow>
        (case assigned_by tenant_id name info e of Some v \<Rightarrow> Some v | None \<Rightarrow> assigned_last tenant_id name info h))"
  by (simp add: assigned_last_def split: option.split)

text \<open>The task of the hub is the program, run after the interactions \<open>h\<close>.\<close>

fun ends_as :: "unit outcome \<Rightarrow> task_outcome \<Rightarrow> bool" where
  "ends_as (Ok ()) out \<longleftrightarrow> out = Returns None"
| "ends_as (Err e) out \<longleftrightarrow> out = Returns (Some e)"
| "ends_as Panic out \<longleftrightarrow> (\<exists>r. out = Panics r)"

definition runs_SetOBParameter :: "('x) param_env_scheme \<Rightarrow> unit event list \<Rightarrow> bool" where
  "runs_SetOBParameter env h \<longleftrightarrow>
     (\<forall>m. param_task env ''set obparameter'' m = ends_as (fst (SetOBParameter env m h)))"

definition accepts_statements :: "('x) param_env_scheme \<Rightarrow> bool" where
  "accepts_statements env \<longleftrightarrow> (\<forall>h sql params. conn_exec env h sql params = Inr ())"

lemma SetOBParameter_run:
  assumes "answers_parameter env p rows" "accepts_statements env" "ParamSpec_Parameter m = Some p"
  shows "SetOBParameter env m h = (Ok (), h @ [SysConnected (Inr ()),
    if ParamSpec_TenantName m \<noteq> []
    then Executed DefaultSqlTimeout (sql_SetParameterWithScope (Param_Name p) ''tenant'')
           [SQL_Str (Param_Value p), SQL_Str (ParamSpec_TenantName m)] (Inr ())
    else Executed DefaultSqlTimeout (sql_SetParameter (Param_Name p)) [SQL_Str (Param_Value p)] (Inr ())])"
  using assms
  by (auto simp: SetOBParameter_def answers_parameter_def accepts_statements_def OBParameterManager_getOBCluster_def
      OBParameterManager_getOceanbaseOperationManager_def db_SetParameter_def ExecWithDefaultTimeout_def ExecWithTimeout_def
      io_defs)

lemma set_parameter_settles:
  assumes "answers_parameter env p rows" "accepts_statements env" "ParamSpec_Parameter m = Some p"
    and "stored_after tenant_id (snd (SetOBParameter env m h)) (Param_Name p) rows'"
    and "ParamSpec_TenantName m = [] \<or> tenant_id (ParamSpec_TenantName m) = Some (ParamSpec_TenantId m)"
  shows "parameter_settled m p rows'"
  unfolding parameter_settled_def
proof (intro ballI impI)
  fix info assume info: "info \<in> set rows'" "parameter_concerned m info"
  have "if ParamSpec_TenantName m \<noteq> [] then tenant_id (ParamSpec_TenantName m) = Some (col_int info ''tenant_id'')
      else col_int info ''tenant_id'' \<le> 1"
    using info(2) assms(5) by (auto simp: parameter_concerned_def)
  then have "assigned_last tenant_id (Param_Name p) info (snd (SetOBParameter env m h)) = Some (Param_Value p)"
    unfolding SetOBParameter_run [OF assms(1-3)] by (simp add: assigned_last_snoc split: if_splits)
  with info(1) assms(4) show "EqualFold (col_str info ''value'') (Param_Value p)"
    by (auto simp: stored_after_def EqualFold_def dest: bspec)
qed

section \<open>Sample objects\<close>

definition small_parameter :: OBParameter where
  "small_parameter = \<lparr>Name = ''cpu'', Namespace = ''oceanbase'', Annotations = Map.empty, Labels = Map.empty, Finalizers = [],
     DeletionTimestamp = None, Status = parameterstatus_NotMatch, Ctx = None, ParamSpec_ClusterName = ''test'',
     ParamSpec_TenantName = [], ParamSpec_TenantId = 0,
     ParamSpec_Parameter = Some \<lparr>Param_Name = ''cpu_count'', Param_Value = ''16''\<rparr>, ParamStatus_Parameter = []\<rparr>"

definition small_param_env :: "string \<Rightarrow> param_env" where
  "small_param_env v = sdk_env.extend (quiet_db\<lparr>conn_rows := \<lambda>_ _ _. Inr [[(''value'', SQL_Str v), (''tenant_id'', SQL_Int 1)]]\<rparr>)
     (param_env.fields (Inr small_cluster) (Inl NotFound) (Inr small_parameter) (\<lambda>_. None) (\<lambda>_. Inr ()) (\<lambda>_ _ _. Inr ())
       (\<lambda>_ _ out. out = Returns None))"

definition small_param_world :: "OBParameter world" where
  "small_param_world = \<lparr>ctxs = [], res = small_parameter, tm = taskManagerInit 2\<rparr>"

lemma small_param_answers:
  "answers_parameter (small_param_env v) \<lparr>Param_Name = ''cpu_count'', Param_Value = ''16''\<rparr>
     [[(''value'', SQL_Str v), (''tenant_id'', SQL_Int 1)]]"
  by (simp add: answers_parameter_def small_param_env_def sdk_env.extend_def param_env.fields_def quiet_db_def small_cluster_def)

text \<open>The same environment with the program as its task.\<close>

definition running_param_env :: "string \<Rightarrow> param_env" where
  "running_param_env v =
     (small_param_env v)\<lparr>param_task := \<lambda>_ m. ends_as (fst (SetOBParameter (small_param_env v) m []))\<rparr>"

lemma running_param_answers:
  "answers_parameter (running_param_env v) \<lparr>Param_Name = ''cpu_count'', Param_Value = ''16''\<rparr>
     [[(''value'', SQL_Str v), (''tenant_id'', SQL_Int 1)]]"
  "accepts_statements (running_param_env v)"
  using small_param_answers [of v]
  by (simp_all add: answers_parameter_def running_param_env_def accepts_statements_def)
    (simp add: small_param_env_def sdk_env.extend_def param_env.fields_def quiet_db_def)

lemma SetOBParameter_of_task [simp]: "SetOBParameter (env\<lparr>param_task := f\<rparr>) = SetOBParameter env"
  by (simp add: SetOBParameter_def OBParameterManager_getOceanbaseOperationManager_def OBParameterManager_getOBCluster_def
      db_SetParameter_def ExecWithDefaultTimeout_def ExecWithTimeout_def fun_eq_iff cong: sum.case_cong)

lemma running_param_runs: "runs_SetOBParameter (running_param_env v) []"
  by (simp add: runs_SetOBParameter_def running_param_env_def)

lemma small_parameter_settled:
  "parameter_settled small_parameter \<lparr>Param_Name = ''cpu_count'', Param_Value = ''16''\<rparr>
     [[(''value'', SQL_Str v), (''tenant_id'', SQL_Int 1)]] \<longleftrightarrow> EqualFold v ''16''"
  by (simp add: parameter_settled_def parameter_concerned_def small_parameter_def col_int_def col_str_def)

lemma small_parameter_live:
  "live_parameter default_cfg small_parameter \<lparr>Param_Name = ''cpu_count'', Param_Value = ''16''\<rparr>"
  by (simp add: live_parameter_def small_parameter_def dict_get_def)

section \<open>Properties\<close>

text \<open>
  C25. A parameter that differs from its specification is set. Take a parameter that is neither
  deleted nor paused, without a flow; a database that can be reached and accepts statements; and a
  specification that gives the id of its tenant, if it names one. The first reconcile starts the
  flow, the second one hands \<^verbatim>\<open>SetOBParameter\<close> to the task manager; once a poll delivers what the task
  ended with, the third one takes it and the fourth one ends the flow. When the rows read then hold what
  the statements of the task assigned, the parameter is matched, without a flow.
\<close>

theorem parameter_set_end_to_end:
  assumes "live_parameter cfg (res w) p" "Status (res w) = parameterstatus_NotMatch" "Ctx (res w) = None"
    and "answers_parameter env p rows" "accepts_statements env" "runs_SetOBParameter env h"
    and "ParamSpec_TenantName (res w) = [] \<or> tenant_id (ParamSpec_TenantName (res w)) = Some (ParamSpec_TenantId (res w))"
    and "answers_parameter env' p rows'" "stored_after tenant_id (snd (SetOBParameter env (res w) h)) (Param_Name p) rows'"
  shows "\<exists>d1 w1 d2 w2 fn. Coordinate cfg dbg dbgEnv (OBParameterManager env) i w = Some ((d1, None), w1) \<and>
    Coordinate cfg dbg dbgEnv (OBParameterManager env) i w1 = Some ((d2, None), w2) \<and>
    OBParameterManager_GetTaskFunc env ''set obparameter'' (res w1) = Inr fn \<and> tm w2 = Submit dbg fn i (tm w1) \<and>
    SetOBParameter env (res w1) h = SetOBParameter env (res w) h \<and>
    (\<forall>t t' r. fn r \<and> GetTaskResult i t = (Inr (Some (result_of r)), t') \<longrightarrow>
      (\<exists>d3 w3 d4 w4. Coordinate cfg dbg dbgEnv (OBParameterManager env) i (w2\<lparr>tm := t\<rparr>) = Some ((d3, None), w3) \<and>
        Coordinate cfg dbg dbgEnv (OBParameterManager env') i w3 = Some ((d4, None), w4) \<and>
        Status (res w4) = parameterstatus_Matched \<and> Ctx (res w4) = None))"
proof -
  let ?c = "NextTask parameter_flow" and ?a = "length (ctxs w)"
  have c: "TaskStatus ?c = Pending" "Task ?c = ''set obparameter''" "\<not> HasNext ?c" "TargetStatus ?c = parameterstatus_Matched"
    by (simp_all add: NextTask_def HasNext_def)
  have spec: "ParamSpec_Parameter (res w) = Some p" using assms(1) by (simp add: live_parameter_def)
  note settled = set_parameter_settles [OF assms(4,5) spec assms(9,7)]
  from setting_begins [OF assms(1-4)] obtain d1 w1
    where 1: "Coordinate cfg dbg dbgEnv (OBParameterManager env) i w = Some ((d1, None), w1)"
      "setting_at cfg (res w) w1 p ?a ?c" .
  have spec1: "ParamSpec_Parameter (res w1) = Some p" "ParamSpec_TenantName (res w1) = ParamSpec_TenantName (res w)"
    using 1(2) by (simp_all add: setting_at_def live_parameter_def)
  note set1 = SetOBParameter_run [OF assms(4,5) spec1(1)]
  have same: "SetOBParameter env (res w1) h = SetOBParameter env (res w) h"
    unfolding set1 SetOBParameter_run [OF assms(4,5) spec] spec1(2) ..
  from setting_submits [OF 1(2) assms(4) c(1,2)] obtain d2 w2 fn
    where fn: "OBParameterManager_GetTaskFunc env ''set obparameter'' (res w1) = Inr fn"
      and 2: "Coordinate cfg dbg dbgEnv (OBParameterManager env) i w1 = Some ((d2, None), w2)"
      "tm w2 = Submit dbg fn i (tm w1)" "setting_at cfg (res w) w2 p ?a (?c\<lparr>TaskId := i, TaskStatus := Running\<rparr>)" .
  have task: "fn r \<longleftrightarrow> r = Returns None" for r
    using fn set1 [of h] assms(6)
    by (auto simp: OBParameterManager_GetTaskFunc_def obparameter_taskMap_def GetTask_register_all runs_SetOBParameter_def
        simp del: register_all.simps)
  have "\<exists>d3 w3 d4 w4. Coordinate cfg dbg dbgEnv (OBParameterManager env) i (w2\<lparr>tm := t\<rparr>) = Some ((d3, None), w3) \<and>
      Coordinate cfg dbg dbgEnv (OBParameterManager env') i w3 = Some ((d4, None), w4) \<and>
      Status (res w4) = parameterstatus_Matched \<and> Ctx (res w4) = None"
    if poll: "GetTaskResult i t = (Inr (Some r), t')" "ResStatus r = Successful" for t t' r
  proof -
    let ?r = "?c\<lparr>TaskId := i, TaskStatus := Running\<rparr>"
    have at: "setting_at cfg (res w) (w2\<lparr>tm := t\<rparr>) p ?a ?r" using 2(3) by (simp add: setting_at_def)
    have "GetTaskResult (TaskId ?r) (tm (w2\<lparr>tm := t\<rparr>)) = (Inr (Some r), t')" "TaskStatus ?r = Running" using poll by simp_all
    from setting_polls [OF at assms(4) this(2,1) poll(2)] obtain d3 w3
      where 3: "Coordinate cfg dbg dbgEnv (OBParameterManager env) i (w2\<lparr>tm := t\<rparr>) = Some ((d3, None), w3)"
        "setting_at cfg (res w) w3 p ?a (?r\<lparr>TaskStatus := Successful\<rparr>)" .
    have end_c: "TaskStatus (?r\<lparr>TaskStatus := Successful\<rparr>) = Successful" "\<not> HasNext (?r\<lparr>TaskStatus := Successful\<rparr>)"
      "TargetStatus (?r\<lparr>TaskStatus := Successful\<rparr>) = parameterstatus_Matched"
      using c by (simp_all add: HasNext_def)
    from setting_ends [OF 3(2) assms(8) settled end_c] 3(1) show ?thesis by metis
  qed
  then have "\<forall>t t' r. fn r \<and> GetTaskResult i t = (Inr (Some (result_of r)), t') \<longrightarrow>
      (\<exists>d3 w3 d4 w4. Coordinate cfg dbg dbgEnv (OBParameterManager env) i (w2\<lparr>tm := t\<rparr>) = Some ((d3, None), w3) \<and>
        Coordinate cfg dbg dbgEnv (OBParameterManager env') i w3 = Some ((d4, None), w4) \<and>
        Status (res w4) = parameterstatus_Matched \<and> Ctx (res w4) = None)"
    by (simp add: task)
  with 1(1) 2(1,2) fn same show ?thesis by blast
qed

theorem parameter_set_end_to_end_witness:
  "\<exists>w2 d3 w3 d4 w4. Coordinate default_cfg False False (OBParameterManager (running_param_env ''8'')) ''id1''
      (w2\<lparr>tm := (taskManagerInit 2)\<lparr>TaskResultCache := [''id1'' \<mapsto> \<lparr>ResStatus = Successful, ResError = None\<rparr>]\<rparr>\<rparr>) =
        Some ((d3, None), w3) \<and>
    Coordinate default_cfg False False (OBParameterManager (running_param_env ''16'')) ''id1'' w3 = Some ((d4, None), w4) \<and>
    Status (res w4) = parameterstatus_Matched"
proof -
  let ?p = "\<lparr>Param_Name = ''cpu_count'', Param_Value = ''16''\<rparr>"
  let ?t = "(taskManagerInit 2)\<lparr>TaskResultCache := [''id1'' \<mapsto> \<lparr>ResStatus = Successful, ResError = None\<rparr>]\<rparr>"
  have w: "live_parameter default_cfg (res small_param_world) ?p"
    "Status (res small_param_world) = parameterstatus_NotMatch" "Ctx (res small_param_world) = None"
    "ParamSpec_Parameter (res small_param_world) = Some ?p" "ParamSpec_TenantName (res small_param_world) = []"
    using small_parameter_live by (simp_all add: small_param_world_def) (simp_all add: small_parameter_def)
  note set = SetOBParameter_run [OF running_param_answers w(4)]
  have stored: "stored_after Map.empty (snd (SetOBParameter (running_param_env ''8'') (res small_param_world) []))
      (Param_Name ?p) [[(''value'', SQL_Str ''16''), (''tenant_id'', SQL_Int 1)]]"
    using assigned_last_snoc [of _ _ _ "[]"] by (simp add: set w(5) stored_after_def col_int_def col_str_def)
  have poll: "GetTaskResult ''id1'' ?t = (Inr (Some (result_of (Returns None))), ?t)"
    by (simp add: GetTaskResult_run)
  from parameter_set_end_to_end [OF w(1-3) running_param_answers running_param_runs _ running_param_answers(1) stored,
      of False False "''id1''"] w(5)
  obtain d1 w1 w2 fn where fn: "OBParameterManager_GetTaskFunc (running_param_env ''8'') ''set obparameter'' (res w1) = Inr fn"
    and spec: "Coordinate default_cfg False False (OBParameterManager (running_param_env ''8'')) ''id1'' small_param_world =
      Some ((d1, None), w1)"
    and same: "SetOBParameter (running_param_env ''8'') (res w1) [] = SetOBParameter (running_param_env ''8'') (res small_param_world) []"
    and rest: "\<And>t t' r. fn r \<and> GetTaskResult ''id1'' t = (Inr (Some (result_of r)), t') \<Longrightarrow>
      \<exists>d3 w3 d4 w4. Coordinate default_cfg False False (OBParameterManager (running_param_env ''8'')) ''id1'' (w2\<lparr>tm := t\<rparr>) =
          Some ((d3, None), w3) \<and>
        Coordinate default_cfg False False (OBParameterManager (running_param_env ''16'')) ''id1'' w3 = Some ((d4, None), w4) \<and>
        Status (res w4) = parameterstatus_Matched \<and> Ctx (res w4) = None"
    by blast
  have "fn (Returns None)"
    using fn same running_param_runs [of "''8''"]
    by (auto simp: OBParameterManager_GetTaskFunc_def obparameter_taskMap_def GetTask_register_all runs_SetOBParameter_def set
        simp del: register_all.simps)
  with rest poll show ?thesis by blast
qed

text \<open>
  The retry limit does not hold for parameters. When setting a parameter fails and its
  value still differs, the reconcile drops the flow and the comparison at its end makes the
  status \<^verbatim>\<open>not match\<close> again, so the next reconcile starts a fresh flow with a retry count of
  zero: whatever the limit, the parameter is never archived and the delay never grows.
\<close>

theorem parameter_failure_forgets_retries:
  assumes "setting_at cfg m w p a c" "TaskStatus c = Failed" "OnFailure c = OnFailure parameter_flow"
    and "0 \<le> TaskMaxRetryTimes cfg" "1 \<le> TaskRetryBackoffThreshold cfg"
    and "answers_parameter env p rows" "\<not> parameter_settled m p rows"
  shows "\<exists>w' c'. Coordinate cfg dbg dbgEnv (OBParameterManager env) i w =
      Some ((2 * ExecutionRequeueDuration cfg, None), w') \<and>
    Status (res w') = parameterstatus_NotMatch \<and> Ctx (res w') = None \<and>
    OBParameterManager_GetTaskFlow (ctxs w') (res w') = Some (new_flow (ctxs w') c') \<and>
    RetryCount (OnFailure c') = 0"
proof -
  note at = assms(1) [unfolded setting_at_def]
  have run: "coordinate_flow cfg dbg (OBParameterManager env) i w =
      Some (Inr ((2 * ExecutionRequeueDuration cfg, Some (Some a)),
        w\<lparr>ctxs := (ctxs w)[a := count_retry c], res := (res w)\<lparr>Status := parameterstatus_Matched, Ctx := None\<rparr>\<rparr>))"
    using at assms(2-5) by (intro parameter_fails) auto
  let ?m = "compare_parameter ((res w)\<lparr>Status := parameterstatus_Matched, Ctx := None\<rparr>) p rows"
  have m: "Status ?m = parameterstatus_NotMatch" "Ctx ?m = None" using at assms(7) by simp_all
  from parameter_reconcile [OF _ assms(6) _ run, of dbgEnv] at m obtain t
    where "Coordinate cfg dbg dbgEnv (OBParameterManager env) i w =
      Some ((2 * ExecutionRequeueDuration cfg, None), w\<lparr>ctxs := (ctxs w)[a := count_retry c], res := ?m, tm := t\<rparr>)" by auto
  with m show ?thesis
    by (intro exI [of _ "w\<lparr>ctxs := (ctxs w)[a := count_retry c], res := ?m, tm := t\<rparr>"] exI [of _ parameter_flow])
      (simp add: OBParameterManager_GetTaskFlow_def parameter_flow_def [symmetric])
qed

definition failed_param_world :: "OBParameter world" where
  "failed_param_world = \<lparr>ctxs = [(NextTask parameter_flow)\<lparr>TaskStatus := Failed\<rparr>], res = small_parameter\<lparr>Ctx := Some 0\<rparr>,
     tm = taskManagerInit 2\<rparr>"

theorem parameter_failure_forgets_retries_witness:
  "\<exists>w'. Coordinate default_cfg False False (OBParameterManager (small_param_env ''8'')) ''id1'' failed_param_world =
      Some ((2 * ExecutionRequeueDuration default_cfg, None), w') \<and>
    Status (res w') = parameterstatus_NotMatch \<and> Ctx (res w') = None"
proof -
  let ?p = "\<lparr>Param_Name = ''cpu_count'', Param_Value = ''16''\<rparr>"
  have at: "setting_at default_cfg small_parameter failed_param_world ?p 0 ((NextTask parameter_flow)\<lparr>TaskStatus := Failed\<rparr>)"
    using small_parameter_live by (simp add: setting_at_def failed_param_world_def) (simp add: small_parameter_def)
  have "\<not> parameter_settled small_parameter ?p [[(''value'', SQL_Str ''8''), (''tenant_id'', SQL_Int 1)]]"
    unfolding small_parameter_settled by code_simp
  from parameter_failure_forgets_retries [OF at _ _ _ _ small_param_answers this, of False False "''id1''"]
  show ?thesis by (auto simp: NextTask_def default_cfg_def)
qed

end
