(* ===== verification/Flow_Outcomes.thy ===== *)
theory Flow_Outcomes
  imports OBParameter
begin

text \<open>
  Whole flows, as runs of \<^verbatim>\<open>executeTaskFlow\<close>: how many reconciles a flow takes whose tasks
  succeed, and how many a task that always fails is given. Between two reconciles everything may
  change (the object is read from the API server again, the workers and other resources use the
  task manager) except the operation context in the status of the resource, which is read back as it
  was written. A poll that finds the task still running costs a reconcile more.
\<close>

section \<open>Runs of a flow\<close>

definition flow_context :: "('r \<Rightarrow> addr option) \<Rightarrow> 'r world \<Rightarrow> OperationContext option" where
  "flow_context ctx_of w = deref (ctxs w) (ctx_of (res w))"

definition poll_of :: "'r world \<Rightarrow> OperationContext \<Rightarrow> TaskResult option result" where
  "poll_of w c = fst (GetTaskResult (TaskId c) (tm w))"

definition still_running :: "'r world \<Rightarrow> OperationContext \<Rightarrow> bool" where
  "still_running w c \<longleftrightarrow> TaskStatus c = Running \<and> poll_of w c = Inr None"

text \<open>
  A run of \<open>n\<close> reconciles, of which \<open>k\<close> found a task still running. Each of them starts in a world that
  satisfies \<open>fits\<close> with the context of the flow.
\<close>

inductive flow_run ::
  "config \<Rightarrow> bool \<Rightarrow> 'r ResourceManager \<Rightarrow> ('r \<Rightarrow> addr option) \<Rightarrow> ('r world \<Rightarrow> OperationContext \<Rightarrow> bool) \<Rightarrow>
     nat \<Rightarrow> nat \<Rightarrow> 'r world \<Rightarrow> 'r world \<Rightarrow> bool"
  for cfg dbg M ctx_of fits where
  run_start: "flow_run cfg dbg M ctx_of fits 0 0 w w"
| run_step: "flow_run cfg dbg M ctx_of fits n k w0 w \<Longrightarrow>
    flow_context ctx_of w = Some c \<Longrightarrow> flow_context ctx_of w1 = Some c \<Longrightarrow> fits w1 c \<Longrightarrow>
    executeTaskFlow cfg dbg M taskId (ctx_of (res w1)) w1 = Some w2 \<Longrightarrow>
    flow_run cfg dbg M ctx_of fits (Suc n) (if still_running w1 c then Suc k else k) w0 w2"

text \<open>The task has a function, and a poll finds it running or ended as wanted.\<close>

definition task_found :: "'r ResourceManager \<Rightarrow> 'r world \<Rightarrow> OperationContext \<Rightarrow> bool" where
  "task_found M w c \<longleftrightarrow> (\<exists>fn. GetTaskFunc M (Task c) (res w) = Inr fn)"

definition task_succeeds :: "'r ResourceManager \<Rightarrow> 'r world \<Rightarrow> OperationContext \<Rightarrow> bool" where
  "task_succeeds M w c \<longleftrightarrow>
     (TaskStatus c = Pending \<longrightarrow> task_found M w c) \<and>
     (TaskStatus c = Running \<longrightarrow> poll_of w c = Inr None \<or>
        (\<exists>r. poll_of w c = Inr (Some r) \<and> ResStatus r = Successful))"

definition task_fails :: "'r ResourceManager \<Rightarrow> 'r world \<Rightarrow> OperationContext \<Rightarrow> bool" where
  "task_fails M w c \<longleftrightarrow>
     (TaskStatus c = Pending \<longrightarrow> task_found M w c) \<and>
     (TaskStatus c = Running \<longrightarrow> (\<forall>r. poll_of w c = Inr (Some r) \<longrightarrow> ResStatus r = Failed))"

text \<open>What one reconcile makes of the context, by the simulation of the specification.\<close>

lemma simulated_step:
  assumes "simulates_spec M ctx_of cleared archived failure" "flow_context ctx_of w = Some c"
    and "executeTaskFlow cfg dbg M taskId (ctx_of (res w)) w = Some w'"
  shows "flow_view M ctx_of w' = spec_step cfg cleared archived (failure (res w))
    \<lparr>found = task_found M w c, polled = poll_of w c, new_id = taskId\<rparr> (GetStatus M (res w)) c"
proof -
  from assms(2) obtain a where a: "ctx_of (res w) = Some a" "a < length (ctxs w)" "ctxs w ! a = c"
    by (auto simp: flow_context_def deref_def split: option.splits if_splits)
  with assms(1,3) show ?thesis
    unfolding simulates_spec_def task_found_def poll_of_def by (metis option.inject)
qed

lemma flow_view_context: "snd (flow_view M ctx_of w) = flow_context ctx_of w"
  by (simp add: flow_view_def flow_context_def)

section \<open>A flow whose tasks succeed\<close>

text \<open>How many reconciles without waiting a flow has left.\<close>

definition steps_left :: "OperationContext \<Rightarrow> nat" where
  "steps_left c =
     (case TaskStatus c of
        Empty \<Rightarrow> 3 * length (Tasks c) + 1
      | Pending \<Rightarrow> 3 * (length (Tasks c) - Idx c) + 3
      | Running \<Rightarrow> 3 * (length (Tasks c) - Idx c) + 2
      | _ \<Rightarrow> 3 * (length (Tasks c) - Idx c) + 1)"

definition on_course :: "TaskName list \<Rightarrow> string \<Rightarrow> OperationContext \<Rightarrow> bool" where
  "on_course tasks target c \<longleftrightarrow>
     Tasks c = tasks \<and> TargetStatus c = target \<and> Idx c \<le> length tasks \<and>
     (TaskStatus c = Empty \<and> Idx c = 0 \<or> TaskStatus c \<in> {Pending, Running, Successful})"

lemma succeeding_step:
  assumes "on_course tasks target c" "tasks \<noteq> []" "task_succeeds M w c"
    and "e = \<lparr>found = task_found M w c, polled = poll_of w c, new_id = taskId\<rparr>"
  shows "(\<exists>c' s'. spec_step cfg cleared archived failure e s c = (s', Some c') \<and> on_course tasks target c' \<and>
      steps_left c + (if still_running w c then 1 else 0) = Suc (steps_left c')) \<or>
    (spec_step cfg cleared archived failure e s c = (target, None) \<and> steps_left c = 1 \<and> \<not> still_running w c)"
proof (cases "TaskStatus c = Empty")
  case True
  obtain t ts where tasks: "tasks = t # ts" using assms(2) by (cases tasks) auto
  with True assms(1) have "HasNext c" "Tasks c = t # ts" "TargetStatus c = target" "Idx c = 0"
    by (auto simp: on_course_def HasNext_def)
  with True tasks have "spec_step cfg cleared archived failure e s c = (s, Some (NextTask c))"
    "on_course tasks target (NextTask c)" "steps_left c = Suc (steps_left (NextTask c))" "\<not> still_running w c"
    by (simp_all add: spec_step_def on_course_def steps_left_def still_running_def NextTask_HasNext)
  then show ?thesis by auto
next
  case False
  with assms show ?thesis
    by (cases "TaskStatus c")
      (auto simp: spec_step_def on_course_def steps_left_def task_succeeds_def still_running_def HasNext_def NextTask_HasNext)
qed

lemma flow_run_succeeds:
  assumes run: "flow_run cfg dbg M ctx_of (task_succeeds M) n k w0 w"
    and sim: "simulates_spec M ctx_of cleared archived failure"
    and start: "flow_context ctx_of w0 = Some c0" "on_course tasks target c0" "tasks \<noteq> []"
  shows "(\<exists>c. flow_context ctx_of w = Some c \<and> on_course tasks target c \<and> n + steps_left c = steps_left c0 + k) \<or>
    (flow_view M ctx_of w = (target, None) \<and> n = steps_left c0 + k)"
  using run start(1,2)
proof (induction rule: flow_run.induct)
  case (run_start w)
  then show ?case by simp
next
  case (run_step n k w0 w c w1 taskId w2)
  have "snd (flow_view M ctx_of w) = Some c" by (simp only: flow_view_context run_step.hyps(2))
  then have "flow_view M ctx_of w \<noteq> (target, None)" by (metis option.distinct(1) snd_conv)
  with run_step.IH [OF run_step.prems] run_step.hyps(2) have
    c: "on_course tasks target c" "n + steps_left c = steps_left c0 + k" by simp_all
  from simulated_step [OF sim run_step.hyps(3,5)] have view: "flow_view M ctx_of w2 =
      spec_step cfg cleared archived (failure (res w1))
        \<lparr>found = task_found M w1 c, polled = poll_of w1 c, new_id = taskId\<rparr> (GetStatus M (res w1)) c" .
  from succeeding_step [OF c(1) start(3) run_step.hyps(4) refl, of cfg cleared archived "failure (res w1)"
      taskId "GetStatus M (res w1)", folded view]
  show ?case
  proof (elim disjE exE conjE)
    fix c' s'
    assume "flow_view M ctx_of w2 = (s', Some c')" "on_course tasks target c'"
      "steps_left c + (if still_running w1 c then 1 else 0) = Suc (steps_left c')"
    with c(2) flow_view_context [of M ctx_of w2] show ?thesis by (auto split: if_splits)
  qed (use c(2) in simp)
qed

section \<open>A task that always fails\<close>

text \<open>
  How many reconciles without waiting the current task has left under \<^verbatim>\<open>RetryFromCurrent\<close> with a limit
  of \<open>m\<close> retries: three for each round, of which the last one archives the resource.
\<close>

definition rounds_left :: "nat \<Rightarrow> OperationContext \<Rightarrow> nat" where
  "rounds_left m c =
     3 * (m + 1 - nat (RetryCount (OnFailure c))) +
     (case TaskStatus c of Pending \<Rightarrow> 3 | Running \<Rightarrow> 2 | _ \<Rightarrow> 1)"

definition retrying :: "config \<Rightarrow> nat \<Rightarrow> OperationContext \<Rightarrow> bool" where
  "retrying cfg m c \<longleftrightarrow>
     TaskStatus c \<in> {Pending, Running, Failed} \<and> Strategy (OnFailure c) = RetryFromCurrent \<and>
     0 \<le> RetryCount (OnFailure c) \<and> RetryCount (OnFailure c) \<le> int m + 1 \<and> max_retry cfg c = int m"

lemma failing_step:
  assumes "retrying cfg m c" "task_fails M w c"
    and "e = \<lparr>found = task_found M w c, polled = poll_of w c, new_id = taskId\<rparr>"
  shows "(\<exists>c' s'. spec_step cfg cleared archived failure_switch e s c = (s', Some c') \<and> retrying cfg m c' \<and>
      rounds_left m c + (if still_running w c then 1 else 0) = Suc (rounds_left m c')) \<or>
    (spec_step cfg cleared archived failure_switch e s c = (archived, None) \<and> rounds_left m c = 1 \<and> \<not> still_running w c)"
proof (cases "TaskStatus c = Failed")
  case True
  show ?thesis
  proof (cases "max_retry cfg c < RetryCount (OnFailure c)")
    case True
    with \<open>TaskStatus c = Failed\<close> assms(1) show ?thesis
      by (simp add: spec_step_def retrying_def rounds_left_def still_running_def limited_def)
  next
    case False
    have "max_retry cfg (count_retry c) = max_retry cfg c" for c :: OperationContext by (simp add: max_retry_def)
    moreover have "max_retry cfg (c\<lparr>TaskStatus := s\<rparr>) = max_retry cfg c" for s by (simp add: max_retry_def)
    ultimately show ?thesis
      using False \<open>TaskStatus c = Failed\<close> assms(1)
      by (auto simp: spec_step_def retrying_def rounds_left_def still_running_def limited_def failure_switch_def
          count_retry_def [THEN arg_cong [where f = TaskStatus]])
  qed
next
  case False
  have "max_retry cfg (c\<lparr>TaskStatus := s\<rparr>) = max_retry cfg c" "max_retry cfg (c\<lparr>TaskId := i, TaskStatus := s\<rparr>) = max_retry cfg c"
    for s i by (simp_all add: max_retry_def)
  with False assms show ?thesis
    by (cases "TaskStatus c")
      (auto simp: spec_step_def retrying_def rounds_left_def task_fails_def still_running_def split: sum.split option.split)
qed

lemma flow_run_fails:
  assumes run: "flow_run cfg dbg M ctx_of (\<lambda>w c. task_fails M w c \<and> failure (res w) = failure_switch) n k w0 w"
    and sim: "simulates_spec M ctx_of cleared archived failure"
    and start: "flow_context ctx_of w0 = Some c0" "retrying cfg m c0"
  shows "(\<exists>c. flow_context ctx_of w = Some c \<and> retrying cfg m c \<and> n + rounds_left m c = rounds_left m c0 + k) \<or>
    (flow_view M ctx_of w = (archived, None) \<and> n = rounds_left m c0 + k)"
  using run start
proof (induction rule: flow_run.induct)
  case (run_start w)
  then show ?case by simp
next
  case (run_step n k w0 w c w1 taskId w2)
  have "snd (flow_view M ctx_of w) = Some c" by (simp only: flow_view_context run_step.hyps(2))
  then have "flow_view M ctx_of w \<noteq> (archived, None)" by (metis option.distinct(1) snd_conv)
  with run_step.IH [OF run_step.prems] run_step.hyps(2) have
    c: "retrying cfg m c" "n + rounds_left m c = rounds_left m c0 + k" by simp_all
  from run_step.hyps(4) have fits: "task_fails M w1 c" "failure (res w1) = failure_switch" by auto
  from simulated_step [OF sim run_step.hyps(3,5)] fits(2) have view: "flow_view M ctx_of w2 =
      spec_step cfg cleared archived failure_switch
        \<lparr>found = task_found M w1 c, polled = poll_of w1 c, new_id = taskId\<rparr> (GetStatus M (res w1)) c" by simp
  from failing_step [OF c(1) fits(1) refl, of cleared archived taskId "GetStatus M (res w1)", folded view]
  show ?case
  proof (elim disjE exE conjE)
    fix c' s'
    assume "flow_view M ctx_of w2 = (s', Some c')" "retrying cfg m c'"
      "rounds_left m c + (if still_running w1 c then 1 else 0) = Suc (rounds_left m c')"
    with c(2) flow_view_context [of M ctx_of w2] show ?thesis by (auto split: if_splits)
  qed (use c(2) in simp)
qed

section \<open>Properties\<close>

text \<open>
  C21. Take a manager that follows the specification of the coordinator (each of the eleven does) and
  a flow as it is created. In every run of \<^verbatim>\<open>executeTaskFlow\<close> in which each task has a function and each
  poll finds its task still running or successful, the flow is over after exactly three reconciles
  per task, one to start it and one for every poll that had to wait, and the resource then has the
  target status; before that the flow is still there and the next reconcile does not panic.
\<close>

theorem flow_reaches_target:
  assumes sim: "simulates_spec M ctx_of cleared archived failure"
    and start: "flow_context ctx_of w0 = Some (new_context name tasks target rule)" "tasks \<noteq> []"
    and run: "flow_run cfg dbg M ctx_of (task_succeeds M) n k w0 w"
  shows "if n < 3 * length tasks + 1 + k
    then flow_context ctx_of w \<noteq> None \<and> (\<exists>w'. executeTaskFlow cfg dbg M taskId (ctx_of (res w)) w = Some w')
    else n = 3 * length tasks + 1 + k \<and> flow_view M ctx_of w = (target, None)"
proof -
  let ?c = "new_context name tasks target rule"
  have c: "on_course tasks target ?c" "steps_left ?c = 3 * length tasks + 1"
    by (simp_all add: on_course_def steps_left_def new_context_def)
  have pos: "0 < steps_left c" for c by (simp add: steps_left_def split: TaskStatus.split)
  have "\<exists>w'. executeTaskFlow cfg dbg M taskId (ctx_of (res w)) w = Some w'" if "flow_context ctx_of w = Some c" for c
    using sim that by (force simp: simulates_spec_def flow_context_def deref_def split: option.splits if_splits)
  with flow_run_succeeds [OF run sim start(1) c(1) start(2)] pos show ?thesis
    unfolding c(2) by (metis add.commute less_add_same_cancel2 less_irrefl option.distinct(1))
qed

text \<open>
  C30. Take a manager whose \<^verbatim>\<open>HandleFailure\<close> is the common switch (as that of a cluster, zone, server,
  tenant, parameter or variable not under deletion), and a flow under \<^verbatim>\<open>RetryFromCurrent\<close> that has
  submitted nothing yet of the current task. In every run of \<^verbatim>\<open>executeTaskFlow\<close> in which the task has a
  function and no poll finds it successful, the resource is archived after exactly \<open>m + 2\<close> rounds of three
  reconciles, \<open>m\<close> being the retry limit, plus one for every poll that had to wait; before that the flow
  is still there. (Under \<^verbatim>\<open>StartOver\<close> a flow that sets the status back is dropped and a new one counts
  from zero, see \<open>parameter_failure_forgets_retries\<close>.)
\<close>

theorem failing_task_archived:
  assumes sim: "simulates_spec M ctx_of cleared archived failure"
    and start: "flow_context ctx_of w0 = Some c0" "TaskStatus c0 = Pending" "Strategy (OnFailure c0) = RetryFromCurrent"
      "RetryCount (OnFailure c0) = 0" "max_retry cfg c0 = int m"
    and run: "flow_run cfg dbg M ctx_of (\<lambda>w c. task_fails M w c \<and> failure (res w) = failure_switch) n k w0 w"
  shows "if n < 3 * (m + 2) + k then flow_context ctx_of w \<noteq> None
    else n = 3 * (m + 2) + k \<and> flow_view M ctx_of w = (archived, None)"
proof -
  have c: "retrying cfg m c0" "rounds_left m c0 = 3 * (m + 2)"
    using start(2-5) by (simp_all add: retrying_def rounds_left_def)
  have pos: "0 < rounds_left m c" for c by (simp add: rounds_left_def split: TaskStatus.split)
  with flow_run_fails [OF run sim start(1) c(1)] show ?thesis
    unfolding c(2) by (metis add.commute less_add_same_cancel2 less_irrefl option.distinct(1))
qed

section \<open>Sample runs\<close>

text \<open>A parameter with the flow at context \<open>c\<close>; the task manager has the result \<open>r\<close> for its task.\<close>

definition param_at :: "OperationContext \<Rightarrow> TaskResult \<Rightarrow> OBParameter world" where
  "param_at c r = \<lparr>ctxs = [c], res = small_parameter\<lparr>Ctx := Some 0\<rparr>,
     tm = (taskManagerInit 2)\<lparr>TaskResultCache := [''id1'' \<mapsto> r]\<rparr>\<rparr>"

abbreviation param_manager :: "OBParameter ResourceManager" where
  "param_manager \<equiv> OBParameterManager (small_param_env ''8'')"

lemma param_at_simps [simp]:
  "flow_context Ctx (param_at c r) = Some c" "Ctx (res (param_at c r)) = Some 0" "ctxs (param_at c r) = [c]"
  "task_found param_manager (param_at c r) c \<longleftrightarrow> Task c = ''set obparameter''"
  "TaskId c = ''id1'' \<Longrightarrow> poll_of (param_at c r) c = Inr (Some r)"
  "TaskId c = ''id1'' \<Longrightarrow> \<not> still_running (param_at c r) c"
  "TaskStatus c \<noteq> Running \<Longrightarrow> \<not> still_running (param_at c r) c"
  by (simp_all add: param_at_def flow_context_def deref_def task_found_def poll_of_def still_running_def GetTaskResult_run
      OBParameterManager_def OBParameterManager_GetTaskFunc_def obparameter_taskMap_def GetTask_register_all
      del: register_all.simps)

text \<open>A run goes on from the sample world with the same context, as the specification says.\<close>

lemma run_in:
  assumes "flow_run cfg dbg param_manager Ctx fits n k w0 w" "flow_context Ctx w = Some c"
    and "fits (param_at c r) c" "TaskStatus c = Running \<longrightarrow> TaskId c = ''id1''"
  obtains w2 where "flow_run cfg dbg param_manager Ctx fits (Suc n) k w0 w2"
    "flow_view param_manager Ctx w2 = spec_step cfg parameterstatus_Matched ''Failed'' failure_switch
       \<lparr>found = (Task c = ''set obparameter''), polled = poll_of (param_at c r) c, new_id = ''id1''\<rparr> parameterstatus_NotMatch c"
proof -
  note sim = op.fm.simulates [of "small_param_env ''8''"]
  have "Ctx (res (param_at c r)) = Some 0 \<and> 0 < length (ctxs (param_at c r))" by simp
  then obtain w2 where w2: "executeTaskFlow cfg dbg param_manager ''id1'' (Ctx (res (param_at c r))) (param_at c r) = Some w2"
    using sim unfolding simulates_spec_def by (metis param_at_simps(2))
  have "\<not> still_running (param_at c r) c" using assms(4) by (cases "TaskStatus c = Running") simp_all
  with run_step [where M = param_manager and ctx_of = Ctx, OF assms(1,2) param_at_simps(1) assms(3) w2]
  have "flow_run cfg dbg param_manager Ctx fits (Suc n) k w0 w2" by simp
  moreover have "GetStatus param_manager (res (param_at c r)) = parameterstatus_NotMatch"
    by (simp add: OBParameterManager_def param_at_def) (simp add: small_parameter_def)
  ultimately show thesis using that simulated_step [OF sim param_at_simps(1) w2] by simp
qed

lemma view_context: "flow_view M ctx_of w = (s, x) \<Longrightarrow> flow_context ctx_of w = x"
  using flow_view_context [of M ctx_of w] by simp

lemma flow_step:
  assumes "flow_run cfg dbg param_manager Ctx fits n k w0 w" "flow_context Ctx w = Some c"
    and "fits (param_at c r) c" "TaskStatus c = Running \<longrightarrow> TaskId c = ''id1''"
    and "spec_step cfg parameterstatus_Matched ''Failed'' failure_switch
       \<lparr>found = (Task c = ''set obparameter''), polled = poll_of (param_at c r) c, new_id = ''id1''\<rparr> parameterstatus_NotMatch c =
         (s, Some c')"
  shows "\<exists>w2. flow_run cfg dbg param_manager Ctx fits (Suc n) k w0 w2 \<and> flow_context Ctx w2 = Some c'"
  using run_in [OF assms(1-4)] assms(5) view_context by metis

abbreviation "done_well \<equiv> \<lparr>ResStatus = Successful, ResError = None\<rparr>"
abbreviation "gone_wrong \<equiv> \<lparr>ResStatus = Failed, ResError = Some (OtherError ''no'')\<rparr>"

theorem flow_reaches_target_witness:
  "\<exists>w. flow_run default_cfg False param_manager Ctx (task_succeeds param_manager) 4 0 (param_at parameter_flow done_well) w \<and>
     flow_view param_manager Ctx w = (parameterstatus_Matched, None)"
proof -
  let ?run = "flow_run default_cfg False param_manager Ctx (task_succeeds param_manager)" and ?w = "param_at parameter_flow done_well"
  let ?p = "NextTask parameter_flow" let ?r = "?p\<lparr>TaskId := ''id1'', TaskStatus := Running\<rparr>" let ?s = "?r\<lparr>TaskStatus := Successful\<rparr>"
  have fits: "task_succeeds param_manager (param_at c done_well) c"
    if "TaskStatus c = Running \<longrightarrow> TaskId c = ''id1''" "TaskStatus c = Pending \<longrightarrow> Task c = ''set obparameter''" for c
    using that by (auto simp: task_succeeds_def)
  have c: "TaskStatus ?p = Pending" "Task ?p = ''set obparameter''" "\<not> HasNext ?p" "HasNext parameter_flow"
    by (simp_all add: NextTask_def HasNext_def)
  note run_start [of default_cfg False param_manager Ctx "task_succeeds param_manager" ?w]
  from flow_step [OF this param_at_simps(1) fits, of parameterstatus_NotMatch ?p] c(4) obtain w1
    where w1: "?run (Suc 0) 0 ?w w1" "flow_context Ctx w1 = Some ?p" by (auto simp: spec_step_def)
  from flow_step [OF w1 fits, of parameterstatus_NotMatch ?r] c obtain w2
    where w2: "?run (Suc (Suc 0)) 0 ?w w2" "flow_context Ctx w2 = Some ?r" by (auto simp: spec_step_def)
  from flow_step [OF w2 fits, of parameterstatus_NotMatch ?s] c obtain w3
    where w3: "?run (Suc (Suc (Suc 0))) 0 ?w w3" "flow_context Ctx w3 = Some ?s" by (auto simp: spec_step_def)
  from run_in [OF w3 fits] c obtain w4 where w4: "?run (Suc (Suc (Suc (Suc 0)))) 0 ?w w4" by auto
  have start: "flow_context Ctx ?w = Some (new_context ''set ob parameter'' [''set obparameter''] parameterstatus_Matched
      (OnFailure parameter_flow))"
    by (simp add: parameter_flow_def genSetOBParameterFlow_def new_context_def fill_strategy_def)
  from flow_reaches_target [OF op.fm.simulates start _ w4] w4 show ?thesis by (auto simp: numeral_eq_Suc)
qed

text \<open>The task of a flow that retries it, without a single retry allowed.\<close>

definition pending_param :: OperationContext where
  "pending_param = NextTask (parameter_flow\<lparr>OnFailure := zero_rule\<lparr>Strategy := RetryFromCurrent\<rparr>\<rparr>)"

theorem failing_task_archived_witness:
  "\<exists>w. flow_run (default_cfg\<lparr>TaskMaxRetryTimes := 0\<rparr>) False param_manager Ctx
      (task_fails param_manager) 6 0 (param_at pending_param gone_wrong) w \<and>
     flow_view param_manager Ctx w = (''Failed'', None)"
proof -
  let ?cfg = "default_cfg\<lparr>TaskMaxRetryTimes := 0\<rparr>" and ?w = "param_at pending_param gone_wrong"
  let ?fits = "task_fails param_manager"
  let ?run = "flow_run ?cfg False param_manager Ctx ?fits"
  have fits: "?fits (param_at c gone_wrong) c"
    if "TaskStatus c = Running \<longrightarrow> TaskId c = ''id1''" "Task c = ''set obparameter''" for c
    using that by (auto simp: task_fails_def)
  have round: "\<exists>w3. ?run (Suc (Suc (Suc n))) 0 ?w w3 \<and>
      flow_view param_manager Ctx w3 = (if RetryCount (OnFailure c) = 0
        then (parameterstatus_NotMatch, Some (count_retry (c\<lparr>TaskId := ''id1'', TaskStatus := Pending\<rparr>))) else (''Failed'', None))"
    if w: "?run n 0 ?w w" "flow_context Ctx w = Some c" and c: "TaskStatus c = Pending" "Task c = ''set obparameter''"
      "Strategy (OnFailure c) = RetryFromCurrent" "MaxRetry (OnFailure c) = 0" "0 \<le> RetryCount (OnFailure c)" for n w c
  proof -
    let ?r = "c\<lparr>TaskId := ''id1'', TaskStatus := Running\<rparr>" and ?f = "c\<lparr>TaskId := ''id1'', TaskStatus := Failed\<rparr>"
    from flow_step [OF w fits, of parameterstatus_NotMatch ?r] c obtain w1
      where w1: "?run (Suc n) 0 ?w w1" "flow_context Ctx w1 = Some ?r" by (auto simp: spec_step_def)
    from flow_step [OF w1 fits, of parameterstatus_NotMatch ?f] c obtain w2
      where w2: "?run (Suc (Suc n)) 0 ?w w2" "flow_context Ctx w2 = Some ?f" by (auto simp: spec_step_def)
    from run_in [OF w2 fits] c obtain w3 where "?run (Suc (Suc (Suc n))) 0 ?w w3"
      "flow_view param_manager Ctx w3 = spec_step ?cfg parameterstatus_Matched ''Failed'' failure_switch
         \<lparr>found = True, polled = poll_of (param_at ?f gone_wrong) ?f, new_id = ''id1''\<rparr> parameterstatus_NotMatch ?f" by auto
    with c show ?thesis
      by (auto simp: spec_step_def limited_def max_retry_def failure_switch_def count_retry_def)
  qed
  have p: "TaskStatus pending_param = Pending" "Task pending_param = ''set obparameter''"
    "OnFailure pending_param = zero_rule\<lparr>Strategy := RetryFromCurrent\<rparr>"
    by (simp_all add: pending_param_def NextTask_def)
  note rule = p(3) zero_rule_def
  have start: "?run 0 0 ?w ?w" by (rule run_start)
  from round [OF start param_at_simps(1) p(1,2)] rule obtain w3 where "?run (Suc (Suc (Suc 0))) 0 ?w w3"
    "flow_view param_manager Ctx w3 =
      (parameterstatus_NotMatch, Some (count_retry (pending_param\<lparr>TaskId := ''id1'', TaskStatus := Pending\<rparr>)))" by auto
  with round [OF this(1) view_context, of _ _] p rule obtain w6 where w6: "?run (Suc (Suc (Suc (Suc (Suc (Suc 0)))))) 0 ?w w6"
    by (fastforce simp: count_retry_def)
  have "max_retry ?cfg pending_param = int 0" by (simp add: max_retry_def rule)
  from failing_task_archived [where failure = "\<lambda>_. failure_switch" and n = 6 and k = 0 and w = w6,
      OF op.fm.simulates param_at_simps(1) p(1) _ _ this, of False] w6 rule
  show ?thesis by (auto simp: numeral_eq_Suc)
qed

end
