(* ===== verification/Task_Polls.thy ===== *)
theory Task_Polls
  imports Task_Manager
begin

text \<open>
  The task manager with every single access interleaved: the goroutines that poll or
  clean take one action of \<^verbatim>\<open>GetTaskResult\<close> or \<^verbatim>\<open>CleanTaskResult\<close> at a time, between
  any two of them the workers, the submissions and the calls for other tasks act. The
  calls for one task id do not overlap: the id stands in the status of one resource
  and only the reconcile of that resource uses it, of which the work queue of
  controller-runtime runs at most one at a time. \<^verbatim>\<open>Submit\<close> is taken whole: its id is
  fresh and nobody else has it before the call returns, and its accesses touch this id
  only. The main lemma is a simulation: each such interleaving is, seen through
  \<open>as_atomic\<close>, an interleaving of uninterrupted calls.
\<close>

section \<open>Calls in progress\<close>

datatype call_pc = Polling poll_pc | Cleaning bool clean_pc

text \<open>\<open>known\<close> is history only: what the task's worker had sent when the call began.\<close>

record call =
  cpc :: call_pc
  known :: "TaskResult option"

text \<open>
  The manager, the calls in progress by their task id, and the history of the polls
  that have returned: task id, what had been sent when the poll began, answer.
\<close>

record task_system =
  mgr :: TaskManager
  calls :: "TaskID \<rightharpoonup> call"
  answers :: "(TaskID \<times> TaskResult option \<times> TaskResult option result) list"

definition call_action :: "TaskID \<Rightarrow> task_system \<Rightarrow> task_system option" where
  "call_action taskId s =
     (case calls s taskId of
        None \<Rightarrow> None
      | Some c \<Rightarrow> Some (case cpc c of
          Polling pc \<Rightarrow>
            (let (pc', m') = poll_action taskId pc (mgr s) in
             case pc' of
               Answered a \<Rightarrow> s\<lparr>mgr := m', calls := (calls s)(taskId := None),
                               answers := answers s @ [(taskId, known c, a)]\<rparr>
             | _ \<Rightarrow> s\<lparr>mgr := m', calls := (calls s)(taskId \<mapsto> c\<lparr>cpc := Polling pc'\<rparr>)\<rparr>)
        | Cleaning d pc \<Rightarrow>
            (let (pc', m') = clean_action d taskId pc (mgr s) in
             s\<lparr>mgr := m', calls := (calls s)(taskId :=
                 if pc' = Cleaned then None else Some (c\<lparr>cpc := Cleaning d pc'\<rparr>))\<rparr>)))"

inductive sys_step :: "task_system \<Rightarrow> task_system \<Rightarrow> bool" where
  sys_submit: "taskId \<notin> wid ` set (workers (mgr s)) \<Longrightarrow>
    sys_step s (s\<lparr>mgr := Submit d f taskId (mgr s)\<rparr>)"
| sys_worker: "worker_step (mgr s) m \<Longrightarrow> sys_step s (s\<lparr>mgr := m\<rparr>)"
| sys_poll: "w \<in> set (workers (mgr s)) \<Longrightarrow> calls s (wid w) = None \<Longrightarrow>
    sys_step s (s\<lparr>calls := (calls s)(wid w \<mapsto> \<lparr>cpc = Polling LoadCache, known = wres w\<rparr>)\<rparr>)"
| sys_clean: "w \<in> set (workers (mgr s)) \<Longrightarrow> calls s (wid w) = None \<Longrightarrow>
    sys_step s (s\<lparr>calls := (calls s)(wid w \<mapsto> \<lparr>cpc = Cleaning d CheckEntry, known = wres w\<rparr>)\<rparr>)"
| sys_call: "call_action taskId s = Some s' \<Longrightarrow> sys_step s s'"

definition sys_init :: "nat \<Rightarrow> task_system" where
  "sys_init n = \<lparr>mgr = taskManagerInit n, calls = Map.empty, answers = []\<rparr>"

inductive sys_reachable :: "nat \<Rightarrow> task_system \<Rightarrow> bool" for n where
  sys_start: "sys_reachable n (sys_init n)"
| sys_next: "sys_reachable n s \<Longrightarrow> sys_step s s' \<Longrightarrow> sys_reachable n s'"

section \<open>Assertions at the control points\<close>

definition sent :: "TaskManager \<Rightarrow> TaskID \<Rightarrow> TaskResult \<Rightarrow> bool" where
  "sent m taskId r \<longleftrightarrow> (\<exists>w \<in> set (workers m). wid w = taskId \<and> wres w = Some r)"

fun pc_ok :: "TaskManager \<Rightarrow> TaskID \<Rightarrow> call_pc \<Rightarrow> bool" where
  "pc_ok m i (Polling LoadChannel) \<longleftrightarrow> TaskResultCache m i = None"
| "pc_ok m i (Polling (Receive c)) \<longleftrightarrow> TaskResultCache m i = None \<and> ResultMap m i = Some c"
| "pc_ok m i (Polling (Answered a)) \<longleftrightarrow> False"
| "pc_ok m i (Cleaning d DeleteEntry) \<longleftrightarrow> ResultMap m i \<noteq> None"
| "pc_ok m i (Cleaning d Cleaned) \<longleftrightarrow> False"
| "pc_ok m i _ \<longleftrightarrow> True"

definition call_ok :: "TaskManager \<Rightarrow> TaskID \<Rightarrow> call \<Rightarrow> bool" where
  "call_ok m i c \<longleftrightarrow>
     pc_ok m i (cpc c) \<and> i \<in> wid ` set (workers m) \<and> (\<forall>r. known c = Some r \<longrightarrow> sent m i r)"

fun answer_ok :: "TaskManager \<Rightarrow> TaskID \<times> TaskResult option \<times> TaskResult option result \<Rightarrow> bool" where
  "answer_ok m (i, k, a) \<longleftrightarrow>
     i \<in> wid ` set (workers m) \<and> (\<forall>r. k = Some r \<longrightarrow> sent m i r) \<and>
     (case a of
        Inl e \<Rightarrow> e = task_not_exists i \<and> ResultMap m i = None
      | Inr None \<Rightarrow> k = None
      | Inr (Some r) \<Rightarrow> sent m i r)"

text \<open>
  The manager as uninterrupted calls would have left it: a received result counts as
  cached, an entry deleted from the result map as deleted from the cache. The debug
  counter is left out.
\<close>

fun seen_at :: "call_pc \<Rightarrow> TaskResult option \<Rightarrow> TaskResult option" where
  "seen_at (Polling (StoreResult r)) v = Some r"
| "seen_at (Cleaning d DeleteCached) v = None"
| "seen_at pc v = v"

definition cached_by ::
  "(TaskID \<rightharpoonup> call) \<Rightarrow> (TaskID \<rightharpoonup> TaskResult) \<Rightarrow> TaskID \<rightharpoonup> TaskResult" where
  "cached_by cs cache i = (case cs i of None \<Rightarrow> cache i | Some c \<Rightarrow> seen_at (cpc c) (cache i))"

definition as_atomic :: "task_system \<Rightarrow> TaskManager" where
  "as_atomic s = (mgr s)\<lparr>TaskResultCache := cached_by (calls s) (TaskResultCache (mgr s)),
     workerCount := 0\<rparr>"

definition sys_inv :: "task_system \<Rightarrow> bool" where
  "sys_inv s \<longleftrightarrow>
     tm_inv (as_atomic s) \<and> (\<forall>i c. calls s i = Some c \<longrightarrow> call_ok (mgr s) i c) \<and>
     (\<forall>h \<in> set (answers s). answer_ok (mgr s) h)"

lemma as_atomic_simps [simp]:
  "ResultMap (as_atomic s) = ResultMap (mgr s)" "chans (as_atomic s) = chans (mgr s)"
  "workers (as_atomic s) = workers (mgr s)" "tokens (as_atomic s) = tokens (mgr s)"
  "poolSize (as_atomic s) = poolSize (mgr s)"
  "TaskResultCache (as_atomic s) = cached_by (calls s) (TaskResultCache (mgr s))"
  by (simp_all add: as_atomic_def)

section \<open>Simulation by uninterrupted calls\<close>

lemma as_atomic_acquire:
  "acquire_token i (mgr s) = Some m \<Longrightarrow> acquire_token i (as_atomic s) = Some (as_atomic (s\<lparr>mgr := m\<rparr>))"
  by (auto simp: acquire_token_def as_atomic_def split: if_splits)

lemma as_atomic_send:
  "send_result i out (mgr s) = Some m \<Longrightarrow> send_result i out (as_atomic s) = Some (as_atomic (s\<lparr>mgr := m\<rparr>))"
  by (auto simp: send_result_def as_atomic_def Let_def split: if_splits)

lemma as_atomic_release:
  "release_token i (mgr s) = Some m \<Longrightarrow> release_token i (as_atomic s) = Some (as_atomic (s\<lparr>mgr := m\<rparr>))"
  by (auto simp: release_token_def as_atomic_def split: if_splits)

lemma as_atomic_close:
  "close_channel i (mgr s) = Some m \<Longrightarrow> close_channel i (as_atomic s) = Some (as_atomic (s\<lparr>mgr := m\<rparr>))"
  by (auto simp: close_channel_def as_atomic_def Let_def split: if_splits)

lemma as_atomic_worker:
  "worker_step (mgr s) m \<Longrightarrow> tm_step (as_atomic s) (as_atomic (s\<lparr>mgr := m\<rparr>))"
  by (auto simp: worker_step_def intro: tm_step.intros dest: as_atomic_acquire as_atomic_send
      as_atomic_release as_atomic_close)

lemma cached_by_upd:
  "cached_by (cs(i \<mapsto> c)) cache = (cached_by cs cache)(i := seen_at (cpc c) (cache i))"
  "cached_by (cs(i := None)) cache = (cached_by cs cache)(i := cache i)"
  "cs i = None \<Longrightarrow> cached_by cs (cache(i := v)) = (cached_by cs cache)(i := v)"
  "cs i = Some c \<Longrightarrow> cached_by cs (cache(i := v)) = (cached_by cs cache)(i := seen_at (cpc c) v)"
  by (auto simp: cached_by_def fun_eq_iff split: option.splits)

lemma cached_by_at:
  "cs i = None \<Longrightarrow> cached_by cs cache i = cache i"
  "cs i = Some c \<Longrightarrow> cached_by cs cache i = seen_at (cpc c) (cache i)"
  by (simp_all add: cached_by_def)

lemma as_atomic_submit:
  "calls s i = None \<Longrightarrow> as_atomic (s\<lparr>mgr := Submit d f i (mgr s)\<rparr>) = Submit False f i (as_atomic s)"
  by (simp add: as_atomic_def Submit_def Let_def cached_by_upd)

text \<open>An action that leaves the manager and what is seen of the cache leaves the atomic view.\<close>

lemma as_atomic_stutter:
  "mgr s' = (mgr s)\<lparr>TaskResultCache := cache, workerCount := n\<rparr> \<Longrightarrow>
     cached_by (calls s') cache = cached_by (calls s) (TaskResultCache (mgr s)) \<Longrightarrow>
     as_atomic s' = as_atomic s"
  by (simp add: as_atomic_def)

lemma tm_poll_step: "snd (GetTaskResult i m) = m' \<Longrightarrow> tm_step m m'"
  using tm_poll by blast

lemma tm_clean_step: "CleanTaskResult d i m = m' \<Longrightarrow> tm_step m m'"
  using tm_clean by blast

lemma poll_action_atomic:
  assumes c: "calls s i = Some c" "cpc c = Polling pc" and ok: "pc_ok (mgr s) i (cpc c)"
    and act: "call_action i s = Some s'"
  shows "as_atomic s' = as_atomic s \<or> tm_step (as_atomic s) (as_atomic s')"
proof (cases "\<exists>a r. pc = Receive a \<and> buf (chans (mgr s) ! a) = Some r")
  case True
  then obtain a r where a: "pc = Receive a" "buf (chans (mgr s) ! a) = Some r" by blast
  have "snd (GetTaskResult i (as_atomic s)) = as_atomic s'"
    using act c a ok
    by (auto simp: call_action_def GetTaskResult_run cached_by_at as_atomic_def cached_by_upd)
  then show ?thesis by (blast intro: tm_poll_step)
next
  case False
  have "as_atomic s' = as_atomic s"
    using act c ok False
    by (cases pc) (auto simp: call_action_def as_atomic_def cached_by_upd cached_by_at
        fun_upd_idem_iff split: option.splits if_splits)
  then show ?thesis ..
qed

lemma clean_action_atomic:
  assumes c: "calls s i = Some c" "cpc c = Cleaning d pc" and ok: "pc_ok (mgr s) i (cpc c)"
    and act: "call_action i s = Some s'"
  shows "as_atomic s' = as_atomic s \<or> tm_step (as_atomic s) (as_atomic s')"
proof (cases "pc = DeleteEntry")
  case True
  have "CleanTaskResult False i (as_atomic s) = as_atomic s'"
    using act c True ok
    by (auto simp: call_action_def CleanTaskResult_run cached_by_at as_atomic_def cached_by_upd)
  then show ?thesis by (blast intro: tm_clean_step)
next
  case False
  have "as_atomic s' = as_atomic s"
    using act c ok False
    by (cases pc) (auto simp: call_action_def as_atomic_def cached_by_upd cached_by_at
        fun_upd_idem_iff split: if_splits)
  then show ?thesis ..
qed

lemma sys_inv_call: "sys_inv s \<Longrightarrow> calls s i = Some c \<Longrightarrow> call_ok (mgr s) i c"
  by (simp add: sys_inv_def)

lemma sys_inv_fresh:
  "sys_inv s \<Longrightarrow> i \<notin> wid ` set (workers (mgr s)) \<Longrightarrow> calls s i = None"
  by (cases "calls s i") (auto dest: sys_inv_call simp: call_ok_def)

lemma call_action_atomic:
  assumes "sys_inv s" and act: "call_action i s = Some s'"
  shows "as_atomic s' = as_atomic s \<or> tm_step (as_atomic s) (as_atomic s')"
proof -
  from act obtain c where c: "calls s i = Some c" by (auto simp: call_action_def split: option.splits)
  with assms(1) have "pc_ok (mgr s) i (cpc c)" by (auto dest: sys_inv_call simp: call_ok_def)
  with c act show ?thesis
    using poll_action_atomic [of s i c _ s'] clean_action_atomic [of s i c _ _ s']
    by (cases "cpc c") simp_all
qed

text \<open>Every interleaving of single actions is one of uninterrupted calls.\<close>

lemma sys_step_atomic:
  "sys_step s s' \<Longrightarrow> sys_inv s \<Longrightarrow> as_atomic s' = as_atomic s \<or> tm_step (as_atomic s) (as_atomic s')"
proof (induction rule: sys_step.induct)
  case (sys_submit taskId s d f)
  then show ?case
    using tm_submit [of taskId "as_atomic s" False f] by (simp add: as_atomic_submit sys_inv_fresh)
next
  case (sys_worker s m)
  then show ?case by (blast intro: as_atomic_worker)
next
  case (sys_poll w s)
  then show ?case by (simp add: as_atomic_def cached_by_upd cached_by_at fun_upd_idem_iff)
next
  case (sys_clean w s d)
  then show ?case by (simp add: as_atomic_def cached_by_upd cached_by_at fun_upd_idem_iff)
next
  case (sys_call taskId s s')
  then show ?case using call_action_atomic [of s taskId s'] by simp
qed

section \<open>The assertions hold\<close>

lemma worker_step_keeps:
  assumes "worker_step m m'"
  shows "ResultMap m' = ResultMap m" "TaskResultCache m' = TaskResultCache m"
  using assms
  by (auto simp: worker_step_def acquire_token_def send_result_def release_token_def
      close_channel_def Let_def split: if_splits)

lemma call_action_workers: "call_action i s = Some s' \<Longrightarrow> workers (mgr s') = workers (mgr s)"
proof -
  have p: "workers (snd (poll_action i pc m)) = workers m" for pc m
    by (cases pc) (auto split: option.splits)
  have q: "workers (snd (clean_action d i pc m)) = workers m" for d pc m
    by (cases pc) auto
  assume "call_action i s = Some s'"
  then show ?thesis
    using p q
    by (auto simp: call_action_def split: option.splits call_pc.splits prod.splits poll_pc.splits)
      (metis snd_conv)+
qed

text \<open>The ids stay, and what a worker has sent stays.\<close>

definition grows :: "TaskManager \<Rightarrow> TaskManager \<Rightarrow> bool" where
  "grows m m' \<longleftrightarrow>
     wid ` set (workers m) \<subseteq> wid ` set (workers m') \<and> (\<forall>i r. sent m i r \<longrightarrow> sent m' i r)"

lemma tm_step_grows:
  assumes "tm_step m m'" and "tm_inv m"
  shows "grows m m'"
proof -
  have w: "w' \<in> set (workers m')" if "w' = workers m' ! k" "k < length (workers m)" for w' k
    using tm_step_workers [OF assms that(2)] that by simp
  have "wid w \<in> wid ` set (workers m') \<and> (\<forall>r. wres w = Some r \<longrightarrow> sent m' (wid w) r)"
    if "w \<in> set (workers m)" for w
  proof -
    from that obtain k where k: "k < length (workers m)" "w = workers m ! k"
      by (auto simp: in_set_conv_nth)
    with tm_step_workers [OF assms k(1)] show ?thesis
      by (auto simp: sent_def intro!: image_eqI [of _ _ "workers m' ! k"] bexI [of _ "workers m' ! k"])
  qed
  then show ?thesis by (auto simp: grows_def sent_def)
qed

lemma sys_step_grows:
  assumes "sys_step s s'" and "sys_inv s"
  shows "grows (mgr s) (mgr s')"
proof -
  have eq: "grows (mgr s) (mgr s') = grows (as_atomic s) (as_atomic s')"
    by (simp add: grows_def sent_def)
  from assms have "tm_inv (as_atomic s)" by (simp add: sys_inv_def)
  with sys_step_atomic [OF assms] show ?thesis
    unfolding eq by (auto dest: tm_step_grows) (simp_all add: grows_def)
qed

lemma pc_ok_cong:
  "ResultMap m' i = ResultMap m i \<Longrightarrow> TaskResultCache m' i = TaskResultCache m i \<Longrightarrow>
     pc_ok m' i pc = pc_ok m i pc"
  by (cases "(m, i, pc)" rule: pc_ok.cases) auto

lemma call_ok_mono:
  "grows m m' \<Longrightarrow> ResultMap m' i = ResultMap m i \<Longrightarrow> TaskResultCache m' i = TaskResultCache m i \<Longrightarrow>
     call_ok m i c \<Longrightarrow> call_ok m' i c"
  using pc_ok_cong [of m' i m] by (auto simp: call_ok_def grows_def)

lemma answer_ok_mono:
  "grows m m' \<Longrightarrow> (ResultMap m i = None \<Longrightarrow> i \<in> wid ` set (workers m) \<Longrightarrow> ResultMap m' i = None) \<Longrightarrow>
     answer_ok m (i, k, a) \<Longrightarrow> answer_ok m' (i, k, a)"
  by (auto simp: grows_def split: sum.splits option.splits)

lemma seen_sent:
  assumes "sys_inv s" and "cached_by (calls s) (TaskResultCache (mgr s)) i = Some r"
  shows "sent (mgr s) i r"
proof -
  from assms(1) have inv: "tm_inv (as_atomic s)" by (simp add: sys_inv_def)
  with assms(2) obtain k where "ResultMap (as_atomic s) i = Some k"
    using tm_inv_cached [of "as_atomic s" i r] by auto
  with inv have "entry_ok (as_atomic s) i k" by (rule tm_inv_entry)
  with assms(2) show ?thesis by (auto simp: entry_ok_def sent_def)
qed

lemma channel_at_receive:
  assumes "sys_inv s" and "calls s i = Some c" and "cpc c = Polling (Receive a)"
  shows "a < length (workers (mgr s))" "wid (workers (mgr s) ! a) = i"
    "buf (chans (mgr s) ! a) = wres (workers (mgr s) ! a)"
    "closed (chans (mgr s) ! a) \<Longrightarrow> wres (workers (mgr s) ! a) \<noteq> None"
proof -
  from assms(1) have inv: "tm_inv (as_atomic s)" by (simp add: sys_inv_def)
  from assms have "TaskResultCache (mgr s) i = None" "ResultMap (mgr s) i = Some a"
    using sys_inv_call [of s i c] by (auto simp: call_ok_def)
  with inv have "entry_ok (as_atomic s) i a" by (auto intro: tm_inv_entry)
  with assms \<open>TaskResultCache (mgr s) i = None\<close>
  show lt: "a < length (workers (mgr s))" and "wid (workers (mgr s) ! a) = i"
    "buf (chans (mgr s) ! a) = wres (workers (mgr s) ! a)"
    by (simp_all add: entry_ok_def cached_by_at)
  from tm_inv_at(2) [OF inv] lt
  show "closed (chans (mgr s) ! a) \<Longrightarrow> wres (workers (mgr s) ! a) \<noteq> None"
    using silent_open by fastforce
qed

lemma poll_action_ok:
  assumes inv: "sys_inv s" and c: "calls s i = Some c" "cpc c = Polling pc"
    and act: "poll_action i pc (mgr s) = (pc', m')" and w: "workers m' = workers (mgr s)"
  shows "case pc' of Answered a \<Rightarrow> answer_ok m' (i, known c, a) | _ \<Rightarrow> pc_ok m' i (Polling pc')"
proof -
  have ok: "call_ok (mgr s) i c" using inv c(1) by (rule sys_inv_call)
  then have id: "i \<in> wid ` set (workers (mgr s))"
    and kn: "\<And>r. known c = Some r \<Longrightarrow> sent (mgr s) i r" by (auto simp: call_ok_def)
  have sent: "sent m' j r = sent (mgr s) j r" for j r by (simp add: sent_def w)
  have seen: "sent (mgr s) i r" if "seen_at (cpc c) (TaskResultCache (mgr s) i) = Some r" for r
    using seen_sent [OF inv, of i r] c that by (simp add: cached_by_at)
  show ?thesis
  proof (cases pc)
    case (Receive a)
    note ch = channel_at_receive [OF inv c(1), of a]
    have "sent (mgr s) i r" if "buf (chans (mgr s) ! a) = Some r" for r
      using ch(1-3) c Receive that by (auto simp: sent_def)
    moreover have "known c = None" if "wres (workers (mgr s) ! a) = None"
    proof (cases "known c")
      case (Some r)
      then obtain k where "k < length (workers (mgr s))" "wid (workers (mgr s) ! k) = i"
        "wres (workers (mgr s) ! k) = Some r"
        using kn by (auto simp: sent_def in_set_conv_nth)
      moreover from this have "k = a"
        using inv ch(1,2) c Receive tm_inv_distinct [of "as_atomic s" k a] by (simp add: sys_inv_def)
      ultimately show ?thesis using that by simp
    qed
    ultimately show ?thesis
      using act ok id kn c Receive ch
      by (auto simp: call_ok_def sent split: option.splits if_splits)
  next
    case LoadCache
    with act c seen id kn show ?thesis by (cases "TaskResultCache (mgr s) i") auto
  next
    case LoadChannel
    with act ok c id kn show ?thesis
      by (cases "ResultMap (mgr s) i") (auto simp: call_ok_def)
  next
    case (StoreResult r)
    with act c seen id kn show ?thesis by (auto simp: sent_def)
  next
    case (Answered a)
    with ok c show ?thesis by (simp add: call_ok_def)
  qed
qed

lemma poll_action_others:
  "poll_action i pc m = (pc', m') \<Longrightarrow> ResultMap m' = ResultMap m"
  "poll_action i pc m = (pc', m') \<Longrightarrow> j \<noteq> i \<Longrightarrow> TaskResultCache m' j = TaskResultCache m j"
  by (cases pc; auto split: option.splits if_splits)+

lemma clean_action_others:
  "clean_action d i pc m = (pc', m') \<Longrightarrow> j \<noteq> i \<Longrightarrow> ResultMap m' j = ResultMap m j"
  "clean_action d i pc m = (pc', m') \<Longrightarrow> j \<noteq> i \<Longrightarrow> TaskResultCache m' j = TaskResultCache m j"
  "clean_action d i pc m = (pc', m') \<Longrightarrow> ResultMap m i = None \<Longrightarrow> ResultMap m' i = None"
  "clean_action d i pc m = (pc', m') \<Longrightarrow> pc' \<noteq> Cleaned \<Longrightarrow> pc_ok m' i (Cleaning d pc')"
  by (cases pc; auto split: if_splits)+

lemma call_action_inv:
  assumes inv: "sys_inv s" and act: "call_action i s = Some s'" and g: "grows (mgr s) (mgr s')"
  shows "\<forall>j c. calls s' j = Some c \<longrightarrow> call_ok (mgr s') j c"
    and "\<forall>h \<in> set (answers s'). answer_ok (mgr s') h"
proof -
  note w = call_action_workers [OF act]
  from act obtain c where c: "calls s i = Some c" by (auto simp: call_action_def split: option.splits)
  from sys_inv_call [OF inv c] g have own: "i \<in> wid ` set (workers (mgr s'))"
    "\<And>r. known c = Some r \<Longrightarrow> sent (mgr s') i r"
    by (auto simp: call_ok_def grows_def)
  have eff: "(\<forall>j. ResultMap (mgr s) j = None \<longrightarrow> ResultMap (mgr s') j = None) \<and>
      (\<forall>j. j \<noteq> i \<longrightarrow> ResultMap (mgr s') j = ResultMap (mgr s) j \<and>
        TaskResultCache (mgr s') j = TaskResultCache (mgr s) j \<and> calls s' j = calls s j) \<and>
      (\<forall>c'. calls s' i = Some c' \<longrightarrow> pc_ok (mgr s') i (cpc c') \<and> known c' = known c) \<and>
      (\<forall>h \<in> set (answers s'). h \<in> set (answers s) \<or> answer_ok (mgr s') h)"
  proof (cases "cpc c")
    case (Polling pc)
    obtain pc' m' where p: "poll_action i pc (mgr s) = (pc', m')" by fastforce
    then have m': "mgr s' = m'"
      using act c Polling by (auto simp: call_action_def split: poll_pc.splits)
    with poll_action_ok [OF inv c Polling p] w have
      "case pc' of Answered a \<Rightarrow> answer_ok m' (i, known c, a) | _ \<Rightarrow> pc_ok m' i (Polling pc')" by simp
    with act c Polling p m' poll_action_others [OF p] show ?thesis
      by (cases pc') (auto simp: call_action_def simp del: answer_ok.simps)
  next
    case (Cleaning d pc)
    obtain pc' m' where p: "clean_action d i pc (mgr s) = (pc', m')" by fastforce
    then have s': "s' = s\<lparr>mgr := m', calls := (calls s)(i :=
        if pc' = Cleaned then None else Some (c\<lparr>cpc := Cleaning d pc'\<rparr>))\<rparr>"
      using act c Cleaning by (simp add: call_action_def)
    have "ResultMap m' j = None" if "ResultMap (mgr s) j = None" for j
      using that clean_action_others(1,3) [OF p] by (cases "j = i") auto
    with clean_action_others [OF p] show ?thesis
      by (auto simp: s' simp del: answer_ok.simps split: if_splits)
  qed
  then have keep: "\<And>j. ResultMap (mgr s) j = None \<Longrightarrow> ResultMap (mgr s') j = None"
    and other: "\<And>j. j \<noteq> i \<Longrightarrow> ResultMap (mgr s') j = ResultMap (mgr s) j \<and>
      TaskResultCache (mgr s') j = TaskResultCache (mgr s) j \<and> calls s' j = calls s j"
    and mine: "\<And>c'. calls s' i = Some c' \<Longrightarrow> pc_ok (mgr s') i (cpc c') \<and> known c' = known c"
    and hist: "\<And>h. h \<in> set (answers s') \<Longrightarrow> h \<in> set (answers s) \<or> answer_ok (mgr s') h"
    by blast+
  show "\<forall>j c. calls s' j = Some c \<longrightarrow> call_ok (mgr s') j c"
  proof (intro allI impI)
    fix j c' assume j: "calls s' j = Some c'"
    show "call_ok (mgr s') j c'"
    proof (cases "j = i")
      case True
      with j mine own show ?thesis by (auto simp: call_ok_def)
    next
      case False
      with j other [of j] sys_inv_call [OF inv, of j c'] show ?thesis
        by (auto intro: call_ok_mono [OF g])
    qed
  qed
  show "\<forall>h \<in> set (answers s'). answer_ok (mgr s') h"
  proof
    fix h assume "h \<in> set (answers s')"
    then consider "h \<in> set (answers s)" | "answer_ok (mgr s') h" using hist by blast
    then show "answer_ok (mgr s') h"
    proof cases
      case 1
      with inv have "answer_ok (mgr s) h" by (auto simp: sys_inv_def)
      then show ?thesis by (cases h) (auto intro: answer_ok_mono [OF g] keep simp del: answer_ok.simps)
    qed
  qed
qed

text \<open>Steps that leave the calls alone and the maps at the ids in use.\<close>

lemma sys_inv_mgr:
  assumes inv: "sys_inv s" and tm: "tm_inv (as_atomic (s\<lparr>mgr := m\<rparr>))" and g: "grows (mgr s) m"
    and same: "\<And>j. j \<in> wid ` set (workers (mgr s)) \<Longrightarrow>
      ResultMap m j = ResultMap (mgr s) j \<and> TaskResultCache m j = TaskResultCache (mgr s) j"
  shows "sys_inv (s\<lparr>mgr := m\<rparr>)"
proof -
  have "call_ok m j c" if "calls s j = Some c" for j c
    using sys_inv_call [OF inv that] same [of j] call_ok_mono [OF g] by (auto simp: call_ok_def)
  moreover have "answer_ok m h" if "h \<in> set (answers s)" for h
  proof -
    from inv that have "answer_ok (mgr s) h" by (auto simp: sys_inv_def)
    then show ?thesis
      using same by (cases h) (auto intro: answer_ok_mono [OF g] simp del: answer_ok.simps)
  qed
  ultimately show ?thesis using tm by (simp add: sys_inv_def)
qed

lemma sys_step_inv: "sys_step s s' \<Longrightarrow> sys_inv s \<Longrightarrow> sys_inv s'"
proof -
  assume step: "sys_step s s'" and inv: "sys_inv s"
  from inv have atomic: "tm_inv (as_atomic s)" by (simp add: sys_inv_def)
  with sys_step_atomic [OF step inv] have tm: "tm_inv (as_atomic s')" by (auto dest: tm_step_inv)
  note g = sys_step_grows [OF step inv]
  show ?thesis
    using step
  proof cases
    case (sys_submit taskId d f)
    with tm g show ?thesis by (auto intro!: sys_inv_mgr [OF inv] simp: Submit_def Let_def)
  next
    case (sys_worker m)
    with tm g worker_step_keeps [of "mgr s" m] show ?thesis by (auto intro!: sys_inv_mgr [OF inv])
  next
    case (sys_poll w)
    with inv tm show ?thesis by (auto simp: sys_inv_def call_ok_def sent_def)
  next
    case (sys_clean w d)
    with inv tm show ?thesis by (auto simp: sys_inv_def call_ok_def sent_def)
  next
    case (sys_call taskId)
    from call_action_inv [OF inv this g] tm show ?thesis by (simp add: sys_inv_def)
  qed
qed

lemma sys_reachable_inv: "sys_reachable n s \<Longrightarrow> sys_inv s \<and> tm_reachable n (as_atomic s)"
proof (induction rule: sys_reachable.induct)
  case sys_start
  have "as_atomic (sys_init n) = taskManagerInit n"
    by (simp add: as_atomic_def sys_init_def taskManagerInit_def cached_by_def fun_eq_iff)
  then show ?case
    by (simp add: sys_inv_def tm_inv_init tm_start) (simp add: sys_init_def)
next
  case (sys_next s s')
  then show ?case
    using sys_step_inv [of s s'] sys_step_atomic [of s s'] by (auto intro: tm_next)
qed

section \<open>Properties\<close>

text \<open>
  C4. Polls and cleanups interleave with the workers, the submissions and the calls for
  other tasks at every single access to the maps and the channel; calls for the same
  task do not overlap. Whatever the interleaving, a poll that has returned and whose
  task is still in the result map (submitted, its entry not deleted) did not fail: it
  answered \<^verbatim>\<open>nil\<close>, and then nothing had been sent when it began, or it answered exactly
  the one result the task's worker has sent, which is the result of one way the
  submitted function can end. A poll that did fail said that the task does not exist,
  and the entry is gone; the channel is never found closed and drained.
\<close>

theorem tm_poll_delivers:
  assumes "sys_reachable n s" and "(taskId, before, a) \<in> set (answers s)"
  shows "(a = Inr None \<and> before = None) \<or>
    (\<exists>w \<in> set (workers (mgr s)). \<exists>out. wid w = taskId \<and> wfun w out \<and>
       wres w = Some (result_of out) \<and> a = Inr (Some (result_of out))) \<or>
    (a = Inl (task_not_exists taskId) \<and> ResultMap (mgr s) taskId = None)"
proof -
  from sys_reachable_inv [OF assms(1)] have inv: "sys_inv s" and hon: "honest (as_atomic s)"
    by (auto intro: tm_reachable_honest)
  from inv assms(2) have "answer_ok (mgr s) (taskId, before, a)" by (auto simp: sys_inv_def)
  with hon show ?thesis
    by (auto simp: honest_def sent_def split: sum.splits option.splits)
qed

text \<open>
  A run of one task of which the poll begins before the worker gives its token back,
  loads the channel, and receives after the worker has closed it.
\<close>

lemma reach_call: "sys_reachable n s \<Longrightarrow> calls s i \<noteq> None \<Longrightarrow> sys_reachable n (the (call_action i s))"
proof -
  assume "sys_reachable n s" and "calls s i \<noteq> None"
  moreover from this obtain s' where "call_action i s = Some s'"
    by (auto simp: call_action_def)
  ultimately show ?thesis by (auto intro: sys_next sys_call)
qed

lemma reach_worker: "sys_reachable n s \<Longrightarrow> worker_step (mgr s) m \<Longrightarrow> sys_reachable n (s\<lparr>mgr := m\<rparr>)"
  by (auto intro: sys_next sys_worker)

definition system_sent :: task_system where
  "system_sent = (sys_init 1)\<lparr>mgr := done_example\<rparr>"

definition system_polling :: task_system where
  "system_polling = (let s = the (call_action ''a'' (the (call_action ''a'' (system_sent\<lparr>calls :=
       [''a'' \<mapsto> \<lparr>cpc = Polling LoadCache, known = Some \<lparr>ResStatus = Successful, ResError = None\<rparr>\<rparr>]\<rparr>))))
     in s\<lparr>mgr := the (close_channel 0 (the (release_token 0 (mgr s))))\<rparr>)"

definition system_answered :: task_system where
  "system_answered = the (call_action ''a'' (the (call_action ''a'' system_polling)))"

lemmas system_eval = system_polling_def system_sent_def sys_init_def done_example_def tm_eval
  call_action_def release_token_def close_channel_def

lemma reachable_system_sent: "sys_reachable 1 system_sent"
proof -
  let ?s0 = "sys_init 1" let ?m1 = "Submit False ok_task ''a'' (taskManagerInit 1)"
  let ?m2 = "the (acquire_token 0 ?m1)"
  have 1: "sys_reachable 1 (?s0\<lparr>mgr := ?m1\<rparr>)"
    using sys_next [OF sys_start sys_submit [of "''a''" ?s0 False ok_task]]
    by (simp add: sys_init_def taskManagerInit_def)
  have "worker_step ?m1 ?m2"
    by (auto simp: worker_step_def tm_eval intro!: exI [of _ 0])
  with reach_worker [OF 1] have 2: "sys_reachable 1 (?s0\<lparr>mgr := ?m2\<rparr>)" by simp
  have "worker_step ?m2 done_example"
    unfolding done_example_def worker_step_def
    by (intro exI [of _ 0] disjI2 disjI1 exI [of _ "Returns None"]) (simp add: tm_eval)
  with reach_worker [OF 2] show ?thesis by (simp add: system_sent_def)
qed

lemma reachable_system_polling: "sys_reachable 1 system_polling"
proof -
  let ?r = "\<lparr>ResStatus = Successful, ResError = None\<rparr> :: TaskResult"
  let ?s1 = "system_sent\<lparr>calls := [''a'' \<mapsto> \<lparr>cpc = Polling LoadCache, known = Some ?r\<rparr>]\<rparr>"
  let ?s2 = "the (call_action ''a'' ?s1)" let ?s3 = "the (call_action ''a'' ?s2)"
  let ?m1 = "the (release_token 0 (mgr ?s3))" let ?m2 = "the (close_channel 0 ?m1)"
  have "sys_reachable 1 ?s1"
    using sys_next [OF reachable_system_sent sys_poll [of "workers (mgr system_sent) ! 0" system_sent]]
    by (simp add: system_sent_def sys_init_def done_example_def tm_eval)
  then have 2: "sys_reachable 1 ?s2" by (rule reach_call) simp
  then have 3: "sys_reachable 1 ?s3" by (rule reach_call) (simp add: system_eval)
  have "worker_step (mgr ?s3) ?m1" "worker_step ?m1 ?m2"
    by (auto simp: worker_step_def system_eval intro!: exI [of _ 0])
  with reach_worker [OF reach_worker [OF 3], of ?m1 ?m2] show ?thesis
    by (simp add: system_polling_def Let_def)
qed

lemma reachable_system_answered: "sys_reachable 1 system_answered"
  unfolding system_answered_def
  by (intro reach_call reachable_system_polling) (simp_all add: system_eval)

theorem tm_poll_delivers_witness:
  "\<exists>w \<in> set (workers (mgr system_answered)). wid w = ''a'' \<and>
     wres w = Some \<lparr>ResStatus = Successful, ResError = None\<rparr>"
  using tm_poll_delivers [OF reachable_system_answered, of "''a''"
      "Some \<lparr>ResStatus = Successful, ResError = None\<rparr>"
      "Inr (Some \<lparr>ResStatus = Successful, ResError = None\<rparr>)"]
  by (auto simp: system_answered_def system_eval)

text \<open>
  That calls for one task do not overlap is needed. Two polls that both miss the cache
  and load the channel: the one receives the result, and before it has stored it the
  other finds the closed channel drained and fails.
\<close>

lemma overlapping_polls:
  assumes "buf (chans m ! c) = Some r" and "closed (chans m ! c)" and "c < length (chans m)"
  shows "poll_action i (Receive c) (snd (poll_action i (Receive c) m)) =
      (Answered (Inl (channel_was_closed i)), snd (poll_action i (Receive c) m))"
    and "fst (poll_action i (Receive c) m) = StoreResult r"
  using assms by simp_all

text \<open>A call is never blocked, and ends after at most four actions of its own.\<close>

lemma poll_ends:
  assumes "calls s i = Some c" and "cpc c = Polling pc" and "poll_rank pc \<noteq> 0"
  shows "\<exists>s'. call_action i s = Some s' \<and>
    (calls s' i = None \<or> (\<exists>c' pc'. calls s' i = Some c' \<and> cpc c' = Polling pc' \<and> poll_rank pc' < poll_rank pc))"
proof -
  obtain pc' m' where p: "poll_action i pc (mgr s) = (pc', m')" by fastforce
  with poll_action_rank [OF assms(3), of i "mgr s"] assms(1,2) show ?thesis
    by (cases pc') (auto simp: call_action_def)
qed

end
