(* ===== verification/OBZone.thy ===== *)
theory OBZone
  imports Managers Sample_Objects
begin

text \<open>
  \<^verbatim>\<open>internal/resource/obzone\<close>: the task flows of \<^verbatim>\<open>obzone_flow.go\<close>, the spec
  comparisons of \<^verbatim>\<open>utils.go\<close> and the resource manager of \<^verbatim>\<open>obzone_manager.go\<close>.
\<close>

section \<open>Task flows\<close>

definition genMigrateOBZoneFromExistingFlow :: OperationContext where
  "genMigrateOBZoneFromExistingFlow =
     new_context ''migrate obzone from existing''
       [''create observer'', ''wait observer running'', ''delete legacy observers'']
       zonestatus_Running zero_rule"

definition genPrepareOBZoneForBootstrapFlow :: OperationContext where
  "genPrepareOBZoneForBootstrapFlow =
     new_context ''prepare obzone for bootstrap'' [''create observer'', ''wait observer bootstrap ready'']
       zonestatus_BootstrapReady zero_rule"

definition genMaintainOBZoneAfterBootstrapFlow :: OperationContext where
  "genMaintainOBZoneAfterBootstrapFlow =
     new_context ''maintain obzone after bootstrap'' [''wait observer running''] zonestatus_Running zero_rule"

definition genCreateOBZoneFlow :: OperationContext where
  "genCreateOBZoneFlow =
     new_context ''create obzone''
       [''add zone'', ''start obzone'', ''create observer'', ''wait observer running'']
       zonestatus_Running zero_rule"

definition genAddOBServerFlow :: OperationContext where
  "genAddOBServerFlow =
     new_context ''add observer'' [''create observer'', ''wait observer running''] zonestatus_Running zero_rule"

definition genDeleteOBServerFlow :: OperationContext where
  "genDeleteOBServerFlow =
     new_context ''delete observer'' [''delete observer'', ''wait replica match'']
       zonestatus_Running (zero_rule\<lparr>Strategy := RetryFromCurrent\<rparr>)"

definition genDeleteOBZoneFinalizerFlow :: OperationContext where
  "genDeleteOBZoneFinalizerFlow =
     new_context ''delete obzone finalizer''
       [''stop obzone'', ''delete all observer'', ''wait observer deleted'', ''delete obzone in cluster'']
       zonestatus_FinalizerFinished zero_rule"

definition genUpgradeOBZoneFlow :: OperationContext where
  "genUpgradeOBZoneFlow =
     new_context ''upgrade obzone''
       [''obcluster health check'', ''stop obzone'', ''upgrade observer'', ''wait observer upgraded'',
        ''obzone health check'', ''start obzone'']
       zonestatus_Running zero_rule"

definition genForceUpgradeOBZoneFlow :: OperationContext where
  "genForceUpgradeOBZoneFlow =
     new_context ''force upgrade obzone''
       [''obcluster health check'', ''upgrade observer'', ''wait observer upgraded'', ''obzone health check'']
       zonestatus_Running zero_rule"

definition genScaleOBServersVerticallyFlow :: OperationContext where
  "genScaleOBServersVerticallyFlow =
     new_context ''scale observers vertically''
       [''scale observers vertically'', ''wait for observer scaling up'', ''wait observer running'']
       zonestatus_Running zero_rule"

definition genFlowExpandPVC :: OperationContext where
  "genFlowExpandPVC =
     new_context ''expand pvc''
       [''expand pvc'', ''wait for observer expanding pvc'', ''wait observer running'']
       zonestatus_Running zero_rule"

definition obzone_genModifyServerTemplateFlow :: OperationContext where
  "obzone_genModifyServerTemplateFlow =
     new_context ''modify server template''
       [''modify pod template'', ''wait for observer template modifying'', ''wait observer running'']
       zonestatus_Running zero_rule"

definition genRollingReplaceServersFlow :: OperationContext where
  "genRollingReplaceServersFlow =
     new_context ''rolling update observers'' [''rolling replace observers''] zonestatus_Running zero_rule"

lemmas obzone_flows = genMigrateOBZoneFromExistingFlow_def genPrepareOBZoneForBootstrapFlow_def
  genMaintainOBZoneAfterBootstrapFlow_def genCreateOBZoneFlow_def genAddOBServerFlow_def
  genDeleteOBServerFlow_def genDeleteOBZoneFinalizerFlow_def genUpgradeOBZoneFlow_def
  genForceUpgradeOBZoneFlow_def genScaleOBServersVerticallyFlow_def genFlowExpandPVC_def
  obzone_genModifyServerTemplateFlow_def genRollingReplaceServersFlow_def

text \<open>The names \<^verbatim>\<open>obzone_task_gen.go\<close> registers, in its order.\<close>

definition obzone_task_names :: "TaskName list" where
  "obzone_task_names =
     [''add zone'', ''start obzone'', ''create observer'', ''delete observer'', ''delete all observer'',
      ''wait replica match'', ''wait observer deleted'', ''stop obzone'', ''obcluster health check'',
      ''obzone health check'', ''upgrade observer'', ''wait observer upgraded'',
      ''delete obzone in cluster'', ''scale observers vertically'', ''expand pvc'',
      ''modify pod template'', ''delete legacy observers'', ''wait observer bootstrap ready'',
      ''wait observer running'', ''wait for observer scaling up'', ''wait for observer expanding pvc'',
      ''wait for observer template modifying'', ''rolling replace observers'']"

definition obzone_taskMap :: "(TaskName \<Rightarrow> 'm TypedTaskFunc) \<Rightarrow> 'm TaskHub" where
  "obzone_taskMap body = register_all body obzone_task_names NewTaskHub"

section \<open>What the API server answers\<close>

record zone_env =
  zapi_observers :: "OBServer list result"
  zapi_obzone :: "OBZone result"
  zapi_obcluster :: "OBCluster result"
  zclient_Update :: "OBZone \<Rightarrow> OBZone \<times> error option"
  zstatus_Update :: "OBZone \<Rightarrow> error option"
  zone_task :: "TaskName \<Rightarrow> OBZone TypedTaskFunc"

definition OBZoneManager_listOBServers :: "zone_env \<Rightarrow> OBServer list result" where
  "OBZoneManager_listOBServers env = wrap_result ''get observers'' (zapi_observers env)"

definition OBZoneManager_getOBZone :: "zone_env \<Rightarrow> OBZone result" where
  "OBZoneManager_getOBZone env = wrap_result ''get obzone'' (zapi_obzone env)"

definition OBZoneManager_getOBCluster :: "zone_env \<Rightarrow> OBCluster result" where
  "OBZoneManager_getOBCluster env = wrap_result ''get obcluster'' (zapi_obcluster env)"

section \<open>Comparing the spec with the servers\<close>

definition OBZoneManager_checkIfStorageSizeExpand :: "OBZone \<Rightarrow> OBServer \<Rightarrow> bool" where
  "OBZoneManager_checkIfStorageSizeExpand m observer \<longleftrightarrow>
     Cmp (Size (DataStorage (Storage (ServerSpec_OBServerTemplate observer))))
         (Size (DataStorage (Storage (ZoneSpec_OBServerTemplate m)))) < 0 \<or>
     Cmp (Size (LogStorage (Storage (ServerSpec_OBServerTemplate observer))))
         (Size (LogStorage (Storage (ZoneSpec_OBServerTemplate m)))) < 0 \<or>
     Cmp (Size (RedoLogStorage (Storage (ServerSpec_OBServerTemplate observer))))
         (Size (RedoLogStorage (Storage (ZoneSpec_OBServerTemplate m)))) < 0"

definition OBZoneManager_checkIfStorageClassChanged :: "OBZone \<Rightarrow> OBServer \<Rightarrow> bool" where
  "OBZoneManager_checkIfStorageClassChanged m observer \<longleftrightarrow>
     StorageClass (DataStorage (Storage (ServerSpec_OBServerTemplate observer))) \<noteq>
       StorageClass (DataStorage (Storage (ZoneSpec_OBServerTemplate m))) \<or>
     StorageClass (LogStorage (Storage (ServerSpec_OBServerTemplate observer))) \<noteq>
       StorageClass (LogStorage (Storage (ZoneSpec_OBServerTemplate m))) \<or>
     StorageClass (RedoLogStorage (Storage (ServerSpec_OBServerTemplate observer))) \<noteq>
       StorageClass (RedoLogStorage (Storage (ZoneSpec_OBServerTemplate m)))"

definition OBZoneManager_checkIfCalcResourceChange :: "OBZone \<Rightarrow> OBServer \<Rightarrow> bool" where
  "OBZoneManager_checkIfCalcResourceChange m observer \<longleftrightarrow>
     Cmp (Cpu (Template_Resource (ServerSpec_OBServerTemplate observer)))
         (Cpu (Template_Resource (ZoneSpec_OBServerTemplate m))) \<noteq> 0 \<or>
     Cmp (Memory (Template_Resource (ServerSpec_OBServerTemplate observer)))
         (Memory (Template_Resource (ZoneSpec_OBServerTemplate m))) \<noteq> 0"

definition OBZoneManager_checkIfBackupVolumeMutated :: "OBZone \<Rightarrow> OBServer \<Rightarrow> bool" where
  "OBZoneManager_checkIfBackupVolumeMutated m observer \<longleftrightarrow>
     (ServerSpec_BackupVolume observer = None) \<noteq> (ZoneSpec_BackupVolume m = None)"

definition OBZoneManager_checkIfMonitorMutated :: "OBZone \<Rightarrow> OBServer \<Rightarrow> bool" where
  "OBZoneManager_checkIfMonitorMutated m observer \<longleftrightarrow>
     (ServerSpec_MonitorTemplate observer = None) \<noteq> (ZoneSpec_MonitorTemplate m = None)"

lemmas obzone_checks = OBZoneManager_checkIfStorageSizeExpand_def
  OBZoneManager_checkIfStorageClassChanged_def OBZoneManager_checkIfCalcResourceChange_def
  OBZoneManager_checkIfBackupVolumeMutated_def OBZoneManager_checkIfMonitorMutated_def

definition server_request :: "OBZone \<Rightarrow> OBServer \<Rightarrow> string option" where
  "server_request m observer =
     (if OBZone_SupportStaticIP m \<and> OBZoneManager_checkIfCalcResourceChange m observer
      then Some zonestatus_ScaleVertically
      else if OBZone_SupportStaticIP m \<and>
        (OBZoneManager_checkIfBackupVolumeMutated m observer \<or>
         OBZoneManager_checkIfMonitorMutated m observer)
      then Some zonestatus_ModifyServerTemplate
      else if OBZoneManager_checkIfStorageClassChanged m observer
      then Some zonestatus_RollingUpdateServers
      else if OBZoneManager_checkIfStorageSizeExpand m observer then Some zonestatus_ExpandPVC
      else None)"

primrec compare_servers :: "OBZone \<Rightarrow> OBServer list \<Rightarrow> string" where
  "compare_servers m [] = Status m"
| "compare_servers m (x # xs) =
     (case server_request m x of Some s \<Rightarrow> s | None \<Rightarrow> compare_servers m xs)"

definition available_replica :: "OBServer list \<Rightarrow> int" where
  "available_replica servers =
     int (length (filter (\<lambda>x. Status x \<noteq> serverstatus_Unrecoverable) servers))"

definition obzone_compare_topology :: "OBZone \<Rightarrow> OBServer list \<Rightarrow> string" where
  "obzone_compare_topology m servers =
     (if Replica (ZoneSpec_Topology m) > available_replica servers then zonestatus_AddOBServer
      else if Replica (ZoneSpec_Topology m) < int (length (ZoneStatus_OBServerStatus m))
      then zonestatus_DeleteOBServer
      else compare_servers m servers)"

definition obzone_compare_spec :: "OBZone \<Rightarrow> OBServer list \<Rightarrow> OBZone" where
  "obzone_compare_spec m servers =
     (let m1 = (if list_all (\<lambda>x. ServerStatus_Image x = Image (ZoneSpec_OBServerTemplate m)) servers
                then m\<lparr>ZoneStatus_Image := Image (ZoneSpec_OBServerTemplate m)\<rparr> else m);
          m2 = m1\<lparr>Status := obzone_compare_topology m1 servers\<rparr>
      in if Status m2 = zonestatus_Running \<and> ZoneStatus_Image m2 \<noteq> Image (ZoneSpec_OBServerTemplate m2)
         then m2\<lparr>Status := zonestatus_Upgrade\<rparr> else m2)"

section \<open>The resource manager\<close>

definition OBZoneManager_InitStatus :: "OBZone \<Rightarrow> OBZone option" where
  "OBZoneManager_InitStatus m =
     Some (m\<lparr>ZoneStatus_Image := Image (ZoneSpec_OBServerTemplate m),
       Status := (if snd (GetAnnotationField m AnnotationsSourceClusterAddress)
                  then zonestatus_MigrateFromExisting else zonestatus_New),
       ZoneStatus_OBServerStatus := [], Ctx := None\<rparr>)"

text \<open>\<open>Inl\<close> an error, \<open>Inr None\<close> the default case of the switch.\<close>

definition obzone_flow_for :: "OBCluster result \<Rightarrow> string \<Rightarrow> OperationContext option result" where
  "obzone_flow_for cluster s =
     (if s = zonestatus_New then
        (case cluster of
           Inl err \<Rightarrow> Inl (wrap ''Get obcluster'' err)
         | Inr obcluster \<Rightarrow>
             Inr (Some (if Status obcluster = clusterstatus_New then genPrepareOBZoneForBootstrapFlow
                        else genCreateOBZoneFlow)))
      else if s = zonestatus_MigrateFromExisting then Inr (Some genMigrateOBZoneFromExistingFlow)
      else if s = zonestatus_BootstrapReady then Inr (Some genMaintainOBZoneAfterBootstrapFlow)
      else if s = zonestatus_AddOBServer then Inr (Some genAddOBServerFlow)
      else if s = zonestatus_DeleteOBServer then Inr (Some genDeleteOBServerFlow)
      else if s = zonestatus_Deleting then Inr (Some genDeleteOBZoneFinalizerFlow)
      else if s = zonestatus_ScaleVertically then Inr (Some genScaleOBServersVerticallyFlow)
      else if s = zonestatus_ExpandPVC then Inr (Some genFlowExpandPVC)
      else if s = zonestatus_ModifyServerTemplate then Inr (Some obzone_genModifyServerTemplateFlow)
      else if s = zonestatus_RollingUpdateServers then Inr (Some genRollingReplaceServersFlow)
      else if s = zonestatus_Upgrade then
        (case cluster of
           Inl err \<Rightarrow> Inl (wrap ''Get obcluster'' err)
         | Inr obcluster \<Rightarrow>
             Inr (Some (if 3 \<le> length (ClusterStatus_OBZoneStatus obcluster) then genUpgradeOBZoneFlow
                        else genForceUpgradeOBZoneFlow)))
      else Inr None)"

definition OBZoneManager_GetTaskFlow ::
  "zone_env \<Rightarrow> ctx_heap \<Rightarrow> OBZone \<Rightarrow> (ctx_heap \<times> TaskFlow option result) option" where
  "OBZoneManager_GetTaskFlow env h m =
     (case Ctx m of
        Some a \<Rightarrow> Some (h, Inr (Some (Some a)))
      | None \<Rightarrow>
          (case obzone_flow_for (OBZoneManager_getOBCluster env) (Status m) of
             Inl err \<Rightarrow> Some (h, Inl err)
           | Inr None \<Rightarrow> Some (h, Inr None)
           | Inr (Some c) \<Rightarrow> Some (new_flow h (fill_strategy zonestatus_Running c))))"

definition OBZoneManager_CheckAndUpdateFinalizers ::
  "zone_env \<Rightarrow> OBZone \<Rightarrow> OBZone \<times> error option" where
  "OBZoneManager_CheckAndUpdateFinalizers env m =
     (let finish = (\<lambda>finished.
            if finished then
              (case zclient_Update env (m\<lparr>Finalizers := []\<rparr>) of
                 (m', Some err) \<Rightarrow> (m', Some (wrap (''Update obzone '' @ Name m' @ '' in K8s failed'') err))
               | (m', None) \<Rightarrow> (m', None))
            else (m, None))
      in case OBZoneManager_getOBCluster env of
           Inl err \<Rightarrow>
             if is_not_found err then finish True else (m, Some (wrap ''Get obcluster failed'' err))
         | Inr obcluster \<Rightarrow>
             finish (DeletionTimestamp obcluster \<noteq> None \<or> Status m = zonestatus_FinalizerFinished))"

definition OBZoneManager_retryUpdateStatus :: "zone_env \<Rightarrow> OBZone \<Rightarrow> error option" where
  "OBZoneManager_retryUpdateStatus env m =
     (case OBZoneManager_getOBZone env of
        Inl err \<Rightarrow> IgnoreNotFound err
      | Inr obzone \<Rightarrow>
          zstatus_Update env
            (obzone\<lparr>Status := Status m, Ctx := Ctx m, ZoneStatus_Image := ZoneStatus_Image m,
               ZoneStatus_OBServerStatus := ZoneStatus_OBServerStatus m\<rparr>))"

text \<open>
  A failed listing is only logged; the nil list is then dereferenced, which panics
  (\<open>None\<close>).
\<close>

definition OBZoneManager_UpdateStatus ::
  "zone_env \<Rightarrow> OBZone \<Rightarrow> (OBZone \<times> error option) option" where
  "OBZoneManager_UpdateStatus env m =
     (case OBZoneManager_listOBServers env of
        Inl err \<Rightarrow> None
      | Inr servers \<Rightarrow>
          let m1 = m\<lparr>ZoneStatus_OBServerStatus :=
                map (\<lambda>x. \<lparr>ServerReplica_Server = ServerStatus_PodIp x, ServerReplica_Status = Status x,
                      ServerReplica_ServiceIP = ServerStatus_ServiceIp x\<rparr>) servers\<rparr>;
              m2 = (if DeletionTimestamp m1 \<noteq> None then m1\<lparr>Status := zonestatus_Deleting\<rparr> else m1);
              m3 = (if Status m2 \<noteq> zonestatus_Running then m2 else obzone_compare_spec m2 servers)
          in Some (m3, OBZoneManager_retryUpdateStatus env m3))"

definition OBZoneManager_ClearTaskInfo :: "OBZone \<Rightarrow> OBZone" where
  "OBZoneManager_ClearTaskInfo m = leave_flow zonestatus_Running m"

definition OBZoneManager_FinishTask :: "ctx_heap \<Rightarrow> OBZone \<Rightarrow> OBZone option" where
  "OBZoneManager_FinishTask h m = finish_flow h m"

definition OBZoneManager_HandleFailure ::
  "ctx_heap \<Rightarrow> OBZone \<Rightarrow> (ctx_heap \<times> OBZone) option" where
  "OBZoneManager_HandleFailure h m =
     (if DeletionTimestamp m \<noteq> None then Some (h, leave_flow zonestatus_Deleting m)
      else failure_rule_switch h m)"

definition OBZoneManager_GetTaskFunc ::
  "zone_env \<Rightarrow> TaskName \<Rightarrow> OBZone \<Rightarrow> TaskFunc result" where
  "OBZoneManager_GetTaskFunc env name m = GetTask (obzone_taskMap (zone_task env)) name m"

definition OBZoneManager_ArchiveResource :: "OBZone \<Rightarrow> OBZone" where
  "OBZoneManager_ArchiveResource m = leave_flow ''Failed'' m"

definition OBZoneManager :: "zone_env \<Rightarrow> OBZone ResourceManager" where
  "OBZoneManager env =
     \<lparr>GetMeta = ObjectMeta.truncate, GetStatus = Status,
      InitStatus = OBZoneManager_InitStatus,
      SetOperationContext = (\<lambda>p m. m\<lparr>Ctx := p\<rparr>),
      ClearTaskInfo = OBZoneManager_ClearTaskInfo,
      HandleFailure = OBZoneManager_HandleFailure,
      FinishTask = OBZoneManager_FinishTask,
      GetTaskFunc = OBZoneManager_GetTaskFunc env,
      GetTaskFlow = OBZoneManager_GetTaskFlow env,
      CheckAndUpdateFinalizers = OBZoneManager_CheckAndUpdateFinalizers env,
      UpdateStatus = OBZoneManager_UpdateStatus env,
      ArchiveResource = OBZoneManager_ArchiveResource\<rparr>"

section \<open>The manager keeps the coordinator's contract\<close>

lemma obzone_flow_fresh:
  "obzone_flow_for cl s = Inr (Some c) \<Longrightarrow> fresh_flow (fill_strategy zonestatus_Running c)"
  by (auto simp: obzone_flow_for_def obzone_flows split: if_splits sum.splits)

lemma obzone_creates: "Ctx m = None \<Longrightarrow> creates_flow h (OBZoneManager_GetTaskFlow env h m)"
  by (auto simp: OBZoneManager_GetTaskFlow_def creates_flow_def obzone_flow_fresh
      split: sum.splits option.splits)

lemma obzone_resumes:
  "Ctx m = Some a \<Longrightarrow> OBZoneManager_GetTaskFlow env h m = Some (h, Inr (Some (Some a)))"
  by (simp add: OBZoneManager_GetTaskFlow_def)

lemma obzone_handles:
  "Ctx m = Some a \<Longrightarrow> a < length h \<Longrightarrow>
    OBZoneManager_HandleFailure h m = lift_failure (failure_unless_deleted zonestatus_Deleting m) h m"
  by (simp add: OBZoneManager_HandleFailure_def failure_rule_switch_lift lift_failure_def
      failure_unless_deleted_def leave_flow_def)

interpretation oz: standard_manager "OBZoneManager env" zonestatus_Running "''Failed''"
  "failure_unless_deleted zonestatus_Deleting" for env
  by unfold_locales
    (simp_all add: OBZoneManager_def OBZoneManager_ClearTaskInfo_def OBZoneManager_ArchiveResource_def
      OBZoneManager_FinishTask_def obzone_handles obzone_creates obzone_resumes lawful_unless_deleted)

section \<open>Convergence\<close>

definition servers_as_specified :: "OBZone \<Rightarrow> OBServer list \<Rightarrow> bool" where
  "servers_as_specified m servers \<longleftrightarrow>
     int (length servers) = Replica (ZoneSpec_Topology m) \<and>
     (\<forall>x \<in> set servers.
        Status x \<noteq> serverstatus_Unrecoverable \<and>
        \<not> OBZoneManager_checkIfStorageClassChanged m x \<and>
        \<not> OBZoneManager_checkIfStorageSizeExpand m x \<and>
        (OBZone_SupportStaticIP m \<longrightarrow>
           \<not> OBZoneManager_checkIfCalcResourceChange m x \<and>
           \<not> OBZoneManager_checkIfBackupVolumeMutated m x \<and>
           \<not> OBZoneManager_checkIfMonitorMutated m x))"

definition zone_image_as_specified :: "OBZone \<Rightarrow> OBServer list \<Rightarrow> bool" where
  "zone_image_as_specified m servers \<longleftrightarrow>
     ZoneStatus_Image m = Image (ZoneSpec_OBServerTemplate m) \<or>
     (\<forall>x \<in> set servers. ServerStatus_Image x = Image (ZoneSpec_OBServerTemplate m))"

lemma server_request_None_iff:
  "server_request m x = None \<longleftrightarrow>
     \<not> OBZoneManager_checkIfStorageClassChanged m x \<and>
     \<not> OBZoneManager_checkIfStorageSizeExpand m x \<and>
     (OBZone_SupportStaticIP m \<longrightarrow>
        \<not> OBZoneManager_checkIfCalcResourceChange m x \<and>
        \<not> OBZoneManager_checkIfBackupVolumeMutated m x \<and>
        \<not> OBZoneManager_checkIfMonitorMutated m x)"
  by (auto simp: server_request_def)

definition server_requests :: "string set" where
  "server_requests = {zonestatus_ScaleVertically, zonestatus_ModifyServerTemplate,
     zonestatus_RollingUpdateServers, zonestatus_ExpandPVC}"

lemma server_request_range: "server_request m x = Some s \<Longrightarrow> s \<in> server_requests"
  by (auto simp: server_request_def server_requests_def split: if_splits)

lemma compare_servers_cases:
  "(compare_servers m xs = Status m \<and> (\<forall>x \<in> set xs. server_request m x = None)) \<or>
   (compare_servers m xs \<in> server_requests \<and> (\<exists>x \<in> set xs. server_request m x \<noteq> None))"
  by (induction xs) (auto dest: server_request_range split: option.splits)

lemma server_request_status [simp]:
  "server_request (m\<lparr>ZoneStatus_Image := i\<rparr>) = server_request m"
  "server_request (m\<lparr>ZoneStatus_OBServerStatus := l\<rparr>) = server_request m"
  by (rule ext; simp add: server_request_def obzone_checks OBZone_SupportStaticIP_def)+

lemma compare_servers_status [simp]:
  "compare_servers (m\<lparr>ZoneStatus_Image := i\<rparr>) xs = compare_servers m xs"
  "compare_servers (m\<lparr>ZoneStatus_OBServerStatus := l\<rparr>) xs = compare_servers m xs"
  by (induction xs) (simp_all split: option.split)

lemma available_replica_full:
  "available_replica xs = int (length xs) \<longleftrightarrow> (\<forall>x \<in> set xs. Status x \<noteq> serverstatus_Unrecoverable)"
  by (simp add: available_replica_def length_filter_all_iff)

lemma available_replica_le: "available_replica xs \<le> int (length xs)"
  by (simp add: available_replica_def)

text \<open>The status a running zone gets, once the observed replicas are recorded.\<close>

lemma obzone_topology_running_iff:
  assumes "Status m = zonestatus_Running" and "length (ZoneStatus_OBServerStatus m) = length xs"
  shows "obzone_compare_topology m xs = zonestatus_Running \<longleftrightarrow> servers_as_specified m xs"
  using assms compare_servers_cases [of m xs] available_replica_full [of xs] available_replica_le [of xs]
  by (auto simp: obzone_compare_topology_def servers_as_specified_def server_requests_def
      server_request_None_iff)

definition zone_drifts :: "string set" where
  "zone_drifts = server_requests \<union> {zonestatus_AddOBServer, zonestatus_DeleteOBServer, zonestatus_Upgrade}"

lemma obzone_topology_range:
  "Status m = zonestatus_Running \<Longrightarrow>
    obzone_compare_topology m xs \<in> insert zonestatus_Running zone_drifts"
  using compare_servers_cases [of m xs] by (auto simp: obzone_compare_topology_def zone_drifts_def)

lemma obzone_compare_spec_status:
  assumes "length (ZoneStatus_OBServerStatus m) = length xs"
  shows "Status (obzone_compare_spec m xs) =
    (if obzone_compare_topology m xs \<noteq> zonestatus_Running then obzone_compare_topology m xs
     else if \<not> zone_image_as_specified m xs then zonestatus_Upgrade else zonestatus_Running)"
proof -
  have "obzone_compare_topology (m\<lparr>ZoneStatus_Image := i\<rparr>) xs = obzone_compare_topology m xs" for i
    by (simp add: obzone_compare_topology_def)
  then show ?thesis
    by (auto simp: obzone_compare_spec_def Let_def zone_image_as_specified_def list_all_iff)
qed

definition zone_observed :: "OBServer list \<Rightarrow> OBZone \<Rightarrow> OBZone" where
  "zone_observed servers m = m\<lparr>ZoneStatus_OBServerStatus :=
     map (\<lambda>x. \<lparr>ServerReplica_Server = ServerStatus_PodIp x, ServerReplica_Status = Status x,
        ServerReplica_ServiceIP = ServerStatus_ServiceIp x\<rparr>) servers\<rparr>"

lemma obzone_update_running:
  assumes "zapi_observers env = Inr servers" and "DeletionTimestamp m = None"
    and "Status m = zonestatus_Running" and "OBZoneManager_UpdateStatus env m = Some (m', err)"
  shows "Status m' \<in> insert zonestatus_Running zone_drifts"
    and "Status m' = zonestatus_Running \<longleftrightarrow> servers_as_specified m servers \<and> zone_image_as_specified m servers"
    and "Ctx m' = Ctx m"
proof -
  let ?o = "zone_observed servers m"
  have m': "m' = obzone_compare_spec ?o servers"
    using assms by (auto simp: OBZoneManager_UpdateStatus_def OBZoneManager_listOBServers_def Let_def
        zone_observed_def)
  have len: "length (ZoneStatus_OBServerStatus ?o) = length servers" and st: "Status ?o = zonestatus_Running"
    using assms(3) by (simp_all add: zone_observed_def)
  have same: "servers_as_specified ?o servers = servers_as_specified m servers"
    "zone_image_as_specified ?o servers = zone_image_as_specified m servers"
    by (simp_all add: servers_as_specified_def zone_image_as_specified_def zone_observed_def
        obzone_checks OBZone_SupportStaticIP_def)
  show "Status m' \<in> insert zonestatus_Running zone_drifts"
    using obzone_topology_range [OF st, of servers] obzone_compare_spec_status [OF len]
    by (auto simp: m' zone_drifts_def)
  show "Status m' = zonestatus_Running \<longleftrightarrow> servers_as_specified m servers \<and> zone_image_as_specified m servers"
    using obzone_topology_running_iff [OF st len] obzone_compare_spec_status [OF len] same
    by (auto simp: m')
  show "Ctx m' = Ctx m" by (simp add: m' obzone_compare_spec_def zone_observed_def Let_def)
qed

lemma obzone_flow_tasks:
  "obzone_flow_for cl s = Inr (Some c) \<Longrightarrow> set (Tasks c) \<subseteq> set obzone_task_names"
  by (simp add: obzone_flow_for_def split: if_splits sum.splits)
    (erule subst, simp add: obzone_flows obzone_task_names_def)+

lemma zone_drift_flow:
  "s \<in> zone_drifts \<Longrightarrow> cl = Inr obcluster \<Longrightarrow>
    \<exists>c. obzone_flow_for cl s = Inr (Some c) \<and> TargetStatus c = zonestatus_Running"
  by (auto simp: zone_drifts_def server_requests_def obzone_flow_for_def obzone_flows)

lemma obzone_task_found:
  "t \<in> set obzone_task_names \<Longrightarrow> OBZoneManager_GetTaskFunc env t m = Inr (zone_task env t m)"
  by (simp add: OBZoneManager_GetTaskFunc_def obzone_taskMap_def GetTask_register_all)

section \<open>Deletion\<close>

lemma OBZoneManager_simps [simp, manager_simps]:
  "GetMeta (OBZoneManager env) = ObjectMeta.truncate" "GetStatus (OBZoneManager env) = Status"
  "GetTaskFunc (OBZoneManager env) = OBZoneManager_GetTaskFunc env"
  "GetTaskFlow (OBZoneManager env) = OBZoneManager_GetTaskFlow env"
  "UpdateStatus (OBZoneManager env) = OBZoneManager_UpdateStatus env"
  "CheckAndUpdateFinalizers (OBZoneManager env) = OBZoneManager_CheckAndUpdateFinalizers env"
  by (simp_all add: OBZoneManager_def)

text \<open>A step of a flow ends in the finalizer-finished status only as its target.\<close>

lemma obzone_step_finished_iff:
  assumes "s \<noteq> zonestatus_FinalizerFinished" and "DeletionTimestamp m \<noteq> None"
  shows "fst (spec_step cfg zonestatus_Running ''Failed'' (failure_unless_deleted zonestatus_Deleting m) e s c) =
      zonestatus_FinalizerFinished \<longleftrightarrow>
    TaskStatus c = Successful \<and> \<not> HasNext c \<and> TargetStatus c = zonestatus_FinalizerFinished"
  using assms by (cases "TaskStatus c") (auto simp: spec_step_def failure_unless_deleted_def)

text \<open>The cluster of a zone no longer exists or is being deleted itself.\<close>

definition cluster_gone :: "zone_env \<Rightarrow> bool" where
  "cluster_gone env \<longleftrightarrow>
     (case zapi_obcluster env of Inl err \<Rightarrow> is_not_found err | Inr cl \<Rightarrow> DeletionTimestamp cl \<noteq> None)"

definition cluster_living :: "zone_env \<Rightarrow> bool" where
  "cluster_living env \<longleftrightarrow> (\<exists>cl. zapi_obcluster env = Inr cl \<and> DeletionTimestamp cl = None)"

text \<open>The second half of \<^verbatim>\<open>Coordinate\<close> handles the finalizers of an object under deletion.\<close>

definition deletion_handled :: "config \<Rightarrow> OBZone \<Rightarrow> bool" where
  "deletion_handled cfg m \<longleftrightarrow>
     DeletionTimestamp m \<noteq> None \<and> dict_get (Annotations m) (IgnoreDeletionAnnotation cfg) \<noteq> ''true''"

lemma obzone_finish_finalizers:
  assumes "coordinate_finish cfg dbgEnv (OBZoneManager env) s d f w = Some (out, w')"
    and "zclient_Update env = (\<lambda>x. (x, None))"
  shows "Finalizers (res w') =
    (if deletion_handled cfg (res w) \<and>
        (cluster_gone env \<or> cluster_living env \<and> Status (res w) = zonestatus_FinalizerFinished)
     then [] else Finalizers (res w))"
  using assms
  by (cases "zapi_obcluster env")
    (auto simp: coordinate_finish_def OBZoneManager_CheckAndUpdateFinalizers_def wrap_result_def
      OBZoneManager_getOBCluster_def OBZoneManager_UpdateStatus_def OBZoneManager_listOBServers_def
      obzone_compare_spec_def Let_def ObjectMeta.truncate_def cluster_gone_def cluster_living_def
      deletion_handled_def split: if_splits bind_splits sum.splits)

section \<open>Properties\<close>

text \<open>
  \<^verbatim>\<open>UpdateStatus\<close> of a zone panics exactly when the servers cannot be listed: the
  error is logged and the nil list is dereferenced in the next statement.
\<close>

theorem obzone_list_error_panics:
  "OBZoneManager_UpdateStatus env m = None \<longleftrightarrow> (\<exists>err. zapi_observers env = Inl err)"
  by (auto simp: OBZoneManager_UpdateStatus_def OBZoneManager_listOBServers_def Let_def
      wrap_result_def split: sum.splits)


definition small_zone_env :: zone_env where
  "small_zone_env = \<lparr>zapi_observers = Inr [small_server], zapi_obzone = Inr small_zone,
     zapi_obcluster = Inr small_cluster, zclient_Update = (\<lambda>x. (x, None)),
     zstatus_Update = (\<lambda>_. None), zone_task = (\<lambda>_ _. ok_task)\<rparr>"


text \<open>
  Whatever status \<^verbatim>\<open>UpdateStatus\<close> gives a running zone without a flow, the next
  \<^verbatim>\<open>GetTaskFlow\<close> has nothing to do because the zone is still running, or (when the
  cluster can be read) allocates a fresh flow that leads back to running and whose tasks
  are all registered.
\<close>

theorem obzone_no_dead_end:
  assumes "zapi_observers env = Inr servers" and "zapi_obcluster env = Inr obcluster"
    and "DeletionTimestamp m = None" and "Ctx m = None"
    and "Status m = zonestatus_Running" and "OBZoneManager_UpdateStatus env m = Some (m', err)"
  shows "(Status m' = zonestatus_Running \<and> OBZoneManager_GetTaskFlow env h m' = Some (h, Inr None)) \<or>
    (\<exists>c. OBZoneManager_GetTaskFlow env h m' = Some (new_flow h c) \<and> fresh_flow c \<and>
       TargetStatus c = zonestatus_Running \<and>
       (\<forall>t \<in> set (Tasks c). OBZoneManager_GetTaskFunc env t m' = Inr (zone_task env t m')))"
proof -
  note upd = obzone_update_running [OF assms(1,3,5,6)]
  have ctx: "Ctx m' = None" using upd(3) assms(4) by simp
  have cl: "OBZoneManager_getOBCluster env = Inr obcluster"
    using assms(2) by (simp add: OBZoneManager_getOBCluster_def)
  from upd(1) consider "Status m' = zonestatus_Running"
    | c where "obzone_flow_for (Inr obcluster) (Status m') = Inr (Some c)" "TargetStatus c = zonestatus_Running"
    using zone_drift_flow by blast
  then show ?thesis
  proof cases
    case 1
    then show ?thesis by (simp add: OBZoneManager_GetTaskFlow_def ctx obzone_flow_for_def)
  next
    case 2
    then show ?thesis
      using obzone_flow_fresh [OF 2(1)] obzone_flow_tasks [OF 2(1)]
      by (intro disjI2 exI [of _ "fill_strategy zonestatus_Running c"])
        (auto simp: OBZoneManager_GetTaskFlow_def ctx cl obzone_task_found)
  qed
qed

theorem obzone_no_dead_end_witness:
  "\<exists>c. OBZoneManager_GetTaskFlow (small_zone_env\<lparr>zapi_observers := Inr []\<rparr>) []
     (small_zone\<lparr>Status := zonestatus_AddOBServer, ZoneStatus_OBServerStatus := []\<rparr>) = Some (new_flow [] c) \<and>
     Tasks c = [''create observer'', ''wait observer running'']"
proof -
  let ?env = "small_zone_env\<lparr>zapi_observers := Inr []\<rparr>"
  let ?m = "small_zone\<lparr>Status := zonestatus_AddOBServer, ZoneStatus_OBServerStatus := []\<rparr>"
  have upd: "OBZoneManager_UpdateStatus ?env small_zone = Some (?m, None)"
    by (simp add: OBZoneManager_UpdateStatus_def OBZoneManager_listOBServers_def small_zone_env_def Let_def
        obzone_compare_spec_def obzone_compare_topology_def available_replica_def
        OBZoneManager_retryUpdateStatus_def OBZoneManager_getOBZone_def small_objects)
  have "\<exists>c. OBZoneManager_GetTaskFlow ?env [] ?m = Some (new_flow [] c) \<and> fresh_flow c"
    using obzone_no_dead_end [OF _ _ _ _ _ upd, of "[]" small_cluster "[]"]
    by (auto simp: small_zone_env_def small_zone_def)
  then show ?thesis
    by (auto simp: OBZoneManager_GetTaskFlow_def obzone_flow_for_def genAddOBServerFlow_def
        small_zone_def new_flow_def alloc_def)
qed

text \<open>
  An upgrade stops a zone only in a cluster of at least three zones, so that a
  majority stays up; the stop then comes before the servers are upgraded, and the zone is
  started again at the end. A smaller cluster is upgraded without stopping the zone.
\<close>

theorem obzone_upgrade_stops_only_with_majority:
  assumes "obzone_flow_for (Inr obcluster) zonestatus_Upgrade = Inr (Some c)"
  shows "(''stop obzone'' \<in> set (Tasks c) \<longleftrightarrow> 3 \<le> length (ClusterStatus_OBZoneStatus obcluster)) \<and>
    (''stop obzone'' \<in> set (Tasks c) \<longrightarrow>
       last (Tasks c) = ''start obzone'' \<and>
       (\<exists>pre post. Tasks c = pre @ ''stop obzone'' # post \<and> ''upgrade observer'' \<in> set post))"
  using assms
  by (auto simp: obzone_flow_for_def obzone_flows split: if_splits
      intro: exI [of _ "[''obcluster health check'']"])

theorem obzone_upgrade_stops_only_with_majority_witness:
  "''stop obzone'' \<notin> set (Tasks genForceUpgradeOBZoneFlow)"
  using obzone_upgrade_stops_only_with_majority [of small_cluster genForceUpgradeOBZoneFlow]
  by (simp add: obzone_flow_for_def small_cluster_def)

text \<open>
  C26. When a zone with a flow in progress loses its finalizers. A reconcile of a zone that is not
  paused, has not finished its finalizer flow before and whose updates the API server accepts
  removes the finalizers exactly if the zone is under deletion (and not protected by the
  ignore-deletion annotation) and either its cluster is gone or under deletion, when nothing has to be
  cleaned up, or the cluster lives and the last task of the finalizer flow is seen to have
  succeeded: servers deleted, then the zone removed from the cluster. A cluster that cannot be
  read keeps the finalizers.
\<close>

theorem obzone_finalizers_released_iff:
  assumes "Ctx (res w) = Some a" and "a < length (ctxs w)" and "Status (res w) \<noteq> []"
    and "Status (res w) \<noteq> zonestatus_FinalizerFinished" and "Finalizers (res w) \<noteq> []"
    and "dict_get (Annotations (res w)) (PauseAnnotation cfg) \<noteq> ''true''"
    and "zclient_Update env = (\<lambda>x. (x, None))"
    and "Coordinate cfg dbg dbgEnv (OBZoneManager env) taskId w = Some (out, w')"
  shows "Finalizers (res w') = [] \<longleftrightarrow>
    deletion_handled cfg (res w) \<and>
    (cluster_gone env \<or>
     cluster_living env \<and> TaskStatus (ctxs w ! a) = Successful \<and> \<not> HasNext (ctxs w ! a) \<and>
       TargetStatus (ctxs w ! a) = zonestatus_FinalizerFinished)"
proof -
  from assms(8,3,6) obtain d f w1
    where flow: "coordinate_flow cfg dbg (OBZoneManager env) taskId w = Some (Inr ((d, f), w1))"
      and fin: "coordinate_finish cfg dbgEnv (OBZoneManager env) (Status (res w)) d f w1 = Some (out, w')"
    using assms(1) obzone_resumes [OF assms(1)]
    by (auto simp: Coordinate_def coordinate_flow_def ObjectMeta.truncate_def
        split: bind_splits sum.splits)
  define e where "e = \<lparr>found = (\<exists>fn. OBZoneManager_GetTaskFunc env (Task (ctxs w ! a)) (res w) = Inr fn),
    polled = fst (GetTaskResult (TaskId (ctxs w ! a)) (tm w)), new_id = taskId\<rparr>"
  have st: "Status (res w1) = fst (spec_step cfg zonestatus_Running ''Failed''
      (failure_unless_deleted zonestatus_Deleting (res w)) e (Status (res w)) (ctxs w ! a))"
    and meta: "ObjectMeta.truncate (res w1) = ObjectMeta.truncate (res w)"
    using oz.coordinate_status [OF assms(1,2) _ _ flow, of e] assms(3,6)
    by (simp_all add: e_def ObjectMeta.truncate_def)
  from meta have same: "deletion_handled cfg (res w1) = deletion_handled cfg (res w)"
      "Finalizers (res w1) = Finalizers (res w)"
    by (simp_all add: deletion_handled_def ObjectMeta.truncate_def)
  have "Status (res w1) = zonestatus_FinalizerFinished \<longleftrightarrow>
      TaskStatus (ctxs w ! a) = Successful \<and> \<not> HasNext (ctxs w ! a) \<and>
      TargetStatus (ctxs w ! a) = zonestatus_FinalizerFinished"
    if "deletion_handled cfg (res w)"
    unfolding st using that by (intro obzone_step_finished_iff assms(4)) (simp add: deletion_handled_def)
  with assms(5) obzone_finish_finalizers [OF fin assms(7)] same show ?thesis by auto
qed

definition deleting_zone_world :: "OBZone world" where
  "deleting_zone_world = \<lparr>ctxs = [genDeleteOBZoneFinalizerFlow\<lparr>Idx := 4, TaskStatus := Successful\<rparr>],
     res = small_zone\<lparr>Status := zonestatus_Deleting, Finalizers := [''f''], DeletionTimestamp := Some 1,
       Ctx := Some 0\<rparr>, tm = taskManagerInit 10\<rparr>"

theorem obzone_finalizers_released_iff_witness:
  "\<exists>out w'. Coordinate (operator_cfg 99 16) False False (OBZoneManager small_zone_env) ''id'' deleting_zone_world =
     Some (out, w') \<and> Finalizers (res w') = []"
proof -
  let ?w = deleting_zone_world and ?M = "OBZoneManager small_zone_env" and ?cfg = "operator_cfg 99 16"
  have c: "\<not> HasNext (ctxs ?w ! 0)" "TaskStatus (ctxs ?w ! 0) = Successful"
      "TargetStatus (ctxs ?w ! 0) = zonestatus_FinalizerFinished"
    by (simp_all add: deleting_zone_world_def genDeleteOBZoneFinalizerFlow_def HasNext_def)
  obtain out w' where run: "Coordinate ?cfg False False ?M ''id'' ?w = Some (out, w')"
  proof (cases "Coordinate ?cfg False False ?M ''id'' ?w")
    case None
    then show ?thesis
      by (simp add: Coordinate_def coordinate_flow_def coordinate_finish_def executeTaskFlow_def
          OBZoneManager_def OBZoneManager_GetTaskFlow_def OBZoneManager_FinishTask_def finish_flow_def
          OBZoneManager_CheckAndUpdateFinalizers_def OBZoneManager_getOBCluster_def
          OBZoneManager_UpdateStatus_def OBZoneManager_listOBServers_def small_zone_env_def
          deleting_zone_world_def genDeleteOBZoneFinalizerFlow_def HasNext_def small_objects
          ObjectMeta.truncate_def Let_def operator_cfg_def)
  qed auto
  have "Finalizers (res w') = []"
    using obzone_finalizers_released_iff [OF _ _ _ _ _ _ _ run, of 0] c
    by (simp add: deleting_zone_world_def small_zone_env_def small_objects deletion_handled_def
        cluster_gone_def cluster_living_def operator_cfg_def)
  with run show ?thesis by blast
qed

end
