(* ===== verification/OBZone_Tasks.thy ===== *)
theory OBZone_Tasks
  imports OBZone Polling Go_Strings
begin

text \<open>
  Task bodies of \<^verbatim>\<open>internal/resource/obzone/obzone_task.go\<close> and the helpers of
  \<^verbatim>\<open>utils.go\<close> they call. A task that talks to the API server is modelled by the calls it
  makes, in order, and the error it returns; the server's answer to each call is the
  argument \<open>respond\<close>. A task that polls takes the answer of each poll as a function of
  its number.
\<close>

section \<open>Calls\<close>

datatype server_call =
    CreateServer OBServer
  | DeleteServer string
  | UpdateServer OBServer
  | PatchServer OBServer

section \<open>Creating servers\<close>

definition AnnotationsIndependentPVCLifecycle :: string where
  "AnnotationsIndependentPVCLifecycle = ''oceanbase.oceanbase.com/independent-pvc-lifecycle''"

definition AnnotationsSinglePVC :: string where
  "AnnotationsSinglePVC = ''oceanbase.oceanbase.com/single-pvc''"

text \<open>The annotations copied from the zone when they are present.\<close>

definition copy_annotation :: "'a ObjectMeta_scheme \<Rightarrow> string \<Rightarrow> dict \<Rightarrow> dict" where
  "copy_annotation obj key annos =
     (case GetAnnotationField obj key of (v, ok) \<Rightarrow> if ok then annos(key \<mapsto> v) else annos)"

text \<open>
  The server \<^verbatim>\<open>createOneOBServer\<close> creates; \<open>uid\<close> is the zone's UID. A template of the
  zone's topology entry takes precedence over the zone's own.
\<close>

definition new_observer :: "string \<Rightarrow> OBZone \<Rightarrow> string \<Rightarrow> OBServer" where
  "new_observer uid m serverName =
     \<lparr>Name = serverName, Namespace = Namespace m,
      Annotations =
        copy_annotation m AnnotationsSourceClusterAddress
          (copy_annotation m AnnotationsMode
            (copy_annotation m AnnotationsSinglePVC
              (copy_annotation m AnnotationsIndependentPVCLifecycle Map.empty))),
      Labels = [''ref-uid'' \<mapsto> uid, ''ref-obzone'' \<mapsto> Name m,
                ''ref-obcluster'' \<mapsto> dict_get (Labels m) ''ref-obcluster''],
      Finalizers = [''finalizers.oceanbase.com.deleteobserver''], DeletionTimestamp = None,
      Status = [], Ctx = None,
      ServerSpec_ClusterName = ZoneSpec_ClusterName m, ServerSpec_ClusterId = ZoneSpec_ClusterId m,
      ServerSpec_Zone = Zone (ZoneSpec_Topology m),
      ServerSpec_NodeSelector = NodeSelector (ZoneSpec_Topology m),
      ServerSpec_Affinity = Affinity (ZoneSpec_Topology m),
      ServerSpec_Tolerations = Tolerations (ZoneSpec_Topology m),
      ServerSpec_OBServerTemplate =
        (case Topology_OBServerTemplate (ZoneSpec_Topology m) of
           Some t \<Rightarrow> t | None \<Rightarrow> ZoneSpec_OBServerTemplate m),
      ServerSpec_MonitorTemplate =
        (case Topology_MonitorTemplate (ZoneSpec_Topology m) of
           Some t \<Rightarrow> Some t | None \<Rightarrow> ZoneSpec_MonitorTemplate m),
      ServerSpec_BackupVolume = ZoneSpec_BackupVolume m,
      ServerSpec_ServiceAccount = ZoneSpec_ServiceAccount m,
      ServerSpec_K8sCluster = K8sCluster (ZoneSpec_Topology m),
      ServerStatus_Image = [], ServerStatus_PodPhase = [], ServerStatus_Ready = False,
      ServerStatus_PodIp = [], ServerStatus_ServiceIp = [], ServerStatus_NodeIp = [],
      ServerStatus_NodeName = [], ServerStatus_CNI = []\<rparr>"

definition OBZoneManager_createOneOBServer ::
  "(server_call \<Rightarrow> error option) \<Rightarrow> string \<Rightarrow> OBZone \<Rightarrow> string \<Rightarrow> server_call list \<times> OBServer result" where
  "OBZoneManager_createOneOBServer respond uid m serverName =
     (let observer = new_observer uid m serverName
      in ([CreateServer observer],
          case respond (CreateServer observer) of
            Some err \<Rightarrow> Inl (wrap ''create observer'' err)
          | None \<Rightarrow> Inr observer))"

text \<open>
  \<^verbatim>\<open>CreateOBServer\<close>: \<open>name i\<close> is the \<open>i\<close>-th name \<^verbatim>\<open>generateServerName\<close> returns. The loop
  runs from the number of available replicas recorded in the status up to the replica
  count.
\<close>

definition current_replica :: "OBZone \<Rightarrow> int" where
  "current_replica m = int (length (filter (\<lambda>s. ServerReplica_Status s \<noteq> serverstatus_Unrecoverable)
     (ZoneStatus_OBServerStatus m)))"

definition CreateOBServer ::
  "(server_call \<Rightarrow> error option) \<Rightarrow> string \<Rightarrow> (int \<Rightarrow> string) \<Rightarrow> OBZone \<Rightarrow> server_call list \<times> error option" where
  "CreateOBServer respond uid name m =
     each_call (\<lambda>c. case respond c of Some err \<Rightarrow> Some (wrap ''create observer'' err) | None \<Rightarrow> None)
       (\<lambda>i. CreateServer (new_observer uid m (name i)))
       (\<lambda>i. ''Create observer '' @ name i)
       [current_replica m..Replica (ZoneSpec_Topology m) - 1]"

section \<open>Deleting servers\<close>

text \<open>
  The deletion priority of a server: its annotation when that is a number, otherwise zero.
  The difference is taken on Go's 64-bit int.
\<close>

definition AnnotationsDeletionPriority :: string where
  "AnnotationsDeletionPriority = ''oceanbase.oceanbase.com/deletion-priority''"

definition deletion_priority :: "OBServer \<Rightarrow> int" where
  "deletion_priority obs =
     (case GetAnnotationField obs AnnotationsDeletionPriority of
        (val, exist) \<Rightarrow> if exist then (case Atoi val of (p, ok) \<Rightarrow> if ok then p else 0) else 0)"

definition CompOBServerDeletionPriority :: "OBServer \<Rightarrow> OBServer \<Rightarrow> int" where
  "CompOBServerDeletionPriority obs1 obs2 =
     sint (word_of_int (deletion_priority obs1 - deletion_priority obs2) :: 64 word)"

text \<open>
  The loop over the priority queue, \<open>queue\<close> the servers in the order they are dequeued:
  servers being deleted are skipped; unrecoverable ones, and all beyond the replica
  count, are deleted.
\<close>

fun delete_loop ::
  "(server_call \<Rightarrow> error option) \<Rightarrow> int \<Rightarrow> int \<Rightarrow> OBServer list \<Rightarrow> server_call list \<times> error option" where
  "delete_loop respond replica observerCount [] = ([], None)"
| "delete_loop respond replica observerCount (observer # queue) =
     (if Status observer = serverstatus_Deleting then delete_loop respond replica observerCount queue
      else if Status observer = serverstatus_Unrecoverable \<or> observerCount \<ge> replica then
        (case respond (DeleteServer (Name observer)) of
           Some err \<Rightarrow> ([DeleteServer (Name observer)],
                        Some (wrap (''Delete observer '' @ Name observer @ '' failed'') err))
         | None \<Rightarrow> (case delete_loop respond replica observerCount queue of
                     (cs, e) \<Rightarrow> (DeleteServer (Name observer) # cs, e)))
      else delete_loop respond replica (observerCount + 1) queue)"

definition DeleteOBServer ::
  "(server_call \<Rightarrow> error option) \<Rightarrow> (OBServer list \<Rightarrow> OBServer list) \<Rightarrow> zone_env \<Rightarrow> OBZone \<Rightarrow>
     server_call list \<times> error option" where
  "DeleteOBServer respond dequeued env m =
     (case OBZoneManager_listOBServers env of
        Inl err \<Rightarrow> ([], Some (wrap (''List observrers of obzone '' @ Name m) err))
      | Inr servers \<Rightarrow> delete_loop respond (Replica (ZoneSpec_Topology m)) 0 (dequeued servers))"

definition DeleteAllOBServer ::
  "(server_call \<Rightarrow> error option) \<Rightarrow> zone_env \<Rightarrow> OBZone \<Rightarrow> server_call list \<times> error option" where
  "DeleteAllOBServer respond env m =
     (case OBZoneManager_listOBServers env of
        Inl err \<Rightarrow> ([], Some (wrap (''List observrers of obzone '' @ Name m) err))
      | Inr servers \<Rightarrow>
          each_call respond (\<lambda>x. DeleteServer (Name x)) (\<lambda>x. ''Delete observer '' @ Name x @ '' failed'') servers)"

section \<open>Waiting\<close>

text \<open>
  \<open>poll i\<close> is what reading the zone (or listing the servers) answers in round \<open>i\<close>;
  \<open>timeout\<close> is the configured number of rounds.
\<close>

definition WaitReplicaMatch :: "nat \<Rightarrow> (nat \<Rightarrow> OBZone result) \<Rightarrow> OBZone \<Rightarrow> error option" where
  "WaitReplicaMatch timeout poll m =
     (case poll_until poll (\<lambda>obzone. Replica (ZoneSpec_Topology m) =
             int (length (ZoneStatus_OBServerStatus obzone))) timeout 0 of
        ReadError err \<Rightarrow> None
      | Seen obzone \<Rightarrow> None
      | TimedOut \<Rightarrow> Some (OtherError (''wait obzone '' @ Name m @ '' replica match timeout'')))"

text \<open>A read error is only logged here; the nil zone is dereferenced next, a panic (\<open>None\<close>).\<close>

definition WaitOBServerDeleted :: "nat \<Rightarrow> (nat \<Rightarrow> OBZone result) \<Rightarrow> OBZone \<Rightarrow> error option option" where
  "WaitOBServerDeleted timeout poll m =
     (case poll_until poll (\<lambda>obzone. length (ZoneStatus_OBServerStatus obzone) = 0) timeout 0 of
        ReadError err \<Rightarrow> None
      | Seen obzone \<Rightarrow> Some None
      | TimedOut \<Rightarrow> Some (Some (OtherError (''wait obzone '' @ Name m @ '' observer deleted timeout''))))"

text \<open>The loop of \<^verbatim>\<open>generateWaitOBServerStatusFunc\<close> starts at one.\<close>

definition servers_in_status :: "string \<Rightarrow> OBZone \<Rightarrow> bool" where
  "servers_in_status status obzone \<longleftrightarrow>
     list_all (\<lambda>s. ServerReplica_Status s = status \<or> ServerReplica_Status s = serverstatus_Unrecoverable)
       (ZoneStatus_OBServerStatus obzone)"

definition generateWaitOBServerStatusFunc :: "(nat \<Rightarrow> OBZone result) \<Rightarrow> string \<Rightarrow> nat \<Rightarrow> error option" where
  "generateWaitOBServerStatusFunc poll status timeoutSeconds =
     (case poll_until poll (servers_in_status status) (timeoutSeconds - 1) 1 of
        ReadError err \<Rightarrow> Some (wrap ''get obzoen failed'' err)
      | Seen obzone \<Rightarrow> None
      | TimedOut \<Rightarrow> Some (OtherError ''all server still not bootstrap ready when timeout''))"

definition WaitOBServerUpgraded :: "nat \<Rightarrow> (nat \<Rightarrow> OBServer list result) \<Rightarrow> OBZone \<Rightarrow> error option" where
  "WaitOBServerUpgraded timeout poll m =
     (case poll_until poll
             (list_all (\<lambda>x. Status x = serverstatus_Running \<and>
                ServerStatus_Image x = Image (ZoneSpec_OBServerTemplate m))) timeout 0 of
        ReadError err \<Rightarrow> Some (wrap (''List observrers of obzone '' @ Name m) err)
      | Seen servers \<Rightarrow> None
      | TimedOut \<Rightarrow> Some (OtherError ''Wait all server upgraded timeout''))"

section \<open>Changing servers\<close>

definition UpgradeOBServer ::
  "(server_call \<Rightarrow> error option) \<Rightarrow> zone_env \<Rightarrow> OBZone \<Rightarrow> server_call list \<times> error option" where
  "UpgradeOBServer respond env m =
     (case OBZoneManager_listOBServers env of
        Inl err \<Rightarrow> ([], Some (wrap (''List observrers of obzone '' @ Name m) err))
      | Inr servers \<Rightarrow>
          each_call respond
            (\<lambda>x. UpdateServer (x\<lparr>ServerSpec_OBServerTemplate :=
               (ServerSpec_OBServerTemplate x)\<lparr>Image := Image (ZoneSpec_OBServerTemplate m)\<rparr>\<rparr>))
            (\<lambda>x. ''Upgrade observer '' @ Name x @ '' failed'') servers)"

text \<open>
  \<^verbatim>\<open>ScaleOBServersVertically\<close> compares quantities with Go's struct equality, which also
  compares their cached representation; \<open>same\<close> stands for it.
\<close>

definition ScaleOBServersVertically ::
  "(Quantity \<Rightarrow> Quantity \<Rightarrow> bool) \<Rightarrow> (server_call \<Rightarrow> error option) \<Rightarrow> zone_env \<Rightarrow> OBZone \<Rightarrow>
     server_call list \<times> error option" where
  "ScaleOBServersVertically same respond env m =
     (case OBZoneManager_listOBServers env of
        Inl err \<Rightarrow> ([], Some err)
      | Inr servers \<Rightarrow>
          let zoneRes = Template_Resource (ZoneSpec_OBServerTemplate m)
          in each_call respond
               (\<lambda>x. UpdateServer (x\<lparr>ServerSpec_OBServerTemplate := (ServerSpec_OBServerTemplate x)
                  \<lparr>Template_Resource := \<lparr>Cpu = Cpu zoneRes, Memory = Memory zoneRes\<rparr>\<rparr>\<rparr>))
               (\<lambda>x. ''Scale observer '' @ Name x @ '' vertically failed'')
               (filter (\<lambda>x. let serverRes = Template_Resource (ServerSpec_OBServerTemplate x)
                            in \<not> same (Cpu serverRes) (Cpu zoneRes) \<or> \<not> same (Memory serverRes) (Memory zoneRes)) servers))"

definition expand_storage :: "OceanbaseStorageSpec \<Rightarrow> OceanbaseStorageSpec \<Rightarrow> OceanbaseStorageSpec" where
  "expand_storage zoneStorage st =
     st\<lparr>DataStorage := (DataStorage st)\<lparr>Size := Size (DataStorage zoneStorage)\<rparr>,
        LogStorage := (LogStorage st)\<lparr>Size := Size (LogStorage zoneStorage)\<rparr>,
        RedoLogStorage := (RedoLogStorage st)\<lparr>Size := Size (RedoLogStorage zoneStorage)\<rparr>\<rparr>"

definition obzone_ExpandPVC ::
  "(server_call \<Rightarrow> error option) \<Rightarrow> zone_env \<Rightarrow> OBZone \<Rightarrow> server_call list \<times> error option" where
  "obzone_ExpandPVC respond env m =
     (case OBZoneManager_listOBServers env of
        Inl err \<Rightarrow> ([], Some err)
      | Inr servers \<Rightarrow>
          each_call respond
            (\<lambda>x. UpdateServer (x\<lparr>ServerSpec_OBServerTemplate := (ServerSpec_OBServerTemplate x)
               \<lparr>Storage := expand_storage (Storage (ZoneSpec_OBServerTemplate m))
                   (Storage (ServerSpec_OBServerTemplate x))\<rparr>\<rparr>))
            (\<lambda>x. ''Expand observer '' @ Name x @ '' failed'')
            (filter (OBZoneManager_checkIfStorageSizeExpand m) servers))"

section \<open>Lemmas\<close>

definition live :: "OBServer \<Rightarrow> bool" where
  "live x \<longleftrightarrow> Status x \<noteq> serverstatus_Deleting \<and> Status x \<noteq> serverstatus_Unrecoverable"

definition lost :: "OBServer \<Rightarrow> bool" where
  "lost x \<longleftrightarrow> Status x = serverstatus_Unrecoverable"

text \<open>The live servers beyond the replica count are deleted, and all the lost ones.\<close>

lemma delete_loop_calls:
  assumes "\<And>n. respond (DeleteServer n) = None"
  shows "snd (delete_loop respond rep cnt q) = None \<and>
    mset (fst (delete_loop respond rep cnt q)) =
      image_mset (\<lambda>x. DeleteServer (Name x))
        (mset (filter lost q) + mset (drop (nat (rep - cnt)) (filter live q)))"
proof (induction q arbitrary: cnt)
  case Nil
  show ?case by simp
next
  case (Cons x q)
  consider "Status x = serverstatus_Deleting" | "lost x" | "live x" "cnt \<ge> rep" | "live x" "cnt < rep"
    unfolding live_def lost_def by linarith
  then show ?case
  proof cases
    case 4
    then have "nat (rep - cnt) = Suc (nat (rep - (cnt + 1)))" by simp
    with 4 Cons.IH [of "cnt + 1"] show ?thesis by (simp add: live_def lost_def)
  qed (use Cons.IH [of cnt] assms in
      \<open>auto simp: live_def lost_def split: prod.splits\<close>)
qed

lemma sorted_take_drop:
  assumes "sorted_wrt R xs" and "x \<in> set (take k xs)" and "y \<in> set (drop k xs)"
  shows "R x y"
proof -
  have "sorted_wrt R (take k xs @ drop k xs)" using assms(1) by simp
  with assms(2,3) show ?thesis unfolding sorted_wrt_append by blast
qed

lemma comp_priority:
  assumes "CompOBServerDeletionPriority x y \<le> 0"
    and "\<bar>deletion_priority x\<bar> < 2 ^ 62" and "\<bar>deletion_priority y\<bar> < 2 ^ 62"
  shows "deletion_priority x \<le> deletion_priority y"
  using assms sint_in_range [of "deletion_priority x - deletion_priority y"]
  by (simp add: CompOBServerDeletionPriority_def abs_less_iff)

text \<open>What the loop keeps and what it removes when the queue is in the order of the priorities.\<close>

lemma delete_loop_split:
  assumes respond: "\<And>n. respond (DeleteServer n) = None" and queue: "mset q = mset servers"
    and order: "sorted_wrt (\<lambda>x y. CompOBServerDeletionPriority x y \<le> 0) q"
    and small: "\<forall>x \<in> set servers. \<bar>deletion_priority x\<bar> < 2 ^ 62" and replica: "0 \<le> rep"
  shows "\<exists>kept removed. snd (delete_loop respond rep 0 q) = None \<and>
    mset (fst (delete_loop respond rep 0 q)) =
      image_mset (\<lambda>x. DeleteServer (Name x)) (filter_mset lost (mset servers) + mset removed) \<and>
    mset kept + mset removed = filter_mset live (mset servers) \<and>
    int (length kept) = min rep (int (size (filter_mset live (mset servers)))) \<and>
    (\<forall>x \<in> set kept. \<forall>y \<in> set removed. deletion_priority x \<le> deletion_priority y)"
proof (intro exI conjI)
  let ?kept = "take (nat rep) (filter live q)" and ?removed = "drop (nat rep) (filter live q)"
  have len: "length (filter live q) = size (filter_mset live (mset servers))"
    by (metis queue mset_filter size_mset)
  show "snd (delete_loop respond rep 0 q) = None"
    using delete_loop_calls [of respond] respond by simp
  show "mset (fst (delete_loop respond rep 0 q)) =
      image_mset (\<lambda>x. DeleteServer (Name x)) (filter_mset lost (mset servers) + mset ?removed)"
    using delete_loop_calls [of respond rep 0 q] respond by (simp add: queue)
  show "mset ?kept + mset ?removed = filter_mset live (mset servers)"
    by (metis append_take_drop_id queue mset_append mset_filter)
  show "int (length ?kept) = min rep (int (size (filter_mset live (mset servers))))"
    using replica by (simp add: len)
  show "\<forall>x \<in> set ?kept. \<forall>y \<in> set ?removed. deletion_priority x \<le> deletion_priority y"
  proof (intro ballI)
    fix x y assume xy: "x \<in> set ?kept" "y \<in> set ?removed"
    have "set q = set servers" using queue by (metis set_mset_mset)
    then have "x \<in> set servers" "y \<in> set servers" using in_set_takeD [OF xy(1)] in_set_dropD [OF xy(2)] by simp_all
    then show "deletion_priority x \<le> deletion_priority y"
      using comp_priority [OF sorted_take_drop [OF sorted_wrt_filter [OF order] xy]] small by blast
  qed
qed

section \<open>Properties\<close>

text \<open>
  \<^verbatim>\<open>CreateOBServer\<close> creates exactly the missing servers: when the API server accepts
  every creation, as many as the replica count exceeds the servers that are not
  unrecoverable, and none when there are enough. Each carries the zone's spec, the
  finalizer and the labels by which the zone and the cluster find it.
\<close>

theorem create_observer_count:
  assumes "\<And>x. respond (CreateServer x) = None"
  shows "CreateOBServer respond uid name m =
      (map (\<lambda>i. CreateServer (new_observer uid m (name i))) [current_replica m..Replica (ZoneSpec_Topology m) - 1], None) \<and>
    int (length (fst (CreateOBServer respond uid name m))) =
      max 0 (Replica (ZoneSpec_Topology m) - current_replica m) \<and>
    (\<forall>c \<in> set (fst (CreateOBServer respond uid name m)). \<exists>x. c = CreateServer x \<and>
       ServerSpec_Zone x = Zone (ZoneSpec_Topology m) \<and> Labels x ''ref-obzone'' = Some (Name m) \<and>
       Finalizers x = [''finalizers.oceanbase.com.deleteobserver''] \<and> Status x = [])"
proof -
  have calls: "CreateOBServer respond uid name m =
      (map (\<lambda>i. CreateServer (new_observer uid m (name i))) [current_replica m..Replica (ZoneSpec_Topology m) - 1], None)"
    unfolding CreateOBServer_def by (rule each_call_ok) (simp add: assms)
  then show ?thesis by (auto simp: new_observer_def)
qed

theorem create_observer_count_witness:
  "length (fst (CreateOBServer (\<lambda>_. None) ''uid'' (\<lambda>_. ''n'')
     (small_zone\<lparr>ZoneSpec_Topology := zone1_topology\<lparr>Replica := 3\<rparr>\<rparr>))) = 2"
  using create_observer_count [of "\<lambda>_. None" "''uid''" "\<lambda>_. ''n''"
      "small_zone\<lparr>ZoneSpec_Topology := zone1_topology\<lparr>Replica := 3\<rparr>\<rparr>"]
  by (simp add: current_replica_def small_objects)

text \<open>
  C3. \<^verbatim>\<open>DeleteOBServer\<close> deletes every unrecoverable server and, of the others that are not
  already being deleted, all but as many as the replica count; a server that is kept
  never has a higher deletion priority than one that is removed. This needs of the
  priority queue that it gives back what was put in, in the order of its comparator, and
  priorities small enough for their difference not to overflow.
\<close>

theorem delete_observer_by_priority:
  assumes "zapi_observers env = Inr servers" and "\<And>n. respond (DeleteServer n) = None"
    and "mset (dequeued servers) = mset servers"
    and "sorted_wrt (\<lambda>x y. CompOBServerDeletionPriority x y \<le> 0) (dequeued servers)"
    and "\<forall>x \<in> set servers. \<bar>deletion_priority x\<bar> < 2 ^ 62"
    and "0 \<le> Replica (ZoneSpec_Topology m)"
  shows "\<exists>kept removed.
    snd (DeleteOBServer respond dequeued env m) = None \<and>
    mset (fst (DeleteOBServer respond dequeued env m)) =
      image_mset (\<lambda>x. DeleteServer (Name x)) (filter_mset lost (mset servers) + mset removed) \<and>
    mset kept + mset removed = filter_mset live (mset servers) \<and>
    int (length kept) = min (Replica (ZoneSpec_Topology m)) (int (size (filter_mset live (mset servers)))) \<and>
    (\<forall>x \<in> set kept. \<forall>y \<in> set removed. deletion_priority x \<le> deletion_priority y)"
proof -
  have "DeleteOBServer respond dequeued env m = delete_loop respond (Replica (ZoneSpec_Topology m)) 0 (dequeued servers)"
    using assms(1) by (simp add: DeleteOBServer_def OBZoneManager_listOBServers_def)
  then show ?thesis using delete_loop_split [where respond = respond, OF assms(2-6)] by simp
qed

theorem delete_observer_by_priority_witness:
  "size (mset (fst (DeleteOBServer (\<lambda>_. None) (\<lambda>xs. xs)
     (small_zone_env\<lparr>zapi_observers := Inr [small_server, small_server\<lparr>Status := serverstatus_Unrecoverable\<rparr>]\<rparr>)
     small_zone))) = 1"
proof -
  let ?lost = "small_server\<lparr>Status := serverstatus_Unrecoverable\<rparr>"
  let ?env = "small_zone_env\<lparr>zapi_observers := Inr [small_server, ?lost]\<rparr>"
  have zero: "deletion_priority small_server = 0" "deletion_priority ?lost = 0"
    by (simp_all add: deletion_priority_def GetAnnotationField_def small_server_def)
  have status: "Status small_server = serverstatus_Running" "Replica (ZoneSpec_Topology small_zone) = 1"
    by (simp_all add: small_objects)
  obtain kept removed where
    calls: "mset (fst (DeleteOBServer (\<lambda>_. None) (\<lambda>xs. xs) ?env small_zone)) =
        image_mset (\<lambda>x. DeleteServer (Name x)) (filter_mset lost (mset [small_server, ?lost]) + mset removed)"
    and parts: "mset kept + mset removed = filter_mset live (mset [small_server, ?lost])"
    and len: "int (length kept) = min 1 (int (size (filter_mset live (mset [small_server, ?lost]))))"
    using delete_observer_by_priority [of ?env "[small_server, ?lost]" "\<lambda>_. None" "\<lambda>xs. xs" small_zone]
    by (auto simp: zero status CompOBServerDeletionPriority_def)
  have "size (mset kept + mset removed) = 1" "length kept = 1"
    using parts len by (simp_all add: live_def status)
  then have "removed = []" by simp
  with calls show ?thesis by (simp add: lost_def status)
qed

text \<open>
  A template in the zone's topology entry is what new servers get, but
  \<^verbatim>\<open>UpdateStatus\<close> compares servers with the zone's own template. If the two differ in a
  storage class, a zone made of servers created by \<^verbatim>\<open>createOneOBServer\<close> is never as
  specified: replacing the servers gives servers of the same kind again.
\<close>

theorem zone_template_override_never_converges:
  assumes "Topology_OBServerTemplate (ZoneSpec_Topology m) = Some t"
    and "StorageClass (DataStorage (Storage t)) \<noteq>
      StorageClass (DataStorage (Storage (ZoneSpec_OBServerTemplate m)))"
    and "0 < Replica (ZoneSpec_Topology m)"
    and "\<forall>x \<in> set servers. \<exists>uid name. ServerSpec_OBServerTemplate x =
      ServerSpec_OBServerTemplate (new_observer uid m name)"
  shows "\<not> servers_as_specified m servers"
proof
  assume spec: "servers_as_specified m servers"
  then have "servers \<noteq> []" using assms(3) by (auto simp: servers_as_specified_def)
  then obtain x where x: "x \<in> set servers" by (cases servers) auto
  with assms(1,4) have "ServerSpec_OBServerTemplate x = t" by (auto simp: new_observer_def)
  with spec x assms(2) show False
    by (auto simp: servers_as_specified_def OBZoneManager_checkIfStorageClassChanged_def)
qed

definition override_zone :: OBZone where
  "override_zone = small_zone\<lparr>ZoneSpec_Topology := zone1_topology\<lparr>Topology_OBServerTemplate :=
     Some (small_template\<lparr>Storage := (Storage small_template)\<lparr>DataStorage := \<lparr>StorageClass = ''hdd'', Size = 50\<rparr>\<rparr>\<rparr>)\<rparr>\<rparr>"

theorem zone_template_override_never_converges_witness:
  "\<not> servers_as_specified override_zone [new_observer ''uid'' override_zone ''n'']"
  by (rule zone_template_override_never_converges)
    (auto simp: override_zone_def small_objects)

text \<open>
  The wait for a server status succeeds exactly when one of the \<open>timeout - 1\<close> polls
  sees every server in the wanted status or unrecoverable, and every poll before it could
  read the zone.
\<close>

theorem wait_server_status_iff:
  "generateWaitOBServerStatusFunc poll status timeoutSeconds = None \<longleftrightarrow>
    (\<exists>k z. 1 \<le> k \<and> k < timeoutSeconds \<and> poll k = Inr z \<and> servers_in_status status z \<and>
      (\<forall>j \<in> {1..<k}. \<exists>z'. poll j = Inr z' \<and> \<not> servers_in_status status z'))"
proof -
  have "generateWaitOBServerStatusFunc poll status timeoutSeconds = None \<longleftrightarrow>
      (\<exists>z. poll_until poll (servers_in_status status) (timeoutSeconds - 1) 1 = Seen z)"
    by (simp add: generateWaitOBServerStatusFunc_def split: poll_outcome.splits)
  also have "\<dots> \<longleftrightarrow> (\<exists>z. servers_in_status status z \<and>
      first_hit poll (servers_in_status status) (timeoutSeconds - 1) 1 (Inr z))"
    by (simp add: poll_until_iffs)
  finally show ?thesis
    unfolding first_hit_def not_yet_def by (cases timeoutSeconds) force+
qed

theorem wait_server_status_iff_witness:
  "generateWaitOBServerStatusFunc
     (\<lambda>i. Inr (if i < 2 then small_zone else small_zone\<lparr>ZoneStatus_OBServerStatus := []\<rparr>))
     ''bootstrap ready'' 3 = None"
  unfolding wait_server_status_iff
  by (rule exI [of _ 2], rule exI [of _ "small_zone\<lparr>ZoneStatus_OBServerStatus := []\<rparr>"])
    (auto simp: servers_in_status_def small_zone_def)

text \<open>
  \<^verbatim>\<open>WaitReplicaMatch\<close> reports success when it cannot read the zone, whatever the number
  of servers: it never fails but by a timeout. \<^verbatim>\<open>WaitOBServerDeleted\<close> panics on the
  same answer.
\<close>

theorem wait_read_error_misreported:
  assumes "poll 0 = Inl err" and "0 < timeout"
  shows "WaitReplicaMatch timeout poll m = None \<and> WaitOBServerDeleted timeout poll m = None"
  using assms by (cases timeout) (simp_all add: WaitReplicaMatch_def WaitOBServerDeleted_def)

theorem wait_read_error_misreported_witness:
  "WaitReplicaMatch 10 (\<lambda>_. Inl NotFound) small_zone = None \<and>
   WaitOBServerDeleted 10 (\<lambda>_. Inl NotFound) small_zone = None"
  by (rule wait_read_error_misreported) simp_all

end
