(* ===== verification/OBServer.thy ===== *)
theory OBServer
  imports Managers Sample_Objects "HOL-Library.Sublist"
begin

text \<open>
  \<^verbatim>\<open>internal/resource/observer\<close>: the task flows of \<^verbatim>\<open>observer_flow.go\<close>, the checks of
  \<^verbatim>\<open>utils.go\<close> on the server's pod and volume claims, and the resource manager of
  \<^verbatim>\<open>observer_manager.go\<close>. A nil pod is \<open>None\<close>; reading a field of it panics.
\<close>

section \<open>Task flows\<close>

definition genPrepareOBServerForBootstrapFlow :: OperationContext where
  "genPrepareOBServerForBootstrapFlow =
     new_context ''prepare observer for bootstrap''
       [''create observer svc'', ''create observer pvc'', ''create observer pod'', ''wait observer ready'']
       serverstatus_BootstrapReady zero_rule"

definition genMaintainOBServerAfterBootstrapFlow :: OperationContext where
  "genMaintainOBServerAfterBootstrapFlow =
     new_context ''maintain observer after bootstrap''
       [''wait obcluster bootstrapped'', ''add server'', ''wait observer active in cluster'']
       serverstatus_Running zero_rule"

definition genCreateOBServerFlow :: OperationContext where
  "genCreateOBServerFlow =
     new_context ''create observer''
       [''create observer svc'', ''create observer pvc'', ''create observer pod'', ''wait observer ready'',
        ''add server'', ''wait observer active in cluster'']
       serverstatus_Running (zero_rule\<lparr>NextTryStatus := ''Failed''\<rparr>)"

definition genDeleteOBServerFinalizerFlow :: OperationContext where
  "genDeleteOBServerFinalizerFlow =
     new_context ''delete observer finalizer''
       [''delete observer in cluster'', ''wait observer deleted in cluster'', ''clean owned resources'']
       serverstatus_FinalizerFinished zero_rule"

definition genUpgradeOBServerFlow :: OperationContext where
  "genUpgradeOBServerFlow =
     new_context ''upgrade observer''
       [''upgrade observer image'', ''wait observer pod ready'', ''wait observer active in cluster'']
       serverstatus_Running zero_rule"

definition genRecoverOBServerFlow :: OperationContext where
  "genRecoverOBServerFlow =
     new_context ''recover observer''
       [''delete pod'', ''wait for pod deleted'', ''create observer pod'', ''wait observer ready'',
        ''add server'', ''wait observer active in cluster'']
       serverstatus_Running (zero_rule\<lparr>Strategy := StartOver, NextTryStatus := serverstatus_Running\<rparr>)"

definition genAnnotateOBServerPodFlow :: OperationContext where
  "genAnnotateOBServerPodFlow =
     new_context ''annotate observer pod'' [''annotate observer pod''] serverstatus_Running zero_rule"

definition genScaleOBServerVerticallyFlow :: OperationContext where
  "genScaleOBServerVerticallyFlow =
     new_context ''scale observer vertically''
       [''delete pod'', ''wait for pod deleted'', ''create observer pod'', ''wait observer ready'',
        ''wait observer active in cluster'']
       serverstatus_Running zero_rule"

definition observer_genExpandPVCFlow :: OperationContext where
  "observer_genExpandPVCFlow =
     new_context ''expand pvc'' [''expand pvc'', ''wait for pvc resized'']
       serverstatus_Running (zero_rule\<lparr>Strategy := StartOver\<rparr>)"

definition genModifyPodTemplateFlow :: OperationContext where
  "genModifyPodTemplateFlow =
     new_context ''modify pod template''
       [''delete pod'', ''wait for pod deleted'', ''create observer pod'', ''wait observer ready'']
       serverstatus_Running (zero_rule\<lparr>Strategy := StartOver\<rparr>)"

lemmas observer_flows = genPrepareOBServerForBootstrapFlow_def genMaintainOBServerAfterBootstrapFlow_def
  genCreateOBServerFlow_def genDeleteOBServerFinalizerFlow_def genUpgradeOBServerFlow_def
  genRecoverOBServerFlow_def genAnnotateOBServerPodFlow_def genScaleOBServerVerticallyFlow_def
  observer_genExpandPVCFlow_def genModifyPodTemplateFlow_def

text \<open>The names \<^verbatim>\<open>observer_task_gen.go\<close> registers, in its order.\<close>

definition observer_task_names :: "TaskName list" where
  "observer_task_names =
     [''wait observer ready'', ''add server'', ''wait obcluster bootstrapped'', ''create observer pod'',
      ''create observer pvc'', ''delete observer in cluster'', ''annotate observer pod'',
      ''upgrade observer image'', ''wait observer pod ready'', ''wait observer active in cluster'',
      ''wait observer deleted in cluster'', ''delete pod'', ''wait for pod deleted'', ''expand pvc'',
      ''wait for pvc resized'', ''create observer svc'', ''check and create ns'', ''clean owned resources'']"

definition observer_taskMap :: "(TaskName \<Rightarrow> 'm TypedTaskFunc) \<Rightarrow> 'm TaskHub" where
  "observer_taskMap body = register_all body observer_task_names NewTaskHub"

section \<open>Pods, volume claims and what the API server answers\<close>

type_synonym ResourceList = "string \<rightharpoonup> Quantity"

record ContainerPort =
  Port_Name :: string
  Port_Number :: int

record VolumeMount =
  Mount_Name :: string
  Mount_Path :: string
  Mount_SubPath :: string

datatype EnvValue = PlainValue string | SecretKey string string

datatype ProbeHandler = TCPSocket int | HTTPGet int string

record Probe =
  Probe_Handler :: ProbeHandler
  Probe_PeriodSeconds :: int
  Probe_InitialDelaySeconds :: int
  Probe_FailureThreshold :: int

record Container =
  Container_Name :: string
  Container_Image :: string
  Container_Ports :: "ContainerPort list"
  Container_Requests :: ResourceList
  Container_Limits :: ResourceList
  Container_Mounts :: "VolumeMount list"
  Container_Probe :: Probe
  Container_WorkingDir :: string
  Container_Env :: "(string \<times> EnvValue) list"
  Container_Command :: "string list"

record ContainerStatus =
  CStatus_Name :: string
  CStatus_Ready :: bool
  CStatus_Image :: string

record PodSpec =
  Spec_Volumes :: "PodVolume list"
  Spec_Containers :: "Container list"
  Spec_NodeSelector :: "(string \<times> string) list"
  Spec_Affinity :: "opaque option"
  Spec_Tolerations :: "opaque list"
  Spec_ServiceAccountName :: string
  Spec_SchedulerName :: string
  Spec_PriorityClassName :: string
  Spec_RuntimeClassName :: "string option"
  Spec_PreemptionPolicy :: "string option"
  Spec_Priority :: "int option"
  Spec_SecurityContext :: "opaque option"
  Spec_DNSPolicy :: string
  Spec_Hostname :: string
  Spec_Subdomain :: string

record Pod =
  Pod_Labels :: dict
  Pod_Annotations :: dict
  Pod_Spec :: PodSpec
  Pod_NodeName :: string
  Pod_Phase :: string
  Pod_PodIP :: string
  Pod_HostIP :: string
  Pod_ContainerStatuses :: "ContainerStatus list"

abbreviation Pod_Containers :: "Pod \<Rightarrow> Container list" where
  "Pod_Containers pod \<equiv> Spec_Containers (Pod_Spec pod)"

record PersistentVolumeClaim =
  PVC_Name :: string
  PVC_Request :: Quantity
  PVC_StorageClass :: string
  PVC_Labels :: dict
  PVC_Owners :: "string list"

text \<open>\<^verbatim>\<open>Cpu()\<close> and \<^verbatim>\<open>Memory()\<close> of a resource list: zero when it has no such entry.\<close>

definition Limits_Cpu :: "Container \<Rightarrow> Quantity" where
  "Limits_Cpu c = (case Container_Limits c ''cpu'' of None \<Rightarrow> 0 | Some q \<Rightarrow> q)"

definition Limits_Memory :: "Container \<Rightarrow> Quantity" where
  "Limits_Memory c = (case Container_Limits c ''memory'' of None \<Rightarrow> 0 | Some q \<Rightarrow> q)"

text \<open>
  \<open>pod_answer i\<close> is the answer to the \<open>i\<close>-th attempt to read the pod; \<open>IsPodReady\<close> is
  \<^verbatim>\<open>apipod.IsPodReady\<close>; \<open>worker_cleanup\<close> the outcome of \<^verbatim>\<open>cleanWorkerK8sResource\<close>.
\<close>

record server_env =
  pod_answer :: "nat \<Rightarrow> Pod result"
  svc_ClusterIP :: "string result"
  sapi_pvcs :: "PersistentVolumeClaim list result"
  sapi_observer :: "OBServer result"
  sapi_obcluster :: "OBCluster result"
  IsPodReady :: "Pod \<Rightarrow> bool"
  worker_cleanup :: "error option"
  sclient_Update :: "OBServer \<Rightarrow> OBServer \<times> error option"
  sstatus_Update :: "OBServer \<Rightarrow> error option"
  server_task :: "TaskName \<Rightarrow> OBServer TypedTaskFunc"

definition OBServerManager_getOBServer :: "server_env \<Rightarrow> OBServer result" where
  "OBServerManager_getOBServer env = wrap_result ''get observer'' (sapi_observer env)"

definition OBServerManager_getOBCluster :: "server_env \<Rightarrow> OBCluster result" where
  "OBServerManager_getOBCluster env = wrap_result ''get obcluster'' (sapi_obcluster env)"

definition OBServerManager_getPVCs :: "server_env \<Rightarrow> PersistentVolumeClaim list result" where
  "OBServerManager_getPVCs env = wrap_result ''list pvc'' (sapi_pvcs env)"

text \<open>Up to three attempts, as long as the pod is not found; \<open>lastErr\<close> is the last error.\<close>

primrec getPod_loop :: "server_env \<Rightarrow> nat \<Rightarrow> nat \<Rightarrow> error \<Rightarrow> Pod result" where
  "getPod_loop env 0 i lastErr = Inl (wrap ''get pod'' lastErr)"
| "getPod_loop env (Suc n) i lastErr =
     (case pod_answer env i of
        Inr pod \<Rightarrow> Inr pod
      | Inl err \<Rightarrow> if is_not_found err then getPod_loop env n (Suc i) err
                   else Inl (wrap ''get pod'' err))"

definition OBServerManager_getPod :: "server_env \<Rightarrow> Pod result" where
  "OBServerManager_getPod env = getPod_loop env 3 0 NotFound"

section \<open>Checks\<close>

definition GetCNIFromAnnotation :: "Pod \<Rightarrow> string" where
  "GetCNIFromAnnotation pod =
     (if Pod_Annotations pod ''cni.projectcalico.org/podIP'' \<noteq> None then ''calico''
      else if Pod_Annotations pod ''ovn.kubernetes.io/ip_address'' \<noteq> None then ''kube-ovn''
      else ''unknown'')"

definition NeedAnnotation :: "Pod \<Rightarrow> string \<Rightarrow> bool" where
  "NeedAnnotation pod cni =
     (if cni = ''calico'' then Pod_Annotations pod ''cni.projectcalico.org/ipAddrs'' = None
      else if cni = ''kube-ovn'' then Pod_Annotations pod ''ovn.kubernetes.io/ip_address'' = None
      else False)"

definition pvc_too_small :: "OBServer \<Rightarrow> PersistentVolumeClaim \<Rightarrow> bool" where
  "pvc_too_small m pvc =
     (let st = Storage (ServerSpec_OBServerTemplate m)
      in if suffix ''data-file'' (PVC_Name pvc) then Cmp (PVC_Request pvc) (Size (DataStorage st)) < 0
         else if suffix ''data-log'' (PVC_Name pvc) then Cmp (PVC_Request pvc) (Size (RedoLogStorage st)) < 0
         else if suffix ''log'' (PVC_Name pvc) then Cmp (PVC_Request pvc) (Size (LogStorage st)) < 0
         else if PVC_Name pvc = Name m
         then Cmp (PVC_Request pvc)
                (Size (DataStorage st) + Size (RedoLogStorage st) + Size (LogStorage st)) < 0
         else False)"

definition OBServerManager_checkIfStorageExpand ::
  "OBServer \<Rightarrow> PersistentVolumeClaim list \<Rightarrow> bool" where
  "OBServerManager_checkIfStorageExpand m pvcs \<longleftrightarrow> list_ex (pvc_too_small m) pvcs"

definition OBServerManager_checkIfResourceChanged :: "OBServer \<Rightarrow> Pod \<Rightarrow> bool" where
  "OBServerManager_checkIfResourceChanged m pod \<longleftrightarrow>
     list_ex (\<lambda>c. Container_Name c = ''observer'' \<and>
        (Cmp (Limits_Cpu c) (Cpu (Template_Resource (ServerSpec_OBServerTemplate m))) \<noteq> 0 \<or>
         Cmp (Limits_Memory c) (Memory (Template_Resource (ServerSpec_OBServerTemplate m))) \<noteq> 0))
       (Pod_Containers pod)"

definition OBServerManager_checkIfBackupVolumeMutated :: "OBServer \<Rightarrow> Pod \<Rightarrow> bool" where
  "OBServerManager_checkIfBackupVolumeMutated m pod \<longleftrightarrow>
     (ServerSpec_BackupVolume m \<noteq> None) \<noteq>
     list_ex (\<lambda>c. Container_Name c = ''observer'' \<and> list_ex (\<lambda>mount. Mount_Path mount = ''/ob-backup'') (Container_Mounts c))
       (Pod_Containers pod)"

definition OBServerManager_checkIfMonitorMutated :: "OBServer \<Rightarrow> Pod \<Rightarrow> bool" where
  "OBServerManager_checkIfMonitorMutated m pod \<longleftrightarrow>
     (ServerSpec_MonitorTemplate m \<noteq> None) \<noteq>
     list_ex (\<lambda>c. Container_Name c = ''obagent'') (Pod_Containers pod)"

section \<open>The resource manager\<close>

definition OBServerManager_InitStatus :: "OBServer \<Rightarrow> OBServer option" where
  "OBServerManager_InitStatus m =
     Some (m\<lparr>ServerStatus_Image := Image (ServerSpec_OBServerTemplate m), Status := serverstatus_New,
       Ctx := None, ServerStatus_PodPhase := [], ServerStatus_Ready := False, ServerStatus_PodIp := [],
       ServerStatus_ServiceIp := [], ServerStatus_NodeIp := [], ServerStatus_NodeName := [],
       ServerStatus_CNI := []\<rparr>)"

definition OBServerManager_setRecoveryStatus :: "OBServer \<Rightarrow> OBServer" where
  "OBServerManager_setRecoveryStatus m =
     (if OBServer_SupportStaticIP m then m\<lparr>Status := serverstatus_Recover\<rparr>
      else m\<lparr>Status := serverstatus_Unrecoverable\<rparr>)"

definition OBServerManager_retryUpdateStatus :: "server_env \<Rightarrow> OBServer \<Rightarrow> error option" where
  "OBServerManager_retryUpdateStatus env m =
     (case OBServerManager_getOBServer env of
        Inl err \<Rightarrow> IgnoreNotFound err
      | Inr observer \<Rightarrow>
          sstatus_Update env
            (observer\<lparr>Status := Status m, Ctx := Ctx m, ServerStatus_Image := ServerStatus_Image m,
               ServerStatus_PodPhase := ServerStatus_PodPhase m, ServerStatus_Ready := ServerStatus_Ready m,
               ServerStatus_PodIp := ServerStatus_PodIp m, ServerStatus_ServiceIp := ServerStatus_ServiceIp m,
               ServerStatus_NodeIp := ServerStatus_NodeIp m, ServerStatus_NodeName := ServerStatus_NodeName m,
               ServerStatus_CNI := ServerStatus_CNI m\<rparr>))"

text \<open>\<^verbatim>\<open>UpdateStatus\<close> in its parts: recording the pod, then the checks on a running server.\<close>

definition record_pod :: "server_env \<Rightarrow> Pod \<Rightarrow> OBServer \<Rightarrow> OBServer" where
  "record_pod env pod m =
     (let m1 = m\<lparr>ServerStatus_Ready := IsPodReady env pod, ServerStatus_PodPhase := Pod_Phase pod,
            ServerStatus_PodIp := Pod_PodIP pod, ServerStatus_NodeIp := Pod_HostIP pod,
            ServerStatus_NodeName := Pod_NodeName pod, ServerStatus_CNI := GetCNIFromAnnotation pod\<rparr>
      in if ServerStatus_ServiceIp m1 = [] \<and> GetAnnotationField m1 AnnotationsMode = (''service'', True)
         then (case svc_ClusterIP env of
                 Inl err \<Rightarrow> m1
               | Inr ip \<Rightarrow> m1\<lparr>ServerStatus_ServiceIp := ip\<rparr>)
         else m1)"

definition check_storage :: "server_env \<Rightarrow> OBServer \<Rightarrow> OBServer" where
  "check_storage env m =
     (if Status m = serverstatus_Running then
        (case OBServerManager_getPVCs env of
           Inl err \<Rightarrow> m
         | Inr pvcs \<Rightarrow> if 0 < length pvcs \<and> OBServerManager_checkIfStorageExpand m pvcs
                       then m\<lparr>Status := serverstatus_ExpandPVC\<rparr> else m)
      else m)"

definition check_pod_template :: "Pod option \<Rightarrow> OBServer \<Rightarrow> OBServer option" where
  "check_pod_template pod m =
     (if Status m = serverstatus_Running \<and> OBServer_SupportStaticIP m then do {
        p \<leftarrow> pod;
        let m1 = (if OBServerManager_checkIfResourceChanged m p
                  then m\<lparr>Status := serverstatus_ScaleVertically\<rparr> else m);
        Some (if OBServerManager_checkIfBackupVolumeMutated m1 p \<or> OBServerManager_checkIfMonitorMutated m1 p
              then m1\<lparr>Status := serverstatus_ModifyingPodTemplate\<rparr> else m1)
      }
      else Some m)"

definition check_annotation_upgrade :: "Pod option \<Rightarrow> OBServer \<Rightarrow> OBServer option" where
  "check_annotation_upgrade pod m =
     (if Status m = serverstatus_Running then do {
        p \<leftarrow> pod;
        if NeedAnnotation p (ServerStatus_CNI m) then Some (m\<lparr>Status := serverstatus_Annotate\<rparr>)
        else do {
          let m1 = (case find (\<lambda>c. Container_Name c = ''observer'') (Pod_Containers p) of
                      Some c \<Rightarrow> m\<lparr>ServerStatus_Image := Container_Image c\<rparr>
                    | None \<Rightarrow> m);
          Some (if Image (ServerSpec_OBServerTemplate m1) \<noteq> ServerStatus_Image m1
                then m1\<lparr>Status := serverstatus_Upgrade\<rparr> else m1)
        }
      }
      else Some m)"

definition OBServerManager_UpdateStatus ::
  "server_env \<Rightarrow> OBServer \<Rightarrow> (OBServer \<times> error option) option" where
  "OBServerManager_UpdateStatus env m =
     (let go = (\<lambda>pod m1. do {
            m2 \<leftarrow> check_pod_template pod (check_storage env m1);
            m3 \<leftarrow> check_annotation_upgrade pod m2;
            Some (m3, OBServerManager_retryUpdateStatus env m3)
          })
      in if DeletionTimestamp m \<noteq> None then
           let m1 = m\<lparr>Status := serverstatus_Deleting\<rparr>
           in Some (m1, OBServerManager_retryUpdateStatus env m1)
         else case OBServerManager_getPod env of
                Inl err \<Rightarrow>
                  if is_not_found err then
                    go None (if Status m = serverstatus_Running
                             then OBServerManager_setRecoveryStatus m else m)
                  else Some (m, Some (wrap ''get pod when update status'' err))
              | Inr pod \<Rightarrow> go (Some pod) (record_pod env pod m))"

definition OBServerManager_CheckAndUpdateFinalizers ::
  "server_env \<Rightarrow> OBServer \<Rightarrow> OBServer \<times> error option" where
  "OBServerManager_CheckAndUpdateFinalizers env m =
     (let finish = (\<lambda>finished.
            if finished then
              (case sclient_Update env (m\<lparr>Finalizers := []\<rparr>) of
                 (m', Some err) \<Rightarrow> (m', Some (wrap (''Update observer '' @ Name m' @ '' in K8s failed'') err))
               | (m', None) \<Rightarrow> (m', None))
            else (m, None))
      in case OBServerManager_getOBCluster env of
           Inl err \<Rightarrow>
             if is_not_found err then finish True else (m, Some (wrap ''Get obcluster failed'' err))
         | Inr obcluster \<Rightarrow>
             finish (DeletionTimestamp obcluster \<noteq> None \<or> Status m = serverstatus_FinalizerFinished))"

definition observer_flow_for :: "OBCluster result \<Rightarrow> string \<Rightarrow> OperationContext option result" where
  "observer_flow_for cluster s =
     (if s = serverstatus_New then
        (case cluster of
           Inl err \<Rightarrow> Inl (wrap ''Get obcluster'' err)
         | Inr obcluster \<Rightarrow>
             Inr (Some (if Status obcluster = clusterstatus_New then genPrepareOBServerForBootstrapFlow
                        else genCreateOBServerFlow)))
      else if s = serverstatus_BootstrapReady then Inr (Some genMaintainOBServerAfterBootstrapFlow)
      else if s = serverstatus_Deleting then Inr (Some genDeleteOBServerFinalizerFlow)
      else if s = serverstatus_Upgrade then Inr (Some genUpgradeOBServerFlow)
      else if s = serverstatus_Recover then Inr (Some genRecoverOBServerFlow)
      else if s = serverstatus_Annotate then Inr (Some genAnnotateOBServerPodFlow)
      else if s = serverstatus_ScaleVertically then Inr (Some genScaleOBServerVerticallyFlow)
      else if s = serverstatus_ExpandPVC then Inr (Some observer_genExpandPVCFlow)
      else if s = serverstatus_ModifyingPodTemplate then Inr (Some genModifyPodTemplateFlow)
      else Inr None)"

definition OBServerManager_GetTaskFlow ::
  "server_env \<Rightarrow> ctx_heap \<Rightarrow> OBServer \<Rightarrow> (ctx_heap \<times> TaskFlow option result) option" where
  "OBServerManager_GetTaskFlow env h m =
     (case Ctx m of
        Some a \<Rightarrow> Some (h, Inr (Some (Some a)))
      | None \<Rightarrow>
          (case observer_flow_for (OBServerManager_getOBCluster env) (Status m) of
             Inl err \<Rightarrow> Some (h, Inl err)
           | Inr None \<Rightarrow> Some (h, Inr None)
           | Inr (Some c) \<Rightarrow> Some (new_flow h (fill_strategy serverstatus_Running c))))"

definition OBServerManager_ClearTaskInfo :: "OBServer \<Rightarrow> OBServer" where
  "OBServerManager_ClearTaskInfo m = leave_flow serverstatus_Running m"

definition OBServerManager_FinishTask :: "ctx_heap \<Rightarrow> OBServer \<Rightarrow> OBServer option" where
  "OBServerManager_FinishTask h m = finish_flow h m"

definition OBServerManager_HandleFailure ::
  "ctx_heap \<Rightarrow> OBServer \<Rightarrow> (ctx_heap \<times> OBServer) option" where
  "OBServerManager_HandleFailure h m =
     (if DeletionTimestamp m \<noteq> None then Some (h, leave_flow serverstatus_Deleting m)
      else failure_rule_switch h m)"

definition OBServerManager_GetTaskFunc ::
  "server_env \<Rightarrow> TaskName \<Rightarrow> OBServer \<Rightarrow> TaskFunc result" where
  "OBServerManager_GetTaskFunc env name m = GetTask (observer_taskMap (server_task env)) name m"

definition OBServerManager_ArchiveResource :: "OBServer \<Rightarrow> OBServer" where
  "OBServerManager_ArchiveResource m = leave_flow ''Failed'' m"

definition OBServerManager :: "server_env \<Rightarrow> OBServer ResourceManager" where
  "OBServerManager env =
     \<lparr>GetMeta = ObjectMeta.truncate, GetStatus = Status,
      InitStatus = OBServerManager_InitStatus,
      SetOperationContext = (\<lambda>p m. m\<lparr>Ctx := p\<rparr>),
      ClearTaskInfo = OBServerManager_ClearTaskInfo,
      HandleFailure = OBServerManager_HandleFailure,
      FinishTask = OBServerManager_FinishTask,
      GetTaskFunc = OBServerManager_GetTaskFunc env,
      GetTaskFlow = OBServerManager_GetTaskFlow env,
      CheckAndUpdateFinalizers = OBServerManager_CheckAndUpdateFinalizers env,
      UpdateStatus = OBServerManager_UpdateStatus env,
      ArchiveResource = OBServerManager_ArchiveResource\<rparr>"

section \<open>The manager keeps the coordinator's contract\<close>

lemma observer_flow_fresh:
  "observer_flow_for cl s = Inr (Some c) \<Longrightarrow> fresh_flow (fill_strategy serverstatus_Running c)"
  by (auto simp: observer_flow_for_def observer_flows split: if_splits sum.splits)

lemma observer_creates: "Ctx m = None \<Longrightarrow> creates_flow h (OBServerManager_GetTaskFlow env h m)"
  by (auto simp: OBServerManager_GetTaskFlow_def creates_flow_def observer_flow_fresh
      split: sum.splits option.splits)

lemma observer_resumes:
  "Ctx m = Some a \<Longrightarrow> OBServerManager_GetTaskFlow env h m = Some (h, Inr (Some (Some a)))"
  by (simp add: OBServerManager_GetTaskFlow_def)

lemma observer_handles:
  "Ctx m = Some a \<Longrightarrow> a < length h \<Longrightarrow>
    OBServerManager_HandleFailure h m = lift_failure (failure_unless_deleted serverstatus_Deleting m) h m"
  by (simp add: OBServerManager_HandleFailure_def failure_rule_switch_lift lift_failure_def
      failure_unless_deleted_def leave_flow_def)

interpretation os: standard_manager "OBServerManager env" serverstatus_Running "''Failed''"
  "failure_unless_deleted serverstatus_Deleting" for env
  by unfold_locales
    (simp_all add: OBServerManager_def OBServerManager_ClearTaskInfo_def OBServerManager_ArchiveResource_def
      OBServerManager_FinishTask_def observer_handles observer_creates observer_resumes lawful_unless_deleted)

section \<open>Lemmas\<close>

lemma getPod_loop_not_found:
  "(\<And>j. i \<le> j \<Longrightarrow> j < i + n \<Longrightarrow> \<exists>err. pod_answer env j = Inl err \<and> is_not_found err) \<Longrightarrow>
   is_not_found e \<Longrightarrow> \<exists>err. getPod_loop env n i e = Inl err \<and> is_not_found err"
proof (induction n arbitrary: i e)
  case (Suc n)
  from Suc.prems(1) [of i] obtain err where "pod_answer env i = Inl err" "is_not_found err" by auto
  with Suc.IH [of "Suc i" err] Suc.prems(1) show ?case by auto
qed simp

text \<open>None of the checks before the last one leaves the running status, once left, again.\<close>

lemma check_storage_status:
  "Status m \<noteq> serverstatus_Running \<Longrightarrow> check_storage env m = m"
  by (simp add: check_storage_def)

lemma checks_without_pod:
  "Status m \<noteq> serverstatus_Running \<Longrightarrow>
    check_pod_template pod (check_storage env m) = Some m \<and> check_annotation_upgrade pod m = Some m"
  by (simp add: check_storage_def check_pod_template_def check_annotation_upgrade_def)

lemma recovery_not_running: "Status (OBServerManager_setRecoveryStatus m) \<noteq> serverstatus_Running"
  by (simp add: OBServerManager_setRecoveryStatus_def)

lemma checks_with_pod:
  "\<exists>m2 m3. check_pod_template (Some p) m = Some m2 \<and> check_annotation_upgrade (Some p) m2 = Some m3"
  by (simp add: check_pod_template_def check_annotation_upgrade_def Let_def)

lemma update_status_no_pod:
  assumes "DeletionTimestamp m = None" and "OBServerManager_getPod env = Inl err" "is_not_found err"
  shows "\<exists>e. OBServerManager_UpdateStatus env m =
    Some (if Status m = serverstatus_Running then OBServerManager_setRecoveryStatus m else m, e)"
  using assms checks_without_pod [of "OBServerManager_setRecoveryStatus m" None env]
    checks_without_pod [of m None env] recovery_not_running [of m]
  by (auto simp: OBServerManager_UpdateStatus_def)

lemma getPod_absent:
  assumes "\<And>i. i < 3 \<Longrightarrow> \<exists>err. pod_answer env i = Inl err \<and> is_not_found err"
  shows "\<exists>err. OBServerManager_getPod env = Inl err \<and> is_not_found err"
  unfolding OBServerManager_getPod_def using assms by (intro getPod_loop_not_found) auto

section \<open>Properties\<close>

text \<open>
  \<^verbatim>\<open>UpdateStatus\<close> of a server never panics: whatever the API server answers, the pod is
  read only when it was found, because a running server without a pod has left the
  running status before the checks that read the pod.
\<close>

theorem observer_update_never_panics: "OBServerManager_UpdateStatus env m \<noteq> None"
proof (cases "DeletionTimestamp m = None")
  case True
  show ?thesis
  proof (cases "OBServerManager_getPod env")
    case (Inl err)
    show ?thesis
    proof (cases "is_not_found err")
      case nf: True
      show ?thesis using update_status_no_pod [OF True Inl nf] by auto
    qed (simp add: OBServerManager_UpdateStatus_def True Inl)
  next
    case (Inr p)
    then show ?thesis
      using checks_with_pod [of p "check_storage env (record_pod env p m)"]
      by (auto simp: OBServerManager_UpdateStatus_def True)
  qed
qed (simp add: OBServerManager_UpdateStatus_def Let_def)

text \<open>
  A running server whose pod is not found in three attempts is recovered in place when
  it keeps its address (Calico, Kube-OVN, or service or standalone mode), by a flow that
  deletes, recreates and re-adds its pod; otherwise it becomes unrecoverable, for which
  there is no flow.
\<close>

theorem observer_lost_pod:
  assumes "DeletionTimestamp m = None" and "Status m = serverstatus_Running" and "Ctx m = None"
    and "\<And>i. i < 3 \<Longrightarrow> \<exists>err. pod_answer env i = Inl err \<and> is_not_found err"
    and "OBServerManager_UpdateStatus env m = Some (m', err)"
  shows "if OBServer_SupportStaticIP m
    then Status m' = serverstatus_Recover \<and>
      OBServerManager_GetTaskFlow env h m' = Some (new_flow h genRecoverOBServerFlow)
    else Status m' = serverstatus_Unrecoverable \<and> OBServerManager_GetTaskFlow env h m' = Some (h, Inr None)"
proof -
  obtain e where pod: "OBServerManager_getPod env = Inl e" "is_not_found e"
    using getPod_absent [OF assms(4)] by blast
  have "m' = OBServerManager_setRecoveryStatus m"
    using update_status_no_pod [OF assms(1) pod] assms(2,5) by auto
  then show ?thesis
    using assms(3)
    by (auto simp: OBServerManager_setRecoveryStatus_def OBServerManager_GetTaskFlow_def
        observer_flow_for_def fill_strategy_def genRecoverOBServerFlow_def)
qed

definition lost_pod_env :: server_env where
  "lost_pod_env = \<lparr>pod_answer = (\<lambda>_. Inl NotFound), svc_ClusterIP = Inl NotFound, sapi_pvcs = Inr [],
     sapi_observer = Inr small_server, sapi_obcluster = Inr small_cluster, IsPodReady = (\<lambda>_. True),
     worker_cleanup = None, sclient_Update = (\<lambda>x. (x, None)), sstatus_Update = (\<lambda>_. None),
     server_task = (\<lambda>_ _. ok_task)\<rparr>"

theorem observer_lost_pod_witness:
  "\<exists>m' err. OBServerManager_UpdateStatus lost_pod_env small_server = Some (m', err) \<and>
     Status m' = serverstatus_Unrecoverable"
proof -
  have nf: "\<exists>err. pod_answer lost_pod_env i = Inl err \<and> is_not_found err" for i
    by (simp add: lost_pod_env_def)
  obtain m' err where upd: "OBServerManager_UpdateStatus lost_pod_env small_server = Some (m', err)"
    using update_status_no_pod [of small_server lost_pod_env NotFound] getPod_absent [OF nf]
    by (auto simp: small_server_def OBServerManager_getPod_def lost_pod_env_def numeral_3_eq_3)
  then show ?thesis
    using observer_lost_pod [OF _ _ _ nf upd, of "[]"]
    by (simp add: small_server_def OBServer_SupportStaticIP_def)
qed

text \<open>
  The three claims the operator creates for a server are compared with their own
  storage: the data file with the data storage, the data log with the redo log storage
  and the log with the log storage, although the name of the data log also ends in
  \<^verbatim>\<open>log\<close>. The server's own name must not end in \<^verbatim>\<open>data\<close> (then its log claim would
  be taken for the data log); the names the zone generates end in six random characters
  of an alphabet without vowels.
\<close>

abbreviation claim :: "string \<Rightarrow> Quantity \<Rightarrow> PersistentVolumeClaim" where
  "claim name request \<equiv> \<lparr>PVC_Name = name, PVC_Request = request, PVC_StorageClass = [], PVC_Labels = Map.empty, PVC_Owners = []\<rparr>"

theorem observer_pvc_compared_with_own_storage:
  fixes m :: OBServer
  assumes "\<not> suffix ''data'' (Name m)"
  defines "st \<equiv> Storage (ServerSpec_OBServerTemplate m)"
  shows "OBServerManager_checkIfStorageExpand m
      [claim (Name m @ ''-data-file'') d,
       claim (Name m @ ''-data-log'') r,
       claim (Name m @ ''-log'') l] \<longleftrightarrow>
    d < Size (DataStorage st) \<or> r < Size (RedoLogStorage st) \<or> l < Size (LogStorage st)"
proof -
  have suf: "suffix xs (ys @ zs) = suffix xs zs" if "length xs \<le> length zs" for xs ys zs :: string
    using that suffix_length_suffix [of xs "ys @ zs" zs] by (auto intro: suffix_appendI)
  show ?thesis
    by (simp add: OBServerManager_checkIfStorageExpand_def pvc_too_small_def st_def Let_def suf)
      (use assms(1) in \<open>simp add: suffix_to_prefix\<close>)
qed

theorem observer_pvc_compared_with_own_storage_witness:
  "\<not> OBServerManager_checkIfStorageExpand small_server
      [claim (''test-1-zone1-abcdef'' @ ''-data-file'') 50,
       claim (''test-1-zone1-abcdef'' @ ''-data-log'') 50,
       claim (''test-1-zone1-abcdef'' @ ''-log'') 20]"
  using observer_pvc_compared_with_own_storage [of small_server 50 50 20]
  by (simp add: small_server_def small_template_def suffix_to_prefix)

text \<open>
  The flows that expand claims and that change the pod template start over without
  naming a status, and \<^verbatim>\<open>GetTaskFlow\<close> fills one in only when the strategy is missing. A
  failed task of such a flow therefore leaves the server with the empty status, which
  the next reconcile takes for a newly created server: it is initialised again and sent
  through the creation flow, although it is running and holds data.
\<close>

theorem observer_failed_expand_recreates:
  assumes "Ctx (res w) = Some a" and "a < length (ctxs w)" and "DeletionTimestamp (res w) = None"
    and "Status (res w) = serverstatus_ExpandPVC"
    and "dict_get (Annotations (res w)) (PauseAnnotation cfg) \<noteq> ''true''"
    and "OnFailure (ctxs w ! a) = OnFailure (fill_strategy serverstatus_Running observer_genExpandPVCFlow)"
    and "TaskStatus (ctxs w ! a) = Failed" and "0 \<le> TaskMaxRetryTimes cfg"
    and "coordinate_flow cfg dbg (OBServerManager env) taskId w = Some (Inr (out, w'))"
    and "Status (res w2) = Status (res w')"
    and "coordinate_flow cfg dbg (OBServerManager env) taskId2 w2 = Some (Inr (out2, w3))"
  shows "Status (res w') = [] \<and> Status (res w3) = serverstatus_New"
proof -
  define e where "e = \<lparr>found = (\<exists>fn. OBServerManager_GetTaskFunc env (Task (ctxs w ! a)) (res w) = Inr fn),
    polled = fst (GetTaskResult (TaskId (ctxs w ! a)) (tm w)), new_id = taskId\<rparr>"
  obtain d f where out: "out = (d, f)" by fastforce
  have "Status (res w') = fst (spec_step cfg serverstatus_Running ''Failed''
      (failure_unless_deleted serverstatus_Deleting (res w)) e (Status (res w)) (ctxs w ! a))"
    using os.coordinate_status(1) [OF assms(1,2) _ _ assms(9) [unfolded out], of e] assms(4,5)
    by (simp add: e_def OBServerManager_def ObjectMeta.truncate_def)
  then have "Status (res w') = []"
    using assms(3,4,6,7,8)
    by (simp add: spec_step_def failure_unless_deleted_def failure_switch_def start_over_def
        limited_def max_retry_def observer_genExpandPVCFlow_def fill_strategy_def)
  moreover have "Status (res w3) = serverstatus_New"
    using assms(10,11) calculation
    by (auto simp: coordinate_flow_def OBServerManager_def OBServerManager_InitStatus_def)
  ultimately show ?thesis by simp
qed

definition failed_expand_world :: "OBServer world" where
  "failed_expand_world = \<lparr>ctxs = [(fill_strategy serverstatus_Running observer_genExpandPVCFlow)
       \<lparr>Idx := 1, Task := ''expand pvc'', TaskStatus := Failed\<rparr>],
     res = small_server\<lparr>Status := serverstatus_ExpandPVC, Ctx := Some 0\<rparr>, tm = taskManagerInit 10\<rparr>"

theorem observer_failed_expand_recreates_witness:
  "\<exists>out out2 w' w3.
     coordinate_flow default_cfg False (OBServerManager lost_pod_env) ''a'' failed_expand_world = Some (Inr (out, w')) \<and>
     coordinate_flow default_cfg False (OBServerManager lost_pod_env) ''b'' w' = Some (Inr (out2, w3)) \<and>
     Status (res w3) = serverstatus_New"
proof -
  let ?M = "OBServerManager lost_pod_env"
  obtain out w' where 1: "coordinate_flow default_cfg False ?M ''a'' failed_expand_world = Some (Inr (out, w'))"
    and st: "Status (res w') = []"
    by (auto simp: coordinate_flow_def executeTaskFlow_def OBServerManager_def observer_resumes
        failed_expand_world_def OBServerManager_HandleFailure_def failure_rule_switch_def
        start_over_switch_def observer_genExpandPVCFlow_def fill_strategy_def small_server_def default_cfg_def
        ObjectMeta.truncate_def backoff_def Let_def)
  then obtain out2 w3 where 2: "coordinate_flow default_cfg False ?M ''b'' w' = Some (Inr (out2, w3))"
    by (auto simp: coordinate_flow_def OBServerManager_def OBServerManager_InitStatus_def)
  have "Status (res w') = [] \<and> Status (res w3) = serverstatus_New"
    by (rule observer_failed_expand_recreates [OF _ _ _ _ _ _ _ _ 1 refl 2, where a = 0])
      (simp_all add: failed_expand_world_def small_server_def default_cfg_def)
  with 1 2 show ?thesis by blast
qed

end
