(* ===== verification/OBServer_Tasks.thy ===== *)
theory OBServer_Tasks
  imports OBServer OBZone_Tasks SDK "HOL-Library.Signed_Division"
begin

text \<open>
  The tasks of a server, \<^verbatim>\<open>internal/resource/observer/observer_task.go\<close>, with the construction of
  its pod, claims and service in \<^verbatim>\<open>utils.go\<close>. Tasks are programs over the log of their calls to the
  database and to the API server. Owner references are kept for claims, where the code decides
  about them; the identifier of the resource is a parameter.
\<close>

section \<open>Interactions\<close>

record Service =
  Service_Name :: string
  Service_Labels :: dict
  Service_Selector :: dict
  Service_Ports :: "ContainerPort list"

datatype server_api =
    GotServerPod "Pod result"
  | GotServer "OBServer result"
  | GotCluster "OBCluster result"
  | GotZone "OBZone result"
  | GotService "string result"
  | ListedClaims "PersistentVolumeClaim list result"
  | CreatedPod Pod "unit result"
  | CreatedClaim PersistentVolumeClaim "unit result"
  | CreatedService Service "unit result"
  | UpdatedPod Pod "unit result"
  | UpdatedClaim PersistentVolumeClaim "unit result"
  | DeletedServerPod "unit result"
  | DeletedService "unit result"
  | DeletedClaims "unit result"
  | GotNamespace "unit result"
  | CreatedNamespace "unit result"

type_synonym server_log = "server_api event list"
type_synonym 'a server_io = "(server_api event, 'a) io"

text \<open>
  What a task meets: the database and the API server, the configuration, \<^verbatim>\<open>AsInt64\<close> and \<^verbatim>\<open>Value\<close> of
  quantities. A service answers with its cluster address.
\<close>

record server_task_env = "server_api sdk_env" +
  st_uid :: string
  st_pod :: "server_log \<Rightarrow> Pod result"
  st_server :: "server_log \<Rightarrow> OBServer result"
  st_cluster :: "server_log \<Rightarrow> OBCluster result"
  st_zone :: "server_log \<Rightarrow> OBZone result"
  st_service :: "server_log \<Rightarrow> string result"
  st_claims :: "server_log \<Rightarrow> PersistentVolumeClaim list result"
  st_namespace :: "server_log \<Rightarrow> unit result"
  st_write :: "server_log \<Rightarrow> (unit result \<Rightarrow> server_api) \<Rightarrow> unit result"
  st_connect :: "server_log \<Rightarrow> OBCluster \<Rightarrow> unit result"
  st_BootstrapTimeoutSeconds :: nat
  st_DefaultStateWaitTimeout :: nat
  st_ServerDeleteTimeoutSeconds :: nat
  st_ProbeCheckPeriodSeconds :: int
  st_ProbeCheckDelaySeconds :: int
  st_InitialDataDiskUsePercent :: int
  st_DefaultDiskUsePercent :: int
  st_AsInt64 :: "Quantity \<Rightarrow> int option"
  st_Value :: "Quantity \<Rightarrow> int"

definition st_read :: "(server_log \<Rightarrow> 'a result) \<Rightarrow> ('a result \<Rightarrow> server_api) \<Rightarrow> 'a server_io" where
  "st_read answer call = perform answer (\<lambda>r. ApiCall (call r))"

definition st_call :: "server_task_env \<Rightarrow> (unit result \<Rightarrow> server_api) \<Rightarrow> unit server_io" where
  "st_call env call = perform (\<lambda>h. st_write env h call) (\<lambda>r. ApiCall (call r))"

text \<open>A loop of \<open>n\<close> rounds that waits for its body to hold.\<close>

primrec await :: "string \<Rightarrow> nat \<Rightarrow> bool server_io \<Rightarrow> unit server_io" where
  "await timeout 0 body = raise (OtherError timeout)"
| "await timeout (Suc n) body = bind_io body (\<lambda>done. if done then ret () else await timeout n body)"

section \<open>Reading\<close>

definition st_getOBServer :: "server_task_env \<Rightarrow> OBServer server_io" where
  "st_getOBServer env = wrap_io ''get observer'' (st_read (st_server env) GotServer)"

definition getOBZone :: "server_task_env \<Rightarrow> OBZone server_io" where
  "getOBZone env = wrap_io ''get obzone'' (st_read (st_zone env) GotZone)"

definition st_getOBCluster :: "server_task_env \<Rightarrow> OBCluster server_io" where
  "st_getOBCluster env = wrap_io ''get obcluster'' (st_read (st_cluster env) GotCluster)"

definition getSvc :: "server_task_env \<Rightarrow> string server_io" where
  "getSvc env = wrap_io ''get svc'' (st_read (st_service env) GotService)"

definition st_getPVCs :: "server_task_env \<Rightarrow> PersistentVolumeClaim list server_io" where
  "st_getPVCs env = wrap_io ''list pvc'' (st_read (st_claims env) ListedClaims)"

primrec pod_attempts :: "server_task_env \<Rightarrow> nat \<Rightarrow> error \<Rightarrow> Pod server_io" where
  "pod_attempts env 0 lastErr = raise (wrap ''get pod'' lastErr)"
| "pod_attempts env (Suc n) lastErr =
     bind_io (catch_io (st_read (st_pod env) GotServerPod)) (\<lambda>r.
       case r of
         Inr pod \<Rightarrow> ret pod
       | Inl err \<Rightarrow> if is_not_found err then pod_attempts env n err else raise (wrap ''get pod'' err))"

definition st_getPod :: "server_task_env \<Rightarrow> Pod server_io" where
  "st_getPod env = pod_attempts env 3 NotFound"

definition podOf :: "server_task_env \<Rightarrow> OBServer \<Rightarrow> Pod server_io" where
  "podOf env m = wrap_io (''Failed to get pod of observer '' @ Name m) (st_getPod env)"

definition st_getOceanbaseOperationManager :: "server_task_env \<Rightarrow> unit server_io" where
  "st_getOceanbaseOperationManager env =
     bind_io (wrap_io ''Get obcluster from K8s'' (st_getOBCluster env)) (\<lambda>obcluster.
       perform (\<lambda>h. st_connect env h obcluster) SysConnected)"

abbreviation SqlPort :: int where
  "SqlPort \<equiv> 2881"

abbreviation RpcPort :: int where
  "RpcPort \<equiv> 2882"

definition standalone :: "OBServer \<Rightarrow> bool" where
  "standalone m \<longleftrightarrow> GetAnnotationField m AnnotationsMode = (''standalone'', True)"

definition service_mode :: "OBServer \<Rightarrow> bool" where
  "service_mode m \<longleftrightarrow> GetAnnotationField m AnnotationsMode = (''service'', True)"

definition local_addr :: "OBServer \<Rightarrow> string" where
  "local_addr m = (if standalone m then ''127.0.0.1'' else OBServerStatus_GetConnectAddr m)"

definition getCurrentOBServerFromOB :: "server_task_env \<Rightarrow> OBServer \<Rightarrow> row option server_io" where
  "getCurrentOBServerFromOB env m =
     (if ServerStatus_PodIp m = [] then raise (OtherError ''pod ip is empty'')
      else bind_io (wrap_io ''Get oceanbase operation manager failed'' (st_getOceanbaseOperationManager env)) (\<lambda>_.
        db_GetServer env (local_addr m) RpcPort))"

section \<open>Construction of the pod\<close>

text \<open>\<^verbatim>\<open>Replace\<close> of a \<^verbatim>\<open>strings.Replacer\<close>: at each position the first pair that fits is used.\<close>

function Replace :: "(string \<times> string) list \<Rightarrow> string \<Rightarrow> string" where
  "Replace pairs [] = []"
| "Replace pairs (c # cs) =
     (case find (\<lambda>(old, new). old \<noteq> [] \<and> prefix old (c # cs)) pairs of
        Some (old, new) \<Rightarrow> new @ Replace pairs (drop (length old) (c # cs))
      | None \<Rightarrow> c # Replace pairs cs)"
  by pat_completeness auto
termination
  by (relation "measure (\<lambda>(_, s). length s)") (auto simp: find_Some_iff diff_less)

definition getVarsReplacer :: "OBServer \<Rightarrow> OBCluster \<Rightarrow> (string \<times> string) list" where
  "getVarsReplacer m obcluster =
     [(''${observer-name}'', Name m), (''${obzone-name}'', dict_get (Labels m) ''ref-obzone''),
      (''${obcluster-name}'', dict_get (Labels m) ''ref-obcluster''),
      (''${obcluster-cluster-name}'', ClusterSpec_ClusterName obcluster),
      (''${obcluster-cluster-id}'', show_int (ClusterSpec_ClusterId obcluster))]"

definition single_pvc :: "OBServer \<Rightarrow> bool" where
  "single_pvc m \<longleftrightarrow> GetAnnotationField m AnnotationsSinglePVC = (''true'', True)"

text \<open>The limits of a container; a processor quota of zero is left out.\<close>

definition resource_list :: "ResourceSpec \<Rightarrow> ResourceList" where
  "resource_list r = (if Cpu r = 0 then [''memory'' \<mapsto> Memory r] else [''memory'' \<mapsto> Memory r, ''cpu'' \<mapsto> Cpu r])"

definition volume_mounts :: "OBServer \<Rightarrow> VolumeMount list" where
  "volume_mounts m =
     (let mount = (\<lambda>path suf.
            if single_pvc m then \<lparr>Mount_Name = Name m, Mount_Path = path, Mount_SubPath = suf\<rparr>
            else \<lparr>Mount_Name = Name m @ ''-'' @ suf, Mount_Path = path, Mount_SubPath = []\<rparr>)
      in [mount ''/home/admin/data-file'' ''data-file'', mount ''/home/admin/data-log'' ''data-log'', mount ''/home/admin/log'' ''log''] @
         (case ServerSpec_BackupVolume m of
            None \<Rightarrow> []
          | Some v \<Rightarrow> [\<lparr>Mount_Name = Volume_Name (Volume v), Mount_Path = ''/ob-backup'', Mount_SubPath = []\<rparr>]))"

definition ReservedParameters :: "string list" where
  "ReservedParameters = [''cpu_count'', ''datafile_size'', ''log_disk_size'', ''enable_syslog_recycle'', ''max_syslog_file_count'']"

definition startupParameters :: "OBCluster \<Rightarrow> string list" where
  "startupParameters obcluster =
     map (\<lambda>p. Param_Name p @ [CHR ''='', CHR 0x27] @ Param_Value p @ [CHR 0x27])
       (filter (\<lambda>p. Param_Name p \<notin> set ReservedParameters) (ClusterSpec_Parameters obcluster))"

text \<open>A share of a disk in gigabytes; a size that is not a 64-bit integer counts as zero.\<close>

definition disk_share :: "server_task_env \<Rightarrow> Quantity \<Rightarrow> int \<Rightarrow> string" where
  "disk_share env q percent =
     (let n = (case st_AsInt64 env q of None \<Rightarrow> 0 | Some n \<Rightarrow> n)
      in show_int (int64 (n * percent) sdiv GigaConverter sdiv 100) @ ''G'')"

text \<open>
  The address of the server's service as an environment variable; without the service there is none.
\<close>

definition service_env :: "server_task_env \<Rightarrow> string \<Rightarrow> (string \<times> EnvValue) list server_io" where
  "service_env env name =
     bind_io (catch_io (getSvc env)) (\<lambda>r. ret (case r of Inl _ \<Rightarrow> [] | Inr ip \<Rightarrow> [(name, PlainValue ip)]))"

definition mode_env :: "server_task_env \<Rightarrow> OBServer \<Rightarrow> (string \<times> EnvValue) list server_io" where
  "mode_env env m =
     (if standalone m then ret [(''STANDALONE'', PlainValue ''standalone'')]
      else if service_mode m then service_env env ''SVC_IP'' else ret [])"

definition createOBServerContainer :: "server_task_env \<Rightarrow> OBServer \<Rightarrow> OBCluster \<Rightarrow> Container server_io" where
  "createOBServerContainer env m obcluster =
     (let template = ServerSpec_OBServerTemplate m; extra = startupParameters obcluster;
          cpuCount = max 16 (st_Value env (Cpu (Template_Resource template)))
      in bind_io (mode_env env m) (\<lambda>mode. ret
        \<lparr>Container_Name = ''observer'', Container_Image = Image template,
         Container_Ports = [\<lparr>Port_Name = ''sql'', Port_Number = SqlPort\<rparr>, \<lparr>Port_Name = ''rpc'', Port_Number = RpcPort\<rparr>,
           \<lparr>Port_Name = ''info'', Port_Number = 8080\<rparr>],
         Container_Requests = resource_list (Template_Resource template), Container_Limits = resource_list (Template_Resource template),
         Container_Mounts = volume_mounts m,
         Container_Probe = \<lparr>Probe_Handler = TCPSocket SqlPort, Probe_PeriodSeconds = st_ProbeCheckPeriodSeconds env,
           Probe_InitialDelaySeconds = st_ProbeCheckDelaySeconds env, Probe_FailureThreshold = 32\<rparr>,
         Container_WorkingDir = ''/home/admin/oceanbase'',
         Container_Env = mode @
           (if extra \<noteq> [] then [(''EXTRA_OPTION'', PlainValue (Join extra '',''))] else []) @
           [(''LD_LIBRARY_PATH'', PlainValue ''/home/admin/oceanbase/lib''), (''CPU_COUNT'', PlainValue (show_int cpuCount)),
            (''DATAFILE_SIZE'', PlainValue (disk_share env (Size (DataStorage (Storage template))) (st_InitialDataDiskUsePercent env))),
            (''LOG_DISK_SIZE'', PlainValue (disk_share env (Size (RedoLogStorage (Storage template))) (st_DefaultDiskUsePercent env))),
            (''CLUSTER_NAME'', PlainValue (ServerSpec_ClusterName m)), (''CLUSTER_ID'', PlainValue (show_int (ServerSpec_ClusterId m))),
            (''ZONE_NAME'', PlainValue (ServerSpec_Zone m))],
         Container_Command = [''bash'', ''-c'', ''/home/admin/oceanbase/bin/oceanbase-helper start'']\<rparr>))"

definition monitor_mode_env :: "server_task_env \<Rightarrow> OBServer \<Rightarrow> (string \<times> EnvValue) list server_io" where
  "monitor_mode_env env m =
     (if standalone m then ret [(''HOST_IP'', PlainValue ''127.0.0.1'')]
      else if service_mode m then service_env env ''HOST_IP'' else ret [])"

definition createMonitorContainer ::
  "server_task_env \<Rightarrow> OBServer \<Rightarrow> MonitorTemplate \<Rightarrow> OBCluster \<Rightarrow> Container server_io" where
  "createMonitorContainer env m template obcluster =
     bind_io (monitor_mode_env env m) (\<lambda>mode. ret
       \<lparr>Container_Name = ''obagent'', Container_Image = Monitor_Image template,
        Container_Ports = [\<lparr>Port_Name = ''http'', Port_Number = 8088\<rparr>, \<lparr>Port_Name = ''pprof'', Port_Number = 8089\<rparr>],
        Container_Requests = Map.empty, Container_Limits = resource_list (Monitor_Resource template),
        Container_Mounts = [],
        Container_Probe = \<lparr>Probe_Handler = HTTPGet 8088 ''/metrics/stat'', Probe_PeriodSeconds = 2,
          Probe_InitialDelaySeconds = 5, Probe_FailureThreshold = 0\<rparr>,
        Container_WorkingDir = ''/home/admin/obagent'',
        Container_Env = mode @
          [(''OB_MONITOR_STATUS'', PlainValue ''active''), (''CLUSTER_NAME'', PlainValue (ServerSpec_ClusterName m)),
           (''CLUSTER_ID'', PlainValue (show_int (ServerSpec_ClusterId m))), (''ZONE_NAME'', PlainValue (ServerSpec_Zone m)),
           (''MONITOR_USER'', PlainValue ''monitor''),
           (''MONITOR_PASSWORD'', SecretKey (Secret_Monitor (ClusterSpec_UserSecrets obcluster)) ''password'')],
        Container_Command = []\<rparr>)"

definition pod_volumes :: "OBServer \<Rightarrow> PodVolume list" where
  "pod_volumes m =
     (let claimed = (\<lambda>name. \<lparr>Volume_Name = name, Volume_Source = PersistentVolumeClaimSource name\<rparr>)
      in (if single_pvc m then [claimed (Name m)]
          else map (\<lambda>suf. claimed (Name m @ ''-'' @ suf)) [''data-file'', ''data-log'', ''log'']) @
         (case ServerSpec_BackupVolume m of None \<Rightarrow> [] | Some v \<Rightarrow> [Volume v]))"

definition GetSchedulerName :: "PodFieldsSpec option \<Rightarrow> string" where
  "GetSchedulerName pf =
     (case Option.bind pf Field_SchedulerName of None \<Rightarrow> ''default-scheduler'' | Some n \<Rightarrow> n)"

text \<open>A setting that is given and not empty.\<close>

definition given :: "('f \<Rightarrow> string option) \<Rightarrow> 'f option \<Rightarrow> string option" where
  "given field pf = (case Option.bind pf field of Some v \<Rightarrow> (if v = [] then None else Some v) | None \<Rightarrow> None)"

definition given_or :: "string \<Rightarrow> string option \<Rightarrow> string" where
  "given_or dflt v = (case v of None \<Rightarrow> dflt | Some s \<Rightarrow> s)"

definition createOBPodSpec :: "server_task_env \<Rightarrow> OBServer \<Rightarrow> OBCluster \<Rightarrow> PodSpec server_io" where
  "createOBPodSpec env m obcluster =
     (let pf = PodFields (ServerSpec_OBServerTemplate m)
      in bind_io (createOBServerContainer env m obcluster) (\<lambda>observerContainer.
         bind_io (case ServerSpec_MonitorTemplate m of
             None \<Rightarrow> ret []
           | Some template \<Rightarrow> bind_io (createMonitorContainer env m template obcluster) (\<lambda>c. ret [c])) (\<lambda>monitor. ret
           \<lparr>Spec_Volumes = pod_volumes m, Spec_Containers = observerContainer # monitor,
            Spec_NodeSelector = ServerSpec_NodeSelector m, Spec_Affinity = ServerSpec_Affinity m,
            Spec_Tolerations = ServerSpec_Tolerations m,
            Spec_ServiceAccountName = given_or (ServerSpec_ServiceAccount m) (given Field_ServiceAccountName pf),
            Spec_SchedulerName = GetSchedulerName pf,
            Spec_PriorityClassName = given_or [] (given Field_PriorityClassName pf),
            Spec_RuntimeClassName = given Field_RuntimeClassName pf,
            Spec_PreemptionPolicy = given Field_PreemptionPolicy pf,
            Spec_Priority = Option.bind pf Field_Priority,
            Spec_SecurityContext = Option.bind pf Field_SecurityContext,
            Spec_DNSPolicy = given_or [] (given Field_DNSPolicy pf),
            Spec_Hostname = [], Spec_Subdomain = []\<rparr>)))"

definition generateStaticIpAnnotation :: "OBServer \<Rightarrow> dict" where
  "generateStaticIpAnnotation m =
     (if ServerStatus_CNI m = ''calico'' \<and> ServerStatus_PodIp m \<noteq> []
      then [''cni.projectcalico.org/ipAddrs'' \<mapsto> [CHR ''['', CHR 0x22] @ ServerStatus_PodIp m @ [CHR 0x22, CHR '']'']]
      else if ServerStatus_CNI m = ''kube-ovn'' \<and> ServerStatus_PodIp m \<noteq> []
      then [''ovn.kubernetes.io/ip_address'' \<mapsto> ServerStatus_PodIp m]
      else Map.empty)"

text \<open>The labels and annotations of the template, with variables replaced, where there are none of that name.\<close>

definition fill_in :: "(string \<times> string) list \<Rightarrow> dict \<Rightarrow> dict \<Rightarrow> dict" where
  "fill_in vars extra d = (\<lambda>k. case d k of None \<Rightarrow> map_option (Replace vars) (extra k) | Some v \<Rightarrow> Some v)"

section \<open>Pod, claims and service\<close>

definition observer_pod :: "server_task_env \<Rightarrow> OBServer \<Rightarrow> OBCluster \<Rightarrow> PodSpec \<Rightarrow> Pod" where
  "observer_pod env m obcluster spec =
     (let pf = PodFields (ServerSpec_OBServerTemplate m); vars = getVarsReplacer m obcluster;
          labels = (Labels m)(''ref-uid'' \<mapsto> st_uid env, ''oceanbase.oceanbase.com/observer-uid'' \<mapsto> st_uid env,
            ''ref-observer'' \<mapsto> Name m);
          annotations = generateStaticIpAnnotation m
      in \<lparr>Pod_Labels = (case pf of None \<Rightarrow> labels | Some f \<Rightarrow> fill_in vars (Field_Labels f) labels),
          Pod_Annotations = (case pf of None \<Rightarrow> annotations | Some f \<Rightarrow> fill_in vars (Field_Annotations f) annotations),
          Pod_Spec = spec\<lparr>Spec_Hostname := Replace vars (given_or [] (given Field_HostName pf)),
            Spec_Subdomain := Replace vars (given_or [] (given Field_Subdomain pf))\<rparr>,
          Pod_NodeName = [], Pod_Phase = [], Pod_PodIP = [], Pod_HostIP = [], Pod_ContainerStatuses = []\<rparr>)"

definition CreateOBServerPod :: "server_task_env \<Rightarrow> OBServer \<Rightarrow> unit server_io" where
  "CreateOBServerPod env m =
     bind_io (wrap_io ''Get obcluster from K8s'' (st_getOBCluster env)) (\<lambda>obcluster.
     bind_io (createOBPodSpec env m obcluster) (\<lambda>spec.
       wrap_io ''failed to create pod'' (st_call env (CreatedPod (observer_pod env m obcluster spec)))))"

definition generatePVC :: "server_task_env \<Rightarrow> OBServer \<Rightarrow> string \<Rightarrow> StorageSpec \<Rightarrow> PersistentVolumeClaim" where
  "generatePVC env m name storage =
     \<lparr>PVC_Name = name, PVC_Request = Size storage, PVC_StorageClass = StorageClass storage,
      PVC_Labels = (Labels m)(''ref-uid'' \<mapsto> st_uid env, ''ref-observer'' \<mapsto> Name m),
      PVC_Owners = (if GetAnnotationField m AnnotationsIndependentPVCLifecycle = (''true'', True) then [] else [Name m])\<rparr>"

definition total_size :: "OceanbaseStorageSpec \<Rightarrow> Quantity" where
  "total_size st = Size (DataStorage st) + Size (RedoLogStorage st) + Size (LogStorage st)"

definition CreateOBServerPVC :: "server_task_env \<Rightarrow> OBServer \<Rightarrow> unit server_io" where
  "CreateOBServerPVC env m =
     (let st = Storage (ServerSpec_OBServerTemplate m)
      in if single_pvc m
         then wrap_io ''Create single pvc of observer''
           (st_call env (CreatedClaim (generatePVC env m (Name m) \<lparr>StorageClass = StorageClass (DataStorage st), Size = total_size st\<rparr>)))
         else bind_io (wrap_io ''Create pvc of data file''
                (st_call env (CreatedClaim (generatePVC env m (Name m @ ''-data-file'') (DataStorage st))))) (\<lambda>_.
              bind_io (wrap_io ''Create pvc of data log''
                (st_call env (CreatedClaim (generatePVC env m (Name m @ ''-data-log'') (RedoLogStorage st))))) (\<lambda>_.
              wrap_io ''Create pvc of log'' (st_call env (CreatedClaim (generatePVC env m (Name m @ ''-log'') (LogStorage st)))))))"

text \<open>The size a claim of the server should have; other claims are left alone.\<close>

definition wanted_size :: "OBServer \<Rightarrow> string \<Rightarrow> Quantity option" where
  "wanted_size m name =
     (let st = Storage (ServerSpec_OBServerTemplate m)
      in if name = Name m @ ''-data-file'' then Some (Size (DataStorage st))
         else if name = Name m @ ''-data-log'' then Some (Size (RedoLogStorage st))
         else if name = Name m @ ''-log'' then Some (Size (LogStorage st))
         else if name = Name m then Some (total_size st)
         else None)"

definition ExpandPVC :: "server_task_env \<Rightarrow> OBServer \<Rightarrow> unit server_io" where
  "ExpandPVC env m =
     bind_io (wrap_io (''Failed to get pvc list of observer '' @ Name m) (st_getPVCs env))
       (each_io (\<lambda>pvc. case wanted_size m (PVC_Name pvc) of
            None \<Rightarrow> ret ()
          | Some q \<Rightarrow> wrap_io (''Failed to update pvc of observer '' @ Name m) (st_call env (UpdatedClaim (pvc\<lparr>PVC_Request := q\<rparr>)))))"

definition WaitForPvcResized :: "server_task_env \<Rightarrow> OBServer \<Rightarrow> unit server_io" where
  "WaitForPvcResized env m =
     await ''Timeout to wait for pvc expanded'' (st_DefaultStateWaitTimeout env)
       (bind_io (wrap_io (''Failed to get pvc of observer '' @ Name m) (st_getPVCs env)) (\<lambda>pvcs.
          ret (list_all (\<lambda>pvc. case wanted_size m (PVC_Name pvc) of None \<Rightarrow> True | Some q \<Rightarrow> Cmp q (PVC_Request pvc) = 0) pvcs)))"

definition CreateOBServerSvc :: "server_task_env \<Rightarrow> OBServer \<Rightarrow> unit server_io" where
  "CreateOBServerSvc env m =
     (if service_mode m then
        wrap_io ''Failed to create observer service'' (st_call env (CreatedService
          \<lparr>Service_Name = Name m, Service_Labels = (Labels m)(''ref-uid'' \<mapsto> st_uid env, ''ref-observer'' \<mapsto> Name m),
           Service_Selector = [''oceanbase.oceanbase.com/observer-uid'' \<mapsto> st_uid env],
           Service_Ports = [\<lparr>Port_Name = ''sql'', Port_Number = SqlPort\<rparr>, \<lparr>Port_Name = ''rpc'', Port_Number = RpcPort\<rparr>]\<rparr>))
      else ret ())"

section \<open>The server in the database\<close>

definition AddServer :: "server_task_env \<Rightarrow> OBServer \<Rightarrow> unit server_io" where
  "AddServer env m =
     (if standalone m then ret ()
      else bind_io (wrap_io ''Get oceanbase operation manager'' (st_getOceanbaseOperationManager env)) (\<lambda>_.
        bind_io (wrap_io ''Failed to get observer'' (db_GetServer env (OBServerStatus_GetConnectAddr m) RpcPort)) (\<lambda>obs.
          if obs \<noteq> None then ret () else db_AddServer env (OBServerStatus_GetConnectAddr m) RpcPort)))"

definition DeleteOBServerInCluster :: "server_task_env \<Rightarrow> OBServer \<Rightarrow> unit server_io" where
  "DeleteOBServerInCluster env m =
     (let ip = OBServerStatus_GetConnectAddr m
      in bind_io (wrap_io ''Get oceanbase operation manager failed'' (st_getOceanbaseOperationManager env)) (\<lambda>_.
         bind_io (db_GetServer env ip RpcPort) (\<lambda>observer.
           case observer of
             Some r \<Rightarrow> if col_str r ''status'' \<noteq> ''deleting''
               then wrap_io (''Failed to delete observer '' @ ip) (db_DeleteServer env ip RpcPort) else ret ()
           | None \<Rightarrow> ret ())))"

definition WaitOBServerActiveInCluster :: "server_task_env \<Rightarrow> OBServer \<Rightarrow> unit server_io" where
  "WaitOBServerActiveInCluster env m =
     await (''Wait observer '' @ local_addr m @ '' active timeout'') (st_DefaultStateWaitTimeout env)
       (bind_io (catch_io (st_getOceanbaseOperationManager env)) (\<lambda>conn.
          case conn of
            Inl _ \<Rightarrow> ret False
          | Inr _ \<Rightarrow> bind_io (catch_io (db_GetServer env (local_addr m) RpcPort)) (\<lambda>observer.
              ret (case observer of
                     Inr (Some r) \<Rightarrow> 0 < col_int r ''start_service_time'' \<and> col_str r ''status'' = ''active''
                   | _ \<Rightarrow> False))))"

definition WaitOBServerDeletedInCluster :: "server_task_env \<Rightarrow> OBServer \<Rightarrow> unit server_io" where
  "WaitOBServerDeletedInCluster env m =
     await (''Wait observer '' @ OBServerStatus_GetConnectAddr m @ '' deleted timeout'') (st_ServerDeleteTimeoutSeconds env)
       (bind_io (wrap_io ''Get oceanbase operation manager failed'' (st_getOceanbaseOperationManager env)) (\<lambda>_.
        bind_io (catch_io (db_GetServer env (OBServerStatus_GetConnectAddr m) RpcPort)) (\<lambda>observer.
          ret (observer = Inr None))))"

section \<open>Other tasks\<close>

definition WaitOBServerReady :: "server_task_env \<Rightarrow> OBServer \<Rightarrow> unit server_io" where
  "WaitOBServerReady env m =
     await ''Timeout to wait observer ready'' 1800
       (bind_io (podOf env m) (\<lambda>_.
        bind_io (wrap_io ''Get observer from K8s'' (st_getOBServer env)) (\<lambda>observer.
          ret (ServerStatus_Ready observer))))"

definition WaitOBClusterBootstrapped :: "server_task_env \<Rightarrow> OBServer \<Rightarrow> unit server_io" where
  "WaitOBClusterBootstrapped env m =
     await ''Timeout to wait obcluster bootstrapped'' (st_BootstrapTimeoutSeconds env)
       (bind_io (wrap_io ''Get obcluster from K8s'' (st_getOBCluster env)) (\<lambda>obcluster.
          ret (Status obcluster = clusterstatus_Bootstrapped)))"

definition AnnotateOBServerPod :: "server_task_env \<Rightarrow> OBServer \<Rightarrow> unit server_io" where
  "AnnotateOBServerPod env m =
     bind_io (podOf env m) (\<lambda>pod.
       let pod' = (if ServerStatus_CNI m = ''calico''
             then pod\<lparr>Pod_Annotations := (Pod_Annotations pod)(''cni.projectcalico.org/ipAddrs'' \<mapsto>
               [CHR ''['', CHR 0x22] @ ServerStatus_PodIp m @ [CHR 0x22, CHR '']''])\<rparr>
             else if ServerStatus_CNI m = ''kube-ovn''
             then pod\<lparr>Pod_Annotations := (Pod_Annotations pod)(''ovn.kubernetes.io/ip_address'' \<mapsto> ServerStatus_PodIp m)\<rparr>
             else pod)
       in wrap_io (''Failed to update pod annotation of observer '' @ Name m) (st_call env (UpdatedPod pod')))"

primrec set_observer_image :: "string \<Rightarrow> Container list \<Rightarrow> Container list" where
  "set_observer_image img [] = []"
| "set_observer_image img (c # cs) =
     (if Container_Name c = ''observer'' then c\<lparr>Container_Image := img\<rparr> # cs else c # set_observer_image img cs)"

definition UpgradeOBServerImage :: "server_task_env \<Rightarrow> OBServer \<Rightarrow> unit server_io" where
  "UpgradeOBServerImage env m =
     bind_io (podOf env m) (\<lambda>pod.
       let spec = Pod_Spec pod;
           pod' = pod\<lparr>Pod_Spec := spec\<lparr>Spec_Containers :=
             set_observer_image (Image (ServerSpec_OBServerTemplate m)) (Spec_Containers spec)\<rparr>\<rparr>
       in wrap_io (''Failed to update pod of observer '' @ Name m) (st_call env (UpdatedPod pod')))"

definition WaitOBServerPodReady :: "server_task_env \<Rightarrow> OBServer \<Rightarrow> unit server_io" where
  "WaitOBServerPodReady env m =
     await (''observer '' @ Name m @ '' pod still not restart when timeout'') (st_DefaultStateWaitTimeout env)
       (bind_io (podOf env m) (\<lambda>pod.
          ret (list_ex (\<lambda>c. CStatus_Name c = ''observer'' \<and> CStatus_Ready c \<and>
            CStatus_Image c = Image (ServerSpec_OBServerTemplate m)) (Pod_ContainerStatuses pod))))"

definition DeletePod :: "server_task_env \<Rightarrow> OBServer \<Rightarrow> unit server_io" where
  "DeletePod env m =
     bind_io (catch_io (st_getPod env)) (\<lambda>r.
       case r of
         Inl err \<Rightarrow> if is_not_found err then ret () else raise (wrap (''Failed to get pod of observer '' @ Name m) err)
       | Inr pod \<Rightarrow> wrap_io (''Failed to delete pod of observer '' @ Name m) (st_call env DeletedServerPod))"

definition WaitForPodDeleted :: "server_task_env \<Rightarrow> OBServer \<Rightarrow> unit server_io" where
  "WaitForPodDeleted env m =
     await ''Timeout to wait for pod being deleted'' (st_DefaultStateWaitTimeout env)
       (bind_io (catch_io (st_read (st_pod env) GotServerPod)) (\<lambda>r.
          ret (case r of Inl err \<Rightarrow> is_not_found err | Inr _ \<Rightarrow> False)))"

definition CheckAndCreateNs :: "server_task_env \<Rightarrow> OBServer \<Rightarrow> unit server_io" where
  "CheckAndCreateNs env m =
     (let msg = (\<lambda>what. ''Failed to '' @ what @ '' namespace '' @ Namespace m @ '' with credential of k8s cluster '' @ ServerSpec_K8sCluster m)
      in if OBServer_InMasterK8s m then ret ()
         else bind_io (catch_io (st_read (st_namespace env) GotNamespace)) (\<lambda>r.
           case r of
             Inr _ \<Rightarrow> ret ()
           | Inl err \<Rightarrow> if is_not_found err then wrap_io (msg ''create'') (st_call env CreatedNamespace)
               else raise (wrap (msg ''get'') err)))"

text \<open>Each step of the clean-up goes on after an error; the errors are joined and only logged by the caller.\<close>

definition cleanWorkerK8sResource :: "server_task_env \<Rightarrow> OBServer \<Rightarrow> error list server_io" where
  "cleanWorkerK8sResource env m =
     (let attempt = (\<lambda>f msg. bind_io (catch_io f) (\<lambda>r. ret (case r of Inl err \<Rightarrow> [wrap msg err] | Inr _ \<Rightarrow> [])));
          remove = (\<lambda>got getMsg call delMsg. case got of
              Inl err \<Rightarrow> ret (if is_not_found err then [] else [wrap getMsg err])
            | Inr _ \<Rightarrow> attempt (st_call env call) delMsg)
      in bind_io (catch_io (getSvc env)) (\<lambda>svc.
         bind_io (remove (map_sum id (\<lambda>_. ()) svc) ''Failed to get svc'' DeletedService ''Failed to delete svc'') (\<lambda>errs.
         bind_io (catch_io (st_getPod env)) (\<lambda>pod.
         bind_io (remove (map_sum id (\<lambda>_. ()) pod) ''Failed to get pod'' DeletedServerPod ''Failed to delete pod'') (\<lambda>errs'.
           if GetAnnotationField m AnnotationsIndependentPVCLifecycle = (''true'', True) then ret (errs @ errs')
           else bind_io (attempt (st_call env DeletedClaims) ''Failed to delete pvc'') (\<lambda>errs''. ret (errs @ errs' @ errs'')))))))"

definition CleanOwnedResources :: "server_task_env \<Rightarrow> OBServer \<Rightarrow> unit server_io" where
  "CleanOwnedResources env m =
     (if OBServer_InMasterK8s m then ret () else bind_io (cleanWorkerK8sResource env m) (\<lambda>_. ret ()))"

section \<open>Lemmas\<close>

text \<open>A loop that ended well: its last round held.\<close>

lemma await_Ok_log:
  "extends body \<Longrightarrow> await timeout n body h = (Ok x, h') \<Longrightarrow> \<exists>es. body (h @ es) = (Ok True, h')"
proof (induction n arbitrary: h)
  case (Suc n)
  from Suc.prems(2) obtain d h1 where d: "body h = (Ok d, h1)" "(if d then ret () else await timeout n body) h1 = (Ok x, h')"
    by (auto simp: bind_Ok_iff)
  obtain es where "h1 = h @ es" using extendsD [OF Suc.prems(1) d(1)] by blast
  with d Suc.IH [OF Suc.prems(1), of h1] show ?case
    by (cases d) (metis append_Nil2 ret_Ok_iff, metis append_assoc)
qed simp

lemma emits_none_await [io_silent]: "emits_none kind body \<Longrightarrow> emits_none kind (await timeout n body)"
proof (induction n)
  case (Suc n)
  then show ?case by (auto intro!: io_silent)
qed (simp add: io_silent)

lemma emits_none_read [io_silent]: "(\<And>r. kind (ApiCall (call r)) = None) \<Longrightarrow> emits_none kind (st_read answer call)"
  unfolding st_read_def by (rule io_silent)

lemma emits_none_call [io_silent]: "(\<And>r. kind (ApiCall (call r)) = None) \<Longrightarrow> emits_none kind (st_call env call)"
  unfolding st_call_def by (rule io_silent)

lemma emits_none_pod_attempts:
  "(\<And>r. kind (ApiCall (GotServerPod r)) = None) \<Longrightarrow> emits_none kind (pod_attempts env n lastErr)"
  by (induction n arbitrary: lastErr) (auto intro!: io_silent split: sum.split)

lemma st_call_Ok: "st_call env call h = (Ok x, h') \<longleftrightarrow> st_write env h call = Inr () \<and> h' = h @ [ApiCall (call (Inr ()))]"
  by (auto simp: st_call_def perform_Ok_iff)

text \<open>The pods a task has written, successfully.\<close>

fun written_pod :: "server_api event \<Rightarrow> Pod option" where
  "written_pod (ApiCall (CreatedPod pod (Inr _))) = Some pod"
| "written_pod (ApiCall (UpdatedPod pod (Inr _))) = Some pod"
| "written_pod _ = None"

lemma silent_podOf: "emits_none written_pod (podOf env m)" "emits_none written_pod (st_getOBCluster env)"
  by (auto simp: podOf_def st_getPod_def st_getOBCluster_def intro!: io_silent emits_none_pod_attempts)

lemma silent_pod_spec: "emits_none written_pod (createOBPodSpec env m obcluster)"
  unfolding createOBPodSpec_def createOBServerContainer_def createMonitorContainer_def mode_env_def monitor_mode_env_def
    service_env_def getSvc_def Let_def
  by (intro io_silent conjI; simp split: option.split)
    (auto intro!: io_silent)

text \<open>A task that reads the pod and writes it back, changed by \<open>f\<close>.\<close>

lemma rewrites_pod:
  assumes "bind_io (podOf env m) (\<lambda>pod. wrap_io msg (st_call env (UpdatedPod (f pod)))) h = (Ok (), h')"
  shows "\<exists>pod es. h' = h @ es \<and> List.map_filter written_pod es = [f pod]"
proof -
  from assms obtain pod h1 where pod: "podOf env m h = (Ok pod, h1)" and "h' = h1 @ [ApiCall (UpdatedPod (f pod) (Inr ()))]"
    by (auto simp: bind_Ok_iff st_call_Ok)
  moreover obtain es where "h1 = h @ es" "List.map_filter written_pod es = []" using emits_noneD [OF silent_podOf(1) pod] by blast
  ultimately show ?thesis
    by (intro exI [of _ pod] exI [of _ "es @ [ApiCall (UpdatedPod (f pod) (Inr ()))]"]) (simp add: List.map_filter_def)
qed

lemma pod_spec_Ok:
  assumes "createOBPodSpec env m obcluster h = (Ok spec, h')"
  shows "\<exists>c cs. Spec_Containers spec = c # cs \<and> Container_Name c = ''observer'' \<and> Container_Image c = Image (ServerSpec_OBServerTemplate m) \<and>
    Container_Limits c = resource_list (Template_Resource (ServerSpec_OBServerTemplate m)) \<and> Container_Mounts c = volume_mounts m \<and>
    map Container_Name cs = (if ServerSpec_MonitorTemplate m = None then [] else [''obagent''])"
  using assms unfolding createOBPodSpec_def createOBServerContainer_def createMonitorContainer_def Let_def
  by (auto simp: bind_Ok_iff split: option.splits)

lemma resource_list_limits:
  "Container_Limits c = resource_list r \<Longrightarrow> Limits_Cpu c = Cpu r \<and> Limits_Memory c = Memory r"
  by (auto simp: resource_list_def Limits_Cpu_def Limits_Memory_def)

lemma backup_mounted: "list_ex (\<lambda>mount. Mount_Path mount = ''/ob-backup'') (volume_mounts m) \<longleftrightarrow> ServerSpec_BackupVolume m \<noteq> None"
  by (auto simp: volume_mounts_def Let_def split: option.splits)

text \<open>A pod as Kubernetes shows it once it has stored \<open>p\<close>: controllers may add annotations.\<close>

definition shown_as :: "Pod \<Rightarrow> Pod \<Rightarrow> bool" where
  "shown_as p pod \<longleftrightarrow> Pod_Spec pod = Pod_Spec p \<and> Pod_Annotations p \<subseteq>\<^sub>m Pod_Annotations pod"

text \<open>A claim is smaller than specified; a pod under Calico without a pinned address.\<close>

definition claims_too_small :: "server_env \<Rightarrow> OBServer \<Rightarrow> bool" where
  "claims_too_small senv m \<longleftrightarrow> (\<exists>pvcs. sapi_pvcs senv = Inr pvcs \<and> list_ex (pvc_too_small m) pvcs)"

definition unpinned :: "Pod \<Rightarrow> bool" where
  "unpinned pod \<longleftrightarrow> GetCNIFromAnnotation pod = ''calico'' \<and> Pod_Annotations pod ''cni.projectcalico.org/ipAddrs'' = None"

lemma record_pod_frame [simp]:
  "ServerSpec_OBServerTemplate (record_pod senv pod m) = ServerSpec_OBServerTemplate m"
  "ServerSpec_BackupVolume (record_pod senv pod m) = ServerSpec_BackupVolume m"
  "ServerSpec_MonitorTemplate (record_pod senv pod m) = ServerSpec_MonitorTemplate m"
  "Status (record_pod senv pod m) = Status m" "Name (record_pod senv pod m) = Name m"
  "ServerStatus_CNI (record_pod senv pod m) = GetCNIFromAnnotation pod"
  by (simp_all add: record_pod_def Let_def split: sum.split)

lemma checks_of_spec:
  "OBServerManager_checkIfStorageExpand (record_pod senv pod m) pvcs = OBServerManager_checkIfStorageExpand m pvcs"
  "OBServerManager_checkIfResourceChanged (record_pod senv pod m) pod' = OBServerManager_checkIfResourceChanged m pod'"
  "OBServerManager_checkIfBackupVolumeMutated (record_pod senv pod m) pod' = OBServerManager_checkIfBackupVolumeMutated m pod'"
  "OBServerManager_checkIfMonitorMutated (record_pod senv pod m) pod' = OBServerManager_checkIfMonitorMutated m pod'"
proof -
  have "pvc_too_small (record_pod senv pod m) = pvc_too_small m" by (simp add: pvc_too_small_def fun_eq_iff)
  then show "OBServerManager_checkIfStorageExpand (record_pod senv pod m) pvcs = OBServerManager_checkIfStorageExpand m pvcs"
    by (simp add: OBServerManager_checkIfStorageExpand_def)
qed (simp_all add: OBServerManager_checkIfResourceChanged_def OBServerManager_checkIfBackupVolumeMutated_def
    OBServerManager_checkIfMonitorMutated_def)

text \<open>A running server whose pod passes the checks of the template and the image.\<close>

lemma needs_pinning: "NeedAnnotation pod (GetCNIFromAnnotation pod) \<longleftrightarrow> unpinned pod"
proof (cases "GetCNIFromAnnotation pod = ''calico''")
  case True
  then show ?thesis unfolding NeedAnnotation_def unpinned_def by presburger
next
  case False
  then have "GetCNIFromAnnotation pod = ''kube-ovn'' \<longrightarrow> Pod_Annotations pod ''ovn.kubernetes.io/ip_address'' \<noteq> None"
    by (simp only: GetCNIFromAnnotation_def split: if_splits) simp_all
  with False show ?thesis unfolding NeedAnnotation_def unpinned_def by presburger
qed

lemma check_storage_small:
  assumes "Status m = serverstatus_Running"
  shows "check_storage senv (record_pod senv pod m) =
    (if claims_too_small senv m then (record_pod senv pod m)\<lparr>Status := serverstatus_ExpandPVC\<rparr> else record_pod senv pod m)"
proof -
  have "pvc_too_small (record_pod senv pod m) = pvc_too_small m" by (simp add: pvc_too_small_def fun_eq_iff)
  with assms show ?thesis
    by (auto simp: check_storage_def claims_too_small_def OBServerManager_checkIfStorageExpand_def
        OBServerManager_getPVCs_def wrap_result_def split: sum.split)
qed

lemma update_status_settled:
  assumes "Status m = serverstatus_Running" "DeletionTimestamp m = None" "OBServerManager_getPod senv = Inr pod"
    and "\<not> OBServerManager_checkIfResourceChanged m pod" "\<not> OBServerManager_checkIfBackupVolumeMutated m pod"
    "\<not> OBServerManager_checkIfMonitorMutated m pod"
    and "find (\<lambda>c. Container_Name c = ''observer'') (Pod_Containers pod) = Some c" "Container_Image c = Image (ServerSpec_OBServerTemplate m)"
  shows "\<exists>m' err. OBServerManager_UpdateStatus senv m = Some (m', err) \<and>
    Status m' = (if claims_too_small senv m then serverstatus_ExpandPVC else if unpinned pod then serverstatus_Annotate
      else serverstatus_Running)"
proof -
  let ?r = "record_pod senv pod m"
  note storage = check_storage_small [OF assms(1), of senv pod]
  have templ: "check_pod_template (Some pod) ?r = Some ?r"
    using assms(4-6) by (simp add: check_pod_template_def checks_of_spec)
  have annotation: "check_annotation_upgrade (Some pod) ?r = Some (if unpinned pod then ?r\<lparr>Status := serverstatus_Annotate\<rparr>
      else ?r\<lparr>ServerStatus_Image := Container_Image c\<rparr>)"
    using assms(1,7,8) by (simp add: check_annotation_upgrade_def needs_pinning)
  show ?thesis
  proof (cases "claims_too_small senv m")
    case True
    then show ?thesis
      using assms(2,3) by (simp add: OBServerManager_UpdateStatus_def storage check_pod_template_def check_annotation_upgrade_def)
  next
    case False
    then show ?thesis
      using assms(1-3,8) by (simp add: OBServerManager_UpdateStatus_def storage templ annotation)
  qed
qed

lemma observer_pod_frame:
  "Pod_Containers (observer_pod env m obcluster spec) = Spec_Containers spec"
  "generateStaticIpAnnotation m \<subseteq>\<^sub>m Pod_Annotations (observer_pod env m obcluster spec)"
  by (auto simp: observer_pod_def Let_def fill_in_def map_le_def split: option.splits)

lemma created_pod:
  assumes "CreateOBServerPod env m h = (Ok (), h')"
  shows "\<exists>obcluster spec es h1 h2. createOBPodSpec env m obcluster h1 = (Ok spec, h2) \<and>
    h' = h @ es \<and> List.map_filter written_pod es = [observer_pod env m obcluster spec]"
proof -
  from assms obtain obcluster h1 spec h2 where runs: "st_getOBCluster env h = (Ok obcluster, h1)"
      "createOBPodSpec env m obcluster h1 = (Ok spec, h2)"
    and h': "h' = h2 @ [ApiCall (CreatedPod (observer_pod env m obcluster spec) (Inr ()))]"
    unfolding CreateOBServerPod_def bind_Ok_iff wrap_Ok_iff st_call_Ok by blast
  obtain es1 es2 where "h1 = h @ es1" "List.map_filter written_pod es1 = []" "h2 = h1 @ es2" "List.map_filter written_pod es2 = []"
    using emits_noneD [OF silent_podOf(2) runs(1)] emits_noneD [OF silent_pod_spec runs(2)] by blast
  with runs(2) h' show ?thesis
    by (intro exI [of _ obcluster] exI [of _ spec] exI [of _ "es1 @ es2 @ [ApiCall (CreatedPod (observer_pod env m obcluster spec) (Inr ()))]"]
        exI [of _ h1] exI [of _ h2]) (simp add: List.map_filter_def)
qed

lemma static_ip_annotated:
  assumes "generateStaticIpAnnotation m \<subseteq>\<^sub>m Pod_Annotations pod"
    and "ServerStatus_CNI m = ''calico''" "ServerStatus_PodIp m \<noteq> []"
  shows "\<not> unpinned pod"
proof -
  from assms have "Pod_Annotations pod ''cni.projectcalico.org/ipAddrs'' \<noteq> None"
    by (simp add: generateStaticIpAnnotation_def map_le_def) metis
  then show ?thesis by (simp add: unpinned_def)
qed

text \<open>The tasks that repair a pod in place write one that passes the check that has started them.\<close>

lemma annotated_pod_settles:
  assumes "AnnotateOBServerPod env m h = (Ok (), h')"
  shows "\<exists>p es. h' = h @ es \<and> List.map_filter written_pod es = [p] \<and> \<not> NeedAnnotation p (ServerStatus_CNI m)"
proof -
  from rewrites_pod [OF assms [unfolded AnnotateOBServerPod_def Let_def]] obtain pod es where "h' = h @ es"
    "List.map_filter written_pod es = [if ServerStatus_CNI m = ''calico''
       then pod\<lparr>Pod_Annotations := (Pod_Annotations pod)(''cni.projectcalico.org/ipAddrs'' \<mapsto>
         [CHR ''['', CHR 0x22] @ ServerStatus_PodIp m @ [CHR 0x22, CHR '']''])\<rparr>
       else if ServerStatus_CNI m = ''kube-ovn''
       then pod\<lparr>Pod_Annotations := (Pod_Annotations pod)(''ovn.kubernetes.io/ip_address'' \<mapsto> ServerStatus_PodIp m)\<rparr> else pod]"
    by blast
  then show ?thesis by (intro exI conjI) (assumption, assumption, simp add: NeedAnnotation_def)
qed

lemma find_observer_image:
  "find (\<lambda>c. Container_Name c = ''observer'') (set_observer_image img cs) =
    map_option (\<lambda>c. c\<lparr>Container_Image := img\<rparr>) (find (\<lambda>c. Container_Name c = ''observer'') cs)"
  by (induction cs) simp_all

lemma upgraded_pod_settles:
  assumes "UpgradeOBServerImage env m h = (Ok (), h')"
  shows "\<exists>p es. h' = h @ es \<and> List.map_filter written_pod es = [p] \<and>
    (\<forall>c. find (\<lambda>c. Container_Name c = ''observer'') (Pod_Containers p) = Some c \<longrightarrow> Container_Image c = Image (ServerSpec_OBServerTemplate m))"
proof -
  from rewrites_pod [OF assms [unfolded UpgradeOBServerImage_def Let_def]] obtain pod es where "h' = h @ es"
    "List.map_filter written_pod es = [pod\<lparr>Pod_Spec := Pod_Spec pod\<lparr>Spec_Containers :=
       set_observer_image (Image (ServerSpec_OBServerTemplate m)) (Pod_Containers pod)\<rparr>\<rparr>]" by blast
  then show ?thesis by (intro exI conjI) (assumption, assumption, auto simp: find_observer_image)
qed

section \<open>Properties\<close>

text \<open>
  C16. What the operator has built agrees with what it checks. When \<^verbatim>\<open>CreateOBServerPod\<close> succeeds, it
  has written exactly one pod. Once Kubernetes shows that pod, the next \<^verbatim>\<open>UpdateStatus\<close> finds the
  resources, the backup volume, the monitor and the image as specified, and asks for another flow in
  two cases only: it expands the claims if one of them is smaller than specified, and it annotates
  the pod if it runs under Calico without the annotation that pins its address, which happens
  for a first pod only, since the pod of a server known to run under Calico and to have an
  address is created with the annotation. Otherwise the running server stays running.
\<close>

theorem created_pod_settles:
  assumes "CreateOBServerPod env m h = (Ok (), h')" and "Status m = serverstatus_Running" "DeletionTimestamp m = None"
  shows "\<exists>p es. h' = h @ es \<and> List.map_filter written_pod es = [p] \<and>
    (\<forall>senv pod. shown_as p pod \<and> OBServerManager_getPod senv = Inr pod \<longrightarrow>
       (\<exists>m' err. OBServerManager_UpdateStatus senv m = Some (m', err) \<and>
          Status m' = (if claims_too_small senv m then serverstatus_ExpandPVC
                       else if unpinned pod then serverstatus_Annotate else serverstatus_Running)) \<and>
       (ServerStatus_CNI m = ''calico'' \<and> ServerStatus_PodIp m \<noteq> [] \<longrightarrow> \<not> unpinned pod))"
proof -
  obtain obcluster spec es h1 h2 where spec: "createOBPodSpec env m obcluster h1 = (Ok spec, h2)"
    and es: "h' = h @ es" "List.map_filter written_pod es = [observer_pod env m obcluster spec]"
    using created_pod [OF assms(1)] by blast
  let ?p = "observer_pod env m obcluster spec"
  obtain c cs where c: "Spec_Containers spec = c # cs" "Container_Name c = ''observer''" "Container_Image c = Image (ServerSpec_OBServerTemplate m)"
      "Container_Limits c = resource_list (Template_Resource (ServerSpec_OBServerTemplate m))" "Container_Mounts c = volume_mounts m"
    and cs: "map Container_Name cs = (if ServerSpec_MonitorTemplate m = None then [] else [''obagent''])"
    using pod_spec_Ok [OF spec] by blast
  have others: "c' \<in> set cs \<Longrightarrow> Container_Name c' = ''obagent''" for c'
    using cs by (auto simp: map_eq_Cons_conv split: if_splits)
  have limits: "Limits_Cpu c = Cpu (Template_Resource (ServerSpec_OBServerTemplate m))"
    "Limits_Memory c = Memory (Template_Resource (ServerSpec_OBServerTemplate m))"
    using resource_list_limits [OF c(4)] by simp_all
  have "(\<exists>m' err. OBServerManager_UpdateStatus senv m = Some (m', err) \<and>
      Status m' = (if claims_too_small senv m then serverstatus_ExpandPVC
                   else if unpinned pod then serverstatus_Annotate else serverstatus_Running)) \<and>
     (ServerStatus_CNI m = ''calico'' \<and> ServerStatus_PodIp m \<noteq> [] \<longrightarrow> \<not> unpinned pod)"
    if shown: "shown_as ?p pod" and pod: "OBServerManager_getPod senv = Inr pod" for senv pod
  proof (intro conjI update_status_settled [OF assms(2,3) pod])
    have containers: "Pod_Containers pod = c # cs" using shown c(1) by (simp add: shown_as_def observer_pod_frame)
    show "\<not> OBServerManager_checkIfResourceChanged m pod"
      using others by (auto simp: OBServerManager_checkIfResourceChanged_def containers limits list_ex_iff)
    show "\<not> OBServerManager_checkIfBackupVolumeMutated m pod"
      using others by (auto simp: OBServerManager_checkIfBackupVolumeMutated_def containers c(2,5) backup_mounted list_ex_iff [of _ cs])
    show "\<not> OBServerManager_checkIfMonitorMutated m pod"
      using cs by (auto simp: OBServerManager_checkIfMonitorMutated_def containers c(2) map_eq_Cons_conv split: if_splits)
    show "find (\<lambda>c. Container_Name c = ''observer'') (Pod_Containers pod) = Some c" by (simp add: containers c(2))
    have "generateStaticIpAnnotation m \<subseteq>\<^sub>m Pod_Annotations pod"
      using shown map_le_trans [OF observer_pod_frame(2)] unfolding shown_as_def by blast
    then show "ServerStatus_CNI m = ''calico'' \<and> ServerStatus_PodIp m \<noteq> [] \<longrightarrow> \<not> unpinned pod"
      using static_ip_annotated by blast
  qed (rule c(3))
  with es show ?thesis by blast
qed

definition quiet_server_env :: server_task_env where
  "quiet_server_env = sdk_env.extend quiet_db (server_task_env.fields ''uid'' (\<lambda>_. Inl NotFound) (\<lambda>_. Inr small_server)
     (\<lambda>_. Inr small_cluster) (\<lambda>_. Inr small_zone) (\<lambda>_. Inl NotFound) (\<lambda>_. Inr []) (\<lambda>_. Inr ()) (\<lambda>_ _. Inr ()) (\<lambda>_ _. Inr ())
     1 1 1 2 5 13 95 Some id)"

lemma quiet_server_env_simps [simp]:
  "st_cluster quiet_server_env h = Inr small_cluster" "st_write quiet_server_env h call = Inr ()"
  "st_service quiet_server_env h = Inl NotFound" "st_connect quiet_server_env h c = Inr ()"
  "conn_rows quiet_server_env h sql params = Inr []" "conn_exec quiet_server_env h sql params = Inr ()"
  "st_pod quiet_server_env h = Inl NotFound" "st_ServerDeleteTimeoutSeconds quiet_server_env = 1"
  "st_DefaultStateWaitTimeout quiet_server_env = 1"
  by (simp_all add: quiet_server_env_def quiet_db_def sdk_env.extend_def server_task_env.fields_def)

theorem created_pod_settles_witness:
  "\<exists>p es m' err. snd (CreateOBServerPod quiet_server_env (small_server\<lparr>ServerStatus_CNI := ''calico'', ServerStatus_PodIp := ''10.0.0.1''\<rparr>) []) = es \<and>
    List.map_filter written_pod es = [p] \<and>
    OBServerManager_UpdateStatus (lost_pod_env\<lparr>pod_answer := \<lambda>_. Inr p\<rparr>)
      (small_server\<lparr>ServerStatus_CNI := ''calico'', ServerStatus_PodIp := ''10.0.0.1''\<rparr>) = Some (m', err) \<and> Status m' = serverstatus_Running"
proof -
  let ?m = "small_server\<lparr>ServerStatus_CNI := ''calico'', ServerStatus_PodIp := ''10.0.0.1''\<rparr>"
  have mode: "\<not> standalone ?m" "\<not> service_mode ?m" "ServerSpec_MonitorTemplate ?m = None" "Status ?m = serverstatus_Running"
    "DeletionTimestamp ?m = None"
    by (simp_all add: standalone_def service_mode_def GetAnnotationField_def small_server_def)
  have run: "CreateOBServerPod quiet_server_env ?m [] = (Ok (), snd (CreateOBServerPod quiet_server_env ?m []))"
    using mode(3) by (simp add: CreateOBServerPod_def createOBPodSpec_def createOBServerContainer_def mode_env_def mode(1,2) Let_def
        st_getOBCluster_def st_read_def st_call_def io_defs)
  from created_pod_settles [OF run mode(4,5)] obtain p es where es: "snd (CreateOBServerPod quiet_server_env ?m []) = [] @ es"
      "List.map_filter written_pod es = [p]"
    and settled: "\<forall>senv pod. shown_as p pod \<and> OBServerManager_getPod senv = Inr pod \<longrightarrow>
      (\<exists>m' err. OBServerManager_UpdateStatus senv ?m = Some (m', err) \<and>
        Status m' = (if claims_too_small senv ?m then serverstatus_ExpandPVC
                     else if unpinned pod then serverstatus_Annotate else serverstatus_Running)) \<and>
      (ServerStatus_CNI ?m = ''calico'' \<and> ServerStatus_PodIp ?m \<noteq> [] \<longrightarrow> \<not> unpinned pod)" by (elim exE conjE)
  let ?senv = "lost_pod_env\<lparr>pod_answer := \<lambda>_. Inr p\<rparr>"
  have shown: "shown_as p p \<and> OBServerManager_getPod ?senv = Inr p"
    by (simp add: shown_as_def OBServerManager_getPod_def numeral_3_eq_3)
  have "\<not> claims_too_small ?senv ?m" by (simp add: claims_too_small_def lost_pod_env_def)
  with settled [rule_format, OF shown] obtain m' err
    where "OBServerManager_UpdateStatus ?senv ?m = Some (m', err)" "Status m' = serverstatus_Running"
    by auto
  with es(2) show ?thesis unfolding es(1) append_Nil by blast
qed

subsection \<open>Removal\<close>

text \<open>The deletions of what a server owns, those of its claims among them, and the answer that it has left the cluster.\<close>

fun removal :: "server_api event \<Rightarrow> unit option" where
  "removal (ApiCall (DeletedServerPod _)) = Some ()"
| "removal (ApiCall (DeletedService _)) = Some ()"
| "removal (ApiCall (DeletedClaims _)) = Some ()"
| "removal _ = None"

fun claims_removal :: "server_api event \<Rightarrow> unit option" where
  "claims_removal (ApiCall (DeletedClaims _)) = Some ()"
| "claims_removal _ = None"

abbreviation left_cluster :: "OBServer \<Rightarrow> server_api event" where
  "left_cluster m \<equiv> RowsRead sql_GetServer [SQL_Str (OBServerStatus_GetConnectAddr m), SQL_Int RpcPort] (Inr [])"

lemma silent_server_db:
  assumes "\<And>r. kind (ApiCall (GotCluster r)) = None" "\<And>r. kind (SysConnected r) = None" "\<And>s p r. kind (RowsRead s p r) = None"
    and "\<And>t s p r. kind (Executed t s p r) = None"
  shows "emits_none kind (DeleteOBServerInCluster env m)" "emits_none kind (WaitOBServerDeletedInCluster env m)"
  using assms
  by (auto simp: DeleteOBServerInCluster_def WaitOBServerDeletedInCluster_def st_getOceanbaseOperationManager_def st_getOBCluster_def
      db_GetServer_def db_DeleteServer_def first_row_def QueryList_def ExecWithDefaultTimeout_def ExecWithTimeout_def Let_def
      intro!: io_silent split: option.split)

lemma wait_deleted_log:
  assumes "WaitOBServerDeletedInCluster env m h = (Ok x, h')"
  shows "\<exists>es. h' = h @ es @ [left_cluster m]"
proof -
  let ?body = "bind_io (wrap_io ''Get oceanbase operation manager failed'' (st_getOceanbaseOperationManager env)) (\<lambda>_.
    bind_io (catch_io (db_GetServer env (OBServerStatus_GetConnectAddr m) RpcPort)) (\<lambda>observer. ret (observer = Inr None)))"
  have conn: "extends (st_getOceanbaseOperationManager env)"
    by (auto simp: st_getOceanbaseOperationManager_def st_getOBCluster_def st_read_def intro!: io_extends)
  have get: "extends (db_GetServer env ip port)" for ip port
    by (auto simp: db_GetServer_def first_row_def intro!: io_extends)
  have "extends ?body" using conn get by (auto intro!: io_extends)
  from await_Ok_log [OF this assms [unfolded WaitOBServerDeletedInCluster_def]] obtain es
    where "?body (h @ es) = (Ok True, h')" by blast
  then obtain h1 where h1: "st_getOceanbaseOperationManager env (h @ es) = (Ok (), h1)"
    and "catch_io (db_GetServer env (OBServerStatus_GetConnectAddr m) RpcPort) h1 = (Ok (Inr None), h')"
    by (auto simp: bind_Ok_iff)
  then have "h' = h1 @ [left_cluster m]"
    by (auto simp: catch_io_def db_GetServer_def first_row_def QueryList_def wrap_io_def perform_def bind_io_def ret_def
        split: outcome.splits prod.splits sum.splits list.splits)
  with extendsD [OF conn h1] show ?thesis by auto
qed

lemma clean_extends: "extends (CleanOwnedResources env m)"
proof -
  have pods: "extends (pod_attempts env n e)" for n e
    by (induction n arbitrary: e) (auto simp: st_read_def intro!: io_extends split: sum.split)
  show ?thesis
    by (auto simp: CleanOwnedResources_def cleanWorkerK8sResource_def getSvc_def st_getPod_def st_read_def st_call_def Let_def
        intro!: io_extends pods split: sum.split)
qed

lemma clean_keeps_claims:
  assumes "GetAnnotationField m AnnotationsIndependentPVCLifecycle = (''true'', True)"
  shows "emits_none claims_removal (CleanOwnedResources env m)"
  using assms
  by (auto simp: CleanOwnedResources_def cleanWorkerK8sResource_def getSvc_def st_getPod_def Let_def
      intro!: io_silent emits_none_pod_attempts split: sum.split)

lemma silent_then:
  assumes "emits_none kind f" and "\<And>x. extends (g x)"
  shows "\<exists>xs ys. snd (bind_io f g h) = h @ xs @ ys \<and> List.map_filter kind xs = [] \<and> (ys \<noteq> [] \<longrightarrow> (\<exists>x. f h = (Ok x, h @ xs)))"
proof -
  obtain r h1 where run: "f h = (r, h1)" by force
  then obtain xs where xs: "h1 = h @ xs" "List.map_filter kind xs = []" using emits_noneD [OF assms(1)] by blast
  show ?thesis
  proof (cases r)
    case (Ok x)
    obtain ys where "snd (g x h1) = h1 @ ys" using assms(2) [of x] unfolding extends_def by blast
    with run xs Ok show ?thesis by (intro exI [of _ xs] exI [of _ ys]) (simp add: bind_io_def)
  qed (use run xs in \<open>auto simp: bind_io_def\<close>)
qed

text \<open>
  C17. A server's pod, service and volumes are removed only after it has left the database cluster.
  In the tasks of the deletion flow run one after another, however the outside behaves, the log has
  a first part without deletions, and when there is more, that part has an answer that the server is
  no longer in the cluster. The claims of a server with an independent lifecycle of volumes are
  never deleted.
\<close>

theorem server_removed_before_cleanup:
  "\<exists>xs ys. snd (bind_io (DeleteOBServerInCluster env m) (\<lambda>_.
       bind_io (WaitOBServerDeletedInCluster env m) (\<lambda>_. CleanOwnedResources env m)) h) = h @ xs @ ys \<and>
    List.map_filter removal xs = [] \<and> (ys \<noteq> [] \<longrightarrow> left_cluster m \<in> set xs) \<and>
    (GetAnnotationField m AnnotationsIndependentPVCLifecycle = (''true'', True) \<longrightarrow> List.map_filter claims_removal (xs @ ys) = [])"
proof -
  let ?away = "bind_io (DeleteOBServerInCluster env m) (\<lambda>_. WaitOBServerDeletedInCluster env m)"
  let ?all = "bind_io ?away (\<lambda>_. CleanOwnedResources env m)"
  have silent: "emits_none removal ?away" "emits_none claims_removal ?away"
    by (rule emits_none_bind; rule silent_server_db; simp)+
  obtain xs ys where split: "snd (?all h) = h @ xs @ ys" "List.map_filter removal xs = []"
    and away: "ys \<noteq> [] \<longrightarrow> (\<exists>x. ?away h = (Ok x, h @ xs))"
    using silent_then [where g = "\<lambda>_. CleanOwnedResources env m" and h = h, OF silent(1) clean_extends] by blast
  have "left_cluster m \<in> set xs" if more: "ys \<noteq> []"
  proof -
    from away more obtain x y h1 where h1: "DeleteOBServerInCluster env m h = (Ok y, h1)"
      and wait: "WaitOBServerDeletedInCluster env m h1 = (Ok x, h @ xs)" by (auto simp: bind_Ok_iff)
    obtain es1 where "h1 = h @ es1"
      using emits_noneD [OF silent_server_db(1) h1, of removal] by auto
    with wait_deleted_log [OF wait] show ?thesis by auto
  qed
  moreover have "List.map_filter claims_removal (xs @ ys) = []"
    if "GetAnnotationField m AnnotationsIndependentPVCLifecycle = (''true'', True)"
  proof -
    have "emits_none claims_removal ?all" by (rule emits_none_bind [OF silent(2) clean_keeps_claims [OF that]])
    then obtain es where "snd (?all h) = h @ es" "List.map_filter claims_removal es = []" unfolding emits_none_def by blast
    with split(1) show ?thesis by simp
  qed
  ultimately show ?thesis
    using split unfolding bind_io_assoc by blast
qed

theorem server_removed_before_cleanup_witness:
  "\<exists>xs ys. snd (bind_io (DeleteOBServerInCluster quiet_server_env (small_server\<lparr>ServerSpec_K8sCluster := ''worker''\<rparr>)) (\<lambda>_.
       bind_io (WaitOBServerDeletedInCluster quiet_server_env (small_server\<lparr>ServerSpec_K8sCluster := ''worker''\<rparr>)) (\<lambda>_.
         CleanOwnedResources quiet_server_env (small_server\<lparr>ServerSpec_K8sCluster := ''worker''\<rparr>))) []) = xs @ ys \<and>
    left_cluster (small_server\<lparr>ServerSpec_K8sCluster := ''worker''\<rparr>) \<in> set xs \<and> ApiCall (DeletedClaims (Inr ())) \<in> set ys"
proof -
  let ?m = "small_server\<lparr>ServerSpec_K8sCluster := ''worker''\<rparr>"
  let ?log = "snd (bind_io (DeleteOBServerInCluster quiet_server_env ?m) (\<lambda>_.
    bind_io (WaitOBServerDeletedInCluster quiet_server_env ?m) (\<lambda>_. CleanOwnedResources quiet_server_env ?m)) [])"
  have worker: "\<not> OBServer_InMasterK8s ?m" "GetAnnotationField ?m AnnotationsIndependentPVCLifecycle \<noteq> (''true'', True)"
    by (simp_all add: OBServer_InMasterK8s_def GetAnnotationField_def small_server_def)
  have deleted: "ApiCall (DeletedClaims (Inr ())) \<in> set ?log"
    by (simp add: DeleteOBServerInCluster_def WaitOBServerDeletedInCluster_def CleanOwnedResources_def cleanWorkerK8sResource_def
        worker getSvc_def st_getPod_def st_read_def st_call_def st_getOceanbaseOperationManager_def st_getOBCluster_def
        db_GetServer_def first_row_def QueryList_def numeral_3_eq_3 Let_def io_defs)
  obtain xs ys where "?log = [] @ xs @ ys" "List.map_filter removal xs = []" "ys \<noteq> [] \<longrightarrow> left_cluster ?m \<in> set xs"
    using server_removed_before_cleanup [of quiet_server_env ?m "[]"] by blast
  moreover from this(2) have "ApiCall (DeletedClaims (Inr ())) \<notin> set xs"
    by (auto simp: List.map_filter_def filter_empty_conv)
  ultimately show ?thesis using deleted by (intro exI [of _ xs] exI [of _ ys]) auto
qed

subsection \<open>Expansion of claims\<close>

text \<open>An API server that keeps what is written: the claims after the calls of a log.\<close>

fun apply_claim :: "server_api event \<Rightarrow> PersistentVolumeClaim list \<Rightarrow> PersistentVolumeClaim list" where
  "apply_claim (ApiCall (UpdatedClaim pvc (Inr _))) pvcs = map (\<lambda>p. if PVC_Name p = PVC_Name pvc then pvc else p) pvcs"
| "apply_claim _ pvcs = pvcs"

definition resized :: "OBServer \<Rightarrow> PersistentVolumeClaim \<Rightarrow> PersistentVolumeClaim" where
  "resized m pvc = pvc\<lparr>PVC_Request := the (wanted_size m (PVC_Name pvc))\<rparr>"

lemma resized_name [simp]: "PVC_Name (resized m pvc) = PVC_Name pvc"
  by (simp add: resized_def)

lemma fold_resized:
  "distinct (map PVC_Name (pre @ xs)) \<Longrightarrow>
    fold apply_claim (map (\<lambda>p. ApiCall (UpdatedClaim (resized m p) (Inr ()))) xs) (map (resized m) pre @ xs) = map (resized m) (pre @ xs)"
proof (induction xs arbitrary: pre)
  case (Cons x xs)
  have "apply_claim (ApiCall (UpdatedClaim (resized m x) (Inr ()))) (map (resized m) pre @ x # xs) = map (resized m) (pre @ [x]) @ xs"
  proof -
    have "PVC_Name p \<noteq> PVC_Name x" if "p \<in> set pre \<union> set xs" for p using Cons.prems that by (auto simp: image_iff)
    then show ?thesis by (auto intro!: map_idI)
  qed
  with Cons.IH [of "pre @ [x]"] Cons.prems show ?case by (simp del: apply_claim.simps)
qed simp

lemma each_resized:
  assumes "\<And>h pvc. st_write env h (UpdatedClaim pvc) = Inr ()" and "\<forall>pvc \<in> set pvcs. wanted_size m (PVC_Name pvc) \<noteq> None"
  shows "each_io (\<lambda>pvc. case wanted_size m (PVC_Name pvc) of
        None \<Rightarrow> ret ()
      | Some q \<Rightarrow> wrap_io msg (st_call env (UpdatedClaim (pvc\<lparr>PVC_Request := q\<rparr>)))) pvcs h =
    (Ok (), h @ map (\<lambda>p. ApiCall (UpdatedClaim (resized m p) (Inr ()))) pvcs)"
  using assms(2)
  by (induction pvcs arbitrary: h) (auto simp: io_defs st_call_def resized_def assms(1))

text \<open>A claim of the wanted size is not too small, unless the name of the server itself misleads the check.\<close>

lemma resized_fits:
  assumes "wanted_size m (PVC_Name pvc) \<noteq> None" and "\<not> suffix ''data'' (Name m)" "\<not> suffix ''log'' (Name m)" "\<not> suffix ''data-file'' (Name m)"
  shows "\<not> pvc_too_small m (resized m pvc)"
proof -
  have suf: "suffix xs (ys @ zs) = suffix xs zs" if "length xs \<le> length zs" for xs ys zs :: string
    using that suffix_length_suffix [of xs "ys @ zs" zs] by (auto intro: suffix_appendI)
  have log: "\<not> suffix ''data-log'' (Name m @ ''-log'')" "\<not> suffix ''data-log'' (Name m)"
    using assms(2,3) suffix_order.order_trans [of "''log''" "''data-log''" "Name m"] by (auto simp: suffix_to_prefix)
  have ends: "\<not> suffix ''log'' ''-data-file''" "\<not> suffix ''data-log'' ''-data-file''" "suffix ''data-file'' ''-data-file''"
    "suffix ''data-log'' ''-data-log''" "\<not> suffix ''data-file'' ''-data-log''" "suffix ''log'' ''-log''"
    "\<not> suffix ''data-file'' (Name m @ ''-log'')" by (simp_all add: suffix_to_prefix)
  from assms(1) consider "PVC_Name pvc = Name m @ ''-data-file''" | "PVC_Name pvc = Name m @ ''-data-log''"
    | "PVC_Name pvc = Name m @ ''-log''" | "PVC_Name pvc = Name m"
    by (auto simp: wanted_size_def Let_def split: if_splits)
  then show ?thesis
    by cases (simp_all add: pvc_too_small_def resized_def wanted_size_def total_size_def Let_def suf log ends assms(3,4))
qed

text \<open>
  Expanding the claims of a server settles. When the API server keeps what is written, \<^verbatim>\<open>ExpandPVC\<close>
  followed by \<^verbatim>\<open>WaitForPvcResized\<close> succeeds, and the claims are then such that the check of
  \<^verbatim>\<open>UpdateStatus\<close> does not ask for an expansion again; no claim is added or lost. The check looks at
  suffixes of names, so the name of the server must not end like one of the claims.
\<close>

theorem pvc_expansion_settles:
  assumes "\<And>h. st_claims env h = Inr (fold apply_claim h pvcs)" and "\<And>h pvc. st_write env h (UpdatedClaim pvc) = Inr ()"
    and "distinct (map PVC_Name pvcs)" and named: "\<forall>pvc \<in> set pvcs. wanted_size m (PVC_Name pvc) \<noteq> None"
    and "0 < st_DefaultStateWaitTimeout env"
    and suffixes: "\<not> suffix ''data'' (Name m)" "\<not> suffix ''log'' (Name m)" "\<not> suffix ''data-file'' (Name m)"
  shows "\<exists>es. bind_io (ExpandPVC env m) (\<lambda>_. WaitForPvcResized env m) [] = (Ok (), es) \<and>
    \<not> OBServerManager_checkIfStorageExpand m (fold apply_claim es pvcs) \<and>
    map PVC_Name (fold apply_claim es pvcs) = map PVC_Name pvcs"
proof -
  let ?es = "ApiCall (ListedClaims (Inr pvcs)) # map (\<lambda>p. ApiCall (UpdatedClaim (resized m p) (Inr ()))) pvcs"
  let ?es' = "?es @ [ApiCall (ListedClaims (Inr (map (resized m) pvcs)))]"
  have expand: "ExpandPVC env m [] = (Ok (), ?es)"
    using each_resized [OF assms(2) named]
    by (simp add: ExpandPVC_def st_getPVCs_def st_read_def bind_io_def wrap_io_def perform_def assms(1))
  have inner: "fold apply_claim (map (\<lambda>p. ApiCall (UpdatedClaim (resized m p) (Inr ()))) pvcs) pvcs = map (resized m) pvcs"
    using fold_resized [of "[]" pvcs m] assms(3) by simp
  then have stored: "fold apply_claim ?es pvcs = map (resized m) pvcs" by simp
  have fits: "list_all (\<lambda>pvc. case wanted_size m (PVC_Name pvc) of None \<Rightarrow> True | Some q \<Rightarrow> Cmp q (PVC_Request pvc) = 0) (map (resized m) pvcs)"
    using named by (auto simp: list_all_iff resized_def)
  obtain n where n: "st_DefaultStateWaitTimeout env = Suc n" using assms(5) gr0_conv_Suc by blast
  have wait: "WaitForPvcResized env m ?es = (Ok (), ?es')"
    using fits by (simp add: WaitForPvcResized_def n st_getPVCs_def st_read_def bind_io_def wrap_io_def perform_def ret_def
        assms(1) inner)
  have "fold apply_claim ?es' pvcs = map (resized m) pvcs"
    unfolding fold_append comp_apply stored by simp
  moreover have "\<not> OBServerManager_checkIfStorageExpand m (map (resized m) pvcs)"
    using resized_fits [OF _ suffixes] named by (auto simp: OBServerManager_checkIfStorageExpand_def list_ex_iff)
  ultimately show ?thesis
    using expand wait by (intro exI [of _ ?es']) (simp add: bind_io_def o_def)
qed

theorem pvc_expansion_settles_witness:
  "\<exists>es. bind_io (ExpandPVC (quiet_server_env\<lparr>st_claims := \<lambda>h. Inr (fold apply_claim h [claim ''test-1-zone1-abcdef-data-file'' 10])\<rparr>) small_server)
      (\<lambda>_. WaitForPvcResized (quiet_server_env\<lparr>st_claims := \<lambda>h. Inr (fold apply_claim h [claim ''test-1-zone1-abcdef-data-file'' 10])\<rparr>)
        small_server) [] = (Ok (), es) \<and>
    \<not> OBServerManager_checkIfStorageExpand small_server (fold apply_claim es [claim ''test-1-zone1-abcdef-data-file'' 10])"
proof -
  let ?pvcs = "[claim ''test-1-zone1-abcdef-data-file'' 10]"
  let ?env = "quiet_server_env\<lparr>st_claims := \<lambda>h. Inr (fold apply_claim h ?pvcs)\<rparr>"
  have name: "Name small_server = ''test-1-zone1-abcdef''" by (simp add: small_server_def)
  have wanted: "wanted_size small_server ''test-1-zone1-abcdef-data-file'' \<noteq> None" by (simp add: wanted_size_def name)
  have "\<exists>es. bind_io (ExpandPVC ?env small_server) (\<lambda>_. WaitForPvcResized ?env small_server) [] = (Ok (), es) \<and>
      \<not> OBServerManager_checkIfStorageExpand small_server (fold apply_claim es ?pvcs) \<and>
      map PVC_Name (fold apply_claim es ?pvcs) = map PVC_Name ?pvcs"
    using wanted by (intro pvc_expansion_settles) (simp_all add: name suffix_to_prefix)
  then show ?thesis by blast
qed

end
