(* ===== verification/OBRestore.thy ===== *)
theory OBRestore
  imports OBParameter
begin

text \<open>
  The manager of restore jobs, \<^verbatim>\<open>internal/resource/obtenantrestore\<close>: its state machine from
  starting over running to activating or replaying, its three tasks and the paths of the
  backup it restores from.
\<close>

section \<open>The resource\<close>

record OBTenantRestore = Resource +
  RJ_TargetTenant :: string
  RJ_TargetCluster :: string
  RJ_RestoreRole :: string
  RJ_Source :: RestoreSourceSpec
  RJ_Option :: string
  RJ_PrimaryTenant :: "string option"
  RJ_RestoreProgress :: "row option"

definition RestoreJobStarting :: string where
  "RestoreJobStarting = ''STARTING''"

definition RestoreJobRunning :: string where
  "RestoreJobRunning = ''RUNNING''"

definition RestoreJobCanceled :: string where
  "RestoreJobCanceled = ''CANCELED''"

definition RestoreJobStatusActivating :: string where
  "RestoreJobStatusActivating = ''ACTIVATING''"

definition RestoreJobStatusReplaying :: string where
  "RestoreJobStatusReplaying = ''REPLAYING''"

definition TenantRoleStandby :: string where
  "TenantRoleStandby = ''STANDBY''"

definition TenantRolePrimary :: string where
  "TenantRolePrimary = ''PRIMARY''"

lemmas restore_statuses = RestoreJobStarting_def RestoreJobRunning_def RestoreJobCanceled_def
  RestoreJobStatusActivating_def RestoreJobStatusReplaying_def RestoreJobSuccessful_def RestoreJobFailed_def

section \<open>Flows\<close>

definition genStartRestoreJobFlow :: OperationContext where
  "genStartRestoreJobFlow =
     new_context ''start restore'' [''start restore job in ob''] RestoreJobRunning (zero_rule\<lparr>NextTryStatus := RestoreJobFailed\<rparr>)"

definition genRestoreAsPrimaryFlow :: OperationContext where
  "genRestoreAsPrimaryFlow =
     new_context ''restore as primary'' [''activate standby''] RestoreJobSuccessful (zero_rule\<lparr>NextTryStatus := RestoreJobFailed\<rparr>)"

definition genRestoreAsStandbyFlow :: OperationContext where
  "genRestoreAsStandbyFlow =
     new_context ''restore as standby'' [''start log replay''] RestoreJobSuccessful (zero_rule\<lparr>NextTryStatus := RestoreJobFailed\<rparr>)"

lemmas restore_flows = genStartRestoreJobFlow_def genRestoreAsPrimaryFlow_def genRestoreAsStandbyFlow_def

definition obtenantrestore_taskMap :: "(TaskName \<Rightarrow> 'm TypedTaskFunc) \<Rightarrow> 'm TaskHub" where
  "obtenantrestore_taskMap body =
     register_all body [''start restore job in ob'', ''start log replay'', ''activate standby''] NewTaskHub"

section \<open>The resource manager\<close>

record restore_env = task_env +
  rapi_restore :: "OBTenantRestore result"
  rstatus_Update :: "OBTenantRestore \<Rightarrow> error option"
  read_secret :: "tlog \<Rightarrow> string \<Rightarrow> (string \<times> string) list result"
  restore_task :: "TaskName \<Rightarrow> OBTenantRestore TypedTaskFunc"

definition ObTenantRestoreManager_InitStatus :: "OBTenantRestore \<Rightarrow> OBTenantRestore option" where
  "ObTenantRestoreManager_InitStatus m = Some (m\<lparr>Status := RestoreJobStarting\<rparr>)"

definition ObTenantRestoreManager_CheckAndUpdateFinalizers :: "OBTenantRestore \<Rightarrow> OBTenantRestore \<times> error option" where
  "ObTenantRestoreManager_CheckAndUpdateFinalizers m = (m, None)"

definition ObTenantRestoreManager_ClearTaskInfo :: "OBTenantRestore \<Rightarrow> OBTenantRestore" where
  "ObTenantRestoreManager_ClearTaskInfo m = leave_flow RestoreJobRunning m"

definition ObTenantRestoreManager_FinishTask :: "ctx_heap \<Rightarrow> OBTenantRestore \<Rightarrow> OBTenantRestore option" where
  "ObTenantRestoreManager_FinishTask h m = finish_flow h m"

definition ObTenantRestoreManager_ArchiveResource :: "OBTenantRestore \<Rightarrow> OBTenantRestore" where
  "ObTenantRestoreManager_ArchiveResource m = leave_flow ''Failed'' m"

text \<open>
  A resource under deletion keeps its status. A missing strategy falls through to starting
  over, an unknown one fails the job.
\<close>

definition ObTenantRestoreManager_HandleFailure :: "ctx_heap \<Rightarrow> OBTenantRestore \<Rightarrow> (ctx_heap \<times> OBTenantRestore) option" where
  "ObTenantRestoreManager_HandleFailure h m =
     (if DeletionTimestamp m \<noteq> None then Some (h, m\<lparr>Ctx := None\<rparr>)
      else do {
        c \<leftarrow> deref h (Ctx m);
        Some (case Strategy (OnFailure c) of
                NoStrategy \<Rightarrow> start_over_switch h c m
              | StartOver \<Rightarrow> start_over_switch h c m
              | RetryFromCurrent \<Rightarrow> (put_ctx (Ctx m) (c\<lparr>TaskStatus := Pending\<rparr>) h, m)
              | Pause \<Rightarrow> (h, m)
              | OtherStrategy _ \<Rightarrow>
                  (h, leave_flow (if NextTryStatus (OnFailure c) = [] then RestoreJobFailed
                                  else NextTryStatus (OnFailure c)) m)) })"

text \<open>What a finished restore leads to, depending on the role of the tenant.\<close>

definition restored_status :: "OBTenantRestore \<Rightarrow> string" where
  "restored_status m =
     (if RJ_RestoreRole m = TenantRoleStandby
      then if Restore_ReplayEnabled (RJ_Source m) then RestoreJobStatusReplaying else RestoreJobSuccessful
      else RestoreJobStatusActivating)"

definition progress_status :: "OBTenantRestore \<Rightarrow> row \<Rightarrow> string" where
  "progress_status m job =
     (if col_str job ''status'' = ''SUCCESS'' then restored_status m
      else if col_str job ''status'' = ''FAIL'' then RestoreJobFailed
      else Status m)"

definition checkRestoreProgress :: "restore_env \<Rightarrow> OBTenantRestore \<Rightarrow> OBTenantRestore tenant_io" where
  "checkRestoreProgress env m =
     bind_io (sysClient env ''get oceanbase operation manager'') (\<lambda>_.
     bind_io (db_GetLatestRestoreProgressOfTenant env (RJ_TargetTenant m)) (\<lambda>restoreJob.
       case restoreJob of
         Some job \<Rightarrow> ret (m\<lparr>RJ_RestoreProgress := Some job, Status := progress_status m job\<rparr>)
       | None \<Rightarrow>
           bind_io (db_GetLatestRestoreHistoryOfTenant env (RJ_TargetTenant m)) (\<lambda>restoreHistory.
             ret (m\<lparr>RJ_RestoreProgress := restoreHistory,
               Status := (case restoreHistory of None \<Rightarrow> Status m | Some job \<Rightarrow> progress_status m job)\<rparr>))))"

definition ObTenantRestoreManager_retryUpdateStatus :: "restore_env \<Rightarrow> OBTenantRestore \<Rightarrow> error option" where
  "ObTenantRestoreManager_retryUpdateStatus env m =
     (case rapi_restore env of
        Inl err \<Rightarrow> IgnoreNotFound err
      | Inr r \<Rightarrow> rstatus_Update env (r\<lparr>Status := Status m, Ctx := Ctx m, RJ_RestoreProgress := RJ_RestoreProgress m\<rparr>))"

definition ObTenantRestoreManager_UpdateStatus ::
  "restore_env \<Rightarrow> OBTenantRestore \<Rightarrow> (OBTenantRestore \<times> error option) option" where
  "ObTenantRestoreManager_UpdateStatus env m =
     (if Status m = RestoreJobRunning
      then do {
        answer \<leftarrow> run_db (checkRestoreProgress env m);
        Some (case answer of
                Inl err \<Rightarrow> (m, Some err)
              | Inr m' \<Rightarrow> (m', ObTenantRestoreManager_retryUpdateStatus env m')) }
      else Some (m, ObTenantRestoreManager_retryUpdateStatus env m))"

definition ObTenantRestoreManager_GetTaskFunc ::
  "restore_env \<Rightarrow> TaskName \<Rightarrow> OBTenantRestore \<Rightarrow> TaskFunc result" where
  "ObTenantRestoreManager_GetTaskFunc env name m = GetTask (obtenantrestore_taskMap (restore_task env)) name m"

definition restore_flow_for :: "string \<Rightarrow> OperationContext option" where
  "restore_flow_for s =
     (if s = RestoreJobStarting then Some genStartRestoreJobFlow
      else if s = RestoreJobStatusActivating then Some genRestoreAsPrimaryFlow
      else if s = RestoreJobStatusReplaying then Some genRestoreAsStandbyFlow
      else None)"

definition ObTenantRestoreManager_GetTaskFlow ::
  "ctx_heap \<Rightarrow> OBTenantRestore \<Rightarrow> (ctx_heap \<times> TaskFlow option result) option" where
  "ObTenantRestoreManager_GetTaskFlow h m =
     (case Ctx m of
        Some a \<Rightarrow> Some (h, Inr (Some (Some a)))
      | None \<Rightarrow>
          (case restore_flow_for (Status m) of
             None \<Rightarrow> Some (h, Inr None)
           | Some c \<Rightarrow> Some (new_flow h (fill_strategy (Status m) c))))"

definition ObTenantRestoreManager :: "restore_env \<Rightarrow> OBTenantRestore ResourceManager" where
  "ObTenantRestoreManager env =
     \<lparr>GetMeta = ObjectMeta.truncate, GetStatus = Status, InitStatus = ObTenantRestoreManager_InitStatus,
      SetOperationContext = (\<lambda>p m. m\<lparr>Ctx := p\<rparr>), ClearTaskInfo = ObTenantRestoreManager_ClearTaskInfo,
      HandleFailure = ObTenantRestoreManager_HandleFailure, FinishTask = ObTenantRestoreManager_FinishTask,
      GetTaskFunc = ObTenantRestoreManager_GetTaskFunc env, GetTaskFlow = ObTenantRestoreManager_GetTaskFlow,
      CheckAndUpdateFinalizers = ObTenantRestoreManager_CheckAndUpdateFinalizers,
      UpdateStatus = ObTenantRestoreManager_UpdateStatus env,
      ArchiveResource = ObTenantRestoreManager_ArchiveResource\<rparr>"

section \<open>The tasks\<close>

definition BackupPath :: string where
  "BackupPath = ''/ob-backup''"

definition BackupDestTypeNFS :: string where
  "BackupDestTypeNFS = ''NFS''"

definition BackupDestTypeCOS :: string where
  "BackupDestTypeCOS = ''COS''"

definition BackupDestTypeS3 :: string where
  "BackupDestTypeS3 = ''S3''"

definition secret_data :: "(string \<times> string) list \<Rightarrow> string \<Rightarrow> string" where
  "secret_data s k = (case map_of s k of None \<Rightarrow> [] | Some v \<Rightarrow> v)"

definition file_path :: "BackupDestination \<Rightarrow> string" where
  "file_path dest = ''file://'' @ path_Join [BackupPath, Dest_Path dest]"

definition access_path :: "BackupDestination \<Rightarrow> (string \<times> string) list \<Rightarrow> string" where
  "access_path dest s =
     Join [Dest_Path dest, ''access_id='' @ secret_data s ''accessId'', ''access_key='' @ secret_data s ''accessKey''] ''&''"

text \<open>A failed read of the secret is reported as an event and leaves the path empty.\<close>

definition getDestPath :: "restore_env \<Rightarrow> BackupDestination \<Rightarrow> string tenant_io" where
  "getDestPath env dest =
     (if Dest_Type dest = BackupDestTypeNFS \<or> Dest_Type dest = [] then ret (file_path dest)
      else if Dest_OSSAccessSecret dest = [] then ret []
      else bind_io (catch_io (api (\<lambda>h. read_secret env h (Dest_OSSAccessSecret dest)) (ReadSecretData (Dest_OSSAccessSecret dest))))
        (\<lambda>secret. case secret of
           Inl err \<Rightarrow> ret []
         | Inr s \<Rightarrow> ret (access_path dest s @
             (if Dest_Type dest = BackupDestTypeCOS then ''&appid='' @ secret_data s ''appId''
              else if Dest_Type dest = BackupDestTypeS3 then ''&s3_region='' @ secret_data s ''s3Region'' else []))))"

text \<open>Without a source URI both destinations are dereferenced.\<close>

definition getSourceUri :: "restore_env \<Rightarrow> OBTenantRestore \<Rightarrow> string tenant_io" where
  "getSourceUri env m =
     (let src = RJ_Source m
      in if Restore_SourceUri src \<noteq> [] then ret (Restore_SourceUri src)
         else bind_io (bind_io (deref_io (Restore_BakDataSource src)) (getDestPath env)) (\<lambda>bakPath.
              bind_io (bind_io (deref_io (Restore_ArchiveSource src)) (getDestPath env)) (\<lambda>archivePath.
                if bakPath = [] \<or> archivePath = []
                then raise (OtherError ''Unexpected error: both bakPath and archivePath must be set'')
                else ret (Join [bakPath, archivePath] '',''))))"

definition StartRestoreJobInOB :: "restore_env \<Rightarrow> OBTenantRestore \<Rightarrow> unit tenant_io" where
  "StartRestoreJobInOB env m =
     (let src = RJ_Source m; secret = Restore_BakEncryptionSecret src; until = Restore_Until src
      in bind_io (sysClient env ''get oceanbase operation manager'') (\<lambda>_.
         bind_io (getSourceUri env m) (\<lambda>sourceUri.
         bind_io (if secret \<noteq> []
            then bind_io (api (\<lambda>h. read_password env h secret) (ReadPassword secret)) (db_SetRestorePassword env)
            else ret ()) (\<lambda>_.
           if Until_Unlimited until then db_StartRestoreUnlimited env (RJ_TargetTenant m) sourceUri (RJ_Option m)
           else case Until_Timestamp until of
                  Some t \<Rightarrow> db_StartRestoreWithLimit env (RJ_TargetTenant m) sourceUri (RJ_Option m) ''TIME'' (SQL_Str t)
                | None \<Rightarrow>
                    (case Until_Scn until of
                       Some s \<Rightarrow> db_StartRestoreWithLimit env (RJ_TargetTenant m) sourceUri (RJ_Option m) ''SCN'' (SQL_Str s)
                     | None \<Rightarrow> raise (OtherError ''Restore until must have a limit key, scn and timestamp are both nil now''))))))"

text \<open>The limit of a log replay; \<open>None\<close> when neither a time nor a number is given.\<close>

definition replay_limit :: "RestoreUntilConfig option \<Rightarrow> string option" where
  "replay_limit replayUntil =
     (case replayUntil of
        None \<Rightarrow> Some ''UNLIMITED''
      | Some until \<Rightarrow>
          if Until_Unlimited until then Some ''UNLIMITED''
          else case Until_Timestamp until of
                 Some t \<Rightarrow> Some (''TIME='' @ quoted t)
               | None \<Rightarrow> map_option (\<lambda>s. ''SCN='' @ s) (Until_Scn until))"

definition replay_log :: "'x task_env_scheme \<Rightarrow> string \<Rightarrow> RestoreUntilConfig option \<Rightarrow> unit tenant_io" where
  "replay_log env tenant replayUntil =
     (case replay_limit replayUntil of
        Some limit \<Rightarrow> db_ReplayStandbyLog env tenant limit
      | None \<Rightarrow> raise (OtherError ''Replay until with limit must have a limit key, scn and timestamp are both nil now''))"

definition StartLogReplay :: "restore_env \<Rightarrow> OBTenantRestore \<Rightarrow> unit tenant_io" where
  "StartLogReplay env m =
     bind_io (sysClient env ''get oceanbase operation manager'') (\<lambda>_.
     bind_io (case RJ_PrimaryTenant m of
         None \<Rightarrow> ret ()
       | Some primary \<Rightarrow>
           bind_io (GetTenantRestoreSource env (Namespace m) primary) (\<lambda>restoreSource.
             db_SetParameter env ''LOG_RESTORE_SOURCE'' (SQL_Str restoreSource) (Some (''TENANT'', SQL_Str (RJ_TargetTenant m))))) (\<lambda>_.
       replay_log env (RJ_TargetTenant m) (Restore_ReplayLogUntil (RJ_Source m))))"

definition ActivateStandby :: "restore_env \<Rightarrow> OBTenantRestore \<Rightarrow> unit tenant_io" where
  "ActivateStandby env m =
     bind_io (sysClient env ''get oceanbase operation manager'') (\<lambda>_. db_ActivateStandby env (RJ_TargetTenant m))"

section \<open>The manager keeps the coordinator's contract\<close>

text \<open>Failure handling that keeps the status of a resource under deletion.\<close>

definition failure_keeping_status ::
  "(string \<Rightarrow> OperationContext \<Rightarrow> flow_state) \<Rightarrow> 'a Resource_scheme \<Rightarrow> string \<Rightarrow> OperationContext \<Rightarrow> flow_state" where
  "failure_keeping_status f r s c = (if DeletionTimestamp r \<noteq> None then (s, None) else f s c)"

lemma lawful_keeping_status [simp, intro]: "lawful f \<Longrightarrow> lawful (failure_keeping_status f r)"
  by (auto simp: lawful_def failure_keeping_status_def)

definition restore_failure :: "string \<Rightarrow> OperationContext \<Rightarrow> flow_state" where
  "restore_failure s c =
     (case Strategy (OnFailure c) of
        NoStrategy \<Rightarrow> start_over s c
      | StartOver \<Rightarrow> start_over s c
      | RetryFromCurrent \<Rightarrow> (s, Some (c\<lparr>TaskStatus := Pending\<rparr>))
      | Pause \<Rightarrow> (s, Some c)
      | OtherStrategy _ \<Rightarrow>
          (if NextTryStatus (OnFailure c) = [] then RestoreJobFailed else NextTryStatus (OnFailure c), None))"

lemma lawful_restore_failure [simp, intro]: "lawful restore_failure"
  by (auto simp: lawful_def restore_failure_def start_over_def split: TaskFailureStrategy.splits)

lemma restore_handles:
  assumes "Ctx m = Some a" "a < length h"
  shows "ObTenantRestoreManager_HandleFailure h m = lift_failure (failure_keeping_status restore_failure m) h m"
  using assms start_over_switch_lift [OF assms]
  by (auto simp: ObTenantRestoreManager_HandleFailure_def lift_failure_def failure_keeping_status_def restore_failure_def
      leave_flow_def put_ctx_same split: TaskFailureStrategy.splits)

lemma restore_flow_fresh: "restore_flow_for s = Some c \<Longrightarrow> fresh_flow (fill_strategy d c)"
  by (auto simp: restore_flow_for_def restore_flows restore_statuses split: if_splits)

interpretation ore: standard_manager "ObTenantRestoreManager env" RestoreJobRunning "''Failed''"
  "failure_keeping_status restore_failure" for env
  by unfold_locales
    (auto simp: ObTenantRestoreManager_def ObTenantRestoreManager_ClearTaskInfo_def ObTenantRestoreManager_ArchiveResource_def
      ObTenantRestoreManager_FinishTask_def restore_handles ObTenantRestoreManager_GetTaskFlow_def creates_flow_def
      dest: restore_flow_fresh split: option.splits)

lemma run_db_Ok: "run_db f = Some (Inr x) \<longleftrightarrow> (\<exists>h'. f [] = (Ok x, h'))"
  by (auto simp: run_db_def prod_eq_iff split: outcome.splits)

lemma restore_progress_read:
  assumes "run_db (checkRestoreProgress env m) = Some (Inr m')"
  shows "Status m' = (case RJ_RestoreProgress m' of None \<Rightarrow> Status m | Some job \<Rightarrow> progress_status m job)"
proof -
  from assms obtain h h' x where
    read: "(case x of
       Some job \<Rightarrow> ret (m\<lparr>RJ_RestoreProgress := Some job, Status := progress_status m job\<rparr>)
     | None \<Rightarrow> bind_io (db_GetLatestRestoreHistoryOfTenant env (RJ_TargetTenant m)) (\<lambda>restoreHistory.
         ret (m\<lparr>RJ_RestoreProgress := restoreHistory,
           Status := (case restoreHistory of None \<Rightarrow> Status m | Some job \<Rightarrow> progress_status m job)\<rparr>))) h = (Ok m', h')"
    unfolding run_db_Ok checkRestoreProgress_def bind_Ok_iff by blast
  show ?thesis
  proof (cases x)
    case None
    with read obtain restoreHistory where "m' = m\<lparr>RJ_RestoreProgress := restoreHistory,
        Status := (case restoreHistory of None \<Rightarrow> Status m | Some job \<Rightarrow> progress_status m job)\<rparr>"
      by (auto simp: bind_Ok_iff)
    then show ?thesis by simp
  qed (use read in \<open>simp add: eq_commute [of _ m']\<close>)
qed

lemma restored_progress:
  assumes "progress_status m job = RestoreJobSuccessful" "Status m = RestoreJobRunning"
  shows "col_str job ''status'' = ''SUCCESS''" "RJ_RestoreRole m = TenantRoleStandby" "\<not> Restore_ReplayEnabled (RJ_Source m)"
proof -
  show 1: "col_str job ''status'' = ''SUCCESS''"
    using assms unfolding progress_status_def by (auto simp: restore_statuses split: if_splits)
  then have "restored_status m = RestoreJobSuccessful" using assms unfolding progress_status_def by simp
  then show "RJ_RestoreRole m = TenantRoleStandby" "\<not> Restore_ReplayEnabled (RJ_Source m)"
    unfolding restored_status_def by (simp_all add: restore_statuses split: if_splits)
qed

section \<open>Properties\<close>

text \<open>
  A restore job counts as successful only after the tenant has got its role. No status
  update makes a job successful except that of a standby tenant whose logs are not to be
  replayed, and only when the database reports the restore as finished; every flow that
  ends in success consists of the activation of the tenant or of starting the replay.
\<close>

theorem restore_success_needs_role:
  assumes "ObTenantRestoreManager_UpdateStatus env m = Some (m', err)"
  shows "(Status m' = RestoreJobSuccessful \<and> Status m \<noteq> RestoreJobSuccessful \<longrightarrow>
      Status m = RestoreJobRunning \<and> RJ_RestoreRole m = TenantRoleStandby \<and> \<not> Restore_ReplayEnabled (RJ_Source m) \<and>
      (\<exists>job. RJ_RestoreProgress m' = Some job \<and> col_str job ''status'' = ''SUCCESS'')) \<and>
    (\<forall>c. restore_flow_for (Status m') = Some c \<and> TargetStatus c = RestoreJobSuccessful \<longrightarrow>
      (Tasks c = [''activate standby''] \<and> Status m' = RestoreJobStatusActivating) \<or>
      (Tasks c = [''start log replay''] \<and> Status m' = RestoreJobStatusReplaying))"
proof
  show "Status m' = RestoreJobSuccessful \<and> Status m \<noteq> RestoreJobSuccessful \<longrightarrow>
      Status m = RestoreJobRunning \<and> RJ_RestoreRole m = TenantRoleStandby \<and> \<not> Restore_ReplayEnabled (RJ_Source m) \<and>
      (\<exists>job. RJ_RestoreProgress m' = Some job \<and> col_str job ''status'' = ''SUCCESS'')"
  proof
    assume new: "Status m' = RestoreJobSuccessful \<and> Status m \<noteq> RestoreJobSuccessful"
    with assms have run: "Status m = RestoreJobRunning" "run_db (checkRestoreProgress env m) = Some (Inr m')"
      by (auto simp: ObTenantRestoreManager_UpdateStatus_def split: if_splits bind_splits sum.splits)
    show "Status m = RestoreJobRunning \<and> RJ_RestoreRole m = TenantRoleStandby \<and>
        \<not> Restore_ReplayEnabled (RJ_Source m) \<and> (\<exists>job. RJ_RestoreProgress m' = Some job \<and> col_str job ''status'' = ''SUCCESS'')"
    proof (cases "RJ_RestoreProgress m'")
      case None
      with restore_progress_read [OF run(2)] new show ?thesis by simp
    next
      case (Some job)
      with restore_progress_read [OF run(2)] new have "progress_status m job = RestoreJobSuccessful" by simp
      from restored_progress [OF this run(1)] Some run(1) show ?thesis by blast
    qed
  qed
  show "\<forall>c. restore_flow_for (Status m') = Some c \<and> TargetStatus c = RestoreJobSuccessful \<longrightarrow>
      (Tasks c = [''activate standby''] \<and> Status m' = RestoreJobStatusActivating) \<or>
      (Tasks c = [''start log replay''] \<and> Status m' = RestoreJobStatusReplaying)"
    by (auto simp: restore_flow_for_def restore_flows restore_statuses new_context_def split: if_splits)
qed

text \<open>Two jobs whose restore has finished, and a database that says so.\<close>

definition restored_job :: "string \<Rightarrow> OBTenantRestore" where
  "restored_job role = \<lparr>Name = ''t1-restore'', Namespace = ''oceanbase'', Annotations = Map.empty, Labels = Map.empty,
     Finalizers = [], DeletionTimestamp = None, Status = RestoreJobRunning, Ctx = None, RJ_TargetTenant = ''t1'',
     RJ_TargetCluster = ''test'', RJ_RestoreRole = role,
     RJ_Source = \<lparr>Restore_ArchiveSource = None, Restore_BakDataSource = None, Restore_BakEncryptionSecret = [],
       Restore_SourceUri = ''oss://b'', Restore_Until = \<lparr>Until_Timestamp = None, Until_Scn = None, Until_Unlimited = True\<rparr>,
       Restore_Description = None, Restore_ReplayEnabled = False, Restore_ReplayLogUntil = None, Restore_Cancel = False\<rparr>,
     RJ_Option = [], RJ_PrimaryTenant = None, RJ_RestoreProgress = None\<rparr>"

definition restored_env :: restore_env where
  "restored_env = task_env.extend (quiet_env\<lparr>conn_rows := \<lambda>_ _ _. Inr [[(''status'', SQL_Str ''SUCCESS'')]]\<rparr>)
     (restore_env.fields (Inl NotFound) (\<lambda>_. None) (\<lambda>_ _. Inr []) (\<lambda>_ _ out. out = Returns None))"

lemma restored_env_simps [simp]:
  "conn_rows restored_env h sql params = Inr [[(''status'', SQL_Str ''SUCCESS'')]]" "connect_sys restored_env h = Inr ()"
  "rapi_restore restored_env = Inl NotFound"
  by (simp_all add: restored_env_def quiet_env_def quiet_db_def task_env.extend_def restore_env.fields_def sdk_env.extend_def
      task_env.fields_def)

lemma restored_update:
  "ObTenantRestoreManager_UpdateStatus restored_env (restored_job role) =
     Some ((restored_job role)\<lparr>RJ_RestoreProgress := Some [(''status'', SQL_Str ''SUCCESS'')],
       Status := restored_status (restored_job role)\<rparr>, None)"
  by (simp add: ObTenantRestoreManager_UpdateStatus_def restored_job_def run_db_def checkRestoreProgress_def sysClient_def
      db_GetLatestRestoreProgressOfTenant_def first_row_def QueryList_def io_defs progress_status_def col_str_def
      ObTenantRestoreManager_retryUpdateStatus_def IgnoreNotFound_def)

theorem restore_success_needs_role_witness:
  "\<exists>m'. ObTenantRestoreManager_UpdateStatus restored_env (restored_job TenantRoleStandby) = Some (m', None) \<and>
    Status m' = RestoreJobSuccessful \<and> (\<exists>job. RJ_RestoreProgress m' = Some job \<and> col_str job ''status'' = ''SUCCESS'')"
proof -
  let ?m = "restored_job TenantRoleStandby"
  have "restored_status ?m = RestoreJobSuccessful" by (simp add: restored_status_def restored_job_def)
  with restore_success_needs_role [OF restored_update [of TenantRoleStandby]] restored_update [of TenantRoleStandby]
  show ?thesis by (simp add: restored_job_def restore_statuses)
qed

end
