(* ===== verification/OBTenantOperation.thy ===== *)
theory OBTenantOperation
  imports OBRestore
begin

text \<open>
  The manager of operations on tenants, \<^verbatim>\<open>internal/resource/obtenantoperation\<close>: changing the
  root password, failover, switchover with its reversal, upgrade, log replay and changes of
  the tenant resource.
\<close>

section \<open>The resource\<close>

record OBTenantOperation = Resource +
  TOp_Type :: string
  TOp_Switchover :: "(string \<times> string) option"
  TOp_Failover :: "string option"
  TOp_ChangePwd :: "(string \<times> string) option"
  TOp_ReplayUntil :: "RestoreUntilConfig option"
  TOp_TargetTenant :: "string option"
  TOp_AuxiliaryTenant :: "string option"
  TOp_Force :: bool
  TOp_UnitNumber :: int
  TOp_ConnectWhiteList :: string
  TOp_Charset :: string
  TOp_ModifyResourcePools :: "ResourcePoolSpec list"
  TOp_AddResourcePools :: "ResourcePoolSpec list"
  TOp_DeleteResourcePools :: "string list"
  TOpStatus_PrimaryTenant :: "OBTenant option"
  TOpStatus_SecondaryTenant :: "OBTenant option"

abbreviation "TenantOpStarting \<equiv> ''STARTING''"
abbreviation "TenantOpRunning \<equiv> ''RUNNING''"
abbreviation "TenantOpSuccessful \<equiv> ''SUCCESSFUL''"
abbreviation "TenantOpFailed \<equiv> ''FAILED''"
abbreviation "TenantOpReverting \<equiv> ''REVERTING''"

abbreviation "TenantOpSwitchover \<equiv> ''SWITCHOVER''"
abbreviation "TenantOpFailover \<equiv> ''FAILOVER''"
abbreviation "TenantOpChangePwd \<equiv> ''CHANGE_PASSWORD''"
abbreviation "TenantOpUpgrade \<equiv> ''UPGRADE''"
abbreviation "TenantOpReplayLog \<equiv> ''REPLAY_LOG''"

section \<open>Flows\<close>

definition genChangeTenantRootPasswordFlow :: OperationContext where
  "genChangeTenantRootPasswordFlow =
     new_context ''change tenant root password'' [''change tenant root password''] TenantOpSuccessful
       (zero_rule\<lparr>NextTryStatus := TenantOpFailed\<rparr>)"

definition genActivateStandbyTenantOpFlow :: OperationContext where
  "genActivateStandbyTenantOpFlow =
     new_context ''activate standby tenant'' [''activate standby tenant'', ''create users for activated standby'']
       TenantOpSuccessful (zero_rule\<lparr>NextTryStatus := TenantOpFailed\<rparr>)"

definition genSwitchoverTenantsFlow :: OperationContext where
  "genSwitchoverTenantsFlow =
     new_context ''switchover tenants'' [''switch tenants role'', ''set tenant log restore source'']
       TenantOpSuccessful (zero_rule\<lparr>NextTryStatus := TenantOpReverting\<rparr>)"

definition genRevertSwitchoverTenantsFlow :: OperationContext where
  "genRevertSwitchoverTenantsFlow =
     new_context ''revert switchover tenants'' [''switch tenants role''] TenantOpFailed
       (zero_rule\<lparr>NextTryStatus := TenantOpReverting\<rparr>)"

definition genUpgradeTenantFlow :: OperationContext where
  "genUpgradeTenantFlow =
     new_context ''upgrade tenant'' [''upgrade tenant''] TenantOpSuccessful (zero_rule\<lparr>NextTryStatus := TenantOpFailed\<rparr>)"

definition genReplayLogOfStandbyFlow :: OperationContext where
  "genReplayLogOfStandbyFlow =
     new_context ''replay log'' [''replay log of standby''] TenantOpSuccessful (zero_rule\<lparr>NextTryStatus := TenantOpFailed\<rparr>)"

definition genUpdateOBTenantResourceFlow :: OperationContext where
  "genUpdateOBTenantResourceFlow =
     new_context ''update obtenant resource'' [''update obtenant resource'', ''wait for obtenant return running'']
       TenantOpSuccessful (zero_rule\<lparr>NextTryStatus := TenantOpFailed\<rparr>)"

lemmas tenant_op_flows = genChangeTenantRootPasswordFlow_def genActivateStandbyTenantOpFlow_def genSwitchoverTenantsFlow_def
  genRevertSwitchoverTenantsFlow_def genUpgradeTenantFlow_def genReplayLogOfStandbyFlow_def genUpdateOBTenantResourceFlow_def

definition obtenantoperation_task_names :: "TaskName list" where
  "obtenantoperation_task_names =
     [''change tenant root password'', ''activate standby tenant'', ''create users for activated standby'',
      ''switch tenants role'', ''set tenant log restore source'', ''upgrade tenant'', ''replay log of standby'',
      ''update obtenant resource'', ''wait for obtenant return running'']"

definition obtenantoperation_taskMap :: "(TaskName \<Rightarrow> 'm TypedTaskFunc) \<Rightarrow> 'm TaskHub" where
  "obtenantoperation_taskMap body = register_all body obtenantoperation_task_names NewTaskHub"

section \<open>The resource manager\<close>

record tenant_op_env = task_env +
  tapi_tenant :: "string \<Rightarrow> OBTenant result"
  tapi_operation :: "OBTenantOperation result"
  topstatus_Update :: "OBTenantOperation \<Rightarrow> OBTenantOperation \<times> error option"
  update_tenant_status :: "tlog \<Rightarrow> OBTenant \<Rightarrow> unit result"
  patch_tenant :: "tlog \<Rightarrow> OBTenant \<Rightarrow> OBTenant \<Rightarrow> bool result"
  op_retries :: nat
  state_rounds :: nat
  top_conflict :: "error \<Rightarrow> bool"
  tenant_op_task :: "TaskName \<Rightarrow> OBTenantOperation TypedTaskFunc"

definition getTenantCR :: "tenant_op_env \<Rightarrow> string \<Rightarrow> OBTenant result" where
  "getTenantCR env name = wrap_result ''get tenant'' (tapi_tenant env name)"

text \<open>
  \<^verbatim>\<open>InitStatus\<close>: \<open>Inl\<close> when the variable \<^verbatim>\<open>err\<close> of the function holds an error at the end. In
  the case of a switchover the error of the second read is a new variable of the branch,
  so it is lost. A missing part of the specification is dereferenced (\<open>None\<close>).
\<close>

definition init_tenants :: "tenant_op_env \<Rightarrow> OBTenantOperation \<Rightarrow> (error option \<times> OBTenantOperation) option" where
  "init_tenants env m =
     (if TOp_Type m = TenantOpChangePwd then do {
        (tenant, _) \<leftarrow> TOp_ChangePwd m;
        Some (case getTenantCR env tenant of
                Inl err \<Rightarrow> (Some err, m)
              | Inr t \<Rightarrow> (None, m\<lparr>TOpStatus_PrimaryTenant := Some t\<rparr>)) }
      else if TOp_Type m = TenantOpFailover then do {
        standby \<leftarrow> TOp_Failover m;
        Some (case getTenantCR env standby of
                Inl err \<Rightarrow> (Some err, m)
              | Inr t \<Rightarrow>
                  if TenantStatus_TenantRole t = TenantRolePrimary
                  then (Some (OtherError ''activating tenant is not a standby tenant''), m)
                  else (None, m\<lparr>TOpStatus_PrimaryTenant := Some t\<rparr>)) }
      else if TOp_Type m = TenantOpSwitchover then do {
        (primary, standby) \<leftarrow> TOp_Switchover m;
        Some (case getTenantCR env primary of
                Inl err \<Rightarrow> (Some err, m)
              | Inr t \<Rightarrow>
                  (case getTenantCR env standby of
                     Inl _ \<Rightarrow> (None, m)
                   | Inr s \<Rightarrow> (None, m\<lparr>TOpStatus_PrimaryTenant := Some t, TOpStatus_SecondaryTenant := Some s\<rparr>))) }
      else if TOp_Type m = TenantOpUpgrade \<or> TOp_Type m = TenantOpReplayLog then do {
        target \<leftarrow> TOp_TargetTenant m;
        Some (case getTenantCR env target of
                Inl err \<Rightarrow> (Some err, m)
              | Inr t \<Rightarrow> (None, m\<lparr>TOpStatus_PrimaryTenant := Some t\<rparr>)) }
      else Some (None, m))"

definition ObTenantOperationManager_InitStatus :: "tenant_op_env \<Rightarrow> OBTenantOperation \<Rightarrow> OBTenantOperation option" where
  "ObTenantOperationManager_InitStatus env m = do {
     (err, m') \<leftarrow> init_tenants env m;
     Some (m'\<lparr>Status := (if err \<noteq> None then TenantOpFailed else TenantOpRunning)\<rparr>) }"

definition ObTenantOperationManager_CheckAndUpdateFinalizers ::
  "OBTenantOperation \<Rightarrow> OBTenantOperation \<times> error option" where
  "ObTenantOperationManager_CheckAndUpdateFinalizers m = (m, None)"

definition ObTenantOperationManager_ClearTaskInfo :: "OBTenantOperation \<Rightarrow> OBTenantOperation" where
  "ObTenantOperationManager_ClearTaskInfo m = leave_flow TenantOpRunning m"

definition ObTenantOperationManager_FinishTask :: "ctx_heap \<Rightarrow> OBTenantOperation \<Rightarrow> OBTenantOperation option" where
  "ObTenantOperationManager_FinishTask h m = finish_flow h m"

definition ObTenantOperationManager_ArchiveResource :: "OBTenantOperation \<Rightarrow> OBTenantOperation" where
  "ObTenantOperationManager_ArchiveResource m = leave_flow ''Failed'' m"

text \<open>
  The failure switch of the operations: unlike the other managers, a flow without a strategy
  ends, in the status the rule names or in \<open>failed\<close>.
\<close>

definition operation_failure_switch ::
  "string \<Rightarrow> ctx_heap \<Rightarrow> 'a Resource_scheme \<Rightarrow> (ctx_heap \<times> 'a Resource_scheme) option" where
  "operation_failure_switch failed h m =
     (if DeletionTimestamp m \<noteq> None then Some (h, m\<lparr>Ctx := None\<rparr>)
      else do {
        c \<leftarrow> deref h (Ctx m);
        Some (case Strategy (OnFailure c) of
                StartOver \<Rightarrow> start_over_switch h c m
              | RetryFromCurrent \<Rightarrow> (put_ctx (Ctx m) (c\<lparr>TaskStatus := Pending\<rparr>) h, m)
              | Pause \<Rightarrow> (h, m)
              | _ \<Rightarrow> (h, leave_flow (if NextTryStatus (OnFailure c) = [] then failed
                                    else NextTryStatus (OnFailure c)) m)) })"

definition ObTenantOperationManager_HandleFailure ::
  "ctx_heap \<Rightarrow> OBTenantOperation \<Rightarrow> (ctx_heap \<times> OBTenantOperation) option" where
  "ObTenantOperationManager_HandleFailure h m = operation_failure_switch TenantOpFailed h m"

text \<open>The object that is written is the manager's own, which the answer of the API server replaces.\<close>

definition ObTenantOperationManager_retryUpdateStatus ::
  "tenant_op_env \<Rightarrow> OBTenantOperation \<Rightarrow> OBTenantOperation \<times> error option" where
  "ObTenantOperationManager_retryUpdateStatus env m =
     (case tapi_operation env of Inl err \<Rightarrow> (m, IgnoreNotFound err) | Inr _ \<Rightarrow> topstatus_Update env m)"

definition ObTenantOperationManager_UpdateStatus ::
  "tenant_op_env \<Rightarrow> OBTenantOperation \<Rightarrow> (OBTenantOperation \<times> error option) option" where
  "ObTenantOperationManager_UpdateStatus env m = Some (ObTenantOperationManager_retryUpdateStatus env m)"

definition ObTenantOperationManager_GetTaskFunc ::
  "tenant_op_env \<Rightarrow> TaskName \<Rightarrow> OBTenantOperation \<Rightarrow> TaskFunc result" where
  "ObTenantOperationManager_GetTaskFunc env name m = GetTask (obtenantoperation_taskMap (tenant_op_task env)) name m"

text \<open>
  The switch of \<^verbatim>\<open>GetTaskFlow\<close>: \<open>None\<close> is the nil flow of the status \<^verbatim>\<open>STARTING\<close>, which is
  dereferenced afterwards.
\<close>

definition tenant_op_flow_for :: "string \<Rightarrow> string \<Rightarrow> OperationContext option result option" where
  "tenant_op_flow_for s typ =
     (if s = TenantOpStarting then None
      else if s = TenantOpRunning then
        Some (Inr (Some (if typ = TenantOpChangePwd then genChangeTenantRootPasswordFlow
                         else if typ = TenantOpFailover then genActivateStandbyTenantOpFlow
                         else if typ = TenantOpSwitchover then genSwitchoverTenantsFlow
                         else if typ = TenantOpUpgrade then genUpgradeTenantFlow
                         else if typ = TenantOpReplayLog then genReplayLogOfStandbyFlow
                         else genUpdateOBTenantResourceFlow)))
      else if s = TenantOpReverting then
        Some (if typ = TenantOpSwitchover then Inr (Some genRevertSwitchoverTenantsFlow)
              else Inl (OtherError ''unsupported operation type''))
      else Some (Inr None))"

definition fill_next_try :: "string \<Rightarrow> OperationContext \<Rightarrow> OperationContext" where
  "fill_next_try dflt c =
     (if NextTryStatus (OnFailure c) = [] then c\<lparr>OnFailure := (OnFailure c)\<lparr>NextTryStatus := dflt\<rparr>\<rparr> else c)"

definition ObTenantOperationManager_GetTaskFlow ::
  "ctx_heap \<Rightarrow> OBTenantOperation \<Rightarrow> (ctx_heap \<times> TaskFlow option result) option" where
  "ObTenantOperationManager_GetTaskFlow h m =
     (case Ctx m of
        Some a \<Rightarrow> Some (h, Inr (Some (Some a)))
      | None \<Rightarrow>
          (case tenant_op_flow_for (Status m) (TOp_Type m) of
             None \<Rightarrow> None
           | Some (Inl err) \<Rightarrow> Some (h, Inl err)
           | Some (Inr None) \<Rightarrow> Some (h, Inr None)
           | Some (Inr (Some c)) \<Rightarrow> Some (new_flow h (fill_next_try TenantOpFailed c))))"

definition ObTenantOperationManager :: "tenant_op_env \<Rightarrow> OBTenantOperation ResourceManager" where
  "ObTenantOperationManager env =
     \<lparr>GetMeta = ObjectMeta.truncate, GetStatus = Status, InitStatus = ObTenantOperationManager_InitStatus env,
      SetOperationContext = (\<lambda>p m. m\<lparr>Ctx := p\<rparr>), ClearTaskInfo = ObTenantOperationManager_ClearTaskInfo,
      HandleFailure = ObTenantOperationManager_HandleFailure, FinishTask = ObTenantOperationManager_FinishTask,
      GetTaskFunc = ObTenantOperationManager_GetTaskFunc env, GetTaskFlow = ObTenantOperationManager_GetTaskFlow,
      CheckAndUpdateFinalizers = ObTenantOperationManager_CheckAndUpdateFinalizers,
      UpdateStatus = ObTenantOperationManager_UpdateStatus env,
      ArchiveResource = ObTenantOperationManager_ArchiveResource\<rparr>"

section \<open>The tasks\<close>

definition op_getTenant :: "tenant_op_env \<Rightarrow> OBTenantOperation \<Rightarrow> string \<Rightarrow> OBTenant tenant_io" where
  "op_getTenant env m name = api (\<lambda>h. get_tenant_cr env h (Namespace m) name) (GetTenantCR (Namespace m) name)"

definition op_updateTenantStatus :: "tenant_op_env \<Rightarrow> OBTenant \<Rightarrow> unit tenant_io" where
  "op_updateTenantStatus env t = api (\<lambda>h. update_tenant_status env h t) (UpdateTenantStatus (Name t) t)"

text \<open>\<^verbatim>\<open>tenant.Status = obj.Status\<close>.\<close>

definition with_status_of :: "OBTenant \<Rightarrow> OBTenant \<Rightarrow> OBTenant" where
  "with_status_of obj t = t\<lparr>Status := Status obj, Ctx := Ctx obj, TenantStatus_Pools := TenantStatus_Pools obj,
     TenantStatus_TenantRecordInfo := TenantStatus_TenantRecordInfo obj, TenantStatus_TenantRole := TenantStatus_TenantRole obj,
     TenantStatus_Source := TenantStatus_Source obj, TenantStatus_Credentials := TenantStatus_Credentials obj,
     TenantStatus_Parameters := TenantStatus_Parameters obj, TenantStatus_Variables := TenantStatus_Variables obj\<rparr>"

text \<open>
  The updates of another resource are repeated on a conflict, each time on the object read
  again: \<^verbatim>\<open>retry.DefaultBackoff\<close> makes four attempts.
\<close>

definition retryUpdateTenant :: "tenant_op_env \<Rightarrow> OBTenantOperation \<Rightarrow> OBTenant \<Rightarrow> unit tenant_io" where
  "retryUpdateTenant env m obj =
     RetryOnConflict (top_conflict env) 3
       (bind_io (wrap_io ''get tenant'' (op_getTenant env m (Name obj))) (\<lambda>tenant.
          op_updateTenantStatus env (with_status_of obj tenant)))"

definition getTenantRootClient :: "tenant_op_env \<Rightarrow> OBTenantOperation \<Rightarrow> string \<Rightarrow> unit tenant_io" where
  "getTenantRootClient env m name =
     bind_io (wrap_io ''get tenant'' (op_getTenant env m name)) (\<lambda>_. wrap_io ''get oceanbase operation manager'' (tenantClient env))"

definition ChangeTenantRootPassword :: "tenant_op_env \<Rightarrow> OBTenantOperation \<Rightarrow> unit tenant_io" where
  "ChangeTenantRootPassword env m =
     bind_io (deref_io (TOp_ChangePwd m)) (\<lambda>(tenant, secretRef).
     bind_io (getTenantRootClient env m tenant) (\<lambda>_.
     bind_io (api (\<lambda>h. read_password env h secretRef) (ReadPassword secretRef)) (\<lambda>pwd.
     bind_io (db_ChangeTenantUserPassword env ''root'' pwd) (\<lambda>_.
       RetryOnConflict (top_conflict env) 3
         (bind_io (wrap_io ''get tenant'' (op_getTenant env m tenant)) (\<lambda>t.
            op_updateTenantStatus env
              (t\<lparr>TenantStatus_Credentials := (TenantStatus_Credentials t)\<lparr>Cred_Root := secretRef\<rparr>\<rparr>)))))))"

definition ActivateStandbyTenant :: "tenant_op_env \<Rightarrow> OBTenantOperation \<Rightarrow> unit tenant_io" where
  "ActivateStandbyTenant env m =
     bind_io (deref_io (TOpStatus_PrimaryTenant m)) (\<lambda>primary.
     bind_io (sysClient env ''get cluster sys client'') (\<lambda>_.
     bind_io (db_ActivateStandby env (TenantSpec_TenantName primary)) (\<lambda>_.
       RetryOnConflict (top_conflict env) 3
         (bind_io (deref_io (TOp_Failover m)) (\<lambda>standby.
          bind_io (wrap_io ''get tenant'' (op_getTenant env m standby)) (\<lambda>t.
            op_updateTenantStatus env (t\<lparr>TenantStatus_TenantRole := TenantRolePrimary\<rparr>)))))))"

primrec wait_activated :: "tenant_op_env \<Rightarrow> string \<Rightarrow> nat \<Rightarrow> unit tenant_io" where
  "wait_activated env name 0 = raise (OtherError ''wait for tenant status ready timeout'')"
| "wait_activated env name (Suc n) =
     bind_io (db_ListTenantWithName env name) (\<lambda>tenants.
       case tenants of
         [] \<Rightarrow> raise (OtherError ''tenant not found'')
       | t # _ \<Rightarrow>
           if col_str t ''tenant_type'' = ''USER'' \<and> col_str t ''tenant_role'' = ''PRIMARY'' \<and>
             col_str t ''switchover_status'' = ''NORMAL''
           then ret () else wait_activated env name n)"

text \<open>An error of creating the users is dropped.\<close>

definition CreateUsersForActivatedStandby :: "tenant_op_env \<Rightarrow> OBTenantOperation \<Rightarrow> unit tenant_io" where
  "CreateUsersForActivatedStandby env m =
     bind_io (deref_io (TOpStatus_PrimaryTenant m)) (\<lambda>primary.
     bind_io (sysClient env ''get cluster sys client'') (\<lambda>_.
     bind_io (wait_activated env (TenantSpec_TenantName primary) (op_retries env)) (\<lambda>_.
     bind_io (if TOp_Type m = TenantOpSwitchover
        then bind_io (deref_io (TOpStatus_SecondaryTenant m)) (\<lambda>t.
             bind_io (deref_io (TOp_Switchover m)) (\<lambda>(_, standby). ret (t\<lparr>Name := standby\<rparr>)))
        else bind_io (deref_io (TOp_Failover m)) (\<lambda>standby. ret (primary\<lparr>Name := standby\<rparr>))) (\<lambda>t.
       log_io (CreateUserWithCredentials env (t\<lparr>Namespace := Namespace m\<rparr>))))))"

text \<open>
  Waiting until the database shows the new role. When the retries are used up, the task goes on
  as if the role had changed.
\<close>

primrec wait_switched :: "tenant_op_env \<Rightarrow> string \<Rightarrow> string \<Rightarrow> string \<Rightarrow> nat \<Rightarrow> unit tenant_io" where
  "wait_switched env name role missing 0 = ret ()"
| "wait_switched env name role missing (Suc n) =
     bind_io (db_ListTenantWithName env name) (\<lambda>tenants.
       case tenants of
         [] \<Rightarrow> raise (OtherError missing)
       | t # _ \<Rightarrow>
           if col_str t ''tenant_role'' \<noteq> role \<or> col_str t ''switchover_status'' \<noteq> ''NORMAL''
           then wait_switched env name role missing n else ret ())"

text \<open>One tenant gets a role: in the database, then in the status of its resource.\<close>

definition record_role :: "tenant_op_env \<Rightarrow> OBTenantOperation \<Rightarrow> OBTenant \<Rightarrow> string \<Rightarrow> string \<Rightarrow> unit tenant_io" where
  "record_role env m t name role = retryUpdateTenant env m (t\<lparr>TenantStatus_TenantRole := role, Name := name\<rparr>)"

definition SwitchTenantsRole :: "tenant_op_env \<Rightarrow> OBTenantOperation \<Rightarrow> unit tenant_io" where
  "SwitchTenantsRole env m =
     bind_io (deref_io (TOpStatus_PrimaryTenant m)) (\<lambda>primary.
     bind_io (sysClient env ''get cluster sys client'') (\<lambda>_.
       if Status m = TenantOpRunning then
         bind_io (db_SwitchTenantRole env (TenantSpec_TenantName primary) ''STANDBY'') (\<lambda>_.
         bind_io (wait_switched env (TenantSpec_TenantName primary) ''STANDBY'' ''primary tenant not found'' (op_retries env)) (\<lambda>_.
         bind_io (deref_io (TOp_Switchover m)) (\<lambda>(primaryName, standbyName).
         bind_io (record_role env m primary primaryName TenantRoleStandby) (\<lambda>_.
         bind_io (deref_io (TOpStatus_SecondaryTenant m)) (\<lambda>standby.
         bind_io (db_SwitchTenantRole env (TenantSpec_TenantName standby) ''PRIMARY'') (\<lambda>_.
         bind_io (wait_switched env (TenantSpec_TenantName standby) ''PRIMARY'' ''standby tenant not found'' (op_retries env)) (\<lambda>_.
           record_role env m standby standbyName TenantRolePrimary)))))))
       else if Status m = TenantOpReverting then
         bind_io (db_SwitchTenantRole env (TenantSpec_TenantName primary) ''PRIMARY'') (\<lambda>_.
         bind_io (deref_io (TOp_Switchover m)) (\<lambda>(primaryName, standbyName).
         bind_io (record_role env m primary primaryName TenantRolePrimary) (\<lambda>_.
         bind_io (deref_io (TOpStatus_SecondaryTenant m)) (\<lambda>standby.
         bind_io (db_SwitchTenantRole env (TenantSpec_TenantName standby) ''STANDBY'') (\<lambda>_.
           record_role env m standby standbyName TenantRoleStandby)))))
       else ret ()))"

definition SetTenantLogRestoreSource :: "tenant_op_env \<Rightarrow> OBTenantOperation \<Rightarrow> unit tenant_io" where
  "SetTenantLogRestoreSource env m =
     (if Status m = TenantOpRunning then
        bind_io (deref_io (TOpStatus_SecondaryTenant m)) (\<lambda>standby.
        bind_io (deref_io (TOp_Switchover m)) (\<lambda>(primaryName, standbyName).
        bind_io (CreateUserWithCredentials env (standby\<lparr>Name := standbyName, Namespace := Namespace m\<rparr>)) (\<lambda>_.
        bind_io (deref_io (TOpStatus_PrimaryTenant m)) (\<lambda>primary.
        bind_io (sysClient env ''get cluster sys client'') (\<lambda>_.
        bind_io (GetTenantRestoreSource env (Namespace m) standbyName) (\<lambda>restoreSource.
          db_SetParameter env ''LOG_RESTORE_SOURCE'' (SQL_Str restoreSource)
            (Some (''TENANT'', SQL_Str (TenantSpec_TenantName primary)))))))))
      else ret ())"

definition UpgradeTenant :: "tenant_op_env \<Rightarrow> OBTenantOperation \<Rightarrow> unit tenant_io" where
  "UpgradeTenant env m =
     bind_io (deref_io (TOpStatus_PrimaryTenant m)) (\<lambda>targetTenant.
     bind_io (sysClient env ''get cluster sys client'') (\<lambda>_.
     bind_io (db_SelectCompatibleOfTenants env) (\<lambda>compatibles.
       let tenantID = Info_TenantID (TenantStatus_TenantRecordInfo targetTenant);
           sysCompatible = compatible_of compatibles 1; restoredCompatible = compatible_of compatibles tenantID
       in if ''4.1.0.0'' \<le> sysCompatible \<and> restoredCompatible < sysCompatible
          then bind_io (db_UpgradeTenantWithName env (TenantSpec_TenantName targetTenant))
                 (\<lambda>_. wait_compatible env tenantID sysCompatible (upgrade_rounds env))
          else if sysCompatible < ''4.1.0.0''
          then raise (OtherError ''The cluster is of version less than 4.1.0.0, which does not support tenant upgrade'')
          else if sysCompatible \<le> restoredCompatible
          then raise (OtherError ''The version of target tenant is greater than the cluster'')
          else ret ())))"

definition ReplayLogOfStandby :: "tenant_op_env \<Rightarrow> OBTenantOperation \<Rightarrow> unit tenant_io" where
  "ReplayLogOfStandby env m =
     bind_io (deref_io (TOpStatus_PrimaryTenant m)) (\<lambda>targetTenant.
       if TenantStatus_TenantRole targetTenant \<noteq> TenantRoleStandby
       then raise (OtherError ''The target tenant is not standby'')
       else bind_io (sysClient env ''get cluster sys client'')
              (\<lambda>_. replay_log env (TenantSpec_TenantName targetTenant) (TOp_ReplayUntil m)))"

text \<open>The pools of the specification after a modification or a deletion.\<close>

definition modified_pools :: "ResourcePoolSpec list \<Rightarrow> ResourcePoolSpec list \<Rightarrow> ResourcePoolSpec list" where
  "modified_pools changes pools =
     map (\<lambda>pool. case map_of (rev (map (\<lambda>p. (Pool_Zone p, p)) changes)) (Pool_Zone pool) of None \<Rightarrow> pool | Some p \<Rightarrow> p) pools"

definition remaining_pools :: "string list \<Rightarrow> ResourcePoolSpec list \<Rightarrow> ResourcePoolSpec list" where
  "remaining_pools deleted pools = filter (\<lambda>pool. Pool_Zone pool \<notin> set deleted) pools"

definition changed_tenant :: "OBTenantOperation \<Rightarrow> OBTenant \<Rightarrow> OBTenant" where
  "changed_tenant m t =
     (if TOp_Type m = ''SET_UNIT_NUMBER'' then t\<lparr>TenantSpec_UnitNumber := TOp_UnitNumber m\<rparr>
      else if TOp_Type m = ''SET_CONNECT_WHITE_LIST'' then t\<lparr>TenantSpec_ConnectWhiteList := TOp_ConnectWhiteList m\<rparr>
      else if TOp_Type m = ''ADD_RESOURCE_POOLS'' then t\<lparr>TenantSpec_Pools := TenantSpec_Pools t @ TOp_AddResourcePools m\<rparr>
      else if TOp_Type m = ''MODIFY_RESOURCE_POOLS''
      then t\<lparr>TenantSpec_Pools := modified_pools (TOp_ModifyResourcePools m) (TenantSpec_Pools t)\<rparr>
      else if TOp_Type m = ''DELETE_RESOURCE_POOLS''
      then t\<lparr>TenantSpec_Pools := remaining_pools (TOp_DeleteResourcePools m) (TenantSpec_Pools t)\<rparr>
      else t)"

primrec wait_tenant_status ::
  "tenant_op_env \<Rightarrow> OBTenantOperation \<Rightarrow> string \<Rightarrow> (OBTenant \<Rightarrow> bool) \<Rightarrow> nat \<Rightarrow> unit tenant_io" where
  "wait_tenant_status env m target matcher 0 = raise (OtherError ''wait for tenant to be in desired status timeout'')"
| "wait_tenant_status env m target matcher (Suc n) =
     bind_io (wrap_io ''get tenant'' (op_getTenant env m target)) (\<lambda>tenant.
       if matcher tenant then ret () else wait_tenant_status env m target matcher n)"

definition waitForOBTenantToBeStatus ::
  "tenant_op_env \<Rightarrow> OBTenantOperation \<Rightarrow> nat \<Rightarrow> (OBTenant \<Rightarrow> bool) \<Rightarrow> unit tenant_io" where
  "waitForOBTenantToBeStatus env m waitSeconds matcher =
     (case TOp_TargetTenant m of
        None \<Rightarrow> raise (OtherError ''target tenant is nil'')
      | Some target \<Rightarrow> wait_tenant_status env m target matcher waitSeconds)"

text \<open>
  The patch carries the difference between \<^verbatim>\<open>origin\<close>, copied after a forced operation has
  changed the status in memory, and the changed tenant.
\<close>

definition UpdateOBTenantResource :: "tenant_op_env \<Rightarrow> OBTenantOperation \<Rightarrow> unit tenant_io" where
  "UpdateOBTenantResource env m =
     bind_io (deref_io (TOp_TargetTenant m)) (\<lambda>target.
     bind_io (op_getTenant env m target) (\<lambda>obtenant.
     bind_io (if TOp_Force m then ret (obtenant\<lparr>Status := tenantstatus_Running, Ctx := None\<rparr>)
              else if Status obtenant \<noteq> tenantstatus_Running then raise (OtherError ''obtenant is not running'')
              else ret obtenant) (\<lambda>origin.
     bind_io (api (\<lambda>h. patch_tenant env h origin (changed_tenant m origin)) (PatchTenant origin (changed_tenant m origin))) (\<lambda>changed.
       if \<not> changed then ret ()
       else waitForOBTenantToBeStatus env m (state_rounds env) (\<lambda>t. Status t \<noteq> tenantstatus_Running)))))"

definition WaitForOBTenantReturnRunning :: "tenant_op_env \<Rightarrow> OBTenantOperation \<Rightarrow> unit tenant_io" where
  "WaitForOBTenantReturnRunning env m =
     waitForOBTenantToBeStatus env m (state_rounds env) (\<lambda>t. Status t = tenantstatus_Running)"

section \<open>The manager keeps the coordinator's contract\<close>

definition operation_failure :: "string \<Rightarrow> string \<Rightarrow> OperationContext \<Rightarrow> flow_state" where
  "operation_failure failed s c =
     (case Strategy (OnFailure c) of
        StartOver \<Rightarrow> start_over s c
      | RetryFromCurrent \<Rightarrow> (s, Some (c\<lparr>TaskStatus := Pending\<rparr>))
      | Pause \<Rightarrow> (s, Some c)
      | _ \<Rightarrow> (if NextTryStatus (OnFailure c) = [] then failed else NextTryStatus (OnFailure c), None))"

lemma operation_handles:
  assumes "Ctx m = Some a" "a < length h"
  shows "operation_failure_switch failed h m = lift_failure (failure_keeping_status (operation_failure failed) m) h m"
  using assms start_over_switch_lift [OF assms]
  by (auto simp: operation_failure_switch_def lift_failure_def failure_keeping_status_def operation_failure_def
      leave_flow_def put_ctx_same split: TaskFailureStrategy.splits)

text \<open>
  The contract of a standard manager does not hold, in particular its part about creating flows:
  the status \<^verbatim>\<open>STARTING\<close> makes \<^verbatim>\<open>GetTaskFlow\<close> panic.
\<close>

interpretation oto: resource_manager "ObTenantOperationManager env" TenantOpRunning "''Failed''"
  "failure_keeping_status (operation_failure TenantOpFailed)" for env
  by unfold_locales
    (auto simp: ObTenantOperationManager_def ObTenantOperationManager_ClearTaskInfo_def
      ObTenantOperationManager_ArchiveResource_def ObTenantOperationManager_FinishTask_def
      ObTenantOperationManager_HandleFailure_def operation_handles ObTenantOperationManager_GetTaskFlow_def)

section \<open>Programs that execute no statement\<close>

abbreviation silent :: "('k event, 'a) io \<Rightarrow> bool" where
  "silent \<equiv> emits_none statement_of"

lemma silentD: "silent f \<Longrightarrow> f h = (r, h') \<Longrightarrow> \<exists>es. h' = h @ es \<and> executed es = []"
  using emits_noneD [of statement_of f h r h'] by (simp add: executed_def)

lemma silent_queries [io_silent]:
  "silent (QueryList env sql params)" "silent (QueryRow env sql params)" "silent (QueryCount env sql params)"
  by (auto simp: QueryList_def QueryRow_def QueryCount_def intro!: io_silent)

lemma silent_clients [io_silent]: "silent (sysClient env msg)" "silent (tenantClient env)" "silent (api answer call)"
  by (auto simp: sysClient_def tenantClient_def api_def intro!: io_silent)

lemma silent_wait_switched [io_silent]: "silent (wait_switched env name role missing n)"
  by (induction n) (auto simp: db_ListTenantWithName_def intro!: io_silent split: list.split)

lemma silent_record_role [io_silent]: "silent (record_role env m t name role)"
  by (auto simp: record_role_def retryUpdateTenant_def op_getTenant_def op_updateTenantStatus_def
      simp del: RetryOnConflict.simps intro!: io_silent retry_silent)

text \<open>
  The statements of a program are a prefix of \<open>sqls\<close>, the one after the first only follows when it
  succeeded, and all have been executed when the program goes well.
\<close>

definition succeeded :: "string \<Rightarrow> 'k event list \<Rightarrow> bool" where
  "succeeded sql es \<longleftrightarrow> (\<exists>timeout params. Executed timeout sql params (Inr ()) \<in> set es)"

lemma succeeded_simps [simp]:
  "succeeded sql (es @ es') \<longleftrightarrow> succeeded sql es \<or> succeeded sql es'"
  "succeeded sql (Executed timeout sql' params (Inr ()) # es) \<longleftrightarrow> sql = sql' \<or> succeeded sql es"
  by (auto simp: succeeded_def)

definition executes_in_order :: "string list \<Rightarrow> ('k event, unit) io \<Rightarrow> bool" where
  "executes_in_order sqls f \<longleftrightarrow>
     (\<forall>h. \<exists>es. snd (f h) = h @ es \<and> prefix (executed es) sqls \<and>
        (fst (f h) = Ok () \<longrightarrow> executed es = sqls) \<and>
        (\<forall>sql \<in> set (butlast (executed es)). succeeded sql es))"

lemma executes_silent: "silent f \<Longrightarrow> executes_in_order [] f"
  unfolding emits_none_def executes_in_order_def executed_def [symmetric] by fastforce

lemma executes_after_silent:
  assumes "silent f" "\<And>x. executes_in_order sqls (g x)"
  shows "executes_in_order sqls (bind_io f g)"
  unfolding executes_in_order_def
proof
  fix h
  obtain r h1 where run: "f h = (r, h1)" by force
  then obtain es where es: "h1 = h @ es" "executed es = []" using silentD [OF assms(1)] by blast
  show "\<exists>es. snd (bind_io f g h) = h @ es \<and> prefix (executed es) sqls \<and> (fst (bind_io f g h) = Ok () \<longrightarrow> executed es = sqls) \<and>
      (\<forall>sql \<in> set (butlast (executed es)). succeeded sql es)"
  proof (cases r)
    case (Ok x)
    from assms(2) [of x] obtain es' where "snd (g x h1) = h1 @ es'" "prefix (executed es') sqls"
      "fst (g x h1) = Ok () \<longrightarrow> executed es' = sqls"
      "\<forall>sql \<in> set (butlast (executed es')). succeeded sql es'"
      unfolding executes_in_order_def by blast
    with run Ok es show ?thesis by (intro exI [of _ "es @ es'"]) (auto simp: bind_io_def)
  qed (use run es in \<open>auto simp: bind_io_def\<close>)
qed

lemma executes_statement:
  assumes "\<And>x. executes_in_order sqls (g x)"
  shows "executes_in_order (sql # sqls) (bind_io (ExecWithTimeout env timeout sql params) g)"
  unfolding executes_in_order_def
proof
  fix h
  let ?f = "bind_io (ExecWithTimeout env timeout sql params) g" and ?e = "Executed timeout sql params"
  show "\<exists>es. snd (?f h) = h @ es \<and> prefix (executed es) (sql # sqls) \<and> (fst (?f h) = Ok () \<longrightarrow> executed es = sql # sqls) \<and>
      (\<forall>sql \<in> set (butlast (executed es)). succeeded sql es)"
  proof (cases "conn_exec env h sql params")
    case (Inr u)
    let ?h = "h @ [?e (Inr ())]"
    from assms [of "()"] obtain es' where "snd (g () ?h) = ?h @ es'" "prefix (executed es') sqls"
      "fst (g () ?h) = Ok () \<longrightarrow> executed es' = sqls"
      "\<forall>sql \<in> set (butlast (executed es')). succeeded sql es'"
      unfolding executes_in_order_def by blast
    with Inr show ?thesis
      by (intro exI [of _ "?e (Inr ()) # es'"]) (auto simp: bind_io_def ExecWithTimeout_def perform_def wrap_io_def)
  next
    case (Inl err)
    then show ?thesis
      by (intro exI [of _ "[?e (Inl err)]"]) (auto simp: bind_io_def ExecWithTimeout_def perform_def wrap_io_def)
  qed
qed

section \<open>Properties\<close>

text \<open>
  C22. A switchover demotes before it promotes. Whatever the database answers, the statements
  of \<^verbatim>\<open>SwitchTenantsRole\<close> in a running operation are a prefix of demoting the primary and then
  promoting the standby, the promotion follows only when the demotion succeeded, and both have
  been executed when the task succeeds. In a reverting operation the order is the other one:
  the old primary is promoted first, the standby demoted afterwards.
\<close>

theorem switchover_statements:
  assumes "TOpStatus_PrimaryTenant m = Some primary" "TOpStatus_SecondaryTenant m = Some standby"
  shows "(Status m = TenantOpRunning \<longrightarrow>
      executes_in_order [sql_SwitchTenantRole ''STANDBY'' (TenantSpec_TenantName primary),
        sql_SwitchTenantRole ''PRIMARY'' (TenantSpec_TenantName standby)] (SwitchTenantsRole env m)) \<and>
    (Status m = TenantOpReverting \<longrightarrow>
      executes_in_order [sql_SwitchTenantRole ''PRIMARY'' (TenantSpec_TenantName primary),
        sql_SwitchTenantRole ''STANDBY'' (TenantSpec_TenantName standby)] (SwitchTenantsRole env m))"
proof -
  have role: "db_SwitchTenantRole env name ''PRIMARY'' = ExecWithTimeout env DefaultSqlTimeout (sql_SwitchTenantRole ''PRIMARY'' name) []"
    "db_SwitchTenantRole env name ''STANDBY'' = ExecWithTimeout env DefaultSqlTimeout (sql_SwitchTenantRole ''STANDBY'' name) []" for name
    by (simp_all add: db_SwitchTenantRole_def ExecWithDefaultTimeout_def)
  have deref [simp]: "deref_io (Some x) = ret x" for x :: OBTenant by (simp add: deref_io_def)
  show ?thesis
    unfolding SwitchTenantsRole_def role assms
    by (auto split: prod.split intro!: executes_after_silent executes_statement executes_silent io_silent)
qed

definition switchover_operation :: "string \<Rightarrow> OBTenantOperation" where
  "switchover_operation s = \<lparr>Name = ''op1'', Namespace = ''oceanbase'', Annotations = Map.empty, Labels = Map.empty,
     Finalizers = [], DeletionTimestamp = None, Status = s, Ctx = None, TOp_Type = TenantOpSwitchover,
     TOp_Switchover = Some (''t1'', ''t2''), TOp_Failover = None, TOp_ChangePwd = None, TOp_ReplayUntil = None,
     TOp_TargetTenant = None, TOp_AuxiliaryTenant = None, TOp_Force = False, TOp_UnitNumber = 0, TOp_ConnectWhiteList = [],
     TOp_Charset = [], TOp_ModifyResourcePools = [], TOp_AddResourcePools = [], TOp_DeleteResourcePools = [],
     TOpStatus_PrimaryTenant = Some small_tenant, TOpStatus_SecondaryTenant = Some (small_tenant\<lparr>TenantSpec_TenantName := ''t2''\<rparr>)\<rparr>"

definition quiet_op_env :: tenant_op_env where
  "quiet_op_env = task_env.extend quiet_env (tenant_op_env.fields (\<lambda>_. Inr small_tenant) (Inl NotFound) (\<lambda>m. (m, None))
     (\<lambda>_ _. Inr ()) (\<lambda>_ _ _. Inr True) 0 3 (\<lambda>_. False) (\<lambda>_ _ out. out = Returns None))"

theorem switchover_statements_witness:
  "\<exists>es. snd (SwitchTenantsRole quiet_op_env (switchover_operation TenantOpRunning) []) = es \<and>
    prefix (executed es) [sql_SwitchTenantRole ''STANDBY'' ''t1'', sql_SwitchTenantRole ''PRIMARY'' ''t2'']"
  using switchover_statements [of "switchover_operation TenantOpRunning" small_tenant
      "small_tenant\<lparr>TenantSpec_TenantName := ''t2''\<rparr>" quiet_op_env]
  by (auto simp: switchover_operation_def executes_in_order_def small_tenant_def dest: spec [of _ "[]"])

text \<open>
  A switchover whose standby tenant cannot be read starts nevertheless. The error of the
  second read is lost, the operation is running without its tenants, and the first task
  panics before it has done anything.
\<close>

theorem switchover_without_standby_panics:
  assumes "TOp_Type m = TenantOpSwitchover" "TOp_Switchover m = Some (primaryName, standbyName)"
    and "tapi_tenant env primaryName = Inr t" "tapi_tenant env standbyName = Inl err"
    and "TOpStatus_PrimaryTenant m = None"
  shows "\<exists>m'. ObTenantOperationManager_InitStatus env m = Some m' \<and> Status m' = TenantOpRunning \<and>
    tenant_op_flow_for (Status m') (TOp_Type m') = Some (Inr (Some genSwitchoverTenantsFlow)) \<and>
    SwitchTenantsRole env m' h = (Panic, h)"
  using assms
  by (simp add: ObTenantOperationManager_InitStatus_def init_tenants_def getTenantCR_def tenant_op_flow_for_def
      SwitchTenantsRole_def io_defs)

theorem switchover_without_standby_panics_witness:
  "\<exists>m'. ObTenantOperationManager_InitStatus (quiet_op_env\<lparr>tapi_tenant := (\<lambda>_. Inl NotFound)(''t1'' := Inr small_tenant)\<rparr>)
      ((switchover_operation [])\<lparr>TOpStatus_PrimaryTenant := None\<rparr>) = Some m' \<and> Status m' = TenantOpRunning"
  using switchover_without_standby_panics [of "(switchover_operation [])\<lparr>TOpStatus_PrimaryTenant := None\<rparr>" "''t1''" "''t2''"
      "quiet_op_env\<lparr>tapi_tenant := (\<lambda>_. Inl NotFound)(''t1'' := Inr small_tenant)\<rparr>" small_tenant NotFound "[]"]
  by (auto simp: switchover_operation_def)

end
