(* ===== verification/OBBackup.thy ===== *)
theory OBBackup
  imports OBTenantOperation
begin

text \<open>
  The manager of backup jobs, \<^verbatim>\<open>internal/resource/obtenantbackup\<close>: a job resource starts one
  backup in the database and follows its state.
\<close>

section \<open>The resource\<close>

record OBTenantBackup = Resource +
  BJ_Type :: string
  BJ_TenantName :: string
  BJ_TenantSecret :: string
  BJ_ObClusterName :: string
  BJ_Path :: string
  BJ_EncryptionSecret :: string
  BJ_StartedAt :: string
  BJ_EndedAt :: string
  BJ_BackupJob :: "row option"
  BJ_ArchiveLogJob :: "row option"
  BJ_DataCleanJob :: "row option"

abbreviation "BackupJobTypeFull \<equiv> ''FULL''"
abbreviation "BackupJobTypeIncr \<equiv> ''INC''"
abbreviation "BackupJobTypeClean \<equiv> ''CLEAN''"
abbreviation "BackupJobTypeArchive \<equiv> ''ARCHIVE''"

abbreviation "BackupJobStatusRunning \<equiv> ''RUNNING''"
abbreviation "BackupJobStatusInitializing \<equiv> ''INITIALIZING''"
abbreviation "BackupJobStatusSuccessful \<equiv> ''SUCCESSFUL''"
abbreviation "BackupJobStatusFailed \<equiv> ''FAILED''"
abbreviation "BackupJobStatusCanceled \<equiv> ''CANCELED''"
abbreviation "BackupJobStatusStopped \<equiv> ''STOPPED''"
abbreviation "BackupJobStatusSuspend \<equiv> ''SUSPEND''"

text \<open>A column that may be null.\<close>

definition col_opt :: "row \<Rightarrow> string \<Rightarrow> string option" where
  "col_opt r c = (case map_of r c of Some (SQL_Str s) \<Rightarrow> Some s | _ \<Rightarrow> None)"

definition genCreateBackupJobInDBFlow :: OperationContext where
  "genCreateBackupJobInDBFlow =
     new_context ''create backup job in ob'' [''create backup job in ob''] ''RUNNING'' (zero_rule\<lparr>Strategy := StartOver\<rparr>)"

definition obtenantbackup_taskMap :: "(TaskName \<Rightarrow> 'm TypedTaskFunc) \<Rightarrow> 'm TaskHub" where
  "obtenantbackup_taskMap body = register_all body [''create backup job in ob''] NewTaskHub"

section \<open>Interactions of backup resources\<close>

datatype backup_api =
    GetTenantOfPolicy "OBTenant result"
  | ReadBackupPassword string "string result"
  | ReadBackupSecret string "(string \<times> string) list result"
  | ListBackupJobs string "OBTenantBackup list result"
  | CreateBackupJob OBTenantBackup "unit result"
  | DeleteBackupJob string "unit result"

type_synonym blog = "backup_api event list"
type_synonym 'a backup_io = "(backup_api event, 'a) io"

text \<open>
  Points in time are nanoseconds. The clock, the parsing and printing of times and the next
  time of a schedule are parameters, as are the answers of the API server.
\<close>

record backup_env = "backup_api sdk_env" +
  b_connect :: "blog \<Rightarrow> unit result"
  b_get_tenant :: "blog \<Rightarrow> OBTenant result"
  b_get_cluster :: "OBCluster result"
  b_read_password :: "blog \<Rightarrow> string \<Rightarrow> string result"
  b_read_secret :: "blog \<Rightarrow> string \<Rightarrow> (string \<times> string) list result"
  b_list_jobs :: "blog \<Rightarrow> string \<Rightarrow> OBTenantBackup list result"
  b_create_job :: "blog \<Rightarrow> OBTenantBackup \<Rightarrow> unit result"
  b_delete_job :: "blog \<Rightarrow> string \<Rightarrow> unit result"
  b_now :: int
  b_stamp :: string
  b_uid :: string
  parse_time :: "string \<Rightarrow> int result"
  format_time :: "int \<Rightarrow> string"
  cron :: "string \<Rightarrow> (int \<Rightarrow> int) result"
  bapi_backup :: "OBTenantBackup result"
  bstatus_Update :: "OBTenantBackup \<Rightarrow> error option"
  backup_task :: "TaskName \<Rightarrow> OBTenantBackup TypedTaskFunc"

definition b_api :: "(blog \<Rightarrow> 'a result) \<Rightarrow> ('a result \<Rightarrow> backup_api) \<Rightarrow> 'a backup_io" where
  "b_api answer call = perform answer (\<lambda>r. ApiCall (call r))"

definition getObOperationClient :: "'x backup_env_scheme \<Rightarrow> unit backup_io" where
  "getObOperationClient env = wrap_io ''get oceanbase operation manager'' (perform (b_connect env) TenantConnected)"

section \<open>Following a job\<close>

definition job_status :: "(string \<times> string) list \<Rightarrow> string \<Rightarrow> row \<Rightarrow> string" where
  "job_status table s job = (case map_of table (col_str job ''status'') of None \<Rightarrow> s | Some t \<Rightarrow> t)"

definition ended_at :: "OBTenantBackup \<Rightarrow> row \<Rightarrow> string" where
  "ended_at m job = (case col_opt job ''end_timestamp'' of None \<Rightarrow> BJ_EndedAt m | Some t \<Rightarrow> t)"

text \<open>
  The job is found by its number once it is known, otherwise the latest one of its type is
  taken; a missing one is dereferenced then.
\<close>

definition find_backup_job :: "backup_env \<Rightarrow> OBTenantBackup \<Rightarrow> row backup_io" where
  "find_backup_job env m =
     (case BJ_BackupJob m of
        None \<Rightarrow>
          if BJ_Type m = BackupJobTypeFull \<or> BJ_Type m = BackupJobTypeIncr
          then bind_io (db_GetLatestBackupJobOfType env (BJ_Type m)) deref_io
          else panic
      | Some job \<Rightarrow>
          bind_io (db_GetBackupJobWithId env (col_int job ''job_id'')) (\<lambda>modelJob.
            case modelJob of None \<Rightarrow> raise (OtherError ''backup job with id not found'') | Some j \<Rightarrow> ret j))"

definition maintainRunningBackupJob :: "backup_env \<Rightarrow> OBTenantBackup \<Rightarrow> OBTenantBackup backup_io" where
  "maintainRunningBackupJob env m =
     bind_io (getObOperationClient env) (\<lambda>_.
     bind_io (find_backup_job env m) (\<lambda>targetJob.
       ret (m\<lparr>BJ_BackupJob := Some targetJob, BJ_StartedAt := col_str targetJob ''start_timestamp'',
         BJ_EndedAt := ended_at m targetJob,
         Status := job_status [(''COMPLETED'', BackupJobStatusSuccessful), (''FAILED'', BackupJobStatusFailed),
           (''CANCELED'', BackupJobStatusCanceled)] (Status m) targetJob\<rparr>)))"

definition maintainRunningBackupCleanJob :: "backup_env \<Rightarrow> OBTenantBackup \<Rightarrow> OBTenantBackup backup_io" where
  "maintainRunningBackupCleanJob env m =
     bind_io (getObOperationClient env) (\<lambda>_.
     bind_io (db_GetLatestBackupCleanJob env) (\<lambda>latest.
       ret (case latest of
              None \<Rightarrow> m
            | Some job \<Rightarrow> m\<lparr>BJ_DataCleanJob := Some job, BJ_StartedAt := col_str job ''start_timestamp'',
                BJ_EndedAt := ended_at m job,
                Status := job_status [(''COMPLETED'', BackupJobStatusSuccessful), (''FAILED'', BackupJobStatusFailed),
                  (''CANCELED'', BackupJobStatusCanceled), (''DOING'', BackupJobStatusRunning)] (Status m) job\<rparr>)))"

definition maintainRunningArchiveLogJob :: "backup_env \<Rightarrow> OBTenantBackup \<Rightarrow> OBTenantBackup backup_io" where
  "maintainRunningArchiveLogJob env m =
     bind_io (getObOperationClient env) (\<lambda>_.
     bind_io (db_GetLatestArchiveLogJob env) (\<lambda>latest.
       ret (case latest of
              None \<Rightarrow> m
            | Some job \<Rightarrow> m\<lparr>BJ_ArchiveLogJob := Some job,
                BJ_StartedAt := (case col_opt job ''start_scn_display'' of None \<Rightarrow> BJ_StartedAt m | Some t \<Rightarrow> t),
                BJ_EndedAt := col_str job ''checkpoint_scn_display'',
                Status := job_status [(''STOP'', BackupJobStatusStopped), (''DOING'', BackupJobStatusRunning),
                  (''SUSPEND'', BackupJobStatusSuspend)] (Status m) job\<rparr>)))"

section \<open>The resource manager\<close>

definition OBTenantBackupManager_InitStatus :: "OBTenantBackup \<Rightarrow> OBTenantBackup option" where
  "OBTenantBackupManager_InitStatus m =
     Some (if BJ_Type m = BackupJobTypeFull \<or> BJ_Type m = BackupJobTypeIncr
           then m\<lparr>Status := BackupJobStatusInitializing\<rparr>
           else if BJ_Type m = BackupJobTypeArchive \<or> BJ_Type m = BackupJobTypeClean
           then m\<lparr>Status := BackupJobStatusRunning\<rparr>
           else m)"

definition OBTenantBackupManager_CheckAndUpdateFinalizers :: "OBTenantBackup \<Rightarrow> OBTenantBackup \<times> error option" where
  "OBTenantBackupManager_CheckAndUpdateFinalizers m = (m, None)"

definition OBTenantBackupManager_ClearTaskInfo :: "OBTenantBackup \<Rightarrow> OBTenantBackup" where
  "OBTenantBackupManager_ClearTaskInfo m = leave_flow BackupJobStatusRunning m"

definition OBTenantBackupManager_FinishTask :: "ctx_heap \<Rightarrow> OBTenantBackup \<Rightarrow> OBTenantBackup option" where
  "OBTenantBackupManager_FinishTask h m = finish_flow h m"

definition OBTenantBackupManager_ArchiveResource :: "OBTenantBackup \<Rightarrow> OBTenantBackup" where
  "OBTenantBackupManager_ArchiveResource m = leave_flow ''Failed'' m"

text \<open>The switch that the managers of backup jobs and backup policies share.\<close>

definition backup_failure_switch ::
  "ctx_heap \<Rightarrow> 'a Resource_scheme \<Rightarrow> (ctx_heap \<times> 'a Resource_scheme) option" where
  "backup_failure_switch h m =
     (if DeletionTimestamp m \<noteq> None then Some (h, m\<lparr>Ctx := None\<rparr>)
      else do {
        c \<leftarrow> deref h (Ctx m);
        Some (case Strategy (OnFailure c) of
                NoStrategy \<Rightarrow> start_over_switch h c m
              | StartOver \<Rightarrow> start_over_switch h c m
              | RetryFromCurrent \<Rightarrow> (put_ctx (Ctx m) (c\<lparr>TaskStatus := Pending\<rparr>) h, m)
              | _ \<Rightarrow> (h, m)) })"

definition OBTenantBackupManager_HandleFailure :: "ctx_heap \<Rightarrow> OBTenantBackup \<Rightarrow> (ctx_heap \<times> OBTenantBackup) option" where
  "OBTenantBackupManager_HandleFailure h m = backup_failure_switch h m"

definition OBTenantBackupManager_retryUpdateStatus :: "backup_env \<Rightarrow> OBTenantBackup \<Rightarrow> error option" where
  "OBTenantBackupManager_retryUpdateStatus env m =
     (case bapi_backup env of
        Inl err \<Rightarrow> IgnoreNotFound err
      | Inr b \<Rightarrow> bstatus_Update env (b\<lparr>Status := Status m, Ctx := Ctx m, BJ_StartedAt := BJ_StartedAt m,
          BJ_EndedAt := BJ_EndedAt m, BJ_BackupJob := BJ_BackupJob m, BJ_ArchiveLogJob := BJ_ArchiveLogJob m,
          BJ_DataCleanJob := BJ_DataCleanJob m\<rparr>))"

definition OBTenantBackupManager_UpdateStatus ::
  "backup_env \<Rightarrow> OBTenantBackup \<Rightarrow> (OBTenantBackup \<times> error option) option" where
  "OBTenantBackupManager_UpdateStatus env m = do {
     answer \<leftarrow> run_db
       (if BJ_Type m = BackupJobTypeFull \<or> BJ_Type m = BackupJobTypeIncr
        then if Status m = BackupJobStatusRunning then maintainRunningBackupJob env m else ret m
        else if BJ_Type m = BackupJobTypeArchive then maintainRunningArchiveLogJob env m
        else if BJ_Type m = BackupJobTypeClean then maintainRunningBackupCleanJob env m
        else ret m);
     Some (case answer of
             Inl err \<Rightarrow> (m, Some err)
           | Inr m' \<Rightarrow> (m', OBTenantBackupManager_retryUpdateStatus env m')) }"

definition OBTenantBackupManager_GetTaskFunc :: "backup_env \<Rightarrow> TaskName \<Rightarrow> OBTenantBackup \<Rightarrow> TaskFunc result" where
  "OBTenantBackupManager_GetTaskFunc env name m = GetTask (obtenantbackup_taskMap (backup_task env)) name m"

definition OBTenantBackupManager_GetTaskFlow ::
  "ctx_heap \<Rightarrow> OBTenantBackup \<Rightarrow> (ctx_heap \<times> TaskFlow option result) option" where
  "OBTenantBackupManager_GetTaskFlow h m =
     (case Ctx m of
        Some a \<Rightarrow> Some (h, Inr (Some (Some a)))
      | None \<Rightarrow>
          if Status m = BackupJobStatusInitializing \<and> (BJ_Type m = BackupJobTypeFull \<or> BJ_Type m = BackupJobTypeIncr)
          then Some (new_flow h genCreateBackupJobInDBFlow)
          else Some (h, Inr None))"

definition OBTenantBackupManager :: "backup_env \<Rightarrow> OBTenantBackup ResourceManager" where
  "OBTenantBackupManager env =
     \<lparr>GetMeta = ObjectMeta.truncate, GetStatus = Status, InitStatus = OBTenantBackupManager_InitStatus,
      SetOperationContext = (\<lambda>p m. m\<lparr>Ctx := p\<rparr>), ClearTaskInfo = OBTenantBackupManager_ClearTaskInfo,
      HandleFailure = OBTenantBackupManager_HandleFailure, FinishTask = OBTenantBackupManager_FinishTask,
      GetTaskFunc = OBTenantBackupManager_GetTaskFunc env, GetTaskFlow = OBTenantBackupManager_GetTaskFlow,
      CheckAndUpdateFinalizers = OBTenantBackupManager_CheckAndUpdateFinalizers,
      UpdateStatus = OBTenantBackupManager_UpdateStatus env, ArchiveResource = OBTenantBackupManager_ArchiveResource\<rparr>"

text \<open>The task. Problems with the encryption secret are only reported.\<close>

definition CreateBackupJobInOB :: "backup_env \<Rightarrow> OBTenantBackup \<Rightarrow> unit backup_io" where
  "CreateBackupJobInOB env m =
     (let secret = BJ_EncryptionSecret m
      in bind_io (getObOperationClient env) (\<lambda>_.
         bind_io (if secret = [] then ret ()
            else bind_io (catch_io (b_api (\<lambda>h. b_read_password env h secret) (ReadBackupPassword secret))) (\<lambda>password.
              case password of
                Inl err \<Rightarrow> ret ()
              | Inr pwd \<Rightarrow> if pwd \<noteq> [] then log_io (db_SetBackupPassword env pwd) else ret ())) (\<lambda>_.
         bind_io (db_CreateAndReturnBackupJob env (BJ_Type m)) (\<lambda>_. ret ()))))"

section \<open>The manager keeps the coordinator's contract\<close>

definition backup_failure :: "string \<Rightarrow> OperationContext \<Rightarrow> flow_state" where
  "backup_failure s c =
     (case Strategy (OnFailure c) of
        NoStrategy \<Rightarrow> start_over s c
      | StartOver \<Rightarrow> start_over s c
      | RetryFromCurrent \<Rightarrow> (s, Some (c\<lparr>TaskStatus := Pending\<rparr>))
      | _ \<Rightarrow> (s, Some c))"

lemma lawful_backup_failure [simp, intro]: "lawful backup_failure"
  by (auto simp: lawful_def backup_failure_def start_over_def split: TaskFailureStrategy.splits)

lemma backup_handles:
  assumes "Ctx m = Some a" "a < length h"
  shows "backup_failure_switch h m = lift_failure (failure_keeping_status backup_failure m) h m"
  using assms start_over_switch_lift [OF assms]
  by (auto simp: backup_failure_switch_def lift_failure_def failure_keeping_status_def backup_failure_def put_ctx_same
      split: TaskFailureStrategy.splits)

lemma backup_flow_fresh [simp]: "fresh_flow genCreateBackupJobInDBFlow"
  by (simp add: fresh_flow_def genCreateBackupJobInDBFlow_def)

interpretation ob: standard_manager "OBTenantBackupManager env" BackupJobStatusRunning "''Failed''"
  "failure_keeping_status backup_failure" for env
  by unfold_locales
    (auto simp: OBTenantBackupManager_def OBTenantBackupManager_ClearTaskInfo_def OBTenantBackupManager_ArchiveResource_def
      OBTenantBackupManager_FinishTask_def OBTenantBackupManager_HandleFailure_def backup_handles
      OBTenantBackupManager_GetTaskFlow_def creates_flow_def)

end
