(* ===== verification/OBBackupPolicy.thy ===== *)
theory OBBackupPolicy
  imports OBBackup
begin

text \<open>
  The manager of backup policies, \<^verbatim>\<open>internal/resource/obtenantbackuppolicy\<close>: the states of a
  policy, the schedule of full and incremental backups, the configuration of the database and
  the tasks that start, pause, resume and stop the backups of a tenant.
\<close>

section \<open>The resource\<close>

record LogArchiveConfig =
  LA_Destination :: BackupDestination
  LA_SwitchPieceInterval :: string
  LA_Binding :: string
  LA_Concurrency :: int

record DataBackupConfig =
  DB_Destination :: BackupDestination
  DB_FullCrontab :: string
  DB_IncrementalCrontab :: string
  DB_EncryptionSecret :: string

record OBTenantBackupPolicy = Resource +
  BP_Generation :: int
  BP_ObClusterName :: string
  BP_TenantName :: string
  BP_TenantSecret :: string
  BP_TenantCRName :: string
  BP_JobKeepWindow :: string
  BP_Suspend :: bool
  BP_LogArchive :: LogArchiveConfig
  BP_DataBackup :: DataBackupConfig
  BP_DataCleanName :: string
  BP_RecoveryWindow :: string
  BPStatus_ObservedGeneration :: int
  BPStatus_NextFull :: string
  BPStatus_NextIncremental :: string
  BPStatus_TenantCR :: "OBTenant option"
  BPStatus_TenantName :: string
  BPStatus_TenantInfo :: "row option"
  BPStatus_LatestFullBackupJob :: "row option"
  BPStatus_LatestIncrementalJob :: "row option"
  BPStatus_LatestArchiveLogJob :: "row option"
  BPStatus_LatestBackupCleanJob :: "row option"

abbreviation "BackupPolicyStatusPreparing \<equiv> ''PREPARING''"
abbreviation "BackupPolicyStatusPrepared \<equiv> ''PREPARED''"
abbreviation "BackupPolicyStatusRunning \<equiv> ''RUNNING''"
abbreviation "BackupPolicyStatusFailed \<equiv> ''FAILED''"
abbreviation "BackupPolicyStatusPausing \<equiv> ''PAUSING''"
abbreviation "BackupPolicyStatusPaused \<equiv> ''PAUSED''"
abbreviation "BackupPolicyStatusStopped \<equiv> ''STOPPED''"
abbreviation "BackupPolicyStatusResuming \<equiv> ''RESUMING''"
abbreviation "BackupPolicyStatusDeleting \<equiv> ''DELETING''"
abbreviation "BackupPolicyStatusMaintaining \<equiv> ''MAINTAINING''"

definition FinalizerBackupPolicy :: string where
  "FinalizerBackupPolicy = ''obtenantbackuppolicy.finalizers.oceanbase.com''"

section \<open>Flows\<close>

definition genPrepareBackupPolicyFlow :: OperationContext where
  "genPrepareBackupPolicyFlow =
     new_context ''prepare backup policy'' [''configure server for backup''] BackupPolicyStatusPrepared
       (zero_rule\<lparr>NextTryStatus := BackupPolicyStatusFailed\<rparr>)"

definition genStartBackupJobFlow :: OperationContext where
  "genStartBackupJobFlow =
     new_context ''start backup job'' [''start backup''] BackupPolicyStatusRunning
       (zero_rule\<lparr>NextTryStatus := BackupPolicyStatusFailed\<rparr>)"

definition genStopBackupPolicyFlow :: OperationContext where
  "genStopBackupPolicyFlow = new_context ''stop backup policy'' [''stop backup''] BackupPolicyStatusStopped zero_rule"

definition genMaintainRunningPolicyFlow :: OperationContext where
  "genMaintainRunningPolicyFlow =
     new_context ''maintain running policy''
       [''configure server for backup'', ''clean old backup jobs'', ''check and spawn jobs'']
       BackupPolicyStatusRunning (zero_rule\<lparr>NextTryStatus := BackupPolicyStatusRunning\<rparr>)"

definition genPauseBackupFlow :: OperationContext where
  "genPauseBackupFlow = new_context ''pause backup'' [''pause backup''] BackupPolicyStatusPaused zero_rule"

definition genResumeBackupFlow :: OperationContext where
  "genResumeBackupFlow = new_context ''resume backup'' [''resume backup''] BackupPolicyStatusRunning zero_rule"

lemmas policy_flows = genPrepareBackupPolicyFlow_def genStartBackupJobFlow_def genStopBackupPolicyFlow_def
  genMaintainRunningPolicyFlow_def genPauseBackupFlow_def genResumeBackupFlow_def

definition obtenantbackuppolicy_taskMap :: "(TaskName \<Rightarrow> 'm TypedTaskFunc) \<Rightarrow> 'm TaskHub" where
  "obtenantbackuppolicy_taskMap body =
     register_all body [''configure server for backup'', ''start backup'', ''stop backup'', ''check and spawn jobs'',
       ''clean old backup jobs'', ''pause backup'', ''resume backup''] NewTaskHub"

section \<open>Connections, records and paths\<close>

record policy_env = backup_env +
  bpapi_policy :: "OBTenantBackupPolicy result"
  bpclient_Update :: "OBTenantBackupPolicy \<Rightarrow> OBTenantBackupPolicy \<times> error option"
  bpstatus_Update :: "OBTenantBackupPolicy \<Rightarrow> error option"
  policy_task :: "TaskName \<Rightarrow> OBTenantBackupPolicy TypedTaskFunc"

text \<open>A value that may be an error is an error of the program.\<close>

definition of_result :: "'a result \<Rightarrow> ('e, 'a) io" where
  "of_result r = (case r of Inl err \<Rightarrow> raise err | Inr x \<Rightarrow> ret x)"

text \<open>
  \<^verbatim>\<open>getOperationManager\<close>: without a tenant name and secret and without a tenant resource the
  connection stays nil, and its first use panics. The value says whether there is one.
\<close>

definition policy_getTenant :: "policy_env \<Rightarrow> OBTenant backup_io" where
  "policy_getTenant env = b_api (b_get_tenant env) GetTenantOfPolicy"

definition policy_connect :: "policy_env \<Rightarrow> unit backup_io" where
  "policy_connect env = wrap_io ''get oceanbase operation manager'' (perform (b_connect env) TenantConnected)"

definition getOperationManager :: "policy_env \<Rightarrow> OBTenantBackupPolicy \<Rightarrow> bool backup_io" where
  "getOperationManager env m =
     bind_io (wrap_io ''get obcluster'' (of_result (b_get_cluster env))) (\<lambda>_.
       if BP_TenantName m \<noteq> [] \<and> BP_TenantSecret m \<noteq> [] then bind_io (policy_connect env) (\<lambda>_. ret True)
       else if BP_TenantCRName m \<noteq> [] then bind_io (policy_getTenant env) (\<lambda>_. bind_io (policy_connect env) (\<lambda>_. ret True))
       else ret False)"

definition use_client :: "bool \<Rightarrow> 'a backup_io \<Rightarrow> 'a backup_io" where
  "use_client con f = (if con then f else panic)"

definition getTenantRecordName :: "policy_env \<Rightarrow> OBTenantBackupPolicy \<Rightarrow> string backup_io" where
  "getTenantRecordName env m =
     (case BPStatus_TenantCR m of
        Some t \<Rightarrow> ret (TenantSpec_TenantName t)
      | None \<Rightarrow>
          if BPStatus_TenantName m \<noteq> [] then ret (BPStatus_TenantName m)
          else bind_io (policy_getTenant env) (\<lambda>t. ret (TenantSpec_TenantName t)))"

definition getTenantRecord :: "policy_env \<Rightarrow> OBTenantBackupPolicy \<Rightarrow> bool \<Rightarrow> row backup_io" where
  "getTenantRecord env m useCache =
     (case (if useCache then BPStatus_TenantInfo m else None) of
        Some info \<Rightarrow> ret info
      | None \<Rightarrow>
          bind_io (getOperationManager env m) (\<lambda>con.
          bind_io (if BP_TenantName m \<noteq> [] then ret (BP_TenantName m) else getTenantRecordName env m) (\<lambda>name.
          bind_io (use_client con (db_ListTenantWithName env name)) (\<lambda>tenants.
            case tenants of [] \<Rightarrow> raise (OtherError ''tenant not found'') | t # _ \<Rightarrow> ret t))))"

definition BackupDestTypeS3Compatible :: string where
  "BackupDestTypeS3Compatible = ''S3_COMPATIBLE''"

definition policy_getDestPath :: "policy_env \<Rightarrow> BackupDestination \<Rightarrow> string backup_io" where
  "policy_getDestPath env dest =
     (if Dest_Type dest = BackupDestTypeNFS \<or> Dest_Type dest = [] then ret (file_path dest)
      else if Dest_OSSAccessSecret dest = [] then ret []
      else bind_io (catch_io (b_api (\<lambda>h. b_read_secret env h (Dest_OSSAccessSecret dest)) (ReadBackupSecret (Dest_OSSAccessSecret dest))))
        (\<lambda>secret. case secret of
           Inl err \<Rightarrow> ret []
         | Inr s \<Rightarrow> ret (access_path dest s @
             (if Dest_Type dest = BackupDestTypeCOS then ''&appid='' @ secret_data s ''appId''
              else if Dest_Type dest = BackupDestTypeS3 then ''&s3_region='' @ secret_data s ''s3Region''
              else if Dest_Type dest = BackupDestTypeS3Compatible
              then (case map_of s ''addressingModel'' of None \<Rightarrow> [] | Some v \<Rightarrow> ''&addressing_model='' @ v) else []))))"

definition getArchiveDestSettingValue :: "policy_env \<Rightarrow> OBTenantBackupPolicy \<Rightarrow> string backup_io" where
  "getArchiveDestSettingValue env m =
     (let archiveSpec = BP_LogArchive m
      in bind_io (policy_getDestPath env (LA_Destination archiveSpec)) (\<lambda>path.
           ret (''LOCATION='' @ path @
             (if LA_SwitchPieceInterval archiveSpec \<noteq> [] then '' PIECE_SWITCH_INTERVAL='' @ LA_SwitchPieceInterval archiveSpec else []) @
             (if LA_Binding archiveSpec \<noteq> [] then '' BINDING='' @ LA_Binding archiveSpec else []))))"

text \<open>The path under which the database lists the backups of a policy.\<close>

definition listed_path :: "policy_env \<Rightarrow> OBTenantBackupPolicy \<Rightarrow> string backup_io" where
  "listed_path env m =
     (let dest = DB_Destination (BP_DataBackup m)
      in if Dest_Type dest \<noteq> BackupDestTypeNFS then ret (Dest_Path dest) else policy_getDestPath env dest)"

definition getLatestBackupJobOfTypeAndPath ::
  "policy_env \<Rightarrow> OBTenantBackupPolicy \<Rightarrow> string \<Rightarrow> string \<Rightarrow> row option backup_io" where
  "getLatestBackupJobOfTypeAndPath env m jobType path =
     bind_io (getOperationManager env m) (\<lambda>con. use_client con (db_GetLatestBackupJobOfTypeAndPath env jobType path))"

section \<open>Updating the status\<close>

definition syncTenantInformation :: "policy_env \<Rightarrow> OBTenantBackupPolicy \<Rightarrow> OBTenantBackupPolicy backup_io" where
  "syncTenantInformation env m =
     bind_io (if BP_TenantCRName m \<noteq> []
        then bind_io (policy_getTenant env) (\<lambda>t. ret (m\<lparr>BPStatus_TenantName := TenantSpec_TenantName t\<rparr>)) else ret m) (\<lambda>m1.
     bind_io (getTenantRecord env m1 False) (\<lambda>tenantRecord. ret (m1\<lparr>BPStatus_TenantInfo := Some tenantRecord\<rparr>)))"

definition syncLatestJobs :: "policy_env \<Rightarrow> OBTenantBackupPolicy \<Rightarrow> OBTenantBackupPolicy backup_io" where
  "syncLatestJobs env m =
     bind_io (getOperationManager env m) (\<lambda>con.
     bind_io (use_client con (db_GetLatestArchiveLogJob env)) (\<lambda>archive.
     bind_io (db_GetLatestBackupCleanJob env) (\<lambda>clean.
       ret (m\<lparr>BPStatus_LatestArchiveLogJob := archive, BPStatus_LatestBackupCleanJob := clean\<rparr>))))"

text \<open>
  The end of an incremental backup, its start when the end is missing; the zero time when it
  cannot be parsed. The zero time of Go is a parameter-free constant of the model.
\<close>

definition zero_time :: int where
  "zero_time = - 62135596800 * 10 ^ 9"

definition time_or_zero :: "policy_env \<Rightarrow> string \<Rightarrow> int" where
  "time_or_zero env s = (case parse_time env s of Inl _ \<Rightarrow> zero_time | Inr t \<Rightarrow> t)"

definition incr_finished :: "policy_env \<Rightarrow> row \<Rightarrow> int" where
  "incr_finished env job =
     (case col_opt job ''end_timestamp'' of
        None \<Rightarrow> time_or_zero env (col_str job ''start_timestamp'')
      | Some t \<Rightarrow> time_or_zero env t)"

text \<open>
  The next incremental backup as \<^verbatim>\<open>UpdateStatus\<close> computes it: \<open>None\<close> while one is running or in
  an unknown state.
\<close>

definition next_incr :: "policy_env \<Rightarrow> (int \<Rightarrow> int) \<Rightarrow> int \<Rightarrow> row option \<Rightarrow> int option" where
  "next_incr env incrCron lastFull latestIncr =
     (case latestIncr of
        None \<Rightarrow> Some (incrCron lastFull)
      | Some job \<Rightarrow>
          if col_str job ''status'' = ''COMPLETED'' \<or> col_str job ''status'' = ''CANCELED''
          then Some (incrCron (incr_finished env job)) else None)"

definition check_schedule ::
  "policy_env \<Rightarrow> OBTenantBackupPolicy \<Rightarrow> row option \<Rightarrow> row option \<Rightarrow> OBTenantBackupPolicy backup_io" where
  "check_schedule env m latestFull latestIncr =
     (case latestFull of
        None \<Rightarrow> ret (m\<lparr>BPStatus_NextFull := format_time env (b_now env), Status := BackupPolicyStatusMaintaining\<rparr>)
      | Some full \<Rightarrow>
          if col_str full ''status'' = ''CANCELED''
          then ret (m\<lparr>BPStatus_NextFull := format_time env (b_now env), Status := BackupPolicyStatusMaintaining\<rparr>)
          else if col_str full ''status'' = ''COMPLETED''
          then bind_io (of_result (cron env (DB_FullCrontab (BP_DataBackup m)))) (\<lambda>fullCron.
               bind_io (case col_opt full ''end_timestamp'' of None \<Rightarrow> ret zero_time | Some t \<Rightarrow> of_result (parse_time env t)) (\<lambda>lastFull.
                 let nextFull = fullCron lastFull; m1 = m\<lparr>BPStatus_NextFull := format_time env nextFull\<rparr>
                 in if b_now env < nextFull
                    then bind_io (of_result (cron env (DB_IncrementalCrontab (BP_DataBackup m)))) (\<lambda>incrCron.
                      ret (case next_incr env incrCron lastFull latestIncr of
                             None \<Rightarrow> m1
                           | Some nextIncr \<Rightarrow>
                               let m2 = m1\<lparr>BPStatus_NextIncremental := format_time env nextIncr\<rparr>
                               in if nextIncr \<noteq> zero_time \<and> nextIncr < b_now env
                                  then m2\<lparr>Status := BackupPolicyStatusMaintaining\<rparr> else m2))
                    else ret (m1\<lparr>Status := BackupPolicyStatusMaintaining\<rparr>)))
          else ret m)"

definition sync_running :: "policy_env \<Rightarrow> OBTenantBackupPolicy \<Rightarrow> OBTenantBackupPolicy backup_io" where
  "sync_running env m =
     bind_io (syncTenantInformation env m) (\<lambda>m1.
     bind_io (syncLatestJobs env m1) (\<lambda>m2.
     bind_io (listed_path env m2) (\<lambda>backupPath.
     bind_io (getLatestBackupJobOfTypeAndPath env m2 BackupJobTypeFull backupPath) (\<lambda>latestFull.
     bind_io (getLatestBackupJobOfTypeAndPath env m2 BackupJobTypeIncr backupPath) (\<lambda>latestIncr.
       check_schedule env (m2\<lparr>BPStatus_LatestFullBackupJob := latestFull, BPStatus_LatestIncrementalJob := latestIncr\<rparr>)
         latestFull latestIncr)))))"

text \<open>The states that need the database to be cleaned up when the policy is deleted.\<close>

definition deleted_policy :: "OBTenantBackupPolicy \<Rightarrow> OBTenantBackupPolicy" where
  "deleted_policy m =
     (if Status m \<in> set [BackupPolicyStatusPaused, BackupPolicyStatusRunning, BackupPolicyStatusMaintaining,
          BackupPolicyStatusPausing, BackupPolicyStatusPrepared, BackupPolicyStatusResuming]
      then leave_flow BackupPolicyStatusDeleting m
      else if Status m = BackupPolicyStatusDeleting then m
      else leave_flow BackupPolicyStatusStopped m)"

definition policy_update :: "policy_env \<Rightarrow> OBTenantBackupPolicy \<Rightarrow> OBTenantBackupPolicy backup_io" where
  "policy_update env m =
     (if BP_Suspend m \<and> Status m = BackupPolicyStatusRunning then ret (leave_flow BackupPolicyStatusPausing m)
      else if \<not> BP_Suspend m \<and> Status m = BackupPolicyStatusPaused then ret (m\<lparr>Status := BackupPolicyStatusResuming\<rparr>)
      else if DeletionTimestamp m \<noteq> None then ret (deleted_policy m)
      else if Status m = BackupPolicyStatusRunning
      then if BPStatus_ObservedGeneration m < BP_Generation m then ret (m\<lparr>Status := BackupPolicyStatusMaintaining\<rparr>)
           else sync_running env m
      else ret m)"

definition ObTenantBackupPolicyManager_retryUpdateStatus :: "policy_env \<Rightarrow> OBTenantBackupPolicy \<Rightarrow> error option" where
  "ObTenantBackupPolicyManager_retryUpdateStatus env m =
     (case bpapi_policy env of
        Inl err \<Rightarrow> IgnoreNotFound err
      | Inr p \<Rightarrow> bpstatus_Update env (p\<lparr>Status := Status m, Ctx := Ctx m,
          BPStatus_ObservedGeneration := BPStatus_ObservedGeneration m, BPStatus_NextFull := BPStatus_NextFull m,
          BPStatus_NextIncremental := BPStatus_NextIncremental m, BPStatus_TenantCR := BPStatus_TenantCR m,
          BPStatus_TenantName := BPStatus_TenantName m, BPStatus_TenantInfo := BPStatus_TenantInfo m,
          BPStatus_LatestFullBackupJob := BPStatus_LatestFullBackupJob m,
          BPStatus_LatestIncrementalJob := BPStatus_LatestIncrementalJob m,
          BPStatus_LatestArchiveLogJob := BPStatus_LatestArchiveLogJob m,
          BPStatus_LatestBackupCleanJob := BPStatus_LatestBackupCleanJob m\<rparr>))"

text \<open>
  An error ends the update before the status is written; of the fields changed in memory only
  informational ones have been touched then, and the next reconcile reads the stored object,
  so the model keeps the object as it was.
\<close>

definition ObTenantBackupPolicyManager_UpdateStatus ::
  "policy_env \<Rightarrow> OBTenantBackupPolicy \<Rightarrow> (OBTenantBackupPolicy \<times> error option) option" where
  "ObTenantBackupPolicyManager_UpdateStatus env m = do {
     answer \<leftarrow> run_db (policy_update env m);
     Some (case answer of
             Inl err \<Rightarrow> (m, Some err)
           | Inr m1 \<Rightarrow>
               let m2 = m1\<lparr>BPStatus_ObservedGeneration := BP_Generation m1\<rparr>
               in (m2, ObTenantBackupPolicyManager_retryUpdateStatus env m2)) }"

section \<open>The resource manager\<close>

text \<open>An error of reading the tenant is only reported.\<close>

definition ObTenantBackupPolicyManager_InitStatus :: "policy_env \<Rightarrow> OBTenantBackupPolicy \<Rightarrow> OBTenantBackupPolicy option" where
  "ObTenantBackupPolicyManager_InitStatus env m =
     (let m1 = m\<lparr>Status := BackupPolicyStatusPreparing, Ctx := None, BPStatus_ObservedGeneration := 0, BPStatus_NextFull := [],
            BPStatus_NextIncremental := [], BPStatus_TenantCR := None, BPStatus_TenantName := [], BPStatus_TenantInfo := None,
            BPStatus_LatestFullBackupJob := None, BPStatus_LatestIncrementalJob := None, BPStatus_LatestArchiveLogJob := None,
            BPStatus_LatestBackupCleanJob := None\<rparr>
      in do {
        answer \<leftarrow> run_db (syncTenantInformation env m1);
        Some (case answer of
                Inl err \<Rightarrow>
                  (if BP_TenantCRName m \<noteq> [] then
                     (case b_get_tenant env [] of Inr t \<Rightarrow> m1\<lparr>BPStatus_TenantName := TenantSpec_TenantName t\<rparr> | Inl _ \<Rightarrow> m1)
                   else m1)
              | Inr m2 \<Rightarrow> m2) })"

definition policy_getOBCluster :: "policy_env \<Rightarrow> OBCluster result" where
  "policy_getOBCluster env = wrap_result ''get obcluster failed'' (b_get_cluster env)"

definition getOBTenantCR :: "policy_env \<Rightarrow> OBTenantBackupPolicy \<Rightarrow> OBTenant result" where
  "getOBTenantCR env m = (if BP_TenantCRName m = [] then Inl NotFound else b_get_tenant env [])"

text \<open>Whether the owner of the backups is gone, or the policy has stopped.\<close>

definition policy_finalizer_finished :: "policy_env \<Rightarrow> OBTenantBackupPolicy \<Rightarrow> bool result" where
  "policy_finalizer_finished env m =
     (case policy_getOBCluster env of
        Inl err \<Rightarrow> if is_not_found err then Inr True else Inl (wrap ''Get obcluster failed'' err)
      | Inr obcluster \<Rightarrow>
          if DeletionTimestamp obcluster \<noteq> None then Inr True
          else if BP_TenantCRName m \<noteq> []
          then (case getOBTenantCR env m of
                  Inl err \<Rightarrow> if is_not_found err then Inr True else Inl (wrap ''Get obtenant failed'' err)
                | Inr tenant \<Rightarrow> Inr (DeletionTimestamp tenant \<noteq> None \<or> Status m = BackupPolicyStatusStopped))
          else Inr (Status m = BackupPolicyStatusStopped))"

definition ObTenantBackupPolicyManager_CheckAndUpdateFinalizers ::
  "policy_env \<Rightarrow> OBTenantBackupPolicy \<Rightarrow> OBTenantBackupPolicy \<times> error option" where
  "ObTenantBackupPolicyManager_CheckAndUpdateFinalizers env m =
     (if FinalizerBackupPolicy \<in> set (Finalizers m)
      then (case policy_finalizer_finished env m of
              Inl err \<Rightarrow> (m, Some err)
            | Inr finished \<Rightarrow>
                if finished then bpclient_Update env (m\<lparr>Finalizers := removeAll FinalizerBackupPolicy (Finalizers m)\<rparr>)
                else (m, None))
      else (m, None))"

definition ObTenantBackupPolicyManager_ClearTaskInfo :: "OBTenantBackupPolicy \<Rightarrow> OBTenantBackupPolicy" where
  "ObTenantBackupPolicyManager_ClearTaskInfo m = leave_flow BackupPolicyStatusRunning m"

definition ObTenantBackupPolicyManager_FinishTask :: "ctx_heap \<Rightarrow> OBTenantBackupPolicy \<Rightarrow> OBTenantBackupPolicy option" where
  "ObTenantBackupPolicyManager_FinishTask h m = finish_flow h m"

definition ObTenantBackupPolicyManager_HandleFailure ::
  "ctx_heap \<Rightarrow> OBTenantBackupPolicy \<Rightarrow> (ctx_heap \<times> OBTenantBackupPolicy) option" where
  "ObTenantBackupPolicyManager_HandleFailure h m = backup_failure_switch h m"

definition ObTenantBackupPolicyManager_ArchiveResource :: "OBTenantBackupPolicy \<Rightarrow> OBTenantBackupPolicy" where
  "ObTenantBackupPolicyManager_ArchiveResource m = leave_flow ''Failed'' m"

definition ObTenantBackupPolicyManager_GetTaskFunc ::
  "policy_env \<Rightarrow> TaskName \<Rightarrow> OBTenantBackupPolicy \<Rightarrow> TaskFunc result" where
  "ObTenantBackupPolicyManager_GetTaskFunc env name m = GetTask (obtenantbackuppolicy_taskMap (policy_task env)) name m"

definition policy_flow_for :: "string \<Rightarrow> OperationContext option" where
  "policy_flow_for s =
     (if s = BackupPolicyStatusPreparing then Some genPrepareBackupPolicyFlow
      else if s = BackupPolicyStatusPrepared then Some genStartBackupJobFlow
      else if s = BackupPolicyStatusMaintaining then Some genMaintainRunningPolicyFlow
      else if s = BackupPolicyStatusPausing then Some genPauseBackupFlow
      else if s = BackupPolicyStatusResuming then Some genResumeBackupFlow
      else if s = BackupPolicyStatusDeleting then Some genStopBackupPolicyFlow
      else None)"

definition ObTenantBackupPolicyManager_GetTaskFlow ::
  "ctx_heap \<Rightarrow> OBTenantBackupPolicy \<Rightarrow> (ctx_heap \<times> TaskFlow option result) option" where
  "ObTenantBackupPolicyManager_GetTaskFlow h m =
     (case Ctx m of
        Some a \<Rightarrow> Some (h, Inr (Some (Some a)))
      | None \<Rightarrow>
          (case policy_flow_for (Status m) of
             None \<Rightarrow> Some (h, Inr None)
           | Some c \<Rightarrow> Some (new_flow h (fill_strategy (Status m) c))))"

definition ObTenantBackupPolicyManager :: "policy_env \<Rightarrow> OBTenantBackupPolicy ResourceManager" where
  "ObTenantBackupPolicyManager env =
     \<lparr>GetMeta = ObjectMeta.truncate, GetStatus = Status, InitStatus = ObTenantBackupPolicyManager_InitStatus env,
      SetOperationContext = (\<lambda>p m. m\<lparr>Ctx := p\<rparr>), ClearTaskInfo = ObTenantBackupPolicyManager_ClearTaskInfo,
      HandleFailure = ObTenantBackupPolicyManager_HandleFailure, FinishTask = ObTenantBackupPolicyManager_FinishTask,
      GetTaskFunc = ObTenantBackupPolicyManager_GetTaskFunc env, GetTaskFlow = ObTenantBackupPolicyManager_GetTaskFlow,
      CheckAndUpdateFinalizers = ObTenantBackupPolicyManager_CheckAndUpdateFinalizers env,
      UpdateStatus = ObTenantBackupPolicyManager_UpdateStatus env,
      ArchiveResource = ObTenantBackupPolicyManager_ArchiveResource\<rparr>"

lemma policy_flow_fresh: "policy_flow_for s = Some c \<Longrightarrow> fresh_flow (fill_strategy d c)"
  by (auto simp: policy_flow_for_def policy_flows split: if_splits)

interpretation obp: standard_manager "ObTenantBackupPolicyManager env" BackupPolicyStatusRunning "''Failed''"
  "failure_keeping_status backup_failure" for env
  by unfold_locales
    (auto simp: ObTenantBackupPolicyManager_def ObTenantBackupPolicyManager_ClearTaskInfo_def
      ObTenantBackupPolicyManager_ArchiveResource_def ObTenantBackupPolicyManager_FinishTask_def
      ObTenantBackupPolicyManager_HandleFailure_def backup_handles ObTenantBackupPolicyManager_GetTaskFlow_def creates_flow_def
      dest: policy_flow_fresh split: option.splits)

end
