(* ===== verification/OBBackupPolicy_Tasks.thy ===== *)
theory OBBackupPolicy_Tasks
  imports OBBackupPolicy
begin

text \<open>
  The tasks of a backup policy, \<^verbatim>\<open>obtenantbackuppolicy_task.go\<close> and the helpers they call:
  configuring the database, creating job resources, spawning scheduled jobs, removing old ones,
  pausing, resuming and stopping. Two tasks poll without a limit until the log archive runs;
  their model takes a number of polls and answers whether the task has ended by then.
\<close>

section \<open>Configuration of the database\<close>

definition set_clean_policy :: "policy_env \<Rightarrow> OBTenantBackupPolicy \<Rightarrow> row list \<Rightarrow> unit backup_io" where
  "set_clean_policy env m policies =
     (case filter (\<lambda>p. col_str p ''recovery_window'' \<noteq> BP_RecoveryWindow m) policies of
        [] \<Rightarrow> ret ()
      | p # _ \<Rightarrow>
          bind_io (db_RemoveCleanBackupPolicy env (col_str p ''policy_name'')) (\<lambda>_.
            db_AddCleanBackupPolicy env ''default'' (BP_RecoveryWindow m)))"

definition configureBackupCleanPolicy :: "policy_env \<Rightarrow> OBTenantBackupPolicy \<Rightarrow> unit backup_io" where
  "configureBackupCleanPolicy env m =
     bind_io (getOperationManager env m) (\<lambda>con.
     bind_io (use_client con (db_ListBackupCleanPolicy env)) (\<lambda>cleanPolicy.
       if cleanPolicy = [] then db_AddCleanBackupPolicy env ''default'' (BP_RecoveryWindow m)
       else set_clean_policy env m cleanPolicy))"

definition archive_doing :: "row option \<Rightarrow> bool" where
  "archive_doing job \<longleftrightarrow> (case job of None \<Rightarrow> False | Some j \<Rightarrow> col_str j ''status'' = ''DOING'')"

definition setArchiveDest :: "policy_env \<Rightarrow> OBTenantBackupPolicy \<Rightarrow> row \<Rightarrow> unit backup_io" where
  "setArchiveDest env m tenantInfo =
     (if col_str tenantInfo ''log_mode'' = ''NOARCHIVELOG''
      then bind_io (getArchiveDestSettingValue env m) (db_SetLogArchiveDestForTenant env)
      else bind_io (db_GetLatestArchiveLogJob env) (\<lambda>latestArchiveJob.
        if \<not> archive_doing latestArchiveJob
        then bind_io (getArchiveDestSettingValue env m) (db_SetLogArchiveDestForTenant env)
        else ret ()))"

text \<open>The three cases of the switch fall through to the same action.\<close>

definition archive_config_differs :: "OBTenantBackupPolicy \<Rightarrow> string \<Rightarrow> row \<Rightarrow> bool" where
  "archive_config_differs m archivePath config \<longleftrightarrow>
     (let name = col_str config ''name''; val = col_str config ''value''; spec = BP_LogArchive m
      in (name = ''path'' \<and> val \<noteq> archivePath) \<or>
         (name = ''piece_switch_interval'' \<and> val \<noteq> LA_SwitchPieceInterval spec) \<or>
         (name = ''binding'' \<and> val \<noteq> ToUpper (LA_Binding spec)))"

definition setBackupDest :: "policy_env \<Rightarrow> OBTenantBackupPolicy \<Rightarrow> unit backup_io" where
  "setBackupDest env m =
     bind_io (db_GetLatestRunningBackupJob env) (\<lambda>latestRunning.
       if latestRunning = None
       then bind_io (policy_getDestPath env (DB_Destination (BP_DataBackup m))) (db_SetDataBackupDestForTenant env)
       else ret ())"

definition configure_archive :: "policy_env \<Rightarrow> OBTenantBackupPolicy \<Rightarrow> row \<Rightarrow> row list \<Rightarrow> unit backup_io" where
  "configure_archive env m tenantInfo configs =
     (if configs = [] then setArchiveDest env m tenantInfo
      else bind_io (policy_getDestPath env (LA_Destination (BP_LogArchive m))) (\<lambda>archivePath.
           bind_io (each_io (\<lambda>config.
             if archive_config_differs m archivePath config then setArchiveDest env m tenantInfo else ret ()) configs) (\<lambda>_.
             if LA_Concurrency (BP_LogArchive m) \<noteq> 0
             then db_SetLogArchiveConcurrency env (LA_Concurrency (BP_LogArchive m)) else ret ())))"

definition configure_backup :: "policy_env \<Rightarrow> OBTenantBackupPolicy \<Rightarrow> string \<Rightarrow> row list \<Rightarrow> unit backup_io" where
  "configure_backup env m backupPath backupConfigs =
     (if backupConfigs = [] then setBackupDest env m
      else each_io (\<lambda>config.
        if col_str config ''name'' = ''data_backup_dest'' \<and> col_str config ''value'' \<noteq> backupPath
        then setBackupDest env m else ret ()) backupConfigs)"

definition ConfigureServerForBackup :: "policy_env \<Rightarrow> OBTenantBackupPolicy \<Rightarrow> unit backup_io" where
  "ConfigureServerForBackup env m =
     bind_io (getOperationManager env m) (\<lambda>con.
     bind_io (getTenantRecord env m True) (\<lambda>tenantInfo.
     bind_io (use_client con (db_ListArchiveLogParameters env)) (\<lambda>configs.
     bind_io (configure_archive env m tenantInfo configs) (\<lambda>_.
     bind_io (db_ListBackupParameters env) (\<lambda>backupConfigs.
     bind_io (policy_getDestPath env (DB_Destination (BP_DataBackup m))) (\<lambda>backupPath.
     bind_io (configure_backup env m backupPath backupConfigs) (\<lambda>_.
       configureBackupCleanPolicy env m)))))))"

section \<open>Job resources\<close>

abbreviation "LabelRefBackupPolicy \<equiv> ''ref-backuppolicy''"
abbreviation "LabelBackupType \<equiv> ''oceanbase.oceanbase.com/backup-type''"

text \<open>\<^verbatim>\<open>Client.List\<close> with selectors: the stored jobs of the namespace that satisfy them.\<close>

definition list_jobs :: "policy_env \<Rightarrow> OBTenantBackupPolicy \<Rightarrow> (OBTenantBackup \<Rightarrow> bool) \<Rightarrow> OBTenantBackup list backup_io" where
  "list_jobs env m selected =
     bind_io (b_api (\<lambda>h. b_list_jobs env h (Namespace m)) (ListBackupJobs (Namespace m))) (\<lambda>jobs. ret (filter selected jobs))"

definition policy_labels :: "OBTenantBackupPolicy \<Rightarrow> string list \<Rightarrow> OBTenantBackup \<Rightarrow> bool" where
  "policy_labels m types job \<longleftrightarrow>
     Labels job LabelRefBackupPolicy = Some (Name m) \<and> (\<exists>t \<in> set types. Labels job LabelBackupType = Some t)"

definition running_job :: "string \<Rightarrow> OBTenantBackup \<Rightarrow> bool" where
  "running_job jobType job \<longleftrightarrow>
     BJ_Type job = jobType \<and> Status job \<in> set [[], BackupJobStatusInitializing, BackupJobStatusRunning]"

definition noRunningJobs :: "policy_env \<Rightarrow> OBTenantBackupPolicy \<Rightarrow> string \<Rightarrow> bool backup_io" where
  "noRunningJobs env m jobType =
     bind_io (list_jobs env m (policy_labels m [jobType])) (\<lambda>jobs. ret (\<not> list_ex (running_job jobType) jobs))"

text \<open>
  The new job resource; \<open>b_uid\<close> and \<open>b_stamp\<close> stand for the UID of the policy and the formatted
  current time. The owner reference, which only the garbage collector reads, is left out.
\<close>

definition new_backup_job ::
  "policy_env \<Rightarrow> OBTenantBackupPolicy \<Rightarrow> string \<Rightarrow> string \<Rightarrow> string \<Rightarrow> string \<Rightarrow> OBTenantBackup" where
  "new_backup_job env m jobType path tenantRecordName tenantSecret =
     \<lparr>Name = Name m @ ''-'' @ ToLower jobType @ ''-'' @ b_stamp env, Namespace = Namespace m, Annotations = Map.empty,
      Labels = [''ref-obcluster'' \<mapsto> dict_get (Labels m) ''ref-obcluster'', LabelRefBackupPolicy \<mapsto> Name m,
                ''ref-uid'' \<mapsto> b_uid env, LabelBackupType \<mapsto> jobType],
      Finalizers = [], DeletionTimestamp = None, Status = [], Ctx = None,
      BJ_Type = jobType, BJ_TenantName = tenantRecordName, BJ_TenantSecret = tenantSecret,
      BJ_ObClusterName = BP_ObClusterName m, BJ_Path = path,
      BJ_EncryptionSecret = DB_EncryptionSecret (BP_DataBackup m),
      BJ_StartedAt = [], BJ_EndedAt = [], BJ_BackupJob = None, BJ_ArchiveLogJob = None, BJ_DataCleanJob = None\<rparr>"

definition createBackupJob :: "policy_env \<Rightarrow> OBTenantBackupPolicy \<Rightarrow> string \<Rightarrow> unit backup_io" where
  "createBackupJob env m jobType =
     bind_io (if jobType \<in> set [BackupJobTypeClean, BackupJobTypeIncr, BackupJobTypeFull]
        then policy_getDestPath env (DB_Destination (BP_DataBackup m))
        else if jobType = BackupJobTypeArchive then policy_getDestPath env (LA_Destination (BP_LogArchive m))
        else ret []) (\<lambda>path.
     bind_io (if BP_TenantName m \<noteq> [] then ret (BP_TenantName m, BP_TenantSecret m)
        else if BP_TenantCRName m = [] then raise NotFound
        else bind_io (policy_getTenant env) (\<lambda>t. ret (TenantSpec_TenantName t, Cred_Root (TenantStatus_Credentials t)))) (\<lambda>(name, secret).
       let job = new_backup_job env m jobType path name secret
       in b_api (\<lambda>h. b_create_job env h job) (CreateBackupJob job)))"

text \<open>A failure to list the jobs is only logged.\<close>

definition createBackupJobIfNotExists :: "policy_env \<Rightarrow> OBTenantBackupPolicy \<Rightarrow> string \<Rightarrow> unit backup_io" where
  "createBackupJobIfNotExists env m jobType =
     bind_io (catch_io (noRunningJobs env m jobType)) (\<lambda>answer.
       case answer of
         Inl err \<Rightarrow> ret ()
       | Inr noRunning \<Rightarrow> if noRunning then createBackupJob env m jobType else ret ())"

section \<open>Starting, pausing, resuming and stopping\<close>

primrec wait_archive :: "policy_env \<Rightarrow> nat \<Rightarrow> bool backup_io" where
  "wait_archive env 0 = ret False"
| "wait_archive env (Suc n) =
     bind_io (db_GetLatestArchiveLogJob env) (\<lambda>job. if archive_doing job then ret True else wait_archive env n)"

text \<open>The work after an unlimited wait: \<open>False\<close> when the polls given were not enough.\<close>

definition when_archiving :: "policy_env \<Rightarrow> nat \<Rightarrow> unit backup_io \<Rightarrow> bool backup_io" where
  "when_archiving env n f =
     bind_io (wait_archive env n) (\<lambda>running. if running then bind_io f (\<lambda>_. ret True) else ret False)"

definition StartBackup :: "policy_env \<Rightarrow> nat \<Rightarrow> OBTenantBackupPolicy \<Rightarrow> bool backup_io" where
  "StartBackup env n m =
     bind_io (getOperationManager env m) (\<lambda>con.
     bind_io (getTenantRecord env m True) (\<lambda>tenantInfo.
     bind_io (if col_str tenantInfo ''log_mode'' = ''NOARCHIVELOG''
        then use_client con (db_EnableArchiveLogForTenant env) else ret ()) (\<lambda>_.
     bind_io (createBackupJobIfNotExists env m BackupJobTypeArchive) (\<lambda>_.
     bind_io (createBackupJobIfNotExists env m BackupJobTypeClean) (\<lambda>_.
       use_client con (when_archiving env n (createBackupJobIfNotExists env m BackupJobTypeFull)))))))"

text \<open>The part that stopping and pausing share.\<close>

definition stop_jobs :: "policy_env \<Rightarrow> unit backup_io" where
  "stop_jobs env =
     bind_io (db_StopBackupJobOfTenant env) (\<lambda>_.
     bind_io (db_CancelCleanBackup env) (\<lambda>_.
       db_RemoveCleanBackupPolicy env ''default''))"

definition StopBackup :: "policy_env \<Rightarrow> OBTenantBackupPolicy \<Rightarrow> unit backup_io" where
  "StopBackup env m =
     bind_io (getOperationManager env m) (\<lambda>con.
     bind_io (getTenantRecord env m False) (\<lambda>tenantInfo.
     bind_io (if col_str tenantInfo ''log_mode'' \<noteq> ''NOARCHIVELOG''
        then use_client con (db_DisableArchiveLogForTenant env) else ret ()) (\<lambda>_.
       use_client con (stop_jobs env))))"

abbreviation "LogArchiveDestStateEnable \<equiv> ''ENABLE''"
abbreviation "LogArchiveDestStateDefer \<equiv> ''DEFER''"

definition PauseBackup :: "policy_env \<Rightarrow> OBTenantBackupPolicy \<Rightarrow> unit backup_io" where
  "PauseBackup env m =
     bind_io (getOperationManager env m) (\<lambda>con.
     bind_io (use_client con (db_SetLogArchiveDestState env LogArchiveDestStateDefer)) (\<lambda>_. stop_jobs env))"

definition ResumeBackup :: "policy_env \<Rightarrow> nat \<Rightarrow> OBTenantBackupPolicy \<Rightarrow> bool backup_io" where
  "ResumeBackup env n m =
     bind_io (getOperationManager env m) (\<lambda>con.
     bind_io (use_client con (db_SetLogArchiveDestState env LogArchiveDestStateEnable)) (\<lambda>_.
     bind_io (log_io (configureBackupCleanPolicy env m)) (\<lambda>_.
       when_archiving env n (createBackupJobIfNotExists env m BackupJobTypeFull))))"

section \<open>Scheduled jobs\<close>

text \<open>
  The end of a completed job, its start when the end is missing. For the incremental one a time
  that cannot be parsed is only logged and counts as the zero time.
\<close>

definition finished_at :: "policy_env \<Rightarrow> row \<Rightarrow> int result" where
  "finished_at env job =
     parse_time env (case col_opt job ''end_timestamp'' of None \<Rightarrow> col_str job ''start_timestamp'' | Some t \<Rightarrow> t)"

definition spawn_incremental :: "policy_env \<Rightarrow> OBTenantBackupPolicy \<Rightarrow> (int \<Rightarrow> int) \<Rightarrow> int \<Rightarrow> row option \<Rightarrow> unit backup_io" where
  "spawn_incremental env m incrementalCron lastFull latestIncr =
     (case next_incr env incrementalCron lastFull latestIncr of
        None \<Rightarrow> ret ()
      | Some nextIncr \<Rightarrow>
          if nextIncr < b_now env then createBackupJobIfNotExists env m BackupJobTypeIncr else ret ())"

definition spawn_after_full :: "policy_env \<Rightarrow> OBTenantBackupPolicy \<Rightarrow> string \<Rightarrow> row \<Rightarrow> unit backup_io" where
  "spawn_after_full env m backupPath full =
     (case finished_at env full of
        Inl err \<Rightarrow> ret ()
      | Inr lastFull \<Rightarrow>
          (case cron env (DB_FullCrontab (BP_DataBackup m)) of
             Inl err \<Rightarrow> ret ()
           | Inr fullCron \<Rightarrow>
               if fullCron lastFull < b_now env then createBackupJobIfNotExists env m BackupJobTypeFull
               else (case cron env (DB_IncrementalCrontab (BP_DataBackup m)) of
                       Inl err \<Rightarrow> ret ()
                     | Inr incrementalCron \<Rightarrow>
                         bind_io (getLatestBackupJobOfTypeAndPath env m BackupJobTypeIncr backupPath)
                           (spawn_incremental env m incrementalCron lastFull))))"

definition CheckAndSpawnJobs :: "policy_env \<Rightarrow> OBTenantBackupPolicy \<Rightarrow> unit backup_io" where
  "CheckAndSpawnJobs env m =
     bind_io (listed_path env m) (\<lambda>backupPath.
     bind_io (getLatestBackupJobOfTypeAndPath env m BackupJobTypeFull backupPath) (\<lambda>latestFull.
       case latestFull of
         None \<Rightarrow> createBackupJobIfNotExists env m BackupJobTypeFull
       | Some full \<Rightarrow>
           if col_str full ''status'' = ''CANCELED'' then createBackupJobIfNotExists env m BackupJobTypeFull
           else if col_str full ''status'' = ''COMPLETED'' then spawn_after_full env m backupPath full
           else ret ()))"

section \<open>Old jobs\<close>

text \<open>\<^verbatim>\<open>time.Duration(days*24) * time.Hour\<close> in 64 bits, read as a signed number.\<close>

definition keep_window :: "int \<Rightarrow> int" where
  "keep_window days = sint (word_of_int days * 24 * 3600000000000 :: Duration)"

definition clean_job :: "policy_env \<Rightarrow> int \<Rightarrow> OBTenantBackup \<Rightarrow> unit backup_io" where
  "clean_job env keepWindowDuration job =
     bind_io (deref_io (BJ_BackupJob job)) (\<lambda>info.
       case col_opt info ''end_timestamp'' of
         None \<Rightarrow> ret ()
       | Some t \<Rightarrow>
           bind_io (of_result (parse_time env t)) (\<lambda>finishedAt.
             if finishedAt + keepWindowDuration < b_now env
             then b_api (\<lambda>h. b_delete_job env h (Name job)) (DeleteBackupJob (Name job)) else ret ()))"

definition old_jobs :: "OBTenantBackupPolicy \<Rightarrow> OBTenantBackup \<Rightarrow> bool" where
  "old_jobs m job \<longleftrightarrow>
     policy_labels m [BackupJobTypeFull, BackupJobTypeIncr] job \<and> Status job = BackupJobStatusSuccessful"

definition CleanOldBackupJobs :: "policy_env \<Rightarrow> OBTenantBackupPolicy \<Rightarrow> unit backup_io" where
  "CleanOldBackupJobs env m =
     (if BP_JobKeepWindow m = [] then ret ()
      else bind_io (list_jobs env m (old_jobs m)) (\<lambda>jobs.
        if jobs = [] then ret ()
        else (case Atoi (TrimRight (BP_JobKeepWindow m) ''d'') of
                (days, ok) \<Rightarrow>
                  if ok then each_io (clean_job env (keep_window days)) jobs
                  else raise (OtherError ''invalid job keep window''))))"

section \<open>The keep window\<close>

text \<open>A day in nanoseconds. Below 106752 days the 64-bit duration is exact.\<close>

abbreviation day_ns :: int where
  "day_ns \<equiv> 86400000000000"

lemma keep_window_exact_iff:
  assumes "0 \<le> days" "days < 2 ^ 63"
  shows "keep_window days = days * day_ns \<longleftrightarrow> days \<le> 106751"
proof -
  have word: "word_of_int days * 24 * 3600000000000 = (word_of_int (days * day_ns) :: Duration)"
    by (simp add: ac_simps)
  have keep: "keep_window days = signed_take_bit 63 (days * day_ns)"
    unfolding keep_window_def word sint_sbintrunc' by simp
  have "signed_take_bit 63 k = k \<longleftrightarrow> - (2 ^ 63) \<le> k \<and> k < 2 ^ 63" for k :: int
    using signed_take_bit_int_eq_self_iff [of 63 k] by simp
  then have "keep_window days = days * day_ns \<longleftrightarrow> days * day_ns < 9223372036854775808"
    using assms(1) by (simp add: keep)
  also have "\<dots> \<longleftrightarrow> days \<le> 106751" by arith
  finally show ?thesis .
qed

lemma TrimRight_days [simp]: "TrimRight (show_nat n @ ''d'') ''d'' = show_nat n"
proof -
  have "last (show_nat n) \<noteq> CHR ''d''"
    using show_nat_digits [of "last (show_nat n)" n] by auto
  then show ?thesis
    using show_nat_not_Nil [of n] by (cases "show_nat n" rule: rev_cases) (auto simp: TrimRight_def)
qed

fun deleted_job :: "backup_api event \<Rightarrow> string option" where
  "deleted_job (ApiCall (DeleteBackupJob name (Inr ()))) = Some name"
| "deleted_job _ = None"

definition deleted_jobs :: "blog \<Rightarrow> string list" where
  "deleted_jobs es = List.map_filter deleted_job es"

lemma deleted_jobs_simps [simp]:
  "deleted_jobs [] = []" "deleted_jobs (e # es) = (case deleted_job e of None \<Rightarrow> deleted_jobs es | Some n \<Rightarrow> n # deleted_jobs es)"
  "deleted_jobs (es @ es') = deleted_jobs es @ deleted_jobs es'"
  by (simp_all add: deleted_jobs_def List.map_filter_def split: option.splits)

text \<open>The job finished more than the given number of nanoseconds ago.\<close>

definition expired :: "policy_env \<Rightarrow> int \<Rightarrow> OBTenantBackup \<Rightarrow> bool" where
  "expired env window job \<longleftrightarrow>
     (case BJ_BackupJob job of
        None \<Rightarrow> False
      | Some info \<Rightarrow>
          (case col_opt info ''end_timestamp'' of
             None \<Rightarrow> False
           | Some t \<Rightarrow> (case parse_time env t of Inl _ \<Rightarrow> False | Inr finishedAt \<Rightarrow> finishedAt + window < b_now env)))"

lemma clean_job_Ok:
  assumes "clean_job env window job h = (Ok u, h')"
  shows "\<exists>es. h' = h @ es \<and> deleted_jobs es = (if expired env window job then [Name job] else [])"
proof -
  from assms obtain info where info: "BJ_BackupJob job = Some info"
    by (auto simp: clean_job_def bind_Ok_iff)
  show ?thesis
  proof (cases "col_opt info ''end_timestamp''")
    case None
    with assms info show ?thesis by (auto simp: clean_job_def expired_def bind_Ok_iff)
  next
    case (Some t)
    with assms info show ?thesis
      by (cases "parse_time env t")
        (auto simp: clean_job_def expired_def bind_Ok_iff of_result_def b_api_def perform_Ok_iff split: if_splits)
  qed
qed

lemma clean_jobs_Ok:
  assumes "each_io (clean_job env window) jobs h = (Ok u, h')"
  shows "\<exists>es. h' = h @ es \<and> deleted_jobs es = map Name (filter (expired env window) jobs)"
  using assms
proof (induction jobs arbitrary: h)
  case Nil
  then show ?case by simp
next
  case (Cons job jobs)
  then obtain h1 where "clean_job env window job h = (Ok (), h1)" "each_io (clean_job env window) jobs h1 = (Ok u, h')"
    by (auto simp: bind_Ok_iff)
  from clean_job_Ok [OF this(1)] Cons.IH [OF this(2)] show ?case by fastforce
qed

text \<open>
  Beyond that the window wraps: at 106752 days it is negative, so that every finished
  job has expired, at 213504 days it is less than half an hour.
\<close>

lemma keep_window_wraps:
  "keep_window 106752 < 0" "keep_window 213504 = 1526290448384"
  by (simp_all add: keep_window_def)

text \<open>
  C28. A successful run of the task that removes old jobs deletes exactly the successful full and
  incremental job resources of the policy that finished longer ago than the window, and the
  window is the specified number of days exactly up to 106751 days. A longer one is what the
  signed 64-bit product leaves of it, negative or far shorter (lemma \<open>keep_window_wraps\<close>), and
  the jobs deleted are those older than that.
\<close>

theorem clean_old_jobs_exact:
  assumes window: "BP_JobKeepWindow m = show_nat n @ ''d''" "n < 2 ^ 63"
    and run: "CleanOldBackupJobs env m h = (Ok (), h')"
  shows "(\<exists>jobs es. b_list_jobs env h (Namespace m) = Inr jobs \<and> h' = h @ es \<and>
      deleted_jobs es = map Name (filter (expired env (keep_window (int n))) (filter (old_jobs m) jobs))) \<and>
    (keep_window (int n) = int n * day_ns \<longleftrightarrow> n \<le> 106751)"
proof
  obtain jobs where listed: "b_list_jobs env h (Namespace m) = Inr jobs"
    using run window(1) by (auto simp: CleanOldBackupJobs_def list_jobs_def b_api_def bind_Ok_iff perform_Ok_iff)
  define h1 where "h1 = h @ [ApiCall (ListBackupJobs (Namespace m) (Inr jobs))]"
  have "filter (old_jobs m) jobs = [] \<and> h' = h1 \<or>
      each_io (clean_job env (keep_window (int n))) (filter (old_jobs m) jobs) h1 = (Ok (), h')"
    using run window listed
    by (auto simp: CleanOldBackupJobs_def list_jobs_def b_api_def bind_Ok_iff perform_Ok_iff h1_def split: if_splits)
  then have "\<exists>es. h' = h1 @ es \<and>
      deleted_jobs es = map Name (filter (expired env (keep_window (int n))) (filter (old_jobs m) jobs))"
    using clean_jobs_Ok by fastforce
  with listed show "\<exists>jobs es. b_list_jobs env h (Namespace m) = Inr jobs \<and> h' = h @ es \<and>
      deleted_jobs es = map Name (filter (expired env (keep_window (int n))) (filter (old_jobs m) jobs))"
    by (auto simp: h1_def)
  show "keep_window (int n) = int n * day_ns \<longleftrightarrow> n \<le> 106751"
    using keep_window_exact_iff [of "int n"] window(2) by simp
qed

section \<open>The schedule\<close>

text \<open>The backup that is due, from the next times of the two schedules.\<close>

definition due_backup :: "int \<Rightarrow> int \<Rightarrow> int option \<Rightarrow> string option" where
  "due_backup now nextFull nextIncr =
     (if nextFull < now then Some BackupJobTypeFull
      else if (\<exists>t. nextIncr = Some t \<and> t < now) then Some BackupJobTypeIncr
      else None)"

text \<open>
  A policy for a named tenant that keeps its backups on NFS, with a database and an API server
  that answer: \<open>latest\<close> gives the latest backup of each type, \<open>jobs\<close> are the job resources.
\<close>

definition steady :: "policy_env \<Rightarrow> OBTenantBackupPolicy \<Rightarrow> (string \<Rightarrow> row option) \<Rightarrow> OBTenantBackup list \<Rightarrow> bool" where
  "steady env m latest jobs \<longleftrightarrow>
     BP_TenantName m \<noteq> [] \<and> BP_TenantSecret m \<noteq> [] \<and> BP_TenantCRName m = [] \<and>
     Dest_Type (DB_Destination (BP_DataBackup m)) = BackupDestTypeNFS \<and>
     (\<exists>c. b_get_cluster env = Inr c) \<and> (\<forall>h. b_connect env h = Inr ()) \<and>
     (\<forall>h. \<exists>t ts. fst (db_ListTenantWithName env (BP_TenantName m) h) = Ok (t # ts)) \<and>
     (\<forall>h. \<exists>job. fst (db_GetLatestArchiveLogJob env h) = Ok job) \<and>
     (\<forall>h. \<exists>job. fst (db_GetLatestBackupCleanJob env h) = Ok job) \<and>
     (\<forall>h ty. fst (db_GetLatestBackupJobOfTypeAndPath env ty (file_path (DB_Destination (BP_DataBackup m))) h) = Ok (latest ty)) \<and>
     (\<forall>h. b_list_jobs env h (Namespace m) = Inr jobs)"

lemma fst_getOperationManager:
  assumes "BP_TenantName m \<noteq> []" "BP_TenantSecret m \<noteq> []" "b_get_cluster env = Inr c" "\<And>h. b_connect env h = Inr ()"
  shows "fst (getOperationManager env m h) = Ok True"
  using assms by (simp add: getOperationManager_def policy_connect_def of_result_def io_defs)

lemma listed_path_NFS:
  assumes "Dest_Type (DB_Destination (BP_DataBackup m)) = BackupDestTypeNFS"
  shows "listed_path env m = ret (file_path (DB_Destination (BP_DataBackup m)))"
  using assms by (simp add: listed_path_def policy_getDestPath_def)

lemma fst_latest:
  assumes "steady env m latest jobs" "BP_TenantName m' = BP_TenantName m" "BP_TenantSecret m' = BP_TenantSecret m"
  shows "fst (getLatestBackupJobOfTypeAndPath env m' ty (file_path (DB_Destination (BP_DataBackup m))) h) = Ok (latest ty)"
proof -
  have con: "fst (getOperationManager env m' h) = Ok True" for h
    using assms fst_getOperationManager [of m' env _ h] by (auto simp: steady_def)
  show ?thesis using assms by (simp add: getLatestBackupJobOfTypeAndPath_def bind_known [OF con] use_client_def steady_def)
qed

lemma fst_sync_tenant:
  assumes "steady env m latest jobs"
  obtains info where "fst (syncTenantInformation env m h) = Ok (m\<lparr>BPStatus_TenantInfo := Some info\<rparr>)"
proof -
  have con: "fst (getOperationManager env m h) = Ok True" for h
    using assms fst_getOperationManager [of m env _ h] by (auto simp: steady_def)
  obtain t ts where "fst (db_ListTenantWithName env (BP_TenantName m) (snd (getOperationManager env m h))) = Ok (t # ts)"
    using assms unfolding steady_def by blast
  then have "fst (getTenantRecord env m False h) = Ok t"
    using assms by (simp add: getTenantRecord_def bind_known [OF con] use_client_def bind_known steady_def ret_def)
  then have "fst (syncTenantInformation env m h) = Ok (m\<lparr>BPStatus_TenantInfo := Some t\<rparr>)"
    using assms by (simp add: syncTenantInformation_def steady_def bind_known ret_def)
  then show ?thesis using that by blast
qed

lemma fst_sync_jobs:
  assumes "steady env m latest jobs" "BP_TenantName m' = BP_TenantName m" "BP_TenantSecret m' = BP_TenantSecret m"
  obtains archive clean where "fst (syncLatestJobs env m' h) =
    Ok (m'\<lparr>BPStatus_LatestArchiveLogJob := archive, BPStatus_LatestBackupCleanJob := clean\<rparr>)"
proof -
  have con: "fst (getOperationManager env m' h) = Ok True" for h
    using assms fst_getOperationManager [of m' env _ h] by (auto simp: steady_def)
  let ?h1 = "snd (getOperationManager env m' h)"
  obtain archive where archive: "fst (db_GetLatestArchiveLogJob env ?h1) = Ok archive"
    using assms(1) unfolding steady_def by blast
  obtain clean where "fst (db_GetLatestBackupCleanJob env (snd (db_GetLatestArchiveLogJob env ?h1))) = Ok clean"
    using assms(1) unfolding steady_def by blast
  with archive show ?thesis
    using that by (simp add: syncLatestJobs_def bind_known [OF con] use_client_def bind_known ret_def)
qed

text \<open>Reading the state of a running policy ends in the comparison with the schedule.\<close>

lemma sync_running_schedule:
  assumes "steady env m latest jobs"
  obtains m1 h where "fst (sync_running env m []) =
      fst (check_schedule env m1 (latest BackupJobTypeFull) (latest BackupJobTypeIncr) h)"
    "Status m1 = Status m" "BP_DataBackup m1 = BP_DataBackup m"
proof -
  obtain info where info: "fst (syncTenantInformation env m []) = Ok (m\<lparr>BPStatus_TenantInfo := Some info\<rparr>)"
    using fst_sync_tenant [OF assms] by blast
  obtain archive clean where synced: "fst (syncLatestJobs env (m\<lparr>BPStatus_TenantInfo := Some info\<rparr>) (snd (syncTenantInformation env m []))) =
    Ok (m\<lparr>BPStatus_TenantInfo := Some info, BPStatus_LatestArchiveLogJob := archive, BPStatus_LatestBackupCleanJob := clean\<rparr>)"
    by (rule fst_sync_jobs [OF assms, of "m\<lparr>BPStatus_TenantInfo := Some info\<rparr>"]) simp_all
  have path: "listed_path env (m\<lparr>BPStatus_TenantInfo := Some info, BPStatus_LatestArchiveLogJob := archive,
      BPStatus_LatestBackupCleanJob := clean\<rparr>) = ret (file_path (DB_Destination (BP_DataBackup m)))"
    using assms by (subst listed_path_NFS) (simp_all add: steady_def)
  show ?thesis
    by (rule that [of "m\<lparr>BPStatus_TenantInfo := Some info, BPStatus_LatestArchiveLogJob := archive,
      BPStatus_LatestBackupCleanJob := clean, BPStatus_LatestFullBackupJob := latest BackupJobTypeFull,
      BPStatus_LatestIncrementalJob := latest BackupJobTypeIncr\<rparr>"])
      (simp_all add: sync_running_def bind_known info synced path fst_latest [OF assms])
qed

lemma check_schedule_due:
  assumes full: "latestFull = Some full" "col_str full ''status'' = ''COMPLETED''"
      "col_opt full ''end_timestamp'' = Some t" "parse_time env t = Inr lastFull"
    and crons: "cron env (DB_FullCrontab (BP_DataBackup m)) = Inr fullCron" "fullCron lastFull \<noteq> b_now env"
      "cron env (DB_IncrementalCrontab (BP_DataBackup m)) = Inr incrCron"
      "next_incr env incrCron lastFull latestIncr \<noteq> Some zero_time"
    and running: "Status m = BackupPolicyStatusRunning"
  shows "\<exists>m1. fst (check_schedule env m latestFull latestIncr h) = Ok m1 \<and>
    (Status m1 = BackupPolicyStatusMaintaining \<longleftrightarrow>
      due_backup (b_now env) (fullCron lastFull) (next_incr env incrCron lastFull latestIncr) \<noteq> None)"
proof (cases "b_now env < fullCron lastFull")
  case True
  have "check_schedule env m latestFull latestIncr = ret
      (case next_incr env incrCron lastFull latestIncr of
         None \<Rightarrow> m\<lparr>BPStatus_NextFull := format_time env (fullCron lastFull)\<rparr>
       | Some nextIncr \<Rightarrow>
           let m2 = m\<lparr>BPStatus_NextFull := format_time env (fullCron lastFull), BPStatus_NextIncremental := format_time env nextIncr\<rparr>
           in if nextIncr \<noteq> zero_time \<and> nextIncr < b_now env then m2\<lparr>Status := BackupPolicyStatusMaintaining\<rparr> else m2)"
    using True full crons by (simp add: check_schedule_def of_result_def Let_def)
  with True crons running show ?thesis
    by (cases "next_incr env incrCron lastFull latestIncr") (simp_all add: due_backup_def ret_def)
next
  case False
  then have "check_schedule env m latestFull latestIncr =
      ret (m\<lparr>BPStatus_NextFull := format_time env (fullCron lastFull), Status := BackupPolicyStatusMaintaining\<rparr>)"
    using full crons by (simp add: check_schedule_def of_result_def Let_def)
  with False crons show ?thesis by (simp add: due_backup_def ret_def)
qed

text \<open>The job resources a part of the log asks for.\<close>

fun created_job :: "backup_api event \<Rightarrow> OBTenantBackup option" where
  "created_job (ApiCall (CreateBackupJob job r)) = Some job"
| "created_job _ = None"

definition created_types :: "blog \<Rightarrow> string list" where
  "created_types es = map BJ_Type (List.map_filter created_job es)"

lemma created_types_append [simp]: "created_types (es @ es') = created_types es @ created_types es'"
  by (simp add: created_types_def List.map_filter_def)

lemma latest_creates_none: "emits_none created_job (getLatestBackupJobOfTypeAndPath env m ty path)"
  by (auto simp: getLatestBackupJobOfTypeAndPath_def getOperationManager_def policy_connect_def policy_getTenant_def
      b_api_def of_result_def use_client_def db_GetLatestBackupJobOfTypeAndPath_def db_getLatestBackupJob_def first_row_def
      QueryList_def intro!: io_silent split: sum.split list.split)

lemma createBackupJob_named:
  assumes "BP_TenantName m \<noteq> []" "Dest_Type (DB_Destination (BP_DataBackup m)) = BackupDestTypeNFS"
    "ty \<in> set [BackupJobTypeFull, BackupJobTypeIncr]"
  obtains job where "createBackupJob env m ty = b_api (\<lambda>h. b_create_job env h job) (CreateBackupJob job)" "BJ_Type job = ty"
proof
  let ?job = "new_backup_job env m ty (file_path (DB_Destination (BP_DataBackup m))) (BP_TenantName m) (BP_TenantSecret m)"
  show "createBackupJob env m ty = b_api (\<lambda>h. b_create_job env h ?job) (CreateBackupJob ?job)"
    using assms by (cases "ty = BackupJobTypeFull") (simp_all add: createBackupJob_def policy_getDestPath_def Let_def)
  show "BJ_Type ?job = ty" by (simp add: new_backup_job_def)
qed

lemma spawns_once:
  assumes "steady env m latest jobs" "ty \<in> set [BackupJobTypeFull, BackupJobTypeIncr]"
  shows "\<exists>es. snd (createBackupJobIfNotExists env m ty h) = h @ es \<and>
    created_types es = (if list_ex (\<lambda>j. policy_labels m [ty] j \<and> running_job ty j) jobs then [] else [ty])"
proof -
  obtain job where job: "createBackupJob env m ty = b_api (\<lambda>h. b_create_job env h job) (CreateBackupJob job)" "BJ_Type job = ty"
    using assms createBackupJob_named [of m ty env] by (auto simp: steady_def)
  let ?h = "h @ [ApiCall (ListBackupJobs (Namespace m) (Inr jobs))]"
  let ?busy = "list_ex (\<lambda>j. policy_labels m [ty] j \<and> running_job ty j) jobs"
  have "list_ex (running_job ty) (filter (policy_labels m [ty]) jobs) = ?busy"
    by (auto simp: list_ex_iff)
  then have "catch_io (noRunningJobs env m ty) h = (Ok (Inr (\<not> ?busy)), ?h)"
    using assms(1) by (simp add: noRunningJobs_def list_jobs_def b_api_def io_defs steady_def)
  then have "createBackupJobIfNotExists env m ty h = (if ?busy then ret () else createBackupJob env m ty) ?h"
    by (simp add: createBackupJobIfNotExists_def bind_io_def)
  then show ?thesis
    using job by (simp add: b_api_def perform_def ret_def created_types_def List.map_filter_def)
qed

lemma creates_after:
  assumes "emits_none created_job f" "fst (f h) = Ok x" "\<And>h. \<exists>es. snd (g x h) = h @ es \<and> created_types es = tys"
  shows "\<exists>es. snd (bind_io f g h) = h @ es \<and> created_types es = tys"
proof -
  obtain es where es: "snd (f h) = h @ es" "created_types es = []"
    using assms(1) by (auto simp: emits_none_def created_types_def)
  obtain es' where "snd (g x (snd (f h))) = snd (f h) @ es'" "created_types es' = tys" using assms(3) by blast
  with es assms(2) show ?thesis by (intro exI [of _ "es @ es'"]) (simp add: bind_known)
qed

text \<open>The jobs a run may create for the type that is due.\<close>

definition jobs_for :: "OBTenantBackupPolicy \<Rightarrow> OBTenantBackup list \<Rightarrow> string option \<Rightarrow> string list" where
  "jobs_for m jobs due =
     (case due of None \<Rightarrow> []
      | Some ty \<Rightarrow> if list_ex (\<lambda>j. policy_labels m [ty] j \<and> running_job ty j) jobs then [] else [ty])"

lemma spawn_incremental_due:
  assumes "steady env m latest jobs" "\<not> nextFull < b_now env"
  shows "\<exists>es. snd (spawn_incremental env m incrCron lastFull incr h) = h @ es \<and>
    created_types es = jobs_for m jobs (due_backup (b_now env) nextFull (next_incr env incrCron lastFull incr))"
  using spawns_once [OF assms(1), of BackupJobTypeIncr h] assms(2)
  by (cases "next_incr env incrCron lastFull incr")
    (auto simp: spawn_incremental_def due_backup_def jobs_for_def ret_def created_types_def List.map_filter_def)

lemma spawn_after_full_due:
  assumes steady: "steady env m latest jobs"
    and full: "col_opt full ''end_timestamp'' = Some t" "parse_time env t = Inr lastFull"
    and crons: "cron env (DB_FullCrontab (BP_DataBackup m)) = Inr fullCron"
      "cron env (DB_IncrementalCrontab (BP_DataBackup m)) = Inr incrCron"
  shows "\<exists>es. snd (spawn_after_full env m (file_path (DB_Destination (BP_DataBackup m))) full h) = h @ es \<and>
    created_types es = jobs_for m jobs
      (due_backup (b_now env) (fullCron lastFull) (next_incr env incrCron lastFull (latest BackupJobTypeIncr)))"
proof (cases "fullCron lastFull < b_now env")
  case True
  with spawns_once [OF steady, of BackupJobTypeFull h] full crons show ?thesis
    by (simp add: spawn_after_full_def finished_at_def due_backup_def jobs_for_def)
next
  case False
  let ?path = "file_path (DB_Destination (BP_DataBackup m))"
  have after: "spawn_after_full env m ?path full =
      bind_io (getLatestBackupJobOfTypeAndPath env m BackupJobTypeIncr ?path) (spawn_incremental env m incrCron lastFull)"
    using False full crons by (simp add: spawn_after_full_def finished_at_def)
  show ?thesis
    unfolding after
    by (rule creates_after [OF latest_creates_none fst_latest [OF steady refl refl]]) (rule spawn_incremental_due [OF steady False])
qed

lemma spawn_jobs_due:
  assumes steady: "steady env m latest jobs"
    and full: "latest BackupJobTypeFull = Some full" "col_str full ''status'' = ''COMPLETED''"
      "col_opt full ''end_timestamp'' = Some t" "parse_time env t = Inr lastFull"
    and crons: "cron env (DB_FullCrontab (BP_DataBackup m)) = Inr fullCron"
      "cron env (DB_IncrementalCrontab (BP_DataBackup m)) = Inr incrCron"
  shows "\<exists>es. snd (CheckAndSpawnJobs env m h) = h @ es \<and>
    created_types es = jobs_for m jobs
      (due_backup (b_now env) (fullCron lastFull) (next_incr env incrCron lastFull (latest BackupJobTypeIncr)))"
proof -
  have path: "listed_path env m = ret (file_path (DB_Destination (BP_DataBackup m)))"
    using steady by (intro listed_path_NFS) (simp add: steady_def)
  show ?thesis
    unfolding CheckAndSpawnJobs_def path bind_ret
    by (rule creates_after [OF latest_creates_none fst_latest [OF steady refl refl]])
      (simp add: full(1,2) spawn_after_full_due [OF steady full(3,4) crons])
qed

text \<open>
  C6. The schedule drives the jobs. Take a policy that is running, not suspended, not being
  deleted and of an observed generation, for a tenant given by name and secret, with a
  destination declared as NFS (an OSS path, and a destination without a type, which lists no
  backups, are not covered). Let the latest full backup of that destination be completed with a
  readable end time, both crontabs be valid with next times other than this very moment, the
  next time of the incremental one not be the zero time of a crontab that never fires, and let
  the database and the API server answer, each question alike at every call. Then the status
  update sends the policy to maintenance exactly when a full or an incremental backup is due,
  and the task of the maintenance flow that spawns jobs then creates exactly one job, of the
  type that is due, the full one first, unless one of that type is running already; it creates
  none when nothing is due. Due is a backup whose next time lies in the past; a full crontab
  that never fires has the zero time, which does.
\<close>

theorem schedule_drives_jobs:
  assumes steady: "steady env m latest jobs"
    and policy: "Status m = BackupPolicyStatusRunning" "\<not> BP_Suspend m" "DeletionTimestamp m = None"
      "BP_Generation m \<le> BPStatus_ObservedGeneration m"
    and full: "latest BackupJobTypeFull = Some full" "col_str full ''status'' = ''COMPLETED''"
      "col_opt full ''end_timestamp'' = Some t" "parse_time env t = Inr lastFull"
    and crons: "cron env (DB_FullCrontab (BP_DataBackup m)) = Inr fullCron" "fullCron lastFull \<noteq> b_now env"
      "cron env (DB_IncrementalCrontab (BP_DataBackup m)) = Inr incrCron"
      "next_incr env incrCron lastFull (latest BackupJobTypeIncr) \<noteq> Some zero_time"
  defines "due \<equiv> due_backup (b_now env) (fullCron lastFull) (next_incr env incrCron lastFull (latest BackupJobTypeIncr))"
  shows "(\<exists>m' err. ObTenantBackupPolicyManager_UpdateStatus env m = Some (m', err) \<and>
      (Status m' = BackupPolicyStatusMaintaining \<longleftrightarrow> due \<noteq> None)) \<and>
    (\<exists>es. snd (CheckAndSpawnJobs env m h) = h @ es \<and>
      created_types es = jobs_for m jobs due)"
proof
  obtain m1 h1 where run: "fst (sync_running env m []) =
    fst (check_schedule env m1 (latest BackupJobTypeFull) (latest BackupJobTypeIncr) h1)"
    and same: "Status m1 = Status m" "BP_DataBackup m1 = BP_DataBackup m"
    using sync_running_schedule [OF steady] by blast
  have "\<exists>m1. fst (sync_running env m []) = Ok m1 \<and> (Status m1 = BackupPolicyStatusMaintaining \<longleftrightarrow> due \<noteq> None)"
    unfolding run due_def using policy(1) full crons same
    by (intro check_schedule_due [of _ full t _ lastFull]) simp_all
  then show "\<exists>m' err. ObTenantBackupPolicyManager_UpdateStatus env m = Some (m', err) \<and>
      (Status m' = BackupPolicyStatusMaintaining \<longleftrightarrow> due \<noteq> None)"
    using policy by (auto simp: ObTenantBackupPolicyManager_UpdateStatus_def policy_update_def run_db_def Let_def)
  show "\<exists>es. snd (CheckAndSpawnJobs env m h) = h @ es \<and> created_types es = jobs_for m jobs due"
    unfolding due_def by (rule spawn_jobs_due [OF steady full crons(1,3)])
qed

section \<open>Sample objects\<close>

definition small_policy :: OBTenantBackupPolicy where
  "small_policy =
     \<lparr>Name = ''policy'', Namespace = ''oceanbase'', Annotations = Map.empty, Labels = Map.empty, Finalizers = [],
      DeletionTimestamp = None, Status = BackupPolicyStatusRunning, Ctx = None, BP_Generation = 1, BP_ObClusterName = ''test'',
      BP_TenantName = ''t1'', BP_TenantSecret = ''t1-ro'', BP_TenantCRName = [], BP_JobKeepWindow = ''7d'', BP_Suspend = False,
      BP_LogArchive = \<lparr>LA_Destination = \<lparr>Dest_Path = ''log'', Dest_Type = BackupDestTypeNFS, Dest_OSSAccessSecret = []\<rparr>,
        LA_SwitchPieceInterval = ''1d'', LA_Binding = ''optional'', LA_Concurrency = 0\<rparr>,
      BP_DataBackup = \<lparr>DB_Destination = \<lparr>Dest_Path = ''data'', Dest_Type = BackupDestTypeNFS, Dest_OSSAccessSecret = []\<rparr>,
        DB_FullCrontab = ''0 0 * * 6'', DB_IncrementalCrontab = ''0 0 * * *'', DB_EncryptionSecret = []\<rparr>,
      BP_DataCleanName = ''default'', BP_RecoveryWindow = ''8d'', BPStatus_ObservedGeneration = 1, BPStatus_NextFull = [], BPStatus_NextIncremental = [],
      BPStatus_TenantCR = None, BPStatus_TenantName = [], BPStatus_TenantInfo = None, BPStatus_LatestFullBackupJob = None,
      BPStatus_LatestIncrementalJob = None, BPStatus_LatestArchiveLogJob = None, BPStatus_LatestBackupCleanJob = None\<rparr>"

text \<open>Every query answers with one completed backup; the next full one was due long ago.\<close>

definition completed_row :: row where
  "completed_row = [(''status'', SQL_Str ''COMPLETED''), (''end_timestamp'', SQL_Str ''2024-01-01 00:00:00'')]"

definition finished_job :: "string \<Rightarrow> OBTenantBackup" where
  "finished_job name =
     \<lparr>Name = name, Namespace = ''oceanbase'', Annotations = Map.empty,
      Labels = [LabelRefBackupPolicy \<mapsto> ''policy'', LabelBackupType \<mapsto> BackupJobTypeFull], Finalizers = [],
      DeletionTimestamp = None, Status = BackupJobStatusSuccessful, Ctx = None, BJ_Type = BackupJobTypeFull,
      BJ_TenantName = ''t1'', BJ_TenantSecret = [], BJ_ObClusterName = ''test'', BJ_Path = [], BJ_EncryptionSecret = [],
      BJ_StartedAt = [], BJ_EndedAt = [], BJ_BackupJob = Some completed_row, BJ_ArchiveLogJob = None, BJ_DataCleanJob = None\<rparr>"

definition small_policy_env :: policy_env where
  "small_policy_env =
     backup_env.extend (sdk_env.extend (quiet_db\<lparr>conn_rows := \<lambda>_ _ _. Inr [completed_row]\<rparr>)
       (backup_env.fields (\<lambda>_. Inr ()) (\<lambda>_. Inl NotFound) (Inr small_cluster) (\<lambda>_ _. Inl NotFound) (\<lambda>_ _. Inl NotFound)
          (\<lambda>_ _. Inr [finished_job ''old'']) (\<lambda>_ _. Inr ()) (\<lambda>_ _. Inr ()) (100 * day_ns) ''20240101000000'' ''uid''
          (\<lambda>_. Inr 0) (\<lambda>_. []) (\<lambda>_. Inr (\<lambda>t. t + day_ns)) (Inl NotFound) (\<lambda>_. None) (\<lambda>_ _ out. out = Returns None)))
       (policy_env.fields (Inr small_policy) (\<lambda>m. (m, None)) (\<lambda>_. None) (\<lambda>_ _ out. out = Returns None))"

lemma small_policy_env_simps [simp]:
  "conn_rows small_policy_env h sql params = Inr [completed_row]" "b_connect small_policy_env h = Inr ()"
  "b_get_cluster small_policy_env = Inr small_cluster" "b_list_jobs small_policy_env h ns = Inr [finished_job ''old'']"
  "b_delete_job small_policy_env h name = Inr ()" "b_now small_policy_env = 100 * day_ns"
  "parse_time small_policy_env s = Inr 0" "cron small_policy_env s = Inr (\<lambda>t. t + day_ns)"
  by (simp_all add: small_policy_env_def sdk_env.extend_def backup_env.extend_def backup_env.fields_def policy_env.fields_def quiet_db_def)

lemma completed_row_simps [simp]:
  "col_str completed_row ''status'' = ''COMPLETED''" "col_opt completed_row ''end_timestamp'' = Some ''2024-01-01 00:00:00''"
  by (simp_all add: completed_row_def col_str_def col_opt_def)

lemma small_steady: "steady small_policy_env small_policy (\<lambda>_. Some completed_row) [finished_job ''old'']"
  by (simp add: steady_def small_policy_def db_ListTenantWithName_def db_GetLatestArchiveLogJob_def db_GetLatestBackupCleanJob_def
      db_GetLatestBackupJobOfTypeAndPath_def db_getLatestBackupJob_def first_row_def QueryList_def io_defs)

theorem schedule_drives_jobs_witness:
  "\<exists>es. snd (CheckAndSpawnJobs small_policy_env small_policy []) = es \<and> created_types es = [BackupJobTypeFull]"
proof -
  have policy: "Status small_policy = BackupPolicyStatusRunning" "\<not> BP_Suspend small_policy"
    "DeletionTimestamp small_policy = None" "BP_Generation small_policy \<le> BPStatus_ObservedGeneration small_policy"
    by (simp_all add: small_policy_def)
  have "next_incr small_policy_env (\<lambda>t. t + day_ns) 0 (Some completed_row) \<noteq> Some zero_time"
    by (simp add: next_incr_def incr_finished_def time_or_zero_def zero_time_def)
  from schedule_drives_jobs [OF small_steady policy refl _ _ _ _ _ _ this, where h = "[]"]
  show ?thesis by (simp add: due_backup_def jobs_for_def running_job_def finished_job_def)
qed

theorem clean_old_jobs_exact_witness:
  "\<exists>h'. CleanOldBackupJobs small_policy_env small_policy [] = (Ok (), h') \<and> deleted_jobs h' = [''old'']"
proof -
  have window: "BP_JobKeepWindow small_policy = show_nat 7 @ ''d''" 
  proof -
    have "show_nat 7 = ''7''" by code_simp
    then show ?thesis by (simp add: small_policy_def)
  qed
  have old: "old_jobs small_policy (finished_job ''old'')"
    by (simp add: old_jobs_def policy_labels_def finished_job_def small_policy_def)
  have "fst (CleanOldBackupJobs small_policy_env small_policy []) = Ok ()"
    using old window
    by (simp add: CleanOldBackupJobs_def list_jobs_def b_api_def clean_job_def finished_job_def of_result_def io_defs)
  then obtain h' where run: "CleanOldBackupJobs small_policy_env small_policy [] = (Ok (), h')"
    by (metis prod.collapse)
  have "keep_window 7 = 7 * day_ns" using keep_window_exact_iff [of 7] by simp
  with clean_old_jobs_exact [OF window _ run] old run show ?thesis
    by (auto simp: expired_def finished_job_def)
qed

section \<open>Deletion\<close>

text \<open>What one status update makes of a policy under deletion.\<close>

definition deletion_change :: "OBTenantBackupPolicy \<Rightarrow> OBTenantBackupPolicy" where
  "deletion_change m =
     (if BP_Suspend m \<and> Status m = BackupPolicyStatusRunning then leave_flow BackupPolicyStatusPausing m
      else if \<not> BP_Suspend m \<and> Status m = BackupPolicyStatusPaused then m\<lparr>Status := BackupPolicyStatusResuming\<rparr>
      else deleted_policy m)"

definition deletion_step :: "OBTenantBackupPolicy \<Rightarrow> OBTenantBackupPolicy" where
  "deletion_step m = (deletion_change m)\<lparr>BPStatus_ObservedGeneration := BP_Generation (deletion_change m)\<rparr>"

lemma update_deletion:
  assumes "DeletionTimestamp m \<noteq> None"
  shows "ObTenantBackupPolicyManager_UpdateStatus env m =
    Some (deletion_step m, ObTenantBackupPolicyManager_retryUpdateStatus env (deletion_step m))"
proof -
  have "policy_update env m = ret (deletion_change m)"
    unfolding policy_update_def deletion_change_def if_P [OF assms] by (simp only: if_distrib [where f = ret])
  then show ?thesis
    by (simp add: ObTenantBackupPolicyManager_UpdateStatus_def run_db_def ret_def deletion_step_def Let_def)
qed

lemma deletion_step_keeps: "DeletionTimestamp (deletion_step m) = DeletionTimestamp m"
  by (simp add: deletion_step_def deletion_change_def deleted_policy_def leave_flow_def)

lemma deletion_step_ends:
  assumes "Status m \<noteq> BackupPolicyStatusDeleting" "\<not> (BP_Suspend m \<and> Status m = BackupPolicyStatusRunning)"
    "\<not> (\<not> BP_Suspend m \<and> Status m = BackupPolicyStatusPaused)"
  shows "Ctx (deletion_step m) = None"
    "Status (deletion_step m) = BackupPolicyStatusDeleting \<or> Status (deletion_step m) = BackupPolicyStatusStopped"
proof -
  have "deletion_change m = deleted_policy m"
    unfolding deletion_change_def by (simp only: assms(2,3) if_False)
  with assms(1) show "Ctx (deletion_step m) = None"
    "Status (deletion_step m) = BackupPolicyStatusDeleting \<or> Status (deletion_step m) = BackupPolicyStatusStopped"
    by (simp_all add: deletion_step_def deleted_policy_def)
qed

lemma deletion_step_stays:
  assumes "Status m = BackupPolicyStatusDeleting \<or> Status m = BackupPolicyStatusStopped" "Ctx m = None"
  shows "Ctx (deletion_step m) = None" "Status (deletion_step m) = Status m"
  using assms by (auto simp: deletion_step_def deletion_change_def deleted_policy_def)

text \<open>
  A policy under deletion. Two status updates after the deletion timestamp was set, whatever the
  policy was doing and even when it is just being paused or resumed, it is in the state whose
  flow stops the backups, or it has stopped; a flow it was in before is abandoned.
\<close>

theorem policy_deletion_settles:
  assumes "DeletionTimestamp m \<noteq> None" "Status m \<noteq> BackupPolicyStatusDeleting"
  shows "\<exists>m1 e1 m2 e2. ObTenantBackupPolicyManager_UpdateStatus env m = Some (m1, e1) \<and>
    ObTenantBackupPolicyManager_UpdateStatus env m1 = Some (m2, e2) \<and> Ctx m2 = None \<and>
    (Status m2 = BackupPolicyStatusDeleting \<and> policy_flow_for (Status m2) = Some genStopBackupPolicyFlow \<or>
     Status m2 = BackupPolicyStatusStopped)"
proof -
  let ?m1 = "deletion_step m" and ?m2 = "deletion_step (deletion_step m)"
  have "Ctx ?m2 = None \<and> (Status ?m2 = BackupPolicyStatusDeleting \<or> Status ?m2 = BackupPolicyStatusStopped)"
  proof (cases "BP_Suspend m \<and> Status m = BackupPolicyStatusRunning \<or> \<not> BP_Suspend m \<and> Status m = BackupPolicyStatusPaused")
    case True
    then have "Status ?m1 = BackupPolicyStatusPausing \<or> Status ?m1 = BackupPolicyStatusResuming"
      by (auto simp: deletion_step_def deletion_change_def)
    then show ?thesis using deletion_step_ends [of ?m1] by auto
  next
    case False
    then show ?thesis using deletion_step_ends [of m] deletion_step_stays [of ?m1] assms(2) by auto
  qed
  moreover have "policy_flow_for BackupPolicyStatusDeleting = Some genStopBackupPolicyFlow"
    by (simp add: policy_flow_for_def)
  ultimately show ?thesis
    using update_deletion [OF assms(1), of env] update_deletion [of ?m1 env] assms(1) by (auto simp: deletion_step_keeps)
qed

theorem policy_deletion_settles_witness:
  "\<exists>m1 e1 m2 e2.
    ObTenantBackupPolicyManager_UpdateStatus small_policy_env (small_policy\<lparr>DeletionTimestamp := Some 1, BP_Suspend := True\<rparr>) =
      Some (m1, e1) \<and>
    ObTenantBackupPolicyManager_UpdateStatus small_policy_env m1 = Some (m2, e2) \<and> Ctx m2 = None"
  using policy_deletion_settles [of "small_policy\<lparr>DeletionTimestamp := Some 1, BP_Suspend := True\<rparr>" small_policy_env]
  by (fastforce simp: small_policy_def)

end
