(* ===== verification/OBClusterOperation.thy ===== *)
theory OBClusterOperation
  imports OBTenantOperation OBZone_Tasks OBParameter
begin

text \<open>
  The manager of operations on clusters, \<^verbatim>\<open>internal/resource/obclusteroperation\<close>: changes of
  the topology, upgrades, changes of the servers and of the parameters, deletion of named
  servers and restarts. Tasks are programs over the log of their calls to the API server.
\<close>

section \<open>The resource\<close>

record AlterZoneReplicas =
  Alter_Zones :: "string list"
  Alter_To :: int

record ExpandStorageSizeConfig =
  Expand_DataStorage :: "Quantity option"
  Expand_LogStorage :: "Quantity option"
  Expand_RedoLogStorage :: "Quantity option"

record ModifyStorageClassConfig =
  Class_DataStorage :: string
  Class_LogStorage :: string
  Class_RedoLogStorage :: string

record ModifyOBServersConfig =
  Mod_Resource :: "ResourceSpec option"
  Mod_ExpandStorageSize :: "ExpandStorageSizeConfig option"
  Mod_ModifyStorageClass :: "ModifyStorageClassConfig option"
  Mod_AddingMonitor :: "MonitorTemplate option"
  Mod_RemoveMonitor :: bool
  Mod_AddingBackupVolume :: "BackupVolumeSpec option"
  Mod_RemoveBackupVolume :: bool

record RestartOBServersConfig =
  Restart_OBServers :: "string list"
  Restart_OBZones :: "string list"
  Restart_All :: bool

record OBClusterOperation = Resource +
  COp_OBCluster :: string
  COp_Type :: string
  COp_Force :: bool
  COp_AddZones :: "OBZoneTopology list option"
  COp_DeleteZones :: "string list option"
  COp_AdjustReplicas :: "AlterZoneReplicas list option"
  COp_DeleteOBServers :: "string list option"
  COp_RestartOBServers :: "RestartOBServersConfig option"
  COp_Upgrade :: "string option"
  COp_ModifyOBServers :: "ModifyOBServersConfig option"
  COp_SetParameters :: "Parameter list option"
  COpStatus_ClusterSnapshot :: "OBCluster option"

text \<open>A slice that may be nil, as the loops and \<^verbatim>\<open>len\<close> see it.\<close>

definition slice :: "'a list option \<Rightarrow> 'a list" where
  "slice p = (case p of None \<Rightarrow> [] | Some xs \<Rightarrow> xs)"

abbreviation "ClusterOpStatusPending \<equiv> ''Pending''"
abbreviation "ClusterOpStatusRunning \<equiv> ''Running''"
abbreviation "ClusterOpStatusSucceeded \<equiv> ''Succeeded''"
abbreviation "ClusterOpStatusFailed \<equiv> ''Failed''"

abbreviation "ClusterOpTypeAddZones \<equiv> ''AddZones''"
abbreviation "ClusterOpTypeDeleteZones \<equiv> ''DeleteZones''"
abbreviation "ClusterOpTypeAdjustReplicas \<equiv> ''AdjustReplicas''"
abbreviation "ClusterOpTypeUpgrade \<equiv> ''Upgrade''"
abbreviation "ClusterOpTypeRestartOBServers \<equiv> ''RestartOBServers''"
abbreviation "ClusterOpTypeDeleteOBServers \<equiv> ''DeleteOBServers''"
abbreviation "ClusterOpTypeModifyOBServers \<equiv> ''ModifyOBServers''"
abbreviation "ClusterOpTypeSetParameters \<equiv> ''SetParameters''"

section \<open>Flows\<close>

definition genModifySpecAndWatchFlow :: OperationContext where
  "genModifySpecAndWatchFlow =
     new_context ''modify spec and watch'' [''modify cluster spec'', ''wait for cluster return running'']
       ClusterOpStatusSucceeded (zero_rule\<lparr>NextTryStatus := ClusterOpStatusFailed\<rparr>)"

definition genDeleteOBServersFlow :: OperationContext where
  "genDeleteOBServersFlow =
     new_context ''delete observers''
       [''annotate observers for deletion'', ''modify cluster spec'', ''wait for cluster return running'']
       ClusterOpStatusSucceeded (zero_rule\<lparr>NextTryStatus := ClusterOpStatusFailed\<rparr>)"

definition genRestartOBServersOnlyFlow :: OperationContext where
  "genRestartOBServersOnlyFlow =
     new_context ''restart observers only'' [''restart observers'']
       ClusterOpStatusSucceeded (zero_rule\<lparr>NextTryStatus := ClusterOpStatusFailed\<rparr>)"

definition obclusteroperation_task_names :: "TaskName list" where
  "obclusteroperation_task_names =
     [''modify cluster spec'', ''wait for cluster return running'', ''annotate observers for deletion'',
      ''restart observers'']"

definition obclusteroperation_taskMap :: "(TaskName \<Rightarrow> 'm TypedTaskFunc) \<Rightarrow> 'm TaskHub" where
  "obclusteroperation_taskMap body = register_all body obclusteroperation_task_names NewTaskHub"

section \<open>The resource manager\<close>

text \<open>Calls of the tasks with their answers. The patch answers whether the resource version changed.\<close>

datatype cluster_op_event =
    GotCluster "OBCluster result"
  | ListedServers "OBServer list result"
  | PatchedCluster OBCluster OBCluster "bool result"
  | UpdatedServer OBServer "unit result"
  | GotServer string "OBServer result"
  | GotK8sClient string "unit result"
  | GotPod string "unit result"
  | DeletedPod string "unit result"

type_synonym coplog = "cluster_op_event list"
type_synonym 'a cop_io = "(cluster_op_event, 'a) io"

record cluster_op_env =
  capi_operation :: "OBClusterOperation result"
  capi_cluster :: "OBCluster result"
  copstatus_Update :: "OBClusterOperation \<Rightarrow> OBClusterOperation \<times> error option"
  cop_task :: "TaskName \<Rightarrow> OBClusterOperation TypedTaskFunc"
  get_cluster :: "coplog \<Rightarrow> OBCluster result"
  list_servers :: "coplog \<Rightarrow> OBServer list result"
  patch_cluster :: "coplog \<Rightarrow> OBCluster \<Rightarrow> OBCluster \<Rightarrow> bool result"
  update_server :: "coplog \<Rightarrow> OBServer \<Rightarrow> unit result"
  get_server :: "coplog \<Rightarrow> string \<Rightarrow> OBServer result"
  k8s_client :: "coplog \<Rightarrow> string \<Rightarrow> unit result"
  get_pod :: "coplog \<Rightarrow> string \<Rightarrow> unit result"
  delete_pod :: "coplog \<Rightarrow> string \<Rightarrow> unit result"
  map_order :: "string list \<Rightarrow> string list"
  DefaultStateWaitTimeout :: nat
  ServerDeleteTimeoutSeconds :: nat

definition OBClusterOperationManager_InitStatus :: "cluster_op_env \<Rightarrow> OBClusterOperation \<Rightarrow> OBClusterOperation option" where
  "OBClusterOperationManager_InitStatus env m =
     (let m' = m\<lparr>Status := ClusterOpStatusRunning\<rparr>
      in Some (case capi_cluster env of
                 Inl err \<Rightarrow> m'
               | Inr obcluster \<Rightarrow> m'\<lparr>COpStatus_ClusterSnapshot := Some obcluster\<rparr>))"

definition OBClusterOperationManager_CheckAndUpdateFinalizers ::
  "OBClusterOperation \<Rightarrow> OBClusterOperation \<times> error option" where
  "OBClusterOperationManager_CheckAndUpdateFinalizers m = (m, None)"

definition OBClusterOperationManager_ClearTaskInfo :: "OBClusterOperation \<Rightarrow> OBClusterOperation" where
  "OBClusterOperationManager_ClearTaskInfo m = leave_flow ClusterOpStatusRunning m"

definition OBClusterOperationManager_HandleFailure ::
  "ctx_heap \<Rightarrow> OBClusterOperation \<Rightarrow> (ctx_heap \<times> OBClusterOperation) option" where
  "OBClusterOperationManager_HandleFailure h m = operation_failure_switch ClusterOpStatusFailed h m"

definition OBClusterOperationManager_FinishTask :: "ctx_heap \<Rightarrow> OBClusterOperation \<Rightarrow> OBClusterOperation option" where
  "OBClusterOperationManager_FinishTask h m = finish_flow h m"

definition OBClusterOperationManager_ArchiveResource :: "OBClusterOperation \<Rightarrow> OBClusterOperation" where
  "OBClusterOperationManager_ArchiveResource m = leave_flow ClusterOpStatusFailed m"

text \<open>The object that is written is the manager's own, not the one just read.\<close>

definition OBClusterOperationManager_retryUpdateStatus ::
  "cluster_op_env \<Rightarrow> OBClusterOperation \<Rightarrow> OBClusterOperation \<times> error option" where
  "OBClusterOperationManager_retryUpdateStatus env m =
     (case capi_operation env of Inl err \<Rightarrow> (m, IgnoreNotFound err) | Inr _ \<Rightarrow> copstatus_Update env m)"

definition OBClusterOperationManager_UpdateStatus ::
  "cluster_op_env \<Rightarrow> OBClusterOperation \<Rightarrow> (OBClusterOperation \<times> error option) option" where
  "OBClusterOperationManager_UpdateStatus env m = Some (OBClusterOperationManager_retryUpdateStatus env m)"

definition OBClusterOperationManager_GetTaskFunc ::
  "cluster_op_env \<Rightarrow> TaskName \<Rightarrow> OBClusterOperation \<Rightarrow> TaskFunc result" where
  "OBClusterOperationManager_GetTaskFunc env name m = GetTask (obclusteroperation_taskMap (cop_task env)) name m"

definition cluster_op_flow_for :: "OBClusterOperation \<Rightarrow> OperationContext option" where
  "cluster_op_flow_for m =
     (if Status m = ClusterOpStatusRunning
      then Some (if EqualFold (COp_Type m) ClusterOpTypeRestartOBServers \<and> COp_RestartOBServers m \<noteq> None
                 then genRestartOBServersOnlyFlow
                 else if EqualFold (COp_Type m) ClusterOpTypeDeleteOBServers \<and> COp_DeleteOBServers m \<noteq> None
                 then genDeleteOBServersFlow
                 else genModifySpecAndWatchFlow)
      else None)"

definition OBClusterOperationManager_GetTaskFlow ::
  "ctx_heap \<Rightarrow> OBClusterOperation \<Rightarrow> (ctx_heap \<times> TaskFlow option result) option" where
  "OBClusterOperationManager_GetTaskFlow h m =
     (case Ctx m of
        Some a \<Rightarrow> Some (h, Inr (Some (Some a)))
      | None \<Rightarrow>
          (case cluster_op_flow_for m of
             None \<Rightarrow> Some (h, Inr None)
           | Some c \<Rightarrow> Some (new_flow h (fill_next_try TenantOpFailed c))))"

definition OBClusterOperationManager :: "cluster_op_env \<Rightarrow> OBClusterOperation ResourceManager" where
  "OBClusterOperationManager env =
     \<lparr>GetMeta = ObjectMeta.truncate, GetStatus = Status, InitStatus = OBClusterOperationManager_InitStatus env,
      SetOperationContext = (\<lambda>p m. m\<lparr>Ctx := p\<rparr>), ClearTaskInfo = OBClusterOperationManager_ClearTaskInfo,
      HandleFailure = OBClusterOperationManager_HandleFailure, FinishTask = OBClusterOperationManager_FinishTask,
      GetTaskFunc = OBClusterOperationManager_GetTaskFunc env, GetTaskFlow = OBClusterOperationManager_GetTaskFlow,
      CheckAndUpdateFinalizers = OBClusterOperationManager_CheckAndUpdateFinalizers,
      UpdateStatus = OBClusterOperationManager_UpdateStatus env,
      ArchiveResource = OBClusterOperationManager_ArchiveResource\<rparr>"

interpretation oco: resource_manager "OBClusterOperationManager env" ClusterOpStatusRunning "''Failed''"
  "failure_keeping_status (operation_failure ClusterOpStatusFailed)" for env
  by unfold_locales
    (auto simp: OBClusterOperationManager_def OBClusterOperationManager_ClearTaskInfo_def
      OBClusterOperationManager_ArchiveResource_def OBClusterOperationManager_FinishTask_def
      OBClusterOperationManager_HandleFailure_def operation_handles OBClusterOperationManager_GetTaskFlow_def)

section \<open>Waiting\<close>

definition cop_getCluster :: "cluster_op_env \<Rightarrow> OBCluster cop_io" where
  "cop_getCluster env = perform (get_cluster env) GotCluster"

definition cop_listServers :: "cluster_op_env \<Rightarrow> OBServer list cop_io" where
  "cop_listServers env = perform (list_servers env) ListedServers"

primrec waitForOBClusterStatusToMatch :: "cluster_op_env \<Rightarrow> nat \<Rightarrow> (string \<Rightarrow> bool) \<Rightarrow> unit cop_io" where
  "waitForOBClusterStatusToMatch env 0 match =
     raise (OtherError ''Timeout to wait for obcluster to match desired status'')"
| "waitForOBClusterStatusToMatch env (Suc timeout) match =
     bind_io (cop_getCluster env) (\<lambda>obcluster.
       if match (Status obcluster) then ret () else waitForOBClusterStatusToMatch env timeout match)"

primrec waitForOBServerStatusToMatch :: "cluster_op_env \<Rightarrow> string \<Rightarrow> nat \<Rightarrow> (string \<Rightarrow> bool) \<Rightarrow> unit cop_io" where
  "waitForOBServerStatusToMatch env server 0 match =
     raise (OtherError ''Timeout to wait for observer to match desired status'')"
| "waitForOBServerStatusToMatch env server (Suc timeout) match =
     bind_io (perform (\<lambda>h. get_server env h server) (GotServer server)) (\<lambda>observer.
       if match (Status observer) then ret () else waitForOBServerStatusToMatch env server timeout match)"

text \<open>Whatever the error of \<open>f\<close> was, the error of the task is \<open>msg\<close>.\<close>

definition or_error :: "string \<Rightarrow> 'a cop_io \<Rightarrow> 'a cop_io" where
  "or_error msg f = bind_io (catch_io f) (\<lambda>r. case r of Inl _ \<Rightarrow> raise (OtherError msg) | Inr x \<Rightarrow> ret x)"

section \<open>Changing the specification\<close>

definition deleted_zones :: "string list \<Rightarrow> OBZoneTopology list \<Rightarrow> OBZoneTopology list" where
  "deleted_zones names topology = filter (\<lambda>t. Zone t \<notin> set names) topology"

definition adjusted_replicas :: "AlterZoneReplicas list \<Rightarrow> OBZoneTopology list \<Rightarrow> OBZoneTopology list" where
  "adjusted_replicas adjusts topology =
     fold (\<lambda>a ts. map (\<lambda>t. if Zone t \<in> set (Alter_Zones a) \<and> Alter_To a > 0 then t\<lparr>Replica := Alter_To a\<rparr> else t) ts)
       adjusts topology"

definition set_if :: "'a option \<Rightarrow> ('a \<Rightarrow> 'b \<Rightarrow> 'b) \<Rightarrow> 'b \<Rightarrow> 'b" where
  "set_if p f x = (case p of None \<Rightarrow> x | Some v \<Rightarrow> f v x)"

definition expanded_sizes :: "ExpandStorageSizeConfig \<Rightarrow> OceanbaseStorageSpec \<Rightarrow> OceanbaseStorageSpec" where
  "expanded_sizes mutation st =
     set_if (Expand_RedoLogStorage mutation) (\<lambda>q st. st\<lparr>RedoLogStorage := (RedoLogStorage st)\<lparr>Size := q\<rparr>\<rparr>)
       (set_if (Expand_LogStorage mutation) (\<lambda>q st. st\<lparr>LogStorage := (LogStorage st)\<lparr>Size := q\<rparr>\<rparr>)
         (set_if (Expand_DataStorage mutation) (\<lambda>q st. st\<lparr>DataStorage := (DataStorage st)\<lparr>Size := q\<rparr>\<rparr>) st))"

definition modified_classes :: "ModifyStorageClassConfig \<Rightarrow> OceanbaseStorageSpec \<Rightarrow> OceanbaseStorageSpec" where
  "modified_classes mutation st =
     (let pick = (\<lambda>c s. if c \<noteq> [] then s\<lparr>StorageClass := c\<rparr> else s)
      in \<lparr>DataStorage = pick (Class_DataStorage mutation) (DataStorage st),
          RedoLogStorage = pick (Class_RedoLogStorage mutation) (RedoLogStorage st),
          LogStorage = pick (Class_LogStorage mutation) (LogStorage st)\<rparr>)"

definition change_storage :: "(OceanbaseStorageSpec \<Rightarrow> OceanbaseStorageSpec) \<Rightarrow> OBCluster \<Rightarrow> OBCluster" where
  "change_storage f c = c\<lparr>ClusterSpec_OBServerTemplate := (ClusterSpec_OBServerTemplate c)
     \<lparr>Storage := f (Storage (ClusterSpec_OBServerTemplate c))\<rparr>\<rparr>"

text \<open>
  \<^verbatim>\<open>supportStaticIP\<close> reads the annotation alone, not \<^verbatim>\<open>SupportStaticIP()\<close> of the cluster.
\<close>

definition modified_servers :: "ModifyOBServersConfig \<Rightarrow> OBCluster \<Rightarrow> OBCluster" where
  "modified_servers spec c0 =
     (let c1 = set_if (Mod_ExpandStorageSize spec) (\<lambda>mutation. change_storage (expanded_sizes mutation)) c0;
          c2 = set_if (Mod_ModifyStorageClass spec) (\<lambda>mutation. change_storage (modified_classes mutation)) c1
      in if dict_get (Annotations c2) AnnotationsSupportStaticIP \<noteq> ''true'' then c2
         else
           let c3 = (if Mod_AddingMonitor spec \<noteq> None then c2\<lparr>ClusterSpec_MonitorTemplate := Mod_AddingMonitor spec\<rparr> else c2);
               c4 = (if Mod_AddingBackupVolume spec \<noteq> None then c3\<lparr>ClusterSpec_BackupVolume := Mod_AddingBackupVolume spec\<rparr> else c3);
               c5 = (if Mod_RemoveBackupVolume spec then c4\<lparr>ClusterSpec_BackupVolume := None\<rparr> else c4);
               c6 = (if Mod_RemoveMonitor spec then c5\<lparr>ClusterSpec_MonitorTemplate := None\<rparr> else c5)
           in set_if (Mod_Resource spec) (\<lambda>r c. c\<lparr>ClusterSpec_OBServerTemplate :=
                (ClusterSpec_OBServerTemplate c)\<lparr>Template_Resource := r\<rparr>\<rparr>) c6)"

text \<open>
  The parameters: a later entry for the same name wins, new names are appended in the order
  \<open>order\<close> in which Go walks over the map.
\<close>

definition param_map :: "Parameter list \<Rightarrow> string \<rightharpoonup> string" where
  "param_map ps = map_of (rev (map (\<lambda>p. (Param_Name p, Param_Value p)) ps))"

definition set_parameters :: "(string list \<Rightarrow> string list) \<Rightarrow> Parameter list \<Rightarrow> Parameter list \<Rightarrow> Parameter list" where
  "set_parameters order new ps =
     map (\<lambda>p. case param_map new (Param_Name p) of None \<Rightarrow> p | Some v \<Rightarrow> p\<lparr>Param_Value := v\<rparr>) ps @
     map (\<lambda>k. \<lparr>Param_Name = k, Param_Value = the (param_map new k)\<rparr>)
       (filter (\<lambda>k. k \<notin> Param_Name ` set ps) (order (remdups (map Param_Name new))))"

text \<open>
  The servers to delete are counted per zone, once for every occurrence of their name; a zone
  that would be left without a replica keeps its replicas.
\<close>

definition zone_deletions :: "string list \<Rightarrow> OBServer list \<Rightarrow> string \<Rightarrow> int" where
  "zone_deletions names servers z =
     int (length [s. s \<leftarrow> servers, n \<leftarrow> names, Name s = n \<and> ServerSpec_Zone s = z])"

definition reduced_replicas :: "string list \<Rightarrow> OBServer list \<Rightarrow> OBZoneTopology list \<Rightarrow> OBZoneTopology list" where
  "reduced_replicas names servers topology =
     map (\<lambda>t. let v = zone_deletions names servers (Zone t)
              in if v > 0 \<and> Replica t - v > 0 then t\<lparr>Replica := Replica t - v\<rparr> else t) topology"

definition changed_cluster :: "cluster_op_env \<Rightarrow> OBClusterOperation \<Rightarrow> OBCluster \<Rightarrow> OBCluster cop_io" where
  "changed_cluster env m c =
     (if COp_Type m = ClusterOpTypeAddZones then
        if slice (COp_AddZones m) = [] then raise (OtherError ''AddZones is empty'')
        else ret (c\<lparr>ClusterSpec_Topology := ClusterSpec_Topology c @ slice (COp_AddZones m)\<rparr>)
      else if COp_Type m = ClusterOpTypeDeleteZones then
        if slice (COp_DeleteZones m) = [] then raise (OtherError ''DeleteZones is empty'')
        else ret (c\<lparr>ClusterSpec_Topology := deleted_zones (slice (COp_DeleteZones m)) (ClusterSpec_Topology c)\<rparr>)
      else if COp_Type m = ClusterOpTypeAdjustReplicas then
        if slice (COp_AdjustReplicas m) = [] then raise (OtherError ''AdjustReplicas is empty'')
        else ret (c\<lparr>ClusterSpec_Topology := adjusted_replicas (slice (COp_AdjustReplicas m)) (ClusterSpec_Topology c)\<rparr>)
      else if COp_Type m = ClusterOpTypeModifyOBServers then
        (case COp_ModifyOBServers m of
           None \<Rightarrow> raise (OtherError ''modifyOBServers is empty'')
         | Some spec \<Rightarrow> ret (modified_servers spec c))
      else if COp_Type m = ClusterOpTypeUpgrade then
        (case COp_Upgrade m of
           None \<Rightarrow> raise (OtherError ''Upgrade is empty'')
         | Some img \<Rightarrow>
             if img = [] then raise (OtherError ''Upgrading image is empty'')
             else ret (c\<lparr>ClusterSpec_OBServerTemplate := (ClusterSpec_OBServerTemplate c)\<lparr>Image := img\<rparr>\<rparr>))
      else if COp_Type m = ClusterOpTypeSetParameters then
        (case COp_SetParameters m of
           None \<Rightarrow> raise (OtherError ''setParameters is empty'')
         | Some new \<Rightarrow> ret (c\<lparr>ClusterSpec_Parameters := set_parameters (map_order env) new (ClusterSpec_Parameters c)\<rparr>))
      else if COp_Type m = ClusterOpTypeDeleteOBServers then
        bind_io (deref_io (COp_DeleteOBServers m)) (\<lambda>names.
          if names = [] then raise (OtherError ''Delete observers is empty'')
          else bind_io (cop_listServers env) (\<lambda>servers.
                 ret (c\<lparr>ClusterSpec_Topology := reduced_replicas names servers (ClusterSpec_Topology c)\<rparr>)))
      else ret c)"

text \<open>
  A forced operation makes the cluster running in the object it patches; the status is a
  subresource, so this part of the patch has no effect on the stored cluster.
\<close>

definition ModifyClusterSpec :: "cluster_op_env \<Rightarrow> OBClusterOperation \<Rightarrow> unit cop_io" where
  "ModifyClusterSpec env m =
     bind_io (cop_getCluster env) (\<lambda>origin.
     bind_io (changed_cluster env m origin) (\<lambda>c.
     bind_io (if COp_Force m then ret (leave_flow clusterstatus_Running c)
              else if Status c \<noteq> clusterstatus_Running then raise (OtherError ''obcluster is not running'')
              else ret c) (\<lambda>obcluster.
     bind_io (perform (\<lambda>h. patch_cluster env h origin obcluster) (PatchedCluster origin obcluster)) (\<lambda>changed.
       if \<not> changed then ret ()
       else or_error ''Timeout to wait for cluster to be operating''
              (waitForOBClusterStatusToMatch env (DefaultStateWaitTimeout env) (\<lambda>status. status \<noteq> clusterstatus_Running))))))"

definition WaitForClusterReturnRunning :: "cluster_op_env \<Rightarrow> OBClusterOperation \<Rightarrow> unit cop_io" where
  "WaitForClusterReturnRunning env m =
     (let timeout = (if COp_Type m = ClusterOpTypeModifyOBServers \<and>
                        (case COp_ModifyOBServers m of None \<Rightarrow> False | Some spec \<Rightarrow> Mod_ModifyStorageClass spec \<noteq> None)
                     then ServerDeleteTimeoutSeconds env else DefaultStateWaitTimeout env)
      in or_error ''Timeout to wait for cluster to be running''
           (waitForOBClusterStatusToMatch env timeout (\<lambda>status. status = clusterstatus_Running)))"

section \<open>Deleting named servers\<close>

definition DefaultDeletionPriority :: nat where
  "DefaultDeletionPriority = 100"

definition annotate_for_deletion :: "OBServer \<Rightarrow> OBServer" where
  "annotate_for_deletion s =
     s\<lparr>Annotations := (Annotations s)(AnnotationsDeletionPriority \<mapsto> show_nat DefaultDeletionPriority)\<rparr>"

definition running_or_forced :: "OBClusterOperation \<Rightarrow> OBCluster \<Rightarrow> unit cop_io" where
  "running_or_forced m c =
     (if Status c \<noteq> clusterstatus_Running \<and> \<not> COp_Force m
      then raise (OtherError ''RestartOBServers requires obcluster to be running'') else ret ())"

text \<open>A server that is named twice is updated twice.\<close>

definition AnnotateOBServersForDeletion :: "cluster_op_env \<Rightarrow> OBClusterOperation \<Rightarrow> unit cop_io" where
  "AnnotateOBServersForDeletion env m =
     bind_io (cop_getCluster env) (\<lambda>obcluster.
     bind_io (running_or_forced m obcluster) (\<lambda>_.
     bind_io (cop_listServers env) (\<lambda>servers.
       each_io (\<lambda>observer.
         bind_io (deref_io (COp_DeleteOBServers m)) (\<lambda>names.
           each_io (\<lambda>observerName.
             let annotated = annotate_for_deletion observer
             in wrap_io (''Failed to annotate observer '' @ observerName)
                  (perform (\<lambda>h. update_server env h annotated) (UpdatedServer annotated)))
             (filter (\<lambda>n. Name observer = n) names))) servers)))"

section \<open>Restarting servers\<close>

definition restarting_servers :: "RestartOBServersConfig \<Rightarrow> OBServer list \<Rightarrow> OBServer list" where
  "restarting_servers spec servers =
     (if Restart_All spec then servers
      else if Restart_OBZones spec \<noteq> []
      then filter (\<lambda>s. dict_get (Labels s) ''ref-obzone'' \<in> set (Restart_OBZones spec)) servers
      else if Restart_OBServers spec \<noteq> []
      then filter (\<lambda>s. Name s \<in> set (Restart_OBServers spec)) servers
      else [])"

definition restart_one :: "cluster_op_env \<Rightarrow> OBServer \<Rightarrow> unit cop_io" where
  "restart_one env observer =
     (if Status observer = serverstatus_Recover then ret ()
      else
        bind_io (if OBServer_InMasterK8s observer then ret ()
                 else perform (\<lambda>h. k8s_client env h (ServerSpec_K8sCluster observer)) (GotK8sClient (ServerSpec_K8sCluster observer))) (\<lambda>_.
        bind_io (perform (\<lambda>h. get_pod env h (Name observer)) (GotPod (Name observer))) (\<lambda>_.
        bind_io (perform (\<lambda>h. delete_pod env h (Name observer)) (DeletedPod (Name observer))) (\<lambda>_.
        bind_io (or_error ''Timeout to wait for server to be operating''
          (waitForOBServerStatusToMatch env (Name observer) (ServerDeleteTimeoutSeconds env) (\<lambda>status. status \<noteq> serverstatus_Running))) (\<lambda>_.
          or_error ''Timeout to wait for server to be running''
            (waitForOBServerStatusToMatch env (Name observer) (ServerDeleteTimeoutSeconds env) (\<lambda>status. status = serverstatus_Running)))))))"

definition RestartOBServers :: "cluster_op_env \<Rightarrow> OBClusterOperation \<Rightarrow> unit cop_io" where
  "RestartOBServers env m =
     bind_io (cop_getCluster env) (\<lambda>obcluster.
     bind_io (running_or_forced m obcluster) (\<lambda>_.
     bind_io (if dict_get (Annotations obcluster) AnnotationsSupportStaticIP \<noteq> ''true''
              then raise (OtherError ''RestartOBServers requires obcluster's support for static ip'') else ret ()) (\<lambda>_.
     bind_io (cop_listServers env) (\<lambda>servers.
     bind_io (deref_io (COp_RestartOBServers m)) (\<lambda>spec.
       each_io (restart_one env) (restarting_servers spec servers))))))"

section \<open>Lemmas\<close>

lemma or_error_Ok [simp]: "or_error msg f h = (Ok x, h') \<longleftrightarrow> f h = (Ok x, h')"
  by (auto simp: or_error_def catch_io_def bind_io_def raise_def ret_def split: outcome.splits prod.splits)

lemma snd_or_error [simp]: "snd (or_error msg f h) = snd (f h)"
  by (auto simp: or_error_def catch_io_def bind_io_def raise_def ret_def split: outcome.splits prod.splits)

lemma emits_none_or_error [io_silent]: "emits_none kind f \<Longrightarrow> emits_none kind (or_error msg f)"
  by (simp add: emits_none_def)

text \<open>The calls that change something: the patches of the cluster and the updates of servers.\<close>

fun patch_of :: "cluster_op_event \<Rightarrow> (OBCluster \<times> OBCluster) option" where
  "patch_of (PatchedCluster origin c _) = Some (origin, c)"
| "patch_of _ = None"

fun update_of :: "cluster_op_event \<Rightarrow> OBServer option" where
  "update_of (UpdatedServer s (Inr _)) = Some s"
| "update_of _ = None"

lemma update_of_patched [simp]: "update_of (PatchedCluster a b r) = None"
  by simp

lemma silent_reads [io_silent]:
  assumes "\<And>r. kind (GotCluster r) = None" "\<And>r. kind (ListedServers r) = None"
  shows "emits_none kind (cop_getCluster env)" "emits_none kind (cop_listServers env)"
    "emits_none kind (waitForOBClusterStatusToMatch env n match)" "emits_none kind (changed_cluster env m c)"
proof -
  show reads: "emits_none kind (cop_getCluster env)" "emits_none kind (cop_listServers env)"
    by (simp_all add: cop_getCluster_def cop_listServers_def emits_none_perform assms)
  show "emits_none kind (waitForOBClusterStatusToMatch env n match)"
    by (induction n) (auto intro!: io_silent reads)
  show "emits_none kind (changed_cluster env m c)"
    by (auto simp: changed_cluster_def intro!: io_silent reads split: option.split)
qed

lemma modify_updates_no_server: "emits_none update_of (ModifyClusterSpec env m)"
  unfolding ModifyClusterSpec_def leave_flow_def
  by (intro emits_none_bind emits_none_or_error silent_reads emits_none_perform)
    (auto intro!: io_silent)

text \<open>
  \<^verbatim>\<open>ModifyClusterSpec\<close> sends at most one patch, and it carries the change of the cluster that
  was read, which is running unless the operation is forced.
\<close>

abbreviation patches :: "coplog \<Rightarrow> (OBCluster \<times> OBCluster) list" where
  "patches \<equiv> List.map_filter patch_of"

definition patched_cluster :: "OBClusterOperation \<Rightarrow> OBCluster \<Rightarrow> OBCluster option" where
  "patched_cluster m c =
     (if COp_Force m then Some (leave_flow clusterstatus_Running c)
      else if Status c = clusterstatus_Running then Some c else None)"

declare map_filter_append [simp]

lemma modify_patches:
  obtains es where "snd (ModifyClusterSpec env m h) = h @ es" and
    "patches es = [] \<or> (\<exists>origin c h' obcluster. changed_cluster env m origin (h @ [GotCluster (Inr origin)]) = (Ok c, h') \<and>
       patched_cluster m c = Some obcluster \<and> patches es = [(origin, obcluster)])"
proof (cases "get_cluster env h")
  case (Inl err)
  then show ?thesis
    by (intro that [of "[GotCluster (Inl err)]"]) (simp_all add: ModifyClusterSpec_def cop_getCluster_def io_defs List.map_filter_def)
next
  case (Inr origin)
  let ?h1 = "h @ [GotCluster (Inr origin)]"
  obtain r h2 where run: "changed_cluster env m origin ?h1 = (r, h2)" by force
  moreover have "emits_none patch_of (changed_cluster env m origin)" by (intro silent_reads) simp_all
  ultimately obtain es2 where es2: "h2 = ?h1 @ es2" "patches es2 = []" using emits_noneD by blast
  have guard: "(if COp_Force m then ret (leave_flow clusterstatus_Running c)
      else if Status c \<noteq> clusterstatus_Running then raise (OtherError ''obcluster is not running'') else ret c) =
    (case patched_cluster m c of None \<Rightarrow> raise (OtherError ''obcluster is not running'') | Some c' \<Rightarrow> ret c')" for c
    by (simp add: patched_cluster_def)
  have read: "ModifyClusterSpec env m h = bind_io (changed_cluster env m origin)
      (\<lambda>c. bind_io (case patched_cluster m c of None \<Rightarrow> raise (OtherError ''obcluster is not running'') | Some c' \<Rightarrow> ret c')
        (\<lambda>obcluster. bind_io (perform (\<lambda>h. patch_cluster env h origin obcluster) (PatchedCluster origin obcluster))
          (\<lambda>changed. if \<not> changed then ret ()
            else or_error ''Timeout to wait for cluster to be operating''
              (waitForOBClusterStatusToMatch env (DefaultStateWaitTimeout env) (\<lambda>status. status \<noteq> clusterstatus_Running))))) ?h1"
    unfolding ModifyClusterSpec_def cop_getCluster_def guard
    by (subst bind_known [where x = origin]) (simp_all only: perform_def Inr sum.case fst_conv snd_conv)
  show ?thesis
  proof (cases "\<exists>c obcluster. r = Ok c \<and> patched_cluster m c = Some obcluster")
    case False
    then show ?thesis using run es2
      by (intro that [of "GotCluster (Inr origin) # es2"])
        (auto simp: read bind_io_def raise_def List.map_filter_def split: outcome.splits option.splits)
  next
    case True
    then obtain c obcluster where ok: "r = Ok c" "patched_cluster m c = Some obcluster" by blast
    let ?p = "\<lambda>r. PatchedCluster origin obcluster r"
    have tail: "emits_none patch_of (if \<not> changed then ret ()
        else or_error msg (waitForOBClusterStatusToMatch env n f))" for changed msg n f
      by (auto intro!: io_silent)
    show ?thesis
    proof (cases "patch_cluster env h2 origin obcluster")
      case (Inl err)
      with run ok es2 show ?thesis
        by (intro that [of "GotCluster (Inr origin) # es2 @ [?p (Inl err)]"])
          (auto simp: read bind_io_def ret_def perform_def List.map_filter_def)
    next
      case (Inr changed)
      obtain es3 where es3: "snd ((if \<not> changed then ret ()
          else or_error ''Timeout to wait for cluster to be operating''
              (waitForOBClusterStatusToMatch env (DefaultStateWaitTimeout env) (\<lambda>status. status \<noteq> clusterstatus_Running)))
            (h2 @ [?p (Inr changed)])) = (h2 @ [?p (Inr changed)]) @ es3" "patches es3 = []"
        using tail [of changed] unfolding emits_none_def by blast
      with run ok es2 Inr show ?thesis
        by (intro that [of "GotCluster (Inr origin) # es2 @ [?p (Inr changed)] @ es3"])
          (auto simp: read bind_io_def ret_def perform_def List.map_filter_def)
    qed
  qed
qed

lemma modify_patchE:
  assumes "snd (ModifyClusterSpec env m h) = h @ es" "PatchedCluster origin obcluster r \<in> set es"
  obtains c h' where "changed_cluster env m origin (h @ [GotCluster (Inr origin)]) = (Ok c, h')"
    "patched_cluster m c = Some obcluster"
proof -
  have "(origin, obcluster) \<in> set (patches es)" using assms(2) by (force simp: List.map_filter_def image_iff)
  moreover obtain es' where "snd (ModifyClusterSpec env m h) = h @ es'" "patches es' = [] \<or> (\<exists>origin c h' obcluster.
      changed_cluster env m origin (h @ [GotCluster (Inr origin)]) = (Ok c, h') \<and>
      patched_cluster m c = Some obcluster \<and> patches es' = [(origin, obcluster)])"
    using modify_patches [of env m h] by metis
  ultimately show ?thesis using assms(1) that by auto
qed

lemma set_parameters_names:
  "take (length ps) (map Param_Name (set_parameters order new ps)) = map Param_Name ps"
  by (simp add: set_parameters_def take_map [symmetric] comp_def split: option.split)

lemma param_map_None: "param_map new k = None \<longleftrightarrow> k \<notin> Param_Name ` set new"
  by (simp add: param_map_def map_of_eq_None_iff image_image)

lemma set_parameters_lookup:
  assumes "\<And>ks. set (order ks) = set ks"
  shows "map_of (map (\<lambda>p. (Param_Name p, Param_Value p)) (set_parameters order new ps)) k =
    (case param_map new k of
       Some v \<Rightarrow> Some v
     | None \<Rightarrow> map_of (map (\<lambda>p. (Param_Name p, Param_Value p)) ps) k)"
proof -
  let ?pair = "\<lambda>p. (Param_Name p, Param_Value p)"
  let ?f = "\<lambda>p. case param_map new (Param_Name p) of None \<Rightarrow> p | Some v \<Rightarrow> p\<lparr>Param_Value := v\<rparr>"
  have kept: "map_of (map ?pair (map ?f ps)) k = (if k \<in> Param_Name ` set ps
      then (case param_map new k of Some v \<Rightarrow> Some v | None \<Rightarrow> map_of (map ?pair ps) k) else None)"
    by (induction ps) (auto split: option.splits)
  have added: "map_of (map ?pair (map (\<lambda>k. \<lparr>Param_Name = k, Param_Value = the (param_map new k)\<rparr>) ks)) k =
      (if k \<in> set ks then Some (the (param_map new k)) else None)" for ks
    by (induction ks) auto
  have "k \<notin> Param_Name ` set ps \<Longrightarrow> map_of (map ?pair ps) k = None"
    by (auto simp: map_of_eq_None_iff)
  then show ?thesis
    using param_map_None [of new k]
    unfolding set_parameters_def map_append map_of_append map_add_def kept added
    by (auto simp: assms split: option.splits)
qed

section \<open>Restarts one at a time\<close>

text \<open>
  The server whose pod has been deleted and that has not come back yet, and whether it has been
  seen down: an event that deletes another pod meanwhile is a violation, \<open>None\<close>.
\<close>

type_synonym restarting = "(string \<times> bool) option"

fun restart_step :: "cluster_op_event \<Rightarrow> restarting \<Rightarrow> restarting option" where
  "restart_step (DeletedPod n (Inr _)) st = (if st = None then Some (Some (n, False)) else None)"
| "restart_step (GotServer n (Inr s)) st =
     Some (case st of
             None \<Rightarrow> None
           | Some (n', down) \<Rightarrow>
               if n \<noteq> n' then st
               else if down then (if Status s = serverstatus_Running then None else st)
               else Some (n', Status s \<noteq> serverstatus_Running))"
| "restart_step _ st = Some st"

fun restart_run :: "coplog \<Rightarrow> restarting \<Rightarrow> restarting option" where
  "restart_run [] st = Some st"
| "restart_run (e # es) st = (case restart_step e st of None \<Rightarrow> None | Some st' \<Rightarrow> restart_run es st')"

lemma restart_run_append: "restart_run (es @ es') st = Option.bind (restart_run es st) (restart_run es')"
  by (induction es st rule: restart_run.induct) (auto split: option.split)

text \<open>The pods that were deleted.\<close>

fun deleted_pod :: "cluster_op_event \<Rightarrow> string option" where
  "deleted_pod (DeletedPod n (Inr _)) = Some n"
| "deleted_pod _ = None"

text \<open>
  A program leads from one state of the restart to another when it goes well, deleting the pods
  \<open>ns\<close>; when it does not, no rule has been broken.
\<close>

definition restarts :: "restarting \<Rightarrow> string list \<Rightarrow> unit cop_io \<Rightarrow> restarting \<Rightarrow> bool" where
  "restarts st ns f st' \<longleftrightarrow>
     (\<forall>h. \<exists>es. snd (f h) = h @ es \<and> restart_run es st \<noteq> None \<and>
        (fst (f h) = Ok () \<longrightarrow> restart_run es st = Some st' \<and> List.map_filter deleted_pod es = ns))"

lemma restarts_bind:
  assumes "restarts st ns f st'" "restarts st' ns' g st''"
  shows "restarts st (ns @ ns') (bind_io f (\<lambda>_. g)) st''"
  unfolding restarts_def
proof
  fix h
  from assms(1) obtain es where es: "snd (f h) = h @ es" "restart_run es st \<noteq> None"
    "fst (f h) = Ok () \<longrightarrow> restart_run es st = Some st' \<and> List.map_filter deleted_pod es = ns"
    unfolding restarts_def by blast
  from assms(2) obtain es' where es': "snd (g (h @ es)) = (h @ es) @ es'" "restart_run es' st' \<noteq> None"
    "fst (g (h @ es)) = Ok () \<longrightarrow> restart_run es' st' = Some st'' \<and> List.map_filter deleted_pod es' = ns'"
    unfolding restarts_def by blast
  show "\<exists>es. snd (bind_io f (\<lambda>_. g) h) = h @ es \<and> restart_run es st \<noteq> None \<and>
      (fst (bind_io f (\<lambda>_. g) h) = Ok () \<longrightarrow> restart_run es st = Some st'' \<and> List.map_filter deleted_pod es = ns @ ns')"
  proof (cases "fst (f h)")
    case (Ok u)
    then have "bind_io f (\<lambda>_. g) h = g (h @ es)" using es by (cases "f h") (simp add: bind_io_def)
    with Ok es es' show ?thesis by (intro exI [of _ "es @ es'"]) (simp add: restart_run_append)
  qed (use es in \<open>auto simp: bind_io_def split: prod.splits intro!: exI [of _ es]\<close>)
qed

lemma restarts_skip [simp]: "restarts st [] (ret ()) st"
  by (simp add: restarts_def ret_def List.map_filter_def)

lemma restarts_perform:
  assumes "\<And>r. restart_step (event r) st = Some st \<and> deleted_pod (event r) = None"
  shows "restarts st [] (perform answer event) st"
  unfolding restarts_def by (auto simp: perform_def assms List.map_filter_def split: sum.splits)

lemma restarts_or_error: "restarts st ns f st' \<Longrightarrow> restarts st ns (or_error msg f) st'"
  unfolding restarts_def snd_or_error
  by (metis or_error_Ok prod.collapse)

lemma restarts_wait:
  assumes "\<And>s. restart_step (GotServer n (Inr s)) st = Some (if match (Status s) then st' else st)"
  shows "restarts st [] (waitForOBServerStatusToMatch env n t match) st'"
proof (induction t)
  case 0
  show ?case by (simp add: restarts_def raise_def)
next
  case (Suc t)
  show ?case unfolding restarts_def
  proof
    fix h
    let ?w = "waitForOBServerStatusToMatch env n"
    show "\<exists>es. snd (?w (Suc t) match h) = h @ es \<and> restart_run es st \<noteq> None \<and>
        (fst (?w (Suc t) match h) = Ok () \<longrightarrow> restart_run es st = Some st' \<and> List.map_filter deleted_pod es = [])"
    proof (cases "get_server env h n")
      case (Inl err)
      then show ?thesis
        by (intro exI [of _ "[GotServer n (Inl err)]"]) (simp add: bind_io_def perform_def)
    next
      case (Inr s)
      let ?e = "GotServer n (Inr s)"
      from Suc obtain es where "snd (?w t match (h @ [?e])) = (h @ [?e]) @ es" "restart_run es st \<noteq> None"
        "fst (?w t match (h @ [?e])) = Ok () \<longrightarrow> restart_run es st = Some st' \<and> List.map_filter deleted_pod es = []"
        unfolding restarts_def by blast
      then show ?thesis using Inr assms [of s]
        by (intro exI [of _ "?e # (if match (Status s) then [] else es)"])
          (simp add: bind_io_def perform_def ret_def List.map_filter_def del: restart_step.simps)
    qed
  qed
qed

lemma restarts_delete: "restarts None [n] (perform (\<lambda>h. delete_pod env h n) (DeletedPod n)) (Some (n, False))"
  unfolding restarts_def by (auto simp: perform_def List.map_filter_def split: sum.splits)

lemma restarts_one:
  "restarts None (if Status s = serverstatus_Recover then [] else [Name s]) (restart_one env s) None"
proof (cases "Status s = serverstatus_Recover")
  case False
  let ?wait = "waitForOBServerStatusToMatch env (Name s) (ServerDeleteTimeoutSeconds env)"
  have down: "restarts (Some (Name s, False)) [] (?wait (\<lambda>status. status \<noteq> serverstatus_Running)) (Some (Name s, True))"
    by (rule restarts_wait) simp
  have up: "restarts (Some (Name s, True)) [] (?wait (\<lambda>status. status = serverstatus_Running)) None"
    by (rule restarts_wait) simp
  have quiet: "restarts None [] (if b then ret () else perform answer (GotK8sClient k)) None" for b answer k
    by (auto intro!: restarts_perform)
  have pod: "restarts None [] (perform answer (GotPod n)) None" for answer n
    by (intro restarts_perform) simp
  have "restarts None ([] @ [] @ [Name s] @ [] @ []) (restart_one env s) None"
    unfolding restart_one_def if_not_P [OF False]
    by (rule restarts_bind [OF quiet restarts_bind [OF pod restarts_bind [OF restarts_delete
        restarts_bind [OF restarts_or_error [OF down] restarts_or_error [OF up]]]]])
  with False show ?thesis by simp
qed (simp add: restart_one_def)

lemma restarts_each:
  "restarts None (map Name (filter (\<lambda>s. Status s \<noteq> serverstatus_Recover) servers)) (each_io (restart_one env) servers) None"
proof (induction servers)
  case (Cons s servers)
  show ?case using restarts_bind [OF restarts_one Cons.IH, of s] by auto
qed simp

section \<open>Deleting the named servers\<close>

text \<open>
  The servers of the API server after the updates in a log, and the hypothesis that the listing
  shows them.
\<close>

definition stored_servers :: "OBServer list \<Rightarrow> coplog \<Rightarrow> OBServer list" where
  "stored_servers servers h =
     fold (\<lambda>u ss. map (\<lambda>s. if Name s = Name u then u else s) ss) (List.map_filter update_of h) servers"

definition named :: "string list \<Rightarrow> OBServer \<Rightarrow> OBServer" where
  "named names s = (if Name s \<in> set names then annotate_for_deletion s else s)"

lemma annotate_simps [simp]:
  "Name (annotate_for_deletion s) = Name s" "ServerSpec_Zone (annotate_for_deletion s) = ServerSpec_Zone s"
  "Status (annotate_for_deletion s) = Status s"
  by (simp_all add: annotate_for_deletion_def)

lemma named_simps [simp]:
  "Name (named names s) = Name s" "ServerSpec_Zone (named names s) = ServerSpec_Zone s" "Status (named names s) = Status s"
  by (simp_all add: named_def)

lemma annotated_priority [simp]: "deletion_priority (annotate_for_deletion s) = 100"
  by (simp add: deletion_priority_def GetAnnotationField_def annotate_for_deletion_def DefaultDeletionPriority_def)

lemma apply_annotations:
  assumes "distinct (map Name servers)" "set us \<subseteq> set servers"
  shows "fold (\<lambda>u ss. map (\<lambda>s. if Name s = Name u then u else s) ss) (map annotate_for_deletion us) servers =
    map (named (map Name us)) servers"
  using assms(2)
proof (induction us rule: rev_induct)
  case Nil
  show ?case by (simp add: named_def map_idI)
next
  case (snoc u us)
  then have u: "u \<in> set servers" by simp
  have "x = u" if "x \<in> set servers" "Name x = Name u" for x
    using assms(1) u that by (auto simp: distinct_map dest: inj_onD)
  with snoc show ?case by (auto simp: named_def)
qed

definition annotations_of :: "string list \<Rightarrow> OBServer list \<Rightarrow> OBServer list" where
  "annotations_of names servers = concat (map (\<lambda>s. replicate (length (filter (\<lambda>n. Name s = n) names)) s) servers)"

lemma annotations_names: "Name ` set (annotations_of names servers) = Name ` {s \<in> set servers. Name s \<in> set names}"
  by (auto simp: annotations_of_def filter_empty_conv)

lemma set_annotations: "set (annotations_of names servers) \<subseteq> set servers"
  by (auto simp: annotations_of_def)

text \<open>What \<^verbatim>\<open>AnnotateOBServersForDeletion\<close> stores when it goes well.\<close>

lemma annotate_log:
  assumes "AnnotateOBServersForDeletion env m h = (Ok (), h')" "COp_DeleteOBServers m = Some names"
  shows "\<exists>c servers. list_servers env (h @ [GotCluster (Inr c)]) = Inr servers \<and>
    h' = h @ [GotCluster (Inr c), ListedServers (Inr servers)] @
      map (\<lambda>s. UpdatedServer (annotate_for_deletion s) (Inr ())) (annotations_of names servers)"
proof -
  let ?upd = "\<lambda>s. UpdatedServer (annotate_for_deletion s)"
  let ?one = "\<lambda>s n. wrap_io (''Failed to annotate observer '' @ n)
    (perform (\<lambda>h. update_server env h (annotate_for_deletion s)) (?upd s))"
  have inner: "h2 = h1 @ replicate (length (filter (\<lambda>n. Name s = n) names)) (?upd s (Inr ()))"
    if "each_io (?one s) (filter (\<lambda>n. Name s = n) names) h1 = (Ok (), h2)" for s h1 h2
    using each_io_log [OF that, of "\<lambda>_. [?upd s (Inr ())]"]
    by (simp add: perform_Ok_iff map_replicate_const)
  from assms obtain c servers where read: "list_servers env (h @ [GotCluster (Inr c)]) = Inr servers"
    and run: "each_io (\<lambda>s. each_io (?one s) (filter (\<lambda>n. Name s = n) names)) servers
      (h @ [GotCluster (Inr c), ListedServers (Inr servers)]) = (Ok (), h')"
    by (auto simp: AnnotateOBServersForDeletion_def bind_Ok_iff cop_getCluster_def cop_listServers_def perform_Ok_iff
        running_or_forced_def deref_io_def Let_def split: if_splits)
  from each_io_log [OF run, of "\<lambda>s. replicate (length (filter (\<lambda>n. Name s = n) names)) (?upd s (Inr ()))"] inner read
  show ?thesis by (intro exI conjI) (auto simp: annotations_of_def map_concat comp_def)
qed

lemma annotate_stores:
  assumes "AnnotateOBServersForDeletion env m h = (Ok (), h')" "COp_DeleteOBServers m = Some names"
    and "\<And>h. list_servers env h = Inr (stored_servers servers h)" "distinct (map Name servers)"
    and "List.map_filter update_of h = []"
  shows "stored_servers servers h' = map (named names) servers" and "patches h' = patches h"
proof -
  from annotate_log [OF assms(1,2)] obtain c servers' where
    read: "list_servers env (h @ [GotCluster (Inr c)]) = Inr servers'" and
    log: "h' = h @ [GotCluster (Inr c), ListedServers (Inr servers')] @
      map (\<lambda>s. UpdatedServer (annotate_for_deletion s) (Inr ())) (annotations_of names servers')" by blast
  from read assms(3,5) have servers': "servers' = servers" by (simp add: stored_servers_def List.map_filter_def)
  have upd: "List.map_filter update_of (map (\<lambda>s. UpdatedServer (annotate_for_deletion s) (Inr ())) us) =
      map annotate_for_deletion us" "patches (map (\<lambda>s. UpdatedServer (annotate_for_deletion s) (Inr ())) us) = []" for us
    by (induction us) (simp_all add: List.map_filter_def)
  have names: "named (map Name (annotations_of names servers)) s = named names s" if "s \<in> set servers" for s
    using that annotations_names [of names servers] by (auto simp: named_def)
  show "stored_servers servers h' = map (named names) servers"
    using apply_annotations [OF assms(4) set_annotations, of names] names assms(5)
    by (auto simp: stored_servers_def log servers' upd List.map_filter_def [of update_of "_ # _"])
  show "patches h' = patches h" by (simp add: log upd List.map_filter_def [of patch_of "_ # _"])
qed

text \<open>
  A split of two groups of elements, the second with values below those of the first, into kept
  and removed ones by value and by the size of the second group.
\<close>

lemma filter_mset_none: "filter_mset P M = {#} \<longleftrightarrow> (\<forall>x \<in># M. \<not> P x)"
  by (induction M) auto

lemma removed_by_value:
  fixes f :: "'a \<Rightarrow> int"
  assumes "kept + removed = N + U" "size kept = size U"
    and "\<forall>x \<in># N. f x = k" "\<forall>x \<in># U. f x < k" "\<forall>x \<in># kept. \<forall>y \<in># removed. f x \<le> f y"
  shows "removed = N"
proof -
  let ?low = "filter_mset (\<lambda>x. f x < k)"
  have "?low N = {#}" "?low U = U"
    using assms(3,4) by (simp_all add: filter_mset_none filter_mset_eq_conv)
  then have low: "?low kept + ?low removed = U"
    by (metis assms(1) filter_union_mset add.left_neutral)
  have "?low removed = {#}"
  proof (rule ccontr)
    assume "?low removed \<noteq> {#}"
    then obtain y where y: "y \<in># removed" "f y < k" by (auto simp: filter_mset_none)
    with assms(5) have "\<forall>x \<in># kept. f x < k" by fastforce
    then have "?low kept = kept" by (simp add: filter_mset_eq_conv)
    with low assms(2) \<open>?low removed \<noteq> {#}\<close> show False
      by (metis add_cancel_right_right size_eq_0_iff_empty size_union)
  qed
  with low have "?low kept = U" by simp
  with assms(2) have "kept = U"
    by (metis multiset_filter_subset size_filter_mset_lesseq subset_mset.antisym_conv2 mset_subset_size order_less_irrefl)
  with assms(1) show ?thesis by simp
qed

lemma zone_deletions_distinct:
  assumes "distinct names"
  shows "zone_deletions names servers z =
    int (length (filter (\<lambda>s. ServerSpec_Zone s = z \<and> Name s \<in> set names) servers))"
proof -
  have one: "length (concat (map (\<lambda>n. if Name s = n \<and> ServerSpec_Zone s = z then [s] else []) names)) =
      (if ServerSpec_Zone s = z \<and> Name s \<in> set names then 1 else 0)" for s :: OBServer
    using assms by (induction names) auto
  show ?thesis unfolding zone_deletions_def
    by (induction servers) (auto simp: one)
qed

text \<open>The topology that is patched after the annotations, and the servers that are stored then.\<close>

lemma delete_servers_patch:
  assumes op: "COp_Type m = ClusterOpTypeDeleteOBServers" "COp_DeleteOBServers m = Some names"
    and listing: "\<And>h. list_servers env h = Inr (stored_servers servers h)" and distinct: "distinct (map Name servers)"
    and annotate: "AnnotateOBServersForDeletion env m [] = (Ok (), h1)"
    and modify: "PatchedCluster origin obcluster r \<in> set (snd (ModifyClusterSpec env m h1))"
  shows "ClusterSpec_Topology obcluster = reduced_replicas names (map (named names) servers) (ClusterSpec_Topology origin)"
    and "stored_servers servers (snd (ModifyClusterSpec env m h1)) = map (named names) servers"
proof -
  have "List.map_filter update_of [] = []" "patches [] = []" by (simp_all add: List.map_filter_def)
  with annotate_stores [OF annotate op(2) listing distinct]
  have stored: "stored_servers servers h1 = map (named names) servers" and none: "patches h1 = []" by simp_all
  obtain es where es: "snd (ModifyClusterSpec env m h1) = h1 @ es"
    using emits_noneD [OF modify_updates_no_server prod.collapse [symmetric]] by blast
  have "PatchedCluster origin obcluster r \<notin> set h1" using none by (auto simp: List.map_filter_def filter_empty_conv)
  with modify es have "PatchedCluster origin obcluster r \<in> set es" by simp
  then obtain c h' where change: "changed_cluster env m origin (h1 @ [GotCluster (Inr origin)]) = (Ok c, h')"
    "patched_cluster m c = Some obcluster" by (rule modify_patchE [OF es])
  have "stored_servers servers (h1 @ [GotCluster (Inr origin)]) = map (named names) servers"
    using stored by (simp add: stored_servers_def List.map_filter_def)
  with change show "ClusterSpec_Topology obcluster =
      reduced_replicas names (map (named names) servers) (ClusterSpec_Topology origin)"
    using op listing
    by (auto simp: changed_cluster_def deref_io_def bind_Ok_iff cop_listServers_def perform_Ok_iff patched_cluster_def
        leave_flow_def split: if_splits)
  from emits_noneD [OF modify_updates_no_server prod.collapse [symmetric], of env m h1] stored es
  show "stored_servers servers (snd (ModifyClusterSpec env m h1)) = map (named names) servers"
    by (auto simp: stored_servers_def)
qed

text \<open>The replicas that are left of a full zone: one for each server that is not named.\<close>

lemma reduced_replica:
  assumes "distinct names" "zs = filter (\<lambda>s. ServerSpec_Zone s = Zone t) servers"
    and "t' \<in> set (reduced_replicas names (map (named names) servers) topology)" "Zone t' = Zone t"
    and "\<forall>t'' \<in> set topology. Zone t'' = Zone t \<longrightarrow> Replica t'' = int (length zs)"
    and "\<exists>s \<in> set zs. Name s \<notin> set names"
  shows "Replica t' = int (length (filter (\<lambda>s. Name s \<notin> set names) zs))"
proof -
  have v: "zone_deletions names (map (named names) servers) (Zone t) = int (length (filter (\<lambda>s. Name s \<in> set names) zs))"
    by (simp add: zone_deletions_distinct [OF assms(1)] assms(2) filter_map comp_def conj_commute)
  have len: "length zs = length (filter (\<lambda>s. Name s \<in> set names) zs) + length (filter (\<lambda>s. Name s \<notin> set names) zs)"
    by (rule sum_length_filter_compl [symmetric])
  have "filter (\<lambda>s. Name s \<notin> set names) zs \<noteq> []" using assms(6) by (auto simp: filter_empty_conv)
  then have pos: "0 < length (filter (\<lambda>s. Name s \<notin> set names) zs)" by simp
  from assms(3) obtain t0 where t0: "t0 \<in> set topology"
    "t' = (let v = zone_deletions names (map (named names) servers) (Zone t0)
       in if v > 0 \<and> Replica t0 - v > 0 then t0\<lparr>Replica := Replica t0 - v\<rparr> else t0)"
    by (auto simp: reduced_replicas_def)
  then have zone: "Zone t0 = Zone t" using assms(4) by (simp add: Let_def split: if_splits)
  with assms(5) t0(1) have "Replica t0 = int (length zs)" by blast
  with t0(2) pos len show ?thesis by (auto simp: Let_def zone v)
qed

text \<open>Of live servers, the named ones are removed.\<close>

lemma delete_loop_named:
  assumes respond: "\<And>n. respond (DeleteServer n) = None" and queue: "mset q = mset (map (named names) zs)"
    and order: "sorted_wrt (\<lambda>x y. CompOBServerDeletionPriority x y \<le> 0) q"
    and live: "\<forall>s \<in> set zs. live s"
    and low: "\<forall>s \<in> set zs. Name s \<notin> set names \<longrightarrow> - (2 ^ 62) < deletion_priority s \<and> deletion_priority s < 100"
    and rep: "rep = int (length (filter (\<lambda>s. Name s \<notin> set names) zs))"
  shows "snd (delete_loop respond rep 0 q) = None \<and>
    mset (fst (delete_loop respond rep 0 q)) =
      mset (map (\<lambda>s. DeleteServer (Name s)) (filter (\<lambda>s. Name s \<in> set names) zs))"
proof -
  let ?named = "filter (\<lambda>s. Name s \<in> set names) zs" and ?others = "filter (\<lambda>s. Name s \<notin> set names) zs"
  let ?all = "mset (map (named names) zs)"
  have small: "\<forall>x \<in> set (map (named names) zs). \<bar>deletion_priority x\<bar> < 2 ^ 62"
    using low by (auto simp: named_def abs_less_iff)
  from delete_loop_split [where respond = respond, OF respond queue order small, of rep]
  obtain kept removed where none: "snd (delete_loop respond rep 0 q) = None" and
    calls: "mset (fst (delete_loop respond rep 0 q)) =
      image_mset (\<lambda>x. DeleteServer (Name x)) (filter_mset lost ?all + mset removed)" and
    parts: "mset kept + mset removed = filter_mset live ?all" and
    len: "int (length kept) = min rep (int (size (filter_mset live ?all)))" and
    prio: "\<forall>x \<in> set kept. \<forall>y \<in> set removed. deletion_priority x \<le> deletion_priority y"
    using rep by auto
  have alive: "filter_mset live ?all = ?all" "filter_mset lost ?all = {#}"
    using live by (auto simp: live_def lost_def filter_mset_eq_conv filter_mset_none)
  have groups: "?all = mset (map annotate_for_deletion ?named) + mset ?others"
    by (induction zs) (auto simp: named_def)
  have "mset removed = mset (map annotate_for_deletion ?named)"
  proof (rule removed_by_value [where f = deletion_priority and k = 100])
    show "mset kept + mset removed = mset (map annotate_for_deletion ?named) + mset ?others"
      using parts alive groups by simp
    show "size (mset kept) = size (mset ?others)"
      using len alive rep by (simp del: mset_filter)
  qed (use low prio in auto)
  then have "image_mset (\<lambda>x. DeleteServer (Name x)) (mset removed) =
      mset (map (\<lambda>s. DeleteServer (Name s)) ?named)"
    by (simp add: multiset.map_comp comp_def)
  then show ?thesis using none calls alive by simp
qed

section \<open>Properties\<close>


text \<open>The operation on a cluster of two servers in one zone that deletes the second.\<close>

definition second_server :: OBServer where
  "second_server = small_server\<lparr>Name := ''test-1-zone1-second''\<rparr>"

definition pair_cluster :: OBCluster where
  "pair_cluster = small_cluster\<lparr>ClusterSpec_Topology := [zone1_topology\<lparr>Replica := 2\<rparr>]\<rparr>"

definition pair_env :: cluster_op_env where
  "pair_env = \<lparr>capi_operation = Inl NotFound, capi_cluster = Inr pair_cluster, copstatus_Update = (\<lambda>m. (m, None)),
     cop_task = (\<lambda>_ _ out. out = Returns None), get_cluster = (\<lambda>_. Inr pair_cluster),
     list_servers = (\<lambda>h. Inr (stored_servers [small_server, second_server] h)), patch_cluster = (\<lambda>_ _ _. Inr False),
     update_server = (\<lambda>_ _. Inr ()), get_server = (\<lambda>_ _. Inr small_server), k8s_client = (\<lambda>_ _. Inr ()),
     get_pod = (\<lambda>_ _. Inr ()), delete_pod = (\<lambda>_ _. Inr ()), map_order = id, DefaultStateWaitTimeout = 1,
     ServerDeleteTimeoutSeconds = 1\<rparr>"

definition pair_operation :: OBClusterOperation where
  "pair_operation = \<lparr>Name = ''op1'', Namespace = ''oceanbase'', Annotations = Map.empty, Labels = Map.empty,
     Finalizers = [], DeletionTimestamp = None, Status = ClusterOpStatusRunning, Ctx = None, COp_OBCluster = ''test'',
     COp_Type = ClusterOpTypeDeleteOBServers, COp_Force = False, COp_AddZones = None, COp_DeleteZones = None,
     COp_AdjustReplicas = None, COp_DeleteOBServers = Some [''test-1-zone1-second''], COp_RestartOBServers = None,
     COp_Upgrade = None, COp_ModifyOBServers = None, COp_SetParameters = None, COpStatus_ClusterSnapshot = None\<rparr>"

lemmas pair_defs = second_server_def pair_cluster_def pair_env_def pair_operation_def

definition pair_log :: coplog where
  "pair_log = [GotCluster (Inr pair_cluster), ListedServers (Inr [small_server, second_server]),
     UpdatedServer (annotate_for_deletion second_server) (Inr ())]"

lemma pair_stored:
  "stored_servers [small_server, second_server] [] = [small_server, second_server]"
  "stored_servers [small_server, second_server] [GotCluster r] = [small_server, second_server]"
  "stored_servers [small_server, second_server] (pair_log @ [GotCluster r]) = [small_server, annotate_for_deletion second_server]"
  by (simp_all add: stored_servers_def List.map_filter_def pair_log_def annotate_for_deletion_def second_server_def small_server_def)

lemma pair_facts:
  "COp_Type pair_operation = ClusterOpTypeDeleteOBServers" "COp_Force pair_operation = False"
  "COp_DeleteOBServers pair_operation = Some [''test-1-zone1-second'']" "Status pair_cluster = clusterstatus_Running"
  "ClusterSpec_Topology pair_cluster = [zone1_topology\<lparr>Replica := 2\<rparr>]"
  "get_cluster pair_env h = Inr pair_cluster" "patch_cluster pair_env h a b = Inr False" "map_order pair_env = id"
  "list_servers pair_env h = Inr (stored_servers [small_server, second_server] h)" "update_server pair_env h s = Inr ()"
  "Name small_server = ''test-1-zone1-abcdef''" "Name second_server = ''test-1-zone1-second''"
  by (simp_all add: pair_defs small_cluster_def small_server_def)

lemma pair_annotate: "AnnotateOBServersForDeletion pair_env pair_operation [] = (Ok (), pair_log)"
  by (simp add: AnnotateOBServersForDeletion_def cop_getCluster_def cop_listServers_def running_or_forced_def io_defs
      pair_facts pair_stored pair_log_def)

definition pair_patched :: OBCluster where
  "pair_patched = pair_cluster\<lparr>ClusterSpec_Topology := [zone1_topology]\<rparr>"

lemma pair_modify: "ModifyClusterSpec pair_env pair_operation pair_log =
    (Ok (), pair_log @ [GotCluster (Inr pair_cluster),
      ListedServers (Inr [small_server, annotate_for_deletion second_server]), PatchedCluster pair_cluster pair_patched (Inr False)])"
proof -
  have c: "reduced_replicas [''test-1-zone1-second''] [small_server, annotate_for_deletion second_server]
      (ClusterSpec_Topology pair_cluster) = [zone1_topology]"
    by (simp add: reduced_replicas_def zone_deletions_def pair_cluster_def second_server_def annotate_for_deletion_def
        small_server_def zone1_topology_def)
  show ?thesis
    by (simp add: ModifyClusterSpec_def changed_cluster_def cop_getCluster_def cop_listServers_def io_defs pair_facts
        pair_stored c [unfolded pair_facts] pair_patched_def)
qed


text \<open>
  C8. Restarts are rolling. Whatever the API server answers, \<^verbatim>\<open>RestartOBServers\<close> never deletes a
  pod while a server whose pod it has deleted before has not been seen down and then running
  again; when it succeeds, the pods of exactly the chosen servers that are not recovering have
  been deleted, in the order of the list, and all of them have come back.
\<close>

theorem restart_rolling:
  assumes "RestartOBServers env m h = (r, h')"
  shows "\<exists>es. h' = h @ es \<and> restart_run es None \<noteq> None \<and>
    (r = Ok () \<longrightarrow> restart_run es None = Some None \<and>
      (\<exists>servers spec. ListedServers (Inr servers) \<in> set es \<and> COp_RestartOBServers m = Some spec \<and>
         List.map_filter deleted_pod es =
           map Name (filter (\<lambda>s. Status s \<noteq> serverstatus_Recover) (restarting_servers spec servers))))"
proof (cases "\<exists>c servers spec. get_cluster env h = Inr c \<and> (Status c = clusterstatus_Running \<or> COp_Force m) \<and>
    dict_get (Annotations c) AnnotationsSupportStaticIP = ''true'' \<and>
    list_servers env (h @ [GotCluster (Inr c)]) = Inr servers \<and> COp_RestartOBServers m = Some spec")
  case True
  then obtain c servers spec where ok: "get_cluster env h = Inr c" "Status c = clusterstatus_Running \<or> COp_Force m"
    "dict_get (Annotations c) AnnotationsSupportStaticIP = ''true''"
    "list_servers env (h @ [GotCluster (Inr c)]) = Inr servers" "COp_RestartOBServers m = Some spec" by blast
  let ?h = "h @ [GotCluster (Inr c), ListedServers (Inr servers)]"
  have run: "RestartOBServers env m h = each_io (restart_one env) (restarting_servers spec servers) ?h"
    using ok by (auto simp: RestartOBServers_def cop_getCluster_def cop_listServers_def running_or_forced_def io_defs)
  obtain es where "h' = ?h @ es" "restart_run es None \<noteq> None"
    "r = Ok () \<longrightarrow> restart_run es None = Some None \<and> List.map_filter deleted_pod es =
      map Name (filter (\<lambda>s. Status s \<noteq> serverstatus_Recover) (restarting_servers spec servers))"
    using restarts_each [of "restarting_servers spec servers" env] run assms unfolding restarts_def
    by (metis fst_conv snd_conv)
  then show ?thesis using ok(5)
    by (intro exI [of _ "[GotCluster (Inr c), ListedServers (Inr servers)] @ es"]) (auto simp: List.map_filter_def)
next
  case False
  then have "(\<exists>x. h' = h @ [GotCluster x]) \<or> (\<exists>x y. h' = h @ [GotCluster x, ListedServers y])" "r \<noteq> Ok ()"
    using assms by (auto simp: RestartOBServers_def cop_getCluster_def cop_listServers_def running_or_forced_def io_defs
        split: sum.splits option.splits if_splits)
  then show ?thesis by force
qed

definition static_env :: cluster_op_env where
  "static_env = pair_env\<lparr>get_cluster := (\<lambda>_. Inr (pair_cluster\<lparr>Annotations := [AnnotationsSupportStaticIP \<mapsto> ''true'']\<rparr>)),
     list_servers := (\<lambda>_. Inr [small_server]), get_server := (\<lambda>h _. Inr (if length h < 5 then small_server\<lparr>Status := ''new''\<rparr> else small_server))\<rparr>"

theorem restart_rolling_witness:
  "restart_run (snd (RestartOBServers static_env (pair_operation\<lparr>COp_RestartOBServers :=
     Some \<lparr>Restart_OBServers = [], Restart_OBZones = [], Restart_All = True\<rparr>\<rparr>) [])) None = Some None"
proof -
  let ?m = "pair_operation\<lparr>COp_RestartOBServers := Some \<lparr>Restart_OBServers = [], Restart_OBZones = [], Restart_All = True\<rparr>\<rparr>"
  have "fst (RestartOBServers static_env ?m []) = Ok ()"
    by (simp add: RestartOBServers_def cop_getCluster_def cop_listServers_def running_or_forced_def io_defs static_env_def
        pair_env_def pair_cluster_def small_cluster_def restarting_servers_def restart_one_def small_server_def
        OBServer_InMasterK8s_def or_error_def dict_get_def numeral_eq_Suc)
  then show ?thesis
    using restart_rolling [of static_env ?m "[]" "Ok ()" "snd (RestartOBServers static_env ?m [])"] by (auto simp: prod_eq_iff)
qed

text \<open>
  What an operation that sets parameters asks for is what the cluster gets. The one patch it
  sends changes the parameters only; in them every name the operation sets has the value of
  its last entry, every other name keeps its value, and no name that was there is lost or moved.
\<close>

theorem set_parameters_exact:
  assumes "COp_Type m = ClusterOpTypeSetParameters" "COp_SetParameters m = Some new"
    and "\<And>ks. set (map_order env ks) = set ks"
    and "snd (ModifyClusterSpec env m h) = h @ es" "PatchedCluster origin obcluster r \<in> set es"
  shows "ClusterSpec_Topology obcluster = ClusterSpec_Topology origin \<and>
    ClusterSpec_OBServerTemplate obcluster = ClusterSpec_OBServerTemplate origin \<and>
    take (length (ClusterSpec_Parameters origin)) (map Param_Name (ClusterSpec_Parameters obcluster)) =
      map Param_Name (ClusterSpec_Parameters origin) \<and>
    (\<forall>k. map_of (map (\<lambda>p. (Param_Name p, Param_Value p)) (ClusterSpec_Parameters obcluster)) k =
       (case param_map new k of
          Some v \<Rightarrow> Some v
        | None \<Rightarrow> map_of (map (\<lambda>p. (Param_Name p, Param_Value p)) (ClusterSpec_Parameters origin)) k))"
proof -
  obtain c h' where change: "changed_cluster env m origin (h @ [GotCluster (Inr origin)]) = (Ok c, h')"
    "patched_cluster m c = Some obcluster" by (rule modify_patchE [OF assms(4,5)])
  then have "ClusterSpec_Topology obcluster = ClusterSpec_Topology origin"
    "ClusterSpec_OBServerTemplate obcluster = ClusterSpec_OBServerTemplate origin"
    and ps: "ClusterSpec_Parameters obcluster = set_parameters (map_order env) new (ClusterSpec_Parameters origin)"
    using assms(1,2) by (auto simp: changed_cluster_def patched_cluster_def leave_flow_def split: if_splits)
  then show ?thesis
    using set_parameters_lookup [OF assms(3)] by (simp add: set_parameters_names)
qed

theorem set_parameters_exact_witness:
  "\<exists>obcluster. PatchedCluster pair_cluster obcluster (Inr False) \<in> set (snd (ModifyClusterSpec pair_env
      (pair_operation\<lparr>COp_Type := ClusterOpTypeSetParameters, COp_SetParameters := Some
         [\<lparr>Param_Name = ''cpu_count'', Param_Value = ''8''\<rparr>, \<lparr>Param_Name = ''cpu_count'', Param_Value = ''16''\<rparr>]\<rparr>) [])) \<and>
    map_of (map (\<lambda>p. (Param_Name p, Param_Value p)) (ClusterSpec_Parameters obcluster)) ''cpu_count'' = Some ''16''"
proof -
  let ?new = "[\<lparr>Param_Name = ''cpu_count'', Param_Value = ''8''\<rparr>, \<lparr>Param_Name = ''cpu_count'', Param_Value = ''16''\<rparr>]"
  let ?m = "pair_operation\<lparr>COp_Type := ClusterOpTypeSetParameters, COp_SetParameters := Some ?new\<rparr>"
  let ?c = "pair_cluster\<lparr>ClusterSpec_Parameters := set_parameters id ?new (ClusterSpec_Parameters pair_cluster)\<rparr>"
  have op: "COp_Type ?m = ClusterOpTypeSetParameters" "COp_Force ?m = False" "COp_SetParameters ?m = Some ?new"
    by (simp_all add: pair_facts)
  have run: "snd (ModifyClusterSpec pair_env ?m []) = [] @ [GotCluster (Inr pair_cluster), PatchedCluster pair_cluster ?c (Inr False)]"
    by (simp add: ModifyClusterSpec_def changed_cluster_def cop_getCluster_def io_defs op pair_facts)
  have "map_of (map (\<lambda>p. (Param_Name p, Param_Value p)) (ClusterSpec_Parameters ?c)) ''cpu_count'' = Some ''16''"
    using set_parameters_exact [OF op(1,3) _ run, of pair_cluster ?c "Inr False"] by (simp add: pair_facts param_map_def)
  with run show ?thesis by auto
qed

end
