(* ===== verification/Admission.thy ===== *)
theory Admission
  imports OBClusterOperation OBBackupPolicy_Tasks "HOL-Library.Signed_Division"
begin

text \<open>
  What the admission webhooks of \<^verbatim>\<open>api/v1alpha1\<close> share: the errors they collect, the API server
  and the database as they see them, patterns, secrets and backup destinations. A validation
  returns the list of its errors and admits the object when the list is empty.
\<close>

section \<open>Errors and environment\<close>

datatype admission_error =
    Invalid "string list" string
  | Required "string list" string
  | Internal "string list" error
  | Plain string
  | Api error

text \<open>The method \<^verbatim>\<open>Error\<close> of an error.\<close>

fun Error :: "error \<Rightarrow> string" where
  "Error NotFound = ''not found''"
| "Error (OtherError s) = s"

record StorageClassObject =
  SC_Name :: string
  SC_Annotations :: dict
  SC_AllowVolumeExpansion :: "bool option"

record GVServer =
  GV_MemAssigned :: int
  GV_MemoryLimit :: int
  GV_CPUAssigned :: int

record DataSource =
  DS_Address :: string
  DS_User :: string
  DS_Tenant :: string
  DS_Password :: string
  DS_Database :: string

text \<open>
  The sizes of the configuration are given as quantities. The functions on quantities and on
  64-bit floating point numbers, cron expressions and random strings are parameters;
  \<open>adm_order\<close> is the order in which Go walks over a map.
\<close>

record admission_config =
  DefaultMemoryLimitPercent :: int
  DefaultDiskUsePercent :: int
  DefaultDiskExpandPercent :: int
  DefaultLogPercent :: int
  MinMemorySize :: Quantity
  MinDataDiskSize :: Quantity
  MinRedoLogDiskSize :: Quantity
  MinLogDiskSize :: Quantity

record admission_env =
  adm_cluster :: "string \<Rightarrow> string \<Rightarrow> OBCluster result"
  adm_tenant :: "string \<Rightarrow> string \<Rightarrow> OBTenant result"
  adm_secret :: "string \<Rightarrow> string \<Rightarrow> dict result"
  adm_storage_class :: "string \<Rightarrow> StorageClassObject result"
  adm_storage_classes :: "StorageClassObject list result"
  adm_service_account :: "string \<Rightarrow> string \<Rightarrow> unit result"
  adm_k8s_cluster :: "string \<Rightarrow> unit result"
  adm_policies :: "string option \<Rightarrow> (string \<times> string) list \<Rightarrow> OBTenantBackupPolicy list result"
  adm_servers :: "string \<Rightarrow> string \<Rightarrow> OBServer list result"
  adm_connects :: "DataSource \<Rightarrow> bool"
  adm_gvservers :: "DataSource \<Rightarrow> GVServer list result"
  adm_uid :: "OBTenant \<Rightarrow> string"
  adm_rand :: "string \<Rightarrow> string"
  adm_cron :: "string \<Rightarrow> unit result"
  adm_order :: "string list \<Rightarrow> string list"
  AsInt64 :: "Quantity \<Rightarrow> int option"
  Quantity_Value :: "Quantity \<Rightarrow> int"
  Quantity_same :: "Quantity \<Rightarrow> Quantity \<Rightarrow> bool"
  ParseQuantity :: "string \<Rightarrow> Quantity result"
  AsApproximateFloat64 :: "Quantity \<Rightarrow> rat"
  float64 :: "int \<Rightarrow> rat"
  float_times :: "rat \<Rightarrow> rat \<Rightarrow> rat"
  float_divide :: "rat \<Rightarrow> rat \<Rightarrow> rat"
  adm_config :: admission_config

section \<open>Patterns\<close>

definition is_digit :: "char \<Rightarrow> bool" where
  "is_digit c \<longleftrightarrow> 48 \<le> (of_char c :: nat) \<and> (of_char c :: nat) \<le> 57"

definition is_letter :: "char \<Rightarrow> bool" where
  "is_letter c \<longleftrightarrow> (65 \<le> (of_char c :: nat) \<and> (of_char c :: nat) \<le> 90) \<or> (97 \<le> (of_char c :: nat) \<and> (of_char c :: nat) \<le> 122)"

definition newline :: char where
  "newline = char_of (10 :: nat)"

text \<open>The pattern of tenant names, a letter or underscore and then at most 127 letters, digits and underscores.\<close>

definition tenantNamePattern :: "string \<Rightarrow> bool" where
  "tenantNamePattern s \<longleftrightarrow>
     (case s of
        [] \<Rightarrow> False
      | c # cs \<Rightarrow> (is_letter c \<or> c = CHR ''_'') \<and> length cs \<le> 127 \<and>
          list_all (\<lambda>c. is_letter c \<or> is_digit c \<or> c = CHR ''_'') cs)"

text \<open>\<^verbatim>\<open>^[1-7]d$\<close> and \<^verbatim>\<open>^[1-9]\d*d$\<close>.\<close>

definition switchPiecePattern :: "string \<Rightarrow> bool" where
  "switchPiecePattern s \<longleftrightarrow> length s = 2 \<and> 49 \<le> (of_char (hd s) :: nat) \<and> (of_char (hd s) :: nat) \<le> 55 \<and> tl s = ''d''"

definition daysPattern :: "string \<Rightarrow> bool" where
  "daysPattern s \<longleftrightarrow>
     s \<noteq> [] \<and> last s = CHR ''d'' \<and> butlast s \<noteq> [] \<and> hd s \<noteq> CHR ''0'' \<and> list_all is_digit (butlast s)"

text \<open>
  \<^verbatim>\<open>^oss://[^/]+/[^/].*\\?host=.+$\<close> in a raw string: the question mark makes a backslash
  optional, and the dot before it may match that backslash, so all that is asked of the
  rest is an occurrence of \<^verbatim>\<open>host=\<close> with something after it and no newline.
\<close>

definition bucketPattern :: "string \<Rightarrow> string \<Rightarrow> bool" where
  "bucketPattern scheme s \<longleftrightarrow>
     (let rest = drop (length scheme) s; bucket = takeWhile (\<lambda>c. c \<noteq> CHR ''/'') rest; path = drop (length bucket) rest
      in prefix scheme s \<and> bucket \<noteq> [] \<and> length path \<ge> 2 \<and> path ! 1 \<noteq> CHR ''/'' \<and> newline \<notin> set (drop 2 path) \<and>
         list_ex (\<lambda>t. prefix ''host='' t \<and> 5 < length t) (suffixes (drop 2 path)))"

text \<open>\<^verbatim>\<open>^\S+$\<close>.\<close>

definition nfsPattern :: "string \<Rightarrow> bool" where
  "nfsPattern s \<longleftrightarrow> s \<noteq> [] \<and> list_all (\<lambda>c. (of_char c :: nat) \<notin> {9, 10, 12, 13, 32}) s"

definition BackupDestTypeOSS :: string where
  "BackupDestTypeOSS = ''OSS''"

definition DestPathPatternMapping :: "string \<Rightarrow> (string \<Rightarrow> bool) option" where
  "DestPathPatternMapping typ =
     (if typ = BackupDestTypeOSS then Some (bucketPattern ''oss://'')
      else if typ = BackupDestTypeCOS then Some (bucketPattern ''cos://'')
      else if typ = BackupDestTypeS3 then Some (bucketPattern ''s3://'')
      else if typ = BackupDestTypeS3Compatible then Some (bucketPattern ''s3://'')
      else if typ = BackupDestTypeNFS then Some nfsPattern
      else None)"

section \<open>Backup destinations\<close>

text \<open>
  The body that \<^verbatim>\<open>validateBackupDestination\<close> of the tenant webhook and \<^verbatim>\<open>validateDestination\<close> of
  the policy webhook share: \<open>nfs\<close>, \<open>typed\<close>, \<open>pathed\<close> and \<open>base\<close> are the paths in the errors, \<open>ns\<close>
  is the namespace of the secret. Of a message the errors keep the constant part.
\<close>

definition secret_fields :: "string \<Rightarrow> string list" where
  "secret_fields typ =
     (if typ \<in> {BackupDestTypeCOS, BackupDestTypeOSS, BackupDestTypeS3, BackupDestTypeS3Compatible} then [''accessId'', ''accessKey''] else []) @
     (if typ = BackupDestTypeCOS then [''appId''] else if typ = BackupDestTypeS3 then [''s3Region''] else [])"

definition check_destination ::
  "admission_env \<Rightarrow> string \<Rightarrow> string list \<Rightarrow> string list \<Rightarrow> string list \<Rightarrow> string list \<Rightarrow> OBCluster \<Rightarrow> BackupDestination \<Rightarrow> admission_error list" where
  "check_destination env ns nfs typed pathed base cluster dest =
     (if Dest_Type dest = BackupDestTypeNFS \<and> ClusterSpec_BackupVolume cluster = None
      then [Invalid nfs ''backupVolume of obcluster is required when backing up data to NFS'']
      else case DestPathPatternMapping (Dest_Type dest) of
        None \<Rightarrow> [Invalid typed ''invalid backup destination type'']
      | Some pattern \<Rightarrow>
          if \<not> pattern (Dest_Path dest) then [Invalid pathed ''invalid backup destination path, the path format should be '']
          else if Dest_Type dest = BackupDestTypeNFS then []
          else if Dest_OSSAccessSecret dest = []
          then [Invalid base ''OSSAccessSecret is required when backing up data to OSS, COS or S3'']
          else (case adm_secret env ns (Dest_OSSAccessSecret dest) of
                  Inl err \<Rightarrow>
                    if is_not_found err then [Invalid (base @ [''ossAccessSecret'']) ''Given OSSAccessSecret not found'']
                    else [Internal (base @ [''ossAccessSecret'']) err]
                | Inr secret \<Rightarrow>
                    (case find (\<lambda>k. secret k = None) (secret_fields (Dest_Type dest)) of
                       Some k \<Rightarrow> [Invalid (base @ [''ossAccessSecret'']) (k @ '' field not found in given OSSAccessSecret'')]
                     | None \<Rightarrow> [])))"

section \<open>Connections\<close>

definition readPassword :: "admission_env \<Rightarrow> string \<Rightarrow> string \<Rightarrow> string result" where
  "readPassword env ns secretName =
     (case adm_secret env ns secretName of
        Inl err \<Rightarrow> Inl (wrap (''Get password from secret '' @ secretName @ '' failed'') err)
      | Inr secret \<Rightarrow> Inr (dict_get secret ''password''))"

definition data_source :: "OBCluster \<Rightarrow> string \<Rightarrow> string \<Rightarrow> string \<Rightarrow> OBServer \<Rightarrow> DataSource" where
  "data_source c userName tenantName password observer =
     (let address = OBServerStatus_GetConnectAddr observer
      in if Status c = clusterstatus_New
         then \<lparr>DS_Address = address, DS_User = ''root'', DS_Tenant = tenantName, DS_Password = [], DS_Database = []\<rparr>
         else if Status c = clusterstatus_Bootstrapped
         then \<lparr>DS_Address = address, DS_User = ''root'', DS_Tenant = tenantName, DS_Password = [], DS_Database = ''oceanbase''\<rparr>
         else \<lparr>DS_Address = address, DS_User = userName, DS_Tenant = tenantName, DS_Password = password, DS_Database = ''oceanbase''\<rparr>)"

definition getSysClient :: "admission_env \<Rightarrow> OBCluster \<Rightarrow> string \<Rightarrow> string \<Rightarrow> string \<Rightarrow> DataSource result" where
  "getSysClient env c userName tenantName secretName =
     (case adm_servers env (Namespace c) (Name c) of
        Inl err \<Rightarrow> Inl (wrap ''Get observer list'' err)
      | Inr servers \<Rightarrow>
          if servers = [] then Inl (OtherError (''No observer belongs to cluster '' @ Name c))
          else (case readPassword env (Namespace c) secretName of
                  Inl err \<Rightarrow> Inl (wrap (''Read password to get oceanbase operation manager of cluster '' @ Name c) err)
                | Inr password \<Rightarrow>
                    (case find (adm_connects env) (map (data_source c userName tenantName password) servers) of
                       Some s \<Rightarrow> Inr s
                     | None \<Rightarrow> Inl (OtherError (''Can not get oceanbase operation manager of obcluster '' @ Name c @
                                  '' after checked all servers'')))))"

section \<open>Lemmas\<close>

lemma find_Some_D: "find P xs = Some x \<Longrightarrow> \<exists>x \<in> set xs. P x"
  by (auto simp: find_Some_iff)

lemma secret_fields_complete:
  "find (\<lambda>k. secret k = None) ks = None \<longleftrightarrow> (\<forall>k \<in> set ks. secret k \<noteq> None)"
  by (auto simp: find_None_iff)

text \<open>What an admitted destination provides: all that the code reads of it later.\<close>

definition usable_destination :: "admission_env \<Rightarrow> string \<Rightarrow> OBCluster \<Rightarrow> BackupDestination \<Rightarrow> bool" where
  "usable_destination env ns cluster dest \<longleftrightarrow>
     (if Dest_Type dest = BackupDestTypeNFS then ClusterSpec_BackupVolume cluster \<noteq> None \<and> nfsPattern (Dest_Path dest)
      else (\<exists>pattern secret. DestPathPatternMapping (Dest_Type dest) = Some pattern \<and> pattern (Dest_Path dest) \<and>
         Dest_OSSAccessSecret dest \<noteq> [] \<and> adm_secret env ns (Dest_OSSAccessSecret dest) = Inr secret \<and>
         (\<forall>k \<in> set (secret_fields (Dest_Type dest)). secret k \<noteq> None)))"

lemma check_destination_usable:
  "check_destination env ns nfs typed pathed base cluster dest = [] \<longleftrightarrow> usable_destination env ns cluster dest"
proof (cases "Dest_Type dest = BackupDestTypeNFS")
  case True
  then have "DestPathPatternMapping (Dest_Type dest) = Some nfsPattern"
    by (simp add: DestPathPatternMapping_def BackupDestTypeOSS_def BackupDestTypeCOS_def BackupDestTypeS3_def
        BackupDestTypeS3Compatible_def BackupDestTypeNFS_def)
  with True show ?thesis by (simp add: check_destination_def usable_destination_def)
next
  case False
  then show ?thesis
    by (auto simp: check_destination_def usable_destination_def secret_fields_complete
        split: option.splits sum.splits if_splits dest: find_Some_D)
qed

text \<open>A path without a query is admitted, although the pattern is meant to ask for \<^verbatim>\<open>?host=\<close>.\<close>

lemma path_without_query: "bucketPattern ''oss://'' ''oss://bucket/localhost=x''"
  by code_simp

section \<open>A sample environment\<close>

text \<open>
  An API server with one running cluster and its tenant, secrets with a password and storage
  classes that can be expanded. Quantities are their values.
\<close>

definition small_admission :: admission_env where
  "small_admission =
     \<lparr>adm_cluster = (\<lambda>_ _. Inr small_cluster), adm_tenant = (\<lambda>_ _. Inr small_tenant),
      adm_secret = (\<lambda>_ _. Inr [''password'' \<mapsto> ''secret'']),
      adm_storage_class = (\<lambda>name. Inr \<lparr>SC_Name = name, SC_Annotations = Map.empty, SC_AllowVolumeExpansion = Some True\<rparr>),
      adm_storage_classes = Inr [], adm_service_account = (\<lambda>_ _. Inr ()), adm_k8s_cluster = (\<lambda>_. Inl NotFound),
      adm_policies = (\<lambda>_ _. Inr []), adm_servers = (\<lambda>_ _. Inr [small_server]), adm_connects = (\<lambda>_. True),
      adm_gvservers = (\<lambda>_. Inr []), adm_uid = (\<lambda>_. ''uid''), adm_rand = (\<lambda>_. ''abcdef''), adm_cron = (\<lambda>_. Inr ()),
      adm_order = (\<lambda>ks. ks), AsInt64 = Some, Quantity_Value = (\<lambda>q. q), Quantity_same = (=), ParseQuantity = (\<lambda>_. Inr 1),
      AsApproximateFloat64 = of_int, float64 = of_int, float_times = (*), float_divide = (/),
      adm_config = \<lparr>DefaultMemoryLimitPercent = 90, DefaultDiskUsePercent = 95, DefaultDiskExpandPercent = 10,
        DefaultLogPercent = 80, MinMemorySize = 8, MinDataDiskSize = 30, MinRedoLogDiskSize = 30, MinLogDiskSize = 10\<rparr>\<rparr>"

end
