(* ===== verification/Webhooks_Tenant.thy ===== *)
theory Webhooks_Tenant
  imports Admission
begin

text \<open>
  The admission webhooks of tenants, of operations on tenants and of backup policies,
  \<^verbatim>\<open>api/v1alpha1/obtenant_webhook.go\<close>, \<^verbatim>\<open>obtenantoperation_webhook.go\<close> and
  \<^verbatim>\<open>obtenantbackuppolicy_webhook.go\<close>, and what an admitted object guarantees to the managers.
  The owner references that the defaults set are left out.
\<close>

section \<open>Tenants\<close>

definition OBTenant_Default :: "admission_env \<Rightarrow> OBTenant \<Rightarrow> OBTenant" where
  "OBTenant_Default env r =
     (let found = adm_cluster env (Namespace r) (TenantSpec_ClusterName r);
          r1 = (case found of Inl _ \<Rightarrow> r | Inr cluster \<Rightarrow> r\<lparr>Labels := (Labels r)(''ref-obcluster'' \<mapsto> Name cluster)\<rparr>);
          r2 = r1\<lparr>TenantSpec_TenantRole :=
                   (if TenantSpec_TenantRole r1 = [] then TenantRolePrimary else ToUpper (TenantSpec_TenantRole r1))\<rparr>;
          r3 = (if Cred_StandbyRO (TenantSpec_Credentials r2) = []
                then r2\<lparr>TenantSpec_Credentials := (TenantSpec_Credentials r2)\<lparr>Cred_StandbyRO := ''standby-ro-'' @ adm_rand env ''standby-ro''\<rparr>\<rparr>
                else r2)
      in if TenantSpec_Scenario r3 = []
         then r3\<lparr>TenantSpec_Scenario := (case found of Inl _ \<Rightarrow> [] | Inr cluster \<Rightarrow> ClusterSpec_Scenario cluster)\<rparr> else r3)"

definition pool_zone_errors :: "OBTenant \<Rightarrow> OBCluster \<Rightarrow> admission_error list" where
  "pool_zone_errors r cluster =
     concat (map (\<lambda>(i, pool).
         if list_ex (\<lambda>zone. Pool_Zone pool = Zone zone) (ClusterSpec_Topology cluster) then []
         else [Invalid [''spec'', ''pools'', show_nat i]
                 (''Zone '' @ Pool_Zone pool @ '' does not exist in cluster '' @ ClusterSpec_ClusterName cluster)])
       (enumerate 0 (TenantSpec_Pools r)))"

definition tenant_cluster_errors :: "admission_env \<Rightarrow> OBTenant \<Rightarrow> admission_error list" where
  "tenant_cluster_errors env r =
     (case adm_cluster env (Namespace r) (TenantSpec_ClusterName r) of
        Inl err \<Rightarrow> if is_not_found err then [Invalid [''spec'', ''clusterName''] ''Given cluster not found'']
                   else [Internal [''spec'', ''clusterName''] err]
      | Inr cluster \<Rightarrow> pool_zone_errors r cluster)"

text \<open>The root secret must exist, the one of the standby user may be missing; both must have a password.\<close>

definition tenant_secret_errors :: "admission_env \<Rightarrow> OBTenant \<Rightarrow> admission_error list" where
  "tenant_secret_errors env r =
     (let root = Cred_Root (TenantSpec_Credentials r); standbyRo = Cred_StandbyRO (TenantSpec_Credentials r);
          path = (\<lambda>n. [''spec'', ''credentials'', n])
      in (if root = [] then []
          else (case adm_secret env (Namespace r) root of
                  Inl err \<Rightarrow> if is_not_found err then [Invalid (path ''root'') ''Given root credential not found'']
                             else [Internal (path ''root'') err]
                | Inr secret \<Rightarrow> if secret ''password'' = None
                    then [Invalid (path ''root'') ''password field not found in given root credential''] else [])) @
         (if standbyRo = [] then []
          else (case adm_secret env (Namespace r) standbyRo of
                  Inl err \<Rightarrow> if is_not_found err then [] else [Internal (path ''standbyRo'') err]
                | Inr secret \<Rightarrow> if secret ''password'' = None
                    then [Invalid (path ''standbyRo'') ''password field not found in given standbyRo credential''] else [])))"

text \<open>
  The tenant a standby follows. A malformed name ends the validation at once (\<open>Inl\<close>). A tenant
  that cannot be read is a zero object whose cluster has no name.
\<close>

definition source_name :: "string \<Rightarrow> string \<Rightarrow> admission_error + string \<times> string" where
  "source_name ns ref =
     (let path = [''spec'', ''source'', ''tenant'']
      in case Split ref ''/'' of
           [a, b] \<Rightarrow>
             if a = [] then Inl (Invalid path ''Given tenant namespace is empty'')
             else if b = [] then Inl (Invalid path ''Given tenant name is empty'')
             else Inr (a, b)
         | a # b # _ \<Rightarrow> Inl (Invalid path ''Given tenant name is invalid, it should be namespace/name or name format'')
         | _ \<Rightarrow> Inr (ns, ref))"

definition source_tenant_errors :: "admission_env \<Rightarrow> string \<Rightarrow> string \<Rightarrow> admission_error list" where
  "source_tenant_errors env ns name =
     (let path = [''spec'', ''source'', ''tenant''];
          missing = (\<lambda>err. if is_not_found err then Invalid path (''Given tenant not found in namespace '' @ ns) else Internal path err);
          tenant = adm_tenant env ns name;
          clusterName = (case tenant of Inl _ \<Rightarrow> [] | Inr t \<Rightarrow> TenantSpec_ClusterName t)
      in (case tenant of Inl err \<Rightarrow> [missing err] | Inr _ \<Rightarrow> []) @
         (case adm_cluster env ns clusterName of
            Inl err \<Rightarrow> [missing err]
          | Inr cluster \<Rightarrow>
              if Annotations cluster AnnotationsMode = Some ''standalone''
              then [Invalid path ''Given tenant is in a standalone cluster, which can not be a restore source''] else []))"

definition standby_errors :: "admission_env \<Rightarrow> OBTenant \<Rightarrow> admission_error + admission_error list" where
  "standby_errors env r =
     (if TenantSpec_TenantRole r \<noteq> TenantRoleStandby then Inr []
      else (case TenantSpec_Source r of
              None \<Rightarrow> Inr [Invalid [''spec'', ''source''] ''Standby tenant must have non-nil source field'']
            | Some src \<Rightarrow>
                (case Source_Tenant src of
                   None \<Rightarrow> Inr (if Source_Restore src = None
                     then [Invalid [''spec'', ''tenantRole''] ''Standby must have a source option, but both restore and tenantRef are nil now''] else [])
                 | Some ref \<Rightarrow>
                     (case source_name (Namespace r) ref of
                        Inl e \<Rightarrow> Inl e
                      | Inr (ns, name) \<Rightarrow> Inr (source_tenant_errors env ns name)))))"

definition validateBackupDestination :: "admission_env \<Rightarrow> OBCluster \<Rightarrow> BackupDestination \<Rightarrow> string list \<Rightarrow> admission_error list" where
  "validateBackupDestination env cluster dest paths =
     (let base = ''spec'' # (if paths = [] then [''destination''] else paths)
      in check_destination env (Namespace cluster) base (base @ [''destination'', ''type'']) (base @ [''destination'', ''path''])
           (base @ [''destination'']) cluster dest)"

definition restore_errors :: "admission_env \<Rightarrow> OBTenant \<Rightarrow> OBCluster \<Rightarrow> admission_error list" where
  "restore_errors env r cluster =
     (case Option.bind (TenantSpec_Source r) Source_Restore of
        None \<Rightarrow> []
      | Some spec \<Rightarrow>
          let limit = Restore_Until spec;
              unlimited = (if \<not> Until_Unlimited limit \<and> Until_Scn limit = None \<and> Until_Timestamp limit = None
                then [Invalid [''spec'', ''source'', ''restore'', ''until'']
                        ''Restore until must have a limit key, scn and timestamp are both nil now''] else [])
          in (case (Restore_ArchiveSource spec, Restore_BakDataSource spec) of
                (Some archive, Some bakData) \<Rightarrow>
                  let destErrs = validateBackupDestination env cluster archive [''spec'', ''source'', ''restore'', ''archiveSource''] @
                        validateBackupDestination env cluster bakData [''spec'', ''source'', ''restore'', ''bakDataSource'']
                  in if destErrs \<noteq> [] then destErrs else unlimited
              | _ \<Rightarrow> if Restore_SourceUri spec = []
                     then unlimited @ [Invalid [''spec'', ''source'', ''restore'']
                        ''Restore must have a source option, but both archiveSource, bakDataSource and sourceUri are nil now'']
                     else unlimited))"

definition OBTenant_validateMutation :: "admission_env \<Rightarrow> OBTenant \<Rightarrow> admission_error list" where
  "OBTenant_validateMutation env r =
     (if DeletionTimestamp r \<noteq> None then []
      else
        let first = (if TenantSpec_UnitNumber r \<le> 0 then [Invalid [''spec'', ''unitNum''] ''unitNum must be greater than 0''] else []) @
              (if \<not> tenantNamePattern (TenantSpec_TenantName r) then [Invalid [''spec'', ''tenantName'']
                 ''Invalid tenantName, which should start with character or underscore and contain character, digit and underscore only''] else []) @
              (if TenantSpec_TenantRole r \<noteq> TenantRolePrimary \<and> TenantSpec_TenantRole r \<noteq> TenantRoleStandby
               then [Invalid [''spec'', ''tenantRole''] ''TenantRole must be primary or standby''] else []) @
              tenant_cluster_errors env r @ tenant_secret_errors env r
        in case standby_errors env r of
             Inl e \<Rightarrow> [e]
           | Inr es \<Rightarrow>
               if first @ es \<noteq> [] then first @ es
               else (case adm_cluster env (Namespace r) (TenantSpec_ClusterName r) of
                       Inl _ \<Rightarrow> []
                     | Inr cluster \<Rightarrow> restore_errors env r cluster))"

definition OBTenant_ValidateCreate :: "admission_env \<Rightarrow> OBTenant \<Rightarrow> admission_error list" where
  "OBTenant_ValidateCreate env r = OBTenant_validateMutation env r"

definition OBTenant_ValidateUpdate :: "admission_env \<Rightarrow> OBTenant \<Rightarrow> OBTenant \<Rightarrow> admission_error list" where
  "OBTenant_ValidateUpdate env oldTenant r =
     (if Status r = tenantstatus_Running \<and> TenantSpec_ClusterName r \<noteq> TenantSpec_ClusterName oldTenant
      then [Plain ''Cannot change clusterName when tenant is running'']
      else if Status r = tenantstatus_Running \<and> TenantSpec_TenantName r \<noteq> TenantSpec_TenantName oldTenant
      then [Plain ''Cannot change tenantName when tenant is running'']
      else if TenantSpec_Charset r \<noteq> TenantSpec_Charset oldTenant then [Plain ''Cannot change charset of tenant'']
      else OBTenant_validateMutation env r)"

definition OBTenant_ValidateDelete :: "OBTenant \<Rightarrow> admission_error list" where
  "OBTenant_ValidateDelete r =
     (if dict_get (Annotations r) AnnotationsIgnoreDeletion = ''true''
      then [Plain (''OBTenant '' @ Name r @ '' is protected from deletion by annotation '' @ AnnotationsIgnoreDeletion)] else [])"

section \<open>Operations on tenants\<close>

text \<open>
  A tenant that cannot be read ends the defaulting before the labels are set. An object that has
  labels already shares the map with the local variable, so the label of the first tenant stays
  when the second one cannot be read.
\<close>

definition operated_tenants :: "OBTenantOperation \<Rightarrow> string \<times> string" where
  "operated_tenants r =
     (if TOp_Type r = TenantOpChangePwd \<and> TOp_ChangePwd r \<noteq> None then (fst (the (TOp_ChangePwd r)), [])
      else if TOp_Type r = TenantOpFailover \<and> TOp_Failover r \<noteq> None then (the (TOp_Failover r), [])
      else if TOp_Type r = TenantOpSwitchover \<and> TOp_Switchover r \<noteq> None then the (TOp_Switchover r)
      else (case TOp_TargetTenant r of None \<Rightarrow> ([], []) | Some t \<Rightarrow> (t, [])))"

definition label_tenant :: "admission_env \<Rightarrow> string \<Rightarrow> string \<Rightarrow> string \<Rightarrow> dict \<Rightarrow> dict option" where
  "label_tenant env ns name key labels =
     (if name = [] then Some labels
      else (case adm_tenant env ns name of Inl _ \<Rightarrow> None | Inr t \<Rightarrow> Some (labels(key \<mapsto> Name t))))"

definition OBTenantOperation_Default :: "admission_env \<Rightarrow> OBTenantOperation \<Rightarrow> OBTenantOperation" where
  "OBTenantOperation_Default env r0 =
     (let r = r0\<lparr>TOp_Type := ToUpper (TOp_Type r0)\<rparr>
      in case operated_tenants r of (target, secondary) \<Rightarrow>
           (case label_tenant env (Namespace r) target ''oceanbase.oceanbase.com/tenant-name'' (Labels r) of
              None \<Rightarrow> r
            | Some labels \<Rightarrow>
                (case label_tenant env (Namespace r) secondary ''oceanbase.oceanbase.com/secondary-tenant'' labels of
                   None \<Rightarrow> if Labels r = Map.empty then r else r\<lparr>Labels := labels\<rparr>
                 | Some labels' \<Rightarrow> r\<lparr>Labels := labels'\<rparr>)))"

definition checkTenantCRExistence :: "admission_env \<Rightarrow> OBTenantOperation \<Rightarrow> string \<Rightarrow> OBTenant option" where
  "checkTenantCRExistence env r name = (case adm_tenant env (Namespace r) name of Inl _ \<Rightarrow> None | Inr t \<Rightarrow> Some t)"

definition OBTenantOperation_checkSecretExistence :: "admission_env \<Rightarrow> string \<Rightarrow> string \<Rightarrow> dict result" where
  "OBTenantOperation_checkSecretExistence env ns secretName = adm_secret env ns secretName"

definition change_pwd_errors :: "admission_env \<Rightarrow> OBTenantOperation \<Rightarrow> admission_error list" where
  "change_pwd_errors env r =
     (case TOp_ChangePwd r of
        None \<Rightarrow> [Required [''spec'', ''changePwd''] ''change password spec is required'']
      | Some (tenant, secretRef) \<Rightarrow>
          if secretRef = [] \<or> tenant = []
          then [Required [''spec'', ''changePwd'', ''secretRef'', ''tenant''] ''tenant name and secretRef are required'']
          else if checkTenantCRExistence env r tenant = None
          then [Invalid [''spec'', ''changePwd'', ''tenant''] ''Failed to get tenant of given name'']
          else (case OBTenantOperation_checkSecretExistence env (Namespace r) secretRef of
                  Inl err \<Rightarrow> if is_not_found err then [Invalid [''spec'', ''changePwd'', ''secretRef''] ''Given secret not found'']
                             else [Internal [''spec'', ''changePwd'', ''secretRef''] err]
                | Inr sec \<Rightarrow> if sec ''password'' = None
                    then [Invalid [''spec'', ''changePwd'', ''secretRef''] '' password  field not found in data of secret''] else []))"

text \<open>The messages of the several checks of a role are merged.\<close>

definition role_errors :: "admission_env \<Rightarrow> OBTenantOperation \<Rightarrow> string list \<Rightarrow> string \<Rightarrow> string \<Rightarrow> bool \<Rightarrow> admission_error list" where
  "role_errors env r path name role running =
     (case checkTenantCRExistence env r name of
        None \<Rightarrow> [Invalid path ''Failed to get tenant of given name'']
      | Some t \<Rightarrow>
          if TenantStatus_TenantRole t \<noteq> role then [Invalid path (''Tenant '' @ name @ '' is not a '' @ ToLower role @ '' tenant'')]
          else if running \<and> Status t \<noteq> tenantstatus_Running then [Invalid path ''The tenant is not in running status''] else [])"

definition failover_errors :: "admission_env \<Rightarrow> OBTenantOperation \<Rightarrow> admission_error list" where
  "failover_errors env r =
     (let path = [''spec'', ''failover'', ''standbyTenant'']
      in case TOp_Failover r of
           None \<Rightarrow> [Required path ''name of standby tenant is activating is required'']
         | Some standby \<Rightarrow>
             if standby = [] then [Required path ''name of standby tenant is activating is required'']
             else role_errors env r path standby TenantRoleStandby False)"

definition switchover_errors :: "admission_env \<Rightarrow> OBTenantOperation \<Rightarrow> admission_error list" where
  "switchover_errors env r =
     (let missing = [Required [''spec'', ''switchover'', ''primaryTenant'', ''standbyTenant'']
            ''name of primary tenant and standby tenant are both required'']
      in case TOp_Switchover r of
           None \<Rightarrow> missing
         | Some (primary, standby) \<Rightarrow>
             if primary = [] \<or> standby = [] then missing
             else role_errors env r [''spec'', ''switchover'', ''primaryTenant''] primary TenantRolePrimary True @
                  role_errors env r [''spec'', ''switchover'', ''standbyTenant''] standby TenantRoleStandby True)"

definition target_errors :: "admission_env \<Rightarrow> OBTenantOperation \<Rightarrow> string \<Rightarrow> admission_error list" where
  "target_errors env r role =
     (case TOp_TargetTenant r of
        None \<Rightarrow> [Required [''spec'', ''targetTenant''] ''name of targetTenant is required'']
      | Some target \<Rightarrow> role_errors env r [''spec'', ''targetTenant''] target role False)"

definition replay_errors :: "OBTenantOperation \<Rightarrow> admission_error list" where
  "replay_errors r =
     (case TOp_ReplayUntil r of
        None \<Rightarrow> [Required [''spec'', ''replayUntil''] ''replayUntil is required'']
      | Some untilSpec \<Rightarrow>
          if \<not> Until_Unlimited untilSpec \<and> Until_Scn untilSpec = None \<and> Until_Timestamp untilSpec = None
          then [Invalid [''spec'', ''replayUntil''] ''Limited replayUntil must have a limit key, scn and timestamp are both nil now''] else [])"

text \<open>The pools are looked up by their zones; a zone that is listed twice is not noticed.\<close>

definition zone_errors :: "string \<Rightarrow> bool \<Rightarrow> string list \<Rightarrow> string list \<Rightarrow> string \<Rightarrow> admission_error list" where
  "zone_errors fieldName expected zones existing msg =
     concat (map (\<lambda>z. if (z \<in> set existing) = expected then [] else [Invalid [''spec'', fieldName] msg]) zones)"

definition add_pool_errors :: "admission_env \<Rightarrow> OBTenantOperation \<Rightarrow> OBTenant \<Rightarrow> admission_error list" where
  "add_pool_errors env r obtenant =
     (if TOp_AddResourcePools r = [] then [Required [''spec'', ''addResourcePools''] ''addResourcePools is required'']
      else (case adm_cluster env (Namespace r) (TenantSpec_ClusterName obtenant) of
              Inl err \<Rightarrow> if is_not_found err then [Invalid [''spec'', ''targetTenant''] ''The target tenant's cluster does not exist'']
                         else [Internal [''spec'', ''targetTenant''] err]
            | Inr obcluster \<Rightarrow>
                let zones = map Pool_Zone (TOp_AddResourcePools r);
                    old = zone_errors ''addResourcePools'' False zones (map Pool_Zone (TenantSpec_Pools obtenant)) ''The resource pool already exists''
                in if old \<noteq> [] then old
                   else zone_errors ''addResourcePools'' True zones (map Zone (ClusterSpec_Topology obcluster)) ''The target zone does not exist in the cluster''))"

definition validateNewOperations :: "admission_env \<Rightarrow> OBTenantOperation \<Rightarrow> admission_error list" where
  "validateNewOperations env r =
     (case TOp_TargetTenant r of
        None \<Rightarrow> [Required [''spec'', ''targetTenant''] ''name of targetTenant is required'']
      | Some target \<Rightarrow>
          (case adm_tenant env (Namespace r) target of
             Inl err \<Rightarrow> if is_not_found err then [Invalid [''spec'', ''targetTenant''] ''The target tenant does not exist'']
                        else [Internal [''spec'', ''targetTenant''] err]
           | Inr obtenant \<Rightarrow>
               let pools = map Pool_Zone (TenantSpec_Pools obtenant)
               in if Status obtenant \<noteq> tenantstatus_Running \<and> \<not> TOp_Force r
                  then [Invalid [''spec'', ''targetTenant''] ''The target tenant is not in running status'']
                  else if TOp_Type r = ''SET_UNIT_NUMBER''
                  then (if TOp_UnitNumber r = 0 then [Required [''spec'', ''unitNumber''] ''unitNumber is required''] else [])
                  else if TOp_Type r = ''SET_CONNECT_WHITE_LIST''
                  then (if TOp_ConnectWhiteList r = [] then [Required [''spec'', ''connectWhiteList''] ''connectWhiteList is required''] else [])
                  else if TOp_Type r = ''ADD_RESOURCE_POOLS'' then add_pool_errors env r obtenant
                  else if TOp_Type r = ''MODIFY_RESOURCE_POOLS''
                  then (if TOp_ModifyResourcePools r = [] then [Required [''spec'', ''modifyResourcePools''] ''modifyResourcePools is required'']
                        else zone_errors ''modifyResourcePools'' True (map Pool_Zone (TOp_ModifyResourcePools r)) pools ''The target resource pool does not exist'')
                  else if TOp_Type r = ''DELETE_RESOURCE_POOLS''
                  then (if TOp_DeleteResourcePools r = [] then [Required [''spec'', ''deleteResourcePools''] ''deleteResourcePools is required'']
                        else zone_errors ''deleteResourcePools'' True (TOp_DeleteResourcePools r) pools ''The target resource pool does not exist'')
                  else []))"

definition OBTenantOperation_validateMutation :: "admission_env \<Rightarrow> OBTenantOperation \<Rightarrow> admission_error list" where
  "OBTenantOperation_validateMutation env r =
     (if TOp_Type r = TenantOpChangePwd then change_pwd_errors env r
      else if TOp_Type r = TenantOpFailover then failover_errors env r
      else if TOp_Type r = TenantOpSwitchover then switchover_errors env r
      else if TOp_Type r = TenantOpUpgrade then target_errors env r TenantRolePrimary
      else if TOp_Type r = TenantOpReplayLog then replay_errors r @ target_errors env r TenantRoleStandby
      else if TOp_Type r \<in> {''SET_UNIT_NUMBER'', ''SET_CONNECT_WHITE_LIST'', ''ADD_RESOURCE_POOLS'', ''MODIFY_RESOURCE_POOLS'', ''DELETE_RESOURCE_POOLS''}
      then validateNewOperations env r
      else [Required [''spec'', ''type''] (TOp_Type r @ '' type of operation is not supported'')])"

definition OBTenantOperation_ValidateCreate :: "admission_env \<Rightarrow> OBTenantOperation \<Rightarrow> admission_error list" where
  "OBTenantOperation_ValidateCreate env r = OBTenantOperation_validateMutation env r"

definition OBTenantOperation_ValidateUpdate :: "admission_env \<Rightarrow> OBTenantOperation \<Rightarrow> admission_error list" where
  "OBTenantOperation_ValidateUpdate env r = OBTenantOperation_validateMutation env r"

section \<open>Backup policies\<close>

text \<open>\<^verbatim>\<open>strings.ReplaceAll(s, "/?", "?")\<close>.\<close>

fun trim_query_slash :: "string \<Rightarrow> string" where
  "trim_query_slash (a # b # s) =
     (if a = CHR ''/'' \<and> b = CHR ''?'' then CHR ''?'' # trim_query_slash s else a # trim_query_slash (b # s))"
| "trim_query_slash s = s"

definition default_destination :: "BackupDestination \<Rightarrow> BackupDestination" where
  "default_destination dest =
     (let d = dest\<lparr>Dest_Type := (if Dest_Type dest = [] then BackupDestTypeNFS else ToUpper (Dest_Type dest))\<rparr>
      in if Dest_Type d \<noteq> BackupDestTypeNFS then d\<lparr>Dest_Path := trim_query_slash (Dest_Path d)\<rparr> else d)"

definition default_policy_spec :: "OBTenantBackupPolicy \<Rightarrow> OBTenantBackupPolicy" where
  "default_policy_spec r =
     (let la = BP_LogArchive r; db = BP_DataBackup r
      in r\<lparr>BP_LogArchive := la\<lparr>LA_Destination := default_destination (LA_Destination la),
             LA_SwitchPieceInterval := (if LA_SwitchPieceInterval la = [] then ''1d'' else LA_SwitchPieceInterval la),
             LA_Binding := (if LA_Binding la = [] then ''Optional'' else LA_Binding la)\<rparr>,
           BP_DataBackup := db\<lparr>DB_Destination := default_destination (DB_Destination db)\<rparr>,
           BP_DataCleanName := ''default''\<rparr>)"

definition OBTenantBackupPolicy_Default :: "admission_env \<Rightarrow> OBTenantBackupPolicy \<Rightarrow> OBTenantBackupPolicy" where
  "OBTenantBackupPolicy_Default env r0 =
     (let r = default_policy_spec r0; name = BP_TenantCRName r; labelled = (\<lambda>ls. r\<lparr>Labels := ls(''ref-obcluster'' \<mapsto> BP_ObClusterName r)\<rparr>)
      in if name = [] then labelled (Labels r)
         else (case adm_tenant env (Namespace r) name of
                 Inl _ \<Rightarrow> r
               | Inr tenant \<Rightarrow>
                   if Status tenant \<noteq> tenantstatus_Running then r
                   else labelled ((Labels r)(''oceanbase.oceanbase.com/tenant-name'' \<mapsto> name, ''ref-uid'' \<mapsto> adm_uid env tenant))))"

definition validateScheduleFormat :: "admission_env \<Rightarrow> string \<Rightarrow> string list \<Rightarrow> admission_error list" where
  "validateScheduleFormat env schedule path =
     (case adm_cron env schedule of Inl err \<Rightarrow> [Invalid path (Error err)] | Inr _ \<Rightarrow> [])"

definition validateBackupCrontab :: "admission_env \<Rightarrow> OBTenantBackupPolicy \<Rightarrow> admission_error list" where
  "validateBackupCrontab env r =
     validateScheduleFormat env (DB_FullCrontab (BP_DataBackup r)) [''spec'', ''dataBackup'', ''fullCrontab''] @
     validateScheduleFormat env (DB_IncrementalCrontab (BP_DataBackup r)) [''spec'', ''dataBackup'', ''incrementalCrontab'']"

definition validateInterval :: "OBTenantBackupPolicy \<Rightarrow> admission_error list" where
  "validateInterval r =
     (if \<not> switchPiecePattern (LA_SwitchPieceInterval (BP_LogArchive r))
      then [Invalid [''spec'', ''logArchive'', ''switchPieceInterval''] ''invalid switchPieceInterval''] else []) @
     (if \<not> daysPattern (BP_RecoveryWindow r) then [Invalid [''spec'', ''dataClean'', ''recoveryWindow''] ''invalid recoveryWindow''] else []) @
     (if BP_JobKeepWindow r \<noteq> [] \<and> \<not> daysPattern (BP_JobKeepWindow r)
      then [Invalid [''spec'', ''jobKeepWindow''] ''invalid jobKeepWindow''] else [])"

definition validateDestination :: "admission_env \<Rightarrow> OBTenantBackupPolicy \<Rightarrow> OBCluster \<Rightarrow> BackupDestination \<Rightarrow> string \<Rightarrow> admission_error list" where
  "validateDestination env r cluster dest fieldName =
     (let base = [''spec'', fieldName, ''destination'']
      in check_destination env (Namespace r) [''spec'', ''backupVolume''] base base base cluster dest)"

definition encryption_errors :: "admission_env \<Rightarrow> OBTenantBackupPolicy \<Rightarrow> admission_error list" where
  "encryption_errors env r =
     (let name = DB_EncryptionSecret (BP_DataBackup r); path = [''spec'', ''dataBackup'', ''encryptionSecret'']
      in if name = [] then []
         else (case adm_secret env (Namespace r) name of
                 Inl _ \<Rightarrow> [Invalid path ''encryptionSecret not found'']
               | Inr sec \<Rightarrow> if sec ''password'' = None then [Invalid path '' password  field not found in encryptionSecret''] else []))"

definition tenant_given_errors :: "OBTenantBackupPolicy \<Rightarrow> admission_error list" where
  "tenant_given_errors r =
     (if BP_TenantName r = [] \<and> BP_TenantCRName r = []
      then [Invalid [''spec'', ''[tenantName | tenantCRName]''] ''tenantName and tenantCRName are both empty'']
      else if BP_TenantCRName r = [] \<and> BP_TenantSecret r = []
      then [Invalid [''spec'', ''tenantSecret''] ''tenantSecret is required when using tenantName''] else [])"

definition binding_errors :: "OBTenantBackupPolicy \<Rightarrow> admission_error list" where
  "binding_errors r =
     (if LA_Binding (BP_LogArchive r) \<noteq> ''Optional'' \<and> LA_Binding (BP_LogArchive r) \<noteq> ''Mandatory''
      then [Invalid [''spec'', ''logArchive'', ''binding''] ''invalid binding, only optional and mandatory are supported''] else [])"

text \<open>The validation stops at the first group of errors; the two destinations are checked together.\<close>

primrec first_group :: "admission_error list list \<Rightarrow> admission_error list" where
  "first_group [] = []"
| "first_group (es # ess) = (if es \<noteq> [] then es else first_group ess)"

definition validateBackupPolicy :: "admission_env \<Rightarrow> OBTenantBackupPolicy \<Rightarrow> admission_error list" where
  "validateBackupPolicy env r =
     (if DeletionTimestamp r \<noteq> None then []
      else if BP_ObClusterName r = [] then [Plain ''obClusterName is required'']
      else (case adm_cluster env (Namespace r) (BP_ObClusterName r) of
              Inl err \<Rightarrow> if is_not_found err then [Invalid [''spec'', ''clusterName''] ''Given cluster not found'']
                         else [Internal [''spec'', ''clusterName''] err]
            | Inr cluster \<Rightarrow>
                first_group
                  [tenant_given_errors r, validateBackupCrontab env r, validateInterval r, encryption_errors env r, binding_errors r,
                   validateDestination env r cluster (DB_Destination (BP_DataBackup r)) ''dataBackup'' @
                   validateDestination env r cluster (LA_Destination (BP_LogArchive r)) ''logArchive'']))"

definition OBTenantBackupPolicy_ValidateCreate :: "admission_env \<Rightarrow> OBTenantBackupPolicy \<Rightarrow> admission_error list" where
  "OBTenantBackupPolicy_ValidateCreate env r =
     (if validateBackupPolicy env r \<noteq> [] then validateBackupPolicy env r
      else if BP_TenantCRName r = [] then []
      else (case adm_tenant env (Namespace r) (BP_TenantCRName r) of
              Inl _ \<Rightarrow> [Api NotFound]
            | Inr tenant \<Rightarrow>
                if Status tenant \<noteq> tenantstatus_Running then [Plain ''tenant is not running'']
                else (case adm_policies env None [(''oceanbase.oceanbase.com/tenant-name'', BP_TenantCRName r),
                              (''ref-obcluster'', BP_ObClusterName r), (''ref-uid'', adm_uid env tenant)] of
                        Inl err \<Rightarrow> [Internal [] err]
                      | Inr policies \<Rightarrow> (case policies of [] \<Rightarrow> [] | p # _ \<Rightarrow> [Plain (Name p @ '' already exists'')]))))"

definition OBTenantBackupPolicy_ValidateUpdate ::
  "admission_env \<Rightarrow> OBTenantBackupPolicy \<Rightarrow> OBTenantBackupPolicy \<Rightarrow> admission_error list" where
  "OBTenantBackupPolicy_ValidateUpdate env currentResource r =
     (if Status currentResource = BackupPolicyStatusRunning \<and>
        DB_EncryptionSecret (BP_DataBackup r) \<noteq> DB_EncryptionSecret (BP_DataBackup currentResource)
      then [Invalid [''spec'', ''dataBackup'', ''encryptionSecret'']
              ''encryptionSecret can not be changed when backup policy is running, please pause the backup policy first'']
      else validateBackupPolicy env r)"

section \<open>Lemmas\<close>

lemma first_group_none: "first_group ess = [] \<longleftrightarrow> (\<forall>es \<in> set ess. es = [])"
  by (induction ess) auto

text \<open>Numbers of days: an admitted window is a decimal number without leading zeros.\<close>

lemma is_digit_char:
  assumes "is_digit c"
  shows "\<exists>d < 10. c = char_of (48 + d :: nat)"
proof -
  have "48 \<le> (of_char c :: nat)" "(of_char c :: nat) \<le> 57" using assms by (simp_all add: is_digit_def)
  then show ?thesis by (intro exI [of _ "of_char c - 48"]) simp
qed

lemma show_nat_snoc: "0 < n \<Longrightarrow> d < 10 \<Longrightarrow> show_nat (10 * n + d) = show_nat n @ [char_of (48 + d)]"
  by (subst show_nat.simps) simp

lemma is_digit_show_nat:
  "ds \<noteq> [] \<Longrightarrow> list_all is_digit ds \<Longrightarrow> hd ds \<noteq> CHR ''0'' \<Longrightarrow> \<exists>n > 0. ds = show_nat n"
proof (induction ds rule: rev_induct)
  case (snoc c ds)
  then obtain d :: nat where d: "d < 10" "c = char_of (48 + d)" using is_digit_char [of c] by auto
  show ?case
  proof (cases "ds = []")
    case True
    have "char_of (48 :: nat) = CHR ''0''" by code_simp
    with True snoc.prems d have "d \<noteq> 0" by (metis add.right_neutral append_Nil list.sel(1))
    with True d show ?thesis by (intro exI [of _ d]) (simp add: show_nat.simps)
  next
    case False
    with snoc obtain n where "n > 0" "ds = show_nat n" by auto
    with d show ?thesis by (intro exI [of _ "10 * n + d"]) (simp add: show_nat_snoc)
  qed
qed simp

lemma daysPattern_days: "daysPattern s \<Longrightarrow> \<exists>n > 0. s = show_nat n @ ''d''"
proof -
  assume s: "daysPattern s"
  then have "s = butlast s @ ''d''" unfolding daysPattern_def by (metis append_butlast_last_id)
  moreover have "hd (butlast s) \<noteq> CHR ''0''" using s unfolding daysPattern_def by (metis butlast.simps(2) list.exhaust_sel list.sel(1))
  then obtain n where "n > 0" "butlast s = show_nat n"
    using s is_digit_show_nat [of "butlast s"] unfolding daysPattern_def by blast
  ultimately show ?thesis by metis
qed

lemma role_errors_none:
  "role_errors env r path name role running = [] \<longleftrightarrow>
     (\<exists>t. adm_tenant env (Namespace r) name = Inr t \<and> TenantStatus_TenantRole t = role \<and> (running \<longrightarrow> Status t = tenantstatus_Running))"
  by (auto simp: role_errors_def checkTenantCRExistence_def split: sum.splits)

text \<open>Defaulting a path is not idempotent, so an unchanged policy may change at its next update.\<close>

lemma trim_query_slash_again:
  "trim_query_slash ''oss://b/p//?host=h'' = ''oss://b/p/?host=h''"
  "trim_query_slash (trim_query_slash ''oss://b/p//?host=h'') = ''oss://b/p?host=h''"
  by simp_all

section \<open>Properties\<close>

text \<open>
  C33. An admitted operation on a tenant starts. When the tenants are still as the webhook has read
  them, \<^verbatim>\<open>InitStatus\<close> does not panic, the operation is running afterwards and has the tenants it
  works on: a switchover a primary and a standby, both running; a failover and a log replay a
  standby; an upgrade a primary.
\<close>

theorem admitted_tenant_operation_starts:
  assumes "OBTenantOperation_ValidateCreate env m = []"
    and "\<And>name. tapi_tenant tenv name = adm_tenant env (Namespace m) name"
  shows "\<exists>m'. ObTenantOperationManager_InitStatus tenv m = Some m' \<and> Status m' = TenantOpRunning \<and> TOp_Type m' = TOp_Type m \<and>
    (TOp_Type m = TenantOpSwitchover \<longrightarrow>
       (\<exists>primary standby. TOpStatus_PrimaryTenant m' = Some primary \<and> TOpStatus_SecondaryTenant m' = Some standby \<and>
          TenantStatus_TenantRole primary = TenantRolePrimary \<and> TenantStatus_TenantRole standby = TenantRoleStandby \<and>
          Status primary = tenantstatus_Running \<and> Status standby = tenantstatus_Running)) \<and>
    (TOp_Type m \<in> {TenantOpFailover, TenantOpReplayLog} \<longrightarrow>
       (\<exists>standby. TOpStatus_PrimaryTenant m' = Some standby \<and> TenantStatus_TenantRole standby = TenantRoleStandby)) \<and>
    (TOp_Type m = TenantOpUpgrade \<longrightarrow>
       (\<exists>primary. TOpStatus_PrimaryTenant m' = Some primary \<and> TenantStatus_TenantRole primary = TenantRolePrimary))"
proof -
  note admitted = assms(1) [unfolded OBTenantOperation_ValidateCreate_def OBTenantOperation_validateMutation_def]
  note init = ObTenantOperationManager_InitStatus_def init_tenants_def getTenantCR_def assms(2)
  have roles: "TenantRolePrimary \<noteq> TenantRoleStandby" by (simp add: TenantRolePrimary_def TenantRoleStandby_def)
  consider "TOp_Type m = TenantOpChangePwd" | "TOp_Type m = TenantOpFailover" | "TOp_Type m = TenantOpSwitchover"
    | "TOp_Type m = TenantOpUpgrade" | "TOp_Type m = TenantOpReplayLog"
    | "TOp_Type m \<notin> {TenantOpChangePwd, TenantOpFailover, TenantOpSwitchover, TenantOpUpgrade, TenantOpReplayLog}" by blast
  then show ?thesis
  proof cases
    case 1
    with admitted obtain tenant ref t where "TOp_ChangePwd m = Some (tenant, ref)" "adm_tenant env (Namespace m) tenant = Inr t"
      by (auto simp: change_pwd_errors_def checkTenantCRExistence_def split: option.splits sum.splits if_splits)
    with 1 show ?thesis by (simp add: init)
  next
    case 2
    with admitted obtain standby t where "TOp_Failover m = Some standby" "adm_tenant env (Namespace m) standby = Inr t"
      "TenantStatus_TenantRole t = TenantRoleStandby"
      by (auto simp: failover_errors_def Let_def role_errors_none split: option.splits if_splits)
    with 2 roles show ?thesis by (simp add: init)
  next
    case 3
    with admitted obtain primary standby t s where "TOp_Switchover m = Some (primary, standby)"
      "adm_tenant env (Namespace m) primary = Inr t" "adm_tenant env (Namespace m) standby = Inr s"
      "TenantStatus_TenantRole t = TenantRolePrimary" "TenantStatus_TenantRole s = TenantRoleStandby"
      "Status t = tenantstatus_Running" "Status s = tenantstatus_Running"
      by (auto simp: switchover_errors_def Let_def role_errors_none split: option.splits if_splits)
    with 3 show ?thesis by (simp add: init)
  next
    case 4
    with admitted obtain target t where "TOp_TargetTenant m = Some target" "adm_tenant env (Namespace m) target = Inr t"
      "TenantStatus_TenantRole t = TenantRolePrimary"
      by (auto simp: target_errors_def role_errors_none split: option.splits)
    with 4 show ?thesis by (simp add: init)
  next
    case 5
    with admitted obtain target t where "TOp_TargetTenant m = Some target" "adm_tenant env (Namespace m) target = Inr t"
      "TenantStatus_TenantRole t = TenantRoleStandby"
      by (auto simp: target_errors_def role_errors_none split: option.splits)
    with 5 show ?thesis by (simp add: init)
  next
    case 6
    then show ?thesis by (simp add: init)
  qed
qed

theorem admitted_tenant_operation_starts_witness:
  "\<exists>m'. ObTenantOperationManager_InitStatus (quiet_op_env\<lparr>tapi_tenant := \<lambda>_. Inr small_tenant\<rparr>)
     ((switchover_operation [])\<lparr>TOp_Type := TenantOpUpgrade, TOp_TargetTenant := Some ''t1''\<rparr>) = Some m' \<and> Status m' = TenantOpRunning"
proof -
  let ?m = "(switchover_operation [])\<lparr>TOp_Type := TenantOpUpgrade, TOp_TargetTenant := Some ''t1''\<rparr>"
  have "OBTenantOperation_ValidateCreate small_admission ?m = []"
    by (simp add: OBTenantOperation_ValidateCreate_def OBTenantOperation_validateMutation_def target_errors_def role_errors_def
        checkTenantCRExistence_def small_admission_def small_tenant_def TenantRolePrimary_def)
  from admitted_tenant_operation_starts [OF this, of "quiet_op_env\<lparr>tapi_tenant := \<lambda>_. Inr small_tenant\<rparr>"]
  show ?thesis by (auto simp: small_admission_def)
qed

text \<open>
  An admitted backup policy can be carried out: both schedules parse, the connection is never
  nil, the destinations have all that the configuration of the backup reads of them, and the
  keep window is a positive number of days, which the clean-up parses exactly when it is below
  \<open>2 ^ 63\<close>.
\<close>

theorem admitted_policy_sound:
  assumes "OBTenantBackupPolicy_ValidateCreate env m = []" and "DeletionTimestamp m = None"
  shows "adm_cron env (DB_FullCrontab (BP_DataBackup m)) = Inr () \<and>
    adm_cron env (DB_IncrementalCrontab (BP_DataBackup m)) = Inr () \<and>
    fst (getOperationManager penv m h) \<noteq> Ok False \<and>
    (\<exists>cluster. adm_cluster env (Namespace m) (BP_ObClusterName m) = Inr cluster \<and>
       usable_destination env (Namespace m) cluster (DB_Destination (BP_DataBackup m)) \<and>
       usable_destination env (Namespace m) cluster (LA_Destination (BP_LogArchive m))) \<and>
    (BP_JobKeepWindow m \<noteq> [] \<longrightarrow>
       (\<exists>n > 0. BP_JobKeepWindow m = show_nat n @ ''d'' \<and>
          Atoi (TrimRight (BP_JobKeepWindow m) ''d'') = (if n < 2 ^ 63 then (int n, True) else (2 ^ 63 - 1, False))))"
proof -
  have valid: "validateBackupPolicy env m = []"
    using assms(1) by (auto simp: OBTenantBackupPolicy_ValidateCreate_def split: if_splits)
  then obtain cluster where cluster: "adm_cluster env (Namespace m) (BP_ObClusterName m) = Inr cluster"
    using assms(2) by (auto simp: validateBackupPolicy_def split: if_splits sum.splits)
  with valid assms(2) have groups: "tenant_given_errors m = []" "validateBackupCrontab env m = []" "validateInterval m = []"
    "validateDestination env m cluster (DB_Destination (BP_DataBackup m)) ''dataBackup'' = []"
    "validateDestination env m cluster (LA_Destination (BP_LogArchive m)) ''logArchive'' = []"
    by (simp_all add: validateBackupPolicy_def first_group_none split: if_splits)
  have crons: "adm_cron env (DB_FullCrontab (BP_DataBackup m)) = Inr ()" "adm_cron env (DB_IncrementalCrontab (BP_DataBackup m)) = Inr ()"
    using groups(2) by (simp_all add: validateBackupCrontab_def validateScheduleFormat_def split: sum.splits)
  have given: "BP_TenantName m \<noteq> [] \<and> BP_TenantSecret m \<noteq> [] \<or> BP_TenantCRName m \<noteq> []"
    using groups(1) by (auto simp: tenant_given_errors_def split: if_splits)
  have connected: "fst (getOperationManager penv m h) \<noteq> Ok False"
    using given unfolding getOperationManager_def
    by (auto simp: bind_io_def ret_def split: prod.splits outcome.splits if_splits)
  have dests: "usable_destination env (Namespace m) cluster (DB_Destination (BP_DataBackup m))"
    "usable_destination env (Namespace m) cluster (LA_Destination (BP_LogArchive m))"
    using groups(4,5) by (simp_all add: validateDestination_def Let_def check_destination_usable)
  have window: "\<exists>n > 0. BP_JobKeepWindow m = show_nat n @ ''d'' \<and>
      Atoi (TrimRight (BP_JobKeepWindow m) ''d'') = (if n < 2 ^ 63 then (int n, True) else (2 ^ 63 - 1, False))"
    if "BP_JobKeepWindow m \<noteq> []"
  proof -
    have "daysPattern (BP_JobKeepWindow m)" using groups(3) that by (simp add: validateInterval_def split: if_splits)
    then obtain n where "n > 0" "BP_JobKeepWindow m = show_nat n @ ''d''" using daysPattern_days by blast
    then show ?thesis by (intro exI [of _ n]) (simp add: Atoi_show_nat_large not_less)
  qed
  show ?thesis using crons connected cluster dests window by blast
qed

theorem admitted_policy_sound_witness:
  "usable_destination (small_admission\<lparr>adm_cluster := \<lambda>_ _. Inr (small_cluster\<lparr>ClusterSpec_BackupVolume := Some \<lparr>Volume = \<lparr>Volume_Name = ''nfs'', Volume_Source = OtherSource []\<rparr>\<rparr>\<rparr>)\<rparr>)
     ''oceanbase'' (small_cluster\<lparr>ClusterSpec_BackupVolume := Some \<lparr>Volume = \<lparr>Volume_Name = ''nfs'', Volume_Source = OtherSource []\<rparr>\<rparr>\<rparr>) \<lparr>Dest_Path = ''data'', Dest_Type = BackupDestTypeNFS, Dest_OSSAccessSecret = []\<rparr>"
proof -
  let ?c = "small_cluster\<lparr>ClusterSpec_BackupVolume := Some \<lparr>Volume = \<lparr>Volume_Name = ''nfs'', Volume_Source = OtherSource []\<rparr>\<rparr>\<rparr>"
  let ?env = "small_admission\<lparr>adm_cluster := \<lambda>_ _. Inr ?c\<rparr>"
  let ?m = "default_policy_spec (small_policy\<lparr>BP_LogArchive := (BP_LogArchive small_policy)\<lparr>LA_Binding := []\<rparr>\<rparr>)"
  have upper: "ToUpper BackupDestTypeNFS = BackupDestTypeNFS" unfolding BackupDestTypeNFS_def by code_simp
  have dest: "default_destination \<lparr>Dest_Path = p, Dest_Type = BackupDestTypeNFS, Dest_OSSAccessSecret = []\<rparr> =
      \<lparr>Dest_Path = p, Dest_Type = BackupDestTypeNFS, Dest_OSSAccessSecret = []\<rparr>" for p
    by (simp add: default_destination_def upper Let_def)
  have path: "nfsPattern ''data''" "nfsPattern ''log''" "daysPattern ''8d''" "daysPattern ''7d''" "switchPiecePattern ''1d''"
    by code_simp+
  have m: "Namespace ?m = ''oceanbase''" "BP_ObClusterName ?m = ''test''" "BP_TenantName ?m = ''t1''" "BP_TenantSecret ?m = ''t1-ro''"
    "BP_TenantCRName ?m = []" "BP_RecoveryWindow ?m = ''8d''" "BP_JobKeepWindow ?m = ''7d''" "DeletionTimestamp ?m = None"
    "LA_SwitchPieceInterval (BP_LogArchive ?m) = ''1d''" "LA_Binding (BP_LogArchive ?m) = ''Optional''"
    "DB_EncryptionSecret (BP_DataBackup ?m) = []"
    "DB_Destination (BP_DataBackup ?m) = \<lparr>Dest_Path = ''data'', Dest_Type = BackupDestTypeNFS, Dest_OSSAccessSecret = []\<rparr>"
    "LA_Destination (BP_LogArchive ?m) = \<lparr>Dest_Path = ''log'', Dest_Type = BackupDestTypeNFS, Dest_OSSAccessSecret = []\<rparr>"
    by (simp_all add: default_policy_spec_def Let_def small_policy_def dest)
  have cron: "adm_cron small_admission s = Inr ()" for s by (simp add: small_admission_def)
  have volume: "usable_destination ?env ns ?c \<lparr>Dest_Path = p, Dest_Type = BackupDestTypeNFS, Dest_OSSAccessSecret = []\<rparr>"
    if "nfsPattern p" for ns p using that by (simp add: usable_destination_def)
  have dests: "validateDestination ?env ?m ?c (DB_Destination (BP_DataBackup ?m)) f = []"
    "validateDestination ?env ?m ?c (LA_Destination (BP_LogArchive ?m)) f = []" for f
    unfolding m validateDestination_def Let_def check_destination_usable using volume path by simp_all
  have checks: "tenant_given_errors ?m = []" "validateBackupCrontab ?env ?m = []" "validateInterval ?m = []"
    "encryption_errors ?env ?m = []" "binding_errors ?m = []"
    by (simp_all add: tenant_given_errors_def validateBackupCrontab_def validateScheduleFormat_def validateInterval_def
        encryption_errors_def binding_errors_def m cron path)
  have "validateBackupPolicy ?env ?m = []"
    unfolding validateBackupPolicy_def m by (simp add: first_group_none checks dests [unfolded m])
  then have "OBTenantBackupPolicy_ValidateCreate ?env ?m = []"
    by (simp add: OBTenantBackupPolicy_ValidateCreate_def m)
  from admitted_policy_sound [OF this m(8), of small_policy_env "[]"] show ?thesis by (auto simp: m)
qed

end
