(* ===== verification/Webhooks_Cluster.thy ===== *)
theory Webhooks_Cluster
  imports Admission
begin

text \<open>
  The admission webhooks of clusters, of operations on clusters and of rescues,
  \<^verbatim>\<open>api/v1alpha1/obcluster_webhook.go\<close>, \<^verbatim>\<open>obclusteroperation_webhook.go\<close> and
  \<^verbatim>\<open>obresourcerescue_webhook.go\<close>, and what an admitted object guarantees to the tasks.
\<close>

section \<open>Clusters: defaults\<close>

abbreviation param :: "string \<Rightarrow> string \<Rightarrow> Parameter" where
  "param n v \<equiv> \<lparr>Param_Name = n, Param_Value = v\<rparr>"

definition default_parameters :: "admission_env \<Rightarrow> OBCluster \<Rightarrow> Parameter list" where
  "default_parameters env r =
     (let cfg = adm_config env; template = ClusterSpec_OBServerTemplate r
      in (case AsInt64 env (Memory (Template_Resource template)) of
            None \<Rightarrow> []
          | Some memorySize \<Rightarrow>
              [param ''memory_limit''
                 (show_int (int64 (memorySize * DefaultMemoryLimitPercent cfg) sdiv 100 sdiv MegaConverter) @ ''M'')]) @
         (case AsInt64 env (Size (DataStorage (Storage template))) of
            None \<Rightarrow> []
          | Some datafileDiskSize \<Rightarrow>
              [param ''datafile_maxsize''
                 (show_int (int64 (datafileDiskSize * DefaultDiskUsePercent cfg) sdiv GigaConverter sdiv 100) @ ''G''),
               param ''datafile_next''
                 (show_int (int64 (datafileDiskSize * DefaultDiskExpandPercent cfg) sdiv GigaConverter sdiv 100) @ ''G'')]) @
         [param ''enable_syslog_recycle'' ''true'',
          param ''max_syslog_file_count''
            (show_int (case AsInt64 env (Size (LogStorage (Storage template))) of
                         None \<Rightarrow> 4
                       | Some logSize \<Rightarrow> int64 (logSize * DefaultLogPercent cfg) sdiv GigaConverter sdiv 100 sdiv 2))])"

text \<open>The parameters of a map, in the order in which Go walks over it.\<close>

definition params_of_map :: "(string list \<Rightarrow> string list) \<Rightarrow> Parameter list \<Rightarrow> Parameter list" where
  "params_of_map order ps = map (\<lambda>k. param k (the (param_map ps k))) (order (remdups (map Param_Name ps)))"

definition or_default :: "string \<Rightarrow> string \<Rightarrow> string" where
  "or_default dflt s = (if s = [] then dflt else s)"

definition default_class :: "admission_env \<Rightarrow> string option" where
  "default_class env =
     (case adm_storage_classes env of
        Inl err \<Rightarrow> None
      | Inr scs \<Rightarrow>
          (case filter (\<lambda>sc. dict_get (SC_Annotations sc) ''storageclass.kubernetes.io/is-default-class'' = ''true'')
                  (sort_key SC_Name scs) of
             [] \<Rightarrow> None
           | sc # _ \<Rightarrow> Some (SC_Name sc)))"

definition with_class :: "string \<Rightarrow> StorageSpec \<Rightarrow> StorageSpec" where
  "with_class cls s = s\<lparr>StorageClass := or_default cls (StorageClass s)\<rparr>"

definition with_default_classes :: "admission_env \<Rightarrow> OceanbaseStorageSpec \<Rightarrow> OceanbaseStorageSpec" where
  "with_default_classes env st =
     (if StorageClass (DataStorage st) = [] \<or> StorageClass (LogStorage st) = [] \<or> StorageClass (RedoLogStorage st) = []
      then (case default_class env of
              None \<Rightarrow> st
            | Some cls \<Rightarrow> \<lparr>DataStorage = with_class cls (DataStorage st), RedoLogStorage = with_class cls (RedoLogStorage st),
                LogStorage = with_class cls (LogStorage st)\<rparr>)
      else st)"

definition with_default_secrets :: "admission_env \<Rightarrow> OBUserSecrets \<Rightarrow> OBUserSecrets" where
  "with_default_secrets env u =
     u\<lparr>Secret_Monitor := or_default (''monitor-user-'' @ adm_rand env ''monitor'') (Secret_Monitor u),
       Secret_Operator := or_default (''operator-user-'' @ adm_rand env ''operator'') (Secret_Operator u),
       Secret_ProxyRO := or_default (''proxyro-user-'' @ adm_rand env ''proxyro'') (Secret_ProxyRO u)\<rparr>"

definition OBCluster_Default :: "admission_env \<Rightarrow> OBCluster \<Rightarrow> OBCluster" where
  "OBCluster_Default env r =
     change_storage (with_default_classes env)
       (r\<lparr>ClusterSpec_Parameters := params_of_map (adm_order env) (default_parameters env r @ ClusterSpec_Parameters r),
          ClusterSpec_UserSecrets := with_default_secrets env (ClusterSpec_UserSecrets r),
          ClusterSpec_ServiceAccount := or_default ''default'' (ClusterSpec_ServiceAccount r)\<rparr>)"

section \<open>Clusters: validation\<close>

definition OBCluster_checkSecretExistence :: "admission_env \<Rightarrow> string \<Rightarrow> string \<Rightarrow> string \<Rightarrow> admission_error list" where
  "OBCluster_checkSecretExistence env ns secretName fieldName =
     (let path = [''spec'', ''userSecrets'', fieldName]
      in if secretName = [] then [Invalid path (''Empty credential '' @ fieldName @ '' is not permitted'')]
         else (case adm_secret env ns secretName of
                 Inl err \<Rightarrow>
                   if is_not_found err then [Invalid path (''Given '' @ fieldName @ '' credential '' @ secretName @ '' not found'')]
                   else [Internal path err]
               | Inr secret \<Rightarrow>
                   if secret ''password'' = None
                   then [Invalid path (''password field not found in given credential '' @ secretName @ '' '')] else []))"

definition checkSecretWithRawError :: "admission_env \<Rightarrow> string \<Rightarrow> string \<Rightarrow> error option" where
  "checkSecretWithRawError env ns secretName =
     (if secretName = [] then None
      else (case adm_secret env ns secretName of
              Inl err \<Rightarrow> if is_not_found err then None else Some err
            | Inr secret \<Rightarrow>
                if secret ''password'' = None then Some (OtherError ''password field not found in given credential'') else None))"

definition raw_secret_error :: "admission_env \<Rightarrow> OBCluster \<Rightarrow> string \<Rightarrow> string \<Rightarrow> admission_error list" where
  "raw_secret_error env r fieldName secretName =
     (case checkSecretWithRawError env (Namespace r) secretName of
        None \<Rightarrow> []
      | Some err \<Rightarrow> [Invalid [''spec'', ''userSecrets'', fieldName] (Error err)])"

definition validateK8sCluster :: "admission_env \<Rightarrow> string \<Rightarrow> error option" where
  "validateK8sCluster env k8sCluster = (case adm_k8s_cluster env k8sCluster of Inl err \<Rightarrow> Some err | Inr _ \<Rightarrow> None)"

definition standalone_errors :: "OBCluster \<Rightarrow> admission_error list" where
  "standalone_errors r =
     (if Annotations r AnnotationsMode = Some ''standalone''
      then (if length (ClusterSpec_Topology r) \<noteq> 1
            then [Invalid [''spec'', ''topology''] ''standalone mode only support single zone'']
            else if Replica (ClusterSpec_Topology r ! 0) \<noteq> 1
            then [Invalid [''spec'', ''topology''] ''standalone mode only support single replica''] else []) @
           (if Annotations r AnnotationsSourceClusterAddress \<noteq> None
            then [Invalid [''metadata'', ''annotations'', AnnotationsSourceClusterAddress]
                    ''migrate obcluster into standalone mode is not supported''] else [])
      else [])"

definition k8s_errors :: "admission_env \<Rightarrow> OBCluster \<Rightarrow> admission_error list" where
  "k8s_errors env r =
     concat (map (\<lambda>topo. if K8sCluster topo = [] then []
                         else (case validateK8sCluster env (K8sCluster topo) of
                                 None \<Rightarrow> []
                               | Some err \<Rightarrow> [Invalid [''spec'', ''topology'', ''k8sCluster''] (Error err)]))
       (ClusterSpec_Topology r))"

definition class_required :: "string \<Rightarrow> StorageSpec \<Rightarrow> admission_error list" where
  "class_required fieldName s =
     (if StorageClass s = []
      then [Invalid [''spec'', ''observer'', ''storage'', fieldName, ''storageClass'']
              ''storageClass is required, default storage class is not found''] else [])"

text \<open>The checks that come first; when one of them fails the others are not made.\<close>

definition shape_errors :: "admission_env \<Rightarrow> OBCluster \<Rightarrow> admission_error list" where
  "shape_errors env r =
     (let st = Storage (ClusterSpec_OBServerTemplate r); secrets = ClusterSpec_UserSecrets r
      in standalone_errors r @
         OBCluster_checkSecretExistence env (Namespace r) (Secret_Root secrets) ''root'' @
         raw_secret_error env r ''operator'' (Secret_Operator secrets) @
         raw_secret_error env r ''monitor'' (Secret_Monitor secrets) @
         raw_secret_error env r ''proxyro'' (Secret_ProxyRO secrets) @
         (if ClusterSpec_Topology r = [] then [Invalid [''spec'', ''topology''] ''empty topology is not permitted''] else []) @
         k8s_errors env r @
         class_required ''dataStorage'' (DataStorage st) @ class_required ''logStorage'' (LogStorage st) @
         class_required ''redoLogStorage'' (RedoLogStorage st))"

definition storage_class_errors :: "admission_env \<Rightarrow> OBCluster \<Rightarrow> admission_error list" where
  "storage_class_errors env r =
     (let st = Storage (ClusterSpec_OBServerTemplate r);
          classes = adm_order env (remdups [StorageClass (DataStorage st), StorageClass (LogStorage st), StorageClass (RedoLogStorage st)]);
          path = [''spec'', ''observer'', ''storage'', ''storageClass'']
      in concat (map (\<lambda>key. case adm_storage_class env key of
                         Inl err \<Rightarrow> if is_not_found err then [Invalid path (''storageClass '' @ key @ '' not found'')] else [Internal path err]
                       | Inr _ \<Rightarrow> []) classes) @
         (if Annotations r AnnotationsSinglePVC \<noteq> None \<and> 1 < length classes
          then [Invalid [''spec'', ''observer'', ''storage'', ''*'', ''storageClass''] ''singlePVC mode only support single storage class'']
          else []))"

definition size_errors :: "admission_env \<Rightarrow> OBCluster \<Rightarrow> admission_error list" where
  "size_errors env r =
     (let cfg = adm_config env; template = ClusterSpec_OBServerTemplate r; st = Storage template;
          below = (\<lambda>path (q :: Quantity) least msg. if Cmp q least < 0 then [Invalid path msg] else [])
      in below [''spec'', ''observer'', ''storage'', ''dataStorage'', ''size''] (Size (DataStorage st)) (MinDataDiskSize cfg)
           ''The minimum data storage size of OBCluster is '' @
         below [''spec'', ''observer'', ''storage'', ''redoLogStorage'', ''size''] (Size (RedoLogStorage st)) (MinRedoLogDiskSize cfg)
           ''The minimum redo log storage size of OBCluster is '' @
         below [''spec'', ''observer'', ''storage'', ''logStorage'', ''size''] (Size (LogStorage st)) (MinLogDiskSize cfg)
           ''The minimum log storage size of OBCluster is '' @
         below [''spec'', ''observer'', ''resource'', ''memory''] (Memory (Template_Resource template)) (MinMemorySize cfg)
           ''The minimum memory size of OBCluster is '')"

text \<open>A memory limit that does not parse counts as the zero quantity in the comparisons after it.\<close>

definition memory_limit_errors :: "admission_env \<Rightarrow> OBCluster \<Rightarrow> admission_error list" where
  "memory_limit_errors env r =
     (case param_map (ClusterSpec_Parameters r) ''memory_limit'' of
        None \<Rightarrow> []
      | Some v \<Rightarrow>
          let template = ClusterSpec_OBServerTemplate r; st = Storage template; f = AsApproximateFloat64 env;
              memoryLimit = (case ParseQuantity env v of Inl _ \<Rightarrow> 0 | Inr q \<Rightarrow> q);
              less_than_thrice = (\<lambda>fieldName s msg. if f (Size s) < float_times env 3 (f memoryLimit)
                 then [Invalid [''spec'', ''observer'', ''storage'', fieldName, ''size''] msg] else [])
          in (case ParseQuantity env v of
                Inl _ \<Rightarrow> [Invalid [''spec'', ''parameters''] ''Failed to parse memory limit'']
              | Inr q \<Rightarrow> if f q > f (Memory (Template_Resource template))
                         then [Invalid [''spec'', ''parameters''] ''Memory limit exceeds observer's resource''] else []) @
             less_than_thrice ''dataStorage'' (DataStorage st) ''The minimum size of data storage should be larger than 3 times of memory limit'' @
             less_than_thrice ''redoLogStorage'' (RedoLogStorage st) ''The minimum size of redo log storage should be larger than 3 times of memory limit'')"

definition datafile_errors :: "admission_env \<Rightarrow> OBCluster \<Rightarrow> admission_error list" where
  "datafile_errors env r =
     (case param_map (ClusterSpec_Parameters r) ''datafile_maxsize'' of
        None \<Rightarrow> []
      | Some v \<Rightarrow>
          (case ParseQuantity env v of
             Inl _ \<Rightarrow> [Invalid [''spec'', ''parameters''] ''Failed to parse datafile max size'']
           | Inr q \<Rightarrow>
               if AsApproximateFloat64 env q > AsApproximateFloat64 env (Size (DataStorage (Storage (ClusterSpec_OBServerTemplate r))))
               then [Invalid [''spec'', ''parameters''] ''Datafile maxsize exceeds observer's data storage size''] else []))"

definition service_account_errors :: "admission_env \<Rightarrow> OBCluster \<Rightarrow> admission_error list" where
  "service_account_errors env r =
     (if ClusterSpec_ServiceAccount r = [] then []
      else (case adm_service_account env (Namespace r) (ClusterSpec_ServiceAccount r) of
              Inl err \<Rightarrow> if is_not_found err then [Invalid [''spec'', ''serviceAccount''] ''service account not found'']
                         else [Internal [''spec'', ''serviceAccount''] err]
            | Inr _ \<Rightarrow> []))"

text \<open>
  The secrets of the users are a required field of the resource definition (and \<^verbatim>\<open>Default\<close> has read
  them before), so they are given wherever a webhook runs.
\<close>

definition OBCluster_validateMutation :: "admission_env \<Rightarrow> OBCluster \<Rightarrow> admission_error list" where
  "OBCluster_validateMutation env r =
     (if DeletionTimestamp r \<noteq> None then []
      else if shape_errors env r \<noteq> [] then shape_errors env r
      else storage_class_errors env r @ size_errors env r @ memory_limit_errors env r @ datafile_errors env r @
        service_account_errors env r)"

definition OBCluster_ValidateCreate :: "admission_env \<Rightarrow> OBCluster \<Rightarrow> admission_error list" where
  "OBCluster_ValidateCreate env r = OBCluster_validateMutation env r"

section \<open>Clusters: updates\<close>

text \<open>The largest assignments on a server, and the share of the memory that is its limit there.\<close>

definition max_assigned :: "admission_env \<Rightarrow> ResourceSpec \<Rightarrow> GVServer list \<Rightarrow> int \<times> int \<times> rat" where
  "max_assigned env oldResource gvservers =
     fold (\<lambda>s (cpu, mem, pct).
         (if GV_CPUAssigned s > cpu then GV_CPUAssigned s else cpu,
          if GV_MemAssigned s > mem then GV_MemAssigned s else mem,
          if GV_MemAssigned s > mem
          then (if Quantity_Value env (Memory oldResource) < GV_MemoryLimit s then 9 / 10
                else float_divide env (float64 env (GV_MemoryLimit s)) (AsApproximateFloat64 env (Memory oldResource)))
          else pct))
       gvservers (0, 0, 0)"

definition shrink_errors :: "admission_env \<Rightarrow> OBCluster \<Rightarrow> OBCluster \<Rightarrow> admission_error list" where
  "shrink_errors env oldCluster r =
     (let oldResource = Template_Resource (ClusterSpec_OBServerTemplate oldCluster);
          newResource = Template_Resource (ClusterSpec_OBServerTemplate r)
      in if Cmp (Memory newResource) (Memory oldResource) < 0 \<or> Cmp (Cpu newResource) (Cpu oldResource) < 0
         then
           if Status r \<noteq> clusterstatus_Running then [Plain ''forbid to shrink memory size of non-running cluster'']
           else (case getSysClient env r ''operator'' ''sys'' (Secret_Operator (ClusterSpec_UserSecrets r)) of
                   Inl err \<Rightarrow> [Api err]
                 | Inr conn \<Rightarrow>
                     (case adm_gvservers env conn of
                        Inl err \<Rightarrow> [Api err]
                      | Inr gvservers \<Rightarrow>
                          (case max_assigned env oldResource gvservers of
                             (maxAssignedCPU, maxAssignedMemory, memoryLimitPercent) \<Rightarrow>
                               if float_times env (AsApproximateFloat64 env (Memory newResource)) memoryLimitPercent
                                    < float64 env maxAssignedMemory
                               then [Plain ''Assigned memory is larger than new memory size'']
                               else if Quantity_Value env (Cpu oldResource) > 16 \<and>
                                 AsApproximateFloat64 env (Cpu newResource) < float64 env maxAssignedCPU
                               then [Plain ''Assigned CPU is larger than new CPU size''] else [])))
         else [])"

definition validateStorageClassAllowExpansion :: "admission_env \<Rightarrow> string \<Rightarrow> admission_error list" where
  "validateStorageClassAllowExpansion env storageClassName =
     (case adm_storage_class env storageClassName of
        Inl err \<Rightarrow> [Api err]
      | Inr sc \<Rightarrow>
          if SC_AllowVolumeExpansion sc = Some True then []
          else [Plain (''storage class '' @ storageClassName @ '' does not allow volume expansion'')])"

text \<open>The error about the monitor replaces the one about the volume.\<close>

definition template_errors :: "OBCluster \<Rightarrow> OBCluster \<Rightarrow> admission_error list" where
  "template_errors oldCluster r =
     (if (ClusterSpec_MonitorTemplate r = None) \<noteq> (ClusterSpec_MonitorTemplate oldCluster = None) \<and> \<not> OBCluster_SupportStaticIP oldCluster
      then [Plain ''forbid to add/remove monitor container to non-static-ip cluster'']
      else if (ClusterSpec_BackupVolume r = None) \<noteq> (ClusterSpec_BackupVolume oldCluster = None) \<and> \<not> OBCluster_SupportStaticIP oldCluster
      then [Plain ''forbid to add/remove backup volume to non-static-ip cluster''] else [])"

definition expansion_errors :: "admission_env \<Rightarrow> OceanbaseStorageSpec \<Rightarrow> OceanbaseStorageSpec \<Rightarrow> admission_error list" where
  "expansion_errors env oldStorage newStorage =
     concat (map (\<lambda>part. if Cmp (Size (part newStorage)) (Size (part oldStorage)) > 0
                         then validateStorageClassAllowExpansion env (StorageClass (part newStorage)) else [])
       [DataStorage, LogStorage, RedoLogStorage])"

definition storage_shrink_errors :: "OceanbaseStorageSpec \<Rightarrow> OceanbaseStorageSpec \<Rightarrow> admission_error list" where
  "storage_shrink_errors oldStorage newStorage =
     concat (map (\<lambda>(part, fieldName, msg). if Cmp (Size (part newStorage)) (Size (part oldStorage)) < 0
                         then [Invalid [''spec'', ''observer'', ''storage'', fieldName, ''size''] msg] else [])
       [(DataStorage, ''dataStorage'', ''forbid to shrink data storage size''),
        (LogStorage, ''logStorage'', ''forbid to shrink log storage size''),
        (RedoLogStorage, ''redoLogStorage'', ''forbid to shrink redo log storage size'')])"

definition OBCluster_ValidateUpdate :: "admission_env \<Rightarrow> OBCluster \<Rightarrow> OBCluster \<Rightarrow> admission_error list" where
  "OBCluster_ValidateUpdate env oldCluster r =
     (let oldResource = Template_Resource (ClusterSpec_OBServerTemplate oldCluster);
          newResource = Template_Resource (ClusterSpec_OBServerTemplate r);
          oldStorage = Storage (ClusterSpec_OBServerTemplate oldCluster);
          newStorage = Storage (ClusterSpec_OBServerTemplate r)
      in if (case (Annotations oldCluster AnnotationsMode, Annotations r AnnotationsMode) of
               (Some oldMode, Some mode) \<Rightarrow> oldMode \<noteq> mode | _ \<Rightarrow> False)
         then [Plain ''mode cannot be changed'']
         else if \<not> OBCluster_SupportStaticIP oldCluster \<and>
           (\<not> Quantity_same env (Cpu oldResource) (Cpu newResource) \<or> \<not> Quantity_same env (Memory oldResource) (Memory newResource))
         then [Plain ''forbid to modify cpu or memory quota of non-static-ip cluster'']
         else if shrink_errors env oldCluster r \<noteq> [] then shrink_errors env oldCluster r
         else if template_errors oldCluster r @ expansion_errors env oldStorage newStorage \<noteq> []
         then template_errors oldCluster r @ expansion_errors env oldStorage newStorage
         else if storage_shrink_errors oldStorage newStorage \<noteq> [] then storage_shrink_errors oldStorage newStorage
         else OBCluster_validateMutation env r)"

text \<open>The protection by annotation, which clusters and tenants have in common.\<close>

definition OBCluster_ValidateDelete :: "OBCluster \<Rightarrow> admission_error list" where
  "OBCluster_ValidateDelete r =
     (if dict_get (Annotations r) AnnotationsIgnoreDeletion = ''true''
      then [Plain (''OBCluster '' @ Name r @ '' is protected from deletion by annotation '' @ AnnotationsIgnoreDeletion)] else [])"

section \<open>Operations on clusters\<close>

definition OBClusterOperation_Default :: "admission_env \<Rightarrow> OBClusterOperation \<Rightarrow> OBClusterOperation" where
  "OBClusterOperation_Default env r =
     (case adm_cluster env (Namespace r) (COp_OBCluster r) of
        Inl err \<Rightarrow> r
      | Inr obcluster \<Rightarrow> r\<lparr>Labels := (Labels r)(''ref-obcluster'' \<mapsto> Name obcluster)\<rparr>)"

abbreviation cluster_op_types :: "string list" where
  "cluster_op_types \<equiv> [ClusterOpTypeAddZones, ClusterOpTypeDeleteZones, ClusterOpTypeAdjustReplicas, ClusterOpTypeUpgrade,
     ClusterOpTypeRestartOBServers, ClusterOpTypeModifyOBServers, ClusterOpTypeSetParameters, ClusterOpTypeDeleteOBServers]"

text \<open>The part of the specification that belongs to the type is set.\<close>

definition part_errors :: "OBClusterOperation \<Rightarrow> admission_error list" where
  "part_errors r =
     (let missing = (\<lambda>typ absent fieldName. if COp_Type r = typ \<and> absent
            then [Invalid [''spec'', fieldName] (fieldName @ '' must be set for cluster operation of type '' @ fieldName)] else [])
      in missing ClusterOpTypeAddZones (COp_AddZones r = None) ''addZones'' @
         missing ClusterOpTypeDeleteZones (COp_DeleteZones r = None) ''deleteZones'' @
         missing ClusterOpTypeAdjustReplicas (COp_AdjustReplicas r = None) ''adjustReplicas'' @
         missing ClusterOpTypeUpgrade (COp_Upgrade r = None) ''upgrade'' @
         missing ClusterOpTypeRestartOBServers (COp_RestartOBServers r = None) ''restartOBServers'' @
         missing ClusterOpTypeModifyOBServers (COp_ModifyOBServers r = None) ''modifyOBServers'' @
         missing ClusterOpTypeSetParameters (COp_SetParameters r = None) ''setParameters'' @
         missing ClusterOpTypeDeleteOBServers (COp_DeleteOBServers r = None) ''deleteOBServers'')"

text \<open>The first of several errors.\<close>

definition first_error :: "admission_error list \<Rightarrow> admission_error list" where
  "first_error es = take 1 es"

definition topology_errors :: "OBClusterOperation \<Rightarrow> OBCluster \<Rightarrow> admission_error list" where
  "topology_errors r obcluster =
     (let zones = map Zone (ClusterSpec_Topology obcluster)
      in concat (map (\<lambda>zone.
            (if Replica zone \<le> 0 then [Invalid [''spec'', ''addZones'', ''replica''] ''replica must be greater than 0''] else []) @
            (if Zone zone \<in> set zones then [Invalid [''spec'', ''addZones'', ''zone''] ''zone already exists''] else []))
          (slice (COp_AddZones r))) @
         concat (map (\<lambda>zone. if zone \<notin> set zones then [Invalid [''spec'', ''deleteZones'', ''zone''] ''zone does not exist''] else [])
          (slice (COp_DeleteZones r))) @
         concat (map (\<lambda>alter. if Alter_To alter \<le> 0 then [Invalid [''spec'', ''adjustReplicas'', ''to''] ''replica must be greater than 0''] else [])
          (slice (COp_AdjustReplicas r))))"

text \<open>
  The sizes are compared through pointers that may be nil: a size that is not given makes the
  webhook panic (\<open>None\<close>), unless an error is found before.
\<close>

definition not_less :: "string \<Rightarrow> Quantity option \<Rightarrow> Quantity \<Rightarrow> admission_error list option" where
  "not_less fieldName new old =
     (case new of
        None \<Rightarrow> None
      | Some q \<Rightarrow> Some (if Cmp q old < 0
          then [Invalid [''spec'', ''expandStorageSize'', fieldName] ''storage size can not be less than current size''] else []))"

definition or_else :: "admission_error list option \<Rightarrow> admission_error list option \<Rightarrow> admission_error list option" where
  "or_else a b = (case a of None \<Rightarrow> None | Some [] \<Rightarrow> b | Some es \<Rightarrow> Some es)"

definition expand_errors :: "ExpandStorageSizeConfig \<Rightarrow> OceanbaseStorageSpec \<Rightarrow> admission_error list option" where
  "expand_errors e st =
     or_else (not_less ''dataStorage'' (Expand_DataStorage e) (Size (DataStorage st)))
       (or_else (not_less ''logStorage'' (Expand_LogStorage e) (Size (LogStorage st)))
         (not_less ''redoLogStorage'' (Expand_RedoLogStorage e) (Size (RedoLogStorage st))))"

definition class_errors :: "admission_env \<Rightarrow> ModifyStorageClassConfig \<Rightarrow> OceanbaseStorageSpec \<Rightarrow> admission_error list" where
  "class_errors env mc st =
     first_error (concat (map (\<lambda>(new, old, fieldName).
         if new \<noteq> [] \<and> new \<noteq> StorageClass old \<and> (case adm_storage_class env new of Inl err \<Rightarrow> is_not_found err | Inr _ \<Rightarrow> False)
         then [Invalid [''spec'', ''modifyStorageClass'', fieldName] ''storage class does not exist''] else [])
       [(Class_DataStorage mc, DataStorage st, ''dataStorage''), (Class_LogStorage mc, LogStorage st, ''logStorage''),
        (Class_RedoLogStorage mc, RedoLogStorage st, ''redoLogStorage'')]))"

definition uses_nfs :: "OBTenantBackupPolicy \<Rightarrow> bool" where
  "uses_nfs policy \<longleftrightarrow> Dest_Type (DB_Destination (BP_DataBackup policy)) = BackupDestTypeNFS \<or>
     Dest_Type (LA_Destination (BP_LogArchive policy)) = BackupDestTypeNFS"

definition parts_errors :: "admission_env \<Rightarrow> ModifyOBServersConfig \<Rightarrow> OBCluster \<Rightarrow> admission_error list" where
  "parts_errors env spec obcluster =
     (let err = (\<lambda>fieldName msg. [Invalid [''spec'', ''modifyOBServers'', fieldName] msg])
      in if Mod_AddingMonitor spec \<noteq> None \<and> Mod_RemoveMonitor spec
         then err ''addingMonitor'' ''can not add and remove monitor at the same time''
         else if Mod_AddingMonitor spec \<noteq> None \<and> ClusterSpec_MonitorTemplate obcluster \<noteq> None
         then err ''addingMonitor'' ''monitor container already exists''
         else if Mod_RemoveMonitor spec \<and> ClusterSpec_MonitorTemplate obcluster = None
         then err ''removeMonitor'' ''monitor container does not exist''
         else if Mod_AddingBackupVolume spec \<noteq> None \<and> ClusterSpec_BackupVolume obcluster \<noteq> None
         then err ''addingBackupVolume'' ''backup volume already exists''
         else if \<not> Mod_RemoveBackupVolume spec then []
         else if Mod_AddingBackupVolume spec \<noteq> None
         then err ''addingBackupVolume'' ''can not add and remove backup volume at the same time''
         else if ClusterSpec_BackupVolume obcluster = None
         then err ''removeBackupVolume'' ''backup volume does not exist''
         else (case adm_policies env (Some (Namespace obcluster)) [(''ref-obcluster'', Name obcluster)] of
                 Inl e \<Rightarrow> [Internal [] e]
               | Inr policies \<Rightarrow>
                   if list_ex uses_nfs policies then err ''removeBackupVolume'' ''backup volume is in use, can not be removed''
                   else []))"

definition modify_errors :: "admission_env \<Rightarrow> OBClusterOperation \<Rightarrow> OBCluster \<Rightarrow> admission_error list option" where
  "modify_errors env r obcluster =
     (case (COp_Type r = ClusterOpTypeModifyOBServers, COp_ModifyOBServers r) of
        (True, Some spec) \<Rightarrow>
          or_else
            (let st = Storage (ClusterSpec_OBServerTemplate obcluster)
             in case Mod_ExpandStorageSize spec of
                  Some e \<Rightarrow> expand_errors e st
                | None \<Rightarrow> (case Mod_ModifyStorageClass spec of Some mc \<Rightarrow> Some (class_errors env mc st) | None \<Rightarrow> Some []))
            (Some (parts_errors env spec obcluster))
      | _ \<Rightarrow> Some [])"

definition static_ip_errors :: "OBClusterOperation \<Rightarrow> OBCluster \<Rightarrow> admission_error list" where
  "static_ip_errors r obcluster =
     (if dict_get (Annotations obcluster) AnnotationsSupportStaticIP = ''true'' then []
      else if COp_Type r = ClusterOpTypeRestartOBServers \<and> COp_RestartOBServers r \<noteq> None
      then [Invalid [''spec'', ''obcluster''] ''obcluster does not support static ip, can not restart observers'']
      else (case (COp_Type r = ClusterOpTypeModifyOBServers, COp_ModifyOBServers r) of
              (True, Some spec) \<Rightarrow>
                if Mod_Resource spec \<noteq> None \<or> Mod_AddingBackupVolume spec \<noteq> None \<or> Mod_AddingMonitor spec \<noteq> None \<or> Mod_RemoveMonitor spec
                then [Invalid [''spec'', ''obcluster''] ''obcluster does not support static ip, can not modify observers''] else []
            | _ \<Rightarrow> []))"

definition OBClusterOperation_ValidateCreate :: "admission_env \<Rightarrow> OBClusterOperation \<Rightarrow> admission_error list option" where
  "OBClusterOperation_ValidateCreate env r =
     (if COp_Type r \<notin> set cluster_op_types
      then Some [Invalid [''spec'', ''type''] ''type must be one of AddZones, DeleteZones, AdjustReplicas, Upgrade, RestartOBServers, ModifyOBServers, SetParameters, DeleteOBServers'']
      else if part_errors r \<noteq> [] then Some (part_errors r)
      else (case adm_cluster env (Namespace r) (COp_OBCluster r) of
              Inl err \<Rightarrow> Some (if is_not_found err then [Invalid [''spec'', ''obcluster''] ''obcluster not found''] else [Internal [] err])
            | Inr obcluster \<Rightarrow>
                if \<not> COp_Force r \<and> Status obcluster \<noteq> clusterstatus_Running
                then Some [Invalid [''spec'', ''obcluster''] ''obcluster is currently operating, please use force to override'']
                else or_else (Some (first_error (topology_errors r obcluster)))
                  (or_else (modify_errors env r obcluster) (Some (static_ip_errors r obcluster)))))"

section \<open>Rescues\<close>

record OBResourceRescue = ObjectMeta +
  Rescue_TargetKind :: string
  Rescue_TargetResName :: string
  Rescue_Type :: string
  Rescue_TargetGV :: string
  Rescue_Namespace :: string
  Rescue_TargetStatus :: string
  RescueStatus_Status :: string

definition rescueTypeMapping :: "string list" where
  "rescueTypeMapping = [''delete'', ''reset'', ''retry'', ''skip'', ''ignore-deletion'']"

definition OBResourceRescue_Default :: "OBResourceRescue \<Rightarrow> OBResourceRescue" where
  "OBResourceRescue_Default r = r\<lparr>Rescue_Type := ToLower (Rescue_Type r)\<rparr>"

definition OBResourceRescue_validateMutation :: "OBResourceRescue \<Rightarrow> admission_error list" where
  "OBResourceRescue_validateMutation r =
     (if Rescue_TargetKind r = [] then [Required [''spec'', ''targetKind''] ''targetKind is required''] else []) @
     (if Rescue_TargetResName r = [] then [Required [''spec'', ''targetResName''] ''targetResName is required''] else []) @
     (if Rescue_Type r = [] then [Required [''spec'', ''type''] ''type is required'']
      else if Rescue_Type r \<notin> set rescueTypeMapping then [Invalid [''spec'', ''type''] ''unsupported rescue type'']
      else if Rescue_Type r = ''reset'' \<and> Rescue_TargetStatus r = []
      then [Required [''spec'', ''targetStatus''] ''targetStatus is required when type is reset''] else [])"

definition OBResourceRescue_ValidateCreate :: "OBResourceRescue \<Rightarrow> admission_error list" where
  "OBResourceRescue_ValidateCreate r = OBResourceRescue_validateMutation r"

definition OBResourceRescue_ValidateUpdate :: "OBResourceRescue \<Rightarrow> OBResourceRescue \<Rightarrow> admission_error list" where
  "OBResourceRescue_ValidateUpdate oldRes r =
     (let changed = (\<lambda>f fieldName. if f r \<noteq> (f oldRes :: string) then [Invalid [''spec'', fieldName] (fieldName @ '' cannot be changed'')] else []);
          es = (if RescueStatus_Status r = ''Successful'' \<or> RescueStatus_Status r = []
                then changed Rescue_Type ''type'' @ changed Rescue_TargetKind ''targetKind'' @
                  changed Rescue_TargetResName ''targetResName'' @ changed Rescue_TargetGV ''targetGV'' @
                  changed Rescue_Namespace ''namespace'' @ changed Rescue_TargetStatus ''targetStatus''
                else [])
      in if es \<noteq> [] then first_error es else OBResourceRescue_validateMutation r)"

section \<open>Lemmas\<close>

lemma lookup_params_of_map:
  assumes "\<And>ks. mset (order ks) = mset ks"
  shows "map_of (map (\<lambda>p. (Param_Name p, Param_Value p)) (params_of_map order ps)) k = param_map ps k"
    and "distinct (map Param_Name (params_of_map order ps))"
proof -
  have order: "set (order ks) = set ks" "distinct (order ks) = distinct ks" for ks
    using assms [of ks] by (metis mset_eq_setD, metis distinct_count_atmost_1 mset_eq_setD)
  have names: "map Param_Name (params_of_map order ps) = order (remdups (map Param_Name ps))"
    by (simp add: params_of_map_def comp_def)
  then show "distinct (map Param_Name (params_of_map order ps))" by (simp add: order)
  have pairs: "map (\<lambda>p. (Param_Name p, Param_Value p)) (params_of_map order ps) =
      map (\<lambda>k. (k, the (param_map ps k))) (order (remdups (map Param_Name ps)))"
    by (simp add: params_of_map_def comp_def)
  show "map_of (map (\<lambda>p. (Param_Name p, Param_Value p)) (params_of_map order ps)) k = param_map ps k"
    unfolding pairs map_of_map_restrict using param_map_None [of ps k]
    by (auto simp: restrict_map_def order)
qed

lemma param_map_append: "param_map (ps @ qs) k = (case param_map qs k of Some v \<Rightarrow> Some v | None \<Rightarrow> param_map ps k)"
  unfolding param_map_def by (simp add: map_add_def)

lemma param_map_distinct:
  "distinct (map Param_Name ps) \<Longrightarrow> param_map ps = map_of (map (\<lambda>p. (Param_Name p, Param_Value p)) ps)"
  unfolding param_map_def by (subst map_of_inject_set) (simp_all add: rev_map [symmetric] comp_def)

text \<open>The defaults depend on what defaulting does not change.\<close>

lemma default_parameters_default: "default_parameters env (OBCluster_Default env r) = default_parameters env r"
proof -
  have sizes: "Size (DataStorage (with_default_classes env st)) = Size (DataStorage st)"
    "Size (LogStorage (with_default_classes env st)) = Size (LogStorage st)" for st
    by (simp_all add: with_default_classes_def with_class_def split: option.split)
  show ?thesis
    unfolding default_parameters_def OBCluster_Default_def change_storage_def by (simp add: sizes Let_def)
qed

lemma or_default_idem: "d \<noteq> [] \<Longrightarrow> or_default d (or_default d s) = or_default d s"
  by (simp add: or_default_def)

lemma secrets_idem: "with_default_secrets env (with_default_secrets env u) = with_default_secrets env u"
  by (simp add: with_default_secrets_def or_default_def)

lemma default_class_first: "default_class env = Some cls \<Longrightarrow> cls \<noteq> [] \<Longrightarrow>
    with_default_classes env (with_default_classes env st) = with_default_classes env st"
  by (auto simp: with_default_classes_def with_class_def or_default_def)

text \<open>The sizes of the volumes do not get smaller.\<close>

definition storage_grows :: "OceanbaseStorageSpec \<Rightarrow> OceanbaseStorageSpec \<Rightarrow> bool" where
  "storage_grows st st' \<longleftrightarrow> (\<forall>part \<in> {DataStorage, LogStorage, RedoLogStorage}. Size (part st) \<le> Size (part st'))"

lemma or_else_none: "or_else a b = Some [] \<longleftrightarrow> a = Some [] \<and> b = Some []"
  by (auto simp: or_else_def split: option.split list.split)

lemma not_less_none: "not_less fieldName new old = Some [] \<longleftrightarrow> (\<exists>q. new = Some q \<and> old \<le> q)"
  by (auto simp: not_less_def split: option.splits)

lemma modified_servers_storage:
  "Storage (ClusterSpec_OBServerTemplate (modified_servers spec c)) =
     (case Mod_ModifyStorageClass spec of None \<Rightarrow> id | Some mc \<Rightarrow> modified_classes mc)
       ((case Mod_ExpandStorageSize spec of None \<Rightarrow> id | Some e \<Rightarrow> expanded_sizes e) (Storage (ClusterSpec_OBServerTemplate c)))"
  by (simp add: modified_servers_def set_if_def change_storage_def Let_def split: option.split)

lemma modified_servers_topology: "ClusterSpec_Topology (modified_servers spec c) = ClusterSpec_Topology c"
  by (simp add: modified_servers_def set_if_def change_storage_def Let_def split: option.split)

lemma modified_classes_sizes [simp]:
  "Size (DataStorage (modified_classes mc st)) = Size (DataStorage st)"
  "Size (LogStorage (modified_classes mc st)) = Size (LogStorage st)"
  "Size (RedoLogStorage (modified_classes mc st)) = Size (RedoLogStorage st)"
  by (simp_all add: modified_classes_def Let_def)

lemma expanded_sizes_grow: "expand_errors e st = Some [] \<Longrightarrow> storage_grows st (expanded_sizes e st)"
  by (auto simp: expand_errors_def or_else_none not_less_none storage_grows_def expanded_sizes_def set_if_def)

lemma adjusted_positive:
  "\<forall>t \<in> set topology. 0 < Replica t \<Longrightarrow> \<forall>t \<in> set (adjusted_replicas adjusts topology). 0 < Replica t"
  unfolding adjusted_replicas_def
proof (induction adjusts arbitrary: topology)
  case (Cons a adjusts)
  then show ?case unfolding fold_simps by (intro Cons.IH) auto
qed simp

lemma reduced_positive:
  "\<forall>t \<in> set topology. 0 < Replica t \<Longrightarrow> \<forall>t \<in> set (reduced_replicas names servers topology). 0 < Replica t"
  by (auto simp: reduced_replicas_def Let_def)

lemma storage_grows_refl [simp]: "storage_grows st st"
  by (simp add: storage_grows_def)

lemma topology_added:
  assumes "topology_errors r c = []" "t \<in> set (slice (COp_AddZones r))"
  shows "0 < Replica t"
proof -
  let ?f = "\<lambda>zone. (if Replica zone \<le> 0 then [Invalid [''spec'', ''addZones'', ''replica''] ''replica must be greater than 0''] else []) @
    (if Zone zone \<in> set (map Zone (ClusterSpec_Topology c)) then [Invalid [''spec'', ''addZones'', ''zone''] ''zone already exists''] else [])"
  have "concat (map ?f (slice (COp_AddZones r))) = []"
    using assms(1) by (simp only: topology_errors_def Let_def append_is_Nil_conv)
  then have "?f t = []" using assms(2) by (simp only: concat_eq_Nil_conv set_map) blast
  then show ?thesis by (cases "Replica t \<le> 0") simp_all
qed

text \<open>The storage after a change of the servers that the webhook has admitted.\<close>

lemma modified_servers_grow:
  assumes "modify_errors env m c = Some []" "COp_Type m = ClusterOpTypeModifyOBServers" "COp_ModifyOBServers m = Some spec"
  shows "storage_grows (Storage (ClusterSpec_OBServerTemplate c)) (Storage (ClusterSpec_OBServerTemplate (modified_servers spec c)))"
proof -
  have "storage_grows (Storage (ClusterSpec_OBServerTemplate c))
      ((case Mod_ExpandStorageSize spec of None \<Rightarrow> id | Some e \<Rightarrow> expanded_sizes e) (Storage (ClusterSpec_OBServerTemplate c)))"
    using assms by (auto simp: modify_errors_def or_else_none intro!: expanded_sizes_grow split: option.splits)
  then show ?thesis
    by (auto simp: modified_servers_storage storage_grows_def split: option.splits)
qed

section \<open>Properties\<close>

text \<open>
  Defaulting a cluster. Every parameter the user has set keeps its value, the last one if there
  are several; a parameter the operator has a default for and the user has not set gets the
  default; there are no others, and every name occurs once. No user secret and no service account
  stays empty. Defaulting the result again, as every update does, changes no value.
\<close>

theorem cluster_default_parameters:
  assumes order: "\<And>ks. mset (adm_order env ks) = mset ks"
  shows "distinct (map Param_Name (ClusterSpec_Parameters (OBCluster_Default env r))) \<and>
    param_map (ClusterSpec_Parameters (OBCluster_Default env r)) =
      param_map (default_parameters env r) ++ param_map (ClusterSpec_Parameters r) \<and>
    param_map (ClusterSpec_Parameters (OBCluster_Default env (OBCluster_Default env r))) =
      param_map (ClusterSpec_Parameters (OBCluster_Default env r)) \<and>
    ClusterSpec_UserSecrets (OBCluster_Default env (OBCluster_Default env r)) = ClusterSpec_UserSecrets (OBCluster_Default env r) \<and>
    Secret_Operator (ClusterSpec_UserSecrets (OBCluster_Default env r)) \<noteq> [] \<and>
    ClusterSpec_ServiceAccount (OBCluster_Default env r) \<noteq> []"
proof -
  have params: "ClusterSpec_Parameters (OBCluster_Default env c) =
      params_of_map (adm_order env) (default_parameters env c @ ClusterSpec_Parameters c)" for c
    by (simp add: OBCluster_Default_def change_storage_def)
  have secrets: "ClusterSpec_UserSecrets (OBCluster_Default env c) = with_default_secrets env (ClusterSpec_UserSecrets c)"
    "ClusterSpec_ServiceAccount (OBCluster_Default env c) = or_default ''default'' (ClusterSpec_ServiceAccount c)" for c
    by (simp_all add: OBCluster_Default_def change_storage_def)
  have distinct: "distinct (map Param_Name (ClusterSpec_Parameters (OBCluster_Default env c)))" for c
    unfolding params by (rule lookup_params_of_map(2) [OF order])
  have lookup: "param_map (ClusterSpec_Parameters (OBCluster_Default env c)) =
      param_map (default_parameters env c) ++ param_map (ClusterSpec_Parameters c)" for c
    unfolding param_map_distinct [OF distinct]
    by (rule ext) (simp add: params lookup_params_of_map(1) [OF order] param_map_append map_add_def)
  have "param_map (ClusterSpec_Parameters (OBCluster_Default env (OBCluster_Default env r))) =
      param_map (ClusterSpec_Parameters (OBCluster_Default env r))"
    unfolding lookup [of "OBCluster_Default env r"] default_parameters_default unfolding lookup [of r]
    by (auto simp: map_add_def fun_eq_iff split: option.splits)
  then show ?thesis
    using distinct lookup by (simp add: secrets secrets_idem) (simp add: with_default_secrets_def or_default_def)
qed

theorem cluster_default_parameters_witness:
  "param_map (ClusterSpec_Parameters (OBCluster_Default small_admission
     (small_cluster\<lparr>ClusterSpec_Parameters := [param ''memory_limit'' ''8G'']\<rparr>))) ''memory_limit'' = Some ''8G''"
  using cluster_default_parameters [of small_admission "small_cluster\<lparr>ClusterSpec_Parameters := [param ''memory_limit'' ''8G'']\<rparr>"]
  by (simp add: small_admission_def param_map_def)

text \<open>
  C32. An admitted update of a cluster never shrinks a volume and grows one only if its storage
  class allows it. When the old and the new object both have the annotation of the mode they have the
  same mode (adding or removing the annotation is admitted). Without support for static addresses the
  update keeps the resources (quantities that are the same as Go structs being equal), and neither adds nor
  removes the monitor or the backup volume, whose contents it may change.
\<close>

theorem cluster_update_safe:
  assumes "OBCluster_ValidateUpdate env oldCluster r = []"
    and "\<And>a b. Quantity_same env a b \<Longrightarrow> a = b"
  shows "storage_grows (Storage (ClusterSpec_OBServerTemplate oldCluster)) (Storage (ClusterSpec_OBServerTemplate r)) \<and>
    (\<forall>part \<in> {DataStorage, LogStorage, RedoLogStorage}.
       Size (part (Storage (ClusterSpec_OBServerTemplate oldCluster))) < Size (part (Storage (ClusterSpec_OBServerTemplate r))) \<longrightarrow>
       (\<exists>sc. adm_storage_class env (StorageClass (part (Storage (ClusterSpec_OBServerTemplate r)))) = Inr sc \<and>
          SC_AllowVolumeExpansion sc = Some True)) \<and>
    (\<forall>m m'. Annotations oldCluster AnnotationsMode = Some m \<and> Annotations r AnnotationsMode = Some m' \<longrightarrow> m = m') \<and>
    (\<not> OBCluster_SupportStaticIP oldCluster \<longrightarrow>
       Cpu (Template_Resource (ClusterSpec_OBServerTemplate r)) = Cpu (Template_Resource (ClusterSpec_OBServerTemplate oldCluster)) \<and>
       Memory (Template_Resource (ClusterSpec_OBServerTemplate r)) = Memory (Template_Resource (ClusterSpec_OBServerTemplate oldCluster)) \<and>
       (ClusterSpec_MonitorTemplate r = None) = (ClusterSpec_MonitorTemplate oldCluster = None) \<and>
       (ClusterSpec_BackupVolume r = None) = (ClusterSpec_BackupVolume oldCluster = None))"
proof -
  let ?new = "Storage (ClusterSpec_OBServerTemplate r)" and ?old = "Storage (ClusterSpec_OBServerTemplate oldCluster)"
  from assms(1) have mode: "\<not> (case (Annotations oldCluster AnnotationsMode, Annotations r AnnotationsMode) of
      (Some oldMode, Some mode) \<Rightarrow> oldMode \<noteq> mode | _ \<Rightarrow> False)"
    and same: "OBCluster_SupportStaticIP oldCluster \<or>
      Quantity_same env (Cpu (Template_Resource (ClusterSpec_OBServerTemplate oldCluster))) (Cpu (Template_Resource (ClusterSpec_OBServerTemplate r))) \<and>
      Quantity_same env (Memory (Template_Resource (ClusterSpec_OBServerTemplate oldCluster))) (Memory (Template_Resource (ClusterSpec_OBServerTemplate r)))"
    and template: "template_errors oldCluster r = []" and expansion: "expansion_errors env ?old ?new = []"
    and shrink: "storage_shrink_errors ?old ?new = []"
    unfolding OBCluster_ValidateUpdate_def Let_def
    by (simp_all only: split: if_splits) auto
  have grows: "storage_grows ?old ?new"
    using shrink by (auto simp: storage_shrink_errors_def storage_grows_def split: if_splits)
  have allowed: "validateStorageClassAllowExpansion env cls = [] \<longleftrightarrow>
      (\<exists>sc. adm_storage_class env cls = Inr sc \<and> SC_AllowVolumeExpansion sc = Some True)" for cls
    by (auto simp: validateStorageClassAllowExpansion_def split: sum.splits)
  have expand: "Size (part ?old) < Size (part ?new) \<longrightarrow> validateStorageClassAllowExpansion env (StorageClass (part ?new)) = []"
    if "part \<in> {DataStorage, LogStorage, RedoLogStorage}" for part
    using expansion that by (auto simp: expansion_errors_def)
  have static: "\<not> OBCluster_SupportStaticIP oldCluster \<longrightarrow>
      (ClusterSpec_MonitorTemplate r = None) = (ClusterSpec_MonitorTemplate oldCluster = None) \<and>
      (ClusterSpec_BackupVolume r = None) = (ClusterSpec_BackupVolume oldCluster = None)"
    using template by (auto simp: template_errors_def split: if_splits)
  have modes: "\<forall>m m'. Annotations oldCluster AnnotationsMode = Some m \<and> Annotations r AnnotationsMode = Some m' \<longrightarrow> m = m'"
    using mode by auto
  show ?thesis
    using grows expand static same assms(2) modes unfolding allowed by metis
qed

theorem cluster_update_safe_witness:
  "OBCluster_ValidateUpdate small_admission small_cluster
     (change_storage (\<lambda>st. st\<lparr>DataStorage := \<lparr>StorageClass = ''ssd'', Size = 80\<rparr>\<rparr>) small_cluster) = [] \<and>
   storage_grows (Storage (ClusterSpec_OBServerTemplate small_cluster))
     (Storage (ClusterSpec_OBServerTemplate (change_storage (\<lambda>st. st\<lparr>DataStorage := \<lparr>StorageClass = ''ssd'', Size = 80\<rparr>\<rparr>) small_cluster)))"
proof -
  let ?r = "change_storage (\<lambda>st. st\<lparr>DataStorage := \<lparr>StorageClass = ''ssd'', Size = 80\<rparr>\<rparr>) small_cluster"
  have admitted: "OBCluster_ValidateUpdate small_admission small_cluster ?r = []"
    by (simp add: OBCluster_ValidateUpdate_def shrink_errors_def template_errors_def expansion_errors_def storage_shrink_errors_def
        validateStorageClassAllowExpansion_def OBCluster_validateMutation_def shape_errors_def standalone_errors_def
        OBCluster_checkSecretExistence_def raw_secret_error_def checkSecretWithRawError_def k8s_errors_def class_required_def
        storage_class_errors_def size_errors_def memory_limit_errors_def datafile_errors_def service_account_errors_def
        param_map_def small_admission_def small_objects change_storage_def Cmp_def Let_def)
  then show ?thesis
    using cluster_update_safe [OF admitted] by (simp add: small_admission_def)
qed

text \<open>
  C18. An admitted operation is safe to carry out. On the cluster the webhook has seen, changing the
  specification for an admitted operation does not panic; when it succeeds, no volume is smaller
  than before and every zone still has a positive number of replicas.
\<close>

theorem admitted_cluster_operation_safe:
  assumes admitted: "OBClusterOperation_ValidateCreate env m = Some []"
    and cluster: "adm_cluster env (Namespace m) (COp_OBCluster m) = Inr c"
    and positive: "\<forall>t \<in> set (ClusterSpec_Topology c). 0 < Replica t"
  shows "fst (changed_cluster cenv m c h) \<noteq> Panic \<and>
    (\<forall>c' h'. changed_cluster cenv m c h = (Ok c', h') \<longrightarrow>
       storage_grows (Storage (ClusterSpec_OBServerTemplate c)) (Storage (ClusterSpec_OBServerTemplate c')) \<and>
       (\<forall>t \<in> set (ClusterSpec_Topology c'). 0 < Replica t))"
proof -
  have parts: "part_errors m = []" and topology: "topology_errors m c = []" and modify: "modify_errors env m c = Some []"
    using admitted cluster
    by (simp_all add: OBClusterOperation_ValidateCreate_def or_else_none first_error_def split: if_splits)
  have added: "\<forall>t \<in> set (slice (COp_AddZones m)). 0 < Replica t"
    using topology_added [OF topology] by blast
  consider "COp_Type m = ClusterOpTypeModifyOBServers" | "COp_Type m = ClusterOpTypeAddZones"
    | "COp_Type m = ClusterOpTypeDeleteOBServers"
    | "COp_Type m \<notin> {ClusterOpTypeModifyOBServers, ClusterOpTypeAddZones, ClusterOpTypeDeleteOBServers}" by blast
  then show ?thesis
  proof cases
    case 1
    then obtain spec where spec: "COp_ModifyOBServers m = Some spec"
      using parts by (cases "COp_ModifyOBServers m") (simp_all add: part_errors_def)
    then show ?thesis
      using 1 modified_servers_grow [OF modify 1 spec] positive
      by (simp add: changed_cluster_def ret_def modified_servers_topology)
  next
    case 2
    then show ?thesis using added positive by (auto simp: changed_cluster_def ret_def raise_def)
  next
    case 3
    then obtain names where names: "COp_DeleteOBServers m = Some names"
      using parts by (cases "COp_DeleteOBServers m") (simp_all add: part_errors_def)
    show ?thesis
      using 3 names reduced_positive [OF positive]
      by (auto simp: changed_cluster_def deref_io_def bind_io_def ret_def raise_def cop_listServers_def perform_def split: sum.splits)
  next
    case 4
    then show ?thesis
      using positive adjusted_positive [OF positive]
      by (auto simp: changed_cluster_def ret_def raise_def deleted_zones_def split: option.splits)
  qed
qed

definition expand_operation :: OBClusterOperation where
  "expand_operation = pair_operation\<lparr>COp_Type := ClusterOpTypeModifyOBServers, COp_ModifyOBServers :=
     Some \<lparr>Mod_Resource = None, Mod_ExpandStorageSize = Some \<lparr>Expand_DataStorage = Some 80, Expand_LogStorage = Some 20,
       Expand_RedoLogStorage = Some 50\<rparr>, Mod_ModifyStorageClass = None, Mod_AddingMonitor = None, Mod_RemoveMonitor = False,
       Mod_AddingBackupVolume = None, Mod_RemoveBackupVolume = False\<rparr>\<rparr>"

theorem admitted_cluster_operation_safe_witness:
  "OBClusterOperation_ValidateCreate small_admission expand_operation = Some [] \<and>
   fst (changed_cluster pair_env expand_operation small_cluster []) \<noteq> Panic"
proof -
  have admitted: "OBClusterOperation_ValidateCreate small_admission expand_operation = Some []"
    by (simp add: OBClusterOperation_ValidateCreate_def expand_operation_def pair_operation_def part_errors_def topology_errors_def
        modify_errors_def expand_errors_def not_less_def or_else_def parts_errors_def static_ip_errors_def slice_def first_error_def
        small_admission_def small_objects Cmp_def)
  have "fst (changed_cluster pair_env expand_operation small_cluster []) \<noteq> Panic"
    by (rule conjunct1 [OF admitted_cluster_operation_safe [OF admitted]]) (simp_all add: small_admission_def small_objects)
  with admitted show ?thesis ..
qed

end
