(* ===== verification/Rescue.thy ===== *)
theory Rescue
  imports Webhooks_Cluster
begin

text \<open>
  The reconciler of rescues, \<^verbatim>\<open>internal/controller/obresourcerescue_controller.go\<close>, which changes
  the stored state of another resource by hand: it deletes it, resets its status, or makes its
  flow repeat or skip a task. Below it is related to the coordinator that continues the flow.
\<close>

section \<open>The target and the calls\<close>

text \<open>
  The unstructured object of the target: its metadata, \<^verbatim>\<open>status.status\<close> and
  \<^verbatim>\<open>status.operationContext\<close>, which always carries a failure rule.
\<close>

record TargetObject = ObjectMeta +
  Target_Status :: string
  Target_Context :: "OperationContext option"

datatype rescue_event =
    GotRescue "OBResourceRescue result"
  | GotMapping string string "unit result"
  | GotTarget string string "TargetObject result"
  | UpdatedTarget TargetObject "unit result"
  | DeletedTarget string string "unit result"
  | UpdatedTargetStatus TargetObject "unit result"
  | UpdatedRescueStatus OBResourceRescue "unit result"

type_synonym 'a rescue_io = "(rescue_event, 'a) io"
type_synonym rescue_log = "rescue_event list"

record rescue_env =
  rget_rescue :: "rescue_log \<Rightarrow> OBResourceRescue result"
  rget_mapping :: "rescue_log \<Rightarrow> string \<Rightarrow> string \<Rightarrow> unit result"
  rget_target :: "rescue_log \<Rightarrow> string \<Rightarrow> string \<Rightarrow> TargetObject result"
  rupdate_target :: "rescue_log \<Rightarrow> TargetObject \<Rightarrow> unit result"
  rdelete_target :: "rescue_log \<Rightarrow> string \<Rightarrow> string \<Rightarrow> unit result"
  rupdate_target_status :: "rescue_log \<Rightarrow> TargetObject \<Rightarrow> unit result"
  rupdate_rescue :: "rescue_log \<Rightarrow> OBResourceRescue \<Rightarrow> unit result"
  ris_conflict :: "error \<Rightarrow> bool"

section \<open>Reconciling\<close>

definition rescued_kinds :: "string list" where
  "rescued_kinds = [''OBCluster'', ''OBParameter'', ''OBServer'', ''OBZone'', ''OBTenant'', ''OBTenantBackupPolicy'',
     ''OBTenantBackup'', ''OBTenantRestore'', ''OBTenantOperation'']"

text \<open>What is written to the target, \<open>None\<close> when there is no flow to work on.\<close>

definition reset_target :: "string \<Rightarrow> TargetObject \<Rightarrow> TargetObject" where
  "reset_target status uns = uns\<lparr>Target_Context := None, Target_Status := status\<rparr>"

definition retry_target :: "TargetObject \<Rightarrow> TargetObject option" where
  "retry_target uns = map_option (\<lambda>c. uns\<lparr>Target_Context := Some (c\<lparr>TaskStatus := Pending,
     OnFailure := (OnFailure c)\<lparr>RetryCount := 0\<rparr>\<rparr>)\<rparr>) (Target_Context uns)"

definition skip_target :: "TargetObject \<Rightarrow> TargetObject option" where
  "skip_target uns = map_option (\<lambda>c. uns\<lparr>Target_Context := Some (c\<lparr>TaskStatus := Successful\<rparr>)\<rparr>) (Target_Context uns)"

definition write_status :: "rescue_env \<Rightarrow> TargetObject option \<Rightarrow> bool rescue_io" where
  "write_status env t =
     (case t of
        None \<Rightarrow> ret False
      | Some uns \<Rightarrow> bind_io (perform (\<lambda>h. rupdate_target_status env h uns) (UpdatedTargetStatus uns)) (\<lambda>_. ret True))"

text \<open>
  The switch on the type of the rescue. The value says whether the rescue goes on to be
  recorded as successful; it is not when the target has no flow.
\<close>

definition rescue_target :: "rescue_env \<Rightarrow> OBResourceRescue \<Rightarrow> TargetObject \<Rightarrow> bool rescue_io" where
  "rescue_target env rescue uns =
     (if Rescue_Type rescue = ''delete'' then
        let uns' = uns\<lparr>Finalizers := []\<rparr>
        in bind_io (perform (\<lambda>h. rupdate_target env h uns') (UpdatedTarget uns')) (\<lambda>_.
             if DeletionTimestamp uns = None
             then bind_io (perform (\<lambda>h. rdelete_target env h (Namespace rescue) (Rescue_TargetResName rescue))
                    (DeletedTarget (Namespace rescue) (Rescue_TargetResName rescue))) (\<lambda>_. ret True)
             else ret True)
      else if Rescue_Type rescue = ''reset'' then write_status env (Some (reset_target (Rescue_TargetStatus rescue) uns))
      else if Rescue_Type rescue = ''retry'' then write_status env (retry_target uns)
      else if Rescue_Type rescue = ''skip'' then write_status env (skip_target uns)
      else if Rescue_Type rescue = ''ignore-deletion'' then
        let uns' = uns\<lparr>Annotations := (Annotations uns)(AnnotationsIgnoreDeletion \<mapsto> ''true'')\<rparr>
        in bind_io (perform (\<lambda>h. rupdate_target env h uns') (UpdatedTarget uns')) (\<lambda>_. ret True)
      else ret True)"

definition record_success :: "rescue_env \<Rightarrow> unit rescue_io" where
  "record_success env =
     bind_io (catch_io (perform (rget_rescue env) GotRescue)) (\<lambda>r.
       case r of
         Inl err \<Rightarrow> if is_not_found err then ret () else raise err
       | Inr rescue \<Rightarrow>
           let rescue' = rescue\<lparr>RescueStatus_Status := ''Successful''\<rparr>
           in perform (\<lambda>h. rupdate_rescue env h rescue') (UpdatedRescueStatus rescue'))"

definition rescue_gv :: "OBResourceRescue \<Rightarrow> string" where
  "rescue_gv rescue = (if Rescue_TargetGV rescue \<noteq> [] then Rescue_TargetGV rescue else ''oceanbase.oceanbase.com/v1alpha1'')"

definition OBResourceRescueReconciler_Reconcile :: "rescue_env \<Rightarrow> unit rescue_io" where
  "OBResourceRescueReconciler_Reconcile env =
     bind_io (catch_io (perform (rget_rescue env) GotRescue)) (\<lambda>r.
       case r of
         Inl err \<Rightarrow> if is_not_found err then ret () else raise err
       | Inr rescue \<Rightarrow>
           if RescueStatus_Status rescue = ''Successful'' \<or> Rescue_TargetKind rescue \<notin> set rescued_kinds then ret ()
           else
             bind_io (perform (\<lambda>h. rget_mapping env h (rescue_gv rescue) (Rescue_TargetKind rescue))
               (GotMapping (rescue_gv rescue) (Rescue_TargetKind rescue))) (\<lambda>_.
             bind_io (perform (\<lambda>h. rget_target env h (Namespace rescue) (Rescue_TargetResName rescue))
               (GotTarget (Namespace rescue) (Rescue_TargetResName rescue))) (\<lambda>uns.
             bind_io (rescue_target env rescue uns) (\<lambda>goes_on.
               if goes_on then RetryOnConflict (ris_conflict env) 4 (record_success env) else ret ()))))"

section \<open>Lemmas\<close>

text \<open>The state of the flow as the coordinator sees it when it reads the target.\<close>

definition target_flow :: "TargetObject \<Rightarrow> flow_state" where
  "target_flow uns = (Target_Status uns, Target_Context uns)"

fun written_status :: "rescue_event \<Rightarrow> TargetObject option" where
  "written_status (UpdatedTargetStatus t (Inr _)) = Some t"
| "written_status _ = None"

text \<open>The run of a rescue that can read everything and finds something to do.\<close>

lemma reconcile_status:
  assumes "rget_rescue env h = Inr rescue" "RescueStatus_Status rescue \<noteq> ''Successful''" "Rescue_TargetKind rescue \<in> set rescued_kinds"
    and "\<And>h gv k. rget_mapping env h gv k = Inr ()" "\<And>h. rget_target env h (Namespace rescue) (Rescue_TargetResName rescue) = Inr uns"
    and "\<And>h t. rupdate_target_status env h t = Inr ()"
    and "rescue_target env rescue uns = write_status env (Some t)"
  shows "\<exists>es. snd (OBResourceRescueReconciler_Reconcile env h) = h @ es \<and> List.map_filter written_status es = [t]"
proof -
  let ?es = "[GotRescue (Inr rescue), GotMapping (rescue_gv rescue) (Rescue_TargetKind rescue) (Inr ()),
    GotTarget (Namespace rescue) (Rescue_TargetResName rescue) (Inr uns), UpdatedTargetStatus t (Inr ())]"
  have run: "OBResourceRescueReconciler_Reconcile env h = RetryOnConflict (ris_conflict env) 4 (record_success env) (h @ ?es)"
    using assms(1-6) unfolding OBResourceRescueReconciler_Reconcile_def
    by (simp add: assms(7) write_status_def io_defs del: RetryOnConflict.simps)
  have "emits_none written_status (record_success env)"
    unfolding record_success_def Let_def
    by (intro io_silent; (simp split: sum.split)?) (auto intro!: io_silent)
  from retry_silent [OF this] obtain es
    where "snd (RetryOnConflict (ris_conflict env) 4 (record_success env) (h @ ?es)) = (h @ ?es) @ es" "List.map_filter written_status es = []"
    unfolding emits_none_def by blast
  with run show ?thesis by (intro exI [of _ "?es @ es"]) (simp add: List.map_filter_def)
qed

section \<open>Properties\<close>

text \<open>
  C19. A rescue of a flow does what its name says. With the API server at work, a \<^verbatim>\<open>retry\<close> rescue
  writes a state from which the next reconcile of the target submits the current task again,
  however often it had failed before; a \<^verbatim>\<open>skip\<close> rescue writes one from which the next reconcile goes
  on with the task after it, or ends the flow in its target status; a \<^verbatim>\<open>reset\<close> rescue writes the
  wanted status without a flow. Each writes the status of the target exactly once.
\<close>

theorem rescue_moves_flow:
  assumes "rget_rescue env h = Inr rescue" "RescueStatus_Status rescue \<noteq> ''Successful''" "Rescue_TargetKind rescue \<in> set rescued_kinds"
    and "\<And>h gv k. rget_mapping env h gv k = Inr ()" "\<And>h. rget_target env h (Namespace rescue) (Rescue_TargetResName rescue) = Inr uns"
    and "\<And>h t. rupdate_target_status env h t = Inr ()"
    and "Rescue_Type rescue \<in> {''retry'', ''skip'', ''reset''}" and "Target_Context uns = Some c" "found e"
  shows "\<exists>es t. snd (OBResourceRescueReconciler_Reconcile env h) = h @ es \<and> List.map_filter written_status es = [t] \<and>
    (case target_flow t of
       (s, None) \<Rightarrow> Rescue_Type rescue = ''reset'' \<and> s = Rescue_TargetStatus rescue
     | (s, Some c') \<Rightarrow> s = Target_Status uns \<and>
         spec_step cfg cleared archived failure e s c' =
           (if Rescue_Type rescue = ''retry''
            then (s, Some (c\<lparr>TaskStatus := Running, TaskId := new_id e, OnFailure := (OnFailure c)\<lparr>RetryCount := 0\<rparr>\<rparr>))
            else if Idx c < length (Tasks c)
            then (s, Some (c\<lparr>TaskStatus := Pending, Task := Tasks c ! Idx c, Idx := Idx c + 1, TaskId := []\<rparr>))
            else (TargetStatus c, None)))"
proof -
  define t where "t = (if Rescue_Type rescue = ''retry''
      then uns\<lparr>Target_Context := Some (c\<lparr>TaskStatus := Pending, OnFailure := (OnFailure c)\<lparr>RetryCount := 0\<rparr>\<rparr>)\<rparr>
      else if Rescue_Type rescue = ''skip'' then uns\<lparr>Target_Context := Some (c\<lparr>TaskStatus := Successful\<rparr>)\<rparr>
      else reset_target (Rescue_TargetStatus rescue) uns)"
  have "rescue_target env rescue uns = write_status env (Some t)"
    using assms(7,8) by (auto simp: rescue_target_def retry_target_def skip_target_def t_def)
  from reconcile_status [where env = env and h = h, OF assms(1-6) this] obtain es
    where "snd (OBResourceRescueReconciler_Reconcile env h) = h @ es" "List.map_filter written_status es = [t]" by blast
  moreover have "case target_flow t of
       (s, None) \<Rightarrow> Rescue_Type rescue = ''reset'' \<and> s = Rescue_TargetStatus rescue
     | (s, Some c') \<Rightarrow> s = Target_Status uns \<and>
         spec_step cfg cleared archived failure e s c' =
           (if Rescue_Type rescue = ''retry''
            then (s, Some (c\<lparr>TaskStatus := Running, TaskId := new_id e, OnFailure := (OnFailure c)\<lparr>RetryCount := 0\<rparr>\<rparr>))
            else if Idx c < length (Tasks c)
            then (s, Some (c\<lparr>TaskStatus := Pending, Task := Tasks c ! Idx c, Idx := Idx c + 1, TaskId := []\<rparr>))
            else (TargetStatus c, None))"
    using assms(7,9) by (auto simp: t_def target_flow_def reset_target_def spec_step_def HasNext_def NextTask_def)
  ultimately show ?thesis by (intro exI conjI)
qed

definition stuck_target :: TargetObject where
  "stuck_target = \<lparr>Name = ''test'', Namespace = ''oceanbase'', Annotations = Map.empty, Labels = Map.empty, Finalizers = [],
     DeletionTimestamp = None, Target_Status = ''new'', Target_Context = Some ((new_context ''f'' [''a'', ''b''] ''running'' zero_rule)
       \<lparr>Idx := 1, Task := ''a'', TaskStatus := Failed\<rparr>)\<rparr>"

definition skip_rescue :: OBResourceRescue where
  "skip_rescue = \<lparr>Name = ''rescue'', Namespace = ''oceanbase'', Annotations = Map.empty, Labels = Map.empty, Finalizers = [],
     DeletionTimestamp = None, Rescue_TargetKind = ''OBCluster'', Rescue_TargetResName = ''test'', Rescue_Type = ''skip'',
     Rescue_TargetGV = [], Rescue_Namespace = [], Rescue_TargetStatus = [], RescueStatus_Status = []\<rparr>"

definition open_rescue_env :: rescue_env where
  "open_rescue_env = \<lparr>rget_rescue = (\<lambda>_. Inr skip_rescue), rget_mapping = (\<lambda>_ _ _. Inr ()), rget_target = (\<lambda>_ _ _. Inr stuck_target),
     rupdate_target = (\<lambda>_ _. Inr ()), rdelete_target = (\<lambda>_ _ _. Inr ()), rupdate_target_status = (\<lambda>_ _. Inr ()),
     rupdate_rescue = (\<lambda>_ _. Inr ()), ris_conflict = (\<lambda>_. False)\<rparr>"

theorem rescue_moves_flow_witness:
  "\<exists>es t. snd (OBResourceRescueReconciler_Reconcile open_rescue_env []) = es \<and> List.map_filter written_status es = [t] \<and>
    (case target_flow t of (s, None) \<Rightarrow> False
     | (s, Some c') \<Rightarrow> \<exists>c. snd (spec_step default_cfg [] [] (\<lambda>s c. (s, Some c))
          \<lparr>found = True, polled = Inr None, new_id = []\<rparr> s c') = Some c \<and> Task c = ''b'')"
proof -
  have env: "rget_rescue open_rescue_env h = Inr skip_rescue" "rget_mapping open_rescue_env h gv k = Inr ()"
    "rget_target open_rescue_env h ns n = Inr stuck_target" "rupdate_target_status open_rescue_env h t = Inr ()" for h gv k ns n t
    by (simp_all add: open_rescue_env_def)
  have rescue: "RescueStatus_Status skip_rescue \<noteq> ''Successful''" "Rescue_TargetKind skip_rescue \<in> set rescued_kinds"
    "Rescue_Type skip_rescue = ''skip''" by (simp_all add: skip_rescue_def rescued_kinds_def)
  obtain c where c: "Target_Context stuck_target = Some c" and next_b: "Idx c = 1" "Tasks c = [''a'', ''b'']"
    by (simp add: stuck_target_def new_context_def)
  from rescue_moves_flow [where env = open_rescue_env and h = "[]" and uns = stuck_target and c = c and cfg = default_cfg
      and cleared = "[]" and archived = "[]" and failure = "\<lambda>s c. (s, Some c)"
      and e = "\<lparr>found = True, polled = Inr None, new_id = []\<rparr>", OF env(1) rescue(1,2) env(2,3,4) _ c]
  show ?thesis
  proof (elim exE conjE meta_impE)
    fix es t
    assume "snd (OBResourceRescueReconciler_Reconcile open_rescue_env []) = [] @ es" "List.map_filter written_status es = [t]"
      and "case target_flow t of (s, None) \<Rightarrow> Rescue_Type skip_rescue = ''reset'' \<and> s = Rescue_TargetStatus skip_rescue
        | (s, Some c') \<Rightarrow> s = Target_Status stuck_target \<and>
            spec_step default_cfg [] [] (\<lambda>s c. (s, Some c)) \<lparr>found = True, polled = Inr None, new_id = []\<rparr> s c' =
              (if Rescue_Type skip_rescue = ''retry''
               then (s, Some (c\<lparr>TaskStatus := Running, TaskId := new_id \<lparr>found = True, polled = Inr None, new_id = []\<rparr>,
                 OnFailure := (OnFailure c)\<lparr>RetryCount := 0\<rparr>\<rparr>))
               else if Idx c < length (Tasks c)
               then (s, Some (c\<lparr>TaskStatus := Pending, Task := Tasks c ! Idx c, Idx := Idx c + 1, TaskId := []\<rparr>))
               else (TargetStatus c, None))"
    then show ?thesis
      by (intro exI [of _ es] exI [of _ t], cases "target_flow t", cases "snd (target_flow t)") (simp_all add: rescue(3) next_b)
  qed (simp_all add: rescue(3))
qed

end
