(* ===== verification/Upgrade_Route.thy ===== *)
theory Upgrade_Route
  imports Versions
begin

text \<open>
  The route of an upgrade, \<^verbatim>\<open>pkg/helper/upgrade.go\<close>: the graph of versions is built from the
  entries of the dependency file on a heap of nodes, searched from the start version, and
  the route is read back along the precursors. \<^verbatim>\<open>validateUpgrade\<close> of
  \<^verbatim>\<open>internal/cmds/helper\<close> judges the route.
\<close>

section \<open>The graph\<close>

text \<open>
  A node of the graph. The fields that are pointers (addresses of nodes) are nil in the
  entries of the file.
\<close>

record VersionDep =
  VD_Version :: string
  VD_CanBeUpgradedTo :: "string list"
  VD_RequireFromBinary :: bool
  VD_Deprecated :: bool
  VD_DirectComeFrom :: "addr list"
  VD_Next :: "addr list"
  VD_Precursor :: "addr option"
  VD_DirectUpgrade :: bool

type_synonym dep_heap = "VersionDep heap"

definition new_dep :: "string \<Rightarrow> string list \<Rightarrow> VersionDep" where
  "new_dep version to = \<lparr>VD_Version = version, VD_CanBeUpgradedTo = to, VD_RequireFromBinary = False,
     VD_Deprecated = False, VD_DirectComeFrom = [], VD_Next = [], VD_Precursor = None, VD_DirectUpgrade = False\<rparr>"

text \<open>
  A neighbour without an entry gets a node of its own that is not entered in the map. With
  \<open>direct\<close> the node is appended to its own list \<^verbatim>\<open>DirectComeFrom\<close>.
\<close>

definition add_neighbour :: "(string \<rightharpoonup> addr) \<Rightarrow> bool \<Rightarrow> addr \<Rightarrow> dep_heap \<Rightarrow> string \<Rightarrow> dep_heap" where
  "add_neighbour nodeMap direct current h k =
     (case (case nodeMap k of None \<Rightarrow> alloc h (new_dep k []) | Some a \<Rightarrow> (h, a)) of
        (h1, node) \<Rightarrow>
          let h2 = (if direct
                    then h1[node := (h1 ! node)\<lparr>VD_DirectComeFrom := VD_DirectComeFrom (h1 ! node) @ [node]\<rparr>]
                    else h1)
          in h2[current := (h2 ! current)\<lparr>VD_Next := VD_Next (h2 ! current) @ [node]\<rparr>])"

definition BuildNeighbours ::
  "(string \<rightharpoonup> addr) \<Rightarrow> addr \<Rightarrow> string list \<Rightarrow> bool \<Rightarrow> dep_heap \<Rightarrow> dep_heap" where
  "BuildNeighbours nodeMap current neighborVersions direct h =
     foldl (add_neighbour nodeMap direct current) h neighborVersions"

definition add_node :: "dep_heap \<times> (string \<rightharpoonup> addr) \<Rightarrow> VersionDep \<Rightarrow> dep_heap \<times> (string \<rightharpoonup> addr)" where
  "add_node s d = (case alloc (fst s) d of (h, a) \<Rightarrow> (h, (snd s)(VD_Version d \<mapsto> a)))"

definition link_node :: "(string \<rightharpoonup> addr) \<Rightarrow> dep_heap \<Rightarrow> VersionDep \<Rightarrow> dep_heap" where
  "link_node nodeMap h d =
     (case nodeMap (VD_Version d) of
        None \<Rightarrow> h
      | Some a \<Rightarrow>
          let h1 = BuildNeighbours nodeMap a (VD_CanBeUpgradedTo (h ! a)) False h
          in BuildNeighbours nodeMap a (VD_CanBeUpgradedTo (h1 ! a)) True h1)"

definition Build :: "VersionDep list \<Rightarrow> dep_heap \<times> (string \<rightharpoonup> addr)" where
  "Build versionDep =
     (case foldl add_node ([], Map.empty) versionDep of
        (h, nodeMap) \<Rightarrow> (foldl (link_node nodeMap) h versionDep, nodeMap))"

section \<open>The search\<close>

text \<open>The state of the search: the heap, the queue and the visited nodes.\<close>

type_synonym search_state = "dep_heap \<times> addr list \<times> addr list"

primrec visit :: "(VersionDep \<Rightarrow> bool) \<Rightarrow> addr \<Rightarrow> addr list \<Rightarrow> search_state \<Rightarrow> search_state" where
  "visit good node [] s = s"
| "visit good node (v # vs) s =
     (case s of (h, queue, visited) \<Rightarrow>
        if v \<notin> set visited \<and> good (h ! v)
        then visit good node vs (h[v := (h ! v)\<lparr>VD_Precursor := Some node\<rparr>], queue @ [v], v # visited)
        else visit good node vs s)"

text \<open>
  The loop takes the node that was put into the queue last. It ends with the target's node
  unless that node has a new neighbour of the same version.
\<close>

partial_function (option) search_path ::
  "string \<Rightarrow> dep_heap \<Rightarrow> addr list \<Rightarrow> addr list \<Rightarrow> (dep_heap \<times> addr option) option" where
  "search_path target h queue visited =
     (if queue = [] then Some (h, None)
      else
        let node = last queue; rest = butlast queue
        in if VD_Version (h ! node) = target
           then (case visit (\<lambda>d. VD_Version d = target) node (VD_Next (h ! node)) (h, rest, visited) of
                   (h', queue', visited') \<Rightarrow>
                     if queue' = rest then Some (h', Some node) else search_path target h' queue' visited')
           else (case visit (\<lambda>_. True) node (VD_Next (h ! node)) (h, rest, visited) of
                   (h', queue', visited') \<Rightarrow> search_path target h' queue' visited'))"

text \<open>
  Reading the route back. When a node and its precursor have the same version, the inner
  loop of the code assigns the same pointer over and over and never ends: \<open>None\<close>.
\<close>

partial_function (option) trace_back ::
  "dep_heap \<Rightarrow> addr option \<Rightarrow> VersionDep list \<Rightarrow> VersionDep list option" where
  "trace_back h p res =
     (case p of
        None \<Rightarrow> Some res
      | Some a \<Rightarrow>
          (case VD_Precursor (h ! a) of
             None \<Rightarrow> trace_back h None ((h ! a) # res)
           | Some b \<Rightarrow>
               if VD_Version (h ! b) \<noteq> [] \<and> VD_Version (h ! a) = VD_Version (h ! b) then None
               else trace_back h (Some b) ((h ! a) # res)))"

declare search_path.simps [code] trace_back.simps [code]

text \<open>A version is looked up as given and then without its release.\<close>

definition find_node :: "(string \<rightharpoonup> addr) \<Rightarrow> string \<Rightarrow> addr option" where
  "find_node nodeMap full =
     (case nodeMap full of Some a \<Rightarrow> Some a | None \<Rightarrow> nodeMap (hd (Split full ''-'')))"

text \<open>
  \<^verbatim>\<open>FindShortestUpgradePath\<close>; \<open>None\<close> is not to return. The precursors are nil in a
  graph that was just built. The loop that sets \<^verbatim>\<open>DirectUpgrade\<close> works on copies of the
  nodes and has no effect.
\<close>

definition FindShortestUpgradePath ::
  "dep_heap \<times> (string \<rightharpoonup> addr) \<Rightarrow> string \<Rightarrow> string \<Rightarrow> VersionDep list result option" where
  "FindShortestUpgradePath g startVersionFull targetVersionFull =
     (case g of (h, nodeMap) \<Rightarrow>
      (case find_node nodeMap startVersionFull of
         None \<Rightarrow> Some (Inl (OtherError ''start version not found in graph''))
       | Some startNode \<Rightarrow>
      (case find_node nodeMap targetVersionFull of
         None \<Rightarrow> Some (Inl (OtherError ''target version not found in graph''))
       | Some targetNode \<Rightarrow> do {
           (h', finalNode) \<leftarrow> search_path (VD_Version (h ! targetNode)) h [startNode] [startNode];
           res \<leftarrow> trace_back h' finalNode [];
           let res' = (if length res = 1 then h' ! startNode # res else res);
           Some (if res' = [] \<or> VD_Version (last res') \<noteq> VD_Version (h ! targetNode)
                 then Inl (OtherError ''There is no route to target version'') else Inr res')
         })))"

definition GetOBUpgradeRoute ::
  "VersionDep list result \<Rightarrow> string \<Rightarrow> string \<Rightarrow> VersionDep list result option" where
  "GetOBUpgradeRoute file startVersion targetVersion =
     (case file of
        Inl err \<Rightarrow> Some (Inl err)
      | Inr versionDep \<Rightarrow> FindShortestUpgradePath (Build versionDep) startVersion targetVersion)"

record UpgradeRoute =
  Route_Version :: string
  Route_RequireFromBinary :: bool

definition GenerateUpgradeRoute :: "VersionDep list \<Rightarrow> UpgradeRoute list" where
  "GenerateUpgradeRoute versionDepList =
     map (\<lambda>d. \<lparr>Route_Version = VD_Version d, Route_RequireFromBinary = VD_RequireFromBinary d\<rparr>) versionDepList"

text \<open>The version of the installed binary and the dependency file are parameters.\<close>

definition validateUpgrade ::
  "string result \<Rightarrow> VersionDep list result \<Rightarrow> string \<Rightarrow> error option option" where
  "validateUpgrade current file fromVersion =
     (case current of
        Inl err \<Rightarrow> Some (Some (wrap ''Failed to current oceanbase version'' err))
      | Inr targetVersion \<Rightarrow>
          (case GetOBUpgradeRoute file fromVersion targetVersion of
             None \<Rightarrow> None
           | Some (Inl err) \<Rightarrow> Some (Some (wrap ''Failed to get upgrade route'' err))
           | Some (Inr route) \<Rightarrow>
               (case find (\<lambda>(idx, n). VD_RequireFromBinary n \<and> idx \<noteq> 0 \<and> idx \<noteq> length route - 1)
                       (enumerate 0 route) of
                  Some (_, n) \<Rightarrow> Some (Some (OtherError (''Found version '' @ VD_Version n @ '' require binary'')))
                | None \<Rightarrow> Some None)))"

section \<open>Lemmas on the search\<close>

text \<open>The search changes precursors only.\<close>

definition same_graph :: "dep_heap \<Rightarrow> dep_heap \<Rightarrow> bool" where
  "same_graph h0 h \<longleftrightarrow> map (VD_Precursor_update (\<lambda>_. None)) h = map (VD_Precursor_update (\<lambda>_. None)) h0"

lemma same_graph_refl [simp]: "same_graph h h"
  by (simp add: same_graph_def)

lemma same_graph_length: "same_graph h0 h \<Longrightarrow> length h = length h0"
  unfolding same_graph_def by (drule arg_cong [of _ _ length]) simp

lemma same_graph_fields:
  assumes "same_graph h0 h" "a < length h0"
  shows "VD_Next (h ! a) = VD_Next (h0 ! a)" "VD_Version (h ! a) = VD_Version (h0 ! a)"
    "VD_CanBeUpgradedTo (h ! a) = VD_CanBeUpgradedTo (h0 ! a)"
proof -
  have "map (VD_Precursor_update (\<lambda>_. None)) h ! a = map (VD_Precursor_update (\<lambda>_. None)) h0 ! a"
    using assms(1) by (simp add: same_graph_def)
  then have eq: "(h ! a)\<lparr>VD_Precursor := None\<rparr> = (h0 ! a)\<lparr>VD_Precursor := None\<rparr>"
    using assms same_graph_length [OF assms(1)] by simp
  show "VD_Next (h ! a) = VD_Next (h0 ! a)" "VD_Version (h ! a) = VD_Version (h0 ! a)"
    "VD_CanBeUpgradedTo (h ! a) = VD_CanBeUpgradedTo (h0 ! a)"
    using arg_cong [OF eq, of VD_Next] arg_cong [OF eq, of VD_Version] arg_cong [OF eq, of VD_CanBeUpgradedTo]
    by simp_all
qed

lemma same_graph_update: "same_graph h0 h \<Longrightarrow> same_graph h0 (h[v := (h ! v)\<lparr>VD_Precursor := x\<rparr>])"
proof (cases "v < length h")
  case True
  assume "same_graph h0 h"
  moreover from True have "map (VD_Precursor_update (\<lambda>_. None)) (h[v := (h ! v)\<lparr>VD_Precursor := x\<rparr>]) =
      map (VD_Precursor_update (\<lambda>_. None)) h"
    by (simp add: map_update list_update_same_conv)
  ultimately show ?thesis by (simp add: same_graph_def)
qed (simp add: not_less list_update_beyond)

text \<open>The path that the precursors give.\<close>

inductive chain :: "dep_heap \<Rightarrow> addr \<Rightarrow> addr \<Rightarrow> addr list \<Rightarrow> bool" for h s where
  chain_start: "VD_Precursor (h ! s) = None \<Longrightarrow> chain h s s [s]"
| chain_step: "chain h s u p \<Longrightarrow> VD_Precursor (h ! v) = Some u \<Longrightarrow> v \<in> set (VD_Next (h ! u)) \<Longrightarrow> v \<notin> set p \<Longrightarrow>
    chain h s v (p @ [v])"

lemma chain_last: "chain h s a p \<Longrightarrow> p \<noteq> [] \<and> last p = a \<and> hd p = s \<and> distinct p"
  by (induction rule: chain.induct) (auto simp: hd_append)

lemma chain_mem: "chain h s a p \<Longrightarrow> a \<in> set p"
  using chain_last last_in_set by metis

lemma chain_update: "chain h s a p \<Longrightarrow> v \<notin> set p \<Longrightarrow> chain (h[v := x]) s a p"
proof (induction rule: chain.induct)
  case chain_start
  then show ?case by (intro chain.chain_start) auto
next
  case (chain_step u p w)
  moreover from chain_step have "u \<noteq> v" using chain_mem [OF chain_step.hyps(1)] by auto
  ultimately show ?case by (intro chain.chain_step [of _ _ u]) auto
qed

definition chains :: "dep_heap \<Rightarrow> addr \<Rightarrow> addr list \<Rightarrow> bool" where
  "chains h s visited \<longleftrightarrow> (\<forall>v \<in> set visited. \<exists>p. chain h s v p \<and> set p \<subseteq> set visited)"

lemma chains_visit:
  assumes "chains h s visited" "node \<in> set visited" "v \<notin> set visited" "v < length h"
    and "v \<in> set (VD_Next (h ! node))"
  shows "chains (h[v := (h ! v)\<lparr>VD_Precursor := Some node\<rparr>]) s (v # visited)"
proof -
  let ?h = "h[v := (h ! v)\<lparr>VD_Precursor := Some node\<rparr>]"
  have old: "\<exists>p. chain ?h s w p \<and> set p \<subseteq> set visited" if "w \<in> set visited" for w
  proof -
    from assms(1) that obtain p where "chain h s w p" "set p \<subseteq> set visited" by (auto simp: chains_def)
    with assms(3) show ?thesis using chain_update [of h s w p v] by blast
  qed
  from old [OF assms(2)] obtain p where p: "chain ?h s node p" "set p \<subseteq> set visited" by blast
  have "chain ?h s v (p @ [v])"
  proof (rule chain_step [OF p(1)])
    show "VD_Precursor (?h ! v) = Some node" using assms(4) by simp
    have "node \<noteq> v" using assms(2,3) by auto
    then show "v \<in> set (VD_Next (?h ! node))" using assms(5) by simp
    show "v \<notin> set p" using p(2) assms(3) by auto
  qed
  with p(2) have "\<exists>q. chain ?h s v q \<and> set q \<subseteq> set (v # visited)" by (intro exI [of _ "p @ [v]"]) auto
  moreover have "\<exists>q. chain ?h s w q \<and> set q \<subseteq> set (v # visited)" if "w \<in> set visited" for w
    using old [OF that] by fastforce
  ultimately show ?thesis by (auto simp: chains_def)
qed

definition search_ok :: "dep_heap \<Rightarrow> addr \<Rightarrow> dep_heap \<Rightarrow> addr list \<Rightarrow> bool" where
  "search_ok h0 s h visited \<longleftrightarrow>
     same_graph h0 h \<and> distinct visited \<and> set visited \<subseteq> {..<length h0} \<and> s \<in> set visited \<and> chains h s visited"

lemma visit_ok:
  assumes "visit good node vs (h, queue, visited) = (h', queue', visited')"
    and "search_ok h0 s h visited" "node \<in> set visited"
    and "set vs \<subseteq> set (VD_Next (h0 ! node))" "set vs \<subseteq> {..<length h0}"
  shows "search_ok h0 s h' visited' \<and>
    (\<exists>new. queue' = queue @ new \<and> visited' = rev new @ visited \<and> set new \<subseteq> set vs) \<and>
    ((\<forall>d. good d) \<longrightarrow> set vs \<subseteq> set visited')"
  using assms(1,2,3,4,5)
proof (induction vs arbitrary: h queue visited)
  case (Cons v vs)
  show ?case
  proof (cases "v \<notin> set visited \<and> good (h ! v)")
    case True
    let ?h = "h[v := (h ! v)\<lparr>VD_Precursor := Some node\<rparr>]"
    have run: "visit good node vs (?h, queue @ [v], v # visited) = (h', queue', visited')"
      using Cons.prems(1) True by simp
    have v: "v < length h0" "v \<in> set (VD_Next (h0 ! node))" using Cons.prems(4,5) by auto
    have node: "node < length h0" using Cons.prems(2,3) by (auto simp: search_ok_def)
    have g: "same_graph h0 h" using Cons.prems(2) by (simp add: search_ok_def)
    have "chains ?h s (v # visited)"
    proof (rule chains_visit)
      show "chains h s visited" "node \<in> set visited" "v \<notin> set visited"
        using Cons.prems(2,3) True by (simp_all add: search_ok_def)
      show "v < length h" "v \<in> set (VD_Next (h ! node))"
        using v node same_graph_length [OF g] same_graph_fields(1) [OF g] by simp_all
    qed
    then have "search_ok h0 s ?h (v # visited)"
      using Cons.prems(2) True v(1) same_graph_update [OF g] by (auto simp: search_ok_def)
    from Cons.IH [OF run this] Cons.prems(3,4,5) obtain new where
      ok: "search_ok h0 s h' visited'" "queue' = queue @ v # new" "visited' = rev new @ v # visited"
        "set new \<subseteq> set vs" "(\<forall>d. good d) \<longrightarrow> set vs \<subseteq> set visited'"
      by auto
    then show ?thesis by (intro conjI exI [of _ "v # new"]) auto
  next
    case False
    then have run: "visit good node vs (h, queue, visited) = (h', queue', visited')"
      using Cons.prems(1) by auto
    from Cons.IH [OF run Cons.prems(2,3)] Cons.prems(4,5) obtain new where
      ok: "search_ok h0 s h' visited'" "queue' = queue @ new" "visited' = rev new @ visited"
        "set new \<subseteq> set vs" "(\<forall>d. good d) \<longrightarrow> set vs \<subseteq> set visited'"
      by auto
    with False show ?thesis by (intro conjI exI [of _ new]) auto
  qed
qed simp

text \<open>
  What the search needs of the graph: neighbours are nodes, only the target's node has the
  target's version, and a neighbour with the version of a node is that node.
\<close>

definition wf_graph :: "dep_heap \<Rightarrow> addr \<Rightarrow> bool" where
  "wf_graph h t \<longleftrightarrow> t < length h \<and>
     (\<forall>u < length h. \<forall>v \<in> set (VD_Next (h ! u)). v < length h \<and>
        (VD_Version (h ! v) = VD_Version (h ! t) \<longrightarrow> v = t) \<and>
        (VD_Version (h ! v) = VD_Version (h ! u) \<longrightarrow> v = u))"

definition processed :: "dep_heap \<Rightarrow> addr \<Rightarrow> addr list \<Rightarrow> addr list \<Rightarrow> bool" where
  "processed h0 t queue visited \<longleftrightarrow> set queue \<subseteq> set visited \<and>
     (\<forall>u \<in> set visited - set queue. u \<noteq> t \<and> set (VD_Next (h0 ! u)) \<subseteq> set visited)"

lemma target_visits_nothing:
  assumes "wf_graph h0 t" "search_ok h0 s h visited" "node \<in> set visited"
    and "VD_Version (h0 ! node) = VD_Version (h0 ! t)" "set vs \<subseteq> set (VD_Next (h0 ! node))"
  shows "visit (\<lambda>d. VD_Version d = VD_Version (h0 ! t)) node vs (h, queue, visited) = (h, queue, visited)"
  using assms(5)
proof (induction vs)
  case (Cons v vs)
  have g: "same_graph h0 h" and "node < length h0" using assms(2,3) by (auto simp: search_ok_def)
  with assms(1,4) Cons.prems have v: "v < length h0" "VD_Version (h0 ! v) = VD_Version (h0 ! t) \<longrightarrow> v = node"
    by (auto simp: wf_graph_def)
  have "v \<in> set visited \<or> VD_Version (h ! v) \<noteq> VD_Version (h0 ! t)"
    using v assms(3) same_graph_fields(2) [OF g v(1)] by auto
  with Cons show ?case by auto
qed simp

text \<open>
  The search returns. It finds the target along a chain of precursors or leaves a set of
  nodes that is closed under neighbours and does not contain the target.
\<close>

lemma search_path_returns:
  assumes "wf_graph h0 t" "search_ok h0 s h visited" "processed h0 t queue visited"
  shows "\<exists>h' r. search_path (VD_Version (h0 ! t)) h queue visited = Some (h', r) \<and> same_graph h0 h' \<and>
    (case r of
       Some a \<Rightarrow> a < length h0 \<and> VD_Version (h0 ! a) = VD_Version (h0 ! t) \<and>
         (\<exists>p. chain h' s a p \<and> set p \<subseteq> {..<length h0})
     | None \<Rightarrow> \<exists>C. s \<in> C \<and> t \<notin> C \<and> C \<subseteq> {..<length h0} \<and> (\<forall>u \<in> C. set (VD_Next (h0 ! u)) \<subseteq> C))"
  using assms(2,3)
proof (induction "2 * (length h0 - length visited) + length queue" arbitrary: h queue visited rule: less_induct)
  case less
  have g: "same_graph h0 h" and vis: "set visited \<subseteq> {..<length h0}" "distinct visited" "s \<in> set visited"
    and ch: "chains h s visited"
    using less.prems(1) by (auto simp: search_ok_def)
  show ?case
  proof (cases "queue = []")
    case True
    with less.prems(2) have "t \<notin> set visited" "\<forall>u \<in> set visited. set (VD_Next (h0 ! u)) \<subseteq> set visited"
      by (auto simp: processed_def)
    with vis True g show ?thesis by (subst search_path.simps) auto
  next
    case False
    define node rest where "node = last queue" and "rest = butlast queue"
    have q: "queue = rest @ [node]" using False by (simp add: node_def rest_def)
    have node: "node \<in> set visited" "node < length h0"
      using less.prems(2) vis(1) by (auto simp: q processed_def)
    note fields = same_graph_fields [OF g node(2)]
    have nexts: "set (VD_Next (h0 ! node)) \<subseteq> {..<length h0}"
      using assms(1) node(2) by (auto simp: wf_graph_def)
    show ?thesis
    proof (cases "VD_Version (h0 ! node) = VD_Version (h0 ! t)")
      case True
      have "search_path (VD_Version (h0 ! t)) h queue visited = Some (h, Some node)"
        using False True fields target_visits_nothing [OF assms(1) less.prems(1) node(1) True order_refl, of rest]
        by (subst search_path.simps) (simp add: node_def rest_def Let_def)
      moreover obtain p where "chain h s node p" "set p \<subseteq> set visited"
        using ch node(1) by (auto simp: chains_def)
      ultimately show ?thesis using g True vis(1) node(2) by auto
    next
      case other: False
      obtain h' queue' visited' where run:
        "visit (\<lambda>_. True) node (VD_Next (h0 ! node)) (h, rest, visited) = (h', queue', visited')"
        by (metis prod_cases3)
      from visit_ok [OF run less.prems(1) node(1) order_refl nexts] obtain new where
        ok: "search_ok h0 s h' visited'" and new: "queue' = rest @ new" "visited' = rev new @ visited"
        and all: "set (VD_Next (h0 ! node)) \<subseteq> set visited'"
        by auto
      have "node \<noteq> t" using other by auto
      then have pr: "processed h0 t queue' visited'"
        using less.prems(2) all by (auto simp: processed_def new q)
      have "length visited' \<le> length h0"
        using ok card_mono [of "{..<length h0}" "set visited'"] by (auto simp: search_ok_def distinct_card)
      then have "2 * (length h0 - length visited') + length queue' <
          2 * (length h0 - length visited) + length queue"
        by (simp add: new q)
      from less.hyps [OF this ok pr] show ?thesis
        using False other fields run
        by (subst search_path.simps) (simp add: node_def [symmetric] rest_def [symmetric] Let_def)
    qed
  qed
qed

lemma trace_back_chain:
  assumes "chain h s a p" "wf_graph h t" "set p \<subseteq> {..<length h}"
  shows "trace_back h (Some a) res = Some (map ((!) h) p @ res)"
  using assms
proof (induction arbitrary: res rule: chain.induct)
  case chain_start
  then show ?case by (subst trace_back.simps) (simp add: trace_back.simps [of h None])
next
  case (chain_step u p v)
  have "u \<in> set p" using chain_mem [OF chain_step.hyps(1)] .
  with chain_step.prems chain_step.hyps(3,4) have "VD_Version (h ! v) \<noteq> VD_Version (h ! u)"
    by (auto simp: wf_graph_def)
  with chain_step show ?case by (subst trace_back.simps) simp
qed

lemma wf_graph_same: "same_graph h0 h \<Longrightarrow> wf_graph h0 t \<Longrightarrow> wf_graph h t"
  using same_graph_length [of h0 h] same_graph_fields [of h0 h] by (simp add: wf_graph_def)

section \<open>Lemmas on the graph\<close>

text \<open>The entry of a version: the last one of the file counts.\<close>

definition entry :: "VersionDep list \<Rightarrow> string \<Rightarrow> VersionDep option" where
  "entry deps u = map_of (rev (map (\<lambda>d. (VD_Version d, d)) deps)) u"

definition can_upgrade :: "VersionDep list \<Rightarrow> string \<Rightarrow> string \<Rightarrow> bool" where
  "can_upgrade deps u v \<longleftrightarrow>
     (case entry deps u of None \<Rightarrow> False | Some d \<Rightarrow> v \<in> set (VD_CanBeUpgradedTo d))"

lemma entry_snoc [simp]: "entry (deps @ [d]) u = (if u = VD_Version d then Some d else entry deps u)"
  by (simp add: entry_def)

lemma entry_version: "entry deps u = Some d \<Longrightarrow> VD_Version d = u \<and> d \<in> set deps"
  by (auto simp: entry_def dest: map_of_SomeD)

lemma add_nodes:
  "\<exists>m. foldl add_node ([], Map.empty) deps = (deps, m) \<and>
     (\<forall>u. (m u = None \<longleftrightarrow> entry deps u = None) \<and>
       (\<forall>a. m u = Some a \<longrightarrow> a < length deps \<and> entry deps u = Some (deps ! a)))"
proof (induction deps rule: rev_induct)
  case Nil
  show ?case by (simp add: entry_def)
next
  case (snoc d deps)
  then obtain m where m: "foldl add_node ([], Map.empty) deps = (deps, m)"
    "\<And>u. m u = None \<longleftrightarrow> entry deps u = None"
    "\<And>u a. m u = Some a \<Longrightarrow> a < length deps \<and> entry deps u = Some (deps ! a)"
    by blast
  then show ?case
    by (intro exI [of _ "m(VD_Version d \<mapsto> length deps)"])
      (auto simp: m(1) add_node_def [of "(deps, m)"] alloc_def nth_append dest: m(3))
qed

definition neighbour_node :: "(string \<rightharpoonup> addr) \<Rightarrow> dep_heap \<Rightarrow> string \<Rightarrow> addr" where
  "neighbour_node m h k = (case m k of None \<Rightarrow> length h | Some a \<Rightarrow> a)"

lemma add_neighbour_heap:
  fixes direct :: bool
  assumes "cur < length h" "\<forall>a. m k = Some a \<longrightarrow> a < length h"
  defines "h' \<equiv> add_neighbour m direct cur h k"
  shows "length h' = length h + (if m k = None then 1 else 0)"
    and "a < length h' \<Longrightarrow>
      VD_Version (h' ! a) = (if a < length h then VD_Version (h ! a) else k) \<and>
      VD_CanBeUpgradedTo (h' ! a) = (if a < length h then VD_CanBeUpgradedTo (h ! a) else []) \<and>
      VD_Precursor (h' ! a) = (if a < length h then VD_Precursor (h ! a) else None) \<and>
      VD_Next (h' ! a) = (if a < length h then VD_Next (h ! a) else []) @
        (if a = cur then [neighbour_node m h k] else [])"
proof -
  show "length h' = length h + (if m k = None then 1 else 0)"
    by (auto simp: h'_def add_neighbour_def alloc_def Let_def split: option.splits)
  assume "a < length h'"
  then show "VD_Version (h' ! a) = (if a < length h then VD_Version (h ! a) else k) \<and>
      VD_CanBeUpgradedTo (h' ! a) = (if a < length h then VD_CanBeUpgradedTo (h ! a) else []) \<and>
      VD_Precursor (h' ! a) = (if a < length h then VD_Precursor (h ! a) else None) \<and>
      VD_Next (h' ! a) = (if a < length h then VD_Next (h ! a) else []) @
        (if a = cur then [neighbour_node m h k] else [])"
  proof (cases "m k")
    case None
    with \<open>a < length h'\<close> assms(1) show ?thesis
      by (auto simp: h'_def add_neighbour_def alloc_def neighbour_node_def new_dep_def Let_def nth_append
          nth_list_update less_Suc_eq)
  next
    case (Some b)
    with \<open>a < length h'\<close> assms(1,2) show ?thesis
      by (auto simp: h'_def add_neighbour_def neighbour_node_def Let_def nth_list_update split: if_splits)
  qed
qed

text \<open>The invariant of the construction, for a map \<open>m\<close> with neighbours \<open>to\<close>.\<close>

definition link_inv :: "(string \<rightharpoonup> addr) \<Rightarrow> (string \<Rightarrow> string list) \<Rightarrow> dep_heap \<Rightarrow> bool" where
  "link_inv m to h \<longleftrightarrow>
     (\<forall>u a. m u = Some a \<longrightarrow> a < length h \<and> VD_Version (h ! a) = u \<and> VD_CanBeUpgradedTo (h ! a) = to u) \<and>
     (\<forall>a < length h. VD_Precursor (h ! a) = None \<and>
        (\<forall>v \<in> set (VD_Next (h ! a)). m (VD_Version (h ! a)) = Some a \<and> v < length h \<and>
           VD_Version (h ! v) \<in> set (to (VD_Version (h ! a))) \<and> m (VD_Version (h ! v)) \<in> {None, Some v}))"

lemma link_inv_next:
  assumes "link_inv m to h" "x < length h" "y \<in> set (VD_Next (h ! x))"
  shows "m (VD_Version (h ! x)) = Some x" "y < length h" "VD_Version (h ! y) \<in> set (to (VD_Version (h ! x)))"
    "m (VD_Version (h ! y)) = None \<or> m (VD_Version (h ! y)) = Some y"
  using assms unfolding link_inv_def by blast+

definition next_grows :: "dep_heap \<Rightarrow> dep_heap \<Rightarrow> bool" where
  "next_grows h h' \<longleftrightarrow> length h \<le> length h' \<and> (\<forall>a < length h. set (VD_Next (h ! a)) \<subseteq> set (VD_Next (h' ! a)))"

lemma next_grows_trans: "next_grows h1 h2 \<Longrightarrow> next_grows h2 h3 \<Longrightarrow> next_grows h1 h3"
  unfolding next_grows_def by (meson less_le_trans order_trans)

lemma next_grows_refl [simp]: "next_grows h h"
  by (simp add: next_grows_def)

lemma add_neighbour_inv:
  fixes direct :: bool
  assumes "link_inv m to h" "m u = Some cur" "k \<in> set (to u)"
  defines "h' \<equiv> add_neighbour m direct cur h k"
  shows "link_inv m to h' \<and> next_grows h h' \<and> (\<forall>b. m k = Some b \<longrightarrow> b \<in> set (VD_Next (h' ! cur)))"
proof -
  have cur: "cur < length h" "VD_Version (h ! cur) = u" and mapped: "\<forall>b. m k = Some b \<longrightarrow> b < length h"
    using assms(1,2) by (auto simp: link_inv_def)
  note heap = add_neighbour_heap [where m = m and k = k and direct = direct, OF cur(1) mapped, folded h'_def]
  have old: "\<And>a. a < length h \<Longrightarrow> a < length h'" using heap(1) by simp
  let ?n = "neighbour_node m h k"
  have n: "?n < length h'" "VD_Version (h' ! ?n) = k" "m k \<in> {None, Some ?n}"
    using heap mapped assms(1) by (auto simp: neighbour_node_def link_inv_def split: option.splits)
  have "link_inv m to h'"
    unfolding link_inv_def
  proof (intro conjI allI impI ballI)
    fix w a assume "m w = Some a"
    then show "a < length h'" "VD_Version (h' ! a) = w" "VD_CanBeUpgradedTo (h' ! a) = to w"
      using assms(1) heap(2) [of a] old [of a] by (auto simp: link_inv_def)
  next
    fix a assume a: "a < length h'"
    then show "VD_Precursor (h' ! a) = None" using assms(1) heap(2) [of a] by (auto simp: link_inv_def)
    fix v assume v: "v \<in> set (VD_Next (h' ! a))"
    then consider "a < length h" "v \<in> set (VD_Next (h ! a))" | "a = cur" "v = ?n"
      using heap(2) [OF a] by (auto split: if_splits)
    then have "m (VD_Version (h' ! a)) = Some a \<and> v < length h' \<and>
      VD_Version (h' ! v) \<in> set (to (VD_Version (h' ! a))) \<and> m (VD_Version (h' ! v)) \<in> {None, Some v}"
    proof cases
      case 1
      then have "m (VD_Version (h ! a)) = Some a \<and> v < length h \<and>
          VD_Version (h ! v) \<in> set (to (VD_Version (h ! a))) \<and> m (VD_Version (h ! v)) \<in> {None, Some v}"
        using assms(1) by (simp add: link_inv_def)
      moreover from this have "VD_Version (h' ! v) = VD_Version (h ! v)" using heap(2) [of v] old by simp
      ultimately show ?thesis using heap(2) [OF a] 1(1) old by simp
    next
      case 2
      then have "VD_Version (h' ! a) = u" using heap(2) [OF a] cur by simp
      with 2 n assms(2,3) show ?thesis by simp
    qed
    then show "m (VD_Version (h' ! a)) = Some a" "v < length h'"
      "VD_Version (h' ! v) \<in> set (to (VD_Version (h' ! a)))" "m (VD_Version (h' ! v)) \<in> {None, Some v}"
      by blast+
  qed
  moreover have "next_grows h h'" using heap old by (auto simp: next_grows_def)
  moreover have "?n \<in> set (VD_Next (h' ! cur))" using heap(2) [of cur] cur(1) old by simp
  ultimately show ?thesis by (auto simp: neighbour_node_def)
qed

lemma BuildNeighbours_inv:
  assumes "link_inv m to h" "m u = Some cur" "set ks \<subseteq> set (to u)"
  shows "link_inv m to (BuildNeighbours m cur ks direct h) \<and> next_grows h (BuildNeighbours m cur ks direct h) \<and>
    (\<forall>k \<in> set ks. \<forall>b. m k = Some b \<longrightarrow> b \<in> set (VD_Next (BuildNeighbours m cur ks direct h ! cur)))"
  using assms(1,3)
proof (induction ks arbitrary: h)
  case Nil
  then show ?case by (simp add: BuildNeighbours_def)
next
  case (Cons k ks)
  let ?h = "add_neighbour m direct cur h k"
  have step: "link_inv m to ?h" "next_grows h ?h" "\<forall>b. m k = Some b \<longrightarrow> b \<in> set (VD_Next (?h ! cur))"
    using add_neighbour_inv [OF Cons.prems(1) assms(2), of k direct] Cons.prems(2) by auto
  have eq: "BuildNeighbours m cur (k # ks) direct h = BuildNeighbours m cur ks direct ?h"
    by (simp add: BuildNeighbours_def)
  have "cur < length ?h" using step(1) assms(2) by (simp add: link_inv_def)
  with Cons.IH [OF step(1)] Cons.prems(2) step(2,3) show ?case
    unfolding eq by (auto intro: next_grows_trans simp: next_grows_def [of ?h])
qed

lemma link_node_inv:
  assumes "link_inv m to h"
  shows "link_inv m to (link_node m h d) \<and> next_grows h (link_node m h d) \<and>
    (\<forall>a k b. m (VD_Version d) = Some a \<longrightarrow> k \<in> set (to (VD_Version d)) \<longrightarrow> m k = Some b \<longrightarrow>
       b \<in> set (VD_Next (link_node m h d ! a)))"
proof (cases "m (VD_Version d)")
  case None
  with assms show ?thesis by (simp add: link_node_def)
next
  case (Some a)
  define h1 where "h1 = BuildNeighbours m a (VD_CanBeUpgradedTo (h ! a)) False h"
  have to: "VD_CanBeUpgradedTo (h ! a) = to (VD_Version d)" using assms Some by (simp add: link_inv_def)
  have 1: "link_inv m to h1" "next_grows h h1"
    using BuildNeighbours_inv [OF assms Some, of "VD_CanBeUpgradedTo (h ! a)" False] by (simp_all add: h1_def to)
  have to1: "VD_CanBeUpgradedTo (h1 ! a) = to (VD_Version d)" using 1(1) Some by (simp add: link_inv_def)
  from BuildNeighbours_inv [OF 1(1) Some, of "VD_CanBeUpgradedTo (h1 ! a)" True] 1(2) Some
  show ?thesis by (auto simp: link_node_def h1_def [symmetric] Let_def to1 intro: next_grows_trans)
qed

lemma link_nodes_inv:
  assumes "link_inv m to h"
  shows "link_inv m to (foldl (link_node m) h ds) \<and> next_grows h (foldl (link_node m) h ds) \<and>
    (\<forall>d \<in> set ds. \<forall>a k b. m (VD_Version d) = Some a \<longrightarrow> k \<in> set (to (VD_Version d)) \<longrightarrow> m k = Some b \<longrightarrow>
       b \<in> set (VD_Next (foldl (link_node m) h ds ! a)))"
  using assms
proof (induction ds arbitrary: h)
  case (Cons d ds)
  note step = link_node_inv [OF Cons.prems, of d]
  note rest = Cons.IH [of "link_node m h d"]
  have grow: "set (VD_Next (link_node m h d ! a)) \<subseteq> set (VD_Next (foldl (link_node m) h (d # ds) ! a))"
    if "m u = Some a" for u a
    using step rest that by (simp add: link_inv_def next_grows_def)
  have "b \<in> set (VD_Next (foldl (link_node m) h (d # ds) ! a))"
    if "m (VD_Version d) = Some a" "k \<in> set (to (VD_Version d))" "m k = Some b" for a k b
    using step grow that by blast
  with step rest show ?case by (auto intro: next_grows_trans)
qed simp

definition fresh_entries :: "VersionDep list \<Rightarrow> bool" where
  "fresh_entries deps \<longleftrightarrow> list_all (\<lambda>d. VD_Next d = [] \<and> VD_Precursor d = None) deps"

definition to_of :: "VersionDep list \<Rightarrow> string \<Rightarrow> string list" where
  "to_of deps u = (case entry deps u of None \<Rightarrow> [] | Some d \<Rightarrow> VD_CanBeUpgradedTo d)"

lemma can_upgrade_to: "can_upgrade deps u v \<longleftrightarrow> v \<in> set (to_of deps u)"
  by (auto simp: can_upgrade_def to_of_def split: option.splits)

lemma Build_graph:
  assumes "fresh_entries deps" "Build deps = (h, m)"
  shows "link_inv m (to_of deps) h" and "m u = None \<longleftrightarrow> entry deps u = None"
    and "m u = Some a \<Longrightarrow> can_upgrade deps u v \<Longrightarrow> m v = Some b \<Longrightarrow> b \<in> set (VD_Next (h ! a))"
proof -
  obtain m' where m': "foldl add_node ([], Map.empty) deps = (deps, m')"
    "\<And>u. m' u = None \<longleftrightarrow> entry deps u = None"
    "\<And>u a. m' u = Some a \<Longrightarrow> a < length deps \<and> entry deps u = Some (deps ! a)"
    using add_nodes [of deps] by blast
  have eq: "m = m'" "h = foldl (link_node m) deps deps" using assms(2) m'(1) by (auto simp: Build_def)
  have "link_inv m (to_of deps) deps"
    unfolding link_inv_def
  proof (intro conjI allI impI)
    fix u a assume "m u = Some a"
    then have "a < length deps" "entry deps u = Some (deps ! a)" using m'(3) [of u a] by (simp_all add: eq(1))
    then show "a < length deps" "VD_Version (deps ! a) = u" "VD_CanBeUpgradedTo (deps ! a) = to_of deps u"
      using entry_version [of deps u] by (simp_all add: to_of_def)
  next
    fix a assume "a < length deps"
    then have "VD_Next (deps ! a) = []" "VD_Precursor (deps ! a) = None"
      using assms(1) by (simp_all add: fresh_entries_def list_all_length)
    then show "VD_Precursor (deps ! a) = None" and
      "\<forall>v \<in> set (VD_Next (deps ! a)). m (VD_Version (deps ! a)) = Some a \<and> v < length deps \<and>
         VD_Version (deps ! v) \<in> set (to_of deps (VD_Version (deps ! a))) \<and> m (VD_Version (deps ! v)) \<in> {None, Some v}"
      by simp_all
  qed
  from link_nodes_inv [OF this, of deps, folded eq(2)]
  have inv: "link_inv m (to_of deps) h" and
    all: "\<And>d a k b. d \<in> set deps \<Longrightarrow> m (VD_Version d) = Some a \<Longrightarrow> k \<in> set (to_of deps (VD_Version d)) \<Longrightarrow>
      m k = Some b \<Longrightarrow> b \<in> set (VD_Next (h ! a))"
    by blast+
  show "link_inv m (to_of deps) h" by (rule inv)
  show none: "m u = None \<longleftrightarrow> entry deps u = None" using m'(2) by (simp add: eq(1))
  assume "m u = Some a" "can_upgrade deps u v" "m v = Some b"
  moreover from none \<open>m u = Some a\<close> obtain d where "entry deps u = Some d" by auto
  ultimately show "b \<in> set (VD_Next (h ! a))"
    using all [of d a v b] entry_version [of deps u d] by (simp add: can_upgrade_to)
qed

lemma Build_wf:
  assumes "link_inv m to h" "m v = Some t"
  shows "wf_graph h t"
proof -
  have t: "t < length h" "VD_Version (h ! t) = v" using assms by (auto simp: link_inv_def)
  have "y < length h \<and> (VD_Version (h ! y) = v \<longrightarrow> y = t) \<and> (VD_Version (h ! y) = VD_Version (h ! x) \<longrightarrow> y = x)"
    if "x < length h" "y \<in> set (VD_Next (h ! x))" for x y
  proof -
    note y = link_inv_next [OF assms(1) that]
    show ?thesis
    proof (intro conjI impI)
      show "y < length h" by (rule y(2))
      show "y = t" if "VD_Version (h ! y) = v" using y(4) that assms(2) by simp
      show "y = x" if "VD_Version (h ! y) = VD_Version (h ! x)" using y(1,4) that by simp
    qed
  qed
  with t(1) show ?thesis unfolding wf_graph_def t(2) by blast
qed

lemma chain_next: "chain h s a p \<Longrightarrow> successively (\<lambda>u v. v \<in> set (VD_Next (h ! u))) p"
proof (induction rule: chain.induct)
  case (chain_step u p v)
  then show ?case using chain_last [OF chain_step.hyps(1)] by (simp add: successively_append_iff)
qed simp

lemma successively_rtranclp: "successively P xs \<Longrightarrow> xs \<noteq> [] \<Longrightarrow> P\<^sup>*\<^sup>* (hd xs) (last xs)"
proof (induction P xs rule: successively.induct)
  case (3 P x y xs)
  then show ?case by (auto intro: converse_rtranclp_into_rtranclp)
qed simp_all

lemma chain_inner: "chain h s a p \<Longrightarrow> \<forall>x \<in> set (butlast p). VD_Next (h ! x) \<noteq> []"
proof (induction rule: chain.induct)
  case (chain_step u p v)
  have "p = butlast p @ [u]" using chain_last [OF chain_step.hyps(1)] append_butlast_last_id by metis
  then have "set p = set (butlast p) \<union> {u}" by (metis list.set(1) list.simps(15) set_append)
  with chain_step show ?case by auto
qed simp

text \<open>The route along a chain that ends at the target.\<close>

lemma chain_route:
  assumes inv: "link_inv m (to_of deps) h" and s: "m u = Some s" and t: "m v = Some t"
    and g: "same_graph h h'" and p: "chain h' s a p" "set p \<subseteq> {..<length h}"
    and a: "VD_Version (h ! a) = VD_Version (h ! t)"
  shows "hd (map VD_Version (map ((!) h') p)) = u" "last (map VD_Version (map ((!) h') p)) = v"
    "distinct (map VD_Version (map ((!) h') p))"
    "successively (can_upgrade deps) (map VD_Version (map ((!) h') p))" "length p = 1 \<longleftrightarrow> u = v"
proof -
  have len: "\<And>x. x \<in> set p \<Longrightarrow> x < length h" using p(2) by auto
  note fields = same_graph_fields [OF g len]
  have versions: "map VD_Version (map ((!) h') p) = map (\<lambda>x. VD_Version (h ! x)) p"
    using fields(2) by simp
  have su: "VD_Version (h ! s) = u" and tv: "VD_Version (h ! t) = v" using inv s t by (auto simp: link_inv_def)
  have ends: "p \<noteq> []" "hd p = s" "last p = a" "distinct p" using chain_last [OF p(1)] by simp_all
  have inner: "m (VD_Version (h ! x)) = Some x" if "x \<in> set (butlast p)" for x
  proof -
    have "x \<in> set p" using that in_set_butlastD by fastforce
    moreover have "VD_Next (h' ! x) \<noteq> []" using chain_inner [OF p(1)] that by simp
    ultimately have "\<exists>y. y \<in> set (VD_Next (h ! x))" "x < length h" using fields(1) len by (auto simp: neq_Nil_conv)
    with link_inv_next(1) [OF inv] show ?thesis by blast
  qed
  have "a = t"
    using p(1)
  proof cases
    case chain_start
    then show ?thesis using a s t su tv by simp
  next
    case (chain_step w q)
    then have "w \<in> set p" using chain_mem by auto
    with chain_step have "a \<in> set (VD_Next (h ! w))" using fields(1) by auto
    with Build_wf [OF inv t] len [OF \<open>w \<in> set p\<close>] a show ?thesis by (simp add: wf_graph_def)
  qed
  have "p = butlast p @ [t]" using ends(1,3) \<open>a = t\<close> append_butlast_last_id by metis
  then have "set p = insert t (set (butlast p))" by (metis Un_insert_right list.set set_append sup_bot.right_neutral)
  with inner t tv have mapped: "\<forall>x \<in> set p. m (VD_Version (h ! x)) = Some x" by auto
  have "inj_on (\<lambda>x. VD_Version (h ! x)) (set p)"
  proof (rule inj_onI)
    fix x y assume "x \<in> set p" "y \<in> set p" "VD_Version (h ! x) = VD_Version (h ! y)"
    with mapped show "x = y" by (metis option.inject)
  qed
  then show "distinct (map VD_Version (map ((!) h') p))" unfolding versions using ends(4) by (simp add: distinct_map)
  show "hd (map VD_Version (map ((!) h') p)) = u" "last (map VD_Version (map ((!) h') p)) = v"
    unfolding versions using ends(1,2,3) su tv \<open>a = t\<close> by (simp_all add: hd_map last_map)
  have "successively (\<lambda>x y. can_upgrade deps (VD_Version (h ! x)) (VD_Version (h ! y))) p"
  proof (rule successively_mono [OF chain_next [OF p(1)]])
    fix x y assume "x \<in> set p" "y \<in> set p" "y \<in> set (VD_Next (h' ! x))"
    then have "y \<in> set (VD_Next (h ! x))" "x < length h" using fields(1) len by auto
    then show "can_upgrade deps (VD_Version (h ! x)) (VD_Version (h ! y))"
      using link_inv_next(3) [OF inv] by (simp add: can_upgrade_to)
  qed
  then show "successively (can_upgrade deps) (map VD_Version (map ((!) h') p))"
    unfolding versions by (simp add: successively_map)
  have "u = v \<longleftrightarrow> s = t" using s t su tv by (metis option.inject)
  also have "\<dots> \<longleftrightarrow> length p = 1"
    using ends \<open>a = t\<close> by (cases p) (auto simp: last_ConsL split: if_splits)
  finally show "length p = 1 \<longleftrightarrow> u = v" by simp
qed

lemma closed_unreachable:
  assumes B: "fresh_entries deps" "Build deps = (h, m)"
    and C: "s \<in> C" "\<forall>x \<in> C. set (VD_Next (h ! x)) \<subseteq> C" and s: "m u = Some s"
    and r: "(can_upgrade deps)\<^sup>*\<^sup>* u w"
  shows "m w = Some b \<longrightarrow> b \<in> C"
  using r
proof (induction arbitrary: b rule: rtranclp_induct)
  case base
  then show ?case using s C(1) by auto
next
  case (step w x)
  show ?case
  proof
    assume "m x = Some b"
    moreover obtain a where "m w = Some a"
      using step.hyps(2) Build_graph(2) [OF B, of w] by (cases "m w") (auto simp: can_upgrade_def)
    ultimately show "b \<in> C" using Build_graph(3) [OF B _ step.hyps(2)] step.IH C(2) by blast
  qed
qed

section \<open>Properties\<close>

text \<open>The entry a version is resolved to: as given, else without its release.\<close>

definition resolve :: "VersionDep list \<Rightarrow> string \<Rightarrow> string option" where
  "resolve deps full =
     (if entry deps full \<noteq> None then Some full
      else if entry deps (hd (Split full ''-'')) \<noteq> None then Some (hd (Split full ''-'')) else None)"

lemma find_node_resolve:
  assumes none: "\<And>u. m u = None \<longleftrightarrow> entry deps u = None"
  shows "find_node m full = (case resolve deps full of None \<Rightarrow> None | Some u \<Rightarrow> m u)"
    and "resolve deps full = Some u \<Longrightarrow> m u \<noteq> None"
  using none [of full] none [of "hd (Split full ''-'')"]
  by (auto simp: find_node_def resolve_def split: option.splits if_splits)

lemma route_cases:
  assumes "fresh_entries deps" "resolve deps start = Some u" "resolve deps target = Some v"
  shows "if (can_upgrade deps)\<^sup>*\<^sup>* u v
    then \<exists>route. GetOBUpgradeRoute (Inr deps) start target = Some (Inr route) \<and>
      (if u = v then map VD_Version route = [u, u]
       else hd (map VD_Version route) = u \<and> last (map VD_Version route) = v \<and> distinct (map VD_Version route) \<and>
         successively (can_upgrade deps) (map VD_Version route))
    else GetOBUpgradeRoute (Inr deps) start target = Some (Inl (OtherError ''There is no route to target version''))"
proof -
  obtain h m where B: "Build deps = (h, m)" by force
  note G = Build_graph [OF assms(1) B]
  obtain s t where s: "m u = Some s" and t: "m v = Some t"
    using find_node_resolve(2) [OF G(2)] assms(2,3) by blast
  have nodes: "find_node m start = Some s" "find_node m target = Some t"
    using find_node_resolve(1) [OF G(2)] assms(2,3) s t by simp_all
  have sv: "s < length h" "VD_Version (h ! t) = v" "VD_Version (h ! s) = u"
    using G(1) s t by (auto simp: link_inv_def)
  have "chain h s s [s]" using G(1) sv(1) by (intro chain_start) (simp add: link_inv_def)
  then have "search_ok h s h [s]" using sv(1) by (auto simp: search_ok_def chains_def)
  moreover have "processed h t [s] [s]" by (simp add: processed_def)
  ultimately obtain h' r where run: "search_path v h [s] [s] = Some (h', r)" and g: "same_graph h h'"
    and out: "case r of
       Some a \<Rightarrow> a < length h \<and> VD_Version (h ! a) = v \<and> (\<exists>p. chain h' s a p \<and> set p \<subseteq> {..<length h})
     | None \<Rightarrow> \<exists>C. s \<in> C \<and> t \<notin> C \<and> C \<subseteq> {..<length h} \<and> (\<forall>u \<in> C. set (VD_Next (h ! u)) \<subseteq> C)"
    using search_path_returns [OF Build_wf [OF G(1) t], of s h "[s]" "[s]"] sv(2) by auto
  show ?thesis
  proof (cases r)
    case None
    with out obtain C where C: "s \<in> C" "t \<notin> C" "\<forall>x \<in> C. set (VD_Next (h ! x)) \<subseteq> C" by auto
    have "\<not> (can_upgrade deps)\<^sup>*\<^sup>* u v"
      using closed_unreachable [OF assms(1) B C(1,3) s, of v t] C(2) t by blast
    then show ?thesis
      by (simp add: GetOBUpgradeRoute_def FindShortestUpgradePath_def B nodes sv(2) run None
          trace_back.simps [of h' None] Let_def)
  next
    case (Some a)
    with out obtain p where p: "chain h' s a p" "set p \<subseteq> {..<length h}" and a: "VD_Version (h ! a) = VD_Version (h ! t)"
      using sv(2) by auto
    note route = chain_route [OF G(1) s t g p a]
    have "trace_back h' (Some a) [] = Some (map ((!) h') p)"
      using trace_back_chain [OF p(1) wf_graph_same [OF g Build_wf [OF G(1) t]], of "[]"] p(2)
        same_graph_length [OF g] by simp
    then have result: "GetOBUpgradeRoute (Inr deps) start target =
        Some (Inr (if length p = 1 then h' ! s # map ((!) h') p else map ((!) h') p))"
      using route(2) chain_last [OF p(1)]
      by (simp add: GetOBUpgradeRoute_def FindShortestUpgradePath_def B nodes sv(2) run Some Let_def last_map)
    have reach: "(can_upgrade deps)\<^sup>*\<^sup>* u v"
      using successively_rtranclp [OF route(4)] route(1,2) chain_last [OF p(1)] by simp
    show ?thesis
    proof (cases "u = v")
      case True
      then have "p = [s]" using route(5) chain_last [OF p(1)] by (cases p) auto
      then show ?thesis using True result reach same_graph_fields(2) [OF g sv(1)] sv(3) by simp
    next
      case False
      then show ?thesis using route result reach by simp
    qed
  qed
qed

lemma unresolved_route:
  assumes "fresh_entries deps" "resolve deps start = None \<or> resolve deps target = None"
  shows "\<exists>err. GetOBUpgradeRoute (Inr deps) start target = Some (Inl err)"
proof -
  obtain h m where B: "Build deps = (h, m)" by force
  have "find_node m start = None \<or> find_node m target = None"
    using find_node_resolve(1) [OF Build_graph(2) [OF assms(1) B]] assms(2) by auto
  then show ?thesis
    by (auto simp: GetOBUpgradeRoute_def FindShortestUpgradePath_def B split: option.splits)
qed

text \<open>A file with a short route over 2 and a long one over 3 and 4.\<close>

definition detour_deps :: "VersionDep list" where
  "detour_deps = [new_dep ''1'' [''2'', ''3''], new_dep ''2'' [''5''], new_dep ''3'' [''4''], new_dep ''4'' [''5''],
     new_dep ''5'' []]"

lemma map_route_eq:
  "map_option (map_sum f g) x = Some (Inr y) \<longleftrightarrow> (\<exists>r. x = Some (Inr r) \<and> g r = y)"
  by (cases x; simp; case_tac a; simp)

lemma detour_route:
  "\<exists>route. GetOBUpgradeRoute (Inr detour_deps) ''1'' ''5'' = Some (Inr route) \<and>
     map VD_Version route = [''1'', ''3'', ''4'', ''5'']"
  unfolding map_route_eq [where f = id, symmetric] by code_simp

text \<open>
  C24. The search for an upgrade route always returns, and it finds a route exactly when the
  start and the target have an entry and the target can be reached from the start by the
  upgrades the entries allow.
\<close>

theorem upgrade_route_found_iff:
  assumes "fresh_entries deps"
  shows "GetOBUpgradeRoute (Inr deps) start target \<noteq> None \<and>
    ((\<exists>route. GetOBUpgradeRoute (Inr deps) start target = Some (Inr route)) \<longleftrightarrow>
      (\<exists>u v. resolve deps start = Some u \<and> resolve deps target = Some v \<and> (can_upgrade deps)\<^sup>*\<^sup>* u v))"
proof (cases "resolve deps start = None \<or> resolve deps target = None")
  case True
  then have "\<exists>err. GetOBUpgradeRoute (Inr deps) start target = Some (Inl err)"
    by (rule unresolved_route [OF assms])
  with True show ?thesis by auto
next
  case False
  then obtain u v where "resolve deps start = Some u" "resolve deps target = Some v" by auto
  with route_cases [OF assms this] show ?thesis by (auto split: if_splits)
qed

theorem upgrade_route_found_iff_witness:
  "GetOBUpgradeRoute (Inr detour_deps) ''1'' ''5'' \<noteq> None \<and>
    ((\<exists>route. GetOBUpgradeRoute (Inr detour_deps) ''1'' ''5'' = Some (Inr route)) \<longleftrightarrow>
      (\<exists>u v. resolve detour_deps ''1'' = Some u \<and> resolve detour_deps ''5'' = Some v \<and>
        (can_upgrade detour_deps)\<^sup>*\<^sup>* u v))"
  by (rule upgrade_route_found_iff) (simp add: fresh_entries_def detour_deps_def new_dep_def)

text \<open>
  A route that is found starts at the start version, ends at the target version, goes
  through no version twice, and each of its steps is an upgrade that the entry of the
  version allows. When start and target are the same, the route names it twice.
\<close>

theorem upgrade_route_valid:
  assumes "fresh_entries deps" "GetOBUpgradeRoute (Inr deps) start target = Some (Inr route)"
    and "resolve deps start = Some u" "resolve deps target = Some v"
  shows "hd (map VD_Version route) = u \<and> last (map VD_Version route) = v \<and>
    (if u = v then map VD_Version route = [u, u]
     else distinct (map VD_Version route) \<and> successively (can_upgrade deps) (map VD_Version route))"
  using route_cases [OF assms(1,3,4)] assms(2) by (auto split: if_splits)

theorem upgrade_route_valid_witness:
  "\<exists>route. GetOBUpgradeRoute (Inr detour_deps) ''1'' ''5'' = Some (Inr route) \<and>
    hd (map VD_Version route) = ''1'' \<and> last (map VD_Version route) = ''5'' \<and>
    distinct (map VD_Version route) \<and> successively (can_upgrade detour_deps) (map VD_Version route)"
proof -
  obtain route where run: "GetOBUpgradeRoute (Inr detour_deps) ''1'' ''5'' = Some (Inr route)"
    using detour_route by blast
  have "fresh_entries detour_deps" by (simp add: fresh_entries_def detour_deps_def new_dep_def)
  moreover have "resolve detour_deps ''1'' = Some ''1''" "resolve detour_deps ''5'' = Some ''5''" by code_simp+
  ultimately have "hd (map VD_Version route) = ''1'' \<and> last (map VD_Version route) = ''5'' \<and>
      distinct (map VD_Version route) \<and> successively (can_upgrade detour_deps) (map VD_Version route)"
    using upgrade_route_valid [OF _ run] by auto
  with run show ?thesis by blast
qed

text \<open>
  \<^verbatim>\<open>FindShortestUpgradePath\<close> need not find a shortest route: it continues with the
  neighbour found last, and here goes from 1 over 3 and 4 to 5 although 1, 2, 5 is a route.
\<close>

theorem upgrade_route_not_shortest:
  "\<exists>route. GetOBUpgradeRoute (Inr detour_deps) ''1'' ''5'' = Some (Inr route) \<and>
    map VD_Version route = [''1'', ''3'', ''4'', ''5''] \<and>
    successively (can_upgrade detour_deps) [''1'', ''2'', ''5'']"
proof -
  have short: "successively (can_upgrade detour_deps) [''1'', ''2'', ''5'']" by code_simp
  from detour_route obtain route where "GetOBUpgradeRoute (Inr detour_deps) ''1'' ''5'' = Some (Inr route)"
    "map VD_Version route = [''1'', ''3'', ''4'', ''5'']"
    by (elim exE conjE)
  with short show ?thesis by (intro exI conjI)
qed

end
