(* ===== verification/Connections.thy ===== *)
theory Connections
  imports OBServer_Tasks
begin

text \<open>
  Connections to the database and jobs: the pool of \<^verbatim>\<open>pkg/database\<close>, the data sources of
  \<^verbatim>\<open>pkg/oceanbase-sdk/connector\<close>, \<^verbatim>\<open>internal/resource/utils/connections.go\<close>, \<^verbatim>\<open>secret.go\<close> and
  \<^verbatim>\<open>jobs.go\<close>. The cache of the pool is a library with eviction and expiry; what it answers is part
  of the environment, as are the database, the API server and the random suffixes of names. The
  interactions of the tasks that are built on this are listed here too.
\<close>

section \<open>Data sources\<close>

record OceanBaseDataSource =
  Source_Address :: string
  Source_Port :: int
  Source_User :: string
  Source_Tenant :: string
  Source_Password :: string
  Source_Database :: string

definition NewOceanBaseDataSource ::
  "string \<Rightarrow> int \<Rightarrow> string \<Rightarrow> string \<Rightarrow> string \<Rightarrow> string \<Rightarrow> OceanBaseDataSource" where
  "NewOceanBaseDataSource address port user tenant password database =
     \<lparr>Source_Address = address, Source_Port = port, Source_User = user, Source_Tenant = tenant,
      Source_Password = password, Source_Database = database\<rparr>"

definition GetUser :: "OceanBaseDataSource \<Rightarrow> string" where
  "GetUser ds = Source_User ds @ ''@'' @ Source_Tenant ds"

definition DataSourceName :: "OceanBaseDataSource \<Rightarrow> string" where
  "DataSourceName ds =
     (let passwordPart = (if Source_Password ds \<noteq> [] then '':'' @ Source_Password ds else []);
          tenantPart = (if Source_Tenant ds = [] \<or> Source_Tenant ds = ''sys'' then [] else ''@'' @ Source_Tenant ds);
          prefix = Source_User ds @ tenantPart @ passwordPart @ ''@tcp('' @ Source_Address ds @ '':'' @ show_int (Source_Port ds) @ '')/''
      in if Source_Database ds \<noteq> []
         then prefix @ Source_Database ds @ ''?multiStatements=true&interpolateParams=true''
         else prefix)"

text \<open>Writing to a hash does not fail, so the identifier is always the digest.\<close>

definition DataSource_ID :: "(string \<Rightarrow> string) \<Rightarrow> OceanBaseDataSource \<Rightarrow> string" where
  "DataSource_ID md5_hex ds =
     md5_hex (Source_User ds @ ''@'' @ Source_Tenant ds @ ''@'' @ Source_Address ds @ '':'' @
       show_int (Source_Port ds) @ ''/'' @ Source_Database ds)"

definition DataSource_String :: "OceanBaseDataSource \<Rightarrow> string" where
  "DataSource_String ds =
     ''address: '' @ Source_Address ds @ '', port: '' @ show_int (Source_Port ds) @ '', user: '' @ Source_User ds @
     '', tenant: '' @ Source_Tenant ds @ '', database: '' @ Source_Database ds"

text \<open>A connector, and whether it has a client.\<close>

record Connector =
  Connector_ds :: OceanBaseDataSource
  Connector_client :: bool

definition NewConnector :: "OceanBaseDataSource \<Rightarrow> Connector" where
  "NewConnector ds = \<lparr>Connector_ds = ds, Connector_client = False\<rparr>"

section \<open>Interactions\<close>

record K8sJob =
  K8sJob_Name :: string
  K8sJob_Owner :: "string option"
  K8sJob_Container :: string
  K8sJob_Image :: string
  K8sJob_ImagePullPolicy :: string
  K8sJob_Command :: "string list"
  K8sJob_Mounts :: "VolumeMount list"
  K8sJob_Volumes :: "PodVolume list"
  K8sJob_RestartPolicy :: string
  K8sJob_SchedulerName :: string
  K8sJob_BackoffLimit :: int
  K8sJob_TTLSecondsAfterFinished :: int

record JobStatus =
  K8sJob_Succeeded :: int
  K8sJob_Failed :: int

text \<open>A pod of a job: its name, and of each container the exit code once it is terminated.\<close>

record JobPod =
  JobPod_Name :: string
  JobPod_ExitCodes :: "(string \<times> int option) list"

text \<open>A pod as the check of the image sees it: its phase, and the states of its containers.\<close>

datatype ContainerState = WaitingState string | RunningState | TerminatedState | UnknownState

record ImagePod =
  ImagePod_Phase :: string
  ImagePod_States :: "ContainerState list"

record ServiceObject =
  ServiceObject_Name :: string
  ServiceObject_Owner :: string
  ServiceObject_Port :: int
  ServiceObject_Selector :: dict
  ServiceObject_Type :: string

text \<open>The share of the memory that becomes the memory limit; its product is computed in floating point.\<close>

datatype memory_share = NoShare | NinetyPercent | ShareOf int Quantity

text \<open>JSON values, and the text of a secret as the value it parses to, if it does.\<close>

datatype json = JNull | JBool bool | JNumber int | JString string | JArray "json list" | JObject "(string \<times> json) list"

datatype ops_api =
    CacheRead string "Connector option"
  | CacheAdded string Connector
  | OpenedDatabase OceanBaseDataSource "unit result"
  | PingedDatabase OceanBaseDataSource "unit result"
  | PingedConnector Connector bool
  | ListedClusterServers "OBServer list result"
  | GotSecret string "dict result"
  | CreatedJob K8sJob "unit result"
  | GotJob string "JobStatus result"
  | ListedJobPods string "JobPod list result"
  | ReadJobLogs string "string result"
  | GotOwningCluster "OBCluster result"
  | ListedZones "OBZone list result"
  | GotOneZone string "OBZone result"
  | UpdatedOBZone OBZone "unit result"
  | GotParameterObject string "OBParameter result"
  | CreatedParameter OBParameter string int "unit result"
  | UpdatedParameter OBParameter "unit result"
  | DeletedParameter string "unit result"
  | GotContextSecret string "json option result"
  | CreatedContextSecret string json "unit result"
  | DeletedContextSecret string "unit result"
  | ListedZoneServers "OBServer list result"
  | GotOneServer string "OBServer result"
  | CreatedOBServer OBServer "unit result"
  | PatchedOBServer OBServer "unit result"
  | DeletedOBServer string "unit result"
  | CreatedSecret string dict "unit result"
  | GotRemoteClient string "unit result"
  | GotRemoteSecret string string "dict result"
  | CreatedRemoteSecret string string dict "unit result"
  | GotRemoteNamespace string string "unit result"
  | CreatedRemoteNamespace string string "unit result"
  | CreatedServiceObject ServiceObject "unit result"
  | ListedImagePods "ImagePod list result"
  | CreatedClaimFor string PersistentVolumeClaim "unit result"
  | DeletedClaimOf string "unit result"
  | PatchedOBCluster OBCluster "unit result"
  | PatchedOBZone OBZone "unit result"

type_synonym ops_log = "ops_api event list"
type_synonym 'a ops_io = "(ops_api event, 'a) io"

record ops_env = "ops_api sdk_env" +
  op_cache :: "ops_log \<Rightarrow> string \<Rightarrow> Connector option"
  op_alive :: "ops_log \<Rightarrow> Connector \<Rightarrow> bool"
  op_open :: "ops_log \<Rightarrow> OceanBaseDataSource \<Rightarrow> unit result"
  op_ping :: "ops_log \<Rightarrow> OceanBaseDataSource \<Rightarrow> unit result"
  op_md5_hex :: "string \<Rightarrow> string"
  op_cluster_servers :: "ops_log \<Rightarrow> OBServer list result"
  op_secret :: "ops_log \<Rightarrow> string \<Rightarrow> dict result"
  op_job :: "ops_log \<Rightarrow> string \<Rightarrow> JobStatus result"
  op_job_pods :: "ops_log \<Rightarrow> string \<Rightarrow> JobPod list result"
  op_job_logs :: "ops_log \<Rightarrow> string \<Rightarrow> string result"
  op_owning_cluster :: "ops_log \<Rightarrow> OBCluster result"
  op_zones :: "ops_log \<Rightarrow> OBZone list result"
  op_zone :: "ops_log \<Rightarrow> string \<Rightarrow> OBZone result"
  op_parameter :: "ops_log \<Rightarrow> string \<Rightarrow> OBParameter result"
  op_context :: "ops_log \<Rightarrow> string \<Rightarrow> json option result"
  op_zone_servers :: "ops_log \<Rightarrow> OBServer list result"
  op_server :: "ops_log \<Rightarrow> string \<Rightarrow> OBServer result"
  op_remote_client :: "ops_log \<Rightarrow> string \<Rightarrow> unit result"
  op_remote_secret :: "ops_log \<Rightarrow> string \<Rightarrow> string \<Rightarrow> dict result"
  op_remote_namespace :: "ops_log \<Rightarrow> string \<Rightarrow> string \<Rightarrow> unit result"
  op_selector :: "ops_log \<Rightarrow> unit result"
  op_image_pods :: "ops_log \<Rightarrow> ImagePod list result"
  op_optimization :: "string \<Rightarrow> (string \<times> sql_value) list"
  op_scale :: "memory_share \<Rightarrow> Quantity \<Rightarrow> int"
  op_Value :: "Quantity \<Rightarrow> int"
  op_Quantity_String :: "Quantity \<Rightarrow> string"
  op_write :: "ops_log \<Rightarrow> (unit result \<Rightarrow> ops_api) \<Rightarrow> unit result"
  op_rand :: "ops_log \<Rightarrow> string"
  op_rand3 :: "ops_log \<Rightarrow> string \<times> string \<times> string"
  op_ticked :: "ops_log \<Rightarrow> bool"
  op_conflict :: "error \<Rightarrow> bool"
  op_uid :: string
  op_CheckJobMaxRetries :: nat
  op_WaitForJobRounds :: nat
  op_DefaultStateWaitTimeout :: nat
  op_ServerDeleteTimeoutSeconds :: nat

definition op_read :: "(ops_log \<Rightarrow> 'a result) \<Rightarrow> ('a result \<Rightarrow> ops_api) \<Rightarrow> 'a ops_io" where
  "op_read answer call = perform answer (\<lambda>r. ApiCall (call r))"

definition op_call :: "ops_env \<Rightarrow> (unit result \<Rightarrow> ops_api) \<Rightarrow> unit ops_io" where
  "op_call env call = perform (\<lambda>h. op_write env h call) (\<lambda>r. ApiCall (call r))"

text \<open>An answer that is a value and never an error.\<close>

definition op_ask :: "(ops_log \<Rightarrow> 'a) \<Rightarrow> ('a \<Rightarrow> ops_api) \<Rightarrow> 'a ops_io" where
  "op_ask answer call = (\<lambda>h. (Ok (answer h), h @ [ApiCall (call (answer h))]))"

text \<open>What is known without an interaction: a random suffix, a timer.\<close>

definition op_peek :: "(ops_log \<Rightarrow> 'a) \<Rightarrow> 'a ops_io" where
  "op_peek answer = (\<lambda>h. (Ok (answer h), h))"

section \<open>The pool\<close>

definition Connector_Init :: "ops_env \<Rightarrow> Connector \<Rightarrow> Connector ops_io" where
  "Connector_Init env c =
     (let ds = Connector_ds c
      in bind_io (wrap_io (''Open datasource '' @ DataSource_String ds) (op_read (\<lambda>h. op_open env h ds) (OpenedDatabase ds))) (\<lambda>_.
         bind_io (wrap_io (''Ping datasource '' @ DataSource_String ds) (op_read (\<lambda>h. op_ping env h ds) (PingedDatabase ds))) (\<lambda>_.
           ret (c\<lparr>Connector_client := True\<rparr>))))"

definition IsAlive :: "ops_env \<Rightarrow> Connector \<Rightarrow> bool ops_io" where
  "IsAlive env c = (if Connector_client c then op_ask (\<lambda>h. op_alive env h c) (PingedConnector c) else ret False)"

definition GetConnector :: "ops_env \<Rightarrow> OceanBaseDataSource \<Rightarrow> Connector ops_io" where
  "GetConnector env ds =
     (let key = DataSource_ID (op_md5_hex env) ds;
          connect =
            bind_io (wrap_io (''Init connector failed with datasource: '' @ DataSource_String ds) (Connector_Init env (NewConnector ds))) (\<lambda>c.
            bind_io (op_ask (\<lambda>_. ()) (\<lambda>_. CacheAdded key c)) (\<lambda>_. ret c))
      in bind_io (op_ask (\<lambda>h. op_cache env h key) (CacheRead key)) (\<lambda>cached.
           case cached of
             None \<Rightarrow> connect
           | Some c \<Rightarrow> bind_io (IsAlive env c) (\<lambda>alive. if alive then ret c else connect)))"

section \<open>Clients\<close>

definition ReadPassword :: "ops_env \<Rightarrow> string \<Rightarrow> string ops_io" where
  "ReadPassword env secretName =
     bind_io (wrap_io (''Get password from secret '' @ secretName @ '' failed'')
         (op_read (\<lambda>h. op_secret env h secretName) (GotSecret secretName))) (\<lambda>secret.
       ret (dict_get secret ''password''))"

definition listed_servers :: "ops_env \<Rightarrow> OBCluster \<Rightarrow> OBServer list ops_io" where
  "listed_servers env c =
     bind_io (wrap_io ''Get observer list'' (op_read (op_cluster_servers env) ListedClusterServers)) (\<lambda>servers.
       if servers = [] then raise (OtherError (''No observer belongs to cluster '' @ Name c)) else ret servers)"

definition cluster_password :: "ops_env \<Rightarrow> OBCluster \<Rightarrow> string \<Rightarrow> string ops_io" where
  "cluster_password env c secretName =
     wrap_io (''Read password to get oceanbase operation manager of cluster '' @ Name c) (ReadPassword env secretName)"

definition sys_data_source :: "OBCluster \<Rightarrow> string \<Rightarrow> string \<Rightarrow> string \<Rightarrow> string \<Rightarrow> OceanBaseDataSource" where
  "sys_data_source c userName tenantName password address =
     (if Status c = clusterstatus_New then NewOceanBaseDataSource address SqlPort ''root'' tenantName [] []
      else if Status c = clusterstatus_Bootstrapped then NewOceanBaseDataSource address SqlPort ''root'' tenantName [] ''oceanbase''
      else NewOceanBaseDataSource address SqlPort userName tenantName password ''oceanbase'')"

text \<open>The servers in turn: a connection counts when the servers can be listed over it, unless the cluster is new.\<close>

primrec sys_client_of :: "ops_env \<Rightarrow> OBCluster \<Rightarrow> (string \<Rightarrow> OceanBaseDataSource) \<Rightarrow> OBServer list \<Rightarrow> Connector ops_io" where
  "sys_client_of env c source [] =
     raise (OtherError (''Can not get oceanbase operation manager of obcluster '' @ Name c @ '' after checked all servers''))"
| "sys_client_of env c source (observer # rest) =
     bind_io (catch_io (GetConnector env (source (OBServerStatus_GetConnectAddr observer)))) (\<lambda>r.
       case r of
         Inl _ \<Rightarrow> sys_client_of env c source rest
       | Inr client \<Rightarrow>
           if Status c = clusterstatus_New then ret client
           else bind_io (catch_io (db_ListServers env)) (\<lambda>checked.
             case checked of Inl _ \<Rightarrow> sys_client_of env c source rest | Inr _ \<Rightarrow> ret client))"

definition utils_getSysClient :: "ops_env \<Rightarrow> OBCluster \<Rightarrow> string \<Rightarrow> string \<Rightarrow> string \<Rightarrow> Connector ops_io" where
  "utils_getSysClient env c userName tenantName secretName =
     bind_io (listed_servers env c) (\<lambda>servers.
     bind_io (cluster_password env c secretName) (\<lambda>password.
       sys_client_of env c (sys_data_source c userName tenantName password) servers))"

text \<open>The addresses of the cluster that is migrated from, in turn.\<close>

primrec source_client_of :: "ops_env \<Rightarrow> string \<Rightarrow> (string \<Rightarrow> int \<Rightarrow> OceanBaseDataSource) \<Rightarrow> string list \<Rightarrow> Connector ops_io" where
  "source_client_of env address source [] =
     raise (OtherError (''Failed to get sys client from existing obcluster, address: '' @ address))"
| "source_client_of env address source (server # rest) =
     (let parts = Split server '':''
      in if length parts \<noteq> 2 then raise (OtherError ''Parse oceanbase cluster connect address failed'')
         else (case Atoi (parts ! 1) of
                 (sqlPort, parses) \<Rightarrow>
                   if \<not> parses then raise (OtherError ''Parse sql port of obcluster failed'')
                   else bind_io (catch_io (GetConnector env (source (parts ! 0) sqlPort))) (\<lambda>r.
                     case r of Inl _ \<Rightarrow> source_client_of env address source rest | Inr client \<Rightarrow> ret client)))"

definition getSysClientFromSourceCluster :: "ops_env \<Rightarrow> OBCluster \<Rightarrow> string \<Rightarrow> string \<Rightarrow> string \<Rightarrow> Connector ops_io" where
  "getSysClientFromSourceCluster env c userName tenantName secretName =
     bind_io (catch_io (utils_getSysClient env c userName tenantName secretName)) (\<lambda>r.
       case r of
         Inr client \<Rightarrow> ret client
       | Inl _ \<Rightarrow>
           bind_io (cluster_password env c secretName) (\<lambda>password.
             let address = fst (GetAnnotationField c AnnotationsSourceClusterAddress)
             in source_client_of env address (\<lambda>ip port. NewOceanBaseDataSource ip port userName tenantName password ''oceanbase'')
                  (Split address '';'')))"

definition utils_GetSysOperationClient :: "ops_env \<Rightarrow> OBCluster \<Rightarrow> Connector ops_io" where
  "utils_GetSysOperationClient env c =
     (if snd (GetAnnotationField c AnnotationsSourceClusterAddress) \<and> Status c = clusterstatus_MigrateFromExisting
      then getSysClientFromSourceCluster env c ''root'' ''sys'' (Secret_Root (ClusterSpec_UserSecrets c))
      else utils_getSysClient env c ''operator'' ''sys'' (Secret_Operator (ClusterSpec_UserSecrets c)))"

primrec root_client_of :: "ops_env \<Rightarrow> OBCluster \<Rightarrow> string \<Rightarrow> string \<Rightarrow> OBServer list \<Rightarrow> Connector ops_io" where
  "root_client_of env c tenantName password [] =
     raise (OtherError (''Can not get root operation client of tenant '' @ tenantName @ '' in obcluster '' @ Name c @
       '' after checked all servers''))"
| "root_client_of env c tenantName password (observer # rest) =
     (let address = OBServerStatus_GetConnectAddr observer;
          source = (\<lambda>pw. NewOceanBaseDataSource address SqlPort ''root'' tenantName pw ''oceanbase'')
      in if Status c = clusterstatus_New then raise (OtherError ''Cluster is not bootstrapped'')
         else if Status c = clusterstatus_Bootstrapped then raise (OtherError ''Cluster is not initialized'')
         else bind_io (catch_io (GetConnector env (source password))) (\<lambda>r.
           case r of
             Inr client \<Rightarrow> ret client
           | Inl _ \<Rightarrow> bind_io (catch_io (GetConnector env (source []))) (\<lambda>r'.
               case r' of
                 Inr client \<Rightarrow> ret client
               | Inl _ \<Rightarrow> root_client_of env c tenantName password rest)))"

definition utils_GetTenantRootOperationClient :: "ops_env \<Rightarrow> OBCluster \<Rightarrow> string \<Rightarrow> string \<Rightarrow> Connector ops_io" where
  "utils_GetTenantRootOperationClient env c tenantName credential =
     bind_io (listed_servers env c) (\<lambda>servers.
     bind_io (if credential \<noteq> [] then cluster_password env c credential else ret []) (\<lambda>password.
       root_client_of env c tenantName password servers))"

section \<open>Jobs\<close>

definition GetJob :: "ops_env \<Rightarrow> string \<Rightarrow> JobStatus ops_io" where
  "GetJob env jobName = op_read (\<lambda>h. op_job env h jobName) (GotJob jobName)"

definition job_running :: "JobStatus \<Rightarrow> bool" where
  "job_running j \<longleftrightarrow> K8sJob_Succeeded j = 0 \<and> K8sJob_Failed j = 0"

text \<open>
  The wait of \<^verbatim>\<open>RunJob\<close>: the status once the job has finished, otherwise the error of the last read
  if it had one. A read that fails counts as a job that is still running.
\<close>

primrec wait_job :: "ops_env \<Rightarrow> string \<Rightarrow> nat \<Rightarrow> error option \<Rightarrow> (error option + JobStatus) ops_io" where
  "wait_job env jobName 0 err = ret (Inl err)"
| "wait_job env jobName (Suc n) err =
     bind_io (catch_io (GetJob env jobName)) (\<lambda>r.
       case r of
         Inl e \<Rightarrow> wait_job env jobName n (Some e)
       | Inr j \<Rightarrow> if job_running j then wait_job env jobName n None else ret (Inr j))"

text \<open>\<^verbatim>\<open>errors.Wrapf\<close> of a nil error is nil.\<close>

definition wrap_nil :: "string \<Rightarrow> error option \<Rightarrow> error option" where
  "wrap_nil msg = map_option (wrap msg)"

abbreviation ExitCodeNotExecuted :: int where
  "ExitCodeNotExecuted \<equiv> 4"

text \<open>The exit code of the last container of that name; one that has not ended is dereferenced all the same.\<close>

primrec runner_exit_code :: "(string \<times> int option) list \<Rightarrow> int \<Rightarrow> int ops_io" where
  "runner_exit_code [] code = ret code"
| "runner_exit_code (cs # rest) code =
     (if fst cs = ''job-runner'' then bind_io (deref_io (snd cs)) (runner_exit_code rest)
      else runner_exit_code rest code)"

definition runner_job ::
  "string \<Rightarrow> string \<Rightarrow> PodFieldsSpec option \<Rightarrow> string \<Rightarrow> (VolumeMount list \<times> PodVolume list) list \<Rightarrow> K8sJob" where
  "runner_job fullJobName img podFields cmd volumeConfigs =
     \<lparr>K8sJob_Name = fullJobName, K8sJob_Owner = None, K8sJob_Container = ''job-runner'', K8sJob_Image = img, K8sJob_ImagePullPolicy = [],
      K8sJob_Command = [''bash'', ''-c'', cmd], K8sJob_Mounts = concat (map fst volumeConfigs),
      K8sJob_Volumes = concat (map snd volumeConfigs), K8sJob_RestartPolicy = ''Never'',
      K8sJob_SchedulerName = GetSchedulerName podFields, K8sJob_BackoffLimit = 0, K8sJob_TTLSecondsAfterFinished = 300\<rparr>"

text \<open>The output, the exit code and the error, all three of which the callers look at.\<close>

definition finish_job :: "ops_env \<Rightarrow> string \<Rightarrow> string \<Rightarrow> JobStatus \<Rightarrow> (string \<times> int \<times> error option) ops_io" where
  "finish_job env jobName fullJobName j =
     bind_io (catch_io (op_read (\<lambda>h. op_job_pods env h fullJobName) (ListedJobPods fullJobName))) (\<lambda>r.
       case r of
         Inl err \<Rightarrow> ret ([], ExitCodeNotExecuted, Some (wrap (''failed to get pods of job '' @ jobName) err))
       | Inr [] \<Rightarrow> ret ([], ExitCodeNotExecuted, wrap_nil (''failed to get pods of job '' @ jobName) None)
       | Inr (pod # _) \<Rightarrow>
           bind_io (runner_exit_code (JobPod_ExitCodes pod) 0) (\<lambda>exitCode.
             if K8sJob_Succeeded j = 1 then
               bind_io (catch_io (op_read (\<lambda>h. op_job_logs env h (JobPod_Name pod)) (ReadJobLogs (JobPod_Name pod)))) (\<lambda>logs.
                 ret (case logs of Inl _ \<Rightarrow> [] | Inr text \<Rightarrow> text, exitCode, None))
             else ret ([], exitCode, Some (OtherError (''Failed to run job '' @ fullJobName)))))"

definition RunJob ::
  "ops_env \<Rightarrow> string \<Rightarrow> string \<Rightarrow> PodFieldsSpec option \<Rightarrow> string \<Rightarrow> (VolumeMount list \<times> PodVolume list) list \<Rightarrow>
   (string \<times> int \<times> error option) ops_io" where
  "RunJob env jobName img podFields cmd volumeConfigs =
     bind_io (op_peek (op_rand env)) (\<lambda>suf.
       let fullJobName = jobName @ ''-'' @ suf
       in bind_io (catch_io (op_call env (CreatedJob (runner_job fullJobName img podFields cmd volumeConfigs)))) (\<lambda>r.
         case r of
           Inl err \<Rightarrow> ret ([], ExitCodeNotExecuted, Some (wrap (''failed to create job of image: '' @ img) err))
         | Inr _ \<Rightarrow>
             bind_io (wait_job env fullJobName (op_CheckJobMaxRetries env) None) (\<lambda>w.
               case w of
                 Inl err \<Rightarrow> ret ([], ExitCodeNotExecuted, wrap_nil (''Run job '' @ fullJobName @ '' timeout'') err)
               | Inr j \<Rightarrow> finish_job env jobName fullJobName j)))"

text \<open>The server the script is pointed to: the root server, or the last one when there is none.\<close>

definition script_server :: "row list \<Rightarrow> row" where
  "script_server observers =
     (case find (\<lambda>r. col_int r ''with_rootserver'' > 0) observers of
        Some r \<Rightarrow> r
      | None \<Rightarrow> if observers = [] then [] else last observers)"

definition script_job :: "OBCluster \<Rightarrow> string \<Rightarrow> string \<Rightarrow> row \<Rightarrow> string \<Rightarrow> string \<Rightarrow> string \<Rightarrow> K8sJob" where
  "script_job c jobName address rootserver password filepath extraOpt =
     \<lparr>K8sJob_Name = jobName, K8sJob_Owner = Some (Name c), K8sJob_Container = ''script-runner'',
      K8sJob_Image = Image (ClusterSpec_OBServerTemplate c), K8sJob_ImagePullPolicy = [],
      K8sJob_Command = [''bash'', ''-c'',
        ''if [[ `command -v python2` ]]; then ln -sf /usr/bin/python2 /usr/bin/python; fi && python '' @ filepath @
        '' -h'' @ address @ '' -P'' @ show_int (col_int rootserver ''inner_port'') @ '' -uroot -p'' @ [CHR 0x27] @ password @ [CHR 0x27] @
        '' '' @ extraOpt],
      K8sJob_Mounts = [], K8sJob_Volumes = [], K8sJob_RestartPolicy = ''Never'', K8sJob_SchedulerName = [],
      K8sJob_BackoffLimit = 0, K8sJob_TTLSecondsAfterFinished = 300\<rparr>"

text \<open>
  The check of a script's job. The error a failed job is reported with wraps the error of the read
  before, which is nil, so the job counts as unfinished.
\<close>

definition script_finished :: "ops_env \<Rightarrow> OBCluster \<Rightarrow> string \<Rightarrow> bool ops_io" where
  "script_finished env c jobName =
     bind_io (wrap_io (''Failed to get run upgrade script job for obcluster '' @ Name c) (GetJob env jobName)) (\<lambda>j.
       if job_running j then ret False
       else if K8sJob_Succeeded j = 1 then ret True
       else (case wrap_nil ''Failed to run upgrade script job'' None of None \<Rightarrow> ret False | Some err \<Rightarrow> raise err))"

definition ExecuteUpgradeScript :: "ops_env \<Rightarrow> OBCluster \<Rightarrow> string \<Rightarrow> string \<Rightarrow> unit ops_io" where
  "ExecuteUpgradeScript env c filepath extraOpt =
     bind_io (wrap_io ''Failed to get root password'' (ReadPassword env (Secret_Root (ClusterSpec_UserSecrets c)))) (\<lambda>password.
     bind_io (wrap_io (''Get operation manager failed for obcluster '' @ Name c) (utils_GetSysOperationClient env c)) (\<lambda>client.
     bind_io (wrap_io (''Failed to list all servers for obcluster '' @ Name c) (db_ListServers env)) (\<lambda>observers.
     bind_io (op_peek (op_rand env)) (\<lambda>suf.
       let rootserver = script_server observers; ip = col_str rootserver ''svr_ip'';
           address = (if ip = ''127.0.0.1'' then Source_Address (Connector_ds client) else ip);
           jobName = ''script-runner-'' @ suf
       in bind_io (wrap_io (''Failed to create run upgrade script job for obcluster '' @ Name c)
             (op_call env (CreatedJob (script_job c jobName address rootserver password filepath extraOpt)))) (\<lambda>_.
          wrap_io ''Failed to wait for job to finish''
            (CheckJobWithTimeout (op_WaitForJobRounds env) (script_finished env c jobName)))))))"

section \<open>Lemmas\<close>

lemma extends_op [io_extends, simp]:
  "extends (op_read answer call)" "extends (op_call env call'')" "extends (op_ask answer' call')" "extends (op_peek answer'')"
  by (auto simp: op_read_def op_call_def op_ask_def op_peek_def extends_def perform_def)

lemma op_Ok_iffs:
  "op_read answer call h = (Ok x, h') \<longleftrightarrow> answer h = Inr x \<and> h' = h @ [ApiCall (call (Inr x))]"
  "op_call env call' h = (Ok u, h') \<longleftrightarrow> op_write env h call' = Inr () \<and> h' = h @ [ApiCall (call' (Inr ()))]"
  "op_peek answer' h = (Ok y, h') \<longleftrightarrow> y = answer' h \<and> h' = h"
  by (auto simp: op_read_def op_call_def op_peek_def perform_Ok_iff)

text \<open>The reads and connections before a task acts: they only add to the log.\<close>

lemma extends_connector [io_extends]: "extends (GetConnector env ds)"
  by (auto simp: GetConnector_def Connector_Init_def IsAlive_def Let_def intro!: io_extends split: option.split)

lemma extends_list_servers [io_extends]: "extends (db_ListServers env)"
  unfolding db_ListServers_def by (auto intro!: io_extends)

lemma extends_sys_client_of [io_extends]: "extends (sys_client_of env c source servers)"
  by (induction servers) (auto intro!: io_extends split: sum.split)

lemma extends_source_client_of [io_extends]: "extends (source_client_of env address source servers)"
  by (induction servers) (auto simp: Let_def intro!: io_extends split: sum.split prod.split)

lemma extends_password [io_extends]: "extends (ReadPassword env name)"
  unfolding ReadPassword_def by (intro io_extends)

lemma extends_sys_client [io_extends]: "extends (utils_GetSysOperationClient env c)"
proof -
  have "extends (utils_getSysClient env c user tenant secret)" for user tenant secret
    unfolding utils_getSysClient_def listed_servers_def cluster_password_def by (auto intro!: io_extends)
  then show ?thesis
    unfolding utils_GetSysOperationClient_def getSysClientFromSourceCluster_def cluster_password_def Let_def
    by (auto intro!: io_extends split: sum.split)
qed

text \<open>A loop that ended well ended on a check that held; one whose check never holds ends with the timeout.\<close>

lemma check_job_Ok:
  "CheckJobWithTimeout n f h = (Ok (), h') \<Longrightarrow> extends f \<Longrightarrow> \<exists>es. f (h @ es) = (Ok True, h')"
proof (induction n arbitrary: h)
  case (Suc n)
  from Suc.prems(1) obtain b h1 where one: "f h = (Ok b, h1)"
    and rest: "(if b then ret () else CheckJobWithTimeout n f) h1 = (Ok (), h')"
    by (auto simp: bind_Ok_iff)
  obtain es where es: "h1 = h @ es" using extendsD [OF Suc.prems(2) one] by blast
  show ?case
  proof (cases b)
    case True
    with one rest have "f (h @ []) = (Ok True, h')" by simp
    then show ?thesis by blast
  next
    case False
    with rest Suc.IH [of h1] Suc.prems(2) obtain es' where "f (h1 @ es') = (Ok True, h')" by auto
    with es have "f (h @ (es @ es')) = (Ok True, h')" by simp
    then show ?thesis by blast
  qed
qed simp

lemma check_job_times_out:
  "(\<And>h. fst (f h) = Ok False) \<Longrightarrow> fst (CheckJobWithTimeout n f h) = Err (OtherError ''Timeout to wait for job'')"
proof (induction n arbitrary: h)
  case (Suc n)
  have "CheckJobWithTimeout (Suc n) f h = CheckJobWithTimeout n f (snd (f h))"
    using Suc.prems [of h] by (cases "f h") (simp add: bind_io_def)
  with Suc show ?case by simp
qed (simp add: raise_def)

lemma script_finished_iff:
  "script_finished env c name h = (Ok b, h') \<longleftrightarrow>
    (\<exists>j. op_job env h name = Inr j \<and> h' = h @ [ApiCall (GotJob name (Inr j))] \<and> b = (K8sJob_Succeeded j = 1 \<and> \<not> job_running j))"
  by (auto simp: script_finished_def GetJob_def bind_Ok_iff op_Ok_iffs wrap_nil_def split: if_splits)

lemma extends_script_finished [io_extends]: "extends (script_finished env c name)"
  unfolding script_finished_def GetJob_def wrap_nil_def by (auto intro!: io_extends)

lemma wait_job_unfinished:
  "(\<And>h. \<exists>j. op_job env h name = Inr j \<and> job_running j) \<Longrightarrow> fst (wait_job env name n None h) = Ok (Inl None)"
proof (induction n arbitrary: h)
  case 0
  show ?case by (simp add: ret_def)
next
  case (Suc n)
  obtain j where "op_job env h name = Inr j" "job_running j" using Suc.prems by blast
  then have "wait_job env name (Suc n) None h = wait_job env name n None (h @ [ApiCall (GotJob name (Inr j))])"
    by (simp add: GetJob_def op_read_def io_defs)
  with Suc show ?case by simp
qed

section \<open>Properties\<close>

text \<open>
  C35. The pool identifies a connection by user, tenant, address and database, not by password. So
  as long as a live connection of the tenant's root user to the first server is pooled, a client
  of the tenant's root user is had with any credential, whatever password it holds, and the
  connection that is returned is the pooled one: a credential is not checked by connecting with
  it.
\<close>

theorem pooled_connection_accepts_any_password:
  assumes "Status c \<noteq> clusterstatus_New" "Status c \<noteq> clusterstatus_Bootstrapped"
    and "op_cluster_servers env h = Inr (observer # rest)"
    and "\<forall>h. op_secret env h credential = Inr secret"
    and "\<forall>h. op_cache env h (DataSource_ID (op_md5_hex env)
           (NewOceanBaseDataSource (OBServerStatus_GetConnectAddr observer) SqlPort ''root'' tenantName right_password ''oceanbase'')) = Some pooled"
    and "Connector_client pooled" "\<forall>h. op_alive env h pooled"
  shows "fst (utils_GetTenantRootOperationClient env c tenantName credential h) = Ok pooled"
proof -
  have same: "DataSource_ID hex (NewOceanBaseDataSource a p u t pw d) = DataSource_ID hex (NewOceanBaseDataSource a p u t pw' d)"
    for hex a p u t pw pw' d by (simp add: DataSource_ID_def NewOceanBaseDataSource_def)
  have cached: "op_cache env h (DataSource_ID (op_md5_hex env)
      (NewOceanBaseDataSource (OBServerStatus_GetConnectAddr observer) SqlPort ''root'' tenantName pw ''oceanbase'')) = Some pooled" for h pw
    using assms(5) same by metis
  show ?thesis
    using assms(1-4,6,7)
    by (simp add: utils_GetTenantRootOperationClient_def listed_servers_def cluster_password_def ReadPassword_def
        GetConnector_def IsAlive_def Let_def op_read_def op_ask_def io_defs cached split: if_splits)
qed

text \<open>An environment in which every write is accepted, one server is listed and the pool holds one connection.\<close>

definition pooled_root :: Connector where
  "pooled_root = \<lparr>Connector_ds = NewOceanBaseDataSource ''10.0.0.1'' SqlPort ''root'' ''t1'' ''right'' ''oceanbase'', Connector_client = True\<rparr>"

definition quiet_ops_env :: ops_env where
  "quiet_ops_env = sdk_env.extend quiet_db (ops_env.fields (\<lambda>_ _. Some pooled_root) (\<lambda>_ _. True) (\<lambda>_ _. Inr ()) (\<lambda>_ _. Inr ()) id
     (\<lambda>_. Inr [small_server]) (\<lambda>_ _. Inr [''password'' \<mapsto> ''wrong'']) (\<lambda>_ _. Inr \<lparr>K8sJob_Succeeded = 1, K8sJob_Failed = 0\<rparr>)
     (\<lambda>_ _. Inr []) (\<lambda>_ _. Inr []) (\<lambda>_. Inr small_cluster) (\<lambda>_. Inr [small_zone]) (\<lambda>_ _. Inr small_zone) (\<lambda>_ _. Inl NotFound)
     (\<lambda>_ _. Inl NotFound) (\<lambda>_. Inr [small_server]) (\<lambda>_ _. Inr small_server) (\<lambda>_ _. Inr ())
     (\<lambda>_ _ _. Inl NotFound) (\<lambda>_ _ _. Inl NotFound) (\<lambda>_. Inr ()) (\<lambda>_. Inr []) (\<lambda>_. []) (\<lambda>_ q. q) id (\<lambda>_. []) (\<lambda>_ _. Inr ()) (\<lambda>_. ''abcdef'') (\<lambda>_. (''aaaaaa'', ''bbbbbb'', ''cccccc'')) (\<lambda>_. False) (\<lambda>_. False)
     ''uid'' 2 2 2 2)"

lemma quiet_ops_env_simps [simp]:
  "op_cache quiet_ops_env h key = Some pooled_root" "op_alive quiet_ops_env h conn"
  "op_cluster_servers quiet_ops_env h = Inr [small_server]" "op_secret quiet_ops_env h name = Inr [''password'' \<mapsto> ''wrong'']"
  "op_job quiet_ops_env h name = Inr \<lparr>K8sJob_Succeeded = 1, K8sJob_Failed = 0\<rparr>" "op_zones quiet_ops_env h = Inr [small_zone]"
  "op_zone quiet_ops_env h name = Inr small_zone" "op_write quiet_ops_env h call = Inr ()" "op_rand quiet_ops_env h = ''abcdef''"
  "op_owning_cluster quiet_ops_env h = Inr small_cluster" "op_zone_servers quiet_ops_env h = Inr [small_server]"
  "op_server quiet_ops_env h name = Inr small_server" "op_context quiet_ops_env h name = Inl NotFound"
  "op_ticked quiet_ops_env h = False" "op_conflict quiet_ops_env err = False" "op_uid quiet_ops_env = ''uid''"
  "op_CheckJobMaxRetries quiet_ops_env = 2" "op_WaitForJobRounds quiet_ops_env = 2" "op_DefaultStateWaitTimeout quiet_ops_env = 2"
  "op_ServerDeleteTimeoutSeconds quiet_ops_env = 2"
  "op_scale quiet_ops_env share q = q" "op_Value quiet_ops_env q = q" "op_rand3 quiet_ops_env h = (''aaaaaa'', ''bbbbbb'', ''cccccc'')"
  "conn_rows quiet_ops_env h sql params = Inr []" "conn_exec quiet_ops_env h sql params = Inr ()"
  by (simp_all add: quiet_ops_env_def quiet_db_def sdk_env.extend_def ops_env.fields_def)

theorem pooled_connection_accepts_any_password_witness:
  "op_secret quiet_ops_env [] ''root-secret'' = Inr [''password'' \<mapsto> ''wrong''] \<and>
   fst (utils_GetTenantRootOperationClient quiet_ops_env small_cluster ''t1'' ''root-secret'' []) = Ok pooled_root"
  using pooled_connection_accepts_any_password [of small_cluster quiet_ops_env "[]" small_server "[]" "''root-secret''"
      "[''password'' \<mapsto> ''wrong'']" "''t1''" "''right''" pooled_root]
  by (simp add: small_cluster_def pooled_root_def)

text \<open>
  An upgrade script counts as run only when the job made for it was read as succeeded: whatever
  the API server and the database answer, \<^verbatim>\<open>ExecuteUpgradeScript\<close> ends well only after it made a
  job that runs this script against the cluster with this image, and its last interaction is the
  read of that job with one success.
\<close>

theorem upgrade_script_ran:
  assumes "ExecuteUpgradeScript env c filepath extraOpt h = (Ok (), h')"
  shows "\<exists>es job j. h' = h @ es @ [ApiCall (GotJob (K8sJob_Name job) (Inr j))] \<and> K8sJob_Succeeded j = 1 \<and>
    ApiCall (CreatedJob job (Inr ())) \<in> set es \<and> K8sJob_Image job = Image (ClusterSpec_OBServerTemplate c) \<and>
    (\<exists>address rootserver password. job = script_job c (K8sJob_Name job) address rootserver password filepath extraOpt)"
proof -
  from assms obtain password h1 client h2 observers h3 address
    where reads: "ReadPassword env (Secret_Root (ClusterSpec_UserSecrets c)) h = (Ok password, h1)"
      "utils_GetSysOperationClient env c h1 = (Ok client, h2)" "db_ListServers env h2 = (Ok observers, h3)"
    and wait: "CheckJobWithTimeout (op_WaitForJobRounds env) (script_finished env c (''script-runner-'' @ op_rand env h3))
        (h3 @ [ApiCall (CreatedJob (script_job c (''script-runner-'' @ op_rand env h3) address (script_server observers) password
           filepath extraOpt) (Inr ()))]) = (Ok (), h')"
    unfolding ExecuteUpgradeScript_def Let_def bind_Ok_iff wrap_Ok_iff op_Ok_iffs by blast
  define job where job: "job = script_job c (''script-runner-'' @ op_rand env h3) address (script_server observers) password filepath extraOpt"
  obtain es3 where es3: "h3 = h @ es3"
    using extendsD [OF extends_password reads(1)] extendsD [OF extends_sys_client reads(2)]
      extendsD [OF extends_list_servers reads(3)] by auto
  have name: "K8sJob_Name job = ''script-runner-'' @ op_rand env h3" using job by (simp add: script_job_def)
  obtain es where "script_finished env c (K8sJob_Name job) (h3 @ ApiCall (CreatedJob job (Inr ())) # es) = (Ok True, h')"
    using check_job_Ok [OF wait extends_script_finished] unfolding job [symmetric] unfolding name [symmetric] by auto
  then obtain j where "h' = (h3 @ ApiCall (CreatedJob job (Inr ())) # es) @ [ApiCall (GotJob (K8sJob_Name job) (Inr j))]" "K8sJob_Succeeded j = 1"
    by (auto simp: script_finished_iff)
  with es3 have "h' = h @ (es3 @ ApiCall (CreatedJob job (Inr ())) # es) @ [ApiCall (GotJob (K8sJob_Name job) (Inr j))]" "K8sJob_Succeeded j = 1"
    by simp_all
  moreover have "K8sJob_Image job = Image (ClusterSpec_OBServerTemplate c)" using job by (auto simp: script_job_def)
  moreover have "\<exists>address rootserver password. job = script_job c (K8sJob_Name job) address rootserver password filepath extraOpt"
    using job name by metis
  ultimately show ?thesis by (intro exI [of _ "es3 @ ApiCall (CreatedJob job (Inr ())) # es"]) auto
qed

lemma quiet_sys_client: "utils_GetSysOperationClient quiet_ops_env small_cluster h = (Ok pooled_root, snd (utils_GetSysOperationClient quiet_ops_env small_cluster h))"
  by (simp add: utils_GetSysOperationClient_def utils_getSysClient_def listed_servers_def cluster_password_def ReadPassword_def
      GetConnector_def IsAlive_def Let_def op_read_def op_ask_def io_defs db_ListServers_def QueryList_def pooled_root_def
      small_cluster_def GetAnnotationField_def)

lemma quiet_script: "fst (ExecuteUpgradeScript quiet_ops_env small_cluster file extra h) = Ok ()"
proof -
  define g where "g h = snd (utils_GetSysOperationClient quiet_ops_env small_cluster h)" for h
  have "utils_GetSysOperationClient quiet_ops_env small_cluster h = (Ok pooled_root, g h)" for h
    unfolding g_def by (rule quiet_sys_client)
  then show ?thesis
    by (simp add: ExecuteUpgradeScript_def ReadPassword_def Let_def op_read_def op_call_def op_peek_def io_defs db_ListServers_def
        QueryList_def numeral_2_eq_2 script_finished_def GetJob_def job_running_def)
qed

theorem upgrade_script_ran_witness:
  "\<exists>job j es. snd (ExecuteUpgradeScript quiet_ops_env small_cluster ''/upgrade_pre.py'' [] []) = es @ [ApiCall (GotJob (K8sJob_Name job) (Inr j))] \<and>
    K8sJob_Succeeded j = 1 \<and> ApiCall (CreatedJob job (Inr ())) \<in> set es"
proof -
  have "ExecuteUpgradeScript quiet_ops_env small_cluster ''/upgrade_pre.py'' [] [] =
      (Ok (), snd (ExecuteUpgradeScript quiet_ops_env small_cluster ''/upgrade_pre.py'' [] []))"
    using quiet_script by (simp add: prod_eq_iff)
  from upgrade_script_ran [OF this] show ?thesis by auto
qed

text \<open>
  A job that has failed is not told from one that is running: the task goes on reading it until
  the timeout, and the timeout is what it reports.
\<close>

lemma failed_script_times_out:
  assumes "\<And>h. \<exists>j. op_job env h name = Inr j \<and> K8sJob_Succeeded j \<noteq> 1"
  shows "fst (CheckJobWithTimeout n (script_finished env c name) h) = Err (OtherError ''Timeout to wait for job'')"
proof (rule check_job_times_out)
  fix h
  obtain j where "op_job env h name = Inr j" "K8sJob_Succeeded j \<noteq> 1" using assms by blast
  then have "script_finished env c name h = (Ok False, h @ [ApiCall (GotJob name (Inr j))])"
    by (simp add: script_finished_iff)
  then show "fst (script_finished env c name h) = Ok False" by simp
qed

end
