(* ===== verification/Upgrade_Tasks.thy ===== *)
theory Upgrade_Tasks
  imports Connections OBCluster_Tasks
begin

text \<open>
  The tasks of \<^verbatim>\<open>internal/resource/obcluster/obcluster_task.go\<close> that upgrade a cluster, change its
  zones one after the other and create its users, with their helpers in \<^verbatim>\<open>utils.go\<close>. Tasks are
  programs over the log of their calls. The JSON text of the saved parameters is the value it
  stands for; the text layer is left out.
\<close>

section \<open>Users\<close>

definition ops_listOBZones :: "ops_env \<Rightarrow> OBZone list ops_io" where
  "ops_listOBZones env = wrap_io ''get obzone list'' (op_read (op_zones env) ListedZones)"

definition createUser :: "ops_env \<Rightarrow> OBCluster \<Rightarrow> string \<Rightarrow> string \<Rightarrow> string \<Rightarrow> unit ops_io" where
  "createUser env m userName secretName privilege =
     bind_io (wrap_io (''Get password from secret '' @ secretName @ '' failed'') (ReadPassword env secretName)) (\<lambda>password.
     bind_io (wrap_io ''Get oceanbase operation manager'' (utils_GetSysOperationClient env m)) (\<lambda>_.
     bind_io (wrap_io (''Create user '' @ userName) (db_CreateUser env userName)) (\<lambda>_.
     bind_io (wrap_io (''Set password for user '' @ userName) (db_SetUserPassword env userName password)) (\<lambda>_.
       wrap_io (''Grant privilege for user '' @ userName) (db_GrantPrivilege env privilege ''*.*'' userName)))))"

definition CreateUsers :: "ops_env \<Rightarrow> OBCluster \<Rightarrow> unit ops_io" where
  "CreateUsers env m =
     (let secrets = ClusterSpec_UserSecrets m
      in bind_io (wrap_io ''Create root user'' (createUser env m ''root'' (Secret_Root secrets) ''all'')) (\<lambda>_.
         bind_io (wrap_io ''Create operator user'' (createUser env m ''operator'' (Secret_Operator secrets) ''all'')) (\<lambda>_.
         bind_io (wrap_io ''Create monitor user'' (createUser env m ''monitor'' (Secret_Monitor secrets) ''select'')) (\<lambda>_.
           wrap_io ''Create proxyro user'' (createUser env m ''proxyro'' (Secret_ProxyRO secrets) ''select'')))))"

section \<open>Validation and scripts\<close>

definition ValidateUpgradeInfo :: "ops_env \<Rightarrow> OBCluster \<Rightarrow> unit ops_io" where
  "ValidateUpgradeInfo env m =
     bind_io (wrap_io (''Failed to get operation manager of obcluster '' @ Name m) (utils_GetSysOperationClient env m)) (\<lambda>_.
     bind_io (wrap_io (''Failed to get version of obcluster '' @ Name m) (db_GetVersion env)) (\<lambda>v.
     bind_io (deref_io v) (\<lambda>version.
     bind_io (RunJob env (Name m @ ''-upgrade-validate'') (Image (ClusterSpec_OBServerTemplate m)) (PodFields (ClusterSpec_OBServerTemplate m))
         (''/home/admin/oceanbase/bin/oceanbase-helper upgrade validate -s '' @ OBVersion_String version) []) (\<lambda>(_, _, err).
       case err of None \<Rightarrow> ret () | Some e \<Rightarrow> raise (wrap ''Upgrade is unsupported'' e)))))"

definition UpgradeCheck :: "ops_env \<Rightarrow> OBCluster \<Rightarrow> unit ops_io" where
  "UpgradeCheck env m = ExecuteUpgradeScript env m ''/home/admin/oceanbase/etc/upgrade_checker.py'' []"

definition BeginUpgrade :: "ops_env \<Rightarrow> OBCluster \<Rightarrow> unit ops_io" where
  "BeginUpgrade env m = ExecuteUpgradeScript env m ''/home/admin/oceanbase/etc/upgrade_pre.py'' []"

definition FinishUpgrade :: "ops_env \<Rightarrow> OBCluster \<Rightarrow> unit ops_io" where
  "FinishUpgrade env m = ExecuteUpgradeScript env m ''/home/admin/oceanbase/etc/upgrade_post.py'' []"

section \<open>Essential parameters\<close>

record ModelParameter =
  MP_Zone :: string
  MP_SvrIp :: string
  MP_SvrPort :: int
  MP_Name :: string
  MP_Value :: string
  MP_Scope :: string
  MP_EditLevel :: string
  MP_TenantID :: int
  MP_DataType :: string
  MP_Info :: string
  MP_Section :: string

definition parameter_of_row :: "row \<Rightarrow> ModelParameter" where
  "parameter_of_row r =
     \<lparr>MP_Zone = col_str r ''zone'', MP_SvrIp = col_str r ''svr_ip'', MP_SvrPort = col_int r ''svr_port'',
      MP_Name = col_str r ''name'', MP_Value = col_str r ''value'', MP_Scope = col_str r ''scope'',
      MP_EditLevel = col_str r ''edit_level'', MP_TenantID = col_int r ''tenant_id'',
      MP_DataType = col_str r ''data_type'', MP_Info = col_str r ''info'', MP_Section = col_str r ''section''\<rparr>"

definition zero_parameter :: ModelParameter where
  "zero_parameter = parameter_of_row []"

definition marshal_parameter :: "ModelParameter \<Rightarrow> json" where
  "marshal_parameter p =
     JObject [(''zone'', JString (MP_Zone p)), (''svrIp'', JString (MP_SvrIp p)), (''svrPort'', JNumber (MP_SvrPort p)),
       (''name'', JString (MP_Name p)), (''value'', JString (MP_Value p)), (''scope'', JString (MP_Scope p)),
       (''editLevel'', JString (MP_EditLevel p)), (''tenantId'', JNumber (MP_TenantID p)),
       (''dataType'', JString (MP_DataType p)), (''info'', JString (MP_Info p)), (''section'', JString (MP_Section p))]"

definition marshal_parameters :: "ModelParameter list \<Rightarrow> json" where
  "marshal_parameters ps = JArray (map marshal_parameter ps)"

text \<open>
  Decoding: a field is assigned from the member whose name it has up to case, null leaves it, and a
  value of another kind or a number outside of 64 bits is an error.
\<close>

definition set_str :: "(string \<Rightarrow> ModelParameter) \<Rightarrow> ModelParameter \<Rightarrow> json \<Rightarrow> ModelParameter option" where
  "set_str f p v = (case v of JString s \<Rightarrow> Some (f s) | JNull \<Rightarrow> Some p | _ \<Rightarrow> None)"

definition set_int :: "(int \<Rightarrow> ModelParameter) \<Rightarrow> ModelParameter \<Rightarrow> json \<Rightarrow> ModelParameter option" where
  "set_int f p v =
     (case v of JNumber i \<Rightarrow> if - (2 ^ 63) \<le> i \<and> i < 2 ^ 63 then Some (f i) else None | JNull \<Rightarrow> Some p | _ \<Rightarrow> None)"

definition unmarshal_member :: "ModelParameter \<Rightarrow> string \<times> json \<Rightarrow> ModelParameter option" where
  "unmarshal_member p kv =
     (let k = ToLower (fst kv); v = snd kv
      in if k = ''zone'' then set_str (\<lambda>s. p\<lparr>MP_Zone := s\<rparr>) p v
         else if k = ''svrip'' then set_str (\<lambda>s. p\<lparr>MP_SvrIp := s\<rparr>) p v
         else if k = ''svrport'' then set_int (\<lambda>i. p\<lparr>MP_SvrPort := i\<rparr>) p v
         else if k = ''name'' then set_str (\<lambda>s. p\<lparr>MP_Name := s\<rparr>) p v
         else if k = ''value'' then set_str (\<lambda>s. p\<lparr>MP_Value := s\<rparr>) p v
         else if k = ''scope'' then set_str (\<lambda>s. p\<lparr>MP_Scope := s\<rparr>) p v
         else if k = ''editlevel'' then set_str (\<lambda>s. p\<lparr>MP_EditLevel := s\<rparr>) p v
         else if k = ''tenantid'' then set_int (\<lambda>i. p\<lparr>MP_TenantID := i\<rparr>) p v
         else if k = ''datatype'' then set_str (\<lambda>s. p\<lparr>MP_DataType := s\<rparr>) p v
         else if k = ''info'' then set_str (\<lambda>s. p\<lparr>MP_Info := s\<rparr>) p v
         else if k = ''section'' then set_str (\<lambda>s. p\<lparr>MP_Section := s\<rparr>) p v
         else Some p)"

primrec unmarshal_members :: "(string \<times> json) list \<Rightarrow> ModelParameter \<Rightarrow> ModelParameter option" where
  "unmarshal_members [] p = Some p"
| "unmarshal_members (kv # kvs) p = Option.bind (unmarshal_member p kv) (unmarshal_members kvs)"

definition unmarshal_parameter :: "json \<Rightarrow> ModelParameter option" where
  "unmarshal_parameter v =
     (case v of JObject kvs \<Rightarrow> unmarshal_members kvs zero_parameter | JNull \<Rightarrow> Some zero_parameter | _ \<Rightarrow> None)"

primrec unmarshal_all :: "json list \<Rightarrow> ModelParameter list option" where
  "unmarshal_all [] = Some []"
| "unmarshal_all (v # vs) = Option.bind (unmarshal_parameter v) (\<lambda>p. map_option ((#) p) (unmarshal_all vs))"

definition unmarshal_parameters :: "json \<Rightarrow> ModelParameter list option" where
  "unmarshal_parameters v = (case v of JArray vs \<Rightarrow> unmarshal_all vs | JNull \<Rightarrow> Some [] | _ \<Rightarrow> None)"

definition UpgradeEssentialParameters :: "string list" where
  "UpgradeEssentialParameters = [''server_permanent_offline_time'', ''enable_rebalance'', ''enable_rereplication'']"

primrec read_parameters :: "ops_env \<Rightarrow> string list \<Rightarrow> row list ops_io" where
  "read_parameters env [] = ret []"
| "read_parameters env (name # names) =
     bind_io (wrap_io (''Failed to get parameter '' @ name) (db_GetParameter env name None)) (\<lambda>rows.
     bind_io (read_parameters env names) (\<lambda>rest. ret (rows @ rest)))"

definition contextObjectName :: "OBCluster \<Rightarrow> string" where
  "contextObjectName m = ClusterSpec_ClusterName m @ ''-'' @ show_int (ClusterSpec_ClusterId m) @ ''-'' @ ''essential-parameters''"

definition BackupEssentialParameters :: "ops_env \<Rightarrow> OBCluster \<Rightarrow> unit ops_io" where
  "BackupEssentialParameters env m =
     bind_io (wrap_io (''Failed to get operation manager of obcluster '' @ Name m) (utils_GetSysOperationClient env m)) (\<lambda>_.
     bind_io (read_parameters env UpgradeEssentialParameters) (\<lambda>rows.
       wrap_io ''Create context secret object''
         (op_call env (CreatedContextSecret (contextObjectName m) (marshal_parameters (map parameter_of_row rows))))))"

definition restore_parameter :: "ops_env \<Rightarrow> ModelParameter \<Rightarrow> unit ops_io" where
  "restore_parameter env p =
     wrap_io (''Failed to set parameter '' @ MP_Name p @ '' to '' @ MP_SvrIp p @ '':'' @ show_int (MP_SvrPort p))
       (db_SetParameter env (MP_Name p) (SQL_Str (MP_Value p))
          (Some (''server'', SQL_Str (MP_SvrIp p @ '':'' @ show_int (MP_SvrPort p)))))"

definition RestoreEssentialParameters :: "ops_env \<Rightarrow> OBCluster \<Rightarrow> unit ops_io" where
  "RestoreEssentialParameters env m =
     bind_io (wrap_io (''Failed to get operation manager of obcluster '' @ Name m) (utils_GetSysOperationClient env m)) (\<lambda>_.
     bind_io (catch_io (op_read (\<lambda>h. op_context env h (contextObjectName m)) (GotContextSecret (contextObjectName m)))) (\<lambda>r.
       case r of
         Inl _ \<Rightarrow> ret ()
       | Inr content \<Rightarrow>
           (case Option.bind content unmarshal_parameters of
              None \<Rightarrow> raise (OtherError ''Parse encoded parameters failed'')
            | Some ps \<Rightarrow>
                bind_io (each_io (restore_parameter env) ps) (\<lambda>_.
                  log_io (op_call env (DeletedContextSecret (contextObjectName m)))))))"

section \<open>Zone after zone\<close>

definition zone_upgraded :: "string \<Rightarrow> string \<Rightarrow> OBZone list \<Rightarrow> bool" where
  "zone_upgraded img zoneName zones \<longleftrightarrow>
     list_ex (\<lambda>z. Name z = zoneName \<and> Status z = zonestatus_Running \<and> ZoneStatus_Image z = img) zones"

definition WaitOBZoneUpgradeFinished :: "ops_env \<Rightarrow> OBCluster \<Rightarrow> string \<Rightarrow> unit ops_io" where
  "WaitOBZoneUpgradeFinished env m zoneName =
     wrap_io ''Timeout to wait obzone upgrade finished''
       (CheckJobWithTimeout (op_WaitForJobRounds env)
          (bind_io (wrap_io ''Failed to get obzone list'' (ops_listOBZones env)) (\<lambda>zones.
             ret (zone_upgraded (Image (ClusterSpec_OBServerTemplate m)) zoneName zones))))"

definition with_image :: "string \<Rightarrow> OBZone \<Rightarrow> OBZone" where
  "with_image img z = z\<lparr>ZoneSpec_OBServerTemplate := (ZoneSpec_OBServerTemplate z)\<lparr>Image := img\<rparr>\<rparr>"

definition upgrade_zone :: "ops_env \<Rightarrow> OBCluster \<Rightarrow> OBZone \<Rightarrow> unit ops_io" where
  "upgrade_zone env m zone =
     bind_io (wrap_io ''Failed to update obzone image''
         (op_call env (UpdatedOBZone (with_image (Image (ClusterSpec_OBServerTemplate m)) zone)))) (\<lambda>_.
       wrap_io (''Wait obzone '' @ Name zone @ '' upgrade finish failed'') (WaitOBZoneUpgradeFinished env m (Name zone)))"

definition RollingUpgradeByZone :: "ops_env \<Rightarrow> OBCluster \<Rightarrow> unit ops_io" where
  "RollingUpgradeByZone env m =
     RetryOnConflict (op_conflict env) 4
       (bind_io (wrap_io ''Failed to get obzone list'' (ops_listOBZones env)) (each_io (upgrade_zone env m)))"

text \<open>A wait of \<^verbatim>\<open>rollingUpdateZones\<close>; when its rounds are used up it just ends.\<close>

primrec wait_zone_status :: "ops_env \<Rightarrow> string \<Rightarrow> string \<Rightarrow> nat \<Rightarrow> unit ops_io" where
  "wait_zone_status env name status 0 = ret ()"
| "wait_zone_status env name status (Suc n) =
     bind_io (op_peek (op_ticked env)) (\<lambda>ticked.
       if ticked then raise (OtherError ''task timeout'')
       else bind_io (wrap_io ''get obzone'' (op_read (\<lambda>h. op_zone env h name) (GotOneZone name))) (\<lambda>z.
         if Status z = status then ret () else wait_zone_status env name status n))"

definition change_zone :: "ops_env \<Rightarrow> (OBZone \<Rightarrow> OBZone) \<Rightarrow> string \<Rightarrow> unit ops_io" where
  "change_zone env changer name =
     RetryOnConflict (op_conflict env) 4
       (bind_io (wrap_io ''get obzone'' (op_read (\<lambda>h. op_zone env h name) (GotOneZone name))) (\<lambda>z.
          op_call env (UpdatedOBZone (changer z))))"

definition roll_zone :: "ops_env \<Rightarrow> (OBZone \<Rightarrow> OBZone) \<Rightarrow> string \<Rightarrow> string \<Rightarrow> nat \<Rightarrow> OBZone \<Rightarrow> unit ops_io" where
  "roll_zone env changer workingStatus targetStatus timeoutSeconds obzone =
     bind_io (wrap_io ''update obzone'' (change_zone env changer (Name obzone))) (\<lambda>_.
     bind_io (wait_zone_status env (Name obzone) workingStatus timeoutSeconds) (\<lambda>_.
       wait_zone_status env (Name obzone) targetStatus timeoutSeconds))"

definition rollingUpdateZones :: "ops_env \<Rightarrow> (OBZone \<Rightarrow> OBZone) \<Rightarrow> string \<Rightarrow> string \<Rightarrow> nat \<Rightarrow> unit ops_io" where
  "rollingUpdateZones env changer workingStatus targetStatus timeoutSeconds =
     bind_io (wrap_io ''list obzones'' (ops_listOBZones env))
       (each_io (roll_zone env changer workingStatus targetStatus timeoutSeconds))"

definition ScaleOBZonesVertically :: "ops_env \<Rightarrow> OBCluster \<Rightarrow> unit ops_io" where
  "ScaleOBZonesVertically env m =
     rollingUpdateZones env (changeZonesWhenScaling m) zonestatus_ScaleVertically zonestatus_Running (op_DefaultStateWaitTimeout env)"

definition ModifyServerTemplate :: "ops_env \<Rightarrow> OBCluster \<Rightarrow> unit ops_io" where
  "ModifyServerTemplate env m =
     rollingUpdateZones env (changeZonesWhenModifyingServerTemplate m) zonestatus_ModifyServerTemplate zonestatus_Running
       (op_DefaultStateWaitTimeout env)"

definition RollingUpdateOBZones :: "ops_env \<Rightarrow> OBCluster \<Rightarrow> unit ops_io" where
  "RollingUpdateOBZones env m =
     rollingUpdateZones env (changeZonesWhenUpdatingOBServers m) zonestatus_RollingUpdateServers zonestatus_Running
       (op_ServerDeleteTimeoutSeconds env)"

section \<open>Parameter objects\<close>

definition new_obparameter :: "ops_env \<Rightarrow> OBCluster \<Rightarrow> Parameter \<Rightarrow> OBParameter" where
  "new_obparameter env m parameter =
     \<lparr>Name = generateParameterName m (Param_Name parameter), Namespace = Namespace m, Annotations = Map.empty,
      Labels = [''ref-uid'' \<mapsto> op_uid env, ''ref-obcluster'' \<mapsto> Name m], Finalizers = [], DeletionTimestamp = None,
      Status = [], Ctx = None, OBParameterSpec_TenantName = [], OBParameterSpec_Parameter = parameter\<rparr>"

definition CreateOBParameter :: "ops_env \<Rightarrow> OBCluster \<Rightarrow> Parameter \<Rightarrow> unit ops_io" where
  "CreateOBParameter env m parameter =
     wrap_io ''create obparameter''
       (op_call env (CreatedParameter (new_obparameter env m parameter) (ClusterSpec_ClusterName m) (ClusterSpec_ClusterId m)))"

definition get_obparameter :: "ops_env \<Rightarrow> OBCluster \<Rightarrow> Parameter \<Rightarrow> OBParameter ops_io" where
  "get_obparameter env m parameter =
     (let name = generateParameterName m (Param_Name parameter)
      in wrap_io ''Get obparameter'' (op_read (\<lambda>h. op_parameter env h name) (GotParameterObject name)))"

definition UpdateOBParameter :: "ops_env \<Rightarrow> OBCluster \<Rightarrow> Parameter \<Rightarrow> unit ops_io" where
  "UpdateOBParameter env m parameter =
     RetryOnConflict (op_conflict env) 4
       (bind_io (get_obparameter env m parameter) (\<lambda>p.
          wrap_io ''Update obparameter''
            (op_call env (UpdatedParameter
              (p\<lparr>OBParameterSpec_Parameter := (OBParameterSpec_Parameter p)\<lparr>Param_Value := Param_Value parameter\<rparr>\<rparr>)))))"

definition DeleteOBParameter :: "ops_env \<Rightarrow> OBCluster \<Rightarrow> Parameter \<Rightarrow> unit ops_io" where
  "DeleteOBParameter env m parameter =
     bind_io (get_obparameter env m parameter) (\<lambda>p.
       wrap_io ''Delete obparameter'' (op_call env (DeletedParameter (Name p))))"

section \<open>Lemmas\<close>

subsection \<open>Statements in the log\<close>

fun executed :: "'k event \<Rightarrow> (string \<times> sql_value list) option" where
  "executed (Executed t sql params (Inr _)) = Some (sql, params)"
| "executed _ = None"

lemma silent_op [io_silent]:
  "emits_none executed (op_read answer call)" "emits_none executed (op_call env call'')"
  "emits_none executed (op_ask answer' call')" "emits_none executed (op_peek answer'')"
  by (auto simp: op_read_def op_call_def op_ask_def op_peek_def emits_none_def perform_def List.map_filter_def)

lemma silent_query [io_silent]: "emits_none executed (QueryList env sql params)"
  unfolding QueryList_def by (intro io_silent) simp

lemma silent_list_servers [io_silent]: "emits_none executed (db_ListServers env)"
  unfolding db_ListServers_def by (intro io_silent)

lemma silent_connector [io_silent]: "emits_none executed (GetConnector env ds)"
  by (auto simp: GetConnector_def Connector_Init_def IsAlive_def Let_def intro!: io_silent split: option.split)

lemma silent_password [io_silent]: "emits_none executed (ReadPassword env name)"
  unfolding ReadPassword_def by (intro io_silent)

lemma silent_sys_client [io_silent]: "emits_none executed (utils_GetSysOperationClient env c)"
proof -
  have "emits_none executed (sys_client_of env c source servers)" for source servers
    by (induction servers) (auto intro!: io_silent split: sum.split)
  then have sys: "emits_none executed (utils_getSysClient env c user tenant secret)" for user tenant secret
    unfolding utils_getSysClient_def listed_servers_def cluster_password_def by (auto intro!: io_silent)
  have "emits_none executed (source_client_of env address source servers)" for address source servers
    by (induction servers) (auto simp: Let_def intro!: io_silent split: sum.split prod.split)
  with sys show ?thesis
    unfolding utils_GetSysOperationClient_def getSysClientFromSourceCluster_def cluster_password_def Let_def
    by (auto intro!: io_silent split: sum.split)
qed

lemma silent_read_parameters [io_silent]: "emits_none executed (read_parameters env names)"
  by (induction names) (auto simp: db_GetParameter_def intro!: io_silent)

text \<open>The statements of a run, where it went well.\<close>

definition statements :: "'a ops_io \<Rightarrow> (string \<times> sql_value list) list \<Rightarrow> bool" where
  "statements f sqls \<longleftrightarrow> (\<forall>h x h'. f h = (Ok x, h') \<longrightarrow> (\<exists>es. h' = h @ es \<and> List.map_filter executed es = sqls))"

lemma statementsD: "statements f sqls \<Longrightarrow> f h = (Ok x, h') \<Longrightarrow> \<exists>es. h' = h @ es \<and> List.map_filter executed es = sqls"
  by (auto simp: statements_def)

lemma statements_silent: "emits_none executed f \<Longrightarrow> statements f []"
  unfolding statements_def using emits_noneD by blast

lemma statements_wrap: "statements f sqls \<Longrightarrow> statements (wrap_io msg f) sqls"
  by (simp add: statements_def)

lemma statements_bind:
  assumes "statements f sqls" and "\<And>x h h'. f h = (Ok x, h') \<Longrightarrow> statements (g x) sqls'"
  shows "statements (bind_io f g) (sqls @ sqls')"
proof -
  {
    fix h y h''
    assume "bind_io f g h = (Ok y, h'')"
    then obtain x h' where f: "f h = (Ok x, h')" and g: "g x h' = (Ok y, h'')" by (auto simp: bind_Ok_iff)
    obtain es where "h' = h @ es" "List.map_filter executed es = sqls" using statementsD [OF assms(1) f] by blast
    moreover obtain es' where "h'' = h' @ es'" "List.map_filter executed es' = sqls'" using statementsD [OF assms(2) [OF f] g] by blast
    ultimately have "\<exists>es. h'' = h @ es \<and> List.map_filter executed es = sqls @ sqls'"
      by (intro exI [of _ "es @ es'"]) (simp add: map_filter_append)
  }
  then show ?thesis by (simp add: statements_def)
qed

lemma statements_exec: "statements (ExecWithTimeout env t sql params) [(sql, params)]"
  by (auto simp: statements_def ExecWithTimeout_Ok_iff List.map_filter_def)

lemma statements_each: "(\<And>x. x \<in> set xs \<Longrightarrow> statements (f x) (sqls x)) \<Longrightarrow> statements (each_io f xs) (concat (map sqls xs))"
proof (induction xs)
  case Nil
  show ?case by (simp add: statements_silent io_silent)
next
  case (Cons x xs)
  then show ?case by (auto intro!: statements_bind)
qed

subsection \<open>JSON\<close>

lemma lower_keys:
  "ToLower ''zone'' = ''zone''" "ToLower ''svrIp'' = ''svrip''" "ToLower ''svrPort'' = ''svrport''" "ToLower ''name'' = ''name''"
  "ToLower ''value'' = ''value''" "ToLower ''scope'' = ''scope''" "ToLower ''editLevel'' = ''editlevel''"
  "ToLower ''tenantId'' = ''tenantid''" "ToLower ''dataType'' = ''datatype''" "ToLower ''info'' = ''info''" "ToLower ''section'' = ''section''"
  by code_simp+

definition int64_fields :: "ModelParameter \<Rightarrow> bool" where
  "int64_fields p \<longleftrightarrow> (\<forall>i \<in> {MP_SvrPort p, MP_TenantID p}. - (2 ^ 63) \<le> i \<and> i < 2 ^ 63)"

lemma unmarshal_marshal_parameter: "int64_fields p \<Longrightarrow> unmarshal_parameter (marshal_parameter p) = Some p"
  by (simp add: unmarshal_parameter_def marshal_parameter_def unmarshal_member_def lower_keys set_str_def set_int_def
      int64_fields_def zero_parameter_def parameter_of_row_def del: One_nat_def)

lemma unmarshal_marshal_parameters: "\<forall>p \<in> set ps. int64_fields p \<Longrightarrow> unmarshal_parameters (marshal_parameters ps) = Some ps"
proof -
  assume "\<forall>p \<in> set ps. int64_fields p"
  then have "unmarshal_all (map marshal_parameter ps) = Some ps"
    by (induction ps) (simp_all add: unmarshal_marshal_parameter)
  then show ?thesis by (simp add: unmarshal_parameters_def marshal_parameters_def)
qed

subsection \<open>One zone at a time\<close>

text \<open>
  What a log says of the zone under change: its name is kept from an update that was accepted until
  a listing shows the zone running with the new image. An update while there is one is a violation.
\<close>

primrec rolling :: "string \<Rightarrow> ops_log \<Rightarrow> string option \<Rightarrow> string option option" where
  "rolling img [] p = Some p"
| "rolling img (e # es) p =
     (case e of
        ApiCall (UpdatedOBZone z r) \<Rightarrow>
          if p \<noteq> None then None else rolling img es (case r of Inl _ \<Rightarrow> None | Inr _ \<Rightarrow> Some (Name z))
      | ApiCall (ListedZones (Inr zones)) \<Rightarrow>
          rolling img es (case p of
             None \<Rightarrow> None
           | Some n \<Rightarrow> if \<exists>z \<in> set zones. Name z = n \<and> Status z = zonestatus_Running \<and> ZoneStatus_Image z = img then None else Some n)
      | _ \<Rightarrow> rolling img es p)"

lemma rolling_append: "rolling img (xs @ ys) p = Option.bind (rolling img xs p) (rolling img ys)"
proof (induction xs arbitrary: p)
  case (Cons e es)
  then show ?case by (auto split: event.splits ops_api.splits sum.splits)
qed simp

text \<open>From the zone \<open>p\<close> under change, a program comes to an outcome and a zone as \<open>Q\<close> says, and violates nothing.\<close>

definition rolls :: "string \<Rightarrow> string option \<Rightarrow> 'a ops_io \<Rightarrow> ('a outcome \<Rightarrow> string option \<Rightarrow> bool) \<Rightarrow> bool" where
  "rolls img p f Q \<longleftrightarrow> (\<forall>h. \<exists>r es q. f h = (r, h @ es) \<and> rolling img es p = Some q \<and> Q r q)"

lemma rollsE:
  assumes "rolls img p f Q"
  obtains r es q where "f h = (r, h @ es)" "rolling img es p = Some q" "Q r q"
  using assms unfolding rolls_def by blast

lemma rolls_bind:
  assumes f: "rolls img p f Q" and g: "\<And>x q. Q (Ok x) q \<Longrightarrow> rolls img q (g x) R"
    and stops: "\<And>err q. Q (Err err) q \<Longrightarrow> R (Err err) q" "\<And>q. Q Panic q \<Longrightarrow> R Panic q"
  shows "rolls img p (bind_io f g) R"
  unfolding rolls_def
proof
  fix h
  obtain r es q where f: "f h = (r, h @ es)" "rolling img es p = Some q" "Q r q" by (rule rollsE [OF f])
  show "\<exists>r es q. bind_io f g h = (r, h @ es) \<and> rolling img es p = Some q \<and> R r q"
  proof (cases r)
    case (Ok x)
    then obtain r' es' q' where "g x (h @ es) = (r', (h @ es) @ es')" "rolling img es' q = Some q'" "R r' q'"
      using g f(3) by (metis rollsE)
    with Ok f show ?thesis by (intro exI [of _ r'] exI [of _ "es @ es'"]) (simp add: bind_io_def rolling_append)
  next
    case (Err err)
    with f stops show ?thesis by (intro exI [of _ "Err err"] exI [of _ es]) (simp add: bind_io_def)
  next
    case Panic
    with f stops show ?thesis by (intro exI [of _ Panic] exI [of _ es]) (simp add: bind_io_def)
  qed
qed

lemma rolls_mono: "rolls img p f Q \<Longrightarrow> (\<And>r q. Q r q \<Longrightarrow> R r q) \<Longrightarrow> rolls img p f R"
  unfolding rolls_def by blast

lemma rolls_ret: "Q (Ok x) p \<Longrightarrow> rolls img p (ret x) Q"
  by (simp add: rolls_def ret_def)

lemma rolls_raise: "Q (Err err) p \<Longrightarrow> rolls img p (raise err) Q"
  by (simp add: rolls_def raise_def)

lemma rolls_wrap: "rolls img p f (\<lambda>r. Q (case r of Ok x \<Rightarrow> Ok x | Err err \<Rightarrow> Err (wrap msg err) | Panic \<Rightarrow> Panic)) \<Longrightarrow> rolls img p (wrap_io msg f) Q"
  unfolding rolls_def
proof
  fix h
  assume "\<forall>h. \<exists>r es q. f h = (r, h @ es) \<and> rolling img es p = Some q \<and>
      Q (case r of Ok x \<Rightarrow> Ok x | Err err \<Rightarrow> Err (wrap msg err) | Panic \<Rightarrow> Panic) q"
  then obtain r es q where "f h = (r, h @ es)" "rolling img es p = Some q"
    "Q (case r of Ok x \<Rightarrow> Ok x | Err err \<Rightarrow> Err (wrap msg err) | Panic \<Rightarrow> Panic) q" by blast
  then show "\<exists>r es q. wrap_io msg f h = (r, h @ es) \<and> rolling img es p = Some q \<and> Q r q"
    by (cases r) (auto simp: wrap_io_def)
qed

text \<open>A listing: an error of it is no conflict, and a zone that is seen upgraded is no longer under change.\<close>

definition listing_plain :: "ops_env \<Rightarrow> bool" where
  "listing_plain env \<longleftrightarrow> (\<forall>h err. op_zones env h = Inl err \<longrightarrow> \<not> op_conflict env err)"

definition conflict_seen_through :: "ops_env \<Rightarrow> bool" where
  "conflict_seen_through env \<longleftrightarrow> (\<forall>msg err. op_conflict env (wrap msg err) = op_conflict env err) \<and>
     \<not> op_conflict env (OtherError ''Timeout to wait for job'')"

lemma listed_zones: "op_zones env h = Inr zones \<Longrightarrow> ops_listOBZones env h = (Ok zones, h @ [ApiCall (ListedZones (Inr zones))])"
  "op_zones env h = Inl err \<Longrightarrow> ops_listOBZones env h = (Err (wrap ''get obzone list'' err), h @ [ApiCall (ListedZones (Inl err))])"
  by (simp_all add: ops_listOBZones_def op_read_def io_defs)

lemma rolls_listing:
  assumes "listing_plain env" "conflict_seen_through env"
  shows "rolls img (Some n) (bind_io (wrap_io msg (ops_listOBZones env)) (\<lambda>zones. ret (zone_upgraded img n zones)))
    (\<lambda>r q. case r of Ok b \<Rightarrow> q = (if b then None else Some n) | Err err \<Rightarrow> \<not> op_conflict env err | Panic \<Rightarrow> False)"
  unfolding rolls_def
proof
  fix h
  show "\<exists>r es q. bind_io (wrap_io msg (ops_listOBZones env)) (\<lambda>zones. ret (zone_upgraded img n zones)) h = (r, h @ es) \<and>
      rolling img es (Some n) = Some q \<and>
      (case r of Ok b \<Rightarrow> q = (if b then None else Some n) | Err err \<Rightarrow> \<not> op_conflict env err | Panic \<Rightarrow> False)"
    using assms
    by (cases "op_zones env h") (simp_all add: listed_zones io_defs listing_plain_def conflict_seen_through_def zone_upgraded_def list_ex_iff)
qed

lemma rolls_check_job:
  assumes "rolls img (Some n) f (\<lambda>r q. case r of Ok b \<Rightarrow> q = (if b then None else Some n) | Err err \<Rightarrow> \<not> op_conflict env err | Panic \<Rightarrow> False)"
    and "conflict_seen_through env"
  shows "rolls img (Some n) (CheckJobWithTimeout k f) (\<lambda>r q. case r of Ok _ \<Rightarrow> q = None | Err err \<Rightarrow> \<not> op_conflict env err | Panic \<Rightarrow> False)"
proof (induction k)
  case 0
  show ?case using assms(2) by (simp add: rolls_raise conflict_seen_through_def)
next
  case (Suc k)
  show ?case unfolding CheckJobWithTimeout.simps
    by (rule rolls_bind [OF assms(1)]) (use Suc in \<open>auto intro: rolls_ret split: if_splits\<close>)
qed

lemma rolls_upgrade_zone:
  assumes "listing_plain env" "conflict_seen_through env"
  shows "rolls (Image (ClusterSpec_OBServerTemplate m)) None (upgrade_zone env m zone)
    (\<lambda>r q. case r of Ok _ \<Rightarrow> q = None | Err err \<Rightarrow> op_conflict env err \<longrightarrow> q = None | Panic \<Rightarrow> False)"
proof -
  let ?img = "Image (ClusterSpec_OBServerTemplate m)"
  let ?up = "wrap_io ''Failed to update obzone image'' (op_call env (UpdatedOBZone (with_image ?img zone)))"
  have update: "rolls ?img None ?up (\<lambda>r q. case r of Ok _ \<Rightarrow> q = Some (Name zone) | Err _ \<Rightarrow> q = None | Panic \<Rightarrow> False)"
    unfolding rolls_def
  proof
    fix h
    show "\<exists>r es q. ?up h = (r, h @ es) \<and> rolling ?img es None = Some q \<and>
        (case r of Ok _ \<Rightarrow> q = Some (Name zone) | Err _ \<Rightarrow> q = None | Panic \<Rightarrow> False)"
      by (cases "op_write env h (UpdatedOBZone (with_image ?img zone))") (simp_all add: op_call_def io_defs with_image_def)
  qed
  have wait: "rolls ?img (Some (Name zone)) (WaitOBZoneUpgradeFinished env m (Name zone))
      (\<lambda>r q. case r of Ok _ \<Rightarrow> q = None | Err err \<Rightarrow> \<not> op_conflict env err | Panic \<Rightarrow> False)"
    unfolding WaitOBZoneUpgradeFinished_def
    by (rule rolls_wrap, rule rolls_mono [OF rolls_check_job [OF rolls_listing [OF assms] assms(2)]])
      (use assms(2) in \<open>auto simp: conflict_seen_through_def split: outcome.splits\<close>)
  show ?thesis unfolding upgrade_zone_def
  proof (rule rolls_bind [OF update])
    fix x :: unit and q :: "string option"
    assume "case Ok x of Ok _ \<Rightarrow> q = Some (Name zone) | Err _ \<Rightarrow> q = None | Panic \<Rightarrow> False"
    then have q: "q = Some (Name zone)" by simp
    show "rolls ?img q (wrap_io (''Wait obzone '' @ Name zone @ '' upgrade finish failed'') (WaitOBZoneUpgradeFinished env m (Name zone)))
        (\<lambda>r q. case r of Ok _ \<Rightarrow> q = None | Err err \<Rightarrow> op_conflict env err \<longrightarrow> q = None | Panic \<Rightarrow> False)"
      unfolding q by (rule rolls_wrap, rule rolls_mono [OF wait])
        (use assms(2) in \<open>auto simp: conflict_seen_through_def split: outcome.splits\<close>)
  qed simp_all
qed

lemma rolls_each:
  assumes "\<And>x. rolls img None (f x) Q" "\<And>q. Q (Ok ()) q \<Longrightarrow> q = None" "Q (Ok ()) None"
  shows "rolls img None (each_io f xs) Q"
proof (induction xs)
  case Nil
  show ?case by (simp add: rolls_ret assms)
next
  case (Cons x xs)
  show ?case unfolding each_io.simps by (rule rolls_bind [OF assms(1)]) (use Cons assms(2) in auto)
qed

lemma rolls_retry:
  assumes "rolls img None f (\<lambda>r q. case r of Ok _ \<Rightarrow> q = None | Err err \<Rightarrow> op_conflict env err \<longrightarrow> q = None | Panic \<Rightarrow> False)"
  shows "rolls img None (RetryOnConflict (op_conflict env) k f) (\<lambda>r q. case r of Ok _ \<Rightarrow> q = None | Err _ \<Rightarrow> True | Panic \<Rightarrow> False)"
proof (induction k)
  case 0
  show ?case unfolding RetryOnConflict.simps by (rule rolls_mono [OF assms]) (simp split: outcome.splits)
next
  case (Suc k)
  have caught: "rolls img None (catch_io f)
      (\<lambda>r q. case r of Ok (Inr _) \<Rightarrow> q = None | Ok (Inl err) \<Rightarrow> op_conflict env err \<longrightarrow> q = None | _ \<Rightarrow> False)"
    unfolding rolls_def
  proof
    fix h
    obtain r es q where "f h = (r, h @ es)" "rolling img es None = Some q"
      "case r of Ok _ \<Rightarrow> q = None | Err err \<Rightarrow> op_conflict env err \<longrightarrow> q = None | Panic \<Rightarrow> False" by (rule rollsE [OF assms])
    then show "\<exists>r es q. catch_io f h = (r, h @ es) \<and> rolling img es None = Some q \<and>
        (case r of Ok (Inr _) \<Rightarrow> q = None | Ok (Inl err) \<Rightarrow> op_conflict env err \<longrightarrow> q = None | _ \<Rightarrow> False)"
      by (cases r) (auto simp: catch_io_def)
  qed
  show ?case unfolding RetryOnConflict.simps
  proof (rule rolls_bind [OF caught])
    fix x and q :: "string option"
    assume "case Ok x of Ok (Inr _) \<Rightarrow> q = None | Ok (Inl err) \<Rightarrow> op_conflict env err \<longrightarrow> q = None | _ \<Rightarrow> False"
    then show "rolls img q (case x of Inl err \<Rightarrow> if op_conflict env err then RetryOnConflict (op_conflict env) k f else raise err
        | Inr _ \<Rightarrow> ret ()) (\<lambda>r q. case r of Ok _ \<Rightarrow> q = None | Err _ \<Rightarrow> True | Panic \<Rightarrow> False)"
      using Suc by (cases x) (auto intro: rolls_ret rolls_raise)
  qed (simp_all split: sum.splits)
qed

section \<open>Properties\<close>

text \<open>
  C9. An upgrade takes the zones one at a time. Whatever the API server answers, once the update of a
  zone to the new image was accepted the next update of a zone comes only after a listing in which
  that zone is running with the new image, across all attempts that conflicts cause; and when the
  task ends well, every zone it updated was seen so. The hypotheses are those of the API server's
  client: a wrapped conflict is still seen as one, and a listing does not end in a conflict.
\<close>

theorem rolling_upgrade_one_zone_at_a_time:
  assumes "listing_plain env" "conflict_seen_through env" "RollingUpgradeByZone env m h = (r, h')"
  shows "\<exists>es p. h' = h @ es \<and> rolling (Image (ClusterSpec_OBServerTemplate m)) es None = Some p \<and> (r = Ok () \<longrightarrow> p = None)"
proof -
  let ?img = "Image (ClusterSpec_OBServerTemplate m)"
  have "rolls ?img None (bind_io (wrap_io ''Failed to get obzone list'' (ops_listOBZones env)) (each_io (upgrade_zone env m)))
      (\<lambda>r q. case r of Ok _ \<Rightarrow> q = None | Err err \<Rightarrow> op_conflict env err \<longrightarrow> q = None | Panic \<Rightarrow> False)"
  proof (rule rolls_bind [where Q = "\<lambda>r q. q = None \<and> r \<noteq> Panic"])
    show "rolls ?img None (wrap_io ''Failed to get obzone list'' (ops_listOBZones env)) (\<lambda>r q. q = None \<and> r \<noteq> Panic)"
      unfolding rolls_def
    proof
      fix h
      show "\<exists>r es q. wrap_io ''Failed to get obzone list'' (ops_listOBZones env) h = (r, h @ es) \<and>
          rolling ?img es None = Some q \<and> q = None \<and> r \<noteq> Panic"
        by (cases "op_zones env h") (simp_all add: listed_zones io_defs)
    qed
  next
    fix zones and q :: "string option"
    assume "q = None \<and> (Ok zones :: OBZone list outcome) \<noteq> Panic"
    then show "rolls ?img q (each_io (upgrade_zone env m) zones)
        (\<lambda>r q. case r of Ok _ \<Rightarrow> q = None | Err err \<Rightarrow> op_conflict env err \<longrightarrow> q = None | Panic \<Rightarrow> False)"
      using rolls_each [OF rolls_upgrade_zone [OF assms(1,2)]] by simp
  qed simp_all
  from rolls_retry [OF this, of 4] have "rolls ?img None (RollingUpgradeByZone env m)
      (\<lambda>r q. case r of Ok _ \<Rightarrow> q = None | Err _ \<Rightarrow> True | Panic \<Rightarrow> False)" unfolding RollingUpgradeByZone_def .
  then obtain r' es q where "RollingUpgradeByZone env m h = (r', h @ es)" "rolling ?img es None = Some q"
    "case r' of Ok _ \<Rightarrow> q = None | Err _ \<Rightarrow> True | Panic \<Rightarrow> False" by (rule rollsE)
  with assms(3) show ?thesis by auto
qed

definition upgraded_env :: ops_env where
  "upgraded_env = quiet_ops_env\<lparr>op_zones := \<lambda>_. Inr [small_zone\<lparr>Status := zonestatus_Running, ZoneStatus_Image := Image (ClusterSpec_OBServerTemplate small_cluster)\<rparr>]\<rparr>"

theorem rolling_upgrade_one_zone_at_a_time_witness:
  "\<exists>es. RollingUpgradeByZone upgraded_env small_cluster [] = (Ok (), es) \<and>
    rolling (Image (ClusterSpec_OBServerTemplate small_cluster)) es None = Some None \<and> List.length es = 3"
proof -
  let ?run = "RollingUpgradeByZone upgraded_env small_cluster []"
  have "listing_plain upgraded_env" "conflict_seen_through upgraded_env"
    by (simp_all add: upgraded_env_def listing_plain_def conflict_seen_through_def)
  moreover have run: "?run = (Ok (), snd ?run)" "List.length (snd ?run) = 3"
    by (simp_all add: upgraded_env_def RollingUpgradeByZone_def upgrade_zone_def WaitOBZoneUpgradeFinished_def ops_listOBZones_def
        op_read_def op_call_def io_defs numeral_2_eq_2 zone_upgraded_def eval_nat_numeral)
  ultimately show ?thesis using rolling_upgrade_one_zone_at_a_time [OF _ _ run(1)] run by auto
qed

text \<open>
  A zone that is changed by \<^verbatim>\<open>rollingUpdateZones\<close> need not come back: where the zones are read as
  never reaching the target status, the waits run out without an error, each following zone is
  changed all the same and the task ends well. All that stops it is the timer of the whole task.
\<close>

fun updated_zone :: "ops_api event \<Rightarrow> OBZone option" where
  "updated_zone (ApiCall (UpdatedOBZone z _)) = Some z"
| "updated_zone _ = None"

lemma wait_zone_stuck:
  assumes "\<And>h. op_zone env h name = Inr z" "\<And>h. \<not> op_ticked env h"
  shows "\<exists>es. wait_zone_status env name status n h = (Ok (), h @ es) \<and> List.map_filter updated_zone es = []"
proof (induction n arbitrary: h)
  case 0
  show ?case by (simp add: ret_def List.map_filter_def)
next
  case (Suc n)
  let ?e = "ApiCall (GotOneZone name (Inr z))"
  have step: "wait_zone_status env name status (Suc n) h =
      (if Status z = status then ret () else wait_zone_status env name status n) (h @ [?e])"
    using assms by (simp add: op_peek_def op_read_def io_defs)
  obtain es where "wait_zone_status env name status n (h @ [?e]) = (Ok (), (h @ [?e]) @ es)" "List.map_filter updated_zone es = []"
    using Suc by blast
  then show ?case unfolding step
    by (cases "Status z = status") (auto simp: ret_def List.map_filter_def intro: exI [of _ "[?e]"] exI [of _ "?e # es"])
qed

lemma roll_zone_stuck:
  assumes "\<And>h. op_zone env h (Name zone) = Inr z" "\<And>h. \<not> op_ticked env h" "\<And>h call. op_write env h call = Inr ()"
  shows "\<exists>es. roll_zone env changer working target n zone h = (Ok (), h @ es) \<and> List.map_filter updated_zone es = [changer z]"
proof -
  let ?es0 = "[ApiCall (GotOneZone (Name zone) (Inr z)), ApiCall (UpdatedOBZone (changer z) (Inr ()))]"
  have change: "change_zone env changer (Name zone) h = (Ok (), h @ ?es0)"
    using assms by (simp add: change_zone_def eval_nat_numeral op_read_def op_call_def io_defs)
  obtain es1 where one: "wait_zone_status env (Name zone) working n (h @ ?es0) = (Ok (), (h @ ?es0) @ es1)" "List.map_filter updated_zone es1 = []"
    using wait_zone_stuck [OF assms(1,2)] by blast
  obtain es2 where "wait_zone_status env (Name zone) target n ((h @ ?es0) @ es1) = (Ok (), ((h @ ?es0) @ es1) @ es2)" "List.map_filter updated_zone es2 = []"
    using wait_zone_stuck [OF assms(1,2)] by blast
  with one change have "roll_zone env changer working target n zone h = (Ok (), h @ (?es0 @ es1 @ es2))"
    "List.map_filter updated_zone (?es0 @ es1 @ es2) = [changer z]"
    by (simp_all add: roll_zone_def bind_io_def wrap_io_def map_filter_append List.map_filter_simps)
  then show ?thesis by blast
qed

lemma rolling_update_goes_on:
  assumes "op_zones env h = Inr zones" "\<And>h zone. zone \<in> set zones \<Longrightarrow> op_zone env h (Name zone) = Inr (stuck zone)"
    and "\<And>zone. Status (stuck zone) \<noteq> target" "\<And>h. \<not> op_ticked env h" "\<And>h call. op_write env h call = Inr ()"
  shows "\<exists>es. rollingUpdateZones env changer working target n h = (Ok (), h @ es) \<and>
    List.map_filter updated_zone es = map (\<lambda>zone. changer (stuck zone)) zones"
proof -
  have "\<exists>es. each_io (roll_zone env changer working target n) zs h = (Ok (), h @ es) \<and>
      List.map_filter updated_zone es = map (\<lambda>zone. changer (stuck zone)) zs" if "set zs \<subseteq> set zones" for zs h
    using that
  proof (induction zs arbitrary: h)
    case Nil
    show ?case by (simp add: ret_def List.map_filter_def)
  next
    case (Cons zone zs)
    obtain es where one: "roll_zone env changer working target n zone h = (Ok (), h @ es)" "List.map_filter updated_zone es = [changer (stuck zone)]"
      using roll_zone_stuck [OF assms(2) assms(4,5)] Cons.prems by (meson list.set_intros(1) subsetD)
    obtain es' where "each_io (roll_zone env changer working target n) zs (h @ es) = (Ok (), (h @ es) @ es')"
      "List.map_filter updated_zone es' = map (\<lambda>zone. changer (stuck zone)) zs"
      using Cons by (meson list.set_intros(2) subsetD subsetI)
    with one show ?case by (intro exI [of _ "es @ es'"]) (simp add: bind_io_def map_filter_append)
  qed
  from this [of zones "h @ [ApiCall (ListedZones (Inr zones))]"] obtain es
    where "each_io (roll_zone env changer working target n) zones (h @ [ApiCall (ListedZones (Inr zones))]) =
        (Ok (), (h @ [ApiCall (ListedZones (Inr zones))]) @ es)"
      "List.map_filter updated_zone es = map (\<lambda>zone. changer (stuck zone)) zones" by blast
  then show ?thesis
    by (intro exI [of _ "ApiCall (ListedZones (Inr zones)) # es"])
      (simp add: rollingUpdateZones_def listed_zones(1) [OF assms(1)] bind_io_def wrap_io_def List.map_filter_def)
qed

text \<open>The statement that sets a parameter back.\<close>

definition restore_statement :: "ModelParameter \<Rightarrow> string \<times> sql_value list" where
  "restore_statement p =
     (sql_SetParameterWithScope (MP_Name p) ''server'', [SQL_Str (MP_Value p), SQL_Str (MP_SvrIp p @ '':'' @ show_int (MP_SvrPort p))])"

lemma restore_parameter_statement: "statements (restore_parameter env p) [restore_statement p]"
  unfolding restore_parameter_def db_SetParameter_def ExecWithDefaultTimeout_def restore_statement_def
  by (simp add: statements_wrap statements_exec)

lemma statements_log_call: "statements (log_io (op_call env call)) []"
  by (auto simp: statements_def log_io_def op_call_def perform_def List.map_filter_def split: sum.splits)

lemma restore_statements:
  assumes "\<And>k. op_context env k (contextObjectName m) = Inr (Some content)" "unmarshal_parameters content = Some ps"
  shows "statements (RestoreEssentialParameters env m) (map restore_statement ps)"
proof -
  let ?read = "catch_io (op_read (\<lambda>h. op_context env h (contextObjectName m)) (GotContextSecret (contextObjectName m)))"
  have read: "statements ?read []" by (intro statements_silent io_silent)
  have known: "?read k1 = (Ok r, k2) \<Longrightarrow> r = Inr (Some content)" for r k1 k2
    by (simp add: catch_io_def op_read_def perform_def assms(1))
  have each: "statements (each_io (restore_parameter env) ps) (map restore_statement ps)"
    using statements_each [of ps "restore_parameter env" "\<lambda>p. [restore_statement p]"] restore_parameter_statement by simp
  have "statements (RestoreEssentialParameters env m) ([] @ ([] @ (map restore_statement ps @ [])))"
    unfolding RestoreEssentialParameters_def
  proof (rule statements_bind [OF _ statements_bind [OF read]])
    fix r k1 k2
    assume "?read k1 = (Ok r, k2)"
    then have "r = Inr (Some content)" by (rule known)
    then show "statements (case r of
         Inl _ \<Rightarrow> ret ()
       | Inr content \<Rightarrow>
           (case Option.bind content unmarshal_parameters of
              None \<Rightarrow> raise (OtherError ''Parse encoded parameters failed'')
            | Some ps \<Rightarrow>
                bind_io (each_io (restore_parameter env) ps) (\<lambda>_.
                  log_io (op_call env (DeletedContextSecret (contextObjectName m)))))) (map restore_statement ps @ [])"
      using statements_bind [OF each statements_log_call] assms(2) by simp
  qed (intro statements_wrap statements_silent io_silent)
  then show ?thesis by simp
qed

text \<open>The integer columns of a database are 64-bit integers.\<close>

definition rows_fit :: "ops_env \<Rightarrow> bool" where
  "rows_fit env \<longleftrightarrow> (\<forall>h sql params rows. conn_rows env h sql params = Inr rows \<longrightarrow> (\<forall>r \<in> set rows. int64_fields (parameter_of_row r)))"

lemma read_parameters_fit:
  "rows_fit env \<Longrightarrow> read_parameters env names h = (Ok rows, h') \<Longrightarrow> r \<in> set rows \<Longrightarrow> int64_fields (parameter_of_row r)"
proof (induction names arbitrary: h h' rows)
  case (Cons name names)
  from Cons.prems(2) obtain rows1 h1 rest
    where "QueryList env sql_QueryParameter [SQL_Str name] h = (Ok rows1, h1)"
      "read_parameters env names h1 = (Ok rest, h')" "rows = rows1 @ rest"
    by (auto simp: db_GetParameter_def bind_Ok_iff)
  moreover from this(1) have "conn_rows env h sql_QueryParameter [SQL_Str name] = Inr rows1" by (simp add: QueryList_def perform_Ok_iff)
  ultimately show ?case using Cons unfolding rows_fit_def by (metis UnE set_append)
qed simp

text \<open>
  C10. The round trip of the essential parameters over an upgrade. When the backup ended well, the
  last thing it did was to store a context; when a later restore reads that context and ends well,
  the statements it executes set each parameter that was read, on the server it was read for, to
  the value it had, in the order of reading, and nothing else.
\<close>

theorem essential_parameters_roundtrip:
  assumes "BackupEssentialParameters env m h = (Ok (), h')" "rows_fit env"
    and "\<forall>k. op_context env' k (contextObjectName m) = Inr (Some content)"
    and "last h' = ApiCall (CreatedContextSecret (contextObjectName m) content (Inr ()))"
    and "RestoreEssentialParameters env' m k = (Ok (), k')"
  shows "\<exists>rows h1 h2 es. read_parameters env UpgradeEssentialParameters h1 = (Ok rows, h2) \<and> k' = k @ es \<and>
    List.map_filter executed es = map (\<lambda>r. restore_statement (parameter_of_row r)) rows"
proof -
  from assms(1) obtain h1 rows h2
    where read: "read_parameters env UpgradeEssentialParameters h1 = (Ok rows, h2)"
      and "h' = h2 @ [ApiCall (CreatedContextSecret (contextObjectName m) (marshal_parameters (map parameter_of_row rows)) (Inr ()))]"
    unfolding BackupEssentialParameters_def bind_Ok_iff wrap_Ok_iff op_Ok_iffs by blast
  with assms(4) have content: "content = marshal_parameters (map parameter_of_row rows)" by simp
  have "unmarshal_parameters content = Some (map parameter_of_row rows)"
    unfolding content using read_parameters_fit [OF assms(2) read] by (intro unmarshal_marshal_parameters) auto
  then have "statements (RestoreEssentialParameters env' m) (map restore_statement (map parameter_of_row rows))"
    using restore_statements assms(3) by blast
  from statementsD [OF this assms(5)] read show ?thesis by (auto simp: comp_def)
qed

text \<open>A database with one parameter row, and the environment in which its context is stored.\<close>

definition rebalance_row :: row where
  "rebalance_row = [(''svr_ip'', SQL_Str ''10.0.0.1''), (''svr_port'', SQL_Int 2882), (''name'', SQL_Str ''enable_rebalance''),
     (''value'', SQL_Str ''True'')]"

definition one_parameter_env :: ops_env where
  "one_parameter_env = quiet_ops_env\<lparr>conn_rows := \<lambda>_ sql params.
     Inr (if params = [SQL_Str ''enable_rebalance''] then [rebalance_row] else [])\<rparr>"

definition stored_context_env :: ops_env where
  "stored_context_env = quiet_ops_env\<lparr>op_context := \<lambda>_ _. Inr (Some (marshal_parameters [parameter_of_row rebalance_row]))\<rparr>"

lemma roundtrip_env_simps [simp]:
  "conn_rows one_parameter_env h sql params = Inr (if params = [SQL_Str ''enable_rebalance''] then [rebalance_row] else [])"
  "op_write one_parameter_env h call = Inr ()" "op_write stored_context_env h call = Inr ()"
  "op_context stored_context_env h name = Inr (Some (marshal_parameters [parameter_of_row rebalance_row]))"
  "conn_exec stored_context_env h sql params = Inr ()"
  by (simp_all add: one_parameter_env_def stored_context_env_def)

lemma connected_cluster:
  assumes "\<not> snd (GetAnnotationField c AnnotationsSourceClusterAddress)"
    and "op_cluster_servers env h = Inr [small_server]" "\<And>h n. op_secret env h n = Inr secret"
    and "\<And>h k. op_cache env h k = Some pooled_root" "\<And>h c. op_alive env h c" "\<And>h. \<exists>rows. conn_rows env h sql_ListServer [] = Inr rows"
  shows "\<exists>h'. utils_GetSysOperationClient env c h = (Ok pooled_root, h')"
proof -
  have conn: "\<exists>h'. GetConnector env ds h = (Ok pooled_root, h')" for ds h
    by (simp add: GetConnector_def IsAlive_def Let_def op_ask_def io_defs assms pooled_root_def)
  have listed: "\<exists>rows h'. db_ListServers env h = (Ok rows, h')" for h
    using assms(6) [of h] by (auto simp: db_ListServers_def QueryList_def io_defs)
  have "\<exists>h'. sys_client_of env c source [small_server] h = (Ok pooled_root, h')" for source h
  proof -
    obtain h1 where "GetConnector env (source (OBServerStatus_GetConnectAddr small_server)) h = (Ok pooled_root, h1)" using conn by blast
    moreover obtain rows h2 where "db_ListServers env h1 = (Ok rows, h2)" using listed by blast
    ultimately show ?thesis by (simp add: bind_io_def catch_io_def ret_def)
  qed
  with assms(1) show ?thesis
    by (simp add: utils_GetSysOperationClient_def utils_getSysClient_def listed_servers_def cluster_password_def ReadPassword_def
        op_read_def io_defs assms)
qed

lemma small_cluster_no_source: "\<not> snd (GetAnnotationField small_cluster AnnotationsSourceClusterAddress)"
  by (simp add: small_cluster_def GetAnnotationField_def)

lemmas connected_anyway = connected_cluster [OF small_cluster_no_source]

theorem essential_parameters_roundtrip_witness:
  "\<exists>es. snd (RestoreEssentialParameters stored_context_env small_cluster []) = es \<and>
    List.map_filter executed es = [(sql_SetParameterWithScope ''enable_rebalance'' ''server'', [SQL_Str ''True'', SQL_Str ''10.0.0.1:2882''])]"
proof -
  let ?b = "BackupEssentialParameters one_parameter_env small_cluster []"
  let ?r = "RestoreEssentialParameters stored_context_env small_cluster []"
  let ?content = "marshal_parameters [parameter_of_row rebalance_row]"
  have fit: "int64_fields (parameter_of_row rebalance_row)"
    by (simp add: int64_fields_def parameter_of_row_def rebalance_row_def col_int_def)
  have reads: "read_parameters one_parameter_env UpgradeEssentialParameters h = (Ok rows, h') \<Longrightarrow> rows = [rebalance_row]" for h rows h'
    by (simp add: UpgradeEssentialParameters_def db_GetParameter_def QueryList_def io_defs)
  obtain h0 where c1: "utils_GetSysOperationClient one_parameter_env small_cluster [] = (Ok pooled_root, h0)"
    using connected_anyway [of one_parameter_env "[]" "[''password'' \<mapsto> ''wrong'']"] by (auto simp: one_parameter_env_def)
  have b: "?b = (Ok (), snd ?b)" "last (snd ?b) = ApiCall (CreatedContextSecret (contextObjectName small_cluster) ?content (Inr ()))"
    by (simp_all add: BackupEssentialParameters_def bind_io_def wrap_io_def c1 UpgradeEssentialParameters_def db_GetParameter_def
        QueryList_def perform_def ret_def op_call_def)
  obtain h1 where c2: "utils_GetSysOperationClient stored_context_env small_cluster [] = (Ok pooled_root, h1)"
    using connected_anyway [of stored_context_env "[]" "[''password'' \<mapsto> ''wrong'']"] by (auto simp: stored_context_env_def)
  have decoded: "unmarshal_parameters ?content = Some [parameter_of_row rebalance_row]"
    using fit by (intro unmarshal_marshal_parameters) simp
  have r: "?r = (Ok (), snd ?r)"
    by (simp add: RestoreEssentialParameters_def bind_io_def wrap_io_def c2 op_read_def catch_io_def perform_def decoded ret_def
        restore_parameter_def db_SetParameter_def ExecWithDefaultTimeout_def ExecWithTimeout_def log_io_def op_call_def)
  have "rows_fit one_parameter_env"
    using fit by (simp add: rows_fit_def)
  from essential_parameters_roundtrip [OF b(1) this _ b(2) r] reads
  have "List.map_filter executed (snd ?r) = [restore_statement (parameter_of_row rebalance_row)]"
    by fastforce
  moreover have "restore_statement (parameter_of_row rebalance_row) =
      (sql_SetParameterWithScope ''enable_rebalance'' ''server'', [SQL_Str ''True'', SQL_Str ''10.0.0.1:2882''])"
    by (simp add: restore_statement_def parameter_of_row_def rebalance_row_def col_str_def col_int_def) code_simp
  ultimately show ?thesis by simp
qed

text \<open>
  An upgrade is not validated when the validation is late: as long as the job that validates the
  upgrade is read as running in each round, \<^verbatim>\<open>RunJob\<close> wraps a nil error, and \<^verbatim>\<open>ValidateUpgradeInfo\<close>
  ends well without the verdict of the job. Here the cluster can be reached, runs a common
  version and accepts the job.
\<close>

theorem validation_timeout_passes:
  assumes "utils_GetSysOperationClient env m h = (Ok client, h1)" "db_GetVersion env h1 = (Ok (Some v), h2)"
    and "\<forall>h call. op_write env h call = Inr ()" "\<forall>h name. \<exists>j. op_job env h name = Inr j \<and> job_running j"
  shows "fst (ValidateUpgradeInfo env m h) = Ok ()"
proof -
  have "\<exists>log. RunJob env name img pf cmd vcs h2 = (Ok ([], ExitCodeNotExecuted, None), log)" for name img pf cmd vcs
  proof -
    let ?name = "name @ ''-'' @ op_rand env h2"
    obtain log where "wait_job env ?name (op_CheckJobMaxRetries env) None
        (h2 @ [ApiCall (CreatedJob (runner_job ?name img pf cmd vcs) (Inr ()))]) = (Ok (Inl None), log)"
      using wait_job_unfinished [of env ?name] assms(4) by (metis prod.collapse)
    then show ?thesis using assms(3) by (simp add: RunJob_def Let_def op_peek_def op_call_def io_defs wrap_nil_def)
  qed
  then obtain log where "RunJob env (Name m @ ''-upgrade-validate'') (Image (ClusterSpec_OBServerTemplate m)) (PodFields (ClusterSpec_OBServerTemplate m))
      (''/home/admin/oceanbase/bin/oceanbase-helper upgrade validate -s '' @ OBVersion_String v) [] h2 = (Ok ([], ExitCodeNotExecuted, None), log)"
    by blast
  with assms(1,2) show ?thesis by (simp add: ValidateUpgradeInfo_def bind_io_def wrap_io_def deref_io_def ret_def)
qed

definition slow_job_env :: ops_env where
  "slow_job_env = quiet_ops_env\<lparr>op_job := \<lambda>_ _. Inr \<lparr>K8sJob_Succeeded = 0, K8sJob_Failed = 0\<rparr>,
     conn_rows := \<lambda>_ _ _. Inr [[(''build_version'', SQL_Str ''4.2.1.4_104010012024030720-abc'')]]\<rparr>"

theorem validation_timeout_passes_witness:
  "op_job slow_job_env [] ''job'' = Inr \<lparr>K8sJob_Succeeded = 0, K8sJob_Failed = 0\<rparr> \<and> fst (ValidateUpgradeInfo slow_job_env small_cluster []) = Ok ()"
proof -
  obtain h1 where client: "utils_GetSysOperationClient slow_job_env small_cluster [] = (Ok pooled_root, h1)"
    using connected_anyway [of slow_job_env "[]" "[''password'' \<mapsto> ''wrong'']"] by (auto simp: slow_job_env_def)
  have "case common_version [''4.2.1.4_104010012024030720-abc''] None of Some (Inr (Some _)) \<Rightarrow> True | _ \<Rightarrow> False" by code_simp
  then have "\<exists>v. common_version [''4.2.1.4_104010012024030720-abc''] None = Some (Inr (Some v))" by (auto split: option.splits sum.splits)
  then obtain v h2 where version: "db_GetVersion slow_job_env h1 = (Ok (Some v), h2)"
    by (auto simp: db_GetVersion_def db_ListServers_def QueryList_def io_defs slow_job_env_def col_str_def)
  show ?thesis using validation_timeout_passes [OF client version] by (simp add: slow_job_env_def job_running_def)
qed

text \<open>
  C0. The users of a new cluster. Where \<^verbatim>\<open>CreateUsers\<close> ends well it has executed exactly twelve
  statements: for each of the root, operator, monitor and proxy users, in this order, the creation,
  the password that its secret holds and the grant, of all privileges for the first two and of
  reading for the others.
\<close>

definition user_statements :: "string \<Rightarrow> string \<Rightarrow> string \<Rightarrow> (string \<times> sql_value list) list" where
  "user_statements user password privilege =
     [(sql_CreateUser, [SQL_Str user]), (sql_SetUserPassword, [SQL_Str user, SQL_Str password]),
      (sql_GrantPrivilege privilege ''*.*'', [SQL_Str user])]"

lemma create_user_statements:
  assumes "\<And>h. op_secret env h secretName = Inr secret"
  shows "statements (createUser env m user secretName privilege) (user_statements user (dict_get secret ''password'') privilege)"
proof -
  have password: "ReadPassword env secretName h = (Ok pw, h') \<Longrightarrow> pw = dict_get secret ''password''" for h pw h'
    by (auto simp: ReadPassword_def bind_Ok_iff op_Ok_iffs assms)
  let ?read = "wrap_io (''Get password from secret '' @ secretName @ '' failed'') (ReadPassword env secretName)"
  have "statements (createUser env m user secretName privilege)
      ([] @ ([] @ ([(sql_CreateUser, [SQL_Str user])] @ ([(sql_SetUserPassword, [SQL_Str user, SQL_Str (dict_get secret ''password'')])] @
        [(sql_GrantPrivilege privilege ''*.*'', [SQL_Str user])]))))"
    unfolding createUser_def db_CreateUser_def db_SetUserPassword_def db_GrantPrivilege_def ExecWithDefaultTimeout_def
  proof (intro statements_bind [OF _ statements_bind [OF _ statements_bind [OF _ statements_bind]]] statements_wrap statements_exec)
    show "statements (ReadPassword env secretName) []" by (intro statements_silent io_silent)
    show "statements (utils_GetSysOperationClient env m) []" by (intro statements_silent io_silent)
    fix pw k k'
    assume "?read k = (Ok pw, k')"
    then have pw: "pw = dict_get secret ''password''" using password by simp
    show "statements (ExecWithTimeout env DefaultSqlTimeout sql_SetUserPassword [SQL_Str user, SQL_Str pw])
        [(sql_SetUserPassword, [SQL_Str user, SQL_Str (dict_get secret ''password'')])]"
      unfolding pw by (rule statements_exec)
  qed
  then show ?thesis by (simp add: user_statements_def)
qed

theorem create_users_exactly:
  assumes "\<forall>h name. op_secret env h name = Inr (secrets name)" "CreateUsers env m h = (Ok (), h')"
  shows "\<exists>es. h' = h @ es \<and> List.map_filter executed es =
    (let s = ClusterSpec_UserSecrets m; pw = \<lambda>name. dict_get (secrets name) ''password''
     in user_statements ''root'' (pw (Secret_Root s)) ''all'' @ user_statements ''operator'' (pw (Secret_Operator s)) ''all'' @
        user_statements ''monitor'' (pw (Secret_Monitor s)) ''select'' @ user_statements ''proxyro'' (pw (Secret_ProxyRO s)) ''select'')"
proof -
  let ?pw = "\<lambda>name. dict_get (secrets name) ''password''" and ?s = "ClusterSpec_UserSecrets m"
  have "statements (CreateUsers env m)
      (user_statements ''root'' (?pw (Secret_Root ?s)) ''all'' @ (user_statements ''operator'' (?pw (Secret_Operator ?s)) ''all'' @
        (user_statements ''monitor'' (?pw (Secret_Monitor ?s)) ''select'' @ user_statements ''proxyro'' (?pw (Secret_ProxyRO ?s)) ''select'')))"
    unfolding CreateUsers_def Let_def using assms(1) by (intro statements_bind statements_wrap create_user_statements) auto
  from statementsD [OF this assms(2)] show ?thesis by (simp add: Let_def)
qed

theorem create_users_exactly_witness:
  "List.map_filter executed (snd (CreateUsers quiet_ops_env small_cluster [])) =
    user_statements ''root'' ''wrong'' ''all'' @ user_statements ''operator'' ''wrong'' ''all'' @
    user_statements ''monitor'' ''wrong'' ''select'' @ user_statements ''proxyro'' ''wrong'' ''select''"
proof -
  define g where "g h = snd (utils_GetSysOperationClient quiet_ops_env small_cluster h)" for h
  have client: "utils_GetSysOperationClient quiet_ops_env small_cluster h = (Ok pooled_root, g h)" for h
    unfolding g_def by (rule quiet_sys_client)
  have "\<exists>k. createUser quiet_ops_env small_cluster user secret privilege h = (Ok (), k)" for user secret privilege h
    by (simp add: createUser_def ReadPassword_def op_read_def db_CreateUser_def db_SetUserPassword_def db_GrantPrivilege_def
        ExecWithDefaultTimeout_def ExecWithTimeout_def io_defs client)
  then obtain k where "createUser quiet_ops_env small_cluster user secret privilege h = (Ok (), k user secret privilege h)"
    for user secret privilege h by metis
  then have "CreateUsers quiet_ops_env small_cluster [] = (Ok (), snd (CreateUsers quiet_ops_env small_cluster []))"
    by (simp add: CreateUsers_def Let_def bind_io_def wrap_io_def)
  from create_users_exactly [OF _ this, of "\<lambda>_. [''password'' \<mapsto> ''wrong'']"] show ?thesis by (auto simp: Let_def dict_get_def)
qed

end
