(* ===== verification/Cluster_Checks.thy ===== *)
theory Cluster_Checks
  imports Upgrade_Tasks OBTenant_Tasks
begin

text \<open>
  The tasks of \<^verbatim>\<open>internal/resource/obcluster/obcluster_task.go\<close> that check and prepare a cluster
  before it is made: secrets, namespaces and service, the image, the mode, the storage, the source
  of a migration, and those that set annotations and parameters. Decoding of the optimizer's
  output, floating point and the printing of quantities are parameters.
\<close>

section \<open>Secrets, namespaces and service\<close>

definition ensure_secret :: "ops_env \<Rightarrow> string \<Rightarrow> unit ops_io" where
  "ensure_secret env secret =
     bind_io (catch_io (op_read (\<lambda>h. op_secret env h secret) (GotSecret secret))) (\<lambda>r.
       case r of
         Inr _ \<Rightarrow> ret ()
       | Inl err \<Rightarrow>
           if is_not_found err then
             bind_io (op_peek (op_rand env)) (\<lambda>password.
               wrap_io (''Create secret '' @ secret) (op_call env (CreatedSecret secret [''password'' \<mapsto> password])))
           else ret ())"

definition ensure_remote_secret :: "ops_env \<Rightarrow> OBCluster \<Rightarrow> dict \<Rightarrow> OBZoneTopology \<Rightarrow> unit ops_io" where
  "ensure_remote_secret env m content zone =
     (let k8s = K8sCluster zone; secret = Secret_Monitor (ClusterSpec_UserSecrets m)
      in if k8s = [] then ret ()
         else bind_io (wrap_io (''Failed to get get client from k8s cluster: '' @ k8s)
             (op_read (\<lambda>h. op_remote_client env h k8s) (GotRemoteClient k8s))) (\<lambda>_.
           bind_io (catch_io (op_read (\<lambda>h. op_remote_secret env h k8s secret) (GotRemoteSecret k8s secret))) (\<lambda>r.
             case r of
               Inr _ \<Rightarrow> ret ()
             | Inl err \<Rightarrow>
                 if is_not_found err then
                   wrap_io (''Failed to create secret '' @ Namespace m @ ''/'' @ secret @ '' with credential of k8s cluster '' @ k8s)
                     (op_call env (CreatedRemoteSecret k8s secret content))
                 else raise (wrap (''Failed to get secret '' @ Namespace m @ ''/'' @ secret @ '' with credential of k8s cluster '' @ k8s) err))))"

definition CheckAndCreateUserSecrets :: "ops_env \<Rightarrow> OBCluster \<Rightarrow> unit ops_io" where
  "CheckAndCreateUserSecrets env m =
     (let secrets = ClusterSpec_UserSecrets m; monitor = Secret_Monitor secrets
      in bind_io (each_io (ensure_secret env) [Secret_Operator secrets, monitor, Secret_ProxyRO secrets]) (\<lambda>_.
         bind_io (wrap_io (''Failed to get secret '' @ Namespace m @ '' in namespace '' @ monitor)
             (op_read (\<lambda>h. op_secret env h monitor) (GotSecret monitor))) (\<lambda>content.
           each_io (ensure_remote_secret env m content) (ClusterSpec_Topology m))))"

definition ensure_remote_namespace :: "ops_env \<Rightarrow> OBCluster \<Rightarrow> OBZoneTopology \<Rightarrow> unit ops_io" where
  "ensure_remote_namespace env m zone =
     (let k8s = K8sCluster zone; ns = Namespace m
      in if k8s = [] then ret ()
         else bind_io (wrap_io (''Failed to get get client from k8s cluster: '' @ k8s)
             (op_read (\<lambda>h. op_remote_client env h k8s) (GotRemoteClient k8s))) (\<lambda>_.
           bind_io (catch_io (op_read (\<lambda>h. op_remote_namespace env h k8s ns) (GotRemoteNamespace k8s ns))) (\<lambda>r.
             case r of
               Inr _ \<Rightarrow> ret ()
             | Inl err \<Rightarrow>
                 if is_not_found err then
                   wrap_io (''Failed to create namespace '' @ ns @ '' with credential of k8s cluster '' @ k8s)
                     (op_call env (CreatedRemoteNamespace k8s ns))
                 else raise (wrap (''Failed to get namespace '' @ ns @ '' with credential of k8s cluster '' @ k8s) err))))"

definition obcluster_CheckAndCreateNs :: "ops_env \<Rightarrow> OBCluster \<Rightarrow> unit ops_io" where
  "obcluster_CheckAndCreateNs env m = each_io (ensure_remote_namespace env m) (ClusterSpec_Topology m)"

definition CreateOBClusterService :: "ops_env \<Rightarrow> OBCluster \<Rightarrow> unit ops_io" where
  "CreateOBClusterService env m =
     (if GetAnnotationField m AnnotationsMode = (''standalone'', True) then
        wrap_io ''Create service'' (op_call env (CreatedServiceObject
          \<lparr>ServiceObject_Name = Name m @ ''-standalone-svc'', ServiceObject_Owner = Name m, ServiceObject_Port = 2881,
           ServiceObject_Selector = [''ref-obcluster'' \<mapsto> Name m], ServiceObject_Type = ''NodePort''\<rparr>))
      else ret ())"

section \<open>The image\<close>

definition image_job :: "OBCluster \<Rightarrow> string \<Rightarrow> K8sJob" where
  "image_job m jobName =
     \<lparr>K8sJob_Name = jobName, K8sJob_Owner = Some (Name m), K8sJob_Container = ''helper-check-image-pull-ready'',
      K8sJob_Image = Image (ClusterSpec_OBServerTemplate m), K8sJob_ImagePullPolicy = ''IfNotPresent'',
      K8sJob_Command = [''bash'', ''-c'', ''/home/admin/oceanbase/bin/oceanbase-helper help''], K8sJob_Mounts = [], K8sJob_Volumes = [],
      K8sJob_RestartPolicy = ''Never'', K8sJob_SchedulerName = GetSchedulerName (PodFields (ClusterSpec_OBServerTemplate m)),
      K8sJob_BackoffLimit = 32, K8sJob_TTLSecondsAfterFinished = 120\<rparr>"

datatype image_verdict = ImageReady | ImageFailed | ImageWait

fun container_waits :: "ContainerState \<Rightarrow> bool" where
  "container_waits (WaitingState _) = True"
| "container_waits _ = False"

definition image_verdict_of :: "ImagePod list \<Rightarrow> image_verdict" where
  "image_verdict_of pods =
     (case pods of
        [] \<Rightarrow> ImageWait
      | pod # _ \<Rightarrow>
          if ImagePod_Phase pod = ''Failed'' then ImageFailed
          else if ImagePod_Phase pod = ''Succeeded'' \<or> ImagePod_Phase pod = ''Running'' then ImageReady
          else if ImagePod_Phase pod = ''Pending'' \<or> ImagePod_Phase pod = ''Unknown''
          then (if list_ex container_waits (ImagePod_States pod) then ImageWait else ImageReady)
          else ImageWait)"

primrec image_loop :: "ops_env \<Rightarrow> nat \<Rightarrow> unit ops_io" where
  "image_loop env 0 = raise (OtherError ''Image pull not ready'')"
| "image_loop env (Suc n) =
     bind_io (wrap_io ''List pods'' (op_read (op_image_pods env) ListedImagePods)) (\<lambda>pods.
       case image_verdict_of pods of
         ImageReady \<Rightarrow> ret ()
       | ImageFailed \<Rightarrow> raise (OtherError ''Check image pull job failed'')
       | ImageWait \<Rightarrow> image_loop env n)"

definition CheckImageReady :: "ops_env \<Rightarrow> OBCluster \<Rightarrow> unit ops_io" where
  "CheckImageReady env m =
     bind_io (op_peek (op_rand env)) (\<lambda>suf.
     bind_io (wrap_io ''Create check image pull job'' (op_call env (CreatedJob (image_job m (''image-pull-ready-'' @ suf))))) (\<lambda>_.
     bind_io (op_peek (op_selector env)) (\<lambda>selector.
       case selector of
         Inl err \<Rightarrow> raise (wrap ''Parse label selector'' err)
       | Inr _ \<Rightarrow> image_loop env 8000)))"

section \<open>The mode\<close>

definition is_space :: "char \<Rightarrow> bool" where
  "is_space c \<longleftrightarrow> c = CHR '' '' \<or> (9 \<le> (of_char c :: nat) \<and> (of_char c :: nat) \<le> 13)"

definition TrimSpace :: "string \<Rightarrow> string" where
  "TrimSpace s = rev (dropWhile is_space (rev (dropWhile is_space s)))"

abbreviation newline :: string where
  "newline \<equiv> [CHR 0x0A]"

text \<open>
  The version in the output of the helper: taken apart from the second and the fourth line where
  there are more than three, otherwise the first line. A missing word is indexed all the same, and
  the last character of an empty one is cut off all the same.
\<close>

definition output_version :: "string \<Rightarrow> string option" where
  "output_version output =
     (let lines = Split output newline
      in if 3 < length lines then
           let semVer = last (Split (lines ! 1) '' ''); words = Split (lines ! 3) '' ''
           in if length words < 2 \<or> semVer = [] then None
              else Some (butlast semVer @ ''-'' @ hd (Split (words ! 1) ''-''))
         else Some (TrimSpace (lines ! 0)))"

definition min_version :: "string \<Rightarrow> OceanBaseVersion" where
  "min_version v = (case ParseOceanBaseVersion v of Inr x \<Rightarrow> x | Inl _ \<Rightarrow> \<lparr>OV_Major = 0, OV_Minor = 0, OV_Patch = 0, OV_SubPatch = 0, OV_Build = []\<rparr>)"

definition mode_supported :: "string \<Rightarrow> string \<Rightarrow> error option" where
  "mode_supported mode version =
     (case ParseOceanBaseVersion version of
        Inl _ \<Rightarrow> None
      | Inr current \<Rightarrow>
          if mode = ''standalone'' then
            if OceanBaseVersion_Cmp current (min_version ''4.2.0'') < 0
            then Some (OtherError ''Current version is lower than 4.2.0, does not support standalone mode'') else None
          else if mode = ''service'' then
            if prefix ''4.2.2'' version
            then Some (OtherError (''Current version is '' @ version @ ''. 4.2.2.x does not support service mode''))
            else if OceanBaseVersion_Cmp current (min_version ''4.2.1.4'') < 0
            then Some (OtherError ''Current version is lower than 4.2.1.4, does not support service mode'') else None
          else None)"

definition helper_job :: "ops_env \<Rightarrow> OBCluster \<Rightarrow> string \<Rightarrow> string \<Rightarrow> (string \<times> int \<times> error option) ops_io" where
  "helper_job env m suf cmd =
     RunJob env (Name m @ suf) (Image (ClusterSpec_OBServerTemplate m)) (PodFields (ClusterSpec_OBServerTemplate m)) cmd []"

definition raise_opt :: "error option \<Rightarrow> unit ops_io" where
  "raise_opt err = (case err of None \<Rightarrow> ret () | Some e \<Rightarrow> raise e)"

definition CheckClusterMode :: "ops_env \<Rightarrow> OBCluster \<Rightarrow> unit ops_io" where
  "CheckClusterMode env m =
     (case GetAnnotationField m AnnotationsMode of
        (mode, present) \<Rightarrow>
          if \<not> present then ret ()
          else bind_io (helper_job env m ''-get-version'' ''/home/admin/oceanbase/bin/oceanbase-helper version'') (\<lambda>(output, _, err).
            case err of
              Some e \<Rightarrow>
                bind_io
                  (if mode = ''standalone'' then
                     helper_job env m ''-standalone-validate'' ''/home/admin/oceanbase/bin/oceanbase-helper standalone validate''
                   else if mode = ''service'' then
                     helper_job env m ''-service-validate'' ''/home/admin/oceanbase/bin/oceanbase-helper service validate''
                   else ret ([], 0, Some e)) (\<lambda>(_, code, err').
                  case err' of
                    Some e' \<Rightarrow> if code > 1 then raise (wrap ''Failed to run service mode validate job'' e') else ret ()
                  | None \<Rightarrow> ret ())
            | None \<Rightarrow> bind_io (deref_io (output_version output)) (\<lambda>version. raise_opt (mode_supported mode version))))"

section \<open>The source of a migration\<close>

definition CmdVersion :: string where
  "CmdVersion = ''rpm -q --queryformat '' @ [CHR 0x27] @ ''%{VERSION}-%{RELEASE}'' @ [CHR 0x27] @ '' oceanbase-ce | sed '' @ [CHR 0x27] @
     ''s/'' @ [CHR 0x5C] @ ''.[^.]*$//'' @ [CHR 0x27]"

text \<open>The zones of the topology that are not left in the map, each taken out of it when met.\<close>

fun extra_zones :: "string list \<Rightarrow> string list \<Rightarrow> string list \<times> string list" where
  "extra_zones zoneMap [] = ([], zoneMap)"
| "extra_zones zoneMap (z # zs) =
     (if z \<in> set zoneMap then extra_zones (filter (\<lambda>y. y \<noteq> z) zoneMap) zs
      else (case extra_zones zoneMap zs of (extra, rest) \<Rightarrow> (z # extra, rest)))"

definition first_value :: "row list \<Rightarrow> string option" where
  "first_value rows = (case rows of [] \<Rightarrow> None | r # _ \<Rightarrow> Some (col_str r ''value''))"

definition check_identity :: "ops_env \<Rightarrow> OBCluster \<Rightarrow> unit ops_io" where
  "check_identity env m =
     bind_io (wrap_io ''get obcluster name failed'' (db_GetParameter env ''cluster'' None)) (\<lambda>names.
     bind_io (deref_io (first_value names)) (\<lambda>name.
     bind_io (wrap_io ''get obcluster id failed'' (db_GetParameter env ''cluster_id'' None)) (\<lambda>ids.
     bind_io (deref_io (first_value ids)) (\<lambda>cid.
       if name \<noteq> ClusterSpec_ClusterName m
       then raise (OtherError (''Cluster name mismatch, source cluster: '' @ name @ '', current: '' @ ClusterSpec_ClusterName m))
       else if cid \<noteq> show_int (ClusterSpec_ClusterId m)
       then raise (OtherError (''Cluster id mismatch, source cluster: '' @ cid @ '', current: '' @ show_int (ClusterSpec_ClusterId m)))
       else ret ()))))"

definition check_zones :: "ops_env \<Rightarrow> OBCluster \<Rightarrow> row list \<Rightarrow> unit ops_io" where
  "check_zones env m obzones =
     (case extra_zones (map (\<lambda>r. col_str r ''name'') obzones) (map Zone (ClusterSpec_Topology m)) of
        (extra, undefined_zones) \<Rightarrow>
          if extra \<noteq> [] then raise (OtherError (''obzone '' @ Join extra '','' @ '' defined but not in source cluster''))
          else if undefined_zones \<noteq> [] then raise (OtherError ''obzone not defined in topology'')
          else check_identity env m)"

definition check_source :: "ops_env \<Rightarrow> OBCluster \<Rightarrow> string \<Rightarrow> unit ops_io" where
  "check_source env m targetVersionStr =
     bind_io (wrap_io ''get source oceanbase version'' (db_GetVersion env)) (\<lambda>v.
     bind_io (deref_io v) (\<lambda>source.
       if OBVersion_String source \<noteq> targetVersionStr
       then raise (OtherError (''version mismatch source cluster: '' @ OBVersion_String source @ '', target cluster: '' @ targetVersionStr))
       else bind_io (wrap_io ''list obzones'' (db_ListZones env)) (check_zones env m)))"

definition CheckMigration :: "ops_env \<Rightarrow> OBCluster \<Rightarrow> unit ops_io" where
  "CheckMigration env m =
     bind_io (wrap_io ''get operation manager'' (utils_GetSysOperationClient env m)) (\<lambda>_.
     bind_io (helper_job env m ''-version'' CmdVersion) (\<lambda>(target, _, err).
       case err of Some e \<Rightarrow> raise (wrap ''get target oceanbase version'' e) | None \<Rightarrow> check_source env m target))"

section \<open>The storage\<close>

text \<open>A deferred call: it is made whatever the outcome was, and its error is only logged.\<close>

definition finally_io :: "'a ops_io \<Rightarrow> unit ops_io \<Rightarrow> 'a ops_io" where
  "finally_io f g = (\<lambda>h. case f h of (r, h') \<Rightarrow> (r, snd (g h')))"

definition CheckEnvironment :: "ops_env \<Rightarrow> OBCluster \<Rightarrow> unit ops_io" where
  "CheckEnvironment env m =
     bind_io (op_peek (op_rand3 env)) (\<lambda>(r1, r2, r3).
       let volumeName = Name m @ ''check-clog-volume-'' @ r1; claimName = Name m @ ''check-clog-claim-'' @ r2;
           jobName = Name m @ ''-check-fs-'' @ r3; storage = RedoLogStorage (Storage (ClusterSpec_OBServerTemplate m));
           pvc = \<lparr>PVC_Name = claimName, PVC_Request = Size storage, PVC_StorageClass = StorageClass storage, PVC_Labels = Map.empty,
                  PVC_Owners = [Name m]\<rparr>
       in bind_io (wrap_io ''Create pvc for checking storage'' (op_call env (CreatedClaimFor (Name m) pvc))) (\<lambda>_.
          finally_io
            (bind_io (RunJob env jobName (Image (ClusterSpec_OBServerTemplate m)) (PodFields (ClusterSpec_OBServerTemplate m))
                ''/home/admin/oceanbase/bin/oceanbase-helper env-check storage /home/admin/data-log''
                [([\<lparr>Mount_Name = volumeName, Mount_Path = ''/home/admin/data-log'', Mount_SubPath = []\<rparr>],
                  [\<lparr>Volume_Name = volumeName, Volume_Source = PersistentVolumeClaimSource claimName\<rparr>])]) (\<lambda>(_, exitCode, err).
              case err of
                Some e \<Rightarrow> if exitCode \<noteq> 1 then raise (wrap ''Check filesystem'' e) else ret ()
              | None \<Rightarrow> ret ()))
            (op_call env (DeletedClaimOf claimName))))"

section \<open>Annotations and parameters\<close>

definition annotated :: "'a ObjectMeta_scheme \<Rightarrow> 'a ObjectMeta_scheme" where
  "annotated x = x\<lparr>Annotations := (Annotations x)(AnnotationsSupportStaticIP \<mapsto> ''true'')\<rparr>"

definition annotate_zone :: "ops_env \<Rightarrow> OBZone \<Rightarrow> unit ops_io" where
  "annotate_zone env z = wrap_io ''Patch obzone'' (op_call env (PatchedOBZone (annotated z)))"

definition servers_support_static :: "ops_env \<Rightarrow> bool ops_io" where
  "servers_support_static env =
     bind_io (wrap_io ''List servers of obcluster'' (op_read (op_cluster_servers env) ListedClusterServers)) (\<lambda>servers.
       if servers = [] then raise (OtherError ''No server found for obcluster'')
       else ret (list_ex (\<lambda>s. ServerStatus_CNI s \<noteq> ''unknown'') servers))"

definition AnnotateOBCluster :: "ops_env \<Rightarrow> OBCluster \<Rightarrow> unit ops_io" where
  "AnnotateOBCluster env m =
     (let mode = dict_get (Annotations m) AnnotationsMode
      in bind_io (if mode = ''service'' \<or> mode = ''standalone'' then ret True else servers_support_static env) (\<lambda>supported.
        if \<not> supported then ret ()
        else bind_io (wrap_io ''Patch obcluster'' (op_call env (PatchedOBCluster (annotated m)))) (\<lambda>_.
             bind_io (wrap_io ''List obzones'' (ops_listOBZones env)) (each_io (annotate_zone env)))))"

text \<open>Without a connection the first parameter dereferences nil.\<close>

definition OptimizeClusterByScenario :: "ops_env \<Rightarrow> OBCluster \<Rightarrow> unit ops_io" where
  "OptimizeClusterByScenario env m =
     bind_io (op_peek (op_rand env)) (\<lambda>suf.
     bind_io (RunJob env (''optimize-cluster-'' @ Name m @ ''-'' @ suf) (Image (ClusterSpec_OBServerTemplate m))
         (PodFields (ClusterSpec_OBServerTemplate m)) (''bin/oceanbase-helper optimize cluster '' @ ClusterSpec_Scenario m) []) (\<lambda>(output, code, _).
       if code = 0 \<or> code = 8 then
         bind_io (catch_io (utils_GetSysOperationClient env m)) (\<lambda>conn.
           each_io (\<lambda>(name, v).
             case conn of
               Inl _ \<Rightarrow> panic
             | Inr _ \<Rightarrow> log_io (db_SetParameter env name (ConvertFloat v) None)) (op_optimization env output))
       else ret ()))"

text \<open>What \<^verbatim>\<open>AdjustParameters\<close> gathers over the servers: most memory, its share of the limit, most cores.\<close>

definition gather_usage :: "ops_env \<Rightarrow> Quantity \<Rightarrow> row \<Rightarrow> int \<times> memory_share \<times> int \<Rightarrow> int \<times> memory_share \<times> int" where
  "gather_usage env oldMemory gv = (\<lambda>(mem, share, cpu).
     let assigned = col_int gv ''mem_assigned''; limit = col_int gv ''memory_limit''; cores = col_int gv ''cpu_assigned'';
         (mem', share') = (if assigned > mem
           then (assigned, if limit > op_Value env oldMemory then NinetyPercent else ShareOf limit oldMemory)
           else (mem, share))
     in (mem', share', if cores > cpu then cores else cpu))"

fun set_parameter :: "string \<Rightarrow> string \<Rightarrow> Parameter list \<Rightarrow> Parameter list" where
  "set_parameter name val [] = [\<lparr>Param_Name = name, Param_Value = val\<rparr>]"
| "set_parameter name val (p # ps) =
     (if Param_Name p = name then p\<lparr>Param_Value := val\<rparr> # ps else p # set_parameter name val ps)"

definition memory_target :: "ops_env \<Rightarrow> Quantity \<Rightarrow> Quantity \<Rightarrow> row list \<Rightarrow> int" where
  "memory_target env oldMemory newMemory gvservers =
     (case foldl (\<lambda>acc gv. gather_usage env oldMemory gv acc) (0, NoShare, 0) gvservers of
        (mem, share, _) \<Rightarrow> max (op_scale env share newMemory) mem)"

definition adjusted_parameters :: "ops_env \<Rightarrow> ResourceSpec \<Rightarrow> ResourceSpec \<Rightarrow> row list \<Rightarrow> Parameter list \<Rightarrow> Parameter list" where
  "adjusted_parameters env old new gvservers ps =
     (let ps1 = (if Memory new \<noteq> Memory old
           then set_parameter ''memory_limit'' (show_int (memory_target env (Memory old) (Memory new) gvservers div 2 ^ 20) @ ''M'') ps
           else ps)
      in if Cpu old \<noteq> Cpu new
         then set_parameter ''cpu_count'' (if op_Value env (Cpu new) > 16 then op_Quantity_String env (Cpu new) else ''16'') ps1
         else ps1)"

definition patch_adjusted :: "ops_env \<Rightarrow> OBCluster \<Rightarrow> row list \<Rightarrow> OBZone list \<Rightarrow> unit ops_io" where
  "patch_adjusted env m gvservers zones =
     (case zones of
        [] \<Rightarrow> raise (OtherError ''No obzone found'')
      | zone # _ \<Rightarrow>
          wrap_io ''Patch obcluster'' (op_call env (PatchedOBCluster
            (m\<lparr>ClusterSpec_Parameters := adjusted_parameters env (Template_Resource (ZoneSpec_OBServerTemplate zone))
               (Template_Resource (ClusterSpec_OBServerTemplate m)) gvservers (ClusterSpec_Parameters m)\<rparr>))))"

definition AdjustParameters :: "ops_env \<Rightarrow> OBCluster \<Rightarrow> unit ops_io" where
  "AdjustParameters env m =
     bind_io (wrap_io ''Get operation manager'' (utils_GetSysOperationClient env m)) (\<lambda>_.
     bind_io (wrap_io ''List gv servers'' (db_ListGVServers env)) (\<lambda>gvservers.
     bind_io (wrap_io ''List obzones'' (ops_listOBZones env)) (patch_adjusted env m gvservers)))"

section \<open>Lemmas\<close>

text \<open>A pod that is not scheduled has no container states, and counts as one whose image is there.\<close>

lemma unscheduled_pod_counts_as_ready: "image_verdict_of (\<lparr>ImagePod_Phase = ''Pending'', ImagePod_States = []\<rparr> # pods) = ImageReady"
  by (simp add: image_verdict_of_def)

text \<open>An empty name of the network is not the unknown one, so such a server counts as one with static addresses.\<close>

lemma empty_cni_supports_static:
  "op_cluster_servers env h = Inr [s] \<Longrightarrow> ServerStatus_CNI s = [] \<Longrightarrow> fst (servers_support_static env h) = Ok True"
  by (simp add: servers_support_static_def op_read_def io_defs)

lemma extends_runner_exit_code [io_extends]: "extends (runner_exit_code cs code)"
  by (induction cs arbitrary: code) (auto intro!: io_extends)

lemma extends_wait_job [io_extends]: "extends (wait_job env name n err)"
  by (induction n arbitrary: err) (auto simp: GetJob_def intro!: io_extends split: sum.split)

lemma extends_run_job [io_extends]: "extends (RunJob env name img pf cmd vcs)"
  unfolding RunJob_def finish_job_def Let_def by (auto intro!: io_extends split: sum.split list.split)

lemma extra_zones_none:
  "extra_zones zoneMap zs = ([], rest) \<Longrightarrow> distinct zs \<and> set zs \<subseteq> set zoneMap \<and> set rest = set zoneMap - set zs"
proof (induction zoneMap zs arbitrary: rest rule: extra_zones.induct)
  case (2 zoneMap z zs)
  from "2.prems" have z: "z \<in> set zoneMap" by (auto split: if_splits prod.splits)
  with "2.prems" have "extra_zones (filter (\<lambda>y. y \<noteq> z) zoneMap) zs = ([], rest)" by simp
  from "2.IH" (1) [OF z this] z show ?case by auto
qed simp

lemma value_of_set_parameter: "value_of (set_parameter name val ps) = (value_of ps)(name \<mapsto> val)"
proof (induction ps)
  case Nil
  show ?case by (auto simp: value_of_def)
qed (auto simp: value_of_Cons)

lemma gathered_most:
  "foldl (\<lambda>acc gv. gather_usage env q gv acc) (mem, share, cpu) gvs = (mem', share', cpu') \<Longrightarrow>
    mem \<le> mem' \<and> (\<forall>gv \<in> set gvs. col_int gv ''mem_assigned'' \<le> mem')"
proof (induction gvs arbitrary: mem share cpu)
  case (Cons gv gvs)
  obtain mem1 share1 cpu1 where step: "gather_usage env q gv (mem, share, cpu) = (mem1, share1, cpu1)" by (metis prod_cases3)
  then have "mem \<le> mem1" "col_int gv ''mem_assigned'' \<le> mem1" by (auto simp: gather_usage_def Let_def split: if_splits)
  with Cons step show ?case by fastforce
qed simp

lemma memory_target_covers: "gv \<in> set gvs \<Longrightarrow> col_int gv ''mem_assigned'' \<le> memory_target env old new gvs"
proof -
  assume gv: "gv \<in> set gvs"
  obtain mem share cpu where "foldl (\<lambda>acc gv. gather_usage env old gv acc) (0, NoShare, 0) gvs = (mem, share, cpu)" by (metis prod_cases3)
  with gathered_most [OF this] gv show ?thesis by (auto simp: memory_target_def)
qed

lemma finally_last:
  assumes "extends f"
  shows "\<exists>es r. snd (finally_io f (op_call env call) h) = h @ es @ [ApiCall (call r)]"
proof -
  obtain r h' where run: "f h = (r, h')" by force
  then obtain es where "h' = h @ es" using extendsD [OF assms] by blast
  with run show ?thesis by (auto simp: finally_io_def op_call_def perform_def)
qed

section \<open>Properties\<close>

text \<open>
  Lowering the memory of a cluster keeps what its tenants hold. When \<^verbatim>\<open>AdjustParameters\<close> ends well
  and the memory differs from that of the first zone, the last thing it did was to give the cluster a
  memory limit that is, in whole megabytes, at least the memory assigned on each server; every
  other parameter but the number of cores has the value it had.
\<close>

theorem memory_limit_covers_assigned:
  assumes "AdjustParameters env m h = (Ok (), h')"
  shows "\<exists>m' zone zones gvservers k k' es. h' = es @ [ApiCall (PatchedOBCluster m' (Inr ()))] \<and>
    conn_rows env k sql_ListGVServers [] = Inr gvservers \<and> op_zones env k' = Inr (zone # zones) \<and>
    (\<forall>n. n \<noteq> ''memory_limit'' \<and> n \<noteq> ''cpu_count'' \<longrightarrow> value_of (ClusterSpec_Parameters m') n = value_of (ClusterSpec_Parameters m) n) \<and>
    (Memory (Template_Resource (ClusterSpec_OBServerTemplate m)) \<noteq> Memory (Template_Resource (ZoneSpec_OBServerTemplate zone)) \<longrightarrow>
      (\<exists>limit. value_of (ClusterSpec_Parameters m') ''memory_limit'' = Some (show_int limit @ ''M'') \<and>
        (\<forall>gv \<in> set gvservers. col_int gv ''mem_assigned'' div 2 ^ 20 \<le> limit)))"
proof -
  from assms obtain client h1 gvservers h2 zones h3
    where gv: "db_ListGVServers env h1 = (Ok gvservers, h2)" and listed: "ops_listOBZones env h2 = (Ok zones, h3)"
      and patch: "patch_adjusted env m gvservers zones h3 = (Ok (), h')"
    unfolding AdjustParameters_def bind_Ok_iff wrap_Ok_iff by blast
  then obtain zone rest where zones: "zones = zone # rest" by (cases zones) (auto simp: patch_adjusted_def)
  let ?old = "Template_Resource (ZoneSpec_OBServerTemplate zone)" and ?new = "Template_Resource (ClusterSpec_OBServerTemplate m)"
  let ?m = "m\<lparr>ClusterSpec_Parameters := adjusted_parameters env ?old ?new gvservers (ClusterSpec_Parameters m)\<rparr>"
  let ?limit = "memory_target env (Memory ?old) (Memory ?new) gvservers div 2 ^ 20"
  from patch zones have last: "h' = h3 @ [ApiCall (PatchedOBCluster ?m (Inr ()))]" by (simp add: patch_adjusted_def op_Ok_iffs)
  from listed zones have zone: "op_zones env h2 = Inr (zone # rest)" by (simp add: ops_listOBZones_def op_Ok_iffs)
  from gv have rows: "conn_rows env h1 sql_ListGVServers [] = Inr gvservers" by (simp add: db_ListGVServers_def QueryList_def perform_Ok_iff)
  have others: "\<forall>n. n \<noteq> ''memory_limit'' \<and> n \<noteq> ''cpu_count'' \<longrightarrow> value_of (ClusterSpec_Parameters ?m) n = value_of (ClusterSpec_Parameters m) n"
    by (simp add: adjusted_parameters_def Let_def value_of_set_parameter)
  have "Memory ?new \<noteq> Memory ?old \<longrightarrow> value_of (ClusterSpec_Parameters ?m) ''memory_limit'' = Some (show_int ?limit @ ''M'')"
    by (simp add: adjusted_parameters_def Let_def value_of_set_parameter)
  moreover have "\<forall>gv \<in> set gvservers. col_int gv ''mem_assigned'' div 2 ^ 20 \<le> ?limit"
    using memory_target_covers by (auto intro: zdiv_mono1)
  ultimately have limit: "Memory ?new \<noteq> Memory ?old \<longrightarrow>
      (\<exists>limit. value_of (ClusterSpec_Parameters ?m) ''memory_limit'' = Some (show_int limit @ ''M'') \<and>
        (\<forall>gv \<in> set gvservers. col_int gv ''mem_assigned'' div 2 ^ 20 \<le> limit))" by blast
  show ?thesis by (rule exI [of _ ?m], rule exI [of _ zone], rule exI [of _ rest], rule exI [of _ gvservers], rule exI [of _ h1], rule exI [of _ h2], rule exI [of _ h3],
      rule conjI [OF last conjI [OF rows conjI [OF zone conjI [OF others limit]]]])
qed

text \<open>A server that holds five gigabytes for tenants, and a cluster that is lowered to one.\<close>

definition full_server_env :: ops_env where
  "full_server_env = quiet_ops_env\<lparr>conn_rows := \<lambda>_ sql _.
     Inr [[(''mem_assigned'', SQL_Int (5 * 2 ^ 30)), (''memory_limit'', SQL_Int (9 * 2 ^ 30)), (''cpu_assigned'', SQL_Int 4)]]\<rparr>"

definition lowered_cluster :: OBCluster where
  "lowered_cluster = small_cluster\<lparr>ClusterSpec_OBServerTemplate := small_template\<lparr>Template_Resource := \<lparr>Cpu = 1, Memory = 2 ^ 30\<rparr>\<rparr>\<rparr>"

theorem memory_limit_covers_assigned_witness:
  "\<exists>m' limit es. snd (AdjustParameters full_server_env lowered_cluster []) = es @ [ApiCall (PatchedOBCluster m' (Inr ()))] \<and>
    value_of (ClusterSpec_Parameters m') ''memory_limit'' = Some (show_int limit @ ''M'') \<and> limit \<ge> 5120"
proof -
  have rows: "conn_rows full_server_env h sql params =
      Inr [[(''mem_assigned'', SQL_Int (5 * 2 ^ 30)), (''memory_limit'', SQL_Int (9 * 2 ^ 30)), (''cpu_assigned'', SQL_Int 4)]]"
    and zones: "op_zones full_server_env h = Inr [small_zone]" and accepts: "op_write full_server_env h call = Inr ()" for h sql params call
    by (simp_all add: full_server_env_def)
  obtain h1 where "utils_GetSysOperationClient full_server_env lowered_cluster [] = (Ok pooled_root, h1)"
    using connected_cluster [of lowered_cluster full_server_env "[]" "[''password'' \<mapsto> ''wrong'']"] small_cluster_no_source
    by (auto simp: full_server_env_def lowered_cluster_def GetAnnotationField_def)
  then have "AdjustParameters full_server_env lowered_cluster [] = (Ok (), snd (AdjustParameters full_server_env lowered_cluster []))"
    by (simp add: AdjustParameters_def patch_adjusted_def bind_io_def wrap_io_def db_ListGVServers_def QueryList_def ops_listOBZones_def
        op_read_def op_call_def perform_def rows zones accepts)
  from memory_limit_covers_assigned [OF this] obtain m' zone zs gvs k k' es
    where all: "snd (AdjustParameters full_server_env lowered_cluster []) = es @ [ApiCall (PatchedOBCluster m' (Inr ()))]"
      "conn_rows full_server_env k sql_ListGVServers [] = Inr gvs" "op_zones full_server_env k' = Inr (zone # zs)"
      "Memory (Template_Resource (ClusterSpec_OBServerTemplate lowered_cluster)) \<noteq> Memory (Template_Resource (ZoneSpec_OBServerTemplate zone)) \<longrightarrow>
        (\<exists>limit. value_of (ClusterSpec_Parameters m') ''memory_limit'' = Some (show_int limit @ ''M'') \<and>
          (\<forall>gv \<in> set gvs. col_int gv ''mem_assigned'' div 2 ^ 20 \<le> limit))" by (elim exE conjE)
  have "zone = small_zone" using all(3) by (simp add: zones)
  then have "Memory (Template_Resource (ClusterSpec_OBServerTemplate lowered_cluster)) \<noteq> Memory (Template_Resource (ZoneSpec_OBServerTemplate zone))"
    by (simp add: lowered_cluster_def small_zone_def small_template_def)
  with all(4) obtain limit where "value_of (ClusterSpec_Parameters m') ''memory_limit'' = Some (show_int limit @ ''M'')"
    and least: "\<forall>gv \<in> set gvs. col_int gv ''mem_assigned'' div 2 ^ 20 \<le> limit" by blast
  moreover have "5120 \<le> limit" using least all(2) by (auto simp: rows col_int_def)
  ultimately show ?thesis using all(1) by blast
qed

text \<open>
  C34. A migration starts only from a cluster that matches. When \<^verbatim>\<open>CheckMigration\<close> ends well, the
  version of the source is the one that the image prints, the topology names each zone once, its
  zones are exactly those of the source, and the source has the cluster's name and number.
\<close>

theorem migration_source_matches:
  assumes "CheckMigration env m h = (Ok (), h')"
  shows "\<exists>printed code v obzones names ids k1 k2 k3 k4 k5 k6 k7.
    helper_job env m ''-version'' CmdVersion k1 = (Ok (printed, code, None), k2) \<and> db_GetVersion env k2 = (Ok (Some v), k3) \<and>
    OBVersion_String v = printed \<and> db_ListZones env k3 = (Ok obzones, k4) \<and> distinct (map Zone (ClusterSpec_Topology m)) \<and>
    set (map Zone (ClusterSpec_Topology m)) = set (map (\<lambda>r. col_str r ''name'') obzones) \<and>
    db_GetParameter env ''cluster'' None k4 = (Ok names, k5) \<and> first_value names = Some (ClusterSpec_ClusterName m) \<and>
    db_GetParameter env ''cluster_id'' None k6 = (Ok ids, k7) \<and> first_value ids = Some (show_int (ClusterSpec_ClusterId m))"
proof -
  from assms obtain client k1 printed code err k2 where job: "helper_job env m ''-version'' CmdVersion k1 = (Ok (printed, code, err), k2)"
    and rest: "(case err of Some e \<Rightarrow> raise (wrap ''get target oceanbase version'' e) | None \<Rightarrow> check_source env m printed) k2 = (Ok (), h')"
    unfolding CheckMigration_def bind_Ok_iff wrap_Ok_iff by auto
  from rest have err: "err = None" and src: "check_source env m printed k2 = (Ok (), h')" by (cases err; simp)+
  from src obtain v k3 where version: "db_GetVersion env k2 = (Ok (Some v), k3)" "OBVersion_String v = printed"
    and zones: "bind_io (wrap_io ''list obzones'' (db_ListZones env)) (check_zones env m) k3 = (Ok (), h')"
    by (auto simp: check_source_def bind_Ok_iff split: if_splits)
  from zones obtain obzones k4 where listed: "db_ListZones env k3 = (Ok obzones, k4)" and zs: "check_zones env m obzones k4 = (Ok (), h')"
    by (auto simp: bind_Ok_iff)
  let ?names = "map (\<lambda>r. col_str r ''name'') obzones" and ?topology = "map Zone (ClusterSpec_Topology m)"
  from zs have extra: "extra_zones ?names ?topology = ([], [])" and ident: "check_identity env m k4 = (Ok (), h')"
    by (auto simp: check_zones_def split: prod.splits if_splits)
  from ident obtain names k5 ids k6 where
    "db_GetParameter env ''cluster'' None k4 = (Ok names, k5)" "first_value names = Some (ClusterSpec_ClusterName m)"
    "db_GetParameter env ''cluster_id'' None k5 = (Ok ids, k6)" "first_value ids = Some (show_int (ClusterSpec_ClusterId m))"
    by (auto simp: check_identity_def bind_Ok_iff split: if_splits)
  with job err version listed extra_zones_none [OF extra] show ?thesis by fastforce
qed

definition migration_env :: ops_env where
  "migration_env = quiet_ops_env\<lparr>
     op_job_pods := \<lambda>_ _. Inr [\<lparr>JobPod_Name = ''p'', JobPod_ExitCodes = [(''job-runner'', Some 0)]\<rparr>],
     op_job_logs := \<lambda>_ _. Inr ''4.2.1.4'',
     conn_rows := \<lambda>_ sql params. Inr
       (if sql = sql_ListServer then [[(''build_version'', SQL_Str ''4.2.1.4-abc'')]]
        else if sql = sql_ListZones then [[(''name'', SQL_Str ''zone1'')]]
        else if params = [SQL_Str ''cluster''] then [[(''value'', SQL_Str ''test'')]]
        else [[(''value'', SQL_Str ''1'')]])\<rparr>"

lemma migration_env_simps [simp]:
  "op_write migration_env h call = Inr ()" "op_job migration_env h name = Inr \<lparr>K8sJob_Succeeded = 1, K8sJob_Failed = 0\<rparr>"
  "op_job_pods migration_env h name = Inr [\<lparr>JobPod_Name = ''p'', JobPod_ExitCodes = [(''job-runner'', Some 0)]\<rparr>]"
  "op_job_logs migration_env h pod = Inr ''4.2.1.4''" "op_CheckJobMaxRetries migration_env = 2"
  "conn_rows migration_env h sql_ListServer [] = Inr [[(''build_version'', SQL_Str ''4.2.1.4-abc'')]]"
  by (simp_all add: migration_env_def)

lemma migration_env_rows:
  "conn_rows migration_env h sql_ListZones [] = Inr [[(''name'', SQL_Str ''zone1'')]]"
  "conn_rows migration_env h sql_QueryParameter [SQL_Str ''cluster''] = Inr [[(''value'', SQL_Str ''test'')]]"
  "conn_rows migration_env h sql_QueryParameter [SQL_Str ''cluster_id''] = Inr [[(''value'', SQL_Str ''1'')]]"
proof -
  have "sql_ListZones \<noteq> sql_ListServer" "sql_QueryParameter \<noteq> sql_ListServer" "sql_QueryParameter \<noteq> sql_ListZones" by code_simp+
  then show "conn_rows migration_env h sql_ListZones [] = Inr [[(''name'', SQL_Str ''zone1'')]]"
    "conn_rows migration_env h sql_QueryParameter [SQL_Str ''cluster''] = Inr [[(''value'', SQL_Str ''test'')]]"
    "conn_rows migration_env h sql_QueryParameter [SQL_Str ''cluster_id''] = Inr [[(''value'', SQL_Str ''1'')]]"
    by (simp_all add: migration_env_def)
qed

theorem migration_source_matches_witness:
  "\<exists>k. CheckMigration migration_env small_cluster [] = (Ok (), k) \<and>
    (\<exists>k3 k4 obzones. db_ListZones migration_env k3 = (Ok obzones, k4) \<and> {''zone1''} = set (map (\<lambda>r. col_str r ''name'') obzones))"
proof -
  obtain h1 where client: "utils_GetSysOperationClient migration_env small_cluster [] = (Ok pooled_root, h1)"
    using connected_anyway [of migration_env "[]" "[''password'' \<mapsto> ''wrong'']"] by (auto simp: migration_env_def)
  obtain h2 where job: "helper_job migration_env small_cluster ''-version'' CmdVersion h1 = (Ok (''4.2.1.4'', 0, None), h2)"
    by (simp add: helper_job_def RunJob_def finish_job_def Let_def op_peek_def op_call_def op_read_def io_defs numeral_2_eq_2 GetJob_def job_running_def)
  have "case common_version [''4.2.1.4-abc''] None of Some (Inr (Some v)) \<Rightarrow> OBVersion_String v = ''4.2.1.4'' | _ \<Rightarrow> False" by code_simp
  then obtain v where v: "common_version [''4.2.1.4-abc''] None = Some (Inr (Some v))" "OBVersion_String v = ''4.2.1.4''"
    by (auto split: option.splits sum.splits)
  have one: "show_int 1 = ''1''" by code_simp
  obtain h3 where version: "db_GetVersion migration_env h2 = (Ok (Some v), h3)"
    using v(1) by (simp add: db_GetVersion_def db_ListServers_def QueryList_def io_defs col_str_def del: common_version.simps)
  have "check_source migration_env small_cluster ''4.2.1.4'' h2 = (Ok (), snd (check_source migration_env small_cluster ''4.2.1.4'' h2))"
    by (simp add: check_source_def version QueryList_def io_defs col_str_def v(2) db_ListZones_def
        migration_env_rows check_zones_def check_identity_def db_GetParameter_def first_value_def small_cluster_def zone1_topology_def one)
  with client job have run: "CheckMigration migration_env small_cluster [] = (Ok (), snd (CheckMigration migration_env small_cluster []))"
    by (simp add: CheckMigration_def bind_io_def wrap_io_def)
  from migration_source_matches [OF this] obtain k3 k4 obzones where "db_ListZones migration_env k3 = (Ok obzones, k4)"
    "set (map Zone (ClusterSpec_Topology small_cluster)) = set (map (\<lambda>r. col_str r ''name'') obzones)" by (elim exE conjE)
  with run show ?thesis by (auto simp: small_cluster_def zone1_topology_def)
qed

text \<open>
  The claim that \<^verbatim>\<open>CheckEnvironment\<close> makes to try the storage does not stay: whatever the API
  server answers and however the job ends, once the claim was made the last interaction of the task
  is its deletion; when it could not be made nothing else is done.
\<close>

theorem trial_claim_removed:
  "\<exists>pvc r es. snd (CheckEnvironment env m h) = h @ ApiCall (CreatedClaimFor (Name m) pvc r) # es \<and>
    (case r of Inl _ \<Rightarrow> es = [] | Inr _ \<Rightarrow> \<exists>es' r'. es = es' @ [ApiCall (DeletedClaimOf (PVC_Name pvc) r')])"
proof -
  obtain r1 r2 r3 where rand: "op_rand3 env h = (r1, r2, r3)" by (metis prod_cases3)
  let ?storage = "RedoLogStorage (Storage (ClusterSpec_OBServerTemplate m))" and ?claim = "Name m @ ''check-clog-claim-'' @ r2"
  let ?pvc = "\<lparr>PVC_Name = ?claim, PVC_Request = Size ?storage, PVC_StorageClass = StorageClass ?storage, PVC_Labels = Map.empty, PVC_Owners = [Name m]\<rparr>"
  show ?thesis
  proof (cases "op_write env h (CreatedClaimFor (Name m) ?pvc)")
    case (Inl err)
    then have "snd (CheckEnvironment env m h) = h @ [ApiCall (CreatedClaimFor (Name m) ?pvc (Inl err))]"
      by (simp add: CheckEnvironment_def op_peek_def rand Let_def op_call_def io_defs)
    then show ?thesis by (intro exI [of _ ?pvc] exI [of _ "Inl err"]) simp
  next
    case (Inr u)
    let ?k = "h @ [ApiCall (CreatedClaimFor (Name m) ?pvc (Inr ()))]"
    define f where "f = bind_io (RunJob env (Name m @ ''-check-fs-'' @ r3) (Image (ClusterSpec_OBServerTemplate m)) (PodFields (ClusterSpec_OBServerTemplate m))
        ''/home/admin/oceanbase/bin/oceanbase-helper env-check storage /home/admin/data-log''
        [([\<lparr>Mount_Name = Name m @ ''check-clog-volume-'' @ r1, Mount_Path = ''/home/admin/data-log'', Mount_SubPath = []\<rparr>],
          [\<lparr>Volume_Name = Name m @ ''check-clog-volume-'' @ r1, Volume_Source = PersistentVolumeClaimSource ?claim\<rparr>])])
        (\<lambda>(_, exitCode, err). case err of Some e \<Rightarrow> if exitCode \<noteq> 1 then raise (wrap ''Check filesystem'' e) else ret () | None \<Rightarrow> ret ())"
    have "extends f" unfolding f_def by (auto intro!: io_extends split: option.split)
    then obtain es r' where "snd (finally_io f (op_call env (DeletedClaimOf ?claim)) ?k) = ?k @ es @ [ApiCall (DeletedClaimOf ?claim r')]"
      using finally_last by blast
    moreover have "CheckEnvironment env m h = finally_io f (op_call env (DeletedClaimOf ?claim)) ?k"
      using Inr unfolding f_def by (simp add: CheckEnvironment_def op_peek_def rand Let_def op_call_def bind_io_def wrap_io_def perform_def)
    ultimately show ?thesis by (intro exI [of _ ?pvc] exI [of _ "Inr ()"]) auto
  qed
qed

end
