(* ===== verification/OBZone_Ops.thy ===== *)
theory OBZone_Ops
  imports Upgrade_Tasks
begin

text \<open>
  The tasks of \<^verbatim>\<open>internal/resource/obzone/obzone_task.go\<close> that act on the database, run scripts or
  replace servers, as programs over the log of their calls, and the waits for a status of the
  servers and of the zones, whose loops are in \<^verbatim>\<open>OBZone_Tasks\<close> and \<^verbatim>\<open>OBCluster_Tasks\<close>.
\<close>

section \<open>The zone in the database\<close>

definition ops_getOBCluster :: "ops_env \<Rightarrow> OBCluster ops_io" where
  "ops_getOBCluster env = wrap_io ''get obcluster'' (op_read (op_owning_cluster env) GotOwningCluster)"

definition zone_OperationManager :: "ops_env \<Rightarrow> Connector ops_io" where
  "zone_OperationManager env = bind_io (wrap_io ''Get obcluster from K8s'' (ops_getOBCluster env)) (utils_GetSysOperationClient env)"

definition ops_listOBServers :: "ops_env \<Rightarrow> OBServer list ops_io" where
  "ops_listOBServers env = wrap_io ''get observers'' (op_read (op_zone_servers env) ListedZoneServers)"

abbreviation zone_of :: "OBZone \<Rightarrow> string" where
  "zone_of m \<equiv> Zone (ZoneSpec_Topology m)"

definition AddZone :: "ops_env \<Rightarrow> OBZone \<Rightarrow> unit ops_io" where
  "AddZone env m =
     bind_io (wrap_io ''Get oceanbase operation manager'' (zone_OperationManager env)) (\<lambda>_. db_AddZone env (zone_of m))"

definition StartOBZone :: "ops_env \<Rightarrow> OBZone \<Rightarrow> unit ops_io" where
  "StartOBZone env m =
     bind_io (wrap_io ''Get oceanbase operation manager'' (zone_OperationManager env)) (\<lambda>_. db_StartZone env (zone_of m))"

definition StopOBZone :: "ops_env \<Rightarrow> OBZone \<Rightarrow> unit ops_io" where
  "StopOBZone env m =
     bind_io (wrap_io (''OBZone '' @ Name m @ '' get oceanbase operation manager'') (zone_OperationManager env)) (\<lambda>_.
       wrap_io (''Stop obzone '' @ zone_of m @ '' failed'') (db_StopZone env (zone_of m)))"

definition DeleteOBZoneInCluster :: "ops_env \<Rightarrow> OBZone \<Rightarrow> unit ops_io" where
  "DeleteOBZoneInCluster env m =
     bind_io (wrap_io (''OBZone '' @ Name m @ '' get oceanbase operation manager'') (zone_OperationManager env)) (\<lambda>_.
       wrap_io (''Delete obzone '' @ zone_of m @ '' failed'') (db_DeleteZone env (zone_of m)))"

text \<open>A health check does not stop the upgrade: the error of its script is dropped.\<close>

definition OBClusterHealthCheck :: "ops_env \<Rightarrow> OBZone \<Rightarrow> unit ops_io" where
  "OBClusterHealthCheck env m =
     bind_io (wrap_io ''Get obcluster from K8s'' (ops_getOBCluster env)) (\<lambda>obcluster.
       log_io (ExecuteUpgradeScript env obcluster ''/home/admin/oceanbase/etc/upgrade_health_checker.py'' []))"

definition OBZoneHealthCheck :: "ops_env \<Rightarrow> OBZone \<Rightarrow> unit ops_io" where
  "OBZoneHealthCheck env m =
     bind_io (wrap_io ''Get obcluster from K8s'' (ops_getOBCluster env)) (\<lambda>obcluster.
       log_io (ExecuteUpgradeScript env obcluster ''/home/admin/oceanbase/etc/upgrade_health_checker.py''
         (''-z '' @ [CHR 0x27] @ zone_of m @ [CHR 0x27])))"

section \<open>Servers\<close>

text \<open>
  A patch of a server when \<open>needed\<close>. It is computed against the copy of the server as it was listed,
  and carries the changes made so far.
\<close>

definition patch_server :: "ops_env \<Rightarrow> bool \<Rightarrow> string \<Rightarrow> (OBServer \<Rightarrow> OBServer) \<Rightarrow> OBServer \<Rightarrow> OBServer ops_io" where
  "patch_server env needed msg change s =
     (if needed then bind_io (wrap_io (msg @ '' '' @ Name s @ '' failed'') (op_call env (PatchedOBServer (change s)))) (\<lambda>_. ret (change s))
      else ret s)"

definition modify_pod_template :: "ops_env \<Rightarrow> OBZone \<Rightarrow> OBServer \<Rightarrow> unit ops_io" where
  "modify_pod_template env m s0 =
     bind_io (patch_server env (ServerSpec_BackupVolume s0 = None \<and> ZoneSpec_BackupVolume m \<noteq> None) ''Add backup volume''
       (\<lambda>s. s\<lparr>ServerSpec_BackupVolume := ZoneSpec_BackupVolume m\<rparr>) s0) (\<lambda>s1.
     bind_io (patch_server env (ServerSpec_MonitorTemplate s1 = None \<and> ZoneSpec_MonitorTemplate m \<noteq> None) ''Add monitor template''
       (\<lambda>s. s\<lparr>ServerSpec_MonitorTemplate := ZoneSpec_MonitorTemplate m\<rparr>) s1) (\<lambda>s2.
     bind_io (patch_server env (ServerSpec_BackupVolume s2 \<noteq> None \<and> ZoneSpec_BackupVolume m = None) ''Remove backup volume''
       (\<lambda>s. s\<lparr>ServerSpec_BackupVolume := None\<rparr>) s2) (\<lambda>s3.
     bind_io (patch_server env (ServerSpec_MonitorTemplate s3 \<noteq> None \<and> ZoneSpec_MonitorTemplate m = None) ''Remove monitor template''
       (\<lambda>s. s\<lparr>ServerSpec_MonitorTemplate := None\<rparr>) s3) (\<lambda>_. ret ()))))"

definition ModifyPodTemplate :: "ops_env \<Rightarrow> OBZone \<Rightarrow> unit ops_io" where
  "ModifyPodTemplate env m = bind_io (ops_listOBServers env) (each_io (modify_pod_template env m))"

definition delete_legacy :: "ops_env \<Rightarrow> OBZone \<Rightarrow> OBServer list \<Rightarrow> row \<Rightarrow> unit ops_io" where
  "delete_legacy env m servers observer =
     (if col_str observer ''zone'' \<noteq> zone_of m then ret ()
      else if list_ex (\<lambda>s. col_str observer ''svr_ip'' = OBServerStatus_GetConnectAddr s) servers then ret ()
      else wrap_io (''Delete observer '' @ col_str observer ''svr_ip'' @ '':'' @ show_int (col_int observer ''svr_port''))
        (db_DeleteServer env (col_str observer ''svr_ip'') (col_int observer ''svr_port'')))"

definition DeleteLegacyOBServers :: "ops_env \<Rightarrow> OBZone \<Rightarrow> unit ops_io" where
  "DeleteLegacyOBServers env m =
     bind_io (wrap_io (''OBZone '' @ Name m @ '' get oceanbase operation manager'') (zone_OperationManager env)) (\<lambda>_.
     bind_io (wrap_io ''List observers in oceanbase'' (db_ListServers env)) (\<lambda>allOBServers.
     bind_io (wrap_io ''List observer crs'' (ops_listOBServers env)) (\<lambda>servers.
       each_io (delete_legacy env m servers) allOBServers)))"

text \<open>
  A server is replaced in three steps: the new one is made, it is read until it runs, and the old
  one is deleted and read until it is gone. Running out of rounds is an error in the second step
  and only logged in the third.
\<close>

definition create_replacement :: "ops_env \<Rightarrow> OBZone \<Rightarrow> string \<Rightarrow> OBServer ops_io" where
  "create_replacement env m serverName =
     (let observer = new_observer (op_uid env) m serverName
      in bind_io (wrap_io ''create observer'' (op_call env (CreatedOBServer observer))) (\<lambda>_. ret observer))"

primrec wait_new_server :: "ops_env \<Rightarrow> string \<Rightarrow> OBServer \<Rightarrow> nat \<Rightarrow> OBServer ops_io" where
  "wait_new_server env name s 0 = ret s"
| "wait_new_server env name s (Suc n) =
     bind_io (wrap_io ''Get new observer'' (op_read (\<lambda>h. op_server env h name) (GotOneServer name))) (\<lambda>s'.
       if Status s' = serverstatus_Running then ret s' else wait_new_server env name s' n)"

primrec wait_old_server :: "ops_env \<Rightarrow> string \<Rightarrow> nat \<Rightarrow> bool ops_io" where
  "wait_old_server env name 0 = ret False"
| "wait_old_server env name (Suc n) =
     bind_io (catch_io (op_read (\<lambda>h. op_server env h name) (GotOneServer name))) (\<lambda>r.
       case r of
         Inr _ \<Rightarrow> wait_old_server env name n
       | Inl err \<Rightarrow> if is_not_found err then ret True else raise (wrap ''Get old observer'' err))"

definition ops_generateServerName :: "ops_env \<Rightarrow> OBZone \<Rightarrow> string ops_io" where
  "ops_generateServerName env m =
     bind_io (op_peek (op_rand env)) (\<lambda>suf.
       ret (ZoneSpec_ClusterName m @ ''-'' @ show_int (ZoneSpec_ClusterId m) @ ''-'' @ zone_of m @ ''-'' @ suf))"

definition replace_server :: "ops_env \<Rightarrow> OBZone \<Rightarrow> OBServer \<Rightarrow> unit ops_io" where
  "replace_server env m server =
     bind_io (ops_generateServerName env m) (\<lambda>newServerName.
     bind_io (wrap_io ''Create new observer to replace old one'' (create_replacement env m newServerName)) (\<lambda>new0.
     bind_io (wait_new_server env newServerName new0 (op_DefaultStateWaitTimeout env)) (\<lambda>newServer.
       if Status newServer \<noteq> serverstatus_Running
       then raise (OtherError ''Wait for new observer get running status, timeout'')
       else bind_io (wrap_io ''Delete old observer'' (op_call env (DeletedOBServer (Name server)))) (\<lambda>_.
         bind_io (wait_old_server env (Name server) (op_ServerDeleteTimeoutSeconds env)) (\<lambda>_. ret ())))))"

definition RollingReplaceOBServers :: "ops_env \<Rightarrow> OBZone \<Rightarrow> unit ops_io" where
  "RollingReplaceOBServers env m =
     bind_io (wrap_io ''List observers'' (ops_listOBServers env)) (each_io (replace_server env m))"

section \<open>Waits\<close>

definition WaitOBServerBootstrapReady :: "(nat \<Rightarrow> OBZone result) \<Rightarrow> nat \<Rightarrow> error option" where
  "WaitOBServerBootstrapReady poll timeout = generateWaitOBServerStatusFunc poll serverstatus_BootstrapReady timeout"

definition WaitOBServerRunning :: "(nat \<Rightarrow> OBZone result) \<Rightarrow> nat \<Rightarrow> error option" where
  "WaitOBServerRunning poll timeout = generateWaitOBServerStatusFunc poll serverstatus_Running timeout"

definition WaitForOBServerScalingUp :: "(nat \<Rightarrow> OBZone result) \<Rightarrow> nat \<Rightarrow> error option" where
  "WaitForOBServerScalingUp poll timeout = generateWaitOBServerStatusFunc poll serverstatus_ScaleVertically timeout"

definition WaitForOBServerExpandingPVC :: "(nat \<Rightarrow> OBZone result) \<Rightarrow> nat \<Rightarrow> error option" where
  "WaitForOBServerExpandingPVC poll timeout = generateWaitOBServerStatusFunc poll serverstatus_ExpandPVC timeout"

definition WaitForOBServerTemplateModifying :: "(nat \<Rightarrow> OBZone result) \<Rightarrow> nat \<Rightarrow> error option" where
  "WaitForOBServerTemplateModifying poll timeout = generateWaitOBServerStatusFunc poll serverstatus_ModifyingPodTemplate timeout"

definition WaitOBZoneBootstrapReady :: "(nat \<Rightarrow> OBCluster result) \<Rightarrow> nat \<Rightarrow> error option" where
  "WaitOBZoneBootstrapReady poll timeout = generateWaitOBZoneStatusFunc poll zonestatus_BootstrapReady timeout"

definition WaitOBZoneRunning :: "(nat \<Rightarrow> OBCluster result) \<Rightarrow> nat \<Rightarrow> error option" where
  "WaitOBZoneRunning poll timeout = generateWaitOBZoneStatusFunc poll zonestatus_Running timeout"

definition obcluster_ExpandPVC ::
  "(zone_call \<Rightarrow> error option) \<Rightarrow> cluster_env \<Rightarrow> (nat \<Rightarrow> OBZone list result) \<Rightarrow> OBCluster \<Rightarrow> nat \<Rightarrow> zone_call list \<times> error option" where
  "obcluster_ExpandPVC respond env poll m timeout =
     modifyOBZonesAndCheckStatus respond env poll (changeZonesWhenExpandingPVC m) zonestatus_ExpandPVC timeout"

section \<open>Lemmas\<close>

text \<open>The statements of the removal of servers without a resource: one per such server of the zone.\<close>

definition legacy :: "OBZone \<Rightarrow> OBServer list \<Rightarrow> row \<Rightarrow> bool" where
  "legacy m servers r \<longleftrightarrow> col_str r ''zone'' = zone_of m \<and> col_str r ''svr_ip'' \<notin> OBServerStatus_GetConnectAddr ` set servers"

lemma delete_legacy_statements:
  "statements (delete_legacy env m servers r)
    (if legacy m servers r then [(sql_DeleteServer, [SQL_Str (col_str r ''svr_ip'' @ '':'' @ show_int (col_int r ''svr_port''))])] else [])"
  by (auto simp: delete_legacy_def legacy_def db_DeleteServer_def ExecWithDefaultTimeout_def list_ex_iff
      intro!: statements_wrap statements_exec statements_silent io_silent)

text \<open>A deletion in a log comes right after a read in which a server made before is running.\<close>

definition guarded :: "ops_log \<Rightarrow> bool" where
  "guarded es \<longleftrightarrow> (\<forall>ys n r zs. es = ys @ ApiCall (DeletedOBServer n r) # zs \<longrightarrow>
     (\<exists>ys' new s. ys = ys' @ [ApiCall (GotOneServer (Name new) (Inr s))] \<and> Status s = serverstatus_Running \<and>
        ApiCall (CreatedOBServer new (Inr ())) \<in> set ys'))"

fun deletion :: "ops_api event \<Rightarrow> unit option" where
  "deletion (ApiCall (DeletedOBServer _ _)) = Some ()"
| "deletion _ = None"

lemma guarded_none: "List.map_filter deletion es = [] \<Longrightarrow> guarded es"
  by (auto simp: guarded_def map_filter_append List.map_filter_simps)

lemma guarded_append:
  assumes "guarded xs" "guarded ys"
  shows "guarded (xs @ ys)"
  unfolding guarded_def
proof (intro allI impI)
  fix us n r zs
  assume "xs @ ys = us @ ApiCall (DeletedOBServer n r) # zs"
  then consider (left) vs where "xs = us @ ApiCall (DeletedOBServer n r) # vs" | (right) vs where "us = xs @ vs" "ys = vs @ ApiCall (DeletedOBServer n r) # zs"
    by (auto simp: append_eq_append_conv2 append_eq_Cons_conv)
  then show "\<exists>us' new s. us = us' @ [ApiCall (GotOneServer (Name new) (Inr s))] \<and> Status s = serverstatus_Running \<and>
      ApiCall (CreatedOBServer new (Inr ())) \<in> set us'"
  proof cases
    case left
    with assms(1) show ?thesis unfolding guarded_def by blast
  next
    case right
    with assms(2) obtain vs' new s where "vs = vs' @ [ApiCall (GotOneServer (Name new) (Inr s))]" "Status s = serverstatus_Running"
      "ApiCall (CreatedOBServer new (Inr ())) \<in> set vs'" unfolding guarded_def by blast
    with right show ?thesis by (intro exI [of _ "xs @ vs'"]) auto
  qed
qed

lemma wait_new_log:
  "\<exists>es. snd (wait_new_server env name s n h) = h @ es \<and> List.map_filter deletion es = [] \<and>
    (\<forall>s'. fst (wait_new_server env name s n h) = Ok s' \<and> Status s' = serverstatus_Running \<and> Status s \<noteq> serverstatus_Running \<longrightarrow>
       (\<exists>es'. es = es' @ [ApiCall (GotOneServer name (Inr s'))]))"
proof (induction n arbitrary: s h)
  case 0
  show ?case by (simp add: ret_def List.map_filter_simps)
next
  case (Suc n)
  show ?case
  proof (cases "op_server env h name")
    case (Inl err)
    then show ?thesis by (simp add: op_read_def io_defs List.map_filter_simps)
  next
    case (Inr s1)
    let ?e = "ApiCall (GotOneServer name (Inr s1))"
    from Inr have step: "wait_new_server env name s (Suc n) h =
        (if Status s1 = serverstatus_Running then ret s1 else wait_new_server env name s1 n) (h @ [?e])"
      by (simp add: op_read_def io_defs)
    obtain es where es: "snd (wait_new_server env name s1 n (h @ [?e])) = (h @ [?e]) @ es" "List.map_filter deletion es = []"
      "\<And>s'. fst (wait_new_server env name s1 n (h @ [?e])) = Ok s' \<Longrightarrow> Status s' = serverstatus_Running \<Longrightarrow> Status s1 \<noteq> serverstatus_Running \<Longrightarrow>
         (\<exists>es'. es = es' @ [ApiCall (GotOneServer name (Inr s'))])"
      using Suc [of s1 "h @ [?e]"] by blast
    show ?thesis
    proof (cases "Status s1 = serverstatus_Running")
      case True
      then show ?thesis unfolding step by (intro exI [of _ "[?e]"]) (simp add: ret_def List.map_filter_simps)
    next
      case False
      then show ?thesis unfolding step using es
        by (intro exI [of _ "?e # es"]) (auto simp: List.map_filter_simps)
    qed
  qed
qed

lemma silent_wait_old: "emits_none deletion (wait_old_server env name n)"
  by (induction n) (auto simp: op_read_def intro!: io_silent split: sum.split)

text \<open>What is done after the creation; \<open>k\<close> ends with the creation.\<close>

lemma replace_after_creation:
  assumes "Name new = newServerName" "Status new \<noteq> serverstatus_Running"
  shows "\<exists>es. snd (bind_io (wait_new_server env newServerName new t) (\<lambda>newServer.
       if Status newServer \<noteq> serverstatus_Running then raise err
       else bind_io (wrap_io msg (op_call env (DeletedOBServer n))) (\<lambda>_.
         bind_io (wait_old_server env n t') (\<lambda>_. ret ()))) k) = k @ es \<and>
    guarded (ApiCall (CreatedOBServer new (Inr ())) # es)"
proof -
  let ?c = "ApiCall (CreatedOBServer new (Inr ()))" and ?w = "wait_new_server env newServerName new t k"
  obtain es where es: "snd ?w = k @ es" "List.map_filter deletion es = []"
    "\<And>s'. fst ?w = Ok s' \<Longrightarrow> Status s' = serverstatus_Running \<Longrightarrow> \<exists>es'. es = es' @ [ApiCall (GotOneServer newServerName (Inr s'))]"
    using wait_new_log [of env newServerName new t k] assms(2) by blast
  have none: "guarded (?c # es)" using es(2) by (intro guarded_none) (simp add: List.map_filter_simps)
  show ?thesis
  proof (cases "\<exists>s'. fst ?w = Ok s' \<and> Status s' = serverstatus_Running")
    case False
    with es(1) none show ?thesis
      by (cases ?w; cases "fst ?w") (auto simp: bind_io_def raise_def intro!: exI [of _ es])
  next
    case True
    then obtain s' where s': "fst ?w = Ok s'" "Status s' = serverstatus_Running" by blast
    obtain es' where es': "es = es' @ [ApiCall (GotOneServer newServerName (Inr s'))]" using es(3) s' by blast
    let ?d = "\<lambda>r. ApiCall (DeletedOBServer n r)"
    have segment: "guarded (?c # es @ [?d r])" for r
      unfolding guarded_def
    proof (intro allI impI)
      fix ys n' r' zs
      assume at: "?c # es @ [?d r] = ys @ ApiCall (DeletedOBServer n' r') # zs"
      have "zs = []"
      proof (rule ccontr)
        assume "zs \<noteq> []"
        then obtain zs' where "zs = zs' @ [?d r]" using at by (metis append_butlast_last_id append_is_Nil_conv last_ConsR last_appendR last_snoc list.distinct(1))
        with at have "?c # es = ys @ ApiCall (DeletedOBServer n' r') # zs'" by simp
        then have "List.map_filter deletion (?c # es) = List.map_filter deletion (ys @ ApiCall (DeletedOBServer n' r') # zs')" by simp
        with es(2) show False by (simp add: map_filter_append List.map_filter_simps)
      qed
      with at have "ys = ?c # es" by (metis append_Cons append_eq_append_conv2 butlast_snoc append_Nil2 snoc_eq_iff_butlast)
      with es' assms(1) s'(2) show "\<exists>ys' new s. ys = ys' @ [ApiCall (GotOneServer (Name new) (Inr s))] \<and> Status s = serverstatus_Running \<and>
          ApiCall (CreatedOBServer new (Inr ())) \<in> set ys'"
        by (intro exI [of _ "?c # es'"] exI [of _ new] exI [of _ s']) simp
    qed
    let ?r = "op_write env (k @ es) (DeletedOBServer n)"
    obtain es2 where es2: "snd (wait_old_server env n t' ((k @ es) @ [?d ?r])) = ((k @ es) @ [?d ?r]) @ es2" "List.map_filter deletion es2 = []"
      using silent_wait_old unfolding emits_none_def by blast
    have "guarded ((?c # es @ [?d ?r]) @ es2)" by (rule guarded_append [OF segment guarded_none [OF es2(2)]])
    moreover have "?w = (Ok s', k @ es)" using s'(1) es(1) by (simp add: prod_eq_iff)
    ultimately show ?thesis using es2 segment s'(2)
      by (cases ?r; cases "wait_old_server env n t' ((k @ es) @ [?d ?r])")
        (auto simp: bind_io_def wrap_io_def op_call_def perform_def ret_def split: outcome.splits
          intro: exI [of _ "es @ [?d ?r]"] exI [of _ "es @ ?d ?r # es2"])
  qed
qed

lemma replace_guarded: "\<exists>es. snd (replace_server env m server h) = h @ es \<and> guarded es"
proof -
  let ?name = "ZoneSpec_ClusterName m @ ''-'' @ show_int (ZoneSpec_ClusterId m) @ ''-'' @ zone_of m @ ''-'' @ op_rand env h"
  let ?new = "new_observer (op_uid env) m ?name"
  have new: "Name ?new = ?name" "Status ?new \<noteq> serverstatus_Running" by (simp_all add: new_observer_def)
  show ?thesis
  proof (cases "op_write env h (CreatedOBServer ?new)")
    case (Inl err)
    then have "snd (replace_server env m server h) = h @ [ApiCall (CreatedOBServer ?new (Inl err))]"
      by (simp add: replace_server_def ops_generateServerName_def create_replacement_def op_peek_def op_call_def Let_def io_defs)
    then show ?thesis by (intro exI [of _ "[ApiCall (CreatedOBServer ?new (Inl err))]"]) (simp add: guarded_none List.map_filter_simps)
  next
    case (Inr u)
    let ?k = "h @ [ApiCall (CreatedOBServer ?new (Inr ()))]"
    obtain es where "snd (bind_io (wait_new_server env ?name ?new (op_DefaultStateWaitTimeout env)) (\<lambda>newServer.
        if Status newServer \<noteq> serverstatus_Running
        then raise (OtherError ''Wait for new observer get running status, timeout'')
        else bind_io (wrap_io ''Delete old observer'' (op_call env (DeletedOBServer (Name server)))) (\<lambda>_.
          bind_io (wait_old_server env (Name server) (op_ServerDeleteTimeoutSeconds env)) (\<lambda>_. ret ()))) ?k) = ?k @ es"
      "guarded (ApiCall (CreatedOBServer ?new (Inr ())) # es)"
      using replace_after_creation [OF new] by blast
    moreover have "replace_server env m server h = bind_io (wait_new_server env ?name ?new (op_DefaultStateWaitTimeout env)) (\<lambda>newServer.
        if Status newServer \<noteq> serverstatus_Running
        then raise (OtherError ''Wait for new observer get running status, timeout'')
        else bind_io (wrap_io ''Delete old observer'' (op_call env (DeletedOBServer (Name server)))) (\<lambda>_.
          bind_io (wait_old_server env (Name server) (op_ServerDeleteTimeoutSeconds env)) (\<lambda>_. ret ()))) ?k"
      using Inr by (simp add: replace_server_def ops_generateServerName_def create_replacement_def op_peek_def op_call_def Let_def
          bind_io_def wrap_io_def perform_def ret_def)
    ultimately show ?thesis by (intro exI [of _ "ApiCall (CreatedOBServer ?new (Inr ())) # es"]) simp
  qed
qed

section \<open>Properties\<close>

text \<open>
  C11. A server is given up only for one that runs: whatever the API server answers, each deletion
  that \<^verbatim>\<open>RollingReplaceOBServers\<close> makes comes directly after a read in which a server it created
  itself is running.
\<close>

theorem replaced_only_by_running:
  "\<exists>es. snd (RollingReplaceOBServers env m h) = h @ es \<and> guarded es"
proof -
  have each: "\<exists>es. snd (each_io (replace_server env m) servers h) = h @ es \<and> guarded es" for servers h
  proof (induction servers arbitrary: h)
    case Nil
    show ?case by (simp add: ret_def guarded_none List.map_filter_simps)
  next
    case (Cons server servers)
    obtain r h1 where run: "replace_server env m server h = (r, h1)" by force
    obtain es where es: "h1 = h @ es" "guarded es" using replace_guarded [of env m server h] run by auto
    obtain es' where "snd (each_io (replace_server env m) servers h1) = h1 @ es'" "guarded es'" using Cons by blast
    with run es guarded_append show ?case by (cases r) (auto simp: bind_io_def)
  qed
  show ?thesis
  proof (cases "op_zone_servers env h")
    case (Inl err)
    then show ?thesis
      by (simp add: RollingReplaceOBServers_def ops_listOBServers_def op_read_def io_defs guarded_none List.map_filter_simps)
  next
    case (Inr servers)
    let ?e = "ApiCall (ListedZoneServers (Inr servers))"
    obtain es where "snd (each_io (replace_server env m) servers (h @ [?e])) = (h @ [?e]) @ es" "guarded es" using each by blast
    moreover have "guarded [?e]" by (simp add: guarded_none List.map_filter_simps)
    ultimately show ?thesis using guarded_append [of "[?e]" es] Inr
      by (intro exI [of _ "?e # es"]) (simp add: RollingReplaceOBServers_def ops_listOBServers_def op_read_def bind_io_def wrap_io_def perform_def)
  qed
qed

end
