(* ===== verification/Http_Errors.thy ===== *)
theory Http_Errors
  imports Go_Strings
begin

text \<open>
  The dashboard's errors (\<^verbatim>\<open>pkg/errors\<close>) and the programs its handlers are modelled as. An
  \<^verbatim>\<open>ObError\<close> carries a type that decides the status of the response and the errors wrapped
  in it; every other error is opaque. A program takes the state of the process and of the
  world outside and returns a reply, a value, an error or a panic, with the new state.
\<close>

section \<open>Errors\<close>

datatype ErrorType =
    ErrNotFound | ErrUnauthorized | ErrForbidden | ErrConflict | ErrInternal | ErrTimeout
  | ErrTooManyRequests | ErrBadRequest | ErrInvalid | ErrNotSupported | ErrAlreadyExists
  | ErrNotReady | ErrNotImplemented | ErrServiceUnavailable | ErrPermissionDenied
  | ErrInsufficientResource | ErrExternal

fun ErrorType_text :: "ErrorType \<Rightarrow> string" where
  "ErrorType_text ErrNotFound = ''NotFound''"
| "ErrorType_text ErrUnauthorized = ''Unauthorized''"
| "ErrorType_text ErrForbidden = ''Forbidden''"
| "ErrorType_text ErrConflict = ''Conflict''"
| "ErrorType_text ErrInternal = ''Internal''"
| "ErrorType_text ErrTimeout = ''Timeout''"
| "ErrorType_text ErrTooManyRequests = ''TooManyRequests''"
| "ErrorType_text ErrBadRequest = ''BadRequest''"
| "ErrorType_text ErrInvalid = ''Invalid''"
| "ErrorType_text ErrNotSupported = ''NotSupported''"
| "ErrorType_text ErrAlreadyExists = ''AlreadyExists''"
| "ErrorType_text ErrNotReady = ''NotReady''"
| "ErrorType_text ErrNotImplemented = ''NotImplemented''"
| "ErrorType_text ErrServiceUnavailable = ''ServiceUnavailable''"
| "ErrorType_text ErrPermissionDenied = ''PermissionDenied''"
| "ErrorType_text ErrInsufficientResource = ''InsufficientResource''"
| "ErrorType_text ErrExternal = ''External''"

datatype httpErr = HttpErr (errorType: ErrorType) (message: string) (children: "httpErr list")

datatype go_err = ObError httpErr | PlainError string

definition httpErr_Error :: "httpErr \<Rightarrow> string" where
  "httpErr_Error e = ''Error '' @ ErrorType_text (errorType e) @ '': '' @ message e"

fun go_err_Error :: "go_err \<Rightarrow> string" where
  "go_err_Error (ObError e) = httpErr_Error e"
| "go_err_Error (PlainError s) = s"

definition httpErr_IsType :: "httpErr \<Rightarrow> ErrorType \<Rightarrow> bool" where
  "httpErr_IsType e errType \<longleftrightarrow> errorType e = errType"

fun httpErr_Contains :: "httpErr \<Rightarrow> ErrorType \<Rightarrow> bool" where
  "httpErr_Contains (HttpErr t m cs) errType \<longleftrightarrow> t = errType \<or> (\<exists>child \<in> set cs. httpErr_Contains child errType)"

text \<open>\<^verbatim>\<open>httpErr.Wrap\<close> appends the wrapped error to the children; nil leaves the error as it is.\<close>

fun httpErr_Wrap :: "httpErr \<Rightarrow> go_err option \<Rightarrow> httpErr" where
  "httpErr_Wrap e None = e"
| "httpErr_Wrap e (Some (ObError child)) = HttpErr (errorType e) (message e) (children e @ [child])"
| "httpErr_Wrap e (Some (PlainError s)) = HttpErr (errorType e) (message e) (children e @ [HttpErr (errorType e) s []])"

definition httpErr_Status :: "httpErr \<Rightarrow> nat" where
  "httpErr_Status e =
     (case errorType e of
        ErrBadRequest \<Rightarrow> 400
      | ErrUnauthorized \<Rightarrow> 401
      | ErrNotImplemented \<Rightarrow> 501
      | ErrInternal \<Rightarrow> 500
      | ErrNotFound \<Rightarrow> 404
      | _ \<Rightarrow> 503)"

definition New_err :: "ErrorType \<Rightarrow> string \<Rightarrow> go_err" where
  "New_err errType msg = ObError (HttpErr errType msg [])"

definition Wrap_err :: "go_err option \<Rightarrow> ErrorType \<Rightarrow> string \<Rightarrow> go_err" where
  "Wrap_err err errType msg = ObError (httpErr_Wrap (HttpErr errType msg []) err)"

definition NewNotImplemented :: "string \<Rightarrow> go_err" where
  "NewNotImplemented msg = ObError (HttpErr ErrNotImplemented msg [])"

definition NewBadRequest :: "string \<Rightarrow> go_err" where
  "NewBadRequest msg = ObError (HttpErr ErrBadRequest msg [])"

definition NewUnauthorized :: "string \<Rightarrow> go_err" where
  "NewUnauthorized msg = ObError (HttpErr ErrUnauthorized msg [])"

definition NewNotFound :: "string \<Rightarrow> go_err" where
  "NewNotFound msg = ObError (HttpErr ErrNotFound msg [])"

definition NewInternal :: "string \<Rightarrow> go_err" where
  "NewInternal msg = ObError (HttpErr ErrInternal msg [])"

lemma Wrap_contains:
  "httpErr_Contains (httpErr_Wrap e err) t \<longleftrightarrow>
     httpErr_Contains e t \<or> (\<exists>child. err = Some (ObError child) \<and> httpErr_Contains child t)"
  by (cases e; cases err rule: option.exhaust; (cases "the err")?) auto

section \<open>Programs\<close>

datatype 'a reply = Replied 'a | Refused go_err | Panicked

type_synonym ('s, 'a) act = "'s \<Rightarrow> 'a reply \<times> 's"

definition act_ret :: "'a \<Rightarrow> ('s, 'a) act" where
  "act_ret x = (\<lambda>s. (Replied x, s))"

definition act_fail :: "go_err \<Rightarrow> ('s, 'a) act" where
  "act_fail err = (\<lambda>s. (Refused err, s))"

definition act_panic :: "('s, 'a) act" where
  "act_panic = (\<lambda>s. (Panicked, s))"

definition act_bind :: "('s, 'a) act \<Rightarrow> ('a \<Rightarrow> ('s, 'b) act) \<Rightarrow> ('s, 'b) act" where
  "act_bind f g = (\<lambda>s. case f s of (Replied x, s') \<Rightarrow> g x s' | (Refused err, s') \<Rightarrow> (Refused err, s') | (Panicked, s') \<Rightarrow> (Panicked, s'))"

text \<open>The value of \<open>f\<close> or its error, for code that looks at the error itself.\<close>

definition act_catch :: "('s, 'a) act \<Rightarrow> ('s, go_err + 'a) act" where
  "act_catch f = (\<lambda>s. case f s of (Replied x, s') \<Rightarrow> (Replied (Inr x), s') | (Refused err, s') \<Rightarrow> (Replied (Inl err), s') | (Panicked, s') \<Rightarrow> (Panicked, s'))"

text \<open>The error of \<open>f\<close> is replaced by another one.\<close>

definition act_replace :: "(go_err \<Rightarrow> go_err) \<Rightarrow> ('s, 'a) act \<Rightarrow> ('s, 'a) act" where
  "act_replace k f = (\<lambda>s. case f s of (Refused err, s') \<Rightarrow> (Refused (k err), s') | r \<Rightarrow> r)"

definition act_get :: "('s \<Rightarrow> 'a) \<Rightarrow> ('s, 'a) act" where
  "act_get f = (\<lambda>s. (Replied (f s), s))"

definition act_update :: "('s \<Rightarrow> 's) \<Rightarrow> ('s, unit) act" where
  "act_update f = (\<lambda>s. (Replied (), f s))"

definition act_of :: "go_err + 'a \<Rightarrow> ('s, 'a) act" where
  "act_of r = (case r of Inl err \<Rightarrow> act_fail err | Inr x \<Rightarrow> act_ret x)"

text \<open>A value that may be missing, such as an element past the end of a slice: using it panics.\<close>

definition act_deref :: "'a option \<Rightarrow> ('s, 'a) act" where
  "act_deref p = (case p of None \<Rightarrow> act_panic | Some x \<Rightarrow> act_ret x)"

primrec act_each :: "('x \<Rightarrow> ('s, unit) act) \<Rightarrow> 'x list \<Rightarrow> ('s, unit) act" where
  "act_each f [] = act_ret ()"
| "act_each f (x # xs) = act_bind (f x) (\<lambda>_. act_each f xs)"

primrec act_map :: "('x \<Rightarrow> ('s, 'y) act) \<Rightarrow> 'x list \<Rightarrow> ('s, 'y list) act" where
  "act_map f [] = act_ret []"
| "act_map f (x # xs) = act_bind (f x) (\<lambda>y. act_bind (act_map f xs) (\<lambda>ys. act_ret (y # ys)))"

named_theorems act_iffs \<open>when a program is done\<close>

lemma act_bind_Done [act_iffs]:
  "act_bind f g s = (Replied y, s'') \<longleftrightarrow> (\<exists>x s'. f s = (Replied x, s') \<and> g x s' = (Replied y, s''))"
  by (auto simp: act_bind_def split: reply.splits prod.splits)

lemma act_ret_Done [act_iffs]: "act_ret x s = (Replied y, s') \<longleftrightarrow> y = x \<and> s' = s"
  by (auto simp: act_ret_def)

lemma act_fail_Done [act_iffs]: "act_fail err s = (Replied y, s') \<longleftrightarrow> False"
  by (simp add: act_fail_def)

lemma act_panic_Done [act_iffs]: "act_panic s = (Replied y, s') \<longleftrightarrow> False"
  by (simp add: act_panic_def)

lemma act_replace_Done [act_iffs]: "act_replace k f s = (Replied y, s') \<longleftrightarrow> f s = (Replied y, s')"
  by (auto simp: act_replace_def split: reply.splits prod.splits)

lemma act_get_Done [act_iffs]: "act_get f s = (Replied y, s') \<longleftrightarrow> y = f s \<and> s' = s"
  by (auto simp: act_get_def)

lemma act_update_Done [act_iffs]: "act_update f s = (Replied y, s') \<longleftrightarrow> s' = f s"
  by (auto simp: act_update_def)

lemma act_of_Done [act_iffs]: "act_of r s = (Replied y, s') \<longleftrightarrow> r = Inr y \<and> s' = s"
  by (auto simp: act_of_def act_fail_def act_ret_def split: sum.splits)

lemma act_deref_Done [act_iffs]: "act_deref p s = (Replied y, s') \<longleftrightarrow> p = Some y \<and> s' = s"
  by (auto simp: act_deref_def act_panic_def act_ret_def split: option.splits)

lemma act_catch_Done [act_iffs]:
  "act_catch f s = (Replied y, s') \<longleftrightarrow>
     (\<exists>x. f s = (Replied x, s') \<and> y = Inr x) \<or> (\<exists>err. f s = (Refused err, s') \<and> y = Inl err)"
  by (auto simp: act_catch_def split: reply.splits prod.splits)

text \<open>How a program goes on, given what its first part does; with these a run on a concrete state is evaluated.\<close>

lemma act_bind_run:
  "f s = (Replied x, s') \<Longrightarrow> act_bind f g s = g x s'"
  "f s = (Refused err, s') \<Longrightarrow> act_bind f g s = (Refused err, s')"
  "f s = (Panicked, s') \<Longrightarrow> act_bind f g s = (Panicked, s')"
  by (simp_all add: act_bind_def)

lemma act_run [simp]:
  "act_bind (act_ret x) g = g x" "act_bind (act_fail err) g = act_fail err" "act_bind act_panic g = act_panic"
  "act_bind (act_get h) g s = g (h s) s"
  by (simp_all add: act_bind_def act_ret_def act_fail_def act_panic_def act_get_def)

lemma act_values [simp]:
  "act_of (Inl err) = act_fail err" "act_of (Inr x) = act_ret x" "act_deref (Some x) = act_ret x" "act_deref None = act_panic"
  by (simp_all add: act_ret_def act_fail_def act_panic_def act_of_def act_deref_def)

lemma act_applied: "act_ret x s = (Replied x, s)" "act_fail err s = (Refused err, s)" "act_panic s = (Panicked, s)" "act_get h s = (Replied (h s), s)"
  by (simp_all add: act_ret_def act_fail_def act_panic_def act_get_def)

lemma act_bind_Pair [simp]:
  "act_bind (Pair (Replied x)) g = g x" "act_bind (Pair (Refused err)) g = Pair (Refused err)" "act_bind (Pair Panicked) g = Pair Panicked"
  by (simp_all add: act_bind_def)

lemma act_bind_update [simp]: "act_bind (act_update h) g s = g () (h s)"
  by (simp add: act_bind_def act_update_def)

lemma act_bind_assoc: "act_bind (act_bind f g) k = act_bind f (\<lambda>x. act_bind (g x) k)"
  by (auto simp: act_bind_def fun_eq_iff split: reply.splits prod.splits)

lemmas act_defs = act_ret_def act_fail_def act_panic_def act_bind_def act_catch_def act_replace_def act_get_def act_update_def act_of_def act_deref_def

section \<open>Strings\<close>

text \<open>The parts before and after the first occurrence of a non-empty separator.\<close>

fun cut_at :: "string \<Rightarrow> string \<Rightarrow> (string \<times> string) option" where
  "cut_at sep [] = None"
| "cut_at sep (c # cs) =
     (if prefix sep (c # cs) then Some ([], drop (length sep) (c # cs))
      else map_option (\<lambda>(a, b). (c # a, b)) (cut_at sep cs))"

text \<open>\<^verbatim>\<open>strings.SplitN\<close> with a positive number of pieces; the last one is not split any further.\<close>

primrec SplitN :: "nat \<Rightarrow> string \<Rightarrow> string \<Rightarrow> string list" where
  "SplitN 0 s sep = []"
| "SplitN (Suc n) s sep =
     (if n = 0 then [s] else case cut_at sep s of None \<Rightarrow> [s] | Some (a, b) \<Rightarrow> a # SplitN n b sep)"

definition white :: "char \<Rightarrow> bool" where
  "white c \<longleftrightarrow> c \<in> {CHR '' '', CHR 0x09, CHR 0x0A, CHR 0x0B, CHR 0x0C, CHR 0x0D}"

definition TrimSpace :: "string \<Rightarrow> string" where
  "TrimSpace s = rev (dropWhile white (rev (dropWhile white s)))"

text \<open>The first occurrence is the joint when the piece, followed by a part of the separator, contains none.\<close>

lemma cut_at_joint:
  assumes "sep \<noteq> []" "\<not> sublist sep (x @ butlast sep)"
  shows "cut_at sep (x @ sep @ rest) = Some (x, rest)"
  using assms(2)
proof (induction x)
  case Nil
  then show ?case using assms(1) by (cases sep) auto
next
  case (Cons c x)
  have "\<not> prefix sep (c # x @ sep @ rest)"
  proof
    assume pre: "prefix sep (c # x @ sep @ rest)"
    have "prefix sep ((c # x) @ butlast sep)"
    proof (rule prefix_length_prefix [OF pre])
      show "prefix ((c # x) @ butlast sep) (c # x @ sep @ rest)"
        by (metis append.assoc append_Cons append_butlast_last_id assms(1) prefixI same_prefix_prefix)
      show "length sep \<le> length ((c # x) @ butlast sep)" using assms(1) by (cases sep) auto
    qed
    with Cons.prems show False by (metis prefix_imp_sublist)
  qed
  moreover have "\<not> sublist sep (x @ butlast sep)" using Cons.prems by (auto simp: sublist_Cons_right)
  ultimately show ?case using Cons.IH by simp
qed

lemma cut_at_absent: "sep \<noteq> [] \<Longrightarrow> \<not> sublist sep s \<Longrightarrow> cut_at sep s = None"
  by (induction s) (auto simp: sublist_Cons_right)

text \<open>\<^verbatim>\<open>strconv.ParseInt\<close> reads back what \<^verbatim>\<open>fmt\<close> printed.\<close>

lemma Atoi_show_int:
  assumes "- (2 ^ 63) \<le> i" "i < 2 ^ 63"
  shows "Atoi (show_int i) = (i, True)"
proof (cases "i < 0")
  case True
  then have "parse_digits 0 (show_nat (nat (- i))) = Parsed (- i)"
    using assms(1) by (subst parse_show_nat) (auto simp: nat_less_iff)
  with True assms show ?thesis by (simp add: show_int_def Atoi_def del: parse_digits.simps)
next
  case False
  then have "nat i < 2 ^ 63" using assms(2) by (simp add: nat_less_iff)
  with False show ?thesis using Atoi_show_nat [of "nat i"] by (simp add: show_int_def)
qed

lemma show_int_chars: "c \<in> set (show_int i) \<Longrightarrow> c = CHR ''-'' \<or> (48 \<le> (of_char c :: nat) \<and> (of_char c :: nat) \<le> 57)"
  using show_nat_digits by (auto simp: show_int_def split: if_splits)

lemma TrimSpace_id:
  assumes "s = [] \<or> \<not> white (hd s) \<and> \<not> white (last s)"
  shows "TrimSpace s = s"
proof (cases "s = []")
  case False
  then have "dropWhile white s = s" using assms by (cases s) auto
  moreover have "dropWhile white (rev s) = rev s"
    using False assms by (cases "rev s") (auto simp: hd_rev [symmetric])
  ultimately show ?thesis by (simp add: TrimSpace_def)
qed (simp add: TrimSpace_def)

end
