(* ===== verification/Access_Control.thy ===== *)
theory Access_Control
  imports Http_Errors
begin

text \<open>
  The accounts and roles of the dashboard: \<^verbatim>\<open>internal/dashboard/business/ac\<close> and
  \<^verbatim>\<open>internal/dashboard/model/ac\<close>. The casbin enforcer, the API server, the environment
  variables, the clock and SHA-256 are parameters; what a theorem relies on of them is a
  named hypothesis. The state of a program is that of the enforcer, which lives in the
  process, and that of the world outside, which holds the credentials and the saved policies.
\<close>

section \<open>Data\<close>

record AccountCreds =
  EncryptedPassword :: string
  Creds_Nickname :: string
  LastLoginAtUnix :: int
  Creds_Description :: string

record UpdateAccountCreds = AccountCreds +
  Update_Username :: string
  Update_Delete :: bool

record ac_Policy =
  Policy_Domain :: string
  Policy_Object :: string
  Policy_Action :: string

record ac_Role =
  Role_Name :: string
  Role_Description :: string
  Role_Policies :: "ac_Policy list"

record Account =
  Account_Username :: string
  Account_Nickname :: string
  Account_Description :: string
  Account_Roles :: "ac_Role list"
  LastLoginAt :: "int option"
  NeedReset :: bool

text \<open>The account with its stored password; the time of the last login in seconds.\<close>

record account = Account +
  account_password :: string

record CreateAccountParam =
  New_Username :: string
  New_Nickname :: string
  New_Description :: string
  New_Password :: string
  New_Roles :: "string list"

record PatchAccountParam =
  Patch_Nickname :: string
  Patch_Description :: string
  Patch_Roles :: "string list"
  Patch_Password :: string

record ResetPasswordParam =
  Reset_OldPassword :: string
  Reset_Password :: string

record CreateRoleParam =
  NewRole_Name :: string
  NewRole_Description :: string
  NewRole_Permissions :: "ac_Policy list"

record PatchRoleParam =
  PatchRole_Description :: string
  PatchRole_Permissions :: "ac_Policy list"

definition ActionRead :: string where "ActionRead = ''read''"
definition ActionWrite :: string where "ActionWrite = ''write''"
definition ActionAll :: string where "ActionAll = ''*''"

definition DomainAc :: string where "DomainAc = ''ac''"
definition DomainAlarm :: string where "DomainAlarm = ''alarm''"
definition DomainSystem :: string where "DomainSystem = ''system''"
definition DomainK8sCluster :: string where "DomainK8sCluster = ''k8s-cluster''"
definition DomainOBCluster :: string where "DomainOBCluster = ''obcluster''"
definition DomainOBTenant :: string where "DomainOBTenant = ''obtenant''"
definition DomainOBProxy :: string where "DomainOBProxy = ''obproxy''"

definition NewPolicy :: "string \<Rightarrow> string \<Rightarrow> string \<Rightarrow> ac_Policy" where
  "NewPolicy domain obj action = \<lparr>Policy_Domain = domain, Policy_Object = obj, Policy_Action = action\<rparr>"

definition ac_Policy_String :: "ac_Policy \<Rightarrow> string" where
  "ac_Policy_String p = Policy_Domain p @ '':'' @ Policy_Object p @ '':'' @ Policy_Action p"

definition ComposeDomainObject :: "ac_Policy \<Rightarrow> string" where
  "ComposeDomainObject p = Policy_Domain p @ ''/'' @ Policy_Object p"

text \<open>The policies the dashboard offers; no object is set.\<close>

definition AllPolicies :: "ac_Policy list" where
  "AllPolicies =
     concat (map (\<lambda>d. [NewPolicy d [] ActionRead, NewPolicy d [] ActionWrite])
       [DomainOBCluster, DomainSystem, DomainAlarm, DomainOBProxy, DomainAc, DomainK8sCluster])"

subsection \<open>The line of an account\<close>

definition accountLineSeparator :: string where
  "accountLineSeparator = '' <|:SEP:|> ''"

definition NewAccountCreds :: "string \<Rightarrow> go_err + AccountCreds" where
  "NewAccountCreds infoLine =
     (case SplitN 4 infoLine accountLineSeparator of
        [pwd, nickname, at, description] \<Rightarrow>
          (case Atoi at of
             (ts, True) \<Rightarrow> Inr \<lparr>EncryptedPassword = pwd, Creds_Nickname = nickname, LastLoginAtUnix = ts,
                               Creds_Description = TrimSpace description\<rparr>
           | _ \<Rightarrow> Inl (PlainError ''User credentials file is corrupted: last login time is not a valid timestamp''))
      | _ \<Rightarrow> Inl (PlainError ''User credentials file is corrupted: invalid format''))"

definition ToLine :: "'a AccountCreds_scheme \<Rightarrow> string" where
  "ToLine u = Join [EncryptedPassword u, Creds_Nickname u, show_int (LastLoginAtUnix u), Creds_Description u] accountLineSeparator"

section \<open>The outside\<close>

record Secret =
  Secret_Name :: string
  Secret_Version :: nat
  Secret_Data :: "dict option"

record ConfigMap =
  ConfigMap_Name :: string
  ConfigMap_Version :: nat
  ConfigMap_Data :: "dict option"

text \<open>The map of an object without data is nil: it reads as empty, and writing to it panics.\<close>

definition nil_get :: "dict option \<Rightarrow> string \<Rightarrow> string option" where
  "nil_get d k = (case d of None \<Rightarrow> None | Some m \<Rightarrow> m k)"

text \<open>A rule of casbin is the list of its fields.\<close>

type_synonym rule = "string list"

record 'e casbin =
  cb_GetPolicy :: "'e \<Rightarrow> rule list result"
  cb_GetGroupingPolicy :: "'e \<Rightarrow> rule list result"
  cb_GetFilteredPolicy :: "'e \<Rightarrow> nat \<Rightarrow> string \<Rightarrow> rule list result"
  cb_GetPermissionsForUser :: "'e \<Rightarrow> string \<Rightarrow> rule list result"
  cb_GetRolesForUser :: "'e \<Rightarrow> string \<Rightarrow> string list result"
  cb_AddPolicy :: "rule \<Rightarrow> 'e \<Rightarrow> bool result \<times> 'e"
  cb_RemovePolicy :: "rule \<Rightarrow> 'e \<Rightarrow> bool result \<times> 'e"
  cb_AddRoleForUser :: "string \<Rightarrow> string \<Rightarrow> 'e \<Rightarrow> bool result \<times> 'e"
  cb_DeleteRoleForUser :: "string \<Rightarrow> string \<Rightarrow> 'e \<Rightarrow> bool result \<times> 'e"
  cb_Enforce :: "'e \<Rightarrow> string \<Rightarrow> string \<Rightarrow> string \<Rightarrow> bool result"

text \<open>The places the policies are read from and saved to, as \<^verbatim>\<open>init\<close> finds them in the environment.\<close>

record enf_config =
  policyPath :: string
  configMapPath :: string
  policyCmKey :: string
  policyNamespace :: string

record ('e, 'k) ac_env =
  ac_casbin :: "'e casbin"
  ac_config :: enf_config
  ac_lookup_env :: "string \<Rightarrow> string option"
  ac_hex_sha256 :: "string \<Rightarrow> string"
  ac_now :: "'k \<Rightarrow> int"
  ac_get_secret :: "string \<Rightarrow> string \<Rightarrow> 'k \<Rightarrow> Secret result"
  ac_update_secret :: "string \<Rightarrow> Secret \<Rightarrow> 'k \<Rightarrow> unit result \<times> 'k"
  ac_get_config_map :: "string \<Rightarrow> string \<Rightarrow> 'k \<Rightarrow> ConfigMap result"
  ac_update_config_map :: "string \<Rightarrow> ConfigMap \<Rightarrow> 'k \<Rightarrow> unit result \<times> 'k"
  ac_write_file :: "string \<Rightarrow> string \<Rightarrow> 'k \<Rightarrow> unit result \<times> 'k"

record ('e, 'k) ac_state =
  Enf :: 'e
  World :: 'k

type_synonym ('e, 'k, 'a) ac_act = "(('e, 'k) ac_state, 'a) act"

text \<open>What the standard library or casbin reports is no \<^verbatim>\<open>ObError\<close>.\<close>

fun plain :: "error \<Rightarrow> go_err" where
  "plain NotFound = PlainError ''not found''"
| "plain (OtherError msg) = PlainError msg"

definition foreign :: "'a result \<Rightarrow> go_err + 'a" where
  "foreign r = (case r of Inl err \<Rightarrow> Inl (plain err) | Inr x \<Rightarrow> Inr x)"

definition ask_enf :: "('e \<Rightarrow> 'a result) \<Rightarrow> ('e, 'k, 'a) ac_act" where
  "ask_enf f = (\<lambda>s. act_of (foreign (f (Enf s))) s)"

definition tell_enf :: "('e \<Rightarrow> 'a result \<times> 'e) \<Rightarrow> ('e, 'k, 'a) ac_act" where
  "tell_enf f = (\<lambda>s. case f (Enf s) of (r, e') \<Rightarrow> act_of (foreign r) (s\<lparr>Enf := e'\<rparr>))"

definition ask_world :: "('k \<Rightarrow> 'a result) \<Rightarrow> ('e, 'k, 'a) ac_act" where
  "ask_world f = (\<lambda>s. act_of (foreign (f (World s))) s)"

definition tell_world :: "('k \<Rightarrow> 'a result \<times> 'k) \<Rightarrow> ('e, 'k, 'a) ac_act" where
  "tell_world f = (\<lambda>s. case f (World s) of (r, k') \<Rightarrow> act_of (foreign r) (s\<lparr>World := k'\<rparr>))"

definition ac_Getenv :: "(string \<Rightarrow> string option) \<Rightarrow> string \<Rightarrow> string" where
  "ac_Getenv lookup key = (case lookup key of None \<Rightarrow> [] | Some v \<Rightarrow> v)"

text \<open>The package's \<^verbatim>\<open>init\<close> up to the creation of the enforcer; \<open>None\<close> is its panic.\<close>

definition ac_init :: "(string \<Rightarrow> string option) \<Rightarrow> enf_config option" where
  "ac_init lookup =
     (let path = ac_Getenv lookup ''RBAC_POLICY_PATH''; cm = ac_Getenv lookup ''RBAC_POLICY_CONFIG_MAP'';
          key = ac_Getenv lookup ''RBAC_POLICY_KEY''; ns = ac_Getenv lookup ''RBAC_POLICY_NAMESPACE'';
          ns' = (if ns = [] then ac_Getenv lookup ''NAMESPACE'' else ns)
      in if cm = [] then None
         else Some \<lparr>policyPath = if path = [] then ''/etc/rbac/rbac_policy.csv'' else path,
                    configMapPath = cm,
                    policyCmKey = if key = [] then ''rbac_policy.csv'' else key,
                    policyNamespace = if ns' = [] then ''default'' else ns'\<rparr>)"

text \<open>
  The function that matches objects and roles, given casbin's \<^verbatim>\<open>KeyMatch2\<close>: a key that ends in a
  slash also matches every pattern it is a prefix of.
\<close>

definition keyMatch :: "(string \<Rightarrow> string \<Rightarrow> bool) \<Rightarrow> string \<Rightarrow> string \<Rightarrow> bool" where
  "keyMatch KeyMatch2 key pattern \<longleftrightarrow> prefix key pattern \<and> suffix ''/'' key \<or> KeyMatch2 key pattern"

text \<open>
  The matcher and the effect of \<^verbatim>\<open>modelDefinition\<close>, given the relation \<^verbatim>\<open>g\<close> that casbin builds from
  the groupings and \<^verbatim>\<open>keyMatch\<close>: a request is allowed when some rule matches it, and a rule whose
  action is write allows every action.
\<close>

definition ac_matcher :: "(string \<Rightarrow> string \<Rightarrow> bool) \<Rightarrow> string \<Rightarrow> string \<Rightarrow> string \<Rightarrow> rule \<Rightarrow> bool" where
  "ac_matcher g sub obj act p \<longleftrightarrow> g sub (p ! 0) \<and> g obj (p ! 1) \<and> (p ! 2 = ''write'' \<or> g act (p ! 2))"

definition ac_allows :: "(string \<Rightarrow> string \<Rightarrow> bool) \<Rightarrow> rule list \<Rightarrow> string \<Rightarrow> string \<Rightarrow> string \<Rightarrow> bool" where
  "ac_allows g rules sub obj act \<longleftrightarrow> (\<exists>p \<in> set rules. ac_matcher g sub obj act p)"

section \<open>Roles\<close>

definition rule_field :: "rule \<Rightarrow> nat \<Rightarrow> ('s, string) act" where
  "rule_field p i = act_deref (if i < length p then Some (p ! i) else None)"

text \<open>The policy of a rule, as \<^verbatim>\<open>GetRole\<close>, \<^verbatim>\<open>ListRoles\<close> and \<^verbatim>\<open>getAccountRoles\<close> read it.\<close>

definition rule_policy :: "rule \<Rightarrow> ('s, ac_Policy) act" where
  "rule_policy p =
     act_bind (rule_field p 1) (\<lambda>obj.
       if obj = ''*'' then act_bind (rule_field p 2) (\<lambda>a. act_ret (NewPolicy ''*'' ''*'' a))
       else (case Split obj ''/'' of
               [d, x] \<Rightarrow> act_bind (rule_field p 2) (\<lambda>a. act_ret (NewPolicy d x a))
             | _ \<Rightarrow> act_fail (NewInternal (''corrupted policy'' @ Join p '' ''))))"

definition with_policy :: "rule \<Rightarrow> ac_Role \<Rightarrow> ('s, ac_Role) act" where
  "with_policy p r = act_bind (rule_policy p) (\<lambda>x. act_ret (r\<lparr>Role_Policies := Role_Policies r @ [x]\<rparr>))"

primrec role_of_rules :: "rule list \<Rightarrow> ac_Role \<Rightarrow> ('s, ac_Role) act" where
  "role_of_rules [] r = act_ret r"
| "role_of_rules (p # ps) r =
     act_bind (rule_field p 3) (\<lambda>d. act_bind (with_policy p (r\<lparr>Role_Description := d\<rparr>)) (role_of_rules ps))"

definition empty_role :: "string \<Rightarrow> string \<Rightarrow> ac_Role" where
  "empty_role name description = \<lparr>Role_Name = name, Role_Description = description, Role_Policies = []\<rparr>"

definition GetRole :: "('e, 'k) ac_env \<Rightarrow> string \<Rightarrow> ('e, 'k, ac_Role) ac_act" where
  "GetRole env name =
     act_bind (ask_enf (\<lambda>e. cb_GetFilteredPolicy (ac_casbin env) e 0 name)) (\<lambda>policies.
       if policies = [] then act_fail (NewNotFound ''role not found'')
       else role_of_rules policies (empty_role name []))"

definition role_gains :: "string \<Rightarrow> ac_Policy \<Rightarrow> ac_Role list \<Rightarrow> ac_Role list" where
  "role_gains name x roles = map (\<lambda>r. if Role_Name r = name then r\<lparr>Role_Policies := Role_Policies r @ [x]\<rparr> else r) roles"

text \<open>The loop of \<^verbatim>\<open>ListRoles\<close>: the roles in the order of their first rules, with the first rule's description.\<close>

primrec list_rules :: "rule list \<Rightarrow> ac_Role list \<Rightarrow> ('s, ac_Role list) act" where
  "list_rules [] roles = act_ret roles"
| "list_rules (p # ps) roles =
     act_bind (rule_field p 0) (\<lambda>roleName.
     act_bind (if roleName \<in> Role_Name ` set roles then act_ret roles
               else act_bind (rule_field p 3) (\<lambda>d. act_ret (roles @ [empty_role roleName d]))) (\<lambda>roles1.
     act_bind (rule_policy p) (\<lambda>x. list_rules ps (role_gains roleName x roles1))))"

definition ListRoles :: "('e, 'k) ac_env \<Rightarrow> ('e, 'k, ac_Role list) ac_act" where
  "ListRoles env =
     act_bind (ask_enf (cb_GetPolicy (ac_casbin env))) (\<lambda>policies.
     act_bind (list_rules policies []) (\<lambda>roles. act_ret (sort_key Role_Name roles)))"

definition policy_line :: "rule \<Rightarrow> ('s, string) act" where
  "policy_line p =
     act_bind (rule_field p 0) (\<lambda>a. act_bind (rule_field p 1) (\<lambda>b. act_bind (rule_field p 2) (\<lambda>c. act_bind (rule_field p 3) (\<lambda>d.
       act_ret (Join [''p'', a, b, c] '', '' @ '', '' @ [CHR 0x22] @ d @ [CHR 0x22, CHR 0x0A])))))"

definition grouping_line :: "rule \<Rightarrow> ('s, string) act" where
  "grouping_line g =
     act_bind (rule_field g 0) (\<lambda>a. act_bind (rule_field g 1) (\<lambda>b. act_ret (Join [''g'', a, b] '', '' @ [CHR 0x0A])))"

definition policiesToCsv :: "('e, 'k) ac_env \<Rightarrow> ('e, 'k, string) ac_act" where
  "policiesToCsv env =
     act_bind (ask_enf (cb_GetPolicy (ac_casbin env))) (\<lambda>policies.
     act_bind (act_map policy_line policies) (\<lambda>ps.
     act_bind (ask_enf (cb_GetGroupingPolicy (ac_casbin env))) (\<lambda>groupings.
     act_bind (act_map grouping_line groupings) (\<lambda>gs. act_ret (concat ps @ concat gs)))))"

definition save_config_map :: "('e, 'k) ac_env \<Rightarrow> string \<Rightarrow> string \<Rightarrow> ('e, 'k, unit) ac_act" where
  "save_config_map env csv cmName =
     (let ns = policyNamespace (ac_config env)
      in act_bind (ask_world (ac_get_config_map env ns cmName)) (\<lambda>cm.
         act_bind (act_deref (ConfigMap_Data cm)) (\<lambda>d.
           tell_world (ac_update_config_map env ns (cm\<lparr>ConfigMap_Data := Some (d(policyCmKey (ac_config env) \<mapsto> csv))\<rparr>)))))"

definition persistPolicies :: "('e, 'k) ac_env \<Rightarrow> string \<Rightarrow> string list \<Rightarrow> ('e, 'k, unit) ac_act" where
  "persistPolicies env targetFile extra =
     act_bind (policiesToCsv env) (\<lambda>csv.
     act_bind (case extra of [] \<Rightarrow> act_ret () | cmName # _ \<Rightarrow> save_config_map env csv cmName) (\<lambda>_.
       if ac_Getenv (ac_lookup_env env) ''DEBUG_ACCESS_CONTROL'' = ''true''
       then tell_world (ac_write_file env targetFile csv) else act_ret ()))"

definition persist :: "('e, 'k) ac_env \<Rightarrow> ('e, 'k, unit) ac_act" where
  "persist env = persistPolicies env (policyPath (ac_config env)) [configMapPath (ac_config env)]"

text \<open>The role a deletion reports has the whole object of a rule as domain and as object.\<close>

primrec delete_rules :: "('e, 'k) ac_env \<Rightarrow> rule list \<Rightarrow> ac_Role \<Rightarrow> ('e, 'k, ac_Role) ac_act" where
  "delete_rules env [] r = act_ret r"
| "delete_rules env (p # ps) r =
     act_bind (rule_field p 3) (\<lambda>d. act_bind (rule_field p 1) (\<lambda>obj. act_bind (rule_field p 2) (\<lambda>a.
     act_bind (tell_enf (cb_RemovePolicy (ac_casbin env) p)) (\<lambda>removed.
       if removed then delete_rules env ps (r\<lparr>Role_Description := d, Role_Policies := Role_Policies r @ [NewPolicy obj obj a]\<rparr>)
       else act_fail (NewInternal ''failed to remove policy'')))))"

definition DeleteRole :: "('e, 'k) ac_env \<Rightarrow> string \<Rightarrow> string list \<Rightarrow> ('e, 'k, ac_Role) ac_act" where
  "DeleteRole env roleName extra =
     act_bind (ask_enf (\<lambda>e. cb_GetFilteredPolicy (ac_casbin env) e 0 roleName)) (\<lambda>policies.
       if policies = [] then act_fail (NewNotFound ''role not found'')
       else act_bind (delete_rules env policies (empty_role roleName [])) (\<lambda>role.
            act_bind (if extra = [] then persist env else act_ret ()) (\<lambda>_. act_ret role)))"

primrec create_rules :: "('e, 'k) ac_env \<Rightarrow> CreateRoleParam \<Rightarrow> ac_Policy list \<Rightarrow> ac_Role \<Rightarrow> ('e, 'k, ac_Role) ac_act" where
  "create_rules env param [] r = act_ret r"
| "create_rules env param (p # ps) r =
     act_bind (tell_enf (cb_AddPolicy (ac_casbin env)
                 [NewRole_Name param, ComposeDomainObject p, Policy_Action p, NewRole_Description param])) (\<lambda>added.
       if added then create_rules env param ps (r\<lparr>Role_Policies := Role_Policies r @ [p]\<rparr>)
       else act_fail (NewInternal ''failed to add policy''))"

definition CreateRole :: "('e, 'k) ac_env \<Rightarrow> CreateRoleParam \<Rightarrow> string list \<Rightarrow> ('e, 'k, ac_Role) ac_act" where
  "CreateRole env param extra =
     act_bind (create_rules env param (NewRole_Permissions param) (empty_role (NewRole_Name param) (NewRole_Description param))) (\<lambda>role.
     act_bind (if extra = [] then persist env else act_ret ()) (\<lambda>_. act_ret role))"

definition PatchRole :: "('e, 'k) ac_env \<Rightarrow> string \<Rightarrow> PatchRoleParam \<Rightarrow> ('e, 'k, ac_Role) ac_act" where
  "PatchRole env roleName param =
     act_bind (DeleteRole env roleName [''no-persist'']) (\<lambda>_.
       CreateRole env \<lparr>NewRole_Name = roleName, NewRole_Description = PatchRole_Description param,
                       NewRole_Permissions = PatchRole_Permissions param\<rparr> [])"

section \<open>Accounts\<close>

definition account_role :: "('e, 'k) ac_env \<Rightarrow> string \<Rightarrow> ('e, 'k, ac_Role) ac_act" where
  "account_role env role =
     act_bind (ask_enf (\<lambda>e. cb_GetPermissionsForUser (ac_casbin env) e role)) (\<lambda>policyLines.
     act_bind (act_map rule_policy policyLines) (\<lambda>policies.
       act_ret \<lparr>Role_Name = role, Role_Description = [], Role_Policies = policies\<rparr>))"

definition getAccountRoles :: "('e, 'k) ac_env \<Rightarrow> string \<Rightarrow> ('e, 'k, ac_Role list) ac_act" where
  "getAccountRoles env username =
     act_bind (ask_enf (\<lambda>e. cb_GetRolesForUser (ac_casbin env) e username)) (act_map (account_role env))"

definition getDashboardUserCredentials :: "('e, 'k) ac_env \<Rightarrow> ('e, 'k, Secret) ac_act" where
  "getDashboardUserCredentials env =
     (let secretName = ac_Getenv (ac_lookup_env env) ''USER_CREDENTIALS_SECRET''; ns = ac_Getenv (ac_lookup_env env) ''USER_NAMESPACE''
      in if secretName = [] then act_fail (NewBadRequest ''env USER_CREDENTIALS_SECRET is not set'')
         else if ns = [] then act_fail (NewBadRequest ''env USER_NAMESPACE is not set'')
         else ask_world (ac_get_secret env ns secretName))"

text \<open>The change of the secret in the caller's hands, which its later reads see, is the value returned.\<close>

definition updateUserCredentials :: "('e, 'k) ac_env \<Rightarrow> Secret \<Rightarrow> UpdateAccountCreds \<Rightarrow> ('e, 'k, Secret) ac_act" where
  "updateUserCredentials env credentials up =
     act_bind (if Update_Delete up
               then act_ret (credentials\<lparr>Secret_Data := map_option (\<lambda>m. m(Update_Username up := None)) (Secret_Data credentials)\<rparr>)
               else act_bind (act_deref (Secret_Data credentials)) (\<lambda>m.
                      act_ret (credentials\<lparr>Secret_Data := Some (m(Update_Username up \<mapsto> ToLine up))\<rparr>))) (\<lambda>changed.
     act_bind (tell_world (ac_update_secret env (ac_Getenv (ac_lookup_env env) ''USER_NAMESPACE'') changed)) (\<lambda>_.
       act_ret changed))"

definition fetchAccount :: "('e, 'k) ac_env \<Rightarrow> Secret \<Rightarrow> string \<Rightarrow> ('e, 'k, account) ac_act" where
  "fetchAccount env credentials username =
     (case nil_get (Secret_Data credentials) username of
        None \<Rightarrow> act_fail (NewBadRequest ''username or password is incorrect'')
      | Some infoLine \<Rightarrow>
          (case NewAccountCreds infoLine of
             Inl err \<Rightarrow> act_fail (NewInternal (go_err_Error err))
           | Inr creds \<Rightarrow>
               act_bind (getAccountRoles env username) (\<lambda>roles.
                 if roles = [] then act_fail (NewInternal ''User credentials file is corrupted: user has no role'')
                 else act_ret \<lparr>Account_Username = username, Account_Nickname = Creds_Nickname creds,
                               Account_Description = Creds_Description creds, Account_Roles = roles,
                               LastLoginAt = (if LastLoginAtUnix creds \<noteq> 0 then Some (LastLoginAtUnix creds) else None),
                               NeedReset = (LastLoginAtUnix creds = 0), account_password = EncryptedPassword creds\<rparr>)))"

text \<open>The accounts in the order in which the map of the secret is traversed, then sorted.\<close>

definition fetchAccounts :: "('e, 'k) ac_env \<Rightarrow> (dict \<Rightarrow> string list) \<Rightarrow> ('e, 'k, Account list) ac_act" where
  "fetchAccounts env order =
     act_bind (getDashboardUserCredentials env) (\<lambda>credentials.
     act_bind (act_map (fetchAccount env credentials) (case Secret_Data credentials of None \<Rightarrow> [] | Some m \<Rightarrow> order m)) (\<lambda>accounts.
       act_ret (sort_key Account_Username (map Account.truncate accounts))))"

definition ac_ListAccounts :: "('e, 'k) ac_env \<Rightarrow> (dict \<Rightarrow> string list) \<Rightarrow> ('e, 'k, Account list) ac_act" where
  "ac_ListAccounts env order = fetchAccounts env order"

definition GetAccount :: "('e, 'k) ac_env \<Rightarrow> string \<Rightarrow> ('e, 'k, Account) ac_act" where
  "GetAccount env username =
     act_bind (getDashboardUserCredentials env) (\<lambda>credentials.
     act_bind (fetchAccount env credentials username) (\<lambda>acc.
     act_bind (getAccountRoles env username) (\<lambda>roles.
       act_ret ((Account.truncate acc)\<lparr>Account_Roles := roles\<rparr>))))"

definition ac_Enforce :: "('e, 'k) ac_env \<Rightarrow> string \<Rightarrow> ac_Policy \<Rightarrow> ('e, 'k, bool) ac_act" where
  "ac_Enforce env username policy =
     ask_enf (\<lambda>e. cb_Enforce (ac_casbin env) e username (ComposeDomainObject policy) (Policy_Action policy))"

text \<open>Whether the account has logged in before: the pointer is set and the time is not the epoch.\<close>

definition logged_in_before :: "'a Account_scheme \<Rightarrow> bool" where
  "logged_in_before acc \<longleftrightarrow> (case LastLoginAt acc of None \<Rightarrow> False | Some t \<Rightarrow> t \<noteq> 0)"

definition creds_update :: "string \<Rightarrow> string \<Rightarrow> string \<Rightarrow> int \<Rightarrow> string \<Rightarrow> UpdateAccountCreds" where
  "creds_update username pwd nickname at description =
     \<lparr>EncryptedPassword = pwd, Creds_Nickname = nickname, LastLoginAtUnix = at, Creds_Description = description,
      Update_Username = username, Update_Delete = False\<rparr>"

definition ValidateAccount :: "('e, 'k) ac_env \<Rightarrow> string \<Rightarrow> string \<Rightarrow> ('e, 'k, Account) ac_act" where
  "ValidateAccount env username password =
     act_bind (getDashboardUserCredentials env) (\<lambda>credentials.
     act_bind (fetchAccount env credentials username) (\<lambda>acc.
       if account_password acc \<noteq> ac_hex_sha256 env password
       then act_fail (NewBadRequest ''username or password is incorrect'')
       else act_bind (act_catch (getAccountRoles env username)) (\<lambda>r.
         let acc1 = (case r of Inl _ \<Rightarrow> acc | Inr roles \<Rightarrow> acc\<lparr>Account_Roles := roles\<rparr>)
         in act_bind (if logged_in_before acc1
                      then act_bind (act_get (\<lambda>s. ac_now env (World s))) (\<lambda>now.
                           act_bind (act_catch (updateUserCredentials env credentials
                             (creds_update username (account_password acc1) (Account_Nickname acc1) now (Account_Description acc1)))) (\<lambda>_.
                             act_ret ()))
                      else act_ret ()) (\<lambda>_. act_ret (Account.truncate acc1)))))"

text \<open>Nothing is returned when the password has been reset.\<close>

definition ResetAccountPassword :: "('e, 'k) ac_env \<Rightarrow> string \<Rightarrow> ResetPasswordParam \<Rightarrow> ('e, 'k, Account option) ac_act" where
  "ResetAccountPassword env username resetParam =
     act_bind (getDashboardUserCredentials env) (\<lambda>credentials.
     act_bind (fetchAccount env credentials username) (\<lambda>acc.
       if logged_in_before acc \<and> account_password acc \<noteq> ac_hex_sha256 env (Reset_OldPassword resetParam)
       then act_fail (NewBadRequest ''password is incorrect'')
       else let newPwd = ac_hex_sha256 env (Reset_Password resetParam)
       in if account_password acc = newPwd then act_fail (NewBadRequest ''new password is the same as the old password'')
       else act_bind (act_get (\<lambda>s. ac_now env (World s))) (\<lambda>now.
            act_bind (act_replace (\<lambda>_. NewInternal ''failed to update user credentials'')
                (updateUserCredentials env credentials
                  (creds_update username newPwd (Account_Nickname acc) now (Account_Description acc)))) (\<lambda>_.
              act_ret None))))"

primrec grant_new_roles :: "('e, 'k) ac_env \<Rightarrow> string \<Rightarrow> string list \<Rightarrow> ('e, 'k, unit) ac_act" where
  "grant_new_roles env username [] = act_ret ()"
| "grant_new_roles env username (role # roles) =
     act_bind (ask_enf (\<lambda>e. cb_GetFilteredPolicy (ac_casbin env) e 0 role)) (\<lambda>policies.
       if policies = [] then act_fail (NewBadRequest (''role does not exist: '' @ role))
       else act_bind (tell_enf (cb_AddRoleForUser (ac_casbin env) username role)) (\<lambda>added.
              if added then grant_new_roles env username roles
              else act_fail (NewInternal ''failed to add role for user'')))"

definition CreateAccount :: "('e, 'k) ac_env \<Rightarrow> CreateAccountParam \<Rightarrow> ('e, 'k, Account) ac_act" where
  "CreateAccount env param =
     act_bind (getDashboardUserCredentials env) (\<lambda>credentials.
       if nil_get (Secret_Data credentials) (New_Username param) \<noteq> None
       then act_fail (NewBadRequest ''username already exists'')
       else act_bind (grant_new_roles env (New_Username param) (New_Roles param)) (\<lambda>_.
            act_bind (act_replace (\<lambda>_. NewInternal ''failed to update user credentials'')
                (updateUserCredentials env credentials
                  (creds_update (New_Username param) (ac_hex_sha256 env (New_Password param)) (New_Nickname param) 0 (New_Description param)))) (\<lambda>changed.
            act_bind (persist env) (\<lambda>_.
            act_bind (fetchAccount env changed (New_Username param)) (\<lambda>acc. act_ret (Account.truncate acc))))))"

definition revoke_role :: "('e, 'k) ac_env \<Rightarrow> string \<Rightarrow> string \<Rightarrow> ('e, 'k, unit) ac_act" where
  "revoke_role env username role =
     act_bind (tell_enf (cb_DeleteRoleForUser (ac_casbin env) username role)) (\<lambda>deleted.
       if deleted then act_ret () else act_fail (NewInternal ''failed to delete role for user''))"

definition grant_role :: "('e, 'k) ac_env \<Rightarrow> string \<Rightarrow> string \<Rightarrow> ('e, 'k, unit) ac_act" where
  "grant_role env username role =
     act_bind (tell_enf (cb_AddRoleForUser (ac_casbin env) username role)) (\<lambda>added.
       if added then act_ret () else act_fail (NewInternal ''failed to add role for user''))"

text \<open>The roles to be given are looked up, but not whether anything was found.\<close>

definition check_role :: "('e, 'k) ac_env \<Rightarrow> string \<Rightarrow> ('e, 'k, unit) ac_act" where
  "check_role env role =
     act_replace (\<lambda>_. NewBadRequest (''role does not exist: '' @ role))
       (act_bind (ask_enf (\<lambda>e. cb_GetFilteredPolicy (ac_casbin env) e 0 role)) (\<lambda>_. act_ret ()))"

definition replace_roles :: "('e, 'k) ac_env \<Rightarrow> string \<Rightarrow> ac_Role list \<Rightarrow> string list \<Rightarrow> ('e, 'k, unit) ac_act" where
  "replace_roles env username held roles =
     act_bind (act_each (check_role env) roles) (\<lambda>_.
     act_bind (act_each (\<lambda>r. revoke_role env username (Role_Name r)) held) (\<lambda>_.
       act_each (grant_role env username) roles))"

text \<open>Whether the line of the account changes, and what it changes to.\<close>

definition patch_changes :: "PatchAccountParam \<Rightarrow> account \<Rightarrow> bool" where
  "patch_changes param acc \<longleftrightarrow>
     Patch_Password param \<noteq> [] \<or>
     (Patch_Nickname param \<noteq> [] \<and> Account_Nickname acc \<noteq> Patch_Nickname param) \<or>
     (Patch_Description param \<noteq> [] \<and> Account_Description acc \<noteq> Patch_Description param)"

definition patched_creds :: "('e, 'k) ac_env \<Rightarrow> string \<Rightarrow> PatchAccountParam \<Rightarrow> account \<Rightarrow> UpdateAccountCreds" where
  "patched_creds env username param acc =
     creds_update username
       (if Patch_Password param \<noteq> [] then ac_hex_sha256 env (Patch_Password param) else account_password acc)
       (if Patch_Nickname param \<noteq> [] \<and> Account_Nickname acc \<noteq> Patch_Nickname param
        then Patch_Nickname param else Account_Nickname acc)
       (case LastLoginAt acc of None \<Rightarrow> 0 | Some t \<Rightarrow> t)
       (if Patch_Description param \<noteq> [] \<and> Account_Description acc \<noteq> Patch_Description param
        then Patch_Description param else Account_Description acc)"

definition PatchAccount :: "('e, 'k) ac_env \<Rightarrow> string \<Rightarrow> PatchAccountParam \<Rightarrow> ('e, 'k, Account) ac_act" where
  "PatchAccount env username param =
     act_bind (getDashboardUserCredentials env) (\<lambda>credentials.
     act_bind (fetchAccount env credentials username) (\<lambda>acc.
     act_bind (if Patch_Roles param \<noteq> [] then replace_roles env username (Account_Roles acc) (Patch_Roles param) else act_ret ()) (\<lambda>_.
     act_bind (if patch_changes param acc
               then act_replace (\<lambda>_. NewInternal ''failed to update user credentials'')
                      (updateUserCredentials env credentials (patched_creds env username param acc))
               else act_ret credentials) (\<lambda>changed.
     act_bind (fetchAccount env changed username) (\<lambda>acc'. act_ret (Account.truncate acc'))))))"

definition DeleteAccount :: "('e, 'k) ac_env \<Rightarrow> string \<Rightarrow> ('e, 'k, Account) ac_act" where
  "DeleteAccount env username =
     act_bind (getDashboardUserCredentials env) (\<lambda>credentials.
     act_bind (fetchAccount env credentials username) (\<lambda>acc.
     act_bind (act_each (\<lambda>r. revoke_role env username (Role_Name r)) (Account_Roles acc)) (\<lambda>_.
     act_bind (persist env) (\<lambda>_.
     act_bind (act_replace (\<lambda>_. NewInternal ''failed to update user credentials'')
         (updateUserCredentials env credentials
           ((creds_update username [] [] 0 [])\<lparr>Update_Delete := True\<rparr>))) (\<lambda>_.
       act_ret (Account.truncate acc))))))"

end
