(* ===== verification/Access_Laws.thy ===== *)
theory Access_Laws
  imports Access_Control
begin

text \<open>
  What is proved of the dashboard's accounts and roles: the line of an account reads back as it was
  written, an account that was created logs in with its password and no other, a role that was
  patched has exactly the new rules, and which changes reach the saved policies.
\<close>

section \<open>Programs that only read\<close>

definition reads :: "('s, 'a) act \<Rightarrow> bool" where
  "reads f \<longleftrightarrow> (\<forall>s. snd (f s) = s)"

named_theorems reads_intros

lemma reads_state: "reads f \<Longrightarrow> f s = (r, s') \<Longrightarrow> s' = s"
  by (metis reads_def snd_conv)

lemma reads_basic [reads_intros]:
  "reads (act_ret x)" "reads (act_fail err)" "reads act_panic" "reads (act_get h)" "reads (act_of r)" "reads (act_deref p)"
  "reads (ask_enf f)" "reads (ask_world g)" "reads (rule_field p' i)"
  by (auto simp: reads_def act_defs ask_enf_def ask_world_def rule_field_def split: sum.splits option.splits)

lemma reads_bind [reads_intros]: "reads f \<Longrightarrow> (\<And>x. reads (g x)) \<Longrightarrow> reads (act_bind f g)"
  by (simp add: reads_def act_bind_def split: reply.split prod.split) (metis snd_conv)

lemma reads_catch [reads_intros]: "reads f \<Longrightarrow> reads (act_catch f)"
  by (simp add: reads_def act_catch_def split: reply.split prod.split) (metis snd_conv)

lemma reads_map [reads_intros]: "(\<And>x. reads (f x)) \<Longrightarrow> reads (act_map f xs)"
  by (induction xs) (auto intro!: reads_intros)

lemma reads_rule_policy [reads_intros]: "reads (rule_policy p)"
  unfolding rule_policy_def by (auto intro!: reads_intros split: list.split)

lemma reads_lines [reads_intros]: "reads (policy_line p)" "reads (grouping_line g)"
  unfolding policy_line_def grouping_line_def by (auto intro!: reads_intros)

lemma reads_policiesToCsv [reads_intros]: "reads (policiesToCsv env)"
  unfolding policiesToCsv_def by (auto intro!: reads_intros)

lemma reads_getAccountRoles [reads_intros]: "reads (getAccountRoles env username)"
  unfolding getAccountRoles_def account_role_def by (auto intro!: reads_intros)

lemma reads_credentials [reads_intros]: "reads (getDashboardUserCredentials env)"
  unfolding getDashboardUserCredentials_def Let_def by (auto intro!: reads_intros)

lemma reads_fetchAccount [reads_intros]: "reads (fetchAccount env credentials username)"
  unfolding fetchAccount_def by (auto intro!: reads_intros split: option.split sum.split)

lemma reads_role_of_rules [reads_intros]: "reads (role_of_rules ps r)"
  by (induction ps arbitrary: r) (auto simp: with_policy_def act_bind_assoc intro!: reads_intros)

lemma reads_list_rules [reads_intros]: "reads (list_rules ps roles)"
  by (induction ps arbitrary: roles) (auto intro!: reads_intros)

section \<open>The line of an account\<close>

text \<open>A field the reader finds the end of: no separator begins in it.\<close>

definition no_separator :: "string \<Rightarrow> bool" where
  "no_separator x \<longleftrightarrow> \<not> sublist accountLineSeparator (x @ butlast accountLineSeparator)"

lemma separator_not_Nil [simp]: "accountLineSeparator \<noteq> []"
  by (simp add: accountLineSeparator_def)

lemma cut_at_field: "no_separator x \<Longrightarrow> cut_at accountLineSeparator (x @ accountLineSeparator @ rest) = Some (x, rest)"
  unfolding no_separator_def by (rule cut_at_joint [OF separator_not_Nil])

text \<open>No character of the separator's middle, no separator.\<close>

lemma no_separator_bar:
  assumes "CHR ''|'' \<notin> set x"
  shows "no_separator x"
  unfolding no_separator_def
proof
  let ?sep = accountLineSeparator
  assume "sublist ?sep (x @ butlast ?sep)"
  then obtain ps ss where eq: "x @ butlast ?sep = ps @ ?sep @ ss" by (auto simp: sublist_def)
  have "count_list (x @ butlast ?sep) (CHR ''|'') = 2"
    using assms by (simp add: accountLineSeparator_def count_list_0_iff)
  moreover have "count_list (ps @ ?sep @ ss) (CHR ''|'') = count_list ps (CHR ''|'') + 2 + count_list ss (CHR ''|'')"
    by (simp add: accountLineSeparator_def)
  ultimately have "count_list ss (CHR ''|'') = 0" "count_list ps (CHR ''|'') = 0" using eq by simp_all
  have "rev (butlast ?sep) @ rev x = rev ss @ rev ?sep @ rev ps" using arg_cong [OF eq, of rev] by simp
  then show False
    using \<open>count_list ss (CHR ''|'') = 0\<close>
    by (cases "rev ss"; cases "tl (rev ss)") (auto simp: accountLineSeparator_def count_list_0_iff)
qed

lemma no_separator_show_int: "no_separator (show_int i)"
  by (rule no_separator_bar) (auto dest!: show_int_chars)

lemma NewAccountCreds_joined:
  assumes "no_separator pwd" "no_separator nickname" "- (2 ^ 63) \<le> at" "at < 2 ^ 63"
  shows "NewAccountCreds (Join [pwd, nickname, show_int at, description] accountLineSeparator) =
           Inr \<lparr>EncryptedPassword = pwd, Creds_Nickname = nickname, LastLoginAtUnix = at, Creds_Description = TrimSpace description\<rparr>"
  using assms
  by (simp add: NewAccountCreds_def numeral_eq_Suc cut_at_field no_separator_show_int Atoi_show_int)

text \<open>
  An account's line reads back as what was written, when no separator begins in the password's
  hash or in the nickname, the time of the last login fits 64 bits and the description carries no
  space at its ends.
\<close>

theorem account_line_roundtrip:
  assumes "no_separator (EncryptedPassword u)" "no_separator (Creds_Nickname u)"
    and "- (2 ^ 63) \<le> LastLoginAtUnix u" "LastLoginAtUnix u < 2 ^ 63"
    and "TrimSpace (Creds_Description u) = Creds_Description u"
  shows "NewAccountCreds (ToLine u) = Inr (AccountCreds.truncate u)"
  using NewAccountCreds_joined [OF assms(1-4)] assms(5) by (simp add: ToLine_def AccountCreds.truncate_def)

theorem account_line_roundtrip_witness:
  "NewAccountCreds (ToLine (creds_update ''ann'' ''2cf24dba'' ''Ann Lee'' (- 7) ''writes <tests>''))
     = Inr \<lparr>EncryptedPassword = ''2cf24dba'', Creds_Nickname = ''Ann Lee'', LastLoginAtUnix = - 7, Creds_Description = ''writes <tests>''\<rparr>"
  using account_line_roundtrip [of "creds_update ''ann'' ''2cf24dba'' ''Ann Lee'' (- 7) ''writes <tests>''"]
  by (simp add: creds_update_def no_separator_bar TrimSpace_id white_def AccountCreds.truncate_def)

text \<open>
  A nickname that contains the separator shifts the fields behind it: the account that
  \<^verbatim>\<open>CreateAccount\<close> wrote cannot be read again.
\<close>

lemma separator_in_nickname_corrupts:
  "NewAccountCreds (ToLine (creds_update ''ann'' ''2cf24dba'' ''Ann <|:SEP:|> Lee'' 0 ''tester'')) =
     Inl (PlainError ''User credentials file is corrupted: last login time is not a valid timestamp'')"
  by code_simp

section \<open>The store of the credentials\<close>

text \<open>
  What the code relies on of the API server: an object read has the name asked for, an update that
  succeeded is what later reads see, and writing the policies does not touch the credentials.
\<close>

definition secret_store :: "('e, 'k) ac_env \<Rightarrow> bool" where
  "secret_store env \<longleftrightarrow>
     (\<forall>ns name k x. ac_get_secret env ns name k = Inr x \<longrightarrow> Secret_Name x = name) \<and>
     (\<forall>ns x k k'. ac_update_secret env ns x k = (Inr (), k') \<longrightarrow>
        (\<exists>v. ac_get_secret env ns (Secret_Name x) k' = Inr (x\<lparr>Secret_Version := v\<rparr>))) \<and>
     (\<forall>ns x k ns' name'. ac_get_secret env ns' name' (snd (ac_update_config_map env ns x k)) = ac_get_secret env ns' name' k) \<and>
     (\<forall>path csv k ns' name'. ac_get_secret env ns' name' (snd (ac_write_file env path csv k)) = ac_get_secret env ns' name' k)"

lemma secret_store_name: "secret_store env \<Longrightarrow> ac_get_secret env ns name k = Inr x \<Longrightarrow> Secret_Name x = name"
  by (simp add: secret_store_def)

lemma secret_store_update:
  "secret_store env \<Longrightarrow> ac_update_secret env ns x k = (Inr (), k') \<Longrightarrow>
     \<exists>v. ac_get_secret env ns (Secret_Name x) k' = Inr (x\<lparr>Secret_Version := v\<rparr>)"
  by (simp add: secret_store_def)

lemma secret_store_others:
  assumes "secret_store env"
  shows "ac_update_config_map env ns x k = (r, k') \<Longrightarrow> ac_get_secret env ns' name k' = ac_get_secret env ns' name k"
    and "ac_write_file env path csv k = (r', k') \<Longrightarrow> ac_get_secret env ns' name k' = ac_get_secret env ns' name k"
  using assms unfolding secret_store_def by (metis snd_conv)+

lemma ask_iffs [act_iffs]:
  "ask_enf f s = (Replied x, s') \<longleftrightarrow> f (Enf s) = Inr x \<and> s' = s"
  "ask_world g s = (Replied y, s') \<longleftrightarrow> g (World s) = Inr y \<and> s' = s"
  "tell_enf f' s = (Replied x', s') \<longleftrightarrow> (\<exists>e'. f' (Enf s) = (Inr x', e') \<and> s' = s\<lparr>Enf := e'\<rparr>)"
  "tell_world g' s = (Replied y', s') \<longleftrightarrow> (\<exists>k'. g' (World s) = (Inr y', k') \<and> s' = s\<lparr>World := k'\<rparr>)"
  by (auto simp: ask_enf_def ask_world_def tell_enf_def tell_world_def act_of_def foreign_def act_fail_def act_ret_def
      split: sum.splits prod.splits)

lemma ask_enf_run: "f (Enf s) = Inr x \<Longrightarrow> act_bind (ask_enf f) g s = g x s"
  by (simp add: act_bind_def ask_enf_def foreign_def act_ret_def)

lemma credentials_Done:
  assumes "getDashboardUserCredentials env s = (Replied c, s')"
  shows "s' = s \<and> ac_get_secret env (ac_Getenv (ac_lookup_env env) ''USER_NAMESPACE'')
                    (ac_Getenv (ac_lookup_env env) ''USER_CREDENTIALS_SECRET'') (World s) = Inr c"
  using assms by (auto simp: getDashboardUserCredentials_def Let_def act_iffs split: if_splits)

text \<open>The credentials a later request reads are the ones that were written.\<close>

lemma update_is_read:
  assumes store: "secret_store env" and got: "getDashboardUserCredentials env s0 = (Replied c, s0)"
    and upd: "updateUserCredentials env c up s = (Replied c', s')"
  shows "\<exists>v. getDashboardUserCredentials env s' = (Replied (c'\<lparr>Secret_Version := v\<rparr>), s') \<and> Enf s' = Enf s"
proof -
  have set: "ac_Getenv (ac_lookup_env env) ''USER_CREDENTIALS_SECRET'' \<noteq> []" "ac_Getenv (ac_lookup_env env) ''USER_NAMESPACE'' \<noteq> []"
    using got by (auto simp: getDashboardUserCredentials_def Let_def act_iffs split: if_splits)
  have "Secret_Name c = ac_Getenv (ac_lookup_env env) ''USER_CREDENTIALS_SECRET''"
    using credentials_Done [OF got] secret_store_name [OF store] by blast
  moreover obtain k' where upd':  "ac_update_secret env (ac_Getenv (ac_lookup_env env) ''USER_NAMESPACE'') c' (World s) = (Inr (), k')"
      and s': "s' = s\<lparr>World := k'\<rparr>" and "Secret_Name c' = Secret_Name c"
    using upd by (auto simp: updateUserCredentials_def act_iffs split: if_splits)
  ultimately obtain v where "ac_get_secret env (ac_Getenv (ac_lookup_env env) ''USER_NAMESPACE'')
      (ac_Getenv (ac_lookup_env env) ''USER_CREDENTIALS_SECRET'') k' = Inr (c'\<lparr>Secret_Version := v\<rparr>)"
    using secret_store_update [OF store upd'] by auto
  then show ?thesis by (intro exI [of _ v]) (simp add: getDashboardUserCredentials_def Let_def act_iffs s' set)
qed

lemma persist_keeps_credentials:
  assumes store: "secret_store env" and "persist env s = (Replied (), s')"
  shows "getDashboardUserCredentials env s' = (fst (getDashboardUserCredentials env s), s') \<and> Enf s' = Enf s"
proof -
  note same = secret_store_others [OF store]
  obtain csv s1 s2 where csv: "policiesToCsv env s = (Replied csv, s1)" "save_config_map env csv (configMapPath (ac_config env)) s1 = (Replied (), s2)"
    and debug: "(if ac_Getenv (ac_lookup_env env) ''DEBUG_ACCESS_CONTROL'' = ''true''
         then tell_world (ac_write_file env (policyPath (ac_config env)) csv) else act_ret ()) s2 = (Replied (), s')"
    using assms(2) by (auto simp: persist_def persistPolicies_def act_iffs)
  have "s1 = s" using csv(1) reads_state [OF reads_policiesToCsv] by blast
  then have "Enf s2 = Enf s \<and> (\<forall>ns name. ac_get_secret env ns name (World s2) = ac_get_secret env ns name (World s))"
    using csv(2) same by (auto simp: save_config_map_def Let_def act_iffs)
  then have "Enf s' = Enf s \<and> (\<forall>ns name. ac_get_secret env ns name (World s') = ac_get_secret env ns name (World s))"
    using debug same by (auto simp: act_iffs split: if_splits)
  then show ?thesis by (simp add: getDashboardUserCredentials_def Let_def ask_world_def act_fail_def act_of_def act_ret_def split: sum.split)
qed

text \<open>What reading an account found: its line, its roles, and the account made of them.\<close>

lemma fetchAccount_Done:
  assumes "fetchAccount env c username s = (Replied acc, s')"
  obtains line creds roles where "nil_get (Secret_Data c) username = Some line" "NewAccountCreds line = Inr creds"
    "getAccountRoles env username s = (Replied roles, s)" "roles \<noteq> []" "s' = s"
    "acc = \<lparr>Account_Username = username, Account_Nickname = Creds_Nickname creds,
            Account_Description = Creds_Description creds, Account_Roles = roles,
            LastLoginAt = (if LastLoginAtUnix creds \<noteq> 0 then Some (LastLoginAtUnix creds) else None),
            NeedReset = (LastLoginAtUnix creds = 0), account_password = EncryptedPassword creds\<rparr>"
proof -
  obtain line creds where line: "nil_get (Secret_Data c) username = Some line" "NewAccountCreds line = Inr creds"
    using assms by (auto simp: fetchAccount_def act_iffs split: option.splits sum.splits)
  with assms obtain roles where roles: "getAccountRoles env username s = (Replied roles, s')" "roles \<noteq> []"
    "acc = \<lparr>Account_Username = username, Account_Nickname = Creds_Nickname creds,
            Account_Description = Creds_Description creds, Account_Roles = roles,
            LastLoginAt = (if LastLoginAtUnix creds \<noteq> 0 then Some (LastLoginAtUnix creds) else None),
            NeedReset = (LastLoginAtUnix creds = 0), account_password = EncryptedPassword creds\<rparr>"
    by (auto simp: fetchAccount_def act_iffs split: if_splits)
  have "s' = s" using reads_state [OF reads_getAccountRoles roles(1)] .
  with line roles show ?thesis by (intro that) simp_all
qed

lemma fetchAccount_version [simp]: "fetchAccount env (c\<lparr>Secret_Version := v\<rparr>) = fetchAccount env c"
  by (simp add: fetchAccount_def fun_eq_iff)

text \<open>A log in, given what the credentials and the account were read as.\<close>

lemma ValidateAccount_run:
  assumes "getDashboardUserCredentials env s = (Replied c, s)" "fetchAccount env c username s = (Replied acc, s)"
    and "\<not> logged_in_before acc"
  shows "ValidateAccount env username password s =
           (if account_password acc = ac_hex_sha256 env password then (Replied (Account.truncate acc), s)
            else (Refused (NewBadRequest ''username or password is incorrect''), s))"
proof -
  obtain roles where roles: "getAccountRoles env username s = (Replied roles, s)" "acc\<lparr>Account_Roles := roles\<rparr> = acc"
    using assms(2) by (elim fetchAccount_Done) auto
  then have "act_catch (getAccountRoles env username) s = (Replied (Inr roles), s)" by (simp add: act_iffs)
  then show ?thesis
    using assms roles(2)
    by (simp add: ValidateAccount_def act_bind_run(1) Let_def act_fail_def act_ret_def)
qed

lemma updateUserCredentials_Done:
  assumes "updateUserCredentials env c up s = (Replied c', s')"
  shows "Enf s' = Enf s" and "\<not> Update_Delete up \<Longrightarrow> nil_get (Secret_Data c') (Update_Username up) = Some (ToLine up)"
    and "Update_Delete up \<Longrightarrow> nil_get (Secret_Data c') (Update_Username up) = None"
  using assms by (auto simp: updateUserCredentials_def act_iffs nil_get_def split: if_splits option.splits)

text \<open>
  C13. An account that was created can log in at once: with the password it was given the answer is
  the account itself and nothing changes, and with a password of another hash the answer is the error
  for wrong names and passwords.
\<close>

theorem created_account_logs_in:
  assumes created: "CreateAccount env param s = (Replied a, s')" and store: "secret_store env"
    and fields: "no_separator (ac_hex_sha256 env (New_Password param))" "no_separator (New_Nickname param)"
  shows "ValidateAccount env (New_Username param) password s' =
           (if ac_hex_sha256 env (New_Password param) = ac_hex_sha256 env password then (Replied a, s')
            else (Refused (NewBadRequest ''username or password is incorrect''), s'))"
proof -
  define up where "up = creds_update (New_Username param) (ac_hex_sha256 env (New_Password param)) (New_Nickname param) 0 (New_Description param)"
  obtain c s0 s1 changed s2 s3 acc where creds0: "getDashboardUserCredentials env s = (Replied c, s0)"
    and upd: "updateUserCredentials env c up s1 = (Replied changed, s2)" and per: "persist env s2 = (Replied (), s3)"
    and fetch: "fetchAccount env changed (New_Username param) s3 = (Replied acc, s')" and a: "a = Account.truncate acc"
    using created
    by (auto simp: CreateAccount_def act_iffs up_def split: if_splits)
  have creds: "getDashboardUserCredentials env s = (Replied c, s)"
    using creds0 reads_state [OF reads_credentials creds0] by simp
  obtain v where "getDashboardUserCredentials env s2 = (Replied (changed\<lparr>Secret_Version := v\<rparr>), s2)"
    using update_is_read [OF store creds upd] by blast
  then have later: "getDashboardUserCredentials env s3 = (Replied (changed\<lparr>Secret_Version := v\<rparr>), s3)"
    using persist_keeps_credentials [OF store per] by simp
  have "NewAccountCreds (ToLine up) = Inr \<lparr>EncryptedPassword = ac_hex_sha256 env (New_Password param),
          Creds_Nickname = New_Nickname param, LastLoginAtUnix = 0, Creds_Description = TrimSpace (New_Description param)\<rparr>"
    using NewAccountCreds_joined [OF fields, of 0] by (simp add: ToLine_def up_def creds_update_def)
  moreover have "nil_get (Secret_Data changed) (New_Username param) = Some (ToLine up)"
    using updateUserCredentials_Done(2) [OF upd] by (simp add: up_def creds_update_def)
  ultimately have "account_password acc = ac_hex_sha256 env (New_Password param)" "\<not> logged_in_before acc" "s' = s3"
    using fetch by (auto elim!: fetchAccount_Done simp: logged_in_before_def)
  then show ?thesis using ValidateAccount_run [of env s3] later fetch a by simp
qed

text \<open>A log in that is answered with an account was made with a password of the stored hash.\<close>

lemma login_needs_password:
  assumes "ValidateAccount env username password s = (Replied a, s')"
  shows "\<exists>c line creds. getDashboardUserCredentials env s = (Replied c, s) \<and> nil_get (Secret_Data c) username = Some line \<and>
           NewAccountCreds line = Inr creds \<and> EncryptedPassword creds = ac_hex_sha256 env password \<and> Account_Username a = username"
proof -
  obtain c s0 acc s1 r where c0: "getDashboardUserCredentials env s = (Replied c, s0)" and acc0: "fetchAccount env c username s0 = (Replied acc, s1)"
    and pwd: "account_password acc = ac_hex_sha256 env password"
    and a: "a = Account.truncate (case r of Inl (_ :: go_err) \<Rightarrow> acc | Inr roles \<Rightarrow> acc\<lparr>Account_Roles := roles\<rparr>)"
    using assms
    by (auto simp: ValidateAccount_def act_bind_Done act_ret_Done act_fail_Done Let_def split: if_splits)
  have c: "getDashboardUserCredentials env s = (Replied c, s)" and acc: "fetchAccount env c username s = (Replied acc, s1)"
    using c0 acc0 reads_state [OF reads_credentials c0] by simp_all
  from acc show ?thesis
    by (rule fetchAccount_Done) (use c pwd a in \<open>auto simp: Account.defs split: sum.split\<close>)
qed

section \<open>The enforcer\<close>

text \<open>
  What the code relies on of casbin, stated over the rules and the groupings an enforcer holds: reads
  answer from them, a rule is added unless it is there, and removed if it is.
\<close>

definition of_role :: "string \<Rightarrow> rule \<Rightarrow> bool" where
  "of_role name p \<longleftrightarrow> p \<noteq> [] \<and> hd p = name"

definition casbin_reads :: "'e casbin \<Rightarrow> ('e \<Rightarrow> rule list) \<Rightarrow> ('e \<Rightarrow> (string \<times> string) list) \<Rightarrow> bool" where
  "casbin_reads cb policies groupings \<longleftrightarrow>
     (\<forall>e. cb_GetPolicy cb e = Inr (policies e)) \<and>
     (\<forall>e. cb_GetGroupingPolicy cb e = Inr (map (\<lambda>(u, r). [u, r]) (groupings e))) \<and>
     (\<forall>e v. v \<noteq> [] \<longrightarrow> cb_GetFilteredPolicy cb e 0 v = Inr (filter (of_role v) (policies e))) \<and>
     (\<forall>e v. v \<noteq> [] \<longrightarrow> cb_GetPermissionsForUser cb e v = Inr (filter (of_role v) (policies e))) \<and>
     (\<forall>e u. cb_GetRolesForUser cb e u = Inr (map snd (filter (\<lambda>g. fst g = u) (groupings e))))"

definition casbin_writes :: "'e casbin \<Rightarrow> ('e \<Rightarrow> rule list) \<Rightarrow> ('e \<Rightarrow> (string \<times> string) list) \<Rightarrow> bool" where
  "casbin_writes cb policies groupings \<longleftrightarrow>
     (\<forall>r e. \<exists>e'. cb_AddPolicy cb r e = (Inr (r \<notin> set (policies e)), e') \<and> groupings e' = groupings e \<and>
        policies e' = (if r \<in> set (policies e) then policies e else policies e @ [r])) \<and>
     (\<forall>r e. \<exists>e'. cb_RemovePolicy cb r e = (Inr (r \<in> set (policies e)), e') \<and> groupings e' = groupings e \<and>
        policies e' = filter (\<lambda>p. p \<noteq> r) (policies e)) \<and>
     (\<forall>u r e. \<exists>e'. cb_AddRoleForUser cb u r e = (Inr ((u, r) \<notin> set (groupings e)), e') \<and> policies e' = policies e \<and>
        groupings e' = (if (u, r) \<in> set (groupings e) then groupings e else groupings e @ [(u, r)])) \<and>
     (\<forall>u r e. \<exists>e'. cb_DeleteRoleForUser cb u r e = (Inr ((u, r) \<in> set (groupings e)), e') \<and> policies e' = policies e \<and>
        groupings e' = filter (\<lambda>g. g \<noteq> (u, r)) (groupings e))"

lemma casbin_readsD:
  assumes "casbin_reads cb policies groupings"
  shows "cb_GetPolicy cb e = Inr (policies e)" "cb_GetGroupingPolicy cb e = Inr (map (\<lambda>(u, r). [u, r]) (groupings e))"
    "v \<noteq> [] \<Longrightarrow> cb_GetFilteredPolicy cb e 0 v = Inr (filter (of_role v) (policies e))"
    "v \<noteq> [] \<Longrightarrow> cb_GetPermissionsForUser cb e v = Inr (filter (of_role v) (policies e))"
    "cb_GetRolesForUser cb e u = Inr (map snd (filter (\<lambda>g. fst g = u) (groupings e)))"
  using assms by (simp_all add: casbin_reads_def)

lemma casbin_added:
  assumes "casbin_writes cb policies groupings" "cb_AddPolicy cb r e = (Inr b, e')"
  shows "b = (r \<notin> set (policies e)) \<and> groupings e' = groupings e \<and>
           policies e' = (if b then policies e @ [r] else policies e)"
proof -
  have "\<exists>e'. cb_AddPolicy cb r e = (Inr (r \<notin> set (policies e)), e') \<and> groupings e' = groupings e \<and>
        policies e' = (if r \<in> set (policies e) then policies e else policies e @ [r])"
    using assms(1) by (simp add: casbin_writes_def)
  then show ?thesis using assms(2) by auto
qed

lemma casbin_removed:
  assumes "casbin_writes cb policies groupings" "cb_RemovePolicy cb r e = (Inr b, e')"
  shows "b = (r \<in> set (policies e)) \<and> groupings e' = groupings e \<and> policies e' = filter (\<lambda>p. p \<noteq> r) (policies e)"
proof -
  have "\<exists>e'. cb_RemovePolicy cb r e = (Inr (r \<in> set (policies e)), e') \<and> groupings e' = groupings e \<and>
        policies e' = filter (\<lambda>p. p \<noteq> r) (policies e)"
    using assms(1) by (simp add: casbin_writes_def)
  then show ?thesis using assms(2) by auto
qed

lemma casbin_granted:
  assumes "casbin_writes cb policies groupings" "cb_AddRoleForUser cb u r e = (Inr b, e')"
  shows "b = ((u, r) \<notin> set (groupings e)) \<and> policies e' = policies e \<and>
           groupings e' = (if b then groupings e @ [(u, r)] else groupings e)"
proof -
  have "\<exists>e'. cb_AddRoleForUser cb u r e = (Inr ((u, r) \<notin> set (groupings e)), e') \<and> policies e' = policies e \<and>
        groupings e' = (if (u, r) \<in> set (groupings e) then groupings e else groupings e @ [(u, r)])"
    using assms(1) by (simp add: casbin_writes_def)
  then show ?thesis using assms(2) by auto
qed

lemma casbin_revoked:
  assumes "casbin_writes cb policies groupings" "cb_DeleteRoleForUser cb u r e = (Inr b, e')"
  shows "b = ((u, r) \<in> set (groupings e)) \<and> policies e' = policies e \<and>
           groupings e' = filter (\<lambda>g. g \<noteq> (u, r)) (groupings e)"
proof -
  have "\<exists>e'. cb_DeleteRoleForUser cb u r e = (Inr ((u, r) \<in> set (groupings e)), e') \<and> policies e' = policies e \<and>
        groupings e' = filter (\<lambda>g. g \<noteq> (u, r)) (groupings e)"
    using assms(1) by (simp add: casbin_writes_def)
  then show ?thesis using assms(2) by auto
qed

subsection \<open>Changing a role\<close>

lemma persist_keeps_Enf: "persist env s = (Replied (), s') \<Longrightarrow> Enf s' = Enf s"
  by (auto simp: persist_def persistPolicies_def save_config_map_def Let_def act_iffs split: if_splits
      dest!: reads_state [OF reads_policiesToCsv])

lemma delete_rules_Done:
  assumes "casbin_writes (ac_casbin env) policies groupings" "delete_rules env ps r s = (Replied role, s')"
  shows "policies (Enf s') = filter (\<lambda>p. p \<notin> set ps) (policies (Enf s)) \<and> groupings (Enf s') = groupings (Enf s) \<and> World s' = World s"
  using assms(2)
proof (induction ps arbitrary: r s)
  case (Cons p ps)
  then obtain d obj a e1 where "cb_RemovePolicy (ac_casbin env) p (Enf s) = (Inr True, e1)"
    and rest: "delete_rules env ps (r\<lparr>Role_Description := d, Role_Policies := Role_Policies r @ [NewPolicy obj obj a]\<rparr>)
                 (s\<lparr>Enf := e1\<rparr>) = (Replied role, s')"
    by (auto simp: act_iffs rule_field_def split: if_splits)
  then show ?case using casbin_removed [OF assms(1)] Cons.IH [OF rest] by (auto intro: filter_cong)
qed (simp add: act_iffs)

definition rule_of :: "string \<Rightarrow> string \<Rightarrow> ac_Policy \<Rightarrow> rule" where
  "rule_of name description p = [name, ComposeDomainObject p, Policy_Action p, description]"

lemma create_rules_Done:
  assumes "casbin_writes (ac_casbin env) policies groupings" "create_rules env param ps r s = (Replied role, s')"
  shows "policies (Enf s') = policies (Enf s) @ map (rule_of (NewRole_Name param) (NewRole_Description param)) ps \<and>
         (distinct (policies (Enf s)) \<longrightarrow> distinct (policies (Enf s'))) \<and>
         groupings (Enf s') = groupings (Enf s) \<and> World s' = World s \<and> role = r\<lparr>Role_Policies := Role_Policies r @ ps\<rparr>"
  using assms(2)
proof (induction ps arbitrary: r s)
  case (Cons p ps)
  then obtain e1 where e1: "cb_AddPolicy (ac_casbin env) (rule_of (NewRole_Name param) (NewRole_Description param) p) (Enf s) = (Inr True, e1)"
    and rest: "create_rules env param ps (r\<lparr>Role_Policies := Role_Policies r @ [p]\<rparr>) (s\<lparr>Enf := e1\<rparr>) = (Replied role, s')"
    by (auto simp: act_iffs rule_of_def split: if_splits)
  have "distinct (policies (Enf s)) \<longrightarrow> distinct (policies e1)" using casbin_added [OF assms(1) e1] by simp
  then show ?case using casbin_added [OF assms(1) e1] Cons.IH [OF rest] by (auto simp del: distinct_append)
qed (simp add: act_iffs)

text \<open>
  C37. After a successful change of a role the enforcer holds exactly the new rules for it, behind the
  rules of all other roles in their order; no user gained or lost a role, and the answer is the role.
\<close>

theorem patched_role_is_replaced:
  assumes laws: "casbin_reads (ac_casbin env) policies groupings" "casbin_writes (ac_casbin env) policies groupings"
    and "roleName \<noteq> []" "distinct (policies (Enf s))" and patched: "PatchRole env roleName param s = (Replied role, s')"
  shows "policies (Enf s') = filter (\<lambda>p. \<not> of_role roleName p) (policies (Enf s)) @
           map (rule_of roleName (PatchRole_Description param)) (PatchRole_Permissions param) \<and>
         distinct (policies (Enf s')) \<and> groupings (Enf s') = groupings (Enf s) \<and>
         role = \<lparr>Role_Name = roleName, Role_Description = PatchRole_Description param, Role_Policies = PatchRole_Permissions param\<rparr>"
proof -
  let ?new = "\<lparr>NewRole_Name = roleName, NewRole_Description = PatchRole_Description param,
               NewRole_Permissions = PatchRole_Permissions param\<rparr>"
  obtain r0 s1 s2 where del: "delete_rules env (filter (of_role roleName) (policies (Enf s))) (empty_role roleName []) s = (Replied r0, s1)"
    and new: "create_rules env ?new (PatchRole_Permissions param) (empty_role roleName (PatchRole_Description param)) s1 = (Replied role, s2)"
    and per: "persist env s2 = (Replied (), s')"
    using patched casbin_readsD(3) [OF laws(1) assms(3)]
    by (auto simp: PatchRole_def DeleteRole_def CreateRole_def act_iffs split: if_splits)
  have "policies (Enf s1) = filter (\<lambda>p. \<not> of_role roleName p) (policies (Enf s))" "groupings (Enf s1) = groupings (Enf s)"
    using delete_rules_Done [OF laws(2) del] by (auto intro: filter_cong)
  moreover from this have "distinct (policies (Enf s1))" using assms(4) by simp
  ultimately show ?thesis
    using create_rules_Done [OF laws(2) new] persist_keeps_Enf [OF per] by (auto simp add: empty_role_def simp del: distinct_append)
qed

subsection \<open>Changing the roles of an account\<close>

lemma role_names_Done:
  assumes "act_map (account_role env) roles s = (Replied rs, s')"
  shows "map Role_Name rs = roles"
  using assms
proof (induction roles arbitrary: rs s)
  case (Cons x xs)
  then obtain r s1 rs' where "account_role env x s = (Replied r, s1)" "act_map (account_role env) xs s1 = (Replied rs', s')" "rs = r # rs'"
    by (auto simp: act_iffs)
  moreover from this have "Role_Name r = x" by (auto simp: account_role_def act_iffs)
  ultimately show ?case using Cons.IH [of s1 rs'] by simp
qed (simp add: act_iffs)

lemma account_holds_groupings:
  assumes "casbin_reads (ac_casbin env) policies groupings" "getAccountRoles env username s = (Replied roles, s')"
  shows "map Role_Name roles = map snd (filter (\<lambda>g. fst g = username) (groupings (Enf s)))"
  using assms by (auto simp: getAccountRoles_def act_iffs casbin_readsD(5) dest: role_names_Done)

lemma grant_revoke_Done:
  "grant_role env username r s = (Replied (), s') \<longleftrightarrow>
     (\<exists>e'. cb_AddRoleForUser (ac_casbin env) username r (Enf s) = (Inr True, e') \<and> s' = s\<lparr>Enf := e'\<rparr>)"
  "revoke_role env username r s = (Replied (), s') \<longleftrightarrow>
     (\<exists>e'. cb_DeleteRoleForUser (ac_casbin env) username r (Enf s) = (Inr True, e') \<and> s' = s\<lparr>Enf := e'\<rparr>)"
  by (auto simp: grant_role_def revoke_role_def act_iffs split: if_splits)

lemma revoke_each_Done:
  assumes "casbin_writes (ac_casbin env) policies groupings"
    and "act_each (\<lambda>r. revoke_role env username (Role_Name r)) held s = (Replied (), s')"
  shows "groupings (Enf s') = filter (\<lambda>g. g \<notin> Pair username ` Role_Name ` set held) (groupings (Enf s)) \<and>
         policies (Enf s') = policies (Enf s) \<and> World s' = World s"
  using assms(2)
proof (induction held arbitrary: s)
  case (Cons r rs)
  then obtain e1 where e1: "cb_DeleteRoleForUser (ac_casbin env) username (Role_Name r) (Enf s) = (Inr True, e1)"
    and rest: "act_each (\<lambda>r. revoke_role env username (Role_Name r)) rs (s\<lparr>Enf := e1\<rparr>) = (Replied (), s')"
    by (auto simp: act_bind_Done grant_revoke_Done)
  show ?case using casbin_revoked [OF assms(1) e1] Cons.IH [OF rest] by (auto intro: filter_cong)
qed (simp add: act_iffs)

lemma grant_each_Done:
  assumes "casbin_writes (ac_casbin env) policies groupings" "act_each (grant_role env username) roles s = (Replied (), s')"
  shows "groupings (Enf s') = groupings (Enf s) @ map (Pair username) roles \<and>
         policies (Enf s') = policies (Enf s) \<and> World s' = World s"
  using assms(2)
proof (induction roles arbitrary: s)
  case (Cons r rs)
  then obtain e1 where e1: "cb_AddRoleForUser (ac_casbin env) username r (Enf s) = (Inr True, e1)"
    and rest: "act_each (grant_role env username) rs (s\<lparr>Enf := e1\<rparr>) = (Replied (), s')"
    by (auto simp: act_bind_Done grant_revoke_Done)
  show ?case using casbin_granted [OF assms(1) e1] Cons.IH [OF rest] by auto
qed (simp add: act_iffs)

lemma check_each_Done: "act_each (check_role env) roles s = (Replied (), s') \<Longrightarrow> s' = s"
  by (induction roles arbitrary: s) (auto simp: check_role_def act_iffs)

lemma replace_roles_Done:
  assumes "casbin_writes (ac_casbin env) policies groupings" "replace_roles env username held roles s = (Replied (), s')"
    and held: "map Role_Name held = map snd (filter (\<lambda>g. fst g = username) (groupings (Enf s)))"
  shows "groupings (Enf s') = filter (\<lambda>g. fst g \<noteq> username) (groupings (Enf s)) @ map (Pair username) roles \<and>
         policies (Enf s') = policies (Enf s) \<and> World s' = World s"
proof -
  obtain s1 where rev: "act_each (\<lambda>r. revoke_role env username (Role_Name r)) held s = (Replied (), s1)"
    and grant: "act_each (grant_role env username) roles s1 = (Replied (), s')"
    using assms(2) by (auto simp: replace_roles_def act_iffs dest: check_each_Done)
  have "Role_Name ` set held = snd ` {g \<in> set (groupings (Enf s)). fst g = username}"
    using arg_cong [OF held, of set] by simp
  then have "g \<in> Pair username ` Role_Name ` set held \<longleftrightarrow> fst g = username" if "g \<in> set (groupings (Enf s))" for g
    using that by (cases g) (simp, force simp: image_iff)
  then show ?thesis
    using revoke_each_Done [OF assms(1) rev] grant_each_Done [OF assms(1) grant] by (auto intro: filter_cong)
qed

text \<open>What the API server does with a change of the credentials: the saved policies stay as they are.\<close>

definition policies_apart :: "('e, 'k) ac_env \<Rightarrow> bool" where
  "policies_apart env \<longleftrightarrow>
     (\<forall>ns x k ns' name. ac_get_config_map env ns' name (snd (ac_update_secret env ns x k)) = ac_get_config_map env ns' name k)"

lemma policies_apartD:
  "policies_apart env \<Longrightarrow> ac_update_secret env ns x k = (r, k') \<Longrightarrow> ac_get_config_map env ns' name k' = ac_get_config_map env ns' name k"
  unfolding policies_apart_def by (metis snd_conv)

lemma update_keeps_policies:
  assumes "policies_apart env" "updateUserCredentials env c up s = (Replied c', s')"
  shows "Enf s' = Enf s \<and> ac_get_config_map env ns name (World s') = ac_get_config_map env ns name (World s)"
proof -
  obtain k' x where "ac_update_secret env (ac_Getenv (ac_lookup_env env) ''USER_NAMESPACE'') x (World s) = (Inr (), k')" "s' = s\<lparr>World := k'\<rparr>"
    using assms(2) by (auto simp: updateUserCredentials_def act_iffs split: if_splits)
  then show ?thesis using policies_apartD [OF assms(1)] by simp
qed

text \<open>
  A change of the roles of an account takes effect in the process: the account holds exactly the
  roles asked for, whether or not they exist, and everybody else those they held. It is not saved: the
  policies a restarted dashboard reads are those from before.
\<close>

theorem patched_roles_not_saved:
  assumes laws: "casbin_reads (ac_casbin env) policies groupings" "casbin_writes (ac_casbin env) policies groupings"
    and apart: "policies_apart env" and roles: "Patch_Roles param \<noteq> []"
    and patched: "PatchAccount env username param s = (Replied a, s')"
  shows "groupings (Enf s') = filter (\<lambda>g. fst g \<noteq> username) (groupings (Enf s)) @ map (Pair username) (Patch_Roles param) \<and>
         policies (Enf s') = policies (Enf s) \<and>
         ac_get_config_map env ns name (World s') = ac_get_config_map env ns name (World s)"
proof -
  obtain c s0 acc s1 s2 changed s3 acc' up where creds: "getDashboardUserCredentials env s = (Replied c, s0)"
    and acc: "fetchAccount env c username s0 = (Replied acc, s1)"
    and replaced: "replace_roles env username (Account_Roles acc) (Patch_Roles param) s1 = (Replied (), s2)"
    and upd: "(changed = c \<and> s3 = s2) \<or> updateUserCredentials env c up s2 = (Replied changed, s3)"
    and again: "fetchAccount env changed username s3 = (Replied acc', s')"
    using patched roles by (auto simp: PatchAccount_def act_bind_Done act_ret_Done act_replace_Done split: if_splits) blast+
  have s: "s1 = s" "s' = s3"
    using reads_state [OF reads_credentials creds] reads_state [OF reads_fetchAccount acc]
      reads_state [OF reads_fetchAccount again] by simp_all
  have "map Role_Name (Account_Roles acc) = map snd (filter (\<lambda>g. fst g = username) (groupings (Enf s)))"
    using acc by (rule fetchAccount_Done) (use account_holds_groupings [OF laws(1)] s reads_state [OF reads_fetchAccount acc] in auto)
  moreover have "replace_roles env username (Account_Roles acc) (Patch_Roles param) s = (Replied (), s2)"
    using replaced s by simp
  ultimately show ?thesis
    using replace_roles_Done [OF laws(2)] update_keeps_policies [OF apart] upd s by auto
qed

section \<open>An instance\<close>

text \<open>
  An enforcer that keeps its rules and groupings in two lists, and an API server with one secret and
  one config map that never fails: what the code relies on can hold.
\<close>

definition listed_casbin :: "(rule list \<times> (string \<times> string) list) casbin" where
  "listed_casbin =
     \<lparr>cb_GetPolicy = (\<lambda>e. Inr (fst e)),
      cb_GetGroupingPolicy = (\<lambda>e. Inr (map (\<lambda>(u, r). [u, r]) (snd e))),
      cb_GetFilteredPolicy = (\<lambda>e i v. Inr (filter (\<lambda>p. v = [] \<or> of_role v (drop i p)) (fst e))),
      cb_GetPermissionsForUser = (\<lambda>e v. Inr (filter (of_role v) (fst e))),
      cb_GetRolesForUser = (\<lambda>e u. Inr (map snd (filter (\<lambda>g. fst g = u) (snd e)))),
      cb_AddPolicy = (\<lambda>r e. (Inr (r \<notin> set (fst e)), if r \<in> set (fst e) then e else (fst e @ [r], snd e))),
      cb_RemovePolicy = (\<lambda>r e. (Inr (r \<in> set (fst e)), (filter (\<lambda>p. p \<noteq> r) (fst e), snd e))),
      cb_AddRoleForUser = (\<lambda>u r e. (Inr ((u, r) \<notin> set (snd e)), if (u, r) \<in> set (snd e) then e else (fst e, snd e @ [(u, r)]))),
      cb_DeleteRoleForUser = (\<lambda>u r e. (Inr ((u, r) \<in> set (snd e)), (fst e, filter (\<lambda>g. g \<noteq> (u, r)) (snd e)))),
      cb_Enforce = (\<lambda>e u obj act. Inr (ac_allows (\<lambda>a b. (a, b) \<in> set (snd e) \<or>
         keyMatch (\<lambda>key pat. key = pat \<or> pat = ''*'' \<or> (suffix ''/*'' pat \<and> prefix (butlast pat) key)) a b) (fst e) u obj act))\<rparr>"

lemma listed_casbin_laws: "casbin_reads listed_casbin fst snd" "casbin_writes listed_casbin fst snd"
  by (simp_all add: casbin_reads_def casbin_writes_def listed_casbin_def)

definition sample_ac_env :: "(rule list \<times> (string \<times> string) list, dict option \<times> dict option) ac_env" where
  "sample_ac_env =
     \<lparr>ac_casbin = listed_casbin,
      ac_config = \<lparr>policyPath = ''/etc/rbac/rbac_policy.csv'', configMapPath = ''rbac'', policyCmKey = ''rbac_policy.csv'',
                   policyNamespace = ''default''\<rparr>,
      ac_lookup_env = [''USER_CREDENTIALS_SECRET'' \<mapsto> ''users'', ''USER_NAMESPACE'' \<mapsto> ''default''],
      ac_hex_sha256 = (\<lambda>pwd. ''sha256:'' @ pwd),
      ac_now = (\<lambda>k. 100),
      ac_get_secret = (\<lambda>ns name k. Inr \<lparr>Secret_Name = name, Secret_Version = 0, Secret_Data = fst k\<rparr>),
      ac_update_secret = (\<lambda>ns x k. (Inr (), (Secret_Data x, snd k))),
      ac_get_config_map = (\<lambda>ns name k. Inr \<lparr>ConfigMap_Name = name, ConfigMap_Version = 0, ConfigMap_Data = snd k\<rparr>),
      ac_update_config_map = (\<lambda>ns x k. (Inr (), (fst k, ConfigMap_Data x))),
      ac_write_file = (\<lambda>path csv k. (Inr (), k))\<rparr>"

lemma sample_ac_env_simps [simp]:
  "ac_casbin sample_ac_env = listed_casbin" "ac_hex_sha256 sample_ac_env pwd = ''sha256:'' @ pwd"
  by (simp_all add: sample_ac_env_def)

lemma sample_stores: "secret_store sample_ac_env" "policies_apart sample_ac_env"
proof -
  have "\<exists>v. \<lparr>Secret_Name = Secret_Name x, Secret_Version = 0, Secret_Data = Secret_Data x\<rparr> = x\<lparr>Secret_Version := v\<rparr>" for x
    by (cases x) auto
  then show "secret_store sample_ac_env" by (auto simp: secret_store_def sample_ac_env_def)
qed (simp add: policies_apart_def sample_ac_env_def)

text \<open>A dashboard with one administrator and one role besides.\<close>

definition sample_ac_state :: "(rule list \<times> (string \<times> string) list, dict option \<times> dict option) ac_state" where
  "sample_ac_state =
     \<lparr>Enf = ([[''admin'', ''*'', ''*'', ''Super admin''], [''reader'', ''obcluster/*'', ''read'', ''Reader'']], [(''root'', ''admin'')]),
      World = (Some [''root'' \<mapsto> ''sha256:secret <|:SEP:|> Root <|:SEP:|> 0 <|:SEP:|> ''], Some (\<lambda>_. None))\<rparr>"

definition ann :: CreateAccountParam where
  "ann = \<lparr>New_Username = ''ann'', New_Nickname = ''Ann'', New_Description = [], New_Password = ''hello'', New_Roles = [''reader'']\<rparr>"

definition ann_account :: Account where
  "ann_account = \<lparr>Account_Username = ''ann'', Account_Nickname = ''Ann'', Account_Description = [],
     Account_Roles = [\<lparr>Role_Name = ''reader'', Role_Description = [], Role_Policies = [NewPolicy ''obcluster'' ''*'' ''read'']\<rparr>],
     LastLoginAt = None, NeedReset = True\<rparr>"

lemma ann_created: "fst (CreateAccount sample_ac_env ann sample_ac_state) = Replied ann_account"
  by code_simp

theorem created_account_logs_in_witness:
  "\<exists>s'. CreateAccount sample_ac_env ann sample_ac_state = (Replied ann_account, s') \<and>
     ValidateAccount sample_ac_env ''ann'' ''hello'' s' = (Replied ann_account, s') \<and>
     ValidateAccount sample_ac_env ''ann'' ''hullo'' s' = (Refused (NewBadRequest ''username or password is incorrect''), s')"
proof -
  obtain s' where created: "CreateAccount sample_ac_env ann sample_ac_state = (Replied ann_account, s')"
    using ann_created by (metis prod.collapse)
  have "no_separator (ac_hex_sha256 sample_ac_env (New_Password ann))" "no_separator (New_Nickname ann)"
    by (rule no_separator_bar, simp add: ann_def)+
  from created_account_logs_in [OF created sample_stores(1) this]
  show ?thesis using created by (intro exI [of _ s']) (simp add: ann_def)
qed

definition tenant_reader :: PatchRoleParam where
  "tenant_reader = \<lparr>PatchRole_Description = ''Tenants'', PatchRole_Permissions = [NewPolicy ''obtenant'' ''*'' ''read'', NewPolicy ''obtenant'' ''t1'' ''write'']\<rparr>"

lemma reader_patched:
  "fst (PatchRole sample_ac_env ''reader'' tenant_reader sample_ac_state) =
     Replied \<lparr>Role_Name = ''reader'', Role_Description = ''Tenants'', Role_Policies = PatchRole_Permissions tenant_reader\<rparr>"
  by code_simp

theorem patched_role_is_replaced_witness:
  "\<exists>role s'. PatchRole sample_ac_env ''reader'' tenant_reader sample_ac_state = (Replied role, s') \<and>
     fst (Enf s') = [[''admin'', ''*'', ''*'', ''Super admin''], [''reader'', ''obtenant/*'', ''read'', ''Tenants''],
                     [''reader'', ''obtenant/t1'', ''write'', ''Tenants'']] \<and>
     snd (Enf s') = [(''root'', ''admin'')]"
proof -
  obtain role s' where run: "PatchRole sample_ac_env ''reader'' tenant_reader sample_ac_state = (Replied role, s')"
    using reader_patched by (metis prod.collapse)
  have laws: "casbin_reads (ac_casbin sample_ac_env) fst snd" "casbin_writes (ac_casbin sample_ac_env) fst snd"
    using listed_casbin_laws by simp_all
  have "distinct (fst (Enf sample_ac_state))" by (simp add: sample_ac_state_def)
  from patched_role_is_replaced [OF laws _ this run]
  show ?thesis
    using run by (intro exI [of _ role] exI [of _ s'])
      (simp add: sample_ac_state_def tenant_reader_def rule_of_def of_role_def ComposeDomainObject_def NewPolicy_def)
qed

definition root_as_reader :: PatchAccountParam where
  "root_as_reader = \<lparr>Patch_Nickname = [], Patch_Description = [], Patch_Roles = [''reader'', ''ghost''], Patch_Password = []\<rparr>"

lemma root_patched: "\<exists>a. fst (PatchAccount sample_ac_env ''root'' root_as_reader sample_ac_state) = Replied a"
proof -
  have "(case fst (PatchAccount sample_ac_env ''root'' root_as_reader sample_ac_state) of Replied _ \<Rightarrow> True | _ \<Rightarrow> False)" by code_simp
  then show ?thesis by (simp split: reply.splits)
qed

theorem patched_roles_not_saved_witness:
  "\<exists>a s'. PatchAccount sample_ac_env ''root'' root_as_reader sample_ac_state = (Replied a, s') \<and>
     snd (Enf s') = [(''root'', ''reader''), (''root'', ''ghost'')] \<and>
     ac_get_config_map sample_ac_env ''default'' ''rbac'' (World s') =
       ac_get_config_map sample_ac_env ''default'' ''rbac'' (World sample_ac_state)"
proof -
  obtain a s' where run: "PatchAccount sample_ac_env ''root'' root_as_reader sample_ac_state = (Replied a, s')"
    using root_patched by (metis prod.collapse)
  have laws: "casbin_reads (ac_casbin sample_ac_env) fst snd" "casbin_writes (ac_casbin sample_ac_env) fst snd"
    using listed_casbin_laws by simp_all
  have "Patch_Roles root_as_reader \<noteq> []" by (simp add: root_as_reader_def)
  from patched_roles_not_saved [OF laws sample_stores(2) this run, of "''default''" "''rbac''"]
  show ?thesis using run by (intro exI [of _ a] exI [of _ s']) (simp add: sample_ac_state_def root_as_reader_def)
qed

end
