(* ===== verification/Access_Histories.thy ===== *)
theory Access_Histories
  imports Access_Laws
begin

text \<open>
  Histories of the dashboard's access control: the changes handlers make, successful or not, as the
  steps of a relation; the invariant of the enforcer's rules that keeps every read of them from
  panicking; which changes leave the saved policies equal to those in force; and the agreement of the
  two ways to read a role.
\<close>

section \<open>The saved policies\<close>

text \<open>What the code relies on of the config map: a write that succeeded is read back, and other writes leave it alone.\<close>

definition policy_store :: "('e, 'k) ac_env \<Rightarrow> bool" where
  "policy_store env \<longleftrightarrow> policies_apart env \<and>
     (\<forall>ns name k x. ac_get_config_map env ns name k = Inr x \<longrightarrow> ConfigMap_Name x = name) \<and>
     (\<forall>ns x k k'. ac_update_config_map env ns x k = (Inr (), k') \<longrightarrow>
        (\<exists>v. ac_get_config_map env ns (ConfigMap_Name x) k' = Inr (x\<lparr>ConfigMap_Version := v\<rparr>))) \<and>
     (\<forall>path csv k ns name. ac_get_config_map env ns name (snd (ac_write_file env path csv k)) = ac_get_config_map env ns name k)"

lemma policy_storeD:
  assumes "policy_store env"
  shows "policies_apart env"
    and "ac_get_config_map env ns name k = Inr x \<Longrightarrow> ConfigMap_Name x = name"
    and "ac_update_config_map env ns y k = (Inr (), k') \<Longrightarrow>
           \<exists>v. ac_get_config_map env ns (ConfigMap_Name y) k' = Inr (y\<lparr>ConfigMap_Version := v\<rparr>)"
    and "ac_write_file env path csv k = (r, k') \<Longrightarrow> ac_get_config_map env ns name k' = ac_get_config_map env ns name k"
  using assms by (simp_all add: policy_store_def) (metis snd_conv)

text \<open>The policies a restarted dashboard reads are those in force.\<close>

definition saved :: "('e, 'k) ac_env \<Rightarrow> ('e, 'k) ac_state \<Rightarrow> bool" where
  "saved env s \<longleftrightarrow>
     (\<exists>cm d csv. ac_get_config_map env (policyNamespace (ac_config env)) (configMapPath (ac_config env)) (World s) = Inr cm \<and>
        ConfigMap_Data cm = Some d \<and> d (policyCmKey (ac_config env)) = Some csv \<and> fst (policiesToCsv env s) = Replied csv)"

text \<open>Programs whose answer is a matter of the enforcer alone.\<close>

definition enf_only :: "('e, 'k, 'a) ac_act \<Rightarrow> bool" where
  "enf_only f \<longleftrightarrow> reads f \<and> (\<forall>s t. Enf s = Enf t \<longrightarrow> fst (f s) = fst (f t))"

lemma enf_onlyD: "enf_only f \<Longrightarrow> Enf s = Enf t \<Longrightarrow> fst (f s) = fst (f t)"
  unfolding enf_only_def by blast

lemma enf_only_basic:
  "enf_only (act_ret x)" "enf_only (act_fail err)" "enf_only act_panic" "enf_only (rule_field p i)" "enf_only (ask_enf f)"
  by (auto simp: enf_only_def reads_def act_defs rule_field_def ask_enf_def split: sum.splits option.splits)

lemma enf_only_bind:
  assumes "enf_only f" "\<And>x. enf_only (g x)"
  shows "enf_only (act_bind f g)"
proof -
  have "fst (act_bind f g s) = fst (act_bind f g t)" if "Enf s = Enf t" for s t
  proof -
    obtain r r' where run: "f s = (r, s)" "f t = (r', t)"
      using assms(1) reads_state [of f] by (auto simp: enf_only_def) (metis surj_pair)
    then have "r' = r" using enf_onlyD [OF assms(1) that] by simp
    moreover note run
    moreover have "fst (g x s) = fst (g x t)" for x using enf_onlyD [OF assms(2) that] .
    ultimately show ?thesis by (cases r) (simp_all add: act_bind_def)
  qed
  moreover have "reads (act_bind f g)" using assms by (intro reads_bind) (simp_all add: enf_only_def)
  ultimately show ?thesis unfolding enf_only_def by blast
qed

lemma enf_only_map: "(\<And>x. enf_only (f x)) \<Longrightarrow> enf_only (act_map f xs)"
  by (induction xs) (auto intro!: enf_only_basic enf_only_bind)

lemma enf_only_csv: "enf_only (policiesToCsv env)"
  unfolding policiesToCsv_def policy_line_def grouping_line_def
  by (intro enf_only_bind enf_only_basic enf_only_map)

lemma saved_cong:
  assumes "saved env s" "Enf s' = Enf s"
    and "\<And>ns name. ac_get_config_map env ns name (World s') = ac_get_config_map env ns name (World s)"
  shows "saved env s'"
  using assms enf_onlyD [OF enf_only_csv, of s' s env] unfolding saved_def by simp

lemma persist_saves:
  assumes store: "policy_store env" and "persist env s = (Replied (), s')"
  shows "saved env s'"
proof -
  let ?ns = "policyNamespace (ac_config env)" and ?key = "policyCmKey (ac_config env)" and ?cm = "configMapPath (ac_config env)"
  obtain csv s1 s2 where csv: "policiesToCsv env s = (Replied csv, s1)" and save: "save_config_map env csv ?cm s1 = (Replied (), s2)"
    and debug: "(if ac_Getenv (ac_lookup_env env) ''DEBUG_ACCESS_CONTROL'' = ''true''
         then tell_world (ac_write_file env (policyPath (ac_config env)) csv) else act_ret ()) s2 = (Replied (), s')"
    using assms(2) by (auto simp: persist_def persistPolicies_def act_iffs)
  have s1: "s1 = s" using reads_state [OF reads_policiesToCsv csv] .
  obtain cm d k' where cm: "ac_get_config_map env ?ns ?cm (World s) = Inr cm"
    and upd: "ac_update_config_map env ?ns (cm\<lparr>ConfigMap_Data := Some (d(?key \<mapsto> csv))\<rparr>) (World s) = (Inr (), k')"
    and s2: "s2 = s\<lparr>World := k'\<rparr>"
    using save s1 by (auto simp: save_config_map_def Let_def act_iffs)
  have "ConfigMap_Name cm = ?cm" using policy_storeD(2) [OF store cm] .
  then obtain v where "ac_get_config_map env ?ns ?cm k' = Inr (cm\<lparr>ConfigMap_Data := Some (d(?key \<mapsto> csv)), ConfigMap_Version := v\<rparr>)"
    using policy_storeD(3) [OF store upd] by auto
  moreover have "fst (policiesToCsv env s2) = Replied csv"
    using csv s2 enf_onlyD [OF enf_only_csv, of s2 s env] by simp
  ultimately have "saved env s2" using s2 by (simp add: saved_def)
  then show ?thesis
    by (rule saved_cong) (use debug policy_storeD(4) [OF store] in \<open>auto simp: act_iffs split: if_splits\<close>)
qed

section \<open>Changes\<close>

datatype ac_change =
    Create_role CreateRoleParam
  | Patch_role string PatchRoleParam
  | Delete_role string
  | Create_account CreateAccountParam
  | Patch_account string PatchAccountParam
  | Delete_account string
  | Log_in string string
  | Reset_password string ResetPasswordParam

definition act_unit :: "('s, 'a) act \<Rightarrow> ('s, unit) act" where
  "act_unit f = act_bind f (\<lambda>_. act_ret ())"

fun run_change :: "('e, 'k) ac_env \<Rightarrow> ac_change \<Rightarrow> ('e, 'k, unit) ac_act" where
  "run_change env (Create_role param) = act_unit (CreateRole env param [])"
| "run_change env (Patch_role name param) = act_unit (PatchRole env name param)"
| "run_change env (Delete_role name) = act_unit (DeleteRole env name [])"
| "run_change env (Create_account param) = act_unit (CreateAccount env param)"
| "run_change env (Patch_account username param) = act_unit (PatchAccount env username param)"
| "run_change env (Delete_account username) = act_unit (DeleteAccount env username)"
| "run_change env (Log_in username password) = act_unit (ValidateAccount env username password)"
| "run_change env (Reset_password username param) = act_unit (ResetAccountPassword env username param)"

lemma act_unit_Done: "act_unit f s = (Replied (), s') \<longleftrightarrow> (\<exists>x. f s = (Replied x, s'))"
  by (auto simp: act_unit_def act_iffs)

text \<open>The changes that end with saving the policies.\<close>

fun saves :: "ac_change \<Rightarrow> bool" where
  "saves (Patch_account _ _) = False"
| "saves (Log_in _ _) = False"
| "saves (Reset_password _ _) = False"
| "saves _ = True"

text \<open>
  After every successful creation, change or deletion of a role and every successful creation or
  deletion of an account the saved policies are those in force, whatever was saved before.
\<close>

theorem change_is_saved:
  assumes store: "policy_store env" and "saves c" and "run_change env c s = (Replied (), s')"
  shows "saved env s'"
proof -
  note iffs = act_unit_Done act_bind_Done act_ret_Done act_replace_Done act_fail_Done
  have created: "saved env s'" if "CreateRole env param [] t = (Replied r, s')" for param t r
    using that persist_saves [OF store] by (auto simp: CreateRole_def iffs)
  consider (role) param where "c = Create_role param" | (patch) name param where "c = Patch_role name param"
    | (delete) name where "c = Delete_role name" | (new) param where "c = Create_account param"
    | (gone) username where "c = Delete_account username"
    using assms(2) by (cases c) auto
  then show ?thesis
  proof cases
    case role
    then show ?thesis using assms(3) created by (auto simp: iffs)
  next
    case patch
    then show ?thesis using assms(3) created by (auto simp: PatchRole_def iffs)
  next
    case delete
    then show ?thesis using assms(3) persist_saves [OF store] by (auto simp: DeleteRole_def iffs split: if_splits)
  next
    case new
    then obtain s2 s3 acc changed where "persist env s2 = (Replied (), s3)" "fetchAccount env changed (New_Username param) s3 = (Replied acc, s')"
      using assms(3) by (auto simp: CreateAccount_def iffs split: if_splits)
    then show ?thesis using persist_saves [OF store] reads_state [OF reads_fetchAccount] by blast
  next
    case gone
    then obtain s2 s3 cred changed up where "persist env s2 = (Replied (), s3)" "updateUserCredentials env cred up s3 = (Replied changed, s')"
      using assms(3) by (auto simp: DeleteAccount_def iffs)
    then show ?thesis
      using saved_cong [OF persist_saves [OF store]] update_keeps_policies [OF policy_storeD(1) [OF store]] by blast
  qed
qed

section \<open>The invariant of the rules\<close>

text \<open>Every rule has its four fields and none is there twice.\<close>

definition wf_rules :: "rule list \<Rightarrow> bool" where
  "wf_rules rules \<longleftrightarrow> distinct rules \<and> (\<forall>p \<in> set rules. length p = 4)"

definition keeps_rules :: "('e \<Rightarrow> rule list) \<Rightarrow> ('e, 'k, 'a) ac_act \<Rightarrow> bool" where
  "keeps_rules policies f \<longleftrightarrow> (\<forall>s. wf_rules (policies (Enf s)) \<longrightarrow> wf_rules (policies (Enf (snd (f s)))))"

named_theorems keeps_intros

lemma keeps_rulesI:
  "(\<And>s r s'. f s = (r, s') \<Longrightarrow> wf_rules (policies (Enf s)) \<Longrightarrow> wf_rules (policies (Enf s'))) \<Longrightarrow> keeps_rules policies f"
  unfolding keeps_rules_def by (metis prod.collapse)

lemma keeps_rulesD:
  "keeps_rules policies f \<Longrightarrow> f s = (r, s') \<Longrightarrow> wf_rules (policies (Enf s)) \<Longrightarrow> wf_rules (policies (Enf s'))"
  unfolding keeps_rules_def by (metis snd_conv)

lemma keeps_reads: "reads f \<Longrightarrow> keeps_rules policies f"
  by (simp add: keeps_rules_def reads_def)

lemmas keeps_reading [keeps_intros] = reads_basic [THEN keeps_reads] reads_policiesToCsv [THEN keeps_reads]
  reads_getAccountRoles [THEN keeps_reads] reads_credentials [THEN keeps_reads] reads_fetchAccount [THEN keeps_reads]

lemma keeps_bind [keeps_intros]:
  assumes f: "keeps_rules policies f" and g: "\<And>x. keeps_rules policies (g x)"
  shows "keeps_rules policies (act_bind f g)"
proof (rule keeps_rulesI)
  fix s r s' assume run: "act_bind f g s = (r, s')" and wf: "wf_rules (policies (Enf s))"
  obtain r1 s1 where fs: "f s = (r1, s1)" by (cases "f s")
  then have "wf_rules (policies (Enf s1))" using keeps_rulesD [OF f fs wf] by simp
  then show "wf_rules (policies (Enf s'))"
    using run fs keeps_rulesD [OF g] by (cases r1) (auto simp: act_bind_def)
qed

lemma keeps_catch [keeps_intros]:
  assumes "keeps_rules policies f"
  shows "keeps_rules policies (act_catch f)" "keeps_rules policies (act_replace k f)"
  using keeps_rulesD [OF assms]
  by (auto intro!: keeps_rulesI simp: act_catch_def act_replace_def split: reply.splits prod.splits)

lemma keeps_world [keeps_intros]: "keeps_rules policies (tell_world f)"
  by (auto simp: keeps_rules_def tell_world_def act_of_def act_fail_def act_ret_def split: prod.split sum.split)

lemma keeps_each [keeps_intros]: "(\<And>x. keeps_rules policies (f x)) \<Longrightarrow> keeps_rules policies (act_each f xs)"
  by (induction xs) (auto intro!: keeps_intros)

lemma keeps_unit [keeps_intros]: "keeps_rules policies f \<Longrightarrow> keeps_rules policies (act_unit f)"
  unfolding act_unit_def by (auto intro!: keeps_intros)

lemma keeps_enf:
  assumes "\<And>e r e'. f e = (r, e') \<Longrightarrow> wf_rules (policies e) \<Longrightarrow> wf_rules (policies e')"
  shows "keeps_rules policies (tell_enf f)"
  using assms by (auto simp: keeps_rules_def tell_enf_def act_of_def act_fail_def act_ret_def split: prod.split sum.split)

lemma casbin_rules:
  assumes "casbin_writes cb policies groupings"
  shows "cb_AddPolicy cb r e = (x, e') \<Longrightarrow> policies e' = (if r \<in> set (policies e) then policies e else policies e @ [r])"
    and "cb_RemovePolicy cb r e = (x, e') \<Longrightarrow> policies e' = filter (\<lambda>p. p \<noteq> r) (policies e)"
    and "cb_AddRoleForUser cb u role e = (x, e') \<Longrightarrow> policies e' = policies e"
    and "cb_DeleteRoleForUser cb u role e = (x, e') \<Longrightarrow> policies e' = policies e"
proof -
  show "policies e' = (if r \<in> set (policies e) then policies e else policies e @ [r])" if "cb_AddPolicy cb r e = (x, e')"
    using assms that unfolding casbin_writes_def by (metis prod.inject)
  show "policies e' = filter (\<lambda>p. p \<noteq> r) (policies e)" if "cb_RemovePolicy cb r e = (x, e')"
    using assms that unfolding casbin_writes_def by (metis prod.inject)
  show "policies e' = policies e" if "cb_AddRoleForUser cb u role e = (x, e')"
    using assms that unfolding casbin_writes_def by (metis prod.inject)
  show "policies e' = policies e" if "cb_DeleteRoleForUser cb u role e = (x, e')"
    using assms that unfolding casbin_writes_def by (metis prod.inject)
qed

lemma keeps_tell [keeps_intros]:
  assumes "casbin_writes cb policies groupings"
  shows "keeps_rules policies (tell_enf (cb_RemovePolicy cb r))" "keeps_rules policies (tell_enf (cb_AddRoleForUser cb u role))"
    "keeps_rules policies (tell_enf (cb_DeleteRoleForUser cb u role))"
    "keeps_rules policies (tell_enf (cb_AddPolicy cb [a, b, c, d]))"
  by (rule keeps_enf; auto simp: casbin_rules [OF assms] wf_rules_def)+

lemma keeps_persist [keeps_intros]: "keeps_rules policies (persist env)"
  unfolding persist_def persistPolicies_def save_config_map_def Let_def by (auto intro!: keeps_intros)

lemma keeps_update [keeps_intros]: "keeps_rules policies (updateUserCredentials env c up)"
  unfolding updateUserCredentials_def by (auto intro!: keeps_intros)

lemma keeps_delete_rules [keeps_intros]:
  assumes "casbin_writes (ac_casbin env) policies groupings"
  shows "keeps_rules policies (delete_rules env ps r)"
  using assms by (induction ps arbitrary: r) (auto intro!: keeps_intros)

lemma keeps_create_rules [keeps_intros]:
  assumes "casbin_writes (ac_casbin env) policies groupings"
  shows "keeps_rules policies (create_rules env param ps r)"
  using assms by (induction ps arbitrary: r) (auto intro!: keeps_intros)

lemma keeps_grants [keeps_intros]:
  assumes "casbin_writes (ac_casbin env) policies groupings"
  shows "keeps_rules policies (grant_new_roles env username roles)" "keeps_rules policies (replace_roles env username held roles)"
    "keeps_rules policies (act_each (\<lambda>r. revoke_role env username (Role_Name r)) held)"
  using assms
  by (induction roles) (auto simp: replace_roles_def revoke_role_def grant_role_def check_role_def intro!: keeps_intros)

lemma run_change_keeps:
  assumes "casbin_writes (ac_casbin env) policies groupings"
  shows "keeps_rules policies (run_change env c)"
  using assms
  by (cases c)
     (auto simp: CreateRole_def PatchRole_def DeleteRole_def CreateAccount_def PatchAccount_def DeleteAccount_def
       ValidateAccount_def ResetAccountPassword_def Let_def intro!: keeps_intros)

text \<open>
  The states of a dashboard: it starts with the rules it loaded, handlers make changes that succeed or
  fail, and the outside changes on its own.
\<close>

inductive ac_reachable :: "('e, 'k) ac_env \<Rightarrow> 'e \<Rightarrow> ('e, 'k) ac_state \<Rightarrow> bool" for env :: "('e, 'k) ac_env" and e0 :: 'e where
  started: "ac_reachable env e0 \<lparr>Enf = e0, World = k\<rparr>"
| changed: "ac_reachable env e0 s \<Longrightarrow> run_change env c s = (r, s') \<Longrightarrow> ac_reachable env e0 s'"
| outside: "ac_reachable env e0 s \<Longrightarrow> ac_reachable env e0 (s\<lparr>World := k\<rparr>)"

lemma reachable_wf:
  assumes "ac_reachable env e0 s" "casbin_writes (ac_casbin env) policies groupings" "wf_rules (policies e0)"
  shows "wf_rules (policies (Enf s))"
  using assms by (induction rule: ac_reachable.induct) (auto dest: keeps_rulesD [OF run_change_keeps])

section \<open>Reading roles\<close>

text \<open>The policy of a rule with its four fields, when the object has the form \<^verbatim>\<open>domain/object\<close>.\<close>

definition parse_rule :: "rule \<Rightarrow> ac_Policy option" where
  "parse_rule p =
     (if p ! 1 = ''*'' then Some (NewPolicy ''*'' ''*'' (p ! 2))
      else case Split (p ! 1) ''/'' of [d, x] \<Rightarrow> Some (NewPolicy d x (p ! 2)) | _ \<Rightarrow> None)"

lemma rule_field_wf: "length p = 4 \<Longrightarrow> i < 4 \<Longrightarrow> rule_field p i = act_ret (p ! i)"
  by (simp add: rule_field_def)

lemma rule_policy_wf:
  "length p = 4 \<Longrightarrow> rule_policy p = (case parse_rule p of None \<Rightarrow> act_fail (NewInternal (''corrupted policy'' @ Join p '' '')) | Some x \<Rightarrow> act_ret x)"
  by (auto simp: rule_policy_def rule_field_wf parse_rule_def split: list.split)

lemma role_of_rules_run:
  assumes "\<forall>p \<in> set ps. length p = 4"
  shows "role_of_rules ps r s =
    (if \<forall>p \<in> set ps. parse_rule p \<noteq> None
     then (Replied (r\<lparr>Role_Description := if ps = [] then Role_Description r else last ps ! 3,
                   Role_Policies := Role_Policies r @ map (the \<circ> parse_rule) ps\<rparr>), s)
     else (Refused (NewInternal (''corrupted policy'' @ Join (the (find (\<lambda>p. parse_rule p = None) ps)) '' '')), s))"
  using assms
proof (induction ps arbitrary: r)
  case (Cons p ps)
  then show ?case
    by (cases "parse_rule p") (simp_all add: rule_field_wf with_policy_def rule_policy_wf act_applied)
qed (simp add: act_applied)

lemma GetRole_run:
  assumes "casbin_reads (ac_casbin env) policies groupings" "wf_rules (policies (Enf s))" "name \<noteq> []"
    and "ps = filter (\<lambda>p. p ! 0 = name) (policies (Enf s))"
  shows "GetRole env name s =
    (if ps = [] then (Refused (NewNotFound ''role not found''), s)
     else role_of_rules ps (empty_role name []) s)"
proof -
  have "of_role name p \<longleftrightarrow> p ! 0 = name" if "p \<in> set (policies (Enf s))" for p
    using assms(2) that by (cases p) (auto simp: wf_rules_def of_role_def)
  then have "filter (of_role name) (policies (Enf s)) = ps" unfolding assms(4) by (intro filter_cong) auto
  then show ?thesis
    using casbin_readsD(3) [OF assms(1,3)]
    by (auto simp: GetRole_def ask_enf_def act_bind_def act_of_def foreign_def act_fail_def act_ret_def)
qed

definition policies_of :: "ac_Role list \<Rightarrow> string \<Rightarrow> ac_Policy list" where
  "policies_of roles name = concat (map Role_Policies (filter (\<lambda>r. Role_Name r = name) roles))"

lemma policies_of_member:
  "distinct (map Role_Name roles) \<Longrightarrow> r \<in> set roles \<Longrightarrow> policies_of roles (Role_Name r) = Role_Policies r"
proof (induction roles)
  case (Cons q roles)
  have "filter (\<lambda>x. Role_Name x = Role_Name q) roles = []" using Cons.prems(1) by (auto simp: filter_empty_conv image_iff)
  with Cons show ?case by (auto simp: policies_of_def image_iff)
qed simp

lemma policies_of_added:
  assumes "name \<in> Role_Name ` set roles" "distinct (map Role_Name roles)"
  shows "policies_of (role_gains name x roles) n =
           policies_of roles n @ (if n = name then [x] else [])"
  using assms
proof (induction roles)
  case (Cons q roles)
  show ?case
  proof (cases "Role_Name q = name")
    case True
    then have other: "name \<notin> Role_Name ` set roles" using Cons.prems by auto
    then have same: "role_gains name x roles = roles"
      unfolding role_gains_def by (intro map_idI) auto
    have "filter (\<lambda>r. Role_Name r = name) roles = []" using other by (auto simp: filter_empty_conv)
    with True same show ?thesis by (simp add: policies_of_def role_gains_def)
  next
    case False
    with Cons show ?thesis by (auto simp: policies_of_def role_gains_def)
  qed
qed simp

lemma names_kept [simp]:
  "map Role_Name (role_gains name x roles) = map Role_Name roles" "Role_Name ` set (role_gains name x roles) = Role_Name ` set roles"
proof -
  show "map Role_Name (role_gains name x roles) = map Role_Name roles" by (auto simp: role_gains_def)
  then show "Role_Name ` set (role_gains name x roles) = Role_Name ` set roles" by (metis list.set_map)
qed

text \<open>The loop of \<^verbatim>\<open>ListRoles\<close>: every rule's policy ends up with its role, in the order of the rules.\<close>

lemma list_rules_Done:
  assumes "\<forall>p \<in> set ps. length p = 4" "distinct (map Role_Name roles)" "list_rules ps roles s = (Replied rs, s')"
  shows "distinct (map Role_Name rs) \<and> Role_Name ` set rs = Role_Name ` set roles \<union> (\<lambda>p. p ! 0) ` set ps \<and>
         (\<forall>p \<in> set ps. parse_rule p \<noteq> None) \<and>
         (\<forall>n. policies_of rs n = policies_of roles n @ map (the \<circ> parse_rule) (filter (\<lambda>p. p ! 0 = n) ps))"
  using assms
proof (induction ps arbitrary: roles)
  case Nil
  then show ?case by (simp add: act_iffs)
next
  case (Cons p ps)
  define roles1 where "roles1 = (if p ! 0 \<in> Role_Name ` set roles then roles else roles @ [empty_role (p ! 0) (p ! 3)])"
  obtain x where x: "parse_rule p = Some x"
    and rest: "list_rules ps (role_gains (p ! 0) x roles1) s = (Replied rs, s')"
    using Cons.prems(1,3) by (auto simp: rule_field_wf rule_policy_wf roles1_def act_iffs split: if_splits option.splits)
  have roles1: "distinct (map Role_Name roles1)" "p ! 0 \<in> Role_Name ` set roles1"
    "Role_Name ` set roles1 = insert (p ! 0) (Role_Name ` set roles)" "\<And>n. policies_of roles1 n = policies_of roles n"
    using Cons.prems(2) by (auto simp: roles1_def empty_role_def policies_of_def)
  show ?case
    using Cons.IH [OF _ _ rest] Cons.prems(1) roles1 policies_of_added [OF roles1(2,1)] x by auto
qed

text \<open>A role of the list has the description of the first rule it was built from.\<close>

abbreviation headings :: "ac_Role list \<Rightarrow> (string \<times> string) list" where
  "headings roles \<equiv> map (\<lambda>r. (Role_Name r, Role_Description r)) roles"

lemma headings_gain [simp]: "headings (role_gains name x roles) = headings roles"
  by (auto simp: role_gains_def)

lemma list_rules_headings:
  assumes "\<forall>p \<in> set ps. length p = 4" "list_rules ps roles s = (Replied rs, s')" "(n, d) \<in> set (headings rs)"
  shows "(n, d) \<in> set (headings roles) \<or> n \<notin> Role_Name ` set roles \<and> d = hd (filter (\<lambda>p. p ! 0 = n) ps) ! 3"
  using assms
proof (induction ps arbitrary: roles)
  case Nil
  then show ?case by (simp add: act_iffs)
next
  case (Cons p ps)
  define roles1 where "roles1 = (if p ! 0 \<in> Role_Name ` set roles then roles else roles @ [empty_role (p ! 0) (p ! 3)])"
  obtain x where "parse_rule p = Some x"
    and rest: "list_rules ps (role_gains (p ! 0) x roles1) s = (Replied rs, s')"
    using Cons.prems(1,2) by (auto simp: rule_field_wf rule_policy_wf roles1_def act_iffs split: if_splits option.splits)
  have "(n, d) \<in> set (headings roles1) \<or> n \<notin> Role_Name ` set roles1 \<and> d = hd (filter (\<lambda>p. p ! 0 = n) ps) ! 3"
    using Cons.IH [OF _ rest Cons.prems(3)] Cons.prems(1) by (simp only: headings_gain names_kept) simp
  then show ?case by (auto simp: roles1_def empty_role_def split: if_splits)
qed

text \<open>
  C39. On rules with their four fields, the list of the roles, when it is returned, is sorted, has every
  name that occurs in a rule exactly once, and each of its roles has the policies of all the rules of
  that name in their order and the description of the first one. Reading the role by its name (when
  the name is not empty) finds it, with the same name and policies, but with the description of the
  last rule.
\<close>

theorem roles_read_alike:
  assumes laws: "casbin_reads (ac_casbin env) policies groupings" and wf: "wf_rules (policies (Enf s))"
    and listed: "ListRoles env s = (Replied rs, s')"
  shows "sorted (map Role_Name rs) \<and> distinct (map Role_Name rs) \<and> Role_Name ` set rs = (\<lambda>p. p ! 0) ` set (policies (Enf s)) \<and>
         (\<forall>r \<in> set rs. let rules = filter (\<lambda>p. p ! 0 = Role_Name r) (policies (Enf s)) in
            map Some (Role_Policies r) = map parse_rule rules \<and> Role_Description r = hd rules ! 3 \<and>
            (Role_Name r \<noteq> [] \<longrightarrow>
               GetRole env (Role_Name r) s = (Replied (r\<lparr>Role_Description := last rules ! 3\<rparr>), s)))"
proof -
  obtain rs0 where rs0: "list_rules (policies (Enf s)) [] s = (Replied rs0, s')" and rs: "rs = sort_key Role_Name rs0"
    using listed casbin_readsD(1) [OF laws] by (auto simp: ListRoles_def act_iffs)
  have len: "\<forall>p \<in> set (policies (Enf s)). length p = 4" using wf by (simp add: wf_rules_def)
  note loop = list_rules_Done [OF len _ rs0]
  have names: "distinct (map Role_Name rs0)" "Role_Name ` set rs0 = (\<lambda>p. p ! 0) ` set (policies (Enf s))"
    and parses: "\<forall>p \<in> set (policies (Enf s)). parse_rule p \<noteq> None"
    and pols: "\<And>n. policies_of rs0 n = map (the \<circ> parse_rule) (filter (\<lambda>p. p ! 0 = n) (policies (Enf s)))"
    using loop by (simp_all add: policies_of_def)
  have "distinct (map Role_Name rs)" using names(1) mset_eq_imp_distinct_iff [of "map Role_Name rs" "map Role_Name rs0"] rs by simp
  moreover have "map Some (Role_Policies r) = map parse_rule ps \<and> Role_Description r = hd ps ! 3 \<and>
      (Role_Name r \<noteq> [] \<longrightarrow> GetRole env (Role_Name r) s = (Replied (r\<lparr>Role_Description := last ps ! 3\<rparr>), s))"
    if r: "r \<in> set rs0" and ps: "ps = filter (\<lambda>p. p ! 0 = Role_Name r) (policies (Enf s))" for r ps
  proof -
    have own: "Role_Policies r = map (the \<circ> parse_rule) ps" using policies_of_member [OF names(1) r] pols ps by simp
    then have "map Some (Role_Policies r) = map parse_rule ps" using parses ps by auto
    moreover have "Role_Description r = hd ps ! 3"
      using list_rules_headings [OF len rs0, of "Role_Name r" "Role_Description r"] r ps by auto
    moreover have "ps \<noteq> []" using names(2) r ps by (force simp: filter_empty_conv)
    then have "role_of_rules ps (empty_role (Role_Name r) []) s =
        (Replied ((empty_role (Role_Name r) [])\<lparr>Role_Description := last ps ! 3, Role_Policies := map (the \<circ> parse_rule) ps\<rparr>), s)"
      using role_of_rules_run [of ps "empty_role (Role_Name r) []" s] len parses ps by (simp add: empty_role_def)
    then have "GetRole env (Role_Name r) s = (Replied (r\<lparr>Role_Description := last ps ! 3\<rparr>), s)" if "Role_Name r \<noteq> []"
      using GetRole_run [OF laws wf that refl] own ps \<open>ps \<noteq> []\<close> by (simp add: empty_role_def)
    ultimately show ?thesis by blast
  qed
  ultimately show ?thesis using names rs by (simp add: Let_def)
qed

section \<open>No read of the rules panics\<close>

lemma list_rules_no_panic: "\<forall>p \<in> set ps. length p = 4 \<Longrightarrow> fst (list_rules ps roles s) \<noteq> Panicked"
proof (induction ps arbitrary: roles)
  case (Cons p ps)
  then show ?case by (cases "parse_rule p") (auto simp: rule_field_wf rule_policy_wf act_applied)
qed (simp add: act_applied)

lemma act_map_all_Done: "\<forall>x \<in> set xs. \<exists>y. f x s = (Replied y, s) \<Longrightarrow> \<exists>ys. act_map f xs s = (Replied ys, s)"
proof (induction xs)
  case (Cons x xs)
  then obtain y ys where "f x s = (Replied y, s)" "act_map f xs s = (Replied ys, s)" by auto
  then show ?case by (simp add: act_bind_run(1) act_applied)
qed (simp add: act_applied)

lemma policy_lines_Done: "\<forall>p \<in> set ps. length p = 4 \<Longrightarrow> \<exists>xs. act_map policy_line ps s = (Replied xs, s)"
  by (rule act_map_all_Done) (simp add: policy_line_def rule_field_wf act_applied)

lemma grouping_lines_Done: "\<exists>xs. act_map grouping_line (map (\<lambda>(u, r). [u, r]) gs) s = (Replied xs, s)"
  by (rule act_map_all_Done) (auto simp: grouping_line_def rule_field_def act_applied)

lemma csv_Done:
  assumes laws: "casbin_reads (ac_casbin env) policies groupings" and wf: "wf_rules (policies (Enf s))"
  shows "\<exists>csv. policiesToCsv env s = (Replied csv, s)"
proof -
  obtain xs where "act_map policy_line (policies (Enf s)) s = (Replied xs, s)"
    using policy_lines_Done [of "policies (Enf s)" s] wf by (auto simp: wf_rules_def)
  moreover obtain ys where "act_map grouping_line (map (\<lambda>(u, r). [u, r]) (groupings (Enf s))) s = (Replied ys, s)"
    using grouping_lines_Done [of "groupings (Enf s)" s] by (elim exE)
  ultimately have "policiesToCsv env s = (Replied (concat xs @ concat ys), s)"
    using casbin_readsD(1,2) [OF laws]
    by (simp add: policiesToCsv_def ask_enf_run act_bind_run(1) act_applied)
  then show ?thesis ..
qed

text \<open>
  C38. In every state the dashboard reaches from rules with their four fields, through changes that
  succeed or fail in any order, reading a role or all roles does not panic, and the rules can be
  printed for saving.
\<close>

theorem reads_never_panic:
  assumes reach: "ac_reachable env e0 s" and start: "wf_rules (policies e0)" and "name \<noteq> []"
    and laws: "casbin_reads (ac_casbin env) policies groupings" "casbin_writes (ac_casbin env) policies groupings"
  shows "fst (GetRole env name s) \<noteq> Panicked \<and> fst (ListRoles env s) \<noteq> Panicked \<and> (\<exists>csv. policiesToCsv env s = (Replied csv, s))"
proof -
  have wf: "wf_rules (policies (Enf s))" using reachable_wf [OF reach laws(2) start] .
  then have len: "\<forall>p \<in> set (policies (Enf s)). length p = 4" by (simp add: wf_rules_def)
  have "fst (GetRole env name s) \<noteq> Panicked"
    using GetRole_run [OF laws(1) wf assms(3) refl]
      role_of_rules_run [of "filter (\<lambda>p. p ! 0 = name) (policies (Enf s))" "empty_role name []" s] len
    by simp
  moreover have "fst (ListRoles env s) \<noteq> Panicked"
  proof -
    have run: "ListRoles env s = act_bind (list_rules (policies (Enf s)) []) (\<lambda>roles. act_ret (sort_key Role_Name roles)) s"
      using casbin_readsD(1) [OF laws(1)] by (simp add: ListRoles_def ask_enf_run)
    show ?thesis
      unfolding run using list_rules_no_panic [OF len, of "[]" s]
      by (auto simp: act_bind_def act_ret_def split: reply.split prod.split)
  qed
  ultimately show ?thesis using csv_Done [OF laws(1) wf] by blast
qed

section \<open>What goes wrong\<close>

text \<open>
  A role the process already holds for a name makes the creation of an account of that name fail. It is
  left behind by a creation that failed after granting it.
\<close>

lemma grant_blocked:
  assumes "casbin_writes (ac_casbin env) policies groupings" "(username, r) \<in> set (groupings (Enf s))" "r \<in> set roles"
  shows "grant_new_roles env username roles s \<noteq> (Replied (), s')"
  using assms(2,3)
proof (induction roles arbitrary: s)
  case (Cons x xs)
  show ?case
  proof
    assume "grant_new_roles env username (x # xs) s = (Replied (), s')"
    then obtain e1 where e1: "cb_AddRoleForUser (ac_casbin env) username x (Enf s) = (Inr True, e1)"
      and rest: "grant_new_roles env username xs (s\<lparr>Enf := e1\<rparr>) = (Replied (), s')"
      by (auto simp: act_iffs split: if_splits)
    have "(username, x) \<notin> set (groupings (Enf s))" "groupings e1 = groupings (Enf s) @ [(username, x)]"
      using casbin_granted [OF assms(1) e1] by auto
    then show False using Cons.IH [of "s\<lparr>Enf := e1\<rparr>"] Cons.prems rest by auto
  qed
qed simp

lemma leftover_role_blocks_account:
  assumes "casbin_writes (ac_casbin env) policies groupings" "(New_Username param, r) \<in> set (groupings (Enf s))" "r \<in> set (New_Roles param)"
  shows "CreateAccount env param s \<noteq> (Replied a, s')"
proof
  assume "CreateAccount env param s = (Replied a, s')"
  then obtain c s1 s2 where c: "getDashboardUserCredentials env s = (Replied c, s1)" and "grant_new_roles env (New_Username param) (New_Roles param) s1 = (Replied (), s2)"
    by (auto simp: CreateAccount_def act_bind_Done act_fail_Done split: if_splits)
  then show False using grant_blocked [OF assms] reads_state [OF reads_credentials c] by simp
qed

text \<open>One account that cannot be read, such as one without a role, makes listing the accounts fail.\<close>

lemma act_map_Failed:
  assumes "\<And>x. reads (f x)" "x \<in> set xs" "f x s = (Refused err, s)"
  shows "act_map f xs s \<noteq> (Replied ys, s')"
  using assms(2)
proof (induction xs arbitrary: ys)
  case (Cons z zs)
  show ?case
  proof
    assume "act_map f (z # zs) s = (Replied ys, s')"
    then obtain y s1 ys' where z: "f z s = (Replied y, s1)" and zs: "act_map f zs s1 = (Replied ys', s')"
      by (auto simp: act_bind_Done act_ret_Done)
    have "s1 = s" using reads_state [OF assms(1) z] .
    moreover have "x \<noteq> z" using z assms(3) by auto
    ultimately show False using Cons.IH [of ys'] Cons.prems zs by simp
  qed
qed simp

lemma unreadable_account_hides_all:
  assumes "getDashboardUserCredentials env s = (Replied c, s)" "Secret_Data c = Some m" "username \<in> set (order m)"
    and "fetchAccount env c username s = (Refused err, s)"
  shows "fetchAccounts env order s \<noteq> (Replied accounts, s')"
  using assms act_map_Failed [of "fetchAccount env c", OF reads_fetchAccount assms(3,4)]
  by (auto simp: fetchAccounts_def act_bind_Done act_ret_Done)

text \<open>A permission whose domain or object has a slash of its own cannot be read back, and then no list of roles can.\<close>

lemma slash_corrupts_role:
  "parse_rule (rule_of ''dev'' [] (NewPolicy ''obcluster'' ''ns/test'' ''read'')) = None"
  by code_simp

section \<open>Instances\<close>

lemma sample_policy_store: "policy_store sample_ac_env"
proof -
  have "\<exists>v. \<lparr>ConfigMap_Name = ConfigMap_Name x, ConfigMap_Version = 0, ConfigMap_Data = ConfigMap_Data x\<rparr> = x\<lparr>ConfigMap_Version := v\<rparr>" for x
    by (cases x) auto
  then show ?thesis using sample_stores(2) by (auto simp: policy_store_def sample_ac_env_def)
qed

lemma sample_laws: "casbin_reads (ac_casbin sample_ac_env) fst snd" "casbin_writes (ac_casbin sample_ac_env) fst snd"
  using listed_casbin_laws by simp_all

lemma sample_wf: "wf_rules (fst (Enf sample_ac_state))"
  by (simp add: wf_rules_def sample_ac_state_def)

theorem change_is_saved_witness:
  "\<exists>s'. run_change sample_ac_env (Patch_role ''reader'' tenant_reader) sample_ac_state = (Replied (), s') \<and> saved sample_ac_env s'"
proof -
  obtain s' where "run_change sample_ac_env (Patch_role ''reader'' tenant_reader) sample_ac_state = (Replied (), s')"
    using reader_patched by (auto simp: act_unit_Done) (metis prod.collapse)
  with change_is_saved [OF sample_policy_store _ this] show ?thesis by auto
qed

theorem roles_read_alike_witness:
  "\<exists>rs. ListRoles sample_ac_env sample_ac_state = (Replied rs, sample_ac_state) \<and> Role_Name ` set rs = {''admin'', ''reader''} \<and>
     (\<exists>r \<in> set rs. Role_Name r = ''reader'' \<and>
        (\<exists>d. GetRole sample_ac_env ''reader'' sample_ac_state = (Replied (r\<lparr>Role_Description := d\<rparr>), sample_ac_state)))"
proof -
  have "(case fst (ListRoles sample_ac_env sample_ac_state) of Replied _ \<Rightarrow> True | _ \<Rightarrow> False)" by code_simp
  moreover have "reads (ListRoles sample_ac_env)" unfolding ListRoles_def by (auto intro!: reads_intros)
  ultimately obtain rs where rs: "ListRoles sample_ac_env sample_ac_state = (Replied rs, sample_ac_state)"
    by (cases "ListRoles sample_ac_env sample_ac_state") (auto dest: reads_state split: reply.splits)
  note alike = roles_read_alike [OF sample_laws(1) sample_wf rs]
  then have names: "Role_Name ` set rs = {''admin'', ''reader''}" by (auto simp: sample_ac_state_def)
  then have "''reader'' \<in> Role_Name ` set rs" by simp
  then obtain r where r: "r \<in> set rs" "Role_Name r = ''reader''" by force
  then have "\<exists>d. GetRole sample_ac_env ''reader'' sample_ac_state = (Replied (r\<lparr>Role_Description := d\<rparr>), sample_ac_state)"
    using bspec [OF alike [THEN conjunct2, THEN conjunct2, THEN conjunct2] r(1)] by (auto simp: Let_def)
  with rs names r show ?thesis by (intro exI [of _ rs] conjI bexI [of _ r])
qed

theorem reads_never_panic_witness:
  "fst (GetRole sample_ac_env ''reader'' (snd (run_change sample_ac_env (Create_account ann) sample_ac_state))) \<noteq> Panicked"
proof -
  have "sample_ac_state = \<lparr>Enf = Enf sample_ac_state, World = World sample_ac_state\<rparr>" by simp
  then have "ac_reachable sample_ac_env (Enf sample_ac_state) sample_ac_state" using ac_reachable.started by metis
  then have "ac_reachable sample_ac_env (Enf sample_ac_state) (snd (run_change sample_ac_env (Create_account ann) sample_ac_state))"
    by (rule ac_reachable.changed) (rule prod.collapse [symmetric])
  from reads_never_panic [OF this sample_wf _ sample_laws] show ?thesis by blast
qed

text \<open>Creating a role that is there adds rules with another description: the list shows the old one, the role read alone the new one.\<close>

lemma described_twice:
  "case CreateRole sample_ac_env \<lparr>NewRole_Name = ''reader'', NewRole_Description = ''Tenants'',
       NewRole_Permissions = PatchRole_Permissions tenant_reader\<rparr> [] sample_ac_state of
     (r, s') \<Rightarrow> (case r of Replied _ \<Rightarrow> True | _ \<Rightarrow> False) \<and>
       (case fst (ListRoles sample_ac_env s') of
          Replied rs \<Rightarrow> map (\<lambda>r. (Role_Name r, Role_Description r)) rs = [(''admin'', ''Super admin''), (''reader'', ''Reader'')] | _ \<Rightarrow> False) \<and>
       (case fst (GetRole sample_ac_env ''reader'' s') of Replied r \<Rightarrow> Role_Description r = ''Tenants'' | _ \<Rightarrow> False)"
  by code_simp

text \<open>A creation with a second role that does not exist leaves the first one behind: the same name cannot be created again.\<close>

lemma failed_creation_leaves_role:
  "case CreateAccount sample_ac_env (ann\<lparr>New_Roles := [''reader'', ''ghost'']\<rparr>) sample_ac_state of
     (r, s') \<Rightarrow> r = Refused (NewBadRequest ''role does not exist: ghost'') \<and> (''ann'', ''reader'') \<in> set (snd (Enf s')) \<and>
       fst (CreateAccount sample_ac_env ann s') = Refused (NewInternal ''failed to add role for user'')"
  by code_simp

end
