(* ===== verification/Dashboard_Requests.thy ===== *)
theory Dashboard_Requests
  imports Access_Histories OBTenant
begin

text \<open>
  How the dashboard answers a request: the session and login checks of
  \<^verbatim>\<open>internal/dashboard/middleware/authentication.go\<close>, the guards of \<^verbatim>\<open>business/ac/rbac.go\<close> and
  \<^verbatim>\<open>business/oceanbase\<close>, \<^verbatim>\<open>Wrap\<close> and the handlers of accounts, roles and logins under
  \<^verbatim>\<open>internal/dashboard/handler\<close>, with their routes. The binding of a request's body, the decryption of
  passwords with the process's private key, the saving of the session cookie and the clock are parameters.
\<close>

section \<open>Requests and responses\<close>

record session =
  Sess_username :: "string option"
  Sess_expiration :: "int option"

definition no_session :: session where
  "no_session = \<lparr>Sess_username = None, Sess_expiration = None\<rparr>"

record AuthUser =
  AuthUser_Username :: string
  AuthUser_Nickname :: string

record LoginParam =
  Login_Username :: string
  Login_Password :: string

datatype response_data =
    NoData
  | AccountData "Account option"
  | AccountsData "Account list"
  | RoleData ac_Role
  | RolesData "ac_Role list"
  | PoliciesData "ac_Policy list"
  | TextData string
  | UserData AuthUser

text \<open>\<^verbatim>\<open>response.APIResponse\<close> with the status it is sent with.\<close>

record APIResponse =
  Response_Status :: nat
  Response_Data :: response_data
  Response_Message :: string
  Response_Successful :: bool

record request =
  Request_URI :: string
  Request_Params :: dict

text \<open>
  The state of a request: that of the access control, the process's cache of users that are logged in
  (\<^verbatim>\<open>internal/store\<close>) and its pool of tokens, the session as the request sees it and as the browser
  keeps it in its cookie, the user name in the request's context, and the responses written.
\<close>

record ('e, 'k) dash =
  Access :: "('e, 'k) ac_state"
  Login_cache :: "string set"
  Token_pool :: "string \<rightharpoonup> AuthUser"
  Session :: session
  Cookie :: session
  Ctx_username :: "string option"
  Responses :: "APIResponse list"

type_synonym ('e, 'k, 'a) dash_act = "(('e, 'k) dash, 'a) act"

record ('e, 'k) dash_env =
  dash_ac :: "('e, 'k) ac_env"
  dash_now_nanos :: "'k \<Rightarrow> int"
  dash_save_error :: "('e, 'k) dash \<Rightarrow> string option"
  dash_decrypt :: "string \<Rightarrow> string result"
  dash_get_tenant :: "string \<Rightarrow> string \<Rightarrow> 'k \<Rightarrow> OBTenant result"
  dash_map_order :: "dict \<Rightarrow> string list"

definition in_ac :: "('e, 'k, 'a) ac_act \<Rightarrow> ('e, 'k, 'a) dash_act" where
  "in_ac f = (\<lambda>s. case f (Access s) of (r, a) \<Rightarrow> (r, s\<lparr>Access := a\<rparr>))"

definition respond :: "nat \<Rightarrow> response_data \<Rightarrow> string \<Rightarrow> bool \<Rightarrow> ('e, 'k, unit) dash_act" where
  "respond status d msg ok =
     act_update (\<lambda>s. s\<lparr>Responses := Responses s @
       [\<lparr>Response_Status = status, Response_Data = d, Response_Message = msg, Response_Successful = ok\<rparr>]\<rparr>)"

text \<open>The abort of a middleware with a message; a response without the envelope of \<^verbatim>\<open>APIResponse\<close>.\<close>

definition abort :: "nat \<Rightarrow> string \<Rightarrow> ('e, 'k, unit) dash_act" where
  "abort status msg = respond status NoData msg False"

definition unix_now :: "('e, 'k) dash_env \<Rightarrow> ('e, 'k) dash \<Rightarrow> int" where
  "unix_now env s = dash_now_nanos env (World (Access s)) div 10 ^ 9"

definition DefaultSessionExpiration :: int where
  "DefaultSessionExpiration = 3600"

text \<open>\<^verbatim>\<open>Save\<close> puts the session into the cookie, or fails with an error.\<close>

definition session_Save :: "('e, 'k) dash_env \<Rightarrow> ('e, 'k, unit) dash_act" where
  "session_Save env =
     act_bind (act_get (dash_save_error env)) (\<lambda>err.
       case err of Some msg \<Rightarrow> act_fail (PlainError msg) | None \<Rightarrow> act_update (\<lambda>s. s\<lparr>Cookie := Session s\<rparr>))"

section \<open>Middleware\<close>

definition HasSuffix :: "string \<Rightarrow> string \<Rightarrow> bool" where
  "HasSuffix s suf \<longleftrightarrow> suffix suf s"

definition HasPrefix :: "string \<Rightarrow> string \<Rightarrow> bool" where
  "HasPrefix s pre \<longleftrightarrow> prefix pre s"

text \<open>The requests that need no login, told by the end or the start of the request URI, query string included.\<close>

definition exempt_from_login :: "string \<Rightarrow> bool" where
  "exempt_from_login uri \<longleftrightarrow>
     HasSuffix uri ''login'' \<or> HasSuffix uri ''info'' \<or> HasSuffix uri ''monitor/endpoints'' \<or>
     HasSuffix uri ''webhook/alert/log'' \<or> HasPrefix uri ''/api/v1/auth/''"

definition expire_session :: "('e, 'k) dash_env \<Rightarrow> string \<Rightarrow> ('e, 'k, unit) dash_act" where
  "expire_session env username =
     act_bind (act_update (\<lambda>s. s\<lparr>Session := no_session\<rparr>)) (\<lambda>_.
     act_bind (act_catch (session_Save env)) (\<lambda>r.
     act_bind (case r of Inl _ \<Rightarrow> abort 500 ''failed to save session'' | Inr _ \<Rightarrow> act_ret ()) (\<lambda>_.
     act_bind (act_update (\<lambda>s. s\<lparr>Login_cache := Login_cache s - {username}\<rparr>)) (\<lambda>_.
       abort 401 ''login expired, please login again''))))"

definition LoginRequired :: "('e, 'k) dash_env \<Rightarrow> string \<Rightarrow> ('e, 'k, unit) dash_act \<Rightarrow> ('e, 'k, unit) dash_act" where
  "LoginRequired env uri next_handler =
     (if exempt_from_login uri then next_handler
      else act_bind (act_get (\<lambda>s. Sess_username (Session s))) (\<lambda>name.
        case name of
          None \<Rightarrow> abort 401 ''login required''
        | Some username \<Rightarrow>
            act_bind (act_get (\<lambda>s. username \<in> Login_cache s)) (\<lambda>exist.
              if \<not> exist then abort 401 ''login required''
              else act_bind (act_get (\<lambda>s. Sess_expiration (Session s))) (\<lambda>expr.
                case expr of
                  None \<Rightarrow> abort 403 ''cookie broken''
                | Some t \<Rightarrow>
                    if t < 0 then abort 403 ''cookie broken''
                    else act_bind (act_get (\<lambda>s. t * 10 ^ 9 < dash_now_nanos env (World (Access s)))) (\<lambda>expired.
                      if expired then expire_session env username
                      else act_bind (act_update (\<lambda>s. s\<lparr>Ctx_username := Some username\<rparr>)) (\<lambda>_. next_handler))))))"

definition RefreshExpiration :: "('e, 'k) dash_env \<Rightarrow> string \<Rightarrow> ('e, 'k, unit) dash_act \<Rightarrow> ('e, 'k, unit) dash_act" where
  "RefreshExpiration env uri next_handler =
     (if HasSuffix uri ''login'' \<or> HasSuffix uri ''info'' then next_handler
      else act_bind (act_update (\<lambda>s. s\<lparr>Session := (Session s)\<lparr>Sess_expiration := Some (unix_now env s + DefaultSessionExpiration)\<rparr>\<rparr>)) (\<lambda>_.
           act_bind (act_catch (session_Save env)) (\<lambda>r.
             case r of Inl _ \<Rightarrow> abort 500 ''failed to save session'' | Inr _ \<Rightarrow> next_handler)))"

section \<open>Guards\<close>

type_synonym ('e, 'k) EnforceFunc = "request \<Rightarrow> ('e, 'k, bool) dash_act"

definition Param :: "request \<Rightarrow> string \<Rightarrow> string" where
  "Param req name = dict_get (Request_Params req) name"

text \<open>A part of a guard's resource: a parameter of the path after a colon, or the text itself.\<close>

definition path_part :: "request \<Rightarrow> string \<Rightarrow> string" where
  "path_part req piece = (if HasPrefix piece '':'' then Param req (drop 1 piece) else piece)"

definition path_resource :: "request \<Rightarrow> string \<Rightarrow> string" where
  "path_resource req resource =
     (if CHR ''+'' \<in> set resource then Join (map (path_part req) (Split resource ''+'')) ''+''
      else path_part req resource)"

definition PathGuard :: "('e, 'k) dash_env \<Rightarrow> string \<Rightarrow> string \<Rightarrow> string \<Rightarrow> ('e, 'k) EnforceFunc" where
  "PathGuard env domain resource action req =
     act_bind (act_get (\<lambda>s. Sess_username (Session s))) (\<lambda>name.
       case name of
         None \<Rightarrow> act_fail (PlainError ''username not found in session'')
       | Some username \<Rightarrow>
           in_ac (ask_enf (\<lambda>e. cb_Enforce (ac_casbin (dash_ac env)) e username (domain @ ''/'' @ path_resource req resource) action)))"

datatype unionLogic = unionOr | unionAnd

primrec union_loop :: "bool \<Rightarrow> ('e, 'k) EnforceFunc list \<Rightarrow> ('e, 'k) EnforceFunc" where
  "union_loop allPass [] req = act_ret allPass"
| "union_loop allPass (f # fs) req =
     act_bind (f req) (\<lambda>ok. if ok = (\<not> allPass) then act_ret (\<not> allPass) else union_loop allPass fs req)"

definition unionHelper :: "unionLogic \<Rightarrow> ('e, 'k) EnforceFunc list \<Rightarrow> ('e, 'k) EnforceFunc" where
  "unionHelper logic enforces = union_loop (logic = unionAnd) enforces"

definition OR_guard :: "('e, 'k) EnforceFunc list \<Rightarrow> ('e, 'k) EnforceFunc" where
  "OR_guard enforces = unionHelper unionOr enforces"

definition AND_guard :: "('e, 'k) EnforceFunc list \<Rightarrow> ('e, 'k) EnforceFunc" where
  "AND_guard enforces = unionHelper unionAnd enforces"

definition TenantGuard :: "('e, 'k) dash_env \<Rightarrow> string \<Rightarrow> string \<Rightarrow> string \<Rightarrow> ('e, 'k) EnforceFunc" where
  "TenantGuard env ns name action req =
     act_bind (act_get (\<lambda>s. Sess_username (Session s))) (\<lambda>user.
       case user of
         None \<Rightarrow> act_fail (New_err ErrUnauthorized ''Unauthorized'')
       | Some username \<Rightarrow>
           act_bind (in_ac (ask_world (dash_get_tenant env (path_part req ns) (path_part req name)))) (\<lambda>t.
             in_ac (ac_Enforce (dash_ac env) username (NewPolicy DomainOBCluster (TenantSpec_ClusterName t) action))))"

text \<open>The entries of a list the user may access; an error of the enforcer counts as a refusal.\<close>

primrec filter_allowed :: "('e, 'k) ac_env \<Rightarrow> string \<Rightarrow> string \<Rightarrow> ('c \<Rightarrow> string) \<Rightarrow> 'c list \<Rightarrow> ('e, 'k, 'c list) ac_act" where
  "filter_allowed env username action cluster [] = act_ret []"
| "filter_allowed env username action cluster (c # cs) =
     act_bind (act_catch (ac_Enforce env username (NewPolicy DomainOBCluster (cluster c) action))) (\<lambda>r.
     act_bind (filter_allowed env username action cluster cs) (\<lambda>rest.
       act_ret (case r of Inl _ \<Rightarrow> rest | Inr ok \<Rightarrow> if ok then c # rest else rest)))"

definition filterClusters :: "('e, 'k) ac_env \<Rightarrow> string \<Rightarrow> string \<Rightarrow> OBCluster list \<Rightarrow> ('e, 'k, OBCluster list) ac_act" where
  "filterClusters env username action items = filter_allowed env username action Name items"

definition filterTenants :: "('e, 'k) ac_env \<Rightarrow> string \<Rightarrow> string \<Rightarrow> OBTenant list \<Rightarrow> ('e, 'k, OBTenant list) ac_act" where
  "filterTenants env username action items = filter_allowed env username action TenantSpec_ClusterName items"

section \<open>Serving\<close>

definition error_status :: "go_err \<Rightarrow> nat" where
  "error_status err = (case err of ObError e \<Rightarrow> httpErr_Status e | PlainError _ \<Rightarrow> 500)"

definition serve :: "('e, 'k, response_data) dash_act \<Rightarrow> ('e, 'k, unit) dash_act" where
  "serve h =
     act_bind (act_catch h) (\<lambda>r. case r of
         Inl err \<Rightarrow> respond (error_status err) NoData (go_err_Error err) False
       | Inr x \<Rightarrow> respond 200 x [] True)"

primrec Wrap :: "('e, 'k, response_data) dash_act \<Rightarrow> ('e, 'k) EnforceFunc list \<Rightarrow> request \<Rightarrow> ('e, 'k, unit) dash_act" where
  "Wrap h [] req = serve h"
| "Wrap h (f # fs) req =
     act_bind (act_catch (f req)) (\<lambda>r. case r of
         Inl err \<Rightarrow> respond 500 NoData (go_err_Error err) False
       | Inr ok \<Rightarrow> if ok then Wrap h fs req else respond 403 NoData ''forbidden'' False)"

text \<open>The errors of the other packages are no \<^verbatim>\<open>ObError\<close>.\<close>

definition bad_request :: "('s, 'a) act \<Rightarrow> ('s, 'a) act" where
  "bad_request f = act_replace (\<lambda>err. NewBadRequest (go_err_Error err)) f"

definition decrypt_password :: "('e, 'k) dash_env \<Rightarrow> string \<Rightarrow> ('e, 'k, string) dash_act" where
  "decrypt_password env pwd = bad_request (act_of (foreign (dash_decrypt env pwd)))"

text \<open>The handlers; a body is what \<^verbatim>\<open>BindJSON\<close> made of it, an error when it does not fit.\<close>

definition Login :: "('e, 'k) dash_env \<Rightarrow> LoginParam result \<Rightarrow> ('e, 'k, Account) dash_act" where
  "Login env body =
     act_bind (bad_request (act_of (foreign body))) (\<lambda>loginParams.
     act_bind (decrypt_password env (Login_Password loginParams)) (\<lambda>pwd.
     act_bind (act_replace (\<lambda>_. NewBadRequest ''username or password is incorrect'')
         (in_ac (ValidateAccount (dash_ac env) (Login_Username loginParams) pwd))) (\<lambda>acc.
     act_bind (act_update (\<lambda>s. s\<lparr>Session := \<lparr>Sess_username = Some (Login_Username loginParams),
                                  Sess_expiration = Some (unix_now env s + DefaultSessionExpiration)\<rparr>\<rparr>)) (\<lambda>_.
     act_bind (act_replace (\<lambda>err. NewInternal (go_err_Error err)) (session_Save env)) (\<lambda>_.
     act_bind (act_update (\<lambda>s. s\<lparr>Login_cache := insert (Login_Username loginParams) (Login_cache s)\<rparr>)) (\<lambda>_.
       act_ret acc))))))"

definition Logout :: "('e, 'k) dash_env \<Rightarrow> ('e, 'k, string) dash_act" where
  "Logout env =
     act_bind (act_get (\<lambda>s. Sess_username (Session s))) (\<lambda>usernameEntry.
     act_bind (act_update (\<lambda>s. s\<lparr>Session := no_session\<rparr>)) (\<lambda>_.
     act_bind (act_replace (\<lambda>err. NewInternal (go_err_Error err)) (session_Save env)) (\<lambda>_.
     act_bind (case usernameEntry of
                 None \<Rightarrow> act_ret ()
               | Some username \<Rightarrow> act_update (\<lambda>s. s\<lparr>Login_cache := Login_cache s - {username}\<rparr>)) (\<lambda>_.
       act_ret ''logout successfully''))))"

text \<open>A token is good for one use.\<close>

definition ValidateToken :: "string \<Rightarrow> ('e, 'k, AuthUser option) dash_act" where
  "ValidateToken token =
     act_bind (act_get (\<lambda>s. Token_pool s token)) (\<lambda>user.
       case user of
         None \<Rightarrow> act_ret None
       | Some u \<Rightarrow> act_bind (act_update (\<lambda>s. s\<lparr>Token_pool := (Token_pool s)(token := None)\<rparr>)) (\<lambda>_. act_ret (Some u)))"

text \<open>The new token is the UUID the library draws.\<close>

definition GenerateAuthToken :: "string \<Rightarrow> AuthUser \<Rightarrow> ('e, 'k, string) dash_act" where
  "GenerateAuthToken uid user = act_bind (act_update (\<lambda>s. s\<lparr>Token_pool := (Token_pool s)(uid \<mapsto> user)\<rparr>)) (\<lambda>_. act_ret uid)"

definition Authz :: "string result \<Rightarrow> ('e, 'k, AuthUser) dash_act" where
  "Authz uriToken =
     act_bind (bad_request (act_of (foreign uriToken))) (\<lambda>token.
     act_bind (ValidateToken token) (\<lambda>user.
       case user of None \<Rightarrow> act_fail (NewUnauthorized ''invalid token'') | Some u \<Rightarrow> act_ret u))"

definition GetAccountInfo :: "('e, 'k) dash_env \<Rightarrow> ('e, 'k, Account) dash_act" where
  "GetAccountInfo env =
     act_bind (act_get (\<lambda>s. Sess_username (Session s))) (\<lambda>username.
       case username of
         None \<Rightarrow> act_fail (New_err ErrUnauthorized ''Unauthorized'')
       | Some u \<Rightarrow> in_ac (GetAccount (dash_ac env) u))"

definition ResetPassword :: "('e, 'k) dash_env \<Rightarrow> ResetPasswordParam result \<Rightarrow> ('e, 'k, Account option) dash_act" where
  "ResetPassword env body =
     act_bind (act_get (\<lambda>s. case Ctx_username s of None \<Rightarrow> [] | Some u \<Rightarrow> u)) (\<lambda>username.
       if username = [] then act_fail (NewUnauthorized ''unauthorized'')
       else act_bind (bad_request (act_of (foreign body))) (\<lambda>param.
            act_bind (decrypt_password env (Reset_Password param)) (\<lambda>pwd.
            act_bind (if Reset_OldPassword param \<noteq> [] then decrypt_password env (Reset_OldPassword param) else act_ret []) (\<lambda>old.
              in_ac (ResetAccountPassword (dash_ac env) username \<lparr>Reset_OldPassword = old, Reset_Password = pwd\<rparr>)))))"

definition handler_CreateAccount :: "('e, 'k) dash_env \<Rightarrow> CreateAccountParam result \<Rightarrow> ('e, 'k, Account) dash_act" where
  "handler_CreateAccount env body =
     act_bind (bad_request (act_of (foreign body))) (\<lambda>param.
     act_bind (decrypt_password env (New_Password param)) (\<lambda>pwd.
       in_ac (CreateAccount (dash_ac env) (param\<lparr>New_Password := pwd\<rparr>))))"

definition handler_PatchAccount :: "('e, 'k) dash_env \<Rightarrow> PatchAccountParam result \<Rightarrow> request \<Rightarrow> ('e, 'k, Account) dash_act" where
  "handler_PatchAccount env body req =
     (let username = Param req ''username'' in
      if username = [] then act_fail (NewBadRequest ''Username is required'')
      else act_bind (bad_request (act_of (foreign body))) (\<lambda>param.
           act_bind (if Patch_Password param \<noteq> [] then decrypt_password env (Patch_Password param) else act_ret []) (\<lambda>pwd.
             in_ac (PatchAccount (dash_ac env) username (param\<lparr>Patch_Password := pwd\<rparr>)))))"

definition handler_DeleteAccount :: "('e, 'k) dash_env \<Rightarrow> request \<Rightarrow> ('e, 'k, Account) dash_act" where
  "handler_DeleteAccount env req =
     act_bind (act_get (\<lambda>s. Sess_username (Session s))) (\<lambda>name.
     act_bind (act_deref name) (\<lambda>currentUser.
       if currentUser = Param req ''username'' then act_fail (NewBadRequest (''You can'' @ [CHR 0x27] @ ''t delete yourself''))
       else if Param req ''username'' = [] then act_fail (NewBadRequest ''Username is required'')
       else in_ac (DeleteAccount (dash_ac env) (Param req ''username''))))"

definition handler_CreateRole :: "('e, 'k) dash_env \<Rightarrow> CreateRoleParam result \<Rightarrow> ('e, 'k, ac_Role) dash_act" where
  "handler_CreateRole env body =
     act_bind (bad_request (act_of (foreign body))) (\<lambda>param.
       if NewRole_Permissions param = [] then act_fail (NewBadRequest ''no permissions provided'')
       else in_ac (CreateRole (dash_ac env) param []))"

definition handler_PatchRole :: "('e, 'k) dash_env \<Rightarrow> PatchRoleParam result \<Rightarrow> request \<Rightarrow> ('e, 'k, ac_Role) dash_act" where
  "handler_PatchRole env body req =
     (if Param req ''name'' = [] then act_fail (NewBadRequest ''Role name is required'')
      else act_bind (bad_request (act_of (foreign body))) (\<lambda>param.
             if PatchRole_Permissions param = [] then act_fail (NewBadRequest ''no permissions provided'')
             else in_ac (PatchRole (dash_ac env) (Param req ''name'') param)))"

definition handler_DeleteRole :: "('e, 'k) dash_env \<Rightarrow> request \<Rightarrow> ('e, 'k, ac_Role) dash_act" where
  "handler_DeleteRole env req =
     (if Param req ''name'' = [] then act_fail (NewBadRequest ''Role name is required'')
      else in_ac (DeleteRole (dash_ac env) (Param req ''name'') []))"

section \<open>Routes\<close>

datatype ac_route =
    Get_accounts | Post_accounts "CreateAccountParam result" | Patch_accounts "PatchAccountParam result" | Delete_accounts
  | Get_roles | Post_roles "CreateRoleParam result" | Patch_roles "PatchRoleParam result" | Delete_roles
  | Get_info | Get_policies | Post_password "ResetPasswordParam result"
  | Post_login "LoginParam result" | Post_logout | Post_auth "string result"

definition giving :: "('a \<Rightarrow> response_data) \<Rightarrow> ('s, 'a) act \<Rightarrow> ('s, response_data) act" where
  "giving k f = act_bind f (\<lambda>x. act_ret (k x))"

text \<open>\<^verbatim>\<open>InitAccessControlRoutes\<close> and \<^verbatim>\<open>InitUserRoutes\<close>: the handler and the guards of a route.\<close>

fun route_handler :: "('e, 'k) dash_env \<Rightarrow> request \<Rightarrow> ac_route \<Rightarrow> ('e, 'k, response_data) dash_act" where
  "route_handler env req Get_accounts = giving AccountsData (in_ac (ac_ListAccounts (dash_ac env) (dash_map_order env)))"
| "route_handler env req (Post_accounts body) = giving (\<lambda>a. AccountData (Some a)) (handler_CreateAccount env body)"
| "route_handler env req (Patch_accounts body) = giving (\<lambda>a. AccountData (Some a)) (handler_PatchAccount env body req)"
| "route_handler env req Delete_accounts = giving (\<lambda>a. AccountData (Some a)) (handler_DeleteAccount env req)"
| "route_handler env req Get_roles = giving RolesData (in_ac (ListRoles (dash_ac env)))"
| "route_handler env req (Post_roles body) = giving RoleData (handler_CreateRole env body)"
| "route_handler env req (Patch_roles body) = giving RoleData (handler_PatchRole env body req)"
| "route_handler env req Delete_roles = giving RoleData (handler_DeleteRole env req)"
| "route_handler env req Get_info = giving (\<lambda>a. AccountData (Some a)) (GetAccountInfo env)"
| "route_handler env req Get_policies = act_ret (PoliciesData AllPolicies)"
| "route_handler env req (Post_password body) = giving AccountData (ResetPassword env body)"
| "route_handler env req (Post_login body) = giving (\<lambda>a. AccountData (Some a)) (Login env body)"
| "route_handler env req Post_logout = giving TextData (Logout env)"
| "route_handler env req (Post_auth token) = giving UserData (Authz token)"

fun route_guards :: "('e, 'k) dash_env \<Rightarrow> ac_route \<Rightarrow> ('e, 'k) EnforceFunc list" where
  "route_guards env Get_accounts = [PathGuard env ''ac'' ''*'' ''read'']"
| "route_guards env Get_roles = [PathGuard env ''ac'' ''*'' ''read'']"
| "route_guards env Get_info = []"
| "route_guards env Get_policies = []"
| "route_guards env (Post_password _) = []"
| "route_guards env (Post_login _) = []"
| "route_guards env Post_logout = []"
| "route_guards env (Post_auth _) = []"
| "route_guards env _ = [PathGuard env ''ac'' ''*'' ''write'']"

text \<open>A request under \<^verbatim>\<open>/api/v1\<close>; with the debugging variable set there is no login check.\<close>

definition v1_request :: "('e, 'k) dash_env \<Rightarrow> request \<Rightarrow> ac_route \<Rightarrow> ('e, 'k, unit) dash_act" where
  "v1_request env req route =
     (let h = Wrap (route_handler env req route) (route_guards env route) req
      in if ac_Getenv (ac_lookup_env (dash_ac env)) ''DEBUG_DASHBOARD'' = ''true'' then h
         else LoginRequired env (Request_URI req) (RefreshExpiration env (Request_URI req) h))"

end
