(* ===== verification/Dashboard_Guards.thy ===== *)
theory Dashboard_Guards
  imports Dashboard_Requests
begin

text \<open>
  What the dashboard's checks guarantee: who is stopped by the login check, who may change accounts and
  roles, what the unions of guards and the filtered lists mean; and where the checks can be passed by.
\<close>

section \<open>The login check\<close>

text \<open>A session that names a user who is logged in and that has not expired.\<close>

definition logged_in :: "('e, 'k) dash_env \<Rightarrow> ('e, 'k) dash \<Rightarrow> bool" where
  "logged_in env s \<longleftrightarrow>
     (case (Sess_username (Session s), Sess_expiration (Session s)) of
        (Some u, Some t) \<Rightarrow> u \<in> Login_cache s \<and> 0 \<le> t \<and> \<not> t * 10 ^ 9 < dash_now_nanos env (World (Access s))
      | _ \<Rightarrow> False)"

lemma LoginRequired_exempt: "exempt_from_login uri \<Longrightarrow> LoginRequired env uri h = h"
  by (simp add: LoginRequired_def)

lemma LoginRequired_logged_in:
  assumes "\<not> exempt_from_login uri" "logged_in env s"
  shows "LoginRequired env uri h s = h (s\<lparr>Ctx_username := Sess_username (Session s)\<rparr>)"
  using assms by (auto simp: LoginRequired_def logged_in_def split: option.splits)

text \<open>A request that is stopped is answered at once, or its session is expired.\<close>

lemma LoginRequired_refuses:
  assumes "\<not> exempt_from_login uri" "\<not> logged_in env s"
  shows "\<exists>a. (\<forall>h. LoginRequired env uri h s = a) \<and>
           ((\<exists>status msg. a = abort status msg s \<and> status \<in> {401, 403}) \<or> (\<exists>u. a = expire_session env u s))"
  using assms
  by (cases "Sess_username (Session s)"; cases "Sess_expiration (Session s)";
      cases "the (Sess_username (Session s)) \<in> Login_cache s"; cases "the (Sess_expiration (Session s)) < 0")
     (auto simp: LoginRequired_def logged_in_def)

lemma expire_session_answers:
  "\<exists>s' rs. expire_session env u s = (Replied (), s') \<and> Access s' = Access s \<and> Login_cache s' \<subseteq> Login_cache s \<and>
     Responses s' = Responses s @ rs \<and> rs \<noteq> [] \<and> (\<forall>r \<in> set rs. \<not> Response_Successful r \<and> Response_Status r \<in> {401, 403, 500})"
  unfolding expire_session_def session_Save_def abort_def respond_def
  by (cases "dash_save_error env (s\<lparr>Session := no_session\<rparr>)")
     (auto simp: act_bind_def act_catch_def act_update_def act_get_def act_fail_def act_ret_def)

text \<open>
  C36. A request that is not exempt and comes without a session of a logged-in user, or with one that has
  expired, is answered with an error whatever the handler is: the handler does not run, and accounts,
  roles and policies stay as they are.
\<close>

theorem login_is_required:
  assumes "\<not> exempt_from_login uri" "\<not> logged_in env s"
  shows "\<exists>s' rs. (\<forall>h. LoginRequired env uri h s = (Replied (), s')) \<and> Access s' = Access s \<and> Login_cache s' \<subseteq> Login_cache s \<and>
           Responses s' = Responses s @ rs \<and> rs \<noteq> [] \<and>
           (\<forall>r \<in> set rs. \<not> Response_Successful r \<and> Response_Status r \<in> {401, 403, 500})"
proof -
  obtain a where a: "\<forall>h. LoginRequired env uri h s = a"
    and "(\<exists>status msg. a = abort status msg s \<and> status \<in> {401, 403}) \<or> (\<exists>u. a = expire_session env u s)"
    using LoginRequired_refuses [OF assms] by blast
  then show ?thesis using expire_session_answers [of env _ s] by (auto simp: abort_def respond_def act_update_def)
qed

section \<open>Who changes accounts and roles\<close>

definition keeps_access :: "('e, 'k, 'a) dash_act \<Rightarrow> bool" where
  "keeps_access f \<longleftrightarrow> (\<forall>s. Access (snd (f s)) = Access s)"

named_theorems access_intros

lemma keeps_accessD: "keeps_access f \<Longrightarrow> f s = (r, s') \<Longrightarrow> Access s' = Access s"
  unfolding keeps_access_def by (metis snd_conv)

lemma keeps_access_basic [access_intros]:
  "keeps_access (act_ret x)" "keeps_access (act_fail err)" "keeps_access act_panic" "keeps_access (act_get h)"
  "keeps_access (act_of r)" "keeps_access (act_deref p)" "keeps_access (respond status d msg ok)"
  by (auto simp: keeps_access_def act_defs respond_def split: sum.splits option.splits)

lemma keeps_access_update [access_intros]: "(\<And>s. Access (h s) = Access s) \<Longrightarrow> keeps_access (act_update h)"
  by (simp add: keeps_access_def act_update_def)

lemma keeps_access_bind [access_intros]:
  assumes "keeps_access f" "\<And>x. keeps_access (g x)"
  shows "keeps_access (act_bind f g)"
  unfolding keeps_access_def
proof
  fix s obtain r s1 where run: "f s = (r, s1)" by (cases "f s")
  moreover have "Access s1 = Access s" using keeps_accessD [OF assms(1) run] .
  ultimately show "Access (snd (act_bind f g s)) = Access s"
    using assms(2) by (cases r) (simp_all add: act_bind_def keeps_access_def)
qed

lemma keeps_access_catch [access_intros]:
  assumes "keeps_access f"
  shows "keeps_access (act_catch f)" "keeps_access (act_replace k f)"
  using keeps_accessD [OF assms]
  by (auto simp: keeps_access_def act_catch_def act_replace_def split: reply.split prod.split)

lemma keeps_access_in_ac [access_intros]: "reads f \<Longrightarrow> keeps_access (in_ac f)"
  by (auto simp: keeps_access_def in_ac_def dest: reads_state split: prod.split)

lemma keeps_access_Save [access_intros]: "keeps_access (session_Save env)"
  unfolding session_Save_def by (auto intro!: access_intros split: option.split)

lemma keeps_access_abort [access_intros]: "keeps_access (abort status msg)"
  unfolding abort_def by (rule access_intros)

lemma keeps_access_expire [access_intros]: "keeps_access (expire_session env username)"
  unfolding expire_session_def by (auto intro!: access_intros split: sum.split)

lemma keeps_access_guard [access_intros]: "keeps_access (PathGuard env domain resource action req)"
  unfolding PathGuard_def by (auto intro!: access_intros reads_intros split: option.split)

lemma reads_ListRoles [reads_intros]: "reads (ListRoles env)"
  unfolding ListRoles_def by (auto intro!: reads_intros)

lemma reads_ListAccounts [reads_intros]: "reads (ac_ListAccounts env order)"
  unfolding ac_ListAccounts_def fetchAccounts_def by (auto intro!: reads_intros)

lemma reads_GetAccount [reads_intros]: "reads (GetAccount env username)"
  unfolding GetAccount_def by (auto intro!: reads_intros)

lemma keeps_access_serve [access_intros]: "keeps_access f \<Longrightarrow> keeps_access (serve f)"
  unfolding serve_def by (auto intro!: access_intros split: sum.split)

lemma keeps_access_Wrap: "keeps_access f \<Longrightarrow> (\<And>g. g \<in> set gs \<Longrightarrow> keeps_access (g req)) \<Longrightarrow> keeps_access (Wrap f gs req)"
  by (induction gs) (auto intro!: access_intros split: sum.split)

text \<open>The routes whose handlers only read, or only touch the session.\<close>

fun reading_route :: "ac_route \<Rightarrow> bool" where
  "reading_route Get_accounts = True"
| "reading_route Get_roles = True"
| "reading_route Get_info = True"
| "reading_route Get_policies = True"
| "reading_route Post_logout = True"
| "reading_route (Post_auth _) = True"
| "reading_route _ = False"

lemma reading_route_keeps:
  assumes "reading_route route"
  shows "keeps_access (Wrap (route_handler env req route) (route_guards env route) req)"
proof (rule keeps_access_Wrap)
  show "keeps_access (route_handler env req route)"
    using assms
    by (cases route)
       (auto simp: giving_def GetAccountInfo_def Logout_def Authz_def ValidateToken_def bad_request_def
         intro!: access_intros reads_intros split: option.split)
  show "keeps_access (g req)" if "g \<in> set (route_guards env route)" for g
    using assms that by (cases route) (auto intro: access_intros)
qed

definition may_write_ac :: "('e, 'k) dash_env \<Rightarrow> ('e, 'k) dash \<Rightarrow> bool" where
  "may_write_ac env s \<longleftrightarrow>
     (\<exists>u. Sess_username (Session s) = Some u \<and> cb_Enforce (ac_casbin (dash_ac env)) (Enf (Access s)) u ''ac/*'' ''write'' = Inr True)"

lemma path_resource_star [simp]: "path_resource req ''*'' = ''*''"
  by (simp add: path_resource_def path_part_def HasPrefix_def)

lemma guarded_Wrap_stops:
  assumes "\<not> may_write_ac env s"
  shows "Access (snd (Wrap h [PathGuard env ''ac'' ''*'' ''write''] req s)) = Access s"
proof (cases "Sess_username (Session s)")
  case None
  then show ?thesis
    by (simp add: PathGuard_def act_catch_def act_bind_def act_get_def act_fail_def respond_def act_update_def)
next
  case (Some u)
  then obtain x where "cb_Enforce (ac_casbin (dash_ac env)) (Enf (Access s)) u ''ac/*'' ''write'' = x" "x \<noteq> Inr True"
    using assms by (auto simp: may_write_ac_def)
  then show ?thesis
    using Some
    by (cases x)
       (auto simp: PathGuard_def act_catch_def act_bind_def act_get_def act_fail_def act_ret_def act_of_def respond_def
         act_update_def in_ac_def ask_enf_def foreign_def)
qed

lemma Wrap_change_allowed:
  assumes "Access (snd (Wrap (route_handler env req route) (route_guards env route) req s)) \<noteq> Access s"
    and "\<And>b. route \<noteq> Post_login b" "\<And>b. route \<noteq> Post_password b"
  shows "may_write_ac env s"
proof (rule ccontr)
  assume no: "\<not> may_write_ac env s"
  have "reading_route route \<or> route_guards env route = [PathGuard env ''ac'' ''*'' ''write'']"
    using assms(2,3) by (cases route) auto
  then show False
    using assms(1) guarded_Wrap_stops [OF no] reading_route_keeps [of route env req] by (auto simp: keeps_access_def)
qed

text \<open>The middleware hands the handler a state with the same access control and the same user of the session.\<close>

definition same_user :: "('e, 'k) dash \<Rightarrow> ('e, 'k) dash \<Rightarrow> bool" where
  "same_user s t \<longleftrightarrow> Access t = Access s \<and> Sess_username (Session t) = Sess_username (Session s)"

lemma RefreshExpiration_runs:
  "Access (snd (RefreshExpiration env uri h s)) = Access s \<or>
     (\<exists>t. same_user s t \<and> RefreshExpiration env uri h s = h t)"
proof (cases "HasSuffix uri ''login'' \<or> HasSuffix uri ''info''")
  case True
  then have "RefreshExpiration env uri h s = h s" by (simp add: RefreshExpiration_def)
  then show ?thesis by (auto simp: same_user_def)
next
  case False
  let ?s = "s\<lparr>Session := (Session s)\<lparr>Sess_expiration := Some (unix_now env s + DefaultSessionExpiration)\<rparr>\<rparr>"
  have run: "RefreshExpiration env uri h s = act_bind (act_catch (session_Save env))
      (\<lambda>r. case r of Inl _ \<Rightarrow> abort 500 ''failed to save session'' | Inr _ \<Rightarrow> h) ?s"
    using False by (simp add: RefreshExpiration_def)
  show ?thesis
  proof (cases "dash_save_error env ?s")
    case None
    then have "RefreshExpiration env uri h s = h (?s\<lparr>Cookie := Session ?s\<rparr>)"
      unfolding run by (simp add: session_Save_def act_catch_def act_bind_def act_get_def act_update_def)
    moreover have "same_user s (?s\<lparr>Cookie := Session ?s\<rparr>)" by (simp add: same_user_def)
    ultimately show ?thesis by blast
  next
    case (Some e)
    then have "Access (snd (RefreshExpiration env uri h s)) = Access s"
      unfolding run
      by (simp add: session_Save_def act_catch_def act_bind_def act_get_def act_fail_def abort_def respond_def act_update_def)
    then show ?thesis ..
  qed
qed

lemma LoginRequired_runs:
  "Access (snd (LoginRequired env uri h s)) = Access s \<or>
     (\<exists>t. same_user s t \<and> LoginRequired env uri h s = h t)"
proof (cases "exempt_from_login uri \<or> logged_in env s")
  case True
  then show ?thesis
  proof (cases "exempt_from_login uri")
    case True
    then show ?thesis by (auto simp: LoginRequired_exempt same_user_def)
  next
    case False
    then have "LoginRequired env uri h s = h (s\<lparr>Ctx_username := Sess_username (Session s)\<rparr>)"
      using True by (simp add: LoginRequired_logged_in)
    moreover have "same_user s (s\<lparr>Ctx_username := Sess_username (Session s)\<rparr>)" by (simp add: same_user_def)
    ultimately show ?thesis by blast
  qed
next
  case False
  then show ?thesis by (auto simp: LoginRequired_def logged_in_def keeps_access_abort [unfolded keeps_access_def]
      keeps_access_expire [unfolded keeps_access_def] split: option.split)
qed

text \<open>
  C12. Accounts, roles, credentials and saved policies change through a request only if it is a log in, a
  change of one's own password, or made in the name of a user the policies allow to write access control
  at that moment.
\<close>

theorem ac_change_needs_permission:
  assumes run: "v1_request env req route s = (r, s')" and change: "Access s' \<noteq> Access s"
    and other: "\<And>b. route \<noteq> Post_login b" "\<And>b. route \<noteq> Post_password b"
  shows "\<exists>u. Sess_username (Session s) = Some u \<and>
           cb_Enforce (ac_casbin (dash_ac env)) (Enf (Access s)) u ''ac/*'' ''write'' = Inr True"
proof -
  define h where "h = Wrap (route_handler env req route) (route_guards env route) req"
  have "\<exists>t. same_user s t \<and> v1_request env req route s = h t"
  proof (cases "ac_Getenv (ac_lookup_env (dash_ac env)) ''DEBUG_DASHBOARD'' = ''true''")
    case True
    then show ?thesis by (intro exI [of _ s]) (simp add: v1_request_def h_def same_user_def Let_def)
  next
    case False
    then have "v1_request env req route s = LoginRequired env (Request_URI req) (RefreshExpiration env (Request_URI req) h) s"
      by (simp add: v1_request_def h_def Let_def)
    then show ?thesis
      using LoginRequired_runs [of env "Request_URI req" "RefreshExpiration env (Request_URI req) h" s]
        RefreshExpiration_runs [of env "Request_URI req" h] run change
      unfolding same_user_def by (metis snd_conv)
  qed
  then obtain t where t: "same_user s t" "h t = (r, s')" using run by auto
  then have "Access (snd (h t)) \<noteq> Access t" using change by (simp add: same_user_def)
  then have "may_write_ac env t" unfolding h_def using Wrap_change_allowed other by blast
  then show ?thesis using t(1) by (simp add: may_write_ac_def same_user_def)
qed

section \<open>Logging in\<close>

text \<open>
  A log in that succeeds was made with a password whose hash is the stored one. From then on the
  session is that of the user, it is in the browser's cookie, and the login check lets requests through.
\<close>

theorem login_admits:
  assumes ok: "Login env body s = (Replied acc, s')" and clock: "0 \<le> dash_now_nanos env (World (Access s'))"
  shows "\<exists>param pwd c line creds. body = Inr param \<and> dash_decrypt env (Login_Password param) = Inr pwd \<and>
           getDashboardUserCredentials (dash_ac env) (Access s) = (Replied c, Access s) \<and>
           nil_get (Secret_Data c) (Login_Username param) = Some line \<and> NewAccountCreds line = Inr creds \<and>
           EncryptedPassword creds = ac_hex_sha256 (dash_ac env) pwd \<and>
           Sess_username (Session s') = Some (Login_Username param) \<and> Cookie s' = Session s' \<and> logged_in env s'"
proof -
  obtain param pwd a1 where body: "body = Inr param" and pwd: "dash_decrypt env (Login_Password param) = Inr pwd"
    and valid: "ValidateAccount (dash_ac env) (Login_Username param) pwd (Access s) = (Replied acc, a1)"
    and s': "s' = s\<lparr>Access := a1,
      Session := \<lparr>Sess_username = Some (Login_Username param), Sess_expiration = Some (dash_now_nanos env (World a1) div 10 ^ 9 + 3600)\<rparr>,
      Cookie := \<lparr>Sess_username = Some (Login_Username param), Sess_expiration = Some (dash_now_nanos env (World a1) div 10 ^ 9 + 3600)\<rparr>,
      Login_cache := insert (Login_Username param) (Login_cache s)\<rparr>"
    using ok
    by (auto simp: Login_def bad_request_def decrypt_password_def foreign_def in_ac_def session_Save_def unix_now_def
        DefaultSessionExpiration_def act_iffs split: sum.splits prod.splits option.splits)
  have "dash_now_nanos env (World a1) \<le> (dash_now_nanos env (World a1) div 10 ^ 9 + 3600) * 10 ^ 9"
    by simp
  moreover have "0 \<le> dash_now_nanos env (World a1) div 10 ^ 9 + 3600" using clock s' by simp
  ultimately have "logged_in env s'" using s' by (simp add: logged_in_def)
  then show ?thesis using login_needs_password [OF valid] body pwd s' by auto
qed

section \<open>Unions of guards and filtered lists\<close>

lemma union_loop_run:
  assumes "\<forall>f \<in> set fs. \<exists>b. f req s = (Replied b, s)"
  shows "union_loop allPass fs req s =
      (Replied (if allPass then \<forall>f \<in> set fs. fst (f req s) = Replied True else \<exists>f \<in> set fs. fst (f req s) = Replied True), s)"
  using assms
proof (induction fs)
  case (Cons f fs)
  then obtain b where "f req s = (Replied b, s)" by auto
  with Cons show ?case by (auto simp: act_bind_run(1) act_applied)
qed (simp add: act_applied)

text \<open>
  Where every guard answers, the first union allows a request when some guard does, and the second
  when all do.
\<close>

theorem guard_unions:
  assumes "\<forall>f \<in> set fs. \<exists>b. f req s = (Replied b, s)"
  shows "OR_guard fs req s = (Replied (\<exists>f \<in> set fs. fst (f req s) = Replied True), s) \<and>
         AND_guard fs req s = (Replied (\<forall>f \<in> set fs. fst (f req s) = Replied True), s)"
  by (simp add: OR_guard_def AND_guard_def unionHelper_def union_loop_run [OF assms])

lemma filter_allowed_run:
  "filter_allowed env username action cluster items s =
     (Replied (filter (\<lambda>c. cb_Enforce (ac_casbin env) (Enf s) username (''obcluster/'' @ cluster c) action = Inr True) items), s)"
proof (induction items)
  case (Cons c cs)
  obtain x where "cb_Enforce (ac_casbin env) (Enf s) username (''obcluster/'' @ cluster c) action = x" by simp
  then show ?case
    using Cons.IH
    by (cases x) (auto simp: ac_Enforce_def ask_enf_def NewPolicy_def ComposeDomainObject_def DomainOBCluster_def foreign_def
        act_bind_def act_catch_def act_fail_def act_ret_def)
qed (simp add: act_applied)

text \<open>
  The lists of clusters and of tenants a user sees hold, in their order, exactly the entries whose
  cluster the policies let the user read: no entry is shown when the enforcer fails.
\<close>

theorem listed_entries_are_allowed:
  "filterClusters env username action clusters s =
     (Replied (filter (\<lambda>c. cb_Enforce (ac_casbin env) (Enf s) username (''obcluster/'' @ Name c) action = Inr True) clusters), s) \<and>
   filterTenants env username action tenants s =
     (Replied (filter (\<lambda>t. cb_Enforce (ac_casbin env) (Enf s) username (''obcluster/'' @ TenantSpec_ClusterName t) action = Inr True) tenants), s)"
  by (simp add: filterClusters_def filterTenants_def filter_allowed_run)

section \<open>Instances, and ways around\<close>

definition sample_dash_env :: "(rule list \<times> (string \<times> string) list, dict option \<times> dict option) dash_env" where
  "sample_dash_env =
     \<lparr>dash_ac = sample_ac_env, dash_now_nanos = (\<lambda>k. 50 * 10 ^ 9), dash_save_error = (\<lambda>s. None), dash_decrypt = Inr,
      dash_get_tenant = (\<lambda>ns name k. Inl NotFound), dash_map_order = (\<lambda>m. [''root''])\<rparr>"

definition sample_dash :: "session \<Rightarrow> string set \<Rightarrow> (rule list \<times> (string \<times> string) list, dict option \<times> dict option) dash" where
  "sample_dash session users =
     \<lparr>Access = sample_ac_state, Login_cache = users, Token_pool = Map.empty, Session = session, Cookie = session,
      Ctx_username = None, Responses = []\<rparr>"

definition root_session :: session where
  "root_session = \<lparr>Sess_username = Some ''root'', Sess_expiration = Some 3000\<rparr>"

definition old_session :: session where
  "old_session = \<lparr>Sess_username = Some ''root'', Sess_expiration = Some 1\<rparr>"

definition role_request :: "string \<Rightarrow> request" where
  "role_request uri = \<lparr>Request_URI = uri, Request_Params = [''name'' \<mapsto> ''reader'']\<rparr>"

theorem login_is_required_witness:
  "\<exists>s' rs. (\<forall>h. LoginRequired sample_dash_env ''/api/v1/obclusters'' h (sample_dash old_session {''root''}) = (Replied (), s')) \<and>
     Access s' = sample_ac_state \<and> Responses s' = rs \<and> rs \<noteq> [] \<and> (\<forall>r \<in> set rs. Response_Status r \<in> {401, 403, 500})"
proof -
  have "\<not> exempt_from_login ''/api/v1/obclusters''" by code_simp
  moreover have "\<not> logged_in sample_dash_env (sample_dash old_session {''root''})"
    by (simp add: logged_in_def sample_dash_def old_session_def sample_dash_env_def)
  ultimately show ?thesis
    using login_is_required [of "''/api/v1/obclusters''" sample_dash_env "sample_dash old_session {''root''}"]
    by (auto simp: sample_dash_def)
qed

lemma role_changes:
  "fst (Enf (Access (snd (v1_request sample_dash_env (role_request ''/api/v1/ac/roles/reader'') (Patch_roles (Inr tenant_reader))
     (sample_dash root_session {''root''}))))) \<noteq> fst (Enf sample_ac_state)"
  by code_simp

theorem ac_change_needs_permission_witness:
  "cb_Enforce listed_casbin (Enf sample_ac_state) ''root'' ''ac/*'' ''write'' = Inr True"
proof -
  let ?s = "sample_dash root_session {''root''}" and ?route = "Patch_roles (Inr tenant_reader)"
  let ?run = "v1_request sample_dash_env (role_request ''/api/v1/ac/roles/reader'') ?route ?s"
  have "Access (snd ?run) \<noteq> Access ?s" using role_changes by (auto simp: sample_dash_def)
  from ac_change_needs_permission [OF prod.collapse [symmetric, of ?run] this]
  show ?thesis by (simp add: sample_dash_def root_session_def sample_dash_env_def)
qed

theorem login_admits_witness:
  "\<exists>acc s'. Login sample_dash_env (Inr \<lparr>Login_Username = ''root'', Login_Password = ''secret''\<rparr>) (sample_dash no_session {}) =
     (Replied acc, s') \<and> logged_in sample_dash_env s'"
proof -
  let ?run = "Login sample_dash_env (Inr \<lparr>Login_Username = ''root'', Login_Password = ''secret''\<rparr>) (sample_dash no_session {})"
  have "(case fst ?run of Replied _ \<Rightarrow> True | _ \<Rightarrow> False)" by code_simp
  then obtain acc s' where run: "?run = (Replied acc, s')" by (cases ?run) (auto split: reply.splits)
  have "0 \<le> dash_now_nanos sample_dash_env (World (Access s'))" by (simp add: sample_dash_env_def)
  from login_admits [OF run this] show ?thesis using run by blast
qed

theorem guard_unions_witness:
  "OR_guard [\<lambda>req. act_ret False, \<lambda>req. act_ret True] (role_request []) (sample_dash no_session {}) = (Replied True, sample_dash no_session {})"
  using guard_unions [of "[\<lambda>req. act_ret False, \<lambda>req. act_ret True]" "role_request []" "sample_dash no_session {}"]
  by (auto simp: act_applied)

text \<open>
  The exemption looks at the end of the URI with its query string: with a query that ends in
  \<^verbatim>\<open>login\<close> a cookie that was logged out long ago, whose session has expired, still changes roles.
\<close>

lemma query_string_skips_login:
  "let change = (\<lambda>uri. Enf (Access (snd (v1_request sample_dash_env (role_request uri) (Patch_roles (Inr tenant_reader)) (sample_dash old_session {})))))
   in change ''/api/v1/ac/roles/reader'' = Enf sample_ac_state \<and>
      change ''/api/v1/ac/roles/reader?from=login'' \<noteq> Enf sample_ac_state"
  by code_simp

text \<open>
  The guard of a cluster's routes asks for its namespace and name, the lists ask for its name alone: with
  a permission for the one a user opens a cluster that the list hides.
\<close>

definition dev_state :: "(rule list \<times> (string \<times> string) list, dict option \<times> dict option) ac_state" where
  "dev_state = sample_ac_state\<lparr>Enf := ([[''dev'', ''obcluster/default+test'', ''read'', []]], [(''ann'', ''dev'')])\<rparr>"

lemma cluster_hidden_but_open:
  assumes "Name c = ''test''"
  shows "fst (PathGuard sample_dash_env ''obcluster'' '':namespace+:name'' ''read''
            \<lparr>Request_URI = [], Request_Params = [''namespace'' \<mapsto> ''default'', ''name'' \<mapsto> ''test'']\<rparr>
            ((sample_dash \<lparr>Sess_username = Some ''ann'', Sess_expiration = None\<rparr> {})\<lparr>Access := dev_state\<rparr>)) = Replied True"
    and "fst (filterClusters sample_ac_env ''ann'' ''read'' [c] dev_state) = Replied []"
proof -
  have "cb_Enforce listed_casbin (Enf dev_state) ''ann'' ''obcluster/test'' ''read'' = Inr False" by code_simp
  then show "fst (filterClusters sample_ac_env ''ann'' ''read'' [c] dev_state) = Replied []"
    unfolding filterClusters_def filter_allowed_run using assms by simp
qed code_simp

end
