(* ===== verification/Crypto.thy ===== *)
theory Crypto
  imports Go_Strings
begin

text \<open>
  The encryption of the credentials the dashboard receives, \<^verbatim>\<open>pkg/crypto\<close>: AES in cipher block
  chaining mode with padding, in base64. The block cipher of a key, RSA and the random bytes are
  parameters; base64 and the chaining mode are those of Go's standard library. A byte is a character.
\<close>

unbundle bit_operations_syntax

section \<open>Base64\<close>

definition b64_alphabet :: string where
  "b64_alphabet = ''ABCDEFGHIJKLMNOPQRSTUVWXYZabcdefghijklmnopqrstuvwxyz0123456789+/''"

definition b64_char :: "nat \<Rightarrow> char" where
  "b64_char n = b64_alphabet ! n"

definition b64_value :: "char \<Rightarrow> nat option" where
  "b64_value c = index_of c b64_alphabet"

definition byte :: "char \<Rightarrow> nat" where
  "byte c = of_char c"

text \<open>\<^verbatim>\<open>StdEncoding.EncodeToString\<close>: three bytes become four characters, the last group is padded.\<close>

fun b64_encode :: "string \<Rightarrow> string" where
  "b64_encode [] = []"
| "b64_encode [a] = (let v = byte a * 65536 in [b64_char (v div 262144), b64_char (v div 4096 mod 64), CHR ''='', CHR ''=''])"
| "b64_encode [a, b] =
     (let v = byte a * 65536 + byte b * 256
      in [b64_char (v div 262144), b64_char (v div 4096 mod 64), b64_char (v div 64 mod 64), CHR ''=''])"
| "b64_encode (a # b # c # rest) =
     (let v = byte a * 65536 + byte b * 256 + byte c
      in [b64_char (v div 262144), b64_char (v div 4096 mod 64), b64_char (v div 64 mod 64), b64_char (v mod 64)] @ b64_encode rest)"

text \<open>
  \<^verbatim>\<open>StdEncoding.DecodeString\<close> on a text without line breaks: padding only at the end, the bits of a
  padded group that encode nothing are ignored.
\<close>

fun b64_quads :: "string \<Rightarrow> string option" where
  "b64_quads [] = Some []"
| "b64_quads (a # b # c # d # rest) =
     (case (b64_value a, b64_value b) of
        (Some w, Some x) \<Rightarrow>
          if c = CHR ''='' then (if d = CHR ''='' \<and> rest = [] then Some [char_of ((w * 64 + x) div 16)] else None)
          else (case b64_value c of
             None \<Rightarrow> None
           | Some y \<Rightarrow>
               if d = CHR ''='' then
                 (if rest = [] then let v = (w * 64 + x) * 64 + y in Some [char_of (v div 1024), char_of (v div 4)] else None)
               else (case (b64_value d, b64_quads rest) of
                  (Some z, Some ds) \<Rightarrow>
                    let v = ((w * 64 + x) * 64 + y) * 64 + z in Some (char_of (v div 65536) # char_of (v div 256) # char_of v # ds)
                | _ \<Rightarrow> None))
      | _ \<Rightarrow> None)"
| "b64_quads _ = None"

definition b64_decode :: "string \<Rightarrow> string option" where
  "b64_decode s = b64_quads (filter (\<lambda>c. c \<noteq> CHR 0x0A \<and> c \<noteq> CHR 0x0D) s)"

section \<open>Cipher block chaining and padding\<close>

abbreviation (input) BlockSize :: nat where "BlockSize \<equiv> 16"

definition xor_char :: "char \<Rightarrow> char \<Rightarrow> char" where
  "xor_char a b = char_of (byte a XOR byte b)"

function CBCEncrypt :: "(string \<Rightarrow> string) \<Rightarrow> string \<Rightarrow> string \<Rightarrow> string" where
  "CBCEncrypt E prev data =
     (if length data < BlockSize then []
      else let c = E (map2 xor_char (take BlockSize data) prev) in c @ CBCEncrypt E c (drop BlockSize data))"
  by pat_completeness auto
termination by (relation "measure (\<lambda>(E, prev, data). length data)") auto

function CBCDecrypt :: "(string \<Rightarrow> string) \<Rightarrow> string \<Rightarrow> string \<Rightarrow> string" where
  "CBCDecrypt D prev data =
     (if length data < BlockSize then []
      else map2 xor_char (D (take BlockSize data)) prev @ CBCDecrypt D (take BlockSize data) (drop BlockSize data))"
  by pat_completeness auto
termination by (relation "measure (\<lambda>(D, prev, data). length data)") auto

declare CBCEncrypt.simps [simp del] CBCDecrypt.simps [simp del]

definition PKCS7Pad :: "string \<Rightarrow> nat \<Rightarrow> string" where
  "PKCS7Pad data blockSize =
     (let paddingLen = blockSize - length data mod blockSize in data @ replicate paddingLen (char_of paddingLen))"

text \<open>Reading the last byte of no data, or cutting off more than there is, panics.\<close>

definition PKCS7Unpad :: "string \<Rightarrow> string option" where
  "PKCS7Unpad data =
     (if data = [] then None
      else let paddingLen = byte (last data)
           in if paddingLen \<le> length data then Some (take (length data - paddingLen) data) else None)"

text \<open>\<open>E key\<close> and \<open>D key\<close> are the block cipher's two directions, \<open>iv\<close> the bytes the reader of random bytes gave.\<close>

definition AESEncrypt :: "(string \<Rightarrow> string \<Rightarrow> string) \<Rightarrow> string result \<Rightarrow> string \<Rightarrow> string \<Rightarrow> string result" where
  "AESEncrypt E random key content =
     (if length key \<noteq> 32 then Inl (OtherError ''key must be 32 bytes for AES-256'')
      else case random of
        Inl _ \<Rightarrow> Inl (OtherError ''failed to generate IV'')
      | Inr iv \<Rightarrow> Inr (b64_encode (iv @ CBCEncrypt (E key) iv (PKCS7Pad content BlockSize))))"

definition AESDecrypt :: "(string \<Rightarrow> string \<Rightarrow> string) \<Rightarrow> string \<Rightarrow> string \<Rightarrow> string result option" where
  "AESDecrypt D key content =
     (case b64_decode content of
        None \<Rightarrow> Some (Inl (OtherError ''failed to decode base64 content''))
      | Some encryptedData \<Rightarrow>
          if length key \<noteq> 32 then Some (Inl (OtherError ''key must be 32 bytes for AES-256''))
          else if length encryptedData < BlockSize then Some (Inl (OtherError ''encrypted data is too short''))
          else let iv = take BlockSize encryptedData; body = drop BlockSize encryptedData
          in if length body mod BlockSize \<noteq> 0 then Some (Inl (OtherError ''encrypted data is not a multiple of the block size''))
          else map_option Inr (PKCS7Unpad (CBCDecrypt (D key) iv body)))"

text \<open>\<^verbatim>\<open>DecryptWithPrivateKey\<close>, given the decryption with the process's private key.\<close>

definition DecryptWithPrivateKey :: "(string \<Rightarrow> string result) \<Rightarrow> string \<Rightarrow> string result" where
  "DecryptWithPrivateKey rsa plainText =
     (case b64_decode plainText of None \<Rightarrow> Inl (OtherError ''illegal base64 data'') | Some pwdBytes \<Rightarrow> rsa pwdBytes)"

section \<open>Lemmas\<close>

lemma byte_less [simp]: "byte c < 256"
  by (simp add: byte_def)

lemma char_of_byte [simp]: "char_of (byte c) = c"
  by (simp add: byte_def)

lemma byte_char_of: "byte (char_of n) = n mod 256"
  by (simp add: byte_def)

lemma b64_values: "n < 64 \<Longrightarrow> b64_value (b64_char n) = Some n \<and> b64_char n \<noteq> CHR ''='' \<and> b64_char n \<noteq> CHR 0x0A \<and> b64_char n \<noteq> CHR 0x0D"
proof -
  have "\<forall>n \<in> set [0..<64]. b64_value (b64_char n) = Some n \<and> b64_char n \<noteq> CHR ''='' \<and> b64_char n \<noteq> CHR 0x0A \<and> b64_char n \<noteq> CHR 0x0D"
    by code_simp
  then show "n < 64 \<Longrightarrow> ?thesis" by simp
qed

text \<open>The digits of a number in base 64, put together from the left.\<close>

lemma b64_digits:
  fixes v :: nat
  shows "v div 262144 * 64 + v div 4096 mod 64 = v div 4096" "v div 4096 * 64 + v div 64 mod 64 = v div 64"
    "v div 64 * 64 + v mod 64 = v" "v div 4096 div 16 = v div 65536" "v div 64 div 4 = v div 256" "v div 64 div 1024 = v div 65536"
proof -
  have "w div 64 * 64 + w mod 64 = w" for w :: nat by simp
  from this [of "v div 4096"] this [of "v div 64"] this [of v]
  show "v div 262144 * 64 + v div 4096 mod 64 = v div 4096" "v div 4096 * 64 + v div 64 mod 64 = v div 64"
    "v div 64 * 64 + v mod 64 = v"
    by (simp_all only: div_mult2_eq [symmetric]) simp_all
qed (simp_all add: div_mult2_eq [symmetric])

lemma char_of_eqI: "n mod 256 = byte a \<Longrightarrow> char_of n = a"
  by (metis char_of_byte char_of_mod_256)

lemma char_of_bytes:
  assumes v: "v = byte a * 65536 + byte b * 256 + byte c"
  shows "char_of (v div 65536) = a" "char_of (v div 256) = b" "char_of v = c" "v div 262144 < 64"
proof -
  have cut: "(x * 256 + y) div 256 = x" "(x * 256 + y) mod 256 = y" if "y < 256" for x y :: nat
    using that by simp_all
  have "v = (byte a * 256 + byte b) * 256 + byte c" using v by simp
  then have "v div 256 = byte a * 256 + byte b" "v mod 256 = byte c" using cut byte_less by presburger+
  moreover from this have "v div 65536 = byte a"
    using cut(1) [of "byte b" "byte a"] div_mult2_eq [of v 256 256] by simp
  moreover have "v div 262144 = v div 65536 div 4" by (simp add: div_mult2_eq [symmetric])
  moreover have "byte a div 4 < 64" using byte_less [of a] by (simp add: less_mult_imp_div_less)
  ultimately show "char_of (v div 65536) = a" "char_of (v div 256) = b" "char_of v = c" "v div 262144 < 64"
    by (auto intro!: char_of_eqI)
qed

lemma b64_roundtrip_quads: "b64_quads (b64_encode s) = Some s"
proof (induction s rule: b64_encode.induct)
  case (2 a)
  define v where "v = byte a * 65536"
  have "v = byte a * 65536 + byte (char_of (0 :: nat)) * 256 + byte (char_of (0 :: nat))" by (simp add: v_def byte_char_of)
  note bytes = char_of_bytes [OF this]
  have "b64_encode [a] = [b64_char (v div 262144), b64_char (v div 4096 mod 64), CHR ''='', CHR ''='']"
    by (simp only: b64_encode.simps Let_def v_def)
  then show ?case using b64_values [OF bytes(4)] b64_values [of "v div 4096 mod 64"] bytes(1) by (simp add: b64_digits)
next
  case (3 a b)
  define v where "v = byte a * 65536 + byte b * 256"
  have "v = byte a * 65536 + byte b * 256 + byte (char_of (0 :: nat))" by (simp add: v_def byte_char_of)
  note bytes = char_of_bytes [OF this]
  have "b64_encode [a, b] = [b64_char (v div 262144), b64_char (v div 4096 mod 64), b64_char (v div 64 mod 64), CHR ''='']"
    by (simp only: b64_encode.simps Let_def v_def)
  then show ?case
    using b64_values [OF bytes(4)] b64_values [of "v div 4096 mod 64"] b64_values [of "v div 64 mod 64"] bytes(1,2)
    by (simp add: b64_digits)
next
  case (4 a b c more)
  define v where "v = byte a * 65536 + byte b * 256 + byte c"
  note bytes = char_of_bytes [OF v_def]
  have "b64_encode (a # b # c # more) =
      [b64_char (v div 262144), b64_char (v div 4096 mod 64), b64_char (v div 64 mod 64), b64_char (v mod 64)] @ b64_encode more"
    by (simp only: b64_encode.simps Let_def v_def)
  then show ?case
    using 4 [OF v_def] b64_values [OF bytes(4)] b64_values [of "v div 4096 mod 64"] b64_values [of "v div 64 mod 64"] b64_values [of "v mod 64"] bytes(1-3)
    by (simp add: b64_digits)
qed simp

lemma b64_encode_no_breaks: "c \<in> set (b64_encode s) \<Longrightarrow> c \<noteq> CHR 0x0A \<and> c \<noteq> CHR 0x0D"
proof (induction s rule: b64_encode.induct)
  case (2 a)
  define v where "v = byte a * 65536"
  have "v = byte a * 65536 + byte (char_of (0 :: nat)) * 256 + byte (char_of (0 :: nat))" by (simp add: v_def byte_char_of)
  note bytes = char_of_bytes [OF this]
  have "b64_encode [a] = [b64_char (v div 262144), b64_char (v div 4096 mod 64), CHR ''='', CHR ''='']"
    by (simp only: b64_encode.simps Let_def v_def)
  then show ?case using 2 b64_values [OF bytes(4)] b64_values [of "v div 4096 mod 64"] by auto
next
  case (3 a b)
  define v where "v = byte a * 65536 + byte b * 256"
  have "v = byte a * 65536 + byte b * 256 + byte (char_of (0 :: nat))" by (simp add: v_def byte_char_of)
  note bytes = char_of_bytes [OF this]
  have "b64_encode [a, b] = [b64_char (v div 262144), b64_char (v div 4096 mod 64), b64_char (v div 64 mod 64), CHR ''='']"
    by (simp only: b64_encode.simps Let_def v_def)
  then show ?case using 3 b64_values [OF bytes(4)] b64_values [of "v div 4096 mod 64"] b64_values [of "v div 64 mod 64"] by auto
next
  case (4 a b c' more)
  define v where "v = byte a * 65536 + byte b * 256 + byte c'"
  note bytes = char_of_bytes [OF v_def]
  have "b64_encode (a # b # c' # more) =
      [b64_char (v div 262144), b64_char (v div 4096 mod 64), b64_char (v div 64 mod 64), b64_char (v mod 64)] @ b64_encode more"
    by (simp only: b64_encode.simps Let_def v_def)
  then show ?case
    using 4(1) [OF v_def] 4(2) b64_values [OF bytes(4)] b64_values [of "v div 4096 mod 64"] b64_values [of "v div 64 mod 64"]
      b64_values [of "v mod 64"] by auto
qed simp

lemma b64_roundtrip: "b64_decode (b64_encode s) = Some s"
proof -
  have "filter (\<lambda>c. c \<noteq> CHR 0x0A \<and> c \<noteq> CHR 0x0D) (b64_encode s) = b64_encode s"
    using b64_encode_no_breaks by (intro filter_True) blast
  then show ?thesis by (simp add: b64_decode_def b64_roundtrip_quads)
qed

lemma xor_char_twice [simp]: "xor_char (xor_char a b) b = a"
proof -
  have small: "take_bit 8 (byte x) = byte x" for x
    using byte_less [of x] by (simp add: take_bit_nat_eq_self)
  have "byte (xor_char a b) = take_bit 8 (byte a XOR byte b)"
    by (simp add: xor_char_def byte_char_of take_bit_eq_mod)
  also have "\<dots> = byte a XOR byte b" by (simp add: take_bit_xor small)
  finally have "(byte (xor_char a b) XOR byte b) mod 256 = byte a"
    by (simp add: xor.assoc)
  then show ?thesis unfolding xor_char_def [of "xor_char a b"] by (rule char_of_eqI)
qed

lemma map2_xor_twice: "length xs = length ys \<Longrightarrow> map2 xor_char (map2 xor_char xs ys) ys = xs"
  by (induction xs ys rule: list_induct2) simp_all

definition block_cipher :: "(string \<Rightarrow> string) \<Rightarrow> (string \<Rightarrow> string) \<Rightarrow> bool" where
  "block_cipher E D \<longleftrightarrow> (\<forall>b. length b = 16 \<longrightarrow> length (E b) = 16 \<and> D (E b) = b)"

lemma block_cipherD:
  "block_cipher E D \<Longrightarrow> length b = 16 \<Longrightarrow> length (E b) = 16" "block_cipher E D \<Longrightarrow> length b = 16 \<Longrightarrow> D (E b) = b"
  by (simp_all add: block_cipher_def)

lemma CBC_roundtrip:
  assumes "block_cipher E D" "length prev = 16" "length data mod 16 = 0"
  shows "CBCDecrypt D prev (CBCEncrypt E prev data) = data \<and> length (CBCEncrypt E prev data) mod 16 = 0"
  using assms
proof (induction E prev data rule: CBCEncrypt.induct)
  case (1 E prev data)
  show ?case
  proof (cases "length data < 16")
    case True
    then have "data = []" using "1.prems"(3) by simp
    then show ?thesis by (simp add: CBCEncrypt.simps CBCDecrypt.simps)
  next
    case False
    define c where "c = E (map2 xor_char (take 16 data) prev)"
    have c: "length c = 16" "D c = map2 xor_char (take 16 data) prev"
    proof -
      have "length (map2 xor_char (take 16 data) prev) = 16" using False "1.prems"(2) by simp
      then show "length c = 16" "D c = map2 xor_char (take 16 data) prev"
        unfolding c_def by (rule block_cipherD [OF "1.prems"(1)])+
    qed
    have "length (drop 16 data) mod 16 = 0" using "1.prems"(3) False by (simp add: mod_if [of "length data"])
    then have rest: "CBCDecrypt D c (CBCEncrypt E c (drop 16 data)) = drop 16 data" "length (CBCEncrypt E c (drop 16 data)) mod 16 = 0"
      using "1.IH" [OF False c_def "1.prems"(1) c(1)] by simp_all
    have "CBCEncrypt E prev data = c @ CBCEncrypt E c (drop 16 data)"
      using False by (simp add: CBCEncrypt.simps [of E prev] c_def Let_def)
    then show ?thesis
      using rest c False "1.prems"(2) by (simp add: CBCDecrypt.simps [of D prev] map2_xor_twice)
  qed
qed

lemma PKCS7_roundtrip:
  assumes "0 < n" "n < 256"
  shows "PKCS7Unpad (PKCS7Pad data n) = Some data" "length (PKCS7Pad data n) mod n = 0"
proof -
  define k where "k = n - length data mod n"
  have k: "0 < k" "k < 256" using assms mod_less_divisor [of n "length data"] by (auto simp: k_def)
  then have "last (PKCS7Pad data n) = char_of k" "PKCS7Pad data n = data @ replicate k (char_of k)"
    by (simp_all add: PKCS7Pad_def Let_def k_def [symmetric])
  then show "PKCS7Unpad (PKCS7Pad data n) = Some data"
    using k by (simp add: PKCS7Unpad_def Let_def byte_char_of)
  have "length (PKCS7Pad data n) = length data - length data mod n + n"
    using assms(1) mod_less_divisor [of n "length data"] mod_less_eq_dividend [of "length data" n]
    by (simp add: PKCS7Pad_def Let_def)
  then show "length (PKCS7Pad data n) mod n = 0" by (simp add: minus_mod_eq_mult_div)
qed

text \<open>
  C40. Decryption undoes encryption with the same key of 32 bytes, whatever the content and the
  initialisation vector.
\<close>

theorem aes_roundtrip:
  assumes "length key = 32" "length iv = 16" "block_cipher (E key) (D key)"
  shows "\<exists>text. AESEncrypt E (Inr iv) key content = Inr text \<and> AESDecrypt D key text = Some (Inr content)"
proof -
  let ?body = "CBCEncrypt (E key) iv (PKCS7Pad content 16)"
  have "CBCDecrypt (D key) iv ?body = PKCS7Pad content 16" "length ?body mod 16 = 0"
    using CBC_roundtrip [OF assms(3,2)] PKCS7_roundtrip(2) [of 16 content] by simp_all
  then show ?thesis
    using assms(1,2) PKCS7_roundtrip(1) [of 16 content] by (simp add: AESEncrypt_def AESDecrypt_def b64_roundtrip Let_def)
qed

theorem aes_roundtrip_witness:
  "\<exists>text. AESEncrypt (\<lambda>key. rev) (Inr (replicate 16 CHR ''v'')) (replicate 32 CHR ''k'') ''kubeconfig'' = Inr text \<and>
     AESDecrypt (\<lambda>key. rev) (replicate 32 CHR ''k'') text = Some (Inr ''kubeconfig'')"
  using aes_roundtrip [of "replicate 32 CHR ''k''" "replicate 16 CHR ''v''" "\<lambda>key. rev" "\<lambda>key. rev" "''kubeconfig''"]
  by (simp add: block_cipher_def)

text \<open>A text of sixteen bytes passes every check and leaves nothing to decrypt: reading its padding panics.\<close>

lemma iv_alone_panics:
  assumes "length key = 32" "length iv = 16"
  shows "AESDecrypt D key (b64_encode iv) = None"
  using assms by (simp add: AESDecrypt_def b64_roundtrip Let_def CBCDecrypt.simps PKCS7Unpad_def)

end
