(* ===== verification/Spec2Isabelle.thy ===== *)
theory Spec2Isabelle
  imports Flow_Outcomes Task_Polls Task_Builder OBCluster_Tasks OBZone_Tasks OBServer_Tasks OBBackupPolicy_Tasks OBClusterOperation Webhooks_Tenant
    Rescue Upgrade_Route Cluster_Checks OBZone_Ops Dashboard_Guards Crypto
begin

text \<open>
  Verification of ob-operator, the Kubernetes operator of the OceanBase database.

  \<^bold>\<open>The program.\<close> The operator reconciles custom resources (clusters, zones, servers, tenants,
  parameters, variables, backups, restores and operations) with the database and with Kubernetes
  objects. One reconcile of a resource is one call of \<^verbatim>\<open>Coordinate\<close> in
  \<^verbatim>\<open>pkg/coordinator/coordinator.go\<close> on the manager of its kind: a resource without a status is
  initialised; otherwise the manager gives a flow of tasks for the status, the coordinator moves
  the flow on by at most one task, handles failures by the rule of the flow, deals with
  finalizers, and lets the manager compare the resource with the outside (\<^verbatim>\<open>UpdateStatus\<close>),
  which sets the status the next flow depends on. Tasks run in a pool of goroutines
  (\<^verbatim>\<open>pkg/task/task_manager.go\<close>) and are polled in later reconciles. The operation context of a
  flow is shared through pointers between the resource and the flow, which the model keeps: the
  contexts live in a heap.

  \<^bold>\<open>The theories, from the bottom up.\<close>
  \<^item> \<open>Prelude\<close>, \<open>Go_Strings\<close>, \<open>Polling\<close>, \<open>Task_IO\<close>: errors as values, object metadata, the heap,
    the string functions of Go's library the code uses, waiting loops, and programs that interact
    with the outside. A program is a function of the log of interactions so far; the environment
    answers an interaction by looking at the whole log, so theorems about programs hold for
    outsides that change in any way while the program runs.
  \<^item> \<open>Task_Flow\<close>, \<open>Task_Manager\<close>, \<open>Task_Polls\<close>, \<open>Coordinator\<close>, \<open>Flow_Runs\<close>, \<open>Flow_Outcomes\<close>,
    \<open>Task_Builder\<close> (\<^verbatim>\<open>pkg/task\<close>, \<^verbatim>\<open>pkg/coordinator\<close>): flows, the task pool as a transition system
    of callers and workers, one reconcile, runs of flows, the task hub and the flow builder. A poll
    and a cleanup are programs of single map accesses and channel operations; \<open>Task_Polls\<close> interleaves
    them with everything else and shows that they act as if each were one step. The locale
    \<open>flow_manager\<close> is the contract between the coordinator and the managers; inside it,
    \<^verbatim>\<open>executeTaskFlow\<close> is proved to refine the abstract step \<open>spec_step\<close>, which, like \<open>failure_switch\<close>,
    is specification and has no counterpart in the code. \<open>Flow_Outcomes\<close> counts the reconciles of whole
    flows, as runs of \<^verbatim>\<open>executeTaskFlow\<close> between which everything but the context may change.
  \<^item> \<open>API_Types\<close>, \<open>Sample_Objects\<close>, \<open>Managers\<close> (\<^verbatim>\<open>api/v1alpha1\<close>, \<^verbatim>\<open>api/types\<close>): the resources
    as records and the code all managers share; the locale \<open>standard_manager\<close> extends the contract
    with the creation of flows and is interpreted for each manager.
  \<^item> \<open>OBCluster\<close>, \<open>OBZone\<close>, \<open>OBServer\<close>, \<open>OBCluster_Tasks\<close>, \<open>OBZone_Tasks\<close>,
    \<open>OBServer_Tasks\<close> (\<^verbatim>\<open>internal/resource/obcluster\<close>, \<^verbatim>\<open>obzone\<close>, \<^verbatim>\<open>observer\<close>): the managers of the cluster side
    with their status comparison, and tasks, with the pods, claims and services of a server.
  \<^item> \<open>Connections\<close>, \<open>Upgrade_Tasks\<close>, \<open>Cluster_Checks\<close>, \<open>OBZone_Ops\<close> (\<^verbatim>\<open>internal/resource/utils\<close>,
    \<^verbatim>\<open>pkg/database\<close>, the same task files): the pool of connections and the clients, jobs and upgrade
    scripts; upgrades zone by zone with the parameters saved and restored, checks before a cluster
    is made, and the replacement of servers.
  \<^item> \<open>Versions\<close>, \<open>Upgrade_Route\<close> (\<^verbatim>\<open>pkg/helper\<close>, \<^verbatim>\<open>pkg/oceanbase-sdk/model/version.go\<close>): parsing,
    printing and comparing versions, the upgrade graph as a heap of nodes, the route search.
  \<^item> \<open>SDK_Statements\<close>, \<open>SDK\<close> (\<^verbatim>\<open>pkg/oceanbase-sdk\<close>): the statements as strings, their assembly
    from parts, and the operations as programs over the log.
  \<^item> \<open>Tenant_Layout\<close>, \<open>OBTenant\<close>, \<open>OBTenant_Tasks\<close> (\<^verbatim>\<open>internal/resource/obtenant\<close>,
    \<^verbatim>\<open>pkg/helper/converter\<close>): printing and parsing of localities and primary zones, the tenant
    manager, and its tasks.
  \<^item> \<open>OBParameter\<close>, \<open>OBRestore\<close>, \<open>OBTenantOperation\<close>, \<open>OBBackup\<close>, \<open>OBBackupPolicy\<close>,
    \<open>OBBackupPolicy_Tasks\<close>, \<open>OBClusterOperation\<close>: the managers of the directories of these names
    (parameters together with tenant variables) and their tasks.
  \<^item> \<open>Admission\<close>, \<open>Webhooks_Cluster\<close>, \<open>Webhooks_Tenant\<close> (\<^verbatim>\<open>api/v1alpha1/*_webhook.go\<close>,
    \<^verbatim>\<open>helpers.go\<close>): the defaulting and validating webhooks. A validation is the list of its field
    errors; a resource is admitted when it is empty.
  \<^item> \<open>Rescue\<close> (\<^verbatim>\<open>internal/controller/obresourcerescue_controller.go\<close>): the repair of the stored
    state of another resource.

  \<^item> \<open>Http_Errors\<close>, \<open>Access_Control\<close>, \<open>Access_Laws\<close>, \<open>Access_Histories\<close>, \<open>Dashboard_Requests\<close>,
    \<open>Dashboard_Guards\<close>, \<open>Crypto\<close> (\<^verbatim>\<open>pkg/errors\<close>, \<^verbatim>\<open>internal/dashboard/business/ac\<close>, \<^verbatim>\<open>model/ac\<close>,
    \<^verbatim>\<open>middleware\<close>, the handlers of accounts and logins, \<^verbatim>\<open>pkg/crypto\<close>): who may do what in the dashboard.
    A program there takes the state of the process and of the world outside and returns a reply; the casbin
    enforcer is a parameter with the laws the code relies on.

  \<^bold>\<open>How the code is read.\<close> A field \<^verbatim>\<open>Spec.X\<close> or \<^verbatim>\<open>Status.X\<close> is a record field with the kind as
  prefix; a method \<^verbatim>\<open>(m *T) F\<close> is \<open>F\<close> or \<open>T_F\<close> with the resource as argument and as result when
  it is changed. An error is \<open>Inl\<close> of a sum or \<open>Err\<close> of an outcome, a panic is \<open>None\<close> or \<open>Panic\<close>.
  The API server, the database connection, the clock, cron expressions and time formats are
  parameters: functions in an environment record. Durations are 64-bit words. Logging, events
  and tracing are left out; \<^verbatim>\<open>RetryOnConflict\<close> around the update of a resource by its manager is
  one attempt, elsewhere it is modelled with its attempts (five, four with the default backoff).

  \<^bold>\<open>What is shown.\<close> The flow engine: tasks run in order, each result is delivered once it is there
  and never changes, the pool neither overflows nor deadlocks, a flow whose tasks succeed ends in
  its target status after three reconciles per task, one to start it and one for every poll that has to
  wait, a task that fails under \<^verbatim>\<open>RetryFromCurrent\<close> is retried as often as the limit allows (under
  \<^verbatim>\<open>StartOver\<close> the counter can be lost, and a parameter is tried forever). Managers: all refine the abstract flow; a running cluster or zone stays running exactly
  when it is as specified, and every other status leads back; finalizers are released only after
  the deletion flow. Tasks: the statements and API calls of topology changes, tenant creation and
  deletion, switchover, parameter maintenance, rolling restarts, the deletion of named servers,
  the removal of a server, pods that pass the checks of their manager, upgrades that take one zone
  at a time and put the saved parameters back, replacements that wait for the new server,
  backup scheduling and clean-up. Webhooks: what the managers rely on holds for whatever is
  admitted. Rescues: the coordinator goes on from the state they write. The dashboard: accounts and roles
  change only for users who may, an account that is created logs in with its password and no other, roles
  are replaced as a whole, reads of them never panic. Pure parts:
  round trips of localities and versions, order of versions, correctness and termination of the
  route search, placeholders of assembled statements, 64-bit bounds of delays and windows. Where
  the code does not do what it means to, a theorem says what it does instead.

  \<^bold>\<open>Bounds and fuel.\<close> Waiting loops with a limit take the number of rounds the code allows. Loops
  without a limit (\<^verbatim>\<open>StartBackup\<close>, \<^verbatim>\<open>ResumeBackup\<close>) take a number of polls and say whether they
  have ended. The route search is a partial function that is proved to end on every graph.

  \<^bold>\<open>Not modelled.\<close> The dashboard but its access control, the command line, telemetry and the process
  set-up: HTTP and terminal glue over the same resources. The mutexes of the dashboard's accounts: an
  operation runs as a whole. The controllers but the one of rescues: they fetch an object,
  build a manager and call \<^verbatim>\<open>Coordinate\<close>. Generated deep copies. The jobs of
  restores and optimisations of tenants, whose content only Kubernetes reads. The manifest lists every part with its status.
\<close>

section \<open>All managers under one specification\<close>

text \<open>
  C2. Every resource manager refines the flow specification. On a resource with a flow in
  progress, \<^verbatim>\<open>executeTaskFlow\<close> with the manager of a cluster, zone, server, tenant, parameter,
  variable, restore job, backup job, backup policy, tenant operation or cluster operation does not panic, and its
  effect on the status and the operation context is one step of the abstract flow, with the
  failure handling of that manager: the heap of shared contexts, the detaching of the context
  and the order in which handlers run are implementation detail.
\<close>

theorem managers_refine_flow_spec:
  "simulates_spec (OBClusterManager cenv) Ctx clusterstatus_Running ''Failed'' (\<lambda>_. failure_switch) \<and>
   simulates_spec (OBZoneManager zenv) Ctx zonestatus_Running ''Failed'' (failure_unless_deleted zonestatus_Deleting) \<and>
   simulates_spec (OBServerManager senv) Ctx serverstatus_Running ''Failed'' (failure_unless_deleted serverstatus_Deleting) \<and>
   simulates_spec (OBTenantManager tenv wl) Ctx tenantstatus_Running ''Failed''
     (failure_unless_deleted tenantstatus_DeletingTenant) \<and>
   simulates_spec (OBParameterManager penv) Ctx parameterstatus_Matched ''Failed'' (\<lambda>_. failure_switch) \<and>
   simulates_spec (OBTenantVariableManager venv) Ctx variablestatus_Matched ''Failed'' (\<lambda>_. failure_switch) \<and>
   simulates_spec (ObTenantRestoreManager renv) Ctx RestoreJobRunning ''Failed'' (failure_keeping_status restore_failure) \<and>
   simulates_spec (OBTenantBackupManager benv) Ctx BackupJobStatusRunning ''Failed'' (failure_keeping_status backup_failure) \<and>
   simulates_spec (ObTenantBackupPolicyManager bpenv) Ctx BackupPolicyStatusRunning ''Failed''
     (failure_keeping_status backup_failure) \<and>
   simulates_spec (ObTenantOperationManager oenv) Ctx TenantOpRunning ''Failed'' (failure_keeping_status (operation_failure TenantOpFailed)) \<and>
   simulates_spec (OBClusterOperationManager coenv) Ctx ClusterOpStatusRunning ''Failed''
     (failure_keeping_status (operation_failure ClusterOpStatusFailed))"
  by (intro conjI oc.fm.simulates oz.fm.simulates os.fm.simulates ot.fm.simulates op.fm.simulates ov.fm.simulates
      ore.fm.simulates ob.fm.simulates obp.fm.simulates oto.fm.simulates oco.fm.simulates)

end
